(* ===== verification/Prelude.thy ===== *)
theory Prelude
  imports Main "HOL-Library.Char_ord" "HOL-Library.List_Lexorder"
begin

text \<open>
  Shared vocabulary of the development: the JavaScript notions the sources use everywhere
  (truthiness of optional strings, safe integers, the character classes of the validation
  regular expressions), database tables as lists of rows with the operations of the Prisma
  client the handlers call (\<open>findFirst\<close>, \<open>updateMany\<close> with its row count, \<open>count\<close>), the result
  of a handler as a sum of an error and a value paired with the database it leaves, and the
  generic lemmas on these that every component proof uses.
\<close>

section \<open>Collections of facts\<close>

named_theorems table_simps \<open>equations of the table operations\<close>
named_theorems handler_defs \<open>definitions of handlers, unfolded by their own lemmas only\<close>

section \<open>Values of the source language\<close>

text \<open>
  A JavaScript \<open>Date\<close> is its number of milliseconds since the epoch; counters and versions are
  unbounded integers. \<open>Number.isSafeInteger\<close> on an integer is a range test.
\<close>

type_synonym ms = int

definition safe_integer :: "int \<Rightarrow> bool" where
  "safe_integer n \<longleftrightarrow> \<bar>n\<bar> \<le> 9007199254740991"

text \<open>An optional string is truthy when it is present and not empty.\<close>

fun truthy :: "string option \<Rightarrow> bool" where
  "truthy None = False"
| "truthy (Some s) = (s \<noteq> [])"

lemma truthy_iff: "truthy x \<longleftrightarrow> (\<exists>s. x = Some s \<and> s \<noteq> [])"
  by (cases x) auto

text \<open>\<open>xs.includes(x)\<close> on an array, and \<open>s.includes(t)\<close> on a string.\<close>

abbreviation (input) contains :: "'a list \<Rightarrow> 'a \<Rightarrow> bool" where
  "contains xs x \<equiv> x \<in> set xs"

text \<open>\<open>[...new Set(xs)]\<close>: the first occurrence of each element, in order.\<close>

definition unique :: "'a list \<Rightarrow> 'a list" where
  "unique xs = rev (remdups (rev xs))"

lemma unique_simps [simp]:
  "set (unique xs) = set xs" "distinct (unique xs)" "unique xs = [] \<longleftrightarrow> xs = []"
  by (simp_all add: unique_def)

fun starts_with :: "string \<Rightarrow> string \<Rightarrow> bool" where
  "starts_with [] s = True"
| "starts_with (c # cs) [] = False"
| "starts_with (c # cs) (d # ds) = (c = d \<and> starts_with cs ds)"

fun str_includes :: "string \<Rightarrow> string \<Rightarrow> bool" where
  "str_includes [] t = starts_with t []"
| "str_includes (c # cs) t = (starts_with t (c # cs) \<or> str_includes cs t)"

text \<open>
  JSON values. Numbers are integers or not finite (\<open>NaN\<close>, the infinities); \<open>JDate t\<close> is the ISO
  string \<open>toISOString\<close> prints for the instant \<open>t\<close>. Object entries keep their insertion order.
\<close>

datatype json =
    JNull
  | JBool bool
  | JNumber int
  | JNonFinite
  | JString string
  | JDate ms
  | JArray "json list"
  | JObject "(string \<times> json) list"

fun is_scalar :: "json \<Rightarrow> bool" where
  "is_scalar (JArray xs) = False"
| "is_scalar (JObject kvs) = False"
| "is_scalar v = True"

text \<open>\<open>x ?? null\<close> of an optional value, as JSON.\<close>

definition json_string :: "string option \<Rightarrow> json" where
  "json_string x = (case x of None \<Rightarrow> JNull | Some s \<Rightarrow> JString s)"

definition json_number :: "int option \<Rightarrow> json" where
  "json_number x = (case x of None \<Rightarrow> JNull | Some n \<Rightarrow> JNumber n)"

lemma json_string_eq [simp]: "json_string x = json_string y \<longleftrightarrow> x = y"
  and json_number_eq [simp]: "json_number m = json_number n \<longleftrightarrow> m = n"
  by (auto simp: json_string_def json_number_def split: option.splits)

text \<open>
  A column that may be null compared with a session field that may be undefined: \<open>null\<close> and
  \<open>undefined\<close> differ under \<open>!==\<close>, so they agree only on the same string.
\<close>

fun same_present :: "string option \<Rightarrow> string option \<Rightarrow> bool" where
  "same_present (Some a) (Some b) = (a = b)"
| "same_present _ _ = False"

lemma same_present_iff: "same_present x y \<longleftrightarrow> (\<exists>a. x = Some a \<and> y = Some a)"
  by (cases x; cases y) auto

section \<open>Character classes of the validation expressions\<close>

definition code :: "char \<Rightarrow> nat" where
  "code c = of_char c"

definition is_lower_case :: "char \<Rightarrow> bool" where
  "is_lower_case c \<longleftrightarrow> 97 \<le> code c \<and> code c \<le> 122"

definition is_upper_case :: "char \<Rightarrow> bool" where
  "is_upper_case c \<longleftrightarrow> 65 \<le> code c \<and> code c \<le> 90"

definition is_digit :: "char \<Rightarrow> bool" where
  "is_digit c \<longleftrightarrow> 48 \<le> code c \<and> code c \<le> 57"

definition is_alnum :: "char \<Rightarrow> bool" where
  "is_alnum c \<longleftrightarrow> is_lower_case c \<or> is_upper_case c \<or> is_digit c"

lemmas char_class_defs = code_def is_lower_case_def is_upper_case_def is_digit_def is_alnum_def

text \<open>
  Every validation expression of the modelled files has the shape
  \<open>^[first][rest]{lo,hi}$\<close>: a first character of one class and between \<open>lo\<close> and \<open>hi\<close> more of
  another.
\<close>

fun matches :: "(char \<Rightarrow> bool) \<Rightarrow> (char \<Rightarrow> bool) \<Rightarrow> nat \<Rightarrow> nat \<Rightarrow> string \<Rightarrow> bool" where
  "matches first rest lo hi [] = False"
| "matches first rest lo hi (c # cs) =
     (first c \<and> lo \<le> length cs \<and> length cs \<le> hi \<and> list_all rest cs)"

lemma matches_length:
  "matches first rest lo hi s \<Longrightarrow> Suc lo \<le> length s \<and> length s \<le> Suc hi"
  by (cases s) auto

lemma matches_chars:
  "matches first rest lo hi s \<Longrightarrow> c \<in> set s \<Longrightarrow> first c \<or> rest c"
  by (cases s) (auto simp: list_all_iff)

text \<open>\<open>SAFE_REFERENCE\<close> (\<open>^[a-zA-Z0-9][a-zA-Z0-9._:/-]{2,199}$\<close>) and \<open>SHA256\<close> (\<open>^[a-f0-9]{64}$\<close>).\<close>

definition SAFE_REFERENCE :: "string \<Rightarrow> bool" where
  "SAFE_REFERENCE = matches is_alnum (\<lambda>c. is_alnum c \<or> contains ''._:/-'' c) 2 199"

definition is_hex :: "char \<Rightarrow> bool" where
  "is_hex c \<longleftrightarrow> is_digit c \<or> 97 \<le> code c \<and> code c \<le> 102"

definition SHA256 :: "string \<Rightarrow> bool" where
  "SHA256 = matches is_hex is_hex 63 63"

text \<open>\<open>trim\<close> and \<open>toLowerCase\<close> on one-byte characters: the white space and the capital letters of
  the Latin-1 block.\<close>

definition is_space :: "char \<Rightarrow> bool" where
  "is_space c \<longleftrightarrow> code c \<in> {9, 10, 11, 12, 13, 32, 160}"

definition trim :: "string \<Rightarrow> string" where
  "trim s = rev (dropWhile is_space (rev (dropWhile is_space s)))"

definition lower_char :: "char \<Rightarrow> char" where
  "lower_char c =
     (if is_upper_case c \<or> 192 \<le> code c \<and> code c \<le> 222 \<and> code c \<noteq> 215
      then char_of (code c + 32) else c)"

definition to_lower :: "string \<Rightarrow> string" where
  "to_lower s = map lower_char s"

lemma to_lower_idem [simp]: "to_lower (to_lower s) = to_lower s"
proof -
  have "lower_char (lower_char c) = lower_char c" for c
  proof (cases "is_upper_case c \<or> 192 \<le> code c \<and> code c \<le> 222 \<and> code c \<noteq> 215")
    case True
    then have "code c + 32 < 256" by (auto simp: is_upper_case_def)
    then have "code (char_of (code c + 32)) = code c + 32" by (simp add: code_def)
    moreover have "lower_char c = char_of (code c + 32)" using True by (simp add: lower_char_def)
    ultimately have "code (lower_char c) = code c + 32" by simp
    with True have "\<not> (is_upper_case (lower_char c) \<or> 192 \<le> code (lower_char c) \<and>
        code (lower_char c) \<le> 222 \<and> code (lower_char c) \<noteq> 215)"
      by (auto simp: is_upper_case_def)
    then show ?thesis by (subst lower_char_def) (simp only: if_False)
  next
    case False
    then have "lower_char c = c" by (simp only: lower_char_def if_False)
    then show ?thesis by simp
  qed
  then show ?thesis by (simp add: to_lower_def)
qed

section \<open>Database tables\<close>

text \<open>
  A table is the list of its rows in insertion order. \<open>updateMany\<close> rewrites the rows that satisfy
  the condition; the client also gets their number.
\<close>

definition update_where :: "('r \<Rightarrow> bool) \<Rightarrow> ('r \<Rightarrow> 'r) \<Rightarrow> 'r list \<Rightarrow> 'r list" where
  "update_where p f rows = map (\<lambda>r. if p r then f r else r) rows"

definition count_where :: "('r \<Rightarrow> bool) \<Rightarrow> 'r list \<Rightarrow> nat" where
  "count_where p rows = length (filter p rows)"

lemma update_where_Nil [simp]: "update_where p f [] = []"
  and update_where_Cons [table_simps]:
    "update_where p f (r # rs) = (if p r then f r else r) # update_where p f rs"
  by (simp_all add: update_where_def)

lemma count_where_Nil [simp]: "count_where p [] = 0"
  and count_where_Cons [table_simps]:
    "count_where p (r # rs) = (if p r then Suc (count_where p rs) else count_where p rs)"
  and count_where_append [table_simps]:
    "count_where p (rs @ ss) = count_where p rs + count_where p ss"
  by (simp_all add: count_where_def)

lemma length_update_where [simp]: "length (update_where p f rows) = length rows"
  by (simp add: update_where_def)

lemma set_update_where:
  "set (update_where p f rows) = {r \<in> set rows. \<not> p r} \<union> f ` {r \<in> set rows. p r}"
  by (auto simp: update_where_def)

lemma in_update_whereE [consumes 1, case_names kept changed]:
  assumes "r \<in> set (update_where p f rows)"
  obtains (kept) "r \<in> set rows" "\<not> p r"
    | (changed) r' where "r' \<in> set rows" "p r'" "r = f r'"
  using assms by (auto simp: update_where_def split: if_splits)

lemma update_where_member:
  "r \<in> set rows \<Longrightarrow> (if p r then f r else r) \<in> set (update_where p f rows)"
  by (simp add: update_where_def)

lemma map_update_where:
  "(\<And>r. p r \<Longrightarrow> k (f r) = k r) \<Longrightarrow> map k (update_where p f rows) = map k rows"
  by (auto simp: update_where_def)

lemma count_where_0: "count_where p rows = 0 \<longleftrightarrow> (\<forall>r \<in> set rows. \<not> p r)"
  by (simp add: count_where_def filter_empty_conv)

lemma count_where_pos: "0 < count_where p rows \<longleftrightarrow> (\<exists>r \<in> set rows. p r)"
  using count_where_0 [of p rows] by auto

lemma count_where_update_same:
  "(\<And>r. r \<in> set rows \<Longrightarrow> p r \<Longrightarrow> q (f r) = q r) \<Longrightarrow>
     count_where q (update_where p f rows) = count_where q rows"
  by (induction rows) (auto simp: table_simps)

lemma update_where_none:
  "(\<And>r. r \<in> set rows \<Longrightarrow> \<not> p r) \<Longrightarrow> update_where p f rows = rows"
  by (induction rows) (auto simp: table_simps)

text \<open>Rows addressed by a key: at most one row of a table with distinct keys satisfies a condition
  that fixes the key.\<close>

lemma distinct_key_eq:
  "distinct (map k rows) \<Longrightarrow> r \<in> set rows \<Longrightarrow> s \<in> set rows \<Longrightarrow> k r = k s \<Longrightarrow> r = s"
  by (metis distinct_map inj_on_eq_iff)

lemma count_where_key_le:
  assumes "distinct (map k rows)" and "\<And>r. p r \<Longrightarrow> k r = a"
  shows "count_where p rows \<le> 1"
  using assms
proof (induction rows)
  case Nil
  then show ?case by simp
next
  case (Cons r rs)
  show ?case
  proof (cases "p r")
    case True
    with Cons.prems have "\<forall>s \<in> set rs. \<not> p s"
      by (metis distinct.simps(2) image_eqI list.set_map list.simps(9))
    then have "count_where p rs = 0" by (simp add: count_where_0)
    with True show ?thesis by (simp add: count_where_Cons)
  next
    case False
    with Cons show ?thesis by (simp add: count_where_Cons)
  qed
qed

lemma count_where_key_1:
  assumes "distinct (map k rows)" "r \<in> set rows" "p r" "\<And>s. p s \<Longrightarrow> k s = a"
  shows "count_where p rows = 1"
proof -
  have "0 < count_where p rows" using assms(2,3) by (auto simp: count_where_pos)
  moreover have "count_where p rows \<le> 1" using assms(1,4) by (rule count_where_key_le)
  ultimately show ?thesis by simp
qed

text \<open>\<open>findUnique\<close> and \<open>findFirst\<close>: the first row that satisfies the condition, or null.\<close>

lemma find_SomeD: "List.find p rows = Some r \<Longrightarrow> r \<in> set rows \<and> p r"
  by (auto simp: find_Some_iff)

lemma find_NoneD: "List.find p rows = None \<Longrightarrow> r \<in> set rows \<Longrightarrow> \<not> p r"
  by (auto simp: find_None_iff)

lemma find_key:
  assumes "distinct (map k rows)" "r \<in> set rows"
  shows "List.find (\<lambda>s. k s = k r) rows = Some r"
  using assms by (induction rows) auto

text \<open>Changing one row changes a count by at most that row.\<close>

lemma count_where_update_le:
  assumes "\<And>r. r \<in> set rows \<Longrightarrow> p r \<Longrightarrow> q (f r) \<Longrightarrow> q r"
  shows "count_where q (update_where p f rows) \<le> count_where q rows"
  using assms by (induction rows) (auto simp: table_simps le_SucI)

lemma count_where_update_ge:
  assumes "\<And>r. r \<in> set rows \<Longrightarrow> p r \<Longrightarrow> q r \<Longrightarrow> q (f r)"
  shows "count_where q rows \<le> count_where q (update_where p f rows)"
  using assms by (induction rows) (auto simp: table_simps le_SucI)

lemma count_where_update_loss:
  "count_where q rows \<le> count_where q (update_where p f rows) + count_where p rows"
  by (induction rows) (auto simp: table_simps)

lemma filter_update_where:
  "(\<And>r. r \<in> set rows \<Longrightarrow> p r \<Longrightarrow> \<not> q r \<and> \<not> q (f r)) \<Longrightarrow> filter q (update_where p f rows) = filter q rows"
  by (induction rows) (auto simp: table_simps)

lemma list_all2_update_where:
  assumes "\<And>r. R r r" and "\<And>r. r \<in> set rows \<Longrightarrow> p r \<Longrightarrow> R r (f r)"
  shows "list_all2 R rows (update_where p f rows)"
  using assms by (auto simp: update_where_def list_all2_map2 intro: list.rel_refl_strong)

section \<open>Handlers\<close>

text \<open>
  A handler maps the database to its outcome (\<open>Inl\<close> a thrown error, \<open>Inr\<close> the value returned)
  and the database it leaves. A transaction that throws leaves the database it started from.
\<close>

type_synonym ('e, 'a, 'db) handled = "('e + 'a) \<times> 'db"

definition in_transaction :: "('db \<Rightarrow> ('e, 'a, 'db) handled) \<Rightarrow> 'db \<Rightarrow> ('e, 'a, 'db) handled" where
  "in_transaction body db =
     (case body db of (Inl e, _) \<Rightarrow> (Inl e, db) | (Inr v, db') \<Rightarrow> (Inr v, db'))"

definition succeeds :: "('e, 'a, 'db) handled \<Rightarrow> bool" where
  "succeeds r \<longleftrightarrow> (\<exists>v. fst r = Inr v)"

lemma succeeds_simps [simp]: "\<not> succeeds (Inl e, db)" "succeeds (Inr v, db)"
  by (simp_all add: succeeds_def)

lemma succeedsE:
  assumes "succeeds h"
  obtains v db where "h = (Inr v, db)"
  using assms by (cases h) (auto simp: succeeds_def)

lemma in_transaction_Inl: "body db = (Inl e, db') \<Longrightarrow> in_transaction body db = (Inl e, db)"
  and in_transaction_Inr: "body db = (Inr v, db') \<Longrightarrow> in_transaction body db = (Inr v, db')"
  by (simp_all add: in_transaction_def)

lemma in_transaction_rollback:
  "fst (in_transaction body db) = Inl e \<Longrightarrow> snd (in_transaction body db) = db"
  by (auto simp: in_transaction_def split: prod.splits sum.splits)

text \<open>A transaction keeps a reflexive relation between databases if its committing runs do.\<close>

lemma in_transaction_keeps:
  assumes "R db db" and "\<And>v db'. body db = (Inr v, db') \<Longrightarrow> R db db'"
  shows "R db (snd (in_transaction body db))"
  using assms by (auto simp: in_transaction_def split: prod.splits sum.splits)

lemma in_transaction_InrD:
  "in_transaction body db = (Inr v, db') \<Longrightarrow> body db = (Inr v, db')"
  by (auto simp: in_transaction_def split: prod.splits sum.splits)

lemma in_transaction_InlD:
  "in_transaction body db = (Inl e, db') \<Longrightarrow> db' = db \<and> (\<exists>db1. body db = (Inl e, db1))"
  by (auto simp: in_transaction_def split: prod.splits sum.splits)

lemma in_transaction_cases:
  obtains (thrown) e where "in_transaction body db = (Inl e, db)"
    | (committed) v db' where "body db = (Inr v, db')" "in_transaction body db = (Inr v, db')"
  by (cases "body db"; cases "fst (body db)") (auto simp: in_transaction_def)

text \<open>
  A sequence of guards \<open>if (!c) throw e\<close>: the first that fails decides. \<open>demand c e\<close> is one guard.
\<close>

definition demand :: "bool \<Rightarrow> 'e \<Rightarrow> 'e option" where
  "demand c e = (if c then None else Some e)"

fun first_error :: "'e option list \<Rightarrow> 'e option" where
  "first_error [] = None"
| "first_error (Some e # es) = Some e"
| "first_error (None # es) = first_error es"

lemma demand_True [simp]: "demand True e = None"
  and demand_False [simp]: "demand False e = Some e"
  by (simp_all add: demand_def)

lemma demand_None [simp]: "demand c e = None \<longleftrightarrow> c"
  and demand_Some [simp]: "demand c e = Some e' \<longleftrightarrow> \<not> c \<and> e' = e"
  by (auto simp: demand_def)

lemma first_error_Cons_None [simp]:
  "first_error (x # xs) = None \<longleftrightarrow> x = None \<and> first_error xs = None"
  by (cases x) auto

lemma first_error_None_iff: "first_error xs = None \<longleftrightarrow> (\<forall>x \<in> set xs. x = None)"
  by (induction xs rule: first_error.induct) auto

section \<open>Tables seen as maps\<close>

text \<open>The rows of a table by their key, each through \<open>f\<close>; keys are distinct in what follows.\<close>

definition table_map :: "('r \<Rightarrow> 'k) \<Rightarrow> ('r \<Rightarrow> 'v) \<Rightarrow> 'r list \<Rightarrow> 'k \<Rightarrow> 'v option" where
  "table_map k f rows = map_of (map (\<lambda>r. (k r, f r)) rows)"

lemma table_map_Nil [simp]: "table_map k f [] = (\<lambda>_. None)"
  and table_map_Cons [simp]: "table_map k f (r # rs) = (table_map k f rs)(k r \<mapsto> f r)"
  by (auto simp: table_map_def)

lemma table_map_None: "table_map k f rows a = None \<longleftrightarrow> a \<notin> k ` set rows"
  by (induction rows) auto

lemma table_map_Some:
  "distinct (map k rows) \<Longrightarrow> r \<in> set rows \<Longrightarrow> table_map k f rows (k r) = Some (f r)"
  by (induction rows) (auto simp: image_iff)

lemma table_map_SomeD: "table_map k f rows a = Some v \<Longrightarrow> \<exists>r \<in> set rows. k r = a \<and> v = f r"
  by (induction rows) (auto split: if_splits)

lemma table_map_append:
  "k r \<notin> k ` set rows \<Longrightarrow> table_map k f (rows @ [r]) = (table_map k f rows)(k r \<mapsto> f r)"
  by (induction rows) auto

lemma table_map_update_where:
  assumes "distinct (map k rows)" "r \<in> set rows" "p r"
    and "\<And>s. s \<in> set rows \<Longrightarrow> p s \<Longrightarrow> k s = k r" "k (g r) = k r"
  shows "table_map k f (update_where p g rows) = (table_map k f rows)(k r \<mapsto> f (g r))"
  using assms
proof (induction rows)
  case Nil
  then show ?case by simp
next
  case (Cons s rs)
  show ?case
  proof (cases "s = r")
    case True
    have "\<not> p t" if "t \<in> set rs" for t
    proof
      assume "p t"
      with Cons.prems(4) [of t] that True have "k t = k s" by simp
      moreover have "k s \<notin> k ` set rs" using Cons.prems(1) by simp
      ultimately show False using that by (metis imageI)
    qed
    then have "update_where p g rs = rs" by (rule update_where_none)
    with True Cons.prems(3,5) show ?thesis by (auto simp: update_where_Cons fun_eq_iff)
  next
    case False
    with Cons.prems(2) have r: "r \<in> set rs" by simp
    then have ks: "k s \<noteq> k r" using Cons.prems(1) by (auto simp: image_iff)
    then have "\<not> p s" using Cons.prems(4) [of s] by auto
    moreover have "table_map k f (update_where p g rs) = (table_map k f rs)(k r \<mapsto> f (g r))"
    proof (rule Cons.IH)
      show "distinct (map k rs)" using Cons.prems(1) by simp
      show "k t = k r" if "t \<in> set rs" "p t" for t using Cons.prems(4) that by simp
    qed (use r Cons.prems(3,5) in simp_all)
    ultimately show ?thesis using ks by (auto simp: update_where_Cons fun_eq_iff)
  qed
qed

lemma table_map_nth_update:
  assumes "distinct (map k rows)" "i < length rows" "k r = k (rows ! i)"
  shows "table_map k f (rows[i := r]) = (table_map k f rows)(k r \<mapsto> f r)"
  using assms
proof (induction rows arbitrary: i)
  case Nil
  then show ?case by simp
next
  case (Cons s rs)
  show ?case
  proof (cases i)
    case 0
    with Cons.prems show ?thesis by (simp add: fun_eq_iff)
  next
    case (Suc n)
    with Cons.prems have "k s \<noteq> k r" by (auto simp: image_iff)
    moreover have "table_map k f (rs[n := r]) = (table_map k f rs)(k r \<mapsto> f r)"
      using Cons.prems Suc by (intro Cons.IH) auto
    ultimately show ?thesis using Suc by (auto simp: fun_eq_iff)
  qed
qed

lemma table_map_filter:
  "table_map k f (filter (\<lambda>r. k r \<noteq> a) rows) = (table_map k f rows)(a := None)"
  by (induction rows) (auto simp: fun_eq_iff)

lemma filter_key_single:
  "distinct (map k rows) \<Longrightarrow> r \<in> set rows \<Longrightarrow> (\<And>s. s \<in> set rows \<Longrightarrow> p s \<longleftrightarrow> s = r) \<Longrightarrow>
     filter (\<lambda>s. \<not> p s) rows = filter (\<lambda>s. k s \<noteq> k r) rows"
  by (rule filter_cong) (auto dest: distinct_key_eq)

lemma remove_nth_filter:
  assumes "distinct (map k rows)" "i < length rows"
  shows "take i rows @ drop (Suc i) rows = filter (\<lambda>r. k r \<noteq> k (rows ! i)) rows"
proof -
  let ?p = "\<lambda>r. k r \<noteq> k (rows ! i)"
  have eq: "take i rows @ rows ! i # drop (Suc i) rows = rows"
    using assms(2) by (rule id_take_nth_drop [symmetric])
  have "distinct (map k (take i rows @ rows ! i # drop (Suc i) rows))" using assms(1) by (simp only: eq)
  then have "?p r" if "r \<in> set (take i rows) \<union> set (drop (Suc i) rows)" for r
    using that by (auto simp: image_iff)
  then have "filter ?p (take i rows) = take i rows" "filter ?p (drop (Suc i) rows) = drop (Suc i) rows"
    by (simp_all add: filter_id_conv)
  moreover have "filter ?p rows = filter ?p (take i rows @ rows ! i # drop (Suc i) rows)"
    by (simp only: eq)
  ultimately show ?thesis by simp
qed

section \<open>Separated texts\<close>

lemma append_sep_inject:
  "sep \<notin> set a \<Longrightarrow> sep \<notin> set b \<Longrightarrow> a @ sep # s = b @ sep # t \<longleftrightarrow> a = b \<and> s = t"
proof (induction a arbitrary: b)
  case Nil
  then show ?case by (cases b) auto
next
  case (Cons x a)
  then show ?case by (cases b) auto
qed

end
