(* ===== verification/Sessions.thy ===== *)
theory Sessions
  imports Prelude
begin

text \<open>
  The server-side session every handler receives (\<open>lib/session.ts\<close>) and the step-up test on it
  (\<open>lib/governance-approval-policy.ts\<close>). Role fields whose runtime value the code re-checks
  against an allowlist are strings here, as they may hold anything at run time.
\<close>

section \<open>The session\<close>

datatype platform_role = CLIENT | ADMIN_PLATFORM

datatype organization_role = OWNER | ADMIN | MANAGER | MEMBER | VIEWER

datatype membership_status = ACTIVE | INVITED | SUSPENDED | REMOVED

record app_session =
  s_sessionId :: "string option"
  s_userId :: string
  s_name :: string
  s_company :: string
  s_companyId :: "string option"
  s_identityProviderId :: "string option"
  s_email :: string
  s_role :: platform_role
  s_platformRoles :: "string list option"
  s_organizationRole :: "string option"
  s_membershipStatus :: "membership_status option"
  s_membershipVersion :: "int option"
  s_mfaSatisfied :: "bool option"
  s_authenticationAt :: "ms option"
  s_expiresAt :: ms

text \<open>The allowlist \<open>organizationRoles\<close>, read as a parser of role names.\<close>

definition organization_role_of :: "string \<Rightarrow> organization_role option" where
  "organization_role_of s =
     (if s = ''OWNER'' then Some OWNER
      else if s = ''ADMIN'' then Some ADMIN
      else if s = ''MANAGER'' then Some MANAGER
      else if s = ''MEMBER'' then Some MEMBER
      else if s = ''VIEWER'' then Some VIEWER
      else None)"

fun organization_role_name :: "organization_role \<Rightarrow> string" where
  "organization_role_name OWNER = ''OWNER''"
| "organization_role_name ADMIN = ''ADMIN''"
| "organization_role_name MANAGER = ''MANAGER''"
| "organization_role_name MEMBER = ''MEMBER''"
| "organization_role_name VIEWER = ''VIEWER''"

lemma organization_role_of_name [simp]:
  "organization_role_of (organization_role_name r) = Some r"
  by (cases r) (simp_all add: organization_role_of_def)

lemma organization_role_of_SomeD:
  "organization_role_of s = Some r \<Longrightarrow> s = organization_role_name r"
  by (auto simp: organization_role_of_def split: if_splits)

section \<open>Step-up authentication\<close>

text \<open>
  \<open>approvalStepUpSatisfied\<close>: multi-factor authentication done, and an authentication instant in the
  past but no more than ten minutes old. A missing instant counts as 0.
\<close>

definition authenticationAt_or_0 :: "ms option \<Rightarrow> ms" where
  "authenticationAt_or_0 a = (case a of None \<Rightarrow> 0 | Some t \<Rightarrow> t)"

definition approvalStepUpSatisfied :: "bool option \<Rightarrow> ms option \<Rightarrow> ms \<Rightarrow> bool" where
  "approvalStepUpSatisfied mfaSatisfied authenticationAt now =
     (let authenticationAt = authenticationAt_or_0 authenticationAt in
      mfaSatisfied = Some True \<and>
      authenticationAt > 0 \<and>
      authenticationAt \<le> now \<and>
      now - authenticationAt \<le> 10 * 60000)"

definition stepUp :: "app_session \<Rightarrow> ms \<Rightarrow> bool" where
  "stepUp session now = approvalStepUpSatisfied (s_mfaSatisfied session) (s_authenticationAt session) now"

lemma stepUpD:
  assumes "stepUp session now"
  obtains t where "s_mfaSatisfied session = Some True" "s_authenticationAt session = Some t"
    "0 < t" "t \<le> now" "now - t \<le> 600000"
  using assms
  by (auto simp: stepUp_def approvalStepUpSatisfied_def authenticationAt_or_0_def Let_def
      split: option.splits)

text \<open>Step-up expires: it holds only on a window of ten minutes after the authentication.\<close>

lemma stepUp_window:
  "s_mfaSatisfied session = Some True \<Longrightarrow> s_authenticationAt session = Some t \<Longrightarrow> 0 < t \<Longrightarrow>
     stepUp session now \<longleftrightarrow> t \<le> now \<and> now \<le> t + 600000"
  by (auto simp: stepUp_def approvalStepUpSatisfied_def authenticationAt_or_0_def Let_def)

end
