(* ===== verification/ApprovalPolicy.thy ===== *)
theory ApprovalPolicy
  imports Sessions "HOL-Library.Multiset"
begin

text \<open>
  The registry of controlled actions (\<open>lib/governance-approval-policy.ts\<close>): which actions need a
  second person, their policies, and the fingerprint that binds an approval to its parameters. The
  hash (SHA-256 of the canonical JSON text) is the parameter \<open>digest\<close> of the definitions.
\<close>

section \<open>Registry\<close>

datatype governance_action =
    PLATFORM_OWNER_ASSIGN
  | PLATFORM_OWNER_REMOVE
  | ORGANIZATION_LAST_OWNER_TRANSFER
  | ORGANIZATION_REQUIRED_SSO_EMERGENCY_DISABLE
  | ORGANIZATION_BREAK_GLASS_DISABLE
  | IDENTITY_PROVIDER_DELETE
  | PLATFORM_AUDIT_EXPORT
  | ORGANIZATION_AUDIT_EXPORT
  | BULK_TENANT_EXPORT
  | KNOWLEDGE_VISIBILITY_PUBLIC
  | CROSS_TENANT_SUPPORT_DESTRUCTIVE_ACTION

fun action_name :: "governance_action \<Rightarrow> string" where
  "action_name PLATFORM_OWNER_ASSIGN = ''PLATFORM_OWNER_ASSIGN''"
| "action_name PLATFORM_OWNER_REMOVE = ''PLATFORM_OWNER_REMOVE''"
| "action_name ORGANIZATION_LAST_OWNER_TRANSFER = ''ORGANIZATION_LAST_OWNER_TRANSFER''"
| "action_name ORGANIZATION_REQUIRED_SSO_EMERGENCY_DISABLE =
     ''ORGANIZATION_REQUIRED_SSO_EMERGENCY_DISABLE''"
| "action_name ORGANIZATION_BREAK_GLASS_DISABLE = ''ORGANIZATION_BREAK_GLASS_DISABLE''"
| "action_name IDENTITY_PROVIDER_DELETE = ''IDENTITY_PROVIDER_DELETE''"
| "action_name PLATFORM_AUDIT_EXPORT = ''PLATFORM_AUDIT_EXPORT''"
| "action_name ORGANIZATION_AUDIT_EXPORT = ''ORGANIZATION_AUDIT_EXPORT''"
| "action_name BULK_TENANT_EXPORT = ''BULK_TENANT_EXPORT''"
| "action_name KNOWLEDGE_VISIBILITY_PUBLIC = ''KNOWLEDGE_VISIBILITY_PUBLIC''"
| "action_name CROSS_TENANT_SUPPORT_DESTRUCTIVE_ACTION =
     ''CROSS_TENANT_SUPPORT_DESTRUCTIVE_ACTION''"

definition GOVERNANCE_APPROVAL_ACTIONS :: "governance_action list" where
  "GOVERNANCE_APPROVAL_ACTIONS =
    [PLATFORM_OWNER_ASSIGN, PLATFORM_OWNER_REMOVE, ORGANIZATION_LAST_OWNER_TRANSFER,
     ORGANIZATION_REQUIRED_SSO_EMERGENCY_DISABLE, ORGANIZATION_BREAK_GLASS_DISABLE,
     IDENTITY_PROVIDER_DELETE, PLATFORM_AUDIT_EXPORT, ORGANIZATION_AUDIT_EXPORT,
     BULK_TENANT_EXPORT, KNOWLEDGE_VISIBILITY_PUBLIC, CROSS_TENANT_SUPPORT_DESTRUCTIVE_ACTION]"

definition CONNECTED_GOVERNANCE_APPROVAL_EXECUTORS :: "governance_action list" where
  "CONNECTED_GOVERNANCE_APPROVAL_EXECUTORS =
    [PLATFORM_OWNER_ASSIGN, PLATFORM_OWNER_REMOVE, PLATFORM_AUDIT_EXPORT,
     ORGANIZATION_AUDIT_EXPORT, KNOWLEDGE_VISIBILITY_PUBLIC,
     CROSS_TENANT_SUPPORT_DESTRUCTIVE_ACTION]"

definition governanceApprovalExecutorConnected :: "string \<Rightarrow> bool" where
  "governanceApprovalExecutorConnected actionType =
     contains (map action_name CONNECTED_GOVERNANCE_APPROVAL_EXECUTORS) actionType"

definition action_of :: "string \<Rightarrow> governance_action option" where
  "action_of s = List.find (\<lambda>a. action_name a = s) GOVERNANCE_APPROVAL_ACTIONS"

lemma action_of_SomeD: "action_of s = Some a \<Longrightarrow> s = action_name a"
  by (auto simp: action_of_def find_Some_iff)

lemma action_of_name [simp]: "action_of (action_name a) = Some a"
  by (cases a) (simp_all add: action_of_def GOVERNANCE_APPROVAL_ACTIONS_def)

datatype governance_scope = PLATFORM | ORGANIZATION

datatype notification_policy = PLATFORM_SECURITY | ORGANIZATION_SECURITY | BOTH

record governance_policy =
  gp_actionType :: governance_action
  gp_scope :: governance_scope
  gp_approvalRequired :: bool
  gp_requiredApproverPermission :: string
  gp_minimumApprovals :: nat
  gp_requesterMayApprove :: bool
  gp_ttlSeconds :: int
  gp_mfaRequired :: bool
  gp_recentAuthenticationRequired :: bool
  gp_confirmationPhrase :: string
  gp_notificationPolicy :: notification_policy
  gp_safeParameterKeys :: "string list"

definition policy ::
  "governance_action \<Rightarrow> governance_scope \<Rightarrow> string \<Rightarrow> string \<Rightarrow> notification_policy \<Rightarrow> string list \<Rightarrow>
     governance_policy" where
  "policy actionType scope permission phrase notify keys =
     \<lparr>gp_actionType = actionType, gp_scope = scope, gp_approvalRequired = True,
      gp_requiredApproverPermission = permission, gp_minimumApprovals = 1,
      gp_requesterMayApprove = False, gp_ttlSeconds = 10 * 60, gp_mfaRequired = True,
      gp_recentAuthenticationRequired = True, gp_confirmationPhrase = phrase,
      gp_notificationPolicy = notify, gp_safeParameterKeys = keys\<rparr>"

fun GOVERNANCE_APPROVAL_POLICIES :: "governance_action \<Rightarrow> governance_policy" where
  "GOVERNANCE_APPROVAL_POLICIES PLATFORM_OWNER_ASSIGN =
     policy PLATFORM_OWNER_ASSIGN PLATFORM ''platform.roles.manage'' ''ASSIGN PLATFORM OWNER''
       PLATFORM_SECURITY [''targetUserId'', ''assignmentVersion'']"
| "GOVERNANCE_APPROVAL_POLICIES PLATFORM_OWNER_REMOVE =
     policy PLATFORM_OWNER_REMOVE PLATFORM ''platform.roles.manage'' ''REMOVE PLATFORM OWNER''
       PLATFORM_SECURITY [''targetUserId'', ''assignmentVersion'']"
| "GOVERNANCE_APPROVAL_POLICIES ORGANIZATION_LAST_OWNER_TRANSFER =
     policy ORGANIZATION_LAST_OWNER_TRANSFER ORGANIZATION ''members.role.manage''
       ''TRANSFER LAST OWNER'' ORGANIZATION_SECURITY [''sourceMembershipId'', ''targetMembershipId'']"
| "GOVERNANCE_APPROVAL_POLICIES ORGANIZATION_REQUIRED_SSO_EMERGENCY_DISABLE =
     policy ORGANIZATION_REQUIRED_SSO_EMERGENCY_DISABLE ORGANIZATION ''identity.policy.manage''
       ''EMERGENCY DISABLE SSO'' BOTH [''policyVersion'']"
| "GOVERNANCE_APPROVAL_POLICIES ORGANIZATION_BREAK_GLASS_DISABLE =
     policy ORGANIZATION_BREAK_GLASS_DISABLE ORGANIZATION ''organization.security.manage''
       ''DISABLE BREAK GLASS'' BOTH [''policyVersion'']"
| "GOVERNANCE_APPROVAL_POLICIES IDENTITY_PROVIDER_DELETE =
     policy IDENTITY_PROVIDER_DELETE ORGANIZATION ''identity.providers.manage''
       ''DELETE IDENTITY PROVIDER'' ORGANIZATION_SECURITY [''providerId'', ''configurationVersion'']"
| "GOVERNANCE_APPROVAL_POLICIES PLATFORM_AUDIT_EXPORT =
     policy PLATFORM_AUDIT_EXPORT PLATFORM ''platform.audit.export'' ''EXPORT PLATFORM AUDIT''
       PLATFORM_SECURITY [''from'', ''to'', ''format'']"
| "GOVERNANCE_APPROVAL_POLICIES ORGANIZATION_AUDIT_EXPORT =
     policy ORGANIZATION_AUDIT_EXPORT ORGANIZATION ''organization.export''
       ''EXPORT ORGANIZATION AUDIT'' ORGANIZATION_SECURITY [''from'', ''to'', ''format'']"
| "GOVERNANCE_APPROVAL_POLICIES BULK_TENANT_EXPORT =
     policy BULK_TENANT_EXPORT ORGANIZATION ''organization.export'' ''EXPORT TENANT DATA''
       BOTH [''exportKind'', ''format'']"
| "GOVERNANCE_APPROVAL_POLICIES KNOWLEDGE_VISIBILITY_PUBLIC =
     policy KNOWLEDGE_VISIBILITY_PUBLIC ORGANIZATION ''knowledge.visibility.manage''
       ''PUBLISH ORGANIZATION KNOWLEDGE'' BOTH [''articleId'', ''articleVersion'']"
| "GOVERNANCE_APPROVAL_POLICIES CROSS_TENANT_SUPPORT_DESTRUCTIVE_ACTION =
     policy CROSS_TENANT_SUPPORT_DESTRUCTIVE_ACTION PLATFORM ''platform.security.manage''
       ''EXECUTE SUPPORT ACTION'' BOTH
       [''supportSessionId'', ''operation'', ''resourceId'', ''resourceVersion'']"

definition getGovernanceApprovalPolicy :: "string \<Rightarrow> governance_policy option" where
  "getGovernanceApprovalPolicy actionType = map_option GOVERNANCE_APPROVAL_POLICIES (action_of actionType)"

text \<open>What every policy of the registry has in common.\<close>

lemma registry_uniform:
  assumes "getGovernanceApprovalPolicy actionType = Some p"
  shows "gp_minimumApprovals p = 1" "\<not> gp_requesterMayApprove p" "gp_ttlSeconds p = 600"
    and "action_name (gp_actionType p) = actionType" "distinct (gp_safeParameterKeys p)"
proof -
  from assms obtain a where "actionType = action_name a" "p = GOVERNANCE_APPROVAL_POLICIES a"
    by (auto simp: getGovernanceApprovalPolicy_def dest: action_of_SomeD)
  then show "gp_minimumApprovals p = 1" "\<not> gp_requesterMayApprove p" "gp_ttlSeconds p = 600"
    "action_name (gp_actionType p) = actionType" "distinct (gp_safeParameterKeys p)"
    by (cases a; simp add: policy_def)+
qed

section \<open>Fingerprint\<close>

datatype approval_error =
    UNKNOWN_APPROVAL_ACTION
  | UNSAFE_APPROVAL_PARAMETER
  | APPROVAL_ORGANIZATION_REQUIRED
  | APPROVAL_PAYLOAD_INVALID
  | APPROVAL_STEP_UP_REQUIRED
  | APPROVAL_CONFIRMATION_REQUIRED
  | APPROVAL_SCOPE_MISMATCH
  | APPROVAL_DATABASE_UNAVAILABLE
  | APPROVER_PERMISSION_DENIED
  | APPROVAL_EXPIRED
  | APPROVAL_NOT_FOUND
  | SELF_APPROVAL_DENIED
  | APPROVAL_NOT_REQUESTED
  | APPROVAL_CANCELLATION_DENIED
  | EXECUTION_PERMISSION_DENIED
  | EXECUTION_REQUESTER_MISMATCH
  | APPROVAL_NOT_APPROVED
  | APPROVAL_DECISIONS_INVALID
  | RESOURCE_VERSION_CHANGED
  | APPROVAL_PAYLOAD_CHANGED
  | APPROVAL_REPLAY_DENIED
  | APPROVAL_TARGET_CHANGED
  | UNIQUE_CONSTRAINT_VIOLATION
  | PLATFORM_ROLE_INVALID
  | PLATFORM_ROLE_STEP_UP_REQUIRED
  | PLATFORM_ROLE_CONFIRMATION_REQUIRED
  | PLATFORM_ROLE_DATABASE_UNAVAILABLE
  | PLATFORM_ROLE_TARGET_INACTIVE
  | PLATFORM_ROLE_VERSION_CHANGED
  | PLATFORM_ROLE_ASSIGNMENT_NOT_FOUND
  | LAST_PLATFORM_OWNER_PROTECTED
  | RECORD_NOT_FOUND

type_synonym safe_parameters = "(string \<times> json) list"

text \<open>
  The code sorts the entries with \<open>localeCompare\<close>. A fingerprint is taken only on the registered keys,
  ASCII identifiers on which that order is the lexicographic one.
\<close>

definition canonicalObject :: "safe_parameters \<Rightarrow> safe_parameters" where
  "canonicalObject value = sort_key fst value"

definition canonical_payload ::
  "string \<Rightarrow> governance_scope \<Rightarrow> string option \<Rightarrow> string option \<Rightarrow> int option \<Rightarrow> safe_parameters \<Rightarrow>
     string \<Rightarrow> ms \<Rightarrow> json" where
  "canonical_payload actionType scope companyId resourceId expectedVersion safeParameters requesterId
     expiresAt =
     JObject
       [(''actionType'', JString actionType),
        (''scope'', JString (case scope of PLATFORM \<Rightarrow> ''PLATFORM'' | ORGANIZATION \<Rightarrow> ''ORGANIZATION'')),
        (''companyId'', json_string companyId),
        (''resourceId'', json_string resourceId),
        (''expectedVersion'', json_number expectedVersion),
        (''safeParameters'', JObject (canonicalObject safeParameters)),
        (''requesterId'', JString requesterId),
        (''expiresAt'', JDate expiresAt)]"

definition governanceApprovalFingerprint ::
  "(json \<Rightarrow> string) \<Rightarrow> string \<Rightarrow> governance_scope \<Rightarrow> string option \<Rightarrow> string option \<Rightarrow> int option \<Rightarrow>
     safe_parameters \<Rightarrow> string \<Rightarrow> ms \<Rightarrow> approval_error + string" where
  "governanceApprovalFingerprint digest actionType scope companyId resourceId expectedVersion
     safeParameters requesterId expiresAt =
     (case getGovernanceApprovalPolicy actionType of
        None \<Rightarrow> Inl UNKNOWN_APPROVAL_ACTION
      | Some approvalPolicy \<Rightarrow>
          if gp_scope approvalPolicy \<noteq> scope then Inl UNKNOWN_APPROVAL_ACTION
          else
            let allowed = gp_safeParameterKeys approvalPolicy;
                providedKeys = map fst safeParameters in
            if length providedKeys \<noteq> length allowed \<or> list_ex (\<lambda>key. \<not> contains allowed key) providedKeys
            then Inl UNSAFE_APPROVAL_PARAMETER
            else if scope = ORGANIZATION \<and> \<not> truthy companyId
            then Inl APPROVAL_ORGANIZATION_REQUIRED
            else Inr (digest (canonical_payload actionType scope companyId resourceId
                                expectedVersion safeParameters requesterId expiresAt)))"

lemma fingerprint_InrD:
  assumes "governanceApprovalFingerprint digest actionType scope companyId resourceId expectedVersion
             safeParameters requesterId expiresAt = Inr h"
  obtains p where "getGovernanceApprovalPolicy actionType = Some p" "gp_scope p = scope"
    "length safeParameters = length (gp_safeParameterKeys p)"
    "set (map fst safeParameters) \<subseteq> set (gp_safeParameterKeys p)"
    "scope = ORGANIZATION \<Longrightarrow> truthy companyId"
    "h = digest (canonical_payload actionType scope companyId resourceId expectedVersion
                   safeParameters requesterId expiresAt)"
  using assms
  by (auto simp: governanceApprovalFingerprint_def Let_def list_ex_iff split: option.splits if_splits)

text \<open>Entries of a JavaScript object have distinct keys, so the right number of allowed keys is exactly
  the registered key set.\<close>

lemma fingerprint_exact_keys:
  assumes "governanceApprovalFingerprint digest actionType scope companyId resourceId expectedVersion
             safeParameters requesterId expiresAt = Inr h"
    and "distinct (map fst safeParameters)"
    and "getGovernanceApprovalPolicy actionType = Some p"
  shows "set (map fst safeParameters) = set (gp_safeParameterKeys p)"
proof -
  from assms(1,3) have len: "length (map fst safeParameters) = length (gp_safeParameterKeys p)"
    and sub: "set (map fst safeParameters) \<subseteq> set (gp_safeParameterKeys p)"
    by (auto simp only: length_map option.inject elim!: fingerprint_InrD)
  have "card (set (gp_safeParameterKeys p)) \<le> length (gp_safeParameterKeys p)"
    by (rule card_length)
  also have "\<dots> = card (set (map fst safeParameters))"
    using assms(2) len by (metis distinct_card)
  finally show ?thesis using sub by (meson card_seteq finite_set)
qed

lemma canonical_permutation:
  assumes "mset xs = mset ys" "distinct (map fst ys)"
  shows "canonicalObject xs = canonicalObject ys"
proof -
  have "inj_on fst (set xs)"
    using assms by (metis distinct_map mset_eq_setD)
  moreover have "mset xs = mset (sort_key fst ys)" using assms(1) by simp
  moreover have "sorted (map fst (sort_key fst ys))" by simp
  ultimately show ?thesis
    unfolding canonicalObject_def by (intro sort_key_inj_key_eq)
qed

lemma canonical_payload_inj:
  "canonical_payload a s c r v ps u t = canonical_payload a' s' c' r' v' ps' u' t' \<Longrightarrow>
     a = a' \<and> s = s' \<and> c = c' \<and> r = r' \<and> v = v' \<and> mset ps = mset ps' \<and> u = u' \<and> t = t'"
  by (auto simp: canonical_payload_def canonicalObject_def split: governance_scope.splits
      dest: arg_cong [where f = mset])

end
