(* ===== verification/PlatformPermissions.thy ===== *)
theory PlatformPermissions
  imports Sessions
begin

text \<open>
  Platform permissions (\<open>lib/platform-permissions.ts\<close>): the vocabulary, the fixed matrix of
  platform roles, and the decision function, which also checks the stored role assignment and, for
  support permissions, a live support session for the tenant in question.
\<close>

section \<open>Vocabulary and matrix\<close>

definition PLATFORM_PERMISSIONS :: "string list" where
  "PLATFORM_PERMISSIONS =
    [''platform.view'', ''platform.configure'', ''platform.security.manage'',
     ''platform.roles.manage'', ''platform.audit.view'', ''platform.audit.export'',
     ''platform.support.access'', ''platform.operations.manage'', ''platform.integrations.manage'',
     ''platform.providers.manage'', ''platform.support.session.start'',
     ''platform.support.session.end'', ''platform.support.organization.view'',
     ''platform.support.resource.view'', ''platform.support.action.execute'',
     ''platform.documents.operations'', ''platform.jobs.view'', ''platform.jobs.retry'',
     ''platform.jobs.cancel'', ''platform.health.view'', ''platform.backup.evidence.view'',
     ''platform.knowledge.view'', ''platform.knowledge.manage'', ''platform.knowledge.publish'',
     ''platform.knowledge.visibility.manage'']"

datatype platform_system_role =
    PLATFORM_OWNER
  | PLATFORM_ADMIN
  | PLATFORM_SUPPORT
  | PLATFORM_AUDITOR
  | PLATFORM_OPERATOR

definition platform_role_of :: "string \<Rightarrow> platform_system_role option" where
  "platform_role_of s =
     (if s = ''PLATFORM_OWNER'' then Some PLATFORM_OWNER
      else if s = ''PLATFORM_ADMIN'' then Some PLATFORM_ADMIN
      else if s = ''PLATFORM_SUPPORT'' then Some PLATFORM_SUPPORT
      else if s = ''PLATFORM_AUDITOR'' then Some PLATFORM_AUDITOR
      else if s = ''PLATFORM_OPERATOR'' then Some PLATFORM_OPERATOR
      else None)"

fun platform_role_name :: "platform_system_role \<Rightarrow> string" where
  "platform_role_name PLATFORM_OWNER = ''PLATFORM_OWNER''"
| "platform_role_name PLATFORM_ADMIN = ''PLATFORM_ADMIN''"
| "platform_role_name PLATFORM_SUPPORT = ''PLATFORM_SUPPORT''"
| "platform_role_name PLATFORM_AUDITOR = ''PLATFORM_AUDITOR''"
| "platform_role_name PLATFORM_OPERATOR = ''PLATFORM_OPERATOR''"

lemma platform_role_of_name [simp]: "platform_role_of (platform_role_name r) = Some r"
  by (cases r) (simp_all add: platform_role_of_def)

lemma platform_role_of_SomeD: "platform_role_of s = Some r \<Longrightarrow> s = platform_role_name r"
  by (auto simp: platform_role_of_def split: if_splits)

fun PLATFORM_ROLE_PERMISSIONS :: "platform_system_role \<Rightarrow> string list" where
  "PLATFORM_ROLE_PERMISSIONS PLATFORM_OWNER = PLATFORM_PERMISSIONS"
| "PLATFORM_ROLE_PERMISSIONS PLATFORM_ADMIN =
    [''platform.view'', ''platform.configure'', ''platform.security.manage'',
     ''platform.roles.manage'', ''platform.audit.view'', ''platform.audit.export'',
     ''platform.support.access'', ''platform.operations.manage'', ''platform.integrations.manage'',
     ''platform.providers.manage'', ''platform.support.session.start'',
     ''platform.support.session.end'', ''platform.support.organization.view'',
     ''platform.support.resource.view'', ''platform.support.action.execute'',
     ''platform.documents.operations'', ''platform.jobs.view'', ''platform.jobs.retry'',
     ''platform.jobs.cancel'', ''platform.health.view'', ''platform.backup.evidence.view'',
     ''platform.knowledge.view'', ''platform.knowledge.manage'', ''platform.knowledge.publish'',
     ''platform.knowledge.visibility.manage'']"
| "PLATFORM_ROLE_PERMISSIONS PLATFORM_SUPPORT =
    [''platform.view'', ''platform.support.access'', ''platform.support.session.start'',
     ''platform.support.session.end'', ''platform.support.organization.view'',
     ''platform.support.resource.view'', ''platform.support.action.execute'']"
| "PLATFORM_ROLE_PERMISSIONS PLATFORM_AUDITOR =
    [''platform.view'', ''platform.audit.view'', ''platform.audit.export'',
     ''platform.health.view'', ''platform.backup.evidence.view'', ''platform.knowledge.view'']"
| "PLATFORM_ROLE_PERMISSIONS PLATFORM_OPERATOR =
    [''platform.view'', ''platform.operations.manage'', ''platform.documents.operations'',
     ''platform.jobs.view'', ''platform.jobs.retry'', ''platform.jobs.cancel'',
     ''platform.health.view'']"

definition permissionsForPlatformRole :: "platform_system_role \<Rightarrow> string list" where
  "permissionsForPlatformRole role = PLATFORM_ROLE_PERMISSIONS role"

definition supportPermissions :: "string list" where
  "supportPermissions =
    [''platform.support.organization.view'', ''platform.support.resource.view'',
     ''platform.support.action.execute'']"

section \<open>Contexts and decision\<close>

record platform_assignment_context =
  pac_id :: string
  pac_userId :: string
  pac_role :: string
  pac_active :: bool
  pac_disabledAt :: "ms option"
  pac_version :: int

record support_session_context =
  ssc_id :: string
  ssc_actorId :: string
  ssc_companyId :: string
  ssc_allowedScopes :: "string list"
  ssc_expiresAt :: ms
  ssc_endedAt :: "ms option"

record operational_context =
  oc_targetType :: "string option"
  oc_targetId :: "string option"
  oc_companyId :: "string option"
  oc_requireSupportSession :: bool

datatype platform_reason =
    PLATFORM_ALLOWED
  | PLATFORM_AUTHENTICATION_REQUIRED
  | ASSIGNMENT_REQUIRED
  | ASSIGNMENT_INACTIVE
  | ASSIGNMENT_ACTOR_MISMATCH
  | PLATFORM_UNKNOWN_ROLE
  | PLATFORM_UNKNOWN_PERMISSION
  | PLATFORM_PERMISSION_DENIED
  | OPERATIONAL_CONTEXT_REQUIRED
  | SUPPORT_SESSION_REQUIRED
  | SUPPORT_SESSION_INVALID
  | SUPPORT_SCOPE_DENIED

record platform_decision =
  pd_allowed :: bool
  pd_reasonCode :: platform_reason
  pd_permission :: string
  pd_actorId :: "string option"
  pd_assignmentId :: "string option"
  pd_role :: "platform_system_role option"
  pd_targetType :: string
  pd_targetId :: "string option"
  pd_companyId :: "string option"
  pd_supportSessionId :: "string option"

definition platform_base ::
  "app_session option \<Rightarrow> platform_assignment_context option \<Rightarrow> string \<Rightarrow> operational_context \<Rightarrow>
     support_session_context option \<Rightarrow> platform_decision" where
  "platform_base session assignment permission context support =
     \<lparr>pd_allowed = False, pd_reasonCode = PLATFORM_AUTHENTICATION_REQUIRED,
      pd_permission = permission,
      pd_actorId = map_option s_userId session,
      pd_assignmentId = map_option pac_id assignment,
      pd_role = None,
      pd_targetType = (case oc_targetType context of None \<Rightarrow> ''platform'' | Some t \<Rightarrow> t),
      pd_targetId = oc_targetId context,
      pd_companyId = oc_companyId context,
      pd_supportSessionId = map_option ssc_id support\<rparr>"

text \<open>The support-session part of the decision: \<open>None\<close> when it raises no objection.\<close>

definition support_objection ::
  "app_session \<Rightarrow> string \<Rightarrow> operational_context \<Rightarrow> support_session_context option \<Rightarrow> ms \<Rightarrow>
     platform_reason option" where
  "support_objection session permission context support now =
     (if contains supportPermissions permission \<or> oc_requireSupportSession context then
        if \<not> truthy (oc_companyId context) then Some OPERATIONAL_CONTEXT_REQUIRED
        else
          case support of
            None \<Rightarrow> Some SUPPORT_SESSION_REQUIRED
          | Some support \<Rightarrow>
              if ssc_actorId support \<noteq> s_userId session \<or>
                 Some (ssc_companyId support) \<noteq> oc_companyId context \<or>
                 ssc_endedAt support \<noteq> None \<or>
                 ssc_expiresAt support \<le> now
              then Some SUPPORT_SESSION_INVALID
              else if \<not> contains (ssc_allowedScopes support) permission
              then Some SUPPORT_SCOPE_DENIED
              else None
      else None)"

definition evaluatePlatformPermission ::
  "app_session option \<Rightarrow> platform_assignment_context option \<Rightarrow> string \<Rightarrow> operational_context \<Rightarrow>
     support_session_context option \<Rightarrow> ms \<Rightarrow> platform_decision" where
  "evaluatePlatformPermission session assignment permission context support now =
     (let base = platform_base session assignment permission context support;
          deny = (\<lambda>d reason. d\<lparr>pd_allowed := False, pd_reasonCode := reason\<rparr>) in
      case session of
        None \<Rightarrow> deny base PLATFORM_AUTHENTICATION_REQUIRED
      | Some session \<Rightarrow>
          if \<not> contains PLATFORM_PERMISSIONS permission then deny base PLATFORM_UNKNOWN_PERMISSION
          else
            case assignment of
              None \<Rightarrow> deny base ASSIGNMENT_REQUIRED
            | Some assignment \<Rightarrow>
                if pac_userId assignment \<noteq> s_userId session then deny base ASSIGNMENT_ACTOR_MISMATCH
                else if \<not> pac_active assignment \<or> pac_disabledAt assignment \<noteq> None
                then deny base ASSIGNMENT_INACTIVE
                else
                  case platform_role_of (pac_role assignment) of
                    None \<Rightarrow> deny base PLATFORM_UNKNOWN_ROLE
                  | Some role \<Rightarrow>
                      let decisionBase = base\<lparr>pd_role := Some role\<rparr> in
                      if \<not> contains (PLATFORM_ROLE_PERMISSIONS role) permission
                      then deny decisionBase PLATFORM_PERMISSION_DENIED
                      else
                        case support_objection session permission context support now of
                          Some reason \<Rightarrow> deny decisionBase reason
                        | None \<Rightarrow>
                            decisionBase\<lparr>pd_allowed := True, pd_reasonCode := PLATFORM_ALLOWED\<rparr>)"

definition empty_context :: operational_context where
  "empty_context =
     \<lparr>oc_targetType = None, oc_targetId = None, oc_companyId = None, oc_requireSupportSession = False\<rparr>"

definition sessionHasPlatformPermission :: "app_session option \<Rightarrow> string \<Rightarrow> ms \<Rightarrow> bool" where
  "sessionHasPlatformPermission session permission now =
     (case session of
        None \<Rightarrow> False
      | Some s \<Rightarrow>
          (case s_platformRoles s of
             None \<Rightarrow> False
           | Some roles \<Rightarrow>
               list_ex (\<lambda>role.
                 pd_allowed (evaluatePlatformPermission session
                   (Some \<lparr>pac_id = ''session:'' @ role, pac_userId = s_userId s, pac_role = role,
                          pac_active = True, pac_disabledAt = None, pac_version = 1\<rparr>)
                   permission empty_context None now)) roles))"

section \<open>Lemmas\<close>

lemmas platform_decision_defs = evaluatePlatformPermission_def platform_base_def Let_def

lemma support_objection_not_allowed:
  "support_objection session permission context support now \<noteq> Some PLATFORM_ALLOWED"
  by (simp add: support_objection_def split: option.split)

lemma platform_reason_allowed:
  "pd_reasonCode (evaluatePlatformPermission session assignment permission context support now) =
     PLATFORM_ALLOWED \<longleftrightarrow>
   pd_allowed (evaluatePlatformPermission session assignment permission context support now)"
proof (cases session)
  case None
  then show ?thesis by (simp add: platform_decision_defs)
next
  case (Some s)
  note session = this
  show ?thesis
  proof (cases assignment)
    case None
    with session show ?thesis by (simp add: platform_decision_defs)
  next
    case (Some a)
    with session show ?thesis
      using support_objection_not_allowed [of s permission "context" support now]
      by (cases "platform_role_of (pac_role a)";
          cases "support_objection s permission context support now")
        (simp_all add: platform_decision_defs)
  qed
qed

lemma platform_allowed_iff:
  "pd_allowed (evaluatePlatformPermission (Some s) (Some a) permission context support now) \<longleftrightarrow>
     contains PLATFORM_PERMISSIONS permission \<and> pac_userId a = s_userId s \<and> pac_active a \<and>
     pac_disabledAt a = None \<and>
     (\<exists>role. platform_role_of (pac_role a) = Some role \<and>
        contains (PLATFORM_ROLE_PERMISSIONS role) permission) \<and>
     support_objection s permission context support now = None"
  by (auto simp: platform_decision_defs split: option.splits)

lemma platform_allowed_present:
  "pd_allowed (evaluatePlatformPermission session assignment permission context support now) \<Longrightarrow>
     \<exists>s a. session = Some s \<and> assignment = Some a"
  by (auto simp: platform_decision_defs split: option.splits if_splits)

lemma no_support_objection:
  "support_objection s permission context support now = None \<longleftrightarrow>
     (\<not> contains supportPermissions permission \<and> \<not> oc_requireSupportSession context) \<or>
     (\<exists>u. support = Some u \<and> truthy (oc_companyId context) \<and>
        ssc_actorId u = s_userId s \<and> oc_companyId context = Some (ssc_companyId u) \<and>
        ssc_endedAt u = None \<and> now < ssc_expiresAt u \<and> contains (ssc_allowedScopes u) permission)"
  by (auto simp: support_objection_def split: option.splits)

lemma role_permissions_in_vocabulary:
  "set (PLATFORM_ROLE_PERMISSIONS role) \<subseteq> set PLATFORM_PERMISSIONS"
proof -
  have "set (PLATFORM_ROLE_PERMISSIONS PLATFORM_ADMIN) \<subseteq> set PLATFORM_PERMISSIONS"
    "set (PLATFORM_ROLE_PERMISSIONS PLATFORM_SUPPORT) \<subseteq> set PLATFORM_PERMISSIONS"
    "set (PLATFORM_ROLE_PERMISSIONS PLATFORM_AUDITOR) \<subseteq> set PLATFORM_PERMISSIONS"
    "set (PLATFORM_ROLE_PERMISSIONS PLATFORM_OPERATOR) \<subseteq> set PLATFORM_PERMISSIONS"
    by code_simp+
  then show ?thesis by (cases role) (auto simp del: PLATFORM_ROLE_PERMISSIONS.simps(2-5))
qed

section \<open>Properties\<close>

text \<open>
  Cross-tenant reach needs a live support session: if a platform actor is allowed a support
  permission (or any permission in a context that demands a support session), then the actor's own
  role assignment is enabled and grants it, and there is a support session opened by this very
  actor for exactly the tenant in question, not ended, not expired at the instant of the decision,
  whose scopes contain the permission.
\<close>

theorem support_access_needs_session:
  assumes allowed:
    "pd_allowed (evaluatePlatformPermission session assignment permission context support now)"
    and kind: "contains supportPermissions permission \<or> oc_requireSupportSession context"
  shows "\<exists>s a u role. session = Some s \<and> assignment = Some a \<and> support = Some u \<and>
           pac_userId a = s_userId s \<and> pac_active a \<and> pac_disabledAt a = None \<and>
           platform_role_of (pac_role a) = Some role \<and>
           contains (PLATFORM_ROLE_PERMISSIONS role) permission \<and>
           ssc_actorId u = s_userId s \<and> oc_companyId context = Some (ssc_companyId u) \<and>
           ssc_companyId u \<noteq> [] \<and> ssc_endedAt u = None \<and> now < ssc_expiresAt u \<and>
           contains (ssc_allowedScopes u) permission"
proof -
  from allowed obtain s a where sa: "session = Some s" "assignment = Some a"
    using platform_allowed_present by blast
  with allowed have iff: "pac_userId a = s_userId s" "pac_active a" "pac_disabledAt a = None"
    "\<exists>role. platform_role_of (pac_role a) = Some role \<and>
        contains (PLATFORM_ROLE_PERMISSIONS role) permission"
    "support_objection s permission context support now = None"
    by (simp_all add: platform_allowed_iff)
  from iff(5) kind obtain u where "support = Some u" "truthy (oc_companyId context)"
    "ssc_actorId u = s_userId s" "oc_companyId context = Some (ssc_companyId u)"
    "ssc_endedAt u = None" "now < ssc_expiresAt u" "contains (ssc_allowedScopes u) permission"
    by (auto simp: no_support_objection)
  with sa iff show ?thesis by auto
qed

definition sample_operator :: app_session where
  "sample_operator =
     \<lparr>s_sessionId = None, s_userId = ''support-1'', s_name = ''S'', s_company = ''P'',
      s_companyId = None, s_identityProviderId = None, s_email = ''s@b.lv'',
      s_role = ADMIN_PLATFORM, s_platformRoles = Some [''PLATFORM_SUPPORT''],
      s_organizationRole = None, s_membershipStatus = None, s_membershipVersion = None,
      s_mfaSatisfied = Some True, s_authenticationAt = Some 1000, s_expiresAt = 100000\<rparr>"

definition sample_support :: support_session_context where
  "sample_support =
     \<lparr>ssc_id = ''support-session'', ssc_actorId = ''support-1'', ssc_companyId = ''company-1'',
      ssc_allowedScopes = [''platform.support.resource.view''], ssc_expiresAt = 5000,
      ssc_endedAt = None\<rparr>"

theorem support_access_needs_session_witness:
  "ssc_actorId sample_support = s_userId sample_operator"
proof -
  let ?a = "\<lparr>pac_id = ''a'', pac_userId = ''support-1'', pac_role = ''PLATFORM_SUPPORT'',
             pac_active = True, pac_disabledAt = None, pac_version = 1\<rparr>"
  let ?c = "empty_context\<lparr>oc_companyId := Some ''company-1''\<rparr>"
  have "pd_allowed (evaluatePlatformPermission (Some sample_operator) (Some ?a)
          ''platform.support.resource.view'' ?c (Some sample_support) 4000)"
    by code_simp
  moreover have "contains supportPermissions ''platform.support.resource.view'' \<or>
      oc_requireSupportSession ?c"
    by (simp add: supportPermissions_def)
  ultimately show ?thesis by (auto dest: support_access_needs_session)
qed

text \<open>
  A session alone never yields a support permission: the roles cached in a session grant
  ordinary platform permissions only, whatever roles they are, so support reach always goes through
  a support session.
\<close>

theorem session_roles_grant_no_support:
  "contains supportPermissions permission \<Longrightarrow> \<not> sessionHasPlatformPermission session permission now"
  by (auto simp: sessionHasPlatformPermission_def platform_allowed_iff list_ex_iff
      no_support_objection empty_context_def split: option.splits)

theorem session_roles_grant_no_support_witness:
  "\<not> sessionHasPlatformPermission (Some sample_operator) ''platform.support.action.execute'' 0"
  by (rule session_roles_grant_no_support) (simp add: supportPermissions_def)

end
