(* ===== verification/GovernanceDb.thy ===== *)
theory GovernanceDb
  imports ApprovalPolicy PlatformPermissions
begin

text \<open>
  The part of the PostgreSQL schema (\<open>packages/database/prisma/schema.prisma\<close>) the governance
  handlers read and write, one record per table row, and the database as the record of its tables.
  Row identifiers the database or \<open>crypto.randomUUID\<close> draws are arguments of the handlers that
  insert rows; audit events carry no identifier, as nothing refers to them, and a random
  correlation id is \<open>None\<close>.
\<close>

section \<open>Rows\<close>

datatype approval_status = REQUESTED | APPROVED | REJECTED | CANCELLED | EXPIRED | EXECUTED

record approval_row =
  ap_id :: string
  ap_actionType :: string
  ap_scope :: governance_scope
  ap_companyId :: "string option"
  ap_resourceId :: "string option"
  ap_expectedVersion :: "int option"
  ap_safeParameters :: json
  ap_payloadFingerprint :: string
  ap_requesterId :: string
  ap_status :: approval_status
  ap_expiresAt :: ms
  ap_executedAt :: "ms option"
  ap_cancelledAt :: "ms option"
  ap_executionKey :: "string option"

record decision_row =
  de_requestId :: string
  de_approverId :: string
  de_approved :: bool

record user_row =
  us_id :: string
  us_emailNormalized :: string
  us_active :: bool
  us_disabledAt :: "ms option"

record assignment_row =
  as_id :: string
  as_userId :: string
  as_role :: platform_system_role
  as_active :: bool
  as_version :: int
  as_assignedById :: "string option"
  as_disabledAt :: "ms option"

record membership_row =
  me_id :: string
  me_userId :: string
  me_companyId :: string
  me_role :: platform_role
  me_organizationRole :: organization_role
  me_status :: membership_status
  me_active :: bool
  me_version :: int
  me_suspendedAt :: "ms option"
  me_removedAt :: "ms option"

record user_session_row =
  se_id :: string
  se_userId :: string
  se_companyId :: "string option"
  se_authenticationAt :: ms
  se_expiresAt :: ms
  se_idleExpiresAt :: ms
  se_revokedAt :: "ms option"

record support_session_row =
  su_id :: string
  su_actorId :: string
  su_companyId :: string
  su_reasonCode :: string
  su_ticketReference :: string
  su_allowedScopes :: json
  su_mfaVerifiedAt :: ms
  su_authenticatedAt :: ms
  su_expiresAt :: ms
  su_endedAt :: "ms option"
  su_endedById :: "string option"

record security_event_row =
  ev_id :: string
  ev_userId :: "string option"
  ev_action :: string
  ev_result :: string
  ev_safeMetadata :: json
  ev_createdAt :: ms

record bootstrap_row =
  bo_singletonKey :: string
  bo_authorizationId :: string
  bo_authorizationHash :: string
  bo_environment :: string
  bo_targetUserId :: string
  bo_sessionEvidenceHash :: string
  bo_mfaEventEvidenceId :: string
  bo_authorizationExpiresAt :: ms
  bo_assignmentId :: string
  bo_executedAt :: ms

record mfa_method_row =
  mf_userId :: string
  mf_active :: bool
  mf_disabledAt :: "ms option"

text \<open>An audit event; the correlation id is kept where the code passes one.\<close>

record audit_row =
  au_companyId :: "string option"
  au_actorId :: "string option"
  au_action :: string
  au_targetType :: string
  au_targetId :: "string option"
  au_result :: string
  au_correlationId :: "string option"
  au_safeMetadata :: "(string \<times> json) list"

text \<open>Notification titles are fixed texts; each is a constructor.\<close>

datatype notification_title =
    DecisionRequired
  | ActionApproved
  | ActionRejected
  | ActionExecuted
  | SupportSessionOpened
  | FirstOwnerAssigned

record portal_notification_row =
  pn_userId :: string
  pn_companyId :: string
  pn_category :: string
  pn_title :: notification_title
  pn_href :: string

record governance_notification_row =
  gn_recipientId :: string
  gn_companyId :: "string option"
  gn_category :: string
  gn_title :: notification_title
  gn_href :: string

section \<open>The database\<close>

text \<open>\<open>available\<close> is whether \<open>getPrisma\<close> returns a client.\<close>

record governance_db =
  available :: bool
  companies :: "string list"
  users :: "user_row list"
  assignments :: "assignment_row list"
  memberships :: "membership_row list"
  userSessions :: "user_session_row list"
  mfaMethods :: "mfa_method_row list"
  securityEvents :: "security_event_row list"
  approvals :: "approval_row list"
  decisions :: "decision_row list"
  supportSessions :: "support_session_row list"
  bootstraps :: "bootstrap_row list"
  audit :: "audit_row list"
  portalNotifications :: "portal_notification_row list"
  governanceNotifications :: "governance_notification_row list"

definition empty_db :: governance_db where
  "empty_db =
     \<lparr>available = True, companies = [], users = [], assignments = [], memberships = [],
      userSessions = [], mfaMethods = [], securityEvents = [], approvals = [], decisions = [],
      supportSessions = [], bootstraps = [], audit = [], portalNotifications = [],
      governanceNotifications = []\<rparr>"

definition add_audit :: "audit_row \<Rightarrow> governance_db \<Rightarrow> governance_db" where
  "add_audit e db = db\<lparr>audit := audit db @ [e]\<rparr>"

definition add_portal_notifications ::
  "portal_notification_row list \<Rightarrow> governance_db \<Rightarrow> governance_db" where
  "add_portal_notifications ns db = db\<lparr>portalNotifications := portalNotifications db @ ns\<rparr>"

definition add_governance_notifications ::
  "governance_notification_row list \<Rightarrow> governance_db \<Rightarrow> governance_db" where
  "add_governance_notifications ns db = db\<lparr>governanceNotifications := governanceNotifications db @ ns\<rparr>"

definition revoke_user_sessions :: "string \<Rightarrow> ms \<Rightarrow> governance_db \<Rightarrow> governance_db" where
  "revoke_user_sessions userId now db =
     db\<lparr>userSessions := update_where (\<lambda>s. se_userId s = userId \<and> se_revokedAt s = None)
          (\<lambda>s. s\<lparr>se_revokedAt := Some now\<rparr>) (userSessions db)\<rparr>"

text \<open>The bookkeeping operations touch their own table only.\<close>

lemma add_audit_frame [simp]:
  "available (add_audit e db) = available db" "companies (add_audit e db) = companies db"
  "users (add_audit e db) = users db" "assignments (add_audit e db) = assignments db"
  "memberships (add_audit e db) = memberships db" "userSessions (add_audit e db) = userSessions db"
  "approvals (add_audit e db) = approvals db" "decisions (add_audit e db) = decisions db"
  "supportSessions (add_audit e db) = supportSessions db"
  "bootstraps (add_audit e db) = bootstraps db"
  "portalNotifications (add_audit e db) = portalNotifications db"
  "governanceNotifications (add_audit e db) = governanceNotifications db"
  "audit (add_audit e db) = audit db @ [e]"
  by (simp_all add: add_audit_def)

lemma add_portal_frame [simp]:
  "available (add_portal_notifications ns db) = available db"
  "companies (add_portal_notifications ns db) = companies db"
  "users (add_portal_notifications ns db) = users db"
  "assignments (add_portal_notifications ns db) = assignments db"
  "memberships (add_portal_notifications ns db) = memberships db"
  "userSessions (add_portal_notifications ns db) = userSessions db"
  "approvals (add_portal_notifications ns db) = approvals db"
  "decisions (add_portal_notifications ns db) = decisions db"
  "supportSessions (add_portal_notifications ns db) = supportSessions db"
  "bootstraps (add_portal_notifications ns db) = bootstraps db"
  "audit (add_portal_notifications ns db) = audit db"
  "governanceNotifications (add_portal_notifications ns db) = governanceNotifications db"
  "portalNotifications (add_portal_notifications ns db) = portalNotifications db @ ns"
  by (simp_all add: add_portal_notifications_def)

lemma add_governance_frame [simp]:
  "available (add_governance_notifications ns db) = available db"
  "companies (add_governance_notifications ns db) = companies db"
  "users (add_governance_notifications ns db) = users db"
  "assignments (add_governance_notifications ns db) = assignments db"
  "memberships (add_governance_notifications ns db) = memberships db"
  "userSessions (add_governance_notifications ns db) = userSessions db"
  "approvals (add_governance_notifications ns db) = approvals db"
  "decisions (add_governance_notifications ns db) = decisions db"
  "supportSessions (add_governance_notifications ns db) = supportSessions db"
  "bootstraps (add_governance_notifications ns db) = bootstraps db"
  "audit (add_governance_notifications ns db) = audit db"
  "portalNotifications (add_governance_notifications ns db) = portalNotifications db"
  "governanceNotifications (add_governance_notifications ns db) = governanceNotifications db @ ns"
  by (simp_all add: add_governance_notifications_def)

lemma revoke_frame [simp]:
  "available (revoke_user_sessions u now db) = available db"
  "companies (revoke_user_sessions u now db) = companies db"
  "users (revoke_user_sessions u now db) = users db"
  "assignments (revoke_user_sessions u now db) = assignments db"
  "memberships (revoke_user_sessions u now db) = memberships db"
  "approvals (revoke_user_sessions u now db) = approvals db"
  "decisions (revoke_user_sessions u now db) = decisions db"
  "supportSessions (revoke_user_sessions u now db) = supportSessions db"
  "bootstraps (revoke_user_sessions u now db) = bootstraps db"
  "audit (revoke_user_sessions u now db) = audit db"
  by (simp_all add: revoke_user_sessions_def)

lemma revoked_all:
  assumes "s \<in> set (userSessions (revoke_user_sessions u now db))" "se_userId s = u"
  shows "se_revokedAt s \<noteq> None"
proof -
  from assms(1) have "s \<in> set (update_where (\<lambda>s. se_userId s = u \<and> se_revokedAt s = None)
      (\<lambda>s. s\<lparr>se_revokedAt := Some now\<rparr>) (userSessions db))"
    by (simp add: revoke_user_sessions_def)
  then show ?thesis by (cases rule: in_update_whereE) (use assms(2) in simp_all)
qed

end
