(* ===== verification/GovernanceApprovals.thy ===== *)
theory GovernanceApprovals
  imports GovernanceDb
begin

text \<open>
  The two-person approval ceremony (\<open>lib/governance-approvals.ts\<close>): request, decide, cancel, expire
  and execute, each a handler on the governance database. The reads of a handler's transaction and
  the writes that follow are separate definitions, so that interleavings of two transactions can be
  stated. The last part proves the ceremony's invariant for every run of operations.
\<close>

section \<open>Parameters\<close>

definition asSafeParameters :: "json \<Rightarrow> approval_error + safe_parameters" where
  "asSafeParameters value =
     (case value of
        JObject entries \<Rightarrow>
          if list_ex (\<lambda>(_, item). \<not> is_scalar item) entries then Inl APPROVAL_PAYLOAD_INVALID
          else Inr entries
      | _ \<Rightarrow> Inl APPROVAL_PAYLOAD_INVALID)"

lemma asSafeParameters_Inr:
  "asSafeParameters value = Inr ps \<longleftrightarrow> value = JObject ps \<and> (\<forall>(k, v) \<in> set ps. is_scalar v)"
  by (auto simp: asSafeParameters_def list_ex_iff split: json.splits)

fun oversized :: "json \<Rightarrow> bool" where
  "oversized (JString s) = (length s > 250)"
| "oversized (JDate t) = False"
| "oversized JNonFinite = True"
| "oversized v = False"

section \<open>Request\<close>

text \<open>
  The input of a request. \<open>companyId\<close> may be undefined (\<open>None\<close>), null (\<open>Some None\<close>) or a string: the
  comparison with the session's field is strict.
\<close>

record request_input =
  rq_session :: app_session
  rq_actionType :: string
  rq_scope :: governance_scope
  rq_companyId :: "string option option"
  rq_resourceId :: "string option"
  rq_expectedVersion :: "int option"
  rq_safeParameters :: json
  rq_confirmation :: string
  rq_now :: ms
  rq_newId :: string

definition nullish :: "'a option option \<Rightarrow> 'a option" where
  "nullish x = (case x of Some (Some v) \<Rightarrow> Some v | _ \<Rightarrow> None)"

definition approval_audit ::
  "string option \<Rightarrow> string option \<Rightarrow> string \<Rightarrow> string \<Rightarrow> (string \<times> json) list \<Rightarrow> audit_row" where
  "approval_audit companyId actorId action targetId metadata =
     \<lparr>au_companyId = companyId, au_actorId = actorId, au_action = action,
      au_targetType = ''governance-approval'', au_targetId = Some targetId,
      au_result = ''SUCCEEDED'', au_correlationId = None, au_safeMetadata = metadata\<rparr>"

definition scope_name :: "governance_scope \<Rightarrow> string" where
  "scope_name s = (case s of PLATFORM \<Rightarrow> ''PLATFORM'' | ORGANIZATION \<Rightarrow> ''ORGANIZATION'')"

definition platform_recipients :: "governance_policy \<Rightarrow> string \<Rightarrow> governance_db \<Rightarrow> string list" where
  "platform_recipients approvalPolicy requesterId db =
     (if gp_notificationPolicy approvalPolicy \<noteq> ORGANIZATION_SECURITY
      then unique (map as_userId (filter (\<lambda>a. as_active a \<and> as_disabledAt a = None \<and>
             (as_role a = PLATFORM_OWNER \<or> as_role a = PLATFORM_ADMIN) \<and>
             as_userId a \<noteq> requesterId) (assignments db)))
      else [])"

definition organization_recipients ::
  "governance_policy \<Rightarrow> string option \<Rightarrow> string \<Rightarrow> governance_db \<Rightarrow> string list" where
  "organization_recipients approvalPolicy companyId requesterId db =
     (if gp_notificationPolicy approvalPolicy \<noteq> PLATFORM_SECURITY \<and> truthy companyId
      then unique (map me_userId (filter (\<lambda>m. Some (me_companyId m) = companyId \<and> me_active m \<and>
             me_status m = ACTIVE \<and> (me_organizationRole m = OWNER \<or> me_organizationRole m = ADMIN) \<and>
             me_userId m \<noteq> requesterId) (memberships db)))
      else [])"

definition governance_note ::
  "string option \<Rightarrow> notification_title \<Rightarrow> string \<Rightarrow> governance_notification_row" where
  "governance_note companyId title recipientId =
     \<lparr>gn_recipientId = recipientId, gn_companyId = companyId, gn_category = ''GOVERNANCE_APPROVAL'',
      gn_title = title, gn_href = ''/portal/platform/approvals''\<rparr>"

definition security_note :: "string \<Rightarrow> notification_title \<Rightarrow> string \<Rightarrow> portal_notification_row" where
  "security_note companyId title userId =
     \<lparr>pn_userId = userId, pn_companyId = companyId, pn_category = ''SECURITY'', pn_title = title,
      pn_href = ''/portal/settings/security/audit''\<rparr>"

definition new_approval :: "request_input \<Rightarrow> safe_parameters \<Rightarrow> string \<Rightarrow> ms \<Rightarrow> approval_row" where
  "new_approval input safeParameters payloadFingerprint expiresAt =
     \<lparr>ap_id = rq_newId input, ap_actionType = rq_actionType input, ap_scope = rq_scope input,
      ap_companyId = nullish (rq_companyId input), ap_resourceId = rq_resourceId input,
      ap_expectedVersion = rq_expectedVersion input, ap_safeParameters = JObject safeParameters,
      ap_payloadFingerprint = payloadFingerprint, ap_requesterId = s_userId (rq_session input),
      ap_status = REQUESTED, ap_expiresAt = expiresAt, ap_executedAt = None,
      ap_cancelledAt = None, ap_executionKey = None\<rparr>"

definition request_store ::
  "governance_policy \<Rightarrow> approval_row \<Rightarrow> governance_db \<Rightarrow> governance_db" where
  "request_store approvalPolicy row db =
     (let db1 = db\<lparr>approvals := approvals db @ [row]\<rparr>;
          db2 = add_audit (approval_audit (ap_companyId row) (Some (ap_requesterId row))
                  ''governance.approval.requested'' (ap_id row)
                  [(''actionType'', JString (ap_actionType row)),
                   (''scope'', JString (scope_name (ap_scope row)))]) db1;
          db3 = add_governance_notifications
                  (map (governance_note (ap_companyId row) DecisionRequired)
                    (platform_recipients approvalPolicy (ap_requesterId row) db2)) db2
      in add_portal_notifications
           (map (security_note (the (ap_companyId row)) DecisionRequired)
             (organization_recipients approvalPolicy (ap_companyId row) (ap_requesterId row) db3))
           db3)"

definition request_commit ::
  "governance_policy \<Rightarrow> approval_row \<Rightarrow> governance_db \<Rightarrow>
     (approval_error, approval_row, governance_db) handled" where
  "request_commit approvalPolicy row db =
     (if list_ex (\<lambda>r. ap_id r = ap_id row \<or> ap_payloadFingerprint r = ap_payloadFingerprint row)
           (approvals db)
      then (Inl UNIQUE_CONSTRAINT_VIOLATION, db)
      else (Inr row, request_store approvalPolicy row db))"

definition request_checks ::
  "(json \<Rightarrow> string) \<Rightarrow> request_input \<Rightarrow> approval_error + governance_policy \<times> approval_row" where
  "request_checks digest input =
     (case getGovernanceApprovalPolicy (rq_actionType input) of
        None \<Rightarrow> Inl UNKNOWN_APPROVAL_ACTION
      | Some approvalPolicy \<Rightarrow>
          if gp_scope approvalPolicy \<noteq> rq_scope input then Inl UNKNOWN_APPROVAL_ACTION
          else if \<not> stepUp (rq_session input) (rq_now input) then Inl APPROVAL_STEP_UP_REQUIRED
          else if rq_confirmation input \<noteq> gp_confirmationPhrase approvalPolicy
          then Inl APPROVAL_CONFIRMATION_REQUIRED
          else if rq_scope input = ORGANIZATION \<and>
                  rq_companyId input \<noteq> map_option Some (s_companyId (rq_session input))
          then Inl APPROVAL_SCOPE_MISMATCH
          else if (case rq_resourceId input of None \<Rightarrow> False | Some r \<Rightarrow> length r > 200) \<or>
                  (case rq_expectedVersion input of None \<Rightarrow> False
                   | Some v \<Rightarrow> \<not> safe_integer v \<or> v < 0)
          then Inl APPROVAL_PAYLOAD_INVALID
          else
            case asSafeParameters (rq_safeParameters input) of
              Inl e \<Rightarrow> Inl e
            | Inr safeParameters \<Rightarrow>
                if length safeParameters > length (gp_safeParameterKeys approvalPolicy) \<or>
                   list_ex (\<lambda>(_, value). oversized value) safeParameters
                then Inl APPROVAL_PAYLOAD_INVALID
                else
                  let expiresAt = rq_now input + gp_ttlSeconds approvalPolicy * 1000 in
                  case governanceApprovalFingerprint digest (rq_actionType input) (rq_scope input)
                         (nullish (rq_companyId input)) (rq_resourceId input)
                         (rq_expectedVersion input) safeParameters (s_userId (rq_session input))
                         expiresAt of
                    Inl e \<Rightarrow> Inl e
                  | Inr payloadFingerprint \<Rightarrow>
                      Inr (approvalPolicy,
                           new_approval input safeParameters payloadFingerprint expiresAt))"

definition requestGovernanceApproval ::
  "(json \<Rightarrow> string) \<Rightarrow> request_input \<Rightarrow> governance_db \<Rightarrow>
     (approval_error, approval_row, governance_db) handled" where
  "requestGovernanceApproval digest input db =
     (case request_checks digest input of
        Inl e \<Rightarrow> (Inl e, db)
      | Inr (approvalPolicy, row) \<Rightarrow>
          if \<not> available db then (Inl APPROVAL_DATABASE_UNAVAILABLE, db)
          else in_transaction (request_commit approvalPolicy row) db)"

section \<open>Decide\<close>

record decide_input =
  dc_session :: app_session
  dc_requestId :: string
  dc_approved :: bool
  dc_approverAuthorized :: bool
  dc_now :: ms

definition find_approval :: "string \<Rightarrow> governance_db \<Rightarrow> approval_row option" where
  "find_approval requestId db = List.find (\<lambda>r. ap_id r = requestId) (approvals db)"

definition decisions_of :: "string \<Rightarrow> governance_db \<Rightarrow> decision_row list" where
  "decisions_of requestId db = filter (\<lambda>d. de_requestId d = requestId) (decisions db)"

text \<open>The pre-transaction sweep of \<open>decide\<close> and \<open>execute\<close>: one row past its expiry is closed.\<close>

definition mark_expired :: "string \<Rightarrow> approval_status \<Rightarrow> governance_db \<Rightarrow> governance_db" where
  "mark_expired requestId status db =
     db\<lparr>approvals := update_where (\<lambda>r. ap_id r = requestId \<and> ap_status r = status)
          (\<lambda>r. r\<lparr>ap_status := EXPIRED\<rparr>) (approvals db)\<rparr>"

definition decide_read ::
  "decide_input \<Rightarrow> governance_db \<Rightarrow>
     approval_error + approval_row \<times> decision_row list \<times> governance_policy" where
  "decide_read input db =
     (case find_approval (dc_requestId input) db of
        None \<Rightarrow> Inl APPROVAL_NOT_FOUND
      | Some request \<Rightarrow>
          if ap_scope request = ORGANIZATION \<and>
             \<not> same_present (ap_companyId request) (s_companyId (dc_session input))
          then Inl APPROVAL_SCOPE_MISMATCH
          else if ap_requesterId request = s_userId (dc_session input) then Inl SELF_APPROVAL_DENIED
          else if ap_status request \<noteq> REQUESTED then Inl APPROVAL_NOT_REQUESTED
          else if ap_expiresAt request \<le> dc_now input then Inl APPROVAL_EXPIRED
          else
            case getGovernanceApprovalPolicy (ap_actionType request) of
              None \<Rightarrow> Inl UNKNOWN_APPROVAL_ACTION
            | Some approvalPolicy \<Rightarrow>
                Inr (request, decisions_of (dc_requestId input) db, approvalPolicy))"

definition decided_status :: "bool \<Rightarrow> decision_row list \<Rightarrow> governance_policy \<Rightarrow> approval_status" where
  "decided_status approved previous approvalPolicy =
     (let approvedCount = length (filter de_approved previous) + (if approved then 1 else 0) in
      if approved
      then (if approvedCount \<ge> gp_minimumApprovals approvalPolicy then APPROVED else REQUESTED)
      else REJECTED)"

definition status_name :: "approval_status \<Rightarrow> string" where
  "status_name s =
     (case s of REQUESTED \<Rightarrow> ''REQUESTED'' | APPROVED \<Rightarrow> ''APPROVED'' | REJECTED \<Rightarrow> ''REJECTED''
      | CANCELLED \<Rightarrow> ''CANCELLED'' | EXPIRED \<Rightarrow> ''EXPIRED'' | EXECUTED \<Rightarrow> ''EXECUTED'')"

definition decide_guard :: "string \<Rightarrow> approval_row \<Rightarrow> bool" where
  "decide_guard requestId r \<longleftrightarrow> ap_id r = requestId \<and> ap_status r = REQUESTED"

definition decide_store ::
  "decide_input \<Rightarrow> approval_row \<Rightarrow> approval_status \<Rightarrow> governance_db \<Rightarrow> governance_db" where
  "decide_store input request status db =
     (let approverId = s_userId (dc_session input);
          decision = \<lparr>de_requestId = ap_id request, de_approverId = approverId,
                      de_approved = dc_approved input\<rparr>;
          db1 = db\<lparr>decisions := decisions db @ [decision],
                   approvals := update_where (decide_guard (ap_id request))
                     (\<lambda>r. r\<lparr>ap_status := status\<rparr>) (approvals db)\<rparr>;
          db2 = add_audit (approval_audit (ap_companyId request) (Some approverId)
                  (if dc_approved input then ''governance.approval.approved''
                   else ''governance.approval.rejected'') (ap_id request)
                  [(''actionType'', JString (ap_actionType request)),
                   (''status'', JString (status_name status))]) db1;
          title = (if dc_approved input then ActionApproved else ActionRejected)
      in if ap_scope request = ORGANIZATION \<and> truthy (ap_companyId request)
         then add_portal_notifications
                [security_note (the (ap_companyId request)) title (ap_requesterId request)] db2
         else add_governance_notifications
                [governance_note (ap_companyId request) title (ap_requesterId request)] db2)"

definition decide_commit ::
  "decide_input \<Rightarrow> approval_row \<times> decision_row list \<times> governance_policy \<Rightarrow> governance_db \<Rightarrow>
     (approval_error, approval_status, governance_db) handled" where
  "decide_commit input snapshot db =
     (let (request, previous, approvalPolicy) = snapshot;
          status = decided_status (dc_approved input) previous approvalPolicy in
      if list_ex (\<lambda>d. de_requestId d = ap_id request \<and>
                      de_approverId d = s_userId (dc_session input)) (decisions db)
      then (Inl UNIQUE_CONSTRAINT_VIOLATION, db)
      else if count_where (decide_guard (ap_id request)) (approvals db) \<noteq> 1
      then (Inl APPROVAL_NOT_REQUESTED, db)
      else (Inr status, decide_store input request status db))"

definition decide_transaction ::
  "decide_input \<Rightarrow> governance_db \<Rightarrow> (approval_error, approval_status, governance_db) handled" where
  "decide_transaction input db =
     (case decide_read input db of Inl e \<Rightarrow> (Inl e, db) | Inr snapshot \<Rightarrow> decide_commit input snapshot db)"

definition past_due :: "approval_status \<Rightarrow> ms \<Rightarrow> approval_row option \<Rightarrow> bool" where
  "past_due status now candidate =
     (case candidate of None \<Rightarrow> False | Some r \<Rightarrow> ap_status r = status \<and> ap_expiresAt r \<le> now)"

definition decideGovernanceApproval ::
  "decide_input \<Rightarrow> governance_db \<Rightarrow> (approval_error, approval_status, governance_db) handled" where
  "decideGovernanceApproval input db =
     (if \<not> stepUp (dc_session input) (dc_now input) then (Inl APPROVAL_STEP_UP_REQUIRED, db)
      else if \<not> dc_approverAuthorized input then (Inl APPROVER_PERMISSION_DENIED, db)
      else if \<not> available db then (Inl APPROVAL_DATABASE_UNAVAILABLE, db)
      else if past_due REQUESTED (dc_now input) (find_approval (dc_requestId input) db)
      then (Inl APPROVAL_EXPIRED, mark_expired (dc_requestId input) REQUESTED db)
      else in_transaction (decide_transaction input) db)"

section \<open>Cancel and expire\<close>

definition cancel_guard :: "string \<Rightarrow> string \<Rightarrow> approval_row \<Rightarrow> bool" where
  "cancel_guard requestId userId r \<longleftrightarrow>
     ap_id r = requestId \<and> ap_requesterId r = userId \<and> ap_status r = REQUESTED"

definition cancel_store :: "app_session \<Rightarrow> approval_row \<Rightarrow> ms \<Rightarrow> governance_db \<Rightarrow> governance_db" where
  "cancel_store session request now db =
     add_audit (approval_audit (ap_companyId request) (Some (s_userId session))
       ''governance.approval.cancelled'' (ap_id request)
       [(''actionType'', JString (ap_actionType request))])
       (db\<lparr>approvals := update_where (cancel_guard (ap_id request) (s_userId session))
             (\<lambda>r. r\<lparr>ap_status := CANCELLED, ap_cancelledAt := Some now\<rparr>) (approvals db)\<rparr>)"

definition cancelGovernanceApproval ::
  "app_session \<Rightarrow> string \<Rightarrow> ms \<Rightarrow> governance_db \<Rightarrow> (approval_error, unit, governance_db) handled" where
  "cancelGovernanceApproval session requestId now db =
     (if \<not> available db then (Inl APPROVAL_DATABASE_UNAVAILABLE, db)
      else
        case List.find (cancel_guard requestId (s_userId session)) (approvals db) of
          None \<Rightarrow> (Inl APPROVAL_CANCELLATION_DENIED, db)
        | Some request \<Rightarrow>
            if count_where (cancel_guard (ap_id request) (s_userId session)) (approvals db) \<noteq> 1
            then (Inl APPROVAL_CANCELLATION_DENIED, db)
            else (Inr (), cancel_store session request now db))"

definition stale :: "ms \<Rightarrow> approval_row \<Rightarrow> bool" where
  "stale now r \<longleftrightarrow> (ap_status r = REQUESTED \<or> ap_status r = APPROVED) \<and> ap_expiresAt r \<le> now"

definition expire_guard :: "ms \<Rightarrow> string \<Rightarrow> approval_row \<Rightarrow> bool" where
  "expire_guard now requestId r \<longleftrightarrow> ap_id r = requestId \<and> stale now r"

definition expire_store :: "string option \<Rightarrow> ms \<Rightarrow> approval_row \<Rightarrow> governance_db \<Rightarrow> governance_db" where
  "expire_store actorId now request db =
     add_audit (approval_audit (ap_companyId request) actorId ''governance.approval.expired''
       (ap_id request) [(''actionType'', JString (ap_actionType request))])
       (db\<lparr>approvals := update_where (expire_guard now (ap_id request))
             (\<lambda>r. r\<lparr>ap_status := EXPIRED\<rparr>) (approvals db)\<rparr>)"

fun expire_each :: "string option \<Rightarrow> ms \<Rightarrow> approval_row list \<Rightarrow> governance_db \<Rightarrow> governance_db" where
  "expire_each actorId now [] db = db"
| "expire_each actorId now (request # requests) db =
     (if count_where (expire_guard now (ap_id request)) (approvals db) \<noteq> 1
      then expire_each actorId now requests db
      else expire_each actorId now requests (expire_store actorId now request db))"

text \<open>The result is the number of rows found stale.\<close>

definition expireStaleGovernanceApprovals ::
  "string option \<Rightarrow> ms \<Rightarrow> governance_db \<Rightarrow> (approval_error, nat, governance_db) handled" where
  "expireStaleGovernanceApprovals actorId now db =
     (if \<not> available db then (Inl APPROVAL_DATABASE_UNAVAILABLE, db)
      else
        let found = filter (stale now) (approvals db) in
        (Inr (length found), expire_each actorId now found db))"

section \<open>Execute\<close>

record execute_input =
  ex_session :: app_session
  ex_requestId :: string
  ex_executionKey :: string
  ex_executionAuthorized :: bool
  ex_expectedActionType :: string
  ex_currentResourceVersion :: "int option"
  ex_now :: ms

text \<open>What the executor receives of the approved request.\<close>

record approved_request =
  ar_id :: string
  ar_companyId :: "string option"
  ar_resourceId :: "string option"
  ar_safeParameters :: safe_parameters

type_synonym 'a executor =
  "governance_db \<Rightarrow> approved_request \<Rightarrow> (approval_error, 'a, governance_db) handled"

definition valid_approvers :: "approval_row \<Rightarrow> decision_row list \<Rightarrow> string list" where
  "valid_approvers request ds =
     unique (map de_approverId
       (filter (\<lambda>d. de_approved d \<and> de_approverId d \<noteq> ap_requesterId request) ds))"

definition execute_read ::
  "(json \<Rightarrow> string) \<Rightarrow> execute_input \<Rightarrow> governance_db \<Rightarrow>
     approval_error + approval_row \<times> decision_row list \<times> safe_parameters" where
  "execute_read digest input db =
     (case find_approval (ex_requestId input) db of
        None \<Rightarrow> Inl APPROVAL_NOT_FOUND
      | Some request \<Rightarrow>
          if ap_actionType request \<noteq> ex_expectedActionType input then Inl APPROVAL_NOT_FOUND
          else if ap_scope request = ORGANIZATION \<and>
                  \<not> same_present (ap_companyId request) (s_companyId (ex_session input))
          then Inl APPROVAL_SCOPE_MISMATCH
          else if ap_requesterId request \<noteq> s_userId (ex_session input)
          then Inl EXECUTION_REQUESTER_MISMATCH
          else if ap_status request \<noteq> APPROVED then Inl APPROVAL_NOT_APPROVED
          else if ap_expiresAt request \<le> ex_now input then Inl APPROVAL_EXPIRED
          else
            let ds = decisions_of (ex_requestId input) db in
            case getGovernanceApprovalPolicy (ap_actionType request) of
              None \<Rightarrow> Inl APPROVAL_DECISIONS_INVALID
            | Some approvalPolicy \<Rightarrow>
                if length (valid_approvers request ds) < gp_minimumApprovals approvalPolicy
                then Inl APPROVAL_DECISIONS_INVALID
                else if ap_expectedVersion request \<noteq> None \<and>
                        ap_expectedVersion request \<noteq> ex_currentResourceVersion input
                then Inl RESOURCE_VERSION_CHANGED
                else
                  case asSafeParameters (ap_safeParameters request) of
                    Inl e \<Rightarrow> Inl e
                  | Inr safeParameters \<Rightarrow>
                      case governanceApprovalFingerprint digest (ap_actionType request)
                             (ap_scope request) (ap_companyId request) (ap_resourceId request)
                             (ap_expectedVersion request) safeParameters (ap_requesterId request)
                             (ap_expiresAt request) of
                        Inl e \<Rightarrow> Inl e
                      | Inr fingerprint \<Rightarrow>
                          if fingerprint \<noteq> ap_payloadFingerprint request
                          then Inl APPROVAL_PAYLOAD_CHANGED
                          else Inr (request, ds, safeParameters))"

definition claim_guard :: "string \<Rightarrow> approval_row \<Rightarrow> bool" where
  "claim_guard requestId r \<longleftrightarrow> ap_id r = requestId \<and> ap_status r = APPROVED \<and> ap_executionKey r = None"

definition execute_claim :: "execute_input \<Rightarrow> string \<Rightarrow> governance_db \<Rightarrow> governance_db" where
  "execute_claim input requestId db =
     db\<lparr>approvals := update_where (claim_guard requestId)
          (\<lambda>r. r\<lparr>ap_status := EXECUTED, ap_executedAt := Some (ex_now input),
                 ap_executionKey := Some (ex_executionKey input)\<rparr>) (approvals db)\<rparr>"

definition execution_recipients :: "approval_row \<Rightarrow> decision_row list \<Rightarrow> string list" where
  "execution_recipients request ds = unique (ap_requesterId request # map de_approverId ds)"

definition execute_report ::
  "execute_input \<Rightarrow> approval_row \<Rightarrow> decision_row list \<Rightarrow> governance_db \<Rightarrow> governance_db" where
  "execute_report input request ds db =
     (let db1 = add_audit (approval_audit (ap_companyId request) (Some (s_userId (ex_session input)))
                  ''governance.approval.executed'' (ap_id request)
                  [(''actionType'', JString (ap_actionType request))]) db in
      if ap_scope request = ORGANIZATION \<and> truthy (ap_companyId request)
      then add_portal_notifications
             (map (security_note (the (ap_companyId request)) ActionExecuted)
               (execution_recipients request ds)) db1
      else add_governance_notifications
             (map (governance_note (ap_companyId request) ActionExecuted)
               (execution_recipients request ds)) db1)"

definition execute_commit ::
  "execute_input \<Rightarrow> 'a executor \<Rightarrow> approval_row \<times> decision_row list \<times> safe_parameters \<Rightarrow>
     governance_db \<Rightarrow> (approval_error, 'a, governance_db) handled" where
  "execute_commit input execute snapshot db =
     (let (request, ds, safeParameters) = snapshot in
      if count_where (claim_guard (ap_id request)) (approvals db) \<noteq> 1
      then (Inl APPROVAL_REPLAY_DENIED, db)
      else if list_ex (\<lambda>r. ap_executionKey r = Some (ex_executionKey input)) (approvals db)
      then (Inl UNIQUE_CONSTRAINT_VIOLATION, db)
      else
        case execute (execute_claim input (ap_id request) db)
               \<lparr>ar_id = ap_id request, ar_companyId = ap_companyId request,
                ar_resourceId = ap_resourceId request, ar_safeParameters = safeParameters\<rparr> of
          (Inl e, db') \<Rightarrow> (Inl e, db')
        | (Inr result, db') \<Rightarrow> (Inr result, execute_report input request ds db'))"

definition execute_transaction ::
  "(json \<Rightarrow> string) \<Rightarrow> execute_input \<Rightarrow> 'a executor \<Rightarrow> governance_db \<Rightarrow>
     (approval_error, 'a, governance_db) handled" where
  "execute_transaction digest input execute db =
     (case execute_read digest input db of
        Inl e \<Rightarrow> (Inl e, db)
      | Inr snapshot \<Rightarrow> execute_commit input execute snapshot db)"

definition executeGovernanceApproval ::
  "(json \<Rightarrow> string) \<Rightarrow> execute_input \<Rightarrow> 'a executor \<Rightarrow> governance_db \<Rightarrow>
     (approval_error, 'a, governance_db) handled" where
  "executeGovernanceApproval digest input execute db =
     (if \<not> stepUp (ex_session input) (ex_now input) then (Inl APPROVAL_STEP_UP_REQUIRED, db)
      else if \<not> ex_executionAuthorized input then (Inl EXECUTION_PERMISSION_DENIED, db)
      else if \<not> available db then (Inl APPROVAL_DATABASE_UNAVAILABLE, db)
      else if past_due APPROVED (ex_now input) (find_approval (ex_requestId input) db)
      then (Inl APPROVAL_EXPIRED, mark_expired (ex_requestId input) APPROVED db)
      else in_transaction (execute_transaction digest input execute) db)"

section \<open>What each operation writes\<close>

lemma request_store_rows [simp]:
  "approvals (request_store p row db) = approvals db @ [row]"
  "decisions (request_store p row db) = decisions db"
  "assignments (request_store p row db) = assignments db"
  "users (request_store p row db) = users db"
  "bootstraps (request_store p row db) = bootstraps db"
  "available (request_store p row db) = available db"
  "supportSessions (request_store p row db) = supportSessions db"
  by (simp_all add: request_store_def Let_def)

lemma decide_store_rows [simp]:
  "approvals (decide_store input request status db) =
     update_where (decide_guard (ap_id request)) (\<lambda>r. r\<lparr>ap_status := status\<rparr>) (approvals db)"
  "decisions (decide_store input request status db) = decisions db @
     [\<lparr>de_requestId = ap_id request, de_approverId = s_userId (dc_session input),
       de_approved = dc_approved input\<rparr>]"
  "assignments (decide_store input request status db) = assignments db"
  "users (decide_store input request status db) = users db"
  "bootstraps (decide_store input request status db) = bootstraps db"
  "available (decide_store input request status db) = available db"
  "supportSessions (decide_store input request status db) = supportSessions db"
  by (simp_all add: decide_store_def Let_def)

lemma cancel_store_rows [simp]:
  "approvals (cancel_store session request now db) =
     update_where (cancel_guard (ap_id request) (s_userId session))
       (\<lambda>r. r\<lparr>ap_status := CANCELLED, ap_cancelledAt := Some now\<rparr>) (approvals db)"
  "decisions (cancel_store session request now db) = decisions db"
  "assignments (cancel_store session request now db) = assignments db"
  "users (cancel_store session request now db) = users db"
  "bootstraps (cancel_store session request now db) = bootstraps db"
  "available (cancel_store session request now db) = available db"
  "supportSessions (cancel_store session request now db) = supportSessions db"
  by (simp_all add: cancel_store_def)

lemma expire_store_rows [simp]:
  "approvals (expire_store actorId now request db) =
     update_where (expire_guard now (ap_id request)) (\<lambda>r. r\<lparr>ap_status := EXPIRED\<rparr>) (approvals db)"
  "decisions (expire_store actorId now request db) = decisions db"
  "assignments (expire_store actorId now request db) = assignments db"
  "users (expire_store actorId now request db) = users db"
  "bootstraps (expire_store actorId now request db) = bootstraps db"
  "available (expire_store actorId now request db) = available db"
  "supportSessions (expire_store actorId now request db) = supportSessions db"
  by (simp_all add: expire_store_def)

lemma mark_expired_rows [simp]:
  "approvals (mark_expired i status db) =
     update_where (\<lambda>r. ap_id r = i \<and> ap_status r = status) (\<lambda>r. r\<lparr>ap_status := EXPIRED\<rparr>) (approvals db)"
  "decisions (mark_expired i status db) = decisions db"
  "assignments (mark_expired i status db) = assignments db"
  "users (mark_expired i status db) = users db"
  "bootstraps (mark_expired i status db) = bootstraps db"
  "available (mark_expired i status db) = available db"
  "supportSessions (mark_expired i status db) = supportSessions db"
  by (simp_all add: mark_expired_def)

lemma execute_claim_rows [simp]:
  "approvals (execute_claim input i db) =
     update_where (claim_guard i)
       (\<lambda>r. r\<lparr>ap_status := EXECUTED, ap_executedAt := Some (ex_now input),
              ap_executionKey := Some (ex_executionKey input)\<rparr>) (approvals db)"
  "decisions (execute_claim input i db) = decisions db"
  "assignments (execute_claim input i db) = assignments db"
  "users (execute_claim input i db) = users db"
  "bootstraps (execute_claim input i db) = bootstraps db"
  "available (execute_claim input i db) = available db"
  "supportSessions (execute_claim input i db) = supportSessions db"
  by (simp_all add: execute_claim_def)

lemma execute_report_rows [simp]:
  "approvals (execute_report input request ds db) = approvals db"
  "decisions (execute_report input request ds db) = decisions db"
  "assignments (execute_report input request ds db) = assignments db"
  "users (execute_report input request ds db) = users db"
  "bootstraps (execute_report input request ds db) = bootstraps db"
  "available (execute_report input request ds db) = available db"
  "supportSessions (execute_report input request ds db) = supportSessions db"
  by (simp_all add: execute_report_def Let_def)

end
