(* ===== verification/ApprovalCeremony.thy ===== *)
theory ApprovalCeremony
  imports GovernanceApprovals
begin

text \<open>
  Correctness of the approval ceremony. A status automaton describes what an approval may do; every
  operation moves every stored approval along it and touches nothing else of the row. The
  invariant \<open>ceremony_ok\<close> says that no requester decided on an own request, that approved and
  executed requests carry an approving decision, and that exactly the executed ones carry their
  claim; it holds after every run of operations for every executor that leaves the ceremony's
  tables alone (the contract of the locale \<open>approval_executor\<close>).
\<close>

section \<open>The status automaton\<close>

inductive approval_transition :: "approval_status \<Rightarrow> approval_status \<Rightarrow> bool" where
  approve: "approval_transition REQUESTED APPROVED"
| reject: "approval_transition REQUESTED REJECTED"
| cancel: "approval_transition REQUESTED CANCELLED"
| expire_requested: "approval_transition REQUESTED EXPIRED"
| expire_approved: "approval_transition APPROVED EXPIRED"
| claim: "approval_transition APPROVED EXECUTED"

inductive_cases transition_fromE: "approval_transition s t"

inductive_simps transition_simps:
  "approval_transition REQUESTED t"
  "approval_transition APPROVED t"
  "approval_transition REJECTED t"
  "approval_transition CANCELLED t"
  "approval_transition EXPIRED t"
  "approval_transition EXECUTED t"

definition terminal :: "approval_status \<Rightarrow> bool" where
  "terminal s \<longleftrightarrow> s \<noteq> REQUESTED \<and> s \<noteq> APPROVED"

lemma terminal_no_transition: "terminal s \<longleftrightarrow> \<not> (\<exists>t. approval_transition s t)"
  by (cases s) (auto simp: terminal_def transition_simps)

text \<open>The columns no operation writes after the insert.\<close>

definition same_request :: "approval_row \<Rightarrow> approval_row \<Rightarrow> bool" where
  "same_request r r' \<longleftrightarrow>
     ap_id r' = ap_id r \<and> ap_actionType r' = ap_actionType r \<and> ap_scope r' = ap_scope r \<and>
     ap_companyId r' = ap_companyId r \<and> ap_resourceId r' = ap_resourceId r \<and>
     ap_expectedVersion r' = ap_expectedVersion r \<and> ap_safeParameters r' = ap_safeParameters r \<and>
     ap_payloadFingerprint r' = ap_payloadFingerprint r \<and> ap_requesterId r' = ap_requesterId r \<and>
     ap_expiresAt r' = ap_expiresAt r"

definition row_evolves :: "approval_row \<Rightarrow> approval_row \<Rightarrow> bool" where
  "row_evolves r r' \<longleftrightarrow>
     same_request r r' \<and> approval_transition\<^sup>*\<^sup>* (ap_status r) (ap_status r') \<and>
     (terminal (ap_status r) \<longrightarrow> r' = r)"

lemma terminal_rtrancl: "approval_transition\<^sup>*\<^sup>* s t \<Longrightarrow> terminal s \<Longrightarrow> t = s"
  by (induction rule: converse_rtranclp_induct) (auto simp: terminal_no_transition)

lemma row_evolves_refl [simp, intro]: "row_evolves r r"
  by (simp add: row_evolves_def same_request_def)

lemma row_evolves_trans: "row_evolves r s \<Longrightarrow> row_evolves s t \<Longrightarrow> row_evolves r t"
  by (auto simp: row_evolves_def same_request_def intro: rtranclp_trans)

lemma row_evolves_step:
  "same_request r r' \<Longrightarrow> approval_transition (ap_status r) (ap_status r') \<Longrightarrow> row_evolves r r'"
  by (auto simp: row_evolves_def terminal_no_transition)

definition evolves :: "governance_db \<Rightarrow> governance_db \<Rightarrow> bool" where
  "evolves db db' \<longleftrightarrow>
     (\<exists>olds news. approvals db' = olds @ news \<and> list_all2 row_evolves (approvals db) olds \<and>
        (\<forall>r \<in> set news. approval_transition\<^sup>*\<^sup>* REQUESTED (ap_status r)))"

lemma evolves_same: "approvals db' = approvals db \<Longrightarrow> evolves db db'"
  unfolding evolves_def by (intro exI [of _ "approvals db"] exI [of _ "[]"]) (simp add: list.rel_refl)

lemma evolves_update:
  assumes "approvals db' = update_where p f (approvals db)"
    and "\<And>r. r \<in> set (approvals db) \<Longrightarrow> p r \<Longrightarrow> row_evolves r (f r)"
  shows "evolves db db'"
  unfolding evolves_def
  by (intro exI [of _ "approvals db'"] exI [of _ "[]"])
    (use assms in \<open>simp add: list_all2_update_where\<close>)

lemma list_all2_member:
  "list_all2 R xs ys \<Longrightarrow> x \<in> set xs \<Longrightarrow> \<exists>y \<in> set ys. R x y"
  by (induction rule: list_all2_induct) auto

lemma list_all2_member2:
  "list_all2 R xs ys \<Longrightarrow> y \<in> set ys \<Longrightarrow> \<exists>x \<in> set xs. R x y"
  by (induction rule: list_all2_induct) auto

lemma evolves_rows:
  "evolves db db' \<Longrightarrow> r \<in> set (approvals db) \<Longrightarrow> \<exists>r' \<in> set (approvals db'). row_evolves r r'"
  unfolding evolves_def by (fastforce dest: list_all2_member)

lemma evolves_trans:
  assumes "evolves db db1" "evolves db1 db2"
  shows "evolves db db2"
proof -
  from assms(1) obtain olds news where 1: "approvals db1 = olds @ news"
    "list_all2 row_evolves (approvals db) olds"
    "\<forall>r \<in> set news. approval_transition\<^sup>*\<^sup>* REQUESTED (ap_status r)"
    by (auto simp: evolves_def)
  from assms(2) obtain olds2 news2 where 2: "approvals db2 = olds2 @ news2"
    "list_all2 row_evolves (olds @ news) olds2"
    "\<forall>r \<in> set news2. approval_transition\<^sup>*\<^sup>* REQUESTED (ap_status r)"
    by (auto simp: evolves_def 1(1))
  from 2(2) obtain us vs where uv: "olds2 = us @ vs" "list_all2 row_evolves olds us"
    "list_all2 row_evolves news vs"
    by (auto simp: list_all2_append1)
  have "list_all2 row_evolves (approvals db) us"
    by (rule list_all2_trans [OF row_evolves_trans 1(2) uv(2)])
  moreover have "\<forall>r \<in> set vs. approval_transition\<^sup>*\<^sup>* REQUESTED (ap_status r)"
    using uv(3) 1(3)
    by (auto simp: row_evolves_def dest!: list_all2_member2 intro: rtranclp_trans)
  ultimately show ?thesis
    using 2(1,3) uv(1) unfolding evolves_def by (intro exI [of _ us] exI [of _ "vs @ news2"]) auto
qed

section \<open>The invariant\<close>

definition row_ok :: "decision_row list \<Rightarrow> approval_row \<Rightarrow> bool" where
  "row_ok ds r \<longleftrightarrow>
     (ap_status r = REQUESTED \<longrightarrow> (\<forall>d \<in> set ds. de_requestId d \<noteq> ap_id r)) \<and>
     (ap_status r = APPROVED \<or> ap_status r = EXECUTED \<longrightarrow>
        (\<exists>d \<in> set ds. de_requestId d = ap_id r \<and> de_approved d)) \<and>
     (ap_status r = EXECUTED \<longleftrightarrow> ap_executionKey r \<noteq> None) \<and>
     (ap_status r = EXECUTED \<longleftrightarrow> ap_executedAt r \<noteq> None) \<and>
     (ap_status r = CANCELLED \<longleftrightarrow> ap_cancelledAt r \<noteq> None)"

definition decisions_ok :: "approval_row list \<Rightarrow> decision_row list \<Rightarrow> bool" where
  "decisions_ok rows ds \<longleftrightarrow>
     distinct (map (\<lambda>d. (de_requestId d, de_approverId d)) ds) \<and>
     (\<forall>d \<in> set ds. \<exists>r \<in> set rows. ap_id r = de_requestId d \<and> de_approverId d \<noteq> ap_requesterId r)"

definition ceremony_ok :: "governance_db \<Rightarrow> bool" where
  "ceremony_ok db \<longleftrightarrow>
     distinct (map ap_id (approvals db)) \<and>
     decisions_ok (approvals db) (decisions db) \<and>
     (\<forall>r \<in> set (approvals db). row_ok (decisions db) r)"

lemma ceremony_ok_empty: "approvals db = [] \<Longrightarrow> decisions db = [] \<Longrightarrow> ceremony_ok db"
  by (simp add: ceremony_ok_def decisions_ok_def)

lemma ceremony_ok_frame:
  "ceremony_ok db \<Longrightarrow> approvals db' = approvals db \<Longrightarrow> decisions db' = decisions db \<Longrightarrow> ceremony_ok db'"
  by (simp add: ceremony_ok_def)

lemma ceremony_okD:
  assumes "ceremony_ok db"
  shows "distinct (map ap_id (approvals db))"
    and "r \<in> set (approvals db) \<Longrightarrow> row_ok (decisions db) r"
    and "d \<in> set (decisions db) \<Longrightarrow> r \<in> set (approvals db) \<Longrightarrow> de_requestId d = ap_id r \<Longrightarrow>
           de_approverId d \<noteq> ap_requesterId r"
proof -
  from assms have distinct: "distinct (map ap_id (approvals db))"
    and ds: "decisions_ok (approvals db) (decisions db)"
    and rows: "\<forall>r \<in> set (approvals db). row_ok (decisions db) r"
    by (simp_all add: ceremony_ok_def)
  show "distinct (map ap_id (approvals db))" by (rule distinct)
  show "r \<in> set (approvals db) \<Longrightarrow> row_ok (decisions db) r" using rows by blast
  assume d: "d \<in> set (decisions db)" and r: "r \<in> set (approvals db)" "de_requestId d = ap_id r"
  from ds d obtain r' where r': "r' \<in> set (approvals db)" "ap_id r' = de_requestId d"
    "de_approverId d \<noteq> ap_requesterId r'"
    by (auto simp: decisions_ok_def)
  have "r' = r" by (rule distinct_key_eq [OF distinct r'(1) r(1)]) (simp add: r' r)
  with r' show "de_approverId d \<noteq> ap_requesterId r" by simp
qed

lemma find_approval_in:
  "ceremony_ok db \<Longrightarrow> r \<in> set (approvals db) \<Longrightarrow> find_approval (ap_id r) db = Some r"
  by (simp add: find_approval_def find_key ceremony_okD(1))

lemma find_approvalD: "find_approval i db = Some r \<Longrightarrow> r \<in> set (approvals db) \<and> ap_id r = i"
  unfolding find_approval_def by (drule find_SomeD) simp

text \<open>Rewriting rows without touching their identity keeps the invariant if the new rows are in order.\<close>

lemma ceremony_ok_update:
  assumes ok: "ceremony_ok db"
    and rows: "approvals db' = update_where p f (approvals db)" "decisions db' = decisions db"
    and same: "\<And>r. same_request r (f r)"
    and new: "\<And>r. r \<in> set (approvals db) \<Longrightarrow> p r \<Longrightarrow> row_ok (decisions db) (f r)"
  shows "ceremony_ok db'"
proof -
  have ids: "map ap_id (approvals db') = map ap_id (approvals db)"
    unfolding rows by (rule map_update_where) (use same in \<open>simp add: same_request_def\<close>)
  have keys: "\<exists>r' \<in> set (approvals db'). ap_id r' = ap_id r \<and> ap_requesterId r' = ap_requesterId r"
    if "r \<in> set (approvals db)" for r
    using that same [of r] by (auto simp: rows update_where_def same_request_def)
  have "decisions_ok (approvals db') (decisions db')"
    using ok keys unfolding ceremony_ok_def decisions_ok_def rows(2) by metis
  moreover have "row_ok (decisions db') r'" if "r' \<in> set (approvals db')" for r'
    using that ok new unfolding rows by (auto simp: ceremony_ok_def elim!: in_update_whereE)
  ultimately show ?thesis using ok ids by (simp add: ceremony_ok_def)
qed

section \<open>Each operation\<close>

text \<open>What every operation does to the ceremony's tables: the invariant holds afterwards and the
  stored requests have moved along the automaton.\<close>

definition advances :: "governance_db \<Rightarrow> governance_db \<Rightarrow> bool" where
  "advances db db' \<longleftrightarrow> ceremony_ok db' \<and> evolves db db'"

lemma advances_refl [simp, intro]: "ceremony_ok db \<Longrightarrow> advances db db"
  by (simp add: advances_def evolves_same)

lemma advances_frame:
  "ceremony_ok db \<Longrightarrow> approvals db' = approvals db \<Longrightarrow> decisions db' = decisions db \<Longrightarrow> advances db db'"
  by (auto simp: advances_def evolves_same intro: ceremony_ok_frame)

lemma advances_trans: "advances db db1 \<Longrightarrow> advances db1 db2 \<Longrightarrow> advances db db2"
  by (auto simp: advances_def intro: evolves_trans)

text \<open>An update of rows that makes one step of the automaton.\<close>

lemma advances_update:
  assumes "ceremony_ok db"
    and "approvals db' = update_where p f (approvals db)" "decisions db' = decisions db"
    and "\<And>r. same_request r (f r)"
    and "\<And>r. r \<in> set (approvals db) \<Longrightarrow> p r \<Longrightarrow>
           row_ok (decisions db) r \<Longrightarrow>
           row_ok (decisions db) (f r) \<and> approval_transition (ap_status r) (ap_status (f r))"
  shows "advances db db'"
  unfolding advances_def
proof
  show "ceremony_ok db'"
    using assms by (intro ceremony_ok_update [OF assms(1-4)]) (blast dest: ceremony_okD(2))
  show "evolves db db'"
    using assms by (intro evolves_update [OF assms(2)]) (blast intro: row_evolves_step dest: ceremony_okD(2))
qed

lemma same_request_updates [simp]:
  "same_request r (r\<lparr>ap_status := st\<rparr>)"
  "same_request r (r\<lparr>ap_status := st, ap_cancelledAt := c\<rparr>)"
  "same_request r (r\<lparr>ap_status := st, ap_executedAt := e, ap_executionKey := k\<rparr>)"
  by (simp_all add: same_request_def)

lemma mark_expired_advances:
  assumes "ceremony_ok db" "status = REQUESTED \<or> status = APPROVED"
  shows "advances db (mark_expired i status db)"
  by (rule advances_update [OF assms(1) mark_expired_rows(1) mark_expired_rows(2)])
    (use assms(2) in \<open>auto simp: row_ok_def transition_simps\<close>)

lemma cancel_store_advances:
  "ceremony_ok db \<Longrightarrow> advances db (cancel_store session request now db)"
  by (rule advances_update [OF _ cancel_store_rows(1) cancel_store_rows(2)])
    (auto simp: row_ok_def cancel_guard_def transition_simps)

lemma cancel_advances:
  "ceremony_ok db \<Longrightarrow> advances db (snd (cancelGovernanceApproval session requestId now db))"
  by (auto simp: cancelGovernanceApproval_def cancel_store_advances split: option.split)

lemma expire_store_advances:
  "ceremony_ok db \<Longrightarrow> advances db (expire_store actorId now request db)"
  by (rule advances_update [OF _ expire_store_rows(1) expire_store_rows(2)])
    (auto simp: row_ok_def expire_guard_def stale_def transition_simps)

lemma expire_each_advances:
  "ceremony_ok db \<Longrightarrow> advances db (expire_each actorId now requests db)"
proof (induction requests arbitrary: db)
  case Nil
  then show ?case by simp
next
  case (Cons request requests)
  have step: "advances db (expire_store actorId now request db)"
    by (rule expire_store_advances [OF Cons.prems])
  then have "advances (expire_store actorId now request db)
      (expire_each actorId now requests (expire_store actorId now request db))"
    by (intro Cons.IH) (simp add: advances_def)
  with step Cons show ?case by (auto intro: advances_trans)
qed

lemma expire_advances:
  "ceremony_ok db \<Longrightarrow> advances db (snd (expireStaleGovernanceApprovals actorId now db))"
  by (simp add: expireStaleGovernanceApprovals_def expire_each_advances Let_def)

lemma request_checks_row:
  assumes "request_checks digest input = Inr (p, row)"
  shows "ap_status row = REQUESTED" "ap_executionKey row = None" "ap_executedAt row = None"
    "ap_cancelledAt row = None" "ap_requesterId row = s_userId (rq_session input)"
    "ap_id row = rq_newId input" "ap_expiresAt row = rq_now input + gp_ttlSeconds p * 1000"
    "getGovernanceApprovalPolicy (ap_actionType row) = Some p" "gp_scope p = ap_scope row"
    "stepUp (rq_session input) (rq_now input)"
  using assms
  by (auto simp: request_checks_def new_approval_def Let_def split: option.splits if_splits sum.splits)

lemma request_commit_InrD:
  assumes "request_commit p row db = (Inr v, db')"
  shows "v = row" "db' = request_store p row db" "ap_id row \<notin> ap_id ` set (approvals db)"
    "\<forall>r \<in> set (approvals db). ap_payloadFingerprint r \<noteq> ap_payloadFingerprint row"
  using assms by (auto simp: request_commit_def list_ex_iff split: if_splits)

lemma request_store_advances:
  assumes ok: "ceremony_ok db" and fresh: "ap_id row \<notin> ap_id ` set (approvals db)"
    and row: "ap_status row = REQUESTED" "ap_executionKey row = None" "ap_executedAt row = None"
      "ap_cancelledAt row = None"
  shows "advances db (request_store p row db)"
  unfolding advances_def
proof
  from ok have ds: "decisions_ok (approvals db) (decisions db)" by (simp add: ceremony_ok_def)
  with fresh have none: "\<forall>d \<in> set (decisions db). de_requestId d \<noteq> ap_id row"
    unfolding decisions_ok_def by (metis imageI)
  with row have "row_ok (decisions db) row" by (simp add: row_ok_def)
  moreover have "decisions_ok (approvals db @ [row]) (decisions db)"
    using ds by (auto simp: decisions_ok_def)
  ultimately show "ceremony_ok (request_store p row db)"
    using ok fresh by (simp add: ceremony_ok_def)
  show "evolves db (request_store p row db)"
    unfolding evolves_def
    by (intro exI [of _ "approvals db"] exI [of _ "[row]"]) (simp add: list.rel_refl row)
qed

lemma request_InrD:
  assumes "requestGovernanceApproval digest input db = (Inr v, db')"
  obtains p where "request_checks digest input = Inr (p, v)" "db' = request_store p v db"
    "ap_id v \<notin> ap_id ` set (approvals db)"
proof -
  from assms obtain p row where checks: "request_checks digest input = Inr (p, row)"
    and commit: "request_commit p row db = (Inr v, db')"
    by (auto simp: requestGovernanceApproval_def split: sum.splits if_splits
        dest!: in_transaction_InrD)
  from request_commit_InrD [OF commit] checks that show thesis by metis
qed

lemma request_InlD:
  "requestGovernanceApproval digest input db = (Inl e, db') \<Longrightarrow> db' = db"
  by (auto simp: requestGovernanceApproval_def split: sum.splits if_splits prod.splits
      dest!: in_transaction_InlD)

lemma request_advances:
  assumes "ceremony_ok db"
  shows "advances db (snd (requestGovernanceApproval digest input db))"
proof (cases "requestGovernanceApproval digest input db")
  case (Pair result db')
  show ?thesis
  proof (cases result)
    case (Inl e)
    with Pair assms show ?thesis by (auto dest: request_InlD)
  next
    case (Inr row)
    with Pair have "requestGovernanceApproval digest input db = (Inr row, db')" by simp
    then obtain p where "request_checks digest input = Inr (p, row)" "db' = request_store p row db"
      "ap_id row \<notin> ap_id ` set (approvals db)"
      by (rule request_InrD)
    with assms Pair show ?thesis by (simp add: request_store_advances request_checks_row)
  qed
qed

lemma decided_status_one:
  "gp_minimumApprovals p = 1 \<Longrightarrow>
     decided_status approved previous p = (if approved then APPROVED else REJECTED)"
  by (simp add: decided_status_def Let_def)

lemma decide_read_InrD:
  assumes "decide_read input db = Inr (request, previous, p)"
  shows "find_approval (dc_requestId input) db = Some request"
    "ap_requesterId request \<noteq> s_userId (dc_session input)" "ap_status request = REQUESTED"
    "dc_now input < ap_expiresAt request"
    "getGovernanceApprovalPolicy (ap_actionType request) = Some p"
    "ap_scope request = ORGANIZATION \<Longrightarrow> ap_companyId request = s_companyId (dc_session input)"
    "previous = decisions_of (dc_requestId input) db"
  using assms by (auto simp: decide_read_def same_present_iff split: option.splits if_splits)

lemma decide_commit_InrD:
  assumes "decide_commit input (request, previous, p) db = (Inr status, db')"
  shows "status = decided_status (dc_approved input) previous p"
    "db' = decide_store input request status db"
    "count_where (decide_guard (ap_id request)) (approvals db) = 1"
    "\<forall>d \<in> set (decisions db). de_requestId d \<noteq> ap_id request \<or>
       de_approverId d \<noteq> s_userId (dc_session input)"
  using assms by (auto simp: decide_commit_def Let_def list_ex_iff split: if_splits)

text \<open>A decision: the request was open, so it had no decision; the new decision is by another user and
  the row moves to approved or rejected.\<close>

lemma decide_store_advances:
  assumes ok: "ceremony_ok db" and request: "request \<in> set (approvals db)"
    and other: "ap_requesterId request \<noteq> s_userId (dc_session input)"
    and open_: "ap_status request = REQUESTED"
    and status: "status = (if dc_approved input then APPROVED else REJECTED)"
  shows "advances db (decide_store input request status db)"
proof -
  let ?d = "\<lparr>de_requestId = ap_id request, de_approverId = s_userId (dc_session input),
              de_approved = dc_approved input\<rparr>"
  let ?f = "\<lambda>r. r\<lparr>ap_status := status\<rparr>"
  let ?rows = "update_where (decide_guard (ap_id request)) ?f (approvals db)"
  have none: "\<forall>d \<in> set (decisions db). de_requestId d \<noteq> ap_id request"
    using ceremony_okD(2) [OF ok request] open_ by (simp add: row_ok_def)
  have same: "r = request" if "r \<in> set (approvals db)" "ap_id r = ap_id request" for r
    using distinct_key_eq [OF ceremony_okD(1) [OF ok] that(1) request that(2)] .
  have rows: "row_ok (decisions db @ [?d]) r'" if "r' \<in> set ?rows" for r'
    using that
  proof (cases rule: in_update_whereE)
    case kept
    with open_ same have "ap_id r' \<noteq> ap_id request" by (auto simp: decide_guard_def)
    with ceremony_okD(2) [OF ok kept(1)] show ?thesis by (auto simp: row_ok_def)
  next
    case (changed r)
    with ceremony_okD(2) [OF ok changed(1)] status show ?thesis
      by (auto simp: row_ok_def decide_guard_def)
  qed
  have keys: "\<exists>r' \<in> set ?rows. ap_id r' = ap_id r \<and> ap_requesterId r' = ap_requesterId r"
    if "r \<in> set (approvals db)" for r
    by (rule bexI [OF _ update_where_member [OF that, of "decide_guard (ap_id request)" ?f]]) simp
  have "distinct (map (\<lambda>d. (de_requestId d, de_approverId d)) (decisions db @ [?d]))"
    using ok none by (auto simp: ceremony_ok_def decisions_ok_def)
  moreover have "\<exists>r' \<in> set ?rows. ap_id r' = de_requestId d \<and> de_approverId d \<noteq> ap_requesterId r'"
    if "d \<in> set (decisions db @ [?d])" for d
  proof (cases "d = ?d")
    case True
    with keys [OF request] other show ?thesis by auto
  next
    case False
    with that ok obtain r where "r \<in> set (approvals db)" "ap_id r = de_requestId d"
      "de_approverId d \<noteq> ap_requesterId r"
      by (auto simp: ceremony_ok_def decisions_ok_def)
    with keys [of r] show ?thesis by metis
  qed
  moreover have "map ap_id ?rows = map ap_id (approvals db)"
    by (rule map_update_where) simp
  ultimately have "ceremony_ok (decide_store input request status db)"
    using ok rows by (simp add: ceremony_ok_def decisions_ok_def)
  moreover have "evolves db (decide_store input request status db)"
    by (rule evolves_update [OF decide_store_rows(1)])
      (use status in \<open>auto simp: decide_guard_def transition_simps intro!: row_evolves_step\<close>)
  ultimately show ?thesis by (simp add: advances_def)
qed

lemma decide_transaction_InrD:
  assumes "ceremony_ok db" "decide_transaction input db = (Inr status, db')"
  obtains request p where "find_approval (dc_requestId input) db = Some request"
    "decide_read input db = Inr (request, decisions_of (dc_requestId input) db, p)"
    "status = (if dc_approved input then APPROVED else REJECTED)"
    "db' = decide_store input request status db"
proof -
  from assms(2) obtain request previous p where
    read: "decide_read input db = Inr (request, previous, p)"
    and commit: "decide_commit input (request, previous, p) db = (Inr status, db')"
    by (auto simp: decide_transaction_def split: sum.splits)
  note facts = decide_read_InrD [OF read] decide_commit_InrD [OF commit]
  have "status = (if dc_approved input then APPROVED else REJECTED)"
    using facts(8) decided_status_one [OF registry_uniform(1) [OF facts(5)]] by simp
  with facts read that show thesis by metis
qed

lemma decide_transaction_advances:
  assumes "ceremony_ok db" "decide_transaction input db = (Inr status, db')"
  shows "advances db db'"
proof -
  obtain request p where r: "find_approval (dc_requestId input) db = Some request"
    "decide_read input db = Inr (request, decisions_of (dc_requestId input) db, p)"
    "status = (if dc_approved input then APPROVED else REJECTED)"
    "db' = decide_store input request status db"
    by (rule decide_transaction_InrD [OF assms])
  with decide_read_InrD [OF r(2)] find_approvalD [OF r(1)] assms(1)
  show ?thesis by (simp add: decide_store_advances)
qed

lemma decide_advances:
  assumes "ceremony_ok db"
  shows "advances db (snd (decideGovernanceApproval input db))"
  using assms decide_transaction_advances [OF assms]
  by (auto simp: decideGovernanceApproval_def mark_expired_advances intro: in_transaction_keeps)

section \<open>Execution\<close>

lemma execute_read_InrD:
  assumes "execute_read digest input db = Inr (request, ds, ps)"
  shows "find_approval (ex_requestId input) db = Some request"
    "ap_actionType request = ex_expectedActionType input"
    "ap_requesterId request = s_userId (ex_session input)" "ap_status request = APPROVED"
    "ex_now input < ap_expiresAt request"
    "ds = decisions_of (ex_requestId input) db"
    "\<exists>d \<in> set ds. de_approved d \<and> de_approverId d \<noteq> ap_requesterId request"
    "ap_expectedVersion request = None \<or> ap_expectedVersion request = ex_currentResourceVersion input"
    "ap_scope request = ORGANIZATION \<Longrightarrow> ap_companyId request = s_companyId (ex_session input)"
    "ap_safeParameters request = JObject ps"
    "governanceApprovalFingerprint digest (ap_actionType request) (ap_scope request)
       (ap_companyId request) (ap_resourceId request) (ap_expectedVersion request) ps
       (ap_requesterId request) (ap_expiresAt request) = Inr (ap_payloadFingerprint request)"
proof -
  from assms obtain p where p: "getGovernanceApprovalPolicy (ap_actionType request) = Some p"
    "\<not> length (valid_approvers request ds) < gp_minimumApprovals p"
    by (auto simp: execute_read_def Let_def split: option.splits if_splits sum.splits)
  then have "valid_approvers request ds \<noteq> []"
    using registry_uniform(1) [OF p(1)] by auto
  then show "\<exists>d \<in> set ds. de_approved d \<and> de_approverId d \<noteq> ap_requesterId request"
    by (auto simp: valid_approvers_def filter_empty_conv)
qed (use assms in \<open>auto simp: execute_read_def Let_def same_present_iff asSafeParameters_Inr
       split: option.splits if_splits sum.splits\<close>)

text \<open>What the executor is called with once the claim is taken.\<close>

definition claimed_call ::
  "execute_input \<Rightarrow> 'a executor \<Rightarrow> approval_row \<Rightarrow> safe_parameters \<Rightarrow> governance_db \<Rightarrow>
     (approval_error, 'a, governance_db) handled" where
  "claimed_call input execute request ps db =
     execute (execute_claim input (ap_id request) db)
       \<lparr>ar_id = ap_id request, ar_companyId = ap_companyId request,
        ar_resourceId = ap_resourceId request, ar_safeParameters = ps\<rparr>"

lemma execute_commit_InrD:
  assumes "execute_commit input execute (request, ds, ps) db = (Inr v, db')"
  obtains db1 where "claimed_call input execute request ps db = (Inr v, db1)"
    "db' = execute_report input request ds db1"
    "count_where (claim_guard (ap_id request)) (approvals db) = 1"
    "\<forall>r \<in> set (approvals db). ap_executionKey r \<noteq> Some (ex_executionKey input)"
  using assms
  by (auto simp: execute_commit_def claimed_call_def list_ex_iff split: if_splits prod.splits sum.splits)

lemma execute_InrD:
  assumes "executeGovernanceApproval digest input execute db = (Inr v, db')"
  obtains request ds ps db1 where "execute_read digest input db = Inr (request, ds, ps)"
    "stepUp (ex_session input) (ex_now input)" "ex_executionAuthorized input"
    "claimed_call input execute request ps db = (Inr v, db1)"
    "db' = execute_report input request ds db1"
    "count_where (claim_guard (ap_id request)) (approvals db) = 1"
proof -
  from assms have guards: "stepUp (ex_session input) (ex_now input)" "ex_executionAuthorized input"
    and "in_transaction (execute_transaction digest input execute) db = (Inr v, db')"
    by (auto simp: executeGovernanceApproval_def split: if_splits)
  then have "execute_transaction digest input execute db = (Inr v, db')"
    by (blast dest: in_transaction_InrD)
  then obtain request ds ps where read: "execute_read digest input db = Inr (request, ds, ps)"
    and commit: "execute_commit input execute (request, ds, ps) db = (Inr v, db')"
    by (auto simp: execute_transaction_def split: sum.splits)
  show thesis
    by (rule execute_commit_InrD [OF commit]) (use that read guards in blast)
qed

lemma execute_InlD:
  assumes "executeGovernanceApproval digest input execute db = (Inl e, db')"
  shows "db' = db \<or> db' = mark_expired (ex_requestId input) APPROVED db"
  using assms
  by (auto simp: executeGovernanceApproval_def split: if_splits dest!: in_transaction_InlD)

lemma execute_claim_advances:
  assumes "ceremony_ok db"
  shows "advances db (execute_claim input i db)"
  by (rule advances_update [OF assms execute_claim_rows(1) execute_claim_rows(2)])
    (auto simp: row_ok_def claim_guard_def transition_simps)

text \<open>The contract of an executor: it leaves the ceremony's own tables alone.\<close>

locale approval_executor =
  fixes execute :: "'a executor"
  assumes keeps_ceremony: "execute db request = (Inr v, db') \<Longrightarrow>
    approvals db' = approvals db \<and> decisions db' = decisions db"
begin

lemma claimed_call_rows:
  assumes "claimed_call input execute request ps db = (Inr v, db1)"
  shows "approvals db1 = approvals (execute_claim input (ap_id request) db)"
    "decisions db1 = decisions db"
  using keeps_ceremony [OF assms [unfolded claimed_call_def]] by simp_all

lemma execute_advances:
  assumes ok: "ceremony_ok db"
  shows "advances db (snd (executeGovernanceApproval digest input execute db))"
proof (cases "executeGovernanceApproval digest input execute db")
  case (Pair result db')
  show ?thesis
  proof (cases result)
    case (Inl e)
    with Pair execute_InlD [of digest input execute db e db'] ok show ?thesis
      by (auto simp: mark_expired_advances)
  next
    case (Inr v)
    with Pair have run: "executeGovernanceApproval digest input execute db = (Inr v, db')" by simp
    show ?thesis
    proof (rule execute_InrD [OF run])
      fix request ds ps db1
      assume call: "claimed_call input execute request ps db = (Inr v, db1)"
        and db': "db' = execute_report input request ds db1"
      have "advances db (execute_claim input (ap_id request) db)"
        by (rule execute_claim_advances [OF ok])
      then have "advances (execute_claim input (ap_id request) db) db'"
        using claimed_call_rows [OF call] db'
        by (intro advances_frame) (auto simp: advances_def)
      with \<open>advances db (execute_claim input (ap_id request) db)\<close> show ?thesis
        using Pair by (auto intro: advances_trans)
    qed
  qed
qed

text \<open>After a successful execution the row is executed, so it is no longer claimable.\<close>

lemma executed_row:
  assumes ok: "ceremony_ok db"
    and run: "executeGovernanceApproval digest input execute db = (Inr v, db')"
  shows "\<exists>r \<in> set (approvals db'). ap_id r = ex_requestId input \<and> ap_status r = EXECUTED"
proof (rule execute_InrD [OF run])
  fix request ds ps db1
  assume read: "execute_read digest input db = Inr (request, ds, ps)"
    and call: "claimed_call input execute request ps db = (Inr v, db1)"
    and db': "db' = execute_report input request ds db1"
    and one: "count_where (claim_guard (ap_id request)) (approvals db) = 1"
  have id: "ap_id request = ex_requestId input"
    using find_approvalD [OF execute_read_InrD(1) [OF read]] by simp
  from one obtain r where "r \<in> set (approvals db)" "claim_guard (ap_id request) r"
    using count_where_pos [of "claim_guard (ap_id request)" "approvals db"] by auto
  then have "r\<lparr>ap_status := EXECUTED, ap_executedAt := Some (ex_now input),
      ap_executionKey := Some (ex_executionKey input)\<rparr> \<in> set (approvals db')"
    using claimed_call_rows(1) [OF call] db' update_where_member [of r "approvals db"
      "claim_guard (ap_id request)"] by (simp add: set_update_where)
  then show ?thesis
    by (rule bexI [rotated]) (use \<open>claim_guard _ r\<close> id in \<open>simp add: claim_guard_def\<close>)
qed

end

section \<open>Runs\<close>

datatype approval_op =
    Request request_input
  | Decide decide_input
  | Cancel app_session string ms
  | Expire "string option" ms
  | Execute execute_input

fun approval_step ::
  "(json \<Rightarrow> string) \<Rightarrow> 'a executor \<Rightarrow> approval_op \<Rightarrow> governance_db \<Rightarrow> governance_db" where
  "approval_step digest execute (Request input) db = snd (requestGovernanceApproval digest input db)"
| "approval_step digest execute (Decide input) db = snd (decideGovernanceApproval input db)"
| "approval_step digest execute (Cancel session requestId now) db =
     snd (cancelGovernanceApproval session requestId now db)"
| "approval_step digest execute (Expire actorId now) db =
     snd (expireStaleGovernanceApprovals actorId now db)"
| "approval_step digest execute (Execute input) db =
     snd (executeGovernanceApproval digest input execute db)"

fun approval_run ::
  "(json \<Rightarrow> string) \<Rightarrow> 'a executor \<Rightarrow> approval_op list \<Rightarrow> governance_db \<Rightarrow> governance_db" where
  "approval_run digest execute [] db = db"
| "approval_run digest execute (op # ops) db =
     approval_run digest execute ops (approval_step digest execute op db)"

text \<open>How often a run executes a given request.\<close>

fun executes :: "(json \<Rightarrow> string) \<Rightarrow> 'a executor \<Rightarrow> string \<Rightarrow> approval_op \<Rightarrow> governance_db \<Rightarrow> bool" where
  "executes digest execute i (Execute input) db =
     (ex_requestId input = i \<and> succeeds (executeGovernanceApproval digest input execute db))"
| "executes digest execute i op db = False"

fun execution_count ::
  "(json \<Rightarrow> string) \<Rightarrow> 'a executor \<Rightarrow> string \<Rightarrow> approval_op list \<Rightarrow> governance_db \<Rightarrow> nat" where
  "execution_count digest execute i [] db = 0"
| "execution_count digest execute i (op # ops) db =
     (if executes digest execute i op db then 1 else 0) +
     execution_count digest execute i ops (approval_step digest execute op db)"

definition executed :: "string \<Rightarrow> governance_db \<Rightarrow> bool" where
  "executed i db \<longleftrightarrow> (\<exists>r \<in> set (approvals db). ap_id r = i \<and> ap_status r = EXECUTED)"

context approval_executor begin

lemma step_advances: "ceremony_ok db \<Longrightarrow> advances db (approval_step digest execute op db)"
  by (cases op) (simp_all add: request_advances decide_advances cancel_advances expire_advances
      execute_advances)

lemma run_advances: "ceremony_ok db \<Longrightarrow> advances db (approval_run digest execute ops db)"
proof (induction ops arbitrary: db)
  case Nil
  then show ?case by simp
next
  case (Cons op ops)
  have step: "advances db (approval_step digest execute op db)"
    by (rule step_advances [OF Cons.prems])
  with Cons.IH [of "approval_step digest execute op db"] show ?case
    by (auto simp: advances_def intro: evolves_trans)
qed

text \<open>An executed request stays executed and is not executed again.\<close>

lemma executed_stays:
  assumes "ceremony_ok db" "executed i db"
  shows "executed i (approval_step digest execute op db)"
proof -
  from assms(2) obtain r where r: "r \<in> set (approvals db)" "ap_id r = i" "ap_status r = EXECUTED"
    by (auto simp: executed_def)
  have "evolves db (approval_step digest execute op db)"
    using step_advances [OF assms(1)] by (simp add: advances_def)
  from evolves_rows [OF this r(1)] r show ?thesis
    by (auto simp: executed_def row_evolves_def terminal_def)
qed

lemma executed_not_again:
  assumes ok: "ceremony_ok db" and was: "executed i db"
  shows "\<not> executes digest execute i op db"
proof (cases op)
  case (Execute input)
  have False if "ex_requestId input = i"
    "executeGovernanceApproval digest input execute db = (Inr v, db')" for v db'
  proof (rule execute_InrD [OF that(2)])
    fix request ds ps
    assume read: "execute_read digest input db = Inr (request, ds, ps)"
    from was obtain r where r: "r \<in> set (approvals db)" "ap_id r = i" "ap_status r = EXECUTED"
      by (auto simp: executed_def)
    have "r = request"
      using find_approval_in [OF ok r(1)] execute_read_InrD(1) [OF read] r(2) that(1) by simp
    with execute_read_InrD(4) [OF read] r(3) show False by simp
  qed
  with Execute show ?thesis
    by (cases "executeGovernanceApproval digest input execute db") (auto simp: succeeds_def)
qed simp_all

lemma executes_executed:
  assumes "ceremony_ok db" "executes digest execute i op db"
  shows "executed i (approval_step digest execute op db)"
proof (cases op)
  case (Execute input)
  with assms(2) obtain v db' where
    "executeGovernanceApproval digest input execute db = (Inr v, db')" "ex_requestId input = i"
    by (cases "executeGovernanceApproval digest input execute db") (auto simp: succeeds_def)
  with executed_row [OF assms(1)] Execute show ?thesis by (auto simp: executed_def)
qed (use assms(2) in simp_all)

lemma no_execution_after:
  "ceremony_ok db \<Longrightarrow> executed i db \<Longrightarrow> execution_count digest execute i ops db = 0"
proof (induction ops arbitrary: db)
  case Nil
  then show ?case by simp
next
  case (Cons op ops)
  have "ceremony_ok (approval_step digest execute op db)"
    using step_advances [OF Cons.prems(1)] by (simp add: advances_def)
  with Cons executed_stays executed_not_again show ?case by simp
qed

lemma at_most_once: "ceremony_ok db \<Longrightarrow> execution_count digest execute i ops db \<le> 1"
proof (induction ops arbitrary: db)
  case Nil
  then show ?case by simp
next
  case (Cons op ops)
  have ok: "ceremony_ok (approval_step digest execute op db)"
    using step_advances [OF Cons.prems] by (simp add: advances_def)
  show ?case
  proof (cases "executes digest execute i op db")
    case True
    with no_execution_after [OF ok executes_executed [OF Cons.prems True]] show ?thesis by simp
  next
    case False
    with Cons.IH [OF ok] show ?thesis by simp
  qed
qed

end

end
