(* ===== verification/PlatformRoles.thy ===== *)
theory PlatformRoles
  imports ApprovalCeremony
begin

text \<open>
  Platform role assignments (\<open>lib/platform-role-governance.ts\<close>): an operator changes the ordinary
  roles directly; the owner role changes only through an executed approval, whose executor is the
  one the ceremony is instantiated with here.
\<close>

section \<open>Assignments\<close>

definition find_user :: "string \<Rightarrow> governance_db \<Rightarrow> user_row option" where
  "find_user userId db = List.find (\<lambda>u. us_id u = userId) (users db)"

definition target_inactive :: "string \<Rightarrow> governance_db \<Rightarrow> bool" where
  "target_inactive userId db =
     (case find_user userId db of
        None \<Rightarrow> True
      | Some u \<Rightarrow> \<not> us_active u \<or> us_disabledAt u \<noteq> None)"

definition find_assignment ::
  "string \<Rightarrow> platform_system_role \<Rightarrow> governance_db \<Rightarrow> assignment_row option" where
  "find_assignment userId role db =
     List.find (\<lambda>a. as_userId a = userId \<and> as_role a = role) (assignments db)"

definition assignment_version :: "assignment_row option \<Rightarrow> int" where
  "assignment_version a = (case a of None \<Rightarrow> 0 | Some a \<Rightarrow> as_version a)"

text \<open>
  The write both handlers share: update the row under its version, or insert it. \<open>disabledAt\<close> of an
  active assignment is null. The schema's defaults are version 1 and active.
\<close>

definition version_guard :: "string \<Rightarrow> int \<Rightarrow> assignment_row \<Rightarrow> bool" where
  "version_guard i version a \<longleftrightarrow> as_id a = i \<and> as_version a = version"

definition change_assignment ::
  "bool \<Rightarrow> ms \<Rightarrow> string \<Rightarrow> assignment_row \<Rightarrow> assignment_row" where
  "change_assignment active now actorId a =
     a\<lparr>as_active := active, as_disabledAt := if active then None else Some now,
       as_assignedById := Some actorId, as_version := as_version a + 1\<rparr>"

definition update_assignment ::
  "string \<Rightarrow> int \<Rightarrow> bool \<Rightarrow> ms \<Rightarrow> string \<Rightarrow> governance_db \<Rightarrow>
     (approval_error, assignment_row, governance_db) handled" where
  "update_assignment i version active now actorId db =
     (if count_where (version_guard i version) (assignments db) \<noteq> 1
      then (Inl PLATFORM_ROLE_VERSION_CHANGED, db)
      else
        let db' = db\<lparr>assignments := update_where (version_guard i version)
                      (change_assignment active now actorId) (assignments db)\<rparr> in
        case List.find (\<lambda>a. as_id a = i) (assignments db') of
          None \<Rightarrow> (Inl RECORD_NOT_FOUND, db')
        | Some a \<Rightarrow> (Inr a, db'))"

definition create_assignment ::
  "assignment_row \<Rightarrow> governance_db \<Rightarrow> (approval_error, assignment_row, governance_db) handled" where
  "create_assignment a db =
     (if list_ex (\<lambda>b. as_id b = as_id a \<or> as_userId b = as_userId a \<and> as_role b = as_role a)
           (assignments db)
      then (Inl UNIQUE_CONSTRAINT_VIOLATION, db)
      else (Inr a, db\<lparr>assignments := assignments db @ [a]\<rparr>))"

definition role_audit ::
  "string \<Rightarrow> string \<Rightarrow> string \<Rightarrow> string option \<Rightarrow> (string \<times> json) list \<Rightarrow> audit_row" where
  "role_audit actorId action targetId correlationId metadata =
     \<lparr>au_companyId = None, au_actorId = Some actorId, au_action = action,
      au_targetType = ''platform-role-assignment'', au_targetId = Some targetId,
      au_result = ''SUCCEEDED'', au_correlationId = correlationId, au_safeMetadata = metadata\<rparr>"

section \<open>Ordinary roles\<close>

definition ASSIGNABLE_PLATFORM_ROLES :: "string list" where
  "ASSIGNABLE_PLATFORM_ROLES =
     [''PLATFORM_ADMIN'', ''PLATFORM_SUPPORT'', ''PLATFORM_AUDITOR'', ''PLATFORM_OPERATOR'']"

record role_change =
  rc_session :: app_session
  rc_targetUserId :: string
  rc_role :: string
  rc_active :: bool
  rc_expectedVersion :: int
  rc_confirmation :: string
  rc_now :: ms
  rc_newId :: string

definition role_change_report ::
  "role_change \<Rightarrow> platform_system_role \<Rightarrow> assignment_row \<Rightarrow> governance_db \<Rightarrow> governance_db" where
  "role_change_report input role assignment db =
     add_audit (role_audit (s_userId (rc_session input))
        (if rc_active input then ''platform.role.assigned'' else ''platform.role.removed'')
        (as_id assignment) None
        [(''role'', JString (platform_role_name role)),
         (''assignmentVersion'', JNumber (as_version assignment))])
       (revoke_user_sessions (rc_targetUserId input) (rc_now input) db)"

definition role_change_store ::
  "role_change \<Rightarrow> platform_system_role \<Rightarrow> assignment_row option \<Rightarrow> governance_db \<Rightarrow>
     (approval_error, assignment_row, governance_db) handled" where
  "role_change_store input role existing db =
     (case existing of
        Some a \<Rightarrow> update_assignment (as_id a) (rc_expectedVersion input) (rc_active input)
                    (rc_now input) (s_userId (rc_session input)) db
      | None \<Rightarrow> create_assignment
                  \<lparr>as_id = rc_newId input, as_userId = rc_targetUserId input, as_role = role,
                   as_active = rc_active input, as_version = 1,
                   as_assignedById = Some (s_userId (rc_session input)),
                   as_disabledAt = if rc_active input then None else Some (rc_now input)\<rparr> db)"

definition role_change_transaction ::
  "role_change \<Rightarrow> platform_system_role \<Rightarrow> governance_db \<Rightarrow>
     (approval_error, assignment_row, governance_db) handled" where
  "role_change_transaction input role db =
     (if target_inactive (rc_targetUserId input) db then (Inl PLATFORM_ROLE_TARGET_INACTIVE, db)
      else
        let existing = find_assignment (rc_targetUserId input) role db in
        if assignment_version existing \<noteq> rc_expectedVersion input
        then (Inl PLATFORM_ROLE_VERSION_CHANGED, db)
        else if existing = None \<and> \<not> rc_active input
        then (Inl PLATFORM_ROLE_ASSIGNMENT_NOT_FOUND, db)
        else
          case role_change_store input role existing db of
            (Inl e, db') \<Rightarrow> (Inl e, db')
          | (Inr a, db') \<Rightarrow> (Inr a, role_change_report input role a db'))"

definition changePlatformRoleAssignment ::
  "role_change \<Rightarrow> governance_db \<Rightarrow> (approval_error, assignment_row, governance_db) handled" where
  "changePlatformRoleAssignment input db =
     (case (if contains ASSIGNABLE_PLATFORM_ROLES (rc_role input)
            then platform_role_of (rc_role input) else None) of
        None \<Rightarrow> (Inl PLATFORM_ROLE_INVALID, db)
      | Some role \<Rightarrow>
          if \<not> stepUp (rc_session input) (rc_now input) then (Inl PLATFORM_ROLE_STEP_UP_REQUIRED, db)
          else if rc_confirmation input \<noteq>
                    (if rc_active input then ''ASSIGN PLATFORM ROLE'' else ''REMOVE PLATFORM ROLE'')
          then (Inl PLATFORM_ROLE_CONFIRMATION_REQUIRED, db)
          else if \<not> available db then (Inl PLATFORM_ROLE_DATABASE_UNAVAILABLE, db)
          else in_transaction (role_change_transaction input role) db)"

section \<open>The owner role\<close>

datatype owner_action = ASSIGN | REMOVE

record owner_change =
  ow_session :: app_session
  ow_approvalId :: string
  ow_targetUserId :: string
  ow_action :: owner_action
  ow_authorized :: bool
  ow_now :: ms
  ow_newId :: string

definition active_owner :: "assignment_row \<Rightarrow> bool" where
  "active_owner a \<longleftrightarrow> as_role a = PLATFORM_OWNER \<and> as_active a \<and> as_disabledAt a = None"

definition owner_change_store ::
  "owner_change \<Rightarrow> int \<Rightarrow> assignment_row option \<Rightarrow> governance_db \<Rightarrow>
     (approval_error, assignment_row, governance_db) handled" where
  "owner_change_store input currentVersion current db =
     (case current of
        None \<Rightarrow> create_assignment
                  \<lparr>as_id = ow_newId input, as_userId = ow_targetUserId input,
                   as_role = PLATFORM_OWNER, as_active = True, as_version = 1,
                   as_assignedById = Some (s_userId (ow_session input)), as_disabledAt = None\<rparr> db
      | Some a \<Rightarrow> update_assignment (as_id a) currentVersion (ow_action input = ASSIGN)
                    (ow_now input) (s_userId (ow_session input)) db)"

definition owner_change_report ::
  "owner_change \<Rightarrow> assignment_row \<Rightarrow> governance_db \<Rightarrow> governance_db" where
  "owner_change_report input assignment db =
     add_audit (role_audit (s_userId (ow_session input))
        (if ow_action input = ASSIGN then ''platform.owner.assigned'' else ''platform.owner.removed'')
        (as_id assignment) None
        [(''approvalId'', JString (ow_approvalId input)),
         (''assignmentVersion'', JNumber (as_version assignment))])
       (revoke_user_sessions (ow_targetUserId input) (ow_now input) db)"

definition owner_executor :: "owner_change \<Rightarrow> int \<Rightarrow> assignment_row executor" where
  "owner_executor input currentVersion db request =
     (if map_of (ar_safeParameters request) ''targetUserId'' \<noteq> Some (JString (ow_targetUserId input)) \<or>
         map_of (ar_safeParameters request) ''assignmentVersion'' \<noteq> Some (JNumber currentVersion) \<or>
         ar_resourceId request \<noteq> Some (ow_targetUserId input)
      then (Inl APPROVAL_TARGET_CHANGED, db)
      else if target_inactive (ow_targetUserId input) db then (Inl PLATFORM_ROLE_TARGET_INACTIVE, db)
      else
        let current = find_assignment (ow_targetUserId input) PLATFORM_OWNER db in
        if assignment_version current \<noteq> currentVersion then (Inl PLATFORM_ROLE_VERSION_CHANGED, db)
        else if ow_action input = REMOVE \<and>
                (count_where active_owner (assignments db) \<le> 1 \<or>
                 (case current of None \<Rightarrow> True | Some a \<Rightarrow> \<not> as_active a))
        then (Inl LAST_PLATFORM_OWNER_PROTECTED, db)
        else
          case owner_change_store input currentVersion current db of
            (Inl e, db') \<Rightarrow> (Inl e, db')
          | (Inr a, db') \<Rightarrow> (Inr a, owner_change_report input a db'))"

definition owner_execution :: "owner_change \<Rightarrow> int \<Rightarrow> execute_input" where
  "owner_execution input currentVersion =
     \<lparr>ex_session = ow_session input, ex_requestId = ow_approvalId input,
      ex_executionKey = ''platform-owner:'' @ ow_approvalId input,
      ex_executionAuthorized = ow_authorized input,
      ex_expectedActionType = (if ow_action input = ASSIGN then ''PLATFORM_OWNER_ASSIGN''
                               else ''PLATFORM_OWNER_REMOVE''),
      ex_currentResourceVersion = Some currentVersion, ex_now = ow_now input\<rparr>"

definition executePlatformOwnerChange ::
  "(json \<Rightarrow> string) \<Rightarrow> owner_change \<Rightarrow> governance_db \<Rightarrow>
     (approval_error, assignment_row, governance_db) handled" where
  "executePlatformOwnerChange digest input db =
     (if \<not> available db then (Inl APPROVAL_DATABASE_UNAVAILABLE, db)
      else
        let currentVersion =
              assignment_version (find_assignment (ow_targetUserId input) PLATFORM_OWNER db) in
        executeGovernanceApproval digest (owner_execution input currentVersion)
          (owner_executor input currentVersion) db)"

section \<open>Lemmas\<close>

lemma change_assignment_simps [simp]:
  "as_id (change_assignment b now u a) = as_id a"
  "as_userId (change_assignment b now u a) = as_userId a"
  "as_role (change_assignment b now u a) = as_role a"
  "as_active (change_assignment b now u a) = b"
  "as_version (change_assignment b now u a) = as_version a + 1"
  "as_disabledAt (change_assignment b now u a) = (if b then None else Some now)"
  by (simp_all add: change_assignment_def)

text \<open>What the two writes may touch.\<close>

definition only_assignments :: "governance_db \<Rightarrow> governance_db \<Rightarrow> bool" where
  "only_assignments db db' \<longleftrightarrow>
     approvals db' = approvals db \<and> decisions db' = decisions db \<and> users db' = users db \<and>
     available db' = available db \<and> bootstraps db' = bootstraps db \<and>
     supportSessions db' = supportSessions db"

lemma only_assignmentsD:
  assumes "only_assignments db db'"
  shows "approvals db' = approvals db" "decisions db' = decisions db" "users db' = users db"
    "available db' = available db" "bootstraps db' = bootstraps db"
    "supportSessions db' = supportSessions db"
  using assms by (simp_all add: only_assignments_def)

lemma only_assignments_trans:
  "only_assignments db db1 \<Longrightarrow> only_assignments db1 db2 \<Longrightarrow> only_assignments db db2"
  by (simp add: only_assignments_def)

lemma find_assignmentD:
  "find_assignment u role db = Some a \<Longrightarrow> a \<in> set (assignments db) \<and> as_userId a = u \<and> as_role a = role"
  unfolding find_assignment_def by (drule find_SomeD) simp

lemma update_assignment_InrD:
  assumes "update_assignment i version active now actorId db = (Inr a, db')"
  shows "count_where (version_guard i version) (assignments db) = 1"
    "db' = db\<lparr>assignments := update_where (version_guard i version)
             (change_assignment active now actorId) (assignments db)\<rparr>"
    "a \<in> set (assignments db')" "as_id a = i"
  using assms
  by (auto simp: update_assignment_def Let_def split: if_splits option.splits dest: find_SomeD)

lemma create_assignment_InrD:
  assumes "create_assignment a db = (Inr b, db')"
  shows "b = a" "db' = db\<lparr>assignments := assignments db @ [a]\<rparr>"
    "\<forall>c \<in> set (assignments db). as_id c \<noteq> as_id a"
    "\<forall>c \<in> set (assignments db). as_userId c \<noteq> as_userId a \<or> as_role c \<noteq> as_role a"
  using assms by (auto simp: create_assignment_def list_ex_iff split: if_splits)

lemma update_assignment_only:
  "update_assignment i version active now actorId db = (Inr a, db') \<Longrightarrow> only_assignments db db'"
  by (drule update_assignment_InrD(2)) (simp add: only_assignments_def)

lemma create_assignment_only:
  "create_assignment a db = (Inr b, db') \<Longrightarrow> only_assignments db db'"
  by (drule create_assignment_InrD(2)) (simp add: only_assignments_def)

lemma owner_executor_InrD:
  assumes run: "owner_executor input currentVersion db request = (Inr a, db')"
  obtains current db1 where
    "map_of (ar_safeParameters request) ''targetUserId'' = Some (JString (ow_targetUserId input))"
    "ar_resourceId request = Some (ow_targetUserId input)"
    "\<not> target_inactive (ow_targetUserId input) db"
    "current = find_assignment (ow_targetUserId input) PLATFORM_OWNER db"
    "assignment_version current = currentVersion"
    "ow_action input = REMOVE \<Longrightarrow> 1 < count_where active_owner (assignments db) \<and>
       (\<exists>c. current = Some c \<and> as_active c)"
    "owner_change_store input currentVersion current db = (Inr a, db1)"
    "db' = owner_change_report input a db1"
proof -
  let ?current = "find_assignment (ow_targetUserId input) PLATFORM_OWNER db"
  obtain db1 where store: "owner_change_store input currentVersion ?current db = (Inr a, db1)"
    "db' = owner_change_report input a db1"
    using run by (auto simp: owner_executor_def Let_def split: if_splits prod.splits sum.splits)
  show thesis
    by (rule that [OF _ _ _ refl _ _ store])
      (use run in \<open>cases ?current; auto simp: owner_executor_def Let_def split: if_splits\<close>)+
qed

lemma owner_change_store_only:
  "owner_change_store input v current db = (Inr a, db') \<Longrightarrow> only_assignments db db'"
  by (auto simp: owner_change_store_def split: option.splits
      dest: update_assignment_only create_assignment_only)

lemma owner_change_report_rows [simp]:
  "only_assignments db (owner_change_report input a db)"
  "assignments (owner_change_report input a db) = assignments db"
  "userSessions (owner_change_report input a db) =
     userSessions (revoke_user_sessions (ow_targetUserId input) (ow_now input) db)"
  by (simp_all add: owner_change_report_def only_assignments_def)

lemma owner_executor_only:
  "owner_executor input v db request = (Inr a, db') \<Longrightarrow> only_assignments db db'"
  by (erule owner_executor_InrD)
    (use only_assignments_trans owner_change_store_only owner_change_report_rows(1) in blast)

text \<open>The owner change is an executor of the ceremony: it writes assignments, sessions and audit only.\<close>

interpretation owner: approval_executor "owner_executor input currentVersion"
  for input currentVersion
  by unfold_locales (auto dest!: owner_executor_only simp: only_assignments_def)

end
