(* ===== verification/PlatformBootstrap.thy ===== *)
theory PlatformBootstrap
  imports PlatformRoles
begin

text \<open>
  The break-glass assignment of the first platform owner (\<open>lib/platform-owner-bootstrap.ts\<close>): the
  checks of the request, the evidence read from the database, the dry run and the execution. The
  hash (SHA-256 in hexadecimal) is the parameter \<open>hash\<close> of the definitions.
\<close>

section \<open>Validation of the request\<close>

definition BOOTSTRAP_SINGLETON :: string where
  "BOOTSTRAP_SINGLETON = ''first-platform-owner-v1''"

definition CONFIRMATION_PHRASE :: string where
  "CONFIRMATION_PHRASE = ''BOOTSTRAP FIRST PLATFORM OWNER''"

definition ALLOWED_ENVIRONMENTS :: "string list" where
  "ALLOWED_ENVIRONMENTS = [''integration'', ''staging'']"

definition RECENT_AUTH_WINDOW_MS :: int where
  "RECENT_AUTH_WINDOW_MS = 10 * 60000"

definition MAX_AUTHORIZATION_LIFETIME_MS :: int where
  "MAX_AUTHORIZATION_LIFETIME_MS = 15 * 60000"

datatype bootstrap_error =
    BOOTSTRAP_ENVIRONMENT_DENIED
  | BOOTSTRAP_CONFIRMATION_REQUIRED
  | BOOTSTRAP_REFERENCE_INVALID
  | BOOTSTRAP_TARGET_INVALID
  | BOOTSTRAP_AUTHORIZATION_INVALID
  | BOOTSTRAP_DATABASE_UNAVAILABLE
  | BOOTSTRAP_ALREADY_COMPLETED
  | BOOTSTRAP_RECENT_AUTH_REQUIRED
  | BOOTSTRAP_MFA_EVIDENCE_REQUIRED
  | BOOTSTRAP_UNIQUE_VIOLATION

record bootstrap_input =
  bi_environment :: string
  bi_expectedEnvironment :: string
  bi_targetUserId :: string
  bi_targetEmail :: string
  bi_sessionEvidenceId :: string
  bi_mfaEventEvidenceId :: string
  bi_authorizationId :: string
  bi_authorizationExpiresAt :: ms
  bi_authorizationToken :: string
  bi_expectedAuthorizationHash :: string
  bi_confirmation :: string
  bi_now :: ms
  bi_newId :: string

definition normalizedEmail :: "string \<Rightarrow> string" where
  "normalizedEmail value = to_lower (trim value)"

text \<open>Equal buffers decoded from two lower-case hexadecimal strings of 64 digits: equal strings.\<close>

definition hashesMatch :: "string \<Rightarrow> string \<Rightarrow> bool" where
  "hashesMatch actual expected \<longleftrightarrow> SHA256 actual \<and> SHA256 expected \<and> actual = expected"

record bootstrap_validation =
  bv_now :: ms
  bv_authorizationHash :: string
  bv_targetEmailNormalized :: string

definition validatePlatformOwnerBootstrapRequest ::
  "(string \<Rightarrow> string) \<Rightarrow> bootstrap_input \<Rightarrow> bootstrap_error + bootstrap_validation" where
  "validatePlatformOwnerBootstrapRequest hash input =
     (let now = bi_now input in
      if \<not> contains ALLOWED_ENVIRONMENTS (bi_environment input) \<or>
         bi_environment input \<noteq> bi_expectedEnvironment input
      then Inl BOOTSTRAP_ENVIRONMENT_DENIED
      else if bi_confirmation input \<noteq> CONFIRMATION_PHRASE then Inl BOOTSTRAP_CONFIRMATION_REQUIRED
      else if \<not> SAFE_REFERENCE (bi_targetUserId input) \<or>
              \<not> SAFE_REFERENCE (bi_sessionEvidenceId input) \<or>
              \<not> SAFE_REFERENCE (bi_mfaEventEvidenceId input) \<or>
              \<not> SAFE_REFERENCE (bi_authorizationId input)
      then Inl BOOTSTRAP_REFERENCE_INVALID
      else if length (normalizedEmail (bi_targetEmail input)) < 3 \<or>
              \<not> str_includes (normalizedEmail (bi_targetEmail input)) ''@''
      then Inl BOOTSTRAP_TARGET_INVALID
      else if length (bi_authorizationToken input) < 32 \<or>
              bi_authorizationExpiresAt input \<le> now \<or>
              bi_authorizationExpiresAt input - now > MAX_AUTHORIZATION_LIFETIME_MS
      then Inl BOOTSTRAP_AUTHORIZATION_INVALID
      else
        let authorizationHash = hash (bi_authorizationToken input) in
        if \<not> hashesMatch authorizationHash (bi_expectedAuthorizationHash input)
        then Inl BOOTSTRAP_AUTHORIZATION_INVALID
        else Inr \<lparr>bv_now = now, bv_authorizationHash = authorizationHash,
                   bv_targetEmailNormalized = normalizedEmail (bi_targetEmail input)\<rparr>)"

section \<open>Evidence\<close>

fun securityMetadata :: "json \<Rightarrow> (string \<times> json) list option" where
  "securityMetadata (JObject entries) = Some entries"
| "securityMetadata value = None"

text \<open>An owner assignment whose user is enabled.\<close>

definition effective_owner :: "governance_db \<Rightarrow> assignment_row \<Rightarrow> bool" where
  "effective_owner db a \<longleftrightarrow> active_owner a \<and> \<not> target_inactive (as_userId a) db"

definition recent :: "ms \<Rightarrow> ms \<Rightarrow> bool" where
  "recent now instant \<longleftrightarrow> instant \<le> now \<and> now - instant \<le> RECENT_AUTH_WINDOW_MS"

definition session_evidence ::
  "bootstrap_input \<Rightarrow> bootstrap_validation \<Rightarrow> user_session_row \<Rightarrow> bool" where
  "session_evidence input validation session \<longleftrightarrow>
     se_userId session = bi_targetUserId input \<and> se_revokedAt session = None \<and>
     se_expiresAt session > bv_now validation \<and> se_idleExpiresAt session > bv_now validation \<and>
     recent (bv_now validation) (se_authenticationAt session)"

definition mfa_evidence ::
  "bootstrap_input \<Rightarrow> bootstrap_validation \<Rightarrow> user_session_row \<Rightarrow> security_event_row \<Rightarrow> bool" where
  "mfa_evidence input validation session event \<longleftrightarrow>
     ev_userId event = Some (bi_targetUserId input) \<and>
     ev_action event = ''identity.login.success'' \<and> ev_result event = ''SUCCEEDED'' \<and>
     (case securityMetadata (ev_safeMetadata event) of
        None \<Rightarrow> False
      | Some metadata \<Rightarrow>
          map_of metadata ''method'' = Some (JString ''TOTP'') \<and>
          map_of metadata ''sessionId'' = Some (JString (se_id session))) \<and>
     recent (bv_now validation) (ev_createdAt event)"

definition validateDatabaseEvidence ::
  "bootstrap_input \<Rightarrow> bootstrap_validation \<Rightarrow> governance_db \<Rightarrow> bootstrap_error + unit" where
  "validateDatabaseEvidence input validation db =
     (let target = find_user (bi_targetUserId input) db;
          session = List.find (\<lambda>s. se_id s = bi_sessionEvidenceId input) (userSessions db);
          mfaEvent = List.find (\<lambda>e. ev_id e = bi_mfaEventEvidenceId input) (securityEvents db);
          activeMfa = count_where (\<lambda>m. mf_userId m = bi_targetUserId input \<and> mf_active m \<and>
                        mf_disabledAt m = None) (mfaMethods db);
          activeOwners = count_where (effective_owner db) (assignments db);
          existingBootstrap = List.find (\<lambda>b. bo_singletonKey b = BOOTSTRAP_SINGLETON) (bootstraps db)
      in
      if target_inactive (bi_targetUserId input) db \<or>
         map_option us_emailNormalized target \<noteq> Some (bv_targetEmailNormalized validation)
      then Inl BOOTSTRAP_TARGET_INVALID
      else if activeOwners \<noteq> 0 \<or> existingBootstrap \<noteq> None then Inl BOOTSTRAP_ALREADY_COMPLETED
      else
        case session of
          None \<Rightarrow> Inl BOOTSTRAP_RECENT_AUTH_REQUIRED
        | Some s \<Rightarrow>
            if \<not> session_evidence input validation s then Inl BOOTSTRAP_RECENT_AUTH_REQUIRED
            else
              case mfaEvent of
                None \<Rightarrow> Inl BOOTSTRAP_MFA_EVIDENCE_REQUIRED
              | Some e \<Rightarrow>
                  if \<not> mfa_evidence input validation s e \<or> activeMfa < 1
                  then Inl BOOTSTRAP_MFA_EVIDENCE_REQUIRED
                  else Inr ())"

section \<open>Dry run and execution\<close>

record bootstrap_report =
  br_execute :: bool
  br_environment :: string
  br_authorizationId :: string
  br_targetUserHash :: string
  br_assignmentId :: "string option"
  br_instant :: ms

definition bootstrap_report_of ::
  "(string \<Rightarrow> string) \<Rightarrow> bootstrap_input \<Rightarrow> bootstrap_validation \<Rightarrow> string option \<Rightarrow> bootstrap_report" where
  "bootstrap_report_of hash input validation assignmentId =
     \<lparr>br_execute = (assignmentId \<noteq> None), br_environment = bi_environment input,
      br_authorizationId = bi_authorizationId input,
      br_targetUserHash = hash (bi_targetUserId input), br_assignmentId = assignmentId,
      br_instant = bv_now validation\<rparr>"

definition dryRunPlatformOwnerBootstrap ::
  "(string \<Rightarrow> string) \<Rightarrow> bootstrap_input \<Rightarrow> governance_db \<Rightarrow>
     (bootstrap_error, bootstrap_report, governance_db) handled" where
  "dryRunPlatformOwnerBootstrap hash input db =
     (case validatePlatformOwnerBootstrapRequest hash input of
        Inl e \<Rightarrow> (Inl e, db)
      | Inr validation \<Rightarrow>
          if \<not> available db then (Inl BOOTSTRAP_DATABASE_UNAVAILABLE, db)
          else
            case validateDatabaseEvidence input validation db of
              Inl e \<Rightarrow> (Inl e, db)
            | Inr _ \<Rightarrow> (Inr (bootstrap_report_of hash input validation None), db))"

definition bootstrap_row_of ::
  "(string \<Rightarrow> string) \<Rightarrow> bootstrap_input \<Rightarrow> bootstrap_validation \<Rightarrow> string \<Rightarrow> bootstrap_row" where
  "bootstrap_row_of hash input validation assignmentId =
     \<lparr>bo_singletonKey = BOOTSTRAP_SINGLETON, bo_authorizationId = bi_authorizationId input,
      bo_authorizationHash = bv_authorizationHash validation,
      bo_environment = bi_environment input, bo_targetUserId = bi_targetUserId input,
      bo_sessionEvidenceHash = hash (bi_sessionEvidenceId input),
      bo_mfaEventEvidenceId = bi_mfaEventEvidenceId input,
      bo_authorizationExpiresAt = bi_authorizationExpiresAt input,
      bo_assignmentId = assignmentId, bo_executedAt = bv_now validation\<rparr>"

text \<open>The ledger's unique columns.\<close>

definition same_bootstrap :: "bootstrap_row \<Rightarrow> bootstrap_row \<Rightarrow> bool" where
  "same_bootstrap b c \<longleftrightarrow>
     bo_singletonKey b = bo_singletonKey c \<or> bo_authorizationId b = bo_authorizationId c \<or>
     bo_authorizationHash b = bo_authorizationHash c \<or> bo_assignmentId b = bo_assignmentId c"

definition bootstrap_report_rows ::
  "(string \<Rightarrow> string) \<Rightarrow> bootstrap_input \<Rightarrow> bootstrap_validation \<Rightarrow> assignment_row \<Rightarrow> governance_db \<Rightarrow>
     governance_db" where
  "bootstrap_report_rows hash input validation assignment db =
     add_governance_notifications
       [\<lparr>gn_recipientId = bi_targetUserId input, gn_companyId = None, gn_category = ''SECURITY'',
         gn_title = FirstOwnerAssigned, gn_href = ''/portal/platform/audit''\<rparr>]
       (add_audit (role_audit (bi_targetUserId input) ''platform.owner.bootstrap.executed''
           (as_id assignment) (Some (bi_authorizationId input))
           [(''environment'', JString (bi_environment input)),
            (''authorizationId'', JString (bi_authorizationId input)),
            (''sessionEvidenceHash'', JString (hash (bi_sessionEvidenceId input))),
            (''mfaEventEvidenceId'', JString (bi_mfaEventEvidenceId input))])
         (revoke_user_sessions (bi_targetUserId input) (bv_now validation) db))"

definition bootstrap_transaction ::
  "(string \<Rightarrow> string) \<Rightarrow> bootstrap_input \<Rightarrow> bootstrap_validation \<Rightarrow> governance_db \<Rightarrow>
     (bootstrap_error, bootstrap_report, governance_db) handled" where
  "bootstrap_transaction hash input validation db =
     (case validateDatabaseEvidence input validation db of
        Inl e \<Rightarrow> (Inl e, db)
      | Inr _ \<Rightarrow>
          (case create_assignment
                  \<lparr>as_id = bi_newId input, as_userId = bi_targetUserId input,
                   as_role = PLATFORM_OWNER, as_active = True, as_version = 1,
                   as_assignedById = None, as_disabledAt = None\<rparr> db of
             (Inl _, db') \<Rightarrow> (Inl BOOTSTRAP_UNIQUE_VIOLATION, db')
           | (Inr assignment, db1) \<Rightarrow>
               let db2 = bootstrap_report_rows hash input validation assignment db1;
                   row = bootstrap_row_of hash input validation (as_id assignment) in
               if list_ex (same_bootstrap row) (bootstraps db2)
               then (Inl BOOTSTRAP_UNIQUE_VIOLATION, db2)
               else (Inr (bootstrap_report_of hash input validation (Some (as_id assignment))),
                     db2\<lparr>bootstraps := bootstraps db2 @ [row]\<rparr>)))"

definition executePlatformOwnerBootstrap ::
  "(string \<Rightarrow> string) \<Rightarrow> bootstrap_input \<Rightarrow> governance_db \<Rightarrow>
     (bootstrap_error, bootstrap_report, governance_db) handled" where
  "executePlatformOwnerBootstrap hash input db =
     (case validatePlatformOwnerBootstrapRequest hash input of
        Inl e \<Rightarrow> (Inl e, db)
      | Inr validation \<Rightarrow>
          if \<not> available db then (Inl BOOTSTRAP_DATABASE_UNAVAILABLE, db)
          else in_transaction (bootstrap_transaction hash input validation) db)"

end
