(* ===== verification/PlatformSupport.thy ===== *)
theory PlatformSupport
  imports PlatformBootstrap
begin

text \<open>
  Support sessions (\<open>lib/platform-support.ts\<close>): a platform actor opens a session of fifteen minutes
  on one tenant, ends it, or has it terminated by an owner or admin of the platform; the permission
  evaluator reads it through \<open>loadPlatformSupportSession\<close>.
\<close>

definition SUPPORT_SCOPES :: "string list" where
  "SUPPORT_SCOPES =
     [''platform.support.organization.view'', ''platform.support.resource.view'',
      ''platform.support.action.execute'']"

datatype support_error =
    SUPPORT_STEP_UP_REQUIRED
  | SUPPORT_REASON_INVALID
  | SUPPORT_SCOPE_INVALID
  | SUPPORT_DATABASE_UNAVAILABLE
  | SUPPORT_ORGANIZATION_NOT_FOUND
  | SUPPORT_SESSION_END_DENIED
  | SUPPORT_TERMINATION_CONFIRMATION_REQUIRED
  | SUPPORT_REFERENCE_INVALID
  | SUPPORT_TERMINATION_DENIED
  | SUPPORT_NOT_FOUND
  | SUPPORT_COLUMN_TOO_LONG
  | SUPPORT_UNIQUE_VIOLATION

definition support_audit ::
  "string \<Rightarrow> string \<Rightarrow> string \<Rightarrow> string \<Rightarrow> (string \<times> json) list \<Rightarrow> audit_row" where
  "support_audit companyId actorId action targetId metadata =
     \<lparr>au_companyId = Some companyId, au_actorId = Some actorId, au_action = action,
      au_targetType = ''support-session'', au_targetId = Some targetId,
      au_result = ''SUCCEEDED'', au_correlationId = None, au_safeMetadata = metadata\<rparr>"

section \<open>Start\<close>

record support_start =
  ss_session :: app_session
  ss_companyId :: string
  ss_reasonCode :: string
  ss_ticketReference :: string
  ss_allowedScopes :: "string list"
  ss_now :: ms
  ss_newId :: string

definition support_row_of :: "support_start \<Rightarrow> string list \<Rightarrow> support_session_row" where
  "support_row_of input scopes =
     \<lparr>su_id = ss_newId input, su_actorId = s_userId (ss_session input),
      su_companyId = ss_companyId input, su_reasonCode = ss_reasonCode input,
      su_ticketReference = ss_ticketReference input,
      su_allowedScopes = JArray (map JString scopes), su_mfaVerifiedAt = ss_now input,
      su_authenticatedAt = authenticationAt_or_0 (s_authenticationAt (ss_session input)),
      su_expiresAt = ss_now input + 15 * 60000, su_endedAt = None, su_endedById = None\<rparr>"

definition support_recipients :: "string \<Rightarrow> governance_db \<Rightarrow> string list" where
  "support_recipients companyId db =
     map me_userId (filter (\<lambda>m. me_companyId m = companyId \<and> me_active m \<and> me_status m = ACTIVE \<and>
       (me_organizationRole m = OWNER \<or> me_organizationRole m = ADMIN)) (memberships db))"

definition support_store :: "support_session_row \<Rightarrow> governance_db \<Rightarrow> governance_db" where
  "support_store row db =
     (let db1 = db\<lparr>supportSessions := supportSessions db @ [row]\<rparr>;
          db2 = add_audit (support_audit (su_companyId row) (su_actorId row)
                  ''platform.support.session.started'' (su_id row)
                  [(''reasonCode'', JString (su_reasonCode row)),
                   (''ticketReference'', JString (su_ticketReference row))]) db1
      in add_portal_notifications
           (map (security_note (su_companyId row) SupportSessionOpened)
             (support_recipients (su_companyId row) db2)) db2)"

text \<open>The column \<open>reasonCode\<close> holds 100 characters.\<close>

definition startPlatformSupportSession ::
  "support_start \<Rightarrow> governance_db \<Rightarrow> (support_error, support_session_row, governance_db) handled" where
  "startPlatformSupportSession input db =
     (if \<not> stepUp (ss_session input) (ss_now input) then (Inl SUPPORT_STEP_UP_REQUIRED, db)
      else if \<not> SAFE_REFERENCE (ss_reasonCode input) \<or> \<not> SAFE_REFERENCE (ss_ticketReference input)
      then (Inl SUPPORT_REASON_INVALID, db)
      else
        let scopes = unique (ss_allowedScopes input) in
        if scopes = [] \<or> list_ex (\<lambda>scope. \<not> contains SUPPORT_SCOPES scope) scopes
        then (Inl SUPPORT_SCOPE_INVALID, db)
        else if \<not> available db then (Inl SUPPORT_DATABASE_UNAVAILABLE, db)
        else if \<not> contains (companies db) (ss_companyId input)
        then (Inl SUPPORT_ORGANIZATION_NOT_FOUND, db)
        else if length (ss_reasonCode input) > 100 then (Inl SUPPORT_COLUMN_TOO_LONG, db)
        else if list_ex (\<lambda>s. su_id s = ss_newId input) (supportSessions db)
        then (Inl SUPPORT_UNIQUE_VIOLATION, db)
        else (Inr (support_row_of input scopes), support_store (support_row_of input scopes) db))"

section \<open>End\<close>

definition end_guard :: "string \<Rightarrow> support_session_row \<Rightarrow> bool" where
  "end_guard i s \<longleftrightarrow> su_id s = i \<and> su_endedAt s = None"

definition end_store ::
  "string \<Rightarrow> string \<Rightarrow> support_session_row \<Rightarrow> ms \<Rightarrow> governance_db \<Rightarrow> governance_db" where
  "end_store actorId action row now db =
     add_audit (support_audit (su_companyId row) actorId action (su_id row) [])
       (db\<lparr>supportSessions := update_where (end_guard (su_id row))
             (\<lambda>s. s\<lparr>su_endedAt := Some now, su_endedById := Some actorId\<rparr>) (supportSessions db)\<rparr>)"

definition endPlatformSupportSession ::
  "app_session \<Rightarrow> string \<Rightarrow> ms \<Rightarrow> governance_db \<Rightarrow> (support_error, unit, governance_db) handled" where
  "endPlatformSupportSession session supportSessionId now db =
     (if \<not> available db then (Inl SUPPORT_DATABASE_UNAVAILABLE, db)
      else
        case List.find (\<lambda>s. su_id s = supportSessionId \<and> su_actorId s = s_userId session \<and>
                          su_endedAt s = None) (supportSessions db) of
          None \<Rightarrow> (Inl SUPPORT_SESSION_END_DENIED, db)
        | Some row \<Rightarrow>
            if count_where (end_guard (su_id row)) (supportSessions db) \<noteq> 1
            then (Inl SUPPORT_SESSION_END_DENIED, db)
            else (Inr (), end_store (s_userId session) ''platform.support.session.ended'' row now db))"

section \<open>Load\<close>

fun json_strings :: "json list \<Rightarrow> string list" where
  "json_strings [] = []"
| "json_strings (JString s # xs) = s # json_strings xs"
| "json_strings (_ # xs) = json_strings xs"

definition loadPlatformSupportSession ::
  "string \<Rightarrow> string \<Rightarrow> governance_db \<Rightarrow> support_session_context option" where
  "loadPlatformSupportSession actorId supportSessionId db =
     (if \<not> available db then None
      else
        case List.find (\<lambda>s. su_id s = supportSessionId \<and> su_actorId s = actorId) (supportSessions db) of
          None \<Rightarrow> None
        | Some row \<Rightarrow>
            (case su_allowedScopes row of
               JArray scopes \<Rightarrow>
                 Some \<lparr>ssc_id = su_id row, ssc_actorId = su_actorId row,
                       ssc_companyId = su_companyId row, ssc_allowedScopes = json_strings scopes,
                       ssc_expiresAt = su_expiresAt row, ssc_endedAt = su_endedAt row\<rparr>
             | _ \<Rightarrow> None))"

section \<open>Termination by an operator\<close>

datatype termination_result = Terminated ms | AlreadyEnded ms

definition may_terminate :: "string \<Rightarrow> governance_db \<Rightarrow> assignment_row \<Rightarrow> bool" where
  "may_terminate operatorUserId db a \<longleftrightarrow>
     as_userId a = operatorUserId \<and> (as_role a = PLATFORM_OWNER \<or> as_role a = PLATFORM_ADMIN) \<and>
     as_active a \<and> as_disabledAt a = None \<and> \<not> target_inactive (as_userId a) db"

definition terminatePlatformSupportSessionByOperator ::
  "string \<Rightarrow> string \<Rightarrow> string \<Rightarrow> ms \<Rightarrow> governance_db \<Rightarrow>
     (support_error, termination_result, governance_db) handled" where
  "terminatePlatformSupportSessionByOperator operatorUserId supportSessionId confirmation now db =
     (if confirmation \<noteq> ''TERMINATE SUPPORT SESSION''
      then (Inl SUPPORT_TERMINATION_CONFIRMATION_REQUIRED, db)
      else if \<not> SAFE_REFERENCE operatorUserId \<or> \<not> SAFE_REFERENCE supportSessionId
      then (Inl SUPPORT_REFERENCE_INVALID, db)
      else if \<not> available db then (Inl SUPPORT_DATABASE_UNAVAILABLE, db)
      else if \<not> list_ex (may_terminate operatorUserId db) (assignments db)
      then (Inl SUPPORT_TERMINATION_DENIED, db)
      else
        case List.find (\<lambda>s. su_id s = supportSessionId) (supportSessions db) of
          None \<Rightarrow> (Inl SUPPORT_NOT_FOUND, db)
        | Some row \<Rightarrow>
            (case su_endedAt row of
               Some t \<Rightarrow> (Inr (AlreadyEnded t), db)
             | None \<Rightarrow>
                 if count_where (end_guard (su_id row)) (supportSessions db) \<noteq> 1
                 then (Inl SUPPORT_SESSION_END_DENIED, db)
                 else (Inr (Terminated now),
                       end_store operatorUserId ''platform.support.session.terminated'' row now db)))"

section \<open>Lemmas\<close>

lemma json_strings_map [simp]: "json_strings (map JString xs) = xs"
  by (induction xs) simp_all

lemma support_store_rows [simp]:
  "supportSessions (support_store row db) = supportSessions db @ [row]"
  "assignments (support_store row db) = assignments db"
  "users (support_store row db) = users db"
  "approvals (support_store row db) = approvals db"
  "decisions (support_store row db) = decisions db"
  "bootstraps (support_store row db) = bootstraps db"
  "available (support_store row db) = available db"
  by (simp_all add: support_store_def Let_def)

lemma end_store_rows [simp]:
  "supportSessions (end_store actorId action row now db) =
     update_where (end_guard (su_id row))
       (\<lambda>s. s\<lparr>su_endedAt := Some now, su_endedById := Some actorId\<rparr>) (supportSessions db)"
  "assignments (end_store actorId action row now db) = assignments db"
  "users (end_store actorId action row now db) = users db"
  "approvals (end_store actorId action row now db) = approvals db"
  "decisions (end_store actorId action row now db) = decisions db"
  "bootstraps (end_store actorId action row now db) = bootstraps db"
  "available (end_store actorId action row now db) = available db"
  by (simp_all add: end_store_def)

text \<open>An ended session never has another end, and no operation reopens or extends it.\<close>

definition support_evolves :: "support_session_row \<Rightarrow> support_session_row \<Rightarrow> bool" where
  "support_evolves s s' \<longleftrightarrow>
     su_id s' = su_id s \<and> su_actorId s' = su_actorId s \<and> su_companyId s' = su_companyId s \<and>
     su_allowedScopes s' = su_allowedScopes s \<and> su_expiresAt s' = su_expiresAt s \<and>
     (su_endedAt s \<noteq> None \<longrightarrow> su_endedAt s' = su_endedAt s \<and> su_endedById s' = su_endedById s)"

lemma support_evolves_refl [simp]: "support_evolves s s"
  by (simp add: support_evolves_def)

lemma end_store_evolves:
  "list_all2 support_evolves (supportSessions db) (supportSessions (end_store u a row now db))"
  unfolding end_store_rows
  by (rule list_all2_update_where) (auto simp: support_evolves_def end_guard_def)

end
