(* ===== verification/GovernanceRuns.thy ===== *)
theory GovernanceRuns
  imports PlatformSupport
begin

text \<open>
  The platform's governance as one system: every handler of the approval ceremony, of the role
  assignments, of the owner bootstrap and of the support sessions as a step on the shared database,
  and what every run of these handlers keeps: no lockout of the owner role, one bootstrap at most, no
  executed approval without its claim, no self-approval.
\<close>

section \<open>Steps\<close>

datatype platform_op =
    ChangeRole role_change
  | ChangeOwner owner_change
  | Bootstrap bootstrap_input
  | StartSupport support_start
  | EndSupport app_session string ms
  | TerminateSupport string string string ms
  | Propose request_input
  | Resolve decide_input
  | Withdraw app_session string ms
  | Sweep "string option" ms

fun platform_step ::
  "(json \<Rightarrow> string) \<Rightarrow> (string \<Rightarrow> string) \<Rightarrow> platform_op \<Rightarrow> governance_db \<Rightarrow> governance_db" where
  "platform_step digest hash (ChangeRole input) db = snd (changePlatformRoleAssignment input db)"
| "platform_step digest hash (ChangeOwner input) db = snd (executePlatformOwnerChange digest input db)"
| "platform_step digest hash (Bootstrap input) db = snd (executePlatformOwnerBootstrap hash input db)"
| "platform_step digest hash (StartSupport input) db = snd (startPlatformSupportSession input db)"
| "platform_step digest hash (EndSupport session i now) db =
     snd (endPlatformSupportSession session i now db)"
| "platform_step digest hash (TerminateSupport operatorUserId i confirmation now) db =
     snd (terminatePlatformSupportSessionByOperator operatorUserId i confirmation now db)"
| "platform_step digest hash (Propose input) db = snd (requestGovernanceApproval digest input db)"
| "platform_step digest hash (Resolve input) db = snd (decideGovernanceApproval input db)"
| "platform_step digest hash (Withdraw session i now) db =
     snd (cancelGovernanceApproval session i now db)"
| "platform_step digest hash (Sweep actorId now) db =
     snd (expireStaleGovernanceApprovals actorId now db)"

fun platform_run ::
  "(json \<Rightarrow> string) \<Rightarrow> (string \<Rightarrow> string) \<Rightarrow> platform_op list \<Rightarrow> governance_db \<Rightarrow> governance_db" where
  "platform_run digest hash [] db = db"
| "platform_run digest hash (op # ops) db =
     platform_run digest hash ops (platform_step digest hash op db)"

section \<open>The state the handlers keep\<close>

definition roles_ok :: "assignment_row list \<Rightarrow> bool" where
  "roles_ok rows \<longleftrightarrow>
     distinct (map as_id rows) \<and> distinct (map (\<lambda>a. (as_userId a, as_role a)) rows)"

definition owners_enabled :: "governance_db \<Rightarrow> bool" where
  "owners_enabled db \<longleftrightarrow>
     (\<forall>a \<in> set (assignments db). active_owner a \<longrightarrow> \<not> target_inactive (as_userId a) db)"

definition ledger_ok :: "bootstrap_row list \<Rightarrow> bool" where
  "ledger_ok rows \<longleftrightarrow>
     length rows \<le> 1 \<and>
     (\<forall>b \<in> set rows. bo_singletonKey b = BOOTSTRAP_SINGLETON \<and> SHA256 (bo_authorizationHash b) \<and>
        bo_assignmentId b \<noteq> [])"

definition governed :: "governance_db \<Rightarrow> bool" where
  "governed db \<longleftrightarrow>
     ceremony_ok db \<and> roles_ok (assignments db) \<and> owners_enabled db \<and> ledger_ok (bootstraps db)"

definition owner_count :: "governance_db \<Rightarrow> nat" where
  "owner_count db = count_where active_owner (assignments db)"

text \<open>What a step does to a governed database: it stays governed, an owner remains if there was one.\<close>

definition governs :: "governance_db \<Rightarrow> governance_db \<Rightarrow> bool" where
  "governs db db' \<longleftrightarrow> governed db' \<and> users db' = users db \<and> (0 < owner_count db \<longrightarrow> 0 < owner_count db')"

lemma governs_refl [simp, intro]: "governed db \<Longrightarrow> governs db db"
  by (simp add: governs_def)

lemma governs_trans: "governs db db1 \<Longrightarrow> governs db1 db2 \<Longrightarrow> governs db db2"
  by (simp add: governs_def)

lemma target_inactive_cong: "users db' = users db \<Longrightarrow> target_inactive u db' = target_inactive u db"
  by (simp add: target_inactive_def find_user_def)

text \<open>Handlers that leave the assignments, the users and the ledger alone.\<close>

definition same_roles :: "governance_db \<Rightarrow> governance_db \<Rightarrow> bool" where
  "same_roles db db' \<longleftrightarrow>
     assignments db' = assignments db \<and> users db' = users db \<and> bootstraps db' = bootstraps db"

text \<open>The ceremony leaves the support sessions alone as well.\<close>

definition quiet :: "governance_db \<Rightarrow> governance_db \<Rightarrow> bool" where
  "quiet db db' \<longleftrightarrow> same_roles db db' \<and> supportSessions db' = supportSessions db"

lemma same_roles_refl [simp]: "same_roles db db"
  by (simp add: same_roles_def)

lemma same_roles_governs:
  "governed db \<Longrightarrow> same_roles db db' \<Longrightarrow> ceremony_ok db' \<Longrightarrow> governs db db'"
  by (simp add: governs_def governed_def same_roles_def owners_enabled_def owner_count_def
      target_inactive_def find_user_def)

text \<open>The two writes of an assignment.\<close>

lemma update_assignment_row:
  assumes ok: "roles_ok (assignments db)" and a: "a \<in> set (assignments db)"
    and r: "r \<in> set (assignments db)" "version_guard (as_id a) version r"
  shows "r = a"
  using distinct_key_eq [of as_id "assignments db" r a] assms
  by (simp add: roles_ok_def version_guard_def)

lemma update_assignment_roles:
  assumes "update_assignment i version active now actorId db = (Inr v, db')" "roles_ok (assignments db)"
  shows "roles_ok (assignments db')"
proof -
  from update_assignment_InrD(2) [OF assms(1)] have rows: "assignments db' =
      update_where (version_guard i version) (change_assignment active now actorId) (assignments db)"
    by simp
  have "map as_id (assignments db') = map as_id (assignments db)"
    "map (\<lambda>a. (as_userId a, as_role a)) (assignments db') =
     map (\<lambda>a. (as_userId a, as_role a)) (assignments db)"
    unfolding rows by (simp_all add: map_update_where)
  with assms(2) show ?thesis by (simp add: roles_ok_def)
qed

lemma create_assignment_roles:
  assumes "create_assignment a db = (Inr v, db')" "roles_ok (assignments db)"
  shows "roles_ok (assignments db')"
  using create_assignment_InrD(2-4) [OF assms(1)] assms(2) by (auto simp: roles_ok_def)

lemma update_assignment_enabled:
  assumes run: "update_assignment (as_id a) version active now actorId db = (Inr v, db')"
    and ok: "roles_ok (assignments db)" "owners_enabled db" and a: "a \<in> set (assignments db)"
    and user: "\<not> target_inactive (as_userId a) db"
  shows "owners_enabled db'"
proof -
  note update = update_assignment_InrD(2) [OF run]
  have same: "target_inactive u db' = target_inactive u db" for u
    by (rule target_inactive_cong) (simp add: update)
  have "\<not> target_inactive (as_userId r) db"
    if "r \<in> set (assignments db')" "active_owner r" for r
  proof -
    from that(1) update have "r \<in> set (update_where (version_guard (as_id a) version)
        (change_assignment active now actorId) (assignments db))"
      by simp
    then show ?thesis
    proof (cases rule: in_update_whereE)
      case kept
      with ok(2) that(2) show ?thesis by (simp add: owners_enabled_def)
    next
      case (changed r')
      with update_assignment_row [OF ok(1) a] user show ?thesis by auto
    qed
  qed
  with same show ?thesis by (simp add: owners_enabled_def)
qed

lemma create_assignment_enabled:
  assumes "create_assignment a db = (Inr v, db')" "owners_enabled db"
    and "\<not> target_inactive (as_userId a) db"
  shows "owners_enabled db'"
proof -
  note create = create_assignment_InrD(2) [OF assms(1)]
  have "target_inactive u db' = target_inactive u db" for u
    by (rule target_inactive_cong) (simp add: create)
  with create assms(2,3) show ?thesis by (auto simp: owners_enabled_def)
qed

text \<open>Counting owners across a write.\<close>

lemma update_assignment_owners:
  assumes "update_assignment i version active now actorId db = (Inr v, db')"
  shows "owner_count db \<le> owner_count db' + 1"
    and "active \<Longrightarrow> owner_count db \<le> owner_count db'"
    and "(\<And>r. r \<in> set (assignments db) \<Longrightarrow> version_guard i version r \<Longrightarrow> as_role r \<noteq> PLATFORM_OWNER) \<Longrightarrow>
           owner_count db' = owner_count db"
proof -
  from update_assignment_InrD(2) [OF assms] have rows: "assignments db' =
      update_where (version_guard i version) (change_assignment active now actorId) (assignments db)"
    by simp
  have one: "count_where (version_guard i version) (assignments db) = 1"
    by (rule update_assignment_InrD(1) [OF assms])
  show "owner_count db \<le> owner_count db' + 1"
    using count_where_update_loss [of active_owner "assignments db" "version_guard i version"
        "change_assignment active now actorId"] one
    unfolding owner_count_def rows by simp
  show "active \<Longrightarrow> owner_count db \<le> owner_count db'"
    unfolding owner_count_def rows
    by (rule count_where_update_ge) (simp add: active_owner_def)
  show "owner_count db' = owner_count db"
    if "\<And>r. r \<in> set (assignments db) \<Longrightarrow> version_guard i version r \<Longrightarrow> as_role r \<noteq> PLATFORM_OWNER"
    unfolding owner_count_def rows
    by (rule count_where_update_same) (use that in \<open>auto simp: active_owner_def\<close>)
qed

lemma create_assignment_owners:
  "create_assignment a db = (Inr v, db') \<Longrightarrow> owner_count db \<le> owner_count db'"
  by (frule create_assignment_InrD(2)) (simp add: owner_count_def count_where_append)

section \<open>Each step\<close>

lemma write_governs:
  assumes "governed db" "only_assignments db db'" "roles_ok (assignments db')" "owners_enabled db'"
    and "0 < owner_count db \<Longrightarrow> 0 < owner_count db'"
  shows "governs db db'"
  using assms ceremony_ok_frame [of db db']
  by (simp add: governs_def governed_def only_assignments_def)

lemma role_change_InrD:
  assumes "changePlatformRoleAssignment input db = (Inr a, db')"
  obtains role db1 where "role \<noteq> PLATFORM_OWNER" "rc_role input = platform_role_name role"
    "stepUp (rc_session input) (rc_now input)" "\<not> target_inactive (rc_targetUserId input) db"
    "assignment_version (find_assignment (rc_targetUserId input) role db) = rc_expectedVersion input"
    "role_change_store input role (find_assignment (rc_targetUserId input) role db) db = (Inr a, db1)"
    "db' = role_change_report input role a db1"
proof -
  from assms obtain role where listed: "contains ASSIGNABLE_PLATFORM_ROLES (rc_role input)"
    and role: "platform_role_of (rc_role input) = Some role"
    and step: "stepUp (rc_session input) (rc_now input)"
    and run: "role_change_transaction input role db = (Inr a, db')"
    by (auto simp: changePlatformRoleAssignment_def split: if_splits option.splits
        dest: in_transaction_InrD)
  note name = platform_role_of_SomeD [OF role]
  from listed have "role \<noteq> PLATFORM_OWNER"
    unfolding name by (auto simp: ASSIGNABLE_PLATFORM_ROLES_def)
  with name step run that show thesis
    by (auto simp: role_change_transaction_def Let_def split: if_splits prod.splits sum.splits)
qed

lemma role_change_report_rows [simp]:
  "only_assignments db (role_change_report input role a db)"
  "assignments (role_change_report input role a db) = assignments db"
  "users (role_change_report input role a db) = users db"
  "bootstraps (role_change_report input role a db) = bootstraps db"
  "userSessions (role_change_report input role a db) =
     userSessions (revoke_user_sessions (rc_targetUserId input) (rc_now input) db)"
  by (simp_all add: role_change_report_def only_assignments_def)

lemma owner_change_report_roles [simp]:
  "users (owner_change_report input a db) = users db"
  "bootstraps (owner_change_report input a db) = bootstraps db"
  by (simp_all add: owner_change_report_def)

lemma report_governs:
  assumes "governed db" "only_assignments db db'" "assignments db' = assignments db"
  shows "governs db db'"
  using assms
  by (intro same_roles_governs)
    (auto simp: same_roles_def only_assignments_def governed_def intro: ceremony_ok_frame)

lemma role_change_store_governs:
  assumes ok: "governed db" and other: "role \<noteq> PLATFORM_OWNER"
    and active: "\<not> target_inactive (rc_targetUserId input) db"
    and run: "role_change_store input role (find_assignment (rc_targetUserId input) role db) db =
                (Inr a, db')"
  shows "governs db db'"
proof -
  from ok have roles: "roles_ok (assignments db)" and enabled: "owners_enabled db"
    by (simp_all add: governed_def)
  show ?thesis
  proof (cases "find_assignment (rc_targetUserId input) role db")
    case None
    with run have create: "create_assignment
        \<lparr>as_id = rc_newId input, as_userId = rc_targetUserId input, as_role = role,
         as_active = rc_active input, as_version = 1,
         as_assignedById = Some (s_userId (rc_session input)),
         as_disabledAt = if rc_active input then None else Some (rc_now input)\<rparr> db = (Inr a, db')"
      by (simp add: role_change_store_def)
    show ?thesis
      by (rule write_governs [OF ok create_assignment_only [OF create]
            create_assignment_roles [OF create roles] create_assignment_enabled [OF create enabled]])
        (use active create_assignment_owners [OF create] in auto)
  next
    case (Some c)
    with run have update: "update_assignment (as_id c) (rc_expectedVersion input) (rc_active input)
        (rc_now input) (s_userId (rc_session input)) db = (Inr a, db')"
      by (simp add: role_change_store_def)
    have c: "c \<in> set (assignments db)" "as_userId c = rc_targetUserId input" "as_role c = role"
      using find_assignmentD [OF Some] by simp_all
    have "owner_count db' = owner_count db"
      by (rule update_assignment_owners(3) [OF update])
        (use update_assignment_row [OF roles c(1)] c(3) other in blast)
    with c active show ?thesis
      by (intro write_governs [OF ok update_assignment_only [OF update]
            update_assignment_roles [OF update roles]
            update_assignment_enabled [OF update roles enabled c(1)]]) simp_all
  qed
qed

lemma role_change_governs:
  assumes ok: "governed db" and run: "changePlatformRoleAssignment input db = (Inr a, db')"
  shows "governs db db'"
proof -
  obtain role db1 where "role \<noteq> PLATFORM_OWNER" "\<not> target_inactive (rc_targetUserId input) db"
    "role_change_store input role (find_assignment (rc_targetUserId input) role db) db = (Inr a, db1)"
    and db': "db' = role_change_report input role a db1"
    by (rule role_change_InrD [OF run]) blast
  then have 1: "governs db db1" by (intro role_change_store_governs [OF ok])
  then have "governs db1 db'"
    unfolding db' by (intro report_governs) (simp_all add: governs_def)
  with 1 show ?thesis by (rule governs_trans)
qed

lemma role_change_InlD:
  "changePlatformRoleAssignment input db = (Inl e, db') \<Longrightarrow> db' = db"
  by (auto simp: changePlatformRoleAssignment_def split: if_splits option.splits
      dest: in_transaction_InlD)

text \<open>The owner change.\<close>

lemma owner_change_store_governs:
  assumes ok: "governed db" and active: "\<not> target_inactive (ow_targetUserId input) db"
    and last: "ow_action input = REMOVE \<Longrightarrow> 1 < count_where active_owner (assignments db) \<and>
                 (\<exists>c. current = Some c \<and> as_active c)"
    and current: "current = find_assignment (ow_targetUserId input) PLATFORM_OWNER db"
    and run: "owner_change_store input version current db = (Inr a, db')"
  shows "governs db db'"
proof -
  from ok have roles: "roles_ok (assignments db)" and enabled: "owners_enabled db"
    by (simp_all add: governed_def)
  show ?thesis
  proof (cases current)
    case None
    with run have create: "create_assignment
        \<lparr>as_id = ow_newId input, as_userId = ow_targetUserId input, as_role = PLATFORM_OWNER,
         as_active = True, as_version = 1, as_assignedById = Some (s_userId (ow_session input)),
         as_disabledAt = None\<rparr> db = (Inr a, db')"
      by (simp add: owner_change_store_def)
    show ?thesis
      by (rule write_governs [OF ok create_assignment_only [OF create]
            create_assignment_roles [OF create roles] create_assignment_enabled [OF create enabled]])
        (use active create_assignment_owners [OF create] in auto)
  next
    case (Some c)
    with run have update: "update_assignment (as_id c) version (ow_action input = ASSIGN)
        (ow_now input) (s_userId (ow_session input)) db = (Inr a, db')"
      by (simp add: owner_change_store_def)
    have c: "c \<in> set (assignments db)" "as_userId c = ow_targetUserId input"
      using find_assignmentD Some current by simp_all
    have "0 < owner_count db'" if "0 < owner_count db"
    proof (cases "ow_action input")
      case ASSIGN
      with update_assignment_owners(2) [OF update] that show ?thesis by simp
    next
      case REMOVE
      with last have "1 < owner_count db" by (simp add: owner_count_def)
      with update_assignment_owners(1) [OF update] show ?thesis by simp
    qed
    with c active show ?thesis
      by (intro write_governs [OF ok update_assignment_only [OF update]
            update_assignment_roles [OF update roles]
            update_assignment_enabled [OF update roles enabled c(1)]]) simp_all
  qed
qed

lemma owner_executor_governs:
  assumes ok: "governed db" and run: "owner_executor input version db request = (Inr a, db')"
  shows "governs db db'"
proof (rule owner_executor_InrD [OF run])
  fix current db1
  assume "\<not> target_inactive (ow_targetUserId input) db"
    "current = find_assignment (ow_targetUserId input) PLATFORM_OWNER db"
    "ow_action input = REMOVE \<Longrightarrow> 1 < count_where active_owner (assignments db) \<and>
       (\<exists>c. current = Some c \<and> as_active c)"
    "owner_change_store input version current db = (Inr a, db1)"
    and db': "db' = owner_change_report input a db1"
  then have 1: "governs db db1" by (intro owner_change_store_governs [OF ok])
  then have "governs db1 db'"
    unfolding db' by (intro report_governs) (simp_all add: governs_def)
  with 1 show ?thesis by (rule governs_trans)
qed

lemma owner_change_governs:
  assumes ok: "governed db"
  shows "governs db (snd (executePlatformOwnerChange digest input db))"
proof (cases "available db")
  case False
  with ok show ?thesis by (simp add: executePlatformOwnerChange_def)
next
  case True
  let ?v = "assignment_version (find_assignment (ow_targetUserId input) PLATFORM_OWNER db)"
  let ?run = "executeGovernanceApproval digest (owner_execution input ?v) (owner_executor input ?v) db"
  have cer: "ceremony_ok db" using ok by (simp add: governed_def)
  have "governs db (snd ?run)"
  proof (cases ?run)
    case (Pair result db')
    show ?thesis
    proof (cases result)
      case (Inl e)
      with Pair have "?run = (Inl e, db')" by simp
      from execute_InlD [OF this] have "same_roles db db'" "ceremony_ok db'"
        using cer mark_expired_advances [OF cer] by (auto simp: same_roles_def advances_def)
      with Pair ok show ?thesis by (simp add: same_roles_governs)
    next
      case (Inr a)
      with Pair have "?run = (Inr a, db')" by simp
      then show ?thesis
      proof (rule execute_InrD)
        fix request ds ps db1
        assume call: "claimed_call (owner_execution input ?v) (owner_executor input ?v) request ps db =
            (Inr a, db1)"
          and db': "db' = execute_report (owner_execution input ?v) request ds db1"
        have "governs db (execute_claim (owner_execution input ?v) (ap_id request) db)"
          by (rule same_roles_governs [OF ok])
            (use execute_claim_advances [OF cer] in \<open>simp_all add: same_roles_def advances_def\<close>)
        moreover from this have "governs (execute_claim (owner_execution input ?v) (ap_id request) db) db1"
          by (intro owner_executor_governs [OF _ call [unfolded claimed_call_def]])
            (simp add: governs_def)
        ultimately have 1: "governs db db1" by (rule governs_trans)
        have "ceremony_ok db'"
          by (rule ceremony_ok_frame [of db1]) (use 1 db' in \<open>simp_all add: governs_def governed_def\<close>)
        with 1 have "governs db1 db'"
          by (intro same_roles_governs) (simp_all add: governs_def same_roles_def db')
        with 1 Pair show ?thesis by (auto intro: governs_trans)
      qed
    qed
  qed
  with True show ?thesis by (simp add: executePlatformOwnerChange_def Let_def)
qed

text \<open>The bootstrap.\<close>

lemma validation_InrD:
  assumes "validatePlatformOwnerBootstrapRequest hash input = Inr v"
  shows "bv_now v = bi_now input" "bv_authorizationHash v = bi_expectedAuthorizationHash input"
    "SHA256 (bv_authorizationHash v)" "bv_authorizationHash v = hash (bi_authorizationToken input)"
    "bv_targetEmailNormalized v = normalizedEmail (bi_targetEmail input)"
    "bi_now input < bi_authorizationExpiresAt input"
    "bi_authorizationExpiresAt input \<le> bi_now input + 900000"
    "bi_environment input = ''integration'' \<or> bi_environment input = ''staging''"
  using assms
  by (auto simp: validatePlatformOwnerBootstrapRequest_def Let_def hashesMatch_def
      MAX_AUTHORIZATION_LIFETIME_MS_def ALLOWED_ENVIRONMENTS_def split: if_splits)

lemma evidence_InrD:
  assumes "validateDatabaseEvidence input v db = Inr u"
  obtains s e where "\<not> target_inactive (bi_targetUserId input) db"
    "map_option us_emailNormalized (find_user (bi_targetUserId input) db) =
       Some (bv_targetEmailNormalized v)"
    "count_where (effective_owner db) (assignments db) = 0"
    "List.find (\<lambda>b. bo_singletonKey b = BOOTSTRAP_SINGLETON) (bootstraps db) = None"
    "s \<in> set (userSessions db)" "se_id s = bi_sessionEvidenceId input" "session_evidence input v s"
    "e \<in> set (securityEvents db)" "mfa_evidence input v s e"
  using assms
  by (auto simp: validateDatabaseEvidence_def Let_def split: if_splits option.splits dest!: find_SomeD)

lemma bootstrap_InrD:
  assumes "executePlatformOwnerBootstrap hash input db = (Inr r, db')"
  obtains v a db1 where "validatePlatformOwnerBootstrapRequest hash input = Inr v"
    "validateDatabaseEvidence input v db = Inr ()"
    "create_assignment
       \<lparr>as_id = bi_newId input, as_userId = bi_targetUserId input, as_role = PLATFORM_OWNER,
        as_active = True, as_version = 1, as_assignedById = None, as_disabledAt = None\<rparr> db =
     (Inr a, db1)"
    "db' = (bootstrap_report_rows hash input v a db1)
       \<lparr>bootstraps := bootstraps db @ [bootstrap_row_of hash input v (as_id a)]\<rparr>"
    "r = bootstrap_report_of hash input v (Some (as_id a))"
proof -
  from assms obtain v where v: "validatePlatformOwnerBootstrapRequest hash input = Inr v"
    and run: "bootstrap_transaction hash input v db = (Inr r, db')"
    by (auto simp: executePlatformOwnerBootstrap_def split: sum.splits if_splits
        dest: in_transaction_InrD)
  from run obtain a db1 where e: "validateDatabaseEvidence input v db = Inr ()"
    and create: "create_assignment
       \<lparr>as_id = bi_newId input, as_userId = bi_targetUserId input, as_role = PLATFORM_OWNER,
        as_active = True, as_version = 1, as_assignedById = None, as_disabledAt = None\<rparr> db =
     (Inr a, db1)"
    and db': "db' = (bootstrap_report_rows hash input v a db1)
       \<lparr>bootstraps := bootstraps (bootstrap_report_rows hash input v a db1) @
         [bootstrap_row_of hash input v (as_id a)]\<rparr>"
    and r: "r = bootstrap_report_of hash input v (Some (as_id a))"
    by (auto simp: bootstrap_transaction_def Let_def split: sum.splits prod.splits if_splits)
  have "bootstraps (bootstrap_report_rows hash input v a db1) = bootstraps db"
    using create_assignment_InrD(2) [OF create] by (simp add: bootstrap_report_rows_def)
  with db' have "db' = (bootstrap_report_rows hash input v a db1)
       \<lparr>bootstraps := bootstraps db @ [bootstrap_row_of hash input v (as_id a)]\<rparr>"
    by simp
  from that [OF v e create this r] show thesis .
qed

lemma bootstrap_InlD:
  "executePlatformOwnerBootstrap hash input db = (Inl e, db') \<Longrightarrow> db' = db"
  by (auto simp: executePlatformOwnerBootstrap_def split: sum.splits if_splits
      dest: in_transaction_InlD)

text \<open>Row identifiers the database draws are not empty.\<close>

fun drawn_id :: "platform_op \<Rightarrow> bool" where
  "drawn_id (Bootstrap input) = (bi_newId input \<noteq> [])"
| "drawn_id op = True"

lemma bootstrap_report_rows_frame [simp]:
  "only_assignments db (bootstrap_report_rows hash input v a db)"
  "assignments (bootstrap_report_rows hash input v a db) = assignments db"
  "users (bootstrap_report_rows hash input v a db) = users db"
  "bootstraps (bootstrap_report_rows hash input v a db) = bootstraps db"
  "userSessions (bootstrap_report_rows hash input v a db) =
     userSessions (revoke_user_sessions (bi_targetUserId input) (bv_now v) db)"
  by (simp_all add: bootstrap_report_rows_def only_assignments_def)

lemma bootstrap_governs:
  assumes ok: "governed db" and id: "bi_newId input \<noteq> []"
    and run: "executePlatformOwnerBootstrap hash input db = (Inr r, db')"
  shows "governs db db'"
proof (rule bootstrap_InrD [OF run])
  let ?new = "\<lparr>as_id = bi_newId input, as_userId = bi_targetUserId input, as_role = PLATFORM_OWNER,
        as_active = True, as_version = 1, as_assignedById = None, as_disabledAt = None\<rparr>"
  fix v a db1
  assume v: "validatePlatformOwnerBootstrapRequest hash input = Inr v"
    and e: "validateDatabaseEvidence input v db = Inr ()"
    and create: "create_assignment ?new db = (Inr a, db1)"
    and db': "db' = (bootstrap_report_rows hash input v a db1)
       \<lparr>bootstraps := bootstraps db @ [bootstrap_row_of hash input v (as_id a)]\<rparr>"
  from ok have roles: "roles_ok (assignments db)" and enabled: "owners_enabled db"
    and ledger: "ledger_ok (bootstraps db)"
    by (simp_all add: governed_def)
  have active: "\<not> target_inactive (as_userId ?new) db"
    and none: "List.find (\<lambda>b. bo_singletonKey b = BOOTSTRAP_SINGLETON) (bootstraps db) = None"
    by (rule evidence_InrD [OF e]; simp)+
  have 1: "governs db db1"
    by (rule write_governs [OF ok create_assignment_only [OF create]
          create_assignment_roles [OF create roles] create_assignment_enabled [OF create enabled active]])
      (use create_assignment_owners [OF create] in simp)
  have "bootstraps db = []"
    using ledger none by (cases "bootstraps db") (auto simp: ledger_ok_def)
  then have "ledger_ok (bootstraps db')"
    using id create_assignment_InrD(1) [OF create] validation_InrD(3) [OF v]
    by (simp add: db' ledger_ok_def bootstrap_row_of_def)
  moreover have "ceremony_ok db'"
    by (rule ceremony_ok_frame [of db1])
      (use 1 in \<open>simp_all add: governs_def governed_def db' bootstrap_report_rows_def\<close>)
  moreover have "owners_enabled db'"
  proof -
    from 1 have "users db1 = users db" "owners_enabled db1"
      by (simp_all add: governs_def governed_def)
    then show ?thesis
      by (simp add: owners_enabled_def target_inactive_def find_user_def db')
  qed
  ultimately show ?thesis
    using 1 by (simp add: governs_def governed_def owner_count_def db')
qed

text \<open>Support sessions and the ceremony leave the roles alone.\<close>

lemma support_same_roles:
  "same_roles db (snd (startPlatformSupportSession input db))"
  "same_roles db (snd (endPlatformSupportSession session i now db))"
  "same_roles db (snd (terminatePlatformSupportSessionByOperator u i c now db))"
  by (auto simp: startPlatformSupportSession_def endPlatformSupportSession_def
      terminatePlatformSupportSessionByOperator_def same_roles_def Let_def
      split: option.split)

lemma support_ceremony:
  assumes "ceremony_ok db"
  shows "ceremony_ok (snd (startPlatformSupportSession input db))"
    "ceremony_ok (snd (endPlatformSupportSession session i now db))"
    "ceremony_ok (snd (terminatePlatformSupportSessionByOperator u i c now db))"
  by (rule ceremony_ok_frame [OF assms];
      simp add: startPlatformSupportSession_def endPlatformSupportSession_def
        terminatePlatformSupportSessionByOperator_def Let_def split: option.split)+

lemma quiet_refl [simp]: "quiet db db"
  by (simp add: quiet_def)

lemma quietD: "quiet db db' \<Longrightarrow> same_roles db db'"
  by (simp add: quiet_def)

lemma request_quiet: "quiet db (snd (requestGovernanceApproval digest input db))"
proof (cases "requestGovernanceApproval digest input db")
  case (Pair result db')
  then show ?thesis
  proof (cases result)
    case (Inl e)
    with Pair show ?thesis by (auto simp: quiet_def dest: request_InlD)
  next
    case (Inr row)
    with Pair have "requestGovernanceApproval digest input db = (Inr row, db')" by simp
    then show ?thesis by (rule request_InrD) (simp add: Pair quiet_def same_roles_def)
  qed
qed

lemma decide_quiet: "quiet db (snd (decideGovernanceApproval input db))"
proof -
  have "quiet db db'" if "decide_transaction input db = (Inr v, db')" for v db'
    using that by (auto simp: decide_transaction_def quiet_def same_roles_def split: sum.splits
        dest!: decide_commit_InrD(2))
  then show ?thesis
    by (auto simp: decideGovernanceApproval_def quiet_def same_roles_def intro: in_transaction_keeps
        [of "\<lambda>db db'. assignments db' = assignments db"]
        in_transaction_keeps [of "\<lambda>db db'. users db' = users db"]
        in_transaction_keeps [of "\<lambda>db db'. bootstraps db' = bootstraps db"]
        in_transaction_keeps [of "\<lambda>db db'. supportSessions db' = supportSessions db"])
qed

lemma cancel_quiet: "quiet db (snd (cancelGovernanceApproval session i now db))"
  by (auto simp: cancelGovernanceApproval_def quiet_def same_roles_def split: option.split)

lemma expire_quiet: "quiet db (snd (expireStaleGovernanceApprovals actorId now db))"
proof -
  have "quiet db (expire_each actorId now rs db)" for rs
  proof (induction rs arbitrary: db)
    case Nil
    then show ?case by (simp add: quiet_def)
  next
    case (Cons r rs)
    from Cons [of db] Cons [of "expire_store actorId now r db"] show ?case
      by (simp add: quiet_def same_roles_def)
  qed
  then show ?thesis by (simp add: expireStaleGovernanceApprovals_def Let_def)
qed

lemma step_governs:
  assumes ok: "governed db" and id: "drawn_id op"
  shows "governs db (platform_step digest hash op db)"
proof -
  have cer: "ceremony_ok db" using ok by (simp add: governed_def)
  note frame = same_roles_governs [OF ok]
  show ?thesis
  proof (cases op)
    case (ChangeRole input)
    with ok show ?thesis
      by (cases "changePlatformRoleAssignment input db"; cases "fst (changePlatformRoleAssignment input db)")
        (auto dest: role_change_InlD role_change_governs [OF ok])
  next
    case (Bootstrap input)
    with ok id show ?thesis
      by (cases "executePlatformOwnerBootstrap hash input db";
          cases "fst (executePlatformOwnerBootstrap hash input db)")
        (auto dest: bootstrap_InlD bootstrap_governs [OF ok])
  qed (auto intro: frame owner_change_governs [OF ok] support_same_roles support_ceremony [OF cer]
      request_quiet [THEN quietD] decide_quiet [THEN quietD] cancel_quiet [THEN quietD]
      expire_quiet [THEN quietD]
      simp: request_advances [OF cer, unfolded advances_def]
        decide_advances [OF cer, unfolded advances_def]
        cancel_advances [OF cer, unfolded advances_def]
        expire_advances [OF cer, unfolded advances_def])
qed

lemma run_governs:
  "governed db \<Longrightarrow> list_all drawn_id ops \<Longrightarrow> governs db (platform_run digest hash ops db)"
proof (induction ops arbitrary: db)
  case Nil
  then show ?case by simp
next
  case (Cons op ops)
  then have "governs db (platform_step digest hash op db)"
    by (intro step_governs) simp_all
  with Cons show ?case by (auto simp: governs_def)
qed

section \<open>What no step undoes\<close>

text \<open>The bootstrap ledger only grows, and support sessions are never reopened, extended or widened.\<close>

definition supports_ok :: "governance_db \<Rightarrow> bool" where
  "supports_ok db \<longleftrightarrow> distinct (map su_id (supportSessions db))"

definition remembers :: "governance_db \<Rightarrow> governance_db \<Rightarrow> bool" where
  "remembers db db' \<longleftrightarrow>
     set (bootstraps db) \<subseteq> set (bootstraps db') \<and>
     (supports_ok db \<longrightarrow> supports_ok db') \<and>
     (\<forall>s \<in> set (supportSessions db). \<exists>s' \<in> set (supportSessions db'). support_evolves s s')"

lemma support_evolves_trans:
  "support_evolves s t \<Longrightarrow> support_evolves t u \<Longrightarrow> support_evolves s u"
  by (simp add: support_evolves_def)

lemma remembers_refl [simp, intro]: "remembers db db"
  by (auto simp: remembers_def intro: support_evolves_refl)

lemma remembers_trans:
  assumes "remembers db db1" "remembers db1 db2"
  shows "remembers db db2"
  using assms unfolding remembers_def by (meson order_trans support_evolves_trans)

lemma remembers_frame:
  "bootstraps db' = bootstraps db \<Longrightarrow> supportSessions db' = supportSessions db \<Longrightarrow> remembers db db'"
  by (auto simp: remembers_def supports_ok_def intro: support_evolves_refl)

lemma end_store_remembers: "remembers db (end_store u a row now db)"
proof -
  have "map su_id (supportSessions (end_store u a row now db)) = map su_id (supportSessions db)"
    unfolding end_store_rows by (rule map_update_where) simp
  then show ?thesis
    using list_all2_member [OF end_store_evolves, of _ db]
    by (auto simp: remembers_def supports_ok_def)
qed

lemma start_remembers: "remembers db (snd (startPlatformSupportSession input db))"
  by (auto simp: startPlatformSupportSession_def Let_def remembers_def supports_ok_def list_ex_iff
      support_row_of_def intro: support_evolves_refl)

lemma owner_executor_remembers:
  "owner_executor input v db request = (Inr a, db') \<Longrightarrow> remembers db db'"
  by (intro remembers_frame) (auto dest!: owner_executor_only simp: only_assignments_def)

lemma execution_remembers:
  assumes "\<And>db request a db'. execute db request = (Inr a, db') \<Longrightarrow> remembers db db'"
  shows "remembers db (snd (executeGovernanceApproval digest input execute db))"
proof (cases "executeGovernanceApproval digest input execute db")
  case (Pair result db')
  show ?thesis
  proof (cases result)
    case (Inl e)
    with Pair execute_InlD [of digest input execute db e db'] show ?thesis
      by (auto intro: remembers_frame)
  next
    case (Inr a)
    with Pair have "executeGovernanceApproval digest input execute db = (Inr a, db')" by simp
    then show ?thesis
    proof (rule execute_InrD)
      fix request ds ps db1
      assume call: "claimed_call input execute request ps db = (Inr a, db1)"
        and db': "db' = execute_report input request ds db1"
      have "remembers db (execute_claim input (ap_id request) db)" "remembers db1 db'"
        unfolding db' by (auto intro: remembers_frame)
      with assms [OF call [unfolded claimed_call_def]] Pair show ?thesis
        by (auto intro: remembers_trans)
    qed
  qed
qed

lemma only_assignments_remembers: "only_assignments db db' \<Longrightarrow> remembers db db'"
  by (simp add: remembers_frame only_assignments_def)

lemma role_change_remembers: "remembers db (snd (changePlatformRoleAssignment input db))"
proof (cases "changePlatformRoleAssignment input db")
  case (Pair result db')
  show ?thesis
  proof (cases result)
    case (Inl e)
    with Pair role_change_InlD show ?thesis by fastforce
  next
    case (Inr a)
    with Pair have "changePlatformRoleAssignment input db = (Inr a, db')" by simp
    then show ?thesis
    proof (rule role_change_InrD)
      fix role db1
      assume store: "role_change_store input role
          (find_assignment (rc_targetUserId input) role db) db = (Inr a, db1)"
        and db': "db' = role_change_report input role a db1"
      have "only_assignments db db1"
        using store by (auto simp: role_change_store_def split: option.splits
            dest: update_assignment_only create_assignment_only)
      then show ?thesis
        using only_assignments_trans [OF _ role_change_report_rows(1)] Pair db'
        by (auto intro: only_assignments_remembers)
    qed
  qed
qed

lemma bootstrap_remembers: "remembers db (snd (executePlatformOwnerBootstrap hash input db))"
proof (cases "executePlatformOwnerBootstrap hash input db")
  case (Pair result db')
  show ?thesis
  proof (cases result)
    case (Inl e)
    with Pair bootstrap_InlD show ?thesis by fastforce
  next
    case (Inr r)
    with Pair have "executePlatformOwnerBootstrap hash input db = (Inr r, db')" by simp
    then show ?thesis
    proof (rule bootstrap_InrD)
      fix v a db1
      assume create: "create_assignment
          \<lparr>as_id = bi_newId input, as_userId = bi_targetUserId input, as_role = PLATFORM_OWNER,
           as_active = True, as_version = 1, as_assignedById = None, as_disabledAt = None\<rparr> db =
          (Inr a, db1)"
        and db': "db' = (bootstrap_report_rows hash input v a db1)
          \<lparr>bootstraps := bootstraps db @ [bootstrap_row_of hash input v (as_id a)]\<rparr>"
      have "only_assignments db (bootstrap_report_rows hash input v a db1)"
        by (rule only_assignments_trans [OF create_assignment_only [OF create]
              bootstrap_report_rows_frame(1)])
      then have "supportSessions db' = supportSessions db"
        by (simp add: db' only_assignmentsD)
      then show ?thesis
        using Pair by (auto simp: db' remembers_def supports_ok_def intro: support_evolves_refl)
    qed
  qed
qed

lemma step_remembers: "remembers db (platform_step digest hash op db)"
proof (cases op)
  case (ChangeOwner input)
  then show ?thesis
    by (simp add: executePlatformOwnerChange_def Let_def execution_remembers owner_executor_remembers)
next
  case (EndSupport session i now)
  then show ?thesis
    by (simp add: endPlatformSupportSession_def end_store_remembers split: option.split)
next
  case (TerminateSupport u i c now)
  then show ?thesis
    by (simp add: terminatePlatformSupportSessionByOperator_def end_store_remembers split: option.split)
qed (use role_change_remembers bootstrap_remembers start_remembers request_quiet decide_quiet
    cancel_quiet expire_quiet in \<open>auto simp: quiet_def same_roles_def intro: remembers_frame\<close>)

lemma run_remembers: "remembers db (platform_run digest hash ops db)"
  by (induction ops arbitrary: db) (auto intro: remembers_trans step_remembers)

end
