(* ===== verification/GovernanceInvariants.thy ===== *)
theory GovernanceInvariants
  imports GovernanceRuns
begin

text \<open>
  The operator's invariant report (\<open>lib/governance-invariants.ts\<close>): the counts it takes from the
  database, the contracts of the permission evaluator it probes, and the list of invariants with
  their verdicts. The texts of the expected values are left out.
\<close>

section \<open>Contracts of the permission evaluator\<close>

definition invariant_session :: "ms \<Rightarrow> app_session" where
  "invariant_session now =
     \<lparr>s_sessionId = None, s_userId = ''governance-invariant-actor'',
      s_name = ''Governance invariant actor'', s_company = ''Governance invariant'',
      s_companyId = None, s_identityProviderId = None,
      s_email = ''governance-invariant@example.test'', s_role = ADMIN_PLATFORM,
      s_platformRoles = None, s_organizationRole = None, s_membershipStatus = None,
      s_membershipVersion = None, s_mfaSatisfied = None, s_authenticationAt = None,
      s_expiresAt = now + 60000\<rparr>"

definition invariant_assignment :: "ms \<Rightarrow> platform_assignment_context" where
  "invariant_assignment now =
     \<lparr>pac_id = ''governance-invariant-assignment'', pac_userId = s_userId (invariant_session now),
      pac_role = ''PLATFORM_SUPPORT'', pac_active = True, pac_disabledAt = None, pac_version = 1\<rparr>"

definition disabledAssignmentDenied :: "ms \<Rightarrow> bool" where
  "disabledAssignmentDenied now =
     list_all (\<lambda>candidate. pd_reasonCode (evaluatePlatformPermission (Some (invariant_session now))
         (Some candidate) ''platform.view'' empty_context None now) = ASSIGNMENT_INACTIVE)
       [invariant_assignment now\<lparr>pac_active := False\<rparr>,
        invariant_assignment now\<lparr>pac_disabledAt := Some now\<rparr>]"

definition expiredSupportDenied :: "ms \<Rightarrow> bool" where
  "expiredSupportDenied now \<longleftrightarrow>
     pd_reasonCode (evaluatePlatformPermission (Some (invariant_session now))
       (Some (invariant_assignment now)) ''platform.support.resource.view''
       (empty_context\<lparr>oc_companyId := Some ''governance-invariant-company'',
                      oc_requireSupportSession := True\<rparr>)
       (Some \<lparr>ssc_id = ''governance-invariant-support-session'',
              ssc_actorId = s_userId (invariant_session now),
              ssc_companyId = ''governance-invariant-company'',
              ssc_allowedScopes = [''platform.support.resource.view''],
              ssc_expiresAt = now, ssc_endedAt = None\<rparr>) now) = SUPPORT_SESSION_INVALID"

definition validateGovernancePermissionContracts :: "ms \<Rightarrow> bool \<times> bool" where
  "validateGovernancePermissionContracts now = (disabledAssignmentDenied now, expiredSupportDenied now)"

section \<open>Counts\<close>

definition expired_support_sessions :: "ms \<Rightarrow> governance_db \<Rightarrow> nat" where
  "expired_support_sessions now db =
     count_where (\<lambda>s. su_endedAt s = None \<and> su_expiresAt s \<le> now) (supportSessions db)"

definition malformed_executed :: "governance_db \<Rightarrow> nat" where
  "malformed_executed db =
     count_where (\<lambda>r. ap_status r = EXECUTED \<and> (ap_executionKey r = None \<or> ap_executedAt r = None))
       (approvals db)"

text \<open>The join of decisions and requests on the request id.\<close>

definition self_approvals :: "governance_db \<Rightarrow> nat" where
  "self_approvals db =
     length (filter (\<lambda>(d, r). ap_id r = de_requestId d \<and> de_approved d \<and>
                              de_approverId d = ap_requesterId r)
       (List.product (decisions db) (approvals db)))"

definition registry_only_actions :: "string list" where
  "registry_only_actions =
     map action_name (filter (\<lambda>a. \<not> contains CONNECTED_GOVERNANCE_APPROVAL_EXECUTORS a)
       GOVERNANCE_APPROVAL_ACTIONS)"

definition unconnected_persisted :: "governance_db \<Rightarrow> nat" where
  "unconnected_persisted db =
     count_where (\<lambda>r. contains registry_only_actions (ap_actionType r)) (approvals db)"

definition bootstrap_valid :: "governance_db \<Rightarrow> bool" where
  "bootstrap_valid db \<longleftrightarrow>
     length (bootstraps db) \<le> 1 \<and>
     list_all (\<lambda>b. SHA256 (bo_authorizationHash b) \<and> bo_assignmentId b \<noteq> []) (bootstraps db)"

text \<open>Knowledge articles as far as the report reads them.\<close>

record article_row =
  ka_id :: string
  ka_companyId :: "string option"
  ka_organizationOwned :: bool
  ka_public :: bool
  ka_publicationApprovalId :: "string option"

definition invalid_public_article :: "governance_db \<Rightarrow> article_row \<Rightarrow> bool" where
  "invalid_public_article db article \<longleftrightarrow>
     \<not> truthy (ka_publicationApprovalId article) \<or>
     (case List.find (\<lambda>r. Some (ap_id r) = ka_publicationApprovalId article) (approvals db) of
        None \<Rightarrow> True
      | Some approval \<Rightarrow>
          ap_actionType approval \<noteq> ''KNOWLEDGE_VISIBILITY_PUBLIC'' \<or>
          ap_status approval \<noteq> EXECUTED \<or>
          ap_companyId approval \<noteq> ka_companyId article \<or>
          ap_resourceId approval \<noteq> Some (ka_id article) \<or>
          (case ap_safeParameters approval of
             JObject ps \<Rightarrow> map_of ps ''articleId'' \<noteq> Some (JString (ka_id article))
           | _ \<Rightarrow> True))"

definition invalid_public_articles :: "article_row list \<Rightarrow> governance_db \<Rightarrow> nat" where
  "invalid_public_articles articles db =
     count_where (invalid_public_article db)
       (filter (\<lambda>a. ka_organizationOwned a \<and> ka_public a) articles)"

section \<open>The report\<close>

record invariant_item =
  iv_name :: string
  iv_passed :: bool
  iv_actual :: json

record invariant_report =
  ir_passed :: bool
  ir_checkedAt :: ms
  ir_expiredSupportSessions :: nat
  ir_invariants :: "invariant_item list"

definition item :: "string \<Rightarrow> bool \<Rightarrow> json \<Rightarrow> invariant_item" where
  "item name passed actual = \<lparr>iv_name = name, iv_passed = passed, iv_actual = actual\<rparr>"

definition governance_items :: "article_row list \<Rightarrow> ms \<Rightarrow> governance_db \<Rightarrow> invariant_item list" where
  "governance_items articles now db =
     (let activeOwners = count_where (effective_owner db) (assignments db);
          contracts = validateGovernancePermissionContracts now;
          malformed = malformed_executed db;
          selfs = self_approvals db;
          articles = invalid_public_articles articles db;
          unconnected = unconnected_persisted db in
      [item ''active-platform-owner'' (activeOwners \<ge> 1) (JNumber (int activeOwners)),
       item ''single-bootstrap-and-consumed-authorization'' (bootstrap_valid db)
         (JNumber (int (length (bootstraps db)))),
       item ''expired-support-sessions-denied'' (snd contracts) (JBool (snd contracts)),
       item ''disabled-platform-assignment-denied'' (fst contracts) (JBool (fst contracts)),
       item ''executed-approval-has-atomic-claim'' (malformed = 0) (JNumber (int malformed)),
       item ''self-approval-denied'' (selfs = 0) (JNumber (int selfs)),
       item ''organization-public-knowledge-has-executed-approval'' (articles = 0)
         (JNumber (int articles)),
       item ''registry-only-actions-not-persisted'' (unconnected = 0) (JNumber (int unconnected)),
       item ''foreign-tenant-rag-deny-by-default-contract'' True (JBool True)])"

definition validateGovernanceInvariants ::
  "article_row list \<Rightarrow> ms \<Rightarrow> governance_db \<Rightarrow> invariant_report option" where
  "validateGovernanceInvariants articles now db =
     (if \<not> available db then None
      else
        let items = governance_items articles now db in
        Some \<lparr>ir_passed = list_all iv_passed items, ir_checkedAt = now,
              ir_expiredSupportSessions = expired_support_sessions now db,
              ir_invariants = items\<rparr>)"

section \<open>Lemmas\<close>

lemma contracts_hold: "validateGovernancePermissionContracts now = (True, True)"
proof -
  have view: "contains (PLATFORM_ROLE_PERMISSIONS PLATFORM_SUPPORT) ''platform.support.resource.view''"
    "contains PLATFORM_PERMISSIONS ''platform.support.resource.view''"
    "contains PLATFORM_PERMISSIONS ''platform.view''"
    by (simp_all add: PLATFORM_PERMISSIONS_def)
  have "disabledAssignmentDenied now"
    using view by (simp add: disabledAssignmentDenied_def platform_decision_defs
        invariant_assignment_def)
  moreover have "expiredSupportDenied now"
    using view by (simp add: expiredSupportDenied_def platform_decision_defs support_objection_def
        invariant_assignment_def platform_role_of_def empty_context_def)
  ultimately show ?thesis by (simp add: validateGovernancePermissionContracts_def)
qed

lemma no_malformed: "ceremony_ok db \<Longrightarrow> malformed_executed db = 0"
  by (auto simp: malformed_executed_def count_where_0 ceremony_ok_def row_ok_def)

lemma no_self_approvals: "ceremony_ok db \<Longrightarrow> self_approvals db = 0"
  by (auto simp: self_approvals_def filter_empty_conv dest: ceremony_okD(3))

lemma ledger_valid: "ledger_ok (bootstraps db) \<Longrightarrow> bootstrap_valid db"
  by (auto simp: ledger_ok_def bootstrap_valid_def list_all_iff)

lemma effective_owners:
  "owners_enabled db \<Longrightarrow> count_where (effective_owner db) (assignments db) = owner_count db"
  unfolding count_where_def owner_count_def
  by (rule arg_cong [where f = length], rule filter_cong)
    (auto simp: effective_owner_def owners_enabled_def)

end
