(* ===== verification/GovernanceProperties.thy ===== *)
theory GovernanceProperties
  imports GovernanceInvariants
begin

text \<open>
  The properties of the governance components, each with a run of the model on a concrete input:
  the approval ceremony for any executor that keeps its contract, and the platform's roles,
  bootstrap and support sessions for every run of their handlers.
\<close>

section \<open>A concrete database\<close>

definition person :: "string \<Rightarrow> app_session" where
  "person userId =
     \<lparr>s_sessionId = Some (''session-'' @ userId), s_userId = userId, s_name = userId,
      s_company = ''Avantime'', s_companyId = None, s_identityProviderId = None,
      s_email = userId @ ''@example.test'', s_role = ADMIN_PLATFORM, s_platformRoles = None,
      s_organizationRole = None, s_membershipStatus = None, s_membershipVersion = None,
      s_mfaSatisfied = Some True, s_authenticationAt = Some 1000, s_expiresAt = 9000000\<rparr>"

definition enabled_user :: "string \<Rightarrow> user_row" where
  "enabled_user userId =
     \<lparr>us_id = userId, us_emailNormalized = userId @ ''@example.test'', us_active = True,
      us_disabledAt = None\<rparr>"

definition role_row :: "string \<Rightarrow> string \<Rightarrow> platform_system_role \<Rightarrow> assignment_row" where
  "role_row i userId role =
     \<lparr>as_id = i, as_userId = userId, as_role = role, as_active = True, as_version = 1,
      as_assignedById = None, as_disabledAt = None\<rparr>"

definition two_operators :: governance_db where
  "two_operators =
     empty_db\<lparr>companies := [''acme''],
       users := [enabled_user ''owner-1'', enabled_user ''admin-1'', enabled_user ''third''],
       assignments := [role_row ''as1'' ''owner-1'' PLATFORM_OWNER,
                       role_row ''as2'' ''admin-1'' PLATFORM_ADMIN]\<rparr>"

text \<open>A digest that reads the action and the expiry of the payload.\<close>

fun sample_digest :: "json \<Rightarrow> string" where
  "sample_digest (JObject ((_, JString a) # _)) = ''sha-'' @ a"
| "sample_digest v = ''sha''"

definition sample_request :: request_input where
  "sample_request =
     \<lparr>rq_session = person ''admin-1'', rq_actionType = ''PLATFORM_OWNER_ASSIGN'',
      rq_scope = PLATFORM, rq_companyId = None, rq_resourceId = Some ''third'',
      rq_expectedVersion = Some 0,
      rq_safeParameters = JObject [(''targetUserId'', JString ''third''),
                                   (''assignmentVersion'', JNumber 0)],
      rq_confirmation = ''ASSIGN PLATFORM OWNER'', rq_now = 2000, rq_newId = ''ap1''\<rparr>"

definition sample_decision :: decide_input where
  "sample_decision =
     \<lparr>dc_session = person ''owner-1'', dc_requestId = ''ap1'', dc_approved = True,
      dc_approverAuthorized = True, dc_now = 3000\<rparr>"

definition sample_change :: owner_change where
  "sample_change =
     \<lparr>ow_session = person ''admin-1'', ow_approvalId = ''ap1'', ow_targetUserId = ''third'',
      ow_action = ASSIGN, ow_authorized = True, ow_now = 4000, ow_newId = ''as3''\<rparr>"

definition sample_row :: approval_row where
  "sample_row =
     \<lparr>ap_id = ''ap1'', ap_actionType = ''PLATFORM_OWNER_ASSIGN'', ap_scope = PLATFORM,
      ap_companyId = None, ap_resourceId = Some ''third'', ap_expectedVersion = Some 0,
      ap_safeParameters = JObject [(''targetUserId'', JString ''third''),
                                   (''assignmentVersion'', JNumber 0)],
      ap_payloadFingerprint = ''sha-PLATFORM_OWNER_ASSIGN'', ap_requesterId = ''admin-1'',
      ap_status = REQUESTED, ap_expiresAt = 602000, ap_executedAt = None, ap_cancelledAt = None,
      ap_executionKey = None\<rparr>"

definition requested_db :: governance_db where
  "requested_db = snd (requestGovernanceApproval sample_digest sample_request two_operators)"

definition approved_db :: governance_db where
  "approved_db = snd (decideGovernanceApproval sample_decision requested_db)"

lemmas sample_defs =
  person_def enabled_user_def role_row_def two_operators_def empty_db_def sample_request_def
  sample_decision_def sample_change_def sample_row_def

lemma sample_stepUp [simp]: "stepUp (person u) t \<longleftrightarrow> 1000 \<le> t \<and> t \<le> 601000"
  by (auto simp: stepUp_def approvalStepUpSatisfied_def authenticationAt_or_0_def person_def)

lemma person_simps [simp]: "s_userId (person u) = u" "s_companyId (person u) = None"
  by (simp_all add: person_def)

lemma owner_policy [simp]:
  "getGovernanceApprovalPolicy ''PLATFORM_OWNER_ASSIGN'' =
     Some (GOVERNANCE_APPROVAL_POLICIES PLATFORM_OWNER_ASSIGN)"
  using action_of_name [of PLATFORM_OWNER_ASSIGN] by (simp add: getGovernanceApprovalPolicy_def)

lemma sample_requested:
  "requestGovernanceApproval sample_digest sample_request two_operators =
     (Inr sample_row,
      request_store (GOVERNANCE_APPROVAL_POLICIES PLATFORM_OWNER_ASSIGN) sample_row two_operators)"
  by (simp add: requestGovernanceApproval_def request_checks_def sample_request_def Let_def
      policy_def asSafeParameters_def safe_integer_def nullish_def governanceApprovalFingerprint_def
      canonical_payload_def new_approval_def request_commit_def in_transaction_def sample_row_def
      two_operators_def empty_db_def)

lemma requested_rows:
  "approvals requested_db = [sample_row]" "decisions requested_db = []"
  "assignments requested_db = assignments two_operators" "users requested_db = users two_operators"
  "available requested_db"
  unfolding requested_db_def sample_requested
  by (simp_all add: two_operators_def empty_db_def)

lemma sample_approved:
  "decideGovernanceApproval sample_decision requested_db =
     (Inr APPROVED, decide_store sample_decision sample_row APPROVED requested_db)"
  by (simp add: requested_rows decideGovernanceApproval_def decide_transaction_def
      decide_read_def decide_commit_def in_transaction_def find_approval_def decisions_of_def
      past_due_def sample_decision_def sample_row_def decided_status_def Let_def policy_def
      decide_guard_def count_where_Cons)

lemma approved_rows:
  "approvals approved_db = [sample_row\<lparr>ap_status := APPROVED\<rparr>]"
  "decisions approved_db =
     [\<lparr>de_requestId = ''ap1'', de_approverId = ''owner-1'', de_approved = True\<rparr>]"
  "assignments approved_db = assignments two_operators" "users approved_db = users two_operators"
  "available approved_db"
  unfolding approved_db_def sample_approved
  by (simp_all add: decide_guard_def table_simps requested_rows sample_row_def sample_decision_def)

lemma sample_change_version:
  "assignment_version (find_assignment ''third'' PLATFORM_OWNER approved_db) = 0"
  by (simp add: find_assignment_def approved_rows two_operators_def role_row_def assignment_version_def)

definition executed_row_of :: "approval_row \<Rightarrow> approval_row" where
  "executed_row_of r = r\<lparr>ap_status := EXECUTED, ap_executedAt := Some 4000,
     ap_executionKey := Some ''platform-owner:ap1''\<rparr>"

lemma sample_executed:
  "executePlatformOwnerChange sample_digest sample_change approved_db =
     (Inr ((role_row ''as3'' ''third'' PLATFORM_OWNER)\<lparr>as_assignedById := Some ''admin-1''\<rparr>),
      snd (executePlatformOwnerChange sample_digest sample_change approved_db))"
  by (simp add: executePlatformOwnerChange_def approved_rows sample_change_version sample_change_def
      owner_execution_def executeGovernanceApproval_def past_due_def find_approval_def sample_row_def
      in_transaction_def execute_transaction_def execute_read_def decisions_of_def policy_def
      valid_approvers_def unique_def asSafeParameters_def governanceApprovalFingerprint_def
      canonical_payload_def Let_def execute_commit_def count_where_Cons claim_guard_def
      owner_executor_def target_inactive_def find_user_def two_operators_def enabled_user_def
      find_assignment_def role_row_def assignment_version_def owner_change_store_def
      create_assignment_def owner_change_report_def)

lemma two_operators_governed: "governed two_operators" "0 < owner_count two_operators"
proof -
  have "\<not> target_inactive ''owner-1'' two_operators"
    by (simp add: target_inactive_def find_user_def two_operators_def enabled_user_def)
  then show "governed two_operators" "0 < owner_count two_operators"
    by (simp_all add: governed_def ceremony_ok_empty roles_ok_def owners_enabled_def ledger_ok_def
        owner_count_def active_owner_def table_simps two_operators_def empty_db_def role_row_def)
qed

lemma approved_governed: "governed approved_db"
proof -
  have "governs two_operators (platform_run sample_digest sample_digest'
      [Propose sample_request, Resolve sample_decision] two_operators)" for sample_digest'
    by (rule run_governs) (simp_all add: two_operators_governed)
  then show ?thesis by (simp add: governs_def approved_db_def requested_db_def)
qed

lemma sample_execution:
  "executeGovernanceApproval sample_digest (owner_execution sample_change 0)
     (owner_executor sample_change 0) approved_db =
   (Inr ((role_row ''as3'' ''third'' PLATFORM_OWNER)\<lparr>as_assignedById := Some ''admin-1''\<rparr>),
    snd (executePlatformOwnerChange sample_digest sample_change approved_db))"
proof -
  have "ow_targetUserId sample_change = ''third''" by (simp add: sample_change_def)
  with sample_executed sample_change_version show ?thesis
    by (simp add: executePlatformOwnerChange_def approved_rows(5))
qed

lemma sample_execution_id: "ex_requestId (owner_execution sample_change 0) = ''ap1''"
  by (simp add: owner_execution_def sample_change_def)

section \<open>The approval ceremony\<close>

text \<open>
  C1. Two persons: whenever a controlled action executes, there was a stored request for exactly
  this action, made by the executing user, approved and not expired, and a stored approving
  decision by somebody else; the executing session had passed step-up authentication, the resource
  still had the version the request named, and the stored columns still hash to the fingerprint
  taken at the request.
\<close>

theorem two_person_execution:
  assumes "executeGovernanceApproval digest input execute db = (Inr v, db')"
  shows "\<exists>r d ps. r \<in> set (approvals db) \<and> ap_id r = ex_requestId input \<and>
           ap_status r = APPROVED \<and> ap_actionType r = ex_expectedActionType input \<and>
           ap_requesterId r = s_userId (ex_session input) \<and> ex_now input < ap_expiresAt r \<and>
           d \<in> set (decisions db) \<and> de_requestId d = ap_id r \<and> de_approved d \<and>
           de_approverId d \<noteq> s_userId (ex_session input) \<and>
           stepUp (ex_session input) (ex_now input) \<and>
           (ap_expectedVersion r = None \<or> ap_expectedVersion r = ex_currentResourceVersion input) \<and>
           ap_safeParameters r = JObject ps \<and>
           governanceApprovalFingerprint digest (ap_actionType r) (ap_scope r) (ap_companyId r)
             (ap_resourceId r) (ap_expectedVersion r) ps (ap_requesterId r) (ap_expiresAt r) =
           Inr (ap_payloadFingerprint r)"
proof (rule execute_InrD [OF assms])
  fix r ds ps
  assume read: "execute_read digest input db = Inr (r, ds, ps)"
    and step: "stepUp (ex_session input) (ex_now input)"
  note facts = execute_read_InrD [OF read]
  have "r \<in> set (approvals db)" "ap_id r = ex_requestId input"
    using find_approvalD [OF facts(1)] by simp_all
  moreover obtain d where "d \<in> set (decisions db)" "de_requestId d = ap_id r" "de_approved d"
    "de_approverId d \<noteq> s_userId (ex_session input)"
    using facts(3,6,7) find_approvalD [OF facts(1)] by (auto simp: decisions_of_def)
  ultimately show ?thesis using facts step by metis
qed

theorem two_person_execution_witness:
  "\<exists>r d ps. r \<in> set (approvals approved_db) \<and> ap_id r = ''ap1'' \<and> ap_status r = APPROVED \<and>
     d \<in> set (decisions approved_db) \<and> de_requestId d = ap_id r \<and> de_approved d \<and>
     de_approverId d \<noteq> ''admin-1'' \<and> ap_safeParameters r = JObject ps"
  using two_person_execution [OF sample_execution]
  by (auto simp: owner_execution_def sample_change_def)

text \<open>
  C3. Whatever sequence of requests, decisions, cancellations, expiry sweeps and executions runs,
  and whatever the executor does outside the ceremony's tables: the ceremony's invariant holds
  afterwards, every stored approval still has the columns it was requested with, its status has
  only moved along the automaton, and an approval that was rejected, cancelled, expired or executed
  is unchanged.
\<close>

theorem ceremony_invariant:
  assumes "approval_executor execute" "ceremony_ok db"
  shows "ceremony_ok (approval_run digest execute ops db) \<and>
    (\<forall>r \<in> set (approvals db). \<exists>r' \<in> set (approvals (approval_run digest execute ops db)).
       same_request r r' \<and> approval_transition\<^sup>*\<^sup>* (ap_status r) (ap_status r') \<and>
       (terminal (ap_status r) \<longrightarrow> r' = r))"
  using approval_executor.run_advances [OF assms] evolves_rows
  by (fastforce simp: advances_def row_evolves_def)

theorem ceremony_invariant_witness:
  "ceremony_ok (approval_run sample_digest (owner_executor sample_change 0)
     [Execute (owner_execution sample_change 0), Expire None 700000] approved_db)"
proof -
  have "ceremony_ok approved_db" using approved_governed by (simp add: governed_def)
  from ceremony_invariant [OF owner.approval_executor_axioms this] show ?thesis by (rule conjunct1)
qed

text \<open>
  C2. At most once: in every run of the ceremony a given approval executes at most once, however
  often its execution is attempted and under whatever execution keys.
\<close>

theorem execution_at_most_once:
  assumes "approval_executor execute" "ceremony_ok db"
  shows "execution_count digest execute i ops db \<le> 1"
  by (rule approval_executor.at_most_once [OF assms])

theorem execution_at_most_once_witness:
  "execution_count sample_digest (owner_executor sample_change 0) ''ap1''
     [Execute (owner_execution sample_change 0), Execute (owner_execution sample_change 0)]
     approved_db = 1"
proof -
  have "ceremony_ok approved_db" using approved_governed by (simp add: governed_def)
  from execution_at_most_once [OF owner.approval_executor_axioms this]
  have "execution_count sample_digest (owner_executor sample_change 0) ''ap1''
      [Execute (owner_execution sample_change 0), Execute (owner_execution sample_change 0)]
      approved_db \<le> 1" .
  moreover have "executes sample_digest (owner_executor sample_change 0) ''ap1''
      (Execute (owner_execution sample_change 0)) approved_db"
    by (simp add: sample_execution sample_execution_id)
  ultimately show ?thesis by simp
qed

text \<open>
  Two concurrent executions of one approval cannot both commit: an execution whose reads were
  taken before another one committed is refused as a replay when its own claim reaches the
  database, before its executor runs.
\<close>

theorem concurrent_execution_refused:
  assumes contract: "approval_executor execute" and ok: "ceremony_ok db"
    and first: "executeGovernanceApproval digest input execute db = (Inr v, db')"
    and stale: "execute_read digest input' db = Inr (request, ds, ps)"
    and same: "ex_requestId input' = ex_requestId input"
  shows "execute_commit input' execute' (request, ds, ps) db' = (Inl APPROVAL_REPLAY_DENIED, db')"
proof -
  from approval_executor.executed_row [OF contract ok first] obtain r where
    r: "r \<in> set (approvals db')" "ap_id r = ex_requestId input" "ap_status r = EXECUTED"
    by auto
  have "ap_id request = ex_requestId input"
    using find_approvalD [OF execute_read_InrD(1) [OF stale]] same by simp
  moreover have "distinct (map ap_id (approvals db'))"
    using approval_executor.execute_advances [OF contract ok, of digest input] first
    by (simp add: advances_def ceremony_ok_def)
  ultimately have "\<not> claim_guard (ap_id request) s" if "s \<in> set (approvals db')" for s
    using distinct_key_eq [of ap_id "approvals db'" s r] r that by (auto simp: claim_guard_def)
  then have "count_where (claim_guard (ap_id request)) (approvals db') = 0"
    by (simp add: count_where_0)
  then show ?thesis by (simp add: execute_commit_def)
qed

lemma execute_read_key:
  "execute_read digest (input\<lparr>ex_executionKey := k\<rparr>) db = execute_read digest input db"
  by (cases input, hypsubst, unfold execute_read_def execute_input.simps, rule refl)

theorem concurrent_execution_refused_witness:
  "\<exists>snapshot. execute_read sample_digest (owner_execution sample_change 0) approved_db = Inr snapshot \<and>
     fst (execute_commit (owner_execution sample_change 0\<lparr>ex_executionKey := ''other''\<rparr>)
       (owner_executor sample_change 0) snapshot
       (snd (executePlatformOwnerChange sample_digest sample_change approved_db))) =
     Inl APPROVAL_REPLAY_DENIED"
proof (rule execute_InrD [OF sample_execution])
  fix request ds ps
  assume read: "execute_read sample_digest (owner_execution sample_change 0) approved_db =
      Inr (request, ds, ps)"
  then have stale: "execute_read sample_digest
      (owner_execution sample_change 0\<lparr>ex_executionKey := ''other''\<rparr>) approved_db =
      Inr (request, ds, ps)"
    by (simp only: execute_read_key)
  have "ceremony_ok approved_db" using approved_governed by (simp add: governed_def)
  from concurrent_execution_refused [where execute' = "owner_executor sample_change 0", OF owner.approval_executor_axioms this sample_execution stale]
  show ?thesis using read by simp
qed









lemma checks_row:
  assumes "request_checks digest input = Inr (p, r)"
  obtains ps where "ap_safeParameters r = JObject ps" "\<forall>(k, v) \<in> set ps. is_scalar v"
    "governanceApprovalFingerprint digest (ap_actionType r) (ap_scope r) (ap_companyId r)
       (ap_resourceId r) (ap_expectedVersion r) ps (ap_requesterId r) (ap_expiresAt r) =
     Inr (ap_payloadFingerprint r)"
    "ap_scope r = ORGANIZATION \<longrightarrow> truthy (ap_companyId r)"
proof -
  from assms obtain ps where ps: "asSafeParameters (rq_safeParameters input) = Inr ps"
    and print: "governanceApprovalFingerprint digest (rq_actionType input) (rq_scope input)
       (nullish (rq_companyId input)) (rq_resourceId input) (rq_expectedVersion input) ps
       (s_userId (rq_session input)) (rq_now input + gp_ttlSeconds p * 1000) =
     Inr (ap_payloadFingerprint r)"
    and r: "r = new_approval input ps (ap_payloadFingerprint r)
       (rq_now input + gp_ttlSeconds p * 1000)"
    by (auto simp: request_checks_def Let_def new_approval_def
        split: option.splits if_splits sum.splits)
  have "truthy (nullish (rq_companyId input))" if "rq_scope input = ORGANIZATION"
    using print that by (auto elim!: fingerprint_InrD)
  moreover have "ap_actionType r = rq_actionType input" "ap_scope r = rq_scope input"
    "ap_companyId r = nullish (rq_companyId input)" "ap_resourceId r = rq_resourceId input"
    "ap_expectedVersion r = rq_expectedVersion input" "ap_safeParameters r = JObject ps"
    "ap_requesterId r = s_userId (rq_session input)"
    "ap_expiresAt r = rq_now input + gp_ttlSeconds p * 1000"
    by (subst r, simp add: new_approval_def)+
  ultimately show thesis
    using that [of ps] ps print by (simp add: asSafeParameters_Inr)
qed

text \<open>
  C4. The ceremony completes: a request that was accepted, approved by an authorized second person
  of the same tenant within its lifetime, and executed in time by its requester under a fresh key
  and the version it named, executes: the executor is called on the approved request, and if it
  succeeds the execution succeeds with its result.
\<close>

theorem ceremony_completes:
  assumes ok: "ceremony_ok db"
    and requested: "requestGovernanceApproval digest input db = (Inr r, db1)"
    and decision: "dc_requestId d = ap_id r" "dc_approved d" "dc_approverAuthorized d"
      "s_userId (dc_session d) \<noteq> ap_requesterId r" "stepUp (dc_session d) (dc_now d)"
      "dc_now d < ap_expiresAt r"
      "ap_scope r = ORGANIZATION \<Longrightarrow> s_companyId (dc_session d) = ap_companyId r"
    and execution: "ex_requestId e = ap_id r" "ex_executionAuthorized e"
      "s_userId (ex_session e) = ap_requesterId r" "stepUp (ex_session e) (ex_now e)"
      "ex_now e < ap_expiresAt r" "ex_expectedActionType e = ap_actionType r"
      "ap_expectedVersion r = None \<or> ap_expectedVersion r = ex_currentResourceVersion e"
      "ap_scope r = ORGANIZATION \<Longrightarrow> s_companyId (ex_session e) = ap_companyId r"
      "\<forall>r' \<in> set (approvals db). ap_executionKey r' \<noteq> Some (ex_executionKey e)"
    and executor: "\<And>db2 ps. decideGovernanceApproval d db1 = (Inr APPROVED, db2) \<Longrightarrow>
      ap_safeParameters r = JObject ps \<Longrightarrow>
      \<exists>v db3. execute (execute_claim e (ap_id r) db2)
        \<lparr>ar_id = ap_id r, ar_companyId = ap_companyId r, ar_resourceId = ap_resourceId r,
         ar_safeParameters = ps\<rparr> = (Inr v, db3)"
  shows "\<exists>db2 v db4. decideGovernanceApproval d db1 = (Inr APPROVED, db2) \<and>
    executeGovernanceApproval digest e execute db2 = (Inr v, db4)"
proof -
  obtain p where checks: "request_checks digest input = Inr (p, r)"
    and db1: "db1 = request_store p r db" and fresh: "ap_id r \<notin> ap_id ` set (approvals db)"
    by (rule request_InrD [OF requested])
  obtain ps where ps: "ap_safeParameters r = JObject ps" "\<forall>(k, v) \<in> set ps. is_scalar v"
    and print: "governanceApprovalFingerprint digest (ap_actionType r) (ap_scope r) (ap_companyId r)
       (ap_resourceId r) (ap_expectedVersion r) ps (ap_requesterId r) (ap_expiresAt r) =
     Inr (ap_payloadFingerprint r)"
    and tenant: "ap_scope r = ORGANIZATION \<longrightarrow> truthy (ap_companyId r)"
    by (rule checks_row [OF checks])
  have av: "available db" using requested
    by (auto simp: requestGovernanceApproval_def split: sum.splits if_splits prod.splits)
  note row = request_checks_row [OF checks]
  note policy = registry_uniform(1) [OF row(8)]
  have ok1: "ceremony_ok db1"
    using request_store_advances [OF ok fresh row(1-4)] by (simp add: db1 advances_def)
  have mem: "r \<in> set (approvals db1)" by (simp add: db1)
  have find: "find_approval (ap_id r) db1 = Some r" by (rule find_approval_in [OF ok1 mem])
  have none: "\<forall>x \<in> set (decisions db1). de_requestId x \<noteq> ap_id r"
    using ceremony_okD(2) [OF ok1 mem] row(1) by (simp add: row_ok_def)
  have same: "same_present (ap_companyId r) (s_companyId (dc_session d))"
    "same_present (ap_companyId r) (s_companyId (ex_session e))" if "ap_scope r = ORGANIZATION"
    using tenant decision(7) execution(8) that by (auto simp: same_present_iff truthy_iff)
  have one: "count_where (decide_guard (ap_id r)) (approvals db1) = 1"
    by (rule count_where_key_1 [OF ceremony_okD(1) [OF ok1] mem])
      (auto simp: decide_guard_def row)
  let ?db2 = "decide_store d r APPROVED db1"
  have read: "decide_read d db1 = Inr (r, decisions_of (ap_id r) db1, p)"
    using decision find row same by (auto simp: decide_read_def)
  have commit: "decide_commit d (r, decisions_of (ap_id r) db1, p) db1 = (Inr APPROVED, ?db2)"
    using decision(2) one none policy
    by (auto simp: decide_commit_def decided_status_one list_ex_iff Let_def)
  have decided: "decideGovernanceApproval d db1 = (Inr APPROVED, ?db2)"
    using decision find row av read commit
    by (simp add: decideGovernanceApproval_def decide_transaction_def in_transaction_def past_due_def db1)
  let ?r = "r\<lparr>ap_status := APPROVED\<rparr>"
  have ok2: "ceremony_ok ?db2"
    using decide_store_advances [OF ok1 mem _ row(1), of d APPROVED] decision(2,4)
    by (simp add: advances_def)
  have mem2: "?r \<in> set (approvals ?db2)"
    using update_where_member [OF mem, of "decide_guard (ap_id r)" "\<lambda>r. r\<lparr>ap_status := APPROVED\<rparr>"]
    by (simp add: decide_guard_def row)
  have find2: "find_approval (ap_id r) ?db2 = Some ?r"
    using find_approval_in [OF ok2 mem2] by simp
  have ds: "decisions_of (ap_id r) ?db2 =
      [\<lparr>de_requestId = ap_id r, de_approverId = s_userId (dc_session d), de_approved = True\<rparr>]"
    using none decision(2) by (simp add: decisions_of_def filter_empty_conv)
  have claim: "count_where (claim_guard (ap_id r)) (approvals ?db2) = 1"
    by (rule count_where_key_1 [OF ceremony_okD(1) [OF ok2] mem2]) (auto simp: claim_guard_def row)
  have keys: "\<forall>x \<in> set (approvals ?db2). ap_executionKey x \<noteq> Some (ex_executionKey e)"
    using execution(9) row(2) by (auto simp: db1 elim!: in_update_whereE)
  have safe: "asSafeParameters (JObject ps) = Inr ps"
    using ps(2) by (simp add: asSafeParameters_Inr)
  have read2: "\<exists>ds. execute_read digest e ?db2 = Inr (?r, ds, ps)"
    using execution find2 ds row policy ps(1) safe print same decision(4)
    by (simp add: execute_read_def valid_approvers_def unique_def)
  obtain v db3 where call: "execute (execute_claim e (ap_id r) ?db2)
        \<lparr>ar_id = ap_id r, ar_companyId = ap_companyId r, ar_resourceId = ap_resourceId r,
         ar_safeParameters = ps\<rparr> = (Inr v, db3)"
    using executor [OF decided ps(1)] by blast
  from read2 obtain ds where "execute_read digest e ?db2 = Inr (?r, ds, ps)" ..
  then have "executeGovernanceApproval digest e execute ?db2 = (Inr v, execute_report e ?r ds db3)"
    using execution find2 claim keys call av
    by (simp add: executeGovernanceApproval_def execute_transaction_def execute_commit_def
        in_transaction_def past_due_def list_ex_iff db1)
  with decided show ?thesis by blast
qed

theorem ceremony_completes_witness:
  "\<exists>db2 v db4. decideGovernanceApproval sample_decision requested_db = (Inr APPROVED, db2) \<and>
     executeGovernanceApproval sample_digest (owner_execution sample_change 0)
       (owner_executor sample_change 0) db2 = (Inr v, db4)"
proof -
  have run: "requestGovernanceApproval sample_digest sample_request two_operators =
      (Inr sample_row, requested_db)"
    by (simp add: requested_db_def sample_requested)
  have call: "\<exists>v db3. owner_executor sample_change 0
      (execute_claim (owner_execution sample_change 0) (ap_id sample_row) db2)
      \<lparr>ar_id = ap_id sample_row, ar_companyId = ap_companyId sample_row,
       ar_resourceId = ap_resourceId sample_row, ar_safeParameters = ps\<rparr> = (Inr v, db3)"
    if "decideGovernanceApproval sample_decision requested_db = (Inr APPROVED, db2)"
      "ap_safeParameters sample_row = JObject ps" for db2 ps
  proof -
    have "db2 = approved_db" using that(1) by (simp add: approved_db_def)
    moreover have "ps = [(''targetUserId'', JString ''third''), (''assignmentVersion'', JNumber 0)]"
      using that(2) by (simp add: sample_row_def)
    ultimately show ?thesis
      by (simp add: owner_executor_def sample_change_def sample_row_def target_inactive_def
          find_user_def approved_rows two_operators_def enabled_user_def find_assignment_def
          role_row_def assignment_version_def owner_change_store_def create_assignment_def)
  qed
  have "ceremony_ok two_operators" using two_operators_governed by (simp add: governed_def)
  then show ?thesis
  proof (rule ceremony_completes [OF _ run])
    show "\<exists>v db3. owner_executor sample_change 0
      (execute_claim (owner_execution sample_change 0) (ap_id sample_row) db2)
      \<lparr>ar_id = ap_id sample_row, ar_companyId = ap_companyId sample_row,
       ar_resourceId = ap_resourceId sample_row, ar_safeParameters = ps\<rparr> = (Inr v, db3)"
      if "decideGovernanceApproval sample_decision requested_db = (Inr APPROVED, db2)"
        "ap_safeParameters sample_row = JObject ps" for db2 ps
      using that by (rule call)
  qed (simp_all add: sample_decision_def sample_row_def owner_execution_def sample_change_def
      two_operators_def empty_db_def)
qed

section \<open>Fingerprints\<close>

text \<open>
  C21. A fingerprint does not depend on the order in which the parameters were written: two
  parameter lists with the same entries (and no duplicate key, as in any JavaScript object) get the
  same fingerprint or the same error; and an accepted list has exactly the keys the policy of the
  action registers.
\<close>

theorem fingerprint_order_independent:
  assumes "mset ps = mset ps'" "distinct (map fst ps')"
  shows "governanceApprovalFingerprint digest actionType scope companyId resourceId version ps u t =
           governanceApprovalFingerprint digest actionType scope companyId resourceId version ps' u t \<and>
         (governanceApprovalFingerprint digest actionType scope companyId resourceId version ps u t =
            Inr h \<longrightarrow>
          (\<exists>p. getGovernanceApprovalPolicy actionType = Some p \<and>
             set (map fst ps) = set (gp_safeParameterKeys p)))"
proof
  have "length ps = length ps'" using assms(1) by (rule mset_eq_length)
  moreover have "set ps = set ps'" using assms(1) by (rule mset_eq_setD)
  ultimately show "governanceApprovalFingerprint digest actionType scope companyId resourceId version ps u t =
      governanceApprovalFingerprint digest actionType scope companyId resourceId version ps' u t"
    using canonical_permutation [OF assms]
    by (simp add: governanceApprovalFingerprint_def Let_def canonical_payload_def list_ex_iff
        split: option.split)
  have "mset (map fst ps) = mset (map fst ps')" using assms(1) by simp
  with assms(2) have "distinct (map fst ps)" by (metis mset_eq_imp_distinct_iff)
  then show "governanceApprovalFingerprint digest actionType scope companyId resourceId version ps u t =
      Inr h \<longrightarrow> (\<exists>p. getGovernanceApprovalPolicy actionType = Some p \<and>
        set (map fst ps) = set (gp_safeParameterKeys p))"
    by (metis fingerprint_InrD fingerprint_exact_keys)
qed

theorem fingerprint_order_independent_witness:
  "governanceApprovalFingerprint sample_digest ''PLATFORM_OWNER_ASSIGN'' PLATFORM None (Some ''x'')
     (Some 0) [(''targetUserId'', JString ''x''), (''assignmentVersion'', JNumber 0)] ''u'' 5 =
   governanceApprovalFingerprint sample_digest ''PLATFORM_OWNER_ASSIGN'' PLATFORM None (Some ''x'')
     (Some 0) [(''assignmentVersion'', JNumber 0), (''targetUserId'', JString ''x'')] ''u'' 5"
  by (rule conjunct1 [OF fingerprint_order_independent]) simp_all

section \<open>Roles, bootstrap and support sessions\<close>

text \<open>
  C6. No lockout: once the platform has an owner, no run of role changes, approved owner changes,
  bootstraps, support sessions and ceremony operations leaves it without one; assignments stay
  unique per user and role.
\<close>

theorem owner_lockout_free:
  assumes "governed db" "list_all drawn_id ops" "0 < owner_count db"
  shows "0 < owner_count (platform_run digest hash ops db) \<and>
    distinct (map (\<lambda>a. (as_userId a, as_role a)) (assignments (platform_run digest hash ops db)))"
  using run_governs [OF assms(1,2)] assms(3) by (simp add: governs_def governed_def roles_ok_def)

theorem owner_lockout_free_witness:
  "0 < owner_count (platform_run sample_digest id
     [Propose sample_request, Resolve sample_decision, ChangeOwner sample_change] two_operators)"
  using owner_lockout_free [OF two_operators_governed(1) _ two_operators_governed(2),
      of "[Propose sample_request, Resolve sample_decision, ChangeOwner sample_change]"
        sample_digest id]
  by (simp del: platform_run.simps)



lemma role_change_store_effects:
  assumes roles: "roles_ok (assignments db)"
    and version: "assignment_version (find_assignment (rc_targetUserId input) role db) =
      rc_expectedVersion input"
    and store: "role_change_store input role (find_assignment (rc_targetUserId input) role db) db =
      (Inr a, db1)"
  shows "as_userId a = rc_targetUserId input \<and> as_role a = role \<and> as_active a = rc_active input \<and>
      as_version a = rc_expectedVersion input + 1 \<and> a \<in> set (assignments db1) \<and>
      (\<forall>b \<in> set (assignments db). as_userId b \<noteq> as_userId a \<or> as_role b \<noteq> as_role a \<longrightarrow>
         b \<in> set (assignments db1))"
proof (cases "find_assignment (rc_targetUserId input) role db")
  case None
  with store version have "create_assignment
      \<lparr>as_id = rc_newId input, as_userId = rc_targetUserId input, as_role = role,
       as_active = rc_active input, as_version = 1,
       as_assignedById = Some (s_userId (rc_session input)),
       as_disabledAt = if rc_active input then None else Some (rc_now input)\<rparr> db = (Inr a, db1)"
    "rc_expectedVersion input = 0"
    by (simp_all add: role_change_store_def assignment_version_def)
  with create_assignment_InrD(1,2) show ?thesis by fastforce
next
  case (Some c)
  note c = find_assignmentD [OF Some]
  from store Some have update: "update_assignment (as_id c) (rc_expectedVersion input)
      (rc_active input) (rc_now input) (s_userId (rc_session input)) db = (Inr a, db1)"
    by (simp add: role_change_store_def)
  note facts = update_assignment_InrD [OF update]
  have same: "r = c" if "r \<in> set (assignments db)" "as_id r = as_id c" for r
    using distinct_key_eq [of as_id "assignments db" r c] that roles c by (simp add: roles_ok_def)
  have guard: "version_guard (as_id c) (rc_expectedVersion input) c"
    using version Some by (simp add: version_guard_def assignment_version_def)
  let ?f = "change_assignment (rc_active input) (rc_now input) (s_userId (rc_session input))"
  from facts(2,3) have "a \<in> set (update_where
      (version_guard (as_id c) (rc_expectedVersion input)) ?f (assignments db))" by simp
  then have "a = ?f c"
  proof (cases rule: in_update_whereE)
    case kept
    with same [OF kept(1)] facts(4) guard show ?thesis by simp
  next
    case (changed r)
    with same [OF changed(1)] show ?thesis by (simp add: version_guard_def)
  qed
  moreover have "b \<in> set (assignments db1)"
    if "b \<in> set (assignments db)" "as_userId b \<noteq> as_userId c \<or> as_role b \<noteq> as_role c" for b
  proof -
    have "\<not> version_guard (as_id c) (rc_expectedVersion input) b"
      using same [OF that(1)] that(2) by (auto simp: version_guard_def)
    with update_where_member [OF that(1), of "version_guard (as_id c) (rc_expectedVersion input)" ?f]
      facts(2) show ?thesis by simp
  qed
  ultimately show ?thesis using facts(3) c guard by (auto simp: version_guard_def)
qed

text \<open>
  Changing an ordinary role needs step-up authentication, the exact confirmation and the current
  version, never touches the owner role, writes exactly one assignment (next version, active as
  asked), and revokes every session of the affected user.
\<close>

theorem role_change_effects:
  assumes ok: "governed db" and run: "changePlatformRoleAssignment input db = (Inr a, db')"
  shows "stepUp (rc_session input) (rc_now input) \<and>
    as_userId a = rc_targetUserId input \<and> platform_role_name (as_role a) = rc_role input \<and>
    as_role a \<noteq> PLATFORM_OWNER \<and> as_active a = rc_active input \<and>
    as_version a = rc_expectedVersion input + 1 \<and> a \<in> set (assignments db') \<and>
    (\<forall>b \<in> set (assignments db). as_userId b \<noteq> as_userId a \<or> as_role b \<noteq> as_role a \<longrightarrow>
       b \<in> set (assignments db')) \<and>
    (\<forall>s \<in> set (userSessions db'). se_userId s = rc_targetUserId input \<longrightarrow> se_revokedAt s \<noteq> None)"
proof (rule role_change_InrD [OF run])
  fix role db1
  assume other: "role \<noteq> PLATFORM_OWNER" and name: "rc_role input = platform_role_name role"
    and step: "stepUp (rc_session input) (rc_now input)"
    and version: "assignment_version (find_assignment (rc_targetUserId input) role db) =
      rc_expectedVersion input"
    and store: "role_change_store input role (find_assignment (rc_targetUserId input) role db) db =
      (Inr a, db1)"
    and db': "db' = role_change_report input role a db1"
  have roles: "roles_ok (assignments db)" using ok by (simp add: governed_def)
  from role_change_store_effects [OF roles version store] other name step show ?thesis
    unfolding db' by (auto dest: revoked_all)
qed

definition support_change :: role_change where
  "support_change =
     \<lparr>rc_session = person ''owner-1'', rc_targetUserId = ''third'', rc_role = ''PLATFORM_SUPPORT'',
      rc_active = True, rc_expectedVersion = 0, rc_confirmation = ''ASSIGN PLATFORM ROLE'',
      rc_now = 5000, rc_newId = ''as9''\<rparr>"

lemma support_changed:
  "fst (changePlatformRoleAssignment support_change two_operators) =
     Inr ((role_row ''as9'' ''third'' PLATFORM_SUPPORT)\<lparr>as_assignedById := Some ''owner-1''\<rparr>)"
  by (simp add: changePlatformRoleAssignment_def support_change_def ASSIGNABLE_PLATFORM_ROLES_def
      platform_role_of_def in_transaction_def role_change_transaction_def target_inactive_def
      find_user_def two_operators_def empty_db_def enabled_user_def find_assignment_def role_row_def
      assignment_version_def role_change_store_def create_assignment_def)

theorem role_change_effects_witness:
  "filter (\<lambda>s. se_userId s = ''third'' \<and> se_revokedAt s = None)
     (userSessions (snd (changePlatformRoleAssignment support_change two_operators))) = []"
proof -
  have "changePlatformRoleAssignment support_change two_operators =
      (Inr ((role_row ''as9'' ''third'' PLATFORM_SUPPORT)\<lparr>as_assignedById := Some ''owner-1''\<rparr>),
       snd (changePlatformRoleAssignment support_change two_operators))"
    by (metis support_changed prod.collapse)
  from role_change_effects [OF two_operators_governed(1) this] show ?thesis
    by (auto simp: support_change_def filter_empty_conv)
qed

text \<open>The assignment an owner change stores is the only one of its target and is active for an assignment only.\<close>

lemma find_assignment_unique:
  assumes "roles_ok (assignments db)" "a \<in> set (assignments db)"
  shows "find_assignment (as_userId a) (as_role a) db = Some a"
proof -
  from assms(2) obtain b where b: "find_assignment (as_userId a) (as_role a) db = Some b"
    unfolding find_assignment_def by (cases "List.find (\<lambda>c. as_userId c = as_userId a \<and> as_role c = as_role a) (assignments db)")
      (auto simp: find_None_iff)
  from find_assignmentD [OF this] distinct_key_eq [of "\<lambda>a. (as_userId a, as_role a)" "assignments db" b a] assms
  have "b = a" by (simp add: roles_ok_def)
  with b show ?thesis by simp
qed

lemma owner_change_stored:
  assumes ok: "roles_ok (assignments db)"
    and current: "current = find_assignment (ow_targetUserId input) PLATFORM_OWNER db"
    and removal: "ow_action input = REMOVE \<Longrightarrow> current \<noteq> None"
    and run: "owner_change_store input v current db = (Inr a, db')"
  shows "as_active a = (ow_action input = ASSIGN) \<and> find_assignment (ow_targetUserId input) PLATFORM_OWNER db' = Some a"
proof -
  have "as_active a = (ow_action input = ASSIGN) \<and> as_userId a = ow_targetUserId input \<and> as_role a = PLATFORM_OWNER \<and>
      a \<in> set (assignments db') \<and> roles_ok (assignments db')"
  proof (cases current)
    case None
    with run have create: "create_assignment
        \<lparr>as_id = ow_newId input, as_userId = ow_targetUserId input, as_role = PLATFORM_OWNER,
         as_active = True, as_version = 1, as_assignedById = Some (s_userId (ow_session input)),
         as_disabledAt = None\<rparr> db = (Inr a, db')"
      by (simp add: owner_change_store_def)
    moreover have "ow_action input = ASSIGN" using removal None by (cases "ow_action input") auto
    ultimately show ?thesis
      using create_assignment_InrD(1,2) [OF create] create_assignment_roles [OF create ok] by simp
  next
    case (Some c)
    with run have update: "update_assignment (as_id c) v (ow_action input = ASSIGN) (ow_now input)
        (s_userId (ow_session input)) db = (Inr a, db')"
      by (simp add: owner_change_store_def)
    note facts = update_assignment_InrD [OF update] update_assignment_roles [OF update ok]
    have c: "c \<in> set (assignments db)" "as_userId c = ow_targetUserId input" "as_role c = PLATFORM_OWNER"
      using find_assignmentD Some current by simp_all
    from facts(1) obtain r where r: "r \<in> set (assignments db)" "version_guard (as_id c) v r"
      using count_where_pos [of "version_guard (as_id c) v" "assignments db"] by auto
    with update_assignment_row [OF ok c(1)] have "version_guard (as_id c) v c" by metis
    then have "change_assignment (ow_action input = ASSIGN) (ow_now input) (s_userId (ow_session input)) c \<in> set (assignments db')"
      using c(1) by (auto simp: facts(2) set_update_where)
    with distinct_key_eq [of as_id "assignments db'" a] facts(3-5)
    have "a = change_assignment (ow_action input = ASSIGN) (ow_now input) (s_userId (ow_session input)) c"
      by (simp add: roles_ok_def)
    with c facts(3,5) show ?thesis by simp
  qed
  with find_assignment_unique [of db' a] show ?thesis by simp
qed

lemma owner_executor_version:
  "owner_executor input v db request = (Inr a, db') \<Longrightarrow>
     map_of (ar_safeParameters request) ''assignmentVersion'' = Some (JNumber v)"
  by (auto simp: owner_executor_def split: if_splits)

text \<open>
  C7. An executed change of the owner role was agreed by two persons: its approval asks for this very
  action on this target, for the version the target's assignment has at that moment, was requested
  by the executing user and approved by somebody else. The version the code has read before cannot
  be an outdated one. The approval is left executed, the target's one owner assignment active
  exactly after an assignment, every session of the target revoked, and after a removal the platform
  has another active owner.
\<close>

theorem owner_change_two_person:
  assumes ok: "governed db"
    and run: "executeGovernanceApproval digest (owner_execution input v) (owner_executor input v) db = (Inr a, db')"
  shows "v = assignment_version (find_assignment (ow_targetUserId input) PLATFORM_OWNER db) \<and>
    executePlatformOwnerChange digest input db = (Inr a, db') \<and>
    (\<exists>r d ps. r \<in> set (approvals db) \<and> ap_id r = ow_approvalId input \<and> ap_status r = APPROVED \<and>
      ap_actionType r = (if ow_action input = ASSIGN then ''PLATFORM_OWNER_ASSIGN'' else ''PLATFORM_OWNER_REMOVE'') \<and>
      ap_requesterId r = s_userId (ow_session input) \<and> ap_resourceId r = Some (ow_targetUserId input) \<and>
      (ap_expectedVersion r = None \<or> ap_expectedVersion r = Some v) \<and> ap_safeParameters r = JObject ps \<and>
      map_of ps ''targetUserId'' = Some (JString (ow_targetUserId input)) \<and>
      map_of ps ''assignmentVersion'' = Some (JNumber v) \<and>
      d \<in> set (decisions db) \<and> de_requestId d = ap_id r \<and> de_approved d \<and>
      de_approverId d \<noteq> s_userId (ow_session input)) \<and>
    (\<exists>r \<in> set (approvals db'). ap_id r = ow_approvalId input \<and> ap_status r = EXECUTED) \<and>
    find_assignment (ow_targetUserId input) PLATFORM_OWNER db' = Some a \<and> as_active a = (ow_action input = ASSIGN) \<and>
    (\<forall>s \<in> set (userSessions db'). se_userId s = ow_targetUserId input \<longrightarrow> se_revokedAt s \<noteq> None) \<and>
    (ow_action input = REMOVE \<longrightarrow> 0 < owner_count db')"
proof (rule execute_InrD [OF run])
  let ?ex = "owner_execution input v"
  have cer: "ceremony_ok db" using ok by (simp add: governed_def)
  have id: "ex_requestId ?ex = ow_approvalId input" "ex_session ?ex = ow_session input"
    "ex_currentResourceVersion ?ex = Some v" "ex_expectedActionType ?ex =
       (if ow_action input = ASSIGN then ''PLATFORM_OWNER_ASSIGN'' else ''PLATFORM_OWNER_REMOVE'')"
    by (simp_all add: owner_execution_def)
  fix r ds ps db1
  assume read: "execute_read digest ?ex db = Inr (r, ds, ps)"
    and call: "claimed_call ?ex (owner_executor input v) r ps db = (Inr a, db1)"
    and db': "db' = execute_report ?ex r ds db1"
  note facts = execute_read_InrD [OF read]
  note executor = call [unfolded claimed_call_def]
  let ?claimed = "execute_claim ?ex (ap_id r) db"
  have claimed: "assignments ?claimed = assignments db" by simp
  obtain db0 where params: "map_of ps ''targetUserId'' = Some (JString (ow_targetUserId input))"
      "ap_resourceId r = Some (ow_targetUserId input)"
    and version: "v = assignment_version (find_assignment (ow_targetUserId input) PLATFORM_OWNER db)"
    and removal: "ow_action input = REMOVE \<Longrightarrow> 1 < owner_count db \<and>
      find_assignment (ow_targetUserId input) PLATFORM_OWNER db \<noteq> None"
    and store: "owner_change_store input v (find_assignment (ow_targetUserId input) PLATFORM_OWNER ?claimed) ?claimed = (Inr a, db0)"
    and db1: "db1 = owner_change_report input a db0"
    by (rule owner_executor_InrD [OF executor]) (auto simp: owner_count_def find_assignment_def)
  have "roles_ok (assignments ?claimed)" using ok by (simp add: governed_def)
  from owner_change_stored [OF this refl _ store] removal
  have stored: "as_active a = (ow_action input = ASSIGN)" "find_assignment (ow_targetUserId input) PLATFORM_OWNER db0 = Some a"
    by (simp_all add: find_assignment_def)
  have final: "assignments db' = assignments db0" "userSessions db' = userSessions (owner_change_report input a db0)"
    by (simp_all add: db' db1 execute_report_def Let_def)
  from run have "available db" by (auto simp: executeGovernanceApproval_def split: if_splits)
  with run version have whole: "executePlatformOwnerChange digest input db = (Inr a, db')"
    by (simp add: executePlatformOwnerChange_def Let_def)
  from facts(3,6,7) id obtain d where "d \<in> set (decisions db)" "de_requestId d = ow_approvalId input"
    "de_approved d" "de_approverId d \<noteq> s_userId (ow_session input)"
    by (auto simp: decisions_of_def)
  with find_approvalD [OF facts(1)] facts(2-4,8,10) id params owner_executor_version [OF executor]
  have agreed: "\<exists>r d ps. r \<in> set (approvals db) \<and> ap_id r = ow_approvalId input \<and> ap_status r = APPROVED \<and>
      ap_actionType r = (if ow_action input = ASSIGN then ''PLATFORM_OWNER_ASSIGN'' else ''PLATFORM_OWNER_REMOVE'') \<and>
      ap_requesterId r = s_userId (ow_session input) \<and> ap_resourceId r = Some (ow_targetUserId input) \<and>
      (ap_expectedVersion r = None \<or> ap_expectedVersion r = Some v) \<and> ap_safeParameters r = JObject ps \<and>
      map_of ps ''targetUserId'' = Some (JString (ow_targetUserId input)) \<and>
      map_of ps ''assignmentVersion'' = Some (JNumber v) \<and>
      d \<in> set (decisions db) \<and> de_requestId d = ap_id r \<and> de_approved d \<and>
      de_approverId d \<noteq> s_userId (ow_session input)"
    by (intro exI [of _ r] exI [of _ d] exI [of _ ps]) (simp only: approved_request.simps simp_thms)
  have sessions: "\<forall>s \<in> set (userSessions db'). se_userId s = ow_targetUserId input \<longrightarrow> se_revokedAt s \<noteq> None"
    using final(2) by (auto dest: revoked_all)
  have "governs db db'" using owner_change_governs [OF ok, of digest input] whole by simp
  with removal have "ow_action input = REMOVE \<longrightarrow> 0 < owner_count db'" by (auto simp: governs_def)
  with version whole agreed sessions stored final(1) owner.executed_row [OF cer run] id show ?thesis
    by (simp add: find_assignment_def)
qed

theorem owner_change_two_person_witness:
  "find_assignment ''third'' PLATFORM_OWNER (snd (executePlatformOwnerChange sample_digest sample_change approved_db)) =
     Some ((role_row ''as3'' ''third'' PLATFORM_OWNER)\<lparr>as_assignedById := Some ''admin-1''\<rparr>) \<and>
   (\<exists>r \<in> set (approvals (snd (executePlatformOwnerChange sample_digest sample_change approved_db))).
     ap_id r = ''ap1'' \<and> ap_status r = EXECUTED)"
  using owner_change_two_person [OF approved_governed sample_execution]
  by (simp add: sample_change_def)

lemma evidence_named:
  assumes "validateDatabaseEvidence input v db = Inr u"
  obtains s e where "s \<in> set (userSessions db)" "se_id s = bi_sessionEvidenceId input" "session_evidence input v s"
    "e \<in> set (securityEvents db)" "ev_id e = bi_mfaEventEvidenceId input" "mfa_evidence input v s e"
    "\<exists>m \<in> set (mfaMethods db). mf_userId m = bi_targetUserId input \<and> mf_active m \<and> mf_disabledAt m = None"
  using assms
  by (auto simp: validateDatabaseEvidence_def Let_def count_where_def filter_empty_conv
      split: if_splits option.splits dest!: find_SomeD)

text \<open>
  C16. The first owner is made once: an executed bootstrap was requested with a matching
  authorization that had not expired, for an enabled user with the confirmed address, while the
  platform had no effective owner. The evidence it names is a session of that user, neither revoked
  nor expired and authenticated in the last ten minutes, and a successful login event of the user of
  the last ten minutes that records the method TOTP and this very session; the user has an active
  second factor. It revokes the user's sessions, and no later bootstrap succeeds, whatever runs in
  between.
\<close>

theorem bootstrap_once:
  assumes "executePlatformOwnerBootstrap hash input db = (Inr r, db')"
  shows "hash (bi_authorizationToken input) = bi_expectedAuthorizationHash input \<and>
    bi_now input < bi_authorizationExpiresAt input \<and>
    \<not> target_inactive (bi_targetUserId input) db \<and>
    map_option us_emailNormalized (find_user (bi_targetUserId input) db) =
      Some (normalizedEmail (bi_targetEmail input)) \<and>
    count_where (effective_owner db) (assignments db) = 0 \<and>
    (\<exists>s e metadata. s \<in> set (userSessions db) \<and> se_id s = bi_sessionEvidenceId input \<and>
       se_userId s = bi_targetUserId input \<and> se_revokedAt s = None \<and> bi_now input < se_expiresAt s \<and>
       bi_now input < se_idleExpiresAt s \<and> recent (bi_now input) (se_authenticationAt s) \<and>
       e \<in> set (securityEvents db) \<and> ev_id e = bi_mfaEventEvidenceId input \<and>
       ev_userId e = Some (bi_targetUserId input) \<and> ev_action e = ''identity.login.success'' \<and>
       ev_result e = ''SUCCEEDED'' \<and> securityMetadata (ev_safeMetadata e) = Some metadata \<and>
       map_of metadata ''method'' = Some (JString ''TOTP'') \<and>
       map_of metadata ''sessionId'' = Some (JString (se_id s)) \<and> recent (bi_now input) (ev_createdAt e)) \<and>
    (\<exists>m \<in> set (mfaMethods db). mf_userId m = bi_targetUserId input \<and> mf_active m \<and> mf_disabledAt m = None) \<and>
    (\<forall>s \<in> set (userSessions db'). se_userId s = bi_targetUserId input \<longrightarrow> se_revokedAt s \<noteq> None) \<and>
    \<not> succeeds (executePlatformOwnerBootstrap hash input' (platform_run digest hash ops db'))"
proof (rule bootstrap_InrD [OF assms])
  fix v a db1
  assume v: "validatePlatformOwnerBootstrapRequest hash input = Inr v"
    and evidence: "validateDatabaseEvidence input v db = Inr ()"
    and db': "db' = (bootstrap_report_rows hash input v a db1)
       \<lparr>bootstraps := bootstraps db @ [bootstrap_row_of hash input v (as_id a)]\<rparr>"
  let ?db = "platform_run digest hash ops db'"
  have "bootstrap_row_of hash input v (as_id a) \<in> set (bootstraps ?db)"
    using run_remembers [of db' digest hash ops] by (auto simp: remembers_def db')
  then have "List.find (\<lambda>b. bo_singletonKey b = BOOTSTRAP_SINGLETON) (bootstraps ?db) \<noteq> None"
    by (auto simp: find_None_iff bootstrap_row_of_def)
  then have "validateDatabaseEvidence input' v' ?db \<noteq> Inr u" for v' u
    by (rule contrapos_nn) (erule evidence_InrD)
  then have later: "\<not> succeeds (executePlatformOwnerBootstrap hash input' ?db)"
    by (auto elim!: succeedsE elim: bootstrap_InrD)
  show ?thesis
  proof (rule evidence_named [OF evidence])
    fix s e
    assume s: "s \<in> set (userSessions db)" "se_id s = bi_sessionEvidenceId input" "session_evidence input v s"
      and e: "e \<in> set (securityEvents db)" "ev_id e = bi_mfaEventEvidenceId input" "mfa_evidence input v s e"
      and mfa: "\<exists>m \<in> set (mfaMethods db). mf_userId m = bi_targetUserId input \<and> mf_active m \<and> mf_disabledAt m = None"
    have target: "\<not> target_inactive (bi_targetUserId input) db"
      "map_option us_emailNormalized (find_user (bi_targetUserId input) db) = Some (bv_targetEmailNormalized v)"
      "count_where (effective_owner db) (assignments db) = 0"
      by (rule evidence_InrD [OF evidence]; assumption)+
    from e(3) obtain metadata where "securityMetadata (ev_safeMetadata e) = Some metadata"
      "map_of metadata ''method'' = Some (JString ''TOTP'')" "map_of metadata ''sessionId'' = Some (JString (se_id s))"
      by (auto simp: mfa_evidence_def split: option.split_asm)
    with s e have "\<exists>s e metadata. s \<in> set (userSessions db) \<and> se_id s = bi_sessionEvidenceId input \<and>
       se_userId s = bi_targetUserId input \<and> se_revokedAt s = None \<and> bi_now input < se_expiresAt s \<and>
       bi_now input < se_idleExpiresAt s \<and> recent (bi_now input) (se_authenticationAt s) \<and>
       e \<in> set (securityEvents db) \<and> ev_id e = bi_mfaEventEvidenceId input \<and>
       ev_userId e = Some (bi_targetUserId input) \<and> ev_action e = ''identity.login.success'' \<and>
       ev_result e = ''SUCCEEDED'' \<and> securityMetadata (ev_safeMetadata e) = Some metadata \<and>
       map_of metadata ''method'' = Some (JString ''TOTP'') \<and>
       map_of metadata ''sessionId'' = Some (JString (se_id s)) \<and> recent (bi_now input) (ev_createdAt e)"
      using validation_InrD(1) [OF v]
      by (intro exI [of _ s] exI [of _ e] exI [of _ metadata]) (simp add: session_evidence_def mfa_evidence_def)
    with target mfa validation_InrD [OF v] later show ?thesis
      by (auto simp: db' dest: revoked_all)
  qed
qed

definition sample_token :: string where
  "sample_token = replicate 40 (CHR ''t'')"

definition sample_hash :: "string \<Rightarrow> string" where
  "sample_hash s = replicate 64 (CHR ''a'')"

definition bootstrap_db :: governance_db where
  "bootstrap_db =
     empty_db\<lparr>users := [enabled_user ''first-owner''],
       userSessions := [\<lparr>se_id = ''session-evidence'', se_userId = ''first-owner'',
         se_companyId = None, se_authenticationAt = 1000, se_expiresAt = 900000,
         se_idleExpiresAt = 900000, se_revokedAt = None\<rparr>],
       mfaMethods := [\<lparr>mf_userId = ''first-owner'', mf_active = True, mf_disabledAt = None\<rparr>],
       securityEvents := [\<lparr>ev_id = ''mfa-evidence'', ev_userId = Some ''first-owner'',
         ev_action = ''identity.login.success'', ev_result = ''SUCCEEDED'',
         ev_safeMetadata = JObject [(''method'', JString ''TOTP''),
                                    (''sessionId'', JString ''session-evidence'')],
         ev_createdAt = 1000\<rparr>]\<rparr>"

definition sample_bootstrap :: bootstrap_input where
  "sample_bootstrap =
     \<lparr>bi_environment = ''staging'', bi_expectedEnvironment = ''staging'',
      bi_targetUserId = ''first-owner'', bi_targetEmail = '' First-Owner@example.test'',
      bi_sessionEvidenceId = ''session-evidence'', bi_mfaEventEvidenceId = ''mfa-evidence'',
      bi_authorizationId = ''authorization-1'', bi_authorizationExpiresAt = 500000,
      bi_authorizationToken = sample_token, bi_expectedAuthorizationHash = sample_hash [],
      bi_confirmation = ''BOOTSTRAP FIRST PLATFORM OWNER'', bi_now = 2000, bi_newId = ''as1''\<rparr>"

lemma sample_references:
  "SAFE_REFERENCE ''first-owner''" "SAFE_REFERENCE ''session-evidence''"
  "SAFE_REFERENCE ''mfa-evidence''" "SAFE_REFERENCE ''authorization-1''"
  "SHA256 (sample_hash s)" "str_includes ''first-owner@example.test'' ''@''"
  by code_simp+

lemma sample_email: "normalizedEmail '' First-Owner@example.test'' = ''first-owner@example.test''"
  by code_simp

lemma sample_bootstrapped: "succeeds (executePlatformOwnerBootstrap sample_hash sample_bootstrap bootstrap_db)"
proof -
  have "validatePlatformOwnerBootstrapRequest sample_hash sample_bootstrap =
      Inr \<lparr>bv_now = 2000, bv_authorizationHash = sample_hash [],
           bv_targetEmailNormalized = ''first-owner@example.test''\<rparr>"
    by (simp add: validatePlatformOwnerBootstrapRequest_def sample_bootstrap_def sample_references
        sample_email ALLOWED_ENVIRONMENTS_def CONFIRMATION_PHRASE_def Let_def hashesMatch_def
        MAX_AUTHORIZATION_LIFETIME_MS_def sample_token_def)
       (simp add: sample_hash_def)
  then show ?thesis
    by (simp add: executePlatformOwnerBootstrap_def bootstrap_db_def empty_db_def in_transaction_def
        bootstrap_transaction_def validateDatabaseEvidence_def target_inactive_def find_user_def
        sample_bootstrap_def enabled_user_def session_evidence_def mfa_evidence_def recent_def
        RECENT_AUTH_WINDOW_MS_def count_where_Cons create_assignment_def)
qed

theorem bootstrap_once_witness:
  "\<not> succeeds (executePlatformOwnerBootstrap sample_hash sample_bootstrap
     (platform_run sample_digest sample_hash [ChangeRole support_change]
       (snd (executePlatformOwnerBootstrap sample_hash sample_bootstrap bootstrap_db))))"
proof -
  obtain r db' where run: "executePlatformOwnerBootstrap sample_hash sample_bootstrap bootstrap_db =
      (Inr r, db')"
    by (rule succeedsE [OF sample_bootstrapped])
  have "\<not> succeeds (executePlatformOwnerBootstrap sample_hash sample_bootstrap
      (platform_run sample_digest sample_hash [ChangeRole support_change] db'))"
    using bootstrap_once [OF run] by blast
  with run show ?thesis by simp
qed

text \<open>
  The dry run of the bootstrap writes nothing and predicts the execution: an execution succeeds
  only where the dry run does, and where the dry run succeeds the execution does, unless a unique
  column is already taken.
\<close>

theorem dry_run_predicts:
  "snd (dryRunPlatformOwnerBootstrap hash input db) = db \<and>
   (succeeds (executePlatformOwnerBootstrap hash input db) \<longrightarrow>
      succeeds (dryRunPlatformOwnerBootstrap hash input db)) \<and>
   (succeeds (dryRunPlatformOwnerBootstrap hash input db) \<longrightarrow>
      succeeds (executePlatformOwnerBootstrap hash input db) \<or>
      fst (executePlatformOwnerBootstrap hash input db) = Inl BOOTSTRAP_UNIQUE_VIOLATION)"
proof (cases "validatePlatformOwnerBootstrapRequest hash input")
  case (Inl e)
  then show ?thesis by (simp add: dryRunPlatformOwnerBootstrap_def executePlatformOwnerBootstrap_def)
next
  case (Inr v)
  show ?thesis
  proof (cases "validateDatabaseEvidence input v db")
    case (Inl e)
    with Inr show ?thesis
      by (simp add: dryRunPlatformOwnerBootstrap_def executePlatformOwnerBootstrap_def
          bootstrap_transaction_def in_transaction_def)
  next
    case evidence: (Inr u)
    have "fst (bootstrap_transaction hash input v db) = Inl BOOTSTRAP_UNIQUE_VIOLATION \<or>
        succeeds (bootstrap_transaction hash input v db)"
      using evidence by (simp add: bootstrap_transaction_def Let_def split: prod.split sum.split)
    with Inr evidence show ?thesis
      by (auto simp: dryRunPlatformOwnerBootstrap_def executePlatformOwnerBootstrap_def
          in_transaction_def split: prod.splits sum.splits)
  qed
qed

theorem dry_run_predicts_witness:
  "succeeds (dryRunPlatformOwnerBootstrap sample_hash sample_bootstrap bootstrap_db)"
  using dry_run_predicts [of sample_hash sample_bootstrap bootstrap_db] sample_bootstrapped by blast

text \<open>A loaded support session is the stored one: same actor, tenant, scopes and expiry, and ended if
  the stored one ever was.\<close>

lemma loaded_session:
  assumes ok: "supports_ok db" and s: "s \<in> set (supportSessions db)"
    and later: "remembers db db2"
    and load: "loadPlatformSupportSession actorId (su_id s) db2 = Some u"
  shows "ssc_actorId u = su_actorId s" "ssc_companyId u = su_companyId s"
    "ssc_expiresAt u = su_expiresAt s" "su_endedAt s \<noteq> None \<Longrightarrow> ssc_endedAt u \<noteq> None"
    "su_allowedScopes s = JArray scopes \<Longrightarrow> ssc_allowedScopes u = json_strings scopes"
proof -
  from later s obtain s' where s': "s' \<in> set (supportSessions db2)" "support_evolves s s'"
    by (auto simp: remembers_def)
  from load obtain row scopes' where row: "row \<in> set (supportSessions db2)" "su_id row = su_id s"
    "su_allowedScopes row = JArray scopes'"
    and u: "u = \<lparr>ssc_id = su_id row, ssc_actorId = su_actorId row, ssc_companyId = su_companyId row,
      ssc_allowedScopes = json_strings scopes', ssc_expiresAt = su_expiresAt row,
      ssc_endedAt = su_endedAt row\<rparr>"
    by (auto simp: loadPlatformSupportSession_def split: if_splits option.splits json.splits
        dest!: find_SomeD)
  have "row = s'"
    using distinct_key_eq [of su_id "supportSessions db2" row s'] later ok row(1,2) s'
    by (simp add: remembers_def supports_ok_def support_evolves_def)
  with s'(2) row u show "ssc_actorId u = su_actorId s" "ssc_companyId u = su_companyId s"
    "ssc_expiresAt u = su_expiresAt s" "su_endedAt s \<noteq> None \<Longrightarrow> ssc_endedAt u \<noteq> None"
    "su_allowedScopes s = JArray scopes \<Longrightarrow> ssc_allowedScopes u = json_strings scopes"
    by (auto simp: support_evolves_def)
qed

lemma support_grant:
  assumes "pd_allowed (evaluatePlatformPermission session assignment permission context (Some u) now)"
    and "contains supportPermissions permission"
  shows "map_option s_userId session = Some (ssc_actorId u)"
    "oc_companyId context = Some (ssc_companyId u)" "ssc_endedAt u = None" "now < ssc_expiresAt u"
    "contains (ssc_allowedScopes u) permission"
proof -
  from platform_allowed_present [OF assms(1)] obtain s a where "session = Some s" "assignment = Some a"
    by blast
  with assms show "map_option s_userId session = Some (ssc_actorId u)"
    "oc_companyId context = Some (ssc_companyId u)" "ssc_endedAt u = None" "now < ssc_expiresAt u"
    "contains (ssc_allowedScopes u) permission"
    by (auto simp: platform_allowed_iff no_support_objection)
qed

text \<open>
  C17. A support session confines the access it gives: whatever runs after it was opened, a support
  permission allowed through it was decided within fifteen minutes of the opening, for the tenant
  and one of the scopes it was opened with, and for the person who opened it, who had then passed
  step-up authentication.
\<close>

theorem support_session_confined:
  assumes ok: "supports_ok db" and start: "startPlatformSupportSession input db = (Inr row, db1)"
    and load: "loadPlatformSupportSession actorId (su_id row) (platform_run digest hash ops db1) = Some u"
    and allowed: "pd_allowed (evaluatePlatformPermission session assignment permission context (Some u) now)"
    and kind: "contains supportPermissions permission"
  shows "stepUp (ss_session input) (ss_now input) \<and> now < ss_now input + 900000 \<and>
    oc_companyId context = Some (ss_companyId input) \<and>
    contains (ss_allowedScopes input) permission \<and>
    map_option s_userId session = Some (s_userId (ss_session input))"
proof -
  from start have step: "stepUp (ss_session input) (ss_now input)"
    and row: "row = support_row_of input (unique (ss_allowedScopes input))"
    and db1: "db1 = support_store row db" and fresh: "\<forall>s \<in> set (supportSessions db). su_id s \<noteq> su_id row"
    by (auto simp: startPlatformSupportSession_def Let_def list_ex_iff support_row_of_def
        split: if_splits)
  have ok1: "supports_ok db1" using ok fresh by (auto simp: supports_ok_def db1)
  have mem: "row \<in> set (supportSessions db1)" by (simp add: db1)
  note u = loaded_session [OF ok1 mem run_remembers load]
  have "ssc_allowedScopes u = unique (ss_allowedScopes input)"
    using u(5) [of "map JString (unique (ss_allowedScopes input))"] by (simp add: row support_row_of_def)
  with support_grant [OF allowed kind] u(1-3) step show ?thesis
    by (auto simp: row support_row_of_def)
qed

lemma end_store_ended:
  assumes "s \<in> set (supportSessions db)"
  shows "\<exists>s' \<in> set (supportSessions (end_store u a s t db)). su_id s' = su_id s \<and> su_endedAt s' \<noteq> None"
  unfolding end_store_rows
  by (rule bexI [OF _ update_where_member [OF assms]]) (simp add: end_guard_def)

lemma stopped_session:
  assumes "endPlatformSupportSession session i t db = (Inr (), db1) \<or>
      terminatePlatformSupportSessionByOperator operatorUserId i confirmation t db = (Inr result, db1)"
  shows "\<exists>s \<in> set (supportSessions db1). su_id s = i \<and> su_endedAt s \<noteq> None"
  using assms end_store_ended
  by (auto simp: endPlatformSupportSession_def terminatePlatformSupportSessionByOperator_def
      split: if_splits option.splits dest!: find_SomeD)

text \<open>
  An ended support session gives nothing: once its actor has ended it or an operator has
  terminated it, no support permission is allowed through it, whatever runs afterwards; and only an
  enabled owner or admin of the platform can terminate one.
\<close>

theorem ended_support_denied:
  assumes ok: "supports_ok db"
    and stop: "endPlatformSupportSession session' i t db = (Inr (), db1) \<or>
      terminatePlatformSupportSessionByOperator operatorUserId i confirmation t db = (Inr result, db1)"
    and load: "loadPlatformSupportSession actorId i (platform_run digest hash ops db1) = Some u"
    and kind: "contains supportPermissions permission"
  shows "\<not> pd_allowed (evaluatePlatformPermission session assignment permission context (Some u) now) \<and>
    (fst (terminatePlatformSupportSessionByOperator operatorUserId i confirmation t db) = Inr result \<longrightarrow>
       list_ex (may_terminate operatorUserId db) (assignments db))"
proof
  from stopped_session [OF stop] obtain s where s: "s \<in> set (supportSessions db1)" "su_id s = i"
    "su_endedAt s \<noteq> None" by blast
  have "remembers db db1"
    using stop step_remembers [of db digest hash "EndSupport session' i t"]
      step_remembers [of db digest hash "TerminateSupport operatorUserId i confirmation t"]
    by auto
  then have ok1: "supports_ok db1" using ok by (simp add: remembers_def)
  have "ssc_endedAt u \<noteq> None"
    by (rule loaded_session(4) [OF ok1 s(1) run_remembers load [folded s(2)] s(3)])
  then show "\<not> pd_allowed (evaluatePlatformPermission session assignment permission context (Some u) now)"
    by (rule contrapos_nn) (rule support_grant(3) [OF _ kind])
  show "fst (terminatePlatformSupportSessionByOperator operatorUserId i confirmation t db) = Inr result \<longrightarrow>
      list_ex (may_terminate operatorUserId db) (assignments db)"
    by (auto simp: terminatePlatformSupportSessionByOperator_def split: if_splits)
qed

definition sample_start :: support_start where
  "sample_start =
     \<lparr>ss_session = person ''admin-1'', ss_companyId = ''acme'', ss_reasonCode = ''incident'',
      ss_ticketReference = ''OPS-123'', ss_allowedScopes = [''platform.support.resource.view''],
      ss_now = 2000, ss_newId = ''support-1''\<rparr>"

definition sample_support_row :: support_session_row where
  "sample_support_row = support_row_of sample_start [''platform.support.resource.view'']"

definition support_db :: governance_db where
  "support_db = support_store sample_support_row two_operators"

lemma sample_started: "startPlatformSupportSession sample_start two_operators = (Inr sample_support_row, support_db)"
proof -
  have "SAFE_REFERENCE ''incident''" "SAFE_REFERENCE ''OPS-123''" by code_simp+
  then show ?thesis
    by (simp add: startPlatformSupportSession_def sample_start_def unique_def SUPPORT_SCOPES_def
        two_operators_def empty_db_def support_db_def sample_support_row_def Let_def)
qed

definition sample_context :: support_session_context where
  "sample_context =
     \<lparr>ssc_id = ''support-1'', ssc_actorId = ''admin-1'', ssc_companyId = ''acme'',
      ssc_allowedScopes = [''platform.support.resource.view''], ssc_expiresAt = 902000,
      ssc_endedAt = None\<rparr>"

definition admin_context :: platform_assignment_context where
  "admin_context =
     \<lparr>pac_id = ''as2'', pac_userId = ''admin-1'', pac_role = ''PLATFORM_ADMIN'', pac_active = True,
      pac_disabledAt = None, pac_version = 1\<rparr>"

theorem support_session_confined_witness:
  "pd_allowed (evaluatePlatformPermission (Some (person ''admin-1'')) (Some admin_context)
     ''platform.support.resource.view'' (empty_context\<lparr>oc_companyId := Some ''acme''\<rparr>)
     (Some sample_context) 3000) \<and> (3000::int) < 2000 + 900000"
proof -
  have load: "loadPlatformSupportSession ''admin-1'' (su_id sample_support_row)
      (platform_run sample_digest id [] support_db) = Some sample_context"
    by (simp add: loadPlatformSupportSession_def support_db_def sample_support_row_def
        support_row_of_def sample_start_def sample_context_def two_operators_def empty_db_def)
  have "contains (PLATFORM_ROLE_PERMISSIONS PLATFORM_ADMIN) ''platform.support.resource.view''"
    "contains PLATFORM_PERMISSIONS ''platform.support.resource.view''"
    by (simp_all add: PLATFORM_PERMISSIONS_def)
  then have allowed: "pd_allowed (evaluatePlatformPermission (Some (person ''admin-1''))
      (Some admin_context) ''platform.support.resource.view''
      (empty_context\<lparr>oc_companyId := Some ''acme''\<rparr>) (Some sample_context) 3000)"
    by (simp add: platform_allowed_iff admin_context_def platform_role_of_def no_support_objection
        sample_context_def empty_context_def)
  have kind: "contains supportPermissions ''platform.support.resource.view''"
    by (simp add: supportPermissions_def)
  have "supports_ok two_operators" by (simp add: supports_ok_def two_operators_def empty_db_def)
  from support_session_confined [OF this sample_started load allowed kind] allowed show ?thesis
    by (simp add: sample_start_def)
qed

theorem ended_support_denied_witness:
  "\<not> pd_allowed (evaluatePlatformPermission (Some (person ''admin-1'')) (Some admin_context)
     ''platform.support.resource.view'' (empty_context\<lparr>oc_companyId := Some ''acme''\<rparr>)
     (Some (sample_context\<lparr>ssc_endedAt := Some 3000\<rparr>)) 4000)"
proof -
  have ended: "endPlatformSupportSession (person ''admin-1'') ''support-1'' 3000 support_db =
      (Inr (), end_store ''admin-1'' ''platform.support.session.ended'' sample_support_row 3000 support_db)"
    by (simp add: endPlatformSupportSession_def support_db_def sample_support_row_def
        support_row_of_def sample_start_def two_operators_def empty_db_def end_guard_def count_where_Cons)
  have load: "loadPlatformSupportSession ''admin-1'' ''support-1'' (platform_run sample_digest id []
      (end_store ''admin-1'' ''platform.support.session.ended'' sample_support_row 3000 support_db)) =
      Some (sample_context\<lparr>ssc_endedAt := Some 3000\<rparr>)"
    by (simp add: loadPlatformSupportSession_def support_db_def sample_support_row_def
        support_row_of_def sample_start_def sample_context_def two_operators_def empty_db_def
        table_simps end_guard_def)
  have "supports_ok support_db"
    by (simp add: supports_ok_def support_db_def two_operators_def empty_db_def)
  from ended_support_denied [OF this disjI1 [OF ended] load] show ?thesis
    by (simp add: supportPermissions_def)
qed

section \<open>Where the safeguards leave a gap\<close>

text \<open>
  The last-owner guard counts assignments whose user has been disabled, so a removal it admits can
  leave the platform without an effective owner.
\<close>

definition half_disabled :: governance_db where
  "half_disabled =
     two_operators\<lparr>users := [enabled_user ''owner-1'', (enabled_user ''gone'')\<lparr>us_active := False\<rparr>],
       assignments := [role_row ''as1'' ''owner-1'' PLATFORM_OWNER, role_row ''as4'' ''gone'' PLATFORM_OWNER]\<rparr>"

definition removal_of_owner :: owner_change where
  "removal_of_owner =
     \<lparr>ow_session = person ''admin-1'', ow_approvalId = ''ap2'', ow_targetUserId = ''owner-1'',
      ow_action = REMOVE, ow_authorized = True, ow_now = 4000, ow_newId = ''as5''\<rparr>"

theorem removal_may_leave_no_effective_owner:
  "count_where (effective_owner half_disabled) (assignments half_disabled) = 1"
  "\<exists>a db'. owner_executor removal_of_owner 1 half_disabled
     \<lparr>ar_id = ''ap2'', ar_companyId = None, ar_resourceId = Some ''owner-1'',
      ar_safeParameters = [(''targetUserId'', JString ''owner-1''), (''assignmentVersion'', JNumber 1)]\<rparr> =
     (Inr a, db') \<and> count_where (effective_owner db') (assignments db') = 0"
proof -
  show "count_where (effective_owner half_disabled) (assignments half_disabled) = 1"
    by (simp add: count_where_Cons effective_owner_def active_owner_def target_inactive_def
        find_user_def half_disabled_def role_row_def enabled_user_def)
  show "\<exists>a db'. owner_executor removal_of_owner 1 half_disabled
     \<lparr>ar_id = ''ap2'', ar_companyId = None, ar_resourceId = Some ''owner-1'',
      ar_safeParameters = [(''targetUserId'', JString ''owner-1''), (''assignmentVersion'', JNumber 1)]\<rparr> =
     (Inr a, db') \<and> count_where (effective_owner db') (assignments db') = 0"
    by (simp add: owner_executor_def target_inactive_def find_user_def half_disabled_def
        removal_of_owner_def enabled_user_def find_assignment_def role_row_def assignment_version_def
        count_where_Cons active_owner_def owner_change_store_def update_assignment_def
        version_guard_def table_simps effective_owner_def Let_def change_assignment_def
        owner_change_report_def add_audit_def revoke_user_sessions_def)
qed

text \<open>
  \<open>requestGovernanceApproval\<close> itself accepts actions that are only registered and have no executor;
  such a row turns the operator's report red.
\<close>

definition registry_only_request :: request_input where
  "registry_only_request =
     \<lparr>rq_session = (person ''admin-1'')\<lparr>s_companyId := Some ''acme''\<rparr>,
      rq_actionType = ''ORGANIZATION_BREAK_GLASS_DISABLE'', rq_scope = ORGANIZATION,
      rq_companyId = Some (Some ''acme''), rq_resourceId = None, rq_expectedVersion = None,
      rq_safeParameters = JObject [(''policyVersion'', JNumber 1)],
      rq_confirmation = ''DISABLE BREAK GLASS'', rq_now = 2000, rq_newId = ''ap9''\<rparr>"

theorem registry_only_request_accepted:
  "\<not> governanceApprovalExecutorConnected (rq_actionType registry_only_request)"
  "succeeds (requestGovernanceApproval sample_digest registry_only_request two_operators)"
  "unconnected_persisted (snd (requestGovernanceApproval sample_digest registry_only_request two_operators)) = 1"
proof -
  have policy: "getGovernanceApprovalPolicy ''ORGANIZATION_BREAK_GLASS_DISABLE'' =
      Some (GOVERNANCE_APPROVAL_POLICIES ORGANIZATION_BREAK_GLASS_DISABLE)"
    using action_of_name [of ORGANIZATION_BREAK_GLASS_DISABLE]
    by (simp add: getGovernanceApprovalPolicy_def)
  have step: "stepUp ((person ''admin-1'')\<lparr>s_companyId := Some ''acme''\<rparr>) 2000"
    by (simp add: stepUp_def approvalStepUpSatisfied_def authenticationAt_or_0_def person_def)
  show "\<not> governanceApprovalExecutorConnected (rq_actionType registry_only_request)"
    by (simp add: governanceApprovalExecutorConnected_def registry_only_request_def
        CONNECTED_GOVERNANCE_APPROVAL_EXECUTORS_def)
  let ?r = "requestGovernanceApproval sample_digest registry_only_request two_operators"
  have "\<exists>row p. request_checks sample_digest registry_only_request = Inr (p, row) \<and>
      ap_actionType row = ''ORGANIZATION_BREAK_GLASS_DISABLE''"
    by (simp add: request_checks_def registry_only_request_def policy step policy_def
        asSafeParameters_def nullish_def governanceApprovalFingerprint_def Let_def new_approval_def)
  then obtain row p where "request_checks sample_digest registry_only_request = Inr (p, row)"
    "ap_actionType row = ''ORGANIZATION_BREAK_GLASS_DISABLE''" by blast
  then show "succeeds ?r" "unconnected_persisted (snd ?r) = 1"
    by (simp_all add: requestGovernanceApproval_def request_commit_def in_transaction_def
        two_operators_def empty_db_def unconnected_persisted_def count_where_Cons
        registry_only_actions_def GOVERNANCE_APPROVAL_ACTIONS_def
        CONNECTED_GOVERNANCE_APPROVAL_EXECUTORS_def)
qed

end
