(* ===== verification/OrganizationPermissions.thy ===== *)
theory OrganizationPermissions
  imports Sessions
begin

text \<open>
  Tenant-bound permissions (\<open>lib/organization-permissions.ts\<close>): the permission vocabulary, the
  fixed matrix of roles and permissions, the decision function every organization route calls, the
  guard of critical actions and the delegation policy of role changes.
\<close>

section \<open>Vocabulary and matrix\<close>

definition ORGANIZATION_PERMISSIONS :: "string list" where
  "ORGANIZATION_PERMISSIONS =
    [''organization.view'', ''organization.update'', ''organization.security.manage'',
     ''organization.audit.view'', ''organization.export'',
     ''members.view'', ''members.invite'', ''members.role.manage'', ''members.remove'',
     ''requests.view'', ''requests.create'', ''requests.comment'', ''requests.manage'',
     ''requests.export'',
     ''documents.view'', ''documents.download'', ''documents.upload'', ''documents.manage'',
     ''documents.reprocess'', ''documents.delete'', ''documents.export'',
     ''knowledge.view'', ''knowledge.search'', ''knowledge.create'', ''knowledge.update'',
     ''knowledge.review'', ''knowledge.publish'', ''knowledge.archive'', ''knowledge.delete'',
     ''knowledge.visibility.manage'', ''knowledge.export'', ''knowledge.manage'',
     ''notifications.view'', ''notifications.manage'',
     ''identity.sessions.manage_self'', ''identity.mfa.manage_self'',
     ''identity.providers.manage'', ''identity.policy.manage'', ''identity.audit.view'']"

fun ROLE_PERMISSIONS :: "organization_role \<Rightarrow> string list" where
  "ROLE_PERMISSIONS OWNER = ORGANIZATION_PERMISSIONS"
| "ROLE_PERMISSIONS ADMIN = ORGANIZATION_PERMISSIONS"
| "ROLE_PERMISSIONS MANAGER =
    [''organization.view'', ''members.view'', ''members.invite'', ''members.role.manage'',
     ''members.remove'', ''requests.view'', ''requests.create'', ''requests.comment'',
     ''requests.manage'', ''documents.view'', ''documents.download'', ''documents.upload'',
     ''documents.manage'', ''documents.reprocess'', ''knowledge.view'', ''knowledge.search'',
     ''knowledge.create'', ''knowledge.update'', ''knowledge.review'', ''knowledge.publish'',
     ''knowledge.archive'', ''knowledge.manage'', ''notifications.view'',
     ''notifications.manage'', ''identity.sessions.manage_self'', ''identity.mfa.manage_self'']"
| "ROLE_PERMISSIONS MEMBER =
    [''organization.view'', ''members.view'', ''requests.view'', ''requests.create'',
     ''requests.comment'', ''documents.view'', ''documents.download'', ''knowledge.view'',
     ''knowledge.search'', ''notifications.view'', ''notifications.manage'',
     ''identity.sessions.manage_self'', ''identity.mfa.manage_self'']"
| "ROLE_PERMISSIONS VIEWER =
    [''organization.view'', ''requests.view'', ''documents.view'', ''documents.download'',
     ''knowledge.view'', ''knowledge.search'', ''notifications.view'',
     ''identity.sessions.manage_self'', ''identity.mfa.manage_self'']"

definition permissionsForRole :: "organization_role \<Rightarrow> string list" where
  "permissionsForRole role = ROLE_PERMISSIONS role"

fun roleRank :: "organization_role \<Rightarrow> nat" where
  "roleRank VIEWER = 1"
| "roleRank MEMBER = 2"
| "roleRank MANAGER = 3"
| "roleRank ADMIN = 4"
| "roleRank OWNER = 5"

lemma roleRank_inj: "roleRank r = roleRank r' \<Longrightarrow> r = r'"
  by (cases r; cases r') simp_all

text \<open>The roles are linearly ordered by the code's rank.\<close>

instantiation organization_role :: linorder
begin

definition less_eq_organization_role :: "organization_role \<Rightarrow> organization_role \<Rightarrow> bool" where
  "less_eq_organization_role r r' \<longleftrightarrow> roleRank r \<le> roleRank r'"

definition less_organization_role :: "organization_role \<Rightarrow> organization_role \<Rightarrow> bool" where
  "less_organization_role r r' \<longleftrightarrow> roleRank r < roleRank r'"

instance
  by standard
    (auto simp: less_eq_organization_role_def less_organization_role_def intro: roleRank_inj)

end

lemmas role_order_defs = less_eq_organization_role_def less_organization_role_def

lemma viewer_in_member: "set (ROLE_PERMISSIONS VIEWER) \<subseteq> set (ROLE_PERMISSIONS MEMBER)"
  and member_in_manager: "set (ROLE_PERMISSIONS MEMBER) \<subseteq> set (ROLE_PERMISSIONS MANAGER)"
  and manager_in_all: "set (ROLE_PERMISSIONS MANAGER) \<subseteq> set ORGANIZATION_PERMISSIONS"
  by (code_simp)+

lemma role_permissions_mono:
  assumes "r \<le> r'"
  shows "set (ROLE_PERMISSIONS r) \<subseteq> set (ROLE_PERMISSIONS r')"
proof -
  note chain = viewer_in_member member_in_manager manager_in_all
  have all: "set (ROLE_PERMISSIONS r'') \<subseteq> set ORGANIZATION_PERMISSIONS" for r''
    using chain by (cases r'') (auto simp del: ROLE_PERMISSIONS.simps(3-5))
  have top: "ROLE_PERMISSIONS ADMIN = ORGANIZATION_PERMISSIONS"
    "ROLE_PERMISSIONS OWNER = ORGANIZATION_PERMISSIONS" by simp_all
  show ?thesis
  proof (cases r')
    case MANAGER
    with assms chain show ?thesis
      by (cases r) (auto simp: role_order_defs simp del: ROLE_PERMISSIONS.simps)
  next
    case MEMBER
    with assms chain show ?thesis
      by (cases r) (auto simp: role_order_defs simp del: ROLE_PERMISSIONS.simps)
  next
    case VIEWER
    with assms show ?thesis by (cases r) (auto simp: role_order_defs simp del: ROLE_PERMISSIONS.simps)
  qed (use all top in auto)
qed

section \<open>The decision function\<close>

datatype authorization_reason =
    ALLOWED
  | AUTHENTICATION_REQUIRED
  | ORGANIZATION_CONTEXT_REQUIRED
  | MEMBERSHIP_INACTIVE
  | UNKNOWN_PERMISSION
  | UNKNOWN_ROLE
  | PERMISSION_DENIED
  | RESOURCE_TENANT_MISMATCH
  | RESOURCE_OWNER_MISMATCH

record organization_resource =
  res_companyId :: "string option"
  res_ownerUserId :: "string option"
  res_requireOwner :: bool
  res_targetType :: "string option"
  res_targetId :: "string option"

record organization_decision =
  od_allowed :: bool
  od_reasonCode :: authorization_reason
  od_permission :: string
  od_companyId :: "string option"
  od_actorId :: "string option"
  od_role :: "organization_role option"
  od_compatibilityUsed :: bool
  od_targetType :: string
  od_targetId :: "string option"

fun compatibilityRole :: "platform_role \<Rightarrow> organization_role" where
  "compatibilityRole ADMIN_PLATFORM = ADMIN"
| "compatibilityRole CLIENT = MEMBER"

definition resolveOrganizationRole :: "app_session \<Rightarrow> organization_role option \<times> bool" where
  "resolveOrganizationRole session =
     (if truthy (s_organizationRole session)
      then (organization_role_of (the (s_organizationRole session)), False)
      else if \<not> truthy (s_companyId session) then (None, False)
      else (Some (compatibilityRole (s_role session)), True))"

definition membershipIsActive :: "app_session \<Rightarrow> bool \<Rightarrow> bool" where
  "membershipIsActive session compatibilityUsed \<longleftrightarrow>
     s_membershipStatus session = Some ACTIVE \<or>
     (s_membershipStatus session = None \<and> compatibilityUsed)"

definition decision_base :: "app_session option \<Rightarrow> string \<Rightarrow> organization_resource \<Rightarrow> organization_decision" where
  "decision_base session permission resource =
     \<lparr>od_allowed = False,
      od_reasonCode = AUTHENTICATION_REQUIRED,
      od_permission = permission,
      od_companyId = (case session of None \<Rightarrow> None | Some s \<Rightarrow> s_companyId s),
      od_actorId = map_option s_userId session,
      od_role = None,
      od_compatibilityUsed = False,
      od_targetType = (case res_targetType resource of None \<Rightarrow> ''organization'' | Some t \<Rightarrow> t),
      od_targetId = res_targetId resource\<rparr>"

definition evaluateOrganizationPermission ::
  "app_session option \<Rightarrow> string \<Rightarrow> organization_resource \<Rightarrow> organization_decision" where
  "evaluateOrganizationPermission session permission resource =
     (let base = decision_base session permission resource;
          deny = (\<lambda>d reason. d\<lparr>od_allowed := False, od_reasonCode := reason\<rparr>) in
      case session of
        None \<Rightarrow> deny base AUTHENTICATION_REQUIRED
      | Some session \<Rightarrow>
          if \<not> contains ORGANIZATION_PERMISSIONS permission then deny base UNKNOWN_PERMISSION
          else if \<not> truthy (s_companyId session) then deny base ORGANIZATION_CONTEXT_REQUIRED
          else
            let (role, compatibilityUsed) = resolveOrganizationRole session;
                context = base\<lparr>od_role := role, od_compatibilityUsed := compatibilityUsed\<rparr> in
            case role of
              None \<Rightarrow> deny context UNKNOWN_ROLE
            | Some role \<Rightarrow>
                if \<not> membershipIsActive session compatibilityUsed then deny context MEMBERSHIP_INACTIVE
                else if truthy (res_companyId resource) \<and> res_companyId resource \<noteq> s_companyId session
                then deny context RESOURCE_TENANT_MISMATCH
                else if res_requireOwner resource \<and> res_ownerUserId resource \<noteq> Some (s_userId session)
                then deny context RESOURCE_OWNER_MISMATCH
                else if \<not> contains (ROLE_PERMISSIONS role) permission
                then deny context PERMISSION_DENIED
                else context\<lparr>od_allowed := True, od_reasonCode := ALLOWED\<rparr>)"

definition hasOrganizationPermission ::
  "app_session option \<Rightarrow> string \<Rightarrow> organization_resource \<Rightarrow> bool" where
  "hasOrganizationPermission session permission resource =
     od_allowed (evaluateOrganizationPermission session permission resource)"

section \<open>Critical actions\<close>

datatype critical_action =
    OWNER_ASSIGN | OWNER_REMOVE | SSO_REQUIRE | BREAK_GLASS_DISABLE | PROVIDER_DELETE
  | ORGANIZATION_EXPORT | MEMBERS_BULK_REMOVE | DOCUMENTS_DELETE | AUDIT_EXPORT

fun CRITICAL_ACTION_CONFIRMATIONS :: "critical_action \<Rightarrow> string" where
  "CRITICAL_ACTION_CONFIRMATIONS OWNER_ASSIGN = ''ASSIGN OWNER''"
| "CRITICAL_ACTION_CONFIRMATIONS OWNER_REMOVE = ''REMOVE OWNER''"
| "CRITICAL_ACTION_CONFIRMATIONS SSO_REQUIRE = ''REQUIRE SSO''"
| "CRITICAL_ACTION_CONFIRMATIONS BREAK_GLASS_DISABLE = ''DISABLE BREAK GLASS''"
| "CRITICAL_ACTION_CONFIRMATIONS PROVIDER_DELETE = ''DELETE PROVIDER''"
| "CRITICAL_ACTION_CONFIRMATIONS ORGANIZATION_EXPORT = ''EXPORT ORGANIZATION''"
| "CRITICAL_ACTION_CONFIRMATIONS MEMBERS_BULK_REMOVE = ''REMOVE MEMBERS''"
| "CRITICAL_ACTION_CONFIRMATIONS DOCUMENTS_DELETE = ''DELETE DOCUMENT''"
| "CRITICAL_ACTION_CONFIRMATIONS AUDIT_EXPORT = ''EXPORT AUDIT''"

datatype critical_reason =
    CRITICAL_ACTION_ALLOWED
  | MFA_REQUIRED
  | RECENT_AUTHENTICATION_REQUIRED
  | EXPLICIT_CONFIRMATION_REQUIRED

definition evaluateCriticalOrganizationAction ::
  "app_session \<Rightarrow> critical_action \<Rightarrow> string option \<Rightarrow> ms \<Rightarrow> bool \<times> critical_reason" where
  "evaluateCriticalOrganizationAction session action confirmation now =
     (if s_mfaSatisfied session \<noteq> Some True then (False, MFA_REQUIRED)
      else
        let authenticationAt = authenticationAt_or_0 (s_authenticationAt session) in
        if authenticationAt \<le> 0 \<or> now - authenticationAt > 10 * 60000
        then (False, RECENT_AUTHENTICATION_REQUIRED)
        else if confirmation \<noteq> Some (CRITICAL_ACTION_CONFIRMATIONS action)
        then (False, EXPLICIT_CONFIRMATION_REQUIRED)
        else (True, CRITICAL_ACTION_ALLOWED))"

section \<open>Role assignment\<close>

datatype role_assignment_reason =
    ROLE_ASSIGNMENT_ALLOWED
  | INVALID_ROLE
  | SELF_ESCALATION_DENIED
  | ROLE_DELEGATION_DENIED
  | LAST_OWNER_PROTECTED

record role_assignment_input =
  ra_actorId :: string
  ra_actorRole :: organization_role
  ra_targetUserId :: string
  ra_currentRole :: organization_role
  ra_nextRole :: string
  ra_activeOwnerCount :: nat
  ra_allowAdminOwnerAssignment :: bool

fun assignable :: "bool \<Rightarrow> organization_role \<Rightarrow> organization_role list" where
  "assignable allowAdminOwner OWNER = [OWNER, ADMIN, MANAGER, MEMBER, VIEWER]"
| "assignable allowAdminOwner ADMIN =
     (if allowAdminOwner then [OWNER, ADMIN, MANAGER, MEMBER, VIEWER]
      else [ADMIN, MANAGER, MEMBER, VIEWER])"
| "assignable allowAdminOwner MANAGER = [MEMBER, VIEWER]"
| "assignable allowAdminOwner MEMBER = []"
| "assignable allowAdminOwner VIEWER = []"

text \<open>The result is the reason and, when allowed, the role to store.\<close>

definition evaluateRoleAssignment ::
  "role_assignment_input \<Rightarrow> role_assignment_reason \<times> organization_role option" where
  "evaluateRoleAssignment input =
     (case organization_role_of (ra_nextRole input) of
        None \<Rightarrow> (INVALID_ROLE, None)
      | Some nextRole \<Rightarrow>
          if ra_actorId input = ra_targetUserId input \<and> roleRank nextRole > roleRank (ra_currentRole input)
          then (SELF_ESCALATION_DENIED, None)
          else if ra_currentRole input = OWNER \<and> nextRole \<noteq> OWNER \<and> ra_activeOwnerCount input \<le> 1
          then (LAST_OWNER_PROTECTED, None)
          else if \<not> contains (assignable (ra_allowAdminOwnerAssignment input) (ra_actorRole input)) nextRole
          then (ROLE_DELEGATION_DENIED, None)
          else (ROLE_ASSIGNMENT_ALLOWED, Some nextRole))"

definition resolveSsoOrganizationRole :: "string \<Rightarrow> bool \<Rightarrow> organization_role option" where
  "resolveSsoOrganizationRole requestedRole approvedAdminMapping =
     (if requestedRole = ''OWNER'' then None
      else if requestedRole = ''ADMIN'' then (if approvedAdminMapping then Some ADMIN else None)
      else if requestedRole = ''MANAGER'' \<or> requestedRole = ''MEMBER'' \<or> requestedRole = ''VIEWER''
      then organization_role_of requestedRole
      else None)"

section \<open>Lemmas\<close>

lemmas organization_decision_defs =
  evaluateOrganizationPermission_def decision_base_def Let_def

lemma evaluate_None:
  "evaluateOrganizationPermission None permission resource = decision_base None permission resource"
  by (simp add: organization_decision_defs)

text \<open>Every branch records who asked and for what; the reason is \<open>ALLOWED\<close> exactly when allowed.\<close>

lemma evaluate_fields:
  "od_permission (evaluateOrganizationPermission session permission resource) = permission"
  "od_actorId (evaluateOrganizationPermission session permission resource) = map_option s_userId session"
  "od_targetId (evaluateOrganizationPermission session permission resource) = res_targetId resource"
  by (simp_all add: organization_decision_defs split: option.splits prod.splits)

lemma evaluate_reason_allowed:
  "od_reasonCode (evaluateOrganizationPermission session permission resource) = ALLOWED \<longleftrightarrow>
     od_allowed (evaluateOrganizationPermission session permission resource)"
  by (simp add: organization_decision_defs split: option.splits prod.splits)

lemma evaluate_Some_allowed:
  "od_allowed (evaluateOrganizationPermission (Some s) permission resource) \<longleftrightarrow>
     contains ORGANIZATION_PERMISSIONS permission \<and> truthy (s_companyId s) \<and>
     (\<exists>role. fst (resolveOrganizationRole s) = Some role \<and>
        membershipIsActive s (snd (resolveOrganizationRole s)) \<and>
        (truthy (res_companyId resource) \<longrightarrow> res_companyId resource = s_companyId s) \<and>
        (res_requireOwner resource \<longrightarrow> res_ownerUserId resource = Some (s_userId s)) \<and>
        contains (ROLE_PERMISSIONS role) permission)"
  by (auto simp: organization_decision_defs split: option.splits prod.splits)

lemma resolve_with_role:
  "resolveOrganizationRole (session\<lparr>s_organizationRole := Some (organization_role_name r)\<rparr>) =
     (Some r, False)"
  by (cases r) (simp_all add: resolveOrganizationRole_def organization_role_of_def)

lemma resolve_compatibility:
  "snd (resolveOrganizationRole session) \<Longrightarrow>
     \<not> truthy (s_organizationRole session) \<and>
     fst (resolveOrganizationRole session) = Some (compatibilityRole (s_role session))"
  by (auto simp: resolveOrganizationRole_def split: if_splits)

lemma role_assignment_allowed:
  "fst (evaluateRoleAssignment input) = ROLE_ASSIGNMENT_ALLOWED \<longleftrightarrow>
     (\<exists>role. evaluateRoleAssignment input = (ROLE_ASSIGNMENT_ALLOWED, Some role))"
  by (auto simp: evaluateRoleAssignment_def split: option.splits if_splits)

lemma role_assignment_SomeD:
  assumes "evaluateRoleAssignment input = (reason, Some role)"
  shows "reason = ROLE_ASSIGNMENT_ALLOWED"
    and "ra_nextRole input = organization_role_name role"
    and "ra_actorId input = ra_targetUserId input \<Longrightarrow> role \<le> ra_currentRole input"
    and "ra_currentRole input = OWNER \<Longrightarrow> role \<noteq> OWNER \<Longrightarrow> 2 \<le> ra_activeOwnerCount input"
    and "role \<in> set (assignable (ra_allowAdminOwnerAssignment input) (ra_actorRole input))"
  using assms
  by (auto simp: evaluateRoleAssignment_def role_order_defs split: option.splits if_splits
      dest: organization_role_of_SomeD)

lemma assignable_bound:
  "role \<in> set (assignable allow actor) \<Longrightarrow>
     MANAGER \<le> actor \<and> (role \<le> actor \<or> (allow \<and> actor = ADMIN \<and> role = OWNER))"
  by (cases actor) (auto simp: role_order_defs split: if_splits)

section \<open>Properties\<close>

text \<open>
  The organization decision is exact and fails closed: a request is allowed if and only if there
  is a session with an organization, the permission is in the vocabulary, the session's role is
  known and its membership active, the resource (when it names a tenant) belongs to the session's
  tenant, the ownership demand is met, and the matrix grants the permission to the role.
\<close>

theorem organization_permission_exact:
  "od_allowed (evaluateOrganizationPermission session permission resource) \<longleftrightarrow>
     (\<exists>s role. session = Some s \<and> truthy (s_companyId s) \<and>
        contains ORGANIZATION_PERMISSIONS permission \<and>
        fst (resolveOrganizationRole s) = Some role \<and>
        membershipIsActive s (snd (resolveOrganizationRole s)) \<and>
        (\<not> truthy (res_companyId resource) \<or> res_companyId resource = s_companyId s) \<and>
        (\<not> res_requireOwner resource \<or> res_ownerUserId resource = Some (s_userId s)) \<and>
        contains (ROLE_PERMISSIONS role) permission)"
proof (cases session)
  case None
  then show ?thesis by (simp add: evaluate_None decision_base_def)
next
  case (Some s)
  then show ?thesis by (simp add: evaluate_Some_allowed) blast
qed

text \<open>
  Raising a member's organization role never takes a permission away: whatever a session is
  allowed with one role it is allowed with every role of higher rank, on every resource.
\<close>

theorem organization_role_monotone:
  assumes "r \<le> r'"
    and "hasOrganizationPermission
           (Some (session\<lparr>s_organizationRole := Some (organization_role_name r)\<rparr>)) permission resource"
  shows "hasOrganizationPermission
           (Some (session\<lparr>s_organizationRole := Some (organization_role_name r')\<rparr>)) permission resource"
  using assms role_permissions_mono [OF assms(1)]
  by (auto simp: hasOrganizationPermission_def evaluate_Some_allowed resolve_with_role
      membershipIsActive_def simp del: ROLE_PERMISSIONS.simps)

definition sample_session :: app_session where
  "sample_session =
     \<lparr>s_sessionId = Some ''session-1'', s_userId = ''user-1'', s_name = ''Name'', s_company = ''Company'',
      s_companyId = Some ''company-1'', s_identityProviderId = None, s_email = ''a@b.lv'',
      s_role = CLIENT, s_platformRoles = None, s_organizationRole = Some ''MANAGER'',
      s_membershipStatus = Some ACTIVE, s_membershipVersion = Some 1, s_mfaSatisfied = Some True,
      s_authenticationAt = Some 1000, s_expiresAt = 100000\<rparr>"

definition sample_resource :: organization_resource where
  "sample_resource =
     \<lparr>res_companyId = Some ''company-1'', res_ownerUserId = None, res_requireOwner = False,
      res_targetType = None, res_targetId = None\<rparr>"

theorem organization_permission_exact_witness:
  "od_allowed (evaluateOrganizationPermission (Some sample_session) ''documents.upload'' sample_resource)"
  unfolding organization_permission_exact
proof (intro exI conjI)
  show "Some sample_session = Some sample_session" ..
  show "fst (resolveOrganizationRole sample_session) = Some MANAGER" by code_simp
qed code_simp+

theorem organization_role_monotone_witness:
  "hasOrganizationPermission
     (Some (sample_session\<lparr>s_organizationRole := Some (organization_role_name ADMIN)\<rparr>))
     ''documents.upload'' sample_resource"
proof -
  have "MANAGER \<le> ADMIN" by (simp add: role_order_defs)
  moreover have "hasOrganizationPermission
     (Some (sample_session\<lparr>s_organizationRole := Some (organization_role_name MANAGER)\<rparr>))
     ''documents.upload'' sample_resource"
    by code_simp
  ultimately show ?thesis by (rule organization_role_monotone)
qed

text \<open>
  Delegation is bounded: whenever a role change is allowed, the stored role is the requested one,
  the actor is at least a manager, the new role does not exceed the actor's own role (the only
  exception is an administrator in the explicit owner-assignment flow), nobody raises their own
  role, and an owner gives up the role only while a second active owner exists.
\<close>

theorem role_assignment_bounded:
  assumes "evaluateRoleAssignment input = (reason, Some role)"
  shows "reason = ROLE_ASSIGNMENT_ALLOWED \<and>
    ra_nextRole input = organization_role_name role \<and>
    MANAGER \<le> ra_actorRole input \<and>
    (role \<le> ra_actorRole input \<or>
       ra_allowAdminOwnerAssignment input \<and> ra_actorRole input = ADMIN \<and> role = OWNER) \<and>
    (ra_actorId input \<noteq> ra_targetUserId input \<or> role \<le> ra_currentRole input) \<and>
    (ra_currentRole input \<noteq> OWNER \<or> role = OWNER \<or> 2 \<le> ra_activeOwnerCount input)"
  using role_assignment_SomeD [OF assms] assignable_bound by blast

definition sample_assignment :: role_assignment_input where
  "sample_assignment =
     \<lparr>ra_actorId = ''admin-1'', ra_actorRole = ADMIN, ra_targetUserId = ''user-1'',
      ra_currentRole = MEMBER, ra_nextRole = ''MANAGER'', ra_activeOwnerCount = 1,
      ra_allowAdminOwnerAssignment = False\<rparr>"

theorem role_assignment_bounded_witness:
  "MANAGER \<le> ra_actorRole sample_assignment \<and> MANAGER \<le> ADMIN"
proof -
  have "evaluateRoleAssignment sample_assignment = (ROLE_ASSIGNMENT_ALLOWED, Some MANAGER)"
    by code_simp
  from role_assignment_bounded [OF this] show ?thesis by (simp add: sample_assignment_def)
qed

end
