(* ===== verification/Team.thy ===== *)
theory Team
  imports OrganizationPermissions GovernanceDb
begin

text \<open>
  Teams of an organization (\<open>lib/team.ts\<close>): invitations and their acceptance, role and status
  changes of members, and the bootstrap of the first owner. Unicode normalization and the hash of
  the invitation token are the parameters \<open>nfkc\<close> and \<open>hash\<close>; random tokens and row identifiers are
  part of the inputs.
\<close>

section \<open>State\<close>

record team_user =
  tu_id :: string
  tu_name :: string
  tu_email :: string
  tu_emailNormalized :: string
  tu_jobTitle :: "string option"
  tu_emailVerifiedAt :: "ms option"
  tu_verifiedIdentities :: nat
  tu_companyId :: "string option"

record invitation_row =
  inv_id :: string
  inv_tokenHash :: string
  inv_companyId :: string
  inv_emailNormalized :: string
  inv_role :: platform_role
  inv_organizationRole :: organization_role
  inv_invitedBy :: string
  inv_expiresAt :: ms
  inv_acceptedAt :: "ms option"
  inv_acceptedBy :: "string option"
  inv_revokedAt :: "ms option"

datatype team_title =
    RoleChanged
  | OwnerAssigned
  | AccessSuspended
  | AccessRemoved

record team_notification =
  tn_userId :: string
  tn_companyId :: "string option"
  tn_title :: team_title

record team_db =
  t_available :: bool
  t_users :: "team_user list"
  t_memberships :: "membership_row list"
  t_invitations :: "invitation_row list"
  t_sessions :: "user_session_row list"
  t_audit :: "audit_row list"
  t_notifications :: "team_notification list"

datatype team_error =
    TEAM_EMAIL_ALREADY_ASSIGNED
  | TEAM_STORAGE_UNAVAILABLE
  | INVITATION_INVALID
  | INVITATION_FORBIDDEN
  | INVITATION_IDENTITY_UNVERIFIED
  | INVITATION_NOT_FOUND
  | INVITATION_USER_MISSING
  | MEMBERSHIP_NOT_FOUND
  | MEMBERSHIP_VERSION_CONFLICT
  | ROLE_ASSIGNMENT_DENIED
  | LAST_OWNER_KEPT
  | SELF_MEMBERSHIP_CHANGE_DENIED
  | FIRST_OWNER_BOOTSTRAP_DENIED
  | TEAM_DATABASE_UNAVAILABLE
  | TEAM_UNIQUE_VIOLATION
  | TEAM_RECORD_NOT_FOUND

type_synonym 'a team_handled = "(team_error, 'a, team_db) handled"

definition INVITATION_TTL_MS :: int where
  "INVITATION_TTL_MS = 72 * 60 * 60000"

definition email_key :: "(string \<Rightarrow> string) \<Rightarrow> string \<Rightarrow> string" where
  "email_key nfkc email = to_lower (nfkc (trim email))"

definition requireCompanyId :: "app_session \<Rightarrow> team_error + string" where
  "requireCompanyId session =
     (if truthy (s_companyId session) then Inr (the (s_companyId session)) else Inl MEMBERSHIP_NOT_FOUND)"

section \<open>Who may do what\<close>

definition legacyRole :: "organization_role \<Rightarrow> platform_role" where
  "legacyRole role = (if role = ADMIN \<or> role = OWNER then ADMIN_PLATFORM else CLIENT)"

definition canInviteRole :: "organization_role \<Rightarrow> organization_role \<Rightarrow> bool" where
  "canInviteRole actorRole invitedRole =
     (if invitedRole = OWNER then False
      else if actorRole = OWNER then True
      else if actorRole = ADMIN then True
      else actorRole = MANAGER \<and> (invitedRole = MEMBER \<or> invitedRole = VIEWER))"

definition canManageMembership :: "organization_role \<Rightarrow> organization_role \<Rightarrow> bool" where
  "canManageMembership actorRole targetRole =
     (if actorRole = OWNER then True
      else if actorRole = ADMIN then targetRole \<noteq> OWNER
      else actorRole = MANAGER \<and> (targetRole = MEMBER \<or> targetRole = VIEWER))"

text \<open>An existing account: its home company and its memberships, if it has any.\<close>

definition canInviteExistingMember ::
  "app_session \<Rightarrow> (string option \<times> membership_row list) option \<Rightarrow> bool" where
  "canInviteExistingMember session existing =
     (case existing of
        None \<Rightarrow> truthy (s_companyId session)
      | Some (home, ms) \<Rightarrow>
          if \<not> truthy (s_companyId session) then False
          else home = s_companyId session \<or>
               list_ex (\<lambda>m. me_active m \<and> me_status m \<noteq> REMOVED \<and>
                            Some (me_companyId m) = s_companyId session) ms \<or>
               (home = None \<and> ms = []))"

section \<open>Listing\<close>

record team_member =
  tm_id :: string
  tm_userId :: string
  tm_name :: string
  tm_email :: string
  tm_jobTitle :: string
  tm_role :: organization_role
  tm_status :: membership_status
  tm_version :: int
  tm_active :: bool

definition member_of :: "membership_row \<Rightarrow> team_user \<Rightarrow> team_member" where
  "member_of m u =
     \<lparr>tm_id = me_id m, tm_userId = me_userId m, tm_name = tu_name u, tm_email = tu_email u,
      tm_jobTitle = (case tu_jobTitle u of None \<Rightarrow> [] | Some j \<Rightarrow> j), tm_role = me_organizationRole m,
      tm_status = me_status m, tm_version = me_version m,
      tm_active = (me_active m \<and> me_status m = ACTIVE)\<rparr>"

text \<open>With the database: the members of the session's company, removed ones left out, by name.\<close>

definition listCompanyMembers :: "app_session \<Rightarrow> team_db \<Rightarrow> team_member list" where
  "listCompanyMembers session db =
     (if \<not> truthy (s_companyId session) then []
      else
        sort_key tm_name
          (concat (map (\<lambda>m. if Some (me_companyId m) = s_companyId session \<and> me_status m \<noteq> REMOVED
                             then map (member_of m) (filter (\<lambda>u. tu_id u = me_userId m) (t_users db))
                             else []) (t_memberships db))))"

section \<open>Invitations\<close>

record invite_input =
  ii_session :: app_session
  ii_email :: string
  ii_role :: "organization_role option"
  ii_token :: string
  ii_newId :: string
  ii_now :: ms

definition pending :: "string \<Rightarrow> string \<Rightarrow> invitation_row \<Rightarrow> bool" where
  "pending companyId email i \<longleftrightarrow>
     inv_companyId i = companyId \<and> inv_emailNormalized i = email \<and>
     inv_acceptedAt i = None \<and> inv_revokedAt i = None"

definition already_assigned :: "string \<Rightarrow> string \<Rightarrow> team_db \<Rightarrow> bool" where
  "already_assigned companyId email db =
     list_ex (\<lambda>m. me_companyId m = companyId \<and>
                  (me_status m = ACTIVE \<or> me_status m = SUSPENDED \<or> me_status m = REMOVED) \<and>
                  list_ex (\<lambda>u. tu_id u = me_userId m \<and> tu_emailNormalized u = email) (t_users db))
       (t_memberships db)"

definition invitation_of ::
  "(string \<Rightarrow> string) \<Rightarrow> invite_input \<Rightarrow> string \<Rightarrow> string \<Rightarrow> organization_role \<Rightarrow> invitation_row" where
  "invitation_of hash input companyId email role =
     \<lparr>inv_id = ii_newId input, inv_tokenHash = hash (ii_token input), inv_companyId = companyId,
      inv_emailNormalized = email, inv_role = legacyRole role, inv_organizationRole = role,
      inv_invitedBy = s_userId (ii_session input), inv_expiresAt = ii_now input + INVITATION_TTL_MS,
      inv_acceptedAt = None, inv_acceptedBy = None, inv_revokedAt = None\<rparr>"

definition invite_transaction ::
  "(string \<Rightarrow> string) \<Rightarrow> invite_input \<Rightarrow> string \<Rightarrow> string \<Rightarrow> organization_role \<Rightarrow> team_db \<Rightarrow>
     invitation_row team_handled" where
  "invite_transaction hash input companyId email role db =
     (if already_assigned companyId email db then (Inl TEAM_EMAIL_ALREADY_ASSIGNED, db)
      else
        let db1 = db\<lparr>t_invitations := update_where (pending companyId email)
                    (\<lambda>i. i\<lparr>inv_revokedAt := Some (ii_now input)\<rparr>) (t_invitations db)\<rparr>;
            row = invitation_of hash input companyId email role in
        if list_ex (\<lambda>i. inv_id i = inv_id row \<or> inv_tokenHash i = inv_tokenHash row) (t_invitations db1)
        then (Inl TEAM_UNIQUE_VIOLATION, db1)
        else (Inr row, db1\<lparr>t_invitations := t_invitations db1 @ [row]\<rparr>))"

text \<open>
  Without a database the code answers with a demo invitation outside production; that branch writes
  nothing and is the storage error here.
\<close>

definition inviteCompanyMember ::
  "(string \<Rightarrow> string) \<Rightarrow> (string \<Rightarrow> string) \<Rightarrow> invite_input \<Rightarrow> team_db \<Rightarrow> invitation_row team_handled" where
  "inviteCompanyMember nfkc hash input db =
     (case requireCompanyId (ii_session input) of
        Inl e \<Rightarrow> (Inl e, db)
      | Inr companyId \<Rightarrow>
          let role = (case ii_role input of None \<Rightarrow> MEMBER | Some r \<Rightarrow> r) in
          case fst (resolveOrganizationRole (ii_session input)) of
            None \<Rightarrow> (Inl INVITATION_FORBIDDEN, db)
          | Some actorRole \<Rightarrow>
              if \<not> canInviteRole actorRole role then (Inl INVITATION_FORBIDDEN, db)
              else if \<not> t_available db then (Inl TEAM_STORAGE_UNAVAILABLE, db)
              else in_transaction (invite_transaction hash input companyId
                     (email_key nfkc (ii_email input)) role) db)"

definition revokeCompanyInvitation :: "app_session \<Rightarrow> string \<Rightarrow> ms \<Rightarrow> team_db \<Rightarrow> unit team_handled" where
  "revokeCompanyInvitation session invitationId now db =
     (case requireCompanyId session of
        Inl e \<Rightarrow> (Inl e, db)
      | Inr companyId \<Rightarrow>
          if \<not> t_available db then (Inl INVITATION_NOT_FOUND, db)
          else
            let guard = (\<lambda>i. inv_id i = invitationId \<and> inv_companyId i = companyId \<and>
                             inv_acceptedAt i = None \<and> inv_revokedAt i = None) in
            (if count_where guard (t_invitations db) \<noteq> 1 then Inl INVITATION_NOT_FOUND else Inr (),
             db\<lparr>t_invitations := update_where guard (\<lambda>i. i\<lparr>inv_revokedAt := Some now\<rparr>)
                  (t_invitations db)\<rparr>))"

section \<open>Acceptance\<close>

record accept_input =
  ac_session :: app_session
  ac_token :: string
  ac_now :: ms
  ac_newId :: string

definition open_invitation :: "string \<Rightarrow> ms \<Rightarrow> invitation_row \<Rightarrow> bool" where
  "open_invitation i now r \<longleftrightarrow>
     inv_id r = i \<and> inv_acceptedAt r = None \<and> inv_revokedAt r = None \<and> inv_expiresAt r > now"

definition membership_key :: "string \<Rightarrow> string \<Rightarrow> membership_row \<Rightarrow> bool" where
  "membership_key userId companyId m \<longleftrightarrow> me_userId m = userId \<and> me_companyId m = companyId"

definition accept_membership :: "accept_input \<Rightarrow> invitation_row \<Rightarrow> team_db \<Rightarrow> team_db" where
  "accept_membership input invitation db =
     (let key = membership_key (s_userId (ac_session input)) (inv_companyId invitation) in
      db\<lparr>t_memberships :=
           (if list_ex key (t_memberships db)
            then update_where key
                   (\<lambda>m. m\<lparr>me_active := True, me_status := ACTIVE, me_role := inv_role invitation,
                         me_organizationRole := inv_organizationRole invitation,
                         me_version := me_version m + 1, me_suspendedAt := None,
                         me_removedAt := None\<rparr>) (t_memberships db)
            else t_memberships db @
                   [\<lparr>me_id = ac_newId input, me_userId = s_userId (ac_session input),
                     me_companyId = inv_companyId invitation, me_role = inv_role invitation,
                     me_organizationRole = inv_organizationRole invitation, me_status = ACTIVE,
                     me_active = True, me_version = 1, me_suspendedAt = None,
                     me_removedAt = None\<rparr>])\<rparr>)"

definition accept_transaction ::
  "accept_input \<Rightarrow> invitation_row \<Rightarrow> team_user \<Rightarrow> team_db \<Rightarrow> (string \<times> string) team_handled" where
  "accept_transaction input invitation user db =
     (if count_where (open_invitation (inv_id invitation) (ac_now input)) (t_invitations db) \<noteq> 1
      then (Inl INVITATION_INVALID, db)
      else if \<not> list_ex (membership_key (s_userId (ac_session input)) (inv_companyId invitation))
                (t_memberships db) \<and>
              list_ex (\<lambda>m. me_id m = ac_newId input) (t_memberships db)
      then (Inl TEAM_UNIQUE_VIOLATION, db)
      else
        let db1 = db\<lparr>t_invitations := update_where (open_invitation (inv_id invitation) (ac_now input))
                    (\<lambda>i. i\<lparr>inv_acceptedAt := Some (ac_now input),
                          inv_acceptedBy := Some (s_userId (ac_session input))\<rparr>) (t_invitations db)\<rparr>;
            db2 = accept_membership input invitation db1 in
        (Inr (inv_id invitation, inv_companyId invitation),
         if \<not> truthy (tu_companyId user)
         then db2\<lparr>t_users := update_where (\<lambda>u. tu_id u = s_userId (ac_session input))
                (\<lambda>u. u\<lparr>tu_companyId := Some (inv_companyId invitation)\<rparr>) (t_users db2)\<rparr>
         else db2))"

definition acceptCompanyInvitation ::
  "(string \<Rightarrow> string) \<Rightarrow> (string \<Rightarrow> string) \<Rightarrow> accept_input \<Rightarrow> team_db \<Rightarrow> (string \<times> string) team_handled" where
  "acceptCompanyInvitation nfkc hash input db =
     (if \<not> t_available db then (Inl INVITATION_INVALID, db)
      else
        case List.find (\<lambda>i. inv_tokenHash i = hash (ac_token input)) (t_invitations db) of
          None \<Rightarrow> (Inl INVITATION_INVALID, db)
        | Some invitation \<Rightarrow>
            if inv_acceptedAt invitation \<noteq> None \<or> inv_revokedAt invitation \<noteq> None \<or>
               inv_expiresAt invitation \<le> ac_now input \<or> inv_organizationRole invitation = OWNER \<or>
               inv_emailNormalized invitation \<noteq> email_key nfkc (s_email (ac_session input))
            then (Inl INVITATION_INVALID, db)
            else
              case List.find (\<lambda>u. tu_id u = s_userId (ac_session input)) (t_users db) of
                None \<Rightarrow> (Inl INVITATION_USER_MISSING, db)
              | Some user \<Rightarrow>
                  if tu_emailVerifiedAt user = None \<and> tu_verifiedIdentities user = 0
                  then (Inl INVITATION_IDENTITY_UNVERIFIED, db)
                  else if (case List.find (membership_key (tu_id user) (inv_companyId invitation))
                                  (t_memberships db) of
                             None \<Rightarrow> False
                           | Some m \<Rightarrow> me_status m = REMOVED \<or> me_status m = SUSPENDED)
                  then (Inl INVITATION_FORBIDDEN, db)
                  else in_transaction (accept_transaction input invitation user) db)"

section \<open>Changes of a membership\<close>

definition loadMembershipForChange :: "string \<Rightarrow> string \<Rightarrow> team_db \<Rightarrow> membership_row option" where
  "loadMembershipForChange companyId membershipId db =
     List.find (\<lambda>m. me_id m = membershipId \<and> me_companyId m = companyId \<and> me_status m \<noteq> REMOVED)
       (t_memberships db)"

definition active_member_owner :: "string \<Rightarrow> membership_row \<Rightarrow> bool" where
  "active_member_owner companyId m \<longleftrightarrow>
     me_companyId m = companyId \<and> me_organizationRole m = OWNER \<and> me_status m = ACTIVE \<and> me_active m"

definition activeOwnerCount :: "string \<Rightarrow> team_db \<Rightarrow> nat" where
  "activeOwnerCount companyId db = count_where (active_member_owner companyId) (t_memberships db)"

definition revokeTargetSessions :: "string \<Rightarrow> string \<Rightarrow> ms \<Rightarrow> team_db \<Rightarrow> team_db" where
  "revokeTargetSessions userId companyId now db =
     db\<lparr>t_sessions := update_where (\<lambda>s. se_userId s = userId \<and> se_companyId s = Some companyId \<and>
                                        se_revokedAt s = None)
          (\<lambda>s. s\<lparr>se_revokedAt := Some now\<rparr>) (t_sessions db)\<rparr>"

text \<open>
  The audit entry and the notification follow the committed transaction; both are fail-open, so
  they cannot undo it.
\<close>

definition team_report ::
  "app_session \<Rightarrow> string \<Rightarrow> string \<Rightarrow> string \<Rightarrow> (string \<times> json) list \<Rightarrow> string \<Rightarrow> team_title \<Rightarrow> team_db \<Rightarrow>
     team_db" where
  "team_report session action targetId correlationId metadata targetUserId title db =
     db\<lparr>t_audit := t_audit db @
          [\<lparr>au_companyId = s_companyId session, au_actorId = Some (s_userId session),
            au_action = action, au_targetType = ''membership'', au_targetId = Some targetId,
            au_result = ''SUCCEEDED'', au_correlationId = Some correlationId,
            au_safeMetadata = metadata\<rparr>],
        t_notifications := t_notifications db @
          [\<lparr>tn_userId = targetUserId, tn_companyId = s_companyId session, tn_title = title\<rparr>]\<rparr>"

section \<open>Role change\<close>

record member_role_input =
  mr_session :: app_session
  mr_membershipId :: string
  mr_nextRole :: string
  mr_expectedVersion :: int
  mr_correlationId :: string
  mr_allowAdminOwnerAssignment :: bool
  mr_confirmation :: "string option"
  mr_now :: ms

definition role_guard :: "string \<Rightarrow> string \<Rightarrow> int \<Rightarrow> membership_row \<Rightarrow> bool" where
  "role_guard i companyId version m \<longleftrightarrow>
     me_id m = i \<and> me_companyId m = companyId \<and> me_version m = version \<and> me_status m = ACTIVE"

definition set_role :: "organization_role \<Rightarrow> membership_row \<Rightarrow> membership_row" where
  "set_role role m =
     m\<lparr>me_organizationRole := role, me_role := legacyRole role, me_version := me_version m + 1\<rparr>"

definition role_assignment_of ::
  "member_role_input \<Rightarrow> organization_role \<Rightarrow> membership_row \<Rightarrow> nat \<Rightarrow> role_assignment_input" where
  "role_assignment_of input actorRole membership owners =
     \<lparr>ra_actorId = s_userId (mr_session input), ra_actorRole = actorRole,
      ra_targetUserId = me_userId membership, ra_currentRole = me_organizationRole membership,
      ra_nextRole = mr_nextRole input, ra_activeOwnerCount = owners,
      ra_allowAdminOwnerAssignment = mr_allowAdminOwnerAssignment input\<rparr>"

text \<open>The transaction of a role change; \<open>membership\<close> was read before it began.\<close>

definition role_transaction ::
  "member_role_input \<Rightarrow> string \<Rightarrow> organization_role \<Rightarrow> membership_row \<Rightarrow> team_db \<Rightarrow>
     (membership_row \<times> organization_role) team_handled" where
  "role_transaction input companyId actorRole membership db =
     (let decision = evaluateRoleAssignment
            (role_assignment_of input actorRole membership (activeOwnerCount companyId db)) in
      case snd decision of
        None \<Rightarrow> (Inl (if fst decision = LAST_OWNER_PROTECTED then LAST_OWNER_KEPT
                      else ROLE_ASSIGNMENT_DENIED), db)
      | Some nextRole \<Rightarrow>
          let guard = role_guard (me_id membership) companyId (mr_expectedVersion input);
              db1 = db\<lparr>t_memberships := update_where guard (set_role nextRole) (t_memberships db)\<rparr> in
          if count_where guard (t_memberships db) \<noteq> 1 then (Inl MEMBERSHIP_VERSION_CONFLICT, db)
          else
            let db2 = revokeTargetSessions (me_userId membership) companyId (mr_now input) db1 in
            case List.find (\<lambda>m. me_id m = me_id membership) (t_memberships db2) of
              None \<Rightarrow> (Inl TEAM_RECORD_NOT_FOUND, db2)
            | Some changed \<Rightarrow> (Inr (changed, nextRole), db2))"

definition role_change_done ::
  "member_role_input \<Rightarrow> membership_row \<Rightarrow> (membership_row \<times> organization_role) team_handled \<Rightarrow>
     membership_row team_handled" where
  "role_change_done input membership result =
     (case result of
        (Inl e, db) \<Rightarrow> (Inl e, db)
      | (Inr (changed, nextRole), db) \<Rightarrow>
          let ownerAssigned = (nextRole = OWNER \<and> me_organizationRole membership \<noteq> OWNER) in
          (Inr changed,
           team_report (mr_session input)
             (if ownerAssigned then ''organization.owner.assigned'' else ''organization.role.changed'')
             (me_id membership) (mr_correlationId input)
             [(''previousRole'', JString (organization_role_name (me_organizationRole membership))),
              (''nextRole'', JString (organization_role_name nextRole)),
              (''membershipVersion'', JNumber (me_version changed))]
             (me_userId membership) (if ownerAssigned then OwnerAssigned else RoleChanged) db))"

definition changeOrganizationMemberRole ::
  "member_role_input \<Rightarrow> team_db \<Rightarrow> membership_row team_handled" where
  "changeOrganizationMemberRole input db =
     (case requireCompanyId (mr_session input) of
        Inl e \<Rightarrow> (Inl e, db)
      | Inr companyId \<Rightarrow>
          case fst (resolveOrganizationRole (mr_session input)) of
            None \<Rightarrow> (Inl ROLE_ASSIGNMENT_DENIED, db)
          | Some actorRole \<Rightarrow>
              if \<not> t_available db then (Inl TEAM_DATABASE_UNAVAILABLE, db)
              else
                case loadMembershipForChange companyId (mr_membershipId input) db of
                  None \<Rightarrow> (Inl MEMBERSHIP_NOT_FOUND, db)
                | Some membership \<Rightarrow>
                    if mr_nextRole input = ''OWNER'' \<and>
                       \<not> fst (evaluateCriticalOrganizationAction (mr_session input) OWNER_ASSIGN
                               (mr_confirmation input) (mr_now input))
                    then (Inl ROLE_ASSIGNMENT_DENIED, db)
                    else role_change_done input membership
                           (in_transaction (role_transaction input companyId actorRole membership) db))"

section \<open>Status change\<close>

record member_status_input =
  st_session :: app_session
  st_membershipId :: string
  st_status :: membership_status
  st_expectedVersion :: int
  st_correlationId :: string
  st_now :: ms

definition status_guard :: "string \<Rightarrow> string \<Rightarrow> int \<Rightarrow> membership_row \<Rightarrow> bool" where
  "status_guard i companyId version m \<longleftrightarrow>
     me_id m = i \<and> me_companyId m = companyId \<and> me_version m = version"

definition set_status :: "membership_status \<Rightarrow> ms \<Rightarrow> membership_row \<Rightarrow> membership_row" where
  "set_status status now m =
     m\<lparr>me_status := status, me_active := (status = ACTIVE),
       me_suspendedAt := (if status = SUSPENDED then Some now else None),
       me_removedAt := (if status = REMOVED then Some now else None),
       me_version := me_version m + 1\<rparr>"

definition status_transaction ::
  "member_status_input \<Rightarrow> string \<Rightarrow> membership_row \<Rightarrow> team_db \<Rightarrow> membership_row team_handled" where
  "status_transaction input companyId membership db =
     (if me_organizationRole membership = OWNER \<and> st_status input \<noteq> ACTIVE \<and>
         activeOwnerCount companyId db \<le> 1
      then (Inl LAST_OWNER_KEPT, db)
      else
        let guard = status_guard (me_id membership) companyId (st_expectedVersion input);
            db1 = db\<lparr>t_memberships := update_where guard (set_status (st_status input) (st_now input))
                    (t_memberships db)\<rparr> in
        if count_where guard (t_memberships db) \<noteq> 1 then (Inl MEMBERSHIP_VERSION_CONFLICT, db)
        else
          let db2 = (if st_status input \<noteq> ACTIVE
                     then revokeTargetSessions (me_userId membership) companyId (st_now input) db1
                     else db1) in
          case List.find (\<lambda>m. me_id m = me_id membership) (t_memberships db2) of
            None \<Rightarrow> (Inl TEAM_RECORD_NOT_FOUND, db2)
          | Some changed \<Rightarrow> (Inr changed, db2))"

definition member_status_name :: "membership_status \<Rightarrow> string" where
  "member_status_name status =
     (case status of ACTIVE \<Rightarrow> ''ACTIVE'' | INVITED \<Rightarrow> ''INVITED'' | SUSPENDED \<Rightarrow> ''SUSPENDED''
      | REMOVED \<Rightarrow> ''REMOVED'')"

definition status_change_done ::
  "member_status_input \<Rightarrow> membership_row \<Rightarrow> membership_row team_handled \<Rightarrow> membership_row team_handled" where
  "status_change_done input membership result =
     (case result of
        (Inl e, db) \<Rightarrow> (Inl e, db)
      | (Inr changed, db) \<Rightarrow>
          (Inr changed,
           team_report (st_session input)
             (if st_status input = SUSPENDED then ''organization.member.suspended''
              else if st_status input = REMOVED then ''organization.member.removed''
              else ''organization.member.reactivated'')
             (me_id membership) (st_correlationId input)
             [(''membershipStatus'', JString (member_status_name (st_status input))),
              (''membershipVersion'', JNumber (me_version changed))]
             (me_userId membership)
             (if st_status input = SUSPENDED then AccessSuspended
              else if st_status input = REMOVED then AccessRemoved else RoleChanged) db))"

definition changeOrganizationMembershipStatus ::
  "member_status_input \<Rightarrow> team_db \<Rightarrow> membership_row team_handled" where
  "changeOrganizationMembershipStatus input db =
     (case requireCompanyId (st_session input) of
        Inl e \<Rightarrow> (Inl e, db)
      | Inr companyId \<Rightarrow>
          case fst (resolveOrganizationRole (st_session input)) of
            None \<Rightarrow> (Inl ROLE_ASSIGNMENT_DENIED, db)
          | Some actorRole \<Rightarrow>
              if \<not> t_available db then (Inl TEAM_DATABASE_UNAVAILABLE, db)
              else
                case loadMembershipForChange companyId (st_membershipId input) db of
                  None \<Rightarrow> (Inl MEMBERSHIP_NOT_FOUND, db)
                | Some membership \<Rightarrow>
                    if me_userId membership = s_userId (st_session input) \<and> st_status input \<noteq> ACTIVE
                    then (Inl SELF_MEMBERSHIP_CHANGE_DENIED, db)
                    else if \<not> canManageMembership actorRole (me_organizationRole membership)
                    then (Inl ROLE_ASSIGNMENT_DENIED, db)
                    else status_change_done input membership
                           (in_transaction (status_transaction input companyId membership) db))"

section \<open>First owner\<close>

record first_owner_input =
  fo_session :: app_session
  fo_membershipId :: string
  fo_expectedVersion :: int
  fo_correlationId :: string
  fo_confirmation :: "string option"
  fo_now :: ms

definition first_owner_guard :: "string \<Rightarrow> int \<Rightarrow> membership_row \<Rightarrow> bool" where
  "first_owner_guard i version m \<longleftrightarrow>
     me_id m = i \<and> me_version m = version \<and> me_organizationRole m = ADMIN \<and> me_status m = ACTIVE"

definition first_owner_transaction ::
  "first_owner_input \<Rightarrow> string \<Rightarrow> team_db \<Rightarrow> membership_row team_handled" where
  "first_owner_transaction input companyId db =
     (if activeOwnerCount companyId db \<noteq> 0 then (Inl FIRST_OWNER_BOOTSTRAP_DENIED, db)
      else
        case List.find (\<lambda>m. me_userId m = s_userId (fo_session input) \<and>
                             me_id m = fo_membershipId input \<and> me_companyId m = companyId \<and>
                             me_organizationRole m = ADMIN \<and> me_status m = ACTIVE \<and> me_active m \<and>
                             me_version m = fo_expectedVersion input) (t_memberships db) of
          None \<Rightarrow> (Inl FIRST_OWNER_BOOTSTRAP_DENIED, db)
        | Some current \<Rightarrow>
            let guard = first_owner_guard (me_id current) (fo_expectedVersion input) in
            if count_where guard (t_memberships db) \<noteq> 1 then (Inl MEMBERSHIP_VERSION_CONFLICT, db)
            else (Inr current,
                  db\<lparr>t_memberships := update_where guard
                       (\<lambda>m. m\<lparr>me_organizationRole := OWNER, me_role := ADMIN_PLATFORM,
                             me_version := me_version m + 1\<rparr>) (t_memberships db)\<rparr>))"

definition bootstrapFirstOrganizationOwner ::
  "first_owner_input \<Rightarrow> team_db \<Rightarrow> (string \<times> int) team_handled" where
  "bootstrapFirstOrganizationOwner input db =
     (case requireCompanyId (fo_session input) of
        Inl e \<Rightarrow> (Inl e, db)
      | Inr companyId \<Rightarrow>
          if fst (resolveOrganizationRole (fo_session input)) \<noteq> Some ADMIN \<or>
             s_role (fo_session input) \<noteq> ADMIN_PLATFORM
          then (Inl FIRST_OWNER_BOOTSTRAP_DENIED, db)
          else if \<not> fst (evaluateCriticalOrganizationAction (fo_session input) OWNER_ASSIGN
                        (fo_confirmation input) (fo_now input))
          then (Inl FIRST_OWNER_BOOTSTRAP_DENIED, db)
          else if \<not> t_available db then (Inl TEAM_DATABASE_UNAVAILABLE, db)
          else
            case in_transaction (first_owner_transaction input companyId) db of
              (Inl e, db') \<Rightarrow> (Inl e, db')
            | (Inr membership, db') \<Rightarrow>
                (Inr (me_id membership, fo_expectedVersion input + 1),
                 team_report (fo_session input) ''organization.owner.assigned'' (me_id membership)
                   (fo_correlationId input)
                   [(''previousRole'', JString ''ADMIN''), (''nextRole'', JString ''OWNER''),
                    (''membershipVersion'', JNumber (fo_expectedVersion input + 1))]
                   (s_userId (fo_session input)) OwnerAssigned db'))"

end
