(* ===== verification/TeamProperties.thy ===== *)
theory TeamProperties
  imports Team
begin

text \<open>
  Correctness of the team handlers: the tables stay well formed, an organization with an owner keeps
  one, tenants do not touch each other's rows, invitations are used once and never make an owner.
  The last part exhibits the interleavings and states in which the last-owner and the delegation
  rules do not protect.
\<close>

section \<open>Runs\<close>

datatype team_op =
    Invite invite_input
  | RevokeInvitation app_session string ms
  | Accept accept_input
  | ChangeMemberRole member_role_input
  | ChangeMemberStatus member_status_input
  | BootstrapOwner first_owner_input

fun team_step :: "(string \<Rightarrow> string) \<Rightarrow> (string \<Rightarrow> string) \<Rightarrow> team_op \<Rightarrow> team_db \<Rightarrow> team_db" where
  "team_step nfkc hash (Invite input) db = snd (inviteCompanyMember nfkc hash input db)"
| "team_step nfkc hash (RevokeInvitation session i now) db =
     snd (revokeCompanyInvitation session i now db)"
| "team_step nfkc hash (Accept input) db = snd (acceptCompanyInvitation nfkc hash input db)"
| "team_step nfkc hash (ChangeMemberRole input) db = snd (changeOrganizationMemberRole input db)"
| "team_step nfkc hash (ChangeMemberStatus input) db =
     snd (changeOrganizationMembershipStatus input db)"
| "team_step nfkc hash (BootstrapOwner input) db = snd (bootstrapFirstOrganizationOwner input db)"


section \<open>What each operation does\<close>

lemma requireCompanyId_Inr: "requireCompanyId session = Inr c \<longleftrightarrow> s_companyId session = Some c \<and> c \<noteq> []"
  by (cases "s_companyId session") (auto simp: requireCompanyId_def)

lemma team_report_rows [simp]:
  "t_memberships (team_report session a i c md u t db) = t_memberships db"
  "t_invitations (team_report session a i c md u t db) = t_invitations db"
  "t_users (team_report session a i c md u t db) = t_users db"
  "t_sessions (team_report session a i c md u t db) = t_sessions db"
  "t_available (team_report session a i c md u t db) = t_available db"
  by (simp_all add: team_report_def)

lemma revokeTargetSessions_rows [simp]:
  "t_memberships (revokeTargetSessions u c now db) = t_memberships db"
  "t_invitations (revokeTargetSessions u c now db) = t_invitations db"
  "t_users (revokeTargetSessions u c now db) = t_users db"
  "t_available (revokeTargetSessions u c now db) = t_available db"
  by (simp_all add: revokeTargetSessions_def)

lemma loadMembershipD:
  "loadMembershipForChange c i db = Some m \<Longrightarrow>
     m \<in> set (t_memberships db) \<and> me_id m = i \<and> me_companyId m = c \<and> me_status m \<noteq> REMOVED"
  unfolding loadMembershipForChange_def by (drule find_SomeD) simp

lemma role_transaction_InrD:
  assumes "role_transaction input c actorRole m db = (Inr (changed, nextRole), db')"
  shows "evaluateRoleAssignment (role_assignment_of input actorRole m (activeOwnerCount c db)) =
      (ROLE_ASSIGNMENT_ALLOWED, Some nextRole)"
    "count_where (role_guard (me_id m) c (mr_expectedVersion input)) (t_memberships db) = 1"
    "db' = revokeTargetSessions (me_userId m) c (mr_now input)
       (db\<lparr>t_memberships := update_where (role_guard (me_id m) c (mr_expectedVersion input))
             (set_role nextRole) (t_memberships db)\<rparr>)"
    "changed \<in> set (t_memberships db')" "me_id changed = me_id m"
  using assms
  by (auto simp: role_transaction_def Let_def evaluateRoleAssignment_def
      split: option.splits if_splits dest: find_SomeD)

lemma member_role_change_InrD:
  assumes "changeOrganizationMemberRole input db = (Inr changed, db')"
  obtains c actorRole m nextRole db1 where
    "s_companyId (mr_session input) = Some c"
    "fst (resolveOrganizationRole (mr_session input)) = Some actorRole"
    "loadMembershipForChange c (mr_membershipId input) db = Some m"
    "mr_nextRole input = ''OWNER'' \<Longrightarrow> fst (evaluateCriticalOrganizationAction (mr_session input)
       OWNER_ASSIGN (mr_confirmation input) (mr_now input))"
    "role_transaction input c actorRole m db = (Inr (changed, nextRole), db1)"
    "t_memberships db' = t_memberships db1" "t_sessions db' = t_sessions db1"
    "t_invitations db' = t_invitations db1" "t_users db' = t_users db1"
proof -
  from assms obtain c actorRole m where c: "s_companyId (mr_session input) = Some c"
    and role: "fst (resolveOrganizationRole (mr_session input)) = Some actorRole"
    and load: "loadMembershipForChange c (mr_membershipId input) db = Some m"
    and critical: "mr_nextRole input = ''OWNER'' \<longrightarrow> fst (evaluateCriticalOrganizationAction
       (mr_session input) OWNER_ASSIGN (mr_confirmation input) (mr_now input))"
    and run: "role_change_done input m
       (in_transaction (role_transaction input c actorRole m) db) = (Inr changed, db')"
    by (auto simp: changeOrganizationMemberRole_def requireCompanyId_Inr
        split: sum.splits option.splits if_splits)
  from run obtain nextRole db1 where
    "in_transaction (role_transaction input c actorRole m) db = (Inr (changed, nextRole), db1)"
    and db': "db' = snd (role_change_done input m (Inr (changed, nextRole), db1))"
    by (auto simp: role_change_done_def Let_def split: prod.splits sum.splits)
  then have "role_transaction input c actorRole m db = (Inr (changed, nextRole), db1)"
    by (blast dest: in_transaction_InrD)
  from that [OF c role load _ this] critical db' show thesis
    by (simp add: role_change_done_def Let_def)
qed

lemma member_role_change_InlD: "changeOrganizationMemberRole input db = (Inl e, db') \<Longrightarrow> db' = db"
  by (auto simp: changeOrganizationMemberRole_def role_change_done_def Let_def
      split: sum.splits option.splits if_splits prod.splits dest!: in_transaction_InlD)

lemma status_transaction_InrD:
  assumes "status_transaction input c m db = (Inr changed, db')"
  shows "me_organizationRole m = OWNER \<Longrightarrow> st_status input \<noteq> ACTIVE \<Longrightarrow> 1 < activeOwnerCount c db"
    "count_where (status_guard (me_id m) c (st_expectedVersion input)) (t_memberships db) = 1"
    "t_memberships db' = update_where (status_guard (me_id m) c (st_expectedVersion input))
       (set_status (st_status input) (st_now input)) (t_memberships db)"
    "t_sessions db' = (if st_status input \<noteq> ACTIVE
       then t_sessions (revokeTargetSessions (me_userId m) c (st_now input) db) else t_sessions db)"
    "t_invitations db' = t_invitations db" "t_users db' = t_users db"
    "changed \<in> set (t_memberships db')" "me_id changed = me_id m"
  using assms
  by (auto simp: status_transaction_def Let_def revokeTargetSessions_def
      split: option.splits if_splits dest: find_SomeD)

lemma status_change_InrD:
  assumes "changeOrganizationMembershipStatus input db = (Inr changed, db')"
  obtains c actorRole m db1 where
    "s_companyId (st_session input) = Some c"
    "fst (resolveOrganizationRole (st_session input)) = Some actorRole"
    "loadMembershipForChange c (st_membershipId input) db = Some m"
    "me_userId m = s_userId (st_session input) \<Longrightarrow> st_status input = ACTIVE"
    "canManageMembership actorRole (me_organizationRole m)"
    "status_transaction input c m db = (Inr changed, db1)"
    "t_memberships db' = t_memberships db1" "t_sessions db' = t_sessions db1"
    "t_invitations db' = t_invitations db1" "t_users db' = t_users db1"
proof -
  from assms obtain c actorRole m where c: "s_companyId (st_session input) = Some c"
    and role: "fst (resolveOrganizationRole (st_session input)) = Some actorRole"
    and load: "loadMembershipForChange c (st_membershipId input) db = Some m"
    and self: "me_userId m = s_userId (st_session input) \<longrightarrow> st_status input = ACTIVE"
    and may: "canManageMembership actorRole (me_organizationRole m)"
    and run: "status_change_done input m (in_transaction (status_transaction input c m) db) =
       (Inr changed, db')"
    by (auto simp: changeOrganizationMembershipStatus_def requireCompanyId_Inr
        split: sum.splits option.splits if_splits)
  from run obtain db1 where "in_transaction (status_transaction input c m) db = (Inr changed, db1)"
    and db': "db' = snd (status_change_done input m (Inr changed, db1))"
    by (auto simp: status_change_done_def Let_def split: prod.splits sum.splits)
  then have "status_transaction input c m db = (Inr changed, db1)"
    by (blast dest: in_transaction_InrD)
  from that [OF c role load _ may this] self db' show thesis
    by (simp add: status_change_done_def Let_def)
qed

lemma status_change_InlD: "changeOrganizationMembershipStatus input db = (Inl e, db') \<Longrightarrow> db' = db"
  by (auto simp: changeOrganizationMembershipStatus_def status_change_done_def
      split: sum.splits option.splits if_splits prod.splits dest!: in_transaction_InlD)

lemma first_owner_InrD:
  assumes "bootstrapFirstOrganizationOwner input db = (Inr v, db')"
  obtains c m where "s_companyId (fo_session input) = Some c" "activeOwnerCount c db = 0"
    "m \<in> set (t_memberships db)" "me_companyId m = c" "me_userId m = s_userId (fo_session input)"
    "fst (evaluateCriticalOrganizationAction (fo_session input) OWNER_ASSIGN
       (fo_confirmation input) (fo_now input))"
    "count_where (first_owner_guard (me_id m) (fo_expectedVersion input)) (t_memberships db) = 1"
    "t_memberships db' = update_where (first_owner_guard (me_id m) (fo_expectedVersion input))
       (\<lambda>m. m\<lparr>me_organizationRole := OWNER, me_role := ADMIN_PLATFORM,
             me_version := me_version m + 1\<rparr>) (t_memberships db)"
    "t_sessions db' = t_sessions db" "t_invitations db' = t_invitations db" "t_users db' = t_users db"
proof -
  from assms obtain c m db1 where c: "s_companyId (fo_session input) = Some c"
    and critical: "fst (evaluateCriticalOrganizationAction (fo_session input) OWNER_ASSIGN
       (fo_confirmation input) (fo_now input))"
    and run: "first_owner_transaction input c db = (Inr m, db1)"
    and rows: "t_memberships db' = t_memberships db1" "t_sessions db' = t_sessions db1"
      "t_invitations db' = t_invitations db1" "t_users db' = t_users db1"
    by (auto simp: bootstrapFirstOrganizationOwner_def requireCompanyId_Inr
        split: sum.splits prod.splits if_splits dest!: in_transaction_InrD)
  from run rows that [OF c _ _ _ _ critical] show thesis
    by (auto simp: first_owner_transaction_def Let_def split: if_splits option.splits
        dest!: find_SomeD)
qed

lemma first_owner_InlD: "bootstrapFirstOrganizationOwner input db = (Inl e, db') \<Longrightarrow> db' = db"
  by (auto simp: bootstrapFirstOrganizationOwner_def split: sum.splits prod.splits if_splits
      dest!: in_transaction_InlD)

lemma invite_InrD:
  assumes "inviteCompanyMember nfkc hash input db = (Inr row, db')"
  obtains c actorRole role where "s_companyId (ii_session input) = Some c"
    "fst (resolveOrganizationRole (ii_session input)) = Some actorRole" "canInviteRole actorRole role"
    "row = invitation_of hash input c (email_key nfkc (ii_email input)) role"
    "t_invitations db' = update_where (pending c (email_key nfkc (ii_email input)))
       (\<lambda>i. i\<lparr>inv_revokedAt := Some (ii_now input)\<rparr>) (t_invitations db) @ [row]"
    "\<forall>i \<in> set (t_invitations db). inv_id i \<noteq> inv_id row \<and> inv_tokenHash i \<noteq> inv_tokenHash row"
    "t_memberships db' = t_memberships db" "t_sessions db' = t_sessions db" "t_users db' = t_users db"
proof -
  let ?role = "case ii_role input of None \<Rightarrow> MEMBER | Some r \<Rightarrow> r"
  from assms obtain c actorRole where c: "s_companyId (ii_session input) = Some c"
    and role: "fst (resolveOrganizationRole (ii_session input)) = Some actorRole"
    and may: "canInviteRole actorRole ?role"
    and run: "invite_transaction hash input c (email_key nfkc (ii_email input)) ?role db = (Inr row, db')"
    by (auto simp: inviteCompanyMember_def requireCompanyId_Inr Let_def
        split: sum.splits if_splits option.splits dest!: in_transaction_InrD)
  let ?old = "update_where (pending c (email_key nfkc (ii_email input)))
       (\<lambda>i. i\<lparr>inv_revokedAt := Some (ii_now input)\<rparr>) (t_invitations db)"
  from run have row: "row = invitation_of hash input c (email_key nfkc (ii_email input)) ?role"
    and rows: "t_invitations db' = ?old @ [row]"
      "t_memberships db' = t_memberships db" "t_sessions db' = t_sessions db" "t_users db' = t_users db"
    and new: "\<forall>i \<in> set ?old. inv_id i \<noteq> inv_id row \<and> inv_tokenHash i \<noteq> inv_tokenHash row"
    by (auto simp: invite_transaction_def Let_def list_ex_iff split: if_splits)
  have "inv_id i \<noteq> inv_id row \<and> inv_tokenHash i \<noteq> inv_tokenHash row" if "i \<in> set (t_invitations db)" for i
    using bspec [OF new update_where_member [OF that]] by (simp split: if_splits)
  with that [OF c role may row rows(1)] rows(2-4) show thesis by blast
qed

lemma invite_InlD: "inviteCompanyMember nfkc hash input db = (Inl e, db') \<Longrightarrow> db' = db"
  by (auto simp: inviteCompanyMember_def Let_def split: sum.splits if_splits option.splits
      dest!: in_transaction_InlD)

lemma revoke_invitation_rows:
  obtains guard where
    "t_invitations (snd (revokeCompanyInvitation session i now db)) =
       update_where guard (\<lambda>i. i\<lparr>inv_revokedAt := Some now\<rparr>) (t_invitations db)"
    "\<And>r. guard r \<Longrightarrow> inv_acceptedAt r = None \<and> Some (inv_companyId r) = s_companyId session"
    "t_memberships (snd (revokeCompanyInvitation session i now db)) = t_memberships db"
    "t_sessions (snd (revokeCompanyInvitation session i now db)) = t_sessions db"
    "t_users (snd (revokeCompanyInvitation session i now db)) = t_users db"
proof (cases "requireCompanyId session")
  case (Inl e)
  with that [of "\<lambda>_. False"] show thesis
    by (simp add: revokeCompanyInvitation_def update_where_none)
next
  case (Inr c)
  show thesis
  proof (cases "t_available db")
    case False
    with Inr that [of "\<lambda>_. False"] show thesis
      by (simp add: revokeCompanyInvitation_def update_where_none)
  next
    case True
    from Inr have c: "s_companyId session = Some c" by (simp add: requireCompanyId_Inr)
    show thesis
      by (rule that [of "\<lambda>r. inv_id r = i \<and> inv_companyId r = c \<and> inv_acceptedAt r = None \<and>
        inv_revokedAt r = None"])
        (use True Inr in \<open>simp_all add: revokeCompanyInvitation_def c Let_def\<close>)
  qed
qed

lemma accept_transaction_InrD:
  assumes "accept_transaction input invitation user db = (Inr v, db')"
  shows "v = (inv_id invitation, inv_companyId invitation)"
    "count_where (open_invitation (inv_id invitation) (ac_now input)) (t_invitations db) = 1"
    "t_invitations db' = update_where (open_invitation (inv_id invitation) (ac_now input))
       (\<lambda>i. i\<lparr>inv_acceptedAt := Some (ac_now input),
             inv_acceptedBy := Some (s_userId (ac_session input))\<rparr>) (t_invitations db)"
    "t_memberships db' = t_memberships (accept_membership input invitation db)"
    "t_sessions db' = t_sessions db"
    "list_ex (membership_key (s_userId (ac_session input)) (inv_companyId invitation)) (t_memberships db) \<or>
       (\<forall>m \<in> set (t_memberships db). me_id m \<noteq> ac_newId input)"
  using assms
  by (auto simp: accept_transaction_def accept_membership_def Let_def list_ex_iff split: if_splits)

lemma accept_InrD:
  assumes "acceptCompanyInvitation nfkc hash input db = (Inr v, db')"
  obtains invitation user where "invitation \<in> set (t_invitations db)"
    "List.find (\<lambda>i. inv_tokenHash i = hash (ac_token input)) (t_invitations db) = Some invitation"
    "inv_acceptedAt invitation = None" "inv_revokedAt invitation = None"
    "ac_now input < inv_expiresAt invitation" "inv_organizationRole invitation \<noteq> OWNER"
    "inv_emailNormalized invitation = email_key nfkc (s_email (ac_session input))"
    "user \<in> set (t_users db)" "tu_id user = s_userId (ac_session input)"
    "tu_emailVerifiedAt user \<noteq> None \<or> tu_verifiedIdentities user \<noteq> 0"
    "\<forall>m. List.find (membership_key (s_userId (ac_session input)) (inv_companyId invitation))
            (t_memberships db) = Some m \<longrightarrow> me_status m \<noteq> REMOVED \<and> me_status m \<noteq> SUSPENDED"
    "v = (inv_id invitation, inv_companyId invitation)"
    "count_where (open_invitation (inv_id invitation) (ac_now input)) (t_invitations db) = 1"
    "t_invitations db' = update_where (open_invitation (inv_id invitation) (ac_now input))
       (\<lambda>i. i\<lparr>inv_acceptedAt := Some (ac_now input),
             inv_acceptedBy := Some (s_userId (ac_session input))\<rparr>) (t_invitations db)"
    "t_memberships db' = t_memberships (accept_membership input invitation db)"
    "t_sessions db' = t_sessions db"
    "list_ex (membership_key (s_userId (ac_session input)) (inv_companyId invitation)) (t_memberships db) \<or>
       (\<forall>m \<in> set (t_memberships db). me_id m \<noteq> ac_newId input)"
proof -
  from assms obtain invitation user where
    find: "List.find (\<lambda>i. inv_tokenHash i = hash (ac_token input)) (t_invitations db) = Some invitation"
    and checks: "inv_acceptedAt invitation = None" "inv_revokedAt invitation = None"
      "ac_now input < inv_expiresAt invitation" "inv_organizationRole invitation \<noteq> OWNER"
      "inv_emailNormalized invitation = email_key nfkc (s_email (ac_session input))"
    and user: "List.find (\<lambda>u. tu_id u = s_userId (ac_session input)) (t_users db) = Some user"
    and verified: "tu_emailVerifiedAt user \<noteq> None \<or> tu_verifiedIdentities user \<noteq> 0"
    and member: "\<not> (case List.find (membership_key (tu_id user) (inv_companyId invitation))
            (t_memberships db) of None \<Rightarrow> False | Some m \<Rightarrow> me_status m = REMOVED \<or> me_status m = SUSPENDED)"
    and run: "accept_transaction input invitation user db = (Inr v, db')"
    by (auto simp: acceptCompanyInvitation_def split: if_splits option.splits dest!: in_transaction_InrD)
  note u = find_SomeD [OF user]
  note rest = accept_transaction_InrD [OF run]
  show thesis
    by (rule that [OF conjunct1 [OF find_SomeD [OF find]] find checks conjunct1 [OF u] conjunct2 [OF u]
          verified _ rest]) (use member u in \<open>auto split: option.splits\<close>)
qed

lemma accept_committed:
  assumes "acceptCompanyInvitation nfkc hash input db = (Inr v, db')"
  obtains invitation user where "accept_transaction input invitation user db = (Inr v, db')"
  using assms
  by (auto simp: acceptCompanyInvitation_def split: if_splits option.splits dest!: in_transaction_InrD)

lemma accept_InlD: "acceptCompanyInvitation nfkc hash input db = (Inl e, db') \<Longrightarrow> db' = db"
  by (auto simp: acceptCompanyInvitation_def split: if_splits option.splits dest!: in_transaction_InlD)

section \<open>Well-formed teams\<close>

definition team_ok :: "team_db \<Rightarrow> bool" where
  "team_ok db \<longleftrightarrow>
     distinct (map me_id (t_memberships db)) \<and>
     distinct (map (\<lambda>m. (me_userId m, me_companyId m)) (t_memberships db)) \<and>
     distinct (map inv_id (t_invitations db)) \<and>
     distinct (map inv_tokenHash (t_invitations db)) \<and>
     (\<forall>i \<in> set (t_invitations db). inv_organizationRole i \<noteq> OWNER)"

text \<open>Updates that keep the identity of the rows keep the tables well formed.\<close>

lemma team_ok_update:
  assumes "team_ok db"
    and "t_memberships db' = update_where p f (t_memberships db)"
    and "t_invitations db' = update_where q g (t_invitations db)"
    and "\<And>m. me_id (f m) = me_id m \<and> me_userId (f m) = me_userId m \<and> me_companyId (f m) = me_companyId m"
    and "\<And>i. inv_id (g i) = inv_id i \<and> inv_tokenHash (g i) = inv_tokenHash i \<and>
           inv_organizationRole (g i) = inv_organizationRole i"
  shows "team_ok db'"
proof -
  have "map me_id (t_memberships db') = map me_id (t_memberships db)"
    "map (\<lambda>m. (me_userId m, me_companyId m)) (t_memberships db') =
     map (\<lambda>m. (me_userId m, me_companyId m)) (t_memberships db)"
    "map inv_id (t_invitations db') = map inv_id (t_invitations db)"
    "map inv_tokenHash (t_invitations db') = map inv_tokenHash (t_invitations db)"
    "map inv_organizationRole (t_invitations db') = map inv_organizationRole (t_invitations db)"
    unfolding assms(2,3) using assms(4,5) by (simp_all add: map_update_where)
  moreover from this(5) assms(1) have "\<forall>i \<in> set (t_invitations db'). inv_organizationRole i \<noteq> OWNER"
    by (metis (no_types, lifting) team_ok_def image_eqI image_iff list.set_map)
  ultimately show ?thesis using assms(1) by (simp add: team_ok_def)
qed

lemma update_where_id [simp]: "update_where (\<lambda>_. False) f rows = rows"
  by (simp add: update_where_none)

lemma set_role_keys [simp]:
  "me_id (set_role r m) = me_id m" "me_userId (set_role r m) = me_userId m"
  "me_companyId (set_role r m) = me_companyId m" "me_organizationRole (set_role r m) = r"
  "me_status (set_role r m) = me_status m" "me_active (set_role r m) = me_active m"
  "me_version (set_role r m) = me_version m + 1"
  by (simp_all add: set_role_def)

lemma set_status_keys [simp]:
  "me_id (set_status st now m) = me_id m" "me_userId (set_status st now m) = me_userId m"
  "me_companyId (set_status st now m) = me_companyId m"
  "me_organizationRole (set_status st now m) = me_organizationRole m"
  "me_status (set_status st now m) = st" "me_active (set_status st now m) = (st = ACTIVE)"
  "me_version (set_status st now m) = me_version m + 1"
  by (simp_all add: set_status_def)

lemma canInviteRole_not_owner: "canInviteRole actor role \<Longrightarrow> role \<noteq> OWNER"
  by (auto simp: canInviteRole_def)

lemma accept_transaction_team_ok:
  assumes ok: "team_ok db" and run: "accept_transaction input invitation user db = (Inr v, db')"
  shows "team_ok db'"
proof -
  let ?key = "membership_key (s_userId (ac_session input)) (inv_companyId invitation)"
  note inv = accept_transaction_InrD(3) [OF run]
  note mem = accept_transaction_InrD(4) [OF run]
  note fresh = accept_transaction_InrD(6) [OF run]
  show ?thesis
  proof (cases "list_ex ?key (t_memberships db)")
    case True
    then show ?thesis
      by (intro team_ok_update [OF ok mem [unfolded accept_membership_def Let_def, simplified True,
            simplified] inv]) simp_all
  next
    case False
    let ?db = "db\<lparr>t_invitations := t_invitations db'\<rparr>"
    have "team_ok ?db"
      by (rule team_ok_update [OF ok, where p = "\<lambda>_. False" and f = id
            and q = "open_invitation (inv_id invitation) (ac_now input)"
            and g = "\<lambda>i. i\<lparr>inv_acceptedAt := Some (ac_now input),
               inv_acceptedBy := Some (s_userId (ac_session input))\<rparr>"]) (simp_all add: inv)
    then show ?thesis
      using False fresh mem by (auto simp: team_ok_def accept_membership_def list_ex_iff membership_key_def)
  qed
qed

lemma accept_team_ok:
  "team_ok db \<Longrightarrow> acceptCompanyInvitation nfkc hash input db = (Inr v, db') \<Longrightarrow> team_ok db'"
  by (blast elim: accept_committed intro: accept_transaction_team_ok)

lemma invite_team_ok:
  assumes ok: "team_ok db" and run: "inviteCompanyMember nfkc hash input db = (Inr row, db')"
  shows "team_ok db'"
proof (rule invite_InrD [OF run])
  fix c actorRole role
  let ?p = "pending c (email_key nfkc (ii_email input))"
  let ?g = "\<lambda>i. i\<lparr>inv_revokedAt := Some (ii_now input)\<rparr>"
  assume may: "canInviteRole actorRole role"
    and row: "row = invitation_of hash input c (email_key nfkc (ii_email input)) role"
    and inv: "t_invitations db' = update_where ?p ?g (t_invitations db) @ [row]"
    and fresh: "\<forall>i \<in> set (t_invitations db). inv_id i \<noteq> inv_id row \<and> inv_tokenHash i \<noteq> inv_tokenHash row"
    and mem: "t_memberships db' = t_memberships db"
  let ?db = "db\<lparr>t_invitations := update_where ?p ?g (t_invitations db)\<rparr>"
  have "team_ok ?db"
    by (rule team_ok_update [OF ok, where p = "\<lambda>_. False" and f = id and q = ?p and g = ?g]) simp_all
  moreover have "inv_id row \<notin> inv_id ` set (update_where ?p ?g (t_invitations db))"
    "inv_tokenHash row \<notin> inv_tokenHash ` set (update_where ?p ?g (t_invitations db))"
    using fresh by (auto elim!: in_update_whereE)
  moreover have "inv_organizationRole row \<noteq> OWNER"
    using may row by (simp add: invitation_of_def canInviteRole_not_owner)
  ultimately show ?thesis
    by (simp add: team_ok_def inv mem)
qed

lemma role_change_rows:
  assumes "role_transaction input c actorRole m db = (Inr (changed, nextRole), db1)"
  shows "t_memberships db1 = update_where (role_guard (me_id m) c (mr_expectedVersion input))
      (set_role nextRole) (t_memberships db)" "t_invitations db1 = t_invitations db"
    "t_users db1 = t_users db"
    "t_sessions db1 = t_sessions (revokeTargetSessions (me_userId m) c (mr_now input) db)"
  using role_transaction_InrD(3) [OF assms] by (simp_all add: revokeTargetSessions_def)

lemma role_transaction_team_ok:
  assumes "team_ok db" "role_transaction input c actorRole m db = (Inr (v, nextRole), db1)"
  shows "team_ok db1"
  using role_change_rows [OF assms(2)]
  by (intro team_ok_update [OF assms(1), where p = "role_guard (me_id m) c (mr_expectedVersion input)"
        and f = "set_role nextRole" and q = "\<lambda>_. False" and g = id]) simp_all

lemma status_transaction_team_ok:
  assumes "team_ok db" "status_transaction input c m db = (Inr v, db1)"
  shows "team_ok db1"
  using status_transaction_InrD [OF assms(2)]
  by (intro team_ok_update [OF assms(1), where p = "status_guard (me_id m) c (st_expectedVersion input)"
        and f = "set_status (st_status input) (st_now input)" and q = "\<lambda>_. False" and g = id]) simp_all

lemma team_ok_same:
  "t_memberships db' = t_memberships db \<Longrightarrow> t_invitations db' = t_invitations db \<Longrightarrow> team_ok db' = team_ok db"
  by (simp add: team_ok_def)

lemma role_change_team_ok:
  assumes ok: "team_ok db" and run: "changeOrganizationMemberRole input db = (Inr v, db')"
  shows "team_ok db'"
  by (rule member_role_change_InrD [OF run]) (metis team_ok_same role_transaction_team_ok [OF ok] role_change_rows(2))

lemma status_change_team_ok:
  assumes ok: "team_ok db" and run: "changeOrganizationMembershipStatus input db = (Inr v, db')"
  shows "team_ok db'"
  by (rule status_change_InrD [OF run]) (metis team_ok_same status_transaction_team_ok [OF ok])

lemma first_owner_team_ok:
  assumes ok: "team_ok db" and run: "bootstrapFirstOrganizationOwner input db = (Inr v, db')"
  shows "team_ok db'"
proof (rule first_owner_InrD [OF run])
  fix m
  assume "t_memberships db' = update_where (first_owner_guard (me_id m) (fo_expectedVersion input))
       (\<lambda>m. m\<lparr>me_organizationRole := OWNER, me_role := ADMIN_PLATFORM,
             me_version := me_version m + 1\<rparr>) (t_memberships db)"
    and "t_invitations db' = t_invitations db"
  then show ?thesis
    by (intro team_ok_update [OF ok, where p = "first_owner_guard (me_id m) (fo_expectedVersion input)"
          and f = "\<lambda>m. m\<lparr>me_organizationRole := OWNER, me_role := ADMIN_PLATFORM,
             me_version := me_version m + 1\<rparr>" and q = "\<lambda>_. False" and g = id]) simp_all
qed

lemma revoke_invitation_team_ok:
  assumes ok: "team_ok db"
  shows "team_ok (snd (revokeCompanyInvitation session i now db))"
proof (rule revoke_invitation_rows [of session i now db])
  fix guard
  assume "t_invitations (snd (revokeCompanyInvitation session i now db)) =
       update_where guard (\<lambda>i. i\<lparr>inv_revokedAt := Some now\<rparr>) (t_invitations db)"
    "t_memberships (snd (revokeCompanyInvitation session i now db)) = t_memberships db"
  then show ?thesis
    by (intro team_ok_update [OF ok, where p = "\<lambda>_. False" and f = id and q = guard
          and g = "\<lambda>i. i\<lparr>inv_revokedAt := Some now\<rparr>"]) simp_all
qed

text \<open>A handler that failed changed nothing; one that succeeded is a case of the lemmas above.\<close>

lemma handled_cases:
  assumes "\<And>e db'. h = (Inl e, db') \<Longrightarrow> P db'" and "\<And>v db'. h = (Inr v, db') \<Longrightarrow> P db'"
  shows "P (snd h)"
proof (cases h)
  case (Pair r db')
  with assms show ?thesis by (cases r) auto
qed

lemma step_team_ok: "team_ok db \<Longrightarrow> team_ok (team_step nfkc hash op db)"
  by (cases op)
    (auto intro!: handled_cases [where P = team_ok] revoke_invitation_team_ok
      dest: invite_InlD accept_InlD member_role_change_InlD status_change_InlD first_owner_InlD
        invite_team_ok accept_team_ok role_change_team_ok status_change_team_ok first_owner_team_ok)


section \<open>Overlapping calls\<close>

text \<open>
  A role or status change reads the membership before its transaction begins, an acceptance reads the
  invitation and the user. Between such a read and the commit other calls may commit: an event is a
  whole call of an operation or the commit of a call whose read happened at any earlier moment, and
  the system remembers every membership row that could have been read. The organization of the
  session is the one of the row, by the condition of \<open>loadMembershipForChange\<close>.
\<close>

record team_system =
  tm_db :: team_db
  tm_seen :: "membership_row list"

datatype team_event =
    Call team_op
  | CommitRole member_role_input organization_role membership_row
  | CommitStatus member_status_input membership_row
  | CommitAccept accept_input invitation_row team_user

fun team_commit ::
  "(string \<Rightarrow> string) \<Rightarrow> (string \<Rightarrow> string) \<Rightarrow> team_event \<Rightarrow> membership_row list \<Rightarrow> team_db \<Rightarrow> team_db" where
  "team_commit nfkc hash (Call op) seen db = team_step nfkc hash op db"
| "team_commit nfkc hash (CommitRole input actorRole m) seen db =
     (if m \<in> set seen
      then snd (role_change_done input m (in_transaction (role_transaction input (me_companyId m) actorRole m) db))
      else db)"
| "team_commit nfkc hash (CommitStatus input m) seen db =
     (if m \<in> set seen
      then snd (status_change_done input m (in_transaction (status_transaction input (me_companyId m) m) db))
      else db)"
| "team_commit nfkc hash (CommitAccept input invitation user) seen db =
     snd (in_transaction (accept_transaction input invitation user) db)"

definition team_event_step ::
  "(string \<Rightarrow> string) \<Rightarrow> (string \<Rightarrow> string) \<Rightarrow> team_event \<Rightarrow> team_system \<Rightarrow> team_system" where
  "team_event_step nfkc hash e st =
     (let db = team_commit nfkc hash e (tm_seen st) (tm_db st) in
      \<lparr>tm_db = db, tm_seen = tm_seen st @ t_memberships db\<rparr>)"

primrec team_system_run ::
  "(string \<Rightarrow> string) \<Rightarrow> (string \<Rightarrow> string) \<Rightarrow> team_event list \<Rightarrow> team_system \<Rightarrow> team_system" where
  "team_system_run nfkc hash [] st = st"
| "team_system_run nfkc hash (e # events) st =
     team_system_run nfkc hash events (team_event_step nfkc hash e st)"

definition team_system_of :: "team_db \<Rightarrow> team_system" where
  "team_system_of db = \<lparr>tm_db = db, tm_seen = t_memberships db\<rparr>"

text \<open>
  The rules spare the last owner but in two cases: an owner accepts an invitation, which replaces the
  role, or a change names a version later than the row it has read, which was no owner's then.
\<close>

definition owner_user :: "string \<Rightarrow> string \<Rightarrow> team_db \<Rightarrow> bool" where
  "owner_user c userId db \<longleftrightarrow> list_ex (\<lambda>m. active_member_owner c m \<and> me_userId m = userId) (t_memberships db)"

fun unprotected :: "string \<Rightarrow> team_event \<Rightarrow> team_db \<Rightarrow> bool" where
  "unprotected c (Call (Accept input)) db = owner_user c (s_userId (ac_session input)) db"
| "unprotected c (CommitAccept input invitation user) db = owner_user c (s_userId (ac_session input)) db"
| "unprotected c (CommitRole input actorRole m) db =
     (me_companyId m = c \<and> me_organizationRole m \<noteq> OWNER \<and> me_version m < mr_expectedVersion input)"
| "unprotected c (CommitStatus input m) db =
     (me_companyId m = c \<and> me_organizationRole m \<noteq> OWNER \<and> me_version m < st_expectedVersion input)"
| "unprotected c (Call op) db = False"

text \<open>A membership keeps its identifier, and every change of it raises its version.\<close>

definition memberships_grow :: "team_db \<Rightarrow> team_db \<Rightarrow> bool" where
  "memberships_grow db db' \<longleftrightarrow>
     (\<forall>m \<in> set (t_memberships db). \<exists>r \<in> set (t_memberships db').
        me_id r = me_id m \<and> (r = m \<or> me_version m < me_version r))"

definition seen_ok :: "team_system \<Rightarrow> bool" where
  "seen_ok st \<longleftrightarrow>
     (\<forall>m \<in> set (tm_seen st). \<exists>r \<in> set (t_memberships (tm_db st)).
        me_id r = me_id m \<and> (r = m \<or> me_version m < me_version r))"

lemma memberships_grow_same: "t_memberships db' = t_memberships db \<Longrightarrow> memberships_grow db db'"
  by (auto simp: memberships_grow_def)

lemma memberships_grow_update:
  assumes "t_memberships db' = update_where p f (t_memberships db)"
    and "\<And>m. me_id (f m) = me_id m \<and> me_version (f m) = me_version m + 1"
  shows "memberships_grow db db'"
  unfolding memberships_grow_def
proof
  fix m
  assume "m \<in> set (t_memberships db)"
  from update_where_member [OF this, of p f] assms
  show "\<exists>r \<in> set (t_memberships db'). me_id r = me_id m \<and> (r = m \<or> me_version m < me_version r)"
    by (intro bexI [of _ "if p m then f m else m"]) auto
qed

lemma seen_ok_step:
  assumes "seen_ok st" "memberships_grow (tm_db st) db"
  shows "seen_ok \<lparr>tm_db = db, tm_seen = tm_seen st @ t_memberships db\<rparr>"
  using assms unfolding seen_ok_def memberships_grow_def
  by (auto simp: ball_Un) (metis less_trans)

section \<open>Owners\<close>

lemma membership_unique:
  "team_ok db \<Longrightarrow> m \<in> set (t_memberships db) \<Longrightarrow> m' \<in> set (t_memberships db) \<Longrightarrow>
     me_id m = me_id m' \<Longrightarrow> m = m'"
  using distinct_key_eq [of me_id "t_memberships db" m m'] by (simp add: team_ok_def)

text \<open>What one step guarantees for the owners of an organization.\<close>

definition owners_kept :: "string \<Rightarrow> team_db \<Rightarrow> team_db \<Rightarrow> bool" where
  "owners_kept c db db' \<longleftrightarrow> (0 < activeOwnerCount c db \<longrightarrow> 0 < activeOwnerCount c db')"

lemma owners_kept_ge: "activeOwnerCount c db \<le> activeOwnerCount c db' \<Longrightarrow> owners_kept c db db'"
  by (auto simp: owners_kept_def)

lemma owners_kept_same: "t_memberships db' = t_memberships db \<Longrightarrow> owners_kept c db db'"
  by (simp add: owners_kept_def activeOwnerCount_def)

lemma role_transaction_owners:
  assumes tx: "role_transaction input c actorRole m db = (Inr (v, nextRole), db1)"
    and current: "\<And>r. r \<in> set (t_memberships db) \<Longrightarrow> me_id r = me_id m \<Longrightarrow> me_version r = mr_expectedVersion input \<Longrightarrow>
      active_member_owner c0 r \<Longrightarrow> c = c0 \<Longrightarrow> me_organizationRole m = OWNER"
  shows "owners_kept c0 db db1"
proof -
  let ?guard = "role_guard (me_id m) c (mr_expectedVersion input)"
  note facts = role_transaction_InrD [OF tx]
  note rows = role_change_rows [OF tx]
  show ?thesis
  proof (cases "nextRole = OWNER \<or> me_organizationRole m \<noteq> OWNER \<or> c \<noteq> c0")
    case True
    show ?thesis
      by (rule owners_kept_ge, unfold activeOwnerCount_def rows, rule count_where_update_ge)
        (use current True in \<open>auto simp: active_member_owner_def role_guard_def\<close>)
  next
    case False
    with facts(1) have "1 < activeOwnerCount c0 db"
      by (auto simp: evaluateRoleAssignment_def role_assignment_of_def split: option.splits if_splits)
    with count_where_update_loss [of "active_member_owner c0" "t_memberships db" ?guard "set_role nextRole"]
      facts(2) show ?thesis by (simp add: owners_kept_def activeOwnerCount_def rows)
  qed
qed

lemma status_transaction_owners:
  assumes tx: "status_transaction input c m db = (Inr v, db1)"
    and current: "\<And>r. r \<in> set (t_memberships db) \<Longrightarrow> me_id r = me_id m \<Longrightarrow> me_version r = st_expectedVersion input \<Longrightarrow>
      active_member_owner c0 r \<Longrightarrow> c = c0 \<Longrightarrow> me_organizationRole m = OWNER"
  shows "owners_kept c0 db db1"
proof -
  let ?guard = "status_guard (me_id m) c (st_expectedVersion input)"
  let ?f = "set_status (st_status input) (st_now input)"
  note facts = status_transaction_InrD [OF tx]
  show ?thesis
  proof (cases "st_status input = ACTIVE \<or> me_organizationRole m \<noteq> OWNER \<or> c \<noteq> c0")
    case True
    show ?thesis
      by (rule owners_kept_ge, unfold activeOwnerCount_def facts(3), rule count_where_update_ge)
        (use current True in \<open>auto simp: active_member_owner_def status_guard_def\<close>)
  next
    case False
    with facts(1) have "1 < activeOwnerCount c0 db" by simp
    with count_where_update_loss [of "active_member_owner c0" "t_memberships db" ?guard ?f]
      facts(2) show ?thesis by (simp add: owners_kept_def activeOwnerCount_def facts(3))
  qed
qed

lemma accept_transaction_owners:
  assumes run: "accept_transaction input invitation user db = (Inr v, db')"
    and spare: "\<not> owner_user c (s_userId (ac_session input)) db"
  shows "memberships_grow db db'" "owners_kept c db db'"
proof -
  let ?key = "membership_key (s_userId (ac_session input)) (inv_companyId invitation)"
  note mem = accept_transaction_InrD(4) [OF run]
  have "memberships_grow db db' \<and> owners_kept c db db'"
  proof (cases "list_ex ?key (t_memberships db)")
    case True
    then have rows: "t_memberships db' = update_where ?key
        (\<lambda>m. m\<lparr>me_active := True, me_status := ACTIVE, me_role := inv_role invitation,
               me_organizationRole := inv_organizationRole invitation, me_version := me_version m + 1,
               me_suspendedAt := None, me_removedAt := None\<rparr>) (t_memberships db)"
      using mem by (simp add: accept_membership_def Let_def)
    have "activeOwnerCount c db \<le> activeOwnerCount c db'"
      unfolding activeOwnerCount_def rows
      by (rule count_where_update_ge)
        (use spare in \<open>auto simp: active_member_owner_def membership_key_def owner_user_def list_ex_iff\<close>)
    with memberships_grow_update [OF rows] show ?thesis by (simp add: owners_kept_ge)
  next
    case False
    with mem show ?thesis
      by (auto simp: accept_membership_def memberships_grow_def owners_kept_def activeOwnerCount_def
          count_where_append)
  qed
  then show "memberships_grow db db'" "owners_kept c db db'" by simp_all
qed

lemma first_owner_owners:
  assumes run: "bootstrapFirstOrganizationOwner input db = (Inr v, db')"
  shows "memberships_grow db db'" "owners_kept c db db'"
proof -
  have "memberships_grow db db' \<and> owners_kept c db db'"
  proof (rule first_owner_InrD [OF run])
    fix m
    assume rows: "t_memberships db' = update_where (first_owner_guard (me_id m) (fo_expectedVersion input))
         (\<lambda>m. m\<lparr>me_organizationRole := OWNER, me_role := ADMIN_PLATFORM,
               me_version := me_version m + 1\<rparr>) (t_memberships db)"
    have "activeOwnerCount c db \<le> activeOwnerCount c db'"
      unfolding activeOwnerCount_def rows
      by (rule count_where_update_ge) (simp add: active_member_owner_def)
    with memberships_grow_update [OF rows] show ?thesis by (simp add: owners_kept_ge)
  qed
  then show "memberships_grow db db'" "owners_kept c db db'" by simp_all
qed

lemma role_change_grows:
  assumes "role_transaction input c actorRole m db = (Inr (v, nextRole), db1)" "t_memberships db' = t_memberships db1"
  shows "memberships_grow db db'"
  by (rule memberships_grow_update [OF trans [OF assms(2) role_change_rows(1) [OF assms(1)]]]) simp

lemma status_change_grows:
  assumes "status_transaction input c m db = (Inr v, db1)" "t_memberships db' = t_memberships db1"
  shows "memberships_grow db db'"
  by (rule memberships_grow_update [OF trans [OF assms(2) status_transaction_InrD(3) [OF assms(1)]]]) simp

lemma owners_kept_via: "owners_kept c db db1 \<Longrightarrow> t_memberships db' = t_memberships db1 \<Longrightarrow> owners_kept c db db'"
  by (simp add: owners_kept_def activeOwnerCount_def)

lemma role_change_owners:
  assumes ok: "team_ok db" and run: "changeOrganizationMemberRole input db = (Inr v, db')"
  shows "memberships_grow db db' \<and> owners_kept c0 db db'"
proof (rule member_role_change_InrD [OF run])
  fix c actorRole m nextRole db1
  assume load: "loadMembershipForChange c (mr_membershipId input) db = Some m"
    and tx: "role_transaction input c actorRole m db = (Inr (v, nextRole), db1)"
    and rows: "t_memberships db' = t_memberships db1"
  have "m \<in> set (t_memberships db)" using loadMembershipD [OF load] by simp
  then have "owners_kept c0 db db1"
    by (intro role_transaction_owners [OF tx]) (auto simp: active_member_owner_def dest: membership_unique [OF ok])
  with rows role_change_grows [OF tx rows] show ?thesis by (simp add: owners_kept_via)
qed

lemma status_change_owners:
  assumes ok: "team_ok db" and run: "changeOrganizationMembershipStatus input db = (Inr v, db')"
  shows "memberships_grow db db' \<and> owners_kept c0 db db'"
proof (rule status_change_InrD [OF run])
  fix c actorRole m db1
  assume load: "loadMembershipForChange c (st_membershipId input) db = Some m"
    and tx: "status_transaction input c m db = (Inr v, db1)"
    and rows: "t_memberships db' = t_memberships db1"
  have "m \<in> set (t_memberships db)" using loadMembershipD [OF load] by simp
  then have "owners_kept c0 db db1"
    by (intro status_transaction_owners [OF tx]) (auto simp: active_member_owner_def dest: membership_unique [OF ok])
  with rows status_change_grows [OF tx rows] show ?thesis by (simp add: owners_kept_via)
qed

text \<open>A step of the system: the tables stay well formed, and the owners unless the step is unprotected.\<close>

definition team_advances :: "string \<Rightarrow> team_event \<Rightarrow> team_db \<Rightarrow> team_db \<Rightarrow> bool" where
  "team_advances c e db db' \<longleftrightarrow>
     team_ok db' \<and> memberships_grow db db' \<and> (\<not> unprotected c e db \<longrightarrow> owners_kept c db db')"

lemma team_advances_same:
  "team_ok db \<Longrightarrow> t_memberships db' = t_memberships db \<Longrightarrow> t_invitations db' = t_invitations db \<Longrightarrow>
     team_advances c e db db'"
  by (simp add: team_advances_def team_ok_same [of db' db] memberships_grow_same owners_kept_same)

lemma handled_advances:
  assumes "team_ok db" "\<And>x db'. h = (Inl x, db') \<Longrightarrow> db' = db"
    and "\<And>v db'. h = (Inr v, db') \<Longrightarrow> team_advances c e db db'"
  shows "team_advances c e db (snd h)"
  by (rule handled_cases [where P = "team_advances c e db"]) (auto simp: assms team_advances_same dest: assms(2))

lemma accept_advances:
  assumes "team_ok db" "accept_transaction input invitation user db = (Inr v, db')"
    and "unprotected c e db = owner_user c (s_userId (ac_session input)) db"
  shows "team_advances c e db db'"
proof -
  have "memberships_grow db db'"
  proof (cases "list_ex (membership_key (s_userId (ac_session input)) (inv_companyId invitation)) (t_memberships db)")
    case True
    then have "t_memberships (accept_membership input invitation db) = update_where
        (membership_key (s_userId (ac_session input)) (inv_companyId invitation))
        (\<lambda>m. m\<lparr>me_active := True, me_status := ACTIVE, me_role := inv_role invitation,
           me_organizationRole := inv_organizationRole invitation, me_version := me_version m + 1,
           me_suspendedAt := None, me_removedAt := None\<rparr>) (t_memberships db)"
      by (simp add: accept_membership_def Let_def)
    from memberships_grow_update [OF trans [OF accept_transaction_InrD(4) [OF assms(2)] this]]
    show ?thesis by simp
  next
    case False
    with accept_transaction_InrD(4) [OF assms(2)] show ?thesis
      by (auto simp: accept_membership_def memberships_grow_def)
  qed
  with assms accept_transaction_team_ok accept_transaction_owners show ?thesis by (auto simp: team_advances_def)
qed

lemma call_advances:
  assumes ok: "team_ok db"
  shows "team_advances c (Call op) db (team_step nfkc hash op db)"
proof (cases op)
  case (Invite input)
  have "t_memberships (snd (inviteCompanyMember nfkc hash input db)) = t_memberships db"
    by (rule handled_cases [where P = "\<lambda>db'. t_memberships db' = t_memberships db"])
      (auto dest: invite_InlD elim: invite_InrD)
  with Invite step_team_ok [OF ok, of nfkc hash op] show ?thesis
    by (simp add: team_advances_def memberships_grow_same owners_kept_same)
next
  case (RevokeInvitation session i now)
  have "t_memberships (snd (revokeCompanyInvitation session i now db)) = t_memberships db"
    by (rule revoke_invitation_rows [of session i now db])
  with RevokeInvitation step_team_ok [OF ok, of nfkc hash op] show ?thesis
    by (simp add: team_advances_def memberships_grow_same owners_kept_same)
next
  case (Accept input)
  have "team_advances c (Call (Accept input)) db (snd (acceptCompanyInvitation nfkc hash input db))"
    by (rule handled_advances [OF ok])
      (auto dest: accept_InlD intro: accept_advances [OF ok] elim!: accept_committed)
  with Accept show ?thesis by simp
next
  case (BootstrapOwner input)
  have "team_advances c (Call (BootstrapOwner input)) db (snd (bootstrapFirstOrganizationOwner input db))"
    by (rule handled_advances [OF ok])
      (auto dest: first_owner_InlD simp: team_advances_def first_owner_team_ok [OF ok] first_owner_owners)
  with BootstrapOwner show ?thesis by simp
next
  case (ChangeMemberRole input)
  have "team_advances c (Call (ChangeMemberRole input)) db (snd (changeOrganizationMemberRole input db))"
    by (rule handled_advances [OF ok])
      (auto dest: member_role_change_InlD simp: team_advances_def role_change_team_ok [OF ok] role_change_owners [OF ok])
  with ChangeMemberRole show ?thesis by simp
next
  case (ChangeMemberStatus input)
  have "team_advances c (Call (ChangeMemberStatus input)) db (snd (changeOrganizationMembershipStatus input db))"
    by (rule handled_advances [OF ok])
      (auto dest: status_change_InlD simp: team_advances_def status_change_team_ok [OF ok] status_change_owners [OF ok])
  with ChangeMemberStatus show ?thesis by simp
qed

text \<open>The row a call has read is the present one if the version has not changed, and older otherwise.\<close>

lemma seen_current:
  assumes ok: "team_ok (tm_db st)" "seen_ok st" "m \<in> set (tm_seen st)"
    and r: "r \<in> set (t_memberships (tm_db st))" "me_id r = me_id m" "me_version r \<le> me_version m"
  shows "r = m"
proof -
  from ok(2,3) obtain r' where r': "r' \<in> set (t_memberships (tm_db st))" "me_id r' = me_id m"
    "r' = m \<or> me_version m < me_version r'" by (auto simp: seen_ok_def)
  with membership_unique [OF ok(1) r(1), of r'] r(2,3) show ?thesis by auto
qed

lemma role_commit_advances:
  assumes ok: "team_ok (tm_db st)" "seen_ok st" and m: "m \<in> set (tm_seen st)"
  shows "team_advances c (CommitRole input actorRole m) (tm_db st)
    (snd (role_change_done input m (in_transaction (role_transaction input (me_companyId m) actorRole m) (tm_db st))))"
proof (cases "role_transaction input (me_companyId m) actorRole m (tm_db st)")
  case (Pair res db1)
  show ?thesis
  proof (cases res)
    case (Inl e)
    with Pair show ?thesis
      by (simp add: role_change_done_def in_transaction_Inl team_advances_same [OF ok(1)])
  next
    case (Inr vn)
    obtain v n where vn: "vn = (v, n)" by (cases vn)
    let ?db = "snd (role_change_done input m (in_transaction (role_transaction input (me_companyId m) actorRole m) (tm_db st)))"
    have tx: "role_transaction input (me_companyId m) actorRole m (tm_db st) = (Inr (v, n), db1)"
      using Pair Inr vn by simp
    then have rows: "t_memberships ?db = t_memberships db1" "t_invitations ?db = t_invitations db1"
      by (simp_all add: in_transaction_def role_change_done_def Let_def)
    have "owners_kept c (tm_db st) db1" if "\<not> unprotected c (CommitRole input actorRole m) (tm_db st)"
      by (rule role_transaction_owners [OF tx])
        (use that seen_current [OF ok m] in \<open>force simp: active_member_owner_def\<close>)
    with rows role_transaction_team_ok [OF ok(1) tx] role_change_grows [OF tx rows(1)] show ?thesis
      by (auto simp: team_advances_def team_ok_same [OF rows] intro: owners_kept_via)
  qed
qed

lemma status_commit_advances:
  assumes ok: "team_ok (tm_db st)" "seen_ok st" and m: "m \<in> set (tm_seen st)"
  shows "team_advances c (CommitStatus input m) (tm_db st)
    (snd (status_change_done input m (in_transaction (status_transaction input (me_companyId m) m) (tm_db st))))"
proof (cases "status_transaction input (me_companyId m) m (tm_db st)")
  case (Pair res db1)
  show ?thesis
  proof (cases res)
    case (Inl e)
    with Pair show ?thesis
      by (simp add: status_change_done_def in_transaction_Inl team_advances_same [OF ok(1)])
  next
    case (Inr v)
    let ?db = "snd (status_change_done input m (in_transaction (status_transaction input (me_companyId m) m) (tm_db st)))"
    have tx: "status_transaction input (me_companyId m) m (tm_db st) = (Inr v, db1)"
      using Pair Inr by simp
    then have rows: "t_memberships ?db = t_memberships db1" "t_invitations ?db = t_invitations db1"
      by (simp_all add: in_transaction_def status_change_done_def Let_def)
    have "owners_kept c (tm_db st) db1" if "\<not> unprotected c (CommitStatus input m) (tm_db st)"
      by (rule status_transaction_owners [OF tx])
        (use that seen_current [OF ok m] in \<open>force simp: active_member_owner_def\<close>)
    with rows status_transaction_team_ok [OF ok(1) tx] status_change_grows [OF tx rows(1)] show ?thesis
      by (auto simp: team_advances_def team_ok_same [OF rows] intro: owners_kept_via)
  qed
qed

lemma commit_advances:
  assumes ok: "team_ok (tm_db st)" "seen_ok st"
  shows "team_advances c e (tm_db st) (team_commit nfkc hash e (tm_seen st) (tm_db st))"
proof (cases e)
  case (CommitAccept input invitation user)
  let ?tx = "accept_transaction input invitation user"
  show ?thesis
  proof (cases "?tx (tm_db st)")
    case (Pair res db1)
    then show ?thesis
      using CommitAccept accept_advances [OF ok(1), of input invitation user _ db1 c e]
      by (cases res) (auto simp: in_transaction_def intro: team_advances_same [OF ok(1)])
  qed
qed (use ok call_advances role_commit_advances status_commit_advances in \<open>auto intro: team_advances_same\<close>)

lemma event_step:
  assumes "team_ok (tm_db st)" "seen_ok st"
  shows "team_ok (tm_db (team_event_step nfkc hash e st))" "seen_ok (team_event_step nfkc hash e st)"
    "\<not> unprotected c e (tm_db st) \<Longrightarrow> owners_kept c (tm_db st) (tm_db (team_event_step nfkc hash e st))"
  using commit_advances [OF assms, of c e nfkc hash] assms(2)
  by (simp_all add: team_event_step_def Let_def team_advances_def seen_ok_step)

text \<open>The last owner is lost in a step that is unprotected in the state it finds.\<close>

lemma owners_run:
  assumes "team_ok (tm_db st)" "seen_ok st"
  shows "team_ok (tm_db (team_system_run nfkc hash events st)) \<and>
    (0 < activeOwnerCount c (tm_db st) \<longrightarrow> 0 < activeOwnerCount c (tm_db (team_system_run nfkc hash events st)) \<or>
     (\<exists>before e after. events = before @ e # after \<and>
        unprotected c e (tm_db (team_system_run nfkc hash before st)) \<and>
        0 < activeOwnerCount c (tm_db (team_system_run nfkc hash before st)) \<and>
        activeOwnerCount c (tm_db (team_system_run nfkc hash (before @ [e]) st)) = 0))"
  using assms
proof (induction events arbitrary: st)
  case (Cons e events)
  let ?st = "team_event_step nfkc hash e st"
  note step = event_step [OF Cons.prems, where nfkc = nfkc and hash = hash and e = e]
  note rest = Cons.IH [OF step(1,2)]
  show ?case
  proof (cases "0 < activeOwnerCount c (tm_db st) \<longrightarrow> 0 < activeOwnerCount c (tm_db ?st)")
    case True
    have later: "\<exists>before e' after. e # events = before @ e' # after \<and>
        unprotected c e' (tm_db (team_system_run nfkc hash before st)) \<and>
        0 < activeOwnerCount c (tm_db (team_system_run nfkc hash before st)) \<and>
        activeOwnerCount c (tm_db (team_system_run nfkc hash (before @ [e']) st)) = 0"
      if "events = before @ e' # after" "unprotected c e' (tm_db (team_system_run nfkc hash before ?st))"
        "0 < activeOwnerCount c (tm_db (team_system_run nfkc hash before ?st))"
        "activeOwnerCount c (tm_db (team_system_run nfkc hash (before @ [e']) ?st)) = 0" for before e' after
      using that by (intro exI [of _ "e # before"] exI [of _ e'] exI [of _ after]) simp
    with True rest show ?thesis by auto
  next
    case False
    then have "unprotected c e (tm_db st)" "0 < activeOwnerCount c (tm_db st)" "activeOwnerCount c (tm_db ?st) = 0"
      using step(3) [of c] by (auto simp: owners_kept_def)
    then have "\<exists>before e' after. e # events = before @ e' # after \<and>
        unprotected c e' (tm_db (team_system_run nfkc hash before st)) \<and>
        0 < activeOwnerCount c (tm_db (team_system_run nfkc hash before st)) \<and>
        activeOwnerCount c (tm_db (team_system_run nfkc hash (before @ [e']) st)) = 0"
      by (intro exI [of _ "[]"] exI [of _ e] exI [of _ events]) simp
    with rest show ?thesis by simp
  qed
qed simp

section \<open>Tenants\<close>

text \<open>What belongs to one company, and the company an operation acts on.\<close>

definition tenant ::
  "string \<Rightarrow> team_db \<Rightarrow> membership_row list \<times> invitation_row list \<times> user_session_row list" where
  "tenant c db =
     (filter (\<lambda>m. me_companyId m = c) (t_memberships db),
      filter (\<lambda>i. inv_companyId i = c) (t_invitations db),
      filter (\<lambda>s. se_companyId s = Some c) (t_sessions db))"

fun acting_company :: "(string \<Rightarrow> string) \<Rightarrow> team_op \<Rightarrow> team_db \<Rightarrow> string option" where
  "acting_company hash (Invite input) db = s_companyId (ii_session input)"
| "acting_company hash (RevokeInvitation session i now) db = s_companyId session"
| "acting_company hash (Accept input) db =
     map_option inv_companyId
       (List.find (\<lambda>i. inv_tokenHash i = hash (ac_token input)) (t_invitations db))"
| "acting_company hash (ChangeMemberRole input) db = s_companyId (mr_session input)"
| "acting_company hash (ChangeMemberStatus input) db = s_companyId (st_session input)"
| "acting_company hash (BootstrapOwner input) db = s_companyId (fo_session input)"

lemma revoke_sessions_tenant:
  "c' \<noteq> c \<Longrightarrow> filter (\<lambda>s. se_companyId s = Some c) (t_sessions (revokeTargetSessions u c' now db)) =
     filter (\<lambda>s. se_companyId s = Some c) (t_sessions db)"
  unfolding revokeTargetSessions_def by (simp, rule filter_update_where) auto

lemma invite_tenant:
  assumes run: "inviteCompanyMember nfkc hash input db = (Inr row, db')"
    and other: "s_companyId (ii_session input) \<noteq> Some c"
  shows "tenant c db' = tenant c db"
proof (rule invite_InrD [OF run])
  fix c' actorRole role
  let ?p = "pending c' (email_key nfkc (ii_email input))"
  assume c': "s_companyId (ii_session input) = Some c'"
    and row: "row = invitation_of hash input c' (email_key nfkc (ii_email input)) role"
    and inv: "t_invitations db' = update_where ?p (\<lambda>i. i\<lparr>inv_revokedAt := Some (ii_now input)\<rparr>)
       (t_invitations db) @ [row]"
    and rest: "t_memberships db' = t_memberships db" "t_sessions db' = t_sessions db"
  have "filter (\<lambda>i. inv_companyId i = c) (update_where ?p
      (\<lambda>i. i\<lparr>inv_revokedAt := Some (ii_now input)\<rparr>) (t_invitations db)) =
      filter (\<lambda>i. inv_companyId i = c) (t_invitations db)"
    by (rule filter_update_where) (use c' other in \<open>auto simp: pending_def\<close>)
  with c' other show ?thesis by (simp add: tenant_def inv row rest invitation_of_def)
qed

lemma accept_tenant:
  assumes ok: "team_ok db" and run: "acceptCompanyInvitation nfkc hash input db = (Inr v, db')"
    and other: "acting_company hash (Accept input) db \<noteq> Some c"
  shows "tenant c db' = tenant c db"
proof (rule accept_InrD [OF run])
  fix invitation :: invitation_row
  assume mem: "invitation \<in> set (t_invitations db)"
    and find: "List.find (\<lambda>i. inv_tokenHash i = hash (ac_token input)) (t_invitations db) = Some invitation"
    and rows: "t_invitations db' = update_where (open_invitation (inv_id invitation) (ac_now input))
       (\<lambda>i. i\<lparr>inv_acceptedAt := Some (ac_now input),
             inv_acceptedBy := Some (s_userId (ac_session input))\<rparr>) (t_invitations db)"
      "t_memberships db' = t_memberships (accept_membership input invitation db)"
      "t_sessions db' = t_sessions db"
  have company: "inv_companyId invitation \<noteq> c" using find other by simp
  have same: "i = invitation" if "i \<in> set (t_invitations db)" "inv_id i = inv_id invitation" for i
    using distinct_key_eq [of inv_id "t_invitations db" i invitation] that mem ok by (simp add: team_ok_def)
  have "filter (\<lambda>i. inv_companyId i = c) (t_invitations db') =
      filter (\<lambda>i. inv_companyId i = c) (t_invitations db)"
    unfolding rows by (rule filter_update_where) (use same company in \<open>auto simp: open_invitation_def\<close>)
  moreover have "filter (\<lambda>m. me_companyId m = c) (t_memberships db') =
      filter (\<lambda>m. me_companyId m = c) (t_memberships db)"
  proof (cases "list_ex (membership_key (s_userId (ac_session input)) (inv_companyId invitation))
      (t_memberships db)")
    case True
    then show ?thesis
      unfolding rows accept_membership_def Let_def
      by simp (rule filter_update_where, use company in \<open>simp add: membership_key_def\<close>)
  next
    case False
    with company show ?thesis unfolding rows accept_membership_def Let_def by simp
  qed
  ultimately show ?thesis by (simp add: tenant_def rows)
qed

lemma role_change_tenant:
  assumes run: "changeOrganizationMemberRole input db = (Inr v, db')"
    and other: "s_companyId (mr_session input) \<noteq> Some c"
  shows "tenant c db' = tenant c db"
proof (rule member_role_change_InrD [OF run])
  fix c' actorRole m nextRole db1
  assume c': "s_companyId (mr_session input) = Some c'"
    and tx: "role_transaction input c' actorRole m db = (Inr (v, nextRole), db1)"
    and rows: "t_memberships db' = t_memberships db1" "t_sessions db' = t_sessions db1"
      "t_invitations db' = t_invitations db1"
  have "filter (\<lambda>m. me_companyId m = c) (t_memberships db') =
      filter (\<lambda>m. me_companyId m = c) (t_memberships db)"
    unfolding rows role_change_rows [OF tx]
    by (rule filter_update_where) (use c' other in \<open>auto simp: role_guard_def\<close>)
  with c' other show ?thesis
    by (simp add: tenant_def rows role_change_rows [OF tx] revoke_sessions_tenant)
qed

lemma status_change_tenant:
  assumes run: "changeOrganizationMembershipStatus input db = (Inr v, db')"
    and other: "s_companyId (st_session input) \<noteq> Some c"
  shows "tenant c db' = tenant c db"
proof (rule status_change_InrD [OF run])
  fix c' actorRole m db1
  assume c': "s_companyId (st_session input) = Some c'"
    and tx: "status_transaction input c' m db = (Inr v, db1)"
    and rows: "t_memberships db' = t_memberships db1" "t_sessions db' = t_sessions db1"
      "t_invitations db' = t_invitations db1"
  note facts = status_transaction_InrD [OF tx]
  have "filter (\<lambda>m. me_companyId m = c) (t_memberships db') =
      filter (\<lambda>m. me_companyId m = c) (t_memberships db)"
    unfolding rows facts(3)
    by (rule filter_update_where) (use c' other in \<open>auto simp: status_guard_def\<close>)
  with c' other show ?thesis
    by (simp add: tenant_def rows facts(4,5) revoke_sessions_tenant)
qed

lemma first_owner_tenant:
  assumes ok: "team_ok db" and run: "bootstrapFirstOrganizationOwner input db = (Inr v, db')"
    and other: "s_companyId (fo_session input) \<noteq> Some c"
  shows "tenant c db' = tenant c db"
proof (rule first_owner_InrD [OF run])
  fix c' and m :: membership_row
  assume c': "s_companyId (fo_session input) = Some c'"
    and m: "m \<in> set (t_memberships db)" "me_companyId m = c'"
    and rows: "t_memberships db' = update_where (first_owner_guard (me_id m) (fo_expectedVersion input))
       (\<lambda>m. m\<lparr>me_organizationRole := OWNER, me_role := ADMIN_PLATFORM,
             me_version := me_version m + 1\<rparr>) (t_memberships db)"
      "t_sessions db' = t_sessions db" "t_invitations db' = t_invitations db"
  have "filter (\<lambda>m. me_companyId m = c) (t_memberships db') =
      filter (\<lambda>m. me_companyId m = c) (t_memberships db)"
    unfolding rows
    by (rule filter_update_where)
      (use c' m other membership_unique [OF ok _ m(1)] in \<open>auto simp: first_owner_guard_def\<close>)
  then show ?thesis by (simp add: tenant_def rows)
qed

lemma revoke_invitation_tenant:
  assumes "s_companyId session \<noteq> Some c"
  shows "tenant c (snd (revokeCompanyInvitation session i now db)) = tenant c db"
proof (rule revoke_invitation_rows [of session i now db])
  fix guard
  assume rows: "t_invitations (snd (revokeCompanyInvitation session i now db)) =
       update_where guard (\<lambda>i. i\<lparr>inv_revokedAt := Some now\<rparr>) (t_invitations db)"
    "t_memberships (snd (revokeCompanyInvitation session i now db)) = t_memberships db"
    "t_sessions (snd (revokeCompanyInvitation session i now db)) = t_sessions db"
    and guard: "\<And>r. guard r \<Longrightarrow> inv_acceptedAt r = None \<and> Some (inv_companyId r) = s_companyId session"
  have "filter (\<lambda>i. inv_companyId i = c) (t_invitations (snd (revokeCompanyInvitation session i now db))) =
      filter (\<lambda>i. inv_companyId i = c) (t_invitations db)"
    unfolding rows by (rule filter_update_where) (use guard assms in fastforce)
  then show ?thesis by (simp add: tenant_def rows)
qed

section \<open>Invitations\<close>







section \<open>A concrete team\<close>

definition colleague :: "string \<Rightarrow> organization_role \<Rightarrow> app_session" where
  "colleague userId role =
     \<lparr>s_sessionId = None, s_userId = userId, s_name = userId, s_company = ''Acme'',
      s_companyId = Some ''acme'', s_identityProviderId = None, s_email = userId @ ''@acme.test'',
      s_role = legacyRole role, s_platformRoles = None,
      s_organizationRole = Some (organization_role_name role), s_membershipStatus = Some ACTIVE,
      s_membershipVersion = Some 1, s_mfaSatisfied = Some True, s_authenticationAt = Some 1000,
      s_expiresAt = 900000\<rparr>"

definition membership :: "string \<Rightarrow> string \<Rightarrow> string \<Rightarrow> organization_role \<Rightarrow> membership_row" where
  "membership i userId companyId role =
     \<lparr>me_id = i, me_userId = userId, me_companyId = companyId, me_role = legacyRole role,
      me_organizationRole = role, me_status = ACTIVE, me_active = True, me_version = 1,
      me_suspendedAt = None, me_removedAt = None\<rparr>"

definition team_account :: "string \<Rightarrow> team_user" where
  "team_account userId =
     \<lparr>tu_id = userId, tu_name = userId, tu_email = userId @ ''@acme.test'',
      tu_emailNormalized = userId @ ''@acme.test'', tu_jobTitle = None,
      tu_emailVerifiedAt = Some 1, tu_verifiedIdentities = 0, tu_companyId = None\<rparr>"

definition live_session :: "string \<Rightarrow> string \<Rightarrow> user_session_row" where
  "live_session userId companyId =
     \<lparr>se_id = ''s-'' @ userId, se_userId = userId, se_companyId = Some companyId,
      se_authenticationAt = 1000, se_expiresAt = 900000, se_idleExpiresAt = 900000,
      se_revokedAt = None\<rparr>"

definition acme :: team_db where
  "acme =
     \<lparr>t_available = True,
      t_users = [team_account ''boss'', team_account ''admin'', team_account ''lead'', team_account ''new''],
      t_memberships = [membership ''m1'' ''boss'' ''acme'' OWNER, membership ''m2'' ''admin'' ''acme'' ADMIN,
                       membership ''m3'' ''lead'' ''acme'' MANAGER, membership ''m4'' ''far'' ''other'' OWNER],
      t_invitations = [], t_sessions = [live_session ''admin'' ''acme''], t_audit = [],
      t_notifications = []\<rparr>"

lemma acme_ok: "team_ok acme" "0 < activeOwnerCount ''acme'' acme"
  by (simp_all add: team_ok_def activeOwnerCount_def acme_def membership_def count_where_Cons
      active_member_owner_def)

lemma colleague_role [simp]: "resolveOrganizationRole (colleague u r) = (Some r, False)"
  by (cases r) (simp_all add: resolveOrganizationRole_def colleague_def organization_role_of_def)

definition demote_admin :: "string \<Rightarrow> organization_role \<Rightarrow> member_role_input" where
  "demote_admin actor role =
     \<lparr>mr_session = colleague actor role, mr_membershipId = ''m2'', mr_nextRole = ''VIEWER'',
      mr_expectedVersion = 1, mr_correlationId = ''c1'', mr_allowAdminOwnerAssignment = False,
      mr_confirmation = None, mr_now = 2000\<rparr>"

lemma demoted:
  assumes "role = OWNER \<or> role = ADMIN \<or> role = MANAGER" "actor \<noteq> ''admin''"
  shows "changeOrganizationMemberRole (demote_admin actor role) acme =
    (Inr (set_role VIEWER (membership ''m2'' ''admin'' ''acme'' ADMIN)),
     snd (changeOrganizationMemberRole (demote_admin actor role) acme))"
proof -
  have "s_companyId (colleague actor role) = Some ''acme''" "s_userId (colleague actor role) = actor"
    by (simp_all add: colleague_def)
  then show ?thesis
    using assms by (auto simp: changeOrganizationMemberRole_def demote_admin_def requireCompanyId_def
        acme_def loadMembershipForChange_def membership_def role_change_done_def in_transaction_def
        role_transaction_def evaluateRoleAssignment_def role_assignment_of_def organization_role_of_def
        role_guard_def table_simps revokeTargetSessions_def set_role_def Let_def)
qed

definition invite_new :: invite_input where
  "invite_new =
     \<lparr>ii_session = colleague ''boss'' OWNER, ii_email = ''New@acme.test'', ii_role = Some MEMBER,
      ii_token = ''token-1'', ii_newId = ''i1'', ii_now = 2000\<rparr>"

definition accept_new :: accept_input where
  "accept_new =
     \<lparr>ac_session = (colleague ''new'' MEMBER)\<lparr>s_companyId := None\<rparr>, ac_token = ''token-1'', ac_now = 3000,
      ac_newId = ''m9''\<rparr>"

definition invited :: team_db where
  "invited = acme\<lparr>t_invitations :=
     [\<lparr>inv_id = ''i1'', inv_tokenHash = ''token-1'', inv_companyId = ''acme'',
       inv_emailNormalized = ''new@acme.test'', inv_role = CLIENT, inv_organizationRole = MEMBER,
       inv_invitedBy = ''boss'', inv_expiresAt = 259202000, inv_acceptedAt = None,
       inv_acceptedBy = None, inv_revokedAt = None\<rparr>]\<rparr>"

lemma new_email: "email_key id ''New@acme.test'' = ''new@acme.test''" "email_key id ''new@acme.test'' = ''new@acme.test''"
  by code_simp+



section \<open>Properties\<close>

text \<open>
  C8. An organization that has an active owner keeps one, unless a rule that does not protect it is
  used. In every interleaving of invitations, acceptances, role and status changes and owner
  bootstraps, in which a change or an acceptance may commit any time after it has read, the event
  that takes the last active owner away is either the acceptance of an invitation by an active owner
  of the organization, or a change that names a later version than that of the membership it has
  read, which was not an owner's when read. Identifiers, the user's membership per company and invitation tokens stay
  unique, and no stored invitation is ever for the owner role.
\<close>

theorem organization_keeps_owner:
  assumes "team_ok db"
  shows "team_ok (tm_db (team_system_run nfkc hash events (team_system_of db))) \<and>
    (0 < activeOwnerCount c db \<longrightarrow>
      0 < activeOwnerCount c (tm_db (team_system_run nfkc hash events (team_system_of db))) \<or>
      (\<exists>before e after. events = before @ e # after \<and>
         unprotected c e (tm_db (team_system_run nfkc hash before (team_system_of db))) \<and>
         0 < activeOwnerCount c (tm_db (team_system_run nfkc hash before (team_system_of db))) \<and>
         activeOwnerCount c (tm_db (team_system_run nfkc hash (before @ [e]) (team_system_of db))) = 0))"
proof -
  have "team_ok (tm_db (team_system_of db))" "seen_ok (team_system_of db)"
    using assms by (auto simp: team_system_of_def seen_ok_def)
  from owners_run [OF this, of nfkc hash events c] show ?thesis by (simp add: team_system_of_def)
qed

theorem organization_keeps_owner_witness:
  "0 < activeOwnerCount ''acme'' (tm_db (team_system_run id id
     [Call (Invite invite_new),
      CommitRole (demote_admin ''boss'' OWNER) OWNER (membership ''m2'' ''admin'' ''acme'' ADMIN),
      CommitRole (demote_admin ''admin'' ADMIN) ADMIN (membership ''m1'' ''boss'' ''acme'' OWNER)]
     (team_system_of acme)))"
  using organization_keeps_owner [OF acme_ok(1), of id id
     "[Call (Invite invite_new),
       CommitRole (demote_admin ''boss'' OWNER) OWNER (membership ''m2'' ''admin'' ''acme'' ADMIN),
       CommitRole (demote_admin ''admin'' ADMIN) ADMIN (membership ''m1'' ''boss'' ''acme'' OWNER)]" "''acme''"] acme_ok(2)
  by (auto simp: Cons_eq_append_conv demote_admin_def membership_def)

text \<open>
  C9. Tenants are isolated: an operation acting on one company (the session's, or the invitation's for
  an acceptance) leaves the memberships, invitations and user sessions of every other company as
  they were.
\<close>

theorem tenant_isolation:
  assumes "team_ok db" "acting_company hash op db \<noteq> Some c"
  shows "tenant c (team_step nfkc hash op db) = tenant c db"
proof (cases op)
  case (RevokeInvitation session i now)
  with assms(2) show ?thesis by (simp add: revoke_invitation_tenant)
qed (use assms in \<open>auto intro!: handled_cases [where P = "\<lambda>db'. tenant c db' = tenant c db"]
    dest: invite_InlD accept_InlD member_role_change_InlD status_change_InlD first_owner_InlD
      invite_tenant accept_tenant role_change_tenant status_change_tenant first_owner_tenant
    simp del: acting_company.simps(3)\<close>)

theorem tenant_isolation_witness:
  "tenant ''other'' (team_step id id (ChangeMemberRole (demote_admin ''boss'' OWNER)) acme) =
     ([membership ''m4'' ''far'' ''other'' OWNER], [], [])"
proof -
  have "acting_company id (ChangeMemberRole (demote_admin ''boss'' OWNER)) acme \<noteq> Some ''other''"
    by (simp add: demote_admin_def colleague_def)
  from tenant_isolation [OF acme_ok(1) this] show ?thesis
    by (simp add: tenant_def acme_def membership_def live_session_def)
qed

text \<open>
  C20. A role change is bounded by the actor: the new role is one the actor's role may assign, nobody
  raises an own role, the owner role needs a fresh multi-factor authentication and the explicit
  confirmation, the member was active in the actor's company under the expected version, and every
  session of the member in that company is revoked.
\<close>

theorem member_role_change_bounded:
  assumes ok: "team_ok db" and run: "changeOrganizationMemberRole input db = (Inr changed, db')"
  shows "\<exists>c actorRole nextRole m. s_companyId (mr_session input) = Some c \<and>
    fst (resolveOrganizationRole (mr_session input)) = Some actorRole \<and>
    nextRole \<in> set (assignable (mr_allowAdminOwnerAssignment input) actorRole) \<and>
    organization_role_of (mr_nextRole input) = Some nextRole \<and>
    m \<in> set (t_memberships db) \<and> me_id m = mr_membershipId input \<and> me_companyId m = c \<and>
    me_status m = ACTIVE \<and> me_version m = mr_expectedVersion input \<and> changed = set_role nextRole m \<and>
    (me_userId m = s_userId (mr_session input) \<longrightarrow> nextRole \<le> me_organizationRole m) \<and>
    (nextRole = OWNER \<longrightarrow> s_mfaSatisfied (mr_session input) = Some True \<and>
       mr_confirmation input = Some ''ASSIGN OWNER'') \<and>
    (\<forall>s \<in> set (t_sessions db'). se_userId s = me_userId m \<and> se_companyId s = Some c \<longrightarrow>
       se_revokedAt s \<noteq> None)"
proof (rule member_role_change_InrD [OF run])
  fix c actorRole m nextRole db1
  assume c: "s_companyId (mr_session input) = Some c"
    and actor: "fst (resolveOrganizationRole (mr_session input)) = Some actorRole"
    and load: "loadMembershipForChange c (mr_membershipId input) db = Some m"
    and critical: "mr_nextRole input = ''OWNER'' \<Longrightarrow> fst (evaluateCriticalOrganizationAction
       (mr_session input) OWNER_ASSIGN (mr_confirmation input) (mr_now input))"
    and tx: "role_transaction input c actorRole m db = (Inr (changed, nextRole), db1)"
    and rows: "t_sessions db' = t_sessions db1"
  note facts = role_transaction_InrD [OF tx]
  note m = loadMembershipD [OF load]
  let ?guard = "role_guard (me_id m) c (mr_expectedVersion input)"
  have same: "r = m" if "r \<in> set (t_memberships db)" "me_id r = me_id m" for r
    using membership_unique [OF ok that(1)] m that(2) by simp
  from facts(2) obtain r where "r \<in> set (t_memberships db)" "?guard r"
    using count_where_pos [of ?guard] by fastforce
  with same have guard: "?guard m" by (auto simp: role_guard_def)
  have changed: "changed = set_role nextRole m"
    using facts(4) unfolding role_change_rows(1) [OF tx]
    by (cases rule: in_update_whereE) (use same facts(5) guard in \<open>auto simp: role_guard_def\<close>)
  from facts(1) have decision: "organization_role_of (mr_nextRole input) = Some nextRole"
    "nextRole \<in> set (assignable (mr_allowAdminOwnerAssignment input) actorRole)"
    "me_userId m = s_userId (mr_session input) \<longrightarrow> nextRole \<le> me_organizationRole m"
    by (auto simp: evaluateRoleAssignment_def role_assignment_of_def role_order_defs
        split: option.splits if_splits)
  have owner: "nextRole = OWNER \<longrightarrow> s_mfaSatisfied (mr_session input) = Some True \<and>
      mr_confirmation input = Some ''ASSIGN OWNER''"
    using critical organization_role_of_SomeD [OF decision(1)]
    by (auto simp: evaluateCriticalOrganizationAction_def Let_def split: if_splits)
  have "\<forall>s \<in> set (t_sessions db'). se_userId s = me_userId m \<and> se_companyId s = Some c \<longrightarrow>
      se_revokedAt s \<noteq> None"
    unfolding rows role_change_rows(4) [OF tx] revokeTargetSessions_def
    by (auto elim!: in_update_whereE)
  with c actor decision m guard changed owner show ?thesis
    by (auto simp: role_guard_def)
qed

theorem member_role_change_bounded_witness:
  "filter (\<lambda>s. se_userId s = ''admin'' \<and> se_companyId s = Some ''acme'' \<and> se_revokedAt s = None)
     (t_sessions (snd (changeOrganizationMemberRole (demote_admin ''boss'' OWNER) acme))) = []"
proof -
  have "s_companyId (mr_session (demote_admin ''boss'' OWNER)) = Some ''acme''"
    "mr_membershipId (demote_admin ''boss'' OWNER) = ''m2''"
    by (simp_all add: demote_admin_def colleague_def)
  moreover have "me_userId m = ''admin''" if "m \<in> set (t_memberships acme)" "me_id m = ''m2''" for m
    using that by (auto simp: acme_def membership_def)
  ultimately show ?thesis
    using member_role_change_bounded [OF acme_ok(1) demoted [of OWNER "''boss''"]]
    by (auto simp: filter_empty_conv)
qed



text \<open>
  A status change is authorized and effective: the actor may manage the member's role and is not
  suspending or removing the own membership, an organization's only active owner is not suspended or
  removed, the membership carries the new status under the next version, and a member no longer
  active has no live session in the company.
\<close>

theorem member_status_change_effective:
  assumes ok: "team_ok db" and run: "changeOrganizationMembershipStatus input db = (Inr changed, db')"
  shows "\<exists>c actorRole m. s_companyId (st_session input) = Some c \<and>
    fst (resolveOrganizationRole (st_session input)) = Some actorRole \<and>
    m \<in> set (t_memberships db) \<and> me_id m = st_membershipId input \<and> me_companyId m = c \<and>
    canManageMembership actorRole (me_organizationRole m) \<and>
    (me_userId m = s_userId (st_session input) \<longrightarrow> st_status input = ACTIVE) \<and>
    (me_organizationRole m = OWNER \<and> st_status input \<noteq> ACTIVE \<longrightarrow> 1 < activeOwnerCount c db) \<and>
    me_version m = st_expectedVersion input \<and>
    changed = set_status (st_status input) (st_now input) m \<and> changed \<in> set (t_memberships db') \<and>
    (st_status input \<noteq> ACTIVE \<longrightarrow> (\<forall>s \<in> set (t_sessions db').
       se_userId s = me_userId m \<and> se_companyId s = Some c \<longrightarrow> se_revokedAt s \<noteq> None))"
proof (rule status_change_InrD [OF run])
  fix c actorRole m db1
  assume c: "s_companyId (st_session input) = Some c"
    and actor: "fst (resolveOrganizationRole (st_session input)) = Some actorRole"
    and load: "loadMembershipForChange c (st_membershipId input) db = Some m"
    and self: "me_userId m = s_userId (st_session input) \<Longrightarrow> st_status input = ACTIVE"
    and may: "canManageMembership actorRole (me_organizationRole m)"
    and tx: "status_transaction input c m db = (Inr changed, db1)"
    and rows: "t_memberships db' = t_memberships db1" "t_sessions db' = t_sessions db1"
  note facts = status_transaction_InrD [OF tx]
  note m = loadMembershipD [OF load]
  let ?guard = "status_guard (me_id m) c (st_expectedVersion input)"
  have same: "r = m" if "r \<in> set (t_memberships db)" "me_id r = me_id m" for r
    using membership_unique [OF ok that(1)] m that(2) by simp
  from facts(2) obtain r where "r \<in> set (t_memberships db)" "?guard r"
    using count_where_pos [of ?guard] by fastforce
  with same have guard: "?guard m" by (auto simp: status_guard_def)
  have changed: "changed = set_status (st_status input) (st_now input) m"
    using facts(7) unfolding facts(3)
    by (cases rule: in_update_whereE) (use same facts(8) guard in \<open>auto simp: status_guard_def\<close>)
  have "st_status input \<noteq> ACTIVE \<longrightarrow> (\<forall>s \<in> set (t_sessions db').
      se_userId s = me_userId m \<and> se_companyId s = Some c \<longrightarrow> se_revokedAt s \<noteq> None)"
    by (auto simp: rows facts(4) revokeTargetSessions_def elim!: in_update_whereE)
  moreover have "changed \<in> set (t_memberships db')" using facts(7) rows by simp
  ultimately show ?thesis
    using c actor self may m guard changed facts(1) by (auto simp: status_guard_def)
qed

definition suspend_admin :: member_status_input where
  "suspend_admin =
     \<lparr>st_session = colleague ''boss'' OWNER, st_membershipId = ''m2'', st_status = SUSPENDED,
      st_expectedVersion = 1, st_correlationId = ''c2'', st_now = 2000\<rparr>"

theorem member_status_change_effective_witness:
  "\<exists>changed. fst (changeOrganizationMembershipStatus suspend_admin acme) = Inr changed \<and>
     me_status changed = SUSPENDED \<and> \<not> me_active changed"
proof -
  have "s_companyId (colleague ''boss'' OWNER) = Some ''acme''" "s_userId (colleague ''boss'' OWNER) = ''boss''"
    by (simp_all add: colleague_def)
  then have "succeeds (changeOrganizationMembershipStatus suspend_admin acme)"
    by (simp add: changeOrganizationMembershipStatus_def suspend_admin_def requireCompanyId_def acme_def
        loadMembershipForChange_def membership_def canManageMembership_def status_change_done_def
        in_transaction_def status_transaction_def status_guard_def table_simps
        revokeTargetSessions_def set_status_def Let_def)
  then obtain changed db' where run: "changeOrganizationMembershipStatus suspend_admin acme = (Inr changed, db')"
    by (rule succeedsE)
  from member_status_change_effective [OF acme_ok(1) run] run show ?thesis
    by (auto simp: suspend_admin_def)
qed

section \<open>Where the rules do not protect\<close>

text \<open>
  Role changes do not compare the actor with the present role of the member: a manager, who could
  not suspend an admin, can make the admin a viewer.
\<close>

theorem manager_demotes_admin:
  "succeeds (changeOrganizationMemberRole (demote_admin ''lead'' MANAGER) acme)"
  "\<not> canManageMembership MANAGER ADMIN"
proof -
  have "succeeds (h :: membership_row team_handled)" if "h = (Inr v, snd h)" for h v
    using that by (cases h) (simp add: succeeds_def)
  with demoted [of MANAGER "''lead''"]
  show "succeeds (changeOrganizationMemberRole (demote_admin ''lead'' MANAGER) acme)" by simp
qed (simp add: canManageMembership_def)

text \<open>
  The membership is read before the organization is locked, while the version is checked after: with
  a version the client expects for the near future, a change based on the stale role removes the
  last owner.
\<close>

theorem stale_read_demotes_last_owner:
  fixes db :: team_db
  defines "before \<equiv> membership ''m2'' ''admin'' ''acme'' ADMIN"
  defines "after \<equiv> before\<lparr>me_organizationRole := OWNER, me_version := 2\<rparr>"
  defines "db \<equiv> acme\<lparr>t_memberships := [after]\<rparr>"
  shows "activeOwnerCount ''acme'' db = 1"
    "\<exists>v db'. role_transaction ((demote_admin ''lead'' MANAGER)\<lparr>mr_expectedVersion := 2\<rparr>) ''acme'' MANAGER
       before db = (Inr v, db') \<and> activeOwnerCount ''acme'' db' = 0"
  by (simp_all add: db_def after_def before_def membership_def activeOwnerCount_def acme_def
      active_member_owner_def count_where_Cons role_transaction_def evaluateRoleAssignment_def
      role_assignment_of_def demote_admin_def organization_role_of_def role_guard_def
      revokeTargetSessions_def set_role_def table_simps Let_def)

text \<open>An owner who accepts an older invitation loses the owner role, the last owner included.\<close>

theorem accepting_owner_is_demoted:
  "\<exists>v db'. acceptCompanyInvitation id id accept_new
     (invited\<lparr>t_memberships := [membership ''m5'' ''new'' ''acme'' OWNER]\<rparr>) = (Inr v, db') \<and>
     activeOwnerCount ''acme'' db' = 0"
proof -
  have "s_userId ((colleague ''new'' MEMBER)\<lparr>s_companyId := None\<rparr>) = ''new''"
    "s_email ((colleague ''new'' MEMBER)\<lparr>s_companyId := None\<rparr>) = ''new@acme.test''"
    by (simp_all add: colleague_def)
  then show ?thesis
    by (simp add: acceptCompanyInvitation_def accept_new_def invited_def acme_def new_email
        team_account_def membership_def membership_key_def in_transaction_def accept_transaction_def
        open_invitation_def table_simps Let_def accept_membership_def activeOwnerCount_def
        active_member_owner_def)
qed

end
