(* ===== verification/LeaseQueue.thy ===== *)
theory LeaseQueue
  imports Prelude
begin

text \<open>
  The contract the job queues share (\<open>DocumentProcessingQueue\<close> and \<open>EmbeddingJobQueue\<close>): what a
  queue promises about a job, its lease and its fencing token, whatever stores it. A queue is
  seen as a map from job identifiers to the jobs it holds; every operation is one step of the
  relation \<open>lease_step\<close>, labelled by what it did. The locale \<open>lease_queue\<close> is the refinement
  obligation of an implementation; the fencing and exclusivity theorems are proved once, for every
  run of operations of every implementation, and interpreted for the file queue
  (\<open>LocalQueue\<close>), the Redis queue (\<open>RedisQueue\<close>) and the PostgreSQL queue (\<open>PostgresQueue\<close>).
\<close>

section \<open>Jobs, leases and events\<close>

record job_view =
  v_document :: string
  v_available :: ms
  v_attempts :: int
  v_token :: int
  v_lease :: "(string \<times> ms) option"

type_synonym lease_view = "string \<Rightarrow> job_view option"

text \<open>
  \<open>Claimed j w n\<close>: worker \<open>w\<close> got job \<open>j\<close> under token \<open>n\<close>. The next four are accepted uses of a
  lease: a renewal, an ownership check, an acknowledgement and a release.
\<close>

datatype lease_event =
    Enqueued string
  | Claimed string string int
  | Renewed string string int
  | Checked string string int
  | Acknowledged string string int
  | Released string string int
  | Removed string
  | Idle

fun lease_use :: "lease_event \<Rightarrow> (string \<times> string \<times> int) option" where
  "lease_use (Renewed j w n) = Some (j, w, n)"
| "lease_use (Checked j w n) = Some (j, w, n)"
| "lease_use (Acknowledged j w n) = Some (j, w, n)"
| "lease_use (Released j w n) = Some (j, w, n)"
| "lease_use _ = None"

fun claim_of :: "lease_event \<Rightarrow> (string \<times> string \<times> int) option" where
  "claim_of (Claimed j w n) = Some (j, w, n)"
| "claim_of _ = None"

definition new_job :: "job_view \<Rightarrow> bool" where
  "new_job x \<longleftrightarrow> v_token x = 0 \<and> v_attempts x = 0 \<and> v_lease x = None"

text \<open>A job may be claimed when it is free and due, or when the lease on it has run out.\<close>

definition claimable_at :: "ms \<Rightarrow> job_view \<Rightarrow> bool" where
  "claimable_at t x \<longleftrightarrow>
     (case v_lease x of None \<Rightarrow> v_available x \<le> t | Some (w, until) \<Rightarrow> until \<le> t)"

definition held_by :: "string \<Rightarrow> int \<Rightarrow> job_view \<Rightarrow> bool" where
  "held_by w n x \<longleftrightarrow> v_token x = n \<and> (\<exists>until. v_lease x = Some (w, until))"

definition alive_at :: "ms \<Rightarrow> job_view \<Rightarrow> bool" where
  "alive_at t x \<longleftrightarrow> (\<exists>w until. v_lease x = Some (w, until) \<and> t < until)"

inductive lease_step :: "ms \<Rightarrow> lease_event \<Rightarrow> lease_view \<Rightarrow> lease_view \<Rightarrow> bool" where
  enqueue: "V j = None \<Longrightarrow> new_job x \<Longrightarrow> lease_step t (Enqueued j) V (V(j \<mapsto> x))"
| claim: "V j = Some x \<Longrightarrow> claimable_at t x \<Longrightarrow> t < until \<Longrightarrow>
    x' = x\<lparr>v_attempts := v_attempts x + 1, v_token := v_token x + 1, v_lease := Some (w, until)\<rparr> \<Longrightarrow>
    lease_step t (Claimed j w (v_token x + 1)) V (V(j \<mapsto> x'))"
| renew: "V j = Some x \<Longrightarrow> held_by w n x \<Longrightarrow> alive_at t x \<Longrightarrow>
    lease_step t (Renewed j w n) V (V(j \<mapsto> x\<lparr>v_lease := Some (w, until)\<rparr>))"
| check: "V j = Some x \<Longrightarrow> held_by w n x \<Longrightarrow> alive_at t x \<Longrightarrow> lease_step t (Checked j w n) V V"
| acknowledge: "V j = Some x \<Longrightarrow> held_by w n x \<Longrightarrow>
    lease_step t (Acknowledged j w n) V (V(j := None))"
| release: "V j = Some x \<Longrightarrow> held_by w n x \<Longrightarrow>
    lease_step t (Released j w n) V (V(j \<mapsto> x\<lparr>v_lease := None, v_available := a\<rparr>))"
| remove: "lease_step t (Removed j) V (V(j := None))"
| idle: "lease_step t Idle V V"

inductive_simps lease_step_simps:
  "lease_step t (Enqueued j) V V'"
  "lease_step t (Claimed j w n) V V'"
  "lease_step t (Renewed j w n) V V'"
  "lease_step t (Checked j w n) V V'"
  "lease_step t (Acknowledged j w n) V V'"
  "lease_step t (Released j w n) V V'"
  "lease_step t (Removed j) V V'"
  "lease_step t Idle V V'"

fun lease_run :: "(ms \<times> lease_event) list \<Rightarrow> lease_view \<Rightarrow> lease_view \<Rightarrow> bool" where
  "lease_run [] V V' = (V' = V)"
| "lease_run ((t, e) # es) V V' = (\<exists>V1. lease_step t e V V1 \<and> lease_run es V1 V')"

section \<open>Fencing\<close>

text \<open>
  \<open>fenced j n w V\<close>: what holds of job \<open>j\<close> from the moment worker \<open>w\<close> is given token \<open>n\<close>: the token
  never falls below \<open>n\<close>, and only \<open>w\<close> holds it under token \<open>n\<close>.
\<close>

definition fenced :: "string \<Rightarrow> int \<Rightarrow> string \<Rightarrow> lease_view \<Rightarrow> bool" where
  "fenced j n w V \<longleftrightarrow> (\<forall>x. V j = Some x \<longrightarrow>
     n \<le> v_token x \<and> (v_token x = n \<longrightarrow> (\<forall>w' until. v_lease x = Some (w', until) \<longrightarrow> w' = w)))"

lemma step_fenced:
  assumes "lease_step t e V V'" "fenced j n w V" "e \<noteq> Enqueued j"
  shows "fenced j n w V'"
  using assms by (cases rule: lease_step.cases) (auto simp: fenced_def held_by_def)

lemma run_fenced:
  "lease_run es V V' \<Longrightarrow> fenced j n w V \<Longrightarrow> Enqueued j \<notin> snd ` set es \<Longrightarrow> fenced j n w V'"
  by (induction es arbitrary: V) (auto, metis step_fenced)

lemma claim_fenced: "lease_step t (Claimed j w n) V V' \<Longrightarrow> fenced j n w V'"
  by (auto simp: lease_step_simps fenced_def)

lemma use_held:
  "lease_step t e V V' \<Longrightarrow> lease_use e = Some (j, w, n) \<Longrightarrow>
     \<exists>x until. V j = Some x \<and> v_token x = n \<and> v_lease x = Some (w, until)"
  by (cases rule: lease_step.cases) (auto simp: held_by_def)

lemma fenced_use:
  "fenced j n w V \<Longrightarrow> lease_step t e V V' \<Longrightarrow> lease_use e = Some (j, w', m) \<Longrightarrow>
     n \<le> m \<and> (m = n \<longrightarrow> w' = w)"
  by (drule (1) use_held) (auto simp: fenced_def)

lemma fenced_claim:
  "fenced j n w V \<Longrightarrow> lease_step t (Claimed j w' m) V V' \<Longrightarrow> n < m"
  by (auto simp: lease_step_simps fenced_def)

lemma run_split:
  "lease_run (es @ (t, e) # es') V V' \<longleftrightarrow>
     (\<exists>V1 V2. lease_run es V V1 \<and> lease_step t e V1 V2 \<and> lease_run es' V2 V')"
  by (induction es arbitrary: V) (auto, blast+)

lemma run_claims_larger:
  assumes "lease_run es V V'" "fenced j n w V" "Enqueued j \<notin> snd ` set es"
    and "(t, Claimed j w' m) \<in> set es"
  shows "n < m \<and> fenced j m w' V'"
proof -
  obtain es1 es2 where es: "es = es1 @ (t, Claimed j w' m) # es2"
    using assms(4) by (meson split_list)
  obtain V1 V2 where run: "lease_run es1 V V1" "lease_step t (Claimed j w' m) V1 V2"
      "lease_run es2 V2 V'"
    using assms(1) by (auto simp: es run_split)
  have "fenced j n w V1" using run_fenced [OF run(1) assms(2)] assms(3) by (auto simp: es)
  then have "n < m" using run(2) by (rule fenced_claim)
  moreover have "fenced j m w' V'"
    using run_fenced [OF run(3) claim_fenced [OF run(2)]] assms(3) by (auto simp: es)
  ultimately show ?thesis ..
qed

text \<open>
  The fencing theorem on traces: after a claim of \<open>j\<close> by \<open>w\<close> under \<open>n\<close>, a later use of the lease
  carries at least \<open>n\<close>; if it carries exactly \<open>n\<close> the user is \<open>w\<close> and nobody claimed \<open>j\<close> since.
\<close>

lemma trace_fencing:
  assumes claim: "lease_step t (Claimed j w n) V V1" and run: "lease_run es V1 V2"
    and use: "lease_step t' e V2 V3" "lease_use e = Some (j, w', m)"
    and once: "Enqueued j \<notin> snd ` set es"
  shows "n \<le> m \<and> (m = n \<longrightarrow> w' = w \<and> (\<forall>(s, f) \<in> set es. \<forall>v k. f \<noteq> Claimed j v k))"
proof -
  note start = claim_fenced [OF claim]
  have "n \<le> m \<and> (m = n \<longrightarrow> w' = w)"
    using fenced_use [OF run_fenced [OF run start once] use] .
  moreover have "n < m" if "(s, Claimed j v k) \<in> set es" for s v k
    using run_claims_larger [OF run start once that] fenced_use [OF _ use] by fastforce
  ultimately show ?thesis by fastforce
qed

text \<open>No token is granted twice for the same job.\<close>

lemma trace_claims:
  assumes "lease_step t (Claimed j w n) V V1" "lease_run es V1 V2"
    and "Enqueued j \<notin> snd ` set es" "(s, Claimed j v k) \<in> set es"
  shows "n < k"
  using run_claims_larger [OF assms(2) claim_fenced [OF assms(1)] assms(3,4)] by blast

section \<open>Exclusivity of a live lease\<close>

text \<open>The events that end the lease a claim has given on \<open>j\<close>.\<close>

fun ends_lease :: "string \<Rightarrow> lease_event \<Rightarrow> bool" where
  "ends_lease j (Acknowledged i w n) = (i = j)"
| "ends_lease j (Released i w n) = (i = j)"
| "ends_lease j (Renewed i w n) = (i = j)"
| "ends_lease j (Removed i) = (i = j)"
| "ends_lease j _ = False"

definition leased_until :: "string \<Rightarrow> ms \<Rightarrow> lease_view \<Rightarrow> bool" where
  "leased_until j until V \<longleftrightarrow> (\<exists>x w. V j = Some x \<and> v_lease x = Some (w, until))"

lemma step_leased:
  assumes "lease_step t e V V'" "leased_until j until V" "t < until" "\<not> ends_lease j e"
  shows "leased_until j until V'"
  using assms by (cases rule: lease_step.cases) (auto simp: leased_until_def claimable_at_def)

lemma leased_no_claim:
  "lease_step t (Claimed j w n) V V' \<Longrightarrow> leased_until j until V \<Longrightarrow> until \<le> t"
  by (auto simp: lease_step_simps leased_until_def claimable_at_def)

lemma run_exclusive:
  assumes "lease_run es V V'" "leased_until j until V"
    and "\<forall>(t, e) \<in> set es. t < until \<and> \<not> ends_lease j e"
  shows "\<forall>(t, e) \<in> set es. claim_of e = None \<or> fst (the (claim_of e)) \<noteq> j"
  using assms
proof (induction es arbitrary: V)
  case Nil
  then show ?case by simp
next
  case (Cons te es)
  obtain t e where te: "te = (t, e)" by (cases te)
  from Cons.prems(1) obtain V1 where step: "lease_step t e V V1" and run: "lease_run es V1 V'"
    by (auto simp: te)
  have "leased_until j until V1"
    using step_leased [OF step Cons.prems(2)] Cons.prems(3) by (simp add: te)
  moreover have "claim_of e = None \<or> fst (the (claim_of e)) \<noteq> j"
    using leased_no_claim [of t j _ _ V V1 until] step Cons.prems(2,3)
    by (cases e) (auto simp: te)
  ultimately show ?case using Cons.IH [OF run] Cons.prems(3) by (auto simp: te)
qed

section \<open>The contract of an implementation\<close>

text \<open>Runs of operations, the events they produce, and the freshness of every input on the way.\<close>

primrec queue_run :: "('op \<Rightarrow> 'q \<Rightarrow> 'q) \<Rightarrow> 'op list \<Rightarrow> 'q \<Rightarrow> 'q" where
  "queue_run step [] q = q"
| "queue_run step (op # ops) q = queue_run step ops (step op q)"

primrec queue_trace ::
  "('op \<Rightarrow> ms) \<Rightarrow> ('op \<Rightarrow> 'q \<Rightarrow> lease_event) \<Rightarrow> ('op \<Rightarrow> 'q \<Rightarrow> 'q) \<Rightarrow> 'op list \<Rightarrow> 'q \<Rightarrow>
     (ms \<times> lease_event) list" where
  "queue_trace clock event step [] q = []"
| "queue_trace clock event step (op # ops) q =
     (clock op, event op q) # queue_trace clock event step ops (step op q)"

primrec fresh_run :: "('op \<Rightarrow> 'q \<Rightarrow> bool) \<Rightarrow> ('op \<Rightarrow> 'q \<Rightarrow> 'q) \<Rightarrow> 'op list \<Rightarrow> 'q \<Rightarrow> bool" where
  "fresh_run fresh step [] q = True"
| "fresh_run fresh step (op # ops) q = (fresh op q \<and> fresh_run fresh step ops (step op q))"

text \<open>
  \<open>ok\<close> is the implementation's invariant, \<open>fresh\<close> what it needs of an operation's inputs (the
  identifier drawn for a new job is unused), \<open>event\<close> what an operation does in a state.
\<close>

locale lease_queue =
  fixes ok :: "'q \<Rightarrow> bool"
    and fresh :: "'op \<Rightarrow> 'q \<Rightarrow> bool"
    and view :: "'q \<Rightarrow> lease_view"
    and clock :: "'op \<Rightarrow> ms"
    and event :: "'op \<Rightarrow> 'q \<Rightarrow> lease_event"
    and step :: "'op \<Rightarrow> 'q \<Rightarrow> 'q"
  assumes step_ok: "ok q \<Longrightarrow> fresh op q \<Longrightarrow> ok (step op q)"
    and step_refines: "ok q \<Longrightarrow> fresh op q \<Longrightarrow>
      lease_step (clock op) (event op q) (view q) (view (step op q))"
begin

lemma run_ok: "ok q \<Longrightarrow> fresh_run fresh step ops q \<Longrightarrow> ok (queue_run step ops q)"
  by (induction ops arbitrary: q) (auto intro: step_ok)

lemma run_refines:
  "ok q \<Longrightarrow> fresh_run fresh step ops q \<Longrightarrow> lease_run (queue_trace clock event step ops q) (view q) (view (queue_run step ops q))"
  by (induction ops arbitrary: q) (auto intro: step_ok step_refines)

lemma fencing:
  assumes ok: "ok q" and claim: "fresh op q" "event op q = Claimed j w n"
    and run: "fresh_run fresh step ops (step op q)" "Enqueued j \<notin> snd ` set (queue_trace clock event step ops (step op q))"
    and use: "fresh op' (queue_run step ops (step op q))"
      "lease_use (event op' (queue_run step ops (step op q))) = Some (j, w', m)"
  shows "n \<le> m \<and> (m = n \<longrightarrow> w' = w \<and>
    (\<forall>(s, f) \<in> set (queue_trace clock event step ops (step op q)). \<forall>v k. f \<noteq> Claimed j v k))"
proof -
  have ok1: "ok (step op q)" using ok claim(1) by (rule step_ok)
  from step_refines [OF ok claim(1)] claim(2)
  have "lease_step (clock op) (Claimed j w n) (view q) (view (step op q))" by simp
  from trace_fencing [OF this run_refines [OF ok1 run(1)]
      step_refines [OF run_ok [OF ok1 run(1)] use(1)] use(2) run(2)]
  show ?thesis .
qed

lemma claims_increase:
  assumes ok: "ok q" and claim: "fresh op q" "event op q = Claimed j w n"
    and run: "fresh_run fresh step ops (step op q)" "Enqueued j \<notin> snd ` set (queue_trace clock event step ops (step op q))"
    and later: "(s, Claimed j v k) \<in> set (queue_trace clock event step ops (step op q))"
  shows "n < k"
proof -
  from step_refines [OF ok claim(1)] claim(2)
  have "lease_step (clock op) (Claimed j w n) (view q) (view (step op q))" by simp
  then show ?thesis
    using run_refines [OF step_ok [OF ok claim(1)] run(1)] run(2) later by (rule trace_claims)
qed

lemma exclusive:
  assumes ok: "ok q" and lease: "leased_until j until (view q)" and run: "fresh_run fresh step ops q"
    and within: "\<forall>(t, e) \<in> set (queue_trace clock event step ops q). t < until \<and> \<not> ends_lease j e"
  shows "\<forall>(t, e) \<in> set (queue_trace clock event step ops q). claim_of e = None \<or> fst (the (claim_of e)) \<noteq> j"
  using run_exclusive [OF run_refines [OF ok run] lease within] .

end

end
