(* ===== verification/DocumentModel.thy ===== *)
theory DocumentModel
  imports Sessions
begin

text \<open>
  The vocabulary of the document pipeline: tenants and safe path segments
  (\<open>lib/document-storage.ts\<close>, \<open>lib/document-model.ts\<close>), the processing states and their
  transitions (\<open>lib/document-processing-state.ts\<close>), the classification of processing failures
  (\<open>lib/document-processing-errors.ts\<close>) and the retry policy (\<open>lib/document-retry-policy.ts\<close>).
\<close>

section \<open>Errors\<close>

text \<open>The messages of the errors thrown, one constructor per message.\<close>

datatype document_error =
    UNSAFE_SEGMENT string
  | TENANT_CONTEXT_REQUIRED
  | POSITIVE_INTEGER_REQUIRED string
  | RETRY_DELAYS_INVERTED
  | INVALID_TIME_VALUE
  | INVALID_DATE string
  | UNSUPPORTED_STATUS
  | INVALID_STATUS_TRANSITION
  | JOB_VERSION_UNSUPPORTED
  | JOB_ATTEMPTS_INVALID
  | JOB_TOKEN_INVALID
  | JOB_STATE_INVALID
  | QUEUE_FILE_SYNTAX
  | LEASE_DURATION_INVALID
  | LEASE_TOKEN_INVALID
  | LEASE_TOKEN_REQUIRED
  | JOB_NOT_FOUND
  | JOB_NOT_CLAIMED_BY_WORKER
  | LEASE_EXPIRED
  | STALE_LEASE
  | REDIS_RESPONSE_INVALID
  | REDIS_SCRIPT_ERROR
  | QUEUE_UNAVAILABLE
  | JOB_NOT_ENQUEUED
  | JOB_UNIQUE_VIOLATION
  | DOCUMENT_FOREIGN_KEY_VIOLATION
  | INTEGER_OUT_OF_RANGE
  | VALUE_TOO_LONG
  | METADATA_UNIQUE_VIOLATION
  | TEXT_REQUIRED string
  | NUMBER_INVALID string
  | FORMAT_INVALID string
  | MESSAGE_TOO_LONG
  | DELETED_STATUS_MISMATCH
  | CONFIDENCE_INVALID
  | METADATA_FILE_SYNTAX
  | CHECKSUM_VERIFICATION_FAILED
  | OBJECT_STORE_ERROR string
  | METADATA_EXISTS
  | METADATA_UNAVAILABLE

text \<open>
  A date text, as \<open>toISOString\<close> prints it, is the instant it parses to; \<open>None\<close> stands for a text
  that \<open>new Date\<close> cannot read.
\<close>

type_synonym date_text = "ms option"

section \<open>Tenants and path segments\<close>

record document_tenant =
  dt_companyId :: string
  dt_userId :: string

text \<open>
  \<open>^[a-zA-Z0-9][a-zA-Z0-9._-]{0,199}$\<close>; the empty string and the two dot names fail the expression
  already, as the source's extra tests do.
\<close>

definition safe_segment :: "string \<Rightarrow> bool" where
  "safe_segment value \<longleftrightarrow>
     value \<noteq> [] \<and> value \<noteq> ''.'' \<and> value \<noteq> ''..'' \<and>
     matches is_alnum (\<lambda>c. is_alnum c \<or> contains ''._-'' c) 0 199 value"

definition assertSafeDocumentSegment :: "string \<Rightarrow> string \<Rightarrow> document_error option" where
  "assertSafeDocumentSegment value label = demand (safe_segment value) (UNSAFE_SEGMENT label)"

definition assertDocumentTenantContext :: "document_tenant option \<Rightarrow> document_error option" where
  "assertDocumentTenantContext tenant =
     (case tenant of
        None \<Rightarrow> Some TENANT_CONTEXT_REQUIRED
      | Some t \<Rightarrow> first_error
          [assertSafeDocumentSegment (dt_companyId t) ''companyId'',
           assertSafeDocumentSegment (dt_userId t) ''userId''])"

definition AVANTIME_DOCUMENT_COMPANY_ID :: string where
  "AVANTIME_DOCUMENT_COMPANY_ID = ''avantime''"

definition getDocumentTenantContext :: "app_session \<Rightarrow> document_tenant" where
  "getDocumentTenantContext session =
     (let companyId = (case s_companyId session of None \<Rightarrow> None | Some c \<Rightarrow> Some (trim c)) in
      \<lparr>dt_companyId = (if truthy companyId then the companyId else AVANTIME_DOCUMENT_COMPANY_ID),
       dt_userId = s_userId session\<rparr>)"

text \<open>A safe segment cannot leave its directory: it holds no separator and is no dot name.\<close>

lemma safe_segment_no_separator:
  "safe_segment s \<Longrightarrow> CHR ''/'' \<notin> set s \<and> CHR 0x5C \<notin> set s \<and> CHR 0x00 \<notin> set s \<and> s \<noteq> ''.'' \<and> s \<noteq> ''..''"
  by (auto simp: safe_segment_def char_class_defs dest: matches_chars)

section \<open>Processing states\<close>

datatype document_status =
    UPLOADED | QUEUED | PROCESSING | COMPLETED | FAILED | QUARANTINED | DELETED

definition DOCUMENT_PROCESSING_STATUSES :: "(string \<times> document_status) list" where
  "DOCUMENT_PROCESSING_STATUSES =
     [(''UPLOADED'', UPLOADED), (''QUEUED'', QUEUED), (''PROCESSING'', PROCESSING),
      (''COMPLETED'', COMPLETED), (''FAILED'', FAILED), (''QUARANTINED'', QUARANTINED),
      (''DELETED'', DELETED)]"

fun ALLOWED_TRANSITIONS :: "document_status \<Rightarrow> document_status list" where
  "ALLOWED_TRANSITIONS UPLOADED = [QUEUED, FAILED, QUARANTINED, DELETED]"
| "ALLOWED_TRANSITIONS QUEUED = [PROCESSING, FAILED, QUARANTINED, DELETED]"
| "ALLOWED_TRANSITIONS PROCESSING = [PROCESSING, QUEUED, COMPLETED, FAILED, QUARANTINED, DELETED]"
| "ALLOWED_TRANSITIONS COMPLETED = [QUEUED, DELETED]"
| "ALLOWED_TRANSITIONS FAILED = [QUEUED, QUARANTINED, DELETED]"
| "ALLOWED_TRANSITIONS QUARANTINED = [QUEUED, COMPLETED, FAILED, DELETED]"
| "ALLOWED_TRANSITIONS DELETED = []"

definition isDocumentProcessingStatus :: "string \<Rightarrow> bool" where
  "isDocumentProcessingStatus value \<longleftrightarrow> contains (map fst DOCUMENT_PROCESSING_STATUSES) value"

definition assertDocumentProcessingStatus :: "string \<Rightarrow> document_error option" where
  "assertDocumentProcessingStatus value = demand (isDocumentProcessingStatus value) UNSUPPORTED_STATUS"

definition assertDocumentStatusTransition ::
  "document_status \<Rightarrow> document_status \<Rightarrow> document_error option" where
  "assertDocumentStatusTransition current next_status =
     (if current = next_status then None
      else if \<not> contains (ALLOWED_TRANSITIONS current) next_status then Some INVALID_STATUS_TRANSITION
      else None)"

definition canTransitionDocumentStatus :: "document_status \<Rightarrow> document_status \<Rightarrow> bool" where
  "canTransitionDocumentStatus current next_status \<longleftrightarrow>
     assertDocumentStatusTransition current next_status = None"

text \<open>Nothing leaves \<open>DELETED\<close>, and everything else may be queued again or deleted.\<close>

lemma deleted_is_final: "(canTransitionDocumentStatus)\<^sup>*\<^sup>* DELETED s \<Longrightarrow> s = DELETED"
  by (induction rule: rtranclp_induct)
    (auto simp: canTransitionDocumentStatus_def assertDocumentStatusTransition_def split: if_splits)

section \<open>Classification of failures\<close>

text \<open>The user-facing texts, by what they say; a \<open>DocumentProcessingError\<close> carries its own.\<close>

datatype safe_message =
    SafeText string
  | IntegrityViolated
  | DamagedOrUnsupported
  | StorageTemporarilyFailing
  | ProcessingTemporarilyFailing
  | OriginalNotFound
  | StateChangedMeanwhile
  | NotQueued
  | MarkedUnprocessable
  | NotProcessed

record error_classification =
  ec_code :: string
  ec_retryable :: bool
  ec_safeMessage :: safe_message

text \<open>
  What was thrown: the pipeline's own error, any other \<open>Error\<close> with its optional \<open>code\<close>, HTTP
  status of its metadata and message, or a value that is no \<open>Error\<close>.
\<close>

datatype thrown =
    ProcessingError string bool safe_message
  | OtherError "string option" "int option" string
  | NotAnError

definition TRANSIENT_ERROR_CODES :: "string list" where
  "TRANSIENT_ERROR_CODES =
     [''ECONNRESET'', ''ECONNREFUSED'', ''EHOSTUNREACH'', ''ENETUNREACH'', ''ETIMEDOUT'',
      ''EAI_AGAIN'', ''THROTTLING'', ''SERVICE_UNAVAILABLE'']"

text \<open>\<open>toUpperCase\<close> on the ASCII letters, which is what error codes are made of.\<close>

definition upper_char :: "char \<Rightarrow> char" where
  "upper_char c = (if is_lower_case c then char_of (code c - 32) else c)"

definition to_upper :: "string \<Rightarrow> string" where
  "to_upper s = map upper_char s"

definition errorCode :: "string option \<Rightarrow> string" where
  "errorCode c = (case c of None \<Rightarrow> [] | Some s \<Rightarrow> to_upper s)"

definition classifyDocumentProcessingError :: "thrown \<Rightarrow> error_classification" where
  "classifyDocumentProcessingError error =
     (case error of
        ProcessingError c retryable message \<Rightarrow>
          \<lparr>ec_code = c, ec_retryable = retryable, ec_safeMessage = message\<rparr>
      | NotAnError \<Rightarrow>
          \<lparr>ec_code = ''INTERNAL_PROCESSING_ERROR'', ec_retryable = True,
           ec_safeMessage = ProcessingTemporarilyFailing\<rparr>
      | OtherError errCode status message \<Rightarrow>
          let c = errorCode errCode; normalizedMessage = to_lower message in
          if str_includes normalizedMessage ''checksum verification failed''
          then \<lparr>ec_code = ''CHECKSUM_MISMATCH'', ec_retryable = False,
                ec_safeMessage = IntegrityViolated\<rparr>
          else if str_includes normalizedMessage ''invalid pdf'' \<or>
                  str_includes normalizedMessage ''invalidpdf'' \<or>
                  str_includes normalizedMessage ''password'' \<or>
                  str_includes normalizedMessage ''unsupported document''
          then \<lparr>ec_code = ''INVALID_DOCUMENT'', ec_retryable = False,
                ec_safeMessage = DamagedOrUnsupported\<rparr>
          else if contains TRANSIENT_ERROR_CODES c \<or> status = Some 429 \<or>
                  (case status of None \<Rightarrow> False | Some n \<Rightarrow> n \<ge> 500)
          then \<lparr>ec_code = (if c \<noteq> [] then c else ''STORAGE_TEMPORARILY_UNAVAILABLE''),
                ec_retryable = True, ec_safeMessage = StorageTemporarilyFailing\<rparr>
          else \<lparr>ec_code = ''INTERNAL_PROCESSING_ERROR'', ec_retryable = True,
                ec_safeMessage = ProcessingTemporarilyFailing\<rparr>)"

section \<open>Retry policy\<close>

record retry_policy =
  rp_maxAttempts :: int
  rp_initialDelayMs :: int
  rp_maxDelayMs :: int

datatype retry_decision = Retry ms | Fail | Quarantine

definition DEFAULT_DOCUMENT_RETRY_POLICY :: retry_policy where
  "DEFAULT_DOCUMENT_RETRY_POLICY =
     \<lparr>rp_maxAttempts = 3, rp_initialDelayMs = 1000, rp_maxDelayMs = 60000\<rparr>"

definition assertPositiveInteger :: "int \<Rightarrow> string \<Rightarrow> document_error option" where
  "assertPositiveInteger value name =
     demand (safe_integer value \<and> 0 < value) (POSITIVE_INTEGER_REQUIRED name)"

definition validateDocumentRetryPolicy :: "retry_policy \<Rightarrow> document_error option" where
  "validateDocumentRetryPolicy policy = first_error
     [assertPositiveInteger (rp_maxAttempts policy) ''DOCUMENT_PROCESSING_MAX_ATTEMPTS'',
      assertPositiveInteger (rp_initialDelayMs policy) ''DOCUMENT_PROCESSING_INITIAL_RETRY_MS'',
      assertPositiveInteger (rp_maxDelayMs policy) ''DOCUMENT_PROCESSING_MAX_RETRY_MS'',
      demand (\<not> rp_maxDelayMs policy < rp_initialDelayMs policy) RETRY_DELAYS_INVERTED]"

text \<open>
  \<open>toISOString\<close> throws outside the range of a \<open>Date\<close>. The product of the delay with a power of two
  is exact in floating point, and the minimum with a safe integer is an integer.
\<close>

definition date_range :: "ms \<Rightarrow> bool" where
  "date_range t \<longleftrightarrow> \<bar>t\<bar> \<le> 8640000000000000"

definition retry_delay :: "retry_policy \<Rightarrow> int \<Rightarrow> int" where
  "retry_delay policy attempts =
     min (rp_initialDelayMs policy * 2 ^ nat (max 0 (attempts - 1))) (rp_maxDelayMs policy)"

definition decideDocumentRetry ::
  "int \<Rightarrow> error_classification \<Rightarrow> retry_policy \<Rightarrow> ms \<Rightarrow> document_error + retry_decision" where
  "decideDocumentRetry attempts error policy now =
     (case first_error [validateDocumentRetryPolicy policy,
                        assertPositiveInteger attempts ''processingAttempts''] of
        Some e \<Rightarrow> Inl e
      | None \<Rightarrow>
          if \<not> ec_retryable error then Inr Fail
          else if attempts \<ge> rp_maxAttempts policy then Inr Quarantine
          else
            let nextRetryAt = now + retry_delay policy attempts in
            if date_range nextRetryAt then Inr (Retry nextRetryAt) else Inl INVALID_TIME_VALUE)"

lemma retry_delay_bounds:
  assumes "validateDocumentRetryPolicy policy = None"
  shows "rp_initialDelayMs policy \<le> retry_delay policy attempts"
    and "retry_delay policy attempts \<le> rp_maxDelayMs policy" and "0 < retry_delay policy attempts"
proof -
  have pos: "0 < rp_initialDelayMs policy" "rp_initialDelayMs policy \<le> rp_maxDelayMs policy"
    using assms by (auto simp: validateDocumentRetryPolicy_def assertPositiveInteger_def)
  have "rp_initialDelayMs policy * 1 \<le> rp_initialDelayMs policy * 2 ^ nat (max 0 (attempts - 1))"
    using pos by (intro mult_left_mono) auto
  with pos show "rp_initialDelayMs policy \<le> retry_delay policy attempts"
    "retry_delay policy attempts \<le> rp_maxDelayMs policy" "0 < retry_delay policy attempts"
    by (auto simp: retry_delay_def)
qed

lemma retry_delay_mono:
  assumes "validateDocumentRetryPolicy policy = None" "m \<le> n"
  shows "retry_delay policy m \<le> retry_delay policy n"
proof -
  have "0 < rp_initialDelayMs policy"
    using assms(1) by (auto simp: validateDocumentRetryPolicy_def assertPositiveInteger_def)
  moreover have "(2::int) ^ nat (max 0 (m - 1)) \<le> 2 ^ nat (max 0 (n - 1))"
    using assms(2) by (intro power_increasing) auto
  ultimately show ?thesis
    unfolding retry_delay_def by (intro min.mono mult_left_mono) auto
qed

text \<open>
  Retries are bounded: for a valid policy and attempt number, a retryable failure is retried
  exactly while the attempts are below the maximum, at a delay that starts at the initial one,
  doubles with every attempt until the ceiling cuts it, never leaves the two bounds and never
  shrinks; a failure that is not retryable fails at once, and an exhausted one is quarantined.
\<close>

theorem retry_decision_bounded:
  assumes valid: "validateDocumentRetryPolicy policy = None"
    and attempts: "safe_integer attempts" "0 < attempts"
    and now: "date_range (now + rp_maxDelayMs policy)" "0 \<le> now"
  shows "decideDocumentRetry attempts error policy now =
      Inr (if \<not> ec_retryable error then Fail
           else if rp_maxAttempts policy \<le> attempts then Quarantine
           else Retry (now + retry_delay policy attempts)) \<and>
    retry_delay policy 1 = rp_initialDelayMs policy \<and>
    retry_delay policy (attempts + 1) =
      min (2 * retry_delay policy attempts) (rp_maxDelayMs policy) \<and>
    rp_initialDelayMs policy \<le> retry_delay policy attempts \<and>
    retry_delay policy attempts \<le> rp_maxDelayMs policy"
proof (intro conjI)
  note b = retry_delay_bounds [OF valid, of attempts]
  show "decideDocumentRetry attempts error policy now =
      Inr (if \<not> ec_retryable error then Fail
           else if rp_maxAttempts policy \<le> attempts then Quarantine
           else Retry (now + retry_delay policy attempts))"
    using assms b
    by (auto simp: decideDocumentRetry_def assertPositiveInteger_def date_range_def Let_def)
  have init: "0 < rp_initialDelayMs policy" "rp_initialDelayMs policy \<le> rp_maxDelayMs policy"
    using valid by (auto simp: validateDocumentRetryPolicy_def assertPositiveInteger_def)
  then show "retry_delay policy 1 = rp_initialDelayMs policy" by (simp add: retry_delay_def)
  have "nat (max 0 (attempts + 1 - 1)) = Suc (nat (max 0 (attempts - 1)))" using attempts by simp
  then show "retry_delay policy (attempts + 1) =
      min (2 * retry_delay policy attempts) (rp_maxDelayMs policy)"
    using init by (simp only: retry_delay_def power_Suc) (simp add: min_def)
  show "rp_initialDelayMs policy \<le> retry_delay policy attempts"
    "retry_delay policy attempts \<le> rp_maxDelayMs policy" using b by simp_all
qed

theorem retry_decision_bounded_witness:
  "decideDocumentRetry 2 (classifyDocumentProcessingError NotAnError) DEFAULT_DOCUMENT_RETRY_POLICY
     1000000 = Inr (Retry 1002000)"
proof -
  have "validateDocumentRetryPolicy DEFAULT_DOCUMENT_RETRY_POLICY = None" by code_simp
  moreover have "date_range (1000000 + rp_maxDelayMs DEFAULT_DOCUMENT_RETRY_POLICY)" by code_simp
  ultimately show ?thesis
    using retry_decision_bounded [of DEFAULT_DOCUMENT_RETRY_POLICY 2 1000000
        "classifyDocumentProcessingError NotAnError"]
    by (simp add: safe_integer_def classifyDocumentProcessingError_def retry_delay_def
        DEFAULT_DOCUMENT_RETRY_POLICY_def)
qed

end
