(* ===== verification/LocalQueue.thy ===== *)
theory LocalQueue
  imports LeaseQueue DocumentModel
begin

text \<open>
  The file-backed queues: \<open>LocalDocumentProcessingQueue\<close> (\<open>lib/document-processing-queue.ts\<close>) and
  \<open>LocalEmbeddingJobQueue\<close> (\<open>lib/embedding-queue.ts\<close>), whose critical sections are the same text.
  A queue is a JSON file per tenant; \<open>withFileLock\<close> makes each critical section one atomic step on
  the file. A date text is the instant it parses to, or \<open>None\<close> when \<open>new Date\<close> cannot read it; the
  texts compared by \<open>localeCompare\<close> are those \<open>toISOString\<close> printed, whose order is that of their
  instants. Instants the code reads from the clock and identifiers it draws are arguments.
\<close>

section \<open>Stored jobs\<close>

record local_job =
  lj_id :: string
  lj_documentId :: string
  lj_version :: int
  lj_correlationId :: string
  lj_enqueuedAt :: date_text
  lj_availableAt :: date_text
  lj_attempts :: int
  lj_fencingToken :: int
  lj_state :: string
  lj_workerId :: "string option"
  lj_leaseExpiresAt :: "date_text option"

record public_job =
  pj_id :: string
  pj_documentId :: string
  pj_version :: int
  pj_correlationId :: string
  pj_enqueuedAt :: date_text
  pj_availableAt :: date_text
  pj_attempts :: int
  pj_fencingToken :: int
  pj_leaseExpiresAt :: "date_text option"

definition toPublicJob :: "local_job \<Rightarrow> public_job" where
  "toPublicJob job =
     \<lparr>pj_id = lj_id job, pj_documentId = lj_documentId job, pj_version = lj_version job,
      pj_correlationId = lj_correlationId job, pj_enqueuedAt = lj_enqueuedAt job,
      pj_availableAt = lj_availableAt job, pj_attempts = lj_attempts job,
      pj_fencingToken = lj_fencingToken job, pj_leaseExpiresAt = lj_leaseExpiresAt job\<rparr>"

definition parseDate :: "date_text \<Rightarrow> string \<Rightarrow> document_error option" where
  "parseDate value name = demand (value \<noteq> None) (INVALID_DATE name)"

text \<open>The two queues name the identifier differently in their messages: \<open>jobLabel\<close>.\<close>

definition validateStoredJob :: "string \<Rightarrow> local_job \<Rightarrow> document_error option" where
  "validateStoredJob jobLabel job = first_error
     [assertSafeDocumentSegment (lj_id job) jobLabel,
      assertSafeDocumentSegment (lj_documentId job) ''document id'',
      assertSafeDocumentSegment (lj_correlationId job) ''correlationId'',
      demand (lj_version job = 1) JOB_VERSION_UNSUPPORTED,
      parseDate (lj_enqueuedAt job) ''enqueuedAt'',
      parseDate (lj_availableAt job) ''availableAt'',
      demand (safe_integer (lj_attempts job) \<and> 0 \<le> lj_attempts job) JOB_ATTEMPTS_INVALID,
      demand (safe_integer (lj_fencingToken job) \<and> 0 \<le> lj_fencingToken job) JOB_TOKEN_INVALID,
      demand (lj_state job = ''QUEUED'' \<or> lj_state job = ''CLAIMED'') JOB_STATE_INVALID,
      (if truthy (lj_workerId job)
       then assertSafeDocumentSegment (the (lj_workerId job)) ''workerId'' else None),
      (case lj_leaseExpiresAt job of None \<Rightarrow> None | Some d \<Rightarrow> parseDate d ''leaseExpiresAt'')]"

section \<open>The queue file\<close>

datatype queue_file = NotJson | NotAnArray | Jobs "local_job list"

type_synonym queue_files = "string \<Rightarrow> queue_file option"

definition queueFile :: "document_tenant \<Rightarrow> string" where
  "queueFile tenant = ''document-tenants/'' @ dt_companyId tenant @ ''/processing-queue.json''"

text \<open>A missing file and a JSON value that is no array are an empty queue.\<close>

definition read_queue :: "string \<Rightarrow> queue_files \<Rightarrow> string \<Rightarrow> document_error + local_job list" where
  "read_queue jobLabel files filePath =
     (case files filePath of
        None \<Rightarrow> Inr []
      | Some NotJson \<Rightarrow> Inl QUEUE_FILE_SYNTAX
      | Some NotAnArray \<Rightarrow> Inr []
      | Some (Jobs jobs) \<Rightarrow>
          (case first_error (map (validateStoredJob jobLabel) jobs) of
             Some e \<Rightarrow> Inl e
           | None \<Rightarrow> Inr jobs))"

text \<open>
  The result of a critical section: an error, or a value with the jobs it writes back, if any.
  The new contents replace the file in one rename.
\<close>

type_synonym 'a section_result = "document_error + 'a \<times> local_job list option"

definition with_queue ::
  "string \<Rightarrow> queue_files \<Rightarrow> string \<Rightarrow> (local_job list \<Rightarrow> 'a section_result) \<Rightarrow>
     (document_error, 'a, queue_files) handled" where
  "with_queue jobLabel files filePath body =
     (case read_queue jobLabel files filePath of
        Inl e \<Rightarrow> (Inl e, files)
      | Inr jobs \<Rightarrow>
          (case body jobs of
             Inl e \<Rightarrow> (Inl e, files)
           | Inr (result, None) \<Rightarrow> (Inr result, files)
           | Inr (result, Some jobs') \<Rightarrow> (Inr result, files(filePath \<mapsto> Jobs jobs'))))"

section \<open>The critical sections\<close>

definition queued_job :: "string \<Rightarrow> string \<Rightarrow> string \<Rightarrow> ms \<Rightarrow> local_job" where
  "queued_job documentId newId newCorrelationId now =
     \<lparr>lj_id = newId, lj_documentId = documentId, lj_version = 1,
      lj_correlationId = newCorrelationId, lj_enqueuedAt = Some now, lj_availableAt = Some now,
      lj_attempts = 0, lj_fencingToken = 0, lj_state = ''QUEUED'', lj_workerId = None,
      lj_leaseExpiresAt = None\<rparr>"

definition enqueue_section ::
  "string \<Rightarrow> string \<Rightarrow> string \<Rightarrow> ms \<Rightarrow> local_job list \<Rightarrow> (public_job \<times> bool) section_result" where
  "enqueue_section documentId newId newCorrelationId now jobs =
     (case List.find (\<lambda>job. lj_documentId job = documentId) jobs of
        Some existing \<Rightarrow> Inr ((toPublicJob existing, False), None)
      | None \<Rightarrow>
          let job = queued_job documentId newId newCorrelationId now in
          Inr ((toPublicJob job, True), Some (jobs @ [job])))"

definition due :: "ms \<Rightarrow> date_text \<Rightarrow> bool" where
  "due now d \<longleftrightarrow> (case d of None \<Rightarrow> False | Some t \<Rightarrow> t \<le> now)"

definition claimable_job :: "ms \<Rightarrow> local_job \<Rightarrow> bool" where
  "claimable_job now job \<longleftrightarrow>
     due now (lj_availableAt job) \<and>
     (lj_state job = ''QUEUED'' \<or>
      (case lj_leaseExpiresAt job of None \<Rightarrow> False | Some d \<Rightarrow> due now d))"

text \<open>The array sort is stable: of the jobs enqueued first, the one stored first.\<close>

definition claimable_index :: "ms \<Rightarrow> local_job list \<Rightarrow> nat option" where
  "claimable_index now jobs =
     (case sort_key (\<lambda>i. the (lj_enqueuedAt (jobs ! i)))
             (filter (\<lambda>i. claimable_job now (jobs ! i)) [0..<length jobs]) of
        [] \<Rightarrow> None
      | i # _ \<Rightarrow> Some i)"

definition claimed_job :: "string \<Rightarrow> ms \<Rightarrow> local_job \<Rightarrow> local_job" where
  "claimed_job workerId until job =
     job\<lparr>lj_state := ''CLAIMED'', lj_workerId := Some workerId,
         lj_leaseExpiresAt := Some (Some until), lj_attempts := lj_attempts job + 1,
         lj_fencingToken := lj_fencingToken job + 1\<rparr>"

definition claim_section ::
  "string \<Rightarrow> ms \<Rightarrow> int \<Rightarrow> local_job list \<Rightarrow> public_job option section_result" where
  "claim_section workerId now leaseDurationMs jobs =
     (case claimable_index now jobs of
        None \<Rightarrow> Inr (None, None)
      | Some i \<Rightarrow>
          if \<not> date_range (now + leaseDurationMs) then Inl INVALID_TIME_VALUE
          else
            let job = claimed_job workerId (now + leaseDurationMs) (jobs ! i) in
            Inr (Some (toPublicJob job), Some (jobs[i := job])))"

definition job_index :: "string \<Rightarrow> local_job list \<Rightarrow> nat option" where
  "job_index jobId jobs = List.find (\<lambda>i. lj_id (jobs ! i) = jobId) [0..<length jobs]"

definition assertClaimOwner :: "local_job \<Rightarrow> string \<Rightarrow> int option \<Rightarrow> document_error option" where
  "assertClaimOwner job workerId fencingToken =
     demand (lj_state job = ''CLAIMED'' \<and> lj_workerId job = Some workerId \<and>
             (case fencingToken of None \<Rightarrow> True | Some n \<Rightarrow> lj_fencingToken job = n))
       JOB_NOT_CLAIMED_BY_WORKER"

definition assert_live :: "ms \<Rightarrow> local_job \<Rightarrow> document_error option" where
  "assert_live now job =
     demand (case lj_leaseExpiresAt job of None \<Rightarrow> False | Some d \<Rightarrow> \<not> due now d) LEASE_EXPIRED"

text \<open>The clock is read twice: for the test and for the new end of the lease.\<close>

definition renew_section ::
  "string \<Rightarrow> string \<Rightarrow> int \<Rightarrow> int \<Rightarrow> ms \<Rightarrow> ms \<Rightarrow> local_job list \<Rightarrow> public_job section_result" where
  "renew_section jobId workerId fencingToken leaseDurationMs now now' jobs =
     (case job_index jobId jobs of
        None \<Rightarrow> Inl JOB_NOT_FOUND
      | Some i \<Rightarrow>
          let job = jobs ! i in
          case first_error [assertClaimOwner job workerId (Some fencingToken), assert_live now job] of
            Some e \<Rightarrow> Inl e
          | None \<Rightarrow>
              if \<not> date_range (now' + leaseDurationMs) then Inl INVALID_TIME_VALUE
              else
                let job' = job\<lparr>lj_leaseExpiresAt := Some (Some (now' + leaseDurationMs))\<rparr> in
                Inr (toPublicJob job', Some (jobs[i := job'])))"

definition assert_section ::
  "string \<Rightarrow> string \<Rightarrow> int \<Rightarrow> ms \<Rightarrow> local_job list \<Rightarrow> unit section_result" where
  "assert_section jobId workerId fencingToken now jobs =
     (case job_index jobId jobs of
        None \<Rightarrow> Inl JOB_NOT_FOUND
      | Some i \<Rightarrow>
          case first_error [assertClaimOwner (jobs ! i) workerId (Some fencingToken),
                            assert_live now (jobs ! i)] of
            Some e \<Rightarrow> Inl e
          | None \<Rightarrow> Inr ((), None))"

text \<open>\<open>fencingToken ?? job.fencingToken\<close>: without a token the job's own is compared with itself.\<close>

definition or_own_token :: "int option \<Rightarrow> local_job \<Rightarrow> int" where
  "or_own_token fencingToken job = (case fencingToken of None \<Rightarrow> lj_fencingToken job | Some n \<Rightarrow> n)"

definition acknowledge_section ::
  "string \<Rightarrow> string \<Rightarrow> int option \<Rightarrow> local_job list \<Rightarrow> unit section_result" where
  "acknowledge_section jobId workerId fencingToken jobs =
     (case job_index jobId jobs of
        None \<Rightarrow> Inr ((), None)
      | Some i \<Rightarrow>
          case assertClaimOwner (jobs ! i) workerId (Some (or_own_token fencingToken (jobs ! i))) of
            Some e \<Rightarrow> Inl e
          | None \<Rightarrow> Inr ((), Some (take i jobs @ drop (Suc i) jobs)))"

definition released_job :: "date_text \<Rightarrow> local_job \<Rightarrow> local_job" where
  "released_job availableAt job =
     job\<lparr>lj_state := ''QUEUED'', lj_workerId := None, lj_leaseExpiresAt := None,
         lj_availableAt := availableAt\<rparr>"

definition release_section ::
  "string \<Rightarrow> string \<Rightarrow> date_text \<Rightarrow> int option \<Rightarrow> local_job list \<Rightarrow> unit section_result" where
  "release_section jobId workerId availableAt fencingToken jobs =
     (case job_index jobId jobs of
        None \<Rightarrow> Inl JOB_NOT_FOUND
      | Some i \<Rightarrow>
          case assertClaimOwner (jobs ! i) workerId (Some (or_own_token fencingToken (jobs ! i))) of
            Some e \<Rightarrow> Inl e
          | None \<Rightarrow> Inr ((), Some (jobs[i := released_job availableAt (jobs ! i)])))"

definition remove_section :: "string \<Rightarrow> local_job list \<Rightarrow> unit section_result" where
  "remove_section documentId jobs =
     (let retained = filter (\<lambda>job. lj_documentId job \<noteq> documentId) jobs in
      Inr ((), if length retained \<noteq> length jobs then Some retained else None))"

section \<open>The operations of the processing queue\<close>

text \<open>The guards of an operation before its critical section.\<close>

definition guarded ::
  "'e option list \<Rightarrow> 'db \<Rightarrow> ('e, 'a, 'db) handled \<Rightarrow> ('e, 'a, 'db) handled" where
  "guarded checks db result =
     (case first_error checks of Some e \<Rightarrow> (Inl e, db) | None \<Rightarrow> result)"

definition assertLeaseArguments ::
  "string \<Rightarrow> string \<Rightarrow> string \<Rightarrow> int option \<Rightarrow> document_error option" where
  "assertLeaseArguments jobLabel jobId workerId fencingToken = first_error
     [assertSafeDocumentSegment jobId jobLabel, assertSafeDocumentSegment workerId ''workerId'',
      demand (case fencingToken of None \<Rightarrow> True | Some n \<Rightarrow> safe_integer n \<and> 0 < n)
        LEASE_TOKEN_INVALID]"

definition assertLeaseDuration :: "int \<Rightarrow> document_error option" where
  "assertLeaseDuration leaseDurationMs =
     demand (safe_integer leaseDurationMs \<and> 0 < leaseDurationMs) LEASE_DURATION_INVALID"

definition local_enqueue ::
  "document_tenant \<Rightarrow> string \<Rightarrow> string \<Rightarrow> string \<Rightarrow> ms \<Rightarrow> queue_files \<Rightarrow>
     (document_error, public_job \<times> bool, queue_files) handled" where
  "local_enqueue tenant documentId newId newCorrelationId now files =
     guarded [assertDocumentTenantContext (Some tenant),
              assertSafeDocumentSegment documentId ''document id''] files
       (with_queue ''job id'' files (queueFile tenant) (enqueue_section documentId newId newCorrelationId now))"

definition local_claim ::
  "document_tenant \<Rightarrow> string \<Rightarrow> ms \<Rightarrow> int option \<Rightarrow> queue_files \<Rightarrow>
     (document_error, public_job option, queue_files) handled" where
  "local_claim tenant workerId now leaseDurationMs files =
     (let duration = (case leaseDurationMs of None \<Rightarrow> 5 * 60000 | Some d \<Rightarrow> d) in
      guarded [assertDocumentTenantContext (Some tenant),
               assertSafeDocumentSegment workerId ''workerId'', assertLeaseDuration duration] files
        (with_queue ''job id'' files (queueFile tenant) (claim_section workerId now duration)))"

definition local_renew ::
  "document_tenant \<Rightarrow> string \<Rightarrow> string \<Rightarrow> int \<Rightarrow> int \<Rightarrow> ms \<Rightarrow> ms \<Rightarrow> queue_files \<Rightarrow>
     (document_error, public_job, queue_files) handled" where
  "local_renew tenant jobId workerId fencingToken leaseDurationMs now now' files =
     guarded [assertDocumentTenantContext (Some tenant),
              assertLeaseArguments ''job id'' jobId workerId (Some fencingToken),
              assertLeaseDuration leaseDurationMs] files
       (with_queue ''job id'' files (queueFile tenant)
          (renew_section jobId workerId fencingToken leaseDurationMs now now'))"

definition local_assertLease ::
  "document_tenant \<Rightarrow> string \<Rightarrow> string \<Rightarrow> int \<Rightarrow> ms \<Rightarrow> queue_files \<Rightarrow>
     (document_error, unit, queue_files) handled" where
  "local_assertLease tenant jobId workerId fencingToken now files =
     guarded [assertDocumentTenantContext (Some tenant),
              assertLeaseArguments ''job id'' jobId workerId (Some fencingToken)] files
       (with_queue ''job id'' files (queueFile tenant) (assert_section jobId workerId fencingToken now))"

definition local_acknowledge ::
  "document_tenant \<Rightarrow> string \<Rightarrow> string \<Rightarrow> int option \<Rightarrow> queue_files \<Rightarrow>
     (document_error, unit, queue_files) handled" where
  "local_acknowledge tenant jobId workerId fencingToken files =
     guarded [assertDocumentTenantContext (Some tenant),
              assertLeaseArguments ''job id'' jobId workerId fencingToken] files
       (with_queue ''job id'' files (queueFile tenant) (acknowledge_section jobId workerId fencingToken))"

definition local_release ::
  "document_tenant \<Rightarrow> string \<Rightarrow> string \<Rightarrow> date_text \<Rightarrow> int option \<Rightarrow> queue_files \<Rightarrow>
     (document_error, unit, queue_files) handled" where
  "local_release tenant jobId workerId availableAt fencingToken files =
     guarded [assertDocumentTenantContext (Some tenant),
              assertLeaseArguments ''job id'' jobId workerId fencingToken,
              parseDate availableAt ''availableAt''] files
       (with_queue ''job id'' files (queueFile tenant)
          (release_section jobId workerId availableAt fencingToken))"

definition local_removeForDocument ::
  "document_tenant \<Rightarrow> string \<Rightarrow> queue_files \<Rightarrow> (document_error, unit, queue_files) handled" where
  "local_removeForDocument tenant documentId files =
     guarded [assertDocumentTenantContext (Some tenant),
              assertSafeDocumentSegment documentId ''document id''] files
       (with_queue ''job id'' files (queueFile tenant) (remove_section documentId))"

definition local_list ::
  "document_tenant \<Rightarrow> queue_files \<Rightarrow> document_error + public_job list" where
  "local_list tenant files =
     (case assertDocumentTenantContext (Some tenant) of
        Some e \<Rightarrow> Inl e
      | None \<Rightarrow>
          (case read_queue ''job id'' files (queueFile tenant) of
             Inl e \<Rightarrow> Inl e
           | Inr jobs \<Rightarrow> Inr (map toPublicJob jobs)))"

section \<open>The operations of the embedding queue\<close>

text \<open>
  The same critical sections on another file. \<open>release\<close> checks no identifiers and
  \<open>removeForDocument\<close> none but the tenant's.
\<close>

definition embeddingQueueFile :: "document_tenant \<Rightarrow> string" where
  "embeddingQueueFile tenant = ''document-tenants/'' @ dt_companyId tenant @ ''/embedding-queue.json''"

definition embedding_enqueue ::
  "document_tenant \<Rightarrow> string \<Rightarrow> string \<Rightarrow> string \<Rightarrow> ms \<Rightarrow> queue_files \<Rightarrow>
     (document_error, public_job \<times> bool, queue_files) handled" where
  "embedding_enqueue tenant documentId newId newCorrelationId now files =
     guarded [assertDocumentTenantContext (Some tenant),
              assertSafeDocumentSegment documentId ''document id''] files
       (with_queue ''embedding job id'' files (embeddingQueueFile tenant)
          (enqueue_section documentId newId newCorrelationId now))"

definition embedding_claim ::
  "document_tenant \<Rightarrow> string \<Rightarrow> ms \<Rightarrow> int option \<Rightarrow> queue_files \<Rightarrow>
     (document_error, public_job option, queue_files) handled" where
  "embedding_claim tenant workerId now leaseDurationMs files =
     (let duration = (case leaseDurationMs of None \<Rightarrow> 5 * 60000 | Some d \<Rightarrow> d) in
      guarded [assertDocumentTenantContext (Some tenant),
               assertSafeDocumentSegment workerId ''workerId'', assertLeaseDuration duration] files
        (with_queue ''embedding job id'' files (embeddingQueueFile tenant)
           (claim_section workerId now duration)))"

definition embedding_renew ::
  "document_tenant \<Rightarrow> string \<Rightarrow> string \<Rightarrow> int \<Rightarrow> int \<Rightarrow> ms \<Rightarrow> ms \<Rightarrow> queue_files \<Rightarrow>
     (document_error, public_job, queue_files) handled" where
  "embedding_renew tenant jobId workerId fencingToken leaseDurationMs now now' files =
     guarded [assertDocumentTenantContext (Some tenant),
              assertLeaseArguments ''embedding job id'' jobId workerId (Some fencingToken),
              assertLeaseDuration leaseDurationMs] files
       (with_queue ''embedding job id'' files (embeddingQueueFile tenant)
          (renew_section jobId workerId fencingToken leaseDurationMs now now'))"

definition embedding_assertLease ::
  "document_tenant \<Rightarrow> string \<Rightarrow> string \<Rightarrow> int \<Rightarrow> ms \<Rightarrow> queue_files \<Rightarrow>
     (document_error, unit, queue_files) handled" where
  "embedding_assertLease tenant jobId workerId fencingToken now files =
     guarded [assertDocumentTenantContext (Some tenant),
              assertLeaseArguments ''embedding job id'' jobId workerId (Some fencingToken)] files
       (with_queue ''embedding job id'' files (embeddingQueueFile tenant)
          (assert_section jobId workerId fencingToken now))"

definition embedding_acknowledge ::
  "document_tenant \<Rightarrow> string \<Rightarrow> string \<Rightarrow> int option \<Rightarrow> queue_files \<Rightarrow>
     (document_error, unit, queue_files) handled" where
  "embedding_acknowledge tenant jobId workerId fencingToken files =
     guarded [assertDocumentTenantContext (Some tenant),
              assertLeaseArguments ''embedding job id'' jobId workerId fencingToken] files
       (with_queue ''embedding job id'' files (embeddingQueueFile tenant)
          (acknowledge_section jobId workerId fencingToken))"

definition embedding_release ::
  "document_tenant \<Rightarrow> string \<Rightarrow> string \<Rightarrow> date_text \<Rightarrow> int option \<Rightarrow> queue_files \<Rightarrow>
     (document_error, unit, queue_files) handled" where
  "embedding_release tenant jobId workerId availableAt fencingToken files =
     guarded [assertDocumentTenantContext (Some tenant), parseDate availableAt ''availableAt''] files
       (with_queue ''embedding job id'' files (embeddingQueueFile tenant)
          (release_section jobId workerId availableAt fencingToken))"

definition embedding_removeForDocument ::
  "document_tenant \<Rightarrow> string \<Rightarrow> queue_files \<Rightarrow> (document_error, unit, queue_files) handled" where
  "embedding_removeForDocument tenant documentId files =
     guarded [assertDocumentTenantContext (Some tenant)] files
       (with_queue ''embedding job id'' files (embeddingQueueFile tenant)
          (remove_section documentId))"

definition embedding_list ::
  "document_tenant \<Rightarrow> queue_files \<Rightarrow> document_error + public_job list" where
  "embedding_list tenant files =
     (case assertDocumentTenantContext (Some tenant) of
        Some e \<Rightarrow> Inl e
      | None \<Rightarrow>
          (case read_queue ''embedding job id'' files (embeddingQueueFile tenant) of
             Inl e \<Rightarrow> Inl e
           | Inr jobs \<Rightarrow> Inr (map toPublicJob jobs)))"


end
