(* ===== verification/LocalQueueProperties.thy ===== *)
theory LocalQueueProperties
  imports LocalQueue
begin

text \<open>
  The file queues keep the contract of \<open>LeaseQueue\<close>: the invariant of a queue file, one
  refinement lemma per critical section, the interpretation of the locale for every file, and the
  fencing and exclusivity theorems for every run of operations of either queue on any tenants.
\<close>

section \<open>The view of a queue file\<close>

definition contents :: "string \<Rightarrow> queue_files \<Rightarrow> local_job list" where
  "contents filePath files = (case files filePath of Some (Jobs jobs) \<Rightarrow> jobs | _ \<Rightarrow> [])"

definition job_lease :: "local_job \<Rightarrow> (string \<times> ms) option" where
  "job_lease job =
     (if lj_state job = ''CLAIMED''
      then (case (lj_workerId job, lj_leaseExpiresAt job) of
              (Some w, Some (Some t)) \<Rightarrow> Some (w, t)
            | _ \<Rightarrow> None)
      else None)"

definition local_job_view :: "local_job \<Rightarrow> job_view" where
  "local_job_view job =
     \<lparr>v_document = lj_documentId job,
      v_available = (case lj_availableAt job of Some t \<Rightarrow> t | None \<Rightarrow> 0),
      v_attempts = lj_attempts job, v_token = lj_fencingToken job, v_lease = job_lease job\<rparr>"

definition jobs_view :: "local_job list \<Rightarrow> lease_view" where
  "jobs_view jobs = table_map lj_id local_job_view jobs"

text \<open>
  The invariant of a file: one job per identifier and per document, a token that counts the
  claims, and a lease exactly on claimed jobs.
\<close>

definition job_ok :: "local_job \<Rightarrow> bool" where
  "job_ok job \<longleftrightarrow> lj_attempts job = lj_fencingToken job \<and> 0 \<le> lj_fencingToken job \<and>
     (lj_state job = ''CLAIMED'' \<longrightarrow> (\<exists>w t. lj_workerId job = Some w \<and> lj_leaseExpiresAt job = Some (Some t))) \<and>
     (lj_state job \<noteq> ''CLAIMED'' \<longrightarrow> lj_workerId job = None \<and> lj_leaseExpiresAt job = None)"

definition jobs_ok :: "local_job list \<Rightarrow> bool" where
  "jobs_ok jobs \<longleftrightarrow>
     distinct (map lj_id jobs) \<and> distinct (map lj_documentId jobs) \<and> (\<forall>job \<in> set jobs. job_ok job)"

lemma jobs_okD:
  assumes "jobs_ok jobs"
  shows "distinct (map lj_id jobs)" "distinct (map lj_documentId jobs)"
    "job \<in> set jobs \<Longrightarrow> job_ok job"
  using assms by (auto simp: jobs_ok_def)

lemma read_queue_contents: "read_queue l files p = Inr jobs \<Longrightarrow> jobs = contents p files"
  by (auto simp: read_queue_def contents_def split: option.splits queue_file.splits)

lemma read_queue_valid:
  "read_queue l files p = Inr jobs \<Longrightarrow> job \<in> set jobs \<Longrightarrow> validateStoredJob l job = None"
  by (auto simp: read_queue_def first_error_None_iff split: option.splits queue_file.splits)

lemma contents_update [simp]:
  "contents p (files(q \<mapsto> Jobs jobs)) = (if p = q then jobs else contents p files)"
  by (simp add: contents_def)

lemma index_job:
  "job_index jobId jobs = Some i \<Longrightarrow> i < length jobs \<and> lj_id (jobs ! i) = jobId"
  unfolding job_index_def by (drule find_SomeD) simp

lemma index_view:
  assumes "jobs_ok jobs" "i < length jobs"
  shows "jobs_view jobs (lj_id (jobs ! i)) = Some (local_job_view (jobs ! i))"
  using table_map_Some [OF jobs_okD(1) [OF assms(1)], of "jobs ! i" local_job_view] assms(2)
  by (simp add: jobs_view_def)

lemma no_index_view: "job_index jobId jobs = None \<Longrightarrow> jobs_view jobs jobId = None"
  by (auto simp: job_index_def jobs_view_def table_map_None find_None_iff in_set_conv_nth)

lemma replace_job:
  assumes ok: "jobs_ok jobs" and i: "i < length jobs"
    and job: "job_ok job" "lj_id job = lj_id (jobs ! i)" "lj_documentId job = lj_documentId (jobs ! i)"
  shows "jobs_ok (jobs[i := job])"
    and "jobs_view (jobs[i := job]) = (jobs_view jobs)(lj_id (jobs ! i) \<mapsto> local_job_view job)"
proof -
  have "map lj_id (jobs[i := job]) = map lj_id jobs"
    "map lj_documentId (jobs[i := job]) = map lj_documentId jobs"
    using i job by (simp_all add: map_update list_update_same_conv)
  moreover have "\<forall>x \<in> set (jobs[i := job]). job_ok x"
    using ok job(1) set_update_subset_insert [of jobs i job] by (auto simp: jobs_ok_def)
  ultimately show "jobs_ok (jobs[i := job])" using ok by (simp add: jobs_ok_def)
  show "jobs_view (jobs[i := job]) = (jobs_view jobs)(lj_id (jobs ! i) \<mapsto> local_job_view job)"
    using table_map_nth_update [OF jobs_okD(1) [OF ok] i job(2), of local_job_view] job(2)
    by (simp add: jobs_view_def)
qed

lemma drop_job:
  assumes "jobs_ok jobs" "i < length jobs"
  shows "jobs_ok (take i jobs @ drop (Suc i) jobs)"
    and "jobs_view (take i jobs @ drop (Suc i) jobs) = (jobs_view jobs)(lj_id (jobs ! i) := None)"
proof -
  have eq: "take i jobs @ drop (Suc i) jobs = filter (\<lambda>j. lj_id j \<noteq> lj_id (jobs ! i)) jobs"
    by (rule remove_nth_filter [OF jobs_okD(1) [OF assms(1)] assms(2)])
  show "jobs_ok (take i jobs @ drop (Suc i) jobs)"
    using assms(1) by (auto simp: eq jobs_ok_def distinct_map inj_on_def)
  show "jobs_view (take i jobs @ drop (Suc i) jobs) = (jobs_view jobs)(lj_id (jobs ! i) := None)"
    by (simp add: eq jobs_view_def table_map_filter)
qed

section \<open>Every critical section is a step of the contract\<close>

definition written :: "local_job list \<Rightarrow> local_job list option \<Rightarrow> local_job list" where
  "written jobs w = (case w of None \<Rightarrow> jobs | Some jobs' \<Rightarrow> jobs')"

lemma enqueue_section_step:
  assumes ok: "jobs_ok jobs" and new: "newId \<notin> lj_id ` set jobs"
    and run: "enqueue_section documentId newId c now jobs = Inr ((pj, b), w)"
  shows "jobs_ok (written jobs w) \<and> lease_step t (if b then Enqueued (pj_id pj) else Idle)
    (jobs_view jobs) (jobs_view (written jobs w))"
proof (cases "List.find (\<lambda>job. lj_documentId job = documentId) jobs")
  case None
  let ?job = "queued_job documentId newId c now"
  from None run have w: "w = Some (jobs @ [?job])" "b" "pj_id pj = newId"
    by (auto simp: enqueue_section_def Let_def toPublicJob_def queued_job_def)
  have "documentId \<notin> lj_documentId ` set jobs" using None by (auto simp: find_None_iff)
  then have "jobs_ok (jobs @ [?job])"
    using ok new by (auto simp: jobs_ok_def job_ok_def queued_job_def)
  moreover have "jobs_view (jobs @ [?job]) = (jobs_view jobs)(newId \<mapsto> local_job_view ?job)"
    using table_map_append [of lj_id ?job jobs local_job_view] new
    by (simp add: jobs_view_def queued_job_def)
  moreover have "jobs_view jobs newId = None" using new by (simp add: jobs_view_def table_map_None)
  ultimately show ?thesis
    using w by (auto simp: written_def lease_step_simps new_job_def local_job_view_def
        queued_job_def job_lease_def)
next
  case (Some job)
  with run ok show ?thesis by (auto simp: enqueue_section_def written_def lease_step_simps)
qed

lemma claimable_index_job:
  assumes "claimable_index now jobs = Some i"
  shows "i < length jobs \<and> claimable_job now (jobs ! i)"
proof -
  let ?is = "filter (\<lambda>i. claimable_job now (jobs ! i)) [0..<length jobs]"
  obtain rest where "sort_key (\<lambda>i. the (lj_enqueuedAt (jobs ! i))) ?is = i # rest"
    using assms by (auto simp: claimable_index_def split: list.splits)
  then have "i \<in> set (sort_key (\<lambda>i. the (lj_enqueuedAt (jobs ! i))) ?is)" by (simp only: list.set_intros)
  then show ?thesis by simp
qed

lemma claimable_view:
  assumes "job_ok job" "validateStoredJob l job = None" "claimable_job now job"
  shows "claimable_at now (local_job_view job)"
  using assms
  by (auto simp: claimable_job_def claimable_at_def local_job_view_def job_lease_def job_ok_def due_def
      validateStoredJob_def split: option.splits)

lemma claim_section_step:
  assumes ok: "jobs_ok jobs" and valid: "\<forall>job \<in> set jobs. validateStoredJob l job = None"
    and duration: "0 < duration"
    and run: "claim_section workerId now duration jobs = Inr (r, w)"
  shows "jobs_ok (written jobs w) \<and>
    lease_step now (case r of None \<Rightarrow> Idle | Some pj \<Rightarrow> Claimed (pj_id pj) workerId (pj_fencingToken pj))
      (jobs_view jobs) (jobs_view (written jobs w))"
proof (cases "claimable_index now jobs")
  case None
  with run ok show ?thesis by (auto simp: claim_section_def written_def lease_step_simps)
next
  case (Some i)
  note i = claimable_index_job [OF Some]
  let ?job = "claimed_job workerId (now + duration) (jobs ! i)"
  from Some run have w: "w = Some (jobs[i := ?job])" "r = Some (toPublicJob ?job)"
    by (auto simp: claim_section_def Let_def split: if_splits)
  have mem: "jobs ! i \<in> set jobs" using i by simp
  note okj = jobs_okD(3) [OF ok mem]
  have "job_ok ?job" using okj by (auto simp: job_ok_def claimed_job_def)
  note rep = replace_job [OF ok conjunct1 [OF i] this]
  have claimable: "claimable_at now (local_job_view (jobs ! i))"
    using claimable_view [OF okj] valid mem i by blast
  have "lease_step now (Claimed (lj_id (jobs ! i)) workerId (v_token (local_job_view (jobs ! i)) + 1))
      (jobs_view jobs) ((jobs_view jobs)(lj_id (jobs ! i) \<mapsto> local_job_view ?job))"
    by (rule lease_step.claim)
      (use index_view [OF ok conjunct1 [OF i]] claimable duration in \<open>auto simp: local_job_view_def claimed_job_def job_lease_def\<close>)
  with rep w show ?thesis
    by (simp add: written_def claimed_job_def toPublicJob_def local_job_view_def)
qed

lemma owner_held:
  assumes "job_ok job" "assertClaimOwner job workerId (Some n) = None"
  shows "held_by workerId n (local_job_view job)"
  using assms by (auto simp: assertClaimOwner_def held_by_def local_job_view_def job_lease_def job_ok_def)

lemma live_alive:
  assumes "job_ok job" "lj_state job = ''CLAIMED''" "assert_live now job = None"
  shows "alive_at now (local_job_view job)"
  using assms
  by (auto simp: assert_live_def alive_at_def local_job_view_def job_lease_def job_ok_def due_def)

lemma renew_section_step:
  assumes ok: "jobs_ok jobs"
    and run: "renew_section jobId workerId n duration now now' jobs = Inr (pj, w)"
  shows "jobs_ok (written jobs w) \<and>
    lease_step now (Renewed jobId workerId n) (jobs_view jobs) (jobs_view (written jobs w))"
proof -
  obtain i where i: "job_index jobId jobs = Some i"
    using run by (auto simp: renew_section_def split: option.splits)
  let ?job = "(jobs ! i)\<lparr>lj_leaseExpiresAt := Some (Some (now' + duration))\<rparr>"
  from run i have w: "w = Some (jobs[i := ?job])"
    and owner: "assertClaimOwner (jobs ! i) workerId (Some n) = None"
    and live: "assert_live now (jobs ! i) = None"
    by (auto simp: renew_section_def Let_def split: option.splits if_splits)
  note at = index_job [OF i]
  have okj: "job_ok (jobs ! i)" using jobs_okD(3) [OF ok] at by simp
  have claimed: "lj_state (jobs ! i) = ''CLAIMED''" using owner by (simp add: assertClaimOwner_def)
  have "job_ok ?job" using okj claimed by (auto simp: job_ok_def)
  note rep = replace_job [OF ok conjunct1 [OF at] this]
  obtain until where lease: "job_lease (jobs ! i) = Some (workerId, until)"
    using owner_held [OF okj owner] by (auto simp: held_by_def local_job_view_def)
  have view: "local_job_view ?job = (local_job_view (jobs ! i))\<lparr>v_lease := Some (workerId, now' + duration)\<rparr>"
    using owner claimed by (simp add: local_job_view_def job_lease_def assertClaimOwner_def)
  have "lease_step now (Renewed (lj_id (jobs ! i)) workerId n) (jobs_view jobs)
      ((jobs_view jobs)(lj_id (jobs ! i) \<mapsto> local_job_view ?job))"
    unfolding view
    by (rule lease_step.renew)
      (use index_view [OF ok conjunct1 [OF at]] owner_held [OF okj owner] live_alive [OF okj claimed live] in simp_all)
  with rep w at show ?thesis by (simp add: written_def)
qed

lemma assert_section_step:
  assumes ok: "jobs_ok jobs" and run: "assert_section jobId workerId n now jobs = Inr (u, w)"
  shows "jobs_ok (written jobs w) \<and>
    lease_step now (Checked jobId workerId n) (jobs_view jobs) (jobs_view (written jobs w))"
proof -
  obtain i where i: "job_index jobId jobs = Some i"
    using run by (auto simp: assert_section_def split: option.splits)
  from run i have w: "w = None"
    and owner: "assertClaimOwner (jobs ! i) workerId (Some n) = None"
    and live: "assert_live now (jobs ! i) = None"
    by (auto simp: assert_section_def Let_def split: option.splits if_splits)
  note at = index_job [OF i]
  have okj: "job_ok (jobs ! i)" using jobs_okD(3) [OF ok] at by simp
  have claimed: "lj_state (jobs ! i) = ''CLAIMED''" using owner by (simp add: assertClaimOwner_def)
  have "lease_step now (Checked (lj_id (jobs ! i)) workerId n) (jobs_view jobs) (jobs_view jobs)"
    by (rule lease_step.check)
      (use index_view [OF ok conjunct1 [OF at]] owner_held [OF okj owner] live_alive [OF okj claimed live] in simp_all)
  with w at ok show ?thesis by (simp add: written_def)
qed

definition token_of :: "lease_view \<Rightarrow> string \<Rightarrow> int" where
  "token_of V j = (case V j of None \<Rightarrow> 0 | Some x \<Rightarrow> v_token x)"

definition acknowledge_event :: "lease_view \<Rightarrow> string \<Rightarrow> string \<Rightarrow> lease_event" where
  "acknowledge_event V j w = (if V j = None then Idle else Acknowledged j w (token_of V j))"

lemma acknowledge_section_step:
  assumes ok: "jobs_ok jobs" and run: "acknowledge_section jobId workerId n jobs = Inr (u, w)"
  shows "jobs_ok (written jobs w) \<and>
    lease_step t (acknowledge_event (jobs_view jobs) jobId workerId) (jobs_view jobs)
      (jobs_view (written jobs w))"
proof (cases "job_index jobId jobs")
  case None
  with run ok no_index_view [OF None] show ?thesis
    by (auto simp: acknowledge_section_def acknowledge_event_def written_def lease_step_simps)
next
  case (Some i)
  note at = index_job [OF Some]
  let ?n = "or_own_token n (jobs ! i)"
  from run Some have w: "w = Some (take i jobs @ drop (Suc i) jobs)"
    and owner: "assertClaimOwner (jobs ! i) workerId (Some ?n) = None"
    by (auto simp: acknowledge_section_def split: option.splits)
  have okj: "job_ok (jobs ! i)" using jobs_okD(3) [OF ok] at by simp
  note view = index_view [OF ok conjunct1 [OF at]]
  note held = owner_held [OF okj owner]
  have "lease_step t (Acknowledged (lj_id (jobs ! i)) workerId ?n) (jobs_view jobs)
      ((jobs_view jobs)(lj_id (jobs ! i) := None))"
    using view held by (rule lease_step.acknowledge)
  with drop_job [OF ok conjunct1 [OF at]] w at view held show ?thesis
    by (simp add: written_def acknowledge_event_def token_of_def held_by_def)
qed

lemma release_section_step:
  assumes ok: "jobs_ok jobs" and date: "availableAt = Some a"
    and run: "release_section jobId workerId availableAt n jobs = Inr (u, w)"
  shows "jobs_ok (written jobs w) \<and>
    lease_step t (Released jobId workerId (token_of (jobs_view jobs) jobId))
      (jobs_view jobs) (jobs_view (written jobs w))"
proof -
  obtain i where i: "job_index jobId jobs = Some i"
    using run by (auto simp: release_section_def split: option.splits)
  note at = index_job [OF i]
  let ?n = "or_own_token n (jobs ! i)" and ?job = "released_job availableAt (jobs ! i)"
  from run i have w: "w = Some (jobs[i := ?job])"
    and owner: "assertClaimOwner (jobs ! i) workerId (Some ?n) = None"
    by (auto simp: release_section_def split: option.splits)
  have okj: "job_ok (jobs ! i)" using jobs_okD(3) [OF ok] at by simp
  note view = index_view [OF ok conjunct1 [OF at]]
  note held = owner_held [OF okj owner]
  have "job_ok ?job" using okj by (auto simp: job_ok_def released_job_def)
  note rep = replace_job [OF ok conjunct1 [OF at] this]
  have "local_job_view ?job = (local_job_view (jobs ! i))\<lparr>v_lease := None, v_available := a\<rparr>"
    by (simp add: local_job_view_def released_job_def job_lease_def date)
  then have "lease_step t (Released (lj_id (jobs ! i)) workerId ?n) (jobs_view jobs)
      ((jobs_view jobs)(lj_id (jobs ! i) \<mapsto> local_job_view ?job))"
    using lease_step.release [where V = "jobs_view jobs", OF view held, of t a] by simp
  with rep w at view held show ?thesis
    by (simp add: written_def token_of_def held_by_def released_job_def)
qed

definition remove_event :: "local_job list \<Rightarrow> string \<Rightarrow> lease_event" where
  "remove_event jobs documentId =
     (case List.find (\<lambda>job. lj_documentId job = documentId) jobs of
        None \<Rightarrow> Idle | Some job \<Rightarrow> Removed (lj_id job))"

lemma remove_section_step:
  assumes ok: "jobs_ok jobs" and run: "remove_section documentId jobs = Inr (u, w)"
  shows "jobs_ok (written jobs w) \<and>
    lease_step t (remove_event jobs documentId) (jobs_view jobs) (jobs_view (written jobs w))"
proof -
  let ?kept = "filter (\<lambda>job. lj_documentId job \<noteq> documentId) jobs"
  have "?kept = jobs" if "length ?kept = length jobs"
    using that by (metis (no_types, lifting) filter_True length_filter_less less_irrefl)
  then have w: "written jobs w = ?kept"
    using run by (auto simp: remove_section_def written_def Let_def split: if_splits)
  have kept: "jobs_ok ?kept" using ok by (auto simp: jobs_ok_def distinct_map inj_on_def)
  show ?thesis
  proof (cases "List.find (\<lambda>job. lj_documentId job = documentId) jobs")
    case None
    then have "?kept = jobs" by (auto simp: find_None_iff intro: filter_True)
    with None kept w show ?thesis by (simp add: remove_event_def lease_step_simps)
  next
    case (Some job)
    note job = find_SomeD [OF Some]
    have "?kept = filter (\<lambda>s. lj_id s \<noteq> lj_id job) jobs"
      using job by (intro filter_key_single [OF jobs_okD(1) [OF ok]])
        (auto dest: distinct_key_eq [OF jobs_okD(2) [OF ok]])
    then have "jobs_view ?kept = (jobs_view jobs)(lj_id job := None)"
      by (simp add: jobs_view_def table_map_filter)
    with Some kept w show ?thesis by (simp add: remove_event_def lease_step_simps)
  qed
qed

section \<open>Operations on the files of all tenants\<close>

datatype queue_kind = ProcessingQueue | EmbeddingQueue

definition file_of :: "queue_kind \<Rightarrow> document_tenant \<Rightarrow> string" where
  "file_of k = (case k of ProcessingQueue \<Rightarrow> queueFile | EmbeddingQueue \<Rightarrow> embeddingQueueFile)"

definition enqueue_of where
  "enqueue_of k = (case k of ProcessingQueue \<Rightarrow> local_enqueue | EmbeddingQueue \<Rightarrow> embedding_enqueue)"

definition claim_on where
  "claim_on k = (case k of ProcessingQueue \<Rightarrow> local_claim | EmbeddingQueue \<Rightarrow> embedding_claim)"

definition renew_of where
  "renew_of k = (case k of ProcessingQueue \<Rightarrow> local_renew | EmbeddingQueue \<Rightarrow> embedding_renew)"

definition assertLease_of where
  "assertLease_of k =
     (case k of ProcessingQueue \<Rightarrow> local_assertLease | EmbeddingQueue \<Rightarrow> embedding_assertLease)"

definition acknowledge_of where
  "acknowledge_of k =
     (case k of ProcessingQueue \<Rightarrow> local_acknowledge | EmbeddingQueue \<Rightarrow> embedding_acknowledge)"

definition release_of where
  "release_of k = (case k of ProcessingQueue \<Rightarrow> local_release | EmbeddingQueue \<Rightarrow> embedding_release)"

definition remove_of where
  "remove_of k =
     (case k of ProcessingQueue \<Rightarrow> local_removeForDocument
      | EmbeddingQueue \<Rightarrow> embedding_removeForDocument)"

lemmas kind_defs = file_of_def enqueue_of_def claim_on_def renew_of_def assertLease_of_def
  acknowledge_of_def release_of_def remove_of_def

datatype local_op =
    LocalEnqueue queue_kind document_tenant string string string ms
  | LocalClaim queue_kind document_tenant string ms "int option"
  | LocalRenew queue_kind document_tenant string string int int ms ms
  | LocalAssert queue_kind document_tenant string string int ms
  | LocalAcknowledge queue_kind document_tenant string string "int option"
  | LocalRelease queue_kind document_tenant string string date_text "int option"
  | LocalRemove queue_kind document_tenant string

fun local_path :: "local_op \<Rightarrow> string" where
  "local_path (LocalEnqueue k tenant documentId newId c now) = file_of k tenant"
| "local_path (LocalClaim k tenant w now d) = file_of k tenant"
| "local_path (LocalRenew k tenant j w n d now now') = file_of k tenant"
| "local_path (LocalAssert k tenant j w n now) = file_of k tenant"
| "local_path (LocalAcknowledge k tenant j w n) = file_of k tenant"
| "local_path (LocalRelease k tenant j w a n) = file_of k tenant"
| "local_path (LocalRemove k tenant documentId) = file_of k tenant"

fun local_clock :: "local_op \<Rightarrow> ms" where
  "local_clock (LocalClaim k tenant w now d) = now"
| "local_clock (LocalRenew k tenant j w n d now now') = now"
| "local_clock (LocalAssert k tenant j w n now) = now"
| "local_clock _ = 0"

fun local_step :: "local_op \<Rightarrow> queue_files \<Rightarrow> queue_files" where
  "local_step (LocalEnqueue k tenant documentId newId c now) files =
     snd (enqueue_of k tenant documentId newId c now files)"
| "local_step (LocalClaim k tenant w now d) files = snd (claim_on k tenant w now d files)"
| "local_step (LocalRenew k tenant j w n d now now') files =
     snd (renew_of k tenant j w n d now now' files)"
| "local_step (LocalAssert k tenant j w n now) files = snd (assertLease_of k tenant j w n now files)"
| "local_step (LocalAcknowledge k tenant j w n) files = snd (acknowledge_of k tenant j w n files)"
| "local_step (LocalRelease k tenant j w a n) files = snd (release_of k tenant j w a n files)"
| "local_step (LocalRemove k tenant documentId) files = snd (remove_of k tenant documentId files)"

definition local_view :: "string \<Rightarrow> queue_files \<Rightarrow> lease_view" where
  "local_view p files = jobs_view (contents p files)"

text \<open>What an operation does on the file \<open>p\<close>, read off its result.\<close>

fun section_event :: "local_op \<Rightarrow> queue_files \<Rightarrow> lease_event" where
  "section_event (LocalEnqueue k tenant documentId newId c now) files =
     (case fst (enqueue_of k tenant documentId newId c now files) of
        Inr (pj, True) \<Rightarrow> Enqueued (pj_id pj) | _ \<Rightarrow> Idle)"
| "section_event (LocalClaim k tenant w now d) files =
     (case fst (claim_on k tenant w now d files) of
        Inr (Some pj) \<Rightarrow> Claimed (pj_id pj) w (pj_fencingToken pj) | _ \<Rightarrow> Idle)"
| "section_event (LocalRenew k tenant j w n d now now') files =
     (case fst (renew_of k tenant j w n d now now' files) of Inr _ \<Rightarrow> Renewed j w n | _ \<Rightarrow> Idle)"
| "section_event (LocalAssert k tenant j w n now) files =
     (case fst (assertLease_of k tenant j w n now files) of Inr _ \<Rightarrow> Checked j w n | _ \<Rightarrow> Idle)"
| "section_event (LocalAcknowledge k tenant j w n) files =
     (case fst (acknowledge_of k tenant j w n files) of
        Inr _ \<Rightarrow> acknowledge_event (local_view (file_of k tenant) files) j w
      | _ \<Rightarrow> Idle)"
| "section_event (LocalRelease k tenant j w a n) files =
     (case fst (release_of k tenant j w a n files) of
        Inr _ \<Rightarrow> Released j w (token_of (local_view (file_of k tenant) files) j) | _ \<Rightarrow> Idle)"
| "section_event (LocalRemove k tenant documentId) files =
     (case fst (remove_of k tenant documentId files) of
        Inr _ \<Rightarrow> remove_event (contents (file_of k tenant) files) documentId
      | _ \<Rightarrow> Idle)"

definition local_event :: "string \<Rightarrow> local_op \<Rightarrow> queue_files \<Rightarrow> lease_event" where
  "local_event p op files = (if local_path op = p then section_event op files else Idle)"

definition local_ok :: "string \<Rightarrow> queue_files \<Rightarrow> bool" where
  "local_ok p files \<longleftrightarrow> jobs_ok (contents p files)"

definition local_fresh :: "string \<Rightarrow> local_op \<Rightarrow> queue_files \<Rightarrow> bool" where
  "local_fresh p op files \<longleftrightarrow>
     (case op of
        LocalEnqueue k tenant documentId newId c now \<Rightarrow>
          local_path op = p \<longrightarrow> newId \<notin> lj_id ` set (contents p files)
      | _ \<Rightarrow> True)"

section \<open>Every operation refines the contract\<close>

text \<open>
  An operation either fails and changes nothing, or runs its critical section on the jobs it read.
\<close>

definition runs_section ::
  "(local_job list \<Rightarrow> 'a section_result) \<Rightarrow> string \<Rightarrow> queue_files \<Rightarrow>
     (document_error, 'a, queue_files) handled \<Rightarrow> bool" where
  "runs_section sec p files h \<longleftrightarrow>
     (\<exists>e. h = (Inl e, files)) \<or>
     (\<exists>l r w. read_queue l files p = Inr (contents p files) \<and> sec (contents p files) = Inr (r, w) \<and>
        h = (Inr r, case w of None \<Rightarrow> files | Some jobs' \<Rightarrow> files(p \<mapsto> Jobs jobs')))"

lemma with_queue_runs: "runs_section sec p files (with_queue l files p sec)"
  unfolding runs_section_def with_queue_def
  by (cases "read_queue l files p") (auto split: sum.splits prod.splits option.splits dest: read_queue_contents)

lemma guarded_runs:
  "(first_error checks = None \<Longrightarrow> runs_section sec p files h) \<Longrightarrow>
     runs_section sec p files (guarded checks files h)"
  by (auto simp: guarded_def runs_section_def split: option.splits)

lemma operations_run:
  "runs_section (enqueue_section documentId newId c now) (file_of k tenant) files
     (enqueue_of k tenant documentId newId c now files)"
  "runs_section (renew_section j w n d now now') (file_of k tenant) files
     (renew_of k tenant j w n d now now' files)"
  "runs_section (assert_section j w n now) (file_of k tenant) files
     (assertLease_of k tenant j w n now files)"
  "runs_section (acknowledge_section j w m) (file_of k tenant) files
     (acknowledge_of k tenant j w m files)"
  "runs_section (release_section j w a m) (file_of k tenant) files
     (release_of k tenant j w a m files)"
  "runs_section (remove_section documentId) (file_of k tenant) files
     (remove_of k tenant documentId files)"
  by (cases k; auto simp: kind_defs local_enqueue_def embedding_enqueue_def local_renew_def
      embedding_renew_def local_assertLease_def embedding_assertLease_def local_acknowledge_def
      embedding_acknowledge_def local_release_def embedding_release_def local_removeForDocument_def
      embedding_removeForDocument_def intro!: guarded_runs with_queue_runs)+

definition lease_duration :: "int option \<Rightarrow> int" where
  "lease_duration d = (case d of None \<Rightarrow> 5 * 60000 | Some n \<Rightarrow> n)"

lemma claim_runs:
  "runs_section (claim_section w now (lease_duration d)) (file_of k tenant) files
     (claim_on k tenant w now d files)"
  by (cases k) (auto simp: kind_defs local_claim_def embedding_claim_def lease_duration_def Let_def
      intro!: guarded_runs with_queue_runs)

lemma claim_duration:
  "claim_on k tenant w now d files = (Inr r, files') \<Longrightarrow> 0 < lease_duration d"
  by (cases k) (auto simp: kind_defs local_claim_def embedding_claim_def lease_duration_def Let_def
      guarded_def assertLeaseDuration_def split: option.splits)

lemma release_date:
  "release_of k tenant j w a m files = (Inr r, files') \<Longrightarrow> \<exists>t. a = Some t"
  by (cases k) (auto simp: kind_defs local_release_def embedding_release_def guarded_def parseDate_def
      split: option.splits)

lemma section_refines:
  assumes run: "runs_section sec p files h" and ok: "local_ok p files"
    and failed: "\<And>e. ev (Inl e) = Idle"
    and step: "\<And>l r w. fst h = Inr r \<Longrightarrow> \<forall>job \<in> set (contents p files). validateStoredJob l job = None \<Longrightarrow>
      sec (contents p files) = Inr (r, w) \<Longrightarrow> jobs_ok (written (contents p files) w) \<and>
      lease_step t (ev (Inr r)) (local_view p files) (jobs_view (written (contents p files) w))"
  shows "local_ok p (snd h) \<and> lease_step t (ev (fst h)) (local_view p files) (local_view p (snd h))"
  using run unfolding runs_section_def
proof (elim disjE exE conjE)
  fix e assume "h = (Inl e, files)"
  with ok failed show ?thesis by (simp add: lease_step_simps)
next
  fix l r w
  assume read: "read_queue l files p = Inr (contents p files)"
    and sec: "sec (contents p files) = Inr (r, w)"
    and h: "h = (Inr r, case w of None \<Rightarrow> files | Some jobs' \<Rightarrow> files(p \<mapsto> Jobs jobs'))"
  have "contents p (snd h) = written (contents p files) w"
    by (simp add: h written_def split: option.splits)
  with step [OF _ _ sec, of l] read_queue_valid [OF read] h show ?thesis
    by (simp add: local_ok_def local_view_def)
qed

lemma section_other_file:
  "runs_section sec q files h \<Longrightarrow> q \<noteq> p \<Longrightarrow> contents p (snd h) = contents p files"
  by (auto simp: runs_section_def contents_def split: option.splits)

lemma step_other_file:
  "local_path op \<noteq> p \<Longrightarrow> contents p (local_step op files) = contents p files"
  by (cases op) (auto dest: section_other_file [OF operations_run(1)] section_other_file [OF operations_run(2)]
      section_other_file [OF operations_run(3)] section_other_file [OF operations_run(4)]
      section_other_file [OF operations_run(5)] section_other_file [OF operations_run(6)]
      section_other_file [OF claim_runs])

lemma local_refines:
  assumes ok: "local_ok p files" and fresh: "local_fresh p op files"
  shows "local_ok p (local_step op files) \<and>
    lease_step (local_clock op) (local_event p op files) (local_view p files)
      (local_view p (local_step op files))"
proof (cases "local_path op = p")
  case False
  with ok step_other_file [OF False] show ?thesis
    by (simp add: local_event_def local_ok_def local_view_def lease_step_simps)
next
  case True
  note jobs = ok [unfolded local_ok_def]
  show ?thesis
  proof (cases op)
    case (LocalEnqueue k tenant documentId newId c now)
    have new: "newId \<notin> lj_id ` set (contents p files)"
      using fresh True LocalEnqueue by (simp add: local_fresh_def)
    let ?h = "enqueue_of k tenant documentId newId c now files"
    let ?ev = "\<lambda>r. case r of Inr (pj, True) \<Rightarrow> Enqueued (pj_id pj) | _ \<Rightarrow> Idle"
    have p: "file_of k tenant = p" using True LocalEnqueue by simp
    have "local_ok p (snd ?h) \<and> lease_step 0 (?ev (fst ?h)) (local_view p files) (local_view p (snd ?h))"
    proof (rule section_refines [OF operations_run(1) [of documentId newId c now k tenant files, unfolded p] ok])
      fix l r v
      assume res: "fst ?h = Inr r" and sec: "enqueue_section documentId newId c now (contents p files) = Inr (r, v)"
      show "jobs_ok (written (contents p files) v) \<and>
          lease_step 0 (?ev (Inr r)) (local_view p files) (jobs_view (written (contents p files) v))"
        using enqueue_section_step [OF jobs new, of documentId c now "fst r" "snd r" v 0] sec
        by (cases r) (auto simp: local_view_def split: bool.splits)
    qed simp
    with p LocalEnqueue show ?thesis by (simp add: local_event_def cong: sum.case_cong)
  next
    case (LocalClaim k tenant w now d)
    let ?h = "claim_on k tenant w now d files"
    let ?ev = "\<lambda>r. case r of Inr (Some pj) \<Rightarrow> Claimed (pj_id pj) w (pj_fencingToken pj) | _ \<Rightarrow> Idle"
    have p: "file_of k tenant = p" using True LocalClaim by simp
    have "local_ok p (snd ?h) \<and> lease_step now (?ev (fst ?h)) (local_view p files) (local_view p (snd ?h))"
    proof (rule section_refines [OF claim_runs [of w now d k tenant files, unfolded p] ok])
      fix l r v
      assume res: "fst ?h = Inr r" and valid: "\<forall>job \<in> set (contents p files). validateStoredJob l job = None"
        and sec: "claim_section w now (lease_duration d) (contents p files) = Inr (r, v)"
      have "0 < lease_duration d"
        by (rule claim_duration [of k tenant w now d files r "snd ?h"]) (use res in \<open>metis prod.collapse\<close>)
      from claim_section_step [OF jobs valid this sec]
      show "jobs_ok (written (contents p files) v) \<and>
          lease_step now (?ev (Inr r)) (local_view p files) (jobs_view (written (contents p files) v))"
        by (simp add: local_view_def split: option.splits)
    qed simp
    with p LocalClaim show ?thesis by (simp add: local_event_def)
  next
    case (LocalRenew k tenant j w n d now now')
    let ?h = "renew_of k tenant j w n d now now' files"
    let ?ev = "\<lambda>r. case r of Inr _ \<Rightarrow> Renewed j w n | _ \<Rightarrow> Idle"
    have p: "file_of k tenant = p" using True LocalRenew by simp
    have "local_ok p (snd ?h) \<and> lease_step now (?ev (fst ?h)) (local_view p files) (local_view p (snd ?h))"
    proof (rule section_refines [OF operations_run(2) [of j w n d now now' k tenant files, unfolded p] ok])
      fix l r v
      assume res: "fst ?h = Inr r" and sec: "renew_section j w n d now now' (contents p files) = Inr (r, v)"
      show "jobs_ok (written (contents p files) v) \<and>
          lease_step now (?ev (Inr r)) (local_view p files) (jobs_view (written (contents p files) v))"
        using renew_section_step [OF jobs sec] by (simp add: local_view_def)
    qed simp
    with p LocalRenew show ?thesis by (simp add: local_event_def cong: sum.case_cong)
  next
    case (LocalAssert k tenant j w n now)
    let ?h = "assertLease_of k tenant j w n now files"
    let ?ev = "\<lambda>r. case r of Inr _ \<Rightarrow> Checked j w n | _ \<Rightarrow> Idle"
    have p: "file_of k tenant = p" using True LocalAssert by simp
    have "local_ok p (snd ?h) \<and> lease_step now (?ev (fst ?h)) (local_view p files) (local_view p (snd ?h))"
    proof (rule section_refines [OF operations_run(3) [of j w n now k tenant files, unfolded p] ok])
      fix l r v
      assume res: "fst ?h = Inr r" and sec: "assert_section j w n now (contents p files) = Inr (r, v)"
      show "jobs_ok (written (contents p files) v) \<and>
          lease_step now (?ev (Inr r)) (local_view p files) (jobs_view (written (contents p files) v))"
        using assert_section_step [OF jobs sec] by (simp add: local_view_def)
    qed simp
    with p LocalAssert show ?thesis by (simp add: local_event_def cong: sum.case_cong)
  next
    case (LocalAcknowledge k tenant j w n)
    let ?h = "acknowledge_of k tenant j w n files"
    let ?ev = "\<lambda>r. case r of Inr _ \<Rightarrow> acknowledge_event (local_view p files) j w | _ \<Rightarrow> Idle"
    have p: "file_of k tenant = p" using True LocalAcknowledge by simp
    have "local_ok p (snd ?h) \<and> lease_step 0 (?ev (fst ?h)) (local_view p files) (local_view p (snd ?h))"
    proof (rule section_refines [OF operations_run(4) [of j w n k tenant files, unfolded p] ok])
      fix l r v
      assume res: "fst ?h = Inr r" and sec: "acknowledge_section j w n (contents p files) = Inr (r, v)"
      show "jobs_ok (written (contents p files) v) \<and>
          lease_step 0 (?ev (Inr r)) (local_view p files) (jobs_view (written (contents p files) v))"
        using acknowledge_section_step [OF jobs sec, of 0] by (simp add: local_view_def)
    qed simp
    with p LocalAcknowledge show ?thesis by (simp add: local_event_def cong: sum.case_cong)
  next
    case (LocalRelease k tenant j w a n)
    let ?h = "release_of k tenant j w a n files"
    let ?ev = "\<lambda>r. case r of Inr _ \<Rightarrow> Released j w (token_of (local_view p files) j) | _ \<Rightarrow> Idle"
    have p: "file_of k tenant = p" using True LocalRelease by simp
    have "local_ok p (snd ?h) \<and> lease_step 0 (?ev (fst ?h)) (local_view p files) (local_view p (snd ?h))"
    proof (rule section_refines [OF operations_run(5) [of j w a n k tenant files, unfolded p] ok])
      fix l r v
      assume res: "fst ?h = Inr r" and sec: "release_section j w a n (contents p files) = Inr (r, v)"
      obtain date where date: "a = Some date"
        using release_date [of k tenant j w a n files r "snd ?h"] res by (metis prod.collapse)
      show "jobs_ok (written (contents p files) v) \<and>
          lease_step 0 (?ev (Inr r)) (local_view p files) (jobs_view (written (contents p files) v))"
        using release_section_step [OF jobs date sec, of 0] by (simp add: local_view_def)
    qed simp
    with p LocalRelease show ?thesis by (simp add: local_event_def cong: sum.case_cong)
  next
    case (LocalRemove k tenant documentId)
    let ?h = "remove_of k tenant documentId files"
    let ?ev = "\<lambda>r. case r of Inr _ \<Rightarrow> remove_event (contents p files) documentId | _ \<Rightarrow> Idle"
    have p: "file_of k tenant = p" using True LocalRemove by simp
    have "local_ok p (snd ?h) \<and> lease_step 0 (?ev (fst ?h)) (local_view p files) (local_view p (snd ?h))"
    proof (rule section_refines [OF operations_run(6) [of documentId k tenant files, unfolded p] ok])
      fix l r v
      assume res: "fst ?h = Inr r" and sec: "remove_section documentId (contents p files) = Inr (r, v)"
      show "jobs_ok (written (contents p files) v) \<and>
          lease_step 0 (?ev (Inr r)) (local_view p files) (jobs_view (written (contents p files) v))"
        using remove_section_step [OF jobs sec, of 0] by (simp add: local_view_def)
    qed simp
    with p LocalRemove show ?thesis by (simp add: local_event_def cong: sum.case_cong)
  qed
qed

interpretation file_queue: lease_queue "local_ok p" "local_fresh p" "local_view p" local_clock
    "local_event p" local_step for p
  by unfold_locales (use local_refines in blast)+

section \<open>Fencing of the file queues\<close>

text \<open>
  Tokens fence in the file queues: once a worker has claimed a job, in every later state of
  every run of operations of both queues on the files of any tenants, an accepted renewal, lease
  check, acknowledgement or release of that job carries at least the claimed token; with exactly
  that token it comes from the worker who claimed it, and nobody has claimed the job in between.
\<close>

theorem file_queue_fencing:
  assumes "local_ok p files" "local_fresh p op files" "local_event p op files = Claimed j w n"
    and "fresh_run (local_fresh p) local_step ops (local_step op files)"
    and "Enqueued j \<notin> snd ` set (queue_trace local_clock (local_event p) local_step ops (local_step op files))"
    and "local_fresh p op' (queue_run local_step ops (local_step op files))"
    and "lease_use (local_event p op' (queue_run local_step ops (local_step op files))) = Some (j, w', m)"
  shows "n \<le> m \<and> (m = n \<longrightarrow> w' = w \<and>
    (\<forall>(s, f) \<in> set (queue_trace local_clock (local_event p) local_step ops (local_step op files)).
       \<forall>v k. f \<noteq> Claimed j v k))"
  using assms by (rule file_queue.fencing)

definition acme_tenant :: document_tenant where
  "acme_tenant = \<lparr>dt_companyId = ''acme'', dt_userId = ''user-1''\<rparr>"

definition acme_file :: string where
  "acme_file = ''document-tenants/acme/processing-queue.json''"

definition one_job :: queue_files where
  "one_job = (\<lambda>_. None)(acme_file \<mapsto> Jobs [queued_job ''doc-1'' ''job-1'' ''corr-1'' 1000])"

definition first_claim :: local_op where
  "first_claim = LocalClaim ProcessingQueue acme_tenant ''worker-1'' 2000 (Some 500)"

definition second_claim :: local_op where
  "second_claim = LocalClaim ProcessingQueue acme_tenant ''worker-2'' 2600 (Some 500)"

definition second_renewal :: local_op where
  "second_renewal = LocalRenew ProcessingQueue acme_tenant ''job-1'' ''worker-2'' 2 500 2700 2700"

lemma sample_events:
  "local_event acme_file first_claim one_job = Claimed ''job-1'' ''worker-1'' 1"
  "local_event acme_file second_claim (local_step first_claim one_job) = Claimed ''job-1'' ''worker-2'' 2"
  "local_event acme_file second_renewal (local_step second_claim (local_step first_claim one_job)) =
     Renewed ''job-1'' ''worker-2'' 2"
  by code_simp+

lemma sample_ok: "local_ok acme_file one_job"
  by (simp add: local_ok_def contents_def one_job_def jobs_ok_def job_ok_def queued_job_def)

theorem file_queue_fencing_witness:
  "\<exists>m. lease_use (local_event acme_file second_renewal
      (queue_run local_step [second_claim] (local_step first_claim one_job))) =
    Some (''job-1'', ''worker-2'', m) \<and> 1 < m"
proof -
  have fresh: "local_fresh acme_file first_claim one_job"
    "fresh_run (local_fresh acme_file) local_step [second_claim] (local_step first_claim one_job)"
    "local_fresh acme_file second_renewal (queue_run local_step [second_claim] (local_step first_claim one_job))"
    by (simp_all add: local_fresh_def first_claim_def second_claim_def second_renewal_def)
  have use: "lease_use (local_event acme_file second_renewal
      (queue_run local_step [second_claim] (local_step first_claim one_job))) =
    Some (''job-1'', ''worker-2'', 2)"
    by (simp add: sample_events)
  have "(1::int) \<noteq> 2" by simp
  moreover have "(1::int) \<le> 2 \<and> (2 = (1::int) \<longrightarrow> ''worker-2'' = ''worker-1'' \<and>
    (\<forall>(s, f) \<in> set (queue_trace local_clock (local_event acme_file) local_step [second_claim]
        (local_step first_claim one_job)). \<forall>v k. f \<noteq> Claimed ''job-1'' v k))"
    by (rule file_queue_fencing [OF sample_ok fresh(1) sample_events(1) fresh(2) _ fresh(3) use])
      (simp add: sample_events)
  ultimately show ?thesis using use by auto
qed

end
