(* ===== verification/RedisQueue.thy ===== *)
theory RedisQueue
  imports LocalQueue "HOL-Library.AList" "HOL-Library.Product_Lexorder"
begin

text \<open>
  The Redis lease queue (\<open>lib/redis-lease-queue.ts\<close>), which serves document processing and
  embedding. A queue of a tenant is five keys under one prefix: the hash of jobs by document, the
  set of jobs, the sorted sets of ready and leased jobs, and one hash per job. Redis runs a Lua
  script atomically, so a script is one function on the queue; \<open>removeForDocument\<close> and \<open>list\<close> send
  several commands, so each of these is a function of its own and other operations may run in
  between. \<open>nowMs\<close> is the server time the script reads. Numbers are stored as their decimal text,
  canonical on both sides of every comparison; an empty text in a numeric field is \<open>None\<close>.
\<close>

section \<open>The keys of a queue\<close>

record redis_job =
  rj_id :: string
  rj_companyId :: string
  rj_documentId :: string
  rj_version :: int
  rj_correlationId :: string
  rj_enqueuedAtMs :: int
  rj_availableAtMs :: int
  rj_attempts :: int
  rj_fencingToken :: int
  rj_state :: string
  rj_workerId :: string
  rj_leaseExpiresAtMs :: "int option"
  rj_heartbeatAtMs :: "int option"

type_synonym sorted_set = "(string \<times> int) list"

record redis_queue =
  rq_documents :: "(string \<times> string) list"
  rq_jobs :: "string list"
  rq_ready :: sorted_set
  rq_leased :: sorted_set
  rq_job :: "(string \<times> redis_job) list"

definition empty_queue :: redis_queue where
  "empty_queue = \<lparr>rq_documents = [], rq_jobs = [], rq_ready = [], rq_leased = [], rq_job = []\<rparr>"

text \<open>\<open>ZRANGEBYSCORE key -inf max LIMIT 0 1\<close>: members are ordered by score, then by name.\<close>

definition zrange_first :: "int \<Rightarrow> sorted_set \<Rightarrow> string option" where
  "zrange_first maximum z =
     (case sort_key (\<lambda>(m, score). (score, m)) (filter (\<lambda>(m, score). score \<le> maximum) z) of
        [] \<Rightarrow> None
      | (m, score) # _ \<Rightarrow> Some m)"

definition zadd :: "int \<Rightarrow> string \<Rightarrow> sorted_set \<Rightarrow> sorted_set" where
  "zadd score m z = AList.update m score z"

definition zrem :: "string \<Rightarrow> sorted_set \<Rightarrow> sorted_set" where
  "zrem m z = AList.delete m z"

definition sadd :: "string \<Rightarrow> string list \<Rightarrow> string list" where
  "sadd m xs = (if contains xs m then xs else xs @ [m])"

definition srem :: "string \<Rightarrow> string list \<Rightarrow> string list" where
  "srem m xs = filter (\<lambda>x. x \<noteq> m) xs"

section \<open>The scripts\<close>

definition enqueueScript ::
  "string \<Rightarrow> string \<Rightarrow> string \<Rightarrow> string \<Rightarrow> int \<Rightarrow> redis_queue \<Rightarrow> (int \<times> redis_job option) \<times> redis_queue" where
  "enqueueScript documentId newId correlationId companyId nowMs q =
     (case map_of (rq_documents q) documentId of
        Some existing \<Rightarrow> ((0, map_of (rq_job q) existing), q)
      | None \<Rightarrow>
          let job = \<lparr>rj_id = newId, rj_companyId = companyId, rj_documentId = documentId,
                     rj_version = 1, rj_correlationId = correlationId, rj_enqueuedAtMs = nowMs,
                     rj_availableAtMs = nowMs, rj_attempts = 0, rj_fencingToken = 0,
                     rj_state = ''QUEUED'', rj_workerId = [], rj_leaseExpiresAtMs = None,
                     rj_heartbeatAtMs =
                       (case map_of (rq_job q) newId of None \<Rightarrow> None | Some h \<Rightarrow> rj_heartbeatAtMs h)\<rparr> in
          ((1, Some job),
           q\<lparr>rq_job := AList.update newId job (rq_job q),
             rq_documents := AList.update documentId newId (rq_documents q),
             rq_jobs := sadd newId (rq_jobs q), rq_ready := zadd nowMs newId (rq_ready q)\<rparr>))"

text \<open>
  An expired lease is taken before a ready job. A member without its hash is dropped, and the call
  returns nothing.
\<close>

definition claimScript ::
  "string \<Rightarrow> int \<Rightarrow> int \<Rightarrow> redis_queue \<Rightarrow> redis_job option \<times> redis_queue" where
  "claimScript workerId leaseDurationMs nowMs q =
     (let (picked, q1) =
        (case zrange_first nowMs (rq_leased q) of
           Some jobId \<Rightarrow> (Some jobId, q\<lparr>rq_leased := zrem jobId (rq_leased q)\<rparr>)
         | None \<Rightarrow>
             (case zrange_first nowMs (rq_ready q) of
                Some jobId \<Rightarrow> (Some jobId, q\<lparr>rq_ready := zrem jobId (rq_ready q)\<rparr>)
              | None \<Rightarrow> (None, q))) in
      case picked of
        None \<Rightarrow> (None, q1)
      | Some jobId \<Rightarrow>
          (case map_of (rq_job q1) jobId of
             None \<Rightarrow> (None, q1\<lparr>rq_jobs := srem jobId (rq_jobs q1)\<rparr>)
           | Some h \<Rightarrow>
               let leaseExpiresAtMs = nowMs + leaseDurationMs;
                   job = h\<lparr>rj_attempts := rj_attempts h + 1, rj_fencingToken := rj_fencingToken h + 1,
                           rj_state := ''CLAIMED'', rj_workerId := workerId,
                           rj_leaseExpiresAtMs := Some leaseExpiresAtMs,
                           rj_heartbeatAtMs := Some nowMs\<rparr> in
               (Some job,
                q1\<lparr>rq_job := AList.update jobId job (rq_job q1),
                   rq_leased := zadd leaseExpiresAtMs jobId (rq_leased q1)\<rparr>)))"

text \<open>
  The ownership test the four lease scripts start with. An empty expiry on a claimed job makes the
  comparison with the time fail in Lua.
\<close>

definition lease_owner ::
  "string \<Rightarrow> string \<Rightarrow> int \<Rightarrow> int \<Rightarrow> redis_queue \<Rightarrow> document_error + redis_job" where
  "lease_owner jobId workerId fencingToken nowMs q =
     (case map_of (rq_job q) jobId of
        None \<Rightarrow> Inl STALE_LEASE
      | Some h \<Rightarrow>
          if rj_state h \<noteq> ''CLAIMED'' \<or> rj_workerId h \<noteq> workerId \<or> rj_fencingToken h \<noteq> fencingToken
          then Inl STALE_LEASE
          else
            (case rj_leaseExpiresAtMs h of
               None \<Rightarrow> Inl REDIS_SCRIPT_ERROR
             | Some until \<Rightarrow> if until \<le> nowMs then Inl STALE_LEASE else Inr h))"

definition renewScript ::
  "string \<Rightarrow> string \<Rightarrow> int \<Rightarrow> int \<Rightarrow> int \<Rightarrow> redis_queue \<Rightarrow> (document_error + redis_job) \<times> redis_queue" where
  "renewScript jobId workerId fencingToken leaseDurationMs nowMs q =
     (case lease_owner jobId workerId fencingToken nowMs q of
        Inl e \<Rightarrow> (Inl e, q)
      | Inr h \<Rightarrow>
          let leaseExpiresAtMs = nowMs + leaseDurationMs;
              job = h\<lparr>rj_leaseExpiresAtMs := Some leaseExpiresAtMs, rj_heartbeatAtMs := Some nowMs\<rparr> in
          (Inr job, q\<lparr>rq_job := AList.update jobId job (rq_job q),
                      rq_leased := zadd leaseExpiresAtMs jobId (rq_leased q)\<rparr>))"

definition assertLeaseScript ::
  "string \<Rightarrow> string \<Rightarrow> int \<Rightarrow> int \<Rightarrow> redis_queue \<Rightarrow> (document_error + unit) \<times> redis_queue" where
  "assertLeaseScript jobId workerId fencingToken nowMs q =
     (case lease_owner jobId workerId fencingToken nowMs q of
        Inl e \<Rightarrow> (Inl e, q)
      | Inr _ \<Rightarrow> (Inr (), q))"

definition acknowledgeScript ::
  "string \<Rightarrow> string \<Rightarrow> int \<Rightarrow> int \<Rightarrow> redis_queue \<Rightarrow> (document_error + unit) \<times> redis_queue" where
  "acknowledgeScript jobId workerId fencingToken nowMs q =
     (case lease_owner jobId workerId fencingToken nowMs q of
        Inl e \<Rightarrow> (Inl e, q)
      | Inr h \<Rightarrow>
          (Inr (),
           q\<lparr>rq_job := AList.delete jobId (rq_job q),
             rq_documents := AList.delete (rj_documentId h) (rq_documents q),
             rq_jobs := srem jobId (rq_jobs q), rq_ready := zrem jobId (rq_ready q),
             rq_leased := zrem jobId (rq_leased q)\<rparr>))"

definition releaseScript ::
  "string \<Rightarrow> string \<Rightarrow> int \<Rightarrow> int \<Rightarrow> int \<Rightarrow> redis_queue \<Rightarrow> (document_error + unit) \<times> redis_queue" where
  "releaseScript jobId workerId fencingToken availableAtMs nowMs q =
     (case lease_owner jobId workerId fencingToken nowMs q of
        Inl e \<Rightarrow> (Inl e, q)
      | Inr h \<Rightarrow>
          (Inr (),
           q\<lparr>rq_job := AList.update jobId
                (h\<lparr>rj_state := ''QUEUED'', rj_workerId := [], rj_leaseExpiresAtMs := None,
                   rj_heartbeatAtMs := None, rj_availableAtMs := availableAtMs\<rparr>) (rq_job q),
             rq_leased := zrem jobId (rq_leased q),
             rq_ready := zadd availableAtMs jobId (rq_ready q)\<rparr>))"

text \<open>The second command of \<open>removeForDocument\<close>.\<close>

definition removeScript :: "string \<Rightarrow> string \<Rightarrow> redis_queue \<Rightarrow> redis_queue" where
  "removeScript documentId jobId q =
     q\<lparr>rq_documents := AList.delete documentId (rq_documents q), rq_jobs := srem jobId (rq_jobs q),
       rq_ready := zrem jobId (rq_ready q), rq_leased := zrem jobId (rq_leased q),
       rq_job := AList.delete jobId (rq_job q)\<rparr>"

section \<open>Replies\<close>

definition asInteger :: "int \<Rightarrow> document_error option" where
  "asInteger n = demand (safe_integer n \<and> 0 \<le> n) REDIS_RESPONSE_INVALID"

definition isoFromMilliseconds :: "int \<Rightarrow> document_error option" where
  "isoFromMilliseconds n = first_error [asInteger n, demand (date_range n) INVALID_TIME_VALUE]"

text \<open>\<open>HMGET\<close> of a missing hash is nine nulls, the third of which is no version.\<close>

definition parseJob :: "redis_job option \<Rightarrow> document_error + public_job" where
  "parseJob reply =
     (case reply of
        None \<Rightarrow> Inl REDIS_RESPONSE_INVALID
      | Some h \<Rightarrow>
          (case first_error
             [asInteger (rj_version h), demand (rj_version h = 1) JOB_VERSION_UNSUPPORTED,
              isoFromMilliseconds (rj_enqueuedAtMs h), isoFromMilliseconds (rj_availableAtMs h),
              asInteger (rj_attempts h), asInteger (rj_fencingToken h),
              (case rj_leaseExpiresAtMs h of None \<Rightarrow> None | Some t \<Rightarrow> isoFromMilliseconds t),
              assertSafeDocumentSegment (rj_id h) ''job id'',
              assertSafeDocumentSegment (rj_documentId h) ''document id'',
              assertSafeDocumentSegment (rj_correlationId h) ''correlationId''] of
             Some e \<Rightarrow> Inl e
           | None \<Rightarrow>
               Inr \<lparr>pj_id = rj_id h, pj_documentId = rj_documentId h, pj_version = rj_version h,
                    pj_correlationId = rj_correlationId h, pj_enqueuedAt = Some (rj_enqueuedAtMs h),
                    pj_availableAt = Some (rj_availableAtMs h), pj_attempts = rj_attempts h,
                    pj_fencingToken = rj_fencingToken h,
                    pj_leaseExpiresAt = map_option Some (rj_leaseExpiresAtMs h)\<rparr>))"

section \<open>The operations\<close>

text \<open>Redis holds the queues of every tenant; a queue nobody wrote is empty.\<close>

type_synonym redis_db = "string \<Rightarrow> redis_queue"

definition queue_prefix :: "string \<Rightarrow> document_tenant \<Rightarrow> string" where
  "queue_prefix queueName tenant = ''avantime:{'' @ queueName @ '':'' @ dt_companyId tenant @ ''}''"

definition redis_assertLease :: "string \<Rightarrow> string \<Rightarrow> int \<Rightarrow> document_error option" where
  "redis_assertLease jobId workerId fencingToken = first_error
     [assertSafeDocumentSegment jobId ''job id'', assertSafeDocumentSegment workerId ''workerId'',
      demand (safe_integer fencingToken \<and> 0 < fencingToken) LEASE_TOKEN_INVALID]"

definition redis_enqueue ::
  "string \<Rightarrow> document_tenant \<Rightarrow> string \<Rightarrow> string \<Rightarrow> string \<Rightarrow> int \<Rightarrow> redis_db \<Rightarrow>
     (document_error, public_job \<times> bool, redis_db) handled" where
  "redis_enqueue queueName tenant documentId newId correlationId nowMs db =
     guarded [assertDocumentTenantContext (Some tenant),
              assertSafeDocumentSegment documentId ''document id''] db
       (let key = queue_prefix queueName tenant;
            ((enqueued, job), q) =
              enqueueScript documentId newId correlationId (dt_companyId tenant) nowMs (db key) in
        (case parseJob job of Inl e \<Rightarrow> Inl e | Inr pj \<Rightarrow> Inr (pj, enqueued = 1), db(key := q)))"

definition redis_claim ::
  "string \<Rightarrow> document_tenant \<Rightarrow> string \<Rightarrow> int \<Rightarrow> int \<Rightarrow> redis_db \<Rightarrow>
     (document_error, public_job option, redis_db) handled" where
  "redis_claim queueName tenant workerId leaseDurationMs nowMs db =
     guarded [assertSafeDocumentSegment workerId ''workerId'', assertLeaseDuration leaseDurationMs,
              assertDocumentTenantContext (Some tenant)] db
       (let key = queue_prefix queueName tenant;
            (job, q) = claimScript workerId leaseDurationMs nowMs (db key) in
        (case job of
           None \<Rightarrow> Inr None
         | Some h \<Rightarrow> (case parseJob (Some h) of Inl e \<Rightarrow> Inl e | Inr pj \<Rightarrow> Inr (Some pj)),
         db(key := q)))"

definition redis_renew ::
  "string \<Rightarrow> document_tenant \<Rightarrow> string \<Rightarrow> string \<Rightarrow> int \<Rightarrow> int \<Rightarrow> int \<Rightarrow> redis_db \<Rightarrow>
     (document_error, public_job, redis_db) handled" where
  "redis_renew queueName tenant jobId workerId fencingToken leaseDurationMs nowMs db =
     guarded [redis_assertLease jobId workerId fencingToken, assertLeaseDuration leaseDurationMs,
              assertDocumentTenantContext (Some tenant)] db
       (let key = queue_prefix queueName tenant;
            (reply, q) = renewScript jobId workerId fencingToken leaseDurationMs nowMs (db key) in
        (case reply of Inl e \<Rightarrow> Inl e | Inr h \<Rightarrow> parseJob (Some h), db(key := q)))"

definition redis_assertOwnedLease ::
  "string \<Rightarrow> document_tenant \<Rightarrow> string \<Rightarrow> string \<Rightarrow> int \<Rightarrow> int \<Rightarrow> redis_db \<Rightarrow>
     (document_error, unit, redis_db) handled" where
  "redis_assertOwnedLease queueName tenant jobId workerId fencingToken nowMs db =
     guarded [redis_assertLease jobId workerId fencingToken,
              assertDocumentTenantContext (Some tenant)] db
       (let key = queue_prefix queueName tenant;
            (reply, q) = assertLeaseScript jobId workerId fencingToken nowMs (db key) in
        (reply, db(key := q)))"

definition redis_acknowledge ::
  "string \<Rightarrow> document_tenant \<Rightarrow> string \<Rightarrow> string \<Rightarrow> int \<Rightarrow> int \<Rightarrow> redis_db \<Rightarrow>
     (document_error, unit, redis_db) handled" where
  "redis_acknowledge queueName tenant jobId workerId fencingToken nowMs db =
     guarded [redis_assertLease jobId workerId fencingToken,
              assertDocumentTenantContext (Some tenant)] db
       (let key = queue_prefix queueName tenant;
            (reply, q) = acknowledgeScript jobId workerId fencingToken nowMs (db key) in
        (reply, db(key := q)))"

definition redis_release ::
  "string \<Rightarrow> document_tenant \<Rightarrow> string \<Rightarrow> string \<Rightarrow> int \<Rightarrow> date_text \<Rightarrow> int \<Rightarrow> redis_db \<Rightarrow>
     (document_error, unit, redis_db) handled" where
  "redis_release queueName tenant jobId workerId fencingToken availableAt nowMs db =
     guarded [redis_assertLease jobId workerId fencingToken, parseDate availableAt ''availableAt'',
              assertDocumentTenantContext (Some tenant)] db
       (let key = queue_prefix queueName tenant;
            (reply, q) = releaseScript jobId workerId fencingToken (the availableAt) nowMs (db key) in
        (reply, db(key := q)))"

text \<open>\<open>removeForDocument\<close>: the lookup, and the removal of what it found in the state then reached.\<close>

definition redis_remove_lookup ::
  "string \<Rightarrow> document_tenant \<Rightarrow> string \<Rightarrow> redis_db \<Rightarrow> document_error + string option" where
  "redis_remove_lookup queueName tenant documentId db =
     (case first_error [assertSafeDocumentSegment documentId ''document id'',
                        assertDocumentTenantContext (Some tenant)] of
        Some e \<Rightarrow> Inl e
      | None \<Rightarrow> Inr (map_of (rq_documents (db (queue_prefix queueName tenant))) documentId))"

definition redis_remove_found ::
  "string \<Rightarrow> document_tenant \<Rightarrow> string \<Rightarrow> string option \<Rightarrow> redis_db \<Rightarrow> redis_db" where
  "redis_remove_found queueName tenant documentId found db =
     (case found of
        None \<Rightarrow> db
      | Some jobId \<Rightarrow>
          (let key = queue_prefix queueName tenant in db(key := removeScript documentId jobId (db key))))"

definition redis_removeForDocument ::
  "string \<Rightarrow> document_tenant \<Rightarrow> string \<Rightarrow> redis_db \<Rightarrow> (document_error, unit, redis_db) handled" where
  "redis_removeForDocument queueName tenant documentId db =
     (case redis_remove_lookup queueName tenant documentId db of
        Inl e \<Rightarrow> (Inl e, db)
      | Inr found \<Rightarrow> (Inr (), redis_remove_found queueName tenant documentId found db))"

text \<open>\<open>list\<close>: the members, and the hashes each is read from, in the state each read meets.\<close>

definition redis_list ::
  "string \<Rightarrow> document_tenant \<Rightarrow> redis_db \<Rightarrow> (string \<Rightarrow> redis_db) \<Rightarrow> document_error + public_job list" where
  "redis_list queueName tenant db at =
     (case assertDocumentTenantContext (Some tenant) of
        Some e \<Rightarrow> Inl e
      | None \<Rightarrow>
          (let key = queue_prefix queueName tenant;
               replies = map (\<lambda>jobId. parseJob (map_of (rq_job (at jobId key)) jobId)) (rq_jobs (db key)) in
           case first_error (map (\<lambda>r. case r of Inl e \<Rightarrow> Some e | Inr _ \<Rightarrow> None) replies) of
             Some e \<Rightarrow> Inl e
           | None \<Rightarrow> Inr (sort_key (\<lambda>pj. the (pj_enqueuedAt pj)) (map projr replies))))"

section \<open>The two queues built on it\<close>

definition default_duration :: "int option \<Rightarrow> int" where
  "default_duration leaseDurationMs = (case leaseDurationMs of None \<Rightarrow> 300000 | Some d \<Rightarrow> d)"

text \<open>A call without a token passes 0, which the argument check refuses.\<close>

definition default_token :: "int option \<Rightarrow> int" where
  "default_token fencingToken = (case fencingToken of None \<Rightarrow> 0 | Some n \<Rightarrow> n)"

definition redis_document_enqueue ::
  "document_tenant \<Rightarrow> string \<Rightarrow> string \<Rightarrow> string \<Rightarrow> int \<Rightarrow> redis_db \<Rightarrow>
     (document_error, public_job \<times> bool, redis_db) handled" where
  "redis_document_enqueue = redis_enqueue ''document-processing''"

definition redis_document_claim ::
  "document_tenant \<Rightarrow> string \<Rightarrow> int option \<Rightarrow> int \<Rightarrow> redis_db \<Rightarrow>
     (document_error, public_job option, redis_db) handled" where
  "redis_document_claim tenant workerId leaseDurationMs nowMs db =
     redis_claim ''document-processing'' tenant workerId (default_duration leaseDurationMs) nowMs db"

definition redis_document_renew ::
  "document_tenant \<Rightarrow> string \<Rightarrow> string \<Rightarrow> int \<Rightarrow> int \<Rightarrow> int \<Rightarrow> redis_db \<Rightarrow>
     (document_error, public_job, redis_db) handled" where
  "redis_document_renew = redis_renew ''document-processing''"

definition redis_document_assertLease ::
  "document_tenant \<Rightarrow> string \<Rightarrow> string \<Rightarrow> int option \<Rightarrow> int \<Rightarrow> redis_db \<Rightarrow>
     (document_error, unit, redis_db) handled" where
  "redis_document_assertLease tenant jobId workerId fencingToken nowMs db =
     redis_assertOwnedLease ''document-processing'' tenant jobId workerId (default_token fencingToken) nowMs db"

definition redis_document_acknowledge ::
  "document_tenant \<Rightarrow> string \<Rightarrow> string \<Rightarrow> int option \<Rightarrow> int \<Rightarrow> redis_db \<Rightarrow>
     (document_error, unit, redis_db) handled" where
  "redis_document_acknowledge tenant jobId workerId fencingToken nowMs db =
     redis_acknowledge ''document-processing'' tenant jobId workerId (default_token fencingToken) nowMs db"

definition redis_document_release ::
  "document_tenant \<Rightarrow> string \<Rightarrow> string \<Rightarrow> date_text \<Rightarrow> int option \<Rightarrow> int \<Rightarrow> redis_db \<Rightarrow>
     (document_error, unit, redis_db) handled" where
  "redis_document_release tenant jobId workerId availableAt fencingToken nowMs db =
     redis_release ''document-processing'' tenant jobId workerId (default_token fencingToken) availableAt nowMs db"

definition redis_document_removeForDocument ::
  "document_tenant \<Rightarrow> string \<Rightarrow> redis_db \<Rightarrow> (document_error, unit, redis_db) handled" where
  "redis_document_removeForDocument = redis_removeForDocument ''document-processing''"

definition redis_document_list ::
  "document_tenant \<Rightarrow> redis_db \<Rightarrow> (string \<Rightarrow> redis_db) \<Rightarrow> document_error + public_job list" where
  "redis_document_list = redis_list ''document-processing''"

definition redis_embedding_enqueue ::
  "document_tenant \<Rightarrow> string \<Rightarrow> string \<Rightarrow> string \<Rightarrow> int \<Rightarrow> redis_db \<Rightarrow>
     (document_error, public_job \<times> bool, redis_db) handled" where
  "redis_embedding_enqueue = redis_enqueue ''document-embedding''"

definition redis_embedding_claim ::
  "document_tenant \<Rightarrow> string \<Rightarrow> int option \<Rightarrow> int \<Rightarrow> redis_db \<Rightarrow>
     (document_error, public_job option, redis_db) handled" where
  "redis_embedding_claim tenant workerId leaseDurationMs nowMs db =
     redis_claim ''document-embedding'' tenant workerId (default_duration leaseDurationMs) nowMs db"

definition redis_embedding_renew ::
  "document_tenant \<Rightarrow> string \<Rightarrow> string \<Rightarrow> int \<Rightarrow> int \<Rightarrow> int \<Rightarrow> redis_db \<Rightarrow>
     (document_error, public_job, redis_db) handled" where
  "redis_embedding_renew = redis_renew ''document-embedding''"

definition redis_embedding_assertLease ::
  "document_tenant \<Rightarrow> string \<Rightarrow> string \<Rightarrow> int option \<Rightarrow> int \<Rightarrow> redis_db \<Rightarrow>
     (document_error, unit, redis_db) handled" where
  "redis_embedding_assertLease tenant jobId workerId fencingToken nowMs db =
     redis_assertOwnedLease ''document-embedding'' tenant jobId workerId (default_token fencingToken) nowMs db"

definition redis_embedding_acknowledge ::
  "document_tenant \<Rightarrow> string \<Rightarrow> string \<Rightarrow> int option \<Rightarrow> int \<Rightarrow> redis_db \<Rightarrow>
     (document_error, unit, redis_db) handled" where
  "redis_embedding_acknowledge tenant jobId workerId fencingToken nowMs db =
     redis_acknowledge ''document-embedding'' tenant jobId workerId (default_token fencingToken) nowMs db"

definition redis_embedding_release ::
  "document_tenant \<Rightarrow> string \<Rightarrow> string \<Rightarrow> date_text \<Rightarrow> int option \<Rightarrow> int \<Rightarrow> redis_db \<Rightarrow>
     (document_error, unit, redis_db) handled" where
  "redis_embedding_release tenant jobId workerId availableAt fencingToken nowMs db =
     redis_release ''document-embedding'' tenant jobId workerId (default_token fencingToken) availableAt nowMs db"

definition redis_embedding_removeForDocument ::
  "document_tenant \<Rightarrow> string \<Rightarrow> redis_db \<Rightarrow> (document_error, unit, redis_db) handled" where
  "redis_embedding_removeForDocument = redis_removeForDocument ''document-embedding''"

definition redis_embedding_list ::
  "document_tenant \<Rightarrow> redis_db \<Rightarrow> (string \<Rightarrow> redis_db) \<Rightarrow> document_error + public_job list" where
  "redis_embedding_list = redis_list ''document-embedding''"

lemma token_required:
  "\<exists>e. fst (redis_document_acknowledge tenant jobId workerId None nowMs db) = Inl e"
  "\<exists>e. fst (redis_document_release tenant jobId workerId availableAt None nowMs db) = Inl e"
proof -
  obtain e where "redis_assertLease jobId workerId 0 = Some e"
    using option.exhaust [of "redis_assertLease jobId workerId 0"]
    by (auto simp: redis_assertLease_def)
  then show "\<exists>e. fst (redis_document_acknowledge tenant jobId workerId None nowMs db) = Inl e"
    "\<exists>e. fst (redis_document_release tenant jobId workerId availableAt None nowMs db) = Inl e"
    by (simp_all add: redis_document_acknowledge_def redis_acknowledge_def redis_document_release_def
        redis_release_def default_token_def guarded_def)
qed

end
