(* ===== verification/RedisQueueProperties.thy ===== *)
theory RedisQueueProperties
  imports RedisQueue LeaseQueue
begin

text \<open>
  The Redis queue keeps the contract of \<open>LeaseQueue\<close> under every interleaving of its commands: the
  invariant that ties the sorted sets to the job hashes, its preservation by each script, the
  interpretation of the locale, the fencing theorem, and the stronger invariant of the document
  index, which needs the two commands of \<open>removeForDocument\<close> to run without another in between.
\<close>

section \<open>Sorted sets and hashes as maps\<close>

lemma zset_simps [simp]:
  "map_of (zadd s m z) = (map_of z)(m \<mapsto> s)" "map_of (zrem m z) = (map_of z)(m := None)"
  by (simp_all add: zadd_def zrem_def update_conv' delete_conv')

lemma zset_distinct [simp]:
  "distinct (map fst z) \<Longrightarrow> distinct (map fst (zadd s m z))"
  "distinct (map fst z) \<Longrightarrow> distinct (map fst (zrem m z))"
  by (simp_all add: zadd_def zrem_def distinct_update distinct_delete)

lemma hash_simps [simp]:
  "map_of (AList.update k v h) = (map_of h)(k \<mapsto> v)" "map_of (AList.delete k h) = (map_of h)(k := None)"
  by (simp_all add: update_conv' delete_conv')

lemma sset_simps [simp]:
  "set (sadd m xs) = insert m (set xs)" "set (srem m xs) = set xs - {m}"
  by (auto simp: sadd_def srem_def)

lemma zrange_first_SomeD:
  assumes "zrange_first t z = Some m" "distinct (map fst z)"
  shows "\<exists>s. map_of z m = Some s \<and> s \<le> t"
proof -
  let ?zs = "sort_key (\<lambda>(m, score). (score, m)) (filter (\<lambda>(m, score). score \<le> t) z)"
  obtain s rest where "?zs = (m, s) # rest"
    using assms(1) by (auto simp: zrange_first_def split: list.splits prod.splits)
  then have "(m, s) \<in> set ?zs" by (simp only: list.set_intros)
  then show ?thesis using assms(2) by auto
qed

lemma zrange_first_NoneD:
  assumes "zrange_first t z = None" "map_of z m = Some s"
  shows "t < s"
proof -
  have "sort_key (\<lambda>(m, score). (score, m)) (filter (\<lambda>(m, score). score \<le> t) z) = []"
    using assms(1) by (auto simp: zrange_first_def split: list.splits prod.splits)
  then have "set (filter (\<lambda>(m, score). score \<le> t) z) = {}" by (metis set_sort list.set(1))
  then show ?thesis using map_of_SomeD [OF assms(2)] by (auto simp: not_le)
qed

section \<open>The invariant\<close>

text \<open>
  What holds of one identifier: without a hash it is in no set; with one, it is ready at its due
  instant or leased until its expiry, never both.
\<close>

definition hash_ok :: "string \<Rightarrow> redis_job \<Rightarrow> bool" where
  "hash_ok j h \<longleftrightarrow> rj_id h = j \<and> rj_attempts h = rj_fencingToken h \<and> 0 \<le> rj_fencingToken h"

definition member_ok :: "redis_queue \<Rightarrow> string \<Rightarrow> bool" where
  "member_ok q j \<longleftrightarrow>
     (case map_of (rq_job q) j of
        None \<Rightarrow> map_of (rq_ready q) j = None \<and> map_of (rq_leased q) j = None \<and> j \<notin> set (rq_jobs q)
      | Some h \<Rightarrow> hash_ok j h \<and> j \<in> set (rq_jobs q) \<and>
          (if rj_state h = ''CLAIMED''
           then (\<exists>t. rj_leaseExpiresAtMs h = Some t \<and> map_of (rq_leased q) j = Some t) \<and>
             map_of (rq_ready q) j = None
           else rj_leaseExpiresAtMs h = None \<and> map_of (rq_ready q) j = Some (rj_availableAtMs h) \<and>
             map_of (rq_leased q) j = None))"

definition queue_ok :: "redis_queue \<Rightarrow> bool" where
  "queue_ok q \<longleftrightarrow> distinct (map fst (rq_ready q)) \<and> distinct (map fst (rq_leased q)) \<and>
     (\<forall>j. member_ok q j)"

definition redis_job_view :: "redis_job \<Rightarrow> job_view" where
  "redis_job_view h =
     \<lparr>v_document = rj_documentId h, v_available = rj_availableAtMs h, v_attempts = rj_attempts h,
      v_token = rj_fencingToken h,
      v_lease = (if rj_state h = ''CLAIMED''
                 then map_option (\<lambda>t. (rj_workerId h, t)) (rj_leaseExpiresAtMs h) else None)\<rparr>"

definition redis_view :: "redis_queue \<Rightarrow> lease_view" where
  "redis_view q j = map_option redis_job_view (map_of (rq_job q) j)"

lemma queue_ok_empty [simp]: "queue_ok empty_queue"
  by (simp add: queue_ok_def member_ok_def empty_queue_def)

lemma redis_view_update [simp]:
  "redis_view (q\<lparr>rq_job := AList.update j h (rq_job q)\<rparr>) = (redis_view q)(j \<mapsto> redis_job_view h)"
  by (auto simp: redis_view_def fun_eq_iff)

lemma redis_view_cong: "rq_job q = rq_job q' \<Longrightarrow> redis_view q = redis_view q'"
  by (simp add: redis_view_def fun_eq_iff)

lemma redis_view_eq:
  "map_of (rq_job q') = (map_of (rq_job q))(j \<mapsto> h) \<Longrightarrow>
     redis_view q' = (redis_view q)(j \<mapsto> redis_job_view h)"
  "map_of (rq_job q') = (map_of (rq_job q))(j := None) \<Longrightarrow> redis_view q' = (redis_view q)(j := None)"
  by (auto simp: redis_view_def fun_eq_iff)

text \<open>A change that leaves every other identifier alone needs a look at one identifier only.\<close>

lemma queue_ok_change:
  assumes "queue_ok q" "distinct (map fst (rq_ready q'))" "distinct (map fst (rq_leased q'))"
    and "member_ok q' j"
    and "\<And>i. i \<noteq> j \<Longrightarrow> map_of (rq_job q') i = map_of (rq_job q) i \<and>
      map_of (rq_ready q') i = map_of (rq_ready q) i \<and> map_of (rq_leased q') i = map_of (rq_leased q) i \<and>
      (i \<in> set (rq_jobs q') \<longleftrightarrow> i \<in> set (rq_jobs q))"
  shows "queue_ok q'"
proof -
  have "member_ok q' i" for i
  proof (cases "i = j")
    case False
    have "member_ok q i" using assms(1) by (simp add: queue_ok_def)
    with assms(5) [OF False] show ?thesis by (simp add: member_ok_def split: option.splits)
  qed (use assms(4) in simp)
  with assms(2,3) show ?thesis by (simp add: queue_ok_def)
qed

section \<open>Every script is a step of the contract\<close>

lemma enqueue_script_step:
  assumes ok: "queue_ok q" and new: "map_of (rq_job q) newId = None"
    and run: "enqueueScript documentId newId c companyId nowMs q = ((b, r), q')"
  shows "queue_ok q' \<and> lease_step t (if b = 1 then Enqueued newId else Idle) (redis_view q) (redis_view q')"
proof (cases "map_of (rq_documents q) documentId")
  case (Some existing)
  with run ok show ?thesis by (auto simp: enqueueScript_def lease_step_simps)
next
  case None
  let ?h = "\<lparr>rj_id = newId, rj_companyId = companyId, rj_documentId = documentId, rj_version = 1,
      rj_correlationId = c, rj_enqueuedAtMs = nowMs, rj_availableAtMs = nowMs, rj_attempts = 0,
      rj_fencingToken = 0, rj_state = ''QUEUED'', rj_workerId = [], rj_leaseExpiresAtMs = None,
      rj_heartbeatAtMs = None\<rparr>"
  have free: "map_of (rq_leased q) newId = None"
  proof -
    have "member_ok q newId" using ok by (simp add: queue_ok_def)
    with new show ?thesis by (simp add: member_ok_def)
  qed
  from run None new have q': "b = 1" "map_of (rq_job q') = (map_of (rq_job q))(newId \<mapsto> ?h)"
      "rq_ready q' = zadd nowMs newId (rq_ready q)" "rq_leased q' = rq_leased q"
      "set (rq_jobs q') = insert newId (set (rq_jobs q))"
    by (auto simp: enqueueScript_def Let_def)
  have "queue_ok q'"
    by (rule queue_ok_change [OF ok, of _ newId])
      (use ok free q' in \<open>auto simp: queue_ok_def member_ok_def hash_ok_def\<close>)
  moreover have "redis_view q newId = None" using new by (simp add: redis_view_def)
  ultimately show ?thesis
    using q'(1) redis_view_eq(1) [OF q'(2)]
    by (auto simp: lease_step_simps new_job_def redis_job_view_def)
qed

definition picked :: "int \<Rightarrow> redis_queue \<Rightarrow> string option \<times> redis_queue" where
  "picked nowMs q =
     (case zrange_first nowMs (rq_leased q) of
        Some j \<Rightarrow> (Some j, q\<lparr>rq_leased := zrem j (rq_leased q)\<rparr>)
      | None \<Rightarrow>
          (case zrange_first nowMs (rq_ready q) of
             Some j \<Rightarrow> (Some j, q\<lparr>rq_ready := zrem j (rq_ready q)\<rparr>)
           | None \<Rightarrow> (None, q)))"

lemma picked_job:
  assumes ok: "queue_ok q" and pick: "picked nowMs q = (Some j, q1)"
  obtains h where "map_of (rq_job q) j = Some h" "hash_ok j h" "claimable_at nowMs (redis_job_view h)"
    "rq_job q1 = rq_job q" "rq_jobs q1 = rq_jobs q" "j \<in> set (rq_jobs q)"
    "map_of (rq_ready q1) = (map_of (rq_ready q))(j := None)"
    "map_of (rq_leased q1) = (map_of (rq_leased q))(j := None)"
    "distinct (map fst (rq_ready q1))" "distinct (map fst (rq_leased q1))"
proof -
  have dist: "distinct (map fst (rq_ready q))" "distinct (map fst (rq_leased q))"
    and mem: "member_ok q j"
    using ok by (auto simp: queue_ok_def)
  show thesis
  proof (cases "zrange_first nowMs (rq_leased q)")
    case (Some i)
    with pick have i: "i = j" and q1: "q1 = q\<lparr>rq_leased := zrem j (rq_leased q)\<rparr>"
      by (auto simp: picked_def)
    obtain s where s: "map_of (rq_leased q) j = Some s" "s \<le> nowMs"
      using zrange_first_SomeD [OF Some [unfolded i] dist(2)] by blast
    from mem s obtain h where "map_of (rq_job q) j = Some h" "hash_ok j h" "j \<in> set (rq_jobs q)"
        "rj_state h = ''CLAIMED''" "rj_leaseExpiresAtMs h = Some s" "map_of (rq_ready q) j = None"
      by (auto simp: member_ok_def split: option.splits if_splits)
    with s dist show thesis
      by (intro that [of h]) (auto simp: q1 claimable_at_def redis_job_view_def)
  next
    case None
    with pick have first: "zrange_first nowMs (rq_ready q) = Some j"
      and q1: "q1 = q\<lparr>rq_ready := zrem j (rq_ready q)\<rparr>"
      by (auto simp: picked_def split: option.splits)
    obtain s where s: "map_of (rq_ready q) j = Some s" "s \<le> nowMs"
      using zrange_first_SomeD [OF first dist(1)] by blast
    from mem s obtain h where "map_of (rq_job q) j = Some h" "hash_ok j h" "j \<in> set (rq_jobs q)"
        "rj_state h \<noteq> ''CLAIMED''" "rj_availableAtMs h = s" "map_of (rq_leased q) j = None"
      by (auto simp: member_ok_def split: option.splits if_splits)
    with s dist show thesis
      by (intro that [of h]) (auto simp: q1 claimable_at_def redis_job_view_def)
  qed
qed

lemma claim_script_step:
  assumes ok: "queue_ok q" and duration: "0 < duration"
    and run: "claimScript workerId duration nowMs q = (r, q')"
  shows "queue_ok q' \<and>
    lease_step nowMs (case r of None \<Rightarrow> Idle | Some h \<Rightarrow> Claimed (rj_id h) workerId (rj_fencingToken h))
      (redis_view q) (redis_view q')"
proof -
  obtain pick q1 where pick: "picked nowMs q = (pick, q1)" by (cases "picked nowMs q")
  have script: "claimScript workerId duration nowMs q =
     (case pick of None \<Rightarrow> (None, q1)
      | Some j \<Rightarrow>
          (case map_of (rq_job q1) j of
             None \<Rightarrow> (None, q1\<lparr>rq_jobs := srem j (rq_jobs q1)\<rparr>)
           | Some h \<Rightarrow>
               let job = h\<lparr>rj_attempts := rj_attempts h + 1, rj_fencingToken := rj_fencingToken h + 1,
                           rj_state := ''CLAIMED'', rj_workerId := workerId,
                           rj_leaseExpiresAtMs := Some (nowMs + duration),
                           rj_heartbeatAtMs := Some nowMs\<rparr> in
               (Some job, q1\<lparr>rq_job := AList.update j job (rq_job q1),
                             rq_leased := zadd (nowMs + duration) j (rq_leased q1)\<rparr>)))"
    using pick
    by (cases pick) (simp_all add: claimScript_def picked_def [symmetric] Let_def split: option.split)
  show ?thesis
  proof (cases pick)
    case None
    with pick have "q1 = q" by (auto simp: picked_def split: option.splits)
    with run script None ok show ?thesis by (simp add: lease_step_simps)
  next
    case (Some j)
    show ?thesis
    proof (rule picked_job [OF ok pick [unfolded Some]])
      fix h
      assume h: "map_of (rq_job q) j = Some h" "hash_ok j h" "claimable_at nowMs (redis_job_view h)"
        and q1: "rq_job q1 = rq_job q" "rq_jobs q1 = rq_jobs q" "j \<in> set (rq_jobs q)"
          "map_of (rq_ready q1) = (map_of (rq_ready q))(j := None)"
          "map_of (rq_leased q1) = (map_of (rq_leased q))(j := None)"
          "distinct (map fst (rq_ready q1))" "distinct (map fst (rq_leased q1))"
      let ?job = "h\<lparr>rj_attempts := rj_attempts h + 1, rj_fencingToken := rj_fencingToken h + 1,
          rj_state := ''CLAIMED'', rj_workerId := workerId,
          rj_leaseExpiresAtMs := Some (nowMs + duration), rj_heartbeatAtMs := Some nowMs\<rparr>"
      from run script Some h(1) q1(1) have r: "r = Some ?job"
        and q': "q' = q1\<lparr>rq_job := AList.update j ?job (rq_job q1),
                      rq_leased := zadd (nowMs + duration) j (rq_leased q1)\<rparr>"
        by (simp_all add: Let_def)
      have "queue_ok q'"
        by (rule queue_ok_change [OF ok, of _ j])
          (use h(2) q1 in \<open>auto simp: q' member_ok_def hash_ok_def\<close>)
      moreover have "redis_view q' = (redis_view q)(j \<mapsto> redis_job_view ?job)"
        by (rule redis_view_eq) (simp add: q' q1)
      moreover have "lease_step nowMs (Claimed j workerId (v_token (redis_job_view h) + 1)) (redis_view q)
          ((redis_view q)(j \<mapsto> redis_job_view ?job))"
        by (rule lease_step.claim)
          (use h duration in \<open>auto simp: redis_view_def redis_job_view_def\<close>)
      ultimately show ?thesis using r h(2) by (simp add: redis_job_view_def hash_ok_def)
    qed
  qed
qed

lemma lease_ownerD:
  assumes "lease_owner j w n nowMs q = Inr h"
  shows "map_of (rq_job q) j = Some h" "rj_state h = ''CLAIMED''" "rj_workerId h = w"
    "rj_fencingToken h = n" "held_by w n (redis_job_view h)" "alive_at nowMs (redis_job_view h)"
    "redis_view q j = Some (redis_job_view h)"
  using assms
  by (auto simp: lease_owner_def held_by_def alive_at_def redis_job_view_def redis_view_def
      split: option.splits if_splits)

lemma renew_script_step:
  assumes ok: "queue_ok q" and run: "renewScript j w n duration nowMs q = (r, q')"
  shows "queue_ok q' \<and>
    lease_step nowMs (case r of Inl e \<Rightarrow> Idle | Inr h \<Rightarrow> Renewed j w n) (redis_view q) (redis_view q')"
proof (cases "lease_owner j w n nowMs q")
  case (Inl e)
  with run have "r = Inl e" "q' = q" by (auto simp: renewScript_def)
  with ok show ?thesis by (simp add: lease_step_simps)
next
  case (Inr h)
  note own = lease_ownerD [OF Inr]
  let ?job = "h\<lparr>rj_leaseExpiresAtMs := Some (nowMs + duration), rj_heartbeatAtMs := Some nowMs\<rparr>"
  from run Inr have r: "r = Inr ?job"
    and q': "q' = q\<lparr>rq_job := AList.update j ?job (rq_job q),
                   rq_leased := zadd (nowMs + duration) j (rq_leased q)\<rparr>"
    by (auto simp: renewScript_def Let_def)
  have mem: "member_ok q j" using ok by (simp add: queue_ok_def)
  have "queue_ok q'"
    by (rule queue_ok_change [OF ok, of _ j])
      (use ok mem own in \<open>auto simp: q' queue_ok_def member_ok_def hash_ok_def\<close>)
  moreover have "redis_view q' = (redis_view q)(j \<mapsto> redis_job_view ?job)"
    by (rule redis_view_eq) (simp add: q')
  moreover have "redis_job_view ?job = (redis_job_view h)\<lparr>v_lease := Some (w, nowMs + duration)\<rparr>"
    using own by (simp add: redis_job_view_def)
  ultimately show ?thesis
    using lease_step.renew [where V = "redis_view q", OF own(7,5,6), of "nowMs + duration"] r by simp
qed

lemma assert_script_step:
  assumes ok: "queue_ok q" and run: "assertLeaseScript j w n nowMs q = (r, q')"
  shows "queue_ok q' \<and>
    lease_step nowMs (case r of Inl e \<Rightarrow> Idle | Inr _ \<Rightarrow> Checked j w n) (redis_view q) (redis_view q')"
proof (cases "lease_owner j w n nowMs q")
  case (Inl e)
  with run ok show ?thesis by (auto simp: assertLeaseScript_def lease_step_simps)
next
  case (Inr h)
  with run ok lease_step.check [where V = "redis_view q", OF lease_ownerD(7,5,6) [OF Inr]]
  show ?thesis by (auto simp: assertLeaseScript_def)
qed

lemma drop_member:
  assumes ok: "queue_ok q" and gone: "map_of (rq_job q') = (map_of (rq_job q))(j := None)"
    "rq_ready q' = zrem j (rq_ready q)" "rq_leased q' = zrem j (rq_leased q)"
    "set (rq_jobs q') = set (rq_jobs q) - {j}"
  shows "queue_ok q'" and "redis_view q' = (redis_view q)(j := None)"
proof -
  show "queue_ok q'"
    by (rule queue_ok_change [OF ok, of _ j])
      (use ok gone in \<open>auto simp: queue_ok_def member_ok_def\<close>)
  show "redis_view q' = (redis_view q)(j := None)" by (rule redis_view_eq) (rule gone)
qed

lemma acknowledge_script_step:
  assumes ok: "queue_ok q" and run: "acknowledgeScript j w n nowMs q = (r, q')"
  shows "queue_ok q' \<and>
    lease_step nowMs (case r of Inl e \<Rightarrow> Idle | Inr _ \<Rightarrow> Acknowledged j w n) (redis_view q) (redis_view q')"
proof (cases "lease_owner j w n nowMs q")
  case (Inl e)
  with run ok show ?thesis by (auto simp: acknowledgeScript_def lease_step_simps)
next
  case (Inr h)
  note own = lease_ownerD [OF Inr]
  from run Inr have r: "r = Inr ()" and q': "map_of (rq_job q') = (map_of (rq_job q))(j := None)"
      "rq_ready q' = zrem j (rq_ready q)" "rq_leased q' = zrem j (rq_leased q)"
      "set (rq_jobs q') = set (rq_jobs q) - {j}"
    by (auto simp: acknowledgeScript_def)
  show ?thesis
    using drop_member [OF ok q'] lease_step.acknowledge [where V = "redis_view q", OF own(7,5)] r by simp
qed

lemma release_script_step:
  assumes ok: "queue_ok q" and run: "releaseScript j w n a nowMs q = (r, q')"
  shows "queue_ok q' \<and>
    lease_step nowMs (case r of Inl e \<Rightarrow> Idle | Inr _ \<Rightarrow> Released j w n) (redis_view q) (redis_view q')"
proof (cases "lease_owner j w n nowMs q")
  case (Inl e)
  with run ok show ?thesis by (auto simp: releaseScript_def lease_step_simps)
next
  case (Inr h)
  note own = lease_ownerD [OF Inr]
  let ?job = "h\<lparr>rj_state := ''QUEUED'', rj_workerId := [], rj_leaseExpiresAtMs := None,
      rj_heartbeatAtMs := None, rj_availableAtMs := a\<rparr>"
  from run Inr have r: "r = Inr ()"
    and q': "q' = q\<lparr>rq_job := AList.update j ?job (rq_job q), rq_leased := zrem j (rq_leased q),
                   rq_ready := zadd a j (rq_ready q)\<rparr>"
    by (auto simp: releaseScript_def)
  have mem: "member_ok q j" using ok by (simp add: queue_ok_def)
  have "queue_ok q'"
    by (rule queue_ok_change [OF ok, of _ j])
      (use ok mem own in \<open>auto simp: q' queue_ok_def member_ok_def hash_ok_def\<close>)
  moreover have "redis_view q' = (redis_view q)(j \<mapsto> redis_job_view ?job)"
    by (rule redis_view_eq) (simp add: q')
  moreover have "redis_job_view ?job = (redis_job_view h)\<lparr>v_lease := None, v_available := a\<rparr>"
    by (simp add: redis_job_view_def)
  ultimately show ?thesis
    using lease_step.release [where V = "redis_view q", OF own(7,5), of nowMs a] r by simp
qed

lemma remove_script_step:
  assumes ok: "queue_ok q"
  shows "queue_ok (removeScript documentId j q) \<and>
    lease_step t (Removed j) (redis_view q) (redis_view (removeScript documentId j q))"
  using drop_member [OF ok, of "removeScript documentId j q" j]
  by (simp add: removeScript_def lease_step_simps)

section \<open>Operations on the queues of all tenants\<close>

datatype redis_op =
    RedisEnqueue string document_tenant string string string int
  | RedisClaim string document_tenant string int int
  | RedisRenew string document_tenant string string int int int
  | RedisAssert string document_tenant string string int int
  | RedisAcknowledge string document_tenant string string int int
  | RedisRelease string document_tenant string string int date_text int
  | RedisRemoveFound string document_tenant string "string option"

text \<open>The second half of a removal carries whatever job some earlier lookup found.\<close>

fun redis_key :: "redis_op \<Rightarrow> string" where
  "redis_key (RedisEnqueue name tenant documentId newId c now) = queue_prefix name tenant"
| "redis_key (RedisClaim name tenant w d now) = queue_prefix name tenant"
| "redis_key (RedisRenew name tenant j w n d now) = queue_prefix name tenant"
| "redis_key (RedisAssert name tenant j w n now) = queue_prefix name tenant"
| "redis_key (RedisAcknowledge name tenant j w n now) = queue_prefix name tenant"
| "redis_key (RedisRelease name tenant j w n a now) = queue_prefix name tenant"
| "redis_key (RedisRemoveFound name tenant documentId found) = queue_prefix name tenant"

fun redis_clock :: "redis_op \<Rightarrow> ms" where
  "redis_clock (RedisEnqueue name tenant documentId newId c now) = now"
| "redis_clock (RedisClaim name tenant w d now) = now"
| "redis_clock (RedisRenew name tenant j w n d now) = now"
| "redis_clock (RedisAssert name tenant j w n now) = now"
| "redis_clock (RedisAcknowledge name tenant j w n now) = now"
| "redis_clock (RedisRelease name tenant j w n a now) = now"
| "redis_clock (RedisRemoveFound name tenant documentId found) = 0"

fun redis_step :: "redis_op \<Rightarrow> redis_db \<Rightarrow> redis_db" where
  "redis_step (RedisEnqueue name tenant documentId newId c now) db =
     snd (redis_enqueue name tenant documentId newId c now db)"
| "redis_step (RedisClaim name tenant w d now) db = snd (redis_claim name tenant w d now db)"
| "redis_step (RedisRenew name tenant j w n d now) db = snd (redis_renew name tenant j w n d now db)"
| "redis_step (RedisAssert name tenant j w n now) db =
     snd (redis_assertOwnedLease name tenant j w n now db)"
| "redis_step (RedisAcknowledge name tenant j w n now) db =
     snd (redis_acknowledge name tenant j w n now db)"
| "redis_step (RedisRelease name tenant j w n a now) db =
     snd (redis_release name tenant j w n a now db)"
| "redis_step (RedisRemoveFound name tenant documentId found) db =
     redis_remove_found name tenant documentId found db"

text \<open>
  What an operation does on the queue \<open>p\<close>. A successful lease operation is told by its result; an
  enqueue or a claim by the script, since a reply that cannot be parsed follows a change all the
  same.
\<close>

definition accepted :: "('e + 'a) \<times> 'db \<Rightarrow> lease_event \<Rightarrow> lease_event" where
  "accepted h e = (case fst h of Inl _ \<Rightarrow> Idle | Inr _ \<Rightarrow> e)"

fun script_event :: "redis_op \<Rightarrow> redis_db \<Rightarrow> lease_event" where
  "script_event (RedisEnqueue name tenant documentId newId c now) db =
     (if first_error [assertDocumentTenantContext (Some tenant),
                      assertSafeDocumentSegment documentId ''document id''] = None \<and>
         map_of (rq_documents (db (queue_prefix name tenant))) documentId = None
      then Enqueued newId else Idle)"
| "script_event (RedisClaim name tenant w d now) db =
     (if first_error [assertSafeDocumentSegment w ''workerId'', assertLeaseDuration d,
                      assertDocumentTenantContext (Some tenant)] = None
      then (case fst (claimScript w d now (db (queue_prefix name tenant))) of
              None \<Rightarrow> Idle | Some h \<Rightarrow> Claimed (rj_id h) w (rj_fencingToken h))
      else Idle)"
| "script_event (RedisRenew name tenant j w n d now) db =
     (if first_error [redis_assertLease j w n, assertLeaseDuration d,
                      assertDocumentTenantContext (Some tenant)] = None
      then accepted (renewScript j w n d now (db (queue_prefix name tenant))) (Renewed j w n)
      else Idle)"
| "script_event (RedisAssert name tenant j w n now) db =
     accepted (redis_assertOwnedLease name tenant j w n now db) (Checked j w n)"
| "script_event (RedisAcknowledge name tenant j w n now) db =
     accepted (redis_acknowledge name tenant j w n now db) (Acknowledged j w n)"
| "script_event (RedisRelease name tenant j w n a now) db =
     accepted (redis_release name tenant j w n a now db) (Released j w n)"
| "script_event (RedisRemoveFound name tenant documentId found) db =
     (case found of None \<Rightarrow> Idle | Some j \<Rightarrow> Removed j)"

definition redis_event :: "string \<Rightarrow> redis_op \<Rightarrow> redis_db \<Rightarrow> lease_event" where
  "redis_event p op db = (if redis_key op = p then script_event op db else Idle)"

definition redis_ok :: "string \<Rightarrow> redis_db \<Rightarrow> bool" where
  "redis_ok p db \<longleftrightarrow> queue_ok (db p)"

definition redis_fresh :: "string \<Rightarrow> redis_op \<Rightarrow> redis_db \<Rightarrow> bool" where
  "redis_fresh p op db \<longleftrightarrow>
     (case op of
        RedisEnqueue name tenant documentId newId c now \<Rightarrow>
          redis_key op = p \<longrightarrow> map_of (rq_job (db p)) newId = None
      | _ \<Rightarrow> True)"

definition redis_queue_view :: "string \<Rightarrow> redis_db \<Rightarrow> lease_view" where
  "redis_queue_view p db = redis_view (db p)"

text \<open>A guarded operation that only rewrites its own queue by a script.\<close>

lemma guarded_script:
  assumes "queue_ok q' \<and> lease_step t e (redis_view (db p)) (redis_view q')" and "queue_ok (db p)"
  shows "redis_ok p (snd (guarded checks db (r, db(p := q')))) \<and>
    lease_step t (if first_error checks = None then e else Idle) (redis_queue_view p db)
      (redis_queue_view p (snd (guarded checks db (r, db(p := q')))))"
  using assms
  by (auto simp: guarded_def redis_ok_def redis_queue_view_def lease_step_simps split: option.splits)

lemma step_other_queue: "redis_key op \<noteq> p \<Longrightarrow> redis_step op db p = db p"
  by (cases op)
    (auto simp: redis_enqueue_def redis_claim_def redis_renew_def redis_assertOwnedLease_def
      redis_acknowledge_def redis_release_def redis_remove_found_def guarded_def Let_def
      split: option.splits prod.splits)

lemma accepted_guarded:
  "accepted (guarded checks db (r, db')) e =
     (if first_error checks = None then (case r of Inl _ \<Rightarrow> Idle | Inr _ \<Rightarrow> e) else Idle)"
  by (auto simp: accepted_def guarded_def split: option.splits sum.splits)

lemma script_refines:
  assumes "redis_step op db = snd (guarded checks db (r, db(p := q')))"
    and "redis_event p op db = (if first_error checks = None then e else Idle)" and "redis_clock op = t"
    and "queue_ok q' \<and> lease_step t e (redis_view (db p)) (redis_view q')" "queue_ok (db p)"
  shows "redis_ok p (redis_step op db) \<and>
    lease_step (redis_clock op) (redis_event p op db) (redis_queue_view p db)
      (redis_queue_view p (redis_step op db))"
  unfolding assms(1-3) using assms(4,5) by (rule guarded_script)

lemma redis_refines:
  assumes ok: "redis_ok p db" and fresh: "redis_fresh p op db"
  shows "redis_ok p (redis_step op db) \<and>
    lease_step (redis_clock op) (redis_event p op db) (redis_queue_view p db)
      (redis_queue_view p (redis_step op db))"
proof (cases "redis_key op = p")
  case False
  with ok step_other_queue [OF False] show ?thesis
    by (simp add: redis_event_def redis_ok_def redis_queue_view_def lease_step_simps)
next
  case True
  note q = ok [unfolded redis_ok_def]
  show ?thesis
  proof (cases op)
    case (RedisEnqueue name tenant documentId newId c now)
    have new: "map_of (rq_job (db p)) newId = None"
      using fresh True RedisEnqueue by (simp add: redis_fresh_def)
    obtain b r q' where script: "enqueueScript documentId newId c (dt_companyId tenant) now (db p) = ((b, r), q')"
      by (metis prod.collapse)
    then have b: "map_of (rq_documents (db p)) documentId = None \<longleftrightarrow> b = 1"
      by (auto simp: enqueueScript_def Let_def split: option.splits)
    let ?checks = "[assertDocumentTenantContext (Some tenant),
        assertSafeDocumentSegment documentId ''document id'']"
    let ?r = "case parseJob r of Inl e \<Rightarrow> Inl e | Inr pj \<Rightarrow> Inr (pj, b = 1)"
    have key: "queue_prefix name tenant = p" using True RedisEnqueue by simp
    show ?thesis
    proof (rule script_refines [where db = db and p = p, OF _ _ _ enqueue_script_step [OF q new script] q])
      show "redis_step op db = snd (guarded ?checks db (?r, db(p := q')))"
        by (simp only: RedisEnqueue redis_step.simps redis_enqueue_def Let_def key script prod.case)
      show "redis_event p op db = (if first_error ?checks = None then if b = 1 then Enqueued newId else Idle else Idle)"
        using b True RedisEnqueue by (auto simp: redis_event_def key)
    qed (rule refl)
  next
    case (RedisClaim name tenant w d now)
    let ?checks = "[assertSafeDocumentSegment w ''workerId'', assertLeaseDuration d,
        assertDocumentTenantContext (Some tenant)]"
    obtain r q' where script: "claimScript w d now (db p) = (r, q')" by fastforce
    show ?thesis
    proof (cases "first_error ?checks = None")
      case True
      then have "0 < d" by (simp add: assertLeaseDuration_def)
      from guarded_script [where db = db and p = p, OF claim_script_step [OF q this script] q, of ?checks]
        \<open>redis_key op = p\<close> RedisClaim script True show ?thesis
        by (simp add: redis_event_def redis_claim_def)
    next
      case False
      then obtain e where e: "first_error ?checks = Some e" by (metis option.exhaust)
      have "redis_step op db = db"
        unfolding RedisClaim redis_step.simps redis_claim_def guarded_def e by simp
      moreover have "redis_event p op db = Idle"
        using False by (simp only: redis_event_def RedisClaim script_event.simps if_False if_cancel)
      ultimately show ?thesis using ok by (simp add: lease_step_simps)
    qed
  next
    case (RedisRenew name tenant j w n d now)
    obtain r q' where script: "renewScript j w n d now (db p) = (r, q')" by fastforce
    let ?checks = "[redis_assertLease j w n, assertLeaseDuration d, assertDocumentTenantContext (Some tenant)]"
    have key: "queue_prefix name tenant = p" using True RedisRenew by simp
    show ?thesis
    proof (rule script_refines [where db = db and p = p, OF _ _ _ renew_script_step [OF q script] q])
      show "redis_step op db = snd (guarded ?checks db (case r of Inl e \<Rightarrow> Inl e | Inr h \<Rightarrow> parseJob (Some h), db(p := q')))"
        by (simp only: RedisRenew redis_step.simps redis_renew_def Let_def key script prod.case)
      show "redis_event p op db = (if first_error ?checks = None
          then case r of Inl x \<Rightarrow> Idle | Inr x \<Rightarrow> Renewed j w n else Idle)"
        by (simp only: redis_event_def RedisRenew redis_key.simps key if_True script_event.simps script
            redis_renew_def Let_def prod.case accepted_guarded accepted_def fst_conv refl)
    qed (simp add: RedisRenew)
  next
    case (RedisAssert name tenant j w n now)
    obtain r q' where script: "assertLeaseScript j w n now (db p) = (r, q')" by fastforce
    let ?checks = "[redis_assertLease j w n, assertDocumentTenantContext (Some tenant)]"
    have key: "queue_prefix name tenant = p" using True RedisAssert by simp
    show ?thesis
    proof (rule script_refines [where db = db and p = p, OF _ _ _ assert_script_step [OF q script] q])
      show "redis_step op db = snd (guarded ?checks db (r, db(p := q')))"
        by (simp only: RedisAssert redis_step.simps redis_assertOwnedLease_def Let_def key script prod.case)
      show "redis_event p op db = (if first_error ?checks = None
          then case r of Inl x \<Rightarrow> Idle | Inr x \<Rightarrow> Checked j w n else Idle)"
        by (simp only: redis_event_def RedisAssert redis_key.simps key if_True script_event.simps script
            redis_assertOwnedLease_def Let_def prod.case accepted_guarded refl)
    qed (simp add: RedisAssert)
  next
    case (RedisAcknowledge name tenant j w n now)
    obtain r q' where script: "acknowledgeScript j w n now (db p) = (r, q')" by fastforce
    let ?checks = "[redis_assertLease j w n, assertDocumentTenantContext (Some tenant)]"
    have key: "queue_prefix name tenant = p" using True RedisAcknowledge by simp
    show ?thesis
    proof (rule script_refines [where db = db and p = p, OF _ _ _ acknowledge_script_step [OF q script] q])
      show "redis_step op db = snd (guarded ?checks db (r, db(p := q')))"
        by (simp only: RedisAcknowledge redis_step.simps redis_acknowledge_def Let_def key script prod.case)
      show "redis_event p op db = (if first_error ?checks = None
          then case r of Inl x \<Rightarrow> Idle | Inr x \<Rightarrow> Acknowledged j w n else Idle)"
        by (simp only: redis_event_def RedisAcknowledge redis_key.simps key if_True script_event.simps script
            redis_acknowledge_def Let_def prod.case accepted_guarded refl)
    qed (simp add: RedisAcknowledge)
  next
    case (RedisRelease name tenant j w n a now)
    obtain r q' where script: "releaseScript j w n (the a) now (db p) = (r, q')" by fastforce
    let ?checks = "[redis_assertLease j w n, parseDate a ''availableAt'', assertDocumentTenantContext (Some tenant)]"
    have key: "queue_prefix name tenant = p" using True RedisRelease by simp
    show ?thesis
    proof (rule script_refines [where db = db and p = p, OF _ _ _ release_script_step [OF q script] q])
      show "redis_step op db = snd (guarded ?checks db (r, db(p := q')))"
        by (simp only: RedisRelease redis_step.simps redis_release_def Let_def key script prod.case)
      show "redis_event p op db = (if first_error ?checks = None
          then case r of Inl x \<Rightarrow> Idle | Inr x \<Rightarrow> Released j w n else Idle)"
        by (simp only: redis_event_def RedisRelease redis_key.simps key if_True script_event.simps script
            redis_release_def Let_def prod.case accepted_guarded refl)
    qed (simp add: RedisRelease)
  next
    case (RedisRemoveFound name tenant documentId found)
    then show ?thesis
      using remove_script_step [OF q] ok True
      by (auto simp: redis_event_def redis_remove_found_def redis_ok_def redis_queue_view_def Let_def
          lease_step_simps split: option.splits)
  qed
qed

interpretation redis_queue: lease_queue "redis_ok p" "redis_fresh p" "redis_queue_view p" redis_clock
    "redis_event p" redis_step for p
  by unfold_locales (use redis_refines in blast)+

section \<open>Fencing of the Redis queues\<close>

text \<open>
  C22. Tokens fence in Redis under every interleaving of scripts, the two commands of a removal
  included: once a worker has claimed a job, a later accepted renewal, lease check,
  acknowledgement or release of the job carries at least the claimed token, and exactly that token
  only from the worker who claimed it with no claim in between.
\<close>

theorem redis_queue_fencing:
  assumes "redis_ok p db" "redis_fresh p op db" "redis_event p op db = Claimed j w n"
    and "fresh_run (redis_fresh p) redis_step ops (redis_step op db)"
    and "Enqueued j \<notin> snd ` set (queue_trace redis_clock (redis_event p) redis_step ops (redis_step op db))"
    and "redis_fresh p op' (queue_run redis_step ops (redis_step op db))"
    and "lease_use (redis_event p op' (queue_run redis_step ops (redis_step op db))) = Some (j, w', m)"
  shows "n \<le> m \<and> (m = n \<longrightarrow> w' = w \<and>
    (\<forall>(s, f) \<in> set (queue_trace redis_clock (redis_event p) redis_step ops (redis_step op db)).
       \<forall>v k. f \<noteq> Claimed j v k))"
  using assms by (rule redis_queue.fencing)

text \<open>
  C23. A live lease is exclusive: while the server time stays before the expiry of a lease in
  Redis and its job is neither renewed, acknowledged, released nor removed, no operation on any
  queue claims that job.
\<close>

theorem redis_lease_exclusive:
  assumes "redis_ok p db" "leased_until j until (redis_queue_view p db)"
    and "fresh_run (redis_fresh p) redis_step ops db"
    and "\<forall>(t, e) \<in> set (queue_trace redis_clock (redis_event p) redis_step ops db).
      t < until \<and> \<not> ends_lease j e"
  shows "\<forall>(t, e) \<in> set (queue_trace redis_clock (redis_event p) redis_step ops db).
    claim_of e = None \<or> fst (the (claim_of e)) \<noteq> j"
  using assms by (rule redis_queue.exclusive)

text \<open>
  Every command keeps the Redis keys of a queue consistent, in every run and interleaving from
  the empty queue: an identifier without a job hash is in no set, a queued job is in the ready set
  at its due instant and a claimed one in the leased set at its expiry, never in both, and the
  fencing token counts the claims.
\<close>

theorem redis_queue_invariant:
  assumes "fresh_run (redis_fresh p) redis_step ops (\<lambda>_. empty_queue)"
  shows "queue_ok (queue_run redis_step ops (\<lambda>_. empty_queue) p)"
  using redis_queue.run_ok [OF _ assms] by (simp add: redis_ok_def)

definition acme_user :: document_tenant where
  "acme_user = \<lparr>dt_companyId = ''acme'', dt_userId = ''user-1''\<rparr>"

definition acme_key :: string where
  "acme_key = ''avantime:{document-processing:acme}''"

definition redis_first :: redis_op where
  "redis_first = RedisEnqueue ''document-processing'' acme_user ''doc-1'' ''job-1'' ''corr-1'' 1000"

definition redis_claim_1 :: redis_op where
  "redis_claim_1 = RedisClaim ''document-processing'' acme_user ''worker-1'' 500 2000"

definition redis_claim_2 :: redis_op where
  "redis_claim_2 = RedisClaim ''document-processing'' acme_user ''worker-2'' 500 2600"

definition redis_renew_2 :: redis_op where
  "redis_renew_2 = RedisRenew ''document-processing'' acme_user ''job-1'' ''worker-2'' 2 500 2700"

definition redis_enqueued :: redis_db where
  "redis_enqueued = redis_step redis_first (\<lambda>_. empty_queue)"

lemma redis_sample_events:
  "redis_event acme_key redis_claim_1 redis_enqueued = Claimed ''job-1'' ''worker-1'' 1"
  "redis_event acme_key redis_claim_2 (redis_step redis_claim_1 redis_enqueued) =
     Claimed ''job-1'' ''worker-2'' 2"
  "redis_event acme_key redis_renew_2 (redis_step redis_claim_2 (redis_step redis_claim_1 redis_enqueued)) =
     Renewed ''job-1'' ''worker-2'' 2"
  by code_simp+

lemma redis_first_fresh: "fresh_run (redis_fresh acme_key) redis_step [redis_first] (\<lambda>_. empty_queue)"
  by (simp add: redis_fresh_def redis_first_def empty_queue_def)

lemma redis_sample_ok: "redis_ok acme_key redis_enqueued"
  using redis_queue.run_ok [OF _ redis_first_fresh] by (simp add: redis_ok_def redis_enqueued_def)

theorem redis_queue_fencing_witness:
  "\<exists>m. lease_use (redis_event acme_key redis_renew_2
      (queue_run redis_step [redis_claim_2] (redis_step redis_claim_1 redis_enqueued))) =
    Some (''job-1'', ''worker-2'', m) \<and> 1 < m"
proof -
  have fresh: "redis_fresh acme_key redis_claim_1 redis_enqueued"
    "fresh_run (redis_fresh acme_key) redis_step [redis_claim_2] (redis_step redis_claim_1 redis_enqueued)"
    "redis_fresh acme_key redis_renew_2
       (queue_run redis_step [redis_claim_2] (redis_step redis_claim_1 redis_enqueued))"
    by (simp_all add: redis_fresh_def redis_claim_1_def redis_claim_2_def redis_renew_2_def)
  have use: "lease_use (redis_event acme_key redis_renew_2
      (queue_run redis_step [redis_claim_2] (redis_step redis_claim_1 redis_enqueued))) =
    Some (''job-1'', ''worker-2'', 2)"
    by (simp add: redis_sample_events)
  have "(1::int) \<le> 2 \<and> (2 = (1::int) \<longrightarrow> ''worker-2'' = ''worker-1'' \<and>
    (\<forall>(s, f) \<in> set (queue_trace redis_clock (redis_event acme_key) redis_step [redis_claim_2]
        (redis_step redis_claim_1 redis_enqueued)). \<forall>v k. f \<noteq> Claimed ''job-1'' v k))"
    by (rule redis_queue_fencing [OF redis_sample_ok fresh(1) redis_sample_events(1) fresh(2) _ fresh(3) use])
      (simp add: redis_sample_events)
  with use show ?thesis by auto
qed

theorem redis_lease_exclusive_witness:
  "redis_event acme_key (RedisClaim ''document-processing'' acme_user ''worker-2'' 500 2400)
     (redis_step redis_claim_1 redis_enqueued) = Idle"
proof -
  let ?op = "RedisClaim ''document-processing'' acme_user ''worker-2'' 500 2400"
  have idle: "redis_event acme_key ?op (redis_step redis_claim_1 redis_enqueued) = Idle" by code_simp
  have ok: "redis_ok acme_key (redis_step redis_claim_1 redis_enqueued)"
    using redis_queue.step_ok [OF redis_sample_ok, of redis_claim_1]
    by (simp add: redis_fresh_def redis_claim_1_def)
  have lease: "leased_until ''job-1'' 2500 (redis_queue_view acme_key (redis_step redis_claim_1 redis_enqueued))"
  proof -
    have "map_of (rq_job (redis_step redis_claim_1 redis_enqueued acme_key)) ''job-1'' \<noteq> None \<and>
      v_lease (the (redis_view (redis_step redis_claim_1 redis_enqueued acme_key) ''job-1'')) =
        Some (''worker-1'', 2500)"
      by code_simp
    then show ?thesis by (auto simp: leased_until_def redis_queue_view_def redis_view_def)
  qed
  have "\<forall>(t, e) \<in> set (queue_trace redis_clock (redis_event acme_key) redis_step [?op]
      (redis_step redis_claim_1 redis_enqueued)). claim_of e = None \<or> fst (the (claim_of e)) \<noteq> ''job-1''"
    by (rule redis_lease_exclusive [OF ok lease]) (simp_all add: idle redis_fresh_def)
  with idle show ?thesis by simp
qed

theorem redis_queue_invariant_witness:
  "queue_ok (queue_run redis_step [redis_first] (\<lambda>_. empty_queue) acme_key)"
  by (rule redis_queue_invariant [OF redis_first_fresh])

section \<open>The document index\<close>

text \<open>
  The index maps a document to its live job and back. It is what makes \<open>enqueue\<close> idempotent, and it
  needs \<open>removeForDocument\<close> to remove the job it looked up while the index still names it.
\<close>

definition indexed :: "redis_queue \<Rightarrow> bool" where
  "indexed q \<longleftrightarrow>
     (\<forall>d j. map_of (rq_documents q) d = Some j \<longleftrightarrow>
        (\<exists>h. map_of (rq_job q) j = Some h \<and> rj_documentId h = d))"

lemma indexed_unique:
  assumes "indexed q" "map_of (rq_job q) i = Some h" "map_of (rq_job q) j = Some g"
    and "rj_documentId h = rj_documentId g"
  shows "i = j"
  using assms unfolding indexed_def by (metis option.inject)

fun atomic_removal :: "redis_op \<Rightarrow> redis_db \<Rightarrow> bool" where
  "atomic_removal (RedisRemoveFound name tenant documentId found) db =
     (redis_remove_lookup name tenant documentId db = Inr found)"
| "atomic_removal op db = True"

lemma indexed_same:
  assumes "indexed q" "rq_documents q' = rq_documents q"
    and "\<And>j. map_option rj_documentId (map_of (rq_job q') j) = map_option rj_documentId (map_of (rq_job q) j)"
  shows "indexed q'"
proof -
  have "(\<exists>h. map_of (rq_job q') j = Some h \<and> rj_documentId h = d) \<longleftrightarrow>
      (\<exists>h. map_of (rq_job q) j = Some h \<and> rj_documentId h = d)" for j d
    using assms(3) [of j] by (cases "map_of (rq_job q) j"; cases "map_of (rq_job q') j") auto
  with assms(1,2) show ?thesis by (simp add: indexed_def)
qed

lemma indexed_drop:
  assumes ix: "indexed q" and h: "map_of (rq_job q) j = Some h"
    and q': "map_of (rq_documents q') = (map_of (rq_documents q))(rj_documentId h := None)"
      "map_of (rq_job q') = (map_of (rq_job q))(j := None)"
  shows "indexed q'"
  unfolding indexed_def
proof (intro allI iffI)
  fix d i assume "map_of (rq_documents q') d = Some i"
  then have d: "d \<noteq> rj_documentId h" "map_of (rq_documents q) d = Some i"
    by (auto simp: q' split: if_splits)
  with ix h show "\<exists>g. map_of (rq_job q') i = Some g \<and> rj_documentId g = d"
    unfolding indexed_def by (auto simp: q')
next
  fix d i assume "\<exists>g. map_of (rq_job q') i = Some g \<and> rj_documentId g = d"
  then obtain g where g: "i \<noteq> j" "map_of (rq_job q) i = Some g" "rj_documentId g = d"
    by (auto simp: q' split: if_splits)
  with indexed_unique [OF ix h g(2)] have "d \<noteq> rj_documentId h" by auto
  with ix g show "map_of (rq_documents q') d = Some i" unfolding indexed_def by (auto simp: q')
qed

lemma indexed_enqueue:
  assumes ix: "indexed q" and new: "map_of (rq_job q) newId = None"
  shows "indexed (snd (enqueueScript documentId newId c companyId now q))"
proof (cases "map_of (rq_documents q) documentId")
  case None
  with ix have "\<And>j h. map_of (rq_job q) j = Some h \<Longrightarrow> rj_documentId h \<noteq> documentId"
    by (auto simp: indexed_def) (metis option.distinct(1))
  moreover have "\<And>d j. map_of (rq_documents q) d = Some j \<Longrightarrow> j \<noteq> newId"
    using ix new by (auto simp: indexed_def)
  ultimately show ?thesis
    using ix None new by (auto simp: enqueueScript_def Let_def indexed_def)
qed (use ix in \<open>simp add: enqueueScript_def\<close>)

lemma indexed_claim:
  assumes ok: "queue_ok q" and ix: "indexed q"
  shows "indexed (snd (claimScript w d now q))"
proof -
  obtain pick q1 where pick: "picked now q = (pick, q1)" by (cases "picked now q")
  then have q1: "rq_documents q1 = rq_documents q" "rq_job q1 = rq_job q"
    by (auto simp: picked_def split: option.splits)
  then have "map_option rj_documentId (map_of (rq_job (snd (claimScript w d now q))) j) =
      map_option rj_documentId (map_of (rq_job q) j)" for j
    using pick
    by (cases pick) (auto simp: claimScript_def picked_def [symmetric] Let_def split: option.split)
  moreover have "rq_documents (snd (claimScript w d now q)) = rq_documents q"
    using pick q1
    by (cases pick) (auto simp: claimScript_def picked_def [symmetric] Let_def split: option.split)
  ultimately show ?thesis using ix by (intro indexed_same [OF ix]) simp_all
qed

lemma indexed_lease_scripts:
  assumes ix: "indexed q"
  shows "indexed (snd (renewScript j w n d now q))" "indexed (snd (releaseScript j w n a now q))"
    "indexed (snd (assertLeaseScript j w n now q))" "indexed (snd (acknowledgeScript j w n now q))"
proof -
  show "indexed (snd (renewScript j w n d now q))"
    using ix by (cases "lease_owner j w n now q")
      (auto simp: renewScript_def Let_def dest: lease_ownerD(1) intro!: indexed_same [OF ix])
  show "indexed (snd (releaseScript j w n a now q))"
    using ix by (cases "lease_owner j w n now q")
      (auto simp: releaseScript_def dest: lease_ownerD(1) intro!: indexed_same [OF ix])
  show "indexed (snd (assertLeaseScript j w n now q))"
    using ix by (cases "lease_owner j w n now q") (auto simp: assertLeaseScript_def)
  show "indexed (snd (acknowledgeScript j w n now q))"
    using ix by (cases "lease_owner j w n now q")
      (auto simp: acknowledgeScript_def dest: lease_ownerD(1) intro!: indexed_drop [OF ix])
qed

lemma indexed_remove:
  assumes ix: "indexed q" and found: "map_of (rq_documents q) documentId = Some j"
  shows "indexed (removeScript documentId j q)"
proof -
  from ix found obtain h where "map_of (rq_job q) j = Some h" "rj_documentId h = documentId"
    by (auto simp: indexed_def)
  then show ?thesis by (intro indexed_drop [OF ix]) (auto simp: removeScript_def)
qed

lemma indexed_guarded:
  "indexed (db p) \<Longrightarrow> indexed q' \<Longrightarrow> indexed (snd (guarded checks db (r, db(p := q'))) p)"
  by (auto simp: guarded_def split: option.splits)

lemma step_indexed:
  assumes ok: "redis_ok p db" and ix: "indexed (db p)" and fresh: "redis_fresh p op db"
    and removal: "atomic_removal op db"
  shows "indexed (redis_step op db p)"
proof (cases "redis_key op = p")
  case False
  with ix step_other_queue [OF False] show ?thesis by simp
next
  case True
  note keep = indexed_lease_scripts [OF ix] indexed_claim [OF ok [unfolded redis_ok_def] ix]
  note guarded = indexed_guarded [of db p, OF ix]
  show ?thesis
  proof (cases op)
    case (RedisEnqueue name tenant documentId newId c now)
    then have "map_of (rq_job (db p)) newId = None" using fresh True by (simp add: redis_fresh_def)
    from guarded [OF indexed_enqueue [OF ix this]] True RedisEnqueue show ?thesis
      by (simp add: redis_enqueue_def Let_def split_def)
  next
    case (RedisRemoveFound name tenant documentId found)
    with True removal ix show ?thesis
      by (auto simp: redis_remove_found_def redis_remove_lookup_def Let_def
          split: option.splits intro!: indexed_remove)
  qed (use True in \<open>simp_all add: guarded keep redis_claim_def redis_renew_def redis_assertOwnedLease_def
      redis_acknowledge_def redis_release_def Let_def split_def\<close>)
qed

text \<open>
  Enqueueing is idempotent per document: in every run in which a removal deletes the job the
  index names at that moment, the index of every queue maps each document exactly to its live job,
  so no document ever has two.
\<close>

theorem redis_one_job_per_document:
  assumes "fresh_run (\<lambda>op db. redis_fresh p op db \<and> atomic_removal op db) redis_step ops (\<lambda>_. empty_queue)"
  shows "indexed (queue_run redis_step ops (\<lambda>_. empty_queue) p)"
proof -
  have run: "indexed (queue_run redis_step ops db p)"
    if "redis_ok p db" "indexed (db p)"
      "fresh_run (\<lambda>op db. redis_fresh p op db \<and> atomic_removal op db) redis_step ops db" for db
    using that
    by (induction ops arbitrary: db) (auto intro: step_indexed redis_queue.step_ok)
  show ?thesis
    by (rule run [OF _ _ assms]) (simp_all add: redis_ok_def, simp add: indexed_def empty_queue_def)
qed

theorem redis_one_job_per_document_witness:
  "indexed (queue_run redis_step [redis_first, redis_claim_1] (\<lambda>_. empty_queue) acme_key)"
  by (rule redis_one_job_per_document)
    (simp add: redis_fresh_def redis_first_def redis_claim_1_def empty_queue_def)

text \<open>
  The two commands are not atomic. A removal that looks up the job, is overtaken by its
  acknowledgement and a new enqueue of the document, and then deletes, drops the index entry of the
  new job; the next enqueue makes a second live job for the document.
\<close>

definition overtaken_removal :: "redis_op list" where
  "overtaken_removal =
     [redis_first, redis_claim_1,
      RedisAcknowledge ''document-processing'' acme_user ''job-1'' ''worker-1'' 1 2100,
      RedisEnqueue ''document-processing'' acme_user ''doc-1'' ''job-2'' ''corr-2'' 2200,
      RedisRemoveFound ''document-processing'' acme_user ''doc-1'' (Some ''job-1''),
      RedisEnqueue ''document-processing'' acme_user ''doc-1'' ''job-3'' ''corr-3'' 2300]"

theorem overtaken_removal_duplicates:
  "map (\<lambda>(j, h). (j, rj_documentId h))
     (rq_job (queue_run redis_step overtaken_removal (\<lambda>_. empty_queue) acme_key)) =
   [(''job-2'', ''doc-1''), (''job-3'', ''doc-1'')]"
  by code_simp

end
