(* ===== verification/PostgresQueue.thy ===== *)
theory PostgresQueue
  imports LocalQueue
begin

text \<open>
  The PostgreSQL queue of embedding jobs (\<open>PostgreSQLEmbeddingJobQueue\<close> of
  \<open>lib/embedding-queue.ts\<close>) on the table \<open>DocumentEmbeddingJob\<close>: one SQL statement per operation,
  hence one atomic step; \<open>CURRENT_TIMESTAMP\<close> is an argument, and so are the rows that other
  transactions hold locked, which the claim skips. The second half of the theory shows that the
  queue keeps the contract of \<open>LeaseQueue\<close>.
\<close>

section \<open>The table\<close>

datatype db_job_status = JOB_QUEUED | JOB_PROCESSING

record db_job =
  dj_id :: string
  dj_companyId :: string
  dj_documentId :: string
  dj_correlationId :: string
  dj_status :: db_job_status
  dj_attempts :: int
  dj_availableAt :: ms
  dj_leaseOwner :: "string option"
  dj_leaseUntil :: "ms option"
  dj_fencingToken :: int
  dj_heartbeatAt :: "ms option"
  dj_createdAt :: ms
  dj_updatedAt :: ms

record embedding_db =
  em_available :: bool
  em_documents :: "(string \<times> string) list"
  em_jobs :: "db_job list"

definition mapDatabaseJob :: "db_job \<Rightarrow> public_job" where
  "mapDatabaseJob job =
     \<lparr>pj_id = dj_id job, pj_documentId = dj_documentId job, pj_version = 1,
      pj_correlationId = dj_correlationId job, pj_enqueuedAt = Some (dj_createdAt job),
      pj_availableAt = Some (dj_availableAt job), pj_attempts = dj_attempts job,
      pj_fencingToken = dj_fencingToken job, pj_leaseExpiresAt = map_option Some (dj_leaseUntil job)\<rparr>"

definition int4 :: "int \<Rightarrow> bool" where
  "int4 n \<longleftrightarrow> - 2147483648 \<le> n \<and> n \<le> 2147483647"

definition database_of :: "document_tenant option \<Rightarrow> embedding_db \<Rightarrow> document_error option" where
  "database_of tenant db = first_error
     [(case tenant of None \<Rightarrow> None | Some t \<Rightarrow> assertDocumentTenantContext (Some t)),
      demand (em_available db) QUEUE_UNAVAILABLE]"

definition pg_assertLeaseArguments :: "string \<Rightarrow> string \<Rightarrow> int \<Rightarrow> document_error option" where
  "pg_assertLeaseArguments jobId workerId fencingToken = first_error
     [assertSafeDocumentSegment jobId ''embedding job id'',
      assertSafeDocumentSegment workerId ''workerId'',
      demand (safe_integer fencingToken \<and> 0 < fencingToken) LEASE_TOKEN_INVALID]"

section \<open>The operations\<close>

definition of_document :: "string \<Rightarrow> string \<Rightarrow> db_job \<Rightarrow> bool" where
  "of_document companyId documentId job \<longleftrightarrow>
     dj_companyId job = companyId \<and> dj_documentId job = documentId"

text \<open>\<open>INSERT ... ON CONFLICT ("companyId", "documentId") DO NOTHING RETURNING\<close>, else the stored row.\<close>

definition inserted_job :: "string \<Rightarrow> string \<Rightarrow> string \<Rightarrow> string \<Rightarrow> ms \<Rightarrow> db_job" where
  "inserted_job companyId documentId newId newCorrelationId now =
     \<lparr>dj_id = newId, dj_companyId = companyId, dj_documentId = documentId,
      dj_correlationId = newCorrelationId, dj_status = JOB_QUEUED, dj_attempts = 0,
      dj_availableAt = now, dj_leaseOwner = None, dj_leaseUntil = None, dj_fencingToken = 0,
      dj_heartbeatAt = None, dj_createdAt = now, dj_updatedAt = now\<rparr>"

definition enqueue_statement ::
  "string \<Rightarrow> string \<Rightarrow> string \<Rightarrow> string \<Rightarrow> ms \<Rightarrow> embedding_db \<Rightarrow>
     (document_error, public_job \<times> bool, embedding_db) handled" where
  "enqueue_statement companyId documentId newId newCorrelationId now db =
     (case List.find (of_document companyId documentId) (em_jobs db) of
        Some stored \<Rightarrow> (Inr (mapDatabaseJob stored, False), db)
      | None \<Rightarrow>
          if list_ex (\<lambda>job. dj_id job = newId) (em_jobs db) then (Inl JOB_UNIQUE_VIOLATION, db)
          else if \<not> contains (em_documents db) (companyId, documentId)
          then (Inl DOCUMENT_FOREIGN_KEY_VIOLATION, db)
          else
            let job = inserted_job companyId documentId newId newCorrelationId now in
            (Inr (mapDatabaseJob job, True), db\<lparr>em_jobs := em_jobs db @ [job]\<rparr>))"

definition pg_enqueue ::
  "document_tenant \<Rightarrow> string \<Rightarrow> string \<Rightarrow> string \<Rightarrow> ms \<Rightarrow> embedding_db \<Rightarrow>
     (document_error, public_job \<times> bool, embedding_db) handled" where
  "pg_enqueue tenant documentId newId newCorrelationId now db =
     guarded [database_of (Some tenant) db, assertSafeDocumentSegment documentId ''document id''] db
       (enqueue_statement (dt_companyId tenant) documentId newId newCorrelationId now db)"

definition expired_by :: "ms \<Rightarrow> ms option \<Rightarrow> bool" where
  "expired_by now leaseUntil \<longleftrightarrow> (case leaseUntil of None \<Rightarrow> False | Some t \<Rightarrow> t \<le> now)"

text \<open>
  The candidate of a claim: the oldest row of the tenant that is due and free or expired, among
  those no other transaction has locked.
\<close>

definition pg_candidate :: "string \<Rightarrow> ms \<Rightarrow> string list \<Rightarrow> db_job list \<Rightarrow> db_job option" where
  "pg_candidate companyId now locked jobs =
     (case sort_key dj_createdAt (filter (\<lambda>job. dj_companyId job = companyId \<and> dj_availableAt job \<le> now \<and>
               (dj_status job = JOB_QUEUED \<or> expired_by now (dj_leaseUntil job)) \<and>
               \<not> contains locked (dj_id job)) jobs) of
        [] \<Rightarrow> None
      | job # _ \<Rightarrow> Some job)"

definition pg_claimed :: "string \<Rightarrow> ms \<Rightarrow> ms \<Rightarrow> db_job \<Rightarrow> db_job" where
  "pg_claimed workerId leaseUntil now job =
     job\<lparr>dj_status := JOB_PROCESSING, dj_leaseOwner := Some workerId, dj_leaseUntil := Some leaseUntil,
         dj_attempts := dj_attempts job + 1, dj_fencingToken := dj_fencingToken job + 1,
         dj_heartbeatAt := Some now, dj_updatedAt := now\<rparr>"

definition claim_statement ::
  "string \<Rightarrow> string \<Rightarrow> ms \<Rightarrow> int \<Rightarrow> string list \<Rightarrow> embedding_db \<Rightarrow>
     (document_error, public_job option, embedding_db) handled" where
  "claim_statement companyId workerId now duration locked db =
     (case pg_candidate companyId now locked (em_jobs db) of
        None \<Rightarrow> (Inr None, db)
      | Some candidate \<Rightarrow>
          if \<not> int4 (dj_attempts candidate + 1) \<or> \<not> int4 (dj_fencingToken candidate + 1)
          then (Inl INTEGER_OUT_OF_RANGE, db)
          else
            (Inr (Some (mapDatabaseJob (pg_claimed workerId (now + duration) now candidate))),
             db\<lparr>em_jobs := update_where (\<lambda>job. dj_id job = dj_id candidate)
                  (pg_claimed workerId (now + duration) now) (em_jobs db)\<rparr>))"

definition pg_claim ::
  "document_tenant \<Rightarrow> string \<Rightarrow> ms \<Rightarrow> int option \<Rightarrow> string list \<Rightarrow> embedding_db \<Rightarrow>
     (document_error, public_job option, embedding_db) handled" where
  "pg_claim tenant workerId now leaseDurationMs locked db =
     (let duration = (case leaseDurationMs of None \<Rightarrow> 5 * 60000 | Some d \<Rightarrow> d) in
      guarded [database_of (Some tenant) db, assertSafeDocumentSegment workerId ''workerId'',
               assertLeaseDuration duration] db
        (claim_statement (dt_companyId tenant) workerId now duration locked db))"

text \<open>The condition of the four statements that need the lease.\<close>

definition lease_where :: "string \<Rightarrow> string \<Rightarrow> string \<Rightarrow> int \<Rightarrow> ms \<Rightarrow> db_job \<Rightarrow> bool" where
  "lease_where companyId jobId workerId fencingToken now job \<longleftrightarrow>
     dj_companyId job = companyId \<and> dj_id job = jobId \<and> dj_status job = JOB_PROCESSING \<and>
     dj_leaseOwner job = Some workerId \<and> dj_fencingToken job = fencingToken \<and>
     (case dj_leaseUntil job of None \<Rightarrow> False | Some t \<Rightarrow> now < t)"

definition renewed_job :: "ms \<Rightarrow> ms \<Rightarrow> db_job \<Rightarrow> db_job" where
  "renewed_job leaseUntil now job =
     job\<lparr>dj_leaseUntil := Some leaseUntil, dj_heartbeatAt := Some now, dj_updatedAt := now\<rparr>"

definition renew_statement ::
  "string \<Rightarrow> string \<Rightarrow> string \<Rightarrow> int \<Rightarrow> int \<Rightarrow> ms \<Rightarrow> embedding_db \<Rightarrow>
     (document_error, public_job, embedding_db) handled" where
  "renew_statement companyId jobId workerId fencingToken leaseDurationMs now db =
     (let condition = lease_where companyId jobId workerId fencingToken now;
          renewed = renewed_job (now + leaseDurationMs) now in
      case List.find condition (em_jobs db) of
        None \<Rightarrow> (Inl STALE_LEASE, db)
      | Some job \<Rightarrow>
          (Inr (mapDatabaseJob (renewed job)),
           db\<lparr>em_jobs := update_where condition renewed (em_jobs db)\<rparr>))"

definition pg_renew ::
  "document_tenant \<Rightarrow> string \<Rightarrow> string \<Rightarrow> int \<Rightarrow> int \<Rightarrow> ms \<Rightarrow> embedding_db \<Rightarrow>
     (document_error, public_job, embedding_db) handled" where
  "pg_renew tenant jobId workerId fencingToken leaseDurationMs now db =
     guarded [database_of (Some tenant) db, pg_assertLeaseArguments jobId workerId fencingToken,
              assertLeaseDuration leaseDurationMs] db
       (renew_statement (dt_companyId tenant) jobId workerId fencingToken leaseDurationMs now db)"

definition assert_statement ::
  "string \<Rightarrow> string \<Rightarrow> string \<Rightarrow> int \<Rightarrow> ms \<Rightarrow> embedding_db \<Rightarrow>
     (document_error, unit, embedding_db) handled" where
  "assert_statement companyId jobId workerId fencingToken now db =
     (if list_ex (lease_where companyId jobId workerId fencingToken now) (em_jobs db)
      then (Inr (), db) else (Inl STALE_LEASE, db))"

definition pg_assertLease ::
  "document_tenant \<Rightarrow> string \<Rightarrow> string \<Rightarrow> int option \<Rightarrow> ms \<Rightarrow> embedding_db \<Rightarrow>
     (document_error, unit, embedding_db) handled" where
  "pg_assertLease tenant jobId workerId fencingToken now db =
     guarded [database_of (Some tenant) db, demand (fencingToken \<noteq> None) LEASE_TOKEN_REQUIRED,
              pg_assertLeaseArguments jobId workerId (the fencingToken)] db
       (assert_statement (dt_companyId tenant) jobId workerId (the fencingToken) now db)"

definition acknowledge_statement ::
  "string \<Rightarrow> string \<Rightarrow> string \<Rightarrow> int \<Rightarrow> ms \<Rightarrow> embedding_db \<Rightarrow>
     (document_error, unit, embedding_db) handled" where
  "acknowledge_statement companyId jobId workerId fencingToken now db =
     (let condition = lease_where companyId jobId workerId fencingToken now in
      if count_where condition (em_jobs db) = 0 then (Inl STALE_LEASE, db)
      else (Inr (), db\<lparr>em_jobs := filter (\<lambda>job. \<not> condition job) (em_jobs db)\<rparr>))"

definition pg_acknowledge ::
  "document_tenant \<Rightarrow> string \<Rightarrow> string \<Rightarrow> int \<Rightarrow> ms \<Rightarrow> embedding_db \<Rightarrow>
     (document_error, unit, embedding_db) handled" where
  "pg_acknowledge tenant jobId workerId fencingToken now db =
     guarded [database_of (Some tenant) db, pg_assertLeaseArguments jobId workerId fencingToken] db
       (acknowledge_statement (dt_companyId tenant) jobId workerId fencingToken now db)"

definition freed_job :: "ms \<Rightarrow> ms \<Rightarrow> db_job \<Rightarrow> db_job" where
  "freed_job availableAt now job =
     job\<lparr>dj_status := JOB_QUEUED, dj_leaseOwner := None, dj_leaseUntil := None,
         dj_heartbeatAt := None, dj_availableAt := availableAt, dj_updatedAt := now\<rparr>"

definition release_statement ::
  "string \<Rightarrow> string \<Rightarrow> string \<Rightarrow> int \<Rightarrow> ms \<Rightarrow> ms \<Rightarrow> embedding_db \<Rightarrow>
     (document_error, unit, embedding_db) handled" where
  "release_statement companyId jobId workerId fencingToken availableAt now db =
     (let condition = lease_where companyId jobId workerId fencingToken now in
      if count_where condition (em_jobs db) = 0 then (Inl JOB_NOT_CLAIMED_BY_WORKER, db)
      else (Inr (), db\<lparr>em_jobs := update_where condition (freed_job availableAt now) (em_jobs db)\<rparr>))"

definition pg_release ::
  "document_tenant \<Rightarrow> string \<Rightarrow> string \<Rightarrow> date_text \<Rightarrow> int option \<Rightarrow> ms \<Rightarrow> embedding_db \<Rightarrow>
     (document_error, unit, embedding_db) handled" where
  "pg_release tenant jobId workerId availableAt fencingToken now db =
     guarded [database_of (Some tenant) db, demand (fencingToken \<noteq> None) LEASE_TOKEN_REQUIRED,
              pg_assertLeaseArguments jobId workerId (the fencingToken),
              parseDate availableAt ''availableAt''] db
       (release_statement (dt_companyId tenant) jobId workerId (the fencingToken) (the availableAt) now db)"

definition pg_removeForDocument ::
  "document_tenant \<Rightarrow> string \<Rightarrow> embedding_db \<Rightarrow> (document_error, unit, embedding_db) handled" where
  "pg_removeForDocument tenant documentId db =
     guarded [database_of (Some tenant) db] db
       (Inr (), db\<lparr>em_jobs := filter (\<lambda>job. \<not> of_document (dt_companyId tenant) documentId job)
                     (em_jobs db)\<rparr>)"

definition pg_list :: "document_tenant \<Rightarrow> embedding_db \<Rightarrow> document_error + public_job list" where
  "pg_list tenant db =
     (case database_of (Some tenant) db of
        Some e \<Rightarrow> Inl e
      | None \<Rightarrow> Inr (map mapDatabaseJob
          (sort_key dj_createdAt (filter (\<lambda>job. dj_companyId job = dt_companyId tenant) (em_jobs db)))))"

section \<open>The contract\<close>

definition db_job_view :: "db_job \<Rightarrow> job_view" where
  "db_job_view job =
     \<lparr>v_document = dj_documentId job, v_available = dj_availableAt job, v_attempts = dj_attempts job,
      v_token = dj_fencingToken job,
      v_lease = (case (dj_leaseOwner job, dj_leaseUntil job) of
                   (Some w, Some t) \<Rightarrow> Some (w, t) | _ \<Rightarrow> None)\<rparr>"

definition pg_view :: "embedding_db \<Rightarrow> lease_view" where
  "pg_view db = table_map dj_id db_job_view (em_jobs db)"

definition db_job_ok :: "db_job \<Rightarrow> bool" where
  "db_job_ok job \<longleftrightarrow> dj_attempts job = dj_fencingToken job \<and> 0 \<le> dj_fencingToken job \<and>
     int4 (dj_fencingToken job) \<and>
     (dj_status job = JOB_QUEUED \<longrightarrow> dj_leaseOwner job = None \<and> dj_leaseUntil job = None) \<and>
     (dj_status job = JOB_PROCESSING \<longrightarrow> dj_leaseOwner job \<noteq> None \<and> dj_leaseUntil job \<noteq> None)"

definition pg_ok :: "embedding_db \<Rightarrow> bool" where
  "pg_ok db \<longleftrightarrow> distinct (map dj_id (em_jobs db)) \<and>
     distinct (map (\<lambda>job. (dj_companyId job, dj_documentId job)) (em_jobs db)) \<and>
     (\<forall>job \<in> set (em_jobs db). db_job_ok job)"

lemma pg_okD:
  assumes "pg_ok db"
  shows "distinct (map dj_id (em_jobs db))"
    "distinct (map (\<lambda>job. (dj_companyId job, dj_documentId job)) (em_jobs db))"
    "job \<in> set (em_jobs db) \<Longrightarrow> db_job_ok job"
  using assms by (auto simp: pg_ok_def)

lemma pg_lookup:
  "pg_ok db \<Longrightarrow> job \<in> set (em_jobs db) \<Longrightarrow> pg_view db (dj_id job) = Some (db_job_view job)"
  using table_map_Some [OF pg_okD(1), of db job db_job_view] by (simp add: pg_view_def)

text \<open>Rewriting one row by its identifier, or deleting it.\<close>

lemma pg_rewrite:
  assumes ok: "pg_ok db" and job: "job \<in> set (em_jobs db)" "p job"
    and p: "\<And>s. p s \<Longrightarrow> dj_id s = dj_id job"
    and f: "db_job_ok (f job)" "\<And>s. dj_id (f s) = dj_id s" "\<And>s. dj_companyId (f s) = dj_companyId s"
      "\<And>s. dj_documentId (f s) = dj_documentId s"
  shows "pg_ok (db\<lparr>em_jobs := update_where p f (em_jobs db)\<rparr>)"
    and "pg_view (db\<lparr>em_jobs := update_where p f (em_jobs db)\<rparr>) =
      (pg_view db)(dj_id job \<mapsto> db_job_view (f job))"
proof -
  have one: "s = job" if "s \<in> set (em_jobs db)" "p s" for s
    using distinct_key_eq [OF pg_okD(1) [OF ok] that(1) job(1) p [OF that(2)]] .
  have "db_job_ok s" if "s \<in> set (update_where p f (em_jobs db))" for s
    using that
  proof (cases rule: in_update_whereE)
    case kept
    then show ?thesis using pg_okD(3) [OF ok] by simp
  next
    case (changed s')
    then show ?thesis using one f(1) by simp
  qed
  moreover have "map dj_id (update_where p f (em_jobs db)) = map dj_id (em_jobs db)"
    "map (\<lambda>job. (dj_companyId job, dj_documentId job)) (update_where p f (em_jobs db)) =
     map (\<lambda>job. (dj_companyId job, dj_documentId job)) (em_jobs db)"
    using f(2-4) by (simp_all add: map_update_where)
  ultimately show "pg_ok (db\<lparr>em_jobs := update_where p f (em_jobs db)\<rparr>)"
    using ok by (simp add: pg_ok_def)
  show "pg_view (db\<lparr>em_jobs := update_where p f (em_jobs db)\<rparr>) =
      (pg_view db)(dj_id job \<mapsto> db_job_view (f job))"
  proof -
    have "table_map dj_id db_job_view (update_where p f (em_jobs db)) =
        (table_map dj_id db_job_view (em_jobs db))(dj_id job \<mapsto> db_job_view (f job))"
      by (rule table_map_update_where [where r = job]) (rule pg_okD(1) [OF ok] job f(2) | erule p)+
    then show ?thesis by (simp add: pg_view_def)
  qed
qed

lemma pg_delete:
  assumes ok: "pg_ok db" and job: "job \<in> set (em_jobs db)"
    and p: "\<And>s. s \<in> set (em_jobs db) \<Longrightarrow> p s \<longleftrightarrow> s = job"
  shows "pg_ok (db\<lparr>em_jobs := filter (\<lambda>s. \<not> p s) (em_jobs db)\<rparr>)"
    and "pg_view (db\<lparr>em_jobs := filter (\<lambda>s. \<not> p s) (em_jobs db)\<rparr>) = (pg_view db)(dj_id job := None)"
proof -
  show "pg_ok (db\<lparr>em_jobs := filter (\<lambda>s. \<not> p s) (em_jobs db)\<rparr>)"
    using ok by (auto simp: pg_ok_def distinct_map inj_on_def)
  show "pg_view (db\<lparr>em_jobs := filter (\<lambda>s. \<not> p s) (em_jobs db)\<rparr>) = (pg_view db)(dj_id job := None)"
    using filter_key_single [OF pg_okD(1) [OF ok] job p]
    by (simp add: pg_view_def table_map_filter)
qed

datatype pg_op =
    PgEnqueue document_tenant string string string ms
  | PgClaim document_tenant string ms "int option" "string list"
  | PgRenew document_tenant string string int int ms
  | PgAssert document_tenant string string "int option" ms
  | PgAcknowledge document_tenant string string int ms
  | PgRelease document_tenant string string date_text "int option" ms
  | PgRemove document_tenant string

fun pg_clock :: "pg_op \<Rightarrow> ms" where
  "pg_clock (PgEnqueue tenant documentId newId c now) = now"
| "pg_clock (PgClaim tenant w now d locked) = now"
| "pg_clock (PgRenew tenant j w n d now) = now"
| "pg_clock (PgAssert tenant j w n now) = now"
| "pg_clock (PgAcknowledge tenant j w n now) = now"
| "pg_clock (PgRelease tenant j w a n now) = now"
| "pg_clock (PgRemove tenant documentId) = 0"

fun pg_step :: "pg_op \<Rightarrow> embedding_db \<Rightarrow> embedding_db" where
  "pg_step (PgEnqueue tenant documentId newId c now) db = snd (pg_enqueue tenant documentId newId c now db)"
| "pg_step (PgClaim tenant w now d locked) db = snd (pg_claim tenant w now d locked db)"
| "pg_step (PgRenew tenant j w n d now) db = snd (pg_renew tenant j w n d now db)"
| "pg_step (PgAssert tenant j w n now) db = snd (pg_assertLease tenant j w n now db)"
| "pg_step (PgAcknowledge tenant j w n now) db = snd (pg_acknowledge tenant j w n now db)"
| "pg_step (PgRelease tenant j w a n now) db = snd (pg_release tenant j w a n now db)"
| "pg_step (PgRemove tenant documentId) db = snd (pg_removeForDocument tenant documentId db)"

fun pg_event :: "pg_op \<Rightarrow> embedding_db \<Rightarrow> lease_event" where
  "pg_event (PgEnqueue tenant documentId newId c now) db =
     (case fst (pg_enqueue tenant documentId newId c now db) of
        Inr (pj, True) \<Rightarrow> Enqueued (pj_id pj) | _ \<Rightarrow> Idle)"
| "pg_event (PgClaim tenant w now d locked) db =
     (case fst (pg_claim tenant w now d locked db) of
        Inr (Some pj) \<Rightarrow> Claimed (pj_id pj) w (pj_fencingToken pj) | _ \<Rightarrow> Idle)"
| "pg_event (PgRenew tenant j w n d now) db =
     (case fst (pg_renew tenant j w n d now db) of Inr _ \<Rightarrow> Renewed j w n | _ \<Rightarrow> Idle)"
| "pg_event (PgAssert tenant j w n now) db =
     (case fst (pg_assertLease tenant j w n now db) of Inr _ \<Rightarrow> Checked j w (the n) | _ \<Rightarrow> Idle)"
| "pg_event (PgAcknowledge tenant j w n now) db =
     (case fst (pg_acknowledge tenant j w n now db) of Inr _ \<Rightarrow> Acknowledged j w n | _ \<Rightarrow> Idle)"
| "pg_event (PgRelease tenant j w a n now) db =
     (case fst (pg_release tenant j w a n now db) of Inr _ \<Rightarrow> Released j w (the n) | _ \<Rightarrow> Idle)"
| "pg_event (PgRemove tenant documentId) db =
     (case fst (pg_removeForDocument tenant documentId db) of
        Inr _ \<Rightarrow>
          (case List.find (of_document (dt_companyId tenant) documentId) (em_jobs db) of
             None \<Rightarrow> Idle | Some job \<Rightarrow> Removed (dj_id job))
      | _ \<Rightarrow> Idle)"

definition pg_refines :: "ms \<Rightarrow> lease_event \<Rightarrow> embedding_db \<Rightarrow> embedding_db \<Rightarrow> bool" where
  "pg_refines t e db db' \<longleftrightarrow> pg_ok db' \<and> lease_step t e (pg_view db) (pg_view db')"

lemma pg_refines_idle [simp]: "pg_refines t Idle db db \<longleftrightarrow> pg_ok db"
  by (simp add: pg_refines_def lease_step_simps)

text \<open>A guarded statement: either nothing happens, or the statement runs.\<close>

lemma guarded_refines:
  assumes "pg_ok db" "\<And>e. ev (Inl e) = Idle"
    and "first_error checks = None \<Longrightarrow> pg_refines t (ev (fst h)) db (snd h)"
  shows "pg_refines t (ev (fst (guarded checks db h))) db (snd (guarded checks db h))"
  using assms by (auto simp: guarded_def split: option.splits)

lemma lease_whereD:
  assumes "lease_where c j w n now job" "db_job_ok job"
  shows "dj_id job = j" "held_by w n (db_job_view job)" "alive_at now (db_job_view job)"
  using assms by (auto simp: lease_where_def held_by_def alive_at_def db_job_view_def split: option.splits)

lemma lease_row:
  assumes ok: "pg_ok db" and job: "job \<in> set (em_jobs db)" "lease_where c j w n now job"
  shows "pg_view db j = Some (db_job_view job)" "held_by w n (db_job_view job)"
    "alive_at now (db_job_view job)" "dj_id job = j"
    "\<And>s. s \<in> set (em_jobs db) \<Longrightarrow> lease_where c j w n now s \<longleftrightarrow> s = job"
proof -
  note d = lease_whereD [OF job(2) pg_okD(3) [OF ok job(1)]]
  show "pg_view db j = Some (db_job_view job)" using pg_lookup [OF ok job(1)] d(1) by simp
  show "held_by w n (db_job_view job)" "alive_at now (db_job_view job)" "dj_id job = j" by (fact d)+
  show "lease_where c j w n now s \<longleftrightarrow> s = job" if "s \<in> set (em_jobs db)" for s
    using distinct_key_eq [OF pg_okD(1) [OF ok] that job(1)] job(2) by (auto simp: lease_where_def)
qed

lemma enqueue_statement_refines:
  assumes ok: "pg_ok db"
  shows "pg_refines t (case fst (enqueue_statement companyId documentId newId c now db) of
      Inr (pj, True) \<Rightarrow> Enqueued (pj_id pj) | _ \<Rightarrow> Idle) db
    (snd (enqueue_statement companyId documentId newId c now db))"
proof (cases "List.find (of_document companyId documentId) (em_jobs db) = None \<and>
    newId \<notin> dj_id ` set (em_jobs db) \<and> (companyId, documentId) \<in> set (em_documents db)")
  case False
  then show ?thesis
    using ok by (auto simp: enqueue_statement_def list_ex_iff split: option.splits)
next
  case True
  let ?job = "inserted_job companyId documentId newId c now"
  have "enqueue_statement companyId documentId newId c now db =
      (Inr (mapDatabaseJob ?job, True), db\<lparr>em_jobs := em_jobs db @ [?job]\<rparr>)"
    using True by (auto simp: enqueue_statement_def list_ex_iff Let_def)
  moreover have "pg_ok (db\<lparr>em_jobs := em_jobs db @ [?job]\<rparr>)"
    using ok True
    by (auto simp: pg_ok_def db_job_ok_def of_document_def int4_def inserted_job_def find_None_iff)
  moreover have "pg_view (db\<lparr>em_jobs := em_jobs db @ [?job]\<rparr>) = (pg_view db)(newId \<mapsto> db_job_view ?job)"
    using table_map_append [of dj_id ?job "em_jobs db" db_job_view] True
    by (simp add: pg_view_def inserted_job_def)
  moreover have "pg_view db newId = None" using True by (simp add: pg_view_def table_map_None)
  ultimately show ?thesis
    by (auto simp: pg_refines_def lease_step_simps new_job_def db_job_view_def mapDatabaseJob_def
        inserted_job_def)
qed

lemma pg_candidateD:
  assumes "pg_candidate companyId now locked jobs = Some job"
  shows "job \<in> set jobs \<and> dj_companyId job = companyId \<and> dj_availableAt job \<le> now \<and>
    (dj_status job = JOB_QUEUED \<or> expired_by now (dj_leaseUntil job)) \<and> dj_id job \<notin> set locked"
proof -
  let ?js = "filter (\<lambda>job. dj_companyId job = companyId \<and> dj_availableAt job \<le> now \<and>
      (dj_status job = JOB_QUEUED \<or> expired_by now (dj_leaseUntil job)) \<and> \<not> contains locked (dj_id job)) jobs"
  obtain rest where "sort_key dj_createdAt ?js = job # rest"
    using assms by (auto simp: pg_candidate_def split: list.splits)
  then have "job \<in> set (sort_key dj_createdAt ?js)" by (simp only: list.set_intros)
  then show ?thesis by simp
qed

lemma claim_statement_refines:
  assumes ok: "pg_ok db" and duration: "0 < duration"
  shows "pg_refines now (case fst (claim_statement companyId w now duration locked db) of
      Inr (Some pj) \<Rightarrow> Claimed (pj_id pj) w (pj_fencingToken pj) | _ \<Rightarrow> Idle) db
    (snd (claim_statement companyId w now duration locked db))"
proof (cases "pg_candidate companyId now locked (em_jobs db)")
  case None
  with ok show ?thesis by (simp add: claim_statement_def)
next
  case (Some job)
  note cand = pg_candidateD [OF Some]
  have okj: "db_job_ok job" using pg_okD(3) [OF ok] cand by simp
  let ?new = "pg_claimed w (now + duration) now"
  show ?thesis
  proof (cases "int4 (dj_attempts job + 1) \<and> int4 (dj_fencingToken job + 1)")
    case False
    with Some ok show ?thesis by (auto simp: claim_statement_def)
  next
    case True
    have stmt: "claim_statement companyId w now duration locked db =
        (Inr (Some (mapDatabaseJob (?new job))),
         db\<lparr>em_jobs := update_where (\<lambda>s. dj_id s = dj_id job) ?new (em_jobs db)\<rparr>)"
      using Some True by (simp add: claim_statement_def)
    have "db_job_ok (?new job)" using okj True by (auto simp: db_job_ok_def pg_claimed_def)
    then have new: "pg_ok (db\<lparr>em_jobs := update_where (\<lambda>s. dj_id s = dj_id job) ?new (em_jobs db)\<rparr>)"
      "pg_view (db\<lparr>em_jobs := update_where (\<lambda>s. dj_id s = dj_id job) ?new (em_jobs db)\<rparr>) =
       (pg_view db)(dj_id job \<mapsto> db_job_view (?new job))"
      using cand by (intro pg_rewrite [OF ok]; simp add: pg_claimed_def)+
    have "claimable_at now (db_job_view job)"
      using cand okj by (cases "dj_status job")
        (auto simp: claimable_at_def db_job_view_def db_job_ok_def expired_by_def split: option.splits)
    then have "lease_step now (Claimed (dj_id job) w (v_token (db_job_view job) + 1)) (pg_view db)
        ((pg_view db)(dj_id job \<mapsto> db_job_view (?new job)))"
      using pg_lookup [OF ok conjunct1 [OF cand]] duration
      by (intro lease_step.claim) (auto simp: db_job_view_def pg_claimed_def)
    with new show ?thesis
      by (simp add: stmt pg_refines_def mapDatabaseJob_def pg_claimed_def db_job_view_def)
  qed
qed

lemma renew_statement_refines:
  assumes ok: "pg_ok db"
  shows "pg_refines now (case fst (renew_statement companyId j w n d now db) of
      Inr _ \<Rightarrow> Renewed j w n | _ \<Rightarrow> Idle) db (snd (renew_statement companyId j w n d now db))"
proof (cases "List.find (lease_where companyId j w n now) (em_jobs db)")
  case None
  with ok show ?thesis by (simp add: renew_statement_def)
next
  case (Some job)
  note found = find_SomeD [OF Some]
  note row = lease_row [OF ok conjunct1 [OF found] conjunct2 [OF found]]
  let ?new = "renewed_job (now + d) now" and ?p = "lease_where companyId j w n now"
  have okj: "db_job_ok job" using pg_okD(3) [OF ok] found by simp
  have "db_job_ok (?new job)"
    using okj found by (auto simp: db_job_ok_def renewed_job_def lease_where_def)
  then have new: "pg_ok (db\<lparr>em_jobs := update_where ?p ?new (em_jobs db)\<rparr>)"
    "pg_view (db\<lparr>em_jobs := update_where ?p ?new (em_jobs db)\<rparr>) =
     (pg_view db)(dj_id job \<mapsto> db_job_view (?new job))"
    using found row(4) by (intro pg_rewrite [OF ok]; simp add: renewed_job_def lease_where_def)+
  have "db_job_view (?new job) = (db_job_view job)\<lparr>v_lease := Some (w, now + d)\<rparr>"
    using found by (simp add: db_job_view_def renewed_job_def lease_where_def)
  with new lease_step.renew [where V = "pg_view db", OF row(1-3), of "now + d"] row(4) Some show ?thesis
    by (simp add: renew_statement_def pg_refines_def Let_def)
qed

lemma assert_statement_refines:
  assumes ok: "pg_ok db"
  shows "pg_refines now (case fst (assert_statement companyId j w n now db) of
      Inr _ \<Rightarrow> Checked j w n | _ \<Rightarrow> Idle) db (snd (assert_statement companyId j w n now db))"
proof (cases "list_ex (lease_where companyId j w n now) (em_jobs db)")
  case True
  then obtain job where "job \<in> set (em_jobs db)" "lease_where companyId j w n now job"
    by (auto simp: list_ex_iff)
  from lease_row [OF ok this] lease_step.check [where V = "pg_view db"] True ok show ?thesis
    by (auto simp: assert_statement_def pg_refines_def)
qed (use ok in \<open>simp add: assert_statement_def\<close>)

lemma acknowledge_statement_refines:
  assumes ok: "pg_ok db"
  shows "pg_refines now (case fst (acknowledge_statement companyId j w n now db) of
      Inr _ \<Rightarrow> Acknowledged j w n | _ \<Rightarrow> Idle) db (snd (acknowledge_statement companyId j w n now db))"
proof (cases "count_where (lease_where companyId j w n now) (em_jobs db) = 0")
  case False
  then obtain job where job: "job \<in> set (em_jobs db)" "lease_where companyId j w n now job"
    by (auto simp: count_where_0)
  note row = lease_row [OF ok job]
  from pg_delete [OF ok job(1) row(5)] lease_step.acknowledge [where V = "pg_view db", OF row(1,2), of now]
    False row(4) show ?thesis
    by (simp add: acknowledge_statement_def pg_refines_def)
qed (use ok in \<open>simp add: acknowledge_statement_def\<close>)

lemma release_statement_refines:
  assumes ok: "pg_ok db"
  shows "pg_refines now (case fst (release_statement companyId j w n a now db) of
      Inr _ \<Rightarrow> Released j w n | _ \<Rightarrow> Idle) db (snd (release_statement companyId j w n a now db))"
proof (cases "count_where (lease_where companyId j w n now) (em_jobs db) = 0")
  case False
  then obtain job where job: "job \<in> set (em_jobs db)" "lease_where companyId j w n now job"
    by (auto simp: count_where_0)
  note row = lease_row [OF ok job]
  let ?new = "freed_job a now" and ?p = "lease_where companyId j w n now"
  have okj: "db_job_ok job" using pg_okD(3) [OF ok job(1)] .
  have "db_job_ok (?new job)" using okj by (auto simp: db_job_ok_def freed_job_def)
  then have new: "pg_ok (db\<lparr>em_jobs := update_where ?p ?new (em_jobs db)\<rparr>)"
    "pg_view (db\<lparr>em_jobs := update_where ?p ?new (em_jobs db)\<rparr>) =
     (pg_view db)(dj_id job \<mapsto> db_job_view (?new job))"
    using job row(4) by (intro pg_rewrite [OF ok]; simp add: freed_job_def lease_where_def)+
  have "db_job_view (?new job) = (db_job_view job)\<lparr>v_lease := None, v_available := a\<rparr>"
    by (simp add: db_job_view_def freed_job_def)
  with new lease_step.release [where V = "pg_view db", OF row(1,2), of now a] row(4) False show ?thesis
    by (simp add: release_statement_def pg_refines_def)
qed (use ok in \<open>simp add: release_statement_def\<close>)

lemma remove_statement_refines:
  assumes ok: "pg_ok db"
  shows "pg_refines t (case List.find (of_document companyId documentId) (em_jobs db) of
      None \<Rightarrow> Idle | Some job \<Rightarrow> Removed (dj_id job)) db
    (db\<lparr>em_jobs := filter (\<lambda>job. \<not> of_document companyId documentId job) (em_jobs db)\<rparr>)"
proof (cases "List.find (of_document companyId documentId) (em_jobs db)")
  case None
  then have "filter (\<lambda>job. \<not> of_document companyId documentId job) (em_jobs db) = em_jobs db"
    by (simp add: find_None_iff filter_id_conv)
  with None ok show ?thesis by simp
next
  case (Some job)
  note found = find_SomeD [OF Some]
  have "of_document companyId documentId s \<longleftrightarrow> s = job" if "s \<in> set (em_jobs db)" for s
    using distinct_key_eq [OF pg_okD(2) [OF ok] that, of job] found by (auto simp: of_document_def)
  from pg_delete [OF ok conjunct1 [OF found] this] Some show ?thesis
    by (simp add: pg_refines_def lease_step_simps)
qed

lemma pg_step_refines:
  assumes ok: "pg_ok db"
  shows "pg_refines (pg_clock op) (pg_event op db) db (pg_step op db)"
proof (cases op)
  case (PgEnqueue tenant documentId newId c now)
  show ?thesis
    unfolding PgEnqueue pg_clock.simps pg_event.simps pg_step.simps pg_enqueue_def
    by (rule guarded_refines [OF ok, where ev = "\<lambda>r. case r of Inr (pj, True) \<Rightarrow> Enqueued (pj_id pj) | _ \<Rightarrow> Idle"])
      (simp_all add: enqueue_statement_refines [OF ok])
next
  case (PgClaim tenant w now d locked)
  show ?thesis
    unfolding PgClaim pg_clock.simps pg_event.simps pg_step.simps pg_claim_def Let_def
    by (rule guarded_refines [OF ok, where
          ev = "\<lambda>r. case r of Inr (Some pj) \<Rightarrow> Claimed (pj_id pj) w (pj_fencingToken pj) | _ \<Rightarrow> Idle"])
      (simp_all add: claim_statement_refines [OF ok] assertLeaseDuration_def)
next
  case (PgRenew tenant j w n d now)
  show ?thesis
    unfolding PgRenew pg_clock.simps pg_event.simps pg_step.simps pg_renew_def
    by (rule guarded_refines [OF ok, where ev = "\<lambda>r. case r of Inr _ \<Rightarrow> Renewed j w n | _ \<Rightarrow> Idle"])
      (simp_all add: renew_statement_refines [OF ok])
next
  case (PgAssert tenant j w n now)
  show ?thesis
    unfolding PgAssert pg_clock.simps pg_event.simps pg_step.simps pg_assertLease_def
    by (rule guarded_refines [OF ok, where ev = "\<lambda>r. case r of Inr _ \<Rightarrow> Checked j w (the n) | _ \<Rightarrow> Idle"])
      (simp_all add: assert_statement_refines [OF ok])
next
  case (PgAcknowledge tenant j w n now)
  show ?thesis
    unfolding PgAcknowledge pg_clock.simps pg_event.simps pg_step.simps pg_acknowledge_def
    by (rule guarded_refines [OF ok, where ev = "\<lambda>r. case r of Inr _ \<Rightarrow> Acknowledged j w n | _ \<Rightarrow> Idle"])
      (simp_all add: acknowledge_statement_refines [OF ok])
next
  case (PgRelease tenant j w a n now)
  show ?thesis
    unfolding PgRelease pg_clock.simps pg_event.simps pg_step.simps pg_release_def
    by (rule guarded_refines [OF ok, where ev = "\<lambda>r. case r of Inr _ \<Rightarrow> Released j w (the n) | _ \<Rightarrow> Idle"])
      (simp_all add: release_statement_refines [OF ok])
next
  case (PgRemove tenant documentId)
  show ?thesis
    unfolding PgRemove pg_clock.simps pg_event.simps pg_step.simps pg_removeForDocument_def
    by (rule guarded_refines [OF ok, where ev = "\<lambda>r. case r of Inr _ \<Rightarrow>
          (case List.find (of_document (dt_companyId tenant) documentId) (em_jobs db) of
             None \<Rightarrow> Idle | Some job \<Rightarrow> Removed (dj_id job)) | _ \<Rightarrow> Idle"])
      (simp_all add: remove_statement_refines [OF ok])
qed

interpretation pg_queue: lease_queue pg_ok "\<lambda>op db. True" pg_view pg_clock pg_event pg_step
  by unfold_locales (use pg_step_refines [unfolded pg_refines_def] in blast)+

text \<open>
  C24. The PostgreSQL queue refines the abstract lease queue: every operation, whichever rows the
  claim finds locked and with no assumption on the identifiers drawn, is a step of the contract on
  the jobs of all tenants, keeps one job per tenant and document, and moves the job's status, lease
  and token together.
\<close>

theorem pg_queue_refinement:
  assumes "pg_ok db"
  shows "pg_ok (queue_run pg_step ops db) \<and>
    lease_run (queue_trace pg_clock pg_event pg_step ops db) (pg_view db)
      (pg_view (queue_run pg_step ops db))"
proof -
  have "fresh_run (\<lambda>op db. True) pg_step ops db" by (induction ops arbitrary: db) auto
  with assms show ?thesis using pg_queue.run_ok pg_queue.run_refines by blast
qed

definition acme_documents :: embedding_db where
  "acme_documents = \<lparr>em_available = True, em_documents = [(''acme'', ''doc-1'')], em_jobs = []\<rparr>"

definition pg_sample :: "pg_op list" where
  "pg_sample =
     (let tenant = \<lparr>dt_companyId = ''acme'', dt_userId = ''user-1''\<rparr> in
      [PgEnqueue tenant ''doc-1'' ''job-1'' ''corr-1'' 1000, PgClaim tenant ''worker-1'' 2000 None [],
       PgRelease tenant ''job-1'' ''worker-1'' (Some 9000) (Some 1) 3000,
       PgClaim tenant ''worker-2'' 9500 (Some 500) [],
       PgAcknowledge tenant ''job-1'' ''worker-2'' 2 9600])"

theorem pg_queue_refinement_witness:
  "map snd (queue_trace pg_clock pg_event pg_step pg_sample acme_documents) =
     [Enqueued ''job-1'', Claimed ''job-1'' ''worker-1'' 1, Released ''job-1'' ''worker-1'' 1,
      Claimed ''job-1'' ''worker-2'' 2, Acknowledged ''job-1'' ''worker-2'' 2] \<and>
   lease_run (queue_trace pg_clock pg_event pg_step pg_sample acme_documents)
     (pg_view acme_documents) (pg_view (queue_run pg_step pg_sample acme_documents))"
proof
  show "map snd (queue_trace pg_clock pg_event pg_step pg_sample acme_documents) =
     [Enqueued ''job-1'', Claimed ''job-1'' ''worker-1'' 1, Released ''job-1'' ''worker-1'' 1,
      Claimed ''job-1'' ''worker-2'' 2, Acknowledged ''job-1'' ''worker-2'' 2]"
    by code_simp
  have "pg_ok acme_documents" by (simp add: pg_ok_def acme_documents_def)
  then show "lease_run (queue_trace pg_clock pg_event pg_step pg_sample acme_documents)
     (pg_view acme_documents) (pg_view (queue_run pg_step pg_sample acme_documents))"
    using pg_queue_refinement by blast
qed

end
