(* ===== verification/DocumentMetadata.thy ===== *)
theory DocumentMetadata
  imports DocumentModel Complex_Main
begin

text \<open>
  The metadata of a document: its record (\<open>lib/document-model.ts\<close>), the intelligence and embedding
  vocabularies (\<open>lib/document-intelligence-model.ts\<close>, \<open>lib/document-embedding-model.ts\<close>), the partial
  records updates are made of, the defaults of a new document, its validation, and the items the
  API shows (\<open>lib/document-repositories.ts\<close>, \<open>lib/document-model.ts\<close>). An optional date is absent or a
  text that is not empty: an empty one, which the code treats as absent, has no value here.
\<close>

section \<open>Vocabularies\<close>

datatype document_type =
    INVOICE | CREDIT_NOTE | CONTRACT | ACT | ORDER | DELIVERY_NOTE | BANK_STATEMENT | RECEIPT
  | REPORT | LETTER | IMAGE | UNKNOWN

datatype extraction_method = PDF_TEXT | OCR | NO_EXTRACTION

datatype ocr_status =
    OCR_NOT_REQUIRED | OCR_PENDING | OCR_PROCESSING | OCR_COMPLETED | OCR_FAILED | OCR_UNAVAILABLE

datatype embedding_status =
    EMBEDDING_PENDING | EMBEDDING_QUEUED | EMBEDDING_PROCESSING | EMBEDDING_COMPLETED
  | EMBEDDING_FAILED | EMBEDDING_QUARANTINED | EMBEDDING_DISABLED

definition DOCUMENT_TYPES :: "(string \<times> document_type) list" where
  "DOCUMENT_TYPES =
     [(''INVOICE'', INVOICE), (''CREDIT_NOTE'', CREDIT_NOTE), (''CONTRACT'', CONTRACT), (''ACT'', ACT),
      (''ORDER'', ORDER), (''DELIVERY_NOTE'', DELIVERY_NOTE), (''BANK_STATEMENT'', BANK_STATEMENT),
      (''RECEIPT'', RECEIPT), (''REPORT'', REPORT), (''LETTER'', LETTER), (''IMAGE'', IMAGE),
      (''UNKNOWN'', UNKNOWN)]"

definition DOCUMENT_TEXT_EXTRACTION_METHODS :: "(string \<times> extraction_method) list" where
  "DOCUMENT_TEXT_EXTRACTION_METHODS =
     [(''PDF_TEXT'', PDF_TEXT), (''OCR'', OCR), (''NONE'', NO_EXTRACTION)]"

definition DOCUMENT_OCR_STATUSES :: "(string \<times> ocr_status) list" where
  "DOCUMENT_OCR_STATUSES =
     [(''NOT_REQUIRED'', OCR_NOT_REQUIRED), (''PENDING'', OCR_PENDING), (''PROCESSING'', OCR_PROCESSING),
      (''COMPLETED'', OCR_COMPLETED), (''FAILED'', OCR_FAILED), (''UNAVAILABLE'', OCR_UNAVAILABLE)]"

definition DOCUMENT_EMBEDDING_STATUSES :: "(string \<times> embedding_status) list" where
  "DOCUMENT_EMBEDDING_STATUSES =
     [(''PENDING'', EMBEDDING_PENDING), (''QUEUED'', EMBEDDING_QUEUED),
      (''PROCESSING'', EMBEDDING_PROCESSING), (''COMPLETED'', EMBEDDING_COMPLETED),
      (''FAILED'', EMBEDDING_FAILED), (''QUARANTINED'', EMBEDDING_QUARANTINED),
      (''DISABLED'', EMBEDDING_DISABLED)]"

text \<open>
  A type guard such as \<open>isDocumentType\<close>, with the value it narrows to, and the text a value of the
  vocabulary is.
\<close>

definition narrow :: "(string \<times> 'a) list \<Rightarrow> string option \<Rightarrow> 'a option" where
  "narrow vocabulary value = (case value of None \<Rightarrow> None | Some s \<Rightarrow> map_of vocabulary s)"

definition isDocumentType :: "string option \<Rightarrow> document_type option" where
  "isDocumentType = narrow DOCUMENT_TYPES"

definition isDocumentTextExtractionMethod :: "string option \<Rightarrow> extraction_method option" where
  "isDocumentTextExtractionMethod = narrow DOCUMENT_TEXT_EXTRACTION_METHODS"

definition isDocumentOcrStatus :: "string option \<Rightarrow> ocr_status option" where
  "isDocumentOcrStatus = narrow DOCUMENT_OCR_STATUSES"

definition isDocumentEmbeddingStatus :: "string option \<Rightarrow> embedding_status option" where
  "isDocumentEmbeddingStatus = narrow DOCUMENT_EMBEDDING_STATUSES"

definition name_in :: "(string \<times> 'a) list \<Rightarrow> 'a \<Rightarrow> string" where
  "name_in vocabulary v = the (map_of (map prod.swap vocabulary) v)"

lemmas vocabulary_defs =
  DOCUMENT_TYPES_def DOCUMENT_TEXT_EXTRACTION_METHODS_def DOCUMENT_OCR_STATUSES_def
  DOCUMENT_EMBEDDING_STATUSES_def DOCUMENT_PROCESSING_STATUSES_def

lemma narrow_name [simp]:
  "isDocumentType (Some (name_in DOCUMENT_TYPES t)) = Some t"
  "isDocumentTextExtractionMethod (Some (name_in DOCUMENT_TEXT_EXTRACTION_METHODS m)) = Some m"
  "isDocumentOcrStatus (Some (name_in DOCUMENT_OCR_STATUSES oc)) = Some oc"
  "isDocumentEmbeddingStatus (Some (name_in DOCUMENT_EMBEDDING_STATUSES es)) = Some es"
  "map_of DOCUMENT_PROCESSING_STATUSES (name_in DOCUMENT_PROCESSING_STATUSES s) = Some s"
proof -
  show "isDocumentType (Some (name_in DOCUMENT_TYPES t)) = Some t"
    by (cases t) (simp_all add: isDocumentType_def narrow_def name_in_def vocabulary_defs)
  show "isDocumentTextExtractionMethod (Some (name_in DOCUMENT_TEXT_EXTRACTION_METHODS m)) = Some m"
    by (cases m) (simp_all add: isDocumentTextExtractionMethod_def narrow_def name_in_def vocabulary_defs)
  show "isDocumentOcrStatus (Some (name_in DOCUMENT_OCR_STATUSES oc)) = Some oc"
    by (cases oc) (simp_all add: isDocumentOcrStatus_def narrow_def name_in_def vocabulary_defs)
  show "isDocumentEmbeddingStatus (Some (name_in DOCUMENT_EMBEDDING_STATUSES es)) = Some es"
    by (cases es) (simp_all add: isDocumentEmbeddingStatus_def narrow_def name_in_def vocabulary_defs)
  show "map_of DOCUMENT_PROCESSING_STATUSES (name_in DOCUMENT_PROCESSING_STATUSES s) = Some s"
    by (cases s) (simp_all add: name_in_def vocabulary_defs)
qed

section \<open>The record\<close>

text \<open>
  \<open>DocumentMetadata\<close> and the database row have the same fields; they differ in the type \<open>'d\<close> of
  their instants, ISO texts in the one and dates in the other. The fields of
  \<open>DocumentIntelligenceMetadata\<close>, which the source's type takes by intersection, and those of the
  embedding stage are records of their own. Optional fields are always set by the constructors of
  the record, so they carry no option of their own; numbers are whole but for the confidence.
\<close>

record 'd document_intelligence =
  in_detectedDocumentType :: document_type
  in_detectedMimeType :: "string option"
  in_detectionConfidence :: "rat option"
  in_textExtractionMethod :: extraction_method
  in_ocrStatus :: ocr_status
  in_ocrProvider :: "string option"
  in_ocrLanguage :: "string option"
  in_ocrStartedAt :: "'d option"
  in_ocrCompletedAt :: "'d option"
  in_pageCount :: "int option"
  in_extractedCharacterCount :: "int option"
  in_requiresManualReview :: bool
  in_intelligenceVersion :: string

record 'd embedding_state =
  eb_status :: embedding_status
  eb_model :: "string option"
  eb_dimensions :: "int option"
  eb_version :: "string option"
  eb_embeddedAt :: "'d option"
  eb_attempts :: int
  eb_lastErrorCode :: "string option"
  eb_contentHash :: "string option"
  eb_workerId :: "string option"
  eb_workerVersion :: "string option"
  eb_deploymentGeneration :: "string option"
  eb_fencingToken :: int
  eb_heartbeatAt :: "'d option"
  eb_leaseUntil :: "'d option"

record 'd document_fields =
  doc_id :: string
  doc_companyId :: string
  doc_uploadedBy :: string
  doc_status :: document_status
  doc_originalName :: string
  doc_storedName :: string
  doc_mimeType :: string
  doc_size :: int
  doc_checksum :: string
  doc_createdAt :: 'd
  doc_updatedAt :: 'd
  doc_deletedAt :: "'d option"
  doc_processingAttempts :: int
  doc_lastErrorCode :: "string option"
  doc_lastErrorMessage :: "safe_message option"
  doc_processingStartedAt :: "'d option"
  doc_processingCompletedAt :: "'d option"
  doc_nextRetryAt :: "'d option"
  doc_quarantinedAt :: "'d option"
  doc_workerId :: "string option"
  doc_workerVersion :: "string option"
  doc_deploymentGeneration :: "string option"
  doc_processingFencingToken :: int
  doc_workerHeartbeatAt :: "'d option"
  doc_processingLeaseUntil :: "'d option"
  doc_pages :: "int option"
  doc_textLength :: "int option"
  doc_chunksCount :: "int option"
  doc_intelligence :: "'d document_intelligence"
  doc_embedding :: "'d embedding_state"

type_synonym document = "date_text document_fields"

section \<open>Partial records\<close>

text \<open>
  \<open>UpdateDocumentMetadata\<close>, a partial record, is the list of the fields it sets; spreading it over
  a document applies them. The type leaves out the identity, the status and the three instants of
  the record, so no assignment to them exists.
\<close>

datatype 'd intelligence_change =
    SetDetectedDocumentType document_type
  | SetDetectedMimeType "string option"
  | SetDetectionConfidence "rat option"
  | SetTextExtractionMethod extraction_method
  | SetOcrStatus ocr_status
  | SetOcrProvider "string option"
  | SetOcrLanguage "string option"
  | SetOcrStartedAt "'d option"
  | SetOcrCompletedAt "'d option"
  | SetPageCount "int option"
  | SetExtractedCharacterCount "int option"
  | SetRequiresManualReview bool
  | SetIntelligenceVersion string

datatype 'd embedding_change =
    SetEmbeddingStatus embedding_status
  | SetEmbeddingModel "string option"
  | SetEmbeddingDimensions "int option"
  | SetEmbeddingVersion "string option"
  | SetEmbeddedAt "'d option"
  | SetEmbeddingAttempts int
  | SetLastEmbeddingErrorCode "string option"
  | SetEmbeddingContentHash "string option"
  | SetEmbeddingWorkerId "string option"
  | SetEmbeddingWorkerVersion "string option"
  | SetEmbeddingDeploymentGeneration "string option"
  | SetEmbeddingFencingToken int
  | SetEmbeddingHeartbeatAt "'d option"
  | SetEmbeddingLeaseUntil "'d option"

datatype 'd document_change =
    SetOriginalName string
  | SetStoredName string
  | SetMimeType string
  | SetSize int
  | SetChecksum string
  | SetProcessingAttempts int
  | SetLastErrorCode "string option"
  | SetLastErrorMessage "safe_message option"
  | SetProcessingStartedAt "'d option"
  | SetProcessingCompletedAt "'d option"
  | SetNextRetryAt "'d option"
  | SetQuarantinedAt "'d option"
  | SetWorkerId "string option"
  | SetWorkerVersion "string option"
  | SetDeploymentGeneration "string option"
  | SetProcessingFencingToken int
  | SetWorkerHeartbeatAt "'d option"
  | SetProcessingLeaseUntil "'d option"
  | SetPages "int option"
  | SetTextLength "int option"
  | SetChunksCount "int option"
  | IntelligenceChange "'d intelligence_change"
  | EmbeddingChange "'d embedding_change"

primrec apply_intelligence_change :: "'d intelligence_change \<Rightarrow> 'd document_intelligence \<Rightarrow> 'd document_intelligence" where
  "apply_intelligence_change (SetDetectedDocumentType v) i = i\<lparr>in_detectedDocumentType := v\<rparr>"
| "apply_intelligence_change (SetDetectedMimeType v) i = i\<lparr>in_detectedMimeType := v\<rparr>"
| "apply_intelligence_change (SetDetectionConfidence v) i = i\<lparr>in_detectionConfidence := v\<rparr>"
| "apply_intelligence_change (SetTextExtractionMethod v) i = i\<lparr>in_textExtractionMethod := v\<rparr>"
| "apply_intelligence_change (SetOcrStatus v) i = i\<lparr>in_ocrStatus := v\<rparr>"
| "apply_intelligence_change (SetOcrProvider v) i = i\<lparr>in_ocrProvider := v\<rparr>"
| "apply_intelligence_change (SetOcrLanguage v) i = i\<lparr>in_ocrLanguage := v\<rparr>"
| "apply_intelligence_change (SetOcrStartedAt v) i = i\<lparr>in_ocrStartedAt := v\<rparr>"
| "apply_intelligence_change (SetOcrCompletedAt v) i = i\<lparr>in_ocrCompletedAt := v\<rparr>"
| "apply_intelligence_change (SetPageCount v) i = i\<lparr>in_pageCount := v\<rparr>"
| "apply_intelligence_change (SetExtractedCharacterCount v) i = i\<lparr>in_extractedCharacterCount := v\<rparr>"
| "apply_intelligence_change (SetRequiresManualReview v) i = i\<lparr>in_requiresManualReview := v\<rparr>"
| "apply_intelligence_change (SetIntelligenceVersion v) i = i\<lparr>in_intelligenceVersion := v\<rparr>"

primrec apply_embedding_change :: "'d embedding_change \<Rightarrow> 'd embedding_state \<Rightarrow> 'd embedding_state" where
  "apply_embedding_change (SetEmbeddingStatus v) e = e\<lparr>eb_status := v\<rparr>"
| "apply_embedding_change (SetEmbeddingModel v) e = e\<lparr>eb_model := v\<rparr>"
| "apply_embedding_change (SetEmbeddingDimensions v) e = e\<lparr>eb_dimensions := v\<rparr>"
| "apply_embedding_change (SetEmbeddingVersion v) e = e\<lparr>eb_version := v\<rparr>"
| "apply_embedding_change (SetEmbeddedAt v) e = e\<lparr>eb_embeddedAt := v\<rparr>"
| "apply_embedding_change (SetEmbeddingAttempts v) e = e\<lparr>eb_attempts := v\<rparr>"
| "apply_embedding_change (SetLastEmbeddingErrorCode v) e = e\<lparr>eb_lastErrorCode := v\<rparr>"
| "apply_embedding_change (SetEmbeddingContentHash v) e = e\<lparr>eb_contentHash := v\<rparr>"
| "apply_embedding_change (SetEmbeddingWorkerId v) e = e\<lparr>eb_workerId := v\<rparr>"
| "apply_embedding_change (SetEmbeddingWorkerVersion v) e = e\<lparr>eb_workerVersion := v\<rparr>"
| "apply_embedding_change (SetEmbeddingDeploymentGeneration v) e = e\<lparr>eb_deploymentGeneration := v\<rparr>"
| "apply_embedding_change (SetEmbeddingFencingToken v) e = e\<lparr>eb_fencingToken := v\<rparr>"
| "apply_embedding_change (SetEmbeddingHeartbeatAt v) e = e\<lparr>eb_heartbeatAt := v\<rparr>"
| "apply_embedding_change (SetEmbeddingLeaseUntil v) e = e\<lparr>eb_leaseUntil := v\<rparr>"

primrec apply_change :: "'d document_change \<Rightarrow> 'd document_fields \<Rightarrow> 'd document_fields" where
  "apply_change (SetOriginalName v) d = d\<lparr>doc_originalName := v\<rparr>"
| "apply_change (SetStoredName v) d = d\<lparr>doc_storedName := v\<rparr>"
| "apply_change (SetMimeType v) d = d\<lparr>doc_mimeType := v\<rparr>"
| "apply_change (SetSize v) d = d\<lparr>doc_size := v\<rparr>"
| "apply_change (SetChecksum v) d = d\<lparr>doc_checksum := v\<rparr>"
| "apply_change (SetProcessingAttempts v) d = d\<lparr>doc_processingAttempts := v\<rparr>"
| "apply_change (SetLastErrorCode v) d = d\<lparr>doc_lastErrorCode := v\<rparr>"
| "apply_change (SetLastErrorMessage v) d = d\<lparr>doc_lastErrorMessage := v\<rparr>"
| "apply_change (SetProcessingStartedAt v) d = d\<lparr>doc_processingStartedAt := v\<rparr>"
| "apply_change (SetProcessingCompletedAt v) d = d\<lparr>doc_processingCompletedAt := v\<rparr>"
| "apply_change (SetNextRetryAt v) d = d\<lparr>doc_nextRetryAt := v\<rparr>"
| "apply_change (SetQuarantinedAt v) d = d\<lparr>doc_quarantinedAt := v\<rparr>"
| "apply_change (SetWorkerId v) d = d\<lparr>doc_workerId := v\<rparr>"
| "apply_change (SetWorkerVersion v) d = d\<lparr>doc_workerVersion := v\<rparr>"
| "apply_change (SetDeploymentGeneration v) d = d\<lparr>doc_deploymentGeneration := v\<rparr>"
| "apply_change (SetProcessingFencingToken v) d = d\<lparr>doc_processingFencingToken := v\<rparr>"
| "apply_change (SetWorkerHeartbeatAt v) d = d\<lparr>doc_workerHeartbeatAt := v\<rparr>"
| "apply_change (SetProcessingLeaseUntil v) d = d\<lparr>doc_processingLeaseUntil := v\<rparr>"
| "apply_change (SetPages v) d = d\<lparr>doc_pages := v\<rparr>"
| "apply_change (SetTextLength v) d = d\<lparr>doc_textLength := v\<rparr>"
| "apply_change (SetChunksCount v) d = d\<lparr>doc_chunksCount := v\<rparr>"
| "apply_change (IntelligenceChange c) d =
     d\<lparr>doc_intelligence := apply_intelligence_change c (doc_intelligence d)\<rparr>"
| "apply_change (EmbeddingChange c) d =
     d\<lparr>doc_embedding := apply_embedding_change c (doc_embedding d)\<rparr>"

definition apply_changes :: "'d document_change list \<Rightarrow> 'd document_fields \<Rightarrow> 'd document_fields" where
  "apply_changes cs d = fold apply_change cs d"

lemma apply_changes_simps [simp]:
  "apply_changes [] d = d" "apply_changes (c # cs) d = apply_changes cs (apply_change c d)"
  by (simp_all add: apply_changes_def)

text \<open>The identity, the status and the instants of the record are out of reach.\<close>

lemma apply_change_keeps [simp]:
  "doc_id (apply_change c d) = doc_id d" "doc_companyId (apply_change c d) = doc_companyId d"
  "doc_uploadedBy (apply_change c d) = doc_uploadedBy d" "doc_status (apply_change c d) = doc_status d"
  "doc_createdAt (apply_change c d) = doc_createdAt d" "doc_updatedAt (apply_change c d) = doc_updatedAt d"
  "doc_deletedAt (apply_change c d) = doc_deletedAt d"
  by (cases c; simp)+

lemma apply_changes_keeps [simp]:
  "doc_id (apply_changes cs d) = doc_id d" "doc_companyId (apply_changes cs d) = doc_companyId d"
  "doc_uploadedBy (apply_changes cs d) = doc_uploadedBy d" "doc_status (apply_changes cs d) = doc_status d"
  "doc_createdAt (apply_changes cs d) = doc_createdAt d" "doc_updatedAt (apply_changes cs d) = doc_updatedAt d"
  "doc_deletedAt (apply_changes cs d) = doc_deletedAt d"
  by (induction cs arbitrary: d) simp_all

section \<open>Defaults of a new document\<close>

definition defaultDocumentIntelligenceMetadata :: "string \<Rightarrow> 'd document_intelligence" where
  "defaultDocumentIntelligenceMetadata version =
     \<lparr>in_detectedDocumentType = UNKNOWN, in_detectedMimeType = None, in_detectionConfidence = None,
      in_textExtractionMethod = NO_EXTRACTION, in_ocrStatus = OCR_PENDING, in_ocrProvider = None,
      in_ocrLanguage = None, in_ocrStartedAt = None, in_ocrCompletedAt = None, in_pageCount = None,
      in_extractedCharacterCount = None, in_requiresManualReview = True,
      in_intelligenceVersion = version\<rparr>"

definition default_embedding_state :: "'d embedding_state" where
  "default_embedding_state =
     \<lparr>eb_status = EMBEDDING_PENDING, eb_model = None, eb_dimensions = None, eb_version = None,
      eb_embeddedAt = None, eb_attempts = 0, eb_lastErrorCode = None, eb_contentHash = None,
      eb_workerId = None, eb_workerVersion = None, eb_deploymentGeneration = None,
      eb_fencingToken = 0, eb_heartbeatAt = None, eb_leaseUntil = None\<rparr>"

text \<open>
  \<open>CreateDocumentMetadata\<close>: the required fields, and the optional ones as the changes they make.
  \<open>x ?? d\<close> of an absent or null field is the default, and the default of a nullable field is null.
\<close>

record create_metadata =
  cm_id :: string
  cm_status :: document_status
  cm_originalName :: string
  cm_storedName :: string
  cm_mimeType :: string
  cm_size :: int
  cm_checksum :: string
  cm_createdAt :: date_text
  cm_updatedAt :: date_text
  cm_optional :: "date_text document_change list"

definition withProcessingDefaults :: "create_metadata \<Rightarrow> document_tenant \<Rightarrow> document" where
  "withProcessingDefaults metadata tenant = apply_changes (cm_optional metadata)
     \<lparr>doc_id = cm_id metadata, doc_companyId = dt_companyId tenant, doc_uploadedBy = dt_userId tenant,
      doc_status = cm_status metadata, doc_originalName = cm_originalName metadata,
      doc_storedName = cm_storedName metadata, doc_mimeType = cm_mimeType metadata,
      doc_size = cm_size metadata, doc_checksum = cm_checksum metadata,
      doc_createdAt = cm_createdAt metadata, doc_updatedAt = cm_updatedAt metadata,
      doc_deletedAt = None, doc_processingAttempts = 0, doc_lastErrorCode = None,
      doc_lastErrorMessage = None, doc_processingStartedAt = None, doc_processingCompletedAt = None,
      doc_nextRetryAt = None, doc_quarantinedAt = None, doc_workerId = None, doc_workerVersion = None,
      doc_deploymentGeneration = None, doc_processingFencingToken = 0, doc_workerHeartbeatAt = None,
      doc_processingLeaseUntil = None, doc_pages = None, doc_textLength = None, doc_chunksCount = None,
      doc_intelligence = defaultDocumentIntelligenceMetadata ''document-intelligence-v1'',
      doc_embedding = default_embedding_state\<rparr>"

section \<open>Validation\<close>

text \<open>
  \<open>validateDocumentMetadata\<close>, check by check in the order of the source; the first that fails is
  the error. The checks that a field is of its vocabulary hold by its type. The fixed messages are
  far shorter than the limit.
\<close>

definition parseDocumentDate :: "date_text \<Rightarrow> string \<Rightarrow> document_error option" where
  "parseDocumentDate value label = demand (value \<noteq> None) (INVALID_DATE label)"

definition optional_date :: "date_text option \<Rightarrow> string \<Rightarrow> document_error option" where
  "optional_date value label = (case value of None \<Rightarrow> None | Some d \<Rightarrow> parseDocumentDate d label)"

definition optional_segment :: "string option \<Rightarrow> string \<Rightarrow> document_error option" where
  "optional_segment value label =
     (if truthy value then assertSafeDocumentSegment (the value) label else None)"

definition assertDocumentChecksum :: "string \<Rightarrow> document_error option" where
  "assertDocumentChecksum checksum = demand (SHA256 checksum) (FORMAT_INVALID ''checksum'')"

definition required_text :: "string \<Rightarrow> nat \<Rightarrow> string \<Rightarrow> document_error option" where
  "required_text value limit label =
     demand (trim value \<noteq> [] \<and> length value \<le> limit) (TEXT_REQUIRED label)"

definition natural_number :: "int \<Rightarrow> string \<Rightarrow> document_error option" where
  "natural_number value label = demand (safe_integer value \<and> 0 \<le> value) (NUMBER_INVALID label)"

definition optional_natural :: "int option \<Rightarrow> string \<Rightarrow> document_error option" where
  "optional_natural value label = (case value of None \<Rightarrow> None | Some n \<Rightarrow> natural_number n label)"

definition error_code_format :: "string option \<Rightarrow> string \<Rightarrow> document_error option" where
  "error_code_format value label =
     (let class = (\<lambda>c. is_upper_case c \<or> is_digit c \<or> c = CHR ''_'') in
      if truthy value then demand (matches class class 0 99 (the value)) (FORMAT_INVALID label) else None)"

definition message_length :: "safe_message option \<Rightarrow> nat" where
  "message_length message = (case message of Some (SafeText s) \<Rightarrow> length s | _ \<Rightarrow> 0)"

definition validate_processing :: "document \<Rightarrow> document_error option" where
  "validate_processing d = first_error
     [assertSafeDocumentSegment (doc_id d) ''document id'',
      assertSafeDocumentSegment (doc_companyId d) ''companyId'',
      assertSafeDocumentSegment (doc_uploadedBy d) ''uploadedBy'',
      assertSafeDocumentSegment (doc_storedName d) ''storedName'',
      assertDocumentChecksum (doc_checksum d),
      required_text (doc_originalName d) 500 ''originalName'',
      required_text (doc_mimeType d) 255 ''mimeType'',
      natural_number (doc_size d) ''size'',
      parseDocumentDate (doc_createdAt d) ''createdAt'',
      parseDocumentDate (doc_updatedAt d) ''updatedAt'',
      natural_number (doc_processingAttempts d) ''processingAttempts'',
      error_code_format (doc_lastErrorCode d) ''lastErrorCode'',
      demand (message_length (doc_lastErrorMessage d) \<le> 500) MESSAGE_TOO_LONG,
      optional_segment (doc_workerId d) ''workerId'',
      optional_segment (doc_workerVersion d) ''workerVersion'',
      optional_segment (doc_deploymentGeneration d) ''deploymentGeneration'',
      natural_number (doc_processingFencingToken d) ''processingFencingToken'',
      optional_date (doc_workerHeartbeatAt d) ''workerHeartbeatAt'',
      optional_date (doc_processingLeaseUntil d) ''processingLeaseUntil'']"

definition validate_embedding_worker :: "date_text embedding_state \<Rightarrow> document_error option" where
  "validate_embedding_worker e = first_error
     [optional_segment (eb_workerId e) ''embeddingWorkerId'',
      optional_segment (eb_workerVersion e) ''embeddingWorkerVersion'',
      optional_segment (eb_deploymentGeneration e) ''embeddingDeploymentGeneration'',
      natural_number (eb_fencingToken e) ''embeddingFencingToken'',
      optional_date (eb_heartbeatAt e) ''embeddingHeartbeatAt'',
      optional_date (eb_leaseUntil e) ''embeddingLeaseUntil'']"

definition validate_lifecycle :: "document \<Rightarrow> document_error option" where
  "validate_lifecycle d = first_error
     [optional_date (doc_processingStartedAt d) ''processingStartedAt'',
      optional_date (doc_processingCompletedAt d) ''processingCompletedAt'',
      optional_date (doc_nextRetryAt d) ''nextRetryAt'',
      optional_date (doc_quarantinedAt d) ''quarantinedAt'',
      optional_date (doc_deletedAt d) ''deletedAt'',
      demand ((doc_status d = DELETED) = (doc_deletedAt d \<noteq> None)) DELETED_STATUS_MISMATCH]"

definition validate_intelligence :: "date_text document_intelligence \<Rightarrow> document_error option" where
  "validate_intelligence i = first_error
     [demand (case in_detectionConfidence i of None \<Rightarrow> True | Some c \<Rightarrow> 0 \<le> c \<and> c \<le> 1) CONFIDENCE_INVALID,
      optional_natural (in_pageCount i) ''pageCount'',
      optional_natural (in_extractedCharacterCount i) ''extractedCharacterCount'',
      optional_date (in_ocrStartedAt i) ''ocrStartedAt'',
      optional_date (in_ocrCompletedAt i) ''ocrCompletedAt'',
      required_text (in_intelligenceVersion i) 100 ''intelligenceVersion'']"

definition validate_embedding :: "date_text embedding_state \<Rightarrow> document_error option" where
  "validate_embedding e = first_error
     [demand (case eb_dimensions e of None \<Rightarrow> True | Some n \<Rightarrow> safe_integer n \<and> 0 < n)
        (NUMBER_INVALID ''embeddingDimensions''),
      natural_number (eb_attempts e) ''embeddingAttempts'',
      error_code_format (eb_lastErrorCode e) ''lastEmbeddingErrorCode'',
      demand (truthy (eb_contentHash e) \<longrightarrow> SHA256 (the (eb_contentHash e)))
        (FORMAT_INVALID ''embeddingContentHash''),
      optional_date (eb_embeddedAt e) ''embeddedAt'']"

definition validateDocumentMetadata :: "document \<Rightarrow> document_error option" where
  "validateDocumentMetadata d = first_error
     [validate_processing d, validate_embedding_worker (doc_embedding d), validate_lifecycle d,
      validate_intelligence (doc_intelligence d), validate_embedding (doc_embedding d)]"

lemmas validation_defs =
  validateDocumentMetadata_def validate_processing_def validate_embedding_worker_def
  validate_lifecycle_def validate_intelligence_def validate_embedding_def

lemma valid_document_facts:
  assumes "validateDocumentMetadata d = None"
  shows "safe_segment (doc_id d)" "doc_createdAt d \<noteq> None" "doc_updatedAt d \<noteq> None"
    "doc_status d = DELETED \<longleftrightarrow> doc_deletedAt d \<noteq> None" "0 \<le> doc_processingAttempts d"
    "safe_integer (doc_processingAttempts d)"
  using assms
  by (auto simp: validation_defs assertSafeDocumentSegment_def parseDocumentDate_def natural_number_def)

end
