(* ===== verification/LocalDocuments.thy ===== *)
theory LocalDocuments
  imports DocumentMetadata "HOL-Library.Sublist"
begin

text \<open>
  \<open>LocalDocumentMetadataRepository\<close> (\<open>lib/document-repositories.ts\<close>): one JSON file of documents per
  tenant, read through the normalisation of legacy documents, and for the home company a migration
  of the file of the first version. Reading and writing are two operations with no lock around
  them, so every update is its plan on the documents read, and the write of what it planned.
\<close>

section \<open>Stored items\<close>

text \<open>
  \<open>LegacyDocument\<close>: every property is \<open>unknown\<close> and used after a test of its type, so a property
  here is present when it has the type the code tests for. The Russian names of the first version
  are constructors, as the texts are no one-byte strings. The properties of the intelligence and
  embedding stages are grouped as in the document.
\<close>

datatype legacy_status = StatusText string | RussianProcessed | RussianError | RussianProcessing

record legacy_intelligence =
  lin_detectedDocumentType :: "string option"
  lin_detectedMimeType :: "string option"
  lin_detectionConfidence :: "rat option"
  lin_textExtractionMethod :: "string option"
  lin_ocrStatus :: "string option"
  lin_ocrProvider :: "string option"
  lin_ocrLanguage :: "string option"
  lin_ocrStartedAt :: "date_text option"
  lin_ocrCompletedAt :: "date_text option"
  lin_pageCount :: "int option"
  lin_extractedCharacterCount :: "int option"
  lin_requiresManualReview :: "bool option"
  lin_intelligenceVersion :: "string option"

record legacy_embedding =
  leb_status :: "string option"
  leb_model :: "string option"
  leb_dimensions :: "int option"
  leb_version :: "string option"
  leb_embeddedAt :: "date_text option"
  leb_attempts :: "int option"
  leb_lastErrorCode :: "string option"
  leb_contentHash :: "string option"
  leb_workerId :: "string option"
  leb_workerVersion :: "string option"
  leb_deploymentGeneration :: "string option"
  leb_fencingToken :: "int option"
  leb_heartbeatAt :: "date_text option"
  leb_leaseUntil :: "date_text option"

record legacy_document =
  ld_id :: "string option"
  ld_companyId :: "string option"
  ld_uploadedBy :: "string option"
  ld_status :: "legacy_status option"
  ld_originalName :: "string option"
  ld_name :: "string option"
  ld_storedName :: "string option"
  ld_mimeType :: "string option"
  ld_type :: "string option"
  ld_size :: "int option"
  ld_checksum :: "string option"
  ld_createdAt :: "date_text option"
  ld_uploadedAt :: "date_text option"
  ld_updatedAt :: "date_text option"
  ld_processedAt :: "date_text option"
  ld_deletedAt :: "date_text option"
  ld_processingAttempts :: "int option"
  ld_lastErrorCode :: "string option"
  ld_lastErrorMessage :: "safe_message option"
  ld_processingStartedAt :: "date_text option"
  ld_processingCompletedAt :: "date_text option"
  ld_nextRetryAt :: "date_text option"
  ld_quarantinedAt :: "date_text option"
  ld_workerId :: "string option"
  ld_workerVersion :: "string option"
  ld_deploymentGeneration :: "string option"
  ld_processingFencingToken :: "int option"
  ld_workerHeartbeatAt :: "date_text option"
  ld_processingLeaseUntil :: "date_text option"
  ld_pages :: "int option"
  ld_textLength :: "int option"
  ld_chunksCount :: "int option"
  ld_intelligence :: legacy_intelligence
  ld_embedding :: legacy_embedding

section \<open>Normalisation\<close>

text \<open>\<open>asString\<close> trims and drops blank texts; a date text is not blank and is not changed by it.\<close>

definition asString :: "string option \<Rightarrow> string option" where
  "asString value =
     (case value of None \<Rightarrow> None | Some s \<Rightarrow> if trim s \<noteq> [] then Some (trim s) else None)"

definition as_message :: "safe_message option \<Rightarrow> safe_message option" where
  "as_message value =
     (case value of Some (SafeText s) \<Rightarrow> map_option SafeText (asString (Some s)) | _ \<Rightarrow> value)"

definition or_else :: "'a option \<Rightarrow> 'a option \<Rightarrow> 'a option" where
  "or_else x y = (case x of None \<Rightarrow> y | Some v \<Rightarrow> Some v)"

definition or_value :: "'a option \<Rightarrow> 'a \<Rightarrow> 'a" where
  "or_value x y = (case x of None \<Rightarrow> y | Some v \<Rightarrow> v)"

definition UNVERIFIED_DOCUMENT_CHECKSUM :: string where
  "UNVERIFIED_DOCUMENT_CHECKSUM = replicate 64 CHR ''0''"

definition asDocumentChecksum :: "string option \<Rightarrow> string" where
  "asDocumentChecksum value =
     (case asString value of
        Some checksum \<Rightarrow> if SHA256 checksum then checksum else UNVERIFIED_DOCUMENT_CHECKSUM
      | None \<Rightarrow> UNVERIFIED_DOCUMENT_CHECKSUM)"

definition normalizeLegacyStatus :: "legacy_status option \<Rightarrow> document_status" where
  "normalizeLegacyStatus value =
     (case value of
        Some (StatusText s) \<Rightarrow>
          (case map_of DOCUMENT_PROCESSING_STATUSES s of
             Some status \<Rightarrow> status
           | None \<Rightarrow> if s = ''PROCESSED'' then COMPLETED else UPLOADED)
      | Some RussianProcessed \<Rightarrow> COMPLETED
      | Some RussianError \<Rightarrow> FAILED
      | Some RussianProcessing \<Rightarrow> PROCESSING
      | None \<Rightarrow> UPLOADED)"

definition keep_if :: "('a \<Rightarrow> bool) \<Rightarrow> 'a option \<Rightarrow> 'a option" where
  "keep_if p x = (case x of Some v \<Rightarrow> if p v then Some v else None | None \<Rightarrow> None)"

definition fencing_token :: "int option \<Rightarrow> int" where
  "fencing_token value = or_value (keep_if (\<lambda>n. safe_integer n \<and> 0 \<le> n) value) 0"

definition normalize_intelligence ::
  "document_status \<Rightarrow> int option \<Rightarrow> int option \<Rightarrow> legacy_intelligence \<Rightarrow> date_text document_intelligence" where
  "normalize_intelligence status pages textLength item =
     \<lparr>in_detectedDocumentType = or_value (isDocumentType (lin_detectedDocumentType item)) UNKNOWN,
      in_detectedMimeType = asString (lin_detectedMimeType item),
      in_detectionConfidence = keep_if (\<lambda>c. 0 \<le> c \<and> c \<le> 1) (lin_detectionConfidence item),
      in_textExtractionMethod =
        or_value (isDocumentTextExtractionMethod (lin_textExtractionMethod item))
          (if status = COMPLETED then PDF_TEXT else NO_EXTRACTION),
      in_ocrStatus =
        or_value (isDocumentOcrStatus (lin_ocrStatus item))
          (if status = COMPLETED then OCR_NOT_REQUIRED else OCR_PENDING),
      in_ocrProvider = asString (lin_ocrProvider item),
      in_ocrLanguage = asString (lin_ocrLanguage item),
      in_ocrStartedAt = lin_ocrStartedAt item, in_ocrCompletedAt = lin_ocrCompletedAt item,
      in_pageCount = or_else (lin_pageCount item) pages,
      in_extractedCharacterCount = or_else (lin_extractedCharacterCount item) textLength,
      in_requiresManualReview = or_value (lin_requiresManualReview item) True,
      in_intelligenceVersion = or_value (asString (lin_intelligenceVersion item)) ''legacy-task-002''\<rparr>"

definition normalize_embedding :: "legacy_embedding \<Rightarrow> date_text embedding_state" where
  "normalize_embedding item =
     \<lparr>eb_status = or_value (isDocumentEmbeddingStatus (leb_status item)) EMBEDDING_PENDING,
      eb_model = asString (leb_model item),
      eb_dimensions = keep_if (\<lambda>n. 0 < n) (leb_dimensions item),
      eb_version = asString (leb_version item), eb_embeddedAt = leb_embeddedAt item,
      eb_attempts = or_value (keep_if (\<lambda>n. 0 \<le> n) (leb_attempts item)) 0,
      eb_lastErrorCode = asString (leb_lastErrorCode item),
      eb_contentHash = keep_if SHA256 (leb_contentHash item),
      eb_workerId = asString (leb_workerId item), eb_workerVersion = asString (leb_workerVersion item),
      eb_deploymentGeneration = asString (leb_deploymentGeneration item),
      eb_fencingToken = fencing_token (leb_fencingToken item),
      eb_heartbeatAt = leb_heartbeatAt item, eb_leaseUntil = leb_leaseUntil item\<rparr>"

definition normalized_document ::
  "string \<Rightarrow> string \<Rightarrow> string \<Rightarrow> string \<Rightarrow> legacy_document \<Rightarrow> document" where
  "normalized_document companyId i originalName storedName item =
     (let createdAt = or_value (or_else (ld_createdAt item) (ld_uploadedAt item)) (Some 0);
          deletedAt = ld_deletedAt item;
          status = (if deletedAt \<noteq> None then DELETED else normalizeLegacyStatus (ld_status item));
          processingCompletedAt = or_else (ld_processingCompletedAt item) (ld_processedAt item)
      in
        \<lparr>doc_id = i, doc_companyId = companyId,
         doc_uploadedBy = or_value (asString (ld_uploadedBy item)) ''legacy-import'',
         doc_status = status, doc_originalName = originalName, doc_storedName = storedName,
         doc_mimeType = or_value (asString (ld_mimeType item))
           (if ld_type item = Some ''PDF'' then ''application/pdf'' else ''application/octet-stream''),
         doc_size = or_value (keep_if (\<lambda>n. 0 \<le> n) (ld_size item)) 0,
         doc_checksum = asDocumentChecksum (ld_checksum item),
         doc_createdAt = createdAt,
         doc_updatedAt = or_value (or_else (ld_updatedAt item) processingCompletedAt) createdAt,
         doc_deletedAt = deletedAt,
         doc_processingAttempts = or_value (keep_if (\<lambda>n. 0 \<le> n) (ld_processingAttempts item))
           (if status = COMPLETED \<or> status = FAILED then 1 else 0),
         doc_lastErrorCode = or_else (asString (ld_lastErrorCode item))
           (if status = FAILED then Some ''LEGACY_PROCESSING_ERROR'' else None),
         doc_lastErrorMessage =
           (if status = FAILED then Some NotProcessed else as_message (ld_lastErrorMessage item)),
         doc_processingStartedAt = ld_processingStartedAt item,
         doc_processingCompletedAt = processingCompletedAt,
         doc_nextRetryAt = ld_nextRetryAt item, doc_quarantinedAt = ld_quarantinedAt item,
         doc_workerId = asString (ld_workerId item),
         doc_workerVersion = asString (ld_workerVersion item),
         doc_deploymentGeneration = asString (ld_deploymentGeneration item),
         doc_processingFencingToken = fencing_token (ld_processingFencingToken item),
         doc_workerHeartbeatAt = ld_workerHeartbeatAt item,
         doc_processingLeaseUntil = ld_processingLeaseUntil item,
         doc_pages = ld_pages item, doc_textLength = ld_textLength item,
         doc_chunksCount = ld_chunksCount item,
         doc_intelligence =
           normalize_intelligence status (ld_pages item) (ld_textLength item) (ld_intelligence item),
         doc_embedding = normalize_embedding (ld_embedding item)\<rparr>)"

definition normalizeLegacyDocument :: "legacy_document \<Rightarrow> string \<Rightarrow> document option" where
  "normalizeLegacyDocument item companyId =
     (case (asString (ld_id item), or_else (asString (ld_originalName item)) (asString (ld_name item)),
            asString (ld_storedName item)) of
        (Some i, Some originalName, Some storedName) \<Rightarrow>
          let declaredCompanyId = asString (ld_companyId item) in
          if declaredCompanyId \<noteq> None \<and> declaredCompanyId \<noteq> Some companyId then None
          else Some (normalized_document companyId i originalName storedName item)
      | _ \<Rightarrow> None)"

text \<open>What \<open>JSON.stringify\<close> makes of a document: a null property is of no type the reader tests for.\<close>

definition stored_intelligence :: "date_text document_intelligence \<Rightarrow> legacy_intelligence" where
  "stored_intelligence i =
     \<lparr>lin_detectedDocumentType = Some (name_in DOCUMENT_TYPES (in_detectedDocumentType i)),
      lin_detectedMimeType = in_detectedMimeType i,
      lin_detectionConfidence = in_detectionConfidence i,
      lin_textExtractionMethod = Some (name_in DOCUMENT_TEXT_EXTRACTION_METHODS (in_textExtractionMethod i)),
      lin_ocrStatus = Some (name_in DOCUMENT_OCR_STATUSES (in_ocrStatus i)),
      lin_ocrProvider = in_ocrProvider i, lin_ocrLanguage = in_ocrLanguage i,
      lin_ocrStartedAt = in_ocrStartedAt i, lin_ocrCompletedAt = in_ocrCompletedAt i,
      lin_pageCount = in_pageCount i, lin_extractedCharacterCount = in_extractedCharacterCount i,
      lin_requiresManualReview = Some (in_requiresManualReview i),
      lin_intelligenceVersion = Some (in_intelligenceVersion i)\<rparr>"

definition stored_embedding :: "date_text embedding_state \<Rightarrow> legacy_embedding" where
  "stored_embedding e =
     \<lparr>leb_status = Some (name_in DOCUMENT_EMBEDDING_STATUSES (eb_status e)), leb_model = eb_model e,
      leb_dimensions = eb_dimensions e, leb_version = eb_version e, leb_embeddedAt = eb_embeddedAt e,
      leb_attempts = Some (eb_attempts e), leb_lastErrorCode = eb_lastErrorCode e,
      leb_contentHash = eb_contentHash e, leb_workerId = eb_workerId e,
      leb_workerVersion = eb_workerVersion e, leb_deploymentGeneration = eb_deploymentGeneration e,
      leb_fencingToken = Some (eb_fencingToken e), leb_heartbeatAt = eb_heartbeatAt e,
      leb_leaseUntil = eb_leaseUntil e\<rparr>"

definition stored_item :: "document \<Rightarrow> legacy_document" where
  "stored_item d =
     \<lparr>ld_id = Some (doc_id d), ld_companyId = Some (doc_companyId d),
      ld_uploadedBy = Some (doc_uploadedBy d),
      ld_status = Some (StatusText (name_in DOCUMENT_PROCESSING_STATUSES (doc_status d))),
      ld_originalName = Some (doc_originalName d), ld_name = None,
      ld_storedName = Some (doc_storedName d), ld_mimeType = Some (doc_mimeType d), ld_type = None,
      ld_size = Some (doc_size d), ld_checksum = Some (doc_checksum d),
      ld_createdAt = Some (doc_createdAt d), ld_uploadedAt = None,
      ld_updatedAt = Some (doc_updatedAt d), ld_processedAt = None, ld_deletedAt = doc_deletedAt d,
      ld_processingAttempts = Some (doc_processingAttempts d), ld_lastErrorCode = doc_lastErrorCode d,
      ld_lastErrorMessage = doc_lastErrorMessage d,
      ld_processingStartedAt = doc_processingStartedAt d,
      ld_processingCompletedAt = doc_processingCompletedAt d, ld_nextRetryAt = doc_nextRetryAt d,
      ld_quarantinedAt = doc_quarantinedAt d, ld_workerId = doc_workerId d,
      ld_workerVersion = doc_workerVersion d, ld_deploymentGeneration = doc_deploymentGeneration d,
      ld_processingFencingToken = Some (doc_processingFencingToken d),
      ld_workerHeartbeatAt = doc_workerHeartbeatAt d,
      ld_processingLeaseUntil = doc_processingLeaseUntil d, ld_pages = doc_pages d,
      ld_textLength = doc_textLength d, ld_chunksCount = doc_chunksCount d,
      ld_intelligence = stored_intelligence (doc_intelligence d),
      ld_embedding = stored_embedding (doc_embedding d)\<rparr>"

section \<open>Reading what was written\<close>

lemma dropWhile_idem_rev:
  "dropWhile p (rev (dropWhile p (rev (dropWhile p xs)))) = rev (dropWhile p (rev (dropWhile p xs)))"
proof -
  let ?ys = "dropWhile p xs"
  have "prefix (rev (dropWhile p (rev ?ys))) ?ys"
    by (metis rev_rev_ident suffix_dropWhile suffix_to_prefix)
  then obtain zs where ys: "?ys = rev (dropWhile p (rev ?ys)) @ zs" by (auto simp: prefix_def)
  show ?thesis
  proof (cases "rev (dropWhile p (rev ?ys))")
    case Nil
    then show ?thesis by (simp only: dropWhile.simps(1) rev.simps(1))
  next
    case (Cons c cs)
    with ys have "hd ?ys = c" "?ys \<noteq> []" by (metis append_Cons list.sel(1), force)
    then have "\<not> p c" using hd_dropWhile [of p xs] by auto
    then show ?thesis by (simp add: Cons)
  qed
qed

lemma trim_idem [simp]: "trim (trim s) = trim s"
  by (simp add: trim_def dropWhile_idem_rev dropWhile_idem)

lemma asString_idem [simp]: "asString (asString x) = asString x"
  by (auto simp: asString_def split: option.splits)

lemma asString_Some [simp]: "asString x = Some s \<Longrightarrow> asString (Some s) = Some s"
  by (metis asString_idem)

lemma as_message_idem [simp]: "as_message (as_message m) = as_message m"
  by (auto simp: as_message_def asString_def split: option.splits safe_message.splits)

lemma keep_if_idem [simp]: "keep_if p (keep_if p x) = keep_if p x"
  by (auto simp: keep_if_def split: option.splits)

lemma or_simps [simp]:
  "or_else None y = y" "or_else (Some v) y = Some v" "or_value None v = v" "or_value (Some v) w = v"
  "or_else (or_else x y) y = or_else x y" "or_else x None = x" "asString None = None"
  by (auto simp: or_else_def or_value_def asString_def split: option.splits)

lemma asString_default [simp]:
  "trim s = s \<Longrightarrow> s \<noteq> [] \<Longrightarrow> asString (Some (or_value (asString x) s)) = Some (or_value (asString x) s)"
  by (cases "asString x") (simp add: asString_def or_value_def, simp only: or_simps asString_Some)

text \<open>
  Writing a document and reading it back changes nothing a first reading has not changed already:
  the normal form is a fixed point.
\<close>

lemma normalize_intelligence_idem:
  "normalize_intelligence status pages textLength
     (stored_intelligence (normalize_intelligence status pages textLength item)) =
   normalize_intelligence status pages textLength item"
  by (simp add: normalize_intelligence_def stored_intelligence_def) (simp add: trim_def is_space_def code_def)

lemma fencing_token_idem [simp]: "fencing_token (Some (fencing_token x)) = fencing_token x"
  by (auto simp: fencing_token_def keep_if_def or_value_def safe_integer_def split: option.splits)

lemma keep_if_default [simp]: "p v \<Longrightarrow> keep_if p (Some (or_value (keep_if p x) v)) = Some (or_value (keep_if p x) v)"
  by (auto simp: keep_if_def or_value_def split: option.splits)

lemma normalize_embedding_idem:
  "normalize_embedding (stored_embedding (normalize_embedding item)) = normalize_embedding item"
  by (simp add: normalize_embedding_def stored_embedding_def)

lemma trim_plain: "(\<And>c. c \<in> set s \<Longrightarrow> \<not> is_space c) \<Longrightarrow> trim s = s"
proof -
  assume plain: "\<And>c. c \<in> set s \<Longrightarrow> \<not> is_space c"
  have "dropWhile is_space t = t" if "\<And>c. c \<in> set t \<Longrightarrow> \<not> is_space c" for t :: string
    using that by (cases t) auto
  from this [of s] this [of "rev s"] plain show "trim s = s" by (simp add: trim_def)
qed

lemma SHA256_trim: "SHA256 s \<Longrightarrow> trim s = s \<and> s \<noteq> []"
proof -
  assume sha: "SHA256 s"
  have "\<not> is_space c" if "c \<in> set s" for c
    using matches_chars [OF sha [unfolded SHA256_def] that]
    by (auto simp: is_hex_def is_digit_def is_space_def)
  then have "trim s = s" by (rule trim_plain)
  with sha show ?thesis by (auto simp: SHA256_def)
qed

lemma checksum_idem [simp]: "asDocumentChecksum (Some (asDocumentChecksum x)) = asDocumentChecksum x"
proof -
  have "SHA256 (asDocumentChecksum x)"
    by (auto simp: asDocumentChecksum_def split: option.splits) code_simp+
  moreover from this have "asString (Some (asDocumentChecksum x)) = Some (asDocumentChecksum x)"
    by (simp add: asString_def SHA256_trim)
  ultimately show ?thesis by (subst asDocumentChecksum_def) simp
qed

lemma status_idem [simp]:
  "normalizeLegacyStatus (Some (StatusText (name_in DOCUMENT_PROCESSING_STATUSES s))) = s"
  by (simp add: normalizeLegacyStatus_def)

lemma code_default [simp]:
  "or_else (asString (or_else (asString x) (if b then Some ''LEGACY_PROCESSING_ERROR'' else None)))
     (if b then Some ''LEGACY_PROCESSING_ERROR'' else None) =
   or_else (asString x) (if b then Some ''LEGACY_PROCESSING_ERROR'' else None)"
proof (cases "asString x")
  case None
  moreover have "trim ''LEGACY_PROCESSING_ERROR'' = ''LEGACY_PROCESSING_ERROR''" by code_simp
  then have "asString (Some ''LEGACY_PROCESSING_ERROR'') = Some ''LEGACY_PROCESSING_ERROR''"
    by (simp add: asString_def)
  ultimately show ?thesis by simp
next
  case (Some s)
  then show ?thesis by simp
qed

lemma attempts_default [simp]:
  "or_value (keep_if (\<lambda>n. 0 \<le> n) (Some (or_value (keep_if (\<lambda>n. 0 \<le> n) x) (if b then 1 else 0))))
     (if b' then 1 else 0) = or_value (keep_if (\<lambda>n. 0 \<le> (n::int)) x) (if b then 1 else 0)"
  by (simp add: keep_if_default)

lemma mime_default [simp]:
  "or_value (asString (Some (or_value (asString x) (if b then ''application/pdf'' else ''application/octet-stream''))))
     y = or_value (asString x) (if b then ''application/pdf'' else ''application/octet-stream'')"
proof -
  have "trim ''application/pdf'' = ''application/pdf''"
    "trim ''application/octet-stream'' = ''application/octet-stream''" by code_simp+
  then show ?thesis by simp
qed

lemma uploaded_default [simp]:
  "or_value (asString (Some (or_value (asString x) ''legacy-import''))) y =
     or_value (asString x) ''legacy-import''"
proof -
  have "trim ''legacy-import'' = ''legacy-import''" by code_simp
  then show ?thesis by simp
qed

lemma normalized_document_idem:
  "normalized_document c i n m (stored_item (normalized_document c i n m item)) =
     normalized_document c i n m item"
  by (simp add: normalized_document_def stored_item_def Let_def normalize_embedding_idem
      normalize_intelligence_idem)

lemma normalize_stored:
  assumes "normalizeLegacyDocument item companyId = Some d" "trim companyId = companyId" "companyId \<noteq> []"
  shows "normalizeLegacyDocument (stored_item d) companyId = Some d"
proof -
  from assms(1) obtain i n m where t: "asString (ld_id item) = Some i"
    "or_else (asString (ld_originalName item)) (asString (ld_name item)) = Some n"
    "asString (ld_storedName item) = Some m"
    and d: "d = normalized_document companyId i n m item"
    by (auto simp: normalizeLegacyDocument_def Let_def split: option.splits if_splits)
  from t(2) have n: "asString (Some n) = Some n"
    by (auto simp: or_else_def split: option.splits)
  have f: "ld_id (stored_item d) = Some i" "ld_originalName (stored_item d) = Some n"
    "ld_storedName (stored_item d) = Some m" "ld_companyId (stored_item d) = Some companyId"
    by (simp_all add: d stored_item_def normalized_document_def Let_def)
  have "asString (Some companyId) = Some companyId" using assms(2,3) by (simp add: asString_def)
  with t n f show ?thesis
    by (simp add: normalizeLegacyDocument_def d normalized_document_idem)
qed

section \<open>The file of a tenant\<close>

datatype metadata_file = MetadataNotJson | MetadataNotAnArray | Items "legacy_document list"

type_synonym metadata_files = "string \<Rightarrow> metadata_file option"

definition metadataFile :: "document_tenant \<Rightarrow> string" where
  "metadataFile tenant = ''document-tenants/'' @ dt_companyId tenant @ ''/metadata.json''"

definition legacyFile :: string where
  "legacyFile = ''documents.json''"

text \<open>\<open>write\<close>: the new contents replace the file in one rename.\<close>

definition local_write :: "document_tenant \<Rightarrow> document list \<Rightarrow> metadata_files \<Rightarrow> metadata_files" where
  "local_write tenant documents files =
     files(metadataFile tenant \<mapsto> Items (map stored_item documents))"

definition normalize_items :: "string \<Rightarrow> legacy_document list \<Rightarrow> document list" where
  "normalize_items companyId items = List.map_filter (\<lambda>item. normalizeLegacyDocument item companyId) items"

text \<open>
  \<open>read\<close>: the tenant's file if there is one, and for the home company otherwise the legacy file,
  written back as the tenant's unless \<open>persistLegacyOnRead\<close> is off.
\<close>

definition local_read ::
  "bool \<Rightarrow> document_tenant \<Rightarrow> metadata_files \<Rightarrow> (document_error, document list, metadata_files) handled" where
  "local_read persistLegacyOnRead tenant files =
     (case assertDocumentTenantContext (Some tenant) of
        Some e \<Rightarrow> (Inl e, files)
      | None \<Rightarrow>
          (case files (metadataFile tenant) of
             Some MetadataNotJson \<Rightarrow> (Inl METADATA_FILE_SYNTAX, files)
           | Some MetadataNotAnArray \<Rightarrow> (Inr [], files)
           | Some (Items items) \<Rightarrow> (Inr (normalize_items (dt_companyId tenant) items), files)
           | None \<Rightarrow>
               if dt_companyId tenant \<noteq> AVANTIME_DOCUMENT_COMPANY_ID then (Inr [], files)
               else
                 (case files legacyFile of
                    None \<Rightarrow> (Inr [], files)
                  | Some MetadataNotJson \<Rightarrow> (Inl METADATA_FILE_SYNTAX, files)
                  | Some MetadataNotAnArray \<Rightarrow> (Inr [], files)
                  | Some (Items items) \<Rightarrow>
                      let migrated = normalize_items (dt_companyId tenant) items in
                      (Inr migrated,
                       if migrated \<noteq> [] \<and> persistLegacyOnRead then local_write tenant migrated files
                       else files))))"

section \<open>The updates\<close>

text \<open>
  What an update makes of the documents read: an error, nothing (the call returns null), or its
  result with the documents to write. \<open>now\<close> is the instant of the new \<open>updatedAt\<close>.
\<close>

type_synonym plan = "document_error + (document \<times> document list) option"

definition visible :: "string \<Rightarrow> document \<Rightarrow> bool" where
  "visible documentId d \<longleftrightarrow> doc_id d = documentId \<and> doc_deletedAt d = None"

definition index_where :: "('a \<Rightarrow> bool) \<Rightarrow> 'a list \<Rightarrow> nat option" where
  "index_where p xs = List.find (\<lambda>i. p (xs ! i)) [0..<length xs]"

definition create_plan :: "document_tenant \<Rightarrow> create_metadata \<Rightarrow> document list \<Rightarrow> plan" where
  "create_plan tenant metadata documents =
     (let document = withProcessingDefaults metadata tenant in
      case validateDocumentMetadata document of
        Some e \<Rightarrow> Inl e
      | None \<Rightarrow>
          if \<exists>item \<in> set documents. doc_id item = doc_id document then Inl METADATA_EXISTS
          else Inr (Some (document, document # documents)))"

definition updated_document ::
  "document_tenant \<Rightarrow> date_text document_change list \<Rightarrow> document_status \<Rightarrow> ms \<Rightarrow> document \<Rightarrow> document" where
  "updated_document tenant changes status now d =
     (apply_changes changes d)\<lparr>doc_companyId := dt_companyId tenant, doc_status := status,
        doc_updatedAt := Some now\<rparr>"

definition write_at :: "nat \<Rightarrow> document \<Rightarrow> document list \<Rightarrow> plan" where
  "write_at i d documents =
     (case validateDocumentMetadata d of
        Some e \<Rightarrow> Inl e
      | None \<Rightarrow> Inr (Some (d, documents[i := d])))"

definition update_plan ::
  "document_tenant \<Rightarrow> string \<Rightarrow> date_text document_change list \<Rightarrow> ms \<Rightarrow> document list \<Rightarrow> plan" where
  "update_plan tenant documentId changes now documents =
     (case index_where (visible documentId) documents of
        None \<Rightarrow> Inr None
      | Some i \<Rightarrow>
          write_at i (updated_document tenant changes (doc_status (documents ! i)) now (documents ! i)) documents)"

text \<open>\<open>DocumentLeaseGuard\<close> is a worker with its fencing token.\<close>

definition guard_holds :: "(string \<times> int) option \<Rightarrow> 'd document_fields \<Rightarrow> bool" where
  "guard_holds leaseGuard d =
     (case leaseGuard of
        None \<Rightarrow> True
      | Some (workerId, fencingToken) \<Rightarrow>
          doc_workerId d = Some workerId \<and> doc_processingFencingToken d = fencingToken)"

definition transition_plan ::
  "document_tenant \<Rightarrow> string \<Rightarrow> document_status list \<Rightarrow> document_status \<Rightarrow>
     date_text document_change list \<Rightarrow> (string \<times> int) option \<Rightarrow> ms \<Rightarrow> document list \<Rightarrow> plan" where
  "transition_plan tenant documentId expectedStatuses nextStatus changes leaseGuard now documents =
     (case index_where (\<lambda>d. visible documentId d \<and> contains expectedStatuses (doc_status d) \<and>
                          guard_holds leaseGuard d) documents of
        None \<Rightarrow> Inr None
      | Some i \<Rightarrow>
          (case assertDocumentStatusTransition (doc_status (documents ! i)) nextStatus of
             Some e \<Rightarrow> Inl e
           | None \<Rightarrow> write_at i (updated_document tenant changes nextStatus now (documents ! i)) documents))"

definition delete_plan :: "string \<Rightarrow> ms \<Rightarrow> document list \<Rightarrow> plan" where
  "delete_plan documentId now documents =
     (case index_where (visible documentId) documents of
        None \<Rightarrow> Inr None
      | Some i \<Rightarrow>
          (case assertDocumentStatusTransition (doc_status (documents ! i)) DELETED of
             Some e \<Rightarrow> Inl e
           | None \<Rightarrow>
               let document = (documents ! i)\<lparr>doc_status := DELETED, doc_updatedAt := Some now,
                     doc_deletedAt := Some (Some now), doc_workerId := None, doc_nextRetryAt := None\<rparr>
               in Inr (Some (document, documents[i := document]))))"

definition deleted :: "string \<Rightarrow> document \<Rightarrow> bool" where
  "deleted documentId d \<longleftrightarrow> doc_id d = documentId \<and> doc_deletedAt d \<noteq> None"

text \<open>\<open>item !== document\<close> compares objects: one element of the array is left out.\<close>

definition hardDelete_plan :: "string \<Rightarrow> document list \<Rightarrow> plan" where
  "hardDelete_plan documentId documents =
     (case index_where (deleted documentId) documents of
        None \<Rightarrow> Inr None
      | Some i \<Rightarrow> Inr (Some (documents ! i, take i documents @ drop (Suc i) documents)))"

text \<open>An update run alone: read, plan, write.\<close>

definition local_update_with ::
  "bool \<Rightarrow> document_tenant \<Rightarrow> (document list \<Rightarrow> plan) \<Rightarrow> metadata_files \<Rightarrow>
     (document_error, document option, metadata_files) handled" where
  "local_update_with persist tenant plan files =
     (case local_read persist tenant files of
        (Inl e, files') \<Rightarrow> (Inl e, files')
      | (Inr documents, files') \<Rightarrow>
          (case plan documents of
             Inl e \<Rightarrow> (Inl e, files')
           | Inr None \<Rightarrow> (Inr None, files')
           | Inr (Some (result, documents')) \<Rightarrow>
               (Inr (Some result), local_write tenant documents' files')))"

definition local_create where
  "local_create persist tenant metadata =
     local_update_with persist tenant (create_plan tenant metadata)"

definition local_update where
  "local_update persist tenant documentId changes now =
     local_update_with persist tenant (update_plan tenant documentId changes now)"

definition transition_checks ::
  "document_tenant \<Rightarrow> string \<Rightarrow> document_status list \<Rightarrow> document_status \<Rightarrow> document_error option" where
  "transition_checks tenant documentId expectedStatuses nextStatus = first_error
     ([assertDocumentTenantContext (Some tenant), assertSafeDocumentSegment documentId ''document id''] @
      map (\<lambda>expected. assertDocumentStatusTransition expected nextStatus) expectedStatuses)"

definition local_transitionStatus ::
  "bool \<Rightarrow> document_tenant \<Rightarrow> string \<Rightarrow> document_status list \<Rightarrow> document_status \<Rightarrow>
     date_text document_change list \<Rightarrow> (string \<times> int) option \<Rightarrow> ms \<Rightarrow> metadata_files \<Rightarrow>
     (document_error, document option, metadata_files) handled" where
  "local_transitionStatus persist tenant documentId expectedStatuses nextStatus changes leaseGuard now files =
     (case transition_checks tenant documentId expectedStatuses nextStatus of
        Some e \<Rightarrow> (Inl e, files)
      | None \<Rightarrow>
          local_update_with persist tenant
            (transition_plan tenant documentId expectedStatuses nextStatus changes leaseGuard now) files)"

definition local_delete where
  "local_delete persist tenant documentId now =
     local_update_with persist tenant (delete_plan documentId now)"

definition local_hardDelete where
  "local_hardDelete persist tenant documentId =
     local_update_with persist tenant (hardDelete_plan documentId)"

definition local_query ::
  "bool \<Rightarrow> document_tenant \<Rightarrow> (document list \<Rightarrow> 'a) \<Rightarrow> metadata_files \<Rightarrow>
     (document_error, 'a, metadata_files) handled" where
  "local_query persist tenant query files =
     (case local_read persist tenant files of
        (Inl e, files') \<Rightarrow> (Inl e, files')
      | (Inr documents, files') \<Rightarrow> (Inr (query documents), files'))"

definition local_findById where
  "local_findById persist tenant documentId =
     local_query persist tenant (List.find (visible documentId))"

definition local_findDeletedById where
  "local_findDeletedById persist tenant documentId =
     local_query persist tenant (List.find (deleted documentId))"

text \<open>Sorting compares ISO texts, whose order is that of their instants; it is stable.\<close>

definition local_list where
  "local_list persist tenant = local_query persist tenant
     (\<lambda>documents. sort_key (\<lambda>d. - the (doc_createdAt d)) (filter (\<lambda>d. doc_deletedAt d = None) documents))"

definition local_listDeleted where
  "local_listDeleted persist tenant = local_query persist tenant
     (\<lambda>documents. sort_key (\<lambda>d. the (the (doc_deletedAt d))) (filter (\<lambda>d. doc_deletedAt d \<noteq> None) documents))"

text \<open>The fenced update of the embedding stage reads twice: for the test, then in \<open>update\<close>.\<close>

definition embedding_guard :: "string \<times> int \<Rightarrow> 'd document_fields \<Rightarrow> bool" where
  "embedding_guard leaseGuard d \<longleftrightarrow>
     eb_workerId (doc_embedding d) = Some (fst leaseGuard) \<and>
     eb_fencingToken (doc_embedding d) = snd leaseGuard"

definition local_updateEmbeddingFenced where
  "local_updateEmbeddingFenced persist tenant documentId changes leaseGuard now files =
     (case local_findById persist tenant documentId files of
        (Inl e, files') \<Rightarrow> (Inl e, files')
      | (Inr None, files') \<Rightarrow> (Inr None, files')
      | (Inr (Some current), files') \<Rightarrow>
          if \<not> embedding_guard leaseGuard current then (Inr None, files')
          else local_update persist tenant documentId changes now files')"

end
