(* ===== verification/PostgresDocuments.thy ===== *)
theory PostgresDocuments
  imports LocalDocuments PostgresQueue
begin

text \<open>
  \<open>PostgreSQLDocumentMetadataRepository\<close> (\<open>lib/document-repositories.ts\<close>): the table of documents,
  whose key is the company with the identifier, the mapping of rows to documents and back, and the
  operations as the statements they issue. A statement is one atomic step; an update reads the row
  again in a second one.
\<close>

section \<open>Rows\<close>

type_synonym document_row = "ms document_fields"

record document_db =
  md_available :: bool
  md_rows :: "document_row list"

text \<open>The same record with its instants mapped.\<close>

definition map_intelligence :: "('a \<Rightarrow> 'b) \<Rightarrow> 'a document_intelligence \<Rightarrow> 'b document_intelligence" where
  "map_intelligence f i =
     \<lparr>in_detectedDocumentType = in_detectedDocumentType i, in_detectedMimeType = in_detectedMimeType i,
      in_detectionConfidence = in_detectionConfidence i,
      in_textExtractionMethod = in_textExtractionMethod i, in_ocrStatus = in_ocrStatus i,
      in_ocrProvider = in_ocrProvider i, in_ocrLanguage = in_ocrLanguage i,
      in_ocrStartedAt = map_option f (in_ocrStartedAt i),
      in_ocrCompletedAt = map_option f (in_ocrCompletedAt i), in_pageCount = in_pageCount i,
      in_extractedCharacterCount = in_extractedCharacterCount i,
      in_requiresManualReview = in_requiresManualReview i,
      in_intelligenceVersion = in_intelligenceVersion i\<rparr>"

definition map_embedding :: "('a \<Rightarrow> 'b) \<Rightarrow> 'a embedding_state \<Rightarrow> 'b embedding_state" where
  "map_embedding f e =
     \<lparr>eb_status = eb_status e, eb_model = eb_model e, eb_dimensions = eb_dimensions e,
      eb_version = eb_version e, eb_embeddedAt = map_option f (eb_embeddedAt e),
      eb_attempts = eb_attempts e, eb_lastErrorCode = eb_lastErrorCode e,
      eb_contentHash = eb_contentHash e, eb_workerId = eb_workerId e,
      eb_workerVersion = eb_workerVersion e, eb_deploymentGeneration = eb_deploymentGeneration e,
      eb_fencingToken = eb_fencingToken e, eb_heartbeatAt = map_option f (eb_heartbeatAt e),
      eb_leaseUntil = map_option f (eb_leaseUntil e)\<rparr>"

definition map_document :: "('a \<Rightarrow> 'b) \<Rightarrow> 'a document_fields \<Rightarrow> 'b document_fields" where
  "map_document f d =
     \<lparr>doc_id = doc_id d, doc_companyId = doc_companyId d, doc_uploadedBy = doc_uploadedBy d,
      doc_status = doc_status d, doc_originalName = doc_originalName d,
      doc_storedName = doc_storedName d, doc_mimeType = doc_mimeType d, doc_size = doc_size d,
      doc_checksum = doc_checksum d, doc_createdAt = f (doc_createdAt d),
      doc_updatedAt = f (doc_updatedAt d), doc_deletedAt = map_option f (doc_deletedAt d),
      doc_processingAttempts = doc_processingAttempts d, doc_lastErrorCode = doc_lastErrorCode d,
      doc_lastErrorMessage = doc_lastErrorMessage d,
      doc_processingStartedAt = map_option f (doc_processingStartedAt d),
      doc_processingCompletedAt = map_option f (doc_processingCompletedAt d),
      doc_nextRetryAt = map_option f (doc_nextRetryAt d),
      doc_quarantinedAt = map_option f (doc_quarantinedAt d), doc_workerId = doc_workerId d,
      doc_workerVersion = doc_workerVersion d, doc_deploymentGeneration = doc_deploymentGeneration d,
      doc_processingFencingToken = doc_processingFencingToken d,
      doc_workerHeartbeatAt = map_option f (doc_workerHeartbeatAt d),
      doc_processingLeaseUntil = map_option f (doc_processingLeaseUntil d),
      doc_pages = doc_pages d, doc_textLength = doc_textLength d, doc_chunksCount = doc_chunksCount d,
      doc_intelligence = map_intelligence f (doc_intelligence d),
      doc_embedding = map_embedding f (doc_embedding d)\<rparr>"

text \<open>
  The columns: \<open>Int\<close> is four bytes wide and \<open>VarChar(n)\<close> holds \<open>n\<close> characters; the database refuses
  a row with a value that does not fit.
\<close>

definition fits :: "nat \<Rightarrow> string option \<Rightarrow> bool" where
  "fits n value \<longleftrightarrow> (case value of None \<Rightarrow> True | Some s \<Rightarrow> length s \<le> n)"

definition opt_int4 :: "int option \<Rightarrow> bool" where
  "opt_int4 value \<longleftrightarrow> (case value of None \<Rightarrow> True | Some n \<Rightarrow> int4 n)"

definition integer_columns_fit :: "'d document_fields \<Rightarrow> bool" where
  "integer_columns_fit r \<longleftrightarrow>
     int4 (doc_size r) \<and> int4 (doc_processingAttempts r) \<and> int4 (doc_processingFencingToken r) \<and>
     opt_int4 (doc_pages r) \<and> opt_int4 (doc_textLength r) \<and> opt_int4 (doc_chunksCount r) \<and>
     opt_int4 (in_pageCount (doc_intelligence r)) \<and>
     opt_int4 (in_extractedCharacterCount (doc_intelligence r)) \<and>
     opt_int4 (eb_dimensions (doc_embedding r)) \<and> int4 (eb_attempts (doc_embedding r)) \<and>
     int4 (eb_fencingToken (doc_embedding r))"

definition text_columns_fit :: "'d document_fields \<Rightarrow> bool" where
  "text_columns_fit r \<longleftrightarrow>
     fits 200 (Some (doc_id r)) \<and> fits 200 (Some (doc_companyId r)) \<and>
     fits 200 (Some (doc_uploadedBy r)) \<and> fits 255 (Some (doc_storedName r)) \<and>
     fits 255 (Some (doc_mimeType r)) \<and> fits 64 (Some (doc_checksum r)) \<and>
     fits 100 (doc_lastErrorCode r) \<and> fits 200 (doc_workerId r) \<and> fits 100 (doc_workerVersion r) \<and>
     fits 100 (doc_deploymentGeneration r) \<and> fits 255 (in_detectedMimeType (doc_intelligence r)) \<and>
     fits 100 (in_ocrProvider (doc_intelligence r)) \<and> fits 100 (in_ocrLanguage (doc_intelligence r)) \<and>
     fits 100 (Some (in_intelligenceVersion (doc_intelligence r))) \<and>
     fits 200 (eb_model (doc_embedding r)) \<and> fits 100 (eb_version (doc_embedding r)) \<and>
     fits 100 (eb_lastErrorCode (doc_embedding r)) \<and> fits 64 (eb_contentHash (doc_embedding r)) \<and>
     fits 200 (eb_workerId (doc_embedding r)) \<and> fits 200 (eb_workerVersion (doc_embedding r)) \<and>
     fits 200 (eb_deploymentGeneration (doc_embedding r))"

definition column_error :: "'d document_fields \<Rightarrow> document_error option" where
  "column_error r = first_error
     [demand (integer_columns_fit r) INTEGER_OUT_OF_RANGE, demand (text_columns_fit r) VALUE_TOO_LONG]"

text \<open>
  \<open>mapDatabaseDocument\<close>: the columns of the vocabularies are enumerations of the database with the
  same members, so the tests on them hold; what is read is validated.
\<close>

definition row_document :: "document_row \<Rightarrow> document" where
  "row_document r =
     (let d = map_document Some r in
      d\<lparr>doc_embedding := (doc_embedding d)\<lparr>eb_attempts :=
          (let n = eb_attempts (doc_embedding r) in if safe_integer n \<and> 0 \<le> n then n else 0)\<rparr>\<rparr>)"

definition mapDatabaseDocument :: "document_row \<Rightarrow> document_error + document" where
  "mapDatabaseDocument r =
     (case validateDocumentMetadata (row_document r) of
        Some e \<Rightarrow> Inl e
      | None \<Rightarrow> Inr (row_document r))"

section \<open>Changes\<close>

text \<open>
  \<open>applyProcessingChanges\<close>: the changes but those of the file's identity, their dates parsed. The
  partial record lists them in the order of the code, so that the first unreadable date is the error.
\<close>

definition file_change :: "'d document_change \<Rightarrow> bool" where
  "file_change c \<longleftrightarrow>
     (case c of
        SetOriginalName _ \<Rightarrow> True | SetStoredName _ \<Rightarrow> True | SetMimeType _ \<Rightarrow> True
      | SetSize _ \<Rightarrow> True | SetChecksum _ \<Rightarrow> True | _ \<Rightarrow> False)"

definition change_date :: "'d document_change \<Rightarrow> (string \<times> 'd) option" where
  "change_date c =
     (let labelled = (\<lambda>label. map_option (Pair label)) in
      case c of
        SetProcessingStartedAt d \<Rightarrow> labelled ''processingStartedAt'' d
      | SetProcessingCompletedAt d \<Rightarrow> labelled ''processingCompletedAt'' d
      | SetNextRetryAt d \<Rightarrow> labelled ''nextRetryAt'' d
      | SetQuarantinedAt d \<Rightarrow> labelled ''quarantinedAt'' d
      | SetWorkerHeartbeatAt d \<Rightarrow> labelled ''workerHeartbeatAt'' d
      | SetProcessingLeaseUntil d \<Rightarrow> labelled ''processingLeaseUntil'' d
      | IntelligenceChange (SetOcrStartedAt d) \<Rightarrow> labelled ''ocrStartedAt'' d
      | IntelligenceChange (SetOcrCompletedAt d) \<Rightarrow> labelled ''ocrCompletedAt'' d
      | EmbeddingChange (SetEmbeddedAt d) \<Rightarrow> labelled ''embeddedAt'' d
      | EmbeddingChange (SetEmbeddingHeartbeatAt d) \<Rightarrow> labelled ''embeddingHeartbeatAt'' d
      | EmbeddingChange (SetEmbeddingLeaseUntil d) \<Rightarrow> labelled ''embeddingLeaseUntil'' d
      | _ \<Rightarrow> None)"

definition change_error :: "date_text document_change \<Rightarrow> document_error option" where
  "change_error c =
     (case change_date c of None \<Rightarrow> None | Some (label, d) \<Rightarrow> parseDocumentDate d label)"

definition parsed_changes :: "date_text document_change list \<Rightarrow> ms document_change list" where
  "parsed_changes changes = map (map_document_change the) changes"

definition applyProcessingChanges ::
  "date_text document_change list \<Rightarrow> document_error + ms document_change list" where
  "applyProcessingChanges changes =
     (let processing = filter (\<lambda>c. \<not> file_change c) changes in
      case first_error (map change_error processing) of
        Some e \<Rightarrow> Inl e
      | None \<Rightarrow> Inr (parsed_changes processing))"

text \<open>The checks \<open>update\<close> makes of the changes of the file's identity.\<close>

definition file_change_error :: "'d document_change \<Rightarrow> document_error option" where
  "file_change_error c =
     (case c of
        SetOriginalName v \<Rightarrow> required_text v 500 ''originalName''
      | SetStoredName v \<Rightarrow> assertSafeDocumentSegment v ''storedName''
      | SetMimeType v \<Rightarrow> required_text v 255 ''mimeType''
      | SetSize v \<Rightarrow> natural_number v ''size''
      | SetChecksum v \<Rightarrow> assertDocumentChecksum v
      | _ \<Rightarrow> None)"

section \<open>Statements\<close>

text \<open>
  \<open>updateMany\<close>: the rows that satisfy the condition are rewritten unless one of them no longer fits
  its columns; the result is their number.
\<close>

definition update_many ::
  "(document_row \<Rightarrow> bool) \<Rightarrow> (document_row \<Rightarrow> document_row) \<Rightarrow> document_db \<Rightarrow>
     (document_error, nat, document_db) handled" where
  "update_many p f db =
     (case first_error (map (\<lambda>r. column_error (f r)) (filter p (md_rows db))) of
        Some e \<Rightarrow> (Inl e, db)
      | None \<Rightarrow> (Inr (count_where p (md_rows db)), db\<lparr>md_rows := update_where p f (md_rows db)\<rparr>))"

definition of_key :: "string \<Rightarrow> string \<Rightarrow> 'd document_fields \<Rightarrow> bool" where
  "of_key companyId documentId r \<longleftrightarrow> doc_companyId r = companyId \<and> doc_id r = documentId"

definition live_row :: "string \<Rightarrow> string \<Rightarrow> 'd document_fields \<Rightarrow> bool" where
  "live_row companyId documentId r \<longleftrightarrow> of_key companyId documentId r \<and> doc_deletedAt r = None"

definition deleted_row :: "string \<Rightarrow> string \<Rightarrow> 'd document_fields \<Rightarrow> bool" where
  "deleted_row companyId documentId r \<longleftrightarrow> of_key companyId documentId r \<and> doc_deletedAt r \<noteq> None"

definition create_statement :: "document_row \<Rightarrow> document_db \<Rightarrow> (document_error, unit, document_db) handled" where
  "create_statement r db =
     (case first_error [column_error r,
        demand (\<not> (\<exists>s \<in> set (md_rows db). of_key (doc_companyId r) (doc_id r) s)) METADATA_UNIQUE_VIOLATION] of
        Some e \<Rightarrow> (Inl e, db)
      | None \<Rightarrow> (Inr (), db\<lparr>md_rows := md_rows db @ [r]\<rparr>))"

definition update_statement ::
  "string \<Rightarrow> string \<Rightarrow> ms document_change list \<Rightarrow> ms \<Rightarrow> document_db \<Rightarrow>
     (document_error, nat, document_db) handled" where
  "update_statement companyId documentId changes now =
     update_many (live_row companyId documentId)
       (\<lambda>r. (apply_changes changes r)\<lparr>doc_updatedAt := now\<rparr>)"

definition transition_statement ::
  "string \<Rightarrow> string \<Rightarrow> document_status list \<Rightarrow> document_status \<Rightarrow> ms document_change list \<Rightarrow>
     (string \<times> int) option \<Rightarrow> ms \<Rightarrow> document_db \<Rightarrow> (document_error, nat, document_db) handled" where
  "transition_statement companyId documentId expectedStatuses nextStatus changes leaseGuard now =
     update_many
       (\<lambda>r. live_row companyId documentId r \<and> contains expectedStatuses (doc_status r) \<and>
            guard_holds leaseGuard r)
       (\<lambda>r. (apply_changes changes r)\<lparr>doc_status := nextStatus, doc_updatedAt := now\<rparr>)"

definition embedding_statement ::
  "string \<Rightarrow> string \<Rightarrow> ms document_change list \<Rightarrow> string \<times> int \<Rightarrow> ms \<Rightarrow> document_db \<Rightarrow>
     (document_error, nat, document_db) handled" where
  "embedding_statement companyId documentId changes leaseGuard now =
     update_many (\<lambda>r. live_row companyId documentId r \<and> embedding_guard leaseGuard r)
       (\<lambda>r. (apply_changes changes r)\<lparr>doc_updatedAt := now\<rparr>)"

definition delete_statement ::
  "string \<Rightarrow> string \<Rightarrow> document_status \<Rightarrow> ms \<Rightarrow> document_db \<Rightarrow>
     (document_error, nat, document_db) handled" where
  "delete_statement companyId documentId status deletedAt =
     update_many (\<lambda>r. live_row companyId documentId r \<and> doc_status r = status)
       (\<lambda>r. r\<lparr>doc_status := DELETED, doc_deletedAt := Some deletedAt, doc_updatedAt := deletedAt,
              doc_workerId := None, doc_nextRetryAt := None\<rparr>)"

definition hardDelete_statement :: "string \<Rightarrow> string \<Rightarrow> document_db \<Rightarrow> nat \<times> document_db" where
  "hardDelete_statement companyId documentId db =
     (count_where (deleted_row companyId documentId) (md_rows db),
      db\<lparr>md_rows := filter (\<lambda>r. \<not> deleted_row companyId documentId r) (md_rows db)\<rparr>)"

section \<open>The operations\<close>

definition document_delegate :: "document_tenant \<Rightarrow> document_db \<Rightarrow> document_error option" where
  "document_delegate tenant db = first_error
     [assertDocumentTenantContext (Some tenant), demand (md_available db) METADATA_UNAVAILABLE]"

definition mapped :: "document_row option \<Rightarrow> document_error + document option" where
  "mapped row =
     (case row of
        None \<Rightarrow> Inr None
      | Some r \<Rightarrow> (case mapDatabaseDocument r of Inl e \<Rightarrow> Inl e | Inr d \<Rightarrow> Inr (Some d)))"

definition find_row ::
  "(string \<Rightarrow> string \<Rightarrow> document_row \<Rightarrow> bool) \<Rightarrow> document_tenant \<Rightarrow> string \<Rightarrow> document_db \<Rightarrow>
     document_error + document option" where
  "find_row p tenant documentId db =
     (case first_error [document_delegate tenant db, assertSafeDocumentSegment documentId ''document id''] of
        Some e \<Rightarrow> Inl e
      | None \<Rightarrow> mapped (List.find (p (dt_companyId tenant) documentId) (md_rows db)))"

definition pg_findById where
  "pg_findById = find_row live_row"

definition pg_findDeletedById where
  "pg_findDeletedById = find_row deleted_row"

definition rows_documents :: "document_row list \<Rightarrow> document_error + document list" where
  "rows_documents rows =
     (case first_error (map (\<lambda>r. validateDocumentMetadata (row_document r)) rows) of
        Some e \<Rightarrow> Inl e
      | None \<Rightarrow> Inr (map row_document rows))"

definition pg_listDocuments :: "document_tenant \<Rightarrow> document_db \<Rightarrow> document_error + document list" where
  "pg_listDocuments tenant db =
     (case document_delegate tenant db of
        Some e \<Rightarrow> Inl e
      | None \<Rightarrow> rows_documents (sort_key (\<lambda>r. - doc_createdAt r)
          (filter (\<lambda>r. doc_companyId r = dt_companyId tenant \<and> doc_deletedAt r = None) (md_rows db))))"

definition pg_listDeleted :: "document_tenant \<Rightarrow> document_db \<Rightarrow> document_error + document list" where
  "pg_listDeleted tenant db =
     (case document_delegate tenant db of
        Some e \<Rightarrow> Inl e
      | None \<Rightarrow> rows_documents (sort_key (\<lambda>r. the (doc_deletedAt r))
          (filter (\<lambda>r. doc_companyId r = dt_companyId tenant \<and> doc_deletedAt r \<noteq> None) (md_rows db))))"

text \<open>The row a document is inserted as.\<close>

definition new_row :: "document \<Rightarrow> document_row" where
  "new_row d = (map_document the d)\<lparr>doc_deletedAt := None\<rparr>"

definition pg_create ::
  "document_tenant \<Rightarrow> create_metadata \<Rightarrow> document_db \<Rightarrow> (document_error, document, document_db) handled" where
  "pg_create tenant metadata db =
     (let document = withProcessingDefaults metadata tenant in
      case first_error [document_delegate tenant db, validateDocumentMetadata document] of
        Some e \<Rightarrow> (Inl e, db)
      | None \<Rightarrow>
          (case create_statement (new_row document) db of
             (Inl e, db') \<Rightarrow> (Inl e, db')
           | (Inr _, db') \<Rightarrow> (mapDatabaseDocument (new_row document), db')))"

text \<open>After a statement: null when it changed no row, otherwise the row read again.\<close>

definition then_find ::
  "(document_tenant \<Rightarrow> string \<Rightarrow> document_db \<Rightarrow> document_error + document option) \<Rightarrow>
     document_tenant \<Rightarrow> string \<Rightarrow> (document_error, nat, document_db) handled \<Rightarrow>
     (document_error, document option, document_db) handled" where
  "then_find reading tenant documentId statement =
     (case statement of
        (Inl e, db) \<Rightarrow> (Inl e, db)
      | (Inr count, db) \<Rightarrow> if count = 0 then (Inr None, db) else (reading tenant documentId db, db))"

definition pg_updateDocument where
  "pg_updateDocument tenant documentId changes now db =
     (case first_error ([document_delegate tenant db, assertSafeDocumentSegment documentId ''document id''] @
                        map file_change_error changes) of
        Some e \<Rightarrow> (Inl e, db)
      | None \<Rightarrow>
          (case applyProcessingChanges changes of
             Inl e \<Rightarrow> (Inl e, db)
           | Inr data \<Rightarrow> then_find pg_findById tenant documentId
               (update_statement (dt_companyId tenant) documentId
                  (parsed_changes (filter file_change changes) @ data) now db)))"

definition pg_transitionStatus ::
  "document_tenant \<Rightarrow> string \<Rightarrow> document_status list \<Rightarrow> document_status \<Rightarrow>
     date_text document_change list \<Rightarrow> (string \<times> int) option \<Rightarrow> ms \<Rightarrow> document_db \<Rightarrow>
     (document_error, document option, document_db) handled" where
  "pg_transitionStatus tenant documentId expectedStatuses nextStatus changes leaseGuard now db =
     (case first_error [document_delegate tenant db,
                        transition_checks tenant documentId expectedStatuses nextStatus] of
        Some e \<Rightarrow> (Inl e, db)
      | None \<Rightarrow>
          (case applyProcessingChanges changes of
             Inl e \<Rightarrow> (Inl e, db)
           | Inr data \<Rightarrow> then_find pg_findById tenant documentId
               (transition_statement (dt_companyId tenant) documentId expectedStatuses nextStatus data
                  leaseGuard now db)))"

text \<open>The fenced update checks the identifier only when it reads the row again.\<close>

definition pg_updateEmbeddingFenced where
  "pg_updateEmbeddingFenced tenant documentId changes leaseGuard now db =
     (case document_delegate tenant db of
        Some e \<Rightarrow> (Inl e, db)
      | None \<Rightarrow>
          (case applyProcessingChanges changes of
             Inl e \<Rightarrow> (Inl e, db)
           | Inr data \<Rightarrow> then_find pg_findById tenant documentId
               (embedding_statement (dt_companyId tenant) documentId data leaseGuard now db)))"

text \<open>\<open>delete\<close> after its first read found a document with the status \<open>current\<close>.\<close>

definition pg_delete_found where
  "pg_delete_found tenant documentId current now db =
     (case assertDocumentStatusTransition current DELETED of
        Some e \<Rightarrow> (Inl e, db)
      | None \<Rightarrow> then_find pg_findDeletedById tenant documentId
          (delete_statement (dt_companyId tenant) documentId current now db))"

definition pg_deleteDocument where
  "pg_deleteDocument tenant documentId now db =
     (case pg_findById tenant documentId db of
        Inl e \<Rightarrow> (Inl e, db)
      | Inr None \<Rightarrow> (Inr None, db)
      | Inr (Some current) \<Rightarrow> pg_delete_found tenant documentId (doc_status current) now db)"

definition pg_hardDelete ::
  "document_tenant \<Rightarrow> string \<Rightarrow> document_db \<Rightarrow> (document_error, document option, document_db) handled" where
  "pg_hardDelete tenant documentId db =
     (case pg_findDeletedById tenant documentId db of
        Inl e \<Rightarrow> (Inl e, db)
      | Inr None \<Rightarrow> (Inr None, db)
      | Inr (Some document) \<Rightarrow>
          (case hardDelete_statement (dt_companyId tenant) documentId db of
             (count, db') \<Rightarrow> (Inr (if count > 0 then Some document else None), db')))"

end
