(* ===== verification/DocumentLifecycle.thy ===== *)
theory DocumentLifecycle
  imports LocalDocuments PostgresDocuments
begin

text \<open>
  The life of a document under both metadata repositories: an abstract automaton of its status, the
  contract that every operation moves a document along it at most one step, the proofs that the
  file repository and the PostgreSQL repository keep the contract, and what follows for every run.
\<close>

section \<open>The automaton\<close>

text \<open>\<open>None\<close> is a document that does not exist.\<close>

inductive status_move :: "document_status option \<Rightarrow> document_status option \<Rightarrow> bool" where
  created: "s \<noteq> DELETED \<Longrightarrow> status_move None (Some s)"
| moved: "canTransitionDocumentStatus s t \<Longrightarrow> status_move (Some s) (Some t)"
| erased: "status_move (Some DELETED) None"

inductive_simps status_move_simps [simp]:
  "status_move None None" "status_move None (Some t)" "status_move (Some s) None"
  "status_move (Some s) (Some t)"

lemma status_move_refl: "x \<noteq> None \<Longrightarrow> status_move x x"
  by (cases x) (simp_all add: canTransitionDocumentStatus_def assertDocumentStatusTransition_def)

lemma from_deleted [simp]: "canTransitionDocumentStatus DELETED s \<longleftrightarrow> s = DELETED"
  by (auto simp: canTransitionDocumentStatus_def assertDocumentStatusTransition_def)

lemma to_completed [simp]:
  "canTransitionDocumentStatus s COMPLETED \<longleftrightarrow> s \<in> {PROCESSING, QUARANTINED, COMPLETED}"
  by (cases s) (simp_all add: canTransitionDocumentStatus_def assertDocumentStatusTransition_def)

section \<open>The contract of a repository\<close>

type_synonym status_view = "string \<Rightarrow> string \<Rightarrow> document_status option"

locale document_repository =
  fixes ok :: "'m \<Rightarrow> bool"
    and view :: "'m \<Rightarrow> status_view"
    and step :: "'op \<Rightarrow> 'm \<Rightarrow> 'm"
  assumes step_ok: "ok m \<Longrightarrow> ok (step op m)"
    and step_moves: "ok m \<Longrightarrow> status_move\<^sup>=\<^sup>= (view m c i) (view (step op m) c i)"
begin

lemma run_ok: "ok m \<Longrightarrow> ok (queue_run step ops m)"
  by (induction ops arbitrary: m) (auto intro: step_ok)

lemma run_moves: "ok m \<Longrightarrow> status_move\<^sup>*\<^sup>* (view m c i) (view (queue_run step ops m) c i)"
proof (induction ops arbitrary: m)
  case Nil
  then show ?case by simp
next
  case (Cons op ops)
  have "status_move\<^sup>*\<^sup>* (view m c i) (view (step op m) c i)"
    using step_moves [OF Cons.prems, of c i op] by auto
  also have "status_move\<^sup>*\<^sup>* \<dots> (view (queue_run step ops (step op m)) c i)"
    by (rule Cons.IH) (rule step_ok [OF Cons.prems])
  finally show ?case by simp
qed

lemma deleted_until_erased:
  assumes "ok m" "view m c i = Some DELETED"
    and "\<forall>k \<le> length ops. view (queue_run step (take k ops) m) c i \<noteq> None"
  shows "view (queue_run step ops m) c i = Some DELETED"
  using assms
proof (induction ops arbitrary: m)
  case Nil
  then show ?case by simp
next
  case (Cons op ops)
  have "view (step op m) c i \<noteq> None" using Cons.prems(3) [rule_format, of 1] by simp
  then have "view (step op m) c i = Some DELETED"
    using step_moves [OF Cons.prems(1), of c i op] Cons.prems(2) by auto
  moreover have "\<forall>k \<le> length ops. view (queue_run step (take k ops) (step op m)) c i \<noteq> None"
  proof (intro allI impI)
    fix k assume "k \<le> length ops"
    then show "view (queue_run step (take k ops) (step op m)) c i \<noteq> None"
      using Cons.prems(3) [rule_format, of "Suc k"] by simp
  qed
  ultimately show ?case using Cons.IH [OF step_ok [OF Cons.prems(1)]] by simp
qed

lemma completed_was_processing:
  assumes "ok m" "view (step op m) c i = Some COMPLETED" "view m c i \<noteq> None"
  shows "view m c i \<in> Some ` {PROCESSING, QUARANTINED, COMPLETED}"
  using step_moves [OF assms(1), of c i op] assms(2,3) by auto

end

section \<open>The PostgreSQL repository\<close>

text \<open>
  Its steps are the statements, so every interleaving of concurrent calls is a run. A deletion
  carries the status its first read found, which the transition check let through.
\<close>

datatype document_statement =
    PgCreate document_tenant create_metadata
  | PgUpdate string string "ms document_change list" ms
  | PgTransition document_tenant string "document_status list" document_status
      "ms document_change list" "(string \<times> int) option" ms
  | PgEmbedding string string "ms document_change list" "string \<times> int" ms
  | PgDelete string string document_status ms
  | PgHardDelete string string

fun document_statement_step :: "document_statement \<Rightarrow> document_db \<Rightarrow> document_db" where
  "document_statement_step (PgCreate tenant metadata) db = snd (pg_create tenant metadata db)"
| "document_statement_step (PgUpdate c i changes now) db = snd (update_statement c i changes now db)"
| "document_statement_step (PgTransition tenant i expected nextStatus changes leaseGuard now) db =
     (if transition_checks tenant i expected nextStatus = None
      then snd (transition_statement (dt_companyId tenant) i expected nextStatus changes leaseGuard now db)
      else db)"
| "document_statement_step (PgEmbedding c i changes leaseGuard now) db =
     snd (embedding_statement c i changes leaseGuard now db)"
| "document_statement_step (PgDelete c i current now) db =
     (if assertDocumentStatusTransition current DELETED = None
      then snd (delete_statement c i current now db) else db)"
| "document_statement_step (PgHardDelete c i) db = snd (hardDelete_statement c i db)"

definition row_key :: "'d document_fields \<Rightarrow> string \<times> string" where
  "row_key r = (doc_companyId r, doc_id r)"

definition document_rows_ok :: "document_db \<Rightarrow> bool" where
  "document_rows_ok db \<longleftrightarrow>
     distinct (map row_key (md_rows db)) \<and>
     (\<forall>r \<in> set (md_rows db). doc_deletedAt r \<noteq> None \<longrightarrow> doc_status r = DELETED)"

definition pg_status_view :: "document_db \<Rightarrow> status_view" where
  "pg_status_view db c i = table_map row_key doc_status (md_rows db) (c, i)"

lemma of_key_iff: "of_key c i r \<longleftrightarrow> row_key r = (c, i)"
  by (auto simp: of_key_def row_key_def)

lemma update_many_rows:
  "md_rows (snd (update_many p f db)) = md_rows db \<or>
   md_rows (snd (update_many p f db)) = update_where p f (md_rows db)"
  by (simp add: update_many_def split: option.split)

lemma update_row_step:
  assumes ok: "document_rows_ok db"
    and p: "\<And>r. p r \<Longrightarrow> row_key r = k"
    and f: "\<And>r. p r \<Longrightarrow> row_key (f r) = row_key r"
      "\<And>r. p r \<Longrightarrow> r \<in> set (md_rows db) \<Longrightarrow> status_move (Some (doc_status r)) (Some (doc_status (f r)))"
      "\<And>r. p r \<Longrightarrow> doc_deletedAt (f r) \<noteq> None \<Longrightarrow> doc_status (f r) = DELETED"
  shows "document_rows_ok (snd (update_many p f db)) \<and>
    status_move\<^sup>=\<^sup>= (pg_status_view db c i) (pg_status_view (snd (update_many p f db)) c i)"
proof (cases "\<exists>r \<in> set (md_rows db). p r")
  case False
  then have "update_where p f (md_rows db) = md_rows db" by (intro update_where_none) blast
  then have "md_rows (snd (update_many p f db)) = md_rows db" using update_many_rows [of p f db] by simp
  then show ?thesis using ok by (simp add: document_rows_ok_def pg_status_view_def)
next
  case True
  then obtain r where r: "r \<in> set (md_rows db)" "p r" by blast
  have dist: "distinct (map row_key (md_rows db))" using ok by (simp add: document_rows_ok_def)
  let ?rows = "update_where p f (md_rows db)"
  have keys: "map row_key ?rows = map row_key (md_rows db)" using f(1) by (rule map_update_where)
  have "document_rows_ok (db\<lparr>md_rows := ?rows\<rparr>)"
    using ok dist f(3) by (auto simp: document_rows_ok_def keys elim!: in_update_whereE)
  moreover have "table_map row_key doc_status ?rows =
      (table_map row_key doc_status (md_rows db))(row_key r \<mapsto> doc_status (f r))"
    using dist r p f(1) by (intro table_map_update_where) auto
  then have "status_move\<^sup>=\<^sup>= (pg_status_view db c i) (pg_status_view (db\<lparr>md_rows := ?rows\<rparr>) c i)"
    using f(2) [OF r(2,1)] table_map_Some [OF dist r(1), of doc_status]
    by (auto simp: pg_status_view_def)
  moreover have "snd (update_many p f db) = db \<or> snd (update_many p f db) = db\<lparr>md_rows := ?rows\<rparr>"
    by (simp add: update_many_def split: option.split)
  ultimately show ?thesis using ok by auto
qed

lemma create_row_step:
  assumes ok: "document_rows_ok db"
  shows "document_rows_ok (snd (pg_create tenant metadata db)) \<and>
    status_move\<^sup>=\<^sup>= (pg_status_view db c i) (pg_status_view (snd (pg_create tenant metadata db)) c i)"
proof -
  let ?d = "withProcessingDefaults metadata tenant" and ?db = "snd (pg_create tenant metadata db)"
  consider "?db = db"
    | "validateDocumentMetadata ?d = None" "?db = db\<lparr>md_rows := md_rows db @ [new_row ?d]\<rparr>"
      "\<not> (\<exists>s \<in> set (md_rows db). of_key (doc_companyId (new_row ?d)) (doc_id (new_row ?d)) s)"
  proof (cases "first_error [document_delegate tenant db, validateDocumentMetadata ?d] = None \<and>
      first_error [column_error (new_row ?d), demand (\<not> (\<exists>s \<in> set (md_rows db).
        of_key (doc_companyId (new_row ?d)) (doc_id (new_row ?d)) s)) METADATA_UNIQUE_VIOLATION] = None")
    case True
    then show ?thesis using that(2) by (simp add: pg_create_def create_statement_def Let_def)
  next
    case False
    then have "snd (pg_create tenant metadata db) = db"
      by (auto simp add: pg_create_def create_statement_def Let_def simp del: first_error_Cons_None
          split: option.split)
    then show ?thesis by (rule that(1))
  qed
  then show ?thesis
  proof cases
    case 1
    with ok show ?thesis by simp
  next
    case 2
    have fresh: "row_key (new_row ?d) \<notin> row_key ` set (md_rows db)"
      using 2(3) by (auto simp: of_key_iff row_key_def)
    have "doc_deletedAt ?d = None" by (simp add: withProcessingDefaults_def)
    then have s: "doc_status (new_row ?d) \<noteq> DELETED" "doc_deletedAt (new_row ?d) = None"
      using valid_document_facts(4) [OF 2(1)] by (simp_all add: new_row_def map_document_def)
    have "document_rows_ok ?db" using ok fresh s by (auto simp: document_rows_ok_def 2(2))
    moreover have "pg_status_view db (doc_companyId (new_row ?d)) (doc_id (new_row ?d)) = None"
      using fresh by (simp add: pg_status_view_def table_map_None row_key_def)
    ultimately show ?thesis
      using s fresh by (auto simp: 2(2) pg_status_view_def table_map_append row_key_def)
  qed
qed

lemma hardDelete_row_step:
  assumes ok: "document_rows_ok db"
  shows "document_rows_ok (snd (hardDelete_statement a b db)) \<and>
    status_move\<^sup>=\<^sup>= (pg_status_view db c i) (pg_status_view (snd (hardDelete_statement a b db)) c i)"
proof (cases "\<exists>r \<in> set (md_rows db). deleted_row a b r")
  case False
  then have "filter (\<lambda>r. \<not> deleted_row a b r) (md_rows db) = md_rows db"
    by (simp add: filter_id_conv)
  with ok show ?thesis by (simp add: hardDelete_statement_def)
next
  case True
  then obtain r where r: "r \<in> set (md_rows db)" "row_key r = (a, b)" "doc_deletedAt r \<noteq> None"
    by (auto simp: deleted_row_def of_key_iff)
  have dist: "distinct (map row_key (md_rows db))" using ok by (simp add: document_rows_ok_def)
  have "deleted_row a b s \<longleftrightarrow> s = r" if "s \<in> set (md_rows db)" for s
    using r distinct_key_eq [OF dist that r(1)] by (auto simp: deleted_row_def of_key_iff)
  then have "filter (\<lambda>r. \<not> deleted_row a b r) (md_rows db) = filter (\<lambda>s. row_key s \<noteq> row_key r) (md_rows db)"
    by (rule filter_key_single [OF dist r(1)])
  then have after: "snd (hardDelete_statement a b db) =
      db\<lparr>md_rows := filter (\<lambda>s. row_key s \<noteq> (a, b)) (md_rows db)\<rparr>"
    by (simp add: hardDelete_statement_def r(2))
  have "doc_status r = DELETED" using ok r(1,3) by (simp add: document_rows_ok_def)
  then have "pg_status_view db a b = Some DELETED"
    using table_map_Some [OF dist r(1), of doc_status] r(2) by (simp add: pg_status_view_def)
  moreover have "pg_status_view (snd (hardDelete_statement a b db)) c i =
      (if (c, i) = (a, b) then None else pg_status_view db c i)"
    by (simp add: after pg_status_view_def table_map_filter)
  moreover have "document_rows_ok (snd (hardDelete_statement a b db))"
    using ok by (simp add: document_rows_ok_def after distinct_map_filter)
  ultimately show ?thesis by auto
qed

lemma can_transition: "assertDocumentStatusTransition s t = None \<longleftrightarrow> canTransitionDocumentStatus s t"
  by (simp add: canTransitionDocumentStatus_def)

lemma transition_checks_None:
  "transition_checks tenant i expected t = None \<Longrightarrow> s \<in> set expected \<Longrightarrow> canTransitionDocumentStatus s t"
  by (auto simp: transition_checks_def first_error_None_iff can_transition)

lemma stays [simp]: "canTransitionDocumentStatus s s"
  by (simp add: canTransitionDocumentStatus_def assertDocumentStatusTransition_def)

lemma document_statement_moves:
  assumes ok: "document_rows_ok db"
  shows "document_rows_ok (document_statement_step op db) \<and>
    status_move\<^sup>=\<^sup>= (pg_status_view db c i) (pg_status_view (document_statement_step op db) c i)"
proof (cases op)
  case (PgCreate tenant metadata)
  with create_row_step [OF ok] show ?thesis by simp
next
  case (PgUpdate a b changes now)
  show ?thesis unfolding PgUpdate document_statement_step.simps update_statement_def
    by (rule update_row_step [OF ok, where k = "(a, b)"])
      (auto simp: live_row_def of_key_iff row_key_def)
next
  case (PgTransition tenant b expected nextStatus changes leaseGuard now)
  show ?thesis
  proof (cases "transition_checks tenant b expected nextStatus = None")
    case False
    with ok PgTransition show ?thesis by (simp only: document_statement_step.simps if_False) simp
  next
    case True
    then show ?thesis
      unfolding PgTransition document_statement_step.simps transition_statement_def if_P [OF True]
      by (intro update_row_step [OF ok, where k = "(dt_companyId tenant, b)"])
        (auto simp: live_row_def of_key_iff row_key_def transition_checks_None [OF True])
  qed
next
  case (PgEmbedding a b changes leaseGuard now)
  show ?thesis unfolding PgEmbedding document_statement_step.simps embedding_statement_def
    by (rule update_row_step [OF ok, where k = "(a, b)"])
      (auto simp: live_row_def of_key_iff row_key_def)
next
  case (PgDelete a b current now)
  show ?thesis
  proof (cases "assertDocumentStatusTransition current DELETED = None")
    case False
    with ok PgDelete show ?thesis by (simp only: document_statement_step.simps if_False) simp
  next
    case True
    then show ?thesis
      unfolding PgDelete document_statement_step.simps delete_statement_def if_P [OF True]
      by (intro update_row_step [OF ok, where k = "(a, b)"])
        (auto simp: live_row_def of_key_iff row_key_def can_transition)
  qed
next
  case (PgHardDelete a b)
  with hardDelete_row_step [OF ok] show ?thesis by simp
qed

interpretation pg_documents:
  document_repository document_rows_ok pg_status_view document_statement_step
  by unfold_locales (simp_all only: document_statement_moves)

section \<open>The file repository\<close>

text \<open>The documents a company's calls read, and their status by identifier.\<close>

definition documents_of :: "string \<Rightarrow> metadata_files \<Rightarrow> document list" where
  "documents_of c files =
     (case fst (local_read False \<lparr>dt_companyId = c, dt_userId = ''user''\<rparr> files) of
        Inl e \<Rightarrow> [] | Inr documents \<Rightarrow> documents)"

definition local_status_view :: "metadata_files \<Rightarrow> status_view" where
  "local_status_view files c i = table_map doc_id doc_status (documents_of c files) i"

definition local_documents_ok :: "metadata_files \<Rightarrow> bool" where
  "local_documents_ok files \<longleftrightarrow> (\<forall>c. distinct (map doc_id (documents_of c files)))"

text \<open>What survives being written and read again.\<close>

definition storable :: "string \<Rightarrow> document \<Rightarrow> bool" where
  "storable c d \<longleftrightarrow>
     asString (Some (doc_id d)) = Some (doc_id d) \<and> asString (Some (doc_originalName d)) \<noteq> None \<and>
     asString (Some (doc_storedName d)) \<noteq> None \<and> doc_companyId d = c \<and>
     (doc_deletedAt d \<noteq> None \<longrightarrow> doc_status d = DELETED)"

lemma safe_segment_asString: "safe_segment s \<Longrightarrow> asString (Some s) = Some s"
proof -
  assume safe: "safe_segment s"
  then have m: "matches is_alnum (\<lambda>c. is_alnum c \<or> contains ''._-'' c) 0 199 s"
    by (simp only: safe_segment_def)
  have "trim s = s"
  proof (rule trim_plain)
    fix c assume "c \<in> set s"
    from matches_chars [OF m this] show "\<not> is_space c" by (auto simp: char_class_defs is_space_def)
  qed
  with safe show ?thesis by (simp add: asString_def safe_segment_def)
qed

lemma normalized_storable:
  assumes "normalizeLegacyDocument item c = Some d"
  shows "storable c d"
proof -
  from assms obtain i n m where t: "asString (ld_id item) = Some i"
    "or_else (asString (ld_originalName item)) (asString (ld_name item)) = Some n"
    "asString (ld_storedName item) = Some m" and d: "d = normalized_document c i n m item"
    by (auto simp: normalizeLegacyDocument_def Let_def split: option.splits if_splits)
  from t(2) have n: "asString (Some n) = Some n" by (auto simp: or_else_def split: option.splits)
  show ?thesis using t(1,3) n by (simp add: storable_def d normalized_document_def Let_def)
qed

lemma valid_storable:
  assumes "validateDocumentMetadata d = None" "doc_companyId d = c"
  shows "storable c d"
proof -
  have "safe_segment (doc_id d)" "safe_segment (doc_storedName d)" "trim (doc_originalName d) \<noteq> []"
    "doc_status d = DELETED \<longleftrightarrow> doc_deletedAt d \<noteq> None"
    using assms(1) by (auto simp: validation_defs assertSafeDocumentSegment_def required_text_def)
  then show ?thesis
    using assms(2) by (simp add: storable_def safe_segment_asString) (simp add: asString_def)
qed

lemma storable_reread:
  assumes "storable c d" "safe_segment c"
  obtains d' where "normalizeLegacyDocument (stored_item d) c = Some d'"
    "doc_id d' = doc_id d" "doc_status d' = doc_status d"
proof -
  obtain n m where t: "asString (Some (doc_originalName d)) = Some n"
    "asString (Some (doc_storedName d)) = Some m"
    using assms(1) by (auto simp: storable_def)
  let ?d = "normalized_document c (doc_id d) n m (stored_item d)"
  have "normalizeLegacyDocument (stored_item d) c = Some ?d"
    using assms t
    by (simp add: normalizeLegacyDocument_def storable_def stored_item_def Let_def safe_segment_asString)
  moreover have "doc_id ?d = doc_id d" "doc_status ?d = doc_status d"
    using assms(1) by (auto simp: normalized_document_def Let_def stored_item_def storable_def)
  ultimately show thesis by (rule that)
qed

lemma normalize_written:
  assumes "\<forall>d \<in> set documents. storable c d" "safe_segment c"
  shows "table_map doc_id doc_status (normalize_items c (map stored_item documents)) =
      table_map doc_id doc_status documents \<and>
    map doc_id (normalize_items c (map stored_item documents)) = map doc_id documents"
  using assms(1)
proof (induction documents)
  case Nil
  then show ?case by (simp add: normalize_items_def List.map_filter_def)
next
  case (Cons d ds)
  obtain d' where "normalizeLegacyDocument (stored_item d) c = Some d'"
    "doc_id d' = doc_id d" "doc_status d' = doc_status d"
    using Cons.prems assms(2) by (auto intro: storable_reread)
  with Cons show ?case by (simp add: normalize_items_def List.map_filter_def)
qed

lemma normalize_items_storable: "d \<in> set (normalize_items c items) \<Longrightarrow> storable c d"
  by (auto simp: normalize_items_def List.map_filter_def intro: normalized_storable)

lemma normalize_items_idem:
  assumes "safe_segment c"
  shows "normalize_items c (map stored_item (normalize_items c items)) = normalize_items c items"
proof (induction items)
  case Nil
  then show ?case by (simp add: normalize_items_def List.map_filter_def)
next
  case (Cons item items)
  have "trim c = c \<and> c \<noteq> []"
    using safe_segment_asString [OF assms] assms by (auto simp: asString_def safe_segment_def split: if_splits)
  then show ?case
    using Cons normalize_stored [of item c]
    by (auto simp: normalize_items_def List.map_filter_def split: option.splits)
qed

lemma other_file:
  "metadataFile t = metadataFile t' \<longleftrightarrow> dt_companyId t = dt_companyId t'"
  "metadataFile t \<noteq> legacyFile" "legacyFile \<noteq> metadataFile t"
  by (auto simp: metadataFile_def legacyFile_def)

definition file_documents :: "string \<Rightarrow> metadata_file option \<Rightarrow> metadata_file option \<Rightarrow> document list" where
  "file_documents c own legacy =
     (case (case own of None \<Rightarrow> if c = AVANTIME_DOCUMENT_COMPANY_ID then legacy else None | Some f \<Rightarrow> Some f) of
        Some (Items items) \<Rightarrow> normalize_items c items
      | _ \<Rightarrow> [])"

lemma documents_of_eq:
  "documents_of (dt_companyId tenant) files =
     (if safe_segment (dt_companyId tenant)
      then file_documents (dt_companyId tenant) (files (metadataFile tenant)) (files legacyFile) else [])"
proof -
  have "safe_segment ''user''" by code_simp
  then show ?thesis
    by (simp add: documents_of_def local_read_def file_documents_def Let_def metadataFile_def
        assertDocumentTenantContext_def assertSafeDocumentSegment_def
        split: option.split metadata_file.split)
qed

lemma documents_of_write:
  assumes "safe_segment (dt_companyId tenant)"
  shows "documents_of c (local_write tenant documents files) =
    (if c = dt_companyId tenant then normalize_items c (map stored_item documents) else documents_of c files)"
  using documents_of_eq [of "\<lparr>dt_companyId = c, dt_userId = ''user''\<rparr>"] assms
  by (simp add: local_write_def other_file file_documents_def)

lemma local_read_documents:
  assumes "local_read persist tenant files = (Inr documents, files')"
  shows "safe_segment (dt_companyId tenant)" "documents = documents_of (dt_companyId tenant) files"
    "documents_of c files' = documents_of c files"
proof -
  show safe: "safe_segment (dt_companyId tenant)"
    using assms
    by (auto simp: local_read_def assertDocumentTenantContext_def assertSafeDocumentSegment_def
        split: option.splits)
  have ctx: "assertDocumentTenantContext (Some tenant) = None"
    using assms by (auto simp: local_read_def split: option.splits)
  show docs: "documents = documents_of (dt_companyId tenant) files"
    using assms safe
    by (auto simp: local_read_def ctx documents_of_eq file_documents_def Let_def
        split: option.splits metadata_file.splits if_splits)
  consider "files' = files"
    | items where "files' = local_write tenant documents files"
      "documents = normalize_items (dt_companyId tenant) items"
    using assms
    by (auto simp: local_read_def ctx Let_def split: option.splits metadata_file.splits if_splits)
  then show "documents_of c files' = documents_of c files"
  proof cases
    case 2
    then show ?thesis
      using docs by (simp add: documents_of_write [OF safe] normalize_items_idem [OF safe])
  qed simp
qed

lemma local_read_failed:
  "local_read persist tenant files = (Inl e, files') \<Longrightarrow> files' = files"
  by (auto simp: local_read_def Let_def split: option.splits metadata_file.splits if_splits)

text \<open>
  A plan is safe when what it writes stays storable under distinct identifiers and moves one
  document along the automaton.
\<close>

definition safe_plan :: "string \<Rightarrow> (document list \<Rightarrow> plan) \<Rightarrow> bool" where
  "safe_plan c plan \<longleftrightarrow>
     (\<forall>documents result documents'.
        distinct (map doc_id documents) \<and> (\<forall>d \<in> set documents. storable c d) \<and>
        plan documents = Inr (Some (result, documents')) \<longrightarrow>
        distinct (map doc_id documents') \<and> (\<forall>d \<in> set documents'. storable c d) \<and>
        (\<forall>i. status_move\<^sup>=\<^sup>= (table_map doc_id doc_status documents i)
               (table_map doc_id doc_status documents' i)))"

lemma safe_planD:
  assumes "safe_plan c plan" "distinct (map doc_id documents)" "\<forall>d \<in> set documents. storable c d"
    "plan documents = Inr (Some (result, documents'))"
  shows "distinct (map doc_id documents')" "\<forall>d \<in> set documents'. storable c d"
    "status_move\<^sup>=\<^sup>= (table_map doc_id doc_status documents i) (table_map doc_id doc_status documents' i)"
  using assms unfolding safe_plan_def by blast+

lemma documents_of_storable: "\<forall>d \<in> set (documents_of c files). storable c d"
  using documents_of_eq [of "\<lparr>dt_companyId = c, dt_userId = ''user''\<rparr>" files]
  by (auto simp: file_documents_def normalize_items_storable split: option.splits metadata_file.splits
      if_splits)

lemma local_update_step:
  assumes ok: "local_documents_ok files" and safe: "safe_plan (dt_companyId tenant) plan"
  shows "local_documents_ok (snd (local_update_with persist tenant plan files)) \<and>
    status_move\<^sup>=\<^sup>= (local_status_view files c i)
      (local_status_view (snd (local_update_with persist tenant plan files)) c i)"
proof -
  let ?after = "snd (local_update_with persist tenant plan files)"
  obtain r files1 where read: "local_read persist tenant files = (r, files1)" by fastforce
  show ?thesis
  proof (cases r)
    case (Inl e)
    with read have "?after = files"
      using local_read_failed [of persist tenant files e files1] by (simp add: local_update_with_def)
    with ok show ?thesis by simp
  next
    case (Inr documents)
    note rd = local_read_documents [OF read [unfolded Inr]]
    let ?c = "dt_companyId tenant"
    have same: "documents_of c files1 = documents_of c files" for c by (rule rd(3))
    consider "?after = files1"
      | result documents' where "plan documents = Inr (Some (result, documents'))"
        "?after = local_write tenant documents' files1"
      by (cases "plan documents"; cases "projr (plan documents)") (auto simp: local_update_with_def read Inr)
    then show ?thesis
    proof cases
      case 1
      with ok same show ?thesis by (simp add: local_documents_ok_def local_status_view_def)
    next
      case 2
      have "distinct (map doc_id documents)" "\<forall>d \<in> set documents. storable ?c d"
        using ok documents_of_storable by (simp_all add: rd(2) local_documents_ok_def)
      note plan = safe_planD [OF safe this 2(1)]
      note written = normalize_written [OF plan(2) rd(1)]
      have after: "documents_of c ?after =
          (if c = ?c then normalize_items ?c (map stored_item documents') else documents_of c files)" for c
        by (simp add: 2(2) documents_of_write [OF rd(1)] same)
      have "local_documents_ok ?after"
        using ok plan(1) written by (simp add: local_documents_ok_def after)
      moreover have "status_move\<^sup>=\<^sup>= (local_status_view files c i) (local_status_view ?after c i)"
        using plan(3) written by (auto simp: local_status_view_def after rd(2))
      ultimately show ?thesis by blast
    qed
  qed
qed

lemma index_whereD: "index_where p xs = Some i \<Longrightarrow> i < length xs \<and> p (xs ! i)"
  by (auto simp: index_where_def find_Some_iff)

lemma changed_documents:
  assumes "distinct (map doc_id documents)" "\<forall>d \<in> set documents. storable c d" "k < length documents"
    "doc_id d = doc_id (documents ! k)" "storable c d"
    "canTransitionDocumentStatus (doc_status (documents ! k)) (doc_status d)"
  shows "distinct (map doc_id (documents[k := d])) \<and> (\<forall>e \<in> set (documents[k := d]). storable c e) \<and>
    status_move\<^sup>=\<^sup>= (table_map doc_id doc_status documents i) (table_map doc_id doc_status (documents[k := d]) i)"
proof (intro conjI)
  have "map doc_id (documents[k := d]) = map doc_id documents"
    using assms(3,4) by (simp add: map_update) (metis length_map list_update_id nth_map)
  then show "distinct (map doc_id (documents[k := d]))" using assms(1) by simp
  show "\<forall>e \<in> set (documents[k := d]). storable c e"
    using assms(2,5) set_update_subset_insert [of documents k d] by auto
  have "table_map doc_id doc_status documents (doc_id d) = Some (doc_status (documents ! k))"
    using table_map_Some [OF assms(1), of "documents ! k" doc_status] assms(3,4) by simp
  moreover have "table_map doc_id doc_status (documents[k := d]) =
      (table_map doc_id doc_status documents)(doc_id d \<mapsto> doc_status d)"
    using assms(1,3,4) by (rule table_map_nth_update)
  ultimately show "status_move\<^sup>=\<^sup>= (table_map doc_id doc_status documents i)
      (table_map doc_id doc_status (documents[k := d]) i)"
    using assms(6) by auto
qed

lemma write_at_step:
  assumes "write_at k d documents = Inr (Some (result, documents'))"
  shows "documents' = documents[k := d] \<and> validateDocumentMetadata d = None"
  using assms by (auto simp: write_at_def split: option.splits)

lemma updated_document_simps [simp]:
  "doc_id (updated_document tenant changes s now d) = doc_id d"
  "doc_companyId (updated_document tenant changes s now d) = dt_companyId tenant"
  "doc_status (updated_document tenant changes s now d) = s"
  by (simp_all add: updated_document_def)

lemma written_update_safe:
  assumes "distinct (map doc_id documents)" "\<forall>d \<in> set documents. storable (dt_companyId tenant) d"
    "k < length documents" "canTransitionDocumentStatus (doc_status (documents ! k)) s"
    "write_at k (updated_document tenant changes s now (documents ! k)) documents = Inr (Some (result, documents'))"
  shows "distinct (map doc_id documents') \<and> (\<forall>d \<in> set documents'. storable (dt_companyId tenant) d) \<and>
    status_move\<^sup>=\<^sup>= (table_map doc_id doc_status documents i) (table_map doc_id doc_status documents' i)"
proof -
  from write_at_step [OF assms(5)]
  have d': "documents' = documents[k := updated_document tenant changes s now (documents ! k)]"
    and "storable (dt_companyId tenant) (updated_document tenant changes s now (documents ! k))"
    by (auto intro: valid_storable)
  from changed_documents [OF assms(1,2,3) _ this(2)] assms(4) show ?thesis by (simp add: d')
qed

lemma update_plan_safe: "safe_plan (dt_companyId tenant) (update_plan tenant documentId changes now)"
  unfolding safe_plan_def
proof (intro allI impI, elim conjE)
  fix documents documents' :: "document list" and result
  assume docs: "distinct (map doc_id documents)" "\<forall>d \<in> set documents. storable (dt_companyId tenant) d"
    and "update_plan tenant documentId changes now documents = Inr (Some (result, documents'))"
  then obtain k where k: "k < length documents"
    "write_at k (updated_document tenant changes (doc_status (documents ! k)) now (documents ! k)) documents =
       Inr (Some (result, documents'))"
    by (auto simp: update_plan_def dest: index_whereD split: option.splits)
  from written_update_safe [OF docs k(1) _ k(2)]
  show "distinct (map doc_id documents') \<and> (\<forall>d \<in> set documents'. storable (dt_companyId tenant) d) \<and>
    (\<forall>i. status_move\<^sup>=\<^sup>= (table_map doc_id doc_status documents i) (table_map doc_id doc_status documents' i))"
    by simp
qed

lemma transition_plan_safe:
  "safe_plan (dt_companyId tenant) (transition_plan tenant documentId expected s changes leaseGuard now)"
  unfolding safe_plan_def
proof (intro allI impI, elim conjE)
  fix documents documents' :: "document list" and result
  assume docs: "distinct (map doc_id documents)" "\<forall>d \<in> set documents. storable (dt_companyId tenant) d"
    and "transition_plan tenant documentId expected s changes leaseGuard now documents =
      Inr (Some (result, documents'))"
  then obtain k where k: "k < length documents"
    "canTransitionDocumentStatus (doc_status (documents ! k)) s"
    "write_at k (updated_document tenant changes s now (documents ! k)) documents =
       Inr (Some (result, documents'))"
    by (auto simp: transition_plan_def can_transition dest: index_whereD split: option.splits)
  from written_update_safe [OF docs k]
  show "distinct (map doc_id documents') \<and> (\<forall>d \<in> set documents'. storable (dt_companyId tenant) d) \<and>
    (\<forall>i. status_move\<^sup>=\<^sup>= (table_map doc_id doc_status documents i) (table_map doc_id doc_status documents' i))"
    by simp
qed

lemma delete_plan_safe: "safe_plan c (delete_plan documentId now)"
  unfolding safe_plan_def
proof (intro allI impI, elim conjE)
  fix documents documents' :: "document list" and result
  assume docs: "distinct (map doc_id documents)" "\<forall>d \<in> set documents. storable c d"
    and "delete_plan documentId now documents = Inr (Some (result, documents'))"
  then obtain k where k: "k < length documents"
    "canTransitionDocumentStatus (doc_status (documents ! k)) DELETED"
    "documents' = documents[k := (documents ! k)\<lparr>doc_status := DELETED, doc_updatedAt := Some now,
       doc_deletedAt := Some (Some now), doc_workerId := None, doc_nextRetryAt := None\<rparr>]"
    by (auto simp: delete_plan_def can_transition Let_def dest: index_whereD split: option.splits)
  let ?d = "(documents ! k)\<lparr>doc_status := DELETED, doc_updatedAt := Some now,
       doc_deletedAt := Some (Some now), doc_workerId := None, doc_nextRetryAt := None\<rparr>"
  have "storable c (documents ! k)" using docs(2) k(1) by simp
  then have "storable c ?d" by (simp add: storable_def)
  from changed_documents [OF docs k(1) _ this] k(2)
  show "distinct (map doc_id documents') \<and> (\<forall>d \<in> set documents'. storable c d) \<and>
    (\<forall>i. status_move\<^sup>=\<^sup>= (table_map doc_id doc_status documents i) (table_map doc_id doc_status documents' i))"
    by (simp add: k(3))
qed

lemma hardDelete_plan_safe: "safe_plan c (hardDelete_plan documentId)"
  unfolding safe_plan_def
proof (intro allI impI, elim conjE)
  fix documents documents' :: "document list" and result
  assume docs: "distinct (map doc_id documents)" "\<forall>d \<in> set documents. storable c d"
    and "hardDelete_plan documentId documents = Inr (Some (result, documents'))"
  then obtain k where k: "k < length documents" "deleted documentId (documents ! k)"
    "documents' = take k documents @ drop (Suc k) documents"
    by (auto simp: hardDelete_plan_def dest: index_whereD split: option.splits)
  have filtered: "documents' = filter (\<lambda>d. doc_id d \<noteq> doc_id (documents ! k)) documents"
    unfolding k(3) using docs(1) k(1) by (rule remove_nth_filter)
  have "storable c (documents ! k)" using docs(2) k(1) by simp
  then have "doc_status (documents ! k) = DELETED"
    using k(2) by (simp add: storable_def deleted_def)
  then have "table_map doc_id doc_status documents (doc_id (documents ! k)) = Some DELETED"
    using table_map_Some [OF docs(1), of "documents ! k" doc_status] k(1) by simp
  then show "distinct (map doc_id documents') \<and> (\<forall>d \<in> set documents'. storable c d) \<and>
    (\<forall>i. status_move\<^sup>=\<^sup>= (table_map doc_id doc_status documents i) (table_map doc_id doc_status documents' i))"
    using docs by (simp add: filtered distinct_map_filter table_map_filter)
qed

lemma create_plan_safe: "safe_plan (dt_companyId tenant) (create_plan tenant metadata)"
  unfolding safe_plan_def
proof (intro allI impI, elim conjE)
  let ?d = "withProcessingDefaults metadata tenant"
  fix documents documents' :: "document list" and result
  assume docs: "distinct (map doc_id documents)" "\<forall>d \<in> set documents. storable (dt_companyId tenant) d"
    and "create_plan tenant metadata documents = Inr (Some (result, documents'))"
  then have k: "validateDocumentMetadata ?d = None" "doc_id ?d \<notin> doc_id ` set documents"
    "documents' = ?d # documents"
    by (auto simp: create_plan_def Let_def split: option.splits if_splits)
  have d: "doc_deletedAt ?d = None" "doc_companyId ?d = dt_companyId tenant"
    by (simp_all add: withProcessingDefaults_def)
  then have "doc_status ?d \<noteq> DELETED" using valid_document_facts(4) [OF k(1)] by simp
  moreover have "storable (dt_companyId tenant) ?d" using k(1) d(2) by (rule valid_storable)
  moreover have "table_map doc_id doc_status documents (doc_id ?d) = None"
    using k(2) by (simp add: table_map_None)
  ultimately show "distinct (map doc_id documents') \<and>
    (\<forall>d \<in> set documents'. storable (dt_companyId tenant) d) \<and>
    (\<forall>i. status_move\<^sup>=\<^sup>= (table_map doc_id doc_status documents i) (table_map doc_id doc_status documents' i))"
    using docs k(2) by (simp add: k(3))
qed

text \<open>The operations of the file repository, each run alone.\<close>

datatype document_op =
    LocalCreate document_tenant create_metadata
  | LocalUpdate document_tenant string "date_text document_change list" ms
  | LocalTransition document_tenant string "document_status list" document_status
      "date_text document_change list" "(string \<times> int) option" ms
  | LocalEmbedding document_tenant string "date_text document_change list" "string \<times> int" ms
  | LocalDelete document_tenant string ms
  | LocalHardDelete document_tenant string
  | LocalFind document_tenant string

fun document_op_step :: "bool \<Rightarrow> document_op \<Rightarrow> metadata_files \<Rightarrow> metadata_files" where
  "document_op_step p (LocalCreate tenant metadata) files = snd (local_create p tenant metadata files)"
| "document_op_step p (LocalUpdate tenant i changes now) files = snd (local_update p tenant i changes now files)"
| "document_op_step p (LocalTransition tenant i expected s changes leaseGuard now) files =
     snd (local_transitionStatus p tenant i expected s changes leaseGuard now files)"
| "document_op_step p (LocalEmbedding tenant i changes leaseGuard now) files =
     snd (local_updateEmbeddingFenced p tenant i changes leaseGuard now files)"
| "document_op_step p (LocalDelete tenant i now) files = snd (local_delete p tenant i now files)"
| "document_op_step p (LocalHardDelete tenant i) files = snd (local_hardDelete p tenant i files)"
| "document_op_step p (LocalFind tenant i) files = snd (local_findById p tenant i files)"

lemma local_query_step:
  "documents_of c (snd (local_query persist tenant query files)) = documents_of c files"
proof -
  obtain r files1 where read: "local_read persist tenant files = (r, files1)" by fastforce
  then have "snd (local_query persist tenant query files) = files1"
    by (simp add: local_query_def split: sum.split)
  moreover have "documents_of c files1 = documents_of c files"
  proof (cases r)
    case (Inl e)
    then show ?thesis using local_read_failed read by metis
  next
    case (Inr documents)
    then show ?thesis using local_read_documents(3) read by metis
  qed
  ultimately show ?thesis by simp
qed

lemma document_op_moves:
  assumes ok: "local_documents_ok files"
  shows "local_documents_ok (document_op_step persist op files) \<and>
    status_move\<^sup>=\<^sup>= (local_status_view files c i) (local_status_view (document_op_step persist op files) c i)"
proof (cases op)
  case (LocalTransition tenant j expected s changes leaseGuard now)
  then show ?thesis
    using local_update_step [OF ok transition_plan_safe] ok
    by (simp add: local_transitionStatus_def split: option.split)
next
  case (LocalEmbedding tenant j changes leaseGuard now)
  obtain r files1 where find: "local_findById persist tenant j files = (r, files1)" by fastforce
  then have same: "documents_of c files1 = documents_of c files" for c
    using local_query_step [of c persist tenant "List.find (visible j)" files]
    by (simp add: local_findById_def)
  then have ok1: "local_documents_ok files1" using ok by (simp add: local_documents_ok_def)
  have view: "local_status_view files c i = local_status_view files1 c i"
    by (simp add: local_status_view_def same)
  have "document_op_step persist op files = files1 \<or>
      document_op_step persist op files = snd (local_update persist tenant j changes now files1)"
    by (auto simp: LocalEmbedding local_updateEmbeddingFenced_def find split: sum.split option.split)
  then show ?thesis
    using ok1 local_update_step [OF ok1 update_plan_safe [of tenant j changes now], of persist c i]
    unfolding view local_update_def by auto
qed (use local_update_step [OF ok] ok in
    \<open>simp_all add: local_query_step local_create_def local_update_def local_delete_def local_hardDelete_def local_findById_def
      create_plan_safe update_plan_safe delete_plan_safe hardDelete_plan_safe local_documents_ok_def
      local_status_view_def\<close>)

interpretation file_documents:
  document_repository local_documents_ok local_status_view "document_op_step persist" for persist
  by unfold_locales (simp_all only: document_op_moves)

section \<open>Every run\<close>

text \<open>
  C25. A document lives along its automaton under every interleaving of the statements of the
  PostgreSQL repository: in every run a document only moves from status to status as the transition
  table allows, a deleted one stays deleted until it is erased, and a document a step leaves
  completed was being processed, in quarantine or complete before.
\<close>

theorem document_status_automaton:
  assumes "document_rows_ok db"
  shows "status_move\<^sup>*\<^sup>* (pg_status_view db c i) (pg_status_view (queue_run document_statement_step ops db) c i) \<and>
    (pg_status_view db c i = Some DELETED \<and>
     (\<forall>k \<le> length ops. pg_status_view (queue_run document_statement_step (take k ops) db) c i \<noteq> None) \<longrightarrow>
     pg_status_view (queue_run document_statement_step ops db) c i = Some DELETED) \<and>
    (pg_status_view (document_statement_step op (queue_run document_statement_step ops db)) c i = Some COMPLETED \<and>
     pg_status_view (queue_run document_statement_step ops db) c i \<noteq> None \<longrightarrow>
     pg_status_view (queue_run document_statement_step ops db) c i
       \<in> Some ` {PROCESSING, QUARANTINED, COMPLETED})"
  using pg_documents.run_moves [OF assms] pg_documents.deleted_until_erased [OF assms]
    pg_documents.completed_was_processing [OF pg_documents.run_ok [OF assms]]
  by blast

definition home_tenant :: document_tenant where
  "home_tenant = \<lparr>dt_companyId = ''avantime'', dt_userId = ''user-1''\<rparr>"

definition sample_upload :: create_metadata where
  "sample_upload =
     \<lparr>cm_id = ''doc-1'', cm_status = UPLOADED, cm_originalName = ''a.pdf'', cm_storedName = ''doc-1-a.pdf'',
      cm_mimeType = ''application/pdf'', cm_size = 10, cm_checksum = replicate 64 CHR ''0'',
      cm_createdAt = Some 1000, cm_updatedAt = Some 1000, cm_optional = []\<rparr>"

definition uploaded_db :: document_db where
  "uploaded_db = document_statement_step (PgCreate home_tenant sample_upload)
     \<lparr>md_available = True, md_rows = []\<rparr>"

theorem document_status_automaton_witness:
  "pg_status_view uploaded_db ''avantime'' ''doc-1'' = Some UPLOADED \<and>
   status_move\<^sup>*\<^sup>* (Some UPLOADED) (pg_status_view (queue_run document_statement_step
     [PgTransition home_tenant ''doc-1'' [UPLOADED] QUEUED [] None 2000] uploaded_db) ''avantime'' ''doc-1'')"
proof -
  have "document_rows_ok \<lparr>md_available = True, md_rows = []\<rparr>" by (simp add: document_rows_ok_def)
  then have ok: "document_rows_ok uploaded_db"
    unfolding uploaded_db_def by (rule pg_documents.step_ok)
  have "pg_status_view uploaded_db ''avantime'' ''doc-1'' = Some UPLOADED" by code_simp
  with document_status_automaton [OF ok, of "''avantime''" "''doc-1''"] show ?thesis by metis
qed

end
