(* ===== verification/DocumentRoundtrip.thy ===== *)
theory DocumentRoundtrip
  imports DocumentLifecycle
begin

text \<open>
  What the metadata repositories give back of what was stored: the PostgreSQL repository returns
  the document that was created, the file repository a normal form of it that no further reading
  or writing changes. The last section shows three ways in which what is kept differs from what
  was meant.
\<close>

section \<open>Rows and documents\<close>

lemma optional_date_None: "optional_date x label = None \<longleftrightarrow> map_option Some (map_option the x) = x"
  by (cases x; cases "the x") (auto simp: optional_date_def parseDocumentDate_def)

lemma intelligence_round:
  "validate_intelligence i = None \<Longrightarrow> map_intelligence Some (map_intelligence the i) = i"
  by (cases i) (simp add: map_intelligence_def validate_intelligence_def optional_date_None del: option.map_comp)

lemma embedding_round:
  "validate_embedding_worker e = None \<Longrightarrow> validate_embedding e = None \<Longrightarrow>
     map_embedding Some (map_embedding the e) = e"
  by (cases e)
    (simp add: map_embedding_def validate_embedding_worker_def validate_embedding_def optional_date_None
      del: option.map_comp)

lemma document_round:
  assumes "validateDocumentMetadata d = None"
  shows "map_document Some (map_document the d) = d"
proof -
  have v: "validate_processing d = None" "validate_embedding_worker (doc_embedding d) = None"
    "validate_lifecycle d = None" "validate_intelligence (doc_intelligence d) = None"
    "validate_embedding (doc_embedding d) = None"
    using assms by (auto simp: validateDocumentMetadata_def)
  have "\<exists>t. doc_createdAt d = Some t" "\<exists>t. doc_updatedAt d = Some t"
    using valid_document_facts(2,3) [OF assms] by auto
  then show ?thesis
    using v(1,3) intelligence_round [OF v(4)] embedding_round [OF v(2,5)]
    by (cases d)
      (auto simp: map_document_def validate_processing_def validate_lifecycle_def optional_date_None
        simp del: option.map_comp)
qed

lemma row_document_new:
  assumes "validateDocumentMetadata d = None" "doc_deletedAt d = None"
  shows "row_document (new_row d) = d"
proof -
  have "new_row d = map_document the d" using assms(2) by (simp add: new_row_def map_document_def)
  moreover have "safe_integer (eb_attempts (doc_embedding d)) \<and> 0 \<le> eb_attempts (doc_embedding d)"
    using assms(1) by (auto simp: validateDocumentMetadata_def validate_embedding_def natural_number_def)
  moreover have "eb_attempts (doc_embedding (map_document the d)) = eb_attempts (doc_embedding d)"
    by (simp add: map_document_def map_embedding_def)
  ultimately show ?thesis by (simp add: row_document_def document_round [OF assms(1)] Let_def)
qed

text \<open>
  C27. The PostgreSQL repository returns what was created: a successful \<open>create\<close> gives the document
  with its defaults, and \<open>findById\<close> finds exactly that document afterwards, every field and every
  date of it.
\<close>

theorem created_document_found:
  assumes "document_rows_ok db" "pg_create tenant metadata db = (Inr d, db')"
  shows "d = withProcessingDefaults metadata tenant \<and>
    pg_findById tenant (cm_id metadata) db' = Inr (Some d)"
proof -
  let ?d = "withProcessingDefaults metadata tenant"
  have del: "document_delegate tenant db = None" and v: "validateDocumentMetadata ?d = None"
    and cr: "create_statement (new_row ?d) db = (Inr (), db')" "mapDatabaseDocument (new_row ?d) = Inr d"
    using assms(2) by (auto simp: pg_create_def Let_def split: option.splits prod.splits sum.splits)
  have nodel: "doc_deletedAt ?d = None" and keys: "doc_id ?d = cm_id metadata"
    "doc_companyId ?d = dt_companyId tenant"
    by (simp_all add: withProcessingDefaults_def)
  from cr(2) v have d: "d = ?d"
    by (simp add: mapDatabaseDocument_def row_document_new [OF v nodel])
  have key: "row_key (new_row ?d) = (dt_companyId tenant, cm_id metadata)" "doc_deletedAt (new_row ?d) = None"
    by (simp_all add: row_key_def new_row_def map_document_def keys)
  from cr(1) have db': "db' = db\<lparr>md_rows := md_rows db @ [new_row ?d]\<rparr>"
    and fresh: "\<forall>r \<in> set (md_rows db). row_key r \<noteq> row_key (new_row ?d)"
    by (auto simp: create_statement_def of_key_iff row_key_def split: option.splits if_splits)
  have "List.find (live_row (dt_companyId tenant) (cm_id metadata)) (md_rows db @ [new_row ?d]) =
      Some (new_row ?d)"
    using fresh
  proof (induction "md_rows db" arbitrary: db)
    case Nil
    then show ?case using key by (simp add: live_row_def of_key_iff)
  next
    case (Cons r rows)
    from Cons(1) [of "db\<lparr>md_rows := rows\<rparr>"] Cons(3) show ?case
      by (auto simp: Cons(2) [symmetric] live_row_def of_key_iff key)
  qed
  moreover have "document_delegate tenant db' = None" using del by (simp add: document_delegate_def db')
  moreover have "safe_segment (cm_id metadata)" using valid_document_facts(1) [OF v] by (simp add: keys)
  ultimately show ?thesis
    by (simp add: d pg_findById_def find_row_def db' mapped_def mapDatabaseDocument_def v
        row_document_new [OF v nodel] assertSafeDocumentSegment_def)
qed

theorem created_document_found_witness:
  "fst (pg_create home_tenant sample_upload \<lparr>md_available = True, md_rows = []\<rparr>) =
     Inr (withProcessingDefaults sample_upload home_tenant) \<and>
   pg_findById home_tenant ''doc-1'' uploaded_db = Inr (Some (withProcessingDefaults sample_upload home_tenant))"
proof -
  let ?d = "withProcessingDefaults sample_upload home_tenant"
  let ?db = "\<lparr>md_available = True, md_rows = []\<rparr>"
  have "case fst (pg_create home_tenant sample_upload ?db) of Inl e \<Rightarrow> False | Inr d \<Rightarrow> True" by code_simp
  then obtain d where "pg_create home_tenant sample_upload ?db = (Inr d, uploaded_db)"
    by (auto simp: uploaded_db_def split: sum.splits) (metis prod.collapse)
  moreover have "document_rows_ok ?db" by (simp add: document_rows_ok_def)
  ultimately show ?thesis
    using created_document_found [of ?db home_tenant sample_upload d uploaded_db]
    by (simp add: sample_upload_def)
qed

section \<open>The normal form of the file repository\<close>

text \<open>
  What the reader of a file would change of a valid document: texts with white space around them,
  optional texts that are empty, the message of a failed document, and the counts it takes over
  from their older names.
\<close>

definition plain_text :: "string \<Rightarrow> bool" where
  "plain_text s \<longleftrightarrow> trim s = s"

definition plain_document :: "document \<Rightarrow> bool" where
  "plain_document d \<longleftrightarrow>
     doc_status d \<noteq> FAILED \<and> as_message (doc_lastErrorMessage d) = doc_lastErrorMessage d \<and>
     plain_text (doc_originalName d) \<and> plain_text (doc_mimeType d) \<and>
     plain_text (in_intelligenceVersion (doc_intelligence d)) \<and>
     list_all (\<lambda>x. asString x = x)
       [doc_lastErrorCode d, doc_workerId d, doc_workerVersion d, doc_deploymentGeneration d,
        in_detectedMimeType (doc_intelligence d), in_ocrProvider (doc_intelligence d),
        in_ocrLanguage (doc_intelligence d), eb_model (doc_embedding d), eb_version (doc_embedding d),
        eb_lastErrorCode (doc_embedding d), eb_workerId (doc_embedding d),
        eb_workerVersion (doc_embedding d), eb_deploymentGeneration (doc_embedding d)] \<and>
     eb_contentHash (doc_embedding d) \<noteq> Some [] \<and>
     or_else (in_pageCount (doc_intelligence d)) (doc_pages d) = in_pageCount (doc_intelligence d) \<and>
     or_else (in_extractedCharacterCount (doc_intelligence d)) (doc_textLength d) =
       in_extractedCharacterCount (doc_intelligence d)"

lemma or_value_eq: "x = Some v \<Longrightarrow> or_value x w = v" by simp

lemma kept_number: "natural_number n label = None \<Longrightarrow> keep_if (\<lambda>n. 0 \<le> n) (Some n) = Some n"
  and kept_token: "natural_number n label = None \<Longrightarrow> fencing_token (Some n) = n"
  by (simp_all add: natural_number_def keep_if_def fencing_token_def)

lemma kept_text: "required_text s n label = None \<Longrightarrow> plain_text s \<Longrightarrow> asString (Some s) = Some s"
  by (auto simp: required_text_def plain_text_def asString_def)

lemma kept_segment: "assertSafeDocumentSegment s label = None \<Longrightarrow> asString (Some s) = Some s"
  by (simp add: assertSafeDocumentSegment_def safe_segment_asString)

lemma plain_intelligence:
  assumes "validate_intelligence i = None" "plain_text (in_intelligenceVersion i)"
    "asString (in_detectedMimeType i) = in_detectedMimeType i" "asString (in_ocrProvider i) = in_ocrProvider i"
    "asString (in_ocrLanguage i) = in_ocrLanguage i"
    "or_else (in_pageCount i) pages = in_pageCount i"
    "or_else (in_extractedCharacterCount i) n = in_extractedCharacterCount i"
  shows "normalize_intelligence status pages n (stored_intelligence i) = i"
proof -
  have v: "case in_detectionConfidence i of None \<Rightarrow> True | Some c \<Rightarrow> 0 \<le> c \<and> c \<le> 1"
    "required_text (in_intelligenceVersion i) 100 ''intelligenceVersion'' = None"
    using assms(1) by (simp_all add: validate_intelligence_def)
  have c: "keep_if (\<lambda>c. 0 \<le> c \<and> c \<le> 1) (in_detectionConfidence i) = in_detectionConfidence i"
    using v(1) by (auto simp: keep_if_def split: option.splits)
  show ?thesis
    using assms(3-7) c kept_text [OF v(2) assms(2)]
    by (cases i) (simp add: normalize_intelligence_def stored_intelligence_def)
qed

lemma plain_embedding:
  assumes "validate_embedding_worker e = None" "validate_embedding e = None" "eb_contentHash e \<noteq> Some []"
    "asString (eb_model e) = eb_model e" "asString (eb_version e) = eb_version e"
    "asString (eb_lastErrorCode e) = eb_lastErrorCode e" "asString (eb_workerId e) = eb_workerId e"
    "asString (eb_workerVersion e) = eb_workerVersion e"
    "asString (eb_deploymentGeneration e) = eb_deploymentGeneration e"
  shows "normalize_embedding (stored_embedding e) = e"
proof -
  have n: "natural_number (eb_attempts e) ''embeddingAttempts'' = None"
    "natural_number (eb_fencingToken e) ''embeddingFencingToken'' = None"
    "case eb_dimensions e of None \<Rightarrow> True | Some n \<Rightarrow> safe_integer n \<and> 0 < n"
    "truthy (eb_contentHash e) \<longrightarrow> SHA256 (the (eb_contentHash e))"
    using assms(1,2) by (simp_all add: validate_embedding_def validate_embedding_worker_def)
  have "keep_if (\<lambda>n. 0 < n) (eb_dimensions e) = eb_dimensions e"
    using n(3) by (auto simp: keep_if_def split: option.splits)
  moreover have "keep_if SHA256 (eb_contentHash e) = eb_contentHash e"
    using n(4) assms(3) by (cases "eb_contentHash e") (auto simp: keep_if_def)
  ultimately show ?thesis
    using assms(4-9) kept_number [OF n(1)] kept_token [OF n(2)]
    by (cases e) (simp add: normalize_embedding_def stored_embedding_def)
qed

lemma plain_document_kept:
  assumes valid: "validateDocumentMetadata d = None" and c: "doc_companyId d = c" and plain: "plain_document d"
  shows "normalizeLegacyDocument (stored_item d) c = Some d"
proof -
  have v: "validate_processing d = None" "validate_embedding_worker (doc_embedding d) = None"
    "validate_lifecycle d = None" "validate_intelligence (doc_intelligence d) = None"
    "validate_embedding (doc_embedding d) = None"
    using valid by (auto simp: validateDocumentMetadata_def)
  note vp = v(1) [unfolded validate_processing_def, simplified]
  have i: "normalize_intelligence s (doc_pages d) (doc_textLength d) (stored_intelligence (doc_intelligence d)) =
      doc_intelligence d" for s
    using plain by (intro plain_intelligence [OF v(4)]) (simp_all add: plain_document_def)
  have e: "normalize_embedding (stored_embedding (doc_embedding d)) = doc_embedding d"
    using plain by (intro plain_embedding [OF v(2,5)]) (simp_all add: plain_document_def)
  have texts: "asString (Some (doc_id d)) = Some (doc_id d)"
    "asString (Some (doc_originalName d)) = Some (doc_originalName d)"
    "asString (Some (doc_storedName d)) = Some (doc_storedName d)"
    "asString (Some (doc_companyId d)) = Some (doc_companyId d)"
    "asString (Some (doc_uploadedBy d)) = Some (doc_uploadedBy d)"
    "asString (Some (doc_mimeType d)) = Some (doc_mimeType d)"
    using vp plain kept_segment kept_text by (auto simp: plain_document_def)
  have sha: "SHA256 (doc_checksum d)" using vp by (simp add: assertDocumentChecksum_def)
  then have ck: "asDocumentChecksum (Some (doc_checksum d)) = doc_checksum d"
    using SHA256_trim [OF sha] by (simp add: asDocumentChecksum_def asString_def)
  have n: "keep_if (\<lambda>n. 0 \<le> n) (Some (doc_size d)) = Some (doc_size d)"
    "keep_if (\<lambda>n. 0 \<le> n) (Some (doc_processingAttempts d)) = Some (doc_processingAttempts d)"
    "fencing_token (Some (doc_processingFencingToken d)) = doc_processingFencingToken d"
    using vp kept_number kept_token by auto
  have st: "(\<exists>y. doc_deletedAt d = Some y) \<longrightarrow> DELETED = doc_status d"
    using valid_document_facts(4) [OF valid] by auto
  have "normalized_document c (doc_id d) (doc_originalName d) (doc_storedName d) (stored_item d) = d"
    unfolding normalized_document_def Let_def stored_item_def
    by (rule document_fields.equality)
      (use i e texts ck n st c plain in \<open>simp_all add: plain_document_def\<close>)
  then show ?thesis
    using texts c by (simp add: normalizeLegacyDocument_def stored_item_def)
qed

text \<open>
  C30. Reading a file is a normal form: what a first reading of any stored item made of it is not
  changed by being written and read again, and a valid document with plain texts, not failed, is
  read back exactly as it was written.
\<close>

theorem file_normal_form:
  assumes "safe_segment c"
  shows "(normalizeLegacyDocument item c = Some d \<longrightarrow> normalizeLegacyDocument (stored_item d) c = Some d) \<and>
    (validateDocumentMetadata e = None \<and> doc_companyId e = c \<and> plain_document e \<longrightarrow>
     normalizeLegacyDocument (stored_item e) c = Some e)"
proof -
  have "trim c = c \<and> c \<noteq> []"
    using safe_segment_asString [OF assms] assms
    by (auto simp: asString_def safe_segment_def split: if_splits)
  then show ?thesis using normalize_stored plain_document_kept by blast
qed

theorem file_normal_form_witness:
  "normalizeLegacyDocument (stored_item (withProcessingDefaults sample_upload home_tenant)) ''avantime'' =
     Some (withProcessingDefaults sample_upload home_tenant)"
proof -
  let ?d = "withProcessingDefaults sample_upload home_tenant"
  have "safe_segment ''avantime''" "validateDocumentMetadata ?d = None" "doc_companyId ?d = ''avantime''"
    "plain_document ?d"
    by code_simp+
  with file_normal_form [of "''avantime''"] show ?thesis by blast
qed

section \<open>What is kept otherwise\<close>

text \<open>
  The file repository reads and writes without a lock. A deletion and a transition that read the
  file before either writes leave the document alive again: the later write replaces the earlier.
\<close>

definition stored_upload :: metadata_files where
  "stored_upload = snd (local_create True home_tenant sample_upload (\<lambda>_. None))"

definition planned :: "plan \<Rightarrow> document list" where
  "planned p = (case p of Inr (Some (_, documents)) \<Rightarrow> documents | _ \<Rightarrow> [])"

definition overlapping_writes :: metadata_files where
  "overlapping_writes =
     (let documents = documents_of ''avantime'' stored_upload;
          afterDelete = local_write home_tenant (planned (delete_plan ''doc-1'' 2000 documents)) stored_upload in
      local_write home_tenant
        (planned (transition_plan home_tenant ''doc-1'' [UPLOADED] QUEUED [] None 2000 documents)) afterDelete)"

theorem overlapping_writes_resurrect:
  "local_status_view (local_write home_tenant
      (planned (delete_plan ''doc-1'' 2000 (documents_of ''avantime'' stored_upload))) stored_upload)
      ''avantime'' ''doc-1'' = Some DELETED \<and>
   local_status_view overlapping_writes ''avantime'' ''doc-1'' = Some QUEUED"
  by code_simp

text \<open>
  The PostgreSQL repository validates only what it reads. A transition to \<open>DELETED\<close>, which the table
  of transitions allows, stores a row without \<open>deletedAt\<close> and fails when it reads it back; the row
  can then neither be read nor erased.
\<close>

theorem transition_to_deleted_unreadable:
  "fst (pg_transitionStatus home_tenant ''doc-1'' [UPLOADED] DELETED [] None 2000 uploaded_db) =
     Inl DELETED_STATUS_MISMATCH \<and>
   pg_findById home_tenant ''doc-1''
     (snd (pg_transitionStatus home_tenant ''doc-1'' [UPLOADED] DELETED [] None 2000 uploaded_db)) =
     Inl DELETED_STATUS_MISMATCH"
  by code_simp

text \<open>The file repository forgets why a document failed: it always reads the one fixed message.\<close>

theorem failure_message_lost:
  "normalizeLegacyDocument item c = Some d \<Longrightarrow> doc_status d = FAILED \<Longrightarrow>
     doc_lastErrorMessage d = Some NotProcessed"
  by (auto simp: normalizeLegacyDocument_def normalized_document_def Let_def split: option.splits if_splits)

end
