(* ===== verification/DocumentOverlap.thy ===== *)
theory DocumentOverlap
  imports DocumentRoundtrip
begin

text \<open>
  The file repository under overlapping calls. There is no lock around the reading and the writing of
  a file, so the calls of a process interleave at both: a call plans on the documents it has read and
  replaces the whole file by its plan, whatever was written in between. The files stay well formed in
  every interleaving; documents keep to their automaton as long as no write replaces a file that has
  changed since the read it rests on.
\<close>

section \<open>Reads and writes apart\<close>

text \<open>
  What an update plans, and for whom. The test of the worker in the embedding update is on a read of
  its own, which the plan does not see.
\<close>

fun op_plan :: "document_op \<Rightarrow> (document_tenant \<times> (document list \<Rightarrow> plan)) option" where
  "op_plan (LocalCreate tenant metadata) = Some (tenant, create_plan tenant metadata)"
| "op_plan (LocalUpdate tenant i changes now) = Some (tenant, update_plan tenant i changes now)"
| "op_plan (LocalTransition tenant i expected s changes leaseGuard now) =
     (case transition_checks tenant i expected s of
        Some e \<Rightarrow> None
      | None \<Rightarrow> Some (tenant, transition_plan tenant i expected s changes leaseGuard now))"
| "op_plan (LocalEmbedding tenant i changes leaseGuard now) = Some (tenant, update_plan tenant i changes now)"
| "op_plan (LocalDelete tenant i now) = Some (tenant, delete_plan i now)"
| "op_plan (LocalHardDelete tenant i) = Some (tenant, hardDelete_plan i)"
| "op_plan (LocalFind tenant i) = None"

text \<open>The second half of an update: the write of what it plans on the documents read.\<close>

definition write_plan :: "document_tenant \<Rightarrow> (document list \<Rightarrow> plan) \<Rightarrow> document list \<Rightarrow> metadata_files \<Rightarrow> metadata_files" where
  "write_plan tenant plan documents files =
     (case plan documents of Inr (Some (_, documents')) \<Rightarrow> local_write tenant documents' files | _ \<Rightarrow> files)"

text \<open>An update that nobody interrupts is its two halves.\<close>

lemma local_update_halves:
  "snd (local_update_with persist tenant plan files) =
     (case local_read persist tenant files of
        (Inl e, files') \<Rightarrow> files'
      | (Inr documents, files') \<Rightarrow> write_plan tenant plan documents files')"
  by (auto simp: local_update_with_def write_plan_def split: prod.split sum.split option.split)

text \<open>
  The events: a call nobody interrupts, the read of a call, the migration a read of the legacy file
  writes back, and the write of a call on documents that some read has given.
\<close>

record file_system =
  fs_files :: metadata_files
  fs_seen :: "(string \<times> document list) list"

datatype file_event =
    Uninterrupted document_op
  | ReadDocuments document_tenant
  | WriteMigration document_tenant "document list"
  | WriteDocuments document_op "document list"

fun file_commit :: "bool \<Rightarrow> file_event \<Rightarrow> (string \<times> document list) list \<Rightarrow> metadata_files \<Rightarrow> metadata_files" where
  "file_commit persist (Uninterrupted op) seen files = document_op_step persist op files"
| "file_commit persist (ReadDocuments tenant) seen files = files"
| "file_commit persist (WriteMigration tenant documents) seen files =
     (if (dt_companyId tenant, documents) \<in> set seen then local_write tenant documents files else files)"
| "file_commit persist (WriteDocuments op documents) seen files =
     (case op_plan op of
        None \<Rightarrow> files
      | Some (tenant, plan) \<Rightarrow>
          if (dt_companyId tenant, documents) \<in> set seen then write_plan tenant plan documents files else files)"

fun file_reads :: "bool \<Rightarrow> file_event \<Rightarrow> metadata_files \<Rightarrow> (string \<times> document list) list" where
  "file_reads persist (ReadDocuments tenant) files =
     (case fst (local_read persist tenant files) of
        Inl e \<Rightarrow> [] | Inr documents \<Rightarrow> [(dt_companyId tenant, documents)])"
| "file_reads persist _ files = []"

definition file_event_step :: "bool \<Rightarrow> file_event \<Rightarrow> file_system \<Rightarrow> file_system" where
  "file_event_step persist e st =
     \<lparr>fs_files = file_commit persist e (fs_seen st) (fs_files st),
      fs_seen = fs_seen st @ file_reads persist e (fs_files st)\<rparr>"

text \<open>A write of a company's file is up to date when the file still gives the documents it rests on.\<close>

fun up_to_date :: "string \<Rightarrow> file_event \<Rightarrow> metadata_files \<Rightarrow> bool" where
  "up_to_date c (WriteMigration tenant documents) files \<longleftrightarrow>
     (dt_companyId tenant = c \<longrightarrow> documents = documents_of c files)"
| "up_to_date c (WriteDocuments op documents) files \<longleftrightarrow>
     (case op_plan op of
        None \<Rightarrow> True
      | Some (tenant, _) \<Rightarrow> dt_companyId tenant = c \<longrightarrow> documents = documents_of c files)"
| "up_to_date c _ files \<longleftrightarrow> True"

section \<open>What an event keeps\<close>

definition seen_storable :: "(string \<times> document list) list \<Rightarrow> bool" where
  "seen_storable seen \<longleftrightarrow>
     (\<forall>(c, documents) \<in> set seen.
        safe_segment c \<and> distinct (map doc_id documents) \<and> (\<forall>d \<in> set documents. storable c d))"

definition file_moves :: "metadata_files \<Rightarrow> metadata_files \<Rightarrow> string \<Rightarrow> bool" where
  "file_moves files files' c \<longleftrightarrow>
     (\<forall>i. status_move\<^sup>=\<^sup>= (local_status_view files c i) (local_status_view files' c i))"

lemma file_moves_refl: "file_moves files files c"
  by (simp add: file_moves_def)

lemma write_storable:
  assumes "safe_segment (dt_companyId tenant)" "distinct (map doc_id documents)"
    "\<forall>d \<in> set documents. storable (dt_companyId tenant) d" "local_documents_ok files"
  shows "local_documents_ok (local_write tenant documents files)"
    and "local_status_view (local_write tenant documents files) c i =
      (if c = dt_companyId tenant then table_map doc_id doc_status documents i else local_status_view files c i)"
  using normalize_written [OF assms(3,1)] assms(2,4)
  by (auto simp: local_documents_ok_def local_status_view_def documents_of_write [OF assms(1)])

lemma op_plan_safe: "op_plan op = Some (tenant, plan) \<Longrightarrow> safe_plan (dt_companyId tenant) plan"
  by (cases op)
    (auto simp: create_plan_safe update_plan_safe transition_plan_safe delete_plan_safe hardDelete_plan_safe
      split: option.splits)

lemma write_plan_keeps:
  assumes safe: "safe_plan (dt_companyId tenant) plan" and ok: "local_documents_ok files"
    and seen: "safe_segment (dt_companyId tenant)" "distinct (map doc_id documents)"
      "\<forall>d \<in> set documents. storable (dt_companyId tenant) d"
  shows "local_documents_ok (write_plan tenant plan documents files) \<and>
    ((dt_companyId tenant = c \<longrightarrow> documents = documents_of c files) \<longrightarrow>
      file_moves files (write_plan tenant plan documents files) c)"
proof -
  consider "write_plan tenant plan documents files = files"
    | result documents' where "plan documents = Inr (Some (result, documents'))"
      "write_plan tenant plan documents files = local_write tenant documents' files"
    by (cases "plan documents"; cases "projr (plan documents)") (auto simp: write_plan_def)
  then show ?thesis
  proof cases
    case 1
    with ok show ?thesis by (simp add: file_moves_refl)
  next
    case 2
    note plan = safe_planD [OF safe seen(2,3) 2(1)]
    note written = write_storable [OF seen(1) plan(1,2) ok]
    from plan(3) written show ?thesis by (auto simp: 2(2) file_moves_def local_status_view_def)
  qed
qed

lemma file_event_keeps:
  assumes ok: "local_documents_ok files" and seen: "seen_storable seen"
  shows "local_documents_ok (file_commit persist e seen files) \<and>
    (up_to_date c e files \<longrightarrow> file_moves files (file_commit persist e seen files) c)"
proof (cases e)
  case (Uninterrupted op)
  with file_documents.step_ok [OF ok] file_documents.step_moves [OF ok] show ?thesis
    by (simp add: file_moves_def)
next
  case (ReadDocuments tenant)
  with ok show ?thesis by (simp add: file_moves_refl)
next
  case (WriteMigration tenant documents)
  show ?thesis
  proof (cases "(dt_companyId tenant, documents) \<in> set seen")
    case True
    with seen have "safe_segment (dt_companyId tenant)" "distinct (map doc_id documents)"
      "\<forall>d \<in> set documents. storable (dt_companyId tenant) d" by (auto simp: seen_storable_def)
    from write_storable [OF this ok] True show ?thesis
      by (auto simp: WriteMigration file_moves_def local_status_view_def)
  qed (use ok in \<open>simp add: WriteMigration file_moves_refl\<close>)
next
  case (WriteDocuments op documents)
  show ?thesis
  proof (cases "op_plan op")
    case (Some tp)
    obtain tenant plan where tp: "tp = (tenant, plan)" by (cases tp)
    show ?thesis
    proof (cases "(dt_companyId tenant, documents) \<in> set seen")
      case True
      with seen have "safe_segment (dt_companyId tenant)" "distinct (map doc_id documents)"
        "\<forall>d \<in> set documents. storable (dt_companyId tenant) d" by (auto simp: seen_storable_def)
      from write_plan_keeps [OF op_plan_safe ok this, of op plan c] Some True show ?thesis
        by (simp add: WriteDocuments tp)
    qed (use ok in \<open>simp add: WriteDocuments Some tp file_moves_refl\<close>)
  qed (use ok in \<open>simp add: WriteDocuments file_moves_refl\<close>)
qed

lemma file_reads_storable:
  assumes "local_documents_ok files" "seen_storable seen"
  shows "seen_storable (seen @ file_reads persist e files)"
proof (cases e)
  case (ReadDocuments tenant)
  obtain r files' where read: "local_read persist tenant files = (r, files')" by fastforce
  show ?thesis
  proof (cases r)
    case (Inr documents)
    note rd = local_read_documents [OF read [unfolded Inr]]
    from assms rd(1) documents_of_storable show ?thesis
      by (simp add: ReadDocuments read Inr rd(2) seen_storable_def local_documents_ok_def ball_Un)
  qed (use assms in \<open>simp add: ReadDocuments read\<close>)
qed (use assms in simp_all)

text \<open>A run keeps the documents of a company on their automaton up to its first outdated write.\<close>

lemma file_run_moves:
  assumes "local_documents_ok (fs_files st)" "seen_storable (fs_seen st)"
  shows "local_documents_ok (fs_files (queue_run (file_event_step persist) events st)) \<and>
    (status_move\<^sup>*\<^sup>* (local_status_view (fs_files st) c i)
       (local_status_view (fs_files (queue_run (file_event_step persist) events st)) c i) \<or>
     (\<exists>before e after. events = before @ e # after \<and>
        \<not> up_to_date c e (fs_files (queue_run (file_event_step persist) before st))))"
  using assms
proof (induction events arbitrary: st)
  case (Cons e events)
  let ?st = "file_event_step persist e st"
  from file_event_keeps [OF Cons.prems, of persist e c] file_reads_storable [OF Cons.prems, of persist e]
  have ok: "local_documents_ok (fs_files ?st)" "seen_storable (fs_seen ?st)"
    and moves: "up_to_date c e (fs_files st) \<Longrightarrow> file_moves (fs_files st) (fs_files ?st) c"
    by (simp_all add: file_event_step_def)
  note rest = Cons.IH [OF ok]
  have outdated: "\<exists>before e' after. e # events = before @ e' # after \<and>
      \<not> up_to_date c e' (fs_files (queue_run (file_event_step persist) before st))"
    if "events = before @ e' # after" "\<not> up_to_date c e' (fs_files (queue_run (file_event_step persist) before ?st))"
    for before e' after
    using that by (intro exI [of _ "e # before"] exI [of _ e'] exI [of _ after]) simp
  show ?case
  proof (cases "up_to_date c e (fs_files st)")
    case True
    with moves have "status_move\<^sup>*\<^sup>* (local_status_view (fs_files st) c i) (local_status_view (fs_files ?st) c i)"
      by (auto simp: file_moves_def)
    with rest outdated show ?thesis by (auto intro: rtranclp_trans)
  next
    case False
    then have "\<exists>before e' after. e # events = before @ e' # after \<and>
        \<not> up_to_date c e' (fs_files (queue_run (file_event_step persist) before st))"
      by (intro exI [of _ "[]"] exI [of _ e] exI [of _ events]) simp
    with rest show ?thesis by simp
  qed
qed simp

section \<open>Every run\<close>

text \<open>
  C26. The file repository under every interleaving of its reads and writes. The files stay well
  formed, with one document for each identifier. And as long as no write of the company's file is
  outdated, which is to say that the file still gives the documents the call has read when it is
  replaced, in particular when calls run one after another, every document of the company moves
  along the same automaton: normalising, migrating and writing whole files moves none off it and
  loses none that was not erased. An outdated write, which the code does not prevent, can.
\<close>

theorem file_document_lifecycle:
  assumes "local_documents_ok files"
    and "fs_files (queue_run (file_event_step persist) events \<lparr>fs_files = files, fs_seen = []\<rparr>) = files'"
  shows "local_documents_ok files' \<and>
    (status_move\<^sup>*\<^sup>* (local_status_view files c i) (local_status_view files' c i) \<or>
     (\<exists>before e after. events = before @ e # after \<and>
        \<not> up_to_date c e (fs_files (queue_run (file_event_step persist) before \<lparr>fs_files = files, fs_seen = []\<rparr>)))) \<and>
    local_documents_ok (queue_run (document_op_step persist) ops files) \<and>
    status_move\<^sup>*\<^sup>* (local_status_view files c i)
      (local_status_view (queue_run (document_op_step persist) ops files) c i)"
  using file_run_moves [of "\<lparr>fs_files = files, fs_seen = []\<rparr>" persist events c i]
    file_documents.run_ok [OF assms(1)] file_documents.run_moves [OF assms(1)] assms
  by (simp add: seen_storable_def)

text \<open>An upload and a deletion, the second reading after the first has written.\<close>

definition alternating :: "file_event list" where
  "alternating =
     [ReadDocuments home_tenant, WriteDocuments (LocalCreate home_tenant sample_upload) [],
      ReadDocuments home_tenant,
      WriteDocuments (LocalDelete home_tenant ''doc-1'' 2000) (documents_of ''avantime'' stored_upload)]"

theorem file_document_lifecycle_witness:
  "local_documents_ok (fs_files (queue_run (file_event_step True) alternating \<lparr>fs_files = \<lambda>_. None, fs_seen = []\<rparr>)) \<and>
   local_status_view (fs_files (queue_run (file_event_step True) alternating \<lparr>fs_files = \<lambda>_. None, fs_seen = []\<rparr>))
     ''avantime'' ''doc-1'' = Some DELETED"
proof
  have "local_documents_ok (\<lambda>_. None)"
    using documents_of_eq [of "\<lparr>dt_companyId = c, dt_userId = ''user''\<rparr>" "\<lambda>_. None" for c]
    by (simp add: local_documents_ok_def file_documents_def)
  from file_document_lifecycle [OF this refl]
  show "local_documents_ok (fs_files (queue_run (file_event_step True) alternating \<lparr>fs_files = \<lambda>_. None, fs_seen = []\<rparr>))"
    by blast
  show "local_status_view (fs_files (queue_run (file_event_step True) alternating \<lparr>fs_files = \<lambda>_. None, fs_seen = []\<rparr>))
     ''avantime'' ''doc-1'' = Some DELETED"
    by code_simp
qed

end
