(* ===== verification/DocumentStorage.thy ===== *)
theory DocumentStorage
  imports LocalDocuments LeaseQueue
begin

text \<open>
  The object storages of \<open>lib/document-storage.ts\<close>: files under a data directory with the paths of
  the first version as a fallback, and a bucket of an S3 service. Objects are of any type \<open>'b\<close> and
  \<open>hash\<close> is their SHA-256 in hexadecimal. The last sections give both storages one contract and
  derive that what is written is read back.
\<close>

section \<open>Objects\<close>

datatype object_kind = OriginalObject | TextObject | ChunksObject | HistoryObject

fun kind_name :: "object_kind \<Rightarrow> string" where
  "kind_name OriginalObject = ''original''"
| "kind_name TextObject = ''text''"
| "kind_name ChunksObject = ''chunks''"
| "kind_name HistoryObject = ''history''"

type_synonym 'b object_store = "string \<Rightarrow> 'b option"

definition verifyChecksum :: "('b \<Rightarrow> string) \<Rightarrow> 'b \<Rightarrow> string option \<Rightarrow> document_error + string" where
  "verifyChecksum hash data expectedChecksum =
     (let checksum = hash data in
      if truthy expectedChecksum then
        (case first_error [assertDocumentChecksum (the expectedChecksum),
                           demand (Some checksum = expectedChecksum) CHECKSUM_VERIFICATION_FAILED] of
           Some e \<Rightarrow> Inl e
         | None \<Rightarrow> Inr checksum)
      else Inr checksum)"

text \<open>What both storages check of the address of an object; the kinds are safe segments.\<close>

definition assertObjectAddress :: "document_tenant \<Rightarrow> string \<Rightarrow> document_error option" where
  "assertObjectAddress tenant key = first_error
     [assertDocumentTenantContext (Some tenant), assertSafeDocumentSegment key ''storage key'']"

definition checked_object :: "('b \<Rightarrow> string) \<Rightarrow> string option \<Rightarrow> 'b \<Rightarrow> document_error + 'b option" where
  "checked_object hash expectedChecksum data =
     (case verifyChecksum hash data expectedChecksum of Inl e \<Rightarrow> Inl e | Inr _ \<Rightarrow> Inr (Some data))"

section \<open>The local storage\<close>

definition resolvePath :: "document_tenant \<Rightarrow> object_kind \<Rightarrow> string \<Rightarrow> string" where
  "resolvePath tenant kind key =
     ''document-tenants/'' @ dt_companyId tenant @ ''/objects/'' @ kind_name kind @ ''/'' @ key"

definition resolveLegacyPath :: "document_tenant \<Rightarrow> object_kind \<Rightarrow> string \<Rightarrow> string option" where
  "resolveLegacyPath tenant kind key =
     (if dt_companyId tenant \<noteq> AVANTIME_DOCUMENT_COMPANY_ID then None
      else Some (case kind of
          OriginalObject \<Rightarrow> ''uploads/documents/'' @ key
        | TextObject \<Rightarrow> ''text/'' @ key
        | ChunksObject \<Rightarrow> ''chunks/'' @ key
        | HistoryObject \<Rightarrow> ''knowledge-history.json''))"

definition local_store_write ::
  "('b \<Rightarrow> string) \<Rightarrow> document_tenant \<Rightarrow> object_kind \<Rightarrow> string \<Rightarrow> 'b \<Rightarrow> string option \<Rightarrow> 'b object_store \<Rightarrow>
     (document_error, string, 'b object_store) handled" where
  "local_store_write hash tenant kind key data checksum store =
     (case assertObjectAddress tenant key of
        Some e \<Rightarrow> (Inl e, store)
      | None \<Rightarrow>
          (case verifyChecksum hash data checksum of
             Inl e \<Rightarrow> (Inl e, store)
           | Inr digest \<Rightarrow> (Inr digest, store(resolvePath tenant kind key \<mapsto> data))))"

definition local_store_read ::
  "('b \<Rightarrow> string) \<Rightarrow> document_tenant \<Rightarrow> object_kind \<Rightarrow> string \<Rightarrow> string option \<Rightarrow> 'b object_store \<Rightarrow>
     document_error + 'b option" where
  "local_store_read hash tenant kind key expectedChecksum store =
     (case assertObjectAddress tenant key of
        Some e \<Rightarrow> Inl e
      | None \<Rightarrow>
          (case store (resolvePath tenant kind key) of
             Some data \<Rightarrow> checked_object hash expectedChecksum data
           | None \<Rightarrow>
               (case resolveLegacyPath tenant kind key of
                  None \<Rightarrow> Inr None
                | Some path \<Rightarrow>
                    (case store path of
                       None \<Rightarrow> Inr None
                     | Some data \<Rightarrow> checked_object hash expectedChecksum data))))"

definition local_store_delete ::
  "document_tenant \<Rightarrow> object_kind \<Rightarrow> string \<Rightarrow> 'b object_store \<Rightarrow>
     (document_error, bool, 'b object_store) handled" where
  "local_store_delete tenant kind key store =
     (case assertObjectAddress tenant key of
        Some e \<Rightarrow> (Inl e, store)
      | None \<Rightarrow>
          let paths = resolvePath tenant kind key #
                (case resolveLegacyPath tenant kind key of None \<Rightarrow> [] | Some path \<Rightarrow> [path])
          in (Inr (\<exists>path \<in> set paths. store path \<noteq> None),
              fold (\<lambda>path st. st(path := None)) paths store))"

section \<open>The S3 storage\<close>

text \<open>
  The bucket maps object keys to objects. A command may fail: \<open>fault\<close> is the name of the error of the
  service with the HTTP status of its metadata. Reading a missing object is such an error, which
  \<open>read\<close> turns into null.
\<close>

type_synonym s3_error = "string \<times> int option"

definition isMissingObject :: "s3_error \<Rightarrow> bool" where
  "isMissingObject error \<longleftrightarrow>
     fst error \<noteq> ''NoSuchBucket'' \<and>
     (fst error = ''NoSuchKey'' \<or> fst error = ''NotFound'' \<or> snd error = Some 404)"

definition createDocumentObjectKey :: "document_tenant \<Rightarrow> object_kind \<Rightarrow> string \<Rightarrow> string" where
  "createDocumentObjectKey tenant kind key =
     ''documents/'' @ dt_companyId tenant @ ''/'' @ kind_name kind @ ''/'' @ key"

definition s3_store_write ::
  "('b \<Rightarrow> string) \<Rightarrow> s3_error option \<Rightarrow> document_tenant \<Rightarrow> object_kind \<Rightarrow> string \<Rightarrow> 'b \<Rightarrow> string option \<Rightarrow>
     'b object_store \<Rightarrow> (document_error, string, 'b object_store) handled" where
  "s3_store_write hash fault tenant kind key data checksum bucket =
     (case verifyChecksum hash data checksum of
        Inl e \<Rightarrow> (Inl e, bucket)
      | Inr digest \<Rightarrow>
          (case assertObjectAddress tenant key of
             Some e \<Rightarrow> (Inl e, bucket)
           | None \<Rightarrow>
               (case fault of
                  Some f \<Rightarrow> (Inl (OBJECT_STORE_ERROR (fst f)), bucket)
                | None \<Rightarrow> (Inr digest, bucket(createDocumentObjectKey tenant kind key \<mapsto> data)))))"

definition s3_store_read ::
  "('b \<Rightarrow> string) \<Rightarrow> s3_error option \<Rightarrow> document_tenant \<Rightarrow> object_kind \<Rightarrow> string \<Rightarrow> string option \<Rightarrow>
     'b object_store \<Rightarrow> document_error + 'b option" where
  "s3_store_read hash fault tenant kind key expectedChecksum bucket =
     (case assertObjectAddress tenant key of
        Some e \<Rightarrow> Inl e
      | None \<Rightarrow>
          (case fault of
             Some f \<Rightarrow> if isMissingObject f then Inr None else Inl (OBJECT_STORE_ERROR (fst f))
           | None \<Rightarrow>
               (case bucket (createDocumentObjectKey tenant kind key) of
                  None \<Rightarrow> Inr None
                | Some data \<Rightarrow> checked_object hash expectedChecksum data)))"

definition s3_store_delete ::
  "s3_error option \<Rightarrow> document_tenant \<Rightarrow> object_kind \<Rightarrow> string \<Rightarrow> 'b object_store \<Rightarrow>
     (document_error, bool, 'b object_store) handled" where
  "s3_store_delete fault tenant kind key bucket =
     (case assertObjectAddress tenant key of
        Some e \<Rightarrow> (Inl e, bucket)
      | None \<Rightarrow>
          (case fault of
             Some f \<Rightarrow> (Inl (OBJECT_STORE_ERROR (fst f)), bucket)
           | None \<Rightarrow> (Inr True, bucket(createDocumentObjectKey tenant kind key := None))))"

section \<open>The contract\<close>

text \<open>
  An object is addressed by company, kind and key. An operation has a target, the address it writes
  or deletes; what a read of another address finds is not changed by it.
\<close>

type_synonym address = "string \<times> object_kind \<times> string"

datatype 'b storage_op =
    StoreWrite document_tenant object_kind string 'b "string option"
  | StoreDelete document_tenant object_kind string

fun op_address :: "'b storage_op \<Rightarrow> address" where
  "op_address (StoreWrite tenant kind key data checksum) = (dt_companyId tenant, kind, key)"
| "op_address (StoreDelete tenant kind key) = (dt_companyId tenant, kind, key)"

locale object_storage =
  fixes contents :: "'s \<Rightarrow> address \<Rightarrow> 'b option"
    and step :: "'op \<Rightarrow> 's \<Rightarrow> 's"
    and target :: "'op \<Rightarrow> address"
    and known :: "address \<Rightarrow> bool"
  assumes frame: "known a \<Longrightarrow> known (target op) \<Longrightarrow> target op \<noteq> a \<Longrightarrow>
      contents (step op s) a = contents s a"
begin

lemma run_frame:
  assumes "known a" "\<forall>op \<in> set ops. known (target op) \<and> target op \<noteq> a"
  shows "contents (queue_run step ops s) a = contents s a"
  using assms(2)
proof (induction ops arbitrary: s)
  case Nil
  then show ?case by simp
next
  case (Cons op ops)
  then have "contents (step op s) a = contents s a" by (intro frame [OF assms(1)]) simp_all
  with Cons show ?case by simp
qed

end

section \<open>Addresses\<close>

text \<open>
  Companies and keys are safe segments, so distinct addresses are distinct paths. The history of
  the home company is one file of the first version whatever the key; its only key is left alone.
\<close>

definition known_address :: "address \<Rightarrow> bool" where
  "known_address a \<longleftrightarrow> (case a of (c, kind, key) \<Rightarrow>
     safe_segment c \<and> safe_segment key \<and> (kind = HistoryObject \<longrightarrow> c \<noteq> AVANTIME_DOCUMENT_COMPANY_ID))"

lemma kind_name_inject [simp]: "kind_name k = kind_name k' \<longleftrightarrow> k = k'"
  by (cases k; cases k') simp_all

lemma kind_name_segment: "CHR ''/'' \<notin> set (kind_name k)"
  by (cases k) simp_all

lemma segment_sep: "safe_segment s \<Longrightarrow> CHR ''/'' \<notin> set s"
  using safe_segment_no_separator by blast

lemma resolvePath_inject:
  assumes "safe_segment (dt_companyId t)" "safe_segment (dt_companyId t')"
  shows "resolvePath t k key = resolvePath t' k' key' \<longleftrightarrow>
    dt_companyId t = dt_companyId t' \<and> k = k' \<and> key = key'"
  using append_sep_inject [of "CHR ''/''" "dt_companyId t" "dt_companyId t'"]
    append_sep_inject [of "CHR ''/''" "kind_name k" "kind_name k'"] kind_name_segment segment_sep assms
  by (auto simp: resolvePath_def)

lemma objectKey_inject:
  assumes "safe_segment (dt_companyId t)" "safe_segment (dt_companyId t')"
  shows "createDocumentObjectKey t k key = createDocumentObjectKey t' k' key' \<longleftrightarrow>
    dt_companyId t = dt_companyId t' \<and> k = k' \<and> key = key'"
  using append_sep_inject [of "CHR ''/''" "dt_companyId t" "dt_companyId t'"]
    append_sep_inject [of "CHR ''/''" "kind_name k" "kind_name k'"] kind_name_segment segment_sep assms
  by (auto simp: createDocumentObjectKey_def)

lemma legacy_paths:
  assumes "resolveLegacyPath t k key = Some path" "k \<noteq> HistoryObject"
  shows "path \<noteq> resolvePath t' k' key'"
    and "resolveLegacyPath t' k' key' = Some path \<Longrightarrow> k' \<noteq> HistoryObject \<Longrightarrow> k' = k \<and> key' = key"
  using assms by (auto simp: resolveLegacyPath_def resolvePath_def split: if_splits object_kind.splits)

section \<open>The storages keep the contract\<close>

text \<open>What a read finds, before the checksum of the reader is compared.\<close>

definition tenant_of :: "string \<Rightarrow> document_tenant" where
  "tenant_of c = \<lparr>dt_companyId = c, dt_userId = ''user''\<rparr>"

definition local_contents :: "'b object_store \<Rightarrow> address \<Rightarrow> 'b option" where
  "local_contents store a = (case a of (c, kind, key) \<Rightarrow>
     (case store (resolvePath (tenant_of c) kind key) of
        Some data \<Rightarrow> Some data
      | None \<Rightarrow> (case resolveLegacyPath (tenant_of c) kind key of None \<Rightarrow> None | Some path \<Rightarrow> store path)))"

definition s3_contents :: "'b object_store \<Rightarrow> address \<Rightarrow> 'b option" where
  "s3_contents bucket a = (case a of (c, kind, key) \<Rightarrow> bucket (createDocumentObjectKey (tenant_of c) kind key))"

fun local_store_step :: "('b \<Rightarrow> string) \<Rightarrow> 'b storage_op \<Rightarrow> 'b object_store \<Rightarrow> 'b object_store" where
  "local_store_step hash (StoreWrite tenant kind key data checksum) store =
     snd (local_store_write hash tenant kind key data checksum store)"
| "local_store_step hash (StoreDelete tenant kind key) store = snd (local_store_delete tenant kind key store)"

text \<open>An operation on the bucket comes with the failure of its command, if it fails.\<close>

fun s3_store_step ::
  "('b \<Rightarrow> string) \<Rightarrow> s3_error option \<times> 'b storage_op \<Rightarrow> 'b object_store \<Rightarrow> 'b object_store" where
  "s3_store_step hash (fault, StoreWrite tenant kind key data checksum) bucket =
     snd (s3_store_write hash fault tenant kind key data checksum bucket)"
| "s3_store_step hash (fault, StoreDelete tenant kind key) bucket = snd (s3_store_delete fault tenant kind key bucket)"

lemma paths_of_company:
  "dt_companyId t = c \<Longrightarrow> resolvePath (tenant_of c) = resolvePath t"
  "dt_companyId t = c \<Longrightarrow> resolveLegacyPath (tenant_of c) = resolveLegacyPath t"
  "dt_companyId t = c \<Longrightarrow> createDocumentObjectKey (tenant_of c) = createDocumentObjectKey t"
  by (auto simp: resolvePath_def resolveLegacyPath_def createDocumentObjectKey_def tenant_of_def fun_eq_iff)

lemma local_frame:
  assumes "known_address a" "known_address (op_address op)" "op_address op \<noteq> a"
  shows "local_contents (local_store_step hash op store) a = local_contents store a"
proof -
  obtain c kind key where a: "a = (c, kind, key)" by (cases a)
  define t where "t = tenant_of c"
  have c: "dt_companyId t = c" by (simp add: t_def tenant_of_def)
  note legacy = legacy_paths
  show ?thesis
  proof (cases op)
    case (StoreWrite tenant k key' data checksum)
    then have "resolvePath t kind key \<noteq> resolvePath tenant k key'"
      using assms resolvePath_inject [of t tenant kind key k key'] c
      by (auto simp: a known_address_def)
    moreover have "resolveLegacyPath t kind key \<noteq> Some (resolvePath tenant k key')"
      by (auto simp: resolveLegacyPath_def resolvePath_def split: object_kind.splits)
    ultimately show ?thesis
      by (auto simp: StoreWrite a local_contents_def local_store_write_def simp flip: t_def
          split: option.split sum.split)
  next
    case (StoreDelete tenant k key')
    then have p: "resolvePath t kind key \<noteq> resolvePath tenant k key'"
      using assms resolvePath_inject [of t tenant kind key k key'] c
      by (auto simp: a known_address_def)
    have q: "resolveLegacyPath t kind key \<noteq> Some (resolvePath tenant k key')"
      "resolveLegacyPath tenant k key' \<noteq> Some (resolvePath t kind key)"
      by (auto simp: resolveLegacyPath_def resolvePath_def split: object_kind.splits)
    have r: "resolveLegacyPath t kind key \<noteq> resolveLegacyPath tenant k key' \<or>
        resolveLegacyPath t kind key = None"
      using assms c
      by (auto simp: StoreDelete a known_address_def resolveLegacyPath_def split: object_kind.splits)
    show ?thesis
      using p q r
      by (auto simp: StoreDelete a local_contents_def local_store_delete_def Let_def simp flip: t_def
          split: option.split)
  qed
qed

lemma s3_frame:
  assumes "known_address a" "known_address (op_address (snd op))" "op_address (snd op) \<noteq> a"
  shows "s3_contents (s3_store_step hash op bucket) a = s3_contents bucket a"
proof -
  obtain c kind key where a: "a = (c, kind, key)" by (cases a)
  obtain fault o' where op: "op = (fault, o')" by (cases op)
  have c: "dt_companyId (tenant_of c) = c" by (simp add: tenant_of_def)
  show ?thesis
  proof (cases o')
    case (StoreWrite tenant k key' data checksum)
    then have "createDocumentObjectKey (tenant_of c) kind key \<noteq> createDocumentObjectKey tenant k key'"
      using assms objectKey_inject [of "tenant_of c" tenant kind key k key'] c
      by (auto simp: a op known_address_def)
    then show ?thesis
      by (simp add: op StoreWrite a s3_contents_def s3_store_write_def split: option.split sum.split)
  next
    case (StoreDelete tenant k key')
    then have "createDocumentObjectKey (tenant_of c) kind key \<noteq> createDocumentObjectKey tenant k key'"
      using assms objectKey_inject [of "tenant_of c" tenant kind key k key'] c
      by (auto simp: a op known_address_def)
    then show ?thesis
      by (simp add: op StoreDelete a s3_contents_def s3_store_delete_def split: option.split)
  qed
qed

interpretation file_storage:
  object_storage local_contents "local_store_step hash" op_address known_address for hash
  by unfold_locales (rule local_frame)

interpretation s3_storage:
  object_storage s3_contents "s3_store_step hash" "op_address \<circ> snd" known_address for hash
  by unfold_locales (simp add: s3_frame)

lemma local_read_contents:
  assumes "assertObjectAddress tenant key = None"
  shows "local_store_read hash tenant kind key expected store =
    (case local_contents store (dt_companyId tenant, kind, key) of
       None \<Rightarrow> Inr None | Some data \<Rightarrow> checked_object hash expected data)"
  using assms paths_of_company [of tenant "dt_companyId tenant"]
  by (auto simp: local_store_read_def local_contents_def split: option.split)

lemma s3_read_contents:
  assumes "assertObjectAddress tenant key = None"
  shows "s3_store_read hash None tenant kind key expected bucket =
    (case s3_contents bucket (dt_companyId tenant, kind, key) of
       None \<Rightarrow> Inr None | Some data \<Rightarrow> checked_object hash expected data)"
  using assms paths_of_company [of tenant "dt_companyId tenant"]
  by (simp add: s3_store_read_def s3_contents_def)

lemma local_written:
  assumes "local_store_write hash tenant kind key data checksum store = (Inr digest, store')"
  shows "assertObjectAddress tenant key = None"
    "local_contents store' (dt_companyId tenant, kind, key) = Some data" "digest = hash data"
  using assms paths_of_company [of tenant "dt_companyId tenant"]
  by (auto simp: local_store_write_def local_contents_def verifyChecksum_def Let_def
      split: option.splits sum.splits if_splits)

lemma s3_written:
  assumes "s3_store_write hash fault tenant kind key data checksum bucket = (Inr digest, bucket')"
  shows "assertObjectAddress tenant key = None"
    "s3_contents bucket' (dt_companyId tenant, kind, key) = Some data" "digest = hash data"
  using assms paths_of_company [of tenant "dt_companyId tenant"]
  by (auto simp: s3_store_write_def s3_contents_def verifyChecksum_def Let_def
      split: option.splits sum.splits if_splits)

lemma checked_object_simps:
  "SHA256 (hash data) \<Longrightarrow> checked_object hash (Some (hash data)) data = Inr (Some data)"
  "SHA256 expected \<Longrightarrow> expected \<noteq> hash data \<Longrightarrow>
     checked_object hash (Some expected) data = Inl CHECKSUM_VERIFICATION_FAILED"
  using SHA256_trim [of expected]
  by (auto simp: checked_object_def verifyChecksum_def assertDocumentChecksum_def Let_def split: option.split)

section \<open>What is written is read back\<close>

text \<open>
  C31. Both storages give back what they were given: after a successful write, and any operations on
  other objects of any tenant (commands of the bucket may fail), a read that expects the checksum
  the write returned finds the data, and one that expects another checksum fails with the
  verification error.
\<close>

theorem stored_object_read_back:
  assumes digest: "SHA256 (hash data)" and other: "SHA256 expected" "expected \<noteq> hash data"
    and known: "known_address (dt_companyId tenant, kind, key)"
    and files: "local_store_write hash tenant kind key data checksum store = (Inr written, store')"
      "\<forall>op \<in> set ops. known_address (op_address op) \<and> op_address op \<noteq> (dt_companyId tenant, kind, key)"
    and bucket: "s3_store_write hash fault tenant kind key data checksum objects = (Inr written', objects')"
      "\<forall>op \<in> set cmds. known_address (op_address (snd op)) \<and> op_address (snd op) \<noteq> (dt_companyId tenant, kind, key)"
  shows "local_store_read hash tenant kind key (Some written) (queue_run (local_store_step hash) ops store') =
      Inr (Some data) \<and>
    local_store_read hash tenant kind key (Some expected) (queue_run (local_store_step hash) ops store') =
      Inl CHECKSUM_VERIFICATION_FAILED \<and>
    s3_store_read hash None tenant kind key (Some written') (queue_run (s3_store_step hash) cmds objects') =
      Inr (Some data) \<and>
    s3_store_read hash None tenant kind key (Some expected) (queue_run (s3_store_step hash) cmds objects') =
      Inl CHECKSUM_VERIFICATION_FAILED"
proof -
  let ?a = "(dt_companyId tenant, kind, key)"
  note l = local_written [OF files(1)] and s = s3_written [OF bucket(1)]
  have "local_contents (queue_run (local_store_step hash) ops store') ?a = Some data"
    using file_storage.run_frame [OF known files(2)] l(2) by simp
  moreover have "s3_contents (queue_run (s3_store_step hash) cmds objects') ?a = Some data"
    by (subst s3_storage.run_frame [OF known]) (use bucket(2) s(2) in simp_all)
  ultimately show ?thesis
    using checked_object_simps(1) [of hash data, OF digest] checked_object_simps(2) [of expected hash data, OF other]
    by (simp add: local_read_contents [OF l(1)] s3_read_contents [OF s(1)] l(3) s(3))
qed

definition sample_hash_of :: "string \<Rightarrow> string" where
  "sample_hash_of data = replicate 64 (if data = ''pdf'' then CHR ''a'' else CHR ''0'')"

definition storing_tenant :: document_tenant where
  "storing_tenant = \<lparr>dt_companyId = ''acme'', dt_userId = ''user-1''\<rparr>"

theorem stored_object_read_back_witness:
  "local_store_read sample_hash_of storing_tenant OriginalObject ''a.pdf'' (Some (replicate 64 CHR ''0''))
     (snd (local_store_write sample_hash_of storing_tenant OriginalObject ''a.pdf'' ''pdf'' None (\<lambda>_. None))) =
     Inl CHECKSUM_VERIFICATION_FAILED"
proof -
  let ?w = "local_store_write sample_hash_of storing_tenant OriginalObject ''a.pdf'' ''pdf'' None (\<lambda>_. None)"
  let ?s = "s3_store_write sample_hash_of None storing_tenant OriginalObject ''a.pdf'' ''pdf'' None (\<lambda>_. None)"
  have d: "SHA256 (sample_hash_of ''pdf'')" "SHA256 (replicate 64 CHR ''0'')"
    "replicate 64 CHR ''0'' \<noteq> sample_hash_of ''pdf''"
    "known_address (dt_companyId storing_tenant, OriginalObject, ''a.pdf'')"
    by code_simp+
  have "fst ?w = Inr (sample_hash_of ''pdf'')" "fst ?s = Inr (sample_hash_of ''pdf'')" by code_simp+
  then have "?w = (Inr (sample_hash_of ''pdf''), snd ?w)" "?s = (Inr (sample_hash_of ''pdf''), snd ?s)"
    by (metis prod.collapse)+
  from stored_object_read_back [where ops = "[]" and cmds = "[]", OF d this(1) _ this(2)]
  show ?thesis by simp
qed

end
