(* ===== verification/DocumentWorker.thy ===== *)
theory DocumentWorker
  imports DocumentStorage DocumentRoundtrip RedisQueue LocalQueue
begin

text \<open>
  The document worker (\<open>lib/document-processing-worker.ts\<close>, \<open>lib/worker-lease.ts\<close>): one run claims a
  job, claims its document, extracts and stores the derivatives, and completes the document or
  decides its retry. Every \<open>await\<close> is a step of its own, so that other workers, requests and the
  heartbeat of the worker itself can act in between, and every awaited call may fail.
\<close>

section \<open>The services\<close>

text \<open>
  The queue, the metadata repository and the object storage are given to the worker; a service is
  the record of the operations it calls. \<open>sv_text\<close> and \<open>sv_chunks\<close> encode the derivatives, the UTF-8
  bytes of the text and of the JSON of the chunks.
\<close>

record ('q, 'm, 'b, 'c) services =
  sv_claim :: "document_tenant \<Rightarrow> string \<Rightarrow> ms \<Rightarrow> int option \<Rightarrow> 'q \<Rightarrow>
    (document_error, public_job option, 'q) handled"
  sv_renew :: "document_tenant \<Rightarrow> string \<Rightarrow> string \<Rightarrow> int \<Rightarrow> int \<Rightarrow> ms \<Rightarrow> 'q \<Rightarrow>
    (document_error, public_job, 'q) handled"
  sv_assertLease :: "document_tenant \<Rightarrow> string \<Rightarrow> string \<Rightarrow> int \<Rightarrow> ms \<Rightarrow> 'q \<Rightarrow>
    (document_error, unit, 'q) handled"
  sv_acknowledge :: "document_tenant \<Rightarrow> string \<Rightarrow> string \<Rightarrow> int \<Rightarrow> ms \<Rightarrow> 'q \<Rightarrow>
    (document_error, unit, 'q) handled"
  sv_release :: "document_tenant \<Rightarrow> string \<Rightarrow> string \<Rightarrow> date_text \<Rightarrow> int \<Rightarrow> ms \<Rightarrow> 'q \<Rightarrow>
    (document_error, unit, 'q) handled"
  sv_findById :: "document_tenant \<Rightarrow> string \<Rightarrow> 'm \<Rightarrow> (document_error, document option, 'm) handled"
  sv_transitionStatus :: "document_tenant \<Rightarrow> string \<Rightarrow> document_status list \<Rightarrow> document_status \<Rightarrow>
    date_text document_change list \<Rightarrow> (string \<times> int) option \<Rightarrow> ms \<Rightarrow> 'm \<Rightarrow>
    (document_error, document option, 'm) handled"
  sv_read :: "document_tenant \<Rightarrow> object_kind \<Rightarrow> string \<Rightarrow> string option \<Rightarrow> 'b object_store \<Rightarrow>
    document_error + 'b option"
  sv_write :: "document_tenant \<Rightarrow> object_kind \<Rightarrow> string \<Rightarrow> 'b \<Rightarrow> 'b object_store \<Rightarrow>
    (document_error, string, 'b object_store) handled"
  sv_delete :: "document_tenant \<Rightarrow> object_kind \<Rightarrow> string \<Rightarrow> 'b object_store \<Rightarrow>
    (document_error, bool, 'b object_store) handled"
  sv_text :: "string \<Rightarrow> 'b"
  sv_chunks :: "'c list \<Rightarrow> 'b"

record ('q, 'm, 'b) pipeline =
  pi_queue :: 'q
  pi_metadata :: 'm
  pi_objects :: "'b object_store"

text \<open>The local services of a development machine, and those of production.\<close>

definition local_services ::
  "('b \<Rightarrow> string) \<Rightarrow> (string \<Rightarrow> 'b) \<Rightarrow> ('c list \<Rightarrow> 'b) \<Rightarrow>
     (queue_files, metadata_files, 'b, 'c) services" where
  "local_services hash text_bytes chunk_bytes =
     \<lparr>sv_claim = local_claim,
      sv_renew = (\<lambda>tenant jobId workerId token duration now.
        local_renew tenant jobId workerId token duration now now),
      sv_assertLease = local_assertLease,
      sv_acknowledge = (\<lambda>tenant jobId workerId token now. local_acknowledge tenant jobId workerId (Some token)),
      sv_release = (\<lambda>tenant jobId workerId availableAt token now.
        local_release tenant jobId workerId availableAt (Some token)),
      sv_findById = local_findById True, sv_transitionStatus = local_transitionStatus True,
      sv_read = local_store_read hash,
      sv_write = (\<lambda>tenant kind key data. local_store_write hash tenant kind key data None),
      sv_delete = local_store_delete, sv_text = text_bytes, sv_chunks = chunk_bytes\<rparr>"

definition production_services ::
  "('b \<Rightarrow> string) \<Rightarrow> (string \<Rightarrow> 'b) \<Rightarrow> ('c list \<Rightarrow> 'b) \<Rightarrow> (redis_db, document_db, 'b, 'c) services" where
  "production_services hash text_bytes chunk_bytes =
     \<lparr>sv_claim = (\<lambda>tenant workerId now duration. redis_document_claim tenant workerId duration now),
      sv_renew = redis_document_renew,
      sv_assertLease = (\<lambda>tenant jobId workerId token. redis_document_assertLease tenant jobId workerId (Some token)),
      sv_acknowledge = (\<lambda>tenant jobId workerId token. redis_document_acknowledge tenant jobId workerId (Some token)),
      sv_release = (\<lambda>tenant jobId workerId availableAt token.
        redis_document_release tenant jobId workerId availableAt (Some token)),
      sv_findById = (\<lambda>tenant documentId db. (pg_findById tenant documentId db, db)),
      sv_transitionStatus = pg_transitionStatus,
      sv_read = s3_store_read hash None,
      sv_write = (\<lambda>tenant kind key data. s3_store_write hash None tenant kind key data None),
      sv_delete = s3_store_delete None, sv_text = text_bytes, sv_chunks = chunk_bytes\<rparr>"

section \<open>Awaiting\<close>

text \<open>
  What a rejected call is thrown as. Of the messages of the pipeline only these two hold a text the
  classification of failures looks for.
\<close>

definition thrown_of :: "document_error \<Rightarrow> thrown" where
  "thrown_of e =
     (case e of
        CHECKSUM_VERIFICATION_FAILED \<Rightarrow> OtherError None None ''Document checksum verification failed.''
      | UNSUPPORTED_STATUS \<Rightarrow> OtherError None None ''Unsupported document processing status.''
      | OBJECT_STORE_ERROR name \<Rightarrow> OtherError None None name
      | _ \<Rightarrow> OtherError None None [])"

text \<open>A call fails of itself, or because the connection broke before or after it took effect.\<close>

datatype fault = NoFault | FailBefore thrown | FailAfter thrown

definition awaited :: "fault \<Rightarrow> ('s \<Rightarrow> (document_error, 'a, 's) handled) \<Rightarrow> 's \<Rightarrow> (thrown + 'a) \<times> 's" where
  "awaited fault call s =
     (case fault of
        FailBefore t \<Rightarrow> (Inl t, s)
      | NoFault \<Rightarrow>
          (case call s of (Inl e, s') \<Rightarrow> (Inl (thrown_of e), s') | (Inr v, s') \<Rightarrow> (Inr v, s'))
      | FailAfter t \<Rightarrow> (Inl t, snd (call s)))"

definition on_queue where
  "on_queue fault call sys =
     (case awaited fault call (pi_queue sys) of (r, q) \<Rightarrow> (r, sys\<lparr>pi_queue := q\<rparr>))"

definition on_metadata where
  "on_metadata fault call sys =
     (case awaited fault call (pi_metadata sys) of (r, m) \<Rightarrow> (r, sys\<lparr>pi_metadata := m\<rparr>))"

definition on_objects where
  "on_objects fault call sys =
     (case awaited fault call (pi_objects sys) of (r, b) \<Rightarrow> (r, sys\<lparr>pi_objects := b\<rparr>))"

section \<open>Configuration, inputs and results\<close>

record worker_config =
  wc_leaseDurationMs :: "int option"
  wc_heartbeatIntervalMs :: "int option"
  wc_workerVersion :: "string option"
  wc_deploymentGeneration :: "string option"
  wc_retryPolicy :: retry_policy

definition lease_ms :: "worker_config \<Rightarrow> int" where
  "lease_ms cfg = (case wc_leaseDurationMs cfg of None \<Rightarrow> 5 * 60000 | Some d \<Rightarrow> d)"

text \<open>The constructor of \<open>WorkerLeaseHeartbeat\<close> refuses other intervals.\<close>

definition heartbeat_interval_ok :: "worker_config \<Rightarrow> bool" where
  "heartbeat_interval_ok cfg \<longleftrightarrow>
     (let interval = (case wc_heartbeatIntervalMs cfg of None \<Rightarrow> max 1000 (lease_ms cfg div 3) | Some i \<Rightarrow> i)
      in safe_integer interval \<and> 0 < interval)"

text \<open>
  What the extraction gives: the pages of the plain extractor, or the metadata of the document
  intelligence, which are spread over the document.
\<close>

datatype findings = PagesOnly "int option" | Intelligence "date_text document_intelligence"

record 'c extraction =
  ex_text :: string
  ex_chunks :: "'c list"
  ex_chunksCount :: int
  ex_findings :: findings

definition intelligence_changes :: "date_text document_intelligence \<Rightarrow> date_text document_change list" where
  "intelligence_changes i = map IntelligenceChange
     [SetDetectedDocumentType (in_detectedDocumentType i), SetDetectedMimeType (in_detectedMimeType i),
      SetDetectionConfidence (in_detectionConfidence i), SetTextExtractionMethod (in_textExtractionMethod i),
      SetOcrStatus (in_ocrStatus i), SetOcrProvider (in_ocrProvider i), SetOcrLanguage (in_ocrLanguage i),
      SetOcrStartedAt (in_ocrStartedAt i), SetOcrCompletedAt (in_ocrCompletedAt i),
      SetPageCount (in_pageCount i), SetExtractedCharacterCount (in_extractedCharacterCount i),
      SetRequiresManualReview (in_requiresManualReview i), SetIntelligenceVersion (in_intelligenceVersion i)]"

text \<open>
  The input of a step: the clock, the failure of its call, and for the extraction what the external
  engine makes of the original, or throws.
\<close>

record ('b, 'c) step_input =
  si_now :: ms
  si_fault :: fault
  si_extract :: "document \<Rightarrow> 'b \<Rightarrow> thrown + 'c extraction"

datatype outcome = RunCompleted | RunRetryScheduled | RunFailed | RunQuarantined | RunSkipped

datatype run_result =
    RunIdle
  | RunResult outcome string string "string option"

section \<open>Phases of a run\<close>

text \<open>
  Where a run awaits. The document a phase carries from \<open>ReadingOriginal\<close> on is the claimed one;
  \<open>Conflicted\<close> deletes the derivatives of a completion that was refused, \<open>Stopping\<close> and the phases
  after it are the handler of a failure.
\<close>

datatype 'c phase =
    Starting
  | ClaimedJob public_job
  | Queueing public_job document
  | ClaimingDocument public_job document
  | ReadingOriginal public_job document
  | SavingText public_job document "'c extraction"
  | SavingChunks public_job document "'c extraction"
  | AssertingLease public_job document "'c extraction"
  | Completing public_job document "'c extraction"
  | ConflictedText public_job document
  | ConflictedChunks public_job document
  | Following public_job document
  | Stopping public_job document thrown
  | CleaningText public_job document thrown
  | CleaningChunks public_job document thrown
  | Deciding public_job document thrown
  | Releasing public_job document string ms
  | Acknowledging public_job outcome "string option"
  | Returned run_result
  | Raised thrown

definition text_key :: "document \<Rightarrow> string" where
  "text_key d = doc_id d @ ''.txt''"

definition chunks_key :: "document \<Rightarrow> string" where
  "chunks_key d = doc_id d @ ''.json''"

text \<open>The guard every transition of a claimed document carries.\<close>

definition leaseGuard :: "string \<Rightarrow> public_job \<Rightarrow> (string \<times> int) option" where
  "leaseGuard workerId job = Some (workerId, pj_fencingToken job)"

definition claim_changes ::
  "worker_config \<Rightarrow> string \<Rightarrow> public_job \<Rightarrow> document \<Rightarrow> ms \<Rightarrow> date_text document_change list" where
  "claim_changes cfg workerId job document now =
     [SetProcessingAttempts (doc_processingAttempts document + 1), SetProcessingStartedAt (Some (Some now)),
      SetProcessingCompletedAt None, SetNextRetryAt None, SetQuarantinedAt None,
      SetWorkerId (Some workerId),
      SetWorkerVersion (Some (or_value (wc_workerVersion cfg) ''development'')),
      SetDeploymentGeneration (Some (or_value (wc_deploymentGeneration cfg) ''local'')),
      SetProcessingFencingToken (pj_fencingToken job), SetWorkerHeartbeatAt (Some (Some now)),
      SetProcessingLeaseUntil (pj_leaseExpiresAt job), SetLastErrorCode None, SetLastErrorMessage None]"

definition completion_changes :: "'c extraction \<Rightarrow> ms \<Rightarrow> date_text document_change list" where
  "completion_changes extracted now =
     [SetPages (case ex_findings extracted of PagesOnly p \<Rightarrow> p | Intelligence i \<Rightarrow> in_pageCount i),
      SetTextLength (Some (int (length (ex_text extracted)))),
      SetChunksCount (Some (ex_chunksCount extracted))] @
     (case ex_findings extracted of PagesOnly _ \<Rightarrow> [] | Intelligence i \<Rightarrow> intelligence_changes i) @
     [SetProcessingCompletedAt (Some (Some now)), SetNextRetryAt None, SetQuarantinedAt None,
      SetWorkerId None, SetWorkerHeartbeatAt None, SetProcessingLeaseUntil None,
      SetLastErrorCode None, SetLastErrorMessage None]"

definition failure_changes :: "error_classification \<Rightarrow> ms \<Rightarrow> date_text document_change list" where
  "failure_changes classified now =
     [SetLastErrorCode (Some (ec_code classified)), SetLastErrorMessage (Some (ec_safeMessage classified)),
      SetProcessingCompletedAt (Some (Some now)), SetWorkerId None] @
     (if starts_with ''OCR_'' (ec_code classified)
      then [IntelligenceChange (SetOcrStatus
              (if ec_code classified = ''OCR_RUNTIME_UNAVAILABLE'' then OCR_UNAVAILABLE else OCR_FAILED)),
            IntelligenceChange (SetOcrCompletedAt (Some (Some now)))]
      else [])"

definition skip :: "public_job \<Rightarrow> 'c phase" where
  "skip job = Acknowledging job RunSkipped None"

definition after_find :: "public_job \<Rightarrow> document option \<Rightarrow> 'c phase" where
  "after_find job found =
     (case found of
        None \<Rightarrow> skip job
      | Some document \<Rightarrow>
          if doc_status document \<in> {COMPLETED, FAILED, QUARANTINED} then skip job
          else if doc_status document = UPLOADED then Queueing job document
          else ClaimingDocument job document)"

text \<open>
  One transition that the handler of a failure makes: refused it is an error of its own. A retry
  releases the job, anything else acknowledges it.
\<close>

definition final_outcome :: "retry_decision \<Rightarrow> outcome \<times> document_status" where
  "final_outcome decision =
     (case decision of Quarantine \<Rightarrow> (RunQuarantined, QUARANTINED) | _ \<Rightarrow> (RunFailed, FAILED))"

definition decided_transition ::
  "('q, 'm, 'b, 'c) services \<Rightarrow> document_tenant \<Rightarrow> string \<Rightarrow> public_job \<Rightarrow> document \<Rightarrow>
     error_classification \<Rightarrow> retry_decision \<Rightarrow> ms \<Rightarrow> 'm \<Rightarrow> (document_error, document option, 'm) handled" where
  "decided_transition sv tenant workerId job document classified decision now =
     (case decision of
        Retry nextRetryAt \<Rightarrow>
          sv_transitionStatus sv tenant (doc_id document) [PROCESSING] QUEUED
            (failure_changes classified now @ [SetNextRetryAt (Some (Some nextRetryAt)), SetQuarantinedAt None])
            (leaseGuard workerId job) now
      | _ \<Rightarrow>
          sv_transitionStatus sv tenant (doc_id document) [PROCESSING] (snd (final_outcome decision))
            (failure_changes classified now @
             [SetNextRetryAt None,
              SetQuarantinedAt (if decision = Quarantine then Some (Some now) else None)])
            (leaseGuard workerId job) now)"

definition after_decision :: "public_job \<Rightarrow> document \<Rightarrow> string \<Rightarrow> retry_decision \<Rightarrow> 'c phase" where
  "after_decision job document errCode decision =
     (case decision of
        Retry nextRetryAt \<Rightarrow> Releasing job document errCode nextRetryAt
      | _ \<Rightarrow> Acknowledging job (fst (final_outcome decision)) (Some errCode))"

definition refused :: "retry_decision \<Rightarrow> thrown" where
  "refused decision = OtherError None None
     (case decision of
        Retry _ \<Rightarrow> ''Unable to schedule document processing retry.''
      | _ \<Rightarrow> ''Unable to persist document processing failure.'')"

definition finished :: "public_job \<Rightarrow> outcome \<Rightarrow> string option \<Rightarrow> 'c phase" where
  "finished job result errCode = Returned (RunResult result (pj_documentId job) (pj_id job) errCode)"

text \<open>A call whose rejection leaves the run, and one whose rejection enters the handler.\<close>

definition or_raise :: "(thrown + 'a) \<times> 's \<Rightarrow> ('a \<Rightarrow> 'c phase) \<Rightarrow> 'c phase \<times> 's" where
  "or_raise call continue =
     (case call of (Inl t, s) \<Rightarrow> (Raised t, s) | (Inr v, s) \<Rightarrow> (continue v, s))"

definition or_stop ::
  "public_job \<Rightarrow> document \<Rightarrow> (thrown + 'a) \<times> 's \<Rightarrow> ('a \<Rightarrow> 'c phase) \<Rightarrow> 'c phase \<times> 's" where
  "or_stop job document call continue =
     (case call of (Inl t, s) \<Rightarrow> (Stopping job document t, s) | (Inr v, s) \<Rightarrow> (continue v, s))"

section \<open>The steps of a run\<close>

text \<open>
  The original is read with its checksum and given to the extraction, which touches nothing the
  services hold.
\<close>

definition extract_original ::
  "('q, 'm, 'b, 'c) services \<Rightarrow> document_tenant \<Rightarrow> public_job \<Rightarrow> document \<Rightarrow> ('b, 'c) step_input \<Rightarrow>
     ('q, 'm, 'b) pipeline \<Rightarrow> 'c phase \<times> ('q, 'm, 'b) pipeline" where
  "extract_original sv tenant job document input sys =
     or_stop job document
       (on_objects (si_fault input)
          (\<lambda>st. (sv_read sv tenant OriginalObject (doc_storedName document) (Some (doc_checksum document)) st, st))
          sys)
       (\<lambda>original. case original of
          None \<Rightarrow> Stopping job document (ProcessingError ''ORIGINAL_NOT_FOUND'' False OriginalNotFound)
        | Some content \<Rightarrow>
            (case si_extract input document content of
               Inl t \<Rightarrow> Stopping job document t
             | Inr extracted \<Rightarrow> SavingText job document extracted))"

definition delete_derivative where
  "delete_derivative sv tenant input kind key sys =
     on_objects (si_fault input) (sv_delete sv tenant kind key) sys"

text \<open>
  \<open>lost\<close> tells that a renewal by the heartbeat failed, \<open>renewing\<close> that one is under way: the lease
  check and the end of the heartbeat wait for it.
\<close>

fun main_step ::
  "('q, 'm, 'b, 'c) services \<Rightarrow> worker_config \<Rightarrow> document_tenant \<Rightarrow> string \<Rightarrow> bool \<Rightarrow> bool \<Rightarrow>
     ('b, 'c) step_input \<Rightarrow> 'c phase \<Rightarrow> ('q, 'm, 'b) pipeline \<Rightarrow> 'c phase \<times> ('q, 'm, 'b) pipeline" where
  "main_step sv cfg tenant workerId lost renewing input Starting sys =
     or_raise (on_queue (si_fault input)
         (sv_claim sv tenant workerId (si_now input) (wc_leaseDurationMs cfg)) sys)
       (\<lambda>job. case job of None \<Rightarrow> Returned RunIdle | Some job \<Rightarrow> ClaimedJob job)"
| "main_step sv cfg tenant workerId lost renewing input (ClaimedJob job) sys =
     or_raise (on_metadata (si_fault input) (sv_findById sv tenant (pj_documentId job)) sys) (after_find job)"
| "main_step sv cfg tenant workerId lost renewing input (Queueing job document) sys =
     or_raise (on_metadata (si_fault input)
         (sv_transitionStatus sv tenant (doc_id document) [UPLOADED] QUEUED [] None (si_now input)) sys)
       (\<lambda>queued. case queued of None \<Rightarrow> skip job | Some document \<Rightarrow> ClaimingDocument job document)"
| "main_step sv cfg tenant workerId lost renewing input (ClaimingDocument job document) sys =
     or_raise (on_metadata (si_fault input)
         (sv_transitionStatus sv tenant (doc_id document) [QUEUED, PROCESSING] PROCESSING
            (claim_changes cfg workerId job document (si_now input)) None (si_now input)) sys)
       (\<lambda>claimed. case claimed of
          None \<Rightarrow> skip job
        | Some document \<Rightarrow>
            if heartbeat_interval_ok cfg then ReadingOriginal job document
            else Raised (OtherError None None ''Heartbeat interval must be a positive safe integer.''))"
| "main_step sv cfg tenant workerId lost renewing input (ReadingOriginal job document) sys =
     extract_original sv tenant job document input sys"
| "main_step sv cfg tenant workerId lost renewing input (SavingText job document extracted) sys =
     or_stop job document (on_objects (si_fault input)
         (sv_write sv tenant TextObject (text_key document) (sv_text sv (ex_text extracted))) sys)
       (\<lambda>_. SavingChunks job document extracted)"
| "main_step sv cfg tenant workerId lost renewing input (SavingChunks job document extracted) sys =
     or_stop job document (on_objects (si_fault input)
         (sv_write sv tenant ChunksObject (chunks_key document) (sv_chunks sv (ex_chunks extracted))) sys)
       (\<lambda>_. AssertingLease job document extracted)"
| "main_step sv cfg tenant workerId lost renewing input (AssertingLease job document extracted) sys =
     (if renewing then (AssertingLease job document extracted, sys)
      else if lost
      then (Stopping job document
              (OtherError None None ''Worker lease was lost during heartbeat renewal.''), sys)
      else or_stop job document (on_queue (si_fault input)
             (sv_assertLease sv tenant (pj_id job) workerId (pj_fencingToken job) (si_now input)) sys)
           (\<lambda>_. Completing job document extracted))"
| "main_step sv cfg tenant workerId lost renewing input (Completing job document extracted) sys =
     or_stop job document (on_metadata (si_fault input)
         (sv_transitionStatus sv tenant (doc_id document) [PROCESSING] COMPLETED
            (completion_changes extracted (si_now input)) (leaseGuard workerId job) (si_now input)) sys)
       (\<lambda>completed. case completed of
          None \<Rightarrow> ConflictedText job document | Some _ \<Rightarrow> Following job document)"
| "main_step sv cfg tenant workerId lost renewing input (ConflictedText job document) sys =
     or_stop job document (delete_derivative sv tenant input TextObject (text_key document) sys)
       (\<lambda>_. ConflictedChunks job document)"
| "main_step sv cfg tenant workerId lost renewing input (ConflictedChunks job document) sys =
     or_stop job document (delete_derivative sv tenant input ChunksObject (chunks_key document) sys)
       (\<lambda>_. Stopping job document
         (ProcessingError ''PROCESSING_STATE_CONFLICT'' True StateChangedMeanwhile))"
| "main_step sv cfg tenant workerId lost renewing input (Following job document) sys =
     (if renewing then (Following job document, sys) else (Acknowledging job RunCompleted None, sys))"
| "main_step sv cfg tenant workerId lost renewing input (Stopping job document t) sys =
     (if renewing then (Stopping job document t, sys) else (CleaningText job document t, sys))"
| "main_step sv cfg tenant workerId lost renewing input (CleaningText job document t) sys =
     (case delete_derivative sv tenant input TextObject (text_key document) sys of
        (Inl _, sys') \<Rightarrow> (Deciding job document t, sys')
      | (Inr _, sys') \<Rightarrow> (CleaningChunks job document t, sys'))"
| "main_step sv cfg tenant workerId lost renewing input (CleaningChunks job document t) sys =
     (Deciding job document t, snd (delete_derivative sv tenant input ChunksObject (chunks_key document) sys))"
| "main_step sv cfg tenant workerId lost renewing input (Deciding job document t) sys =
     (let classified = classifyDocumentProcessingError t in
      case decideDocumentRetry (doc_processingAttempts document) classified (wc_retryPolicy cfg) (si_now input) of
        Inl e \<Rightarrow> (Raised (thrown_of e), sys)
      | Inr decision \<Rightarrow>
          or_raise (on_metadata (si_fault input)
              (decided_transition sv tenant workerId job document classified decision (si_now input)) sys)
            (\<lambda>updated. case updated of
               None \<Rightarrow> Raised (refused decision)
             | Some _ \<Rightarrow> after_decision job document (ec_code classified) decision))"
| "main_step sv cfg tenant workerId lost renewing input (Releasing job document errCode nextRetryAt) sys =
     or_raise (on_queue (si_fault input)
         (sv_release sv tenant (pj_id job) workerId (Some nextRetryAt) (pj_fencingToken job) (si_now input)) sys)
       (\<lambda>_. finished job RunRetryScheduled (Some errCode))"
| "main_step sv cfg tenant workerId lost renewing input (Acknowledging job result errCode) sys =
     or_raise (on_queue (si_fault input)
         (sv_acknowledge sv tenant (pj_id job) workerId (pj_fencingToken job) (si_now input)) sys)
       (\<lambda>_. finished job result errCode)"
| "main_step sv cfg tenant workerId lost renewing input (Returned result) sys = (Returned result, sys)"
| "main_step sv cfg tenant workerId lost renewing input (Raised t) sys = (Raised t, sys)"

section \<open>The heartbeat\<close>

text \<open>The timer runs from the claim of the document until the run stops it.\<close>

fun beating :: "'c phase \<Rightarrow> (public_job \<times> document) option" where
  "beating (ReadingOriginal job document) = Some (job, document)"
| "beating (SavingText job document _) = Some (job, document)"
| "beating (SavingChunks job document _) = Some (job, document)"
| "beating (AssertingLease job document _) = Some (job, document)"
| "beating (Completing job document _) = Some (job, document)"
| "beating (ConflictedText job document) = Some (job, document)"
| "beating (ConflictedChunks job document) = Some (job, document)"
| "beating (Following job document) = Some (job, document)"
| "beating _ = None"

record 'c worker =
  wk_phase :: "'c phase"
  wk_renewal :: "(document \<times> public_job \<times> public_job) option"
  wk_lost :: bool

text \<open>
  A tick renews the lease, a second step writes the new lease to the document under the guard. Any
  failure marks the lease as lost; later ticks do nothing.
\<close>

definition tick ::
  "('q, 'm, 'b, 'c) services \<Rightarrow> worker_config \<Rightarrow> document_tenant \<Rightarrow> string \<Rightarrow> ('b, 'c) step_input \<Rightarrow>
     'c worker \<Rightarrow> ('q, 'm, 'b) pipeline \<Rightarrow> 'c worker \<times> ('q, 'm, 'b) pipeline" where
  "tick sv cfg tenant workerId input wk sys =
     (case wk_renewal wk of
        Some (document, job, renewed) \<Rightarrow>
          (case on_metadata (si_fault input)
              (sv_transitionStatus sv tenant (doc_id document) [PROCESSING] PROCESSING
                 [SetWorkerHeartbeatAt (Some (Some (si_now input))),
                  SetProcessingLeaseUntil (pj_leaseExpiresAt renewed)]
                 (leaseGuard workerId job) (si_now input)) sys of
             (Inr (Some _), sys') \<Rightarrow> (wk\<lparr>wk_renewal := None\<rparr>, sys')
           | (_, sys') \<Rightarrow> (wk\<lparr>wk_renewal := None, wk_lost := True\<rparr>, sys'))
      | None \<Rightarrow>
          (case beating (wk_phase wk) of
             None \<Rightarrow> (wk, sys)
           | Some (job, document) \<Rightarrow>
               if wk_lost wk then (wk, sys)
               else
                 (case on_queue (si_fault input)
                     (sv_renew sv tenant (pj_id job) workerId (pj_fencingToken job) (lease_ms cfg) (si_now input))
                     sys of
                    (Inl _, sys') \<Rightarrow> (wk\<lparr>wk_lost := True\<rparr>, sys')
                  | (Inr renewed, sys') \<Rightarrow> (wk\<lparr>wk_renewal := Some (document, job, renewed)\<rparr>, sys'))))"

definition run_step where
  "run_step sv cfg tenant workerId input wk sys =
     (case main_step sv cfg tenant workerId (wk_lost wk) (wk_renewal wk \<noteq> None) input (wk_phase wk) sys of
        (phase, sys') \<Rightarrow> (wk\<lparr>wk_phase := phase\<rparr>, sys'))"

definition new_worker :: "'c worker" where
  "new_worker = \<lparr>wk_phase = Starting, wk_renewal = None, wk_lost = False\<rparr>"

end
