(* ===== verification/DocumentWorkerProperties.thy ===== *)
theory DocumentWorkerProperties
  imports DocumentWorker RedisQueueProperties
begin

text \<open>
  The document worker in every schedule: its own steps, the ticks of its heartbeat and whatever
  other workers and requests do in between. A run ends after at most sixteen steps of its own, and a
  run that reports a result held the document and its lease when it decided it.
\<close>

section \<open>Schedules\<close>

text \<open>\<open>Elsewhere\<close> is any change the rest of the system makes between two steps.\<close>

datatype ('q, 'm, 'b, 'c) event =
    Turn "('b, 'c) step_input"
  | Beat "('b, 'c) step_input"
  | Elsewhere "('q, 'm, 'b) pipeline \<Rightarrow> ('q, 'm, 'b) pipeline"

fun event_step ::
  "('q, 'm, 'b, 'c) services \<Rightarrow> worker_config \<Rightarrow> document_tenant \<Rightarrow> string \<Rightarrow> ('q, 'm, 'b, 'c) event \<Rightarrow>
     'c worker \<times> ('q, 'm, 'b) pipeline \<Rightarrow> 'c worker \<times> ('q, 'm, 'b) pipeline" where
  "event_step sv cfg tenant workerId (Turn input) (wk, sys) = run_step sv cfg tenant workerId input wk sys"
| "event_step sv cfg tenant workerId (Beat input) (wk, sys) = tick sv cfg tenant workerId input wk sys"
| "event_step sv cfg tenant workerId (Elsewhere f) (wk, sys) = (wk, f sys)"

definition run_schedule where
  "run_schedule sv cfg tenant workerId events st = fold (event_step sv cfg tenant workerId) events st"

lemma run_schedule_simps [simp]:
  "run_schedule sv cfg tenant workerId [] st = st"
  "run_schedule sv cfg tenant workerId (e # es) st =
     run_schedule sv cfg tenant workerId es (event_step sv cfg tenant workerId e st)"
  "run_schedule sv cfg tenant workerId (es @ es') st =
     run_schedule sv cfg tenant workerId es' (run_schedule sv cfg tenant workerId es st)"
  by (simp_all add: run_schedule_def)

section \<open>Termination\<close>

text \<open>How many steps of its own a run may still take.\<close>

fun steps_left :: "'c phase \<Rightarrow> nat" where
  "steps_left Starting = 16"
| "steps_left (ClaimedJob _) = 15"
| "steps_left (Queueing _ _) = 14"
| "steps_left (ClaimingDocument _ _) = 13"
| "steps_left (ReadingOriginal _ _) = 12"
| "steps_left (SavingText _ _ _) = 11"
| "steps_left (SavingChunks _ _ _) = 10"
| "steps_left (AssertingLease _ _ _) = 9"
| "steps_left (Completing _ _ _) = 8"
| "steps_left (ConflictedText _ _) = 7"
| "steps_left (ConflictedChunks _ _) = 6"
| "steps_left (Following _ _) = 2"
| "steps_left (Stopping _ _ _) = 5"
| "steps_left (CleaningText _ _ _) = 4"
| "steps_left (CleaningChunks _ _ _) = 3"
| "steps_left (Deciding _ _ _) = 2"
| "steps_left (Releasing _ _ _ _) = 1"
| "steps_left (Acknowledging _ _ _) = 1"
| "steps_left (Returned _) = 0"
| "steps_left (Raised _) = 0"

text \<open>The steps that wait for a renewal under way.\<close>

fun waits :: "'c phase \<Rightarrow> bool" where
  "waits (AssertingLease _ _ _) \<longleftrightarrow> True"
| "waits (Following _ _) \<longleftrightarrow> True"
| "waits (Stopping _ _ _) \<longleftrightarrow> True"
| "waits _ \<longleftrightarrow> False"

lemma main_step_progress:
  assumes "\<not> (renewing \<and> waits phase)"
  shows "steps_left (fst (main_step sv cfg tenant workerId lost renewing input phase sys)) \<le>
    steps_left phase - 1"
  using assms
  by (cases phase)
    (auto simp: or_raise_def or_stop_def after_find_def skip_def extract_original_def finished_def
      after_decision_def Let_def split: sum.split prod.split option.split retry_decision.split)

lemma main_step_waiting:
  "waits phase \<Longrightarrow> main_step sv cfg tenant workerId lost True input phase sys = (phase, sys)"
  by (cases phase) simp_all

definition own_step :: "('q, 'm, 'b, 'c) event \<Rightarrow> 'c worker \<Rightarrow> bool" where
  "own_step e wk \<longleftrightarrow>
     (case e of
        Turn _ \<Rightarrow> steps_left (wk_phase wk) \<noteq> 0 \<and> \<not> (wk_renewal wk \<noteq> None \<and> waits (wk_phase wk))
      | _ \<Rightarrow> False)"

fun turns_taken where
  "turns_taken sv cfg tenant workerId [] st = (0 :: nat)"
| "turns_taken sv cfg tenant workerId (e # es) st =
     (if own_step e (fst st) then 1 else 0) +
     turns_taken sv cfg tenant workerId es (event_step sv cfg tenant workerId e st)"

lemma tick_phase [simp]: "wk_phase (fst (tick sv cfg tenant workerId input wk sys)) = wk_phase wk"
  by (simp add: tick_def split: option.split prod.split sum.split)

lemma tick_renewal: "wk_renewal wk \<noteq> None \<Longrightarrow> wk_renewal (fst (tick sv cfg tenant workerId input wk sys)) = None"
  by (auto simp: tick_def split: option.split prod.split sum.split)

lemma run_step_phase [simp]:
  "wk_phase (fst (run_step sv cfg tenant workerId input wk sys)) =
     fst (main_step sv cfg tenant workerId (wk_lost wk) (wk_renewal wk \<noteq> None) input (wk_phase wk) sys)"
  "wk_renewal (fst (run_step sv cfg tenant workerId input wk sys)) = wk_renewal wk"
  "snd (run_step sv cfg tenant workerId input wk sys) =
     snd (main_step sv cfg tenant workerId (wk_lost wk) (wk_renewal wk \<noteq> None) input (wk_phase wk) sys)"
  by (simp_all add: run_step_def split: prod.split)

lemma event_progress:
  "(if own_step e (fst st) then 1 else 0) +
     steps_left (wk_phase (fst (event_step sv cfg tenant workerId e st))) \<le> steps_left (wk_phase (fst st))"
proof (cases st)
  case (Pair wk sys)
  show ?thesis
  proof (cases e)
    case (Turn input)
    let ?renewing = "wk_renewal wk \<noteq> None"
    show ?thesis
    proof (cases "?renewing \<and> waits (wk_phase wk)")
      case True
      then show ?thesis by (simp add: Pair Turn own_step_def main_step_waiting)
    next
      case False
      from main_step_progress [OF False, of sv cfg tenant workerId "wk_lost wk" input sys] False
      show ?thesis
        by (cases "steps_left (wk_phase wk)") (simp_all add: Pair Turn own_step_def)
    qed
  qed (simp_all add: Pair own_step_def)
qed

lemma turns_bound:
  "turns_taken sv cfg tenant workerId es st +
     steps_left (wk_phase (fst (run_schedule sv cfg tenant workerId es st))) \<le> steps_left (wk_phase (fst st))"
proof (induction es arbitrary: st)
  case (Cons e es)
  from Cons.IH [of "event_step sv cfg tenant workerId e st"] event_progress [of e st sv cfg tenant workerId]
  show ?case by simp
qed simp

fun ended :: "'c phase \<Rightarrow> bool" where
  "ended (Returned _) \<longleftrightarrow> True"
| "ended (Raised _) \<longleftrightarrow> True"
| "ended _ \<longleftrightarrow> False"

lemma steps_left_0 [simp]: "steps_left phase = 0 \<longleftrightarrow> ended phase"
  by (cases phase) simp_all

lemma own_step_Turn:
  "own_step (Turn input) wk \<longleftrightarrow> \<not> ended (wk_phase wk) \<and> \<not> (wk_renewal wk \<noteq> None \<and> waits (wk_phase wk))"
  by (simp add: own_step_def)

text \<open>
  C32. A run of the document worker ends. In every schedule, with every failure of the services and
  every heartbeat, the steps the run takes and the steps it still needs are together at most
  sixteen; and until it has returned or thrown it can take one, at once or as soon as the renewal
  under way has finished.
\<close>

theorem worker_run_terminates:
  "turns_taken sv cfg tenant workerId events (new_worker, sys) +
     steps_left (wk_phase (fst (run_schedule sv cfg tenant workerId events (new_worker, sys)))) \<le> 16 \<and>
   (case run_schedule sv cfg tenant workerId events (new_worker, sys) of
      (wk, sys') \<Rightarrow> ended (wk_phase wk) \<or> own_step (Turn input) wk \<or>
        own_step (Turn input) (fst (event_step sv cfg tenant workerId (Beat beat) (wk, sys'))))"
proof
  show "turns_taken sv cfg tenant workerId events (new_worker, sys) +
      steps_left (wk_phase (fst (run_schedule sv cfg tenant workerId events (new_worker, sys)))) \<le> 16"
    using turns_bound [of sv cfg tenant workerId events "(new_worker, sys)"] by (simp add: new_worker_def)
  show "case run_schedule sv cfg tenant workerId events (new_worker, sys) of
      (wk, sys') \<Rightarrow> ended (wk_phase wk) \<or> own_step (Turn input) wk \<or>
        own_step (Turn input) (fst (event_step sv cfg tenant workerId (Beat beat) (wk, sys')))"
    by (auto simp: own_step_Turn tick_renewal split: prod.split)
qed

section \<open>What a result stands on\<close>

text \<open>
  \<open>held\<close> tells that a document is being processed by a worker under a fencing token. The metadata
  repositories promise that a guarded transition is accepted only then, and the document they
  return is the one that was asked for.
\<close>

locale fenced_services =
  fixes sv :: "('q, 'm, 'b, 'c) services"
    and held :: "document_tenant \<Rightarrow> string \<Rightarrow> string \<Rightarrow> int \<Rightarrow> 'm \<Rightarrow> bool"
  assumes accepted_held:
      "fst (sv_transitionStatus sv tenant i [PROCESSING] s changes (Some (w, t)) now m) = Inr (Some d) \<Longrightarrow>
        held tenant i w t m"
    and accepted_id:
      "fst (sv_transitionStatus sv tenant i expected s changes lease now m) = Inr (Some d) \<Longrightarrow> doc_id d = i"
    and found_id: "fst (sv_findById sv tenant i m) = Inr (Some d) \<Longrightarrow> doc_id d = i"

text \<open>The job a phase works on, and the turn in which the worker took it from the queue.\<close>

fun phase_job :: "'c phase \<Rightarrow> public_job option" where
  "phase_job Starting = None"
| "phase_job (ClaimedJob job) = Some job"
| "phase_job (Queueing job _) = Some job"
| "phase_job (ClaimingDocument job _) = Some job"
| "phase_job (ReadingOriginal job _) = Some job"
| "phase_job (SavingText job _ _) = Some job"
| "phase_job (SavingChunks job _ _) = Some job"
| "phase_job (AssertingLease job _ _) = Some job"
| "phase_job (Completing job _ _) = Some job"
| "phase_job (ConflictedText job _) = Some job"
| "phase_job (ConflictedChunks job _) = Some job"
| "phase_job (Following job _) = Some job"
| "phase_job (Stopping job _ _) = Some job"
| "phase_job (CleaningText job _ _) = Some job"
| "phase_job (CleaningChunks job _ _) = Some job"
| "phase_job (Deciding job _ _) = Some job"
| "phase_job (Releasing job _ _ _) = Some job"
| "phase_job (Acknowledging job _ _) = Some job"
| "phase_job (Returned _) = None"
| "phase_job (Raised _) = None"

definition job_claimed where
  "job_claimed sv cfg tenant w st events job \<longleftrightarrow>
     (\<exists>before input after. events = before @ Turn input # after \<and>
        wk_phase (fst (run_schedule sv cfg tenant w before st)) = Starting \<and>
        fst (sv_claim sv tenant w (si_now input) (wc_leaseDurationMs cfg)
               (pi_queue (snd (run_schedule sv cfg tenant w before st)))) = Inr (Some job) \<and>
        wk_phase (fst (run_schedule sv cfg tenant w (before @ [Turn input]) st)) = ClaimedJob job)"

text \<open>
  The lease check of a job succeeded; a turn of the run on a job performed a guarded transition of the
  job's document to a status, under the token of the job.
\<close>

definition lease_checked where
  "lease_checked sv cfg tenant w st events j t \<longleftrightarrow>
     (\<exists>before input after. events = before @ Turn input # after \<and>
        fst (sv_assertLease sv tenant j w t (si_now input)
               (pi_queue (snd (run_schedule sv cfg tenant w before st)))) = Inr ())"

definition decided where
  "decided sv held cfg tenant w st events s job \<longleftrightarrow>
     (\<exists>before input after. events = before @ Turn input # after \<and>
        phase_job (wk_phase (fst (run_schedule sv cfg tenant w before st))) = Some job \<and>
        held tenant (pj_documentId job) w (pj_fencingToken job)
          (pi_metadata (snd (run_schedule sv cfg tenant w before st))) \<and>
        (\<exists>changes d. sv_transitionStatus sv tenant (pj_documentId job) [PROCESSING] s changes
              (Some (w, pj_fencingToken job)) (si_now input)
              (pi_metadata (snd (run_schedule sv cfg tenant w before st))) =
            (Inr (Some d), pi_metadata (snd (run_schedule sv cfg tenant w (before @ [Turn input]) st)))) \<and>
        (s = COMPLETED \<longrightarrow> lease_checked sv cfg tenant w st before (pj_id job) (pj_fencingToken job)))"

lemma lease_checked_snoc:
  "lease_checked sv cfg tenant w st events j t \<Longrightarrow> lease_checked sv cfg tenant w st (events @ [e]) j t"
  unfolding lease_checked_def by (elim exE conjE) (rule exI, rule exI, rule exI, auto)

lemma decided_snoc:
  "decided sv held cfg tenant w st events s job \<Longrightarrow> decided sv held cfg tenant w st (events @ [e]) s job"
  unfolding decided_def by (elim exE conjE) (rule exI, rule exI, rule exI, auto)

lemma job_claimed_extend:
  "job_claimed sv cfg tenant w st events job \<Longrightarrow> job_claimed sv cfg tenant w st (events @ later) job"
  unfolding job_claimed_def by (elim exE conjE) (rule exI, rule exI, rule exI, auto)

text \<open>The status a result stands for; a skipped job decided nothing.\<close>

fun outcome_status :: "outcome \<Rightarrow> document_status option" where
  "outcome_status RunCompleted = Some COMPLETED"
| "outcome_status RunRetryScheduled = Some QUEUED"
| "outcome_status RunFailed = Some FAILED"
| "outcome_status RunQuarantined = Some QUARANTINED"
| "outcome_status RunSkipped = None"

text \<open>What a phase stands on, given what was decided and which lease checks succeeded so far.\<close>

fun sound ::
  "(document_status \<Rightarrow> public_job \<Rightarrow> bool) \<Rightarrow> (string \<Rightarrow> int \<Rightarrow> bool) \<Rightarrow> 'c phase \<Rightarrow> bool" where
  "sound dec chk (Queueing job d) \<longleftrightarrow> doc_id d = pj_documentId job"
| "sound dec chk (ClaimingDocument job d) \<longleftrightarrow> doc_id d = pj_documentId job"
| "sound dec chk (ReadingOriginal job d) \<longleftrightarrow> doc_id d = pj_documentId job"
| "sound dec chk (SavingText job d _) \<longleftrightarrow> doc_id d = pj_documentId job"
| "sound dec chk (SavingChunks job d _) \<longleftrightarrow> doc_id d = pj_documentId job"
| "sound dec chk (AssertingLease job d _) \<longleftrightarrow> doc_id d = pj_documentId job"
| "sound dec chk (Completing job d _) \<longleftrightarrow>
     doc_id d = pj_documentId job \<and> chk (pj_id job) (pj_fencingToken job)"
| "sound dec chk (ConflictedText job d) \<longleftrightarrow> doc_id d = pj_documentId job"
| "sound dec chk (ConflictedChunks job d) \<longleftrightarrow> doc_id d = pj_documentId job"
| "sound dec chk (Following job d) \<longleftrightarrow> dec COMPLETED job"
| "sound dec chk (Stopping job d _) \<longleftrightarrow> doc_id d = pj_documentId job"
| "sound dec chk (CleaningText job d _) \<longleftrightarrow> doc_id d = pj_documentId job"
| "sound dec chk (CleaningChunks job d _) \<longleftrightarrow> doc_id d = pj_documentId job"
| "sound dec chk (Deciding job d _) \<longleftrightarrow> doc_id d = pj_documentId job"
| "sound dec chk (Releasing job d _ _) \<longleftrightarrow> dec QUEUED job"
| "sound dec chk (Acknowledging job oc _) \<longleftrightarrow>
     (\<forall>s. outcome_status oc = Some s \<longrightarrow> dec s job)"
| "sound dec chk (Returned (RunResult oc i j _)) \<longleftrightarrow>
     (\<forall>s. outcome_status oc = Some s \<longrightarrow>
       (\<exists>job. pj_documentId job = i \<and> pj_id job = j \<and> dec s job))"
| "sound dec chk _ \<longleftrightarrow> True"

lemma sound_mono:
  assumes "sound dec chk phase" "\<And>s job. dec s job \<Longrightarrow> dec' s job" "\<And>j t. chk j t \<Longrightarrow> chk' j t"
  shows "sound dec' chk' phase"
proof (cases phase)
  case (Returned r)
  with assms show ?thesis by (cases r) (simp_all, metis)
qed (use assms in auto)

lemma call_Inr:
  "fst (on_queue fault qcall sys) = Inr v \<Longrightarrow> fst (qcall (pi_queue sys)) = Inr v"
  "fst (on_metadata fault mcall sys) = Inr v' \<Longrightarrow> fst (mcall (pi_metadata sys)) = Inr v'"
  by (auto simp: on_queue_def on_metadata_def awaited_def split: prod.splits fault.splits sum.splits)

lemma metadata_done:
  "fst (on_metadata fault mcall sys) = Inr v \<Longrightarrow>
     mcall (pi_metadata sys) = (Inr v, pi_metadata (snd (on_metadata fault mcall sys)))"
  by (auto simp: on_metadata_def awaited_def split: prod.splits fault.splits sum.splits)

lemma snd_or_raise [simp]: "snd (or_raise call continue) = snd call"
  by (simp add: or_raise_def split: prod.split sum.split)

lemma snd_or_stop [simp]: "snd (or_stop job d call continue) = snd call"
  by (simp add: or_stop_def split: prod.split sum.split)

text \<open>A run works on the job its first turn has claimed, and on no other.\<close>

lemma main_step_job:
  assumes "phase_job (fst (main_step sv cfg tenant w lost renewing input phase sys)) = Some job"
  shows "phase_job phase = Some job \<or> phase = Starting \<and>
    fst (sv_claim sv tenant w (si_now input) (wc_leaseDurationMs cfg) (pi_queue sys)) = Inr (Some job) \<and>
    fst (main_step sv cfg tenant w lost renewing input phase sys) = ClaimedJob job"
  using assms
proof (cases phase)
  case Starting
  with assms call_Inr(1) [of "si_fault input" "sv_claim sv tenant w (si_now input) (wc_leaseDurationMs cfg)" sys "Some job"]
  show ?thesis
    by (auto simp: or_raise_def split: prod.splits sum.splits option.splits)
qed (use assms in \<open>auto simp: or_raise_def or_stop_def after_find_def skip_def extract_original_def finished_def
    after_decision_def Let_def split: sum.splits prod.splits option.splits retry_decision.splits if_splits\<close>)

lemma run_claimed:
  "phase_job (wk_phase (fst (run_schedule sv cfg tenant w events (new_worker, sys)))) = Some job \<Longrightarrow>
     job_claimed sv cfg tenant w (new_worker, sys) events job"
proof (induction events rule: rev_induct)
  case Nil
  then show ?case by (simp add: new_worker_def)
next
  case (snoc e events)
  obtain wk sys' where st: "run_schedule sv cfg tenant w events (new_worker, sys) = (wk, sys')"
    by (cases "run_schedule sv cfg tenant w events (new_worker, sys)")
  show ?case
  proof (cases e)
    case (Turn input)
    from main_step_job [of sv cfg tenant w "wk_lost wk" "wk_renewal wk \<noteq> None" input "wk_phase wk" sys' job] snoc.prems
    consider "phase_job (wk_phase wk) = Some job" | "wk_phase wk = Starting"
      "fst (sv_claim sv tenant w (si_now input) (wc_leaseDurationMs cfg) (pi_queue sys')) = Inr (Some job)"
      "fst (main_step sv cfg tenant w (wk_lost wk) (wk_renewal wk \<noteq> None) input (wk_phase wk) sys') = ClaimedJob job"
      by (auto simp: st Turn)
    then show ?thesis
    proof cases
      case 1
      with snoc.IH show ?thesis by (simp add: st job_claimed_extend)
    next
      case 2
      then show ?thesis
        unfolding job_claimed_def Turn
        by (intro exI [of _ events] exI [of _ input] exI [of _ "[]"]) (simp add: st)
    qed
  next
    case (Beat input)
    with snoc show ?thesis by (simp add: st job_claimed_extend)
  next
    case (Elsewhere f)
    with snoc show ?thesis by (simp add: st job_claimed_extend)
  qed
qed

lemma sound_or_raise:
  "(\<And>v. fst call = Inr v \<Longrightarrow> sound dec chk (continue v)) \<Longrightarrow> sound dec chk (fst (or_raise call continue))"
  by (auto simp: or_raise_def split: prod.split sum.split)

lemma sound_or_stop:
  "doc_id d = pj_documentId job \<Longrightarrow> (\<And>v. fst call = Inr v \<Longrightarrow> sound dec chk (continue v)) \<Longrightarrow>
     sound dec chk (fst (or_stop job d call continue))"
  by (auto simp: or_stop_def split: prod.split sum.split)

context fenced_services
begin

lemma main_step_sound:
  assumes sound: "sound dec chk phase"
    and chk: "\<And>j t. fst (sv_assertLease sv tenant j w t (si_now input) (pi_queue sys)) = Inr () \<Longrightarrow> chk' j t"
    and dec: "\<And>s job changes d. phase_job phase = Some job \<Longrightarrow>
      held tenant (pj_documentId job) w (pj_fencingToken job) (pi_metadata sys) \<Longrightarrow>
      (s = COMPLETED \<Longrightarrow> chk (pj_id job) (pj_fencingToken job)) \<Longrightarrow>
      sv_transitionStatus sv tenant (pj_documentId job) [PROCESSING] s changes
        (Some (w, pj_fencingToken job)) (si_now input) (pi_metadata sys) =
      (Inr (Some d), pi_metadata (snd (main_step sv cfg tenant w lost renewing input phase sys))) \<Longrightarrow> dec' s job"
    and mono: "\<And>s job. dec s job \<Longrightarrow> dec' s job" "\<And>j t. chk j t \<Longrightarrow> chk' j t"
  shows "sound dec' chk' (fst (main_step sv cfg tenant w lost renewing input phase sys))"
proof -
  have old: "sound dec' chk' phase" by (rule sound_mono [OF sound]) (use mono in blast)+
  have accepted: "dec' s job" if "phase_job phase = Some job"
      "sv_transitionStatus sv tenant (pj_documentId job) [PROCESSING] s changes
        (Some (w, pj_fencingToken job)) (si_now input) (pi_metadata sys) = (Inr (Some d), m)"
      "m = pi_metadata (snd (main_step sv cfg tenant w lost renewing input phase sys))"
      "s = COMPLETED \<Longrightarrow> chk (pj_id job) (pj_fencingToken job)" for s job changes d m
  proof (rule dec [OF that(1) _ that(4)])
    show "held tenant (pj_documentId job) w (pj_fencingToken job) (pi_metadata sys)"
      by (rule accepted_held [of tenant _ s changes w _ "si_now input" _ d]) (simp add: that(2))
    show "sv_transitionStatus sv tenant (pj_documentId job) [PROCESSING] s changes
        (Some (w, pj_fencingToken job)) (si_now input) (pi_metadata sys) =
      (Inr (Some d), pi_metadata (snd (main_step sv cfg tenant w lost renewing input phase sys)))"
      using that(2,3) by simp
  qed
  show ?thesis
  proof (cases phase)
    case Starting
    then show ?thesis by (auto intro!: sound_or_raise split: option.split)
  next
    case (ClaimedJob job)
    then show ?thesis
      by (auto simp: after_find_def skip_def dest!: call_Inr found_id intro!: sound_or_raise split: option.split)
  next
    case (Queueing job d)
    with sound show ?thesis
      by (auto simp: skip_def dest!: call_Inr accepted_id intro!: sound_or_raise split: option.split)
  next
    case (ClaimingDocument job d)
    with sound show ?thesis
      by (auto simp: skip_def dest!: call_Inr accepted_id intro!: sound_or_raise split: option.split)
  next
    case (ReadingOriginal job d)
    with sound show ?thesis
      by (auto simp: extract_original_def intro!: sound_or_stop split: option.split sum.split)
  next
    case (AssertingLease job d ex)
    with sound show ?thesis by (auto dest!: call_Inr intro: chk intro!: sound_or_stop)
  next
    case (Completing job d ex)
    with sound show ?thesis
      by (auto simp: leaseGuard_def dest!: metadata_done intro!: sound_or_stop split: option.split)
        (rule accepted, simp, assumption, simp add: leaseGuard_def, simp)
  next
    case (Deciding job d t)
    with sound show ?thesis
      by (auto simp: Let_def final_outcome_def decided_transition_def after_decision_def leaseGuard_def dest!: metadata_done
          intro!: sound_or_raise split: option.split sum.split retry_decision.split)
        (rule accepted, simp, assumption, simp add: Let_def decided_transition_def final_outcome_def leaseGuard_def, simp)+
  next
    case (Following job d)
    with old show ?thesis by auto
  next
    case (Releasing job d e n)
    with old show ?thesis by (auto simp: finished_def intro!: sound_or_raise)
  next
    case (Acknowledging job oc e)
    with old show ?thesis
      by (auto simp: finished_def intro!: sound_or_raise) blast
  next
    case (Returned r)
    with old show ?thesis by simp
  next
    case (Raised t)
    then show ?thesis by simp
  qed (use sound in \<open>auto simp: Let_def intro!: sound_or_stop split: prod.split sum.split\<close>)
qed

lemma schedule_sound:
  "sound (decided sv held cfg tenant w (new_worker, sys) events)
     (lease_checked sv cfg tenant w (new_worker, sys) events)
     (wk_phase (fst (run_schedule sv cfg tenant w events (new_worker, sys))))"
proof (induction events rule: rev_induct)
  case Nil
  then show ?case by (simp add: new_worker_def)
next
  case (snoc e events)
  let ?st = "run_schedule sv cfg tenant w events (new_worker, sys)"
  let ?dec = "decided sv held cfg tenant w (new_worker, sys)"
  let ?chk = "lease_checked sv cfg tenant w (new_worker, sys)"
  obtain wk sys' where st: "?st = (wk, sys')" by (cases ?st)
  show ?case
  proof (cases e)
    case (Turn input)
    have "sound (?dec (events @ [e])) (?chk (events @ [e]))
        (fst (main_step sv cfg tenant w (wk_lost wk) (wk_renewal wk \<noteq> None) input (wk_phase wk) sys'))"
    proof (rule main_step_sound)
      show "sound (?dec events) (?chk events) (wk_phase wk)" using snoc.IH by (simp add: st)
    next
      fix j t assume "fst (sv_assertLease sv tenant j w t (si_now input) (pi_queue sys')) = Inr ()"
      then show "?chk (events @ [e]) j t"
        unfolding lease_checked_def Turn
        by (intro exI [of _ events] exI [of _ input] exI [of _ "[]"]) (simp add: st)
    next
      fix s job changes d
      assume "phase_job (wk_phase wk) = Some job" "held tenant (pj_documentId job) w (pj_fencingToken job) (pi_metadata sys')"
        "s = COMPLETED \<Longrightarrow> ?chk events (pj_id job) (pj_fencingToken job)"
        "sv_transitionStatus sv tenant (pj_documentId job) [PROCESSING] s changes
          (Some (w, pj_fencingToken job)) (si_now input) (pi_metadata sys') =
        (Inr (Some d), pi_metadata (snd (main_step sv cfg tenant w (wk_lost wk) (wk_renewal wk \<noteq> None) input (wk_phase wk) sys')))"
      then show "?dec (events @ [e]) s job"
        unfolding decided_def Turn
        by (intro exI [of _ events] exI [of _ input] exI [of _ "[]"]) (auto simp: st)
    qed (rule decided_snoc lease_checked_snoc; assumption)+
    then show ?thesis by (simp add: st Turn)
  next
    case (Beat input)
    then show ?thesis using sound_mono [OF snoc.IH decided_snoc lease_checked_snoc] by (simp add: st)
  next
    case (Elsewhere f)
    then show ?thesis using sound_mono [OF snoc.IH decided_snoc lease_checked_snoc] by (simp add: st)
  qed
qed

lemma result_decided:
  assumes "run_schedule sv cfg tenant w events (new_worker, sys) = (wk, sys')"
    and "wk_phase wk = Returned (RunResult oc i j e)" "outcome_status oc = Some s"
  shows "\<exists>job. pj_documentId job = i \<and> pj_id job = j \<and> job_claimed sv cfg tenant w (new_worker, sys) events job \<and>
    decided sv held cfg tenant w (new_worker, sys) events s job"
proof -
  from schedule_sound [of cfg tenant w sys events] assms obtain job where job: "pj_documentId job = i" "pj_id job = j"
    and d: "decided sv held cfg tenant w (new_worker, sys) events s job" by auto
  from d obtain before turn after where "events = before @ Turn turn # after"
    "phase_job (wk_phase (fst (run_schedule sv cfg tenant w before (new_worker, sys)))) = Some job"
    by (auto simp: decided_def)
  with run_claimed job_claimed_extend have "job_claimed sv cfg tenant w (new_worker, sys) events job" by blast
  with job d show ?thesis by blast
qed

end

section \<open>The services of the program\<close>

definition processed_by :: "string \<Rightarrow> int \<Rightarrow> 'd document_fields \<Rightarrow> bool" where
  "processed_by w t d \<longleftrightarrow>
     doc_status d = PROCESSING \<and> doc_workerId d = Some w \<and> doc_processingFencingToken d = t"

definition pg_held :: "document_tenant \<Rightarrow> string \<Rightarrow> string \<Rightarrow> int \<Rightarrow> document_db \<Rightarrow> bool" where
  "pg_held tenant i w t db \<longleftrightarrow>
     (\<exists>r \<in> set (md_rows db). live_row (dt_companyId tenant) i r \<and> processed_by w t r)"

definition file_held :: "document_tenant \<Rightarrow> string \<Rightarrow> string \<Rightarrow> int \<Rightarrow> metadata_files \<Rightarrow> bool" where
  "file_held tenant i w t files \<longleftrightarrow>
     (case fst (local_read True tenant files) of
        Inl _ \<Rightarrow> False
      | Inr documents \<Rightarrow> \<exists>d \<in> set documents. visible i d \<and> processed_by w t d)"

lemma mapped_row:
  "mapped (List.find p rows) = Inr (Some d) \<Longrightarrow> \<exists>r \<in> set rows. p r \<and> doc_id d = doc_id r"
  by (auto simp: mapped_def mapDatabaseDocument_def row_document_def map_document_def Let_def find_Some_iff
      split: option.splits)

lemma pg_find_id: "pg_findById tenant i db = Inr (Some d) \<Longrightarrow> doc_id d = i"
  by (auto simp: pg_findById_def find_row_def live_row_def of_key_def dest!: mapped_row split: option.splits)

lemma then_find_Inr:
  "fst (then_find reading tenant i statement) = Inr (Some d) \<Longrightarrow>
     \<exists>count db. statement = (Inr count, db) \<and> count \<noteq> 0 \<and> reading tenant i db = Inr (Some d)"
  by (auto simp: then_find_def split: prod.splits sum.splits if_splits)

lemma pg_transition_accepted:
  assumes "fst (pg_transitionStatus tenant i expected s changes lease now db) = Inr (Some d)"
  shows "doc_id d = i"
    and "\<exists>r \<in> set (md_rows db). live_row (dt_companyId tenant) i r \<and> doc_status r \<in> set expected \<and>
      guard_holds lease r"
  using assms
  by (auto simp: pg_transitionStatus_def transition_statement_def update_many_def count_where_def
      filter_empty_conv dest!: then_find_Inr pg_find_id split: option.splits sum.splits)

lemma pg_accepted_held:
  "fst (pg_transitionStatus tenant i [PROCESSING] s changes (Some (w, t)) now db) = Inr (Some d) \<Longrightarrow>
     pg_held tenant i w t db"
  by (drule pg_transition_accepted(2)) (auto simp: pg_held_def processed_by_def guard_holds_def)

interpretation production: fenced_services "production_services hash text_bytes chunk_bytes" pg_held
  by unfold_locales
    (simp_all add: production_services_def pg_find_id pg_transition_accepted(1) pg_accepted_held)

lemma local_find_id: "fst (local_findById persist tenant i files) = Inr (Some d) \<Longrightarrow> doc_id d = i"
  by (auto simp: local_findById_def local_query_def visible_def find_Some_iff split: prod.splits sum.splits)

lemma write_at_Inr: "write_at i d documents = Inr (Some (d', documents')) \<Longrightarrow> d' = d"
  by (simp add: write_at_def split: option.splits)

lemma local_transition_accepted:
  assumes "fst (local_transitionStatus persist tenant i expected s changes lease now files) = Inr (Some d)"
  shows "\<exists>documents. fst (local_read persist tenant files) = Inr documents \<and>
    (\<exists>r \<in> set documents. visible i r \<and> doc_status r \<in> set expected \<and> guard_holds lease r \<and>
       doc_id d = doc_id r)"
  using assms
  by (force simp: local_transitionStatus_def local_update_with_def transition_plan_def updated_document_def
      dest!: index_whereD write_at_Inr split: option.splits prod.splits sum.splits)

lemma file_accepted_held:
  "fst (local_transitionStatus True tenant i [PROCESSING] s changes (Some (w, t)) now files) = Inr (Some d) \<Longrightarrow>
     file_held tenant i w t files"
  by (drule local_transition_accepted) (auto simp: file_held_def processed_by_def guard_holds_def)

lemma file_accepted_id:
  "fst (local_transitionStatus True tenant i expected s changes lease now files) = Inr (Some d) \<Longrightarrow> doc_id d = i"
  by (drule local_transition_accepted) (auto simp: visible_def)

interpretation development: fenced_services "local_services hash text_bytes chunk_bytes" file_held
  by unfold_locales (simp_all add: local_services_def local_find_id file_accepted_held file_accepted_id)

text \<open>The key of the document queue of a company, and what a successful lease check finds there.\<close>

abbreviation document_queue :: "document_tenant \<Rightarrow> string" where
  "document_queue tenant \<equiv> queue_prefix ''document-processing'' tenant"

lemma checked_lease:
  assumes "fst (redis_document_assertLease tenant j w (Some t) now db) = Inr ()"
  shows "\<exists>v. redis_queue_view (document_queue tenant) db j = Some v \<and> held_by w t v \<and> alive_at now v"
proof -
  from assms obtain h where "lease_owner j w t now (db (document_queue tenant)) = Inr h"
    by (auto simp: redis_document_assertLease_def redis_assertOwnedLease_def guarded_def assertLeaseScript_def
        default_token_def Let_def split: option.splits sum.splits prod.splits)
  from lease_ownerD(5-7) [OF this] show ?thesis by (simp add: redis_queue_view_def)
qed

text \<open>
  C33. What a run of the production worker reports, it was entitled to. When a run ends with
  COMPLETED, RETRY_SCHEDULED, FAILED or QUARANTINED, in any schedule and whatever the rest of the
  system did meanwhile, it reports on the job it has claimed from the queue: a turn of the run moved
  the document of that job from PROCESSING to the reported status, guarded by the fencing token of
  that job, and the document was then being processed by this worker under that very token; before a
  completion the lease of the job in Redis belonged to this worker, with that token, and was alive.
\<close>

theorem worker_result_fenced:
  fixes hash text_bytes chunk_bytes
  defines "sv \<equiv> production_services hash text_bytes chunk_bytes"
  assumes "run_schedule sv cfg tenant w events (new_worker, sys) = (wk, sys')"
    and "wk_phase wk = Returned (RunResult oc i j e)" "outcome_status oc = Some s"
  shows "\<exists>job. pj_documentId job = i \<and> pj_id job = j \<and>
    job_claimed sv cfg tenant w (new_worker, sys) events job \<and>
    decided sv pg_held cfg tenant w (new_worker, sys) events s job \<and>
    (s = COMPLETED \<longrightarrow> (\<exists>before input after v. events = before @ Turn input # after \<and>
       redis_queue_view (document_queue tenant)
         (pi_queue (snd (run_schedule sv cfg tenant w before (new_worker, sys)))) j = Some v \<and>
       held_by w (pj_fencingToken job) v \<and> alive_at (si_now input) v))"
proof -
  obtain job where job: "pj_documentId job = i" "pj_id job = j"
    "job_claimed sv cfg tenant w (new_worker, sys) events job"
    and t: "decided sv pg_held cfg tenant w (new_worker, sys) events s job"
    using production.result_decided [OF assms(2-4) [unfolded sv_def]] by (auto simp: sv_def)
  have "\<exists>before input after v. events = before @ Turn input # after \<and>
       redis_queue_view (document_queue tenant)
         (pi_queue (snd (run_schedule sv cfg tenant w before (new_worker, sys)))) j = Some v \<and>
       held_by w (pj_fencingToken job) v \<and> alive_at (si_now input) v" if "s = COMPLETED"
  proof -
    from t that obtain before turn after where es: "events = before @ Turn turn # after"
      and l: "lease_checked sv cfg tenant w (new_worker, sys) before j (pj_fencingToken job)"
      by (auto simp: decided_def job(2))
    from l obtain first input rest where f: "before = first @ Turn input # rest"
      "fst (sv_assertLease sv tenant j w (pj_fencingToken job) (si_now input)
        (pi_queue (snd (run_schedule sv cfg tenant w first (new_worker, sys))))) = Inr ()"
      by (auto simp: lease_checked_def)
    have "events = first @ Turn input # rest @ Turn turn # after" using es f(1) by simp
    with checked_lease [OF f(2) [unfolded sv_def production_services_def services.simps]]
    show ?thesis by (intro exI [of _ first] exI [of _ input] exI [of _ "rest @ Turn turn # after"])
        (simp add: sv_def production_services_def)
  qed
  with job t show ?thesis by blast
qed

section \<open>Two workers\<close>

definition worker_db :: "(redis_db, document_db, string) pipeline" where
  "worker_db =
     \<lparr>pi_queue = redis_step (RedisEnqueue ''document-processing'' home_tenant ''doc-1'' ''job-1'' ''corr-1'' 1000)
        (\<lambda>_. empty_queue),
      pi_metadata = uploaded_db,
      pi_objects = [createDocumentObjectKey home_tenant OriginalObject ''doc-1-a.pdf'' \<mapsto> ''original'']\<rparr>"

definition sample_services :: "(redis_db, document_db, string, string) services" where
  "sample_services = production_services (\<lambda>_. replicate 64 CHR ''0'') id concat"

definition sample_config :: worker_config where
  "sample_config = \<lparr>wc_leaseDurationMs = Some 1000, wc_heartbeatIntervalMs = None, wc_workerVersion = None,
     wc_deploymentGeneration = None, wc_retryPolicy = DEFAULT_DOCUMENT_RETRY_POLICY\<rparr>"

definition extracting :: "ms \<Rightarrow> (string, string) step_input" where
  "extracting now = \<lparr>si_now = now, si_fault = NoFault,
     si_extract = (\<lambda>d b. Inr \<lparr>ex_text = ''text'', ex_chunks = [''text''], ex_chunksCount = 1,
                               ex_findings = PagesOnly (Some 1)\<rparr>)\<rparr>"

definition turns_at :: "nat \<Rightarrow> ms \<Rightarrow> (redis_db, document_db, string, string) event list" where
  "turns_at n now = replicate n (Turn (extracting now))"

definition sample_run where
  "sample_run w events st = run_schedule sample_services sample_config home_tenant w events st"

lemma sample_completes:
  "wk_phase (fst (sample_run ''worker-1'' (turns_at 12 2000) (new_worker, worker_db))) =
     Returned (RunResult RunCompleted ''doc-1'' ''job-1'' None)"
  by code_simp

theorem worker_result_fenced_witness:
  "\<exists>(job :: public_job) v before input after. turns_at 12 2000 = before @ Turn input # after \<and>
     pj_id job = ''job-1'' \<and> pj_documentId job = ''doc-1'' \<and>
     redis_queue_view (document_queue home_tenant)
       (pi_queue (snd (sample_run ''worker-1'' before (new_worker, worker_db)))) ''job-1'' = Some v \<and>
     held_by ''worker-1'' (pj_fencingToken job) v \<and> alive_at (si_now input) v"
proof -
  let ?st = "sample_run ''worker-1'' (turns_at 12 2000) (new_worker, worker_db)"
  have "run_schedule (production_services (\<lambda>_. replicate 64 CHR ''0'') id concat) sample_config home_tenant
      ''worker-1'' (turns_at 12 2000) (new_worker, worker_db) = (fst ?st, snd ?st)"
    by (simp add: sample_run_def sample_services_def)
  from worker_result_fenced [OF this sample_completes outcome_status.simps(1),
      folded sample_services_def, folded sample_run_def]
  obtain job :: public_job where "pj_id job = ''job-1''" "pj_documentId job = ''doc-1''"
    "\<exists>before input after v. turns_at 12 2000 = before @ Turn input # after \<and>
       redis_queue_view (document_queue home_tenant)
         (pi_queue (snd (sample_run ''worker-1'' before (new_worker, worker_db)))) ''job-1'' = Some v \<and>
       held_by ''worker-1'' (pj_fencingToken job) v \<and> alive_at (si_now input) v"
    by blast
  then show ?thesis by blast
qed

text \<open>
  The handler of a failure deletes the derivatives without asking whether the document is still
  its own. Here the lease of worker-1 expires while it extracts; worker-2 takes the job over,
  completes the document and its job; then worker-1 goes on, is refused by the lease check, and
  deletes the text and the chunks of the completed document.
\<close>

definition second_worker :: "(redis_db, document_db, string, string) event" where
  "second_worker = Elsewhere (\<lambda>sys. snd (sample_run ''worker-2'' (turns_at 10 4000) (new_worker, sys)))"

definition stale_schedule :: "(redis_db, document_db, string, string) event list" where
  "stale_schedule = turns_at 5 2000 @ [second_worker]"

definition document_seen where
  "document_seen sys =
     (map (\<lambda>r. (doc_status r, doc_textLength r)) (md_rows (pi_metadata sys)),
      map (\<lambda>(kind, key). pi_objects sys (createDocumentObjectKey home_tenant kind key))
        [(TextObject, ''doc-1.txt''), (ChunksObject, ''doc-1.json'')])"

theorem stale_worker_deletes_derivatives:
  "document_seen (snd (sample_run ''worker-1'' stale_schedule (new_worker, worker_db))) =
     ([(COMPLETED, Some 4)], [Some ''text'', Some ''text'']) \<and>
   document_seen (snd (sample_run ''worker-1'' (stale_schedule @ turns_at 6 5000) (new_worker, worker_db))) =
     ([(COMPLETED, Some 4)], [None, None])"
  by code_simp

end
