(* ===== verification/WorkItems.thy ===== *)
theory WorkItems
  imports LeaseQueue "HOL-Library.Product_Lexorder"
begin

text \<open>
  Leased work items. The tables \<open>NotificationOutbox\<close>, \<open>JiraOperation\<close> and \<open>JiraInboundEvent\<close> share
  their columns of status, attempts and lease and the SQL that claims a batch of them
  (\<open>lib/notification-outbox.ts\<close>, \<open>lib/jira-outbox.ts\<close>, \<open>lib/jira-inbound.ts\<close>). The theory holds these
  columns and statements, the abstract life of an item, and the contract \<open>leased_table\<close> with what
  follows from it: bounded attempts, one settlement for each claim, and exclusive live leases.
\<close>

section \<open>The shared columns\<close>

text \<open>The states of the three tables; each has the first four and its own final ones.\<close>

datatype work_status = PENDING | PROCESSING | FAILED | DEAD_LETTER | DELIVERED | COMPLETED | IGNORED

record work_item =
  wi_id :: string
  wi_status :: work_status
  wi_attempts :: int
  wi_maxAttempts :: int
  wi_nextAttemptAt :: ms
  wi_leaseToken :: "string option"
  wi_leaseUntil :: "ms option"
  wi_lastFailureCode :: "string option"
  wi_correlationId :: string
  wi_createdAt :: ms
  wi_updatedAt :: ms

definition terminal_statuses :: "work_status set" where
  "terminal_statuses = {DELIVERED, COMPLETED, IGNORED}"

definition until_passed :: "ms \<Rightarrow> 'a work_item_scheme \<Rightarrow> bool" where
  "until_passed now i \<longleftrightarrow> (case wi_leaseUntil i of None \<Rightarrow> False | Some t \<Rightarrow> t \<le> now)"

section \<open>Claiming a batch\<close>

text \<open>The first statement gives up the items whose last attempt lost its lease.\<close>

definition lease_exhausted :: "ms \<Rightarrow> 'a work_item_scheme \<Rightarrow> bool" where
  "lease_exhausted now i \<longleftrightarrow>
     wi_status i = PROCESSING \<and> until_passed now i \<and> wi_maxAttempts i \<le> wi_attempts i"

definition give_up :: "string \<Rightarrow> ms \<Rightarrow> 'a work_item_scheme \<Rightarrow> 'a work_item_scheme" where
  "give_up failure now i =
     i\<lparr>wi_status := DEAD_LETTER, wi_lastFailureCode := Some failure, wi_leaseToken := None,
       wi_leaseUntil := None, wi_updatedAt := now\<rparr>"

text \<open>The second takes the first of the due ones that no other transaction holds locked.\<close>

definition candidate :: "ms \<Rightarrow> 'a work_item_scheme \<Rightarrow> bool" where
  "candidate now i \<longleftrightarrow>
     wi_attempts i < wi_maxAttempts i \<and>
     (wi_status i \<in> {PENDING, FAILED} \<and> wi_nextAttemptAt i \<le> now \<or>
      wi_status i = PROCESSING \<and> until_passed now i)"

definition candidates ::
  "('a work_item_scheme \<Rightarrow> bool) \<Rightarrow> ('a work_item_scheme \<Rightarrow> 'o::linorder) \<Rightarrow> string list \<Rightarrow> int \<Rightarrow> ms \<Rightarrow>
     'a work_item_scheme list \<Rightarrow> string list" where
  "candidates wanted order locked batchSize now items =
     map wi_id (take (nat batchSize) (filter (\<lambda>i. \<not> contains locked (wi_id i))
       (sort_key order (filter (\<lambda>i. wanted i \<and> candidate now i) items))))"

definition take_lease :: "string \<Rightarrow> ms \<Rightarrow> ms \<Rightarrow> 'a work_item_scheme \<Rightarrow> 'a work_item_scheme" where
  "take_lease token until now i =
     i\<lparr>wi_status := PROCESSING, wi_attempts := wi_attempts i + 1, wi_leaseToken := Some token,
       wi_leaseUntil := Some until, wi_lastFailureCode := None, wi_updatedAt := now\<rparr>"

text \<open>Both statements in one transaction; the result is the claimed rows.\<close>

definition claim_rows ::
  "string \<Rightarrow> ('a work_item_scheme \<Rightarrow> bool) \<Rightarrow> ('a work_item_scheme \<Rightarrow> 'o::linorder) \<Rightarrow> string list \<Rightarrow>
     string \<Rightarrow> int \<Rightarrow> int \<Rightarrow> ms \<Rightarrow> 'a work_item_scheme list \<Rightarrow>
     'a work_item_scheme list \<times> 'a work_item_scheme list" where
  "claim_rows failure wanted order locked token batchSize leaseMs now items =
     (let items1 = update_where (lease_exhausted now) (give_up failure now) items;
          ids = candidates wanted order locked batchSize now items1;
          items2 = update_where (\<lambda>i. contains ids (wi_id i)) (take_lease token (now + leaseMs) now) items1
      in (filter (\<lambda>i. contains ids (wi_id i)) items2, items2))"

text \<open>The condition under which a claimed record is settled: \<open>status: 'PROCESSING', leaseToken\<close>.\<close>

definition lease_held :: "string \<Rightarrow> string \<Rightarrow> 'a work_item_scheme \<Rightarrow> bool" where
  "lease_held itemId token i \<longleftrightarrow>
     wi_id i = itemId \<and> wi_status i = PROCESSING \<and> wi_leaseToken i = Some token"

definition backoff_ms :: "'e \<Rightarrow> int \<Rightarrow> 'e + int" where
  "backoff_ms invalid attempt =
     (if \<not> safe_integer attempt \<or> attempt < 1 \<or> 20 < attempt then Inl invalid
      else Inr (min 300000 (1000 * 2 ^ nat (attempt - 1))))"

definition batch_error :: "'e \<Rightarrow> 'e \<Rightarrow> int \<Rightarrow> int \<Rightarrow> 'e option" where
  "batch_error badSize badLease batchSize leaseMs = first_error
     [demand (safe_integer batchSize \<and> 1 \<le> batchSize \<and> batchSize \<le> 100) badSize,
      demand (safe_integer leaseMs \<and> 1000 \<le> leaseMs \<and> leaseMs \<le> 600000) badLease]"

section \<open>The life of an item\<close>

datatype item_event =
    Untouched
  | ItemCreated
  | ItemClaimed string
  | ItemSettled string
  | GivenUp
  | Revived
  | Buried
  | Erased

text \<open>
  An accepted delivery keeps its item in \<open>PROCESSING\<close> without a token until it is asked for again;
  a settled one is finished, failed, or a dead letter.
\<close>

definition unleased :: "work_item \<Rightarrow> bool" where
  "unleased y \<longleftrightarrow> wi_leaseToken y = None \<and> wi_leaseUntil y = None"

definition same_work :: "work_item \<Rightarrow> work_item \<Rightarrow> bool" where
  "same_work x y \<longleftrightarrow> wi_id y = wi_id x \<and> wi_maxAttempts y = wi_maxAttempts x"

inductive item_move :: "ms \<Rightarrow> item_event \<Rightarrow> work_item option \<Rightarrow> work_item option \<Rightarrow> bool" where
  untouched: "item_move now Untouched x x"
| created: "wi_status y = PENDING \<Longrightarrow> wi_attempts y = 0 \<Longrightarrow> 1 \<le> wi_maxAttempts y \<Longrightarrow> unleased y \<Longrightarrow>
    item_move now ItemCreated None (Some y)"
| claimed: "candidate now x \<Longrightarrow> same_work x y \<Longrightarrow> wi_status y = PROCESSING \<Longrightarrow>
    wi_attempts y = wi_attempts x + 1 \<Longrightarrow> wi_leaseToken y = Some t \<Longrightarrow> wi_leaseUntil y = Some u \<Longrightarrow>
    now < u \<Longrightarrow> item_move now (ItemClaimed t) (Some x) (Some y)"
| settled: "wi_status x = PROCESSING \<Longrightarrow> wi_leaseToken x = Some t \<Longrightarrow> same_work x y \<Longrightarrow>
    wi_attempts y = wi_attempts x \<Longrightarrow> unleased y \<Longrightarrow>
    wi_status y \<in> terminal_statuses \<or> wi_status y = DEAD_LETTER \<or>
      wi_status y = FAILED \<and> wi_attempts y < wi_maxAttempts y \<Longrightarrow>
    item_move now (ItemSettled t) (Some x) (Some y)"
| accepted: "wi_status x = PROCESSING \<Longrightarrow> wi_leaseToken x = Some t \<Longrightarrow> same_work x y \<Longrightarrow>
    wi_attempts y = wi_attempts x \<Longrightarrow> wi_status y = PROCESSING \<Longrightarrow> wi_leaseToken y = None \<Longrightarrow>
    wi_leaseUntil y = Some u \<Longrightarrow> item_move now (ItemSettled t) (Some x) (Some y)"
| given_up: "lease_exhausted now x \<Longrightarrow> same_work x y \<Longrightarrow> wi_attempts y = wi_attempts x \<Longrightarrow>
    unleased y \<Longrightarrow> wi_status y = DEAD_LETTER \<Longrightarrow> item_move now GivenUp (Some x) (Some y)"
| revived: "wi_status x \<in> {FAILED, DEAD_LETTER} \<Longrightarrow> same_work x y \<Longrightarrow> wi_attempts y = 0 \<Longrightarrow>
    unleased y \<Longrightarrow> wi_status y = PENDING \<Longrightarrow> item_move now Revived (Some x) (Some y)"
| buried: "wi_status x = FAILED \<Longrightarrow> same_work x y \<Longrightarrow> wi_attempts y = wi_attempts x \<Longrightarrow>
    unleased y \<Longrightarrow> wi_status y = DEAD_LETTER \<Longrightarrow> item_move now Buried (Some x) (Some y)"
| erased: "wi_status x \<in> terminal_statuses \<union> {DEAD_LETTER} \<Longrightarrow> item_move now Erased (Some x) None"

inductive_simps item_move_simps:
  "item_move now Untouched x y" "item_move now ItemCreated x y" "item_move now (ItemClaimed t) x y"
  "item_move now (ItemSettled t) x y" "item_move now GivenUp x y" "item_move now Revived x y"
  "item_move now Buried x y" "item_move now Erased x y"

text \<open>What holds of every item: attempts stay in their bounds, and no item is stuck.\<close>

definition item_ok :: "work_item \<Rightarrow> bool" where
  "item_ok x \<longleftrightarrow> 0 \<le> wi_attempts x \<and> wi_attempts x \<le> wi_maxAttempts x \<and> 1 \<le> wi_maxAttempts x \<and>
     (wi_status x = PROCESSING \<longleftrightarrow> wi_leaseUntil x \<noteq> None) \<and>
     (wi_leaseToken x \<noteq> None \<longrightarrow> wi_status x = PROCESSING) \<and>
     (wi_status x \<in> {PENDING, FAILED} \<longrightarrow> wi_attempts x < wi_maxAttempts x)"

lemma item_move_ok:
  "item_move now e x y \<Longrightarrow> (\<forall>i. x = Some i \<longrightarrow> item_ok i) \<Longrightarrow> (\<forall>i. y = Some i \<longrightarrow> item_ok i)"
  by (cases rule: item_move.cases)
    (auto simp: item_ok_def candidate_def lease_exhausted_def same_work_def unleased_def terminal_statuses_def)

lemma terminal_stays:
  "item_move now e (Some x) y \<Longrightarrow> wi_status x \<in> terminal_statuses \<Longrightarrow> y = Some x \<or> e = Erased \<and> y = None"
  by (cases rule: item_move.cases) (auto simp: terminal_statuses_def candidate_def lease_exhausted_def)

section \<open>The contract of a table\<close>

text \<open>What happens to one item during a run.\<close>

primrec item_trace ::
  "('op \<Rightarrow> ms) \<Rightarrow> ('op \<Rightarrow> 's \<Rightarrow> item_event) \<Rightarrow> ('op \<Rightarrow> 's \<Rightarrow> 's) \<Rightarrow> 'op list \<Rightarrow> 's \<Rightarrow>
     (ms \<times> item_event) list" where
  "item_trace clock event step [] s = []"
| "item_trace clock event step (op # ops) s =
     (clock op, event op s) # item_trace clock event step ops (step op s)"

fun claims_in :: "(ms \<times> item_event) list \<Rightarrow> nat" where
  "claims_in [] = 0"
| "claims_in ((t, ItemClaimed k) # es) = Suc (claims_in es)"
| "claims_in (_ # es) = claims_in es"

text \<open>
  \<open>ok\<close> is the invariant of the table, \<open>fresh\<close> what an operation needs of the identifiers drawn for it,
  \<open>item\<close> the shared columns of a row, \<open>used\<close> the lease tokens drawn so far.
\<close>

locale leased_table =
  fixes ok :: "'s \<Rightarrow> bool"
    and fresh :: "'op \<Rightarrow> 's \<Rightarrow> bool"
    and item :: "'s \<Rightarrow> string \<Rightarrow> work_item option"
    and used :: "'s \<Rightarrow> string set"
    and clock :: "'op \<Rightarrow> ms"
    and event :: "string \<Rightarrow> 'op \<Rightarrow> 's \<Rightarrow> item_event"
    and step :: "'op \<Rightarrow> 's \<Rightarrow> 's"
  assumes step_ok: "ok s \<Longrightarrow> fresh op s \<Longrightarrow> ok (step op s)"
    and step_moves: "ok s \<Longrightarrow> fresh op s \<Longrightarrow>
      item_move (clock op) (event i op s) (item s i) (item (step op s) i)"
    and items_ok: "ok s \<Longrightarrow> item s i = Some x \<Longrightarrow> item_ok x"
    and tokens_used: "ok s \<Longrightarrow> item s i = Some x \<Longrightarrow> wi_leaseToken x = Some t \<Longrightarrow> t \<in> used s"
    and used_grows: "ok s \<Longrightarrow> fresh op s \<Longrightarrow> used s \<subseteq> used (step op s)"
    and claim_draws: "ok s \<Longrightarrow> fresh op s \<Longrightarrow> event i op s = ItemClaimed t \<Longrightarrow> t \<notin> used s"
begin

abbreviation run where "run \<equiv> queue_run step"
abbreviation trace where "trace i \<equiv> item_trace clock (event i) step"

lemma run_ok: "ok s \<Longrightarrow> fresh_run fresh step ops s \<Longrightarrow> ok (run ops s)"
  by (induction ops arbitrary: s) (auto intro: step_ok)

lemma run_used: "ok s \<Longrightarrow> fresh_run fresh step ops s \<Longrightarrow> used s \<subseteq> used (run ops s)"
  by (induction ops arbitrary: s) (use step_ok used_grows in \<open>auto, blast\<close>)

lemma run_items_ok: "ok s \<Longrightarrow> fresh_run fresh step ops s \<Longrightarrow> item (run ops s) i = Some x \<Longrightarrow> item_ok x"
  by (rule items_ok [OF run_ok])

lemma run_terminal:
  assumes "ok s" "fresh_run fresh step ops s" "item s i = Some x" "wi_status x \<in> terminal_statuses"
    and "Erased \<notin> snd ` set (trace i ops s)"
  shows "item (run ops s) i = Some x"
  using assms
proof (induction ops arbitrary: s)
  case (Cons op ops)
  have f: "fresh op s" "fresh_run fresh step ops (step op s)" using Cons.prems(2) by auto
  have "item (step op s) i = Some x"
    using terminal_stays [of "clock op" "event i op s" x] step_moves [OF Cons.prems(1) f(1), of i] Cons.prems(3-5)
    by auto
  with Cons.IH [OF step_ok [OF Cons.prems(1) f(1)] f(2)] Cons.prems(4,5) show ?case by simp
qed simp

text \<open>A token that was drawn and is not held will not be held again.\<close>

definition without_token :: "string \<Rightarrow> string \<Rightarrow> 's \<Rightarrow> bool" where
  "without_token i t s \<longleftrightarrow> t \<in> used s \<and> (\<forall>x. item s i = Some x \<longrightarrow> wi_leaseToken x \<noteq> Some t)"

lemma step_without:
  assumes "ok s" "fresh op s" "without_token i t s"
  shows "without_token i t (step op s)" "event i op s \<noteq> ItemSettled t"
proof -
  note move = step_moves [OF assms(1,2), of i]
  have "event i op s \<noteq> ItemClaimed t" using claim_draws [OF assms(1,2), of i t] assms(3) by (auto simp: without_token_def)
  with used_grows [OF assms(1,2)] assms(3) show "without_token i t (step op s)"
    using move
    by - (erule item_move.cases; auto simp: without_token_def unleased_def)
  show "event i op s \<noteq> ItemSettled t"
    using move assms(3) by (cases rule: item_move.cases) (auto simp: without_token_def)
qed

lemma run_without:
  "ok s \<Longrightarrow> fresh_run fresh step ops s \<Longrightarrow> without_token i t s \<Longrightarrow> without_token i t (run ops s)"
  by (induction ops arbitrary: s) (auto intro: step_ok step_without)

text \<open>
  A settlement accepted under a token is the first thing that happens to its item after the claim
  that drew the token.
\<close>

lemma leaves_token:
  assumes "ok s" "fresh op s" "item s i = Some x" "wi_leaseToken x = Some t" "event i op s \<noteq> Untouched"
  shows "without_token i t (step op s)"
proof -
  have t: "t \<in> used s" using tokens_used assms(1,3,4) by blast
  then have "event i op s \<noteq> ItemClaimed t" using claim_draws [OF assms(1,2), of i t] by auto
  with t show ?thesis
    using step_moves [OF assms(1,2), of i] used_grows [OF assms(1,2)] assms(3-5)
    by - (erule item_move.cases; auto simp: without_token_def unleased_def)
qed

lemma held_until_settled:
  assumes "ok s" "fresh_run fresh step ops s" "item s i = Some x" "wi_leaseToken x = Some t"
    and "fresh op' (run ops s)" "event i op' (run ops s) = ItemSettled t"
  shows "snd ` set (trace i ops s) \<subseteq> {Untouched}"
  using assms
proof (induction ops arbitrary: s)
  case (Cons op ops)
  have f: "fresh op s" "fresh_run fresh step ops (step op s)" using Cons.prems(2) by auto
  note ok' = step_ok [OF Cons.prems(1) f(1)]
  have untouched: "event i op s = Untouched"
  proof (rule ccontr)
    assume "event i op s \<noteq> Untouched"
    then have "without_token i t (run ops (step op s))"
      using Cons.prems(1,3,4) f by (intro run_without leaves_token ok')
    with step_without(2) [OF run_ok [OF ok' f(2)], of op' i t] Cons.prems(5,6) show False by simp
  qed
  then have "item (step op s) i = Some x"
    using step_moves [OF Cons.prems(1) f(1), of i] Cons.prems(3) by (simp add: item_move_simps)
  with Cons.IH [OF ok' f(2) this Cons.prems(4)] Cons.prems(5,6) untouched show ?case by simp
qed simp

lemma settled_after_claim:
  assumes "ok s" "fresh op s" "event i op s = ItemClaimed t"
    and "fresh_run fresh step ops (step op s)"
    and "fresh op' (run ops (step op s))" "event i op' (run ops (step op s)) = ItemSettled t"
  shows "snd ` set (trace i ops (step op s)) \<subseteq> {Untouched}"
proof -
  from step_moves [OF assms(1,2), of i] assms(3) obtain x where
    "item (step op s) i = Some x" "wi_leaseToken x = Some t" by (auto simp: item_move_simps)
  from held_until_settled [OF step_ok [OF assms(1,2)] assms(4) this assms(5,6)] show ?thesis .
qed

text \<open>While its lease is alive only the holder of the token can touch an item.\<close>

lemma live_lease:
  assumes "ok s" "fresh_run fresh step ops s" "item s i = Some x" "wi_leaseToken x = Some t" "wi_leaseUntil x = Some u"
    and "\<forall>(now, e) \<in> set (trace i ops s). now < u \<and> e \<noteq> ItemSettled t"
  shows "item (run ops s) i = Some x"
  using assms
proof (induction ops arbitrary: s)
  case (Cons op ops)
  have f: "fresh op s" "fresh_run fresh step ops (step op s)" using Cons.prems(2) by auto
  have "wi_status x = PROCESSING" using items_ok [OF Cons.prems(1,3)] Cons.prems(4) by (auto simp: item_ok_def)
  then have "item (step op s) i = Some x"
    using step_moves [OF Cons.prems(1) f(1), of i] Cons.prems(3-6)
    by - (erule item_move.cases;
      auto simp: candidate_def lease_exhausted_def until_passed_def terminal_statuses_def)
  with Cons.IH [OF step_ok [OF Cons.prems(1) f(1)] f(2) this] Cons.prems(4-6) show ?case by simp
qed simp

text \<open>Without an operator's revival an item is claimed at most as often as its attempts allow.\<close>

lemma claims_bounded:
  assumes "ok s" "fresh_run fresh step ops s" "item s i = Some x"
    and "snd ` set (trace i ops s) \<inter> {Revived, Erased} = {}"
  shows "\<exists>y. item (run ops s) i = Some y \<and> wi_attempts y = wi_attempts x + int (claims_in (trace i ops s)) \<and>
    wi_maxAttempts y = wi_maxAttempts x \<and> wi_attempts y \<le> wi_maxAttempts y"
  using assms
proof (induction ops arbitrary: s x)
  case Nil
  then show ?case using items_ok by (auto simp: item_ok_def)
next
  case (Cons op ops)
  have f: "fresh op s" "fresh_run fresh step ops (step op s)" using Cons.prems(2) by auto
  obtain y where "item (step op s) i = Some y" "wi_maxAttempts y = wi_maxAttempts x"
    "wi_attempts y = wi_attempts x + (if \<exists>t. event i op s = ItemClaimed t then 1 else 0)"
    using step_moves [OF Cons.prems(1) f(1), of i] Cons.prems(3,4)
    by (cases rule: item_move.cases) (auto simp: same_work_def)
  with Cons.IH [OF step_ok [OF Cons.prems(1) f(1)] f(2), of y] Cons.prems(4)
  show ?case by (cases "event i op s") auto
qed

end

section \<open>Rows of a table\<close>

definition row_at :: "'a work_item_scheme list \<Rightarrow> string \<Rightarrow> 'a work_item_scheme option" where
  "row_at rows i = List.find (\<lambda>r. wi_id r = i) rows"

definition work_at :: "'a work_item_scheme list \<Rightarrow> string \<Rightarrow> work_item option" where
  "work_at rows i = map_option work_item.truncate (row_at rows i)"

lemma truncate_simps [simp]:
  "wi_id (work_item.truncate r) = wi_id r" "wi_status (work_item.truncate r) = wi_status r"
  "wi_attempts (work_item.truncate r) = wi_attempts r"
  "wi_maxAttempts (work_item.truncate r) = wi_maxAttempts r"
  "wi_leaseToken (work_item.truncate r) = wi_leaseToken r"
  "wi_leaseUntil (work_item.truncate r) = wi_leaseUntil r"
  "until_passed now (work_item.truncate r) = until_passed now r"
  "candidate now (work_item.truncate r) = candidate now r"
  "lease_exhausted now (work_item.truncate r) = lease_exhausted now r"
  by (simp_all add: work_item.truncate_def until_passed_def candidate_def lease_exhausted_def)

lemma row_at_in: "row_at rows i = Some r \<Longrightarrow> r \<in> set rows \<and> wi_id r = i"
  by (auto simp: row_at_def dest: find_SomeD)

lemma row_at_Nil [simp]: "row_at [] i = None"
  by (simp add: row_at_def)

lemma row_at_append: "row_at (rows @ rows') i = (case row_at rows i of None \<Rightarrow> row_at rows' i | Some r \<Rightarrow> Some r)"
  by (induction rows) (auto simp: row_at_def)

lemma row_at_update:
  assumes "\<And>r. wi_id (g r) = wi_id r"
  shows "row_at (update_where p g rows) i = map_option (\<lambda>r. if p r then g r else r) (row_at rows i)"
  using assms by (induction rows) (auto simp: row_at_def table_simps)

lemma row_at_set:
  "distinct (map wi_id rows) \<Longrightarrow> r \<in> set rows \<Longrightarrow> row_at rows (wi_id r) = Some r"
  unfolding row_at_def by (rule find_key)

text \<open>The effect of a claim on each row.\<close>

definition claim_event ::
  "ms \<Rightarrow> string \<Rightarrow> 'a work_item_scheme list \<Rightarrow> 'a work_item_scheme list \<Rightarrow> string \<Rightarrow> item_event" where
  "claim_event now token rows claimedRows i =
     (case row_at rows i of
        None \<Rightarrow> Untouched
      | Some r \<Rightarrow>
          if lease_exhausted now r then GivenUp
          else if i \<in> wi_id ` set claimedRows then ItemClaimed token else Untouched)"

lemma give_up_simps [simp]:
  "wi_id (give_up failure now r) = wi_id r" "wi_maxAttempts (give_up failure now r) = wi_maxAttempts r"
  "wi_attempts (give_up failure now r) = wi_attempts r" "wi_status (give_up failure now r) = DEAD_LETTER"
  "wi_leaseToken (give_up failure now r) = None" "wi_leaseUntil (give_up failure now r) = None"
  by (simp_all add: give_up_def)

lemma take_lease_simps [simp]:
  "wi_id (take_lease token until now r) = wi_id r"
  "wi_maxAttempts (take_lease token until now r) = wi_maxAttempts r"
  "wi_attempts (take_lease token until now r) = wi_attempts r + 1"
  "wi_status (take_lease token until now r) = PROCESSING"
  "wi_leaseToken (take_lease token until now r) = Some token"
  "wi_leaseUntil (take_lease token until now r) = Some until"
  by (simp_all add: take_lease_def)

lemma in_candidates:
  assumes "i \<in> set (candidates wanted order locked n now rows)"
  shows "\<exists>r \<in> set rows. wi_id r = i \<and> wanted r \<and> candidate now r"
proof -
  from assms obtain r where "wi_id r = i"
    "r \<in> set (take (nat n) (filter (\<lambda>i. \<not> contains locked (wi_id i))
       (sort_key order (filter (\<lambda>i. wanted i \<and> candidate now i) rows))))"
    by (auto simp: candidates_def)
  then show ?thesis by (auto dest!: in_set_takeD)
qed

lemma claim_rows_at:
  fixes rows :: "'a work_item_scheme list"
  assumes run: "claim_rows failure wanted order locked token n leaseMs now rows = (claimedRows, rows')"
    and dist: "distinct (map wi_id rows)"
  shows "map wi_id rows' = map wi_id rows"
    and "set claimedRows \<subseteq> set rows'"
    and "row_at rows i = None \<Longrightarrow> row_at rows' i = None \<and> claim_event now token rows claimedRows i = Untouched"
    and "row_at rows i = Some r \<Longrightarrow>
      lease_exhausted now r \<and> claim_event now token rows claimedRows i = GivenUp \<and>
        row_at rows' i = Some (give_up failure now r) \<and> i \<notin> wi_id ` set claimedRows \<or>
      \<not> lease_exhausted now r \<and> candidate now r \<and> wanted r \<and>
        claim_event now token rows claimedRows i = ItemClaimed token \<and>
        row_at rows' i = Some (take_lease token (now + leaseMs) now r) \<and> i \<in> wi_id ` set claimedRows \<or>
      \<not> lease_exhausted now r \<and> claim_event now token rows claimedRows i = Untouched \<and>
        row_at rows' i = Some r \<and> i \<notin> wi_id ` set claimedRows"
proof -
  let ?rows1 = "update_where (lease_exhausted now) (give_up failure now) rows"
  let ?ids = "candidates wanted order locked n now ?rows1"
  have rows': "rows' = update_where (\<lambda>i. contains ?ids (wi_id i)) (take_lease token (now + leaseMs) now) ?rows1"
    and cl: "claimedRows = filter (\<lambda>i. contains ?ids (wi_id i)) rows'"
    using run by (auto simp: claim_rows_def Let_def)
  have ids1: "map wi_id ?rows1 = map wi_id rows" by (rule map_update_where) simp
  show ids: "map wi_id rows' = map wi_id rows" unfolding rows' using ids1 by (subst map_update_where) simp_all
  show "set claimedRows \<subseteq> set rows'" by (auto simp: cl)
  have at1: "row_at ?rows1 j = map_option (\<lambda>r. if lease_exhausted now r then give_up failure now r else r)
      (row_at rows j)" for j
    by (rule row_at_update) simp
  have at: "row_at rows' j = map_option (\<lambda>r. if contains ?ids (wi_id r)
      then take_lease token (now + leaseMs) now r else r) (row_at ?rows1 j)" for j
    unfolding rows' by (rule row_at_update) simp
  have claimed_iff: "j \<in> wi_id ` set claimedRows \<longleftrightarrow> j \<in> set ?ids \<and> j \<in> wi_id ` set rows'" for j
    by (auto simp: cl)
  have cand: "candidate now s \<and> wanted s" if "row_at ?rows1 j = Some s" "j \<in> set ?ids" for j s
  proof -
    from in_candidates [OF that(2)] obtain s' where s': "s' \<in> set ?rows1" "wi_id s' = j" "wanted s'" "candidate now s'"
      by blast
    have "distinct (map wi_id ?rows1)" using dist ids1 by simp
    from row_at_set [OF this s'(1)] s'(2) that(1) have "s' = s" by simp
    with s' show ?thesis by simp
  qed
  show "row_at rows i = None \<Longrightarrow> row_at rows' i = None \<and> claim_event now token rows claimedRows i = Untouched"
    by (simp add: at at1 claim_event_def)
  assume r: "row_at rows i = Some r"
  have wi: "wi_id r = i" using row_at_in [OF r] by simp
  have mem: "i \<in> wi_id ` set rows'"
  proof -
    have "i \<in> set (map wi_id rows)" using row_at_in [OF r] by auto
    then have "i \<in> set (map wi_id rows')" by (simp only: ids)
    then show ?thesis by simp
  qed
  show "lease_exhausted now r \<and> claim_event now token rows claimedRows i = GivenUp \<and>
        row_at rows' i = Some (give_up failure now r) \<and> i \<notin> wi_id ` set claimedRows \<or>
      \<not> lease_exhausted now r \<and> candidate now r \<and> wanted r \<and>
        claim_event now token rows claimedRows i = ItemClaimed token \<and>
        row_at rows' i = Some (take_lease token (now + leaseMs) now r) \<and> i \<in> wi_id ` set claimedRows \<or>
      \<not> lease_exhausted now r \<and> claim_event now token rows claimedRows i = Untouched \<and>
        row_at rows' i = Some r \<and> i \<notin> wi_id ` set claimedRows"
  proof (cases "lease_exhausted now r")
    case True
    then have s: "row_at ?rows1 i = Some (give_up failure now r)" by (simp add: at1 r)
    have "\<not> candidate now (give_up failure now r)" by (simp add: candidate_def)
    with cand [OF s] have "i \<notin> set ?ids" by blast
    with True s show ?thesis by (simp add: at claimed_iff claim_event_def r wi)
  next
    case False
    then have s: "row_at ?rows1 i = Some r" by (simp add: at1 r)
    show ?thesis
    proof (cases "i \<in> set ?ids")
      case True
      with cand [OF s] False s mem show ?thesis by (simp add: at claimed_iff claim_event_def r wi)
    next
      case out: False
      with False s show ?thesis by (simp add: at claimed_iff claim_event_def r wi)
    qed
  qed
qed

lemma work_at_row: "row_at rows i = Some r \<Longrightarrow> work_at rows i = Some (work_item.truncate r)"
  and work_at_none: "row_at rows i = None \<Longrightarrow> work_at rows i = None"
  by (simp_all add: work_at_def)

lemma claim_moves:
  assumes run: "claim_rows failure wanted order locked token n leaseMs now rows = (claimedRows, rows')"
    and dist: "distinct (map wi_id rows)" and pos: "0 < leaseMs"
  shows "item_move now (claim_event now token rows claimedRows i) (work_at rows i) (work_at rows' i)"
proof (cases "row_at rows i")
  case None
  with claim_rows_at(3) [OF run dist None] show ?thesis
    by (simp add: work_at_none item_move_simps)
next
  case (Some r)
  with claim_rows_at(4) [OF run dist Some] pos show ?thesis
    by (auto simp: work_at_row item_move_simps same_work_def unleased_def)
qed

lemma claim_rows_token:
  "claim_rows failure wanted order locked token n leaseMs now rows = (claimedRows, rows') \<Longrightarrow>
     r \<in> set claimedRows \<Longrightarrow> wi_leaseToken r = Some token"
  by (auto simp: claim_rows_def Let_def update_where_def split: if_splits)

lemma claim_rows_map:
  assumes "claim_rows failure wanted order locked token n leaseMs now rows = (claimedRows, rows')"
    and "\<And>r. k (give_up failure now r) = k r" "\<And>r. k (take_lease token (now + leaseMs) now r) = k r"
  shows "map k rows' = map k rows"
  using assms by (auto simp: claim_rows_def Let_def map_update_where)

lemma claim_rows_all:
  assumes run: "claim_rows failure wanted order locked token n leaseMs now rows = (claimedRows, rows')"
    and dist: "distinct (map wi_id rows)" and all: "list_all P rows"
    and "\<And>r. P r \<Longrightarrow> lease_exhausted now r \<Longrightarrow> P (give_up failure now r)"
    and "\<And>r. P r \<Longrightarrow> candidate now r \<Longrightarrow> P (take_lease token (now + leaseMs) now r)"
  shows "list_all P rows'"
proof -
  have "P r" if r: "r \<in> set rows'" for r
  proof -
    have "distinct (map wi_id rows')" using dist claim_rows_at(1) [OF run dist] by simp
    from row_at_set [OF this r] have at: "row_at rows' (wi_id r) = Some r" .
    show ?thesis
    proof (cases "row_at rows (wi_id r)")
      case None
      with claim_rows_at(3) [OF run dist None] at show ?thesis by simp
    next
      case (Some s)
      then have "P s" using all row_at_in [OF Some] by (simp add: list_all_iff)
      with claim_rows_at(4) [OF run dist Some] at assms(4,5) show ?thesis by auto
    qed
  qed
  then show ?thesis by (simp add: list_all_iff)
qed

text \<open>The effect of an \<open>updateMany\<close> whose condition fixes the identifier.\<close>

definition update_event :: "string \<Rightarrow> item_event \<Rightarrow> ('r \<Rightarrow> bool) \<Rightarrow> 'r list \<Rightarrow> string \<Rightarrow> item_event" where
  "update_event a e p rows i = (if i = a \<and> count_where p rows = 1 then e else Untouched)"

lemma update_moves:
  assumes dist: "distinct (map wi_id rows)" and p: "\<And>r. p r \<Longrightarrow> wi_id r = a"
    and g: "\<And>r. wi_id (g r) = wi_id r"
    and move: "\<And>r. r \<in> set rows \<Longrightarrow> p r \<Longrightarrow>
      item_move now e (Some (work_item.truncate r)) (Some (work_item.truncate (g r)))"
  shows "item_move now (update_event a e p rows i) (work_at rows i) (work_at (update_where p g rows) i)"
proof (cases "row_at rows i")
  case None
  then have no: "i \<notin> wi_id ` set rows" by (auto simp: row_at_def find_None_iff)
  have "update_event a e p rows i = Untouched"
  proof (cases "i = a")
    case True
    then have "count_where p rows = 0" using no p by (force simp: count_where_0)
    then show ?thesis by (simp add: update_event_def)
  qed (simp add: update_event_def)
  with None show ?thesis by (simp add: work_at_def row_at_update [OF g] item_move_simps)
next
  case (Some r)
  have r: "r \<in> set rows" "wi_id r = i" using row_at_in [OF Some] by auto
  show ?thesis
  proof (cases "p r")
    case True
    then have "count_where p rows = 1" using dist r(1) p by (intro count_where_key_1 [where k = wi_id]) auto
    with True r move [OF r(1) True] p [OF True] Some show ?thesis
      by (simp add: update_event_def work_at_def row_at_update [OF g])
  next
    case False
    have "update_event a e p rows i = Untouched"
    proof (rule ccontr)
      assume "\<not> ?thesis"
      then have "i = a" "count_where p rows = 1" by (auto simp: update_event_def split: if_splits)
      then obtain s where "s \<in> set rows" "p s" using count_where_pos [of p rows] by auto
      with \<open>i = a\<close> r p distinct_key_eq [OF dist, of s r] False show False by auto
    qed
    with False Some show ?thesis by (simp add: work_at_def row_at_update [OF g] item_move_simps)
  qed
qed

text \<open>A row that is inserted.\<close>

lemma added_moves:
  assumes "wi_id r \<notin> wi_id ` set rows" "wi_status r = PENDING" "wi_attempts r = 0" "1 \<le> wi_maxAttempts r"
    and "wi_leaseToken r = None" "wi_leaseUntil r = None"
  shows "item_move now (if i = wi_id r then ItemCreated else Untouched) (work_at rows i) (work_at (rows @ [r]) i)"
proof -
  have "row_at rows (wi_id r) = None" using assms(1) unfolding row_at_def find_None_iff by (metis imageI)
  moreover have "row_at [r] i = (if i = wi_id r then Some r else None)" by (simp add: row_at_def)
  ultimately show ?thesis
    using assms(2-) by (auto simp: work_at_def row_at_append item_move_simps unleased_def split: option.split)
qed

section \<open>The invariant of a table and of the records handed out\<close>

definition lease_tokens :: "'a work_item_scheme list \<Rightarrow> string set" where
  "lease_tokens issued = {t. Some t \<in> wi_leaseToken ` set issued}"

text \<open>
  \<open>issued\<close> are the records claims have returned. A row that still carries the token of an issued
  record has the attempts the record shows.
\<close>

definition table_ok :: "'a work_item_scheme list \<Rightarrow> 'a work_item_scheme list \<Rightarrow> bool" where
  "table_ok rows issued \<longleftrightarrow>
     distinct (map wi_id rows) \<and> (\<forall>r \<in> set rows. item_ok (work_item.truncate r)) \<and>
     (\<forall>r \<in> set rows. \<forall>t. wi_leaseToken r = Some t \<longrightarrow> t \<in> lease_tokens issued) \<and>
     (\<forall>q \<in> set issued. \<forall>r \<in> set rows. wi_id r = wi_id q \<and> wi_leaseToken r = wi_leaseToken q \<and> wi_leaseToken q \<noteq> None \<longrightarrow>
        wi_attempts r = wi_attempts q \<and> wi_maxAttempts r = wi_maxAttempts q)"

lemma table_ok_at:
  "table_ok rows issued \<Longrightarrow> work_at rows i = Some x \<Longrightarrow> item_ok x"
  "table_ok rows issued \<Longrightarrow> work_at rows i = Some x \<Longrightarrow> wi_leaseToken x = Some t \<Longrightarrow> t \<in> lease_tokens issued"
  by (auto simp: work_at_def table_ok_def dest!: row_at_in)

lemma in_rows_at:
  "distinct (map wi_id rows) \<Longrightarrow> r \<in> set rows \<Longrightarrow> work_at rows (wi_id r) = Some (work_item.truncate r)"
  by (simp add: work_at_def row_at_set)

lemma at_in_rows: "work_at rows i = Some x \<Longrightarrow> \<exists>r \<in> set rows. wi_id r = i \<and> x = work_item.truncate r"
  by (auto simp: work_at_def dest: row_at_in)

lemma table_ok_step:
  assumes ok: "table_ok rows issued" and dist: "distinct (map wi_id rows')"
    and moves: "\<And>i. item_move now (ev i) (work_at rows i) (work_at rows' i)"
    and drawn: "\<And>i t. ev i = ItemClaimed t \<Longrightarrow> t \<notin> lease_tokens issued \<and> t \<in> lease_tokens new"
    and new: "set new \<subseteq> set rows'"
  shows "table_ok rows' (issued @ new)"
proof -
  have tokens: "lease_tokens (issued @ new) = lease_tokens issued \<union> lease_tokens new"
    by (auto simp: lease_tokens_def)
  have item: "item_ok (work_item.truncate r) \<and>
      (\<forall>t. wi_leaseToken r = Some t \<longrightarrow> t \<in> lease_tokens (issued @ new)) \<and>
      (\<forall>q \<in> set issued. wi_id r = wi_id q \<and> wi_leaseToken r = wi_leaseToken q \<and> wi_leaseToken q \<noteq> None \<longrightarrow>
        wi_attempts r = wi_attempts q \<and> wi_maxAttempts r = wi_maxAttempts q)"
    if r: "r \<in> set rows'" for r
  proof -
    note at = in_rows_at [OF dist r]
    note move = moves [of "wi_id r", unfolded at]
    have "\<forall>x. work_at rows (wi_id r) = Some x \<longrightarrow> item_ok x" using table_ok_at(1) [OF ok] by blast
    with item_move_ok [OF move] have io: "item_ok (work_item.truncate r)" by simp
    show ?thesis
    proof (cases "wi_leaseToken r")
      case None
      with io show ?thesis by auto
    next
      case (Some t)
      show ?thesis
      proof (cases "ev (wi_id r) = ItemClaimed t")
        case True
        from drawn [OF True] have "t \<notin> lease_tokens issued" "t \<in> lease_tokens (issued @ new)"
          by (auto simp: tokens)
        with io Some show ?thesis by (auto simp: lease_tokens_def image_iff)
      next
        case False
        with move Some have "work_at rows (wi_id r) = Some (work_item.truncate r)"
          by - (erule item_move.cases; auto simp: unleased_def)
        then obtain s where s: "s \<in> set rows" "wi_id s = wi_id r" "work_item.truncate r = work_item.truncate s"
          by (auto dest: at_in_rows)
        have eq: "wi_leaseToken s = wi_leaseToken r" "wi_attempts s = wi_attempts r"
          "wi_maxAttempts s = wi_maxAttempts r"
          using arg_cong [OF s(3), of wi_leaseToken] arg_cong [OF s(3), of wi_attempts]
            arg_cong [OF s(3), of wi_maxAttempts] by simp_all
        have "wi_attempts r = wi_attempts q \<and> wi_maxAttempts r = wi_maxAttempts q"
          if "q \<in> set issued" "wi_id r = wi_id q" "wi_leaseToken r = wi_leaseToken q" "wi_leaseToken q \<noteq> None" for q
          using ok s(1,2) that eq unfolding table_ok_def by metis
        moreover have "t \<in> lease_tokens issued"
          using ok s(1) eq(1) Some unfolding table_ok_def by metis
        ultimately show ?thesis using io Some by (simp add: tokens)
      qed
    qed
  qed
  moreover have "wi_attempts r = wi_attempts q \<and> wi_maxAttempts r = wi_maxAttempts q"
    if "q \<in> set new" "r \<in> set rows'" "wi_id r = wi_id q" for q r
    using distinct_key_eq [OF dist that(2) _ that(3)] that(1) new by auto
  ultimately show ?thesis using dist by (auto simp: table_ok_def)
qed

end
