(* ===== verification/NotificationOutbox.thy ===== *)
theory NotificationOutbox
  imports WorkItems
begin

text \<open>
  The notification outbox (\<open>lib/notification-outbox.ts\<close>) on the table \<open>NotificationOutbox\<close>: enqueueing
  under an idempotency key, claiming a batch, marking its records, the batch loop of the worker and
  the revival of dead letters. The identifiers and tokens the code draws, the instants it reads and
  the rows other transactions hold locked are arguments; the provider is a function from a record to
  a delivery or the code of a failure.
\<close>

section \<open>Rows and errors\<close>

record notification_item = work_item +
  no_idempotencyKey :: string
  no_notificationType :: string
  no_recipientReference :: string
  no_recipientUserId :: "string option"
  no_templateReference :: string
  no_providerMessageId :: "string option"
  no_deliveredAt :: "ms option"

datatype delivery_end = DELIVERY_DELIVERED | DELIVERY_ACCEPTED

record notification_delivery =
  nd_providerMessageId :: string
  nd_terminal :: delivery_end

record notification_db =
  no_available :: bool
  no_outbox :: "notification_item list"

datatype notification_error =
    NOTIFICATION_REFERENCE_INVALID string
  | NOTIFICATION_RAW_RECIPIENT_DENIED
  | NOTIFICATION_MAX_ATTEMPTS_INVALID
  | NOTIFICATION_DATABASE_UNAVAILABLE
  | NOTIFICATION_BATCH_SIZE_INVALID
  | NOTIFICATION_LEASE_INVALID
  | NOTIFICATION_LEASE_LOST
  | NOTIFICATION_FAILURE_CODE_INVALID
  | NOTIFICATION_ATTEMPT_INVALID
  | NOTIFICATION_DEAD_LETTER_NOT_FOUND
  | NOTIFICATION_COLUMN_TOO_LONG

definition assertSafeReference :: "string \<Rightarrow> string \<Rightarrow> notification_error option" where
  "assertSafeReference value name = demand (SAFE_REFERENCE value) (NOTIFICATION_REFERENCE_INVALID name)"

text \<open>\<open>SAFE_FAILURE_CODE\<close>: \<open>^[A-Z0-9][A-Z0-9_-]{2,99}$\<close>, and \<open>toUpperCase\<close> on ASCII letters.\<close>

definition is_code_char :: "char \<Rightarrow> bool" where
  "is_code_char c \<longleftrightarrow> is_upper_case c \<or> is_digit c"

definition SAFE_FAILURE_CODE :: "string \<Rightarrow> bool" where
  "SAFE_FAILURE_CODE = matches is_code_char (\<lambda>c. is_code_char c \<or> contains ''_-'' c) 2 99"

definition ascii_upper :: "string \<Rightarrow> string" where
  "ascii_upper s = map (\<lambda>c. if is_lower_case c then char_of (code c - 32) else c) s"

definition notificationBackoffMs :: "int \<Rightarrow> notification_error + int" where
  "notificationBackoffMs = backoff_ms NOTIFICATION_ATTEMPT_INVALID"

definition notification_database :: "notification_db \<Rightarrow> notification_error option" where
  "notification_database db = demand (no_available db) NOTIFICATION_DATABASE_UNAVAILABLE"

section \<open>Enqueueing\<close>

record notification_input =
  ni_idempotencyKey :: string
  ni_notificationType :: string
  ni_recipientReference :: string
  ni_recipientUserId :: "string option"
  ni_templateReference :: string
  ni_correlationId :: string
  ni_maximumAttempts :: "int option"

definition enqueue_checks :: "notification_input \<Rightarrow> notification_error option" where
  "enqueue_checks input = first_error
     [assertSafeReference (ni_idempotencyKey input) ''IDEMPOTENCY_KEY'',
      assertSafeReference (ni_notificationType input) ''TYPE'',
      assertSafeReference (ni_recipientReference input) ''RECIPIENT_REFERENCE'',
      assertSafeReference (ni_templateReference input) ''TEMPLATE_REFERENCE'',
      assertSafeReference (ni_correlationId input) ''CORRELATION_ID'',
      demand (\<not> contains (ni_recipientReference input) CHR ''@'') NOTIFICATION_RAW_RECIPIENT_DENIED,
      (let n = (case ni_maximumAttempts input of None \<Rightarrow> 5 | Some n \<Rightarrow> n)
       in demand (safe_integer n \<and> 1 \<le> n \<and> n \<le> 20) NOTIFICATION_MAX_ATTEMPTS_INVALID)]"

definition new_notification :: "string \<Rightarrow> ms \<Rightarrow> notification_input \<Rightarrow> notification_item" where
  "new_notification i now input =
     \<lparr>wi_id = i, wi_status = PENDING, wi_attempts = 0,
      wi_maxAttempts = (case ni_maximumAttempts input of None \<Rightarrow> 5 | Some n \<Rightarrow> n), wi_nextAttemptAt = now,
      wi_leaseToken = None, wi_leaseUntil = None, wi_lastFailureCode = None,
      wi_correlationId = ni_correlationId input, wi_createdAt = now, wi_updatedAt = now,
      no_idempotencyKey = ni_idempotencyKey input, no_notificationType = ni_notificationType input,
      no_recipientReference = ni_recipientReference input, no_recipientUserId = ni_recipientUserId input,
      no_templateReference = ni_templateReference input, no_providerMessageId = None,
      no_deliveredAt = None\<rparr>"

text \<open>
  \<open>upsert\<close> with an empty update: the row of the key if there is one, otherwise a new row. The columns
  of type and template hold 100 characters, that of the user 200.
\<close>

definition notification_fits :: "notification_item \<Rightarrow> bool" where
  "notification_fits r \<longleftrightarrow> length (no_notificationType r) \<le> 100 \<and> length (no_templateReference r) \<le> 100 \<and>
     (case no_recipientUserId r of None \<Rightarrow> True | Some u \<Rightarrow> length u \<le> 200)"

definition outbox_upsert ::
  "notification_item \<Rightarrow> notification_item list \<Rightarrow> (notification_error, notification_item, notification_item list) handled"
where
  "outbox_upsert r rows =
     (case List.find (\<lambda>s. no_idempotencyKey s = no_idempotencyKey r) rows of
        Some s \<Rightarrow> (Inr s, rows)
      | None \<Rightarrow>
          if notification_fits r then (Inr r, rows @ [r]) else (Inl NOTIFICATION_COLUMN_TOO_LONG, rows))"

definition enqueueNotification ::
  "string \<Rightarrow> ms \<Rightarrow> notification_input \<Rightarrow> notification_db \<Rightarrow>
     (notification_error, notification_item, notification_db) handled" where
  "enqueueNotification i now input db =
     (case first_error [enqueue_checks input, notification_database db] of
        Some e \<Rightarrow> (Inl e, db)
      | None \<Rightarrow>
          (case outbox_upsert (new_notification i now input) (no_outbox db) of
             (r, rows) \<Rightarrow> (r, db\<lparr>no_outbox := rows\<rparr>)))"

section \<open>Claiming\<close>

definition claimNotificationBatch ::
  "int \<Rightarrow> int \<Rightarrow> ms \<Rightarrow> string option \<Rightarrow> string \<Rightarrow> string list \<Rightarrow> notification_db \<Rightarrow>
     (notification_error, notification_item list, notification_db) handled" where
  "claimNotificationBatch batchSize leaseMs now correlationId token locked db =
     (case first_error
        [batch_error NOTIFICATION_BATCH_SIZE_INVALID NOTIFICATION_LEASE_INVALID batchSize leaseMs,
         (if truthy correlationId then assertSafeReference (the correlationId) ''CORRELATION_ID'' else None),
         notification_database db] of
        Some e \<Rightarrow> (Inl e, db)
      | None \<Rightarrow>
          (case claim_rows ''LEASE_EXHAUSTED'' (\<lambda>i. truthy correlationId \<longrightarrow> Some (wi_correlationId i) = correlationId)
             (\<lambda>i. (wi_nextAttemptAt i, wi_createdAt i)) locked token batchSize leaseMs now (no_outbox db) of
             (records, rows) \<Rightarrow> (Inr records, db\<lparr>no_outbox := rows\<rparr>)))"

section \<open>Settling a record\<close>

text \<open>An \<open>updateMany\<close> under the lease of a record; anything but one changed row is a lost lease.\<close>

definition settle_notification ::
  "string \<Rightarrow> string \<Rightarrow> (notification_item \<Rightarrow> notification_item) \<Rightarrow> notification_db \<Rightarrow>
     (notification_error, unit, notification_db) handled" where
  "settle_notification i token change db =
     (case notification_database db of
        Some e \<Rightarrow> (Inl e, db)
      | None \<Rightarrow>
          let db' = db\<lparr>no_outbox := update_where (lease_held i token) change (no_outbox db)\<rparr> in
          if count_where (lease_held i token) (no_outbox db) = 1 then (Inr (), db')
          else (Inl NOTIFICATION_LEASE_LOST, db'))"

definition delivered_change :: "string \<Rightarrow> ms \<Rightarrow> ms \<Rightarrow> notification_item \<Rightarrow> notification_item" where
  "delivered_change providerMessageId deliveredAt now i =
     i\<lparr>wi_status := DELIVERED, no_providerMessageId := Some providerMessageId,
       no_deliveredAt := Some deliveredAt, wi_leaseToken := None, wi_leaseUntil := None,
       wi_lastFailureCode := None, wi_updatedAt := now\<rparr>"

definition accepted_change :: "string \<Rightarrow> ms \<Rightarrow> ms \<Rightarrow> notification_item \<Rightarrow> notification_item" where
  "accepted_change providerMessageId retryAt now i =
     i\<lparr>no_providerMessageId := Some providerMessageId, wi_nextAttemptAt := retryAt, wi_leaseToken := None,
       wi_leaseUntil := Some retryAt, wi_lastFailureCode := None, wi_updatedAt := now\<rparr>"

definition failed_change :: "work_status \<Rightarrow> ms \<Rightarrow> string \<Rightarrow> ms \<Rightarrow> notification_item \<Rightarrow> notification_item" where
  "failed_change status nextAttemptAt failure now i =
     i\<lparr>wi_status := status, wi_nextAttemptAt := nextAttemptAt, wi_leaseToken := None,
       wi_leaseUntil := None, wi_lastFailureCode := Some failure, wi_updatedAt := now\<rparr>"

definition markNotificationDelivered where
  "markNotificationDelivered i token providerMessageId deliveredAt now db =
     (case assertSafeReference providerMessageId ''PROVIDER_MESSAGE_ID'' of
        Some e \<Rightarrow> (Inl e, db)
      | None \<Rightarrow> settle_notification i token (delivered_change providerMessageId deliveredAt now) db)"

definition markNotificationAccepted where
  "markNotificationAccepted i token providerMessageId retryAt now db =
     (case assertSafeReference providerMessageId ''PROVIDER_MESSAGE_ID'' of
        Some e \<Rightarrow> (Inl e, db)
      | None \<Rightarrow> settle_notification i token (accepted_change providerMessageId retryAt now) db)"

definition markNotificationFailed ::
  "notification_item \<Rightarrow> string \<Rightarrow> string \<Rightarrow> ms \<Rightarrow> notification_db \<Rightarrow> (notification_error, unit, notification_db) handled"
where
  "markNotificationFailed record token failureCode now db =
     (let failure = ascii_upper failureCode; exhausted = wi_maxAttempts record \<le> wi_attempts record in
      case first_error [demand (SAFE_FAILURE_CODE failure) NOTIFICATION_FAILURE_CODE_INVALID,
                        notification_database db] of
        Some e \<Rightarrow> (Inl e, db)
      | None \<Rightarrow>
          if exhausted
          then settle_notification (wi_id record) token (failed_change DEAD_LETTER now failure now) db
          else (case notificationBackoffMs (wi_attempts record) of
                  Inl e \<Rightarrow> (Inl e, db)
                | Inr delay \<Rightarrow>
                    settle_notification (wi_id record) token (failed_change FAILED (now + delay) failure now) db))"

definition retryDeadLetterNotification ::
  "string \<Rightarrow> ms \<Rightarrow> notification_db \<Rightarrow> (notification_error, unit, notification_db) handled" where
  "retryDeadLetterNotification i now db =
     (case first_error [assertSafeReference i ''ID'', notification_database db] of
        Some e \<Rightarrow> (Inl e, db)
      | None \<Rightarrow>
          let dead = (\<lambda>r. wi_id r = i \<and> wi_status r = DEAD_LETTER);
              db' = db\<lparr>no_outbox := update_where dead
                (\<lambda>r. r\<lparr>wi_status := PENDING, wi_attempts := 0, wi_nextAttemptAt := now, wi_leaseToken := None,
                       wi_leaseUntil := None, wi_lastFailureCode := None, no_providerMessageId := None,
                       no_deliveredAt := None, wi_updatedAt := now\<rparr>) (no_outbox db)\<rparr> in
          if count_where dead (no_outbox db) = 1 then (Inr (), db')
          else (Inl NOTIFICATION_DEAD_LETTER_NOT_FOUND, db'))"

section \<open>The batch of a worker\<close>

record batch_counts =
  bc_claimed :: nat
  bc_delivered :: nat
  bc_failed :: nat
  bc_deadLettered :: nat

text \<open>
  One record: its delivery, its settlement, and when either throws the settlement as failed. An
  error of that one leaves the loop. The provider's failure is the code of its error, or
  \<open>PROVIDER_DELIVERY_FAILED\<close>.
\<close>

definition notificationFailureCode :: "string option \<Rightarrow> string" where
  "notificationFailureCode error = (case error of None \<Rightarrow> ''PROVIDER_DELIVERY_FAILED'' | Some c \<Rightarrow> c)"

definition deliver_record ::
  "(notification_item \<Rightarrow> string option + notification_delivery) \<Rightarrow> ms \<Rightarrow> notification_item \<Rightarrow> notification_db \<Rightarrow>
     (string option, bool, notification_db) handled" where
  "deliver_record deliver now record db =
     (case deliver record of
        Inl error \<Rightarrow> (Inl error, db)
      | Inr delivery \<Rightarrow>
          let token = the (wi_leaseToken record); message = nd_providerMessageId delivery in
          (case nd_terminal delivery of
             DELIVERY_DELIVERED \<Rightarrow>
               (case markNotificationDelivered (wi_id record) token message now now db of
                  (Inl _, db') \<Rightarrow> (Inl None, db') | (Inr _, db') \<Rightarrow> (Inr True, db'))
           | DELIVERY_ACCEPTED \<Rightarrow>
               (case markNotificationAccepted (wi_id record) token message (now + 60000) now db of
                  (Inl _, db') \<Rightarrow> (Inl None, db') | (Inr _, db') \<Rightarrow> (Inr False, db'))))"

fun process_records ::
  "(notification_item \<Rightarrow> string option + notification_delivery) \<Rightarrow> ms \<Rightarrow> notification_item list \<Rightarrow> batch_counts \<Rightarrow>
     notification_db \<Rightarrow> (notification_error, batch_counts, notification_db) handled" where
  "process_records deliver now [] counts db = (Inr counts, db)"
| "process_records deliver now (record # records) counts db =
     (case deliver_record deliver now record db of
        (Inr delivered, db') \<Rightarrow>
          process_records deliver now records
            (if delivered then counts\<lparr>bc_delivered := bc_delivered counts + 1\<rparr> else counts) db'
      | (Inl error, db') \<Rightarrow>
          (case markNotificationFailed record (the (wi_leaseToken record)) (notificationFailureCode error) now db' of
             (Inl e, db'') \<Rightarrow> (Inl e, db'')
           | (Inr _, db'') \<Rightarrow>
               process_records deliver now records
                 (if wi_maxAttempts record \<le> wi_attempts record
                  then counts\<lparr>bc_deadLettered := bc_deadLettered counts + 1\<rparr>
                  else counts\<lparr>bc_failed := bc_failed counts + 1\<rparr>) db''))"

definition processNotificationBatch where
  "processNotificationBatch deliver batchSize leaseMs now correlationId token locked db =
     (case claimNotificationBatch batchSize leaseMs now correlationId token locked db of
        (Inl e, db') \<Rightarrow> (Inl e, db')
      | (Inr records, db') \<Rightarrow>
          process_records deliver now records
            \<lparr>bc_claimed = length records, bc_delivered = 0, bc_failed = 0, bc_deadLettered = 0\<rparr> db')"

end
