(* ===== verification/NotificationProperties.thy ===== *)
theory NotificationProperties
  imports NotificationOutbox
begin

text \<open>
  The notification outbox under every interleaving of its operations: it keeps the contract of a
  leased table, so attempts stay in their bounds, a delivered notification stays delivered, and what
  a worker records belongs to its own claim. The last section shows two ways in which the loop of
  the worker falls short.
\<close>

section \<open>Runs\<close>

text \<open>
  The state of a run is the database and the records that claims have returned to workers, the only
  ones a worker can settle.
\<close>

record outbox_state =
  os_db :: notification_db
  os_issued :: "notification_item list"

datatype outbox_op =
    OutboxEnqueue string ms notification_input
  | OutboxClaim int int ms "string option" string "string list"
  | OutboxDelivered notification_item string ms ms
  | OutboxAccepted notification_item string ms ms
  | OutboxFailed notification_item string ms
  | OutboxRetry string ms

definition record_token :: "'a work_item_scheme \<Rightarrow> string" where
  "record_token r = the (wi_leaseToken r)"

fun outbox_call :: "outbox_op \<Rightarrow> notification_db \<Rightarrow> (notification_error, unit, notification_db) handled" where
  "outbox_call (OutboxEnqueue i now input) db =
     (case enqueueNotification i now input db of (r, db') \<Rightarrow> (map_sum id (\<lambda>_. ()) r, db'))"
| "outbox_call (OutboxClaim n leaseMs now corr token locked) db =
     (case claimNotificationBatch n leaseMs now corr token locked db of (r, db') \<Rightarrow> (map_sum id (\<lambda>_. ()) r, db'))"
| "outbox_call (OutboxDelivered r message deliveredAt now) db =
     markNotificationDelivered (wi_id r) (record_token r) message deliveredAt now db"
| "outbox_call (OutboxAccepted r message retryAt now) db =
     markNotificationAccepted (wi_id r) (record_token r) message retryAt now db"
| "outbox_call (OutboxFailed r failureCode now) db = markNotificationFailed r (record_token r) failureCode now db"
| "outbox_call (OutboxRetry i now) db = retryDeadLetterNotification i now db"

fun outbox_enabled :: "outbox_op \<Rightarrow> outbox_state \<Rightarrow> bool" where
  "outbox_enabled (OutboxDelivered r _ _ _) s \<longleftrightarrow> contains (os_issued s) r"
| "outbox_enabled (OutboxAccepted r _ _ _) s \<longleftrightarrow> contains (os_issued s) r"
| "outbox_enabled (OutboxFailed r _ _) s \<longleftrightarrow> contains (os_issued s) r"
| "outbox_enabled _ s \<longleftrightarrow> True"

fun outbox_returned :: "outbox_op \<Rightarrow> notification_db \<Rightarrow> notification_item list" where
  "outbox_returned (OutboxClaim n leaseMs now corr token locked) db =
     (case fst (claimNotificationBatch n leaseMs now corr token locked db) of Inl _ \<Rightarrow> [] | Inr rs \<Rightarrow> rs)"
| "outbox_returned _ db = []"

definition outbox_step :: "outbox_op \<Rightarrow> outbox_state \<Rightarrow> outbox_state" where
  "outbox_step op s =
     (if outbox_enabled op s
      then \<lparr>os_db = snd (outbox_call op (os_db s)), os_issued = os_issued s @ outbox_returned op (os_db s)\<rparr>
      else s)"

fun outbox_clock :: "outbox_op \<Rightarrow> ms" where
  "outbox_clock (OutboxEnqueue _ now _) = now"
| "outbox_clock (OutboxClaim _ _ now _ _ _) = now"
| "outbox_clock (OutboxDelivered _ _ _ now) = now"
| "outbox_clock (OutboxAccepted _ _ _ now) = now"
| "outbox_clock (OutboxFailed _ _ now) = now"
| "outbox_clock (OutboxRetry _ now) = now"

text \<open>Identifiers and tokens are drawn at random; they are new.\<close>

fun outbox_fresh :: "outbox_op \<Rightarrow> outbox_state \<Rightarrow> bool" where
  "outbox_fresh (OutboxEnqueue i _ _) s \<longleftrightarrow> i \<notin> wi_id ` set (no_outbox (os_db s))"
| "outbox_fresh (OutboxClaim _ _ _ _ token _) s \<longleftrightarrow> token \<notin> lease_tokens (os_issued s)"
| "outbox_fresh _ s \<longleftrightarrow> True"

definition settled_event :: "('e + 'a) \<times> 'db \<Rightarrow> 'c work_item_scheme \<Rightarrow> string \<Rightarrow> item_event" where
  "settled_event result r i = (if i = wi_id r \<and> (\<exists>v. fst result = Inr v) then ItemSettled (record_token r) else Untouched)"

fun outbox_happens :: "string \<Rightarrow> outbox_op \<Rightarrow> notification_db \<Rightarrow> item_event" where
  "outbox_happens i (OutboxEnqueue j now input) db =
     (if i = j \<and> row_at (no_outbox (snd (enqueueNotification j now input db))) i \<noteq> row_at (no_outbox db) i
      then ItemCreated else Untouched)"
| "outbox_happens i (OutboxClaim n leaseMs now corr token locked) db =
     (case fst (claimNotificationBatch n leaseMs now corr token locked db) of
        Inl _ \<Rightarrow> Untouched | Inr rs \<Rightarrow> claim_event now token (no_outbox db) rs i)"
| "outbox_happens i (OutboxRetry j now) db =
     (if i = j \<and> (\<exists>v. fst (retryDeadLetterNotification j now db) = Inr v) then Revived else Untouched)"
| "outbox_happens i (OutboxDelivered r m t now) db = settled_event (outbox_call (OutboxDelivered r m t now) db) r i"
| "outbox_happens i (OutboxAccepted r m t now) db = settled_event (outbox_call (OutboxAccepted r m t now) db) r i"
| "outbox_happens i (OutboxFailed r c now) db = settled_event (outbox_call (OutboxFailed r c now) db) r i"

definition outbox_event :: "string \<Rightarrow> outbox_op \<Rightarrow> outbox_state \<Rightarrow> item_event" where
  "outbox_event i op s = (if outbox_enabled op s then outbox_happens i op (os_db s) else Untouched)"

section \<open>The invariant\<close>

definition outbox_typed :: "notification_item \<Rightarrow> bool" where
  "outbox_typed r \<longleftrightarrow> wi_status r \<in> {PENDING, PROCESSING, DELIVERED, FAILED, DEAD_LETTER} \<and>
     (wi_status r = DELIVERED \<longleftrightarrow> no_deliveredAt r \<noteq> None) \<and> wi_maxAttempts r \<le> 20"

definition outbox_ok :: "outbox_state \<Rightarrow> bool" where
  "outbox_ok s \<longleftrightarrow> table_ok (no_outbox (os_db s)) (os_issued s) \<and>
     distinct (map no_idempotencyKey (no_outbox (os_db s))) \<and> list_all outbox_typed (no_outbox (os_db s)) \<and>
     (\<forall>r \<in> set (os_issued s). wi_leaseToken r \<noteq> None)"

definition outbox_item :: "outbox_state \<Rightarrow> string \<Rightarrow> work_item option" where
  "outbox_item s = work_at (no_outbox (os_db s))"

definition outbox_used :: "outbox_state \<Rightarrow> string set" where
  "outbox_used s = lease_tokens (os_issued s)"

text \<open>What one call does to the rows, and what it keeps of them.\<close>

definition good_change :: "notification_item list \<Rightarrow> notification_item list \<Rightarrow> bool" where
  "good_change rows rows' \<longleftrightarrow>
     (distinct (map wi_id rows) \<longrightarrow> distinct (map wi_id rows')) \<and>
     (distinct (map no_idempotencyKey rows) \<longrightarrow> distinct (map no_idempotencyKey rows')) \<and>
     (list_all outbox_typed rows \<longrightarrow> list_all outbox_typed rows')"

lemma good_change_refl [simp]: "good_change rows rows"
  by (simp add: good_change_def)

lemma good_update:
  assumes "\<And>r. wi_id (g r) = wi_id r" "\<And>r. no_idempotencyKey (g r) = no_idempotencyKey r"
    and "\<And>r. p r \<Longrightarrow> outbox_typed r \<Longrightarrow> outbox_typed (g r)"
  shows "good_change rows (update_where p g rows)"
proof -
  have "list_all outbox_typed (update_where p g rows)" if "list_all outbox_typed rows"
    using that assms(3) by (auto simp: list_all_iff elim!: in_update_whereE)
  moreover have "map wi_id (update_where p g rows) = map wi_id rows"
    "map no_idempotencyKey (update_where p g rows) = map no_idempotencyKey rows"
    by (rule map_update_where, rule assms)+
  ultimately show ?thesis by (simp add: good_change_def)
qed

abbreviation row_move :: "ms \<Rightarrow> item_event \<Rightarrow> notification_item list \<Rightarrow> notification_item list \<Rightarrow> string \<Rightarrow> bool" where
  "row_move now e rows rows' i \<equiv> item_move now e (work_at rows i) (work_at rows' i)"

lemma row_move_refl [simp]: "row_move now Untouched rows rows i"
  by (simp add: item_move_simps)

lemma settle_moves:
  assumes ok: "table_ok (no_outbox db) issued" and r: "r \<in> set issued"
    and g: "\<And>x. wi_id (g x) = wi_id x"
    and move: "\<And>x. wi_status x = PROCESSING \<Longrightarrow> wi_leaseToken x = Some (record_token r) \<Longrightarrow>
      wi_attempts x = wi_attempts r \<Longrightarrow> wi_maxAttempts x = wi_maxAttempts r \<Longrightarrow>
      item_move now (ItemSettled (record_token r)) (Some (work_item.truncate x)) (Some (work_item.truncate (g x)))"
    and token: "wi_leaseToken r \<noteq> None"
  shows "row_move now (settled_event (settle_notification (wi_id r) (record_token r) g db) r i)
    (no_outbox db) (no_outbox (snd (settle_notification (wi_id r) (record_token r) g db))) i"
proof (cases "no_available db")
  case False
  then show ?thesis by (simp add: settle_notification_def notification_database_def settled_event_def)
next
  case True
  let ?p = "lease_held (wi_id r) (record_token r) :: notification_item \<Rightarrow> bool" and ?rows = "no_outbox db"
  have "item_move now (update_event (wi_id r) (ItemSettled (record_token r)) ?p ?rows i)
      (work_at ?rows i) (work_at (update_where ?p g ?rows) i)"
  proof (rule update_moves)
    show "distinct (map wi_id ?rows)" using ok by (simp add: table_ok_def)
    fix x assume x: "x \<in> set ?rows" "?p x"
    then have "wi_id x = wi_id r" "wi_leaseToken x = wi_leaseToken r" "wi_status x = PROCESSING"
      using token by (auto simp: lease_held_def record_token_def)
    moreover from this have "wi_attempts x = wi_attempts r \<and> wi_maxAttempts x = wi_maxAttempts r"
      using ok r x(1) token unfolding table_ok_def by metis
    ultimately show "item_move now (ItemSettled (record_token r)) (Some (work_item.truncate x))
        (Some (work_item.truncate (g x)))"
      using token by (intro move) (auto simp: record_token_def)
  qed (simp_all add: lease_held_def g)
  then show ?thesis
    using True
    by (auto simp: settle_notification_def notification_database_def settled_event_def update_event_def Let_def)
qed

lemma settle_good:
  assumes "\<And>x. wi_id (g x) = wi_id x" "\<And>x. no_idempotencyKey (g x) = no_idempotencyKey x"
    and "\<And>x. wi_status x = PROCESSING \<Longrightarrow> outbox_typed x \<Longrightarrow> outbox_typed (g x)"
  shows "good_change (no_outbox db) (no_outbox (snd (settle_notification i token g db)))"
  using assms good_update [of g "lease_held i token" "no_outbox db"]
  by (auto simp: settle_notification_def Let_def lease_held_def split: option.split)

lemmas change_defs = delivered_change_def accepted_change_def failed_change_def

lemma settled_error [simp]: "settled_event (Inl e, db) r i = Untouched"
  by (simp add: settled_event_def)

lemma delivered_moves:
  assumes "table_ok (no_outbox db) issued" "r \<in> set issued" "wi_leaseToken r \<noteq> None"
  shows "row_move now (settled_event (markNotificationDelivered (wi_id r) (record_token r) m at now db) r i)
      (no_outbox db) (no_outbox (snd (markNotificationDelivered (wi_id r) (record_token r) m at now db))) i \<and>
    good_change (no_outbox db) (no_outbox (snd (markNotificationDelivered (wi_id r) (record_token r) m at now db)))"
proof (cases "assertSafeReference m ''PROVIDER_MESSAGE_ID''")
  case None
  have "row_move now (settled_event (settle_notification (wi_id r) (record_token r) (delivered_change m at now) db) r i)
      (no_outbox db) (no_outbox (snd (settle_notification (wi_id r) (record_token r) (delivered_change m at now) db))) i"
    by (rule settle_moves [OF assms(1,2) _ _ assms(3)])
      (simp_all add: change_defs item_move_simps same_work_def unleased_def terminal_statuses_def
        work_item.truncate_def)
  moreover have "good_change (no_outbox db)
      (no_outbox (snd (settle_notification (wi_id r) (record_token r) (delivered_change m at now) db)))"
    by (rule settle_good) (simp_all add: change_defs outbox_typed_def)
  ultimately show ?thesis using None by (simp add: markNotificationDelivered_def)
qed (simp add: markNotificationDelivered_def)

lemma accepted_moves:
  assumes "table_ok (no_outbox db) issued" "r \<in> set issued" "wi_leaseToken r \<noteq> None"
  shows "row_move now (settled_event (markNotificationAccepted (wi_id r) (record_token r) m at now db) r i)
      (no_outbox db) (no_outbox (snd (markNotificationAccepted (wi_id r) (record_token r) m at now db))) i \<and>
    good_change (no_outbox db) (no_outbox (snd (markNotificationAccepted (wi_id r) (record_token r) m at now db)))"
proof (cases "assertSafeReference m ''PROVIDER_MESSAGE_ID''")
  case None
  have "row_move now (settled_event (settle_notification (wi_id r) (record_token r) (accepted_change m at now) db) r i)
      (no_outbox db) (no_outbox (snd (settle_notification (wi_id r) (record_token r) (accepted_change m at now) db))) i"
    by (rule settle_moves [OF assms(1,2) _ _ assms(3)])
      (simp_all add: change_defs item_move_simps same_work_def unleased_def terminal_statuses_def
        work_item.truncate_def)
  moreover have "good_change (no_outbox db)
      (no_outbox (snd (settle_notification (wi_id r) (record_token r) (accepted_change m at now) db)))"
    by (rule settle_good) (simp_all add: change_defs outbox_typed_def)
  ultimately show ?thesis using None by (simp add: markNotificationAccepted_def)
qed (simp add: markNotificationAccepted_def)

lemma failed_moves:
  assumes "table_ok (no_outbox db) issued" "r \<in> set issued" "wi_leaseToken r \<noteq> None"
  shows "row_move now (settled_event (markNotificationFailed r (record_token r) c now db) r i)
      (no_outbox db) (no_outbox (snd (markNotificationFailed r (record_token r) c now db))) i \<and>
    good_change (no_outbox db) (no_outbox (snd (markNotificationFailed r (record_token r) c now db)))"
proof -
  have move: "row_move now (settled_event (settle_notification (wi_id r) (record_token r) (failed_change st at f now) db) r i)
      (no_outbox db) (no_outbox (snd (settle_notification (wi_id r) (record_token r) (failed_change st at f now) db))) i"
    if "st = DEAD_LETTER \<or> st = FAILED \<and> wi_attempts r < wi_maxAttempts r" for st at f
    by (rule settle_moves [OF assms(1,2) _ _ assms(3)])
      (use that in \<open>auto simp: change_defs item_move_simps same_work_def unleased_def terminal_statuses_def
        work_item.truncate_def\<close>)
  moreover have "good_change (no_outbox db)
      (no_outbox (snd (settle_notification (wi_id r) (record_token r) (failed_change st at f now) db)))"
    if "st = DEAD_LETTER \<or> st = FAILED" for st at f
    by (rule settle_good) (use that in \<open>auto simp: change_defs outbox_typed_def\<close>)
  ultimately show ?thesis
    by (simp add: markNotificationFailed_def Let_def split: option.split sum.split)
qed

lemma enqueue_moves:
  assumes "i \<notin> wi_id ` set (no_outbox db)"
  shows "row_move now (outbox_happens j (OutboxEnqueue i now input) db) (no_outbox db)
      (no_outbox (snd (enqueueNotification i now input db))) j \<and>
    good_change (no_outbox db) (no_outbox (snd (enqueueNotification i now input db)))"
proof -
  let ?r = "new_notification i now input" and ?rows = "no_outbox db"
  let ?rows' = "no_outbox (snd (enqueueNotification i now input db))"
  consider (same) "?rows' = ?rows"
    | (added) "?rows' = ?rows @ [?r]" "enqueue_checks input = None"
      "List.find (\<lambda>s. no_idempotencyKey s = no_idempotencyKey ?r) ?rows = None"
    by (cases "first_error [enqueue_checks input, notification_database db]";
      cases "List.find (\<lambda>s. no_idempotencyKey s = no_idempotencyKey ?r) ?rows"; cases "notification_fits ?r")
      (auto simp: enqueueNotification_def outbox_upsert_def first_error_None_iff split: if_splits)
  then show ?thesis
  proof cases
    case same
    then show ?thesis by simp
  next
    case added
    have r: "wi_id ?r = i" "wi_status ?r = PENDING" "wi_attempts ?r = 0" "wi_leaseToken ?r = None"
      "wi_leaseUntil ?r = None" "no_deliveredAt ?r = None"
      by (simp_all add: new_notification_def)
    have max: "1 \<le> wi_maxAttempts ?r \<and> wi_maxAttempts ?r \<le> 20"
      using added(2) by (auto simp: enqueue_checks_def new_notification_def Let_def)
    have "row_at ?rows i = None" using assms by (auto simp: row_at_def find_None_iff)
    moreover have "row_at (?rows @ [?r]) i = Some ?r"
      using r(1) calculation by (simp add: row_at_append) (simp add: row_at_def)
    ultimately have "outbox_happens j (OutboxEnqueue i now input) db = (if j = wi_id ?r then ItemCreated else Untouched)"
      by (simp add: added(1) r(1))
    then have "row_move now (outbox_happens j (OutboxEnqueue i now input) db) ?rows ?rows' j"
      using added_moves [of ?r ?rows now j] assms r max by (simp add: added(1))
    moreover have "good_change ?rows ?rows'"
      using assms added(3) max r by (auto simp: good_change_def added(1) find_None_iff outbox_typed_def)
    ultimately show ?thesis by simp
  qed
qed

lemma claim_batch_moves:
  assumes "table_ok (no_outbox db) issued"
  shows "row_move now (outbox_happens i (OutboxClaim n leaseMs now corr token locked) db) (no_outbox db)
      (no_outbox (snd (claimNotificationBatch n leaseMs now corr token locked db))) i \<and>
    good_change (no_outbox db) (no_outbox (snd (claimNotificationBatch n leaseMs now corr token locked db))) \<and>
    set (outbox_returned (OutboxClaim n leaseMs now corr token locked) db) \<subseteq>
      set (no_outbox (snd (claimNotificationBatch n leaseMs now corr token locked db))) \<and>
    (\<forall>r \<in> set (outbox_returned (OutboxClaim n leaseMs now corr token locked) db). wi_leaseToken r = Some token)"
proof (cases "fst (claimNotificationBatch n leaseMs now corr token locked db)")
  case (Inl e)
  then have "snd (claimNotificationBatch n leaseMs now corr token locked db) = db"
    by (auto simp: claimNotificationBatch_def split: option.splits prod.splits)
  with Inl show ?thesis by simp
next
  case (Inr records)
  then obtain wanted rows where run: "claim_rows ''LEASE_EXHAUSTED'' wanted
      (\<lambda>i. (wi_nextAttemptAt i, wi_createdAt i)) locked token n leaseMs now (no_outbox db) = (records, rows)"
    and rows: "no_outbox (snd (claimNotificationBatch n leaseMs now corr token locked db)) = rows"
    and pos: "0 < leaseMs"
    by (auto simp: claimNotificationBatch_def batch_error_def split: option.splits prod.splits)
  have dist: "distinct (map wi_id (no_outbox db))" using assms by (simp add: table_ok_def)
  have "map wi_id rows = map wi_id (no_outbox db)" "map no_idempotencyKey rows = map no_idempotencyKey (no_outbox db)"
    by (rule claim_rows_map [OF run]; simp add: give_up_def take_lease_def)+
  moreover have "list_all outbox_typed (no_outbox db) \<Longrightarrow> list_all outbox_typed rows"
    by (erule claim_rows_all [OF run dist])
      (auto simp: outbox_typed_def give_up_def take_lease_def lease_exhausted_def candidate_def)
  ultimately have "good_change (no_outbox db) rows" by (simp add: good_change_def)
  then show ?thesis
    using claim_moves [OF run dist pos] claim_rows_at(2) [OF run dist] claim_rows_token [OF run] Inr rows by simp
qed

lemma retry_moves:
  assumes "table_ok (no_outbox db) issued"
  shows "row_move now (outbox_happens j (OutboxRetry i now) db) (no_outbox db)
      (no_outbox (snd (retryDeadLetterNotification i now db))) j \<and>
    good_change (no_outbox db) (no_outbox (snd (retryDeadLetterNotification i now db)))"
proof (cases "first_error [assertSafeReference i ''ID'', notification_database db]")
  case (Some e)
  then show ?thesis by (simp add: retryDeadLetterNotification_def)
next
  case None
  let ?dead = "\<lambda>r :: notification_item. wi_id r = i \<and> wi_status r = DEAD_LETTER"
  let ?g = "\<lambda>r :: notification_item. r\<lparr>wi_status := PENDING, wi_attempts := 0, wi_nextAttemptAt := now,
    wi_leaseToken := None, wi_leaseUntil := None, wi_lastFailureCode := None, no_providerMessageId := None,
    no_deliveredAt := None, wi_updatedAt := now\<rparr>"
  have rows': "no_outbox (snd (retryDeadLetterNotification i now db)) = update_where ?dead ?g (no_outbox db)"
    using None by (simp add: retryDeadLetterNotification_def Let_def)
  have "item_move now (update_event i Revived ?dead (no_outbox db) j) (work_at (no_outbox db) j)
      (work_at (update_where ?dead ?g (no_outbox db)) j)"
    by (rule update_moves)
      (use assms in \<open>auto simp: table_ok_def item_move_simps same_work_def unleased_def work_item.truncate_def\<close>)
  moreover have "outbox_happens j (OutboxRetry i now) db = update_event i Revived ?dead (no_outbox db) j"
    using None by (simp add: retryDeadLetterNotification_def Let_def update_event_def)
  moreover have "good_change (no_outbox db) (update_where ?dead ?g (no_outbox db))"
    by (rule good_update) (auto simp: outbox_typed_def)
  ultimately show ?thesis by (simp only: rows')
qed

lemma outbox_call_step:
  assumes ok: "outbox_ok s" and enabled: "outbox_enabled op s" and fresh: "outbox_fresh op s"
  shows "row_move (outbox_clock op) (outbox_happens i op (os_db s)) (no_outbox (os_db s))
      (no_outbox (snd (outbox_call op (os_db s)))) i \<and>
    good_change (no_outbox (os_db s)) (no_outbox (snd (outbox_call op (os_db s)))) \<and>
    set (outbox_returned op (os_db s)) \<subseteq> set (no_outbox (snd (outbox_call op (os_db s)))) \<and>
    (\<forall>r \<in> set (outbox_returned op (os_db s)). wi_leaseToken r \<noteq> None)"
proof -
  have table: "table_ok (no_outbox (os_db s)) (os_issued s)"
    and issued: "\<forall>r \<in> set (os_issued s). wi_leaseToken r \<noteq> None"
    using ok by (simp_all add: outbox_ok_def)
  show ?thesis
  proof (cases op)
    case (OutboxEnqueue i now input)
    then show ?thesis
      using fresh enqueue_moves by (simp add: split_beta del: outbox_happens.simps)
  next
    case (OutboxClaim n leaseMs now corr token locked)
    then show ?thesis
      using claim_batch_moves [OF table, of now _ n leaseMs corr token locked]
      by (simp add: split_beta del: outbox_happens.simps outbox_returned.simps(1))
  next
    case (OutboxDelivered r m at now)
    with enabled issued delivered_moves [OF table] show ?thesis by simp
  next
    case (OutboxAccepted r m at now)
    with enabled issued accepted_moves [OF table] show ?thesis by simp
  next
    case (OutboxFailed r c now)
    with enabled issued failed_moves [OF table] show ?thesis by simp
  next
    case (OutboxRetry i now)
    with retry_moves [OF table] show ?thesis by (simp del: outbox_happens.simps)
  qed
qed

lemma claimed_returned:
  assumes "outbox_happens i op db = ItemClaimed t"
  shows "\<exists>r \<in> set (outbox_returned op db). wi_leaseToken r = Some t"
    and "\<exists>n l now c locked. op = OutboxClaim n l now c t locked"
proof -
  have *: "\<exists>n l now c locked rs. op = OutboxClaim n l now c t locked \<and>
      fst (claimNotificationBatch n l now c t locked db) = Inr rs \<and> rs \<noteq> []"
    using assms
    by (cases op) (auto simp: settled_event_def claim_event_def split: sum.splits if_splits option.splits)
  then show "\<exists>n l now c locked. op = OutboxClaim n l now c t locked" by blast
  from * obtain n l now c locked rs where op: "op = OutboxClaim n l now c t locked"
    and rs: "fst (claimNotificationBatch n l now c t locked db) = Inr rs" "rs \<noteq> []" by blast
  obtain wanted rows where run: "claim_rows ''LEASE_EXHAUSTED'' wanted
      (\<lambda>i. (wi_nextAttemptAt i, wi_createdAt i)) locked t n l now (no_outbox db) = (rs, rows)"
    using rs(1) by (auto simp: claimNotificationBatch_def split: option.splits prod.splits)
  have "wi_leaseToken (hd rs) = Some t" using claim_rows_token [OF run, of "hd rs"] rs(2) by simp
  then show "\<exists>r \<in> set (outbox_returned op db). wi_leaseToken r = Some t"
    using rs by (auto simp: op intro!: bexI [of _ "hd rs"])
qed

lemma outbox_step_ok:
  assumes ok: "outbox_ok s" and fresh: "outbox_fresh op s"
  shows "outbox_ok (outbox_step op s)"
proof (cases "outbox_enabled op s")
  case False
  with ok show ?thesis by (simp add: outbox_step_def)
next
  case True
  let ?rows = "no_outbox (os_db s)" and ?rows' = "no_outbox (snd (outbox_call op (os_db s)))"
  note step = outbox_call_step [OF ok True fresh]
  have table: "table_ok ?rows (os_issued s)" using ok by (simp add: outbox_ok_def)
  have "table_ok ?rows' (os_issued s @ outbox_returned op (os_db s))"
  proof (rule table_ok_step [OF table])
    show "distinct (map wi_id ?rows')" using step table by (auto simp: good_change_def table_ok_def)
    show "row_move (outbox_clock op) (outbox_happens i op (os_db s)) ?rows ?rows' i" for i using step by blast
    show "t \<notin> lease_tokens (os_issued s) \<and> t \<in> lease_tokens (outbox_returned op (os_db s))"
      if "outbox_happens i op (os_db s) = ItemClaimed t" for i t
    proof
      show "t \<notin> lease_tokens (os_issued s)" using claimed_returned(2) [OF that] fresh by auto
      from claimed_returned(1) [OF that] have "Some t \<in> wi_leaseToken ` set (outbox_returned op (os_db s))"
        by (metis imageI)
      then show "t \<in> lease_tokens (outbox_returned op (os_db s))" by (simp add: lease_tokens_def)
    qed
  qed (use step in blast)
  then show ?thesis using ok step True by (auto simp: outbox_step_def outbox_ok_def good_change_def)
qed

interpretation outbox: leased_table outbox_ok outbox_fresh outbox_item outbox_used outbox_clock outbox_event outbox_step
proof
  fix s op i t x
  assume ok: "outbox_ok s"
  show "outbox_item s i = Some x \<Longrightarrow> item_ok x"
    using ok table_ok_at(1) by (auto simp: outbox_item_def outbox_ok_def)
  show "outbox_item s i = Some x \<Longrightarrow> wi_leaseToken x = Some t \<Longrightarrow> t \<in> outbox_used s"
    using ok table_ok_at(2) by (auto simp: outbox_item_def outbox_ok_def outbox_used_def)
  assume fresh: "outbox_fresh op s"
  show "outbox_ok (outbox_step op s)" by (rule outbox_step_ok [OF ok fresh])
  show "item_move (outbox_clock op) (outbox_event i op s) (outbox_item s i) (outbox_item (outbox_step op s) i)"
  proof (cases "outbox_enabled op s")
    case True
    with outbox_call_step [OF ok True fresh, of i] show ?thesis
      by (simp add: outbox_step_def outbox_event_def outbox_item_def)
  qed (simp add: outbox_step_def outbox_event_def item_move_simps)
  show "outbox_used s \<subseteq> outbox_used (outbox_step op s)"
    by (auto simp: outbox_used_def outbox_step_def lease_tokens_def)
  show "outbox_event i op s = ItemClaimed t \<Longrightarrow> t \<notin> outbox_used s"
    using claimed_returned(2) [of i op "os_db s" t] fresh
    by (auto simp: outbox_event_def outbox_used_def split: if_splits)
qed

section \<open>Properties\<close>

text \<open>
  What a worker records of a notification belongs to its own claim: when a settlement under
  the token of a claim is accepted, whatever enqueueing, claiming, settling and reviving happened in
  between, nothing has touched the notification since that claim.
\<close>

theorem notification_delivery_fenced:
  assumes "outbox_ok s" "outbox_fresh op s" "outbox_event i op s = ItemClaimed t"
    and "fresh_run outbox_fresh outbox_step ops (outbox_step op s)"
    and "outbox_fresh op' (queue_run outbox_step ops (outbox_step op s))"
    and "outbox_event i op' (queue_run outbox_step ops (outbox_step op s)) = ItemSettled t"
  shows "snd ` set (item_trace outbox_clock (outbox_event i) outbox_step ops (outbox_step op s)) \<subseteq> {Untouched}"
  using assms by (rule outbox.settled_after_claim)

definition empty_outbox :: outbox_state where
  "empty_outbox = \<lparr>os_db = \<lparr>no_available = True, no_outbox = []\<rparr>, os_issued = []\<rparr>"

lemma empty_outbox_ok: "outbox_ok empty_outbox"
  by (simp add: empty_outbox_def outbox_ok_def table_ok_def)

text \<open>
  A notification is handed to the provider at most as often as its attempts allow: in every run
  its attempts are those it had plus the claims of the run, they never exceed \<open>maxAttempts\<close>, and that
  is at most twenty, unless an operator revives it.
\<close>

theorem notification_attempts_bounded:
  assumes "outbox_ok s" "fresh_run outbox_fresh outbox_step ops s" "outbox_item s i = Some x"
    and "snd ` set (item_trace outbox_clock (outbox_event i) outbox_step ops s) \<inter> {Revived, Erased} = {}"
  shows "\<exists>y. outbox_item (queue_run outbox_step ops s) i = Some y \<and>
    wi_attempts y = wi_attempts x + int (claims_in (item_trace outbox_clock (outbox_event i) outbox_step ops s)) \<and>
    wi_maxAttempts y = wi_maxAttempts x \<and> wi_attempts y \<le> wi_maxAttempts y \<and> wi_maxAttempts y \<le> 20"
proof -
  from outbox.claims_bounded [OF assms] obtain y where y: "outbox_item (queue_run outbox_step ops s) i = Some y"
    "wi_attempts y = wi_attempts x + int (claims_in (item_trace outbox_clock (outbox_event i) outbox_step ops s))"
    "wi_maxAttempts y = wi_maxAttempts x" "wi_attempts y \<le> wi_maxAttempts y" by blast
  have "outbox_ok (queue_run outbox_step ops s)" using assms(1,2) by (rule outbox.run_ok)
  then have "wi_maxAttempts y \<le> 20"
    using y(1) by (auto simp: outbox_ok_def outbox_typed_def outbox_item_def list_all_iff dest!: at_in_rows)
  with y show ?thesis by blast
qed

definition greeting :: notification_input where
  "greeting = \<lparr>ni_idempotencyKey = ''key-1'', ni_notificationType = ''WELCOME'', ni_recipientReference = ''user:1'',
     ni_recipientUserId = Some ''user-1'', ni_templateReference = ''greeting'', ni_correlationId = ''corr-1'',
     ni_maximumAttempts = Some 1\<rparr>"

definition greeted :: outbox_state where
  "greeted = outbox_step (OutboxEnqueue ''n-1'' 0 greeting) empty_outbox"

definition greeting_claim :: outbox_op where
  "greeting_claim = OutboxClaim 10 1000 5 None ''t-1'' []"

definition greeting_record :: notification_item where
  "greeting_record = take_lease ''t-1'' 1005 5 (new_notification ''n-1'' 0 greeting)"

lemma greeted_ok: "outbox_ok greeted"
  using outbox.run_ok [OF empty_outbox_ok, of "[OutboxEnqueue ''n-1'' 0 greeting]"]
  by (simp add: greeted_def) (simp add: empty_outbox_def)

lemma greeting_events:
  "outbox_event ''n-1'' greeting_claim greeted = ItemClaimed ''t-1''"
  "outbox_event ''n-1'' (OutboxDelivered greeting_record ''msg-1'' 7 7)
     (outbox_step (OutboxEnqueue ''n-2'' 6 greeting) (outbox_step greeting_claim greeted)) = ItemSettled ''t-1''"
  by code_simp+

lemma greeting_fresh:
  "outbox_fresh greeting_claim greeted"
  "fresh_run outbox_fresh outbox_step [OutboxEnqueue ''n-2'' 6 greeting] (outbox_step greeting_claim greeted)"
  "outbox_fresh (OutboxDelivered greeting_record ''msg-1'' 7 7) s"
proof -
  show "outbox_fresh greeting_claim greeted"
    by (simp add: greeting_claim_def greeted_def outbox_step_def empty_outbox_def lease_tokens_def)
  have "wi_id ` set (no_outbox (os_db (outbox_step greeting_claim greeted))) = {''n-1''}" by code_simp
  then show "fresh_run outbox_fresh outbox_step [OutboxEnqueue ''n-2'' 6 greeting] (outbox_step greeting_claim greeted)"
    by simp
qed simp

theorem notification_delivery_fenced_witness:
  "snd ` set (item_trace outbox_clock (outbox_event ''n-1'') outbox_step [OutboxEnqueue ''n-2'' 6 greeting]
     (outbox_step greeting_claim greeted)) \<subseteq> {Untouched}"
  using notification_delivery_fenced [OF greeted_ok greeting_fresh(1) greeting_events(1) greeting_fresh(2,3)]
    greeting_events(2) by simp

theorem notification_attempts_bounded_witness:
  "\<exists>y. outbox_item (outbox_step greeting_claim greeted) ''n-1'' = Some y \<and> wi_attempts y = 1 \<and> wi_maxAttempts y = 1"
proof -
  obtain x where x: "outbox_item greeted ''n-1'' = Some x" "wi_attempts x = 0" "wi_maxAttempts x = 1"
    by (rule that [of "work_item.truncate (new_notification ''n-1'' 0 greeting)"]) code_simp+
  have "fresh_run outbox_fresh outbox_step [greeting_claim] greeted" using greeting_fresh(1) by simp
  from notification_attempts_bounded [OF greeted_ok this x(1)] x greeting_events(1)
  show ?thesis by auto
qed

section \<open>Where the loop falls short\<close>

text \<open>
  A delivery the provider has accepted on the last attempt is asked for once more under no token;
  the next claim takes it for a lost lease and makes it a dead letter.
\<close>

definition accepting :: "notification_item \<Rightarrow> string option + notification_delivery" where
  "accepting r = Inr \<lparr>nd_providerMessageId = ''msg-1'', nd_terminal = DELIVERY_ACCEPTED\<rparr>"

definition outbox_summary where
  "outbox_summary db = map (\<lambda>r. (wi_status r, no_providerMessageId r, wi_lastFailureCode r)) (no_outbox db)"

theorem accepted_notification_dead_letter:
  "let db1 = snd (processNotificationBatch accepting 10 1000 5 None ''t-1'' [] (os_db greeted));
       db2 = snd (claimNotificationBatch 10 1000 100000 None ''t-2'' [] db1)
   in outbox_summary db1 = [(PROCESSING, Some ''msg-1'', None)] \<and>
      outbox_summary db2 = [(DEAD_LETTER, Some ''msg-1'', Some ''LEASE_EXHAUSTED'')]"
  by code_simp

text \<open>
  A worker that has lost the lease of one record leaves the loop: the records after it stay
  claimed, and their attempt is spent, until their own leases expire.
\<close>

definition lost_record :: notification_item where
  "lost_record = greeting_record\<lparr>wi_id := ''n-0'', no_idempotencyKey := ''key-0''\<rparr>"

theorem lost_lease_leaves_batch:
  "let (r, db) = process_records accepting 7 [lost_record, greeting_record]
         \<lparr>bc_claimed = 2, bc_delivered = 0, bc_failed = 0, bc_deadLettered = 0\<rparr>
         \<lparr>no_available = True, no_outbox = [lost_record\<lparr>wi_leaseToken := Some ''t-9''\<rparr>, greeting_record]\<rparr>
   in r = Inl NOTIFICATION_LEASE_LOST \<and>
      map (\<lambda>r. (wi_status r, wi_leaseToken r)) (no_outbox db) =
        [(PROCESSING, Some ''t-9''), (PROCESSING, Some ''t-1'')]"
  by code_simp

end
