(* ===== verification/LeasedRows.thy ===== *)
theory LeasedRows
  imports WorkItems
begin

text \<open>
  Tables of leased work items inside a larger system: the events of a step are read off the rows
  before and after it, and a table whose rows move and whose claims draw new tokens keeps the
  contract \<open>leased_table\<close>.
\<close>

definition row_event ::
  "string \<Rightarrow> item_event \<Rightarrow> 'a work_item_scheme list \<Rightarrow> 'a work_item_scheme list \<Rightarrow> string \<Rightarrow> item_event" where
  "row_event a e rows rows' i = (if i = a \<and> row_at rows' i \<noteq> row_at rows i then e else Untouched)"

definition erased_event ::
  "'a work_item_scheme list \<Rightarrow> 'a work_item_scheme list \<Rightarrow> string \<Rightarrow> item_event" where
  "erased_event rows rows' i = (if row_at rows' i \<noteq> row_at rows i then Erased else Untouched)"

lemma row_event_same [simp]: "row_event a e rows rows i = Untouched"
  by (simp add: row_event_def)

definition rows_move ::
  "ms \<Rightarrow> (string \<Rightarrow> item_event) \<Rightarrow> 'a work_item_scheme list \<Rightarrow> 'a work_item_scheme list \<Rightarrow> bool" where
  "rows_move now ev rows rows' \<longleftrightarrow> distinct (map wi_id rows') \<and>
     (\<forall>i. item_move now (ev i) (work_at rows i) (work_at rows' i))"

lemma rows_move_same:
  assumes "distinct (map wi_id rows)" "\<And>i. ev i = Untouched"
  shows "rows_move now ev rows rows"
  using assms by (simp add: rows_move_def item_move_simps)

lemma rows_move_update:
  assumes dist: "distinct (map wi_id rows)" and p: "\<And>r. p r \<Longrightarrow> wi_id r = a"
    and g: "\<And>r. wi_id (g r) = wi_id r"
    and move: "\<And>r. r \<in> set rows \<Longrightarrow> p r \<Longrightarrow>
      item_move now e (Some (work_item.truncate r)) (Some (work_item.truncate (g r)))"
  shows "rows_move now (row_event a e rows (update_where p g rows)) rows (update_where p g rows)"
proof -
  have "item_move now (row_event a e rows (update_where p g rows) i) (work_at rows i)
      (work_at (update_where p g rows) i)" for i
  proof (cases "row_at rows i")
    case None
    then show ?thesis by (simp add: row_event_def work_at_def row_at_update [OF g] item_move_simps)
  next
    case (Some r)
    have r: "r \<in> set rows" "wi_id r = i" using row_at_in [OF Some] by auto
    show ?thesis
      using Some r move [OF r(1)] p [of r]
      by (auto simp: row_event_def work_at_def row_at_update [OF g] item_move_simps)
  qed
  moreover have "map wi_id (update_where p g rows) = map wi_id rows" by (rule map_update_where) (rule g)
  ultimately show ?thesis using dist by (simp add: rows_move_def)
qed

text \<open>Settling under the token of a record that a claim has returned.\<close>

lemma rows_move_settle:
  assumes ok: "table_ok rows issued" and q: "q \<in> set issued" "wi_leaseToken q \<noteq> None"
    and g: "\<And>x. wi_id (g x) = wi_id x"
    and move: "\<And>x. wi_status x = PROCESSING \<Longrightarrow> wi_leaseToken x = wi_leaseToken q \<Longrightarrow>
      wi_attempts x = wi_attempts q \<Longrightarrow> wi_maxAttempts x = wi_maxAttempts q \<Longrightarrow>
      item_move now (ItemSettled (the (wi_leaseToken q))) (Some (work_item.truncate x)) (Some (work_item.truncate (g x)))"
    and rows': "rows' = update_where (lease_held (wi_id q) (the (wi_leaseToken q))) g rows"
  shows "rows_move now (row_event (wi_id q) (ItemSettled (the (wi_leaseToken q))) rows rows') rows rows'"
  unfolding rows'
proof (rule rows_move_update)
  fix x assume x: "x \<in> set rows" "lease_held (wi_id q) (the (wi_leaseToken q)) x"
  then have "wi_id x = wi_id q" "wi_leaseToken x = wi_leaseToken q" "wi_status x = PROCESSING"
    using q(2) by (auto simp: lease_held_def)
  moreover from this have "wi_attempts x = wi_attempts q \<and> wi_maxAttempts x = wi_maxAttempts q"
    using ok q x(1) unfolding table_ok_def by metis
  ultimately show "item_move now (ItemSettled (the (wi_leaseToken q))) (Some (work_item.truncate x))
      (Some (work_item.truncate (g x)))"
    by (intro move) auto
qed (use ok g in \<open>auto simp: table_ok_def lease_held_def\<close>)

lemma rows_move_add:
  assumes "distinct (map wi_id rows)" "wi_id r \<notin> wi_id ` set rows"
    and "wi_status r = PENDING" "wi_attempts r = 0" "1 \<le> wi_maxAttempts r"
    and "wi_leaseToken r = None" "wi_leaseUntil r = None"
  shows "rows_move now (row_event (wi_id r) ItemCreated rows (rows @ [r])) rows (rows @ [r])"
proof -
  have none: "row_at rows (wi_id r) = None" using assms(2) unfolding row_at_def find_None_iff by (metis imageI)
  have "row_event (wi_id r) ItemCreated rows (rows @ [r]) i = (if i = wi_id r then ItemCreated else Untouched)" for i
    using none by (simp add: row_event_def row_at_append) (simp add: row_at_def)
  with added_moves [of r rows now] assms show ?thesis by (simp add: rows_move_def)
qed

lemma rows_move_claim:
  assumes run: "claim_rows failure wanted order locked token n leaseMs now rows = (claimedRows, rows')"
    and dist: "distinct (map wi_id rows)" and pos: "0 < leaseMs"
  shows "rows_move now (claim_event now token rows claimedRows) rows rows'"
  using claim_moves [OF run dist pos] claim_rows_at(1) [OF run dist] dist by (simp add: rows_move_def)

text \<open>A claim row by row.\<close>

lemma claim_rows_pointwise:
  assumes run: "claim_rows failure wanted order locked token n leaseMs now rows = (claimedRows, rows')"
    and dist: "distinct (map wi_id rows)"
  obtains G where "rows' = map G rows"
    and "\<And>r. r \<in> set rows \<Longrightarrow> lease_exhausted now r \<and> G r = give_up failure now r \<or>
      \<not> lease_exhausted now r \<and> candidate now r \<and> G r = take_lease token (now + leaseMs) now r \<or>
      \<not> lease_exhausted now r \<and> G r = r"
proof -
  define G where "G r = the (row_at rows' (wi_id r))" for r :: "'a work_item_scheme"
  have ids: "map wi_id rows' = map wi_id rows" by (rule claim_rows_at(1) [OF run dist])
  then have dist': "distinct (map wi_id rows')" using dist by simp
  have len: "length rows' = length rows" using arg_cong [OF ids, of length] by simp
  have "rows' ! k = G (rows ! k)" if "k < length rows" for k
  proof -
    have "wi_id (rows' ! k) = wi_id (rows ! k)" using arg_cong [OF ids, of "\<lambda>xs. xs ! k"] that len by simp
    with row_at_set [OF dist', of "rows' ! k"] that len show ?thesis by (simp add: G_def)
  qed
  then have "rows' = map G rows" by (intro nth_equalityI) (simp_all add: len)
  moreover have "lease_exhausted now r \<and> G r = give_up failure now r \<or>
      \<not> lease_exhausted now r \<and> candidate now r \<and> G r = take_lease token (now + leaseMs) now r \<or>
      \<not> lease_exhausted now r \<and> G r = r" if "r \<in> set rows" for r
    using claim_rows_at(4) [OF run dist row_at_set [OF dist that]] by (auto simp: G_def)
  ultimately show ?thesis by (rule that)
qed

lemma row_at_filter:
  assumes "distinct (map wi_id rows)"
  shows "row_at (filter p rows) i = (case row_at rows i of Some r \<Rightarrow> if p r then Some r else None | None \<Rightarrow> None)"
  using assms
proof (induction rows)
  case (Cons r rows)
  have "row_at rows (wi_id r) = None" using Cons.prems unfolding row_at_def find_None_iff by (auto simp: image_iff)
  with Cons show ?case by (auto simp: row_at_def split: option.splits)
qed simp

lemma rows_move_erase:
  assumes dist: "distinct (map wi_id rows)"
    and gone: "\<And>r. r \<in> set rows \<Longrightarrow> \<not> p r \<Longrightarrow> wi_status r \<in> terminal_statuses \<union> {DEAD_LETTER}"
  shows "rows_move now (erased_event rows (filter p rows)) rows (filter p rows)"
proof -
  have "item_move now (erased_event rows (filter p rows) i) (work_at rows i) (work_at (filter p rows) i)" for i
  proof (cases "row_at rows i")
    case None
    then show ?thesis by (simp add: erased_event_def work_at_def row_at_filter [OF dist] item_move_simps)
  next
    case (Some r)
    with gone [of r] row_at_in [OF Some] show ?thesis
      by (auto simp: erased_event_def work_at_def row_at_filter [OF dist] item_move_simps)
  qed
  then show ?thesis using dist by (simp add: rows_move_def distinct_map_filter)
qed

lemma claim_event_claimed:
  assumes "claim_event now token rows claimedRows i = ItemClaimed t"
  shows "t = token \<and> i \<in> wi_id ` set claimedRows"
  using assms by (auto simp: claim_event_def split: option.splits if_splits)

lemma row_event_claimed [simp]: "(\<And>t. e \<noteq> ItemClaimed t) \<Longrightarrow> row_event a e rows rows' i \<noteq> ItemClaimed t"
  by (simp add: row_event_def)

section \<open>The contract of a table inside a system\<close>

text \<open>
  \<open>rows\<close> is the table, \<open>issued\<close> the records its claims have returned so far, \<open>returned\<close> those of one
  step.
\<close>

locale leased_rows =
  fixes ok :: "'s \<Rightarrow> bool"
    and fresh :: "'op \<Rightarrow> 's \<Rightarrow> bool"
    and rows :: "'s \<Rightarrow> 'a work_item_scheme list"
    and issued :: "'s \<Rightarrow> 'a work_item_scheme list"
    and clock :: "'op \<Rightarrow> ms"
    and event :: "string \<Rightarrow> 'op \<Rightarrow> 's \<Rightarrow> item_event"
    and step :: "'op \<Rightarrow> 's \<Rightarrow> 's"
  assumes keeps_ok: "ok s \<Longrightarrow> fresh op s \<Longrightarrow> ok (step op s)"
    and rows_ok: "ok s \<Longrightarrow> table_ok (rows s) (issued s)"
    and rows_move: "ok s \<Longrightarrow> fresh op s \<Longrightarrow> rows_move (clock op) (\<lambda>i. event i op s) (rows s) (rows (step op s))"
    and issued_grows: "ok s \<Longrightarrow> fresh op s \<Longrightarrow> set (issued s) \<subseteq> set (issued (step op s))"
    and draws: "ok s \<Longrightarrow> fresh op s \<Longrightarrow> event i op s = ItemClaimed t \<Longrightarrow> t \<notin> lease_tokens (issued s)"

sublocale leased_rows \<subseteq> leased_table ok fresh "\<lambda>s. work_at (rows s)" "\<lambda>s. lease_tokens (issued s)" clock event step
proof
  fix s op i t x
  assume ok: "ok s"
  show "work_at (rows s) i = Some x \<Longrightarrow> item_ok x" by (rule table_ok_at(1) [OF rows_ok [OF ok]])
  show "work_at (rows s) i = Some x \<Longrightarrow> wi_leaseToken x = Some t \<Longrightarrow> t \<in> lease_tokens (issued s)"
    by (rule table_ok_at(2) [OF rows_ok [OF ok]])
  assume fresh: "fresh op s"
  show "ok (step op s)" by (rule keeps_ok [OF ok fresh])
  show "item_move (clock op) (event i op s) (work_at (rows s) i) (work_at (rows (step op s)) i)"
    using rows_move [OF ok fresh] by (simp add: rows_move_def)
  show "lease_tokens (issued s) \<subseteq> lease_tokens (issued (step op s))"
    using issued_grows [OF ok fresh] by (auto simp: lease_tokens_def)
  show "event i op s = ItemClaimed t \<Longrightarrow> t \<notin> lease_tokens (issued s)" by (rule draws [OF ok fresh])
qed

lemma table_ok_rows_move:
  assumes ok: "table_ok rows issued" and moves: "rows_move now ev rows rows'" and new: "set new \<subseteq> set rows'"
    and drawn: "\<And>i t. ev i = ItemClaimed t \<Longrightarrow> t \<notin> lease_tokens issued \<and> t \<in> lease_tokens new"
  shows "table_ok rows' (issued @ new)"
  by (rule table_ok_step [OF ok _ _ drawn new]) (use moves in \<open>auto simp: rows_move_def\<close>)

end
