(* ===== verification/JiraPolicy.thy ===== *)
theory JiraPolicy
  imports Prelude
begin

text \<open>
  The pure parts of the Jira integration: which portal status a Jira status means and whether it
  applies (\<open>lib/jira-sync-policy.ts\<close>), the texts that pass between the two systems (the same file
  and \<open>lib/jira.ts\<close>), and the payloads sent to Jira. Unicode normalisation \<open>nfkc\<close> and the hash
  \<open>sha256\<close> are parameters; characters are those of one byte.
\<close>

section \<open>Statuses\<close>

datatype request_status = NEW | OPEN | IN_PROGRESS | WAITING_CUSTOMER | RESOLVED | CLOSED

definition status_of_name :: "string \<Rightarrow> request_status option" where
  "status_of_name = map_of
     [(''NEW'', NEW), (''OPEN'', OPEN), (''IN_PROGRESS'', IN_PROGRESS), (''WAITING_CUSTOMER'', WAITING_CUSTOMER),
      (''RESOLVED'', RESOLVED), (''CLOSED'', CLOSED)]"

fun status_text :: "request_status \<Rightarrow> string" where
  "status_text NEW = ''NEW''"
| "status_text OPEN = ''OPEN''"
| "status_text IN_PROGRESS = ''IN_PROGRESS''"
| "status_text WAITING_CUSTOMER = ''WAITING_CUSTOMER''"
| "status_text RESOLVED = ''RESOLVED''"
| "status_text CLOSED = ''CLOSED''"

definition DEFAULT_STATUS_MAPPING :: "string \<Rightarrow> request_status option" where
  "DEFAULT_STATUS_MAPPING = map_of
     [(''to do'', OPEN), (''todo'', OPEN), (''open'', OPEN), (''new'', OPEN), (''in progress'', IN_PROGRESS),
      (''waiting for customer'', WAITING_CUSTOMER), (''waiting customer'', WAITING_CUSTOMER),
      (''resolved'', RESOLVED), (''done'', RESOLVED), (''closed'', CLOSED)]"

text \<open>
  The mapping of the organization is a JSON value; its entries that name a portal status win over
  the defaults, later ones over earlier ones. The objects of the code inherit properties such as
  \<open>constructor\<close>, which are no statuses; a Jira status of such a name is unknown here.
\<close>

definition custom_entry :: "string \<times> json \<Rightarrow> (string \<times> request_status) option" where
  "custom_entry e =
     (case e of
        (name, JString status) \<Rightarrow> map_option (\<lambda>s. (to_lower (trim name), s)) (status_of_name status)
      | _ \<Rightarrow> None)"

definition custom_statuses :: "json option \<Rightarrow> string \<Rightarrow> request_status option" where
  "custom_statuses mapping =
     (case mapping of
        Some (JObject entries) \<Rightarrow> map_of (rev (List.map_filter custom_entry entries))
      | _ \<Rightarrow> (\<lambda>_. None))"

definition resolveJiraStatus :: "string \<Rightarrow> json option \<Rightarrow> request_status option" where
  "resolveJiraStatus statusName organizationMapping =
     (let name = to_lower (trim statusName) in
      case custom_statuses organizationMapping name of
        Some s \<Rightarrow> Some s
      | None \<Rightarrow> DEFAULT_STATUS_MAPPING name)"

datatype transition_decision = STALE | TERMINAL_CONFLICT | UNCHANGED | APPLY

definition terminal_status :: "request_status \<Rightarrow> bool" where
  "terminal_status s \<longleftrightarrow> s = RESOLVED \<or> s = CLOSED"

definition statusTransitionDecision ::
  "request_status \<Rightarrow> ms option \<Rightarrow> request_status \<Rightarrow> ms \<Rightarrow> transition_decision" where
  "statusTransitionDecision currentStatus currentJiraUpdatedAt incomingStatus incomingJiraUpdatedAt =
     (if (case currentJiraUpdatedAt of None \<Rightarrow> False | Some t \<Rightarrow> incomingJiraUpdatedAt \<le> t) then STALE
      else if terminal_status currentStatus \<and> \<not> terminal_status incomingStatus then TERMINAL_CONFLICT
      else if currentStatus = incomingStatus then UNCHANGED
      else APPLY)"

section \<open>Texts\<close>

text \<open>\<open>.replace(/\r\n?/gu, '\n')\<close>.\<close>

fun unify_newlines :: "string \<Rightarrow> string" where
  "unify_newlines [] = []"
| "unify_newlines [c] = (if c = CHR 0x0D then [CHR 0x0A] else [c])"
| "unify_newlines (c # d # cs) =
     (if c = CHR 0x0D then CHR 0x0A # (if d = CHR 0x0A then unify_newlines cs else unify_newlines (d # cs))
      else c # unify_newlines (d # cs))"

text \<open>The control characters that are removed.\<close>

definition is_control :: "char \<Rightarrow> bool" where
  "is_control c \<longleftrightarrow> code c \<le> 8 \<or> code c = 11 \<or> code c = 12 \<or> 14 \<le> code c \<and> code c \<le> 31 \<or> code c = 127"

definition strip_controls :: "string \<Rightarrow> string" where
  "strip_controls = filter (\<lambda>c. \<not> is_control c)"

text \<open>\<open>.replace(/[ \t]+\n/gu, '\n')\<close>: blanks in front of a line end.\<close>

definition is_blank :: "char \<Rightarrow> bool" where
  "is_blank c \<longleftrightarrow> c = CHR '' '' \<or> c = CHR 0x09"

fun strip_blanks :: "string \<Rightarrow> string" where
  "strip_blanks [] = []"
| "strip_blanks (c # cs) =
     (case strip_blanks cs of
        [] \<Rightarrow> [c]
      | d # ds \<Rightarrow> if is_blank c \<and> d = CHR 0x0A then d # ds else c # d # ds)"

text \<open>\<open>.replace(/\n{3,}/gu, '\n\n')\<close>.\<close>

fun squeeze_newlines :: "string \<Rightarrow> string" where
  "squeeze_newlines [] = []"
| "squeeze_newlines (c # cs) =
     (case squeeze_newlines cs of
        d # e # ds \<Rightarrow> if c = CHR 0x0A \<and> d = CHR 0x0A \<and> e = CHR 0x0A then d # e # ds else c # d # e # ds
      | ds \<Rightarrow> c # ds)"

datatype text_error = TEXT_REQUIRED string | TEXT_TOO_LONG string | TEXT_HTML_DENIED | TEXT_PAYLOAD_INVALID string

definition normalizedText :: "(string \<Rightarrow> string) \<Rightarrow> string \<Rightarrow> int \<Rightarrow> string \<Rightarrow> text_error + string" where
  "normalizedText nfkc v maximumLength name =
     (let text = trim (squeeze_newlines (strip_blanks (strip_controls (unify_newlines (nfkc v))))) in
      if text = [] then Inl (TEXT_REQUIRED name)
      else if maximumLength < int (length text) then Inl (TEXT_TOO_LONG name)
      else Inr text)"

text \<open>
  \<open>HTML_TAG\<close>, \<open><\/?[a-z][^>]*>\<close> whatever the case: behind a \<open><\<close>, an optional slash, a letter, and
  the text up to the next \<open>>\<close>. The value is what follows the tag.
\<close>

definition is_letter :: "char \<Rightarrow> bool" where
  "is_letter c \<longleftrightarrow> is_lower_case c \<or> is_upper_case c"

definition tag_rest :: "string \<Rightarrow> string option" where
  "tag_rest cs =
     (case (case cs of CHR ''/'' # ds \<Rightarrow> ds | _ \<Rightarrow> cs) of
        [] \<Rightarrow> None
      | d # ds \<Rightarrow>
          if is_letter d
          then (case dropWhile (\<lambda>c. c \<noteq> CHR ''>'') ds of [] \<Rightarrow> None | _ # rest \<Rightarrow> Some rest)
          else None)"

lemma length_dropWhile: "length (dropWhile p xs) \<le> length xs"
  by (induction xs) auto

lemma tag_rest_shorter: "tag_rest cs = Some rest \<Longrightarrow> length rest < length cs"
proof -
  assume "tag_rest cs = Some rest"
  then obtain d ds e where ds: "(case cs of CHR ''/'' # ds \<Rightarrow> ds | _ \<Rightarrow> cs) = d # ds"
    "dropWhile (\<lambda>c. c \<noteq> CHR ''>'') ds = e # rest"
    by (auto simp: tag_rest_def split: list.split_asm if_split_asm)
  have "length (d # ds) \<le> length cs" using arg_cong [OF ds(1), of length] by (auto split: list.splits char.splits bool.splits)
  moreover have "length (e # rest) \<le> length ds" using length_dropWhile [of _ ds] ds(2) by metis
  ultimately show ?thesis by simp
qed

fun html_tag :: "string \<Rightarrow> bool" where
  "html_tag [] = False"
| "html_tag (c # cs) = (c = CHR ''<'' \<and> tag_rest cs \<noteq> None \<or> html_tag cs)"

function remove_tags :: "string \<Rightarrow> string" where
  "remove_tags [] = []"
| "remove_tags (c # cs) =
     (case (if c = CHR ''<'' then tag_rest cs else None) of
        Some rest \<Rightarrow> remove_tags rest
      | None \<Rightarrow> c # remove_tags cs)"
  by pat_completeness auto
termination
  by (relation "measure length") (auto split: if_splits dest: tag_rest_shorter)

text \<open>\<open>WEB_URL\<close>, \<open>\bhttps?:\/\/[^\s<>{}\[\]]+\<close> whatever the case; the value is what follows the address.\<close>

fun after_prefix :: "string \<Rightarrow> string \<Rightarrow> string option" where
  "after_prefix [] cs = Some cs"
| "after_prefix (p # ps) [] = None"
| "after_prefix (p # ps) (c # cs) = (if lower_char c = p then after_prefix ps cs else None)"

definition url_char :: "char \<Rightarrow> bool" where
  "url_char c \<longleftrightarrow> \<not> is_space c \<and> \<not> contains ''<>{}[]'' c"

definition url_rest :: "string \<Rightarrow> string option" where
  "url_rest cs =
     (case after_prefix ''http'' cs of
        None \<Rightarrow> None
      | Some r1 \<Rightarrow>
          (case after_prefix ''://'' (case after_prefix ''s'' r1 of None \<Rightarrow> r1 | Some r2 \<Rightarrow> r2) of
             None \<Rightarrow> None
           | Some r3 \<Rightarrow> (case r3 of [] \<Rightarrow> None | d # ds \<Rightarrow> if url_char d then Some (dropWhile url_char ds) else None)))"

lemma after_prefix_length: "after_prefix p cs = Some r \<Longrightarrow> length r + length p = length cs"
  by (induction p cs rule: after_prefix.induct) (auto split: if_splits)

lemma url_rest_shorter:
  assumes "url_rest cs = Some rest"
  shows "length rest < length cs"
proof -
  from assms obtain r1 where r1: "after_prefix ''http'' cs = Some r1"
    by (auto simp: url_rest_def split: option.splits)
  let ?r2 = "case after_prefix ''s'' r1 of None \<Rightarrow> r1 | Some r2 \<Rightarrow> r2"
  from assms r1 obtain r3 d ds where r3: "after_prefix ''://'' ?r2 = Some r3" "r3 = d # ds"
    "rest = dropWhile url_char ds"
    by (simp add: url_rest_def split: option.split_asm list.split_asm if_split_asm)
  have "length ?r2 \<le> length r1" by (auto dest: after_prefix_length split: option.split)
  with after_prefix_length [OF r1] after_prefix_length [OF r3(1)] r3(2,3) length_dropWhile [of url_char ds]
  show ?thesis by simp
qed

definition is_word :: "char \<Rightarrow> bool" where
  "is_word c \<longleftrightarrow> is_alnum c \<or> c = CHR ''_''"

text \<open>\<open>word\<close> tells whether the character before is one of a word, where no address can begin.\<close>

function replace_urls :: "bool \<Rightarrow> string \<Rightarrow> string" where
  "replace_urls word [] = []"
| "replace_urls word (c # cs) =
     (case (if word then None else url_rest (c # cs)) of
        Some rest \<Rightarrow> ''[link removed]'' @ replace_urls False rest
      | None \<Rightarrow> c # replace_urls (is_word c) cs)"
  by pat_completeness auto
termination
  by (relation "measure (length \<circ> snd)") (auto split: if_splits dest: url_rest_shorter)

definition scrubProviderText :: "string \<Rightarrow> string" where
  "scrubProviderText v = replace_urls False (remove_tags v)"

definition validatePortalComment :: "(string \<Rightarrow> string) \<Rightarrow> json \<Rightarrow> text_error + string" where
  "validatePortalComment nfkc v =
     (case v of
        JString s \<Rightarrow>
          (case normalizedText nfkc s 5000 ''JIRA_COMMENT_BODY'' of
             Inl e \<Rightarrow> Inl e
           | Inr body \<Rightarrow> if html_tag body then Inl TEXT_HTML_DENIED else Inr body)
      | _ \<Rightarrow> Inl (TEXT_REQUIRED ''JIRA_COMMENT_BODY''))"

text \<open>
  The text of an Atlassian document. The depth bound of the source, thirty, is the number of levels
  still allowed.
\<close>

definition field :: "json \<Rightarrow> string \<Rightarrow> json option" where
  "field node name = (case node of JObject entries \<Rightarrow> map_of entries name | _ \<Rightarrow> None)"

definition node_type :: "json \<Rightarrow> string" where
  "node_type node = (case field node ''type'' of Some (JString t) \<Rightarrow> t | _ \<Rightarrow> [])"

definition node_children :: "json \<Rightarrow> json list" where
  "node_children node = (case field node ''content'' of Some (JArray xs) \<Rightarrow> take 1000 xs | _ \<Rightarrow> [])"

definition node_text :: "json \<Rightarrow> string" where
  "node_text node =
     (if node_type node = ''text''
      then (case field node ''text'' of Some (JString t) \<Rightarrow> scrubProviderText t | _ \<Rightarrow> [])
      else if node_type node = ''mention'' then ''@participant''
      else if node_type node = ''hardBreak'' then [CHR 0x0A] else [])"

definition node_end :: "json \<Rightarrow> string" where
  "node_end node =
     (if contains [''paragraph'', ''heading'', ''listItem'', ''blockquote'', ''codeBlock''] (node_type node)
      then [CHR 0x0A] else [])"

fun projectAdfNode :: "nat \<Rightarrow> json \<Rightarrow> string" where
  "projectAdfNode 0 node = []"
| "projectAdfNode (Suc n) node = node_text node @ concat (map (projectAdfNode n) (node_children node)) @ node_end node"

definition projectAdfToSafeText :: "(string \<Rightarrow> string) \<Rightarrow> json \<Rightarrow> text_error + string" where
  "projectAdfToSafeText nfkc v =
     normalizedText nfkc (case v of JString s \<Rightarrow> scrubProviderText s | _ \<Rightarrow> projectAdfNode 31 v) 5000 ''JIRA_ADF''"

section \<open>Payloads\<close>

definition jira_reference :: "nat \<Rightarrow> string \<Rightarrow> bool" where
  "jira_reference n = matches is_alnum (\<lambda>c. is_alnum c \<or> contains ''._:-'' c) 0 n"

definition PROJECT_KEY :: "string \<Rightarrow> bool" where
  "PROJECT_KEY = matches is_upper_case (\<lambda>c. is_upper_case c \<or> is_digit c \<or> c = CHR ''_'') 1 49"

text \<open>\<open>^[A-Z][A-Z0-9_]{1,49}-[1-9][0-9]{0,19}$\<close>: a project key, a hyphen and a number.\<close>

definition SAFE_ISSUE_KEY :: "string \<Rightarrow> bool" where
  "SAFE_ISSUE_KEY s \<longleftrightarrow>
     (let project = takeWhile (\<lambda>c. c \<noteq> CHR ''-'') s; rest = dropWhile (\<lambda>c. c \<noteq> CHR ''-'') s in
      PROJECT_KEY project \<and> rest \<noteq> [] \<and>
      matches (\<lambda>c. is_digit c \<and> c \<noteq> CHR ''0'') is_digit 0 19 (tl rest))"

text \<open>\<open>\p{L}\<close> and \<open>\p{N}\<close> in the Latin-1 block.\<close>

definition is_letter_or_number :: "char \<Rightarrow> bool" where
  "is_letter_or_number c \<longleftrightarrow>
     is_alnum c \<or> code c \<in> {170, 178, 179, 181, 185, 186, 188, 189, 190} \<or>
     192 \<le> code c \<and> code c \<noteq> 215 \<and> code c \<noteq> 247"

definition ISSUE_TYPE :: "string \<Rightarrow> bool" where
  "ISSUE_TYPE = matches is_letter_or_number (\<lambda>c. is_letter_or_number c \<or> contains '' _.-'' c) 0 99"

definition plainText :: "(string \<Rightarrow> string) \<Rightarrow> string \<Rightarrow> int \<Rightarrow> string \<Rightarrow> text_error + string" where
  "plainText nfkc v maximumLength name =
     (let text = trim (strip_controls (unify_newlines (nfkc v))) in
      if text = [] \<or> maximumLength < int (length text) then Inl (TEXT_PAYLOAD_INVALID name) else Inr text)"

datatype request_priority = LOW | NORMAL | HIGH | CRITICAL

fun PRIORITY_NAMES :: "request_priority \<Rightarrow> string" where
  "PRIORITY_NAMES LOW = ''Low''"
| "PRIORITY_NAMES NORMAL = ''Medium''"
| "PRIORITY_NAMES HIGH = ''High''"
| "PRIORITY_NAMES CRITICAL = ''Highest''"

fun priority_text :: "request_priority \<Rightarrow> string" where
  "priority_text LOW = ''LOW''"
| "priority_text NORMAL = ''NORMAL''"
| "priority_text HIGH = ''HIGH''"
| "priority_text CRITICAL = ''CRITICAL''"

record issue_input =
  ii_requestId :: string
  ii_subject :: string
  ii_description :: string
  ii_category :: string
  ii_priority :: request_priority
  ii_projectKey :: string
  ii_issueType :: string
  ii_componentId :: "string option"
  ii_requestType :: "string option"
  ii_idempotencyKey :: string

record issue_payload =
  ip_project :: string
  ip_issuetype :: string
  ip_summary :: string
  ip_description :: "string list"
  ip_labels :: "string list"
  ip_priority :: string
  ip_components :: "string list"
  ip_marker :: string
  ip_requestReference :: string

definition safeMarker :: "(string \<Rightarrow> string) \<Rightarrow> string \<Rightarrow> string" where
  "safeMarker sha256 idempotencyKey = ''avantime-'' @ take 32 (sha256 idempotencyKey)"

definition bad_optional :: "string option \<Rightarrow> bool" where
  "bad_optional x \<longleftrightarrow> truthy x \<and> \<not> jira_reference 99 (the x)"

text \<open>\<open>category\<close> tells the six categories, four of which have Cyrillic names.\<close>

definition projectJiraCreateIssue ::
  "(string \<Rightarrow> string) \<Rightarrow> (string \<Rightarrow> string) \<Rightarrow> (string \<Rightarrow> bool) \<Rightarrow> issue_input \<Rightarrow> text_error + issue_payload" where
  "projectJiraCreateIssue nfkc sha256 category input =
     (case first_error
        [demand (PROJECT_KEY (ii_projectKey input)) (TEXT_PAYLOAD_INVALID ''PROJECT''),
         demand (ISSUE_TYPE (ii_issueType input)) (TEXT_PAYLOAD_INVALID ''ISSUE_TYPE''),
         demand (\<not> bad_optional (ii_componentId input)) (TEXT_PAYLOAD_INVALID ''COMPONENT''),
         demand (\<not> bad_optional (ii_requestType input)) (TEXT_PAYLOAD_INVALID ''REQUEST_TYPE''),
         demand (category (ii_category input)) (TEXT_PAYLOAD_INVALID ''CATEGORY'')] of
        Some e \<Rightarrow> Inl e
      | None \<Rightarrow>
          (case plainText nfkc (ii_subject input) 160 ''SUMMARY'' of
             Inl e \<Rightarrow> Inl e
           | Inr subject \<Rightarrow>
          (case plainText nfkc (ii_description input) 5000 ''DESCRIPTION'' of
             Inl e \<Rightarrow> Inl e
           | Inr description \<Rightarrow>
          (case plainText nfkc (ii_requestId input) 100 ''REQUEST_REFERENCE'' of
             Inl e \<Rightarrow> Inl e
           | Inr requestReference \<Rightarrow>
               let marker = safeMarker sha256 (ii_idempotencyKey input);
                   metadata =
                     ''Avantime request: '' @ requestReference @ [CHR 0x0A] @ ''Category: '' @ ii_category input @
                     [CHR 0x0A] @ ''Priority: '' @ priority_text (ii_priority input) @
                     (if truthy (ii_requestType input)
                      then [CHR 0x0A] @ ''Request type: '' @ the (ii_requestType input) else [])
               in Inr \<lparr>ip_project = ii_projectKey input, ip_issuetype = ii_issueType input, ip_summary = subject,
                       ip_description = [description, metadata],
                       ip_labels = [marker, ''avantime-request-'' @ take 16 (sha256 requestReference)],
                       ip_priority = PRIORITY_NAMES (ii_priority input),
                       ip_components = (if truthy (ii_componentId input) then [the (ii_componentId input)] else []),
                       ip_marker = marker, ip_requestReference = requestReference\<rparr>))))"

record comment_payload =
  cp_issueId :: string
  cp_issueKey :: string
  cp_body :: string
  cp_marker :: string
  cp_requestReference :: string

text \<open>The two errors of a bad target carry other prefixes than the errors of a payload.\<close>

datatype comment_error = COMMENT_ISSUE_ID_INVALID | COMMENT_ISSUE_KEY_INVALID | COMMENT_TEXT text_error

definition projectJiraComment ::
  "(string \<Rightarrow> string) \<Rightarrow> (string \<Rightarrow> string) \<Rightarrow> string \<Rightarrow> string \<Rightarrow> string \<Rightarrow> string \<Rightarrow> string \<Rightarrow>
     comment_error + comment_payload" where
  "projectJiraComment nfkc sha256 issueId issueKey requestReference body idempotencyKey =
     (if \<not> jira_reference 199 issueId then Inl COMMENT_ISSUE_ID_INVALID
      else if \<not> SAFE_ISSUE_KEY issueKey then Inl COMMENT_ISSUE_KEY_INVALID
      else
        (case plainText nfkc body 5000 ''COMMENT'' of
           Inl e \<Rightarrow> Inl (COMMENT_TEXT e)
         | Inr text \<Rightarrow>
        (case plainText nfkc requestReference 100 ''REQUEST_REFERENCE'' of
           Inl e \<Rightarrow> Inl (COMMENT_TEXT e)
         | Inr reference \<Rightarrow>
             Inr \<lparr>cp_issueId = issueId, cp_issueKey = issueKey, cp_body = text,
                  cp_marker = ''avantime-comment-'' @ take 32 (sha256 idempotencyKey),
                  cp_requestReference = reference\<rparr>)))"

section \<open>The mapping of an organization\<close>

record mapping_input =
  mp_companyId :: string
  mp_projectKey :: string
  mp_issueType :: "string option"
  mp_componentId :: "string option"
  mp_requestType :: "string option"
  mp_statusMapping :: "json option"
  mp_enabled :: bool
  mp_actorId :: string
  mp_correlationId :: string

datatype mapping_error =
    MAPPING_STATUS_MAPPING_INVALID
  | MAPPING_REFERENCE_INVALID string
  | MAPPING_PROJECT_INVALID
  | MAPPING_ISSUE_TYPE_INVALID
  | MAPPING_DATABASE_UNAVAILABLE

text \<open>Entries in order; a name that normalises like an earlier one replaces its status in place.\<close>

fun put_entry :: "string \<Rightarrow> string \<Rightarrow> (string \<times> json) list \<Rightarrow> (string \<times> json) list" where
  "put_entry k v [] = [(k, JString v)]"
| "put_entry k v ((k', w) # es) = (if k' = k then (k, JString v) # es else (k', w) # put_entry k v es)"

fun mapping_entries ::
  "(string \<Rightarrow> string) \<Rightarrow> (string \<times> json) list \<Rightarrow> (string \<times> json) list \<Rightarrow> mapping_error + (string \<times> json) list" where
  "mapping_entries nfkc [] acc = Inr acc"
| "mapping_entries nfkc ((name, status) # es) acc =
     (let safeName = to_lower (trim (nfkc name)) in
      case status of
        JString s \<Rightarrow>
          if safeName = [] \<or> 160 < length safeName \<or> status_of_name s = None
          then Inl MAPPING_STATUS_MAPPING_INVALID else mapping_entries nfkc es (put_entry safeName s acc)
      | _ \<Rightarrow> Inl MAPPING_STATUS_MAPPING_INVALID)"

definition statusMapping :: "(string \<Rightarrow> string) \<Rightarrow> json option \<Rightarrow> mapping_error + json option" where
  "statusMapping nfkc v =
     (case v of
        None \<Rightarrow> Inr None
      | Some JNull \<Rightarrow> Inr None
      | Some (JObject entries) \<Rightarrow>
          if 50 < length entries then Inl MAPPING_STATUS_MAPPING_INVALID
          else (case mapping_entries nfkc entries [] of Inl e \<Rightarrow> Inl e | Inr es \<Rightarrow> Inr (Some (JObject es)))
      | _ \<Rightarrow> Inl MAPPING_STATUS_MAPPING_INVALID)"

definition trimmed :: "string option \<Rightarrow> string option" where
  "trimmed v = (case v of None \<Rightarrow> None | Some s \<Rightarrow> if trim s = [] then None else Some (trim s))"

definition optionalReference :: "string option \<Rightarrow> string \<Rightarrow> mapping_error + string option" where
  "optionalReference v name =
     (if bad_optional (trimmed v) then Inl (MAPPING_REFERENCE_INVALID name) else Inr (trimmed v))"

definition validateJiraMapping :: "(string \<Rightarrow> string) \<Rightarrow> mapping_input \<Rightarrow> mapping_error + mapping_input" where
  "validateJiraMapping nfkc input =
     (case first_error
        [demand (jira_reference 199 (mp_companyId input)) (MAPPING_REFERENCE_INVALID ''COMPANY''),
         demand (jira_reference 199 (mp_actorId input)) (MAPPING_REFERENCE_INVALID ''ACTOR''),
         demand (jira_reference 199 (mp_correlationId input)) (MAPPING_REFERENCE_INVALID ''CORRELATION''),
         demand (PROJECT_KEY (trim (mp_projectKey input))) MAPPING_PROJECT_INVALID,
         (case trimmed (mp_issueType input) of
            None \<Rightarrow> None | Some t \<Rightarrow> demand (ISSUE_TYPE t) MAPPING_ISSUE_TYPE_INVALID)] of
        Some e \<Rightarrow> Inl e
      | None \<Rightarrow>
          (case optionalReference (mp_componentId input) ''COMPONENT'' of
             Inl e \<Rightarrow> Inl e
           | Inr component \<Rightarrow>
          (case optionalReference (mp_requestType input) ''REQUEST_TYPE'' of
             Inl e \<Rightarrow> Inl e
           | Inr requestType \<Rightarrow>
          (case statusMapping nfkc (mp_statusMapping input) of
             Inl e \<Rightarrow> Inl e
           | Inr m \<Rightarrow>
               Inr (input\<lparr>mp_projectKey := trim (mp_projectKey input), mp_issueType := trimmed (mp_issueType input),
                    mp_componentId := component, mp_requestType := requestType, mp_statusMapping := m\<rparr>)))))"

end
