(* ===== verification/JiraDb.thy ===== *)
theory JiraDb
  imports NotificationOutbox JiraPolicy GovernanceDb
begin

text \<open>
  The tables the Jira integration and the support requests share, one record per row, and the
  database as the record of its tables. Identifiers are drawn by the database and are arguments of
  the handlers; titles of portal notifications are constructors over their variable parts.
\<close>

section \<open>Rows\<close>

datatype integration_status =
    NOT_CONFIGURED
  | INTEGRATION_PENDING
  | INTEGRATION_PROCESSING
  | INTEGRATION_CREATED
  | INTEGRATION_FAILED
  | INTEGRATION_DEAD_LETTER

record support_request =
  sr_id :: string
  sr_publicId :: string
  sr_title :: string
  sr_description :: string
  sr_category :: string
  sr_priority :: request_priority
  sr_status :: request_status
  sr_jiraIntegrationStatus :: integration_status
  sr_version :: int
  sr_jiraIssueId :: "string option"
  sr_jiraKey :: "string option"
  sr_jiraIssueUrl :: "string option"
  sr_jiraSyncAt :: "ms option"
  sr_jiraStatusId :: "string option"
  sr_jiraStatusName :: "string option"
  sr_jiraUpdatedAt :: "ms option"
  sr_jiraSyncVersion :: int
  sr_correlationId :: "string option"
  sr_idempotencyKey :: "string option"
  sr_dueAt :: "ms option"
  sr_requesterId :: string
  sr_companyId :: string
  sr_createdAt :: ms
  sr_updatedAt :: ms

datatype message_author = CUSTOMER | AVANTIME | JIRA | SYSTEM

datatype delivery_status =
    NOT_REQUIRED
  | DELIVERY_PENDING
  | DELIVERY_PROCESSING
  | DELIVERY_SENT
  | DELIVERY_FAILED
  | DELIVERY_DEAD_LETTER

record request_message =
  rm_id :: string
  rm_body :: string
  rm_authorId :: "string option"
  rm_authorType :: message_author
  rm_authorDisplayName :: "string option"
  rm_deliveryStatus :: delivery_status
  rm_requestId :: string
  rm_jiraCommentId :: "string option"
  rm_jiraCommentUpdatedAt :: "ms option"
  rm_idempotencyKey :: "string option"
  rm_correlationId :: "string option"
  rm_createdAt :: ms
  rm_updatedAt :: ms

record jira_mapping =
  jm_id :: string
  jm_companyId :: string
  jm_projectKey :: string
  jm_issueType :: "string option"
  jm_componentId :: "string option"
  jm_requestType :: "string option"
  jm_statusMapping :: "json option"
  jm_enabled :: bool
  jm_version :: int

datatype operation_type = CREATE_ISSUE | ADD_COMMENT

record jira_operation = work_item +
  jo_requestId :: string
  jo_companyId :: string
  jo_mappingId :: string
  jo_mappingVersion :: int
  jo_operationType :: operation_type
  jo_idempotencyKey :: string
  jo_projectKey :: string
  jo_issueType :: string
  jo_componentId :: "string option"
  jo_requestType :: "string option"
  jo_localCommentId :: "string option"
  jo_providerIssueId :: "string option"
  jo_providerIssueKey :: "string option"
  jo_providerCommentId :: "string option"
  jo_completedAt :: "ms option"

record inbound_event = work_item +
  ie_providerEventId :: "string option"
  ie_eventFingerprint :: string
  ie_eventType :: string
  ie_jiraTenantOrigin :: string
  ie_jiraIssueId :: string
  ie_jiraIssueKey :: string
  ie_requestId :: string
  ie_companyId :: string
  ie_normalizedPayload :: json
  ie_occurredAt :: ms
  ie_receivedAt :: ms
  ie_completedAt :: "ms option"

datatype portal_title =
    RequestCreated string
  | MessageAdded string
  | IssueCreated string string
  | StatusUpdated string
  | CommentAdded string

datatype portal_category = REQUEST | MESSAGE

record portal_item =
  pn_userId :: string
  pn_companyId :: string
  pn_category :: portal_category
  pn_title :: portal_title
  pn_href :: string

text \<open>A user with the companies of its active memberships.\<close>

record portal_user =
  pu_id :: string
  pu_name :: string
  pu_companies :: "string list"

text \<open>The trail of a request, as its page shows it; the names the code writes are kept as what they name.\<close>

datatype trail_action = TrailCreated | TrailStatus request_status

datatype trail_actor = Person string | Administrator

record trail_item =
  tr_requestId :: string
  tr_action :: trail_action
  tr_actor :: trail_actor
  tr_createdAt :: ms

record jira_db =
  jd_available :: bool
  jd_requests :: "support_request list"
  jd_messages :: "request_message list"
  jd_mappings :: "jira_mapping list"
  jd_operations :: "jira_operation list"
  jd_events :: "inbound_event list"
  jd_outbox :: "notification_item list"
  jd_users :: "portal_user list"
  jd_audit :: "audit_row list"
  jd_portal :: "portal_item list"
  jd_trail :: "trail_item list"

section \<open>Access\<close>

definition request_by :: "string \<Rightarrow> jira_db \<Rightarrow> support_request option" where
  "request_by i db = List.find (\<lambda>r. sr_id r = i) (jd_requests db)"

definition message_by :: "string \<Rightarrow> jira_db \<Rightarrow> request_message option" where
  "message_by i db = List.find (\<lambda>m. rm_id m = i) (jd_messages db)"

definition set_requests ::
  "(support_request \<Rightarrow> bool) \<Rightarrow> (support_request \<Rightarrow> support_request) \<Rightarrow> jira_db \<Rightarrow> jira_db" where
  "set_requests p f db = db\<lparr>jd_requests := update_where p f (jd_requests db)\<rparr>"

definition set_messages ::
  "(request_message \<Rightarrow> bool) \<Rightarrow> (request_message \<Rightarrow> request_message) \<Rightarrow> jira_db \<Rightarrow> jira_db" where
  "set_messages p f db = db\<lparr>jd_messages := update_where p f (jd_messages db)\<rparr>"

definition audited :: "audit_row \<Rightarrow> jira_db \<Rightarrow> jira_db" where
  "audited e db = db\<lparr>jd_audit := jd_audit db @ [e]\<rparr>"

definition trailed :: "string \<Rightarrow> trail_action \<Rightarrow> trail_actor \<Rightarrow> ms \<Rightarrow> jira_db \<Rightarrow> jira_db" where
  "trailed requestId action actor now db =
     db\<lparr>jd_trail := jd_trail db @ [\<lparr>tr_requestId = requestId, tr_action = action, tr_actor = actor, tr_createdAt = now\<rparr>]\<rparr>"

definition notified :: "string \<Rightarrow> string \<Rightarrow> portal_category \<Rightarrow> portal_title \<Rightarrow> string \<Rightarrow> jira_db \<Rightarrow> jira_db" where
  "notified userId companyId category title publicId db =
     db\<lparr>jd_portal := jd_portal db @
          [\<lparr>pn_userId = userId, pn_companyId = companyId, pn_category = category, pn_title = title,
            pn_href = ''/portal/requests/'' @ publicId\<rparr>]\<rparr>"

text \<open>
  The outbox entry of a synchronisation step, upserted under its key. Its texts are short; a row the
  columns refuse cannot arise from them, so the table is left as it is.
\<close>

definition announced ::
  "string \<Rightarrow> ms \<Rightarrow> string \<Rightarrow> string \<Rightarrow> string \<Rightarrow> string \<Rightarrow> string \<Rightarrow> jira_db \<Rightarrow> jira_db" where
  "announced i now key notificationType userId template correlationId db =
     db\<lparr>jd_outbox := snd (outbox_upsert (new_notification i now
          \<lparr>ni_idempotencyKey = key, ni_notificationType = notificationType,
           ni_recipientReference = ''user:'' @ userId, ni_recipientUserId = Some userId,
           ni_templateReference = template, ni_correlationId = correlationId,
           ni_maximumAttempts = None\<rparr>) (jd_outbox db))\<rparr>"

text \<open>A unique column: no other row holds the value.\<close>

definition unique_in :: "('r \<Rightarrow> string) \<Rightarrow> ('r \<Rightarrow> string option) \<Rightarrow> string \<Rightarrow> string option \<Rightarrow> 'r list \<Rightarrow> bool" where
  "unique_in key column i v rows \<longleftrightarrow> v = None \<or> (\<forall>r \<in> set rows. key r \<noteq> i \<longrightarrow> column r \<noteq> v)"

section \<open>The mapping of an organization\<close>

definition getJiraMappingForOrganization :: "string \<Rightarrow> jira_db \<Rightarrow> mapping_error + jira_mapping option" where
  "getJiraMappingForOrganization companyId db =
     (if \<not> jira_reference 199 companyId then Inl (MAPPING_REFERENCE_INVALID ''COMPANY'')
      else if \<not> jd_available db then Inl MAPPING_DATABASE_UNAVAILABLE
      else Inr (List.find (\<lambda>m. jm_companyId m = companyId) (jd_mappings db)))"

text \<open>\<open>i\<close> is the identifier drawn if the organization has no mapping yet.\<close>

definition new_mapping :: "string \<Rightarrow> mapping_input \<Rightarrow> jira_mapping" where
  "new_mapping i v =
     \<lparr>jm_id = i, jm_companyId = mp_companyId v, jm_projectKey = mp_projectKey v, jm_issueType = mp_issueType v,
      jm_componentId = mp_componentId v, jm_requestType = mp_requestType v,
      jm_statusMapping = mp_statusMapping v, jm_enabled = mp_enabled v, jm_version = 1\<rparr>"

definition mapping_change :: "mapping_input \<Rightarrow> jira_mapping \<Rightarrow> jira_mapping" where
  "mapping_change v m =
     m\<lparr>jm_projectKey := mp_projectKey v, jm_issueType := mp_issueType v, jm_componentId := mp_componentId v,
       jm_requestType := mp_requestType v, jm_statusMapping := mp_statusMapping v, jm_enabled := mp_enabled v,
       jm_version := jm_version m + 1\<rparr>"

definition mapping_audit :: "mapping_input \<Rightarrow> jira_mapping \<Rightarrow> audit_row" where
  "mapping_audit v m =
     \<lparr>au_companyId = Some (mp_companyId v), au_actorId = Some (mp_actorId v), au_action = ''jira.mapping.updated'',
      au_targetType = ''jira_mapping'', au_targetId = Some (jm_id m), au_result = ''SUCCEEDED'',
      au_correlationId = Some (mp_correlationId v),
      au_safeMetadata = [(''enabled'', JBool (jm_enabled m)), (''projectKey'', JString (jm_projectKey m)),
        (''version'', JNumber (jm_version m))]\<rparr>"

definition upsertJiraOrganizationMapping ::
  "(string \<Rightarrow> string) \<Rightarrow> string \<Rightarrow> mapping_input \<Rightarrow> jira_db \<Rightarrow> (mapping_error, jira_mapping, jira_db) handled" where
  "upsertJiraOrganizationMapping nfkc i input db =
     (case validateJiraMapping nfkc input of
        Inl e \<Rightarrow> (Inl e, db)
      | Inr v \<Rightarrow>
          if \<not> jd_available db then (Inl MAPPING_DATABASE_UNAVAILABLE, db)
          else
            (case List.find (\<lambda>m. jm_companyId m = mp_companyId v) (jd_mappings db) of
               None \<Rightarrow>
                 let m = new_mapping i v in
                 (Inr m, audited (mapping_audit v m) (db\<lparr>jd_mappings := jd_mappings db @ [m]\<rparr>))
             | Some previous \<Rightarrow>
                 let m = mapping_change v previous in
                 (Inr m, audited (mapping_audit v m)
                   (db\<lparr>jd_mappings := update_where (\<lambda>m. jm_companyId m = mp_companyId v) (mapping_change v)
                      (jd_mappings db)\<rparr>))))"

section \<open>Frames\<close>

lemma jira_frame [simp]:
  "jd_available (set_requests p f db) = jd_available db" "jd_operations (set_requests p f db) = jd_operations db"
  "jd_messages (set_requests p f db) = jd_messages db" "jd_events (set_requests p f db) = jd_events db"
  "jd_mappings (set_requests p f db) = jd_mappings db" "jd_outbox (set_requests p f db) = jd_outbox db"
  "jd_requests (set_requests p f db) = update_where p f (jd_requests db)"
  "jd_available (set_messages q g db) = jd_available db" "jd_operations (set_messages q g db) = jd_operations db"
  "jd_requests (set_messages q g db) = jd_requests db" "jd_events (set_messages q g db) = jd_events db"
  "jd_mappings (set_messages q g db) = jd_mappings db" "jd_outbox (set_messages q g db) = jd_outbox db"
  "jd_messages (set_messages q g db) = update_where q g (jd_messages db)"
  "jd_available (audited e db) = jd_available db" "jd_operations (audited e db) = jd_operations db"
  "jd_messages (audited e db) = jd_messages db" "jd_events (audited e db) = jd_events db"
  "jd_mappings (audited e db) = jd_mappings db" "jd_requests (audited e db) = jd_requests db"
  "jd_outbox (audited e db) = jd_outbox db"
  by (simp_all add: set_requests_def set_messages_def audited_def)

lemma jira_frame_notes [simp]:
  "jd_available (notified u c cat t pid db) = jd_available db"
  "jd_operations (notified u c cat t pid db) = jd_operations db"
  "jd_messages (notified u c cat t pid db) = jd_messages db"
  "jd_events (notified u c cat t pid db) = jd_events db"
  "jd_mappings (notified u c cat t pid db) = jd_mappings db"
  "jd_requests (notified u c cat t pid db) = jd_requests db"
  "jd_outbox (notified u c cat t pid db) = jd_outbox db"
  "jd_available (announced i now k ty u te co db) = jd_available db"
  "jd_operations (announced i now k ty u te co db) = jd_operations db"
  "jd_messages (announced i now k ty u te co db) = jd_messages db"
  "jd_events (announced i now k ty u te co db) = jd_events db"
  "jd_mappings (announced i now k ty u te co db) = jd_mappings db"
  "jd_requests (announced i now k ty u te co db) = jd_requests db"
  "jd_available (trailed i ac w now db) = jd_available db" "jd_operations (trailed i ac w now db) = jd_operations db"
  "jd_messages (trailed i ac w now db) = jd_messages db" "jd_events (trailed i ac w now db) = jd_events db"
  "jd_mappings (trailed i ac w now db) = jd_mappings db" "jd_requests (trailed i ac w now db) = jd_requests db"
  "jd_outbox (trailed i ac w now db) = jd_outbox db"
  by (simp_all add: notified_def announced_def trailed_def)

end
