(* ===== verification/JiraOutbox.thy ===== *)
theory JiraOutbox
  imports JiraDb
begin

text \<open>
  The outgoing side of the Jira integration (\<open>lib/jira-outbox.ts\<close> with the failures of \<open>lib/jira.ts\<close>):
  claiming operations, sending them to the provider, completing and failing them, the operator's
  retry and dead letter, and the batch of the worker. A transaction is one step; the provider is a
  parameter with a state of its own.
\<close>

section \<open>Errors\<close>

datatype jira_error =
    JIRA_REFERENCE_INVALID string
  | JIRA_ATTEMPT_INVALID
  | JIRA_BATCH_SIZE_INVALID
  | JIRA_LEASE_INVALID
  | JIRA_DATABASE_UNAVAILABLE
  | JIRA_LEASE_LOST
  | JIRA_FAILURE_CODE_INVALID
  | JIRA_COMMENT_LOCAL_ID_MISSING
  | JIRA_DEAD_LETTER_NOT_FOUND
  | JIRA_FAILED_OPERATION_NOT_FOUND
  | JIRA_UNIQUE_VIOLATION
  | JIRA_ROW_MISSING

text \<open>
  What is thrown while an operation is processed: a \<open>JiraProviderError\<close> with its code and whether it
  may be retried, or another error with its message.
\<close>

datatype jira_thrown = ProviderError string bool | OtherThrown string

definition provider_error_message :: "jira_thrown \<Rightarrow> string" where
  "provider_error_message t = (case t of ProviderError failure _ \<Rightarrow> failure | OtherThrown message \<Rightarrow> message)"

definition jiraFailure :: "jira_thrown \<Rightarrow> string \<times> bool" where
  "jiraFailure t =
     (case t of ProviderError failure retryable \<Rightarrow> (failure, retryable) | OtherThrown _ \<Rightarrow> (''JIRA_PROVIDER_FAILURE'', True))"

definition providerFailure :: "jira_thrown \<Rightarrow> string \<times> bool" where
  "providerFailure t =
     (let message = provider_error_message t in
      if (starts_with ''JIRA_PAYLOAD_'' message \<or> starts_with ''JIRA_MAPPING_'' message \<or>
          starts_with ''JIRA_REQUEST_'' message) \<and> SAFE_FAILURE_CODE message
      then (message, False) else jiraFailure t)"

text \<open>The errors of the payloads by their messages.\<close>

definition text_thrown :: "text_error \<Rightarrow> jira_thrown" where
  "text_thrown e =
     (case e of
        TEXT_PAYLOAD_INVALID name \<Rightarrow> OtherThrown (''JIRA_PAYLOAD_'' @ name @ ''_INVALID'')
      | _ \<Rightarrow> OtherThrown [])"

definition comment_thrown :: "comment_error \<Rightarrow> jira_thrown" where
  "comment_thrown e =
     (case e of
        COMMENT_ISSUE_ID_INVALID \<Rightarrow> OtherThrown ''JIRA_COMMENT_ISSUE_ID_INVALID''
      | COMMENT_ISSUE_KEY_INVALID \<Rightarrow> OtherThrown ''JIRA_COMMENT_ISSUE_KEY_INVALID''
      | COMMENT_TEXT t \<Rightarrow> text_thrown t)"

text \<open>The errors of the database, none of whose messages has one of the three prefixes.\<close>

definition database_thrown :: "jira_error \<Rightarrow> jira_thrown" where
  "database_thrown e =
     (case e of
        JIRA_LEASE_LOST \<Rightarrow> OtherThrown ''JIRA_LEASE_LOST''
      | JIRA_COMMENT_LOCAL_ID_MISSING \<Rightarrow> OtherThrown ''JIRA_COMMENT_LOCAL_ID_MISSING''
      | JIRA_DATABASE_UNAVAILABLE \<Rightarrow> OtherThrown ''JIRA_DATABASE_UNAVAILABLE''
      | _ \<Rightarrow> OtherThrown [])"

definition jira_database :: "jira_db \<Rightarrow> jira_error option" where
  "jira_database db = demand (jd_available db) JIRA_DATABASE_UNAVAILABLE"

definition jiraBackoffMs :: "int \<Rightarrow> jira_error + int" where
  "jiraBackoffMs = backoff_ms JIRA_ATTEMPT_INVALID"

definition safeReference :: "string \<Rightarrow> string \<Rightarrow> jira_error option" where
  "safeReference value name = demand (jira_reference 199 value) (JIRA_REFERENCE_INVALID name)"

section \<open>Claiming\<close>

text \<open>
  Dead letters by lost leases also mark their request or message; so do the claimed operations.
\<close>

definition with_operation ::
  "(jira_operation \<Rightarrow> bool) \<Rightarrow> operation_type \<Rightarrow> integration_status \<Rightarrow> ms \<Rightarrow> jira_operation list \<Rightarrow> jira_db \<Rightarrow> jira_db" where
  "with_operation p t status now operations =
     set_requests (\<lambda>r. \<exists>o1 \<in> set operations. p o1 \<and> jo_operationType o1 = t \<and> jo_requestId o1 = sr_id r)
       (\<lambda>r. r\<lparr>sr_jiraIntegrationStatus := status, sr_updatedAt := now\<rparr>)"

definition with_comment ::
  "(jira_operation \<Rightarrow> bool) \<Rightarrow> delivery_status \<Rightarrow> ms \<Rightarrow> jira_operation list \<Rightarrow> jira_db \<Rightarrow> jira_db" where
  "with_comment p status now operations =
     set_messages (\<lambda>m. \<exists>o1 \<in> set operations. p o1 \<and> jo_operationType o1 = ADD_COMMENT \<and>
         jo_localCommentId o1 = Some (rm_id m))
       (\<lambda>m. m\<lparr>rm_deliveryStatus := status, rm_updatedAt := now\<rparr>)"

definition claim_wanted :: "string option \<Rightarrow> string option \<Rightarrow> jira_operation \<Rightarrow> bool" where
  "claim_wanted correlationId companyId o1 \<longleftrightarrow>
     (truthy correlationId \<longrightarrow> Some (wi_correlationId o1) = correlationId) \<and>
     (truthy companyId \<longrightarrow> Some (jo_companyId o1) = companyId)"

definition claim_transaction where
  "claim_transaction batchSize leaseMs now correlationId companyId token locked db =
     (let ops = jd_operations db;
          ops1 = update_where (lease_exhausted now) (give_up ''JIRA_LEASE_EXHAUSTED'' now) ops;
          (records, ops2) = claim_rows ''JIRA_LEASE_EXHAUSTED'' (claim_wanted correlationId companyId)
            (\<lambda>i. (wi_nextAttemptAt i, wi_createdAt i)) locked token batchSize leaseMs now ops;
          db1 = with_operation (lease_exhausted now) CREATE_ISSUE INTEGRATION_DEAD_LETTER now ops db;
          db2 = with_comment (\<lambda>o1. wi_status o1 = DEAD_LETTER \<and> wi_lastFailureCode o1 = Some ''JIRA_LEASE_EXHAUSTED'')
            DELIVERY_DEAD_LETTER now ops1 db1;
          db3 = with_operation (\<lambda>o1. wi_leaseToken o1 = Some token) CREATE_ISSUE INTEGRATION_PROCESSING now ops2 db2;
          db4 = with_comment (\<lambda>o1. wi_leaseToken o1 = Some token) DELIVERY_PROCESSING now ops2 db3
      in (records, db4\<lparr>jd_operations := ops2\<rparr>))"

definition claimJiraOperations ::
  "int \<Rightarrow> int \<Rightarrow> ms \<Rightarrow> string option \<Rightarrow> string option \<Rightarrow> string \<Rightarrow> string list \<Rightarrow> jira_db \<Rightarrow>
     (jira_error, jira_operation list, jira_db) handled" where
  "claimJiraOperations batchSize leaseMs now correlationId companyId token locked db =
     (case first_error
        [batch_error JIRA_BATCH_SIZE_INVALID JIRA_LEASE_INVALID batchSize leaseMs,
         (if truthy correlationId then safeReference (the correlationId) ''CORRELATION'' else None),
         (if truthy companyId then safeReference (the companyId) ''COMPANY'' else None),
         jira_database db] of
        Some e \<Rightarrow> (Inl e, db)
      | None \<Rightarrow>
          (case claim_transaction batchSize leaseMs now correlationId companyId token locked db of
             (records, db') \<Rightarrow> (Inr records, db')))"

section \<open>Settling an operation\<close>

text \<open>Inside a transaction: the guarded update of the operation, then what depends on it.\<close>

definition settle_operation ::
  "jira_operation \<Rightarrow> (jira_operation \<Rightarrow> jira_operation) \<Rightarrow> (jira_db \<Rightarrow> (jira_error, unit, jira_db) handled) \<Rightarrow> jira_db \<Rightarrow>
     (jira_error, unit, jira_db) handled" where
  "settle_operation record change continue db =
     (let held = lease_held (wi_id record) (the (wi_leaseToken record)) in
      if count_where held (jd_operations db) \<noteq> 1 then (Inl JIRA_LEASE_LOST, db)
      else continue (db\<lparr>jd_operations := update_where held change (jd_operations db)\<rparr>))"

definition jira_audit ::
  "jira_operation \<Rightarrow> string option \<Rightarrow> string \<Rightarrow> string \<Rightarrow> string \<Rightarrow> (string \<times> json) list \<Rightarrow> audit_row" where
  "jira_audit record actorId action publicId result metadata =
     \<lparr>au_companyId = Some (jo_companyId record), au_actorId = actorId, au_action = action,
      au_targetType = ''support_request'', au_targetId = Some publicId, au_result = result,
      au_correlationId = Some (wi_correlationId record), au_safeMetadata = metadata\<rparr>"

record issue_result =
  ir_issueId :: string
  ir_issueKey :: string
  ir_issueUrl :: string

definition completed_change :: "issue_result \<Rightarrow> ms \<Rightarrow> jira_operation \<Rightarrow> jira_operation" where
  "completed_change result now o1 =
     o1\<lparr>wi_status := COMPLETED, jo_providerIssueId := Some (ir_issueId result),
        jo_providerIssueKey := Some (ir_issueKey result), jo_completedAt := Some now, wi_leaseToken := None,
        wi_leaseUntil := None, wi_lastFailureCode := None, wi_updatedAt := now\<rparr>"

definition created_change :: "issue_result \<Rightarrow> ms \<Rightarrow> support_request \<Rightarrow> support_request" where
  "created_change result now r =
     r\<lparr>sr_jiraIntegrationStatus := INTEGRATION_CREATED, sr_jiraIssueId := Some (ir_issueId result),
       sr_jiraKey := Some (ir_issueKey result), sr_jiraIssueUrl := Some (ir_issueUrl result),
       sr_jiraSyncAt := Some now, sr_version := sr_version r + 1, sr_updatedAt := now\<rparr>"

definition complete_request ::
  "string \<Rightarrow> jira_operation \<Rightarrow> issue_result \<Rightarrow> ms \<Rightarrow> jira_db \<Rightarrow> (jira_error, unit, jira_db) handled" where
  "complete_request outboxId record result now db =
     (case request_by (jo_requestId record) db of
        None \<Rightarrow> (Inl JIRA_ROW_MISSING, db)
      | Some request \<Rightarrow>
          if \<not> (unique_in sr_id sr_jiraIssueId (sr_id request) (Some (ir_issueId result)) (jd_requests db) \<and>
                unique_in sr_id sr_jiraKey (sr_id request) (Some (ir_issueKey result)) (jd_requests db))
          then (Inl JIRA_UNIQUE_VIOLATION, db)
          else
            (Inr (),
             announced outboxId now (''jira-created:'' @ jo_requestId record) ''JIRA_ISSUE_CREATED''
               (sr_requesterId request) ''jira-ticket-created-v1'' (wi_correlationId record)
             (notified (sr_requesterId request) (jo_companyId record) REQUEST
               (IssueCreated (sr_publicId request) (ir_issueKey result)) (sr_publicId request)
             (audited (jira_audit record (Some (sr_requesterId request)) ''jira.issue.created''
                 (sr_publicId request) ''SUCCEEDED''
                 [(''requestId'', JString (sr_publicId request)), (''issueKey'', JString (ir_issueKey result))])
             (set_requests (\<lambda>r. sr_id r = jo_requestId record) (created_change result now) db)))))"

definition completeJiraOperation ::
  "string \<Rightarrow> jira_operation \<Rightarrow> issue_result \<Rightarrow> ms \<Rightarrow> jira_db \<Rightarrow> (jira_error, unit, jira_db) handled" where
  "completeJiraOperation outboxId record result now db =
     (if \<not> jd_available db then (Inl JIRA_DATABASE_UNAVAILABLE, db)
      else if \<not> (unique_in wi_id jo_providerIssueId (wi_id record) (Some (ir_issueId result)) (jd_operations db) \<and>
                unique_in wi_id jo_providerIssueKey (wi_id record) (Some (ir_issueKey result)) (jd_operations db)) \<and>
              count_where (lease_held (wi_id record) (the (wi_leaseToken record))) (jd_operations db) = 1
      then (Inl JIRA_UNIQUE_VIOLATION, db)
      else in_transaction (settle_operation record (completed_change result now)
             (complete_request outboxId record result now)) db)"

definition comment_change :: "string \<Rightarrow> ms \<Rightarrow> jira_operation \<Rightarrow> jira_operation" where
  "comment_change commentId now o1 =
     o1\<lparr>wi_status := COMPLETED, jo_providerCommentId := Some commentId, jo_completedAt := Some now,
        wi_leaseToken := None, wi_leaseUntil := None, wi_lastFailureCode := None, wi_updatedAt := now\<rparr>"

definition sent_change :: "string \<Rightarrow> ms \<Rightarrow> request_message \<Rightarrow> request_message" where
  "sent_change commentId now m =
     m\<lparr>rm_deliveryStatus := DELIVERY_SENT, rm_jiraCommentId := Some commentId,
       rm_jiraCommentUpdatedAt := Some now, rm_updatedAt := now\<rparr>"

definition complete_comment ::
  "jira_operation \<Rightarrow> string \<Rightarrow> ms \<Rightarrow> string \<Rightarrow> jira_db \<Rightarrow> (jira_error, unit, jira_db) handled" where
  "complete_comment record commentId now localCommentId db =
     (case message_by localCommentId db of
        None \<Rightarrow> (Inl JIRA_ROW_MISSING, db)
      | Some comment \<Rightarrow>
          if \<not> unique_in rm_id rm_jiraCommentId localCommentId (Some commentId) (jd_messages db)
          then (Inl JIRA_UNIQUE_VIOLATION, db)
          else
            (case request_by (rm_requestId comment) db of
               None \<Rightarrow> (Inl JIRA_ROW_MISSING, db)
             | Some request \<Rightarrow>
                 (Inr (),
                  audited (jira_audit record (rm_authorId comment) ''jira.comment.sent'' (sr_publicId request)
                      ''SUCCEEDED''
                      [(''requestId'', JString (sr_publicId request)), (''safeCommentId'', JString (rm_id comment)),
                       (''jiraIssueKey'', JString (case sr_jiraKey request of None \<Rightarrow> ''unavailable'' | Some k \<Rightarrow> k))])
                  (set_messages (\<lambda>m. rm_id m = localCommentId) (sent_change commentId now) db))))"

definition completeJiraCommentOperation ::
  "jira_operation \<Rightarrow> string \<Rightarrow> ms \<Rightarrow> jira_db \<Rightarrow> (jira_error, unit, jira_db) handled" where
  "completeJiraCommentOperation record commentId now db =
     (case jo_localCommentId record of
        None \<Rightarrow> (Inl JIRA_COMMENT_LOCAL_ID_MISSING, db)
      | Some localCommentId \<Rightarrow>
          if localCommentId = [] then (Inl JIRA_COMMENT_LOCAL_ID_MISSING, db)
          else if \<not> jd_available db then (Inl JIRA_DATABASE_UNAVAILABLE, db)
          else if \<not> unique_in wi_id jo_providerCommentId (wi_id record) (Some commentId) (jd_operations db) \<and>
              count_where (lease_held (wi_id record) (the (wi_leaseToken record))) (jd_operations db) = 1
          then (Inl JIRA_UNIQUE_VIOLATION, db)
          else in_transaction (settle_operation record (comment_change commentId now)
                 (complete_comment record commentId now localCommentId)) db)"

definition failed_operation :: "work_status \<Rightarrow> ms \<Rightarrow> string \<Rightarrow> ms \<Rightarrow> jira_operation \<Rightarrow> jira_operation" where
  "failed_operation status nextAttemptAt failure now o1 =
     o1\<lparr>wi_status := status, wi_nextAttemptAt := nextAttemptAt, wi_leaseToken := None, wi_leaseUntil := None,
        wi_lastFailureCode := Some failure, wi_updatedAt := now\<rparr>"

text \<open>The request of an issue, or the message of a comment, follows the status of its operation.\<close>

definition mark_target ::
  "jira_operation \<Rightarrow> integration_status \<Rightarrow> (request_message \<Rightarrow> request_message) \<Rightarrow> ms \<Rightarrow> jira_db \<Rightarrow> jira_db" where
  "mark_target record status change now db =
     (if jo_operationType record = CREATE_ISSUE
      then set_requests (\<lambda>r. sr_id r = jo_requestId record)
        (\<lambda>r. r\<lparr>sr_jiraIntegrationStatus := status, sr_version := sr_version r + 1, sr_updatedAt := now\<rparr>) db
      else case jo_localCommentId record of
        None \<Rightarrow> db
      | Some commentId \<Rightarrow> set_messages (\<lambda>m. rm_id m = commentId) (\<lambda>m. (change m)\<lparr>rm_updatedAt := now\<rparr>) db)"

definition failure_action :: "operation_type \<Rightarrow> bool \<Rightarrow> string" where
  "failure_action t deadLettered =
     (if t = ADD_COMMENT then ''jira.comment.failed''
      else if deadLettered then ''jira.operation.dead_lettered'' else ''jira.issue.create_failed'')"

definition fail_request ::
  "jira_operation \<Rightarrow> bool \<Rightarrow> string \<Rightarrow> ms \<Rightarrow> jira_db \<Rightarrow> (jira_error, unit, jira_db) handled" where
  "fail_request record deadLettered failure now db =
     (case request_by (jo_requestId record) db of
        None \<Rightarrow> (Inl JIRA_ROW_MISSING, db)
      | Some request \<Rightarrow>
          (Inr (),
           audited (jira_audit record (Some (sr_requesterId request))
               (failure_action (jo_operationType record) deadLettered) (sr_publicId request) ''FAILED''
               [(''requestId'', JString (sr_publicId request)), (''errorCode'', JString failure),
                (''attempt'', JNumber (wi_attempts record))])
           (mark_target record (if deadLettered then INTEGRATION_DEAD_LETTER else INTEGRATION_FAILED)
             (\<lambda>m. m\<lparr>rm_deliveryStatus := (if deadLettered then DELIVERY_DEAD_LETTER else DELIVERY_FAILED)\<rparr>) now db)))"

definition failJiraOperation ::
  "jira_operation \<Rightarrow> string \<times> bool \<Rightarrow> ms \<Rightarrow> jira_db \<Rightarrow> (jira_error, bool, jira_db) handled" where
  "failJiraOperation record failure now db =
     (let failureCode = ascii_upper (fst failure);
          deadLettered = (\<not> snd failure \<or> wi_maxAttempts record \<le> wi_attempts record) in
      case first_error [demand (SAFE_FAILURE_CODE failureCode) JIRA_FAILURE_CODE_INVALID, jira_database db] of
        Some e \<Rightarrow> (Inl e, db)
      | None \<Rightarrow>
          (case (if deadLettered then Inr now
                 else case jiraBackoffMs (wi_attempts record) of Inl e \<Rightarrow> Inl e | Inr d \<Rightarrow> Inr (now + d)) of
             Inl e \<Rightarrow> (Inl e, db)
           | Inr nextAttemptAt \<Rightarrow>
               (case in_transaction (settle_operation record
                   (failed_operation (if deadLettered then DEAD_LETTER else FAILED) nextAttemptAt failureCode now)
                   (fail_request record deadLettered failureCode now)) db of
                  (Inl e, db') \<Rightarrow> (Inl e, db')
                | (Inr _, db') \<Rightarrow> (Inr deadLettered, db'))))"

section \<open>The operator\<close>

definition operation_by :: "string \<Rightarrow> work_status \<Rightarrow> jira_db \<Rightarrow> jira_operation option" where
  "operation_by i status db =
     (case row_at (jd_operations db) i of
        None \<Rightarrow> None
      | Some o1 \<Rightarrow> if wi_status o1 = status then Some o1 else None)"

definition retry_change :: "ms \<Rightarrow> jira_operation \<Rightarrow> jira_operation" where
  "retry_change now o1 =
     o1\<lparr>wi_status := PENDING, wi_attempts := 0, wi_nextAttemptAt := now, wi_leaseToken := None,
        wi_leaseUntil := None, wi_lastFailureCode := None, jo_providerIssueId := None,
        jo_providerIssueKey := None, jo_providerCommentId := None, jo_completedAt := None, wi_updatedAt := now\<rparr>"

definition operator_transaction where
  "operator_transaction i required missing change status messageChange action result metadata now db =
     (case first_error [safeReference i ''OPERATION_ID'', jira_database db] of
        Some e \<Rightarrow> (Inl e, db)
      | None \<Rightarrow>
          in_transaction
            (\<lambda>db. case operation_by i required db of
               None \<Rightarrow> (Inl missing, db)
             | Some operation \<Rightarrow>
                 let db1 = db\<lparr>jd_operations := update_where (\<lambda>o1. wi_id o1 = i) change (jd_operations db)\<rparr> in
                 (case request_by (jo_requestId operation) db1 of
                    None \<Rightarrow> (Inl JIRA_ROW_MISSING, db1)
                  | Some request \<Rightarrow>
                      (Inr (),
                       audited (jira_audit operation None action (sr_publicId request) result
                           ((''requestId'', JString (sr_publicId request)) # metadata operation))
                       (mark_target operation status messageChange now db1)))) db)"

definition retryJiraOperation :: "string \<Rightarrow> ms \<Rightarrow> jira_db \<Rightarrow> (jira_error, unit, jira_db) handled" where
  "retryJiraOperation i now db =
     operator_transaction i DEAD_LETTER JIRA_DEAD_LETTER_NOT_FOUND (retry_change now) INTEGRATION_PENDING
       (\<lambda>m. m\<lparr>rm_deliveryStatus := DELIVERY_PENDING, rm_jiraCommentId := None, rm_jiraCommentUpdatedAt := None\<rparr>)
       ''jira.operation.retried'' ''SUCCEEDED'' (\<lambda>_. []) now db"

definition bury_change :: "ms \<Rightarrow> jira_operation \<Rightarrow> jira_operation" where
  "bury_change now o1 =
     o1\<lparr>wi_status := DEAD_LETTER, wi_leaseToken := None, wi_leaseUntil := None, wi_nextAttemptAt := now,
        wi_lastFailureCode := Some (case wi_lastFailureCode o1 of None \<Rightarrow> ''JIRA_MANUAL_DEAD_LETTER'' | Some f \<Rightarrow> f),
        wi_updatedAt := now\<rparr>"

definition moveFailedJiraOperationToDeadLetter :: "string \<Rightarrow> ms \<Rightarrow> jira_db \<Rightarrow> (jira_error, unit, jira_db) handled" where
  "moveFailedJiraOperationToDeadLetter i now db =
     operator_transaction i FAILED JIRA_FAILED_OPERATION_NOT_FOUND (bury_change now) INTEGRATION_DEAD_LETTER
       (\<lambda>m. m\<lparr>rm_deliveryStatus := DELIVERY_DEAD_LETTER\<rparr>)
       ''jira.operation.dead_lettered'' ''FAILED''
       (\<lambda>o1. [(''errorCode'', JString (case wi_lastFailureCode o1 of None \<Rightarrow> ''JIRA_MANUAL_DEAD_LETTER'' | Some f \<Rightarrow> f)),
              (''attempt'', JNumber (wi_attempts o1))]) now db"

section \<open>The batch of the worker\<close>

text \<open>A provider: its two calls with the state they leave.\<close>

record 'p jira_provider =
  pv_createIssue :: "issue_payload \<Rightarrow> int \<Rightarrow> 'p \<Rightarrow> (jira_thrown + issue_result) \<times> 'p"
  pv_addComment :: "comment_payload \<Rightarrow> int \<Rightarrow> 'p \<Rightarrow> (jira_thrown + string) \<times> 'p"

datatype provider_call = CallCreateIssue issue_payload | CallAddComment comment_payload

text \<open>What is read and checked before the provider is called.\<close>

definition prepare_issue where
  "prepare_issue nfkc sha256 category record request =
     (case projectJiraCreateIssue nfkc sha256 category
        \<lparr>ii_requestId = sr_publicId request, ii_subject = sr_title request,
         ii_description = sr_description request, ii_category = sr_category request,
         ii_priority = sr_priority request, ii_projectKey = jo_projectKey record,
         ii_issueType = jo_issueType record, ii_componentId = jo_componentId record,
         ii_requestType = jo_requestType record, ii_idempotencyKey = jo_idempotencyKey record\<rparr> of
        Inl e \<Rightarrow> Inl (text_thrown e)
      | Inr payload \<Rightarrow> Inr (CallCreateIssue payload))"

definition prepare_comment where
  "prepare_comment nfkc sha256 record request db =
     (if \<not> truthy (jo_localCommentId record) \<or> \<not> truthy (sr_jiraIssueId request) \<or> \<not> truthy (sr_jiraKey request)
      then Inl (ProviderError ''JIRA_COMMENT_TARGET_UNAVAILABLE'' False)
      else
        (case List.find (\<lambda>m. rm_id m = the (jo_localCommentId record) \<and> rm_requestId m = sr_id request)
           (jd_messages db) of
           None \<Rightarrow> Inl (ProviderError ''JIRA_COMMENT_UNAVAILABLE'' False)
         | Some comment \<Rightarrow>
             if rm_authorType comment \<noteq> CUSTOMER then Inl (ProviderError ''JIRA_COMMENT_UNAVAILABLE'' False)
             else (case projectJiraComment nfkc sha256 (the (sr_jiraIssueId request)) (the (sr_jiraKey request))
                 (sr_publicId request) (rm_body comment) (jo_idempotencyKey record) of
                 Inl e \<Rightarrow> Inl (comment_thrown e)
               | Inr payload \<Rightarrow> Inr (CallAddComment payload))))"

definition prepare_operation ::
  "(string \<Rightarrow> string) \<Rightarrow> (string \<Rightarrow> string) \<Rightarrow> (string \<Rightarrow> bool) \<Rightarrow> jira_operation \<Rightarrow> jira_db \<Rightarrow>
     jira_thrown + provider_call" where
  "prepare_operation nfkc sha256 category record db =
     (if wi_leaseToken record = None then Inl (ProviderError ''JIRA_LEASE_MISSING'' False)
      else if \<not> jd_available db then Inl (database_thrown JIRA_DATABASE_UNAVAILABLE)
      else
        (case request_by (jo_requestId record) db of
           None \<Rightarrow> Inl (ProviderError ''JIRA_REQUEST_UNAVAILABLE'' False)
         | Some request \<Rightarrow>
             if sr_companyId request \<noteq> jo_companyId record
             then Inl (ProviderError ''JIRA_REQUEST_UNAVAILABLE'' False)
             else
               (case List.find (\<lambda>m. jm_id m = jo_mappingId record) (jd_mappings db) of
                  None \<Rightarrow> Inl (ProviderError ''JIRA_MAPPING_DISABLED'' False)
                | Some mapping \<Rightarrow>
                    if jm_companyId mapping \<noteq> jo_companyId record \<or> \<not> jm_enabled mapping
                    then Inl (ProviderError ''JIRA_MAPPING_DISABLED'' False)
                    else if jo_operationType record = CREATE_ISSUE
                    then prepare_issue nfkc sha256 category record request
                    else prepare_comment nfkc sha256 record request db)))"

definition perform_operation ::
  "'p jira_provider \<Rightarrow> string \<Rightarrow> jira_operation \<Rightarrow> ms \<Rightarrow> provider_call \<Rightarrow> 'p \<Rightarrow> jira_db \<Rightarrow>
     (jira_thrown option \<times> 'p) \<times> jira_db" where
  "perform_operation provider outboxId record now call p db =
     (case call of
        CallCreateIssue payload \<Rightarrow>
          (case pv_createIssue provider payload (wi_attempts record) p of
             (Inl t, p') \<Rightarrow> ((Some t, p'), db)
           | (Inr result, p') \<Rightarrow>
               (case completeJiraOperation outboxId record result now db of
                  (Inl e, db') \<Rightarrow> ((Some (database_thrown e), p'), db') | (Inr _, db') \<Rightarrow> ((None, p'), db')))
      | CallAddComment payload \<Rightarrow>
          (case pv_addComment provider payload (wi_attempts record) p of
             (Inl t, p') \<Rightarrow> ((Some t, p'), db)
           | (Inr commentId, p') \<Rightarrow>
               (case completeJiraCommentOperation record commentId now db of
                  (Inl e, db') \<Rightarrow> ((Some (database_thrown e), p'), db') | (Inr _, db') \<Rightarrow> ((None, p'), db'))))"

record jira_counts =
  jc_completed :: nat
  jc_failed :: nat
  jc_deadLettered :: nat

definition process_operation where
  "process_operation nfkc sha256 category provider outboxId now record p db =
     (case prepare_operation nfkc sha256 category record db of
        Inl t \<Rightarrow> ((Some t, p), db)
      | Inr call \<Rightarrow> perform_operation provider outboxId record now call p db)"

fun process_operations where
  "process_operations nfkc sha256 category provider newId now [] counts p db = ((Inr counts, p), db)"
| "process_operations nfkc sha256 category provider newId now (record # records) counts p db =
     (case process_operation nfkc sha256 category provider (newId (wi_id record)) now record p db of
        ((None, p'), db') \<Rightarrow>
          process_operations nfkc sha256 category provider newId now records
            (counts\<lparr>jc_completed := jc_completed counts + 1\<rparr>) p' db'
      | ((Some t, p'), db') \<Rightarrow>
          (case failJiraOperation record (providerFailure t) now db' of
             (Inl e, db'') \<Rightarrow> ((Inl e, p'), db'')
           | (Inr dead, db'') \<Rightarrow>
               process_operations nfkc sha256 category provider newId now records
                 (if dead then counts\<lparr>jc_deadLettered := jc_deadLettered counts + 1\<rparr>
                  else counts\<lparr>jc_failed := jc_failed counts + 1\<rparr>) p' db''))"

definition processJiraOperationBatch where
  "processJiraOperationBatch nfkc sha256 category provider newId batchSize leaseMs now correlationId companyId token
     locked p db =
     (case claimJiraOperations batchSize leaseMs now correlationId companyId token locked db of
        (Inl e, db') \<Rightarrow> ((Inl e, p), db')
      | (Inr records, db') \<Rightarrow>
          process_operations nfkc sha256 category provider newId now records
            \<lparr>jc_completed = 0, jc_failed = 0, jc_deadLettered = 0\<rparr> p db')"

section \<open>The providers of the repository\<close>

text \<open>
  \<open>DisabledJiraProvider\<close> refuses; \<open>TestJiraProvider\<close> keeps its receipts by marker. The number it derives
  from the hash of a marker is the parameter \<open>sequence\<close>, the address of an issue \<open>browse\<close>.
\<close>

definition disabled_provider :: "unit jira_provider" where
  "disabled_provider =
     \<lparr>pv_createIssue = (\<lambda>payload attempt p. (Inl (ProviderError ''JIRA_DISABLED'' False), p)),
      pv_addComment = (\<lambda>payload attempt p. (Inl (ProviderError ''JIRA_DISABLED'' False), p))\<rparr>"

record test_receipts =
  tr_issues :: "(string \<times> issue_result) list"
  tr_comments :: "(string \<times> string) list"

definition safeIssueResult :: "(string \<Rightarrow> string) \<Rightarrow> string \<Rightarrow> string \<Rightarrow> jira_thrown + issue_result" where
  "safeIssueResult browse issueId issueKey =
     (if \<not> jira_reference 199 issueId \<or> \<not> SAFE_ISSUE_KEY issueKey then Inl (ProviderError ''JIRA_RESPONSE_INVALID'' False)
      else Inr \<lparr>ir_issueId = issueId, ir_issueKey = issueKey, ir_issueUrl = browse issueKey\<rparr>)"

definition rejected :: "bool \<Rightarrow> int \<Rightarrow> int \<Rightarrow> jira_thrown option" where
  "rejected permanentFailure transientFailures attempt =
     (if permanentFailure then Some (ProviderError ''JIRA_TEST_PERMANENT_REJECTION'' False)
      else if attempt \<le> transientFailures then Some (ProviderError ''JIRA_TEST_TRANSIENT_REJECTION'' True)
      else None)"

definition test_create_issue where
  "test_create_issue browse sequence permanent transient payload attempt receipts =
     (case map_of (tr_issues receipts) (ip_marker payload) of
        Some previous \<Rightarrow> (Inr previous, receipts)
      | None \<Rightarrow>
          (case rejected permanent transient attempt of
             Some t \<Rightarrow> (Inl t, receipts)
           | None \<Rightarrow>
               (case safeIssueResult browse (''test-'' @ ip_marker payload)
                   (ip_project payload @ ''-'' @ sequence (ip_marker payload)) of
                  Inl t \<Rightarrow> (Inl t, receipts)
                | Inr result \<Rightarrow>
                    (Inr result, receipts\<lparr>tr_issues := (ip_marker payload, result) # tr_issues receipts\<rparr>))))"

definition test_add_comment where
  "test_add_comment permanent transient payload attempt receipts =
     (case map_of (tr_comments receipts) (cp_marker payload) of
        Some previous \<Rightarrow> (Inr previous, receipts)
      | None \<Rightarrow>
          (case rejected permanent transient attempt of
             Some t \<Rightarrow> (Inl t, receipts)
           | None \<Rightarrow>
               (Inr (''test-'' @ cp_marker payload),
                receipts\<lparr>tr_comments := (cp_marker payload, ''test-'' @ cp_marker payload) # tr_comments receipts\<rparr>)))"

definition test_provider where
  "test_provider browse sequence permanent transient =
     \<lparr>pv_createIssue = test_create_issue browse sequence permanent transient,
      pv_addComment = test_add_comment permanent transient\<rparr>"

end
