(* ===== verification/JiraInbound.thy ===== *)
theory JiraInbound
  imports JiraOutbox
begin

text \<open>
  The incoming side of the Jira integration (\<open>lib/jira-inbound.ts\<close>): claiming stored webhook events,
  applying status changes, comments and deletions to the requests, failing, retrying, dead letters
  and retention. The transaction of a status change reads the request before it updates it under a
  condition, so what it read is an argument of the part that writes.
\<close>

section \<open>Errors and payloads\<close>

datatype inbound_error =
    INBOUND_BATCH_SIZE_INVALID
  | INBOUND_LEASE_INVALID
  | INBOUND_REFERENCE_INVALID string
  | INBOUND_DATABASE_UNAVAILABLE
  | INBOUND_PAYLOAD_INVALID
  | INBOUND_TENANT_MAPPING_INVALID
  | INBOUND_STATUS_DATE_INVALID
  | INBOUND_COMMENT_DATE_INVALID
  | INBOUND_COMMENT_TENANT_COLLISION
  | INBOUND_LEASE_LOST
  | INBOUND_ATTEMPT_INVALID
  | INBOUND_RETRY_NOT_FOUND
  | INBOUND_FAILED_EVENT_NOT_FOUND
  | INBOUND_RETENTION_INVALID
  | INBOUND_UNIQUE_VIOLATION

text \<open>
  Dates of a payload are ISO texts, \<open>JDate\<close>, or other texts, which are no dates.
\<close>

datatype inbound_payload =
    StatusPayload string string "ms option"
  | CommentPayload string string string bool bool "ms option"
  | DeletedPayload

definition payload_date :: "json option \<Rightarrow> ms option option" where
  "payload_date v = (case v of Some (JDate t) \<Rightarrow> Some (Some t) | Some (JString s) \<Rightarrow> Some None | _ \<Rightarrow> None)"

definition payload_text :: "json option \<Rightarrow> string option" where
  "payload_text v = (case v of Some (JString s) \<Rightarrow> Some s | _ \<Rightarrow> None)"

definition payload_bool :: "json option \<Rightarrow> bool option" where
  "payload_bool v = (case v of Some (JBool b) \<Rightarrow> Some b | _ \<Rightarrow> None)"

definition normalizedPayload :: "json \<Rightarrow> inbound_error + inbound_payload" where
  "normalizedPayload v =
     (let kind = field v ''kind''; at = payload_date (field v ''jiraUpdatedAt'') in
      if kind = Some (JString ''ISSUE_DELETED'') \<and> at \<noteq> None then Inr DeletedPayload
      else if kind = Some (JString ''STATUS'') then
        (case (payload_text (field v ''statusId''), payload_text (field v ''statusName''), at) of
           (Some i, Some n, Some t) \<Rightarrow> Inr (StatusPayload i n t)
         | _ \<Rightarrow> Inl INBOUND_PAYLOAD_INVALID)
      else if kind = Some (JString ''COMMENT'') then
        (case (payload_text (field v ''commentId''), payload_text (field v ''body''), payload_text (field v ''authorName''),
               payload_bool (field v ''public''), payload_bool (field v ''automation''), at) of
           (Some c, Some b, Some a, Some p, Some m, Some t) \<Rightarrow> Inr (CommentPayload c b a p m t)
         | _ \<Rightarrow> Inl INBOUND_PAYLOAD_INVALID)
      else Inl INBOUND_PAYLOAD_INVALID)"

definition inbound_reference :: "string \<Rightarrow> string \<Rightarrow> inbound_error option" where
  "inbound_reference v name = demand (jira_reference 199 v) (INBOUND_REFERENCE_INVALID name)"

definition inbound_database :: "jira_db \<Rightarrow> inbound_error option" where
  "inbound_database db = demand (jd_available db) INBOUND_DATABASE_UNAVAILABLE"

section \<open>Claiming\<close>

definition event_wanted :: "string option \<Rightarrow> string option \<Rightarrow> inbound_event \<Rightarrow> bool" where
  "event_wanted correlationId companyId e \<longleftrightarrow>
     (truthy correlationId \<longrightarrow> Some (wi_correlationId e) = correlationId) \<and>
     (truthy companyId \<longrightarrow> Some (ie_companyId e) = companyId)"

definition claimJiraInboundEvents ::
  "int \<Rightarrow> int \<Rightarrow> ms \<Rightarrow> string option \<Rightarrow> string option \<Rightarrow> string \<Rightarrow> string list \<Rightarrow> jira_db \<Rightarrow>
     (inbound_error, inbound_event list, jira_db) handled" where
  "claimJiraInboundEvents batchSize leaseMs now correlationId companyId token locked db =
     (case first_error
        [batch_error INBOUND_BATCH_SIZE_INVALID INBOUND_LEASE_INVALID batchSize leaseMs,
         (if truthy correlationId then inbound_reference (the correlationId) ''CORRELATION'' else None),
         (if truthy companyId then inbound_reference (the companyId) ''COMPANY'' else None),
         inbound_database db] of
        Some e \<Rightarrow> (Inl e, db)
      | None \<Rightarrow>
          (case claim_rows ''LEASE_EXHAUSTED'' (event_wanted correlationId companyId)
             (\<lambda>e. (ie_occurredAt e, wi_createdAt e)) locked token batchSize leaseMs now (jd_events db) of
             (records, events) \<Rightarrow> (Inr records, db\<lparr>jd_events := events\<rparr>)))"

section \<open>Applying an event\<close>

definition event_audit ::
  "inbound_event \<Rightarrow> string option \<Rightarrow> string \<Rightarrow> string \<Rightarrow> (string \<times> json) list \<Rightarrow> audit_row" where
  "event_audit record publicId action result metadata =
     \<lparr>au_companyId = Some (ie_companyId record), au_actorId = None, au_action = action,
      au_targetType = ''support_request'',
      au_targetId = (case publicId of Some p \<Rightarrow> if jira_reference 199 p then Some p else None | None \<Rightarrow> None),
      au_result = result, au_correlationId = Some (wi_correlationId record),
      au_safeMetadata =
        [(''jiraIssueKey'', JString (ie_jiraIssueKey record)),
         (''eventFingerprintPrefix'', JString (take 12 (ie_eventFingerprint record)))] @
        (case publicId of Some p \<Rightarrow> [(''requestId'', JString p)] | None \<Rightarrow> []) @ metadata\<rparr>"

definition finished_change :: "work_status \<Rightarrow> ms \<Rightarrow> inbound_event \<Rightarrow> inbound_event" where
  "finished_change status now e =
     e\<lparr>wi_status := status, ie_completedAt := Some now, wi_leaseToken := None, wi_leaseUntil := None,
       wi_lastFailureCode := None, wi_updatedAt := now\<rparr>"

definition finishEvent ::
  "inbound_event \<Rightarrow> work_status \<Rightarrow> ms \<Rightarrow> jira_db \<Rightarrow> (inbound_error, bool, jira_db) handled" where
  "finishEvent record status now db =
     (let held = lease_held (wi_id record) (the (wi_leaseToken record)) in
      if count_where held (jd_events db) = 1
      then (Inr (status = COMPLETED),
            db\<lparr>jd_events := update_where held (finished_change status now) (jd_events db)\<rparr>)
      else (Inl INBOUND_LEASE_LOST, db))"

definition request_matches :: "inbound_event \<Rightarrow> support_request \<Rightarrow> bool" where
  "request_matches record r \<longleftrightarrow>
     sr_companyId r = ie_companyId record \<and> sr_jiraIssueId r = Some (ie_jiraIssueId record) \<and>
     sr_jiraKey r = Some (ie_jiraIssueKey record)"

definition matching_request :: "inbound_event \<Rightarrow> jira_db \<Rightarrow> inbound_error + support_request" where
  "matching_request record db =
     (case request_by (ie_requestId record) db of
        None \<Rightarrow> Inl INBOUND_TENANT_MAPPING_INVALID
      | Some r \<Rightarrow> if request_matches record r then Inr r else Inl INBOUND_TENANT_MAPPING_INVALID)"

definition ignore_event ::
  "inbound_event \<Rightarrow> support_request \<Rightarrow> string \<Rightarrow> (string \<times> json) list \<Rightarrow> ms \<Rightarrow> jira_db \<Rightarrow>
     (inbound_error, bool, jira_db) handled" where
  "ignore_event record request action metadata now db =
     finishEvent record IGNORED now
       (audited (event_audit record (Some (sr_publicId request)) action ''DENIED'' metadata) db)"

definition status_change :: "transition_decision \<Rightarrow> request_status \<Rightarrow> string \<Rightarrow> string \<Rightarrow> ms \<Rightarrow> ms \<Rightarrow> support_request \<Rightarrow> support_request" where
  "status_change decision mappedStatus statusId statusName incomingAt now r =
     r\<lparr>sr_status := (if decision = APPLY then mappedStatus else sr_status r),
       sr_jiraStatusId := Some statusId, sr_jiraStatusName := Some statusName,
       sr_jiraUpdatedAt := Some incomingAt, sr_jiraSyncAt := Some now,
       sr_jiraSyncVersion := sr_jiraSyncVersion r + 1, sr_version := sr_version r + 1, sr_updatedAt := now\<rparr>"

definition status_guard :: "support_request \<Rightarrow> string \<Rightarrow> ms \<Rightarrow> support_request \<Rightarrow> bool" where
  "status_guard request companyId incomingAt r \<longleftrightarrow>
     sr_id r = sr_id request \<and> sr_companyId r = companyId \<and>
     (case sr_jiraUpdatedAt r of None \<Rightarrow> True | Some t \<Rightarrow> t < incomingAt)"

definition transition_entry :: "support_request \<Rightarrow> request_status \<Rightarrow> string \<times> json" where
  "transition_entry request mappedStatus =
     (''transition'', JString (status_text (sr_status request) @ ''->'' @ status_text mappedStatus))"

definition status_applied ::
  "string \<Rightarrow> inbound_event \<Rightarrow> support_request \<Rightarrow> request_status \<Rightarrow> transition_decision \<Rightarrow> ms \<Rightarrow> jira_db \<Rightarrow>
     (inbound_error, bool, jira_db) handled" where
  "status_applied outboxId record request mappedStatus decision now db =
     finishEvent record COMPLETED now
       (let db1 = audited (event_audit record (Some (sr_publicId request)) ''jira.status.updated'' ''SUCCEEDED''
              [transition_entry request mappedStatus]) db in
        if decision = APPLY
        then announced outboxId now (''jira-status:'' @ ie_eventFingerprint record) ''JIRA_STATUS_UPDATED''
               (sr_requesterId request) ''jira-status-updated'' (wi_correlationId record)
               (notified (sr_requesterId request) (sr_companyId request) REQUEST
                 (StatusUpdated (sr_publicId request)) (sr_publicId request) db1)
        else db1)"

text \<open>\<open>request\<close> and \<open>mapping\<close> are what the transaction has read.\<close>

definition processStatus_read ::
  "support_request \<Rightarrow> jira_mapping option \<Rightarrow> string \<Rightarrow> inbound_event \<Rightarrow> string \<Rightarrow> string \<Rightarrow> ms option \<Rightarrow> ms \<Rightarrow> jira_db \<Rightarrow>
     (inbound_error, bool, jira_db) handled" where
  "processStatus_read request mapping outboxId record statusId statusName updatedAt now db =
     (case resolveJiraStatus statusName (case mapping of None \<Rightarrow> None | Some m \<Rightarrow> jm_statusMapping m) of
        None \<Rightarrow> ignore_event record request ''jira.status.ignored_unknown'' [(''jiraStatusId'', JString statusId)] now db
      | Some mappedStatus \<Rightarrow>
          (case updatedAt of
             None \<Rightarrow> (Inl INBOUND_STATUS_DATE_INVALID, db)
           | Some incomingAt \<Rightarrow>
               let decision = statusTransitionDecision (sr_status request) (sr_jiraUpdatedAt request) mappedStatus incomingAt;
                   guard = status_guard request (ie_companyId record) incomingAt in
               if decision = STALE \<or> decision = TERMINAL_CONFLICT
               then ignore_event record request ''jira.status.ignored_stale''
                 [transition_entry request mappedStatus,
                  (''reasonCode'', JString (if decision = STALE then ''STALE'' else ''TERMINAL_CONFLICT''))] now db
               else if count_where guard (jd_requests db) \<noteq> 1
               then ignore_event record request ''jira.status.ignored_stale''
                 [transition_entry request mappedStatus, (''reasonCode'', JString ''FENCED_BY_CONCURRENT_UPDATE'')] now db
               else status_applied outboxId record request mappedStatus decision now
                 (set_requests guard (status_change decision mappedStatus statusId statusName incomingAt now) db)))"

definition processStatus where
  "processStatus outboxId record statusId statusName updatedAt now db =
     (case matching_request record db of
        Inl e \<Rightarrow> (Inl e, db)
      | Inr request \<Rightarrow>
          processStatus_read request (List.find (\<lambda>m. jm_companyId m = ie_companyId record) (jd_mappings db))
            outboxId record statusId statusName updatedAt now db)"

definition imported_message ::
  "string \<Rightarrow> inbound_event \<Rightarrow> string \<Rightarrow> string \<Rightarrow> string \<Rightarrow> string \<Rightarrow> ms \<Rightarrow> ms \<Rightarrow> request_message" where
  "imported_message i record requestId commentId body authorName updatedAt now =
     \<lparr>rm_id = i, rm_body = body, rm_authorId = None, rm_authorType = JIRA,
      rm_authorDisplayName = Some authorName, rm_deliveryStatus = NOT_REQUIRED, rm_requestId = requestId,
      rm_jiraCommentId = Some commentId, rm_jiraCommentUpdatedAt = Some updatedAt, rm_idempotencyKey = None,
      rm_correlationId = Some (wi_correlationId record), rm_createdAt = now, rm_updatedAt = now\<rparr>"

definition comment_imported ::
  "inbound_event \<Rightarrow> support_request \<Rightarrow> string \<Rightarrow> ms \<Rightarrow> jira_db \<Rightarrow> jira_db" where
  "comment_imported record request commentId now db =
     audited (event_audit record (Some (sr_publicId request)) ''jira.comment.imported'' ''SUCCEEDED''
       [(''safeCommentId'', JString commentId)]) db"

text \<open>A comment known already is edited only by a later version of itself, and only if it came from Jira.\<close>

definition update_comment where
  "update_comment existing record request commentId body authorName updatedAt now db =
     (if rm_requestId existing \<noteq> sr_id request then (Inl INBOUND_COMMENT_TENANT_COLLISION, db)
      else if rm_authorType existing \<noteq> JIRA then finishEvent record IGNORED now db
      else if (case rm_jiraCommentUpdatedAt existing of None \<Rightarrow> False | Some t \<Rightarrow> updatedAt \<le> t)
      then finishEvent record IGNORED now db
      else finishEvent record COMPLETED now (comment_imported record request commentId now
             (set_messages (\<lambda>m. rm_id m = rm_id existing)
               (\<lambda>m. m\<lparr>rm_body := body, rm_authorDisplayName := Some authorName,
                       rm_jiraCommentUpdatedAt := Some updatedAt, rm_updatedAt := now\<rparr>) db)))"

definition create_comment where
  "create_comment newId outboxId record request commentId body authorName updatedAt now db =
     finishEvent record COMPLETED now
       (announced outboxId now (''jira-comment:'' @ commentId) ''JIRA_PUBLIC_COMMENT'' (sr_requesterId request)
          ''jira-public-comment'' (wi_correlationId record)
       (notified (sr_requesterId request) (sr_companyId request) MESSAGE (CommentAdded (sr_publicId request))
          (sr_publicId request)
       (comment_imported record request commentId now
         (db\<lparr>jd_messages := jd_messages db @
              [imported_message newId record (sr_id request) commentId body authorName updatedAt now]\<rparr>))))"

definition processComment where
  "processComment newId outboxId record commentId body authorName public automation date now db =
     (case matching_request record db of
        Inl e \<Rightarrow> (Inl e, db)
      | Inr request \<Rightarrow>
          if \<not> public \<or> automation
          then ignore_event record request ''jira.comment.ignored_private''
            [(''reasonCode'', JString (if automation then ''AUTOMATION'' else ''PRIVATE''))] now db
          else
            (case date of
               None \<Rightarrow> (Inl INBOUND_COMMENT_DATE_INVALID, db)
             | Some updatedAt \<Rightarrow>
                 (case List.find (\<lambda>m. rm_jiraCommentId m = Some commentId) (jd_messages db) of
                    Some existing \<Rightarrow> update_comment existing record request commentId body authorName updatedAt now db
                  | None \<Rightarrow> create_comment newId outboxId record request commentId body authorName updatedAt now db)))"

definition processDeleted where
  "processDeleted record now db =
     (case List.find (\<lambda>r. sr_id r = ie_requestId record \<and> sr_companyId r = ie_companyId record \<and>
         sr_jiraIssueId r = Some (ie_jiraIssueId record)) (jd_requests db) of
        None \<Rightarrow> (Inl INBOUND_TENANT_MAPPING_INVALID, db)
      | Some request \<Rightarrow>
          finishEvent record COMPLETED now
            (audited (event_audit record (Some (sr_publicId request)) ''jira.issue.deleted'' ''SUCCEEDED'' [])
            (set_requests (\<lambda>r. sr_id r = sr_id request)
              (\<lambda>r. r\<lparr>sr_jiraIntegrationStatus := INTEGRATION_FAILED,
                     sr_jiraStatusName := Some ''Unavailable in Jira'', sr_jiraSyncAt := Some now,
                     sr_version := sr_version r + 1, sr_updatedAt := now\<rparr>) db)))"

definition processOne ::
  "string \<Rightarrow> string \<Rightarrow> inbound_event \<Rightarrow> ms \<Rightarrow> jira_db \<Rightarrow> (inbound_error, bool, jira_db) handled" where
  "processOne newId outboxId record now db =
     (case normalizedPayload (ie_normalizedPayload record) of
        Inl e \<Rightarrow> (Inl e, db)
      | Inr payload \<Rightarrow>
          if \<not> jd_available db then (Inl INBOUND_DATABASE_UNAVAILABLE, db)
          else in_transaction (\<lambda>db.
            case payload of
              StatusPayload statusId statusName updatedAt \<Rightarrow>
                processStatus outboxId record statusId statusName updatedAt now db
            | CommentPayload commentId body authorName public automation date \<Rightarrow>
                processComment newId outboxId record commentId body authorName public automation date now db
            | DeletedPayload \<Rightarrow> processDeleted record now db) db)"

section \<open>Failing, retrying, retention\<close>

definition inbound_message :: "inbound_error \<Rightarrow> string" where
  "inbound_message e =
     (case e of
        INBOUND_PAYLOAD_INVALID \<Rightarrow> ''JIRA_INBOUND_PAYLOAD_INVALID''
      | INBOUND_TENANT_MAPPING_INVALID \<Rightarrow> ''JIRA_INBOUND_TENANT_MAPPING_INVALID''
      | INBOUND_COMMENT_TENANT_COLLISION \<Rightarrow> ''JIRA_INBOUND_COMMENT_TENANT_COLLISION''
      | INBOUND_STATUS_DATE_INVALID \<Rightarrow> ''JIRA_INBOUND_STATUS_DATE_INVALID''
      | INBOUND_COMMENT_DATE_INVALID \<Rightarrow> ''JIRA_INBOUND_COMMENT_DATE_INVALID''
      | INBOUND_LEASE_LOST \<Rightarrow> ''JIRA_INBOUND_LEASE_LOST''
      | INBOUND_DATABASE_UNAVAILABLE \<Rightarrow> ''JIRA_INBOUND_DATABASE_UNAVAILABLE''
      | _ \<Rightarrow> [])"

definition inbound_failure_code :: "string \<Rightarrow> string" where
  "inbound_failure_code message = (if SAFE_FAILURE_CODE message then message else ''JIRA_INBOUND_PROCESSING_FAILED'')"

definition failed_event :: "work_status \<Rightarrow> ms \<Rightarrow> string \<Rightarrow> ms \<Rightarrow> inbound_event \<Rightarrow> inbound_event" where
  "failed_event status nextAttemptAt failure now e =
     e\<lparr>wi_status := status, wi_nextAttemptAt := nextAttemptAt, wi_leaseToken := None, wi_leaseUntil := None,
       wi_lastFailureCode := Some failure, wi_updatedAt := now\<rparr>"

definition failEvent ::
  "inbound_event \<Rightarrow> string \<Rightarrow> ms \<Rightarrow> jira_db \<Rightarrow> (inbound_error, bool, jira_db) handled" where
  "failEvent record message now db =
     (let failure = inbound_failure_code message;
          deadLettered = (wi_maxAttempts record \<le> wi_attempts record \<or> str_includes failure ''TENANT_'' \<or>
            str_includes failure ''PAYLOAD_'');
          held = lease_held (wi_id record) (the (wi_leaseToken record)) in
      if \<not> jd_available db then (Inl INBOUND_DATABASE_UNAVAILABLE, db)
      else
        (case (if deadLettered then Inr now
               else case backoff_ms INBOUND_ATTEMPT_INVALID (wi_attempts record) of Inl e \<Rightarrow> Inl e | Inr d \<Rightarrow> Inr (now + d)) of
           Inl e \<Rightarrow> (Inl e, db)
         | Inr nextAttemptAt \<Rightarrow>
             if count_where held (jd_events db) \<noteq> 1 then (Inl INBOUND_LEASE_LOST, db)
             else
               (Inr deadLettered,
                audited (event_audit record
                    (map_option sr_publicId (List.find (\<lambda>r. sr_id r = ie_requestId record \<and>
                       sr_companyId r = ie_companyId record) (jd_requests db)))
                    (if deadLettered then ''jira.inbound.dead_lettered'' else ''jira.inbound.failed'') ''FAILED''
                    [(''normalizedErrorCode'', JString failure)])
                (db\<lparr>jd_events := update_where held
                   (failed_event (if deadLettered then DEAD_LETTER else FAILED) nextAttemptAt failure now) (jd_events db)\<rparr>))))"

record inbound_counts =
  ic_completed :: nat
  ic_ignored :: nat
  ic_failed :: nat
  ic_deadLettered :: nat

fun process_events where
  "process_events newId outboxId now [] counts db = (Inr counts, db)"
| "process_events newId outboxId now (record # records) counts db =
     (case processOne (newId (wi_id record)) (outboxId (wi_id record)) record now db of
        (Inr completed, db') \<Rightarrow>
          process_events newId outboxId now records
            (if completed then counts\<lparr>ic_completed := ic_completed counts + 1\<rparr>
             else counts\<lparr>ic_ignored := ic_ignored counts + 1\<rparr>) db'
      | (Inl e, db') \<Rightarrow>
          (case failEvent record (inbound_message e) now db' of
             (Inl e', db'') \<Rightarrow> (Inl e', db'')
           | (Inr dead, db'') \<Rightarrow>
               process_events newId outboxId now records
                 (if dead then counts\<lparr>ic_deadLettered := ic_deadLettered counts + 1\<rparr>
                  else counts\<lparr>ic_failed := ic_failed counts + 1\<rparr>) db''))"

definition processJiraInboundBatch where
  "processJiraInboundBatch newId outboxId batchSize leaseMs now correlationId companyId token locked db =
     (if \<not> jd_available db then (Inl INBOUND_DATABASE_UNAVAILABLE, db)
      else
        (case claimJiraInboundEvents batchSize leaseMs now correlationId companyId token locked db of
           (Inl e, db') \<Rightarrow> (Inl e, db')
         | (Inr records, db') \<Rightarrow>
             process_events newId outboxId now records
               \<lparr>ic_completed = 0, ic_ignored = 0, ic_failed = 0, ic_deadLettered = 0\<rparr> db'))"

definition operator_update where
  "operator_update i statuses change missing db =
     (case first_error [inbound_reference i ''EVENT_ID'', inbound_database db] of
        Some e \<Rightarrow> (Inl e, db)
      | None \<Rightarrow>
          let p = (\<lambda>e. wi_id e = i \<and> contains statuses (wi_status e));
              db' = db\<lparr>jd_events := update_where p change (jd_events db)\<rparr> in
          if count_where p (jd_events db) = 1 then (Inr (), db') else (Inl missing, db'))"

definition retryJiraInboundEvent :: "string \<Rightarrow> ms \<Rightarrow> jira_db \<Rightarrow> (inbound_error, unit, jira_db) handled" where
  "retryJiraInboundEvent i now =
     operator_update i [FAILED, DEAD_LETTER]
       (\<lambda>e. e\<lparr>wi_status := PENDING, wi_attempts := 0, wi_nextAttemptAt := now, wi_leaseToken := None,
              wi_leaseUntil := None, wi_lastFailureCode := None, ie_completedAt := None, wi_updatedAt := now\<rparr>)
       INBOUND_RETRY_NOT_FOUND"

definition moveJiraInboundEventToDeadLetter :: "string \<Rightarrow> ms \<Rightarrow> jira_db \<Rightarrow> (inbound_error, unit, jira_db) handled" where
  "moveJiraInboundEventToDeadLetter i now =
     operator_update i [FAILED]
       (\<lambda>e. e\<lparr>wi_status := DEAD_LETTER, wi_leaseToken := None, wi_leaseUntil := None,
              wi_lastFailureCode := Some ''JIRA_MANUAL_DEAD_LETTER'', wi_updatedAt := now\<rparr>)
       INBOUND_FAILED_EVENT_NOT_FOUND"

definition deleteExpiredJiraInboundEvents ::
  "int \<Rightarrow> ms \<Rightarrow> jira_db \<Rightarrow> (inbound_error, nat, jira_db) handled" where
  "deleteExpiredJiraInboundEvents retentionDays now db =
     (case first_error [demand (safe_integer retentionDays \<and> 1 \<le> retentionDays \<and> retentionDays \<le> 365)
                          INBOUND_RETENTION_INVALID, inbound_database db] of
        Some e \<Rightarrow> (Inl e, db)
      | None \<Rightarrow>
          let p = (\<lambda>e. contains [COMPLETED, IGNORED, DEAD_LETTER] (wi_status e) \<and>
                      ie_receivedAt e < now - retentionDays * 24 * 60 * 60000) in
          (Inr (count_where p (jd_events db)), db\<lparr>jd_events := filter (\<lambda>e. \<not> p e) (jd_events db)\<rparr>))"

end
