(* ===== verification/JiraWebhook.thy ===== *)
theory JiraWebhook
  imports JiraInbound
begin

text \<open>
  The intake of Jira webhooks (\<open>lib/jira-webhook.ts\<close> with the helpers of \<open>lib/jira-sync-policy.ts\<close>):
  size and signature of the raw body, the origin and age of the event, its normalised payload, and
  the stored event with its unique fingerprint. What the platform supplies is one record of
  parameters: the hashes, Unicode normalisation, the JSON parser, and the readers of dates and
  addresses.
\<close>

record web_platform =
  wp_hmac :: "string \<Rightarrow> string \<Rightarrow> string"
  wp_sha256 :: "string \<Rightarrow> string"
  wp_nfkc :: "string \<Rightarrow> string"
  wp_parse :: "string \<Rightarrow> json option"
  wp_date :: "string \<Rightarrow> ms option"
  wp_origin :: "string \<Rightarrow> string option"

record webhook_configuration =
  wc_enabled :: bool
  wc_secret :: "string option"
  wc_allowedOrigin :: "string option"
  wc_replayWindowMs :: int
  wc_maximumPayloadBytes :: int
  wc_enabledEvents :: "string list"
  wc_maximumAttempts :: int

text \<open>A \<open>JiraWebhookError\<close> with its code and HTTP status, or another error.\<close>

datatype webhook_error = WebhookError string int | PlainError string

section \<open>Values of the body\<close>

definition web_object :: "json option \<Rightarrow> string \<Rightarrow> webhook_error + json" where
  "web_object v failure =
     (case v of Some (JObject entries) \<Rightarrow> Inr (JObject entries) | _ \<Rightarrow> Inl (WebhookError failure 400))"

text \<open>The largest absolute time value of a date.\<close>

definition web_date :: "web_platform \<Rightarrow> json option \<Rightarrow> string \<Rightarrow> webhook_error + ms" where
  "web_date p v failure =
     (case (case v of
              Some (JNumber n) \<Rightarrow> if \<bar>n\<bar> \<le> 8640000000000000 then Some n else None
            | Some (JString s) \<Rightarrow> wp_date p s
            | _ \<Rightarrow> None) of
        Some t \<Rightarrow> Inr t
      | None \<Rightarrow> Inl (WebhookError failure 400))"

text \<open>\<open>x ?? y\<close> on fields: absent and null fields are passed over.\<close>

definition present_field :: "json \<Rightarrow> string \<Rightarrow> json option" where
  "present_field node name = (case field node name of Some JNull \<Rightarrow> None | v \<Rightarrow> v)"

definition date_or :: "web_platform \<Rightarrow> json option \<Rightarrow> ms \<Rightarrow> string \<Rightarrow> webhook_error + ms" where
  "date_or p v occurredAt failure = (case v of None \<Rightarrow> Inr occurredAt | Some _ \<Rightarrow> web_date p v failure)"

definition web_reference :: "json option \<Rightarrow> string \<Rightarrow> webhook_error + string" where
  "web_reference v failure =
     (case v of
        Some (JString s) \<Rightarrow> if jira_reference 199 s then Inr s else Inl (PlainError failure)
      | _ \<Rightarrow> Inl (PlainError failure))"

text \<open>The text \<open>String(value)\<close>.\<close>

fun digits :: "nat \<Rightarrow> string" where
  "digits n = (if n < 10 then [char_of (48 + n)] else digits (n div 10) @ [char_of (48 + n mod 10)])"

declare digits.simps [simp del]

definition decimal :: "int \<Rightarrow> string" where
  "decimal n = (if n < 0 then ''-'' @ digits (nat (- n)) else digits (nat n))"

fun join_comma :: "string list \<Rightarrow> string" where
  "join_comma [] = []"
| "join_comma [x] = x"
| "join_comma (x # y # ys) = x @ '','' @ join_comma (y # ys)"

fun js_string :: "json \<Rightarrow> string" where
  "js_string JNull = ''null''"
| "js_string (JBool b) = (if b then ''true'' else ''false'')"
| "js_string (JNumber n) = decimal n"
| "js_string JNonFinite = ''Infinity''"
| "js_string (JString s) = s"
| "js_string (JDate t) = decimal t"
| "js_string (JArray xs) = join_comma (map (\<lambda>x. if x = JNull then [] else js_string x) xs)"
| "js_string (JObject entries) = ''[object Object]''"

section \<open>Authors\<close>

text \<open>
  \<open>EMAIL\<close>, \<open>\b[^\s@]+@[^\s@]+\.[^\s@]+\b\<close>. The last part is as long as possible, the dot as late as
  possible; the value is what follows the address.
\<close>

definition mail_char :: "char \<Rightarrow> bool" where
  "mail_char c \<longleftrightarrow> \<not> is_space c \<and> c \<noteq> CHR ''@''"

definition word_end :: "string \<Rightarrow> nat \<Rightarrow> bool" where
  "word_end s e \<longleftrightarrow> is_word (s ! (e - 1)) \<noteq> (e < length s \<and> is_word (s ! e))"

definition mail_ends :: "string \<Rightarrow> nat list" where
  "mail_ends s =
     (let n = length (takeWhile mail_char s) in
      concat (map (\<lambda>k. if s ! k = CHR ''.'' then filter (word_end s) (rev [k + 2..<n + 1]) else []) (rev [1..<n])))"

definition email_rest :: "bool \<Rightarrow> string \<Rightarrow> string option" where
  "email_rest word s =
     (case s of
        [] \<Rightarrow> None
      | c # cs \<Rightarrow>
          if is_word c = word \<or> \<not> mail_char c then None
          else
            (case dropWhile mail_char s of
               CHR ''@'' # domain \<Rightarrow>
                 (case mail_ends domain of [] \<Rightarrow> None | e # _ \<Rightarrow> Some (drop e domain))
             | _ \<Rightarrow> None))"

lemma email_rest_shorter:
  assumes "email_rest word s = Some rest"
  shows "length rest < length s"
proof -
  from assms obtain domain e where "dropWhile mail_char s = CHR ''@'' # domain" "rest = drop e domain"
    by (auto simp: email_rest_def split: list.split_asm if_split_asm char.split_asm bool.split_asm)
  with length_dropWhile [of mail_char s] show ?thesis by simp
qed

text \<open>
  \<open>word\<close> tells whether the character before is one of a word; an address ends where this changes.
\<close>

function remove_emails :: "bool \<Rightarrow> string \<Rightarrow> string" where
  "remove_emails word [] = []"
| "remove_emails word (c # cs) =
     (case email_rest word (c # cs) of
        Some rest \<Rightarrow> remove_emails (case rest of [] \<Rightarrow> True | d # _ \<Rightarrow> \<not> is_word d) rest
      | None \<Rightarrow> c # remove_emails (is_word c) cs)"
  by pat_completeness auto
termination
  by (relation "measure (length \<circ> snd)") (auto dest: email_rest_shorter)

definition machine_name :: "string \<Rightarrow> bool" where
  "machine_name s \<longleftrightarrow>
     str_includes (to_lower s) ''automation'' \<or> str_includes (to_lower s) ''system'' \<or> str_includes (to_lower s) ''bot''"

definition display_name :: "json option \<Rightarrow> string" where
  "display_name v = (case v of
     Some author \<Rightarrow> (case field author ''displayName'' of Some (JString s) \<Rightarrow> s | _ \<Rightarrow> []) | None \<Rightarrow> [])"

definition account_type :: "json option \<Rightarrow> string" where
  "account_type v = (case v of
     Some author \<Rightarrow> (case field author ''accountType'' of Some (JString s) \<Rightarrow> s | _ \<Rightarrow> []) | None \<Rightarrow> [])"

definition is_object :: "json option \<Rightarrow> bool" where
  "is_object v \<longleftrightarrow> (case v of Some (JObject _) \<Rightarrow> True | _ \<Rightarrow> False)"

definition safeJiraAuthor :: "(string \<Rightarrow> string) \<Rightarrow> json option \<Rightarrow> text_error + string" where
  "safeJiraAuthor nfkc v =
     (if \<not> is_object v then Inr ''Jira specialist''
      else
        let displayName = display_name v;
            automation = (to_lower (account_type v) = ''app'' \<or> machine_name displayName);
            redactedName = trim (remove_emails False displayName) in
        (case (if redactedName = [] then Inr ''Jira specialist'' else normalizedText nfkc redactedName 80 ''JIRA_AUTHOR'') of
           Inl e \<Rightarrow> Inl e
         | Inr safeName \<Rightarrow> Inr (if automation then ''Jira automation'' else safeName)))"

definition isJiraAutomationAuthor :: "json option \<Rightarrow> bool" where
  "isJiraAutomationAuthor v \<longleftrightarrow> is_object v \<and> (account_type v = ''app'' \<or> machine_name (display_name v))"

section \<open>Normalising an event\<close>

definition public_property :: "json \<Rightarrow> bool" where
  "public_property v \<longleftrightarrow>
     field v ''key'' = Some (JString ''sd.public.comment'') \<and>
     (field v ''value'' = Some (JBool True) \<or>
      (case field v ''value'' of Some w \<Rightarrow> field w ''internal'' = Some (JBool False) | None \<Rightarrow> False))"

definition explicitPublicComment :: "json \<Rightarrow> bool" where
  "explicitPublicComment comment \<longleftrightarrow>
     field comment ''jsdPublic'' = Some (JBool True) \<or> field comment ''public'' = Some (JBool True) \<or>
     (case field comment ''properties'' of Some (JArray xs) \<Rightarrow> (\<exists>v \<in> set xs. public_property v) | _ \<Rightarrow> False)"

text \<open>The normalised payload, with the document that is stored for it.\<close>

fun payload_json :: "inbound_payload \<Rightarrow> ms \<Rightarrow> json" where
  "payload_json (StatusPayload statusId statusName _) t =
     JObject [(''kind'', JString ''STATUS''), (''statusId'', JString statusId), (''statusName'', JString statusName),
       (''jiraUpdatedAt'', JDate t)]"
| "payload_json (CommentPayload commentId body authorName public automation _) t =
     JObject [(''kind'', JString ''COMMENT''), (''commentId'', JString commentId), (''body'', JString body),
       (''authorName'', JString authorName), (''public'', JBool public), (''automation'', JBool automation),
       (''jiraUpdatedAt'', JDate t)]"
| "payload_json DeletedPayload t = JObject [(''kind'', JString ''ISSUE_DELETED''), (''jiraUpdatedAt'', JDate t)]"

definition plain_text_error :: "text_error \<Rightarrow> webhook_error" where
  "plain_text_error e =
     (case e of
        TEXT_REQUIRED name \<Rightarrow> PlainError (name @ ''_REQUIRED'')
      | TEXT_TOO_LONG name \<Rightarrow> PlainError (name @ ''_TOO_LONG'')
      | _ \<Rightarrow> PlainError [])"

definition normalize_status :: "web_platform \<Rightarrow> json \<Rightarrow> ms \<Rightarrow> webhook_error + inbound_payload" where
  "normalize_status p issueFields updatedAt =
     (case web_object (field issueFields ''status'') ''JIRA_WEBHOOK_STATUS_INVALID'' of
        Inl e \<Rightarrow> Inl e
      | Inr status \<Rightarrow>
          (case web_reference (field status ''id'') ''JIRA_WEBHOOK_STATUS_ID_INVALID'' of
             Inl e \<Rightarrow> Inl e
           | Inr statusId \<Rightarrow>
               (case field status ''name'' of
                  Some (JString name) \<Rightarrow>
                    if trim name = [] then Inl (WebhookError ''JIRA_WEBHOOK_STATUS_NAME_INVALID'' 400)
                    else Inr (StatusPayload statusId (take 160 (trim (wp_nfkc p name))) (Some updatedAt))
                | _ \<Rightarrow> Inl (WebhookError ''JIRA_WEBHOOK_STATUS_NAME_INVALID'' 400))))"

definition normalize_comment ::
  "web_platform \<Rightarrow> json \<Rightarrow> ms \<Rightarrow> webhook_error + inbound_payload \<times> ms" where
  "normalize_comment p payload occurredAt =
     (case web_object (field payload ''comment'') ''JIRA_WEBHOOK_COMMENT_INVALID'' of
        Inl e \<Rightarrow> Inl e
      | Inr comment \<Rightarrow>
          let author = (case present_field comment ''updateAuthor'' of None \<Rightarrow> field comment ''author'' | a \<Rightarrow> a);
              public = explicitPublicComment comment;
              automation = isJiraAutomationAuthor author in
          (case web_reference (field comment ''id'') ''JIRA_WEBHOOK_COMMENT_ID_INVALID'' of
             Inl e \<Rightarrow> Inl e
           | Inr commentId \<Rightarrow>
          (case (if public \<and> \<not> automation
                 then (case field comment ''body'' of
                         Some body \<Rightarrow> projectAdfToSafeText (wp_nfkc p) body
                       | None \<Rightarrow> projectAdfToSafeText (wp_nfkc p) JNull)
                 else Inr ''[withheld]'') of
             Inl e \<Rightarrow> Inl (plain_text_error e)
           | Inr body \<Rightarrow>
          (case safeJiraAuthor (wp_nfkc p) author of
             Inl e \<Rightarrow> Inl (plain_text_error e)
           | Inr authorName \<Rightarrow>
          (case date_or p (case present_field comment ''updated'' of None \<Rightarrow> present_field comment ''created'' | v \<Rightarrow> v)
             occurredAt ''JIRA_WEBHOOK_COMMENT_DATE_INVALID'' of
             Inl e \<Rightarrow> Inl e
           | Inr t \<Rightarrow> Inr (CommentPayload commentId body authorName public automation (Some t), t))))))"

definition normalizeEvent ::
  "web_platform \<Rightarrow> json \<Rightarrow> string \<Rightarrow> ms \<Rightarrow> webhook_error + inbound_payload \<times> ms" where
  "normalizeEvent p payload eventType occurredAt =
     (case web_object (field payload ''issue'') ''JIRA_WEBHOOK_ISSUE_INVALID'' of
        Inl e \<Rightarrow> Inl e
      | Inr issue \<Rightarrow>
          let issueFields = (case field issue ''fields'' of Some (JObject es) \<Rightarrow> JObject es | _ \<Rightarrow> JObject []) in
          (case date_or p (present_field issueFields ''updated'') occurredAt ''JIRA_WEBHOOK_UPDATED_AT_INVALID'' of
             Inl e \<Rightarrow> Inl e
           | Inr updatedAt \<Rightarrow>
               if eventType = ''jira:issue_deleted'' then Inr (DeletedPayload, updatedAt)
               else if eventType = ''jira:issue_updated''
               then (case normalize_status p issueFields updatedAt of Inl e \<Rightarrow> Inl e | Inr s \<Rightarrow> Inr (s, updatedAt))
               else normalize_comment p payload occurredAt))"

definition providerEventId :: "json \<Rightarrow> string \<Rightarrow> inbound_payload \<Rightarrow> ms \<Rightarrow> string" where
  "providerEventId payload eventType normalized occurredAt =
     (let explicit = (case present_field payload ''webhookEventId'' of None \<Rightarrow> field payload ''eventId'' | v \<Rightarrow> v);
          changelog = (case field payload ''changelog'' of Some (JObject es) \<Rightarrow> JObject es | _ \<Rightarrow> JObject []);
          entity = (case normalized of
              CommentPayload commentId _ _ _ _ _ \<Rightarrow> commentId
            | _ \<Rightarrow> (case present_field changelog ''id'' of Some v \<Rightarrow> js_string v | None \<Rightarrow> decimal occurredAt));
          derived = take 200 (eventType @ '':'' @ entity @ '':'' @ decimal occurredAt) in
      case explicit of
        Some (JString s) \<Rightarrow> if jira_reference 199 s then s else derived
      | _ \<Rightarrow> derived)"

section \<open>The intake\<close>

text \<open>\<open>Buffer.byteLength(rawBody, 'utf8')\<close>: the characters beyond the first 128 take two bytes.\<close>

definition utf8_length :: "string \<Rightarrow> nat" where
  "utf8_length s = length s + length (filter (\<lambda>c. 128 \<le> code c) s)"

definition createJiraWebhookSignature :: "web_platform \<Rightarrow> string \<Rightarrow> string \<Rightarrow> string" where
  "createJiraWebhookSignature p secret rawBody = ''sha256='' @ wp_hmac p secret rawBody"

definition verifyJiraWebhookSignature ::
  "web_platform \<Rightarrow> string \<Rightarrow> string \<Rightarrow> string option \<Rightarrow> webhook_error option" where
  "verifyJiraWebhookSignature p secret rawBody signature =
     (let invalid = WebhookError ''JIRA_WEBHOOK_SIGNATURE_INVALID'' 401 in
      case signature of
        None \<Rightarrow> Some invalid
      | Some s \<Rightarrow>
          if \<not> (starts_with ''sha256='' s \<and> SHA256 (drop 7 s)) then Some invalid
          else demand (s = createJiraWebhookSignature p secret rawBody) invalid)"

definition jiraOrigin :: "web_platform \<Rightarrow> json \<Rightarrow> json \<Rightarrow> webhook_error + string" where
  "jiraOrigin p issue payload =
     (case (case field issue ''self'' of Some (JString s) \<Rightarrow> Some (JString s) | _ \<Rightarrow> field payload ''baseUrl'') of
        Some (JString source) \<Rightarrow>
          (case wp_origin p source of
             Some origin \<Rightarrow> Inr origin
           | None \<Rightarrow> Inl (WebhookError ''JIRA_WEBHOOK_TENANT_INVALID'' 403))
      | _ \<Rightarrow> Inl (WebhookError ''JIRA_WEBHOOK_TENANT_MISSING'' 403))"

definition jiraEventFingerprint :: "web_platform \<Rightarrow> string \<Rightarrow> string \<Rightarrow> string" where
  "jiraEventFingerprint p origin rawBody = wp_sha256 p (origin @ [CHR 0x00] @ rawBody)"

datatype webhook_result =
    WebhookAccepted string
  | WebhookDuplicate string
  | UnsupportedEvent
  | UnknownIssue

text \<open>What is known of an event once it has passed every check.\<close>

record checked_event =
  ce_origin :: string
  ce_issueId :: string
  ce_issueKey :: string
  ce_eventType :: string
  ce_occurredAt :: ms
  ce_providerEventId :: string
  ce_fingerprint :: string
  ce_normalized :: json

definition check_issue ::
  "web_platform \<Rightarrow> webhook_configuration \<Rightarrow> string \<Rightarrow> json \<Rightarrow> string \<Rightarrow> json \<Rightarrow> ms \<Rightarrow> webhook_error + checked_event" where
  "check_issue p configuration rawBody payload eventType issue now =
     (case jiraOrigin p issue payload of
        Inl e \<Rightarrow> Inl e
      | Inr origin \<Rightarrow>
          if wc_allowedOrigin configuration \<noteq> Some origin then Inl (WebhookError ''JIRA_WEBHOOK_TENANT_DENIED'' 403)
          else
       (case web_date p (field payload ''timestamp'') ''JIRA_WEBHOOK_TIMESTAMP_INVALID'' of
          Inl e \<Rightarrow> Inl e
        | Inr occurredAt \<Rightarrow>
            if wc_replayWindowMs configuration < \<bar>now - occurredAt\<bar>
            then Inl (WebhookError ''JIRA_WEBHOOK_REPLAY_EXPIRED'' 409)
            else
       (case web_reference (field issue ''id'') ''JIRA_WEBHOOK_ISSUE_ID_INVALID'' of
          Inl e \<Rightarrow> Inl e
        | Inr issueId \<Rightarrow>
       (case web_reference (field issue ''key'') ''JIRA_WEBHOOK_ISSUE_KEY_INVALID'' of
          Inl e \<Rightarrow> Inl e
        | Inr issueKey \<Rightarrow>
       (case normalizeEvent p payload eventType occurredAt of
          Inl e \<Rightarrow> Inl e
        | Inr (normalized, t) \<Rightarrow>
            Inr \<lparr>ce_origin = origin, ce_issueId = issueId, ce_issueKey = issueKey, ce_eventType = eventType,
                 ce_occurredAt = occurredAt,
                 ce_providerEventId = providerEventId payload eventType normalized occurredAt,
                 ce_fingerprint = jiraEventFingerprint p origin rawBody, ce_normalized = payload_json normalized t\<rparr>)))))"

text \<open>The checks of the raw body and of the event; an event type that is not enabled is no error.\<close>

definition check_webhook ::
  "web_platform \<Rightarrow> webhook_configuration \<Rightarrow> string \<Rightarrow> string option \<Rightarrow> ms \<Rightarrow> webhook_error + checked_event option" where
  "check_webhook p configuration rawBody signature now =
     (case first_error
        [demand (wc_enabled configuration \<and> truthy (wc_secret configuration) \<and> truthy (wc_allowedOrigin configuration))
           (WebhookError ''JIRA_WEBHOOK_DISABLED'' 404),
         demand (int (utf8_length rawBody) \<le> wc_maximumPayloadBytes configuration)
           (WebhookError ''JIRA_WEBHOOK_PAYLOAD_TOO_LARGE'' 413),
         verifyJiraWebhookSignature p (the (wc_secret configuration)) rawBody signature] of
        Some e \<Rightarrow> Inl e
      | None \<Rightarrow>
       (case web_object (wp_parse p rawBody) ''JIRA_WEBHOOK_JSON_INVALID'' of
          Inl e \<Rightarrow> Inl e
        | Inr payload \<Rightarrow>
            let eventType = (case field payload ''webhookEvent'' of Some (JString s) \<Rightarrow> s | _ \<Rightarrow> []) in
            if \<not> contains (wc_enabledEvents configuration) eventType then Inr None
            else
       (case web_object (field payload ''issue'') ''JIRA_WEBHOOK_ISSUE_INVALID'' of
          Inl e \<Rightarrow> Inl e
        | Inr issue \<Rightarrow> map_sum id Some (check_issue p configuration rawBody payload eventType issue now))))"

definition webhook_correlation :: "checked_event \<Rightarrow> string" where
  "webhook_correlation c = ''jira-hook-'' @ take 32 (ce_fingerprint c)"

definition webhook_audit :: "checked_event \<Rightarrow> support_request \<Rightarrow> string \<Rightarrow> audit_row" where
  "webhook_audit c request action =
     \<lparr>au_companyId = Some (sr_companyId request), au_actorId = None, au_action = action,
      au_targetType = ''support_request'', au_targetId = Some (sr_publicId request), au_result = ''SUCCEEDED'',
      au_correlationId = Some (webhook_correlation c),
      au_safeMetadata = [(''requestId'', JString (sr_publicId request)), (''jiraIssueKey'', JString (ce_issueKey c)),
        (''eventFingerprintPrefix'', JString (take 12 (ce_fingerprint c)))]\<rparr>"

definition new_event :: "string \<Rightarrow> int \<Rightarrow> checked_event \<Rightarrow> support_request \<Rightarrow> ms \<Rightarrow> inbound_event" where
  "new_event i maximumAttempts c request now =
     \<lparr>wi_id = i, wi_status = PENDING, wi_attempts = 0, wi_maxAttempts = maximumAttempts, wi_nextAttemptAt = now,
      wi_leaseToken = None, wi_leaseUntil = None, wi_lastFailureCode = None,
      wi_correlationId = webhook_correlation c, wi_createdAt = now, wi_updatedAt = now,
      ie_providerEventId = Some (ce_providerEventId c), ie_eventFingerprint = ce_fingerprint c,
      ie_eventType = ce_eventType c, ie_jiraTenantOrigin = ce_origin c, ie_jiraIssueId = ce_issueId c,
      ie_jiraIssueKey = ce_issueKey c, ie_requestId = sr_id request, ie_companyId = sr_companyId request,
      ie_normalizedPayload = ce_normalized c, ie_occurredAt = ce_occurredAt c, ie_receivedAt = now,
      ie_completedAt = None\<rparr>"

definition same_event :: "checked_event \<Rightarrow> inbound_event \<Rightarrow> bool" where
  "same_event c e \<longleftrightarrow>
     ie_eventFingerprint e = ce_fingerprint c \<or>
     ie_jiraTenantOrigin e = ce_origin c \<and> ie_providerEventId e = Some (ce_providerEventId c)"

definition issue_request :: "checked_event \<Rightarrow> jira_db \<Rightarrow> support_request option" where
  "issue_request c db =
     List.find (\<lambda>r. sr_jiraIssueId r = Some (ce_issueId c) \<and> sr_jiraKey r = Some (ce_issueKey c)) (jd_requests db)"

text \<open>\<open>now\<close> is both the instant of the check and that of the columns the database fills.\<close>

definition store_event ::
  "string \<Rightarrow> int \<Rightarrow> checked_event \<Rightarrow> support_request \<Rightarrow> ms \<Rightarrow> jira_db \<Rightarrow> (webhook_error, webhook_result, jira_db) handled"
where
  "store_event i maximumAttempts c request now db =
     (case List.find (same_event c) (jd_events db) of
        None \<Rightarrow>
          (Inr (WebhookAccepted i),
           audited (webhook_audit c request ''jira.webhook.received'')
             (db\<lparr>jd_events := jd_events db @ [new_event i maximumAttempts c request now]\<rparr>))
      | Some existing \<Rightarrow>
          (Inr (WebhookDuplicate (wi_id existing)), audited (webhook_audit c request ''jira.webhook.duplicate'') db))"

definition ingestJiraWebhook ::
  "web_platform \<Rightarrow> webhook_configuration \<Rightarrow> string \<Rightarrow> string \<Rightarrow> string option \<Rightarrow> ms \<Rightarrow> jira_db \<Rightarrow>
     (webhook_error, webhook_result, jira_db) handled" where
  "ingestJiraWebhook p configuration i rawBody signature now db =
     (case check_webhook p configuration rawBody signature now of
        Inl e \<Rightarrow> (Inl e, db)
      | Inr None \<Rightarrow> (Inr UnsupportedEvent, db)
      | Inr (Some c) \<Rightarrow>
          if \<not> jd_available db then (Inl (WebhookError ''JIRA_WEBHOOK_DATABASE_UNAVAILABLE'' 503), db)
          else
            (case issue_request c db of
               None \<Rightarrow> (Inr UnknownIssue, db)
             | Some request \<Rightarrow> store_event i (wc_maximumAttempts configuration) c request now db))"

end
