(* ===== verification/Requests.thy ===== *)
theory Requests
  imports JiraOutbox
begin

text \<open>
  Support requests (\<open>lib/requests-store.ts\<close>, the database branch): listing and reading them within a
  company, creating a request and adding a message, each with its operation for Jira in the same
  transaction and an idempotency key, and the change of status by an administrator. The clock, the
  identifiers and the keys the code draws are arguments. The demo data used without a database and
  the names a view joins from the rows of the requester and the company are left out.
\<close>

section \<open>Reading\<close>

record message_item =
  mi_id :: string
  mi_body :: string
  mi_authorName :: string
  mi_authorType :: message_author
  mi_deliveryStatus :: delivery_status
  mi_createdAt :: ms

record request_item =
  ri_id :: string
  ri_title :: string
  ri_description :: string
  ri_status :: request_status
  ri_priority :: request_priority
  ri_category :: string
  ri_createdAt :: ms
  ri_updatedAt :: ms
  ri_jiraKey :: "string option"
  ri_jiraIssueId :: "string option"
  ri_jiraIssueUrl :: "string option"
  ri_jiraIntegrationStatus :: integration_status
  ri_jiraStatusName :: "string option"
  ri_jiraSynchronizedAt :: "ms option"
  ri_correlationId :: "string option"
  ri_idempotencyKey :: "string option"
  ri_dueAt :: ms
  ri_companyId :: string
  ri_requesterId :: string
  ri_version :: int
  ri_audit :: "trail_item list"
  ri_messages :: "message_item list"

definition user_name :: "jira_db \<Rightarrow> string option \<Rightarrow> string option" where
  "user_name db userId =
     (case userId of None \<Rightarrow> None | Some i \<Rightarrow> map_option pu_name (List.find (\<lambda>u. pu_id u = i) (jd_users db)))"

definition map_message :: "jira_db \<Rightarrow> request_message \<Rightarrow> message_item" where
  "map_message db m =
     \<lparr>mi_id = rm_id m, mi_body = rm_body m,
      mi_authorName = (case rm_authorDisplayName m of
          Some n \<Rightarrow> n
        | None \<Rightarrow> (case user_name db (rm_authorId m) of Some n \<Rightarrow> n | None \<Rightarrow> ''Avantime'')),
      mi_authorType = rm_authorType m, mi_deliveryStatus = rm_deliveryStatus m, mi_createdAt = rm_createdAt m\<rparr>"

definition mapDbRequest :: "jira_db \<Rightarrow> support_request \<Rightarrow> request_item" where
  "mapDbRequest db r =
     \<lparr>ri_id = sr_publicId r, ri_title = sr_title r, ri_description = sr_description r, ri_status = sr_status r,
      ri_priority = sr_priority r, ri_category = sr_category r, ri_createdAt = sr_createdAt r,
      ri_updatedAt = sr_updatedAt r, ri_jiraKey = sr_jiraKey r, ri_jiraIssueId = sr_jiraIssueId r,
      ri_jiraIssueUrl = sr_jiraIssueUrl r, ri_jiraIntegrationStatus = sr_jiraIntegrationStatus r,
      ri_jiraStatusName = sr_jiraStatusName r, ri_jiraSynchronizedAt = sr_jiraSyncAt r,
      ri_correlationId = sr_correlationId r, ri_idempotencyKey = sr_idempotencyKey r,
      ri_dueAt = (case sr_dueAt r of Some t \<Rightarrow> t | None \<Rightarrow> sr_createdAt r + 48 * 3600 * 1000),
      ri_companyId = sr_companyId r, ri_requesterId = sr_requesterId r, ri_version = sr_version r,
      ri_audit = sort_key (\<lambda>t. - tr_createdAt t) (filter (\<lambda>t. tr_requestId t = sr_id r) (jd_trail db)),
      ri_messages = map (map_message db)
        (sort_key rm_createdAt (filter (\<lambda>m. rm_requestId m = sr_id r) (jd_messages db)))\<rparr>"

text \<open>A session without a company sees nothing; without a session everything is listed.\<close>

definition in_scope :: "app_session option \<Rightarrow> support_request \<Rightarrow> bool" where
  "in_scope session r \<longleftrightarrow>
     (case session of None \<Rightarrow> True | Some s \<Rightarrow> s_companyId s = Some (sr_companyId r))"

definition no_company :: "app_session option \<Rightarrow> bool" where
  "no_company session \<longleftrightarrow> (case session of None \<Rightarrow> False | Some s \<Rightarrow> \<not> truthy (s_companyId s))"

definition listRequests :: "app_session option \<Rightarrow> jira_db \<Rightarrow> request_item list" where
  "listRequests session db =
     (if no_company session \<or> \<not> jd_available db then []
      else map (mapDbRequest db)
        (sort_key (\<lambda>r. - sr_updatedAt r) (filter (in_scope session) (jd_requests db))))"

definition getRequest :: "string \<Rightarrow> app_session option \<Rightarrow> jira_db \<Rightarrow> request_item option" where
  "getRequest publicId session db =
     (if no_company session \<or> \<not> jd_available db then None
      else map_option (mapDbRequest db)
        (List.find (\<lambda>r. sr_publicId r = publicId \<and> in_scope session r) (jd_requests db)))"

section \<open>Creating a request\<close>

datatype request_error =
    REQUEST_IDEMPOTENCY_SCOPE_MISMATCH
  | JIRA_COMMENT_IDEMPOTENCY_SCOPE_MISMATCH
  | REQUEST_STORE_UNAVAILABLE
  | REQUEST_COMPANY_MISSING
  | REQUEST_USER_MISSING
  | REQUEST_UNIQUE_VIOLATION
  | REQUEST_ROW_MISSING

record jira_settings =
  js_enabled :: bool
  js_maximumAttempts :: int
  js_defaultIssueType :: string

record request_input =
  rq_title :: string
  rq_description :: string
  rq_priority :: request_priority
  rq_category :: string

text \<open>What is drawn for a request: its keys, its public number and that of its operation.\<close>

record drawn_request =
  dr_id :: string
  dr_publicId :: string
  dr_operationId :: string
  dr_correlationId :: string
  dr_idempotencyKey :: string

definition due_hours :: "request_priority \<Rightarrow> int" where
  "due_hours p = (if p = CRITICAL then 4 else if p = HIGH then 8 else 48)"

definition active_member :: "string \<Rightarrow> string \<Rightarrow> jira_db \<Rightarrow> portal_user option" where
  "active_member userId companyId db =
     List.find (\<lambda>u. pu_id u = userId \<and> contains (pu_companies u) companyId) (jd_users db)"

definition mapping_of :: "jira_settings \<Rightarrow> string \<Rightarrow> jira_db \<Rightarrow> jira_mapping option" where
  "mapping_of settings companyId db =
     (if js_enabled settings then List.find (\<lambda>m. jm_companyId m = companyId) (jd_mappings db) else None)"

definition new_request ::
  "drawn_request \<Rightarrow> request_input \<Rightarrow> string \<Rightarrow> string \<Rightarrow> bool \<Rightarrow> ms \<Rightarrow> support_request" where
  "new_request drawn input userId companyId enqueue now =
     \<lparr>sr_id = dr_id drawn, sr_publicId = dr_publicId drawn, sr_title = rq_title input,
      sr_description = rq_description input, sr_category = rq_category input, sr_priority = rq_priority input,
      sr_status = NEW,
      sr_jiraIntegrationStatus = (if enqueue then INTEGRATION_PENDING else NOT_CONFIGURED), sr_version = 1,
      sr_jiraIssueId = None, sr_jiraKey = None, sr_jiraIssueUrl = None, sr_jiraSyncAt = None,
      sr_jiraStatusId = None, sr_jiraStatusName = None, sr_jiraUpdatedAt = None, sr_jiraSyncVersion = 0,
      sr_correlationId = Some (dr_correlationId drawn), sr_idempotencyKey = Some (dr_idempotencyKey drawn),
      sr_dueAt = Some (now + due_hours (rq_priority input) * 3600 * 1000), sr_requesterId = userId,
      sr_companyId = companyId, sr_createdAt = now, sr_updatedAt = now\<rparr>"

definition new_operation ::
  "string \<Rightarrow> string \<Rightarrow> string \<Rightarrow> jira_mapping \<Rightarrow> operation_type \<Rightarrow> jira_settings \<Rightarrow> string \<Rightarrow> string \<Rightarrow> string option \<Rightarrow>
     ms \<Rightarrow> jira_operation" where
  "new_operation i requestId companyId mapping t settings key correlationId localCommentId now =
     \<lparr>wi_id = i, wi_status = PENDING, wi_attempts = 0, wi_maxAttempts = js_maximumAttempts settings,
      wi_nextAttemptAt = now, wi_leaseToken = None, wi_leaseUntil = None, wi_lastFailureCode = None,
      wi_correlationId = correlationId, wi_createdAt = now, wi_updatedAt = now,
      jo_requestId = requestId, jo_companyId = companyId, jo_mappingId = jm_id mapping,
      jo_mappingVersion = jm_version mapping, jo_operationType = t, jo_idempotencyKey = key,
      jo_projectKey = jm_projectKey mapping,
      jo_issueType = (case jm_issueType mapping of None \<Rightarrow> js_defaultIssueType settings | Some s \<Rightarrow> s),
      jo_componentId = jm_componentId mapping, jo_requestType = jm_requestType mapping,
      jo_localCommentId = localCommentId, jo_providerIssueId = None, jo_providerIssueKey = None,
      jo_providerCommentId = None, jo_completedAt = None\<rparr>"

definition request_audit ::
  "string \<Rightarrow> string \<Rightarrow> string \<Rightarrow> string \<Rightarrow> string \<Rightarrow> (string \<times> json) list \<Rightarrow> audit_row" where
  "request_audit companyId userId action publicId correlationId metadata =
     \<lparr>au_companyId = Some companyId, au_actorId = Some userId, au_action = action,
      au_targetType = ''support_request'', au_targetId = Some publicId, au_result = ''SUCCEEDED'',
      au_correlationId = Some correlationId, au_safeMetadata = metadata\<rparr>"

text \<open>
  The transaction after its first read has found \<open>duplicate\<close> under the idempotency key. An insertion
  by somebody else since then is a violation of the unique key.
\<close>

definition request_key_free :: "drawn_request \<Rightarrow> jira_db \<Rightarrow> bool" where
  "request_key_free drawn db \<longleftrightarrow>
     (\<forall>r \<in> set (jd_requests db). sr_idempotencyKey r \<noteq> Some (dr_idempotencyKey drawn) \<and>
        sr_publicId r \<noteq> dr_publicId drawn) \<and>
     (\<forall>o1 \<in> set (jd_operations db). jo_idempotencyKey o1 \<noteq> ''jira:create:'' @ dr_idempotencyKey drawn)"

definition insert_request ::
  "jira_settings \<Rightarrow> request_input \<Rightarrow> app_session \<Rightarrow> string \<Rightarrow> drawn_request \<Rightarrow> ms \<Rightarrow> jira_db \<Rightarrow>
     (request_error, support_request \<times> bool, jira_db) handled" where
  "insert_request settings input session companyId drawn now db =
     (case active_member (s_userId session) companyId db of
        None \<Rightarrow> (Inl REQUEST_USER_MISSING, db)
      | Some user \<Rightarrow>
          let mapping = mapping_of settings companyId db;
              enqueue = (case mapping of None \<Rightarrow> False | Some m \<Rightarrow> jm_enabled m);
              item = new_request drawn input (pu_id user) companyId enqueue now;
              operations = (if enqueue
                then [new_operation (dr_operationId drawn) (sr_id item) companyId (the mapping) CREATE_ISSUE settings
                        (''jira:create:'' @ dr_idempotencyKey drawn) (dr_correlationId drawn) None now]
                else []) in
          if \<not> request_key_free drawn db then (Inl REQUEST_UNIQUE_VIOLATION, db)
          else
            (Inr (item, False),
             (if enqueue
              then audited (request_audit companyId (s_userId session) ''jira.operation.enqueued'' (sr_publicId item)
                     (dr_correlationId drawn) [(''requestId'', JString (sr_publicId item))])
              else id)
             (audited (request_audit companyId (s_userId session) ''request.created'' (sr_publicId item)
                 (dr_correlationId drawn)
                 [(''requestId'', JString (sr_publicId item)), (''priority'', JString (priority_text (sr_priority item))),
                  (''category'', JString (sr_category item)),
                  (''jiraIntegrationStatus'', JString (if enqueue then ''PENDING'' else ''NOT_CONFIGURED''))])
              (trailed (sr_id item) TrailCreated (Person (s_name session)) now
                (db\<lparr>jd_requests := jd_requests db @ [item], jd_operations := jd_operations db @ operations\<rparr>)))))"

definition create_transaction where
  "create_transaction settings input session companyId drawn now duplicate =
     in_transaction (\<lambda>db.
       case duplicate of
         Some r \<Rightarrow>
           if sr_companyId r \<noteq> companyId \<or> sr_requesterId r \<noteq> s_userId session
           then (Inl REQUEST_IDEMPOTENCY_SCOPE_MISMATCH, db) else (Inr (r, True), db)
       | None \<Rightarrow> insert_request settings input session companyId drawn now db)"

definition request_of_key :: "string \<Rightarrow> jira_db \<Rightarrow> support_request option" where
  "request_of_key key db = List.find (\<lambda>r. sr_idempotencyKey r = Some key) (jd_requests db)"

definition createRequest_after ::
  "support_request option \<Rightarrow> jira_settings \<Rightarrow> request_input \<Rightarrow> app_session \<Rightarrow> drawn_request \<Rightarrow> ms \<Rightarrow> jira_db \<Rightarrow>
     (request_error, request_item, jira_db) handled" where
  "createRequest_after duplicate settings input session drawn now db =
     (if \<not> jd_available db then (Inl REQUEST_STORE_UNAVAILABLE, db)
      else if \<not> truthy (s_companyId session) then (Inl REQUEST_COMPANY_MISSING, db)
      else
        let companyId = the (s_companyId session) in
        (case create_transaction settings input session companyId drawn now duplicate db of
           (Inr (item, True), db') \<Rightarrow> (Inr (mapDbRequest db' item), db')
         | (Inr (item, False), db') \<Rightarrow>
             (Inr (mapDbRequest db' item),
              notified (s_userId session) companyId REQUEST (RequestCreated (sr_publicId item)) (sr_publicId item) db')
         | (Inl REQUEST_UNIQUE_VIOLATION, db') \<Rightarrow>
             (case request_of_key (dr_idempotencyKey drawn) db' of
                None \<Rightarrow> (Inl REQUEST_UNIQUE_VIOLATION, db')
              | Some r \<Rightarrow>
                  if s_companyId session = Some (sr_companyId r) \<and> sr_requesterId r = s_userId session
                  then (Inr (mapDbRequest db' r), db') else (Inl REQUEST_UNIQUE_VIOLATION, db'))
         | (Inl e, db') \<Rightarrow> (Inl e, db')))"

definition createRequest where
  "createRequest settings input session drawn now db =
     createRequest_after (request_of_key (dr_idempotencyKey drawn) db) settings input session drawn now db"

section \<open>Adding a message\<close>

record drawn_message =
  dm_id :: string
  dm_operationId :: string
  dm_correlationId :: string
  dm_idempotencyKey :: string

definition comment_enqueued :: "jira_mapping option \<Rightarrow> support_request \<Rightarrow> bool" where
  "comment_enqueued mapping item \<longleftrightarrow>
     (case mapping of None \<Rightarrow> False | Some m \<Rightarrow> jm_enabled m) \<and>
     sr_jiraIntegrationStatus item = INTEGRATION_CREATED \<and> truthy (sr_jiraIssueId item) \<and> truthy (sr_jiraKey item)"

definition new_message ::
  "drawn_message \<Rightarrow> string \<Rightarrow> portal_user \<Rightarrow> support_request \<Rightarrow> bool \<Rightarrow> ms \<Rightarrow> request_message" where
  "new_message drawn body user item enqueue now =
     \<lparr>rm_id = dm_id drawn, rm_body = body, rm_authorId = Some (pu_id user), rm_authorType = CUSTOMER,
      rm_authorDisplayName = Some (pu_name user),
      rm_deliveryStatus = (if enqueue then DELIVERY_PENDING else NOT_REQUIRED), rm_requestId = sr_id item,
      rm_jiraCommentId = None, rm_jiraCommentUpdatedAt = None,
      rm_idempotencyKey = Some (dm_idempotencyKey drawn), rm_correlationId = Some (dm_correlationId drawn),
      rm_createdAt = now, rm_updatedAt = now\<rparr>"

definition message_key_free :: "drawn_message \<Rightarrow> jira_db \<Rightarrow> bool" where
  "message_key_free drawn db \<longleftrightarrow>
     (\<forall>m \<in> set (jd_messages db). rm_idempotencyKey m \<noteq> Some (dm_idempotencyKey drawn)) \<and>
     (\<forall>o1 \<in> set (jd_operations db). jo_idempotencyKey o1 \<noteq> ''jira:add-comment:'' @ dm_idempotencyKey drawn)"

text \<open>The client drops a condition whose value is undefined: a session without a company finds any request.\<close>

definition company_filter :: "app_session \<Rightarrow> support_request \<Rightarrow> bool" where
  "company_filter session r \<longleftrightarrow>
     (case s_companyId session of None \<Rightarrow> True | Some companyId \<Rightarrow> sr_companyId r = companyId)"

definition insert_message ::
  "jira_settings \<Rightarrow> string \<Rightarrow> string \<Rightarrow> app_session \<Rightarrow> drawn_message \<Rightarrow> ms \<Rightarrow> jira_db \<Rightarrow>
     (request_error, bool option, jira_db) handled" where
  "insert_message settings publicId body session drawn now db =
     (case List.find (\<lambda>r. sr_publicId r = publicId \<and> company_filter session r) (jd_requests db) of
        None \<Rightarrow> (Inr None, db)
      | Some item \<Rightarrow>
          (case active_member (s_userId session) (sr_companyId item) db of
             None \<Rightarrow> (Inr None, db)
           | Some user \<Rightarrow>
               let mapping = mapping_of settings (sr_companyId item) db;
                   enqueue = comment_enqueued mapping item;
                   message = new_message drawn body user item enqueue now;
                   operations = (if enqueue
                     then [new_operation (dm_operationId drawn) (sr_id item) (sr_companyId item) (the mapping) ADD_COMMENT
                             settings (''jira:add-comment:'' @ dm_idempotencyKey drawn) (dm_correlationId drawn)
                             (Some (dm_id drawn)) now]
                     else []) in
               if \<not> message_key_free drawn db then (Inl REQUEST_UNIQUE_VIOLATION, db)
               else
                 (Inr (Some True),
                  set_requests (\<lambda>r. sr_id r = sr_id item) (\<lambda>r. r\<lparr>sr_updatedAt := now\<rparr>)
                  ((if enqueue
                    then audited (request_audit (sr_companyId item) (pu_id user) ''jira.comment.enqueued''
                           (sr_publicId item) (dm_correlationId drawn)
                           [(''requestId'', JString (sr_publicId item)), (''safeCommentId'', JString (dm_id drawn))])
                    else id)
                   (db\<lparr>jd_messages := jd_messages db @ [message], jd_operations := jd_operations db @ operations\<rparr>)))))"

definition message_transaction where
  "message_transaction settings publicId body session drawn now =
     in_transaction (\<lambda>db.
       case List.find (\<lambda>m. rm_idempotencyKey m = Some (dm_idempotencyKey drawn)) (jd_messages db) of
         Some duplicate \<Rightarrow>
           (case request_by (rm_requestId duplicate) db of
              None \<Rightarrow> (Inl JIRA_COMMENT_IDEMPOTENCY_SCOPE_MISMATCH, db)
            | Some r \<Rightarrow>
                if sr_publicId r \<noteq> publicId \<or> s_companyId session \<noteq> Some (sr_companyId r) \<or>
                   rm_authorId duplicate \<noteq> Some (s_userId session)
                then (Inl JIRA_COMMENT_IDEMPOTENCY_SCOPE_MISMATCH, db) else (Inr (Some False), db))
       | None \<Rightarrow> insert_message settings publicId body session drawn now db)"

text \<open>Only the mismatch of an idempotency key is reported; every other error reads as a missing request.\<close>

definition addRequestMessage ::
  "jira_settings \<Rightarrow> string \<Rightarrow> string \<Rightarrow> app_session \<Rightarrow> drawn_message \<Rightarrow> ms \<Rightarrow> jira_db \<Rightarrow>
     (request_error, request_item option, jira_db) handled" where
  "addRequestMessage settings publicId body session drawn now db =
     (if \<not> jd_available db then (Inr None, db)
      else
        (case message_transaction settings publicId body session drawn now db of
           (Inl JIRA_COMMENT_IDEMPOTENCY_SCOPE_MISMATCH, db') \<Rightarrow> (Inl JIRA_COMMENT_IDEMPOTENCY_SCOPE_MISMATCH, db')
         | (Inl _, db') \<Rightarrow> (Inr None, db')
         | (Inr None, db') \<Rightarrow> (Inr None, db')
         | (Inr (Some created), db') \<Rightarrow>
             (case getRequest publicId (Some session) db' of
                None \<Rightarrow> (Inr None, db')
              | Some updated \<Rightarrow>
                  (Inr (Some updated),
                   if created \<and> truthy (s_companyId session)
                   then notified (s_userId session) (the (s_companyId session)) MESSAGE
                     (MessageAdded (ri_id updated)) (ri_id updated) db'
                   else db'))))"

section \<open>The status set by an administrator\<close>

text \<open>
  When the update fails the code goes on to the demo data, which hold no request of the database.
\<close>

definition updateRequestStatus ::
  "string \<Rightarrow> request_status \<Rightarrow> ms \<Rightarrow> jira_db \<Rightarrow> request_item option \<times> jira_db" where
  "updateRequestStatus publicId status now db =
     (case (if jd_available db then List.find (\<lambda>r. sr_publicId r = publicId) (jd_requests db) else None) of
        None \<Rightarrow> (None, db)
      | Some r \<Rightarrow>
          let db' = trailed (sr_id r) (TrailStatus status) Administrator now (set_requests (\<lambda>r. sr_publicId r = publicId)
                (\<lambda>r. r\<lparr>sr_status := status, sr_version := sr_version r + 1, sr_updatedAt := now\<rparr>) db) in
          (map_option (mapDbRequest db') (List.find (\<lambda>r. sr_publicId r = publicId) (jd_requests db')), db'))"

end
