(* ===== verification/JiraMirror.thy ===== *)
theory JiraMirror
  imports LeasedRows JiraWebhook Requests
begin

text \<open>
  What the portal shows of the integration: the request of a \<open>CREATE_ISSUE\<close> operation and the message
  of an \<open>ADD_COMMENT\<close> operation mirror the status of the operation, and the effects of the handlers on
  the tables in the terms in which this is proved: new rows, and changes of rows in place.
\<close>

section \<open>The mirror\<close>

fun integration_of :: "work_status \<Rightarrow> integration_status" where
  "integration_of PENDING = INTEGRATION_PENDING"
| "integration_of PROCESSING = INTEGRATION_PROCESSING"
| "integration_of FAILED = INTEGRATION_FAILED"
| "integration_of DEAD_LETTER = INTEGRATION_DEAD_LETTER"
| "integration_of _ = INTEGRATION_CREATED"

fun delivery_of :: "work_status \<Rightarrow> delivery_status" where
  "delivery_of PENDING = DELIVERY_PENDING"
| "delivery_of PROCESSING = DELIVERY_PROCESSING"
| "delivery_of FAILED = DELIVERY_FAILED"
| "delivery_of DEAD_LETTER = DELIVERY_DEAD_LETTER"
| "delivery_of _ = DELIVERY_SENT"

text \<open>An issue that Jira has deleted shows as failed.\<close>

definition issue_mirror :: "jira_operation \<Rightarrow> support_request \<Rightarrow> bool" where
  "issue_mirror o1 r \<longleftrightarrow>
     (if wi_status o1 = COMPLETED
      then sr_jiraIntegrationStatus r \<in> {INTEGRATION_CREATED, INTEGRATION_FAILED} \<and>
        sr_jiraIssueId r = jo_providerIssueId o1 \<and> sr_jiraKey r = jo_providerIssueKey o1 \<and> jo_providerIssueId o1 \<noteq> None
      else sr_jiraIntegrationStatus r = integration_of (wi_status o1) \<and> sr_jiraIssueId r = None)"

definition comment_mirror :: "jira_operation \<Rightarrow> request_message \<Rightarrow> bool" where
  "comment_mirror o1 m \<longleftrightarrow>
     rm_deliveryStatus m = delivery_of (wi_status o1) \<and>
     rm_jiraCommentId m = (if wi_status o1 = COMPLETED then jo_providerCommentId o1 else None)"

definition creates :: "jira_operation \<Rightarrow> support_request \<Rightarrow> bool" where
  "creates o1 r \<longleftrightarrow> jo_operationType o1 = CREATE_ISSUE \<and> jo_requestId o1 = sr_id r"

definition sends :: "jira_operation \<Rightarrow> request_message \<Rightarrow> bool" where
  "sends o1 m \<longleftrightarrow> jo_operationType o1 = ADD_COMMENT \<and> jo_localCommentId o1 = Some (rm_id m)"

definition competing :: "jira_operation \<Rightarrow> jira_operation \<Rightarrow> bool" where
  "competing o1 o2 \<longleftrightarrow> (\<exists>r. creates o1 r \<and> creates o2 r) \<or> (\<exists>m. sends o1 m \<and> sends o2 m)"

text \<open>
  Every operation has its request or message, of its own company and written by a customer, and
  these have one operation at most.
\<close>

definition mirrored :: "support_request list \<Rightarrow> request_message list \<Rightarrow> jira_operation list \<Rightarrow> bool" where
  "mirrored requests messages operations \<longleftrightarrow>
     (\<forall>o1 \<in> set operations. jo_operationType o1 = CREATE_ISSUE \<longrightarrow>
        (\<exists>r \<in> set requests. creates o1 r \<and> sr_companyId r = jo_companyId o1 \<and> issue_mirror o1 r)) \<and>
     (\<forall>o1 \<in> set operations. jo_operationType o1 = ADD_COMMENT \<longrightarrow>
        (\<exists>m \<in> set messages. sends o1 m \<and> rm_requestId m = jo_requestId o1 \<and> rm_authorType m = CUSTOMER \<and>
           comment_mirror o1 m)) \<and>
     (\<forall>o1 \<in> set operations. \<forall>o2 \<in> set operations. competing o1 o2 \<longrightarrow> o1 = o2)"

lemma mirrored_create:
  "mirrored Q M Ops \<Longrightarrow> o1 \<in> set Ops \<Longrightarrow> creates o1 r \<Longrightarrow> o2 \<in> set Ops \<Longrightarrow> creates o2 r \<Longrightarrow> o1 = o2"
  and mirrored_send: "mirrored Q M Ops \<Longrightarrow> o1 \<in> set Ops \<Longrightarrow> sends o1 m \<Longrightarrow> o2 \<in> set Ops \<Longrightarrow> sends o2 m \<Longrightarrow> o1 = o2"
  unfolding mirrored_def competing_def by blast+

definition same_target :: "jira_operation \<Rightarrow> jira_operation \<Rightarrow> bool" where
  "same_target o1 o2 \<longleftrightarrow> wi_id o1 = wi_id o2 \<and> jo_operationType o1 = jo_operationType o2 \<and>
     jo_requestId o1 = jo_requestId o2 \<and> jo_localCommentId o1 = jo_localCommentId o2 \<and>
     jo_companyId o1 = jo_companyId o2"

lemma same_target_refl [simp]: "same_target o1 o1"
  by (simp add: same_target_def)

lemma same_target_creates: "same_target o1 o2 \<Longrightarrow> creates o1 r = creates o2 r"
  and same_target_sends: "same_target o1 o2 \<Longrightarrow> sends o1 m = sends o2 m"
  by (auto simp: same_target_def creates_def sends_def)

text \<open>Changes in place: of operations, requests and messages at once.\<close>

lemma mirrored_map:
  assumes mir: "mirrored Q M Ops"
    and G: "\<And>o1. o1 \<in> set Ops \<Longrightarrow> same_target (G o1) o1"
    and F: "\<And>r. r \<in> set Q \<Longrightarrow> sr_id (F r) = sr_id r \<and> sr_companyId (F r) = sr_companyId r"
    and H: "\<And>m. m \<in> set M \<Longrightarrow> rm_id (H m) = rm_id m \<and> rm_requestId (H m) = rm_requestId m \<and>
      rm_authorType (H m) = rm_authorType m"
    and issue: "\<And>o1 r. o1 \<in> set Ops \<Longrightarrow> r \<in> set Q \<Longrightarrow> creates o1 r \<Longrightarrow> issue_mirror o1 r \<Longrightarrow> issue_mirror (G o1) (F r)"
    and comment: "\<And>o1 m. o1 \<in> set Ops \<Longrightarrow> m \<in> set M \<Longrightarrow> sends o1 m \<Longrightarrow> rm_authorType m = CUSTOMER \<Longrightarrow>
      comment_mirror o1 m \<Longrightarrow> comment_mirror (G o1) (H m)"
  shows "mirrored (map F Q) (map H M) (map G Ops)"
proof -
  have type: "jo_operationType (G o1) = jo_operationType o1" if "o1 \<in> set Ops" for o1
    using G [OF that] by (simp add: same_target_def)
  have "\<exists>r \<in> set (map F Q). creates (G o1) r \<and> sr_companyId r = jo_companyId (G o1) \<and> issue_mirror (G o1) r"
    if o1: "o1 \<in> set Ops" "jo_operationType o1 = CREATE_ISSUE" for o1
  proof -
    from mir o1 obtain r where r: "r \<in> set Q" "creates o1 r" "sr_companyId r = jo_companyId o1" "issue_mirror o1 r"
      unfolding mirrored_def by blast
    with issue [OF o1(1) r(1,2,4)] F [OF r(1)] G [OF o1(1)]
    have "F r \<in> set (map F Q) \<and> creates (G o1) (F r) \<and> sr_companyId (F r) = jo_companyId (G o1) \<and> issue_mirror (G o1) (F r)"
      by (auto simp: creates_def same_target_def)
    then show ?thesis by blast
  qed
  moreover have "\<exists>m \<in> set (map H M). sends (G o1) m \<and> rm_requestId m = jo_requestId (G o1) \<and>
      rm_authorType m = CUSTOMER \<and> comment_mirror (G o1) m"
    if o1: "o1 \<in> set Ops" "jo_operationType o1 = ADD_COMMENT" for o1
  proof -
    from mir o1 obtain m where m: "m \<in> set M" "sends o1 m" "rm_requestId m = jo_requestId o1"
      "rm_authorType m = CUSTOMER" "comment_mirror o1 m"
      unfolding mirrored_def by blast
    with comment [OF o1(1) m(1,2,4,5)] H [OF m(1)] G [OF o1(1)]
    have "H m \<in> set (map H M) \<and> sends (G o1) (H m) \<and> rm_requestId (H m) = jo_requestId (G o1) \<and>
        rm_authorType (H m) = CUSTOMER \<and> comment_mirror (G o1) (H m)"
      by (auto simp: sends_def same_target_def)
    then show ?thesis by blast
  qed
  moreover have "G o1 = G o2" if "o1 \<in> set Ops" "o2 \<in> set Ops" "competing (G o1) (G o2)" for o1 o2
  proof -
    have "competing o1 o2"
      using that(3) same_target_creates [OF G [OF that(1)]] same_target_creates [OF G [OF that(2)]]
        same_target_sends [OF G [OF that(1)]] same_target_sends [OF G [OF that(2)]]
      by (simp add: competing_def)
    with mir that(1,2) show ?thesis unfolding mirrored_def by blast
  qed
  ultimately show ?thesis using type by (auto simp: mirrored_def)
qed

text \<open>Changes of requests and messages that the mirror does not look at.\<close>

lemma mirrored_frame:
  assumes "mirrored Q M Ops"
    and "\<And>r. r \<in> set Q \<Longrightarrow> sr_id (F r) = sr_id r \<and> sr_companyId (F r) = sr_companyId r \<and>
      (\<forall>o1. issue_mirror o1 r \<longrightarrow> issue_mirror o1 (F r))"
    and "\<And>m. m \<in> set M \<Longrightarrow> rm_id (H m) = rm_id m \<and> rm_requestId (H m) = rm_requestId m \<and>
      rm_authorType (H m) = rm_authorType m \<and>
      (rm_authorType m = CUSTOMER \<longrightarrow> rm_deliveryStatus (H m) = rm_deliveryStatus m \<and>
         rm_jiraCommentId (H m) = rm_jiraCommentId m)"
  shows "mirrored (map F Q) (map H M) Ops"
  using mirrored_map [OF assms(1), of "\<lambda>o1. o1" F H] assms(2,3) by (simp add: comment_mirror_def)

text \<open>A new operation whose request or message no other operation has.\<close>

lemma mirrored_add:
  assumes mir: "mirrored Q M Ops" and more: "set Q \<subseteq> set Q'" "set M \<subseteq> set M'"
    and new: "\<And>o1. o1 \<in> set news \<Longrightarrow> (\<exists>r \<in> set Q'. creates o1 r \<and> sr_companyId r = jo_companyId o1 \<and> issue_mirror o1 r) \<or>
      (\<exists>m \<in> set M'. sends o1 m \<and> rm_requestId m = jo_requestId o1 \<and> rm_authorType m = CUSTOMER \<and> comment_mirror o1 m)"
    and alone: "\<And>o1 o2. o1 \<in> set news \<Longrightarrow> o2 \<in> set Ops \<Longrightarrow> \<not> competing o1 o2" "length news \<le> 1"
  shows "mirrored Q' M' (Ops @ news)"
  unfolding mirrored_def
proof (intro conjI ballI impI)
  fix o1 assume o1: "o1 \<in> set (Ops @ news)"
  show "\<exists>r \<in> set Q'. creates o1 r \<and> sr_companyId r = jo_companyId o1 \<and> issue_mirror o1 r"
    if "jo_operationType o1 = CREATE_ISSUE"
  proof (cases "o1 \<in> set Ops")
    case True
    with mir that more(1) show ?thesis unfolding mirrored_def by blast
  next
    case False
    with o1 new [of o1] that show ?thesis by (auto simp: sends_def)
  qed
  show "\<exists>m \<in> set M'. sends o1 m \<and> rm_requestId m = jo_requestId o1 \<and> rm_authorType m = CUSTOMER \<and> comment_mirror o1 m"
    if "jo_operationType o1 = ADD_COMMENT"
  proof (cases "o1 \<in> set Ops")
    case True
    with mir that more(2) show ?thesis unfolding mirrored_def by blast
  next
    case False
    with o1 new [of o1] that show ?thesis by (auto simp: creates_def)
  qed
  fix o2 assume o2: "o2 \<in> set (Ops @ news)" and c: "competing o1 o2"
  have sym: "competing o2 o1" using c by (auto simp: competing_def)
  have old: "\<forall>o1 \<in> set Ops. \<forall>o2 \<in> set Ops. competing o1 o2 \<longrightarrow> o1 = o2" using mir unfolding mirrored_def by (elim conjE)
  have news: "a = b" if "a \<in> set news" "b \<in> set news" for a b
    using alone(2) that by (cases news) auto
  show "o1 = o2"
    using o1 o2 c sym old news alone(1) [of o1 o2] alone(1) [of o2 o1] by auto
qed

lemma mirrored_add_request:
  assumes "mirrored Q M Ops" "sr_id r \<notin> sr_id ` set Q"
    and "news = [] \<or> (\<exists>o1. news = [o1] \<and> creates o1 r \<and> sr_companyId r = jo_companyId o1 \<and> issue_mirror o1 r)"
  shows "mirrored (Q @ [r]) M (Ops @ news)"
proof (rule mirrored_add [OF assms(1)])
  fix o1 o2 assume "o1 \<in> set news" "o2 \<in> set Ops"
  show "\<not> competing o1 o2"
  proof
    assume c: "competing o1 o2"
    have "creates o1 r" using \<open>o1 \<in> set news\<close> assms(3) by auto
    with c have 2: "jo_operationType o2 = CREATE_ISSUE" "jo_requestId o2 = sr_id r"
      by (auto simp: competing_def creates_def sends_def)
    with assms(1) \<open>o2 \<in> set Ops\<close> obtain q where "q \<in> set Q" "creates o2 q" unfolding mirrored_def by blast
    with 2 assms(2) show False by (auto simp: creates_def)
  qed
qed (use assms(3) in auto)

lemma mirrored_add_message:
  assumes "mirrored Q M Ops" "rm_id m \<notin> rm_id ` set M"
    and "news = [] \<or> (\<exists>o1. news = [o1] \<and> sends o1 m \<and> rm_requestId m = jo_requestId o1 \<and>
      rm_authorType m = CUSTOMER \<and> comment_mirror o1 m)"
  shows "mirrored Q (M @ [m]) (Ops @ news)"
proof (rule mirrored_add [OF assms(1)])
  fix o1 o2 assume "o1 \<in> set news" "o2 \<in> set Ops"
  show "\<not> competing o1 o2"
  proof
    assume c: "competing o1 o2"
    have "sends o1 m" using \<open>o1 \<in> set news\<close> assms(3) by auto
    with c have 2: "jo_operationType o2 = ADD_COMMENT" "jo_localCommentId o2 = Some (rm_id m)"
      by (auto simp: competing_def creates_def sends_def)
    with assms(1) \<open>o2 \<in> set Ops\<close> obtain q where "q \<in> set M" "sends o2 q" unfolding mirrored_def by blast
    with 2 assms(2) show False by (auto simp: sends_def)
  qed
qed (use assms(3) in auto)

text \<open>One operation and its request, or its message, change together.\<close>

lemma mirrored_issue:
  assumes mir: "mirrored Q M Ops" and x: "x \<in> set Ops" "p x" "jo_operationType x = CREATE_ISSUE"
    and p: "\<And>o1. o1 \<in> set Ops \<Longrightarrow> p o1 \<Longrightarrow> o1 = x"
    and g: "same_target (g x) x"
    and f: "\<And>r. sr_id (f r) = sr_id r" "\<And>r. sr_companyId (f r) = sr_companyId r"
    and issue: "\<And>r. r \<in> set Q \<Longrightarrow> sr_id r = jo_requestId x \<Longrightarrow> issue_mirror x r \<Longrightarrow> issue_mirror (g x) (f r)"
  shows "mirrored (update_where (\<lambda>r. sr_id r = jo_requestId x) f Q) M (update_where p g Ops)"
proof -
  have other: "\<not> p o1" "o1 \<noteq> x \<Longrightarrow> creates o1 r \<Longrightarrow> sr_id r \<noteq> jo_requestId x" if "o1 \<in> set Ops" "o1 \<noteq> x" for o1 r
    using p [OF that(1)] that(2) mirrored_create [OF mir that(1) _ x(1), of r] x(3) by (auto simp: creates_def)
  have "mirrored (map (\<lambda>r. if sr_id r = jo_requestId x then f r else r) Q) (map (\<lambda>m. m) M)
      (map (\<lambda>o1. if p o1 then g o1 else o1) Ops)"
  proof (rule mirrored_map [OF mir])
    fix o1 assume o1: "o1 \<in> set Ops"
    show "same_target (if p o1 then g o1 else o1) o1" using p [OF o1] g by auto
    show "issue_mirror (if p o1 then g o1 else o1) (if sr_id r = jo_requestId x then f r else r)"
      if "r \<in> set Q" "creates o1 r" "issue_mirror o1 r" for r
      using other [OF o1] that issue x(2) by (cases "o1 = x") (auto simp: creates_def)
    show "comment_mirror (if p o1 then g o1 else o1) m" if "sends o1 m" "comment_mirror o1 m" for m
      using other(1) [OF o1] that x(3) by (cases "o1 = x") (auto simp: sends_def)
  qed (use f in auto)
  then show ?thesis by (simp add: update_where_def)
qed

lemma mirrored_comment:
  assumes mir: "mirrored Q M Ops" and x: "x \<in> set Ops" "p x" "jo_operationType x = ADD_COMMENT"
    "jo_localCommentId x = Some i"
    and p: "\<And>o1. o1 \<in> set Ops \<Longrightarrow> p o1 \<Longrightarrow> o1 = x"
    and g: "same_target (g x) x"
    and h: "\<And>m. rm_id (h m) = rm_id m" "\<And>m. rm_requestId (h m) = rm_requestId m"
      "\<And>m. rm_authorType (h m) = rm_authorType m"
    and comment: "\<And>m. m \<in> set M \<Longrightarrow> rm_id m = i \<Longrightarrow> comment_mirror x m \<Longrightarrow> comment_mirror (g x) (h m)"
  shows "mirrored Q (update_where (\<lambda>m. rm_id m = i) h M) (update_where p g Ops)"
proof -
  have other: "\<not> p o1" "o1 \<noteq> x \<Longrightarrow> sends o1 m \<Longrightarrow> rm_id m \<noteq> i" if "o1 \<in> set Ops" "o1 \<noteq> x" for o1 m
    using p [OF that(1)] that(2) mirrored_send [OF mir that(1) _ x(1), of m] x(3,4) by (auto simp: sends_def)
  have "mirrored (map (\<lambda>r. r) Q) (map (\<lambda>m. if rm_id m = i then h m else m) M)
      (map (\<lambda>o1. if p o1 then g o1 else o1) Ops)"
  proof (rule mirrored_map [OF mir])
    fix o1 assume o1: "o1 \<in> set Ops"
    show "same_target (if p o1 then g o1 else o1) o1" using p [OF o1] g by auto
    show "comment_mirror (if p o1 then g o1 else o1) (if rm_id m = i then h m else m)"
      if "m \<in> set M" "sends o1 m" "comment_mirror o1 m" for m
      using other [OF o1] that comment x(2,4) by (cases "o1 = x") (auto simp: sends_def)
    show "issue_mirror (if p o1 then g o1 else o1) r" if "creates o1 r" "issue_mirror o1 r" for r
      using other(1) [OF o1] that x(3) by (cases "o1 = x") (auto simp: creates_def)
  qed (use h in auto)
  then show ?thesis by (simp add: update_where_def)
qed

section \<open>What the handlers do to the tables\<close>

definition jira_view where
  "jira_view db = (jd_requests db, jd_messages db, jd_operations db, jd_events db)"

lemma jira_view_eqD:
  assumes "jira_view db' = (Q, M, Ops, E)"
  shows "jd_requests db' = Q" "jd_messages db' = M" "jd_operations db' = Ops" "jd_events db' = E"
  using assms by (simp_all add: jira_view_def)

lemma jira_view_simps [simp]:
  "jira_view (audited a db) = jira_view db" "jira_view (notified u c k t pid db) = jira_view db"
  "jira_view (announced i now key ty us te co db) = jira_view db" "jira_view (trailed i ac w now db) = jira_view db"
  by (simp_all add: jira_view_def)

abbreviation held_by :: "jira_operation \<Rightarrow> jira_operation \<Rightarrow> bool" where
  "held_by q \<equiv> lease_held (wi_id q) (the (wi_leaseToken q))"

abbreviation event_held_by :: "inbound_event \<Rightarrow> inbound_event \<Rightarrow> bool" where
  "event_held_by q \<equiv> lease_held (wi_id q) (the (wi_leaseToken q))"

lemma complete_effect:
  obtains (none) "jira_view (snd (completeJiraOperation i q res now db)) = jira_view db"
  | (changed) "count_where (held_by q) (jd_operations db) = 1"
    "jira_view (snd (completeJiraOperation i q res now db)) =
      (update_where (\<lambda>r. sr_id r = jo_requestId q) (created_change res now) (jd_requests db), jd_messages db,
       update_where (held_by q) (completed_change res now) (jd_operations db), jd_events db)"
proof (cases "snd (completeJiraOperation i q res now db) = db")
  case True
  then show ?thesis by (intro none) simp
next
  case False
  then have "count_where (held_by q) (jd_operations db) = 1"
    "jira_view (snd (completeJiraOperation i q res now db)) =
      jira_view (set_requests (\<lambda>r. sr_id r = jo_requestId q) (created_change res now)
        (db\<lparr>jd_operations := update_where (held_by q) (completed_change res now) (jd_operations db)\<rparr>))"
    by (auto simp: completeJiraOperation_def in_transaction_def settle_operation_def complete_request_def Let_def
      split: if_splits option.splits)
  then show ?thesis by (intro changed) (simp_all add: jira_view_def)
qed

lemma comment_effect:
  obtains (none) "jira_view (snd (completeJiraCommentOperation q c now db)) = jira_view db"
  | (changed) k where "jo_localCommentId q = Some k" "count_where (held_by q) (jd_operations db) = 1"
    "jira_view (snd (completeJiraCommentOperation q c now db)) =
      (jd_requests db, update_where (\<lambda>m. rm_id m = k) (sent_change c now) (jd_messages db),
       update_where (held_by q) (comment_change c now) (jd_operations db), jd_events db)"
proof (cases "jo_localCommentId q")
  case None
  then show ?thesis by (intro none) (simp add: completeJiraCommentOperation_def)
next
  case (Some k)
  show ?thesis
  proof (cases "snd (completeJiraCommentOperation q c now db) = db")
    case True
    then show ?thesis by (intro none) simp
  next
    case False
    then have "count_where (held_by q) (jd_operations db) = 1"
      "jira_view (snd (completeJiraCommentOperation q c now db)) =
        jira_view (set_messages (\<lambda>m. rm_id m = k) (sent_change c now)
          (db\<lparr>jd_operations := update_where (held_by q) (comment_change c now) (jd_operations db)\<rparr>))"
      by (auto simp: completeJiraCommentOperation_def in_transaction_def settle_operation_def complete_comment_def
        Let_def Some split: if_splits option.splits)
    with Some show ?thesis by (intro changed) (simp_all add: jira_view_def)
  qed
qed

text \<open>What \<open>mark_target\<close> does to requests and messages.\<close>

definition marked_requests :: "jira_operation \<Rightarrow> integration_status \<Rightarrow> ms \<Rightarrow> support_request list \<Rightarrow> support_request list" where
  "marked_requests q status now Q =
     (if jo_operationType q = CREATE_ISSUE
      then update_where (\<lambda>r. sr_id r = jo_requestId q)
        (\<lambda>r. r\<lparr>sr_jiraIntegrationStatus := status, sr_version := sr_version r + 1, sr_updatedAt := now\<rparr>) Q else Q)"

definition marked_messages ::
  "jira_operation \<Rightarrow> (request_message \<Rightarrow> request_message) \<Rightarrow> ms \<Rightarrow> request_message list \<Rightarrow> request_message list" where
  "marked_messages q change now M =
     (if jo_operationType q = CREATE_ISSUE then M
      else case jo_localCommentId q of None \<Rightarrow> M
      | Some i \<Rightarrow> update_where (\<lambda>m. rm_id m = i) (\<lambda>m. (change m)\<lparr>rm_updatedAt := now\<rparr>) M)"

lemma mark_target_view:
  "jira_view (mark_target q status change now db) =
     (marked_requests q status now (jd_requests db), marked_messages q change now (jd_messages db),
      jd_operations db, jd_events db)"
  by (simp add: mark_target_def marked_requests_def marked_messages_def jira_view_def split: option.split)

lemma mirrored_marked:
  assumes mir: "mirrored Q M Ops" and x: "x \<in> set Ops" "p x" and q: "same_target q x"
    and p: "\<And>o1. o1 \<in> set Ops \<Longrightarrow> p o1 \<Longrightarrow> o1 = x"
    and g: "same_target (g x) x"
    and status: "wi_status x \<noteq> COMPLETED" "wi_status (g x) \<notin> {COMPLETED, DELIVERED, IGNORED}"
      "status = integration_of (wi_status (g x))"
    and change: "\<And>m. rm_id (change m) = rm_id m" "\<And>m. rm_requestId (change m) = rm_requestId m"
      "\<And>m. rm_authorType (change m) = rm_authorType m"
      "\<And>m. rm_deliveryStatus (change m) = delivery_of (wi_status (g x))"
      "\<And>m. rm_jiraCommentId m = None \<Longrightarrow> rm_jiraCommentId (change m) = None"
  shows "mirrored (marked_requests q status now Q) (marked_messages q change now M) (update_where p g Ops)"
proof (cases "jo_operationType x")
  case CREATE_ISSUE
  have "mirrored (update_where (\<lambda>r. sr_id r = jo_requestId x)
      (\<lambda>r. r\<lparr>sr_jiraIntegrationStatus := status, sr_version := sr_version r + 1, sr_updatedAt := now\<rparr>) Q) M
      (update_where p g Ops)"
    by (rule mirrored_issue [where p = p and g = g, OF mir x CREATE_ISSUE p g]) (use status in \<open>auto simp: issue_mirror_def\<close>)
  with CREATE_ISSUE q show ?thesis by (simp add: marked_requests_def marked_messages_def same_target_def)
next
  case ADD_COMMENT
  with mir x(1) obtain i where i: "jo_localCommentId x = Some i" unfolding mirrored_def by (auto simp: sends_def)
  have "mirrored Q (update_where (\<lambda>m. rm_id m = i) (\<lambda>m. (change m)\<lparr>rm_updatedAt := now\<rparr>) M) (update_where p g Ops)"
    by (rule mirrored_comment [where p = p and g = g, OF mir x ADD_COMMENT i p g]) (use status change in \<open>auto simp: comment_mirror_def\<close>)
  with ADD_COMMENT i q show ?thesis by (simp add: marked_requests_def marked_messages_def same_target_def)
qed

lemma snd_result: "snd (case h of (Inl e, d) \<Rightarrow> (Inl (f e), d) | (Inr v, d) \<Rightarrow> (Inr (g v), d)) = snd h"
  by (auto split: prod.split sum.split)

lemma fail_effect:
  obtains (none) "jira_view (snd (failJiraOperation q failure now db)) = jira_view db"
  | (changed) dead nextAt c where "dead = (\<not> snd failure \<or> wi_maxAttempts q \<le> wi_attempts q)"
    "count_where (held_by q) (jd_operations db) = 1"
    "jira_view (snd (failJiraOperation q failure now db)) =
      (marked_requests q (if dead then INTEGRATION_DEAD_LETTER else INTEGRATION_FAILED) now (jd_requests db),
       marked_messages q (\<lambda>m. m\<lparr>rm_deliveryStatus := (if dead then DELIVERY_DEAD_LETTER else DELIVERY_FAILED)\<rparr>) now
         (jd_messages db),
       update_where (held_by q) (failed_operation (if dead then DEAD_LETTER else FAILED) nextAt c now)
         (jd_operations db), jd_events db)"
proof -
  let ?c = "ascii_upper (fst failure)"
  let ?dead = "\<not> snd failure \<or> wi_maxAttempts q \<le> wi_attempts q"
  let ?body = "\<lambda>at. settle_operation q (failed_operation (if ?dead then DEAD_LETTER else FAILED) at ?c now)
    (fail_request q ?dead ?c now)"
  have "snd (failJiraOperation q failure now db) = db \<or>
      (\<exists>at. snd (failJiraOperation q failure now db) = snd (in_transaction (?body at) db))"
    unfolding failJiraOperation_def Let_def by (split option.split, split sum.split) (auto simp: snd_result)
  then consider (error) "snd (failJiraOperation q failure now db) = db"
    | (run) at where "snd (failJiraOperation q failure now db) = snd (in_transaction (?body at) db)"
    by blast
  then show ?thesis
  proof cases
    case error
    then show ?thesis by (intro none) simp
  next
    case (run at)
    show ?thesis
    proof (cases rule: in_transaction_cases [of "?body at" db])
      case thrown
      with run show ?thesis by (intro none) simp
    next
      case (committed v db')
      from committed(1) have "count_where (held_by q) (jd_operations db) = 1"
        "jira_view db' = jira_view (mark_target q (if ?dead then INTEGRATION_DEAD_LETTER else INTEGRATION_FAILED)
          (\<lambda>m. m\<lparr>rm_deliveryStatus := (if ?dead then DELIVERY_DEAD_LETTER else DELIVERY_FAILED)\<rparr>) now
          (db\<lparr>jd_operations := update_where (held_by q)
            (failed_operation (if ?dead then DEAD_LETTER else FAILED) at ?c now) (jd_operations db)\<rparr>))"
        by (auto simp: settle_operation_def fail_request_def Let_def split: if_splits option.splits)
      with run committed(2) show ?thesis by (intro changed [of ?dead at ?c]) (simp_all add: mark_target_view)
    qed
  qed
qed

lemma operator_effect:
  obtains (none) "jira_view (snd (operator_transaction i required missing change status messageChange action result
      metadata now db)) = jira_view db"
  | (changed) x where "x \<in> set (jd_operations db)" "wi_id x = i" "wi_status x = required"
    "jira_view (snd (operator_transaction i required missing change status messageChange action result metadata now db)) =
      (marked_requests x status now (jd_requests db), marked_messages x messageChange now (jd_messages db),
       update_where (\<lambda>o1. wi_id o1 = i) change (jd_operations db), jd_events db)"
proof -
  let ?T = "operator_transaction i required missing change status messageChange action result metadata now db"
  show ?thesis
  proof (cases "snd ?T = db")
    case True
    then show ?thesis by (intro none) simp
  next
    case False
    then obtain x a where x: "operation_by i required db = Some x"
      "snd ?T = audited a (mark_target x status messageChange now
        (db\<lparr>jd_operations := update_where (\<lambda>o1. wi_id o1 = i) change (jd_operations db)\<rparr>))"
      by (auto simp: operator_transaction_def in_transaction_def Let_def split: option.splits prod.splits sum.splits)
    from x(1) have "x \<in> set (jd_operations db)" "wi_id x = i" "wi_status x = required"
      by (auto simp: operation_by_def split: option.splits if_splits dest: row_at_in)
    with x(2) show ?thesis by (intro changed [of x]) (simp_all add: mark_target_view)
  qed
qed

text \<open>A new request, and a new message, with the operation for Jira where one is enqueued.\<close>

definition request_operations where
  "request_operations settings drawn companyId mapping enqueue now =
     (if enqueue
      then [new_operation (dr_operationId drawn) (dr_id drawn) companyId mapping CREATE_ISSUE settings
              (''jira:create:'' @ dr_idempotencyKey drawn) (dr_correlationId drawn) None now]
      else [])"

definition message_operations where
  "message_operations settings drawn item mapping enqueue now =
     (if enqueue
      then [new_operation (dm_operationId drawn) (sr_id item) (sr_companyId item) mapping ADD_COMMENT settings
              (''jira:add-comment:'' @ dm_idempotencyKey drawn) (dm_correlationId drawn) (Some (dm_id drawn)) now]
      else [])"

lemma create_effect:
  obtains (none) "jira_view (snd (createRequest settings input session drawn now db)) = jira_view db"
  | (changed) userId companyId mapping enqueue where
    "jira_view (snd (createRequest settings input session drawn now db)) =
      (jd_requests db @ [new_request drawn input userId companyId enqueue now], jd_messages db,
       jd_operations db @ request_operations settings drawn companyId mapping enqueue now, jd_events db)"
proof (cases "jira_view (snd (createRequest settings input session drawn now db)) = jira_view db")
  case False
  let ?T = "create_transaction settings input session (the (s_companyId session)) drawn now
    (request_of_key (dr_idempotencyKey drawn) db) db"
  from False obtain item db' where t: "?T = (Inr (item, False), db')"
    "jira_view (snd (createRequest settings input session drawn now db)) = jira_view db'"
    by (auto simp: createRequest_def createRequest_after_def create_transaction_def in_transaction_def insert_request_def
      Let_def split: if_splits option.splits sum.splits prod.splits request_error.splits bool.splits)
  then have "insert_request settings input session (the (s_companyId session)) drawn now db = (Inr (item, False), db')"
    by (auto simp: create_transaction_def split: option.splits if_splits dest!: in_transaction_InrD)
  then obtain user where "active_member (s_userId session) (the (s_companyId session)) db = Some user"
    "jira_view db' = (let mapping = mapping_of settings (the (s_companyId session)) db;
        enqueue = (case mapping of None \<Rightarrow> False | Some m \<Rightarrow> jm_enabled m) in
      (jd_requests db @ [new_request drawn input (pu_id user) (the (s_companyId session)) enqueue now], jd_messages db,
       jd_operations db @ request_operations settings drawn (the (s_companyId session)) (the mapping) enqueue now, jd_events db))"
    by (auto simp: insert_request_def Let_def request_operations_def jira_view_def new_request_def
      split: option.splits if_splits)
  with t(2) show ?thesis by (intro changed) (auto simp: Let_def)
qed (rule none)

lemma add_effect:
  obtains (none) "jira_view (snd (addRequestMessage settings publicId body session drawn now db)) = jira_view db"
  | (changed) user item mapping enqueue where "item \<in> set (jd_requests db)"
    "jira_view (snd (addRequestMessage settings publicId body session drawn now db)) =
      (update_where (\<lambda>r. sr_id r = sr_id item) (\<lambda>r. r\<lparr>sr_updatedAt := now\<rparr>) (jd_requests db),
       jd_messages db @ [new_message drawn body user item enqueue now],
       jd_operations db @ message_operations settings drawn item mapping enqueue now, jd_events db)"
proof (cases "jira_view (snd (addRequestMessage settings publicId body session drawn now db)) = jira_view db")
  case False
  let ?T = "message_transaction settings publicId body session drawn now db"
  have available: "jd_available db"
    by (rule ccontr) (use False in \<open>simp add: addRequestMessage_def\<close>)
  then have "jira_view (snd (addRequestMessage settings publicId body session drawn now db)) = jira_view (snd ?T)"
    by (auto simp: addRequestMessage_def
      split: if_splits option.splits sum.splits prod.splits request_error.splits)
  moreover obtain created db' where "?T = (Inr (Some created), db')" and t: "jira_view db' \<noteq> jira_view db"
    using False available
    by (cases ?T; cases "fst ?T") (auto simp: addRequestMessage_def message_transaction_def in_transaction_def
      insert_message_def Let_def split: if_splits option.splits sum.splits prod.splits request_error.splits)
  ultimately have view: "jira_view (snd (addRequestMessage settings publicId body session drawn now db)) = jira_view db'"
    and insert: "insert_message settings publicId body session drawn now db = (Inr (Some created), db')"
    by (auto simp: message_transaction_def split: option.splits if_splits dest!: in_transaction_InrD)
  from insert obtain user item where "item \<in> set (jd_requests db)"
    "jira_view db' = (let mapping = mapping_of settings (sr_companyId item) db; enqueue = comment_enqueued mapping item in
       (update_where (\<lambda>r. sr_id r = sr_id item) (\<lambda>r. r\<lparr>sr_updatedAt := now\<rparr>) (jd_requests db),
       jd_messages db @ [new_message drawn body user item enqueue now],
       jd_operations db @ message_operations settings drawn item (the mapping) enqueue now, jd_events db))"
    by (auto simp: insert_message_def Let_def message_operations_def jira_view_def
      split: option.splits if_splits dest!: find_SomeD)
  with view show ?thesis by (intro changed [of item]) (auto simp: Let_def)
qed (rule none)

section \<open>A claim\<close>

lemma the_creator:
  assumes "mirrored Q M Ops" "o1 \<in> set Ops" "creates o1 r"
  shows "(\<exists>o2 \<in> set Ops. p o2 \<and> jo_operationType o2 = CREATE_ISSUE \<and> jo_requestId o2 = sr_id r) \<longleftrightarrow> p o1"
proof
  assume "\<exists>o2 \<in> set Ops. p o2 \<and> jo_operationType o2 = CREATE_ISSUE \<and> jo_requestId o2 = sr_id r"
  then obtain o2 where "o2 \<in> set Ops" "p o2" "creates o2 r" by (auto simp: creates_def)
  with mirrored_create [OF assms] show "p o1" by blast
qed (use assms in \<open>unfold creates_def, blast\<close>)

lemma the_sender:
  assumes "mirrored Q M Ops" "o1 \<in> set Ops" "sends o1 m"
  shows "(\<exists>o2 \<in> set Ops. p o2 \<and> jo_operationType o2 = ADD_COMMENT \<and> jo_localCommentId o2 = Some (rm_id m)) \<longleftrightarrow> p o1"
proof
  assume "\<exists>o2 \<in> set Ops. p o2 \<and> jo_operationType o2 = ADD_COMMENT \<and> jo_localCommentId o2 = Some (rm_id m)"
  then obtain o2 where "o2 \<in> set Ops" "p o2" "sends o2 m" by (auto simp: sends_def)
  with mirrored_send [OF assms] show "p o1" by blast
qed (use assms in \<open>unfold sends_def, blast\<close>)

lemma the_creator_map:
  assumes "mirrored Q M Ops" "o1 \<in> set Ops" "creates o1 r" "\<And>o1. o1 \<in> set Ops \<Longrightarrow> same_target (G o1) o1"
  shows "(\<exists>o2 \<in> set (map G Ops). p o2 \<and> jo_operationType o2 = CREATE_ISSUE \<and> jo_requestId o2 = sr_id r) \<longleftrightarrow> p (G o1)"
  using the_creator [OF assms(1-3), of "\<lambda>o2. p (G o2)"] assms(4) by (auto simp: same_target_def)

lemma the_sender_map:
  assumes "mirrored Q M Ops" "o1 \<in> set Ops" "sends o1 m" "\<And>o1. o1 \<in> set Ops \<Longrightarrow> same_target (G o1) o1"
  shows "(\<exists>o2 \<in> set (map G Ops). p o2 \<and> jo_operationType o2 = ADD_COMMENT \<and> jo_localCommentId o2 = Some (rm_id m)) \<longleftrightarrow>
    p (G o1)"
  using the_sender [OF assms(1-3), of "\<lambda>o2. p (G o2)"] assms(4) by (auto simp: same_target_def)

lemma same_target_changes:
  "same_target (give_up f now o1) o1" "same_target (take_lease t u now o1) o1"
  "same_target (failed_operation st at c now o1) o1" "same_target (completed_change res now o1) o1"
  "same_target (comment_change cid now o1) o1" "same_target (retry_change now o1) o1"
  "same_target (bury_change now o1) o1"
  by (simp_all add: same_target_def give_up_def take_lease_def failed_operation_def completed_change_def
    comment_change_def retry_change_def bury_change_def)

abbreviation creator_among :: "(jira_operation \<Rightarrow> bool) \<Rightarrow> jira_operation list \<Rightarrow> support_request \<Rightarrow> bool" where
  "creator_among p os r \<equiv> \<exists>o1 \<in> set os. p o1 \<and> jo_operationType o1 = CREATE_ISSUE \<and> jo_requestId o1 = sr_id r"

abbreviation sender_among :: "(jira_operation \<Rightarrow> bool) \<Rightarrow> jira_operation list \<Rightarrow> request_message \<Rightarrow> bool" where
  "sender_among p os m \<equiv>
     \<exists>o1 \<in> set os. p o1 \<and> jo_operationType o1 = ADD_COMMENT \<and> jo_localCommentId o1 = Some (rm_id m)"

text \<open>The changes of a request and of a message, given the operations after the two statements.\<close>

definition claimed_request :: "ms \<Rightarrow> string \<Rightarrow> jira_operation list \<Rightarrow> jira_operation list \<Rightarrow> support_request \<Rightarrow> support_request" where
  "claimed_request now token Ops Ops2 r =
     (let r1 = if creator_among (lease_exhausted now) Ops r
        then r\<lparr>sr_jiraIntegrationStatus := INTEGRATION_DEAD_LETTER, sr_updatedAt := now\<rparr> else r in
      if creator_among (\<lambda>o1. wi_leaseToken o1 = Some token) Ops2 r
      then r1\<lparr>sr_jiraIntegrationStatus := INTEGRATION_PROCESSING, sr_updatedAt := now\<rparr> else r1)"

abbreviation worn_out :: "jira_operation \<Rightarrow> bool" where
  "worn_out o1 \<equiv> wi_status o1 = DEAD_LETTER \<and> wi_lastFailureCode o1 = Some ''JIRA_LEASE_EXHAUSTED''"

definition claimed_message :: "ms \<Rightarrow> string \<Rightarrow> jira_operation list \<Rightarrow> jira_operation list \<Rightarrow> request_message \<Rightarrow> request_message" where
  "claimed_message now token Ops1 Ops2 m =
     (let m1 = if sender_among worn_out Ops1 m
        then m\<lparr>rm_deliveryStatus := DELIVERY_DEAD_LETTER, rm_updatedAt := now\<rparr> else m in
      if sender_among (\<lambda>o1. wi_leaseToken o1 = Some token) Ops2 m
      then m1\<lparr>rm_deliveryStatus := DELIVERY_PROCESSING, rm_updatedAt := now\<rparr> else m1)"

lemma claim_tables:
  assumes "claim_transaction n leaseMs now corr companyId token locked db = (records, db')"
    and "claim_rows ''JIRA_LEASE_EXHAUSTED'' (claim_wanted corr companyId)
      (\<lambda>i. (wi_nextAttemptAt i, wi_createdAt i)) locked token n leaseMs now (jd_operations db) = (records, Ops2)"
  shows "jira_view db' =
    (map (claimed_request now token (jd_operations db) Ops2) (jd_requests db),
     map (claimed_message now token (update_where (lease_exhausted now) (give_up ''JIRA_LEASE_EXHAUSTED'' now)
       (jd_operations db)) Ops2) (jd_messages db), Ops2, jd_events db)"
proof -
  define Ops1 where "Ops1 = update_where (lease_exhausted now) (give_up ''JIRA_LEASE_EXHAUSTED'' now) (jd_operations db)"
  have db': "db' = (with_comment (\<lambda>o1. wi_leaseToken o1 = Some token) DELIVERY_PROCESSING now Ops2
      (with_operation (\<lambda>o1. wi_leaseToken o1 = Some token) CREATE_ISSUE INTEGRATION_PROCESSING now Ops2
      (with_comment worn_out DELIVERY_DEAD_LETTER now Ops1
      (with_operation (lease_exhausted now) CREATE_ISSUE INTEGRATION_DEAD_LETTER now (jd_operations db) db))))
        \<lparr>jd_operations := Ops2\<rparr>"
    using assms unfolding claim_transaction_def Let_def Ops1_def by simp
  show ?thesis
    unfolding db' jira_view_def with_operation_def with_comment_def Ops1_def [symmetric]
    by (simp add: update_where_def claimed_request_def claimed_message_def Let_def) blast+
qed

lemma claim_mirrored:
  assumes mir: "mirrored Q M Ops" and dist: "distinct (map wi_id Ops)"
    and token: "\<And>o1. o1 \<in> set Ops \<Longrightarrow> wi_leaseToken o1 \<noteq> Some token"
    and claim: "claim_rows ''JIRA_LEASE_EXHAUSTED'' wanted order locked token n leaseMs now Ops = (records, Ops2)"
  shows "mirrored (map (claimed_request now token Ops Ops2) Q)
    (map (claimed_message now token (update_where (lease_exhausted now) (give_up ''JIRA_LEASE_EXHAUSTED'' now) Ops)
      Ops2) M) Ops2"
proof -
  from claim_rows_pointwise [OF claim dist] obtain G where Ops2: "Ops2 = map G Ops"
    and G: "\<And>o1. o1 \<in> set Ops \<Longrightarrow> lease_exhausted now o1 \<and> G o1 = give_up ''JIRA_LEASE_EXHAUSTED'' now o1 \<or>
      \<not> lease_exhausted now o1 \<and> candidate now o1 \<and> G o1 = take_lease token (now + leaseMs) now o1 \<or>
      \<not> lease_exhausted now o1 \<and> G o1 = o1" by metis
  define G1 where "G1 o1 = (if lease_exhausted now o1 then give_up ''JIRA_LEASE_EXHAUSTED'' now o1 else o1)"
    for o1 :: jira_operation
  have Ops1: "update_where (lease_exhausted now) (give_up ''JIRA_LEASE_EXHAUSTED'' now) Ops = map G1 Ops"
    by (simp add: update_where_def G1_def)
  have target: "same_target (G o1) o1" "same_target (G1 o1) o1" if "o1 \<in> set Ops" for o1
    using G [OF that] same_target_changes(1,2) by (auto simp: G1_def)
  have issue: "issue_mirror (G o1) (claimed_request now token Ops Ops2 r)"
    if o1: "o1 \<in> set Ops" and r: "creates o1 r" "issue_mirror o1 r" for o1 r
  proof -
    have the: "creator_among (\<lambda>o1. wi_leaseToken o1 = Some token) (map G Ops) r = (wi_leaseToken (G o1) = Some token)"
      "creator_among (lease_exhausted now) Ops r = lease_exhausted now o1"
      by (rule the_creator_map [OF mir o1 r(1) target(1)], assumption) (rule the_creator [OF mir o1 r(1)])
    show ?thesis
      unfolding claimed_request_def Ops2 the Let_def
      using G [OF o1] r(2) token [OF o1]
      by (elim disjE conjE) (auto simp: issue_mirror_def lease_exhausted_def candidate_def)
  qed
  have comment: "comment_mirror (G o1) (claimed_message now token (map G1 Ops) Ops2 m)"
    if o1: "o1 \<in> set Ops" and m: "sends o1 m" "comment_mirror o1 m" for o1 m
  proof -
    have the: "sender_among (\<lambda>o1. wi_leaseToken o1 = Some token) (map G Ops) m = (wi_leaseToken (G o1) = Some token)"
      "sender_among worn_out (map G1 Ops) m = worn_out (G1 o1)"
      by (rule the_sender_map [OF mir o1 m(1) target(1)], assumption)
        (rule the_sender_map [OF mir o1 m(1) target(2)], assumption)
    have "wi_lastFailureCode (give_up ''JIRA_LEASE_EXHAUSTED'' now o1) = Some ''JIRA_LEASE_EXHAUSTED''"
      by (simp add: give_up_def)
    then show ?thesis
      unfolding claimed_message_def Ops2 the Let_def
      using G [OF o1] m(2) token [OF o1]
      by (elim disjE conjE) (auto simp: G1_def comment_mirror_def lease_exhausted_def candidate_def)
  qed
  show ?thesis
    unfolding Ops1 by (subst (3) Ops2, rule mirrored_map [OF mir])
      (use target(1) issue comment in \<open>simp_all add: claimed_request_def claimed_message_def Let_def\<close>)
qed

end
