(* ===== verification/JiraEffects.thy ===== *)
theory JiraEffects
  imports JiraMirror
begin

text \<open>
  What the incoming side does to the tables: an event that is processed changes its own row, at most
  the request it belongs to, and at most one message of that request, and it does so in the step that
  finishes it.
\<close>

definition finished_events :: "inbound_event \<Rightarrow> work_status \<Rightarrow> ms \<Rightarrow> inbound_event list \<Rightarrow> inbound_event list" where
  "finished_events q st now E = update_where (event_held_by q) (finished_change st now) E"

lemma finish_effect:
  assumes "finishEvent q st now db = (Inr b, db')"
  shows "count_where (event_held_by q) (jd_events db) = 1" "b = (st = COMPLETED)"
    "jira_view db' = (jd_requests db, jd_messages db, jd_operations db, finished_events q st now (jd_events db))"
  using assms by (auto simp: finishEvent_def Let_def finished_events_def jira_view_def split: if_splits)

lemma jira_view_tables:
  "jira_view db' = jira_view db \<longleftrightarrow>
     jd_requests db' = jd_requests db \<and> jd_messages db' = jd_messages db \<and>
     jd_operations db' = jd_operations db \<and> jd_events db' = jd_events db"
  by (simp add: jira_view_def)

lemma ignore_effect:
  assumes "ignore_event q request action metadata now db = (Inr b, db')"
  shows "count_where (event_held_by q) (jd_events db) = 1" "\<not> b"
    "jira_view db' = (jd_requests db, jd_messages db, jd_operations db, finished_events q IGNORED now (jd_events db))"
  using finish_effect [OF assms [unfolded ignore_event_def]] by simp_all

section \<open>What an event changes\<close>

definition request_touched :: "inbound_event \<Rightarrow> support_request \<Rightarrow> support_request \<Rightarrow> bool" where
  "request_touched q r r' \<longleftrightarrow> r' = r \<or>
     sr_id r = ie_requestId q \<and> sr_companyId r = ie_companyId q \<and> sr_jiraIssueId r = Some (ie_jiraIssueId q) \<and>
     sr_id r' = sr_id r \<and> sr_companyId r' = sr_companyId r \<and> sr_requesterId r' = sr_requesterId r \<and>
     sr_jiraIssueId r' = sr_jiraIssueId r \<and> sr_jiraKey r' = sr_jiraKey r \<and>
     sr_jiraIntegrationStatus r' \<in> {sr_jiraIntegrationStatus r, INTEGRATION_FAILED} \<and>
     (terminal_status (sr_status r) \<longrightarrow> terminal_status (sr_status r')) \<and>
     (sr_status r' \<noteq> sr_status r \<longrightarrow>
        (\<exists>t'. sr_jiraUpdatedAt r' = Some t' \<and> (\<forall>t. sr_jiraUpdatedAt r = Some t \<longrightarrow> t < t'))) \<and>
     (\<forall>t. sr_jiraUpdatedAt r = Some t \<longrightarrow> (\<exists>t'. sr_jiraUpdatedAt r' = Some t' \<and> t \<le> t'))"

definition message_touched :: "inbound_event \<Rightarrow> request_message \<Rightarrow> request_message \<Rightarrow> bool" where
  "message_touched q m m' \<longleftrightarrow> m' = m \<or>
     rm_requestId m = ie_requestId q \<and> rm_authorType m = JIRA \<and> rm_id m' = rm_id m \<and>
     rm_requestId m' = rm_requestId m \<and> rm_authorType m' = JIRA \<and> rm_jiraCommentId m' = rm_jiraCommentId m"

definition event_applied ::
  "inbound_event \<Rightarrow> string \<Rightarrow> work_status \<Rightarrow> ms \<Rightarrow> jira_db \<Rightarrow> jira_db \<Rightarrow> bool" where
  "event_applied q newId st now db db' \<longleftrightarrow>
     count_where (event_held_by q) (jd_events db) = 1 \<and>
     jd_operations db' = jd_operations db \<and> jd_events db' = finished_events q st now (jd_events db) \<and>
     (\<exists>F H news. jd_requests db' = map F (jd_requests db) \<and> (\<forall>r \<in> set (jd_requests db). request_touched q r (F r)) \<and>
        jd_messages db' = map H (jd_messages db) @ news \<and> (\<forall>m \<in> set (jd_messages db). message_touched q m (H m)) \<and>
        (news = [] \<or> (\<exists>m. news = [m] \<and> rm_id m = newId \<and> rm_authorType m = JIRA \<and> rm_requestId m = ie_requestId q)) \<and>
        (st = IGNORED \<longrightarrow> jd_requests db' = jd_requests db \<and> jd_messages db' = jd_messages db))"

lemma touched_refl [simp]: "request_touched q r r" "message_touched q m m"
  by (simp_all add: request_touched_def message_touched_def)

lemma applied_unchanged:
  assumes "count_where (event_held_by q) (jd_events db) = 1"
    "jira_view db' = (jd_requests db, jd_messages db, jd_operations db, finished_events q st now (jd_events db))"
  shows "event_applied q newId st now db db'"
  using jira_view_eqD [OF assms(2)] assms(1) unfolding event_applied_def
  by (intro conjI exI [of _ "\<lambda>r. r"] exI [of _ "\<lambda>m. m"] exI [of _ "[]"]) simp_all

lemma applied_requests:
  assumes "count_where (event_held_by q) (jd_events db) = 1"
    "jira_view db' = (update_where p f (jd_requests db), jd_messages db, jd_operations db,
      finished_events q COMPLETED now (jd_events db))"
    "\<And>r. r \<in> set (jd_requests db) \<Longrightarrow> p r \<Longrightarrow> request_touched q r (f r)"
  shows "event_applied q newId COMPLETED now db db'"
proof -
  have "update_where p f (jd_requests db) = map (\<lambda>r. if p r then f r else r) (jd_requests db)"
    by (simp add: update_where_def)
  moreover have "\<forall>r \<in> set (jd_requests db). request_touched q r (if p r then f r else r)" using assms(3) by auto
  moreover have "jd_messages db = map (\<lambda>m. m) (jd_messages db) @ []" by simp
  ultimately show ?thesis
    using jira_view_eqD [OF assms(2)] assms(1) unfolding event_applied_def
    by (intro conjI exI [of _ "\<lambda>r. if p r then f r else r"] exI [of _ "\<lambda>m. m"] exI [of _ "[]"]) simp_all
qed

lemma applied_messages:
  assumes "count_where (event_held_by q) (jd_events db) = 1"
    "jira_view db' = (jd_requests db, update_where p h (jd_messages db) @ news, jd_operations db,
      finished_events q COMPLETED now (jd_events db))"
    "\<And>m. m \<in> set (jd_messages db) \<Longrightarrow> p m \<Longrightarrow> message_touched q m (h m)"
    "news = [] \<or> (\<exists>m. news = [m] \<and> rm_id m = newId \<and> rm_authorType m = JIRA \<and> rm_requestId m = ie_requestId q)"
  shows "event_applied q newId COMPLETED now db db'"
proof -
  have "update_where p h (jd_messages db) = map (\<lambda>m. if p m then h m else m) (jd_messages db)"
    by (simp add: update_where_def)
  moreover have "\<forall>m \<in> set (jd_messages db). message_touched q m (if p m then h m else m)" using assms(3) by auto
  moreover have "jd_requests db = map (\<lambda>r. r) (jd_requests db)" by simp
  ultimately show ?thesis
    using jira_view_eqD [OF assms(2)] assms(1,4) unfolding event_applied_def
    by (intro conjI exI [of _ "\<lambda>r. r"] exI [of _ "\<lambda>m. if p m then h m else m"] exI [of _ news]) simp_all
qed

lemma matching_requestD:
  "matching_request q db = Inr r \<Longrightarrow> r \<in> set (jd_requests db) \<and> sr_id r = ie_requestId q \<and> request_matches q r"
  by (auto simp: matching_request_def request_by_def split: option.splits if_splits dest!: find_SomeD)

lemma status_touched:
  assumes "request_matches q r" "sr_id r = ie_requestId q"
    and "d = statusTransitionDecision (sr_status r) (sr_jiraUpdatedAt r) s t" "d \<noteq> STALE" "d \<noteq> TERMINAL_CONFLICT"
  shows "request_touched q r (status_change d s sid sn t now r)"
proof -
  from assms(3-5) have fresh: "\<forall>t0. sr_jiraUpdatedAt r = Some t0 \<longrightarrow> t0 < t"
    by (simp add: statusTransitionDecision_def split: option.split_asm if_split_asm)
  from assms(3-5) have closed: "terminal_status (sr_status r) \<longrightarrow> terminal_status s"
    by (simp add: statusTransitionDecision_def split: option.split_asm if_split_asm)
  let ?r = "status_change d s sid sn t now r"
  have "sr_status ?r = s \<or> sr_status ?r = sr_status r" "sr_jiraUpdatedAt ?r = Some t" "sr_id ?r = sr_id r"
    "sr_companyId ?r = sr_companyId r" "sr_requesterId ?r = sr_requesterId r" "sr_jiraIssueId ?r = sr_jiraIssueId r"
    "sr_jiraKey ?r = sr_jiraKey r" "sr_jiraIntegrationStatus ?r = sr_jiraIntegrationStatus r"
    by (simp_all add: status_change_def)
  with assms(1,2) fresh closed show ?thesis
    unfolding request_touched_def request_matches_def by (intro disjI2 conjI) (auto intro: less_imp_le)
qed

lemma status_effect:
  assumes dist: "distinct (map sr_id (jd_requests db))"
    and run: "processStatus outboxId q sid sn at now db = (Inr b, db')"
  shows "\<exists>st. st \<in> {COMPLETED, IGNORED} \<and> event_applied q newId st now db db'"
proof -
  from run obtain request where request: "matching_request q db = Inr request"
    and read: "processStatus_read request (List.find (\<lambda>m. jm_companyId m = ie_companyId q) (jd_mappings db))
      outboxId q sid sn at now db = (Inr b, db')"
    by (auto simp: processStatus_def split: sum.splits)
  note r = matching_requestD [OF request]
  consider (ignored) action metadata where "ignore_event q request action metadata now db = (Inr b, db')"
    | (applied) s t d where "d = statusTransitionDecision (sr_status request) (sr_jiraUpdatedAt request) s t"
      "d \<noteq> STALE" "d \<noteq> TERMINAL_CONFLICT"
      "status_applied outboxId q request s d now (set_requests (status_guard request (ie_companyId q) t)
        (status_change d s sid sn t now) db) = (Inr b, db')"
    using read
    by (auto simp: processStatus_read_def Let_def split: option.split_asm if_split_asm)
  then show ?thesis
  proof cases
    case ignored
    from applied_unchanged [OF ignore_effect(1,3) [OF this]] show ?thesis by blast
  next
    case applied
    let ?db1 = "set_requests (status_guard request (ie_companyId q) t) (status_change d s sid sn t now) db"
    have fin: "\<exists>db2. jira_view db2 = jira_view ?db1 \<and> finishEvent q COMPLETED now db2 = (Inr b, db')"
      using applied(4) unfolding status_applied_def Let_def
      by - (rule exI, rule conjI [rotated], assumption, simp split: if_split)
    then obtain db2 where db2: "jira_view db2 = jira_view ?db1" "finishEvent q COMPLETED now db2 = (Inr b, db')" by blast
    have "event_applied q newId COMPLETED now db db'"
    proof (rule applied_requests)
      show "count_where (event_held_by q) (jd_events db) = 1"
        using finish_effect(1) [OF db2(2)] db2(1) by (simp add: jira_view_def)
      show "jira_view db' = (update_where (status_guard request (ie_companyId q) t) (status_change d s sid sn t now)
          (jd_requests db), jd_messages db, jd_operations db, finished_events q COMPLETED now (jd_events db))"
        using finish_effect(3) [OF db2(2)] db2(1) by (simp add: jira_view_def)
      fix r' assume "r' \<in> set (jd_requests db)" "status_guard request (ie_companyId q) t r'"
      with distinct_key_eq [OF dist, of r' request] r have "r' = request" by (simp add: status_guard_def)
      with r applied(1-3) show "request_touched q r' (status_change d s sid sn t now r')"
        by (intro status_touched) simp_all
    qed
    then show ?thesis by blast
  qed
qed

lemma comment_effect_inbound:
  assumes dist: "distinct (map rm_id (jd_messages db))"
    and run: "processComment newId outboxId q cid body author public automation date now db = (Inr b, db')"
  shows "\<exists>st. st \<in> {COMPLETED, IGNORED} \<and> event_applied q newId st now db db'"
proof -
  from run obtain request where request: "matching_request q db = Inr request"
    by (auto simp: processComment_def split: sum.splits)
  note r = matching_requestD [OF request]
  consider (ignored) action metadata where "ignore_event q request action metadata now db = (Inr b, db')"
    | (updated) existing t where "List.find (\<lambda>m. rm_jiraCommentId m = Some cid) (jd_messages db) = Some existing"
      "update_comment existing q request cid body author t now db = (Inr b, db')"
    | (created) t where "create_comment newId outboxId q request cid body author t now db = (Inr b, db')"
    using run request by (auto simp: processComment_def split: option.split_asm if_split_asm)
  then show ?thesis
  proof cases
    case ignored
    from applied_unchanged [OF ignore_effect(1,3) [OF this]] show ?thesis by blast
  next
    case updated
    from find_SomeD [OF updated(1)] have e: "existing \<in> set (jd_messages db)" "rm_jiraCommentId existing = Some cid" by auto
    let ?h = "\<lambda>m. m\<lparr>rm_body := body, rm_authorDisplayName := Some author, rm_jiraCommentUpdatedAt := Some t,
      rm_updatedAt := now\<rparr>"
    from updated(2) consider (same) "finishEvent q IGNORED now db = (Inr b, db')"
      | (edited) "rm_requestId existing = sr_id request" "rm_authorType existing = JIRA"
        "finishEvent q COMPLETED now (comment_imported q request cid now
          (set_messages (\<lambda>m. rm_id m = rm_id existing) ?h db)) = (Inr b, db')"
      by (auto simp: update_comment_def split: if_split_asm)
    then show ?thesis
    proof cases
      case same
      from applied_unchanged [OF finish_effect(1,3) [OF this]] show ?thesis by blast
    next
      case edited
      have "event_applied q newId COMPLETED now db db'"
      proof (rule applied_messages [where news = "[]"])
        show "count_where (event_held_by q) (jd_events db) = 1"
          using finish_effect(1) [OF edited(3)] by (simp add: comment_imported_def)
        show "jira_view db' = (jd_requests db, update_where (\<lambda>m. rm_id m = rm_id existing) ?h (jd_messages db) @ [],
            jd_operations db, finished_events q COMPLETED now (jd_events db))"
          using finish_effect(3) [OF edited(3)] by (simp add: comment_imported_def)
        fix m assume "m \<in> set (jd_messages db)" "rm_id m = rm_id existing"
        with distinct_key_eq [OF dist, of m existing] e have "m = existing" by simp
        with edited(1,2) r show "message_touched q m (?h m)" by (simp add: message_touched_def)
      qed simp
      then show ?thesis by blast
    qed
  next
    case created
    have "event_applied q newId COMPLETED now db db'"
    proof (rule applied_messages [where p = "\<lambda>_. False" and h = id])
      show "count_where (event_held_by q) (jd_events db) = 1"
        using finish_effect(1) [OF created [unfolded create_comment_def]] by (simp add: comment_imported_def)
      show "jira_view db' = (jd_requests db, update_where (\<lambda>_. False) id (jd_messages db) @
          [imported_message newId q (sr_id request) cid body author t now],
          jd_operations db, finished_events q COMPLETED now (jd_events db))"
        using finish_effect(3) [OF created [unfolded create_comment_def]]
        by (simp add: comment_imported_def update_where_def)
    qed (use r in \<open>simp_all add: imported_message_def\<close>)
    then show ?thesis by blast
  qed
qed

lemma deleted_effect:
  assumes dist: "distinct (map sr_id (jd_requests db))"
    and run: "processDeleted q now db = (Inr b, db')"
  shows "\<exists>st. st \<in> {COMPLETED, IGNORED} \<and> event_applied q newId st now db db'"
proof -
  let ?f = "\<lambda>r. r\<lparr>sr_jiraIntegrationStatus := INTEGRATION_FAILED, sr_jiraStatusName := Some ''Unavailable in Jira'',
    sr_jiraSyncAt := Some now, sr_version := sr_version r + 1, sr_updatedAt := now\<rparr>"
  from run obtain request where request: "request \<in> set (jd_requests db)" "sr_id request = ie_requestId q"
      "sr_companyId request = ie_companyId q" "sr_jiraIssueId request = Some (ie_jiraIssueId q)"
    and fin: "finishEvent q COMPLETED now (audited (event_audit q (Some (sr_publicId request)) ''jira.issue.deleted''
      ''SUCCEEDED'' []) (set_requests (\<lambda>r. sr_id r = sr_id request) ?f db)) = (Inr b, db')"
    by (auto simp: processDeleted_def split: option.split_asm dest!: find_SomeD)
  have "event_applied q newId COMPLETED now db db'"
  proof (rule applied_requests)
    show "count_where (event_held_by q) (jd_events db) = 1" using finish_effect(1) [OF fin] by simp
    show "jira_view db' = (update_where (\<lambda>r. sr_id r = sr_id request) ?f (jd_requests db), jd_messages db,
        jd_operations db, finished_events q COMPLETED now (jd_events db))"
      using finish_effect(3) [OF fin] by simp
    fix r assume "r \<in> set (jd_requests db)" "sr_id r = sr_id request"
    with distinct_key_eq [OF dist, of r request] request(1) have "r = request" by simp
    with request show "request_touched q r (?f r)" by (simp add: request_touched_def)
  qed
  then show ?thesis by blast
qed

lemma process_effect:
  assumes "distinct (map sr_id (jd_requests db))" "distinct (map rm_id (jd_messages db))"
  obtains (none) "snd (processOne newId outboxId q now db) = db"
  | (changed) st where "st \<in> {COMPLETED, IGNORED}"
    "event_applied q newId st now db (snd (processOne newId outboxId q now db))"
proof (cases "snd (processOne newId outboxId q now db) = db")
  case False
  then obtain payload b db' where p: "(case payload of
      StatusPayload sid sn at \<Rightarrow> processStatus outboxId q sid sn at now db
    | CommentPayload cid body author public automation date \<Rightarrow>
        processComment newId outboxId q cid body author public automation date now db
    | DeletedPayload \<Rightarrow> processDeleted q now db) = (Inr b, db')" "snd (processOne newId outboxId q now db) = db'"
    by (auto simp: processOne_def in_transaction_def split: sum.splits if_splits prod.splits)
  have "\<exists>st. st \<in> {COMPLETED, IGNORED} \<and> event_applied q newId st now db db'"
    using p(1) status_effect [OF assms(1)] comment_effect_inbound [OF assms(2)] deleted_effect [OF assms(1)]
    by (cases payload) simp_all
  with p(2) show ?thesis using changed by blast
qed (rule none)

end
