(* ===== verification/JiraSystem.thy ===== *)
theory JiraSystem
  imports JiraEffects
begin

text \<open>
  The Jira integration as one system: support requests and their messages, the mapping of an
  organization, the outbox of operations with its workers and operators, the webhook intake and the
  inbound events with theirs, under every interleaving of their transactions, each of which is one
  step. Its two tables of
  leased work keep the contract \<open>leased_rows\<close>, and the mirror of the portal is kept by every step.
\<close>

section \<open>Runs\<close>

text \<open>
  The state is the database and the records that claims have returned to workers, the only ones a
  worker can settle. What a provider answers is arbitrary.
\<close>

record jira_state =
  sy_db :: jira_db
  sy_operations :: "jira_operation list"
  sy_events :: "inbound_event list"

datatype jira_op =
    SaveMapping "string \<Rightarrow> string" string mapping_input
  | CreateRequest jira_settings request_input app_session drawn_request ms
  | AddMessage jira_settings string string app_session drawn_message ms
  | SetRequestStatus string request_status ms
  | ClaimOperations int int ms "string option" "string option" string "string list"
  | CompleteIssue string jira_operation issue_result ms
  | CompleteComment jira_operation string ms
  | FailOperation jira_operation "string \<times> bool" ms
  | RetryOperation string ms
  | BuryOperation string ms
  | ReceiveWebhook web_platform webhook_configuration string string "string option" ms
  | ClaimEvents int int ms "string option" "string option" string "string list"
  | ProcessEvent string string inbound_event ms
  | FailEvent inbound_event string ms
  | RetryEvent string ms
  | BuryEvent string ms
  | DeleteEvents int ms

fun jira_call :: "jira_op \<Rightarrow> jira_db \<Rightarrow> jira_db" where
  "jira_call (SaveMapping nfkc i input) db = snd (upsertJiraOrganizationMapping nfkc i input db)"
| "jira_call (CreateRequest settings input session drawn now) db = snd (createRequest settings input session drawn now db)"
| "jira_call (AddMessage settings publicId body session drawn now) db =
     snd (addRequestMessage settings publicId body session drawn now db)"
| "jira_call (SetRequestStatus publicId status now) db = snd (updateRequestStatus publicId status now db)"
| "jira_call (ClaimOperations n leaseMs now corr company token locked) db =
     snd (claimJiraOperations n leaseMs now corr company token locked db)"
| "jira_call (CompleteIssue i q res now) db = snd (completeJiraOperation i q res now db)"
| "jira_call (CompleteComment q c now) db = snd (completeJiraCommentOperation q c now db)"
| "jira_call (FailOperation q failure now) db = snd (failJiraOperation q failure now db)"
| "jira_call (RetryOperation i now) db = snd (retryJiraOperation i now db)"
| "jira_call (BuryOperation i now) db = snd (moveFailedJiraOperationToDeadLetter i now db)"
| "jira_call (ReceiveWebhook p c i body signature now) db = snd (ingestJiraWebhook p c i body signature now db)"
| "jira_call (ClaimEvents n leaseMs now corr company token locked) db =
     snd (claimJiraInboundEvents n leaseMs now corr company token locked db)"
| "jira_call (ProcessEvent newId outboxId q now) db = snd (processOne newId outboxId q now db)"
| "jira_call (FailEvent q message now) db = snd (failEvent q message now db)"
| "jira_call (RetryEvent i now) db = snd (retryJiraInboundEvent i now db)"
| "jira_call (BuryEvent i now) db = snd (moveJiraInboundEventToDeadLetter i now db)"
| "jira_call (DeleteEvents days now) db = snd (deleteExpiredJiraInboundEvents days now db)"

fun returned_operations :: "jira_op \<Rightarrow> jira_db \<Rightarrow> jira_operation list" where
  "returned_operations (ClaimOperations n leaseMs now corr company token locked) db =
     (case fst (claimJiraOperations n leaseMs now corr company token locked db) of Inl _ \<Rightarrow> [] | Inr rs \<Rightarrow> rs)"
| "returned_operations _ db = []"

fun returned_events :: "jira_op \<Rightarrow> jira_db \<Rightarrow> inbound_event list" where
  "returned_events (ClaimEvents n leaseMs now corr company token locked) db =
     (case fst (claimJiraInboundEvents n leaseMs now corr company token locked db) of Inl _ \<Rightarrow> [] | Inr rs \<Rightarrow> rs)"
| "returned_events _ db = []"

text \<open>A worker sends an issue for the one type of operation and a comment for the other.\<close>

fun jira_enabled :: "jira_op \<Rightarrow> jira_state \<Rightarrow> bool" where
  "jira_enabled (CompleteIssue _ q _ _) s \<longleftrightarrow> q \<in> set (sy_operations s) \<and> jo_operationType q = CREATE_ISSUE"
| "jira_enabled (CompleteComment q _ _) s \<longleftrightarrow> q \<in> set (sy_operations s) \<and> jo_operationType q = ADD_COMMENT"
| "jira_enabled (FailOperation q _ _) s \<longleftrightarrow> q \<in> set (sy_operations s)"
| "jira_enabled (ProcessEvent _ _ q _) s \<longleftrightarrow> q \<in> set (sy_events s)"
| "jira_enabled (FailEvent q _ _) s \<longleftrightarrow> q \<in> set (sy_events s)"
| "jira_enabled _ s \<longleftrightarrow> True"

definition jira_step :: "jira_op \<Rightarrow> jira_state \<Rightarrow> jira_state" where
  "jira_step op s =
     (if jira_enabled op s
      then \<lparr>sy_db = jira_call op (sy_db s), sy_operations = sy_operations s @ returned_operations op (sy_db s),
            sy_events = sy_events s @ returned_events op (sy_db s)\<rparr>
      else s)"

fun jira_clock :: "jira_op \<Rightarrow> ms" where
  "jira_clock (SaveMapping _ _ _) = 0"
| "jira_clock (CreateRequest _ _ _ _ now) = now"
| "jira_clock (AddMessage _ _ _ _ _ now) = now"
| "jira_clock (SetRequestStatus _ _ now) = now"
| "jira_clock (ClaimOperations _ _ now _ _ _ _) = now"
| "jira_clock (CompleteIssue _ _ _ now) = now"
| "jira_clock (CompleteComment _ _ now) = now"
| "jira_clock (FailOperation _ _ now) = now"
| "jira_clock (RetryOperation _ now) = now"
| "jira_clock (BuryOperation _ now) = now"
| "jira_clock (ReceiveWebhook _ _ _ _ _ now) = now"
| "jira_clock (ClaimEvents _ _ now _ _ _ _) = now"
| "jira_clock (ProcessEvent _ _ _ now) = now"
| "jira_clock (FailEvent _ _ now) = now"
| "jira_clock (RetryEvent _ now) = now"
| "jira_clock (BuryEvent _ now) = now"
| "jira_clock (DeleteEvents _ now) = now"

text \<open>Drawn identifiers and tokens are new, and the configured attempts lie between one and twenty.\<close>

fun jira_fresh :: "jira_op \<Rightarrow> jira_state \<Rightarrow> bool" where
  "jira_fresh (CreateRequest settings _ _ drawn _) s \<longleftrightarrow>
     dr_id drawn \<notin> sr_id ` set (jd_requests (sy_db s)) \<and> dr_operationId drawn \<notin> wi_id ` set (jd_operations (sy_db s)) \<and>
     1 \<le> js_maximumAttempts settings \<and> js_maximumAttempts settings \<le> 20"
| "jira_fresh (AddMessage settings _ _ _ drawn _) s \<longleftrightarrow>
     dm_id drawn \<notin> rm_id ` set (jd_messages (sy_db s)) \<and> dm_operationId drawn \<notin> wi_id ` set (jd_operations (sy_db s)) \<and>
     1 \<le> js_maximumAttempts settings \<and> js_maximumAttempts settings \<le> 20"
| "jira_fresh (ClaimOperations _ _ _ _ _ token _) s \<longleftrightarrow> token \<notin> lease_tokens (sy_operations s)"
| "jira_fresh (ReceiveWebhook _ c i _ _ _) s \<longleftrightarrow>
     i \<notin> wi_id ` set (jd_events (sy_db s)) \<and> 1 \<le> wc_maximumAttempts c \<and> wc_maximumAttempts c \<le> 20"
| "jira_fresh (ClaimEvents _ _ _ _ _ token _) s \<longleftrightarrow> token \<notin> lease_tokens (sy_events s)"
| "jira_fresh (ProcessEvent newId _ _ _) s \<longleftrightarrow> newId \<notin> rm_id ` set (jd_messages (sy_db s))"
| "jira_fresh _ s \<longleftrightarrow> True"

text \<open>What a step means for an operation and for an event.\<close>

fun operation_kind :: "jira_op \<Rightarrow> string \<times> item_event" where
  "operation_kind (CreateRequest _ _ _ drawn _) = (dr_operationId drawn, ItemCreated)"
| "operation_kind (AddMessage _ _ _ _ drawn _) = (dm_operationId drawn, ItemCreated)"
| "operation_kind (CompleteIssue _ q _ _) = (wi_id q, ItemSettled (the (wi_leaseToken q)))"
| "operation_kind (CompleteComment q _ _) = (wi_id q, ItemSettled (the (wi_leaseToken q)))"
| "operation_kind (FailOperation q _ _) = (wi_id q, ItemSettled (the (wi_leaseToken q)))"
| "operation_kind (RetryOperation i _) = (i, Revived)"
| "operation_kind (BuryOperation i _) = (i, Buried)"
| "operation_kind _ = ([], Untouched)"

fun claims_rows :: "jira_op \<Rightarrow> bool" where
  "claims_rows (ClaimOperations _ _ _ _ _ _ _) = True"
| "claims_rows (ClaimEvents _ _ _ _ _ _ _) = True"
| "claims_rows _ = False"

fun drawn_token :: "jira_op \<Rightarrow> string" where
  "drawn_token (ClaimOperations _ _ _ _ _ token _) = token"
| "drawn_token (ClaimEvents _ _ _ _ _ token _) = token"
| "drawn_token _ = []"

definition operation_event :: "string \<Rightarrow> jira_op \<Rightarrow> jira_state \<Rightarrow> item_event" where
  "operation_event i op s =
     (let rows = jd_operations (sy_db s); rows' = jd_operations (sy_db (jira_step op s)) in
      if rows' = rows then Untouched
      else if claims_rows op then claim_event (jira_clock op) (drawn_token op) rows (returned_operations op (sy_db s)) i
      else row_event (fst (operation_kind op)) (snd (operation_kind op)) rows rows' i)"

fun event_kind :: "jira_op \<Rightarrow> string \<times> item_event" where
  "event_kind (ReceiveWebhook _ _ i _ _ _) = (i, ItemCreated)"
| "event_kind (ProcessEvent _ _ q _) = (wi_id q, ItemSettled (the (wi_leaseToken q)))"
| "event_kind (FailEvent q _ _) = (wi_id q, ItemSettled (the (wi_leaseToken q)))"
| "event_kind (RetryEvent i _) = (i, Revived)"
| "event_kind (BuryEvent i _) = (i, Buried)"
| "event_kind _ = ([], Untouched)"

fun deletes_rows :: "jira_op \<Rightarrow> bool" where
  "deletes_rows (DeleteEvents _ _) = True"
| "deletes_rows _ = False"

definition inbound_step_event :: "string \<Rightarrow> jira_op \<Rightarrow> jira_state \<Rightarrow> item_event" where
  "inbound_step_event i op s =
     (let rows = jd_events (sy_db s); rows' = jd_events (sy_db (jira_step op s)) in
      if rows' = rows then Untouched
      else if claims_rows op then claim_event (jira_clock op) (drawn_token op) rows (returned_events op (sy_db s)) i
      else if deletes_rows op then erased_event rows rows' i
      else row_event (fst (event_kind op)) (snd (event_kind op)) rows rows' i)"

section \<open>The invariant\<close>

definition operation_typed :: "jira_operation \<Rightarrow> bool" where
  "operation_typed o1 \<longleftrightarrow> wi_status o1 \<in> {PENDING, PROCESSING, COMPLETED, FAILED, DEAD_LETTER} \<and>
     (wi_status o1 = COMPLETED \<longleftrightarrow> jo_completedAt o1 \<noteq> None) \<and> wi_maxAttempts o1 \<le> 20 \<and>
     (jo_operationType o1 = ADD_COMMENT \<longleftrightarrow> jo_localCommentId o1 \<noteq> None)"

fun dated_payload :: "inbound_payload \<Rightarrow> bool" where
  "dated_payload (StatusPayload _ _ t) \<longleftrightarrow> t \<noteq> None"
| "dated_payload (CommentPayload _ _ _ _ _ t) \<longleftrightarrow> t \<noteq> None"
| "dated_payload DeletedPayload \<longleftrightarrow> True"

definition event_typed :: "inbound_event \<Rightarrow> bool" where
  "event_typed e \<longleftrightarrow> wi_status e \<in> {PENDING, PROCESSING, COMPLETED, IGNORED, FAILED, DEAD_LETTER} \<and>
     (wi_status e \<in> {COMPLETED, IGNORED} \<longleftrightarrow> ie_completedAt e \<noteq> None) \<and> wi_maxAttempts e \<le> 20 \<and>
     (\<exists>p. normalizedPayload (ie_normalizedPayload e) = Inr p \<and> dated_payload p)"

definition jira_inv :: "jira_db \<Rightarrow> bool" where
  "jira_inv db \<longleftrightarrow> distinct (map sr_id (jd_requests db)) \<and> distinct (map rm_id (jd_messages db)) \<and>
     distinct (map ie_eventFingerprint (jd_events db)) \<and>
     mirrored (jd_requests db) (jd_messages db) (jd_operations db) \<and>
     list_all operation_typed (jd_operations db) \<and> list_all event_typed (jd_events db)"

definition jira_ok :: "jira_state \<Rightarrow> bool" where
  "jira_ok s \<longleftrightarrow> jira_inv (sy_db s) \<and>
     table_ok (jd_operations (sy_db s)) (sy_operations s) \<and> table_ok (jd_events (sy_db s)) (sy_events s) \<and>
     (\<forall>q \<in> set (sy_operations s). wi_leaseToken q \<noteq> None \<and> (\<exists>o1 \<in> set (jd_operations (sy_db s)). same_target q o1)) \<and>
     (\<forall>q \<in> set (sy_events s). wi_leaseToken q \<noteq> None)"

lemma jira_inv_view: "jira_view db' = jira_view db \<Longrightarrow> jira_inv db' = jira_inv db"
  by (simp add: jira_view_def jira_inv_def)

text \<open>What a step has to show.\<close>

definition step_good :: "jira_op \<Rightarrow> jira_state \<Rightarrow> jira_db \<Rightarrow> bool" where
  "step_good op s db' \<longleftrightarrow> jira_inv db' \<and>
     (jd_operations db' \<noteq> jd_operations (sy_db s) \<longrightarrow> \<not> deletes_rows op \<and>
        rows_move (jira_clock op) (\<lambda>i. if claims_rows op
          then claim_event (jira_clock op) (drawn_token op) (jd_operations (sy_db s)) (returned_operations op (sy_db s)) i
          else row_event (fst (operation_kind op)) (snd (operation_kind op)) (jd_operations (sy_db s)) (jd_operations db') i)
        (jd_operations (sy_db s)) (jd_operations db')) \<and>
     (jd_events db' \<noteq> jd_events (sy_db s) \<longrightarrow>
        rows_move (jira_clock op) (\<lambda>i. if claims_rows op
          then claim_event (jira_clock op) (drawn_token op) (jd_events (sy_db s)) (returned_events op (sy_db s)) i
          else if deletes_rows op then erased_event (jd_events (sy_db s)) (jd_events db') i
          else row_event (fst (event_kind op)) (snd (event_kind op)) (jd_events (sy_db s)) (jd_events db') i)
        (jd_events (sy_db s)) (jd_events db')) \<and>
     (\<forall>o1 \<in> set (jd_operations (sy_db s)). \<exists>o2 \<in> set (jd_operations db'). same_target o1 o2) \<and>
     set (returned_operations op (sy_db s)) \<subseteq> set (jd_operations db') \<and>
     set (returned_events op (sy_db s)) \<subseteq> set (jd_events db') \<and>
     (\<forall>q \<in> set (returned_operations op (sy_db s)). wi_leaseToken q = Some (drawn_token op)) \<and>
     (\<forall>q \<in> set (returned_events op (sy_db s)). wi_leaseToken q = Some (drawn_token op))"

lemma same_target_kept: "set Ops \<subseteq> set Ops' \<Longrightarrow> \<forall>o1 \<in> set Ops. \<exists>o2 \<in> set Ops'. same_target o1 o2"
  by (meson same_target_refl subsetD)

lemma same_target_update:
  assumes "\<And>o1. p o1 \<Longrightarrow> same_target (g o1) o1"
  shows "\<forall>o1 \<in> set Ops. \<exists>o2 \<in> set (update_where p g Ops). same_target o1 o2"
proof
  fix o1 assume "o1 \<in> set Ops"
  then have "(if p o1 then g o1 else o1) \<in> set (update_where p g Ops)" by (rule update_where_member)
  moreover have "same_target o1 (if p o1 then g o1 else o1)" using assms [of o1] by (auto simp: same_target_def)
  ultimately show "\<exists>o2 \<in> set (update_where p g Ops). same_target o1 o2" by blast
qed

lemma step_good_same:
  assumes "jira_ok s" "jira_view db' = jira_view (sy_db s)" "returned_operations op (sy_db s) = []"
    "returned_events op (sy_db s) = []"
  shows "step_good op s db'"
  using assms jira_inv_view [OF assms(2)] same_target_kept [of "jd_operations (sy_db s)"]
  by (simp add: step_good_def jira_view_tables jira_ok_def)

text \<open>Steps that change operations only, or events only, beside requests and messages.\<close>

lemma step_good_operations:
  assumes ok: "jira_ok s" and op: "\<not> claims_rows op" "\<not> deletes_rows op"
    "returned_operations op (sy_db s) = []" "returned_events op (sy_db s) = []"
    and view: "jira_view db' = (Q, M, Ops, jd_events (sy_db s))"
    and keys: "distinct (map sr_id Q)" "distinct (map rm_id M)"
    and mirror: "mirrored Q M Ops" and typed: "list_all operation_typed Ops"
    and move: "Ops = jd_operations (sy_db s) \<or> rows_move (jira_clock op) (row_event (fst (operation_kind op))
      (snd (operation_kind op)) (jd_operations (sy_db s)) Ops) (jd_operations (sy_db s)) Ops"
    and targets: "\<forall>o1 \<in> set (jd_operations (sy_db s)). \<exists>o2 \<in> set Ops. same_target o1 o2"
  shows "step_good op s db'"
  using assms jira_view_eqD [OF view] by (auto simp: step_good_def jira_inv_def jira_ok_def)

lemma step_good_events:
  assumes ok: "jira_ok s" and op: "\<not> claims_rows op" "\<not> deletes_rows op"
    "returned_operations op (sy_db s) = []" "returned_events op (sy_db s) = []"
    and view: "jira_view db' = (Q, M, jd_operations (sy_db s), E)"
    and keys: "distinct (map sr_id Q)" "distinct (map rm_id M)" "distinct (map ie_eventFingerprint E)"
    and mirror: "mirrored Q M (jd_operations (sy_db s))" and typed: "list_all event_typed E"
    and move: "rows_move (jira_clock op) (row_event (fst (event_kind op)) (snd (event_kind op)) (jd_events (sy_db s)) E)
      (jd_events (sy_db s)) E"
  shows "step_good op s db'"
  using assms jira_view_eqD [OF view] same_target_kept [of "jd_operations (sy_db s)"]
  by (simp add: step_good_def jira_inv_def jira_ok_def)

lemma typed_update:
  "list_all P rows \<Longrightarrow> (\<And>r. p r \<Longrightarrow> P r \<Longrightarrow> P (g r)) \<Longrightarrow> list_all P (update_where p g rows)"
  by (auto simp: list_all_iff elim!: in_update_whereE)

lemmas operation_changes = completed_change_def comment_change_def failed_operation_def retry_change_def bury_change_def

section \<open>Operations\<close>

lemma jira_ok_keys:
  assumes "jira_ok s"
  shows "distinct (map sr_id (jd_requests (sy_db s)))" "distinct (map rm_id (jd_messages (sy_db s)))"
    "distinct (map ie_eventFingerprint (jd_events (sy_db s)))"
    "distinct (map wi_id (jd_operations (sy_db s)))" "distinct (map wi_id (jd_events (sy_db s)))"
  using assms by (simp_all add: jira_ok_def jira_inv_def table_ok_def)

lemma jira_ok_rest:
  assumes "jira_ok s"
  shows "mirrored (jd_requests (sy_db s)) (jd_messages (sy_db s)) (jd_operations (sy_db s))"
    "list_all operation_typed (jd_operations (sy_db s))" "list_all event_typed (jd_events (sy_db s))"
    "table_ok (jd_operations (sy_db s)) (sy_operations s)" "table_ok (jd_events (sy_db s)) (sy_events s)"
  using assms by (simp_all add: jira_ok_def jira_inv_def)

lemma create_good:
  assumes ok: "jira_ok s" and fresh: "jira_fresh (CreateRequest settings input session drawn now) s"
  shows "step_good (CreateRequest settings input session drawn now) s
    (snd (createRequest settings input session drawn now (sy_db s)))"
proof (cases rule: create_effect [of settings input session drawn now "sy_db s"])
  case none
  then show ?thesis by (intro step_good_same ok) simp_all
next
  case (changed u c m enqueue)
  note keys = jira_ok_keys [OF ok] and rest = jira_ok_rest [OF ok]
  let ?r = "new_request drawn input u c enqueue now" and ?news = "request_operations settings drawn c m enqueue now"
  let ?op = "CreateRequest settings input session drawn now" and ?Ops = "jd_operations (sy_db s)"
  have news: "?news = [] \<or> (\<exists>o1. ?news = [o1] \<and> creates o1 ?r \<and> sr_companyId ?r = jo_companyId o1 \<and> issue_mirror o1 ?r)"
    by (simp add: request_operations_def new_operation_def new_request_def creates_def issue_mirror_def)
  show ?thesis
  proof (rule step_good_operations [OF ok _ _ _ _ changed])
    show "mirrored (jd_requests (sy_db s) @ [?r]) (jd_messages (sy_db s)) (?Ops @ ?news)"
      by (rule mirrored_add_request [OF rest(1) _ news]) (use fresh in \<open>simp add: new_request_def\<close>)
    show "?Ops @ ?news = ?Ops \<or> rows_move (jira_clock ?op) (row_event (fst (operation_kind ?op)) (snd (operation_kind ?op))
        ?Ops (?Ops @ ?news)) ?Ops (?Ops @ ?news)"
      using fresh rows_move_add [OF keys(4), of "hd ?news" now]
      by (auto simp: request_operations_def new_operation_def)
    show "list_all operation_typed (?Ops @ ?news)"
      using fresh rest(2) by (simp add: request_operations_def new_operation_def operation_typed_def)
    show "\<forall>o1 \<in> set ?Ops. \<exists>o2 \<in> set (?Ops @ ?news). same_target o1 o2" by (rule same_target_kept) simp
  qed (use fresh keys in \<open>simp_all add: new_request_def\<close>)
qed

lemma add_good:
  assumes ok: "jira_ok s" and fresh: "jira_fresh (AddMessage settings publicId body session drawn now) s"
  shows "step_good (AddMessage settings publicId body session drawn now) s
    (snd (addRequestMessage settings publicId body session drawn now (sy_db s)))"
proof (cases rule: add_effect [of settings publicId body session drawn now "sy_db s"])
  case none
  then show ?thesis by (intro step_good_same ok) simp_all
next
  case (changed user item m enqueue)
  note keys = jira_ok_keys [OF ok] and rest = jira_ok_rest [OF ok]
  let ?m = "new_message drawn body user item enqueue now" and ?news = "message_operations settings drawn item m enqueue now"
  let ?op = "AddMessage settings publicId body session drawn now" and ?Ops = "jd_operations (sy_db s)"
  let ?Q = "update_where (\<lambda>r. sr_id r = sr_id item) (\<lambda>r. r\<lparr>sr_updatedAt := now\<rparr>) (jd_requests (sy_db s))"
  have news: "?news = [] \<or> (\<exists>o1. ?news = [o1] \<and> sends o1 ?m \<and> rm_requestId ?m = jo_requestId o1 \<and>
      rm_authorType ?m = CUSTOMER \<and> comment_mirror o1 ?m)"
    by (simp add: message_operations_def new_operation_def new_message_def sends_def comment_mirror_def)
  have "mirrored ?Q (map (\<lambda>m. m) (jd_messages (sy_db s))) ?Ops"
    unfolding update_where_def by (rule mirrored_frame [OF rest(1)]) (simp_all add: issue_mirror_def)
  then have touched: "mirrored ?Q (jd_messages (sy_db s)) ?Ops" by simp
  show ?thesis
  proof (rule step_good_operations [OF ok _ _ _ _ changed(2)])
    show "mirrored ?Q (jd_messages (sy_db s) @ [?m]) (?Ops @ ?news)"
      by (rule mirrored_add_message [OF touched _ news]) (use fresh in \<open>simp add: new_message_def\<close>)
    show "?Ops @ ?news = ?Ops \<or> rows_move (jira_clock ?op) (row_event (fst (operation_kind ?op)) (snd (operation_kind ?op))
        ?Ops (?Ops @ ?news)) ?Ops (?Ops @ ?news)"
      using fresh rows_move_add [OF keys(4), of "hd ?news" now]
      by (auto simp: message_operations_def new_operation_def)
    show "list_all operation_typed (?Ops @ ?news)"
      using fresh rest(2) by (simp add: message_operations_def new_operation_def operation_typed_def)
    show "\<forall>o1 \<in> set ?Ops. \<exists>o2 \<in> set (?Ops @ ?news). same_target o1 o2" by (rule same_target_kept) simp
    show "distinct (map sr_id ?Q)" using keys(1) by (simp add: map_update_where)
  qed (use fresh keys in \<open>simp_all add: new_message_def\<close>)
qed

text \<open>A step under the lease of an issued record, and one of the operator.\<close>

lemma held_unique:
  assumes ok: "jira_ok s" and q: "q \<in> set (sy_operations s)"
    and count: "count_where (held_by q) (jd_operations (sy_db s)) = 1"
  obtains x where "x \<in> set (jd_operations (sy_db s))" "held_by q x" "same_target q x" "wi_status x = PROCESSING"
    "\<And>o1. o1 \<in> set (jd_operations (sy_db s)) \<Longrightarrow> held_by q o1 \<Longrightarrow> o1 = x"
proof -
  note dist = jira_ok_keys(4) [OF ok]
  obtain x where x: "x \<in> set (jd_operations (sy_db s))" "held_by q x"
    using count count_where_pos [of "held_by q" "jd_operations (sy_db s)"] by auto
  have same: "o1 = x" if "o1 \<in> set (jd_operations (sy_db s))" "wi_id o1 = wi_id q" for o1
    using distinct_key_eq [OF dist that(1) x(1)] that(2) x(2) by (simp add: lease_held_def)
  from ok q obtain y where "y \<in> set (jd_operations (sy_db s))" "same_target q y" "wi_leaseToken q \<noteq> None"
    unfolding jira_ok_def by blast
  with same [of y] have target: "same_target q x" by (simp add: same_target_def)
  have "wi_status x = PROCESSING" using x(2) by (simp add: lease_held_def)
  moreover have "o1 = x" if "o1 \<in> set (jd_operations (sy_db s))" "held_by q o1" for o1
    using same [OF that(1)] that(2) by (simp add: lease_held_def)
  ultimately show ?thesis using that [OF x target] by blast
qed

lemma settle_operation_good:
  assumes ok: "jira_ok s" and q: "q \<in> set (sy_operations s)"
    and op: "\<not> claims_rows op" "\<not> deletes_rows op" "returned_operations op (sy_db s) = []"
      "returned_events op (sy_db s) = []" "operation_kind op = (wi_id q, ItemSettled (the (wi_leaseToken q)))"
    and view: "jira_view db' = (Q, M, update_where (held_by q) g (jd_operations (sy_db s)), jd_events (sy_db s))"
    and keys: "distinct (map sr_id Q)" "distinct (map rm_id M)"
    and g: "\<And>x. same_target (g x) x" "\<And>x. wi_attempts (g x) = wi_attempts x"
      "\<And>x. wi_maxAttempts (g x) = wi_maxAttempts x" "\<And>x. unleased (work_item.truncate (g x))"
      "\<And>x. operation_typed x \<Longrightarrow> wi_status x = PROCESSING \<Longrightarrow> operation_typed (g x)"
      "\<And>x. wi_status (g x) = st"
    and st: "st = COMPLETED \<or> st = DEAD_LETTER \<or> st = FAILED \<and> wi_attempts q < wi_maxAttempts q"
    and mirror: "mirrored Q M (update_where (held_by q) g (jd_operations (sy_db s)))"
  shows "step_good op s db'"
proof (rule step_good_operations [OF ok op(1-4) view keys mirror])
  show "list_all operation_typed (update_where (held_by q) g (jd_operations (sy_db s)))"
    by (rule typed_update [OF jira_ok_rest(2) [OF ok]]) (use g(5) in \<open>simp add: lease_held_def\<close>)
  have "wi_leaseToken q \<noteq> None" using ok q by (simp add: jira_ok_def)
  with q g(1-4,6) st have "rows_move (jira_clock op) (row_event (wi_id q) (ItemSettled (the (wi_leaseToken q)))
      (jd_operations (sy_db s)) (update_where (held_by q) g (jd_operations (sy_db s)))) (jd_operations (sy_db s))
      (update_where (held_by q) g (jd_operations (sy_db s)))"
    by (intro rows_move_settle [OF jira_ok_rest(4) [OF ok]])
      (auto simp: item_move_simps same_work_def terminal_statuses_def same_target_def)
  then show "update_where (held_by q) g (jd_operations (sy_db s)) = jd_operations (sy_db s) \<or>
      rows_move (jira_clock op) (row_event (fst (operation_kind op)) (snd (operation_kind op)) (jd_operations (sy_db s))
        (update_where (held_by q) g (jd_operations (sy_db s)))) (jd_operations (sy_db s))
      (update_where (held_by q) g (jd_operations (sy_db s)))"
    by (simp add: op(5))
qed (rule same_target_update, rule g(1))

lemma marked_keys [simp]:
  "map sr_id (marked_requests q status now Q) = map sr_id Q"
  "(\<And>m. rm_id (change m) = rm_id m) \<Longrightarrow> map rm_id (marked_messages q change now M) = map rm_id M"
  by (simp_all add: marked_requests_def marked_messages_def map_update_where split: option.split)

lemma complete_good:
  assumes ok: "jira_ok s" and enabled: "jira_enabled (CompleteIssue i q res now) s"
  shows "step_good (CompleteIssue i q res now) s (snd (completeJiraOperation i q res now (sy_db s)))"
proof (cases rule: complete_effect [of i q res now "sy_db s"])
  case none
  then show ?thesis by (intro step_good_same ok) simp_all
next
  case changed
  note keys = jira_ok_keys [OF ok] and rest = jira_ok_rest [OF ok]
  have q: "q \<in> set (sy_operations s)" "jo_operationType q = CREATE_ISSUE" using enabled by auto
  obtain x where x: "x \<in> set (jd_operations (sy_db s))" "held_by q x" "same_target q x" "wi_status x = PROCESSING"
    "\<And>o1. o1 \<in> set (jd_operations (sy_db s)) \<Longrightarrow> held_by q o1 \<Longrightarrow> o1 = x"
    using held_unique [OF ok q(1) changed(1)] by metis
  have "mirrored (update_where (\<lambda>r. sr_id r = jo_requestId x) (created_change res now) (jd_requests (sy_db s)))
      (jd_messages (sy_db s)) (update_where (held_by q) (completed_change res now) (jd_operations (sy_db s)))"
    by (rule mirrored_issue [where p = "held_by q" and g = "completed_change res now", OF rest(1) x(1,2) _ x(5)])
      (use x(3) q(2) in \<open>auto simp: same_target_def created_change_def completed_change_def issue_mirror_def\<close>)
  moreover have "jo_requestId x = jo_requestId q" using x(3) by (simp add: same_target_def)
  ultimately show ?thesis
    by (intro settle_operation_good [OF ok q(1) _ _ _ _ _ changed(2)])
      (auto simp: completed_change_def same_target_def unleased_def work_item.truncate_def operation_typed_def
        created_change_def map_update_where keys)
qed

lemma comment_good:
  assumes ok: "jira_ok s" and enabled: "jira_enabled (CompleteComment q c now) s"
  shows "step_good (CompleteComment q c now) s (snd (completeJiraCommentOperation q c now (sy_db s)))"
proof (cases rule: comment_effect [of q c now "sy_db s"])
  case none
  then show ?thesis by (intro step_good_same ok) simp_all
next
  case (changed k)
  note keys = jira_ok_keys [OF ok] and rest = jira_ok_rest [OF ok]
  have q: "q \<in> set (sy_operations s)" "jo_operationType q = ADD_COMMENT" using enabled by auto
  obtain x where x: "x \<in> set (jd_operations (sy_db s))" "held_by q x" "same_target q x" "wi_status x = PROCESSING"
    "\<And>o1. o1 \<in> set (jd_operations (sy_db s)) \<Longrightarrow> held_by q o1 \<Longrightarrow> o1 = x"
    using held_unique [OF ok q(1) changed(2)] by metis
  have "mirrored (jd_requests (sy_db s)) (update_where (\<lambda>m. rm_id m = k) (sent_change c now) (jd_messages (sy_db s)))
      (update_where (held_by q) (comment_change c now) (jd_operations (sy_db s)))"
    by (rule mirrored_comment [where p = "held_by q" and g = "comment_change c now", OF rest(1) x(1,2) _ _ x(5)])
      (use x(3) q(2) changed(1) in \<open>auto simp: same_target_def sent_change_def comment_change_def comment_mirror_def\<close>)
  then show ?thesis
    by (intro settle_operation_good [OF ok q(1) _ _ _ _ _ changed(3)])
      (auto simp: comment_change_def same_target_def unleased_def work_item.truncate_def operation_typed_def
        sent_change_def map_update_where keys)
qed

lemma fail_good:
  assumes ok: "jira_ok s" and enabled: "jira_enabled (FailOperation q failure now) s"
  shows "step_good (FailOperation q failure now) s (snd (failJiraOperation q failure now (sy_db s)))"
proof (cases rule: fail_effect [of q failure now "sy_db s"])
  case none
  then show ?thesis by (intro step_good_same ok) simp_all
next
  case (changed dead at c)
  note keys = jira_ok_keys [OF ok] and rest = jira_ok_rest [OF ok]
  have q: "q \<in> set (sy_operations s)" using enabled by auto
  obtain x where x: "x \<in> set (jd_operations (sy_db s))" "held_by q x" "same_target q x" "wi_status x = PROCESSING"
    "\<And>o1. o1 \<in> set (jd_operations (sy_db s)) \<Longrightarrow> held_by q o1 \<Longrightarrow> o1 = x"
    using held_unique [OF ok q changed(2)] by metis
  let ?g = "failed_operation (if dead then DEAD_LETTER else FAILED) at c now"
  have "mirrored (marked_requests q (if dead then INTEGRATION_DEAD_LETTER else INTEGRATION_FAILED) now (jd_requests (sy_db s)))
      (marked_messages q (\<lambda>m. m\<lparr>rm_deliveryStatus := (if dead then DELIVERY_DEAD_LETTER else DELIVERY_FAILED)\<rparr>) now
        (jd_messages (sy_db s))) (update_where (held_by q) ?g (jd_operations (sy_db s)))"
    by (rule mirrored_marked [where p = "held_by q" and g = ?g, OF rest(1) x(1,2,3,5)])
      (simp_all add: same_target_changes x(4), simp_all add: failed_operation_def)
  then show ?thesis
    by (intro settle_operation_good [OF ok q _ _ _ _ _ changed(3)])
      (use changed(1) in \<open>auto simp: failed_operation_def same_target_def unleased_def work_item.truncate_def
        operation_typed_def keys\<close>)
qed

lemma operator_good:
  assumes ok: "jira_ok s"
    and op: "\<not> claims_rows op" "\<not> deletes_rows op" "returned_operations op (sy_db s) = []"
      "returned_events op (sy_db s) = []" "operation_kind op = (i, e)"
    and move: "\<And>x. wi_status x = required \<Longrightarrow> operation_typed x \<Longrightarrow> operation_typed (change x) \<and>
      item_move (jira_clock op) e (Some (work_item.truncate x)) (Some (work_item.truncate (change x)))"
    and change: "\<And>x. same_target (change x) x" "\<And>x. wi_status (change x) = st"
    and st: "required \<noteq> COMPLETED" "st \<notin> {COMPLETED, DELIVERED, IGNORED}" "status = integration_of st"
    and msg: "\<And>m. rm_id (messageChange m) = rm_id m" "\<And>m. rm_requestId (messageChange m) = rm_requestId m"
      "\<And>m. rm_authorType (messageChange m) = rm_authorType m"
      "\<And>m. rm_deliveryStatus (messageChange m) = delivery_of st"
      "\<And>m. rm_jiraCommentId m = None \<Longrightarrow> rm_jiraCommentId (messageChange m) = None"
  shows "step_good op s (snd (operator_transaction i required missing change status messageChange action result
    metadata now (sy_db s)))"
proof (cases rule: operator_effect [of i required missing change status messageChange action result metadata now "sy_db s"])
  case none
  then show ?thesis by (intro step_good_same ok op)
next
  case (changed x)
  note keys = jira_ok_keys [OF ok] and rest = jira_ok_rest [OF ok]
  let ?Ops = "jd_operations (sy_db s)" and ?p = "\<lambda>o1. wi_id o1 = i"
  have only: "o1 = x" if "o1 \<in> set ?Ops" "wi_id o1 = i" for o1
    using distinct_key_eq [OF keys(4) that(1) changed(1)] that(2) changed(2) by simp
  show ?thesis
  proof (rule step_good_operations [OF ok op(1-4) changed(4)])
    show "mirrored (marked_requests x status now (jd_requests (sy_db s)))
        (marked_messages x messageChange now (jd_messages (sy_db s))) (update_where ?p change ?Ops)"
      by (rule mirrored_marked [where p = ?p and g = change, OF rest(1) changed(1) _ same_target_refl only])
        (use changed(2,3) change st msg in auto)
    have "\<forall>o1 \<in> set ?Ops. operation_typed o1" using rest(2) by (simp add: list_all_iff)
    then show "list_all operation_typed (update_where ?p change ?Ops)"
      using move changed(3) only by (auto simp: list_all_iff elim!: in_update_whereE)
    have "rows_move (jira_clock op) (row_event i e ?Ops (update_where ?p change ?Ops)) ?Ops (update_where ?p change ?Ops)"
    proof (rule rows_move_update [OF keys(4)])
      show "wi_id (change r) = wi_id r" for r using change(1) [of r] by (simp add: same_target_def)
      show "item_move (jira_clock op) e (Some (work_item.truncate r)) (Some (work_item.truncate (change r)))"
        if "r \<in> set ?Ops" "wi_id r = i" for r
        using only [OF that] move [of x] changed(1,3) rest(2) by (auto simp: list_all_iff)
    qed simp
    then show "update_where ?p change ?Ops = ?Ops \<or> rows_move (jira_clock op) (row_event (fst (operation_kind op))
        (snd (operation_kind op)) ?Ops (update_where ?p change ?Ops)) ?Ops (update_where ?p change ?Ops)"
      by (simp add: op(5))
    show "\<forall>o1 \<in> set ?Ops. \<exists>o2 \<in> set (update_where ?p change ?Ops). same_target o1 o2"
      by (rule same_target_update) (rule change(1))
  qed (use keys msg(1) in simp_all)
qed

lemma retry_good: "jira_ok s \<Longrightarrow> step_good (RetryOperation i now) s (snd (retryJiraOperation i now (sy_db s)))"
  unfolding retryJiraOperation_def
  by (rule operator_good [where e = Revived and st = PENDING])
    (auto simp: retry_change_def same_target_def operation_typed_def item_move_simps same_work_def unleased_def
      work_item.truncate_def)

lemma bury_good:
  "jira_ok s \<Longrightarrow> step_good (BuryOperation i now) s (snd (moveFailedJiraOperationToDeadLetter i now (sy_db s)))"
  unfolding moveFailedJiraOperationToDeadLetter_def
  by (rule operator_good [where e = Buried and st = DEAD_LETTER])
    (auto simp: bury_change_def same_target_def operation_typed_def item_move_simps same_work_def unleased_def
      work_item.truncate_def)

lemma status_good:
  assumes ok: "jira_ok s"
  shows "step_good (SetRequestStatus publicId status now) s (snd (updateRequestStatus publicId status now (sy_db s)))"
proof (cases "snd (updateRequestStatus publicId status now (sy_db s)) = sy_db s")
  case True
  then show ?thesis by (intro step_good_same ok) simp_all
next
  case False
  let ?f = "\<lambda>r. r\<lparr>sr_status := status, sr_version := sr_version r + 1, sr_updatedAt := now\<rparr>"
  let ?Q = "update_where (\<lambda>r. sr_publicId r = publicId) ?f (jd_requests (sy_db s))"
  note keys = jira_ok_keys [OF ok] and rest = jira_ok_rest [OF ok]
  from False have view: "jira_view (snd (updateRequestStatus publicId status now (sy_db s))) =
      (?Q, jd_messages (sy_db s), jd_operations (sy_db s), jd_events (sy_db s))"
    by (auto simp: updateRequestStatus_def Let_def jira_view_def split: option.splits if_splits)
  have "mirrored ?Q (map (\<lambda>m. m) (jd_messages (sy_db s))) (jd_operations (sy_db s))"
    unfolding update_where_def by (rule mirrored_frame [OF rest(1)]) (simp_all add: issue_mirror_def)
  then show ?thesis
    by (intro step_good_operations [OF ok _ _ _ _ view])
      (use keys rest(2) same_target_kept [of "jd_operations (sy_db s)" "jd_operations (sy_db s)"] in
        \<open>simp_all add: map_update_where\<close>)
qed

lemma mapping_view: "jira_view (snd (upsertJiraOrganizationMapping nfkc i input db)) = jira_view db"
  by (auto simp: upsertJiraOrganizationMapping_def Let_def jira_view_def split: sum.split option.split)

lemma claim_operations_cases:
  obtains (refused) e where "claimJiraOperations n leaseMs now corr company token locked db = (Inl e, db)"
  | (claimed) records db' where "0 < leaseMs"
    "claim_transaction n leaseMs now corr company token locked db = (records, db')"
    "claimJiraOperations n leaseMs now corr company token locked db = (Inr records, db')"
proof (cases "first_error
    [batch_error JIRA_BATCH_SIZE_INVALID JIRA_LEASE_INVALID n leaseMs,
     (if truthy corr then safeReference (the corr) ''CORRELATION'' else None),
     (if truthy company then safeReference (the company) ''COMPANY'' else None), jira_database db]")
  case None
  then have "0 < leaseMs" by (auto simp: first_error_None_iff batch_error_def)
  with None claimed show ?thesis by (cases "claim_transaction n leaseMs now corr company token locked db")
    (auto simp: claimJiraOperations_def)
next
  case (Some e)
  then show ?thesis by (intro refused [of e]) (simp add: claimJiraOperations_def)
qed

lemma claim_events_cases:
  obtains (refused) e where "claimJiraInboundEvents n leaseMs now corr company token locked db = (Inl e, db)"
  | (claimed) records E where "0 < leaseMs"
    "claim_rows ''LEASE_EXHAUSTED'' (event_wanted corr company) (\<lambda>e. (ie_occurredAt e, wi_createdAt e)) locked token
      n leaseMs now (jd_events db) = (records, E)"
    "claimJiraInboundEvents n leaseMs now corr company token locked db = (Inr records, db\<lparr>jd_events := E\<rparr>)"
proof (cases "first_error
    [batch_error INBOUND_BATCH_SIZE_INVALID INBOUND_LEASE_INVALID n leaseMs,
     (if truthy corr then inbound_reference (the corr) ''CORRELATION'' else None),
     (if truthy company then inbound_reference (the company) ''COMPANY'' else None), inbound_database db]")
  case None
  then have "0 < leaseMs" by (auto simp: first_error_None_iff batch_error_def)
  with None claimed show ?thesis
    by (cases "claim_rows ''LEASE_EXHAUSTED'' (event_wanted corr company) (\<lambda>e. (ie_occurredAt e, wi_createdAt e))
      locked token n leaseMs now (jd_events db)") (auto simp: claimJiraInboundEvents_def)
next
  case (Some e)
  then show ?thesis by (intro refused [of e]) (simp add: claimJiraInboundEvents_def)
qed

lemma claim_operations_good:
  assumes ok: "jira_ok s" and fresh: "jira_fresh (ClaimOperations n leaseMs now corr company token locked) s"
  shows "step_good (ClaimOperations n leaseMs now corr company token locked) s
    (snd (claimJiraOperations n leaseMs now corr company token locked (sy_db s)))"
proof (cases rule: claim_operations_cases [of n leaseMs now corr company token locked "sy_db s"])
  case (refused e)
  then show ?thesis by (intro step_good_same ok) simp_all
next
  case (claimed records db')
  note keys = jira_ok_keys [OF ok] and rest = jira_ok_rest [OF ok]
  let ?op = "ClaimOperations n leaseMs now corr company token locked" and ?Ops = "jd_operations (sy_db s)"
  obtain Ops2 where claim: "claim_rows ''JIRA_LEASE_EXHAUSTED'' (claim_wanted corr company)
      (\<lambda>i. (wi_nextAttemptAt i, wi_createdAt i)) locked token n leaseMs now ?Ops = (records, Ops2)"
    using claimed(2) by (auto simp: claim_transaction_def Let_def split: prod.splits)
  note view = jira_view_eqD [OF claim_tables [OF claimed(2) claim]]
  from claim_rows_pointwise [OF claim keys(4)] obtain G where G: "Ops2 = map G ?Ops"
    and G': "\<And>o1. o1 \<in> set ?Ops \<Longrightarrow> lease_exhausted now o1 \<and> G o1 = give_up ''JIRA_LEASE_EXHAUSTED'' now o1 \<or>
      \<not> lease_exhausted now o1 \<and> candidate now o1 \<and> G o1 = take_lease token (now + leaseMs) now o1 \<or>
      \<not> lease_exhausted now o1 \<and> G o1 = o1" by metis
  have token: "wi_leaseToken o1 \<noteq> Some token" if "o1 \<in> set ?Ops" for o1
    using rest(4) fresh that unfolding table_ok_def by auto
  have "list_all operation_typed Ops2"
    by (rule claim_rows_all [OF claim keys(4) rest(2)])
      (auto simp: operation_typed_def give_up_def take_lease_def lease_exhausted_def candidate_def)
  moreover have "\<forall>o1 \<in> set ?Ops. \<exists>o2 \<in> set Ops2. same_target o1 o2"
  proof
    fix o1 assume o1: "o1 \<in> set ?Ops"
    then have "same_target o1 (G o1)" using G' [OF o1] same_target_changes(1,2) by (auto simp: same_target_def)
    with o1 G show "\<exists>o2 \<in> set Ops2. same_target o1 o2" by auto
  qed
  moreover have "map sr_id (jd_requests db') = map sr_id (jd_requests (sy_db s))"
    "map rm_id (jd_messages db') = map rm_id (jd_messages (sy_db s))"
    by (simp_all add: view claimed_request_def claimed_message_def Let_def)
  then have "distinct (map sr_id (jd_requests db'))" "distinct (map rm_id (jd_messages db'))" using keys by simp_all
  ultimately show ?thesis
    using keys rest claim_mirrored [OF rest(1) keys(4) token claim] rows_move_claim [OF claim keys(4) claimed(1)]
      claim_rows_at(2) [OF claim keys(4)] claim_rows_token [OF claim]
    unfolding step_good_def jira_inv_def by (simp add: view claimed(3))
qed

section \<open>Events\<close>

lemma payload_json_normalized:
  "\<exists>q. normalizedPayload (payload_json p t) = Inr q \<and> dated_payload q"
  by (cases p) (simp_all add: normalizedPayload_def field_def payload_date_def payload_text_def payload_bool_def Let_def)

lemma checked_normalized:
  assumes "check_webhook p c body signature now = Inr (Some e)"
  shows "\<exists>q t. ce_normalized e = payload_json q t"
proof -
  from assms obtain payload eventType issue where "check_issue p c body payload eventType issue now = Inr e"
    by (auto simp: check_webhook_def Let_def map_sum_def split: option.splits sum.splits if_splits)
  then show ?thesis
    by (auto simp: check_issue_def split: sum.splits if_splits prod.splits) blast
qed

lemma webhook_effect:
  obtains (none) "jira_view (snd (ingestJiraWebhook p c i body signature now db)) = jira_view db"
  | (changed) e r where "check_webhook p c body signature now = Inr (Some e)" "r \<in> set (jd_requests db)"
    "sr_jiraIssueId r = Some (ce_issueId e)" "sr_jiraKey r = Some (ce_issueKey e)"
    "\<forall>x \<in> set (jd_events db). \<not> same_event e x"
    "jira_view (snd (ingestJiraWebhook p c i body signature now db)) =
      (jd_requests db, jd_messages db, jd_operations db,
       jd_events db @ [new_event i (wc_maximumAttempts c) e r now])"
proof (cases "jira_view (snd (ingestJiraWebhook p c i body signature now db)) = jira_view db")
  case False
  then obtain e r where e: "check_webhook p c body signature now = Inr (Some e)" "issue_request e db = Some r"
    "snd (ingestJiraWebhook p c i body signature now db) = snd (store_event i (wc_maximumAttempts c) e r now db)"
    by (auto simp: ingestJiraWebhook_def split: sum.splits option.splits if_splits)
  from e(2) have "r \<in> set (jd_requests db)" "sr_jiraIssueId r = Some (ce_issueId e)" "sr_jiraKey r = Some (ce_issueKey e)"
    by (auto simp: issue_request_def dest!: find_SomeD)
  moreover from False e(3) have "List.find (same_event e) (jd_events db) = None"
    by (auto simp: store_event_def split: option.splits)
  moreover from this e(3) have "jira_view (snd (ingestJiraWebhook p c i body signature now db)) =
      (jd_requests db, jd_messages db, jd_operations db, jd_events db @ [new_event i (wc_maximumAttempts c) e r now])"
    by (simp add: store_event_def) (simp add: jira_view_def)
  ultimately show ?thesis using changed [OF e(1)] by (simp add: find_None_iff)
qed (rule none)

lemma webhook_good:
  assumes ok: "jira_ok s" and fresh: "jira_fresh (ReceiveWebhook p c i body signature now) s"
  shows "step_good (ReceiveWebhook p c i body signature now) s (snd (ingestJiraWebhook p c i body signature now (sy_db s)))"
proof (cases rule: webhook_effect [of p c i body signature now "sy_db s"])
  case none
  then show ?thesis by (intro step_good_same ok) simp_all
next
  case (changed e r)
  note keys = jira_ok_keys [OF ok] and rest = jira_ok_rest [OF ok]
  let ?e = "new_event i (wc_maximumAttempts c) e r now" and ?E = "jd_events (sy_db s)"
  have new: "wi_id ?e = i" "wi_status ?e = PENDING" "wi_attempts ?e = 0" "wi_maxAttempts ?e = wc_maximumAttempts c"
    "wi_leaseToken ?e = None" "wi_leaseUntil ?e = None" "ie_completedAt ?e = None"
    "ie_normalizedPayload ?e = ce_normalized e" "ie_eventFingerprint ?e = ce_fingerprint e"
    by (simp_all add: new_event_def)
  have "event_typed ?e"
    using checked_normalized [OF changed(1)] payload_json_normalized fresh by (auto simp: event_typed_def new)
  moreover have "ce_fingerprint e \<notin> ie_eventFingerprint ` set ?E" using changed(5) by (force simp: same_event_def)
  moreover have "rows_move now (row_event i ItemCreated ?E (?E @ [?e])) ?E (?E @ [?e])"
    using rows_move_add [OF keys(5), of ?e now] fresh by (simp add: new)
  ultimately show ?thesis
    by (intro step_good_events [OF ok _ _ _ _ changed(6)]) (use keys rest fresh in \<open>simp_all add: new\<close>)
qed

lemma claim_events_good:
  assumes ok: "jira_ok s" and fresh: "jira_fresh (ClaimEvents n leaseMs now corr company token locked) s"
  shows "step_good (ClaimEvents n leaseMs now corr company token locked) s
    (snd (claimJiraInboundEvents n leaseMs now corr company token locked (sy_db s)))"
proof (cases rule: claim_events_cases [of n leaseMs now corr company token locked "sy_db s"])
  case (refused e)
  then show ?thesis by (intro step_good_same ok) simp_all
next
  case (claimed records E2)
  note keys = jira_ok_keys [OF ok] and rest = jira_ok_rest [OF ok] and claim = claimed(2)
  let ?E = "jd_events (sy_db s)"
  have "list_all event_typed E2"
    by (rule claim_rows_all [OF claim keys(5) rest(3)])
      (auto simp: event_typed_def give_up_def take_lease_def lease_exhausted_def candidate_def)
  moreover have "map ie_eventFingerprint E2 = map ie_eventFingerprint ?E"
    by (rule claim_rows_map [OF claim]) (simp_all add: give_up_def take_lease_def)
  ultimately show ?thesis
    using keys rest rows_move_claim [OF claim keys(5) claimed(1)] claim_rows_at(2) [OF claim keys(5)]
      claim_rows_token [OF claim] same_target_kept [of "jd_operations (sy_db s)" "jd_operations (sy_db s)"]
    unfolding step_good_def jira_inv_def by (simp add: claimed(3))
qed

lemma settle_event_move:
  assumes ok: "jira_ok s" and q: "q \<in> set (sy_events s)"
    and g: "\<And>x. wi_id (g x) = wi_id x" "\<And>x. wi_attempts (g x) = wi_attempts x"
      "\<And>x. wi_maxAttempts (g x) = wi_maxAttempts x" "\<And>x. unleased (work_item.truncate (g x))"
      "\<And>x. wi_status (g x) = st"
    and st: "st \<in> {COMPLETED, IGNORED, DEAD_LETTER} \<or> st = FAILED \<and> wi_attempts q < wi_maxAttempts q"
  shows "rows_move now (row_event (wi_id q) (ItemSettled (the (wi_leaseToken q))) (jd_events (sy_db s))
      (update_where (event_held_by q) g (jd_events (sy_db s)))) (jd_events (sy_db s))
    (update_where (event_held_by q) g (jd_events (sy_db s)))"
proof -
  have "wi_leaseToken q \<noteq> None" using ok q by (simp add: jira_ok_def)
  then obtain t where t: "wi_leaseToken q = Some t" by blast
  show ?thesis
    by (rule rows_move_settle [OF jira_ok_rest(5) [OF ok] q])
      (use g st in \<open>auto simp: t item_move_simps same_work_def terminal_statuses_def\<close>)
qed

lemma process_good:
  assumes ok: "jira_ok s" and enabled: "jira_enabled (ProcessEvent newId outboxId q now) s"
    and fresh: "jira_fresh (ProcessEvent newId outboxId q now) s"
  shows "step_good (ProcessEvent newId outboxId q now) s (snd (processOne newId outboxId q now (sy_db s)))"
proof (cases "snd (processOne newId outboxId q now (sy_db s)) = sy_db s")
  case True
  then show ?thesis by (intro step_good_same ok) simp_all
next
  case False
  then obtain st where changed: "st \<in> {COMPLETED, IGNORED}"
    "event_applied q newId st now (sy_db s) (snd (processOne newId outboxId q now (sy_db s)))"
    using process_effect [OF jira_ok_keys(1,2) [OF ok]] by metis
  note keys = jira_ok_keys [OF ok] and rest = jira_ok_rest [OF ok]
  let ?db' = "snd (processOne newId outboxId q now (sy_db s))"
  let ?Q = "jd_requests (sy_db s)" and ?M = "jd_messages (sy_db s)" and ?E = "jd_events (sy_db s)"
  from changed(2) obtain F H news where
    F: "jd_requests ?db' = map F ?Q" "\<forall>r \<in> set ?Q. request_touched q r (F r)"
    and H: "jd_messages ?db' = map H ?M @ news" "\<forall>m \<in> set ?M. message_touched q m (H m)"
    and news: "news = [] \<or> (\<exists>m. news = [m] \<and> rm_id m = newId)"
    and E: "jd_events ?db' = finished_events q st now ?E" "jd_operations ?db' = jd_operations (sy_db s)"
    unfolding event_applied_def by blast
  have view: "jira_view ?db' = (map F ?Q, map H ?M @ news, jd_operations (sy_db s), finished_events q st now ?E)"
    by (simp add: jira_view_def F(1) H(1) E)
  have "mirrored (map F ?Q) (map H ?M) (jd_operations (sy_db s))"
    by (rule mirrored_frame [OF rest(1)])
      (use F(2) H(2) in \<open>auto simp: request_touched_def message_touched_def issue_mirror_def split: if_splits\<close>)
  then have "mirrored (map F ?Q) (map H ?M @ news) (jd_operations (sy_db s) @ [])"
    by (rule mirrored_add) auto
  moreover have ids: "map sr_id (map F ?Q) = map sr_id ?Q" "map rm_id (map H ?M) = map rm_id ?M"
    using F(2) H(2) by (auto simp: request_touched_def message_touched_def)
  moreover have "distinct (map sr_id (map F ?Q))" using keys(1) by (simp only: ids(1))
  moreover have "list_all event_typed (finished_events q st now ?E)"
    unfolding finished_events_def
    by (rule typed_update [OF rest(3)]) (use changed(1) in \<open>auto simp: finished_change_def event_typed_def\<close>)
  moreover have "map ie_eventFingerprint (finished_events q st now ?E) = map ie_eventFingerprint ?E"
    unfolding finished_events_def by (rule map_update_where) (simp add: finished_change_def)
  moreover have "rows_move now (row_event (wi_id q) (ItemSettled (the (wi_leaseToken q))) ?E (finished_events q st now ?E))
      ?E (finished_events q st now ?E)"
    unfolding finished_events_def by (rule settle_event_move [OF ok])
      (use enabled changed(1) in \<open>auto simp: finished_change_def unleased_def work_item.truncate_def\<close>)
  moreover have "distinct (map rm_id (map H ?M @ news))"
    using keys(2) news fresh unfolding map_append ids(2) by (auto simp: image_iff)
  ultimately show ?thesis by (intro step_good_events [OF ok _ _ _ _ view]) (use keys in simp_all)
qed

lemma fail_event_effect:
  obtains (none) "snd (failEvent q message now db) = db"
  | (changed) dead at c where "dead \<or> wi_attempts q < wi_maxAttempts q"
    "jira_view (snd (failEvent q message now db)) = (jd_requests db, jd_messages db, jd_operations db,
      update_where (event_held_by q) (failed_event (if dead then DEAD_LETTER else FAILED) at c now) (jd_events db))"
proof (cases "snd (failEvent q message now db) = db")
  case False
  let ?c = "inbound_failure_code message"
  let ?dead = "wi_maxAttempts q \<le> wi_attempts q \<or> str_includes ?c ''TENANT_'' \<or> str_includes ?c ''PAYLOAD_''"
  from False have available: "jd_available db" by (rule contrapos_np) (simp add: failEvent_def Let_def)
  show ?thesis
  proof (cases "if ?dead then Inr now
      else case backoff_ms INBOUND_ATTEMPT_INVALID (wi_attempts q) of Inl e \<Rightarrow> Inl e | Inr d \<Rightarrow> Inr (now + d)")
    case (Inl e)
    with False available show ?thesis unfolding failEvent_def Let_def Inl by simp
  next
    case (Inr at)
    have "jira_view (snd (failEvent q message now db)) = (jd_requests db, jd_messages db, jd_operations db,
      update_where (event_held_by q) (failed_event (if ?dead then DEAD_LETTER else FAILED) at ?c now) (jd_events db))"
      using False available unfolding failEvent_def Let_def Inr by (simp add: jira_view_def split: if_split_asm)
    then show ?thesis using changed [of ?dead at ?c] by fastforce
  qed
qed (rule none)

lemma fail_event_good:
  assumes ok: "jira_ok s" and enabled: "jira_enabled (FailEvent q message now) s"
  shows "step_good (FailEvent q message now) s (snd (failEvent q message now (sy_db s)))"
proof (cases rule: fail_event_effect [of q message now "sy_db s"])
  case none
  then show ?thesis by (intro step_good_same ok) simp_all
next
  case (changed dead at c)
  note keys = jira_ok_keys [OF ok] and rest = jira_ok_rest [OF ok]
  let ?g = "failed_event (if dead then DEAD_LETTER else FAILED) at c now" and ?E = "jd_events (sy_db s)"
  have "rows_move now (row_event (wi_id q) (ItemSettled (the (wi_leaseToken q))) ?E (update_where (event_held_by q) ?g ?E))
      ?E (update_where (event_held_by q) ?g ?E)"
    by (rule settle_event_move [OF ok])
      (use enabled changed(1) in \<open>auto simp: failed_event_def unleased_def work_item.truncate_def\<close>)
  moreover have "list_all event_typed (update_where (event_held_by q) ?g ?E)"
    by (rule typed_update [OF rest(3)]) (simp add: failed_event_def event_typed_def lease_held_def)
  moreover have "map ie_eventFingerprint (update_where (event_held_by q) ?g ?E) = map ie_eventFingerprint ?E"
    by (rule map_update_where) (simp add: failed_event_def)
  ultimately show ?thesis by (intro step_good_events [OF ok _ _ _ _ changed(2)]) (use keys rest in simp_all)
qed

lemma operator_event_good:
  assumes ok: "jira_ok s"
    and op: "\<not> claims_rows op" "\<not> deletes_rows op" "returned_operations op (sy_db s) = []"
      "returned_events op (sy_db s) = []" "event_kind op = (i, e)"
    and g: "\<And>x. wi_id (g x) = wi_id x" "\<And>x. ie_eventFingerprint (g x) = ie_eventFingerprint x"
    and move: "\<And>x. wi_status x \<in> set statuses \<Longrightarrow> event_typed x \<Longrightarrow> event_typed (g x) \<and>
      item_move (jira_clock op) e (Some (work_item.truncate x)) (Some (work_item.truncate (g x)))"
  shows "step_good op s (snd (operator_update i statuses g missing (sy_db s)))"
proof (cases "first_error [inbound_reference i ''EVENT_ID'', inbound_database (sy_db s)]")
  case (Some e)
  then show ?thesis by (intro step_good_same ok op) (simp add: operator_update_def)
next
  case None
  note keys = jira_ok_keys [OF ok] and rest = jira_ok_rest [OF ok]
  let ?E = "jd_events (sy_db s)" and ?p = "\<lambda>x. wi_id x = i \<and> contains statuses (wi_status x)"
  have view: "jira_view (snd (operator_update i statuses g missing (sy_db s))) =
      (jd_requests (sy_db s), jd_messages (sy_db s), jd_operations (sy_db s), update_where ?p g ?E)"
    using None by (simp add: operator_update_def Let_def jira_view_def)
  have "rows_move (jira_clock op) (row_event i e ?E (update_where ?p g ?E)) ?E (update_where ?p g ?E)"
    by (rule rows_move_update [OF keys(5)]) (use move g rest(3) in \<open>auto simp: list_all_iff\<close>)
  moreover have "list_all event_typed (update_where ?p g ?E)"
    by (rule typed_update [OF rest(3)]) (use move in blast)
  moreover have "map ie_eventFingerprint (update_where ?p g ?E) = map ie_eventFingerprint ?E"
    by (rule map_update_where) (rule g(2))
  ultimately show ?thesis by (intro step_good_events [OF ok op(1-4) view]) (use keys rest op(5) in simp_all)
qed

lemma retry_event_good: "jira_ok s \<Longrightarrow> step_good (RetryEvent i now) s (snd (retryJiraInboundEvent i now (sy_db s)))"
  unfolding retryJiraInboundEvent_def
  by (rule operator_event_good [where e = Revived])
    (auto simp: event_typed_def item_move_simps same_work_def unleased_def work_item.truncate_def)

lemma bury_event_good:
  "jira_ok s \<Longrightarrow> step_good (BuryEvent i now) s (snd (moveJiraInboundEventToDeadLetter i now (sy_db s)))"
  unfolding moveJiraInboundEventToDeadLetter_def
  by (rule operator_event_good [where e = Buried])
    (auto simp: event_typed_def item_move_simps same_work_def unleased_def work_item.truncate_def)

lemma delete_good:
  assumes ok: "jira_ok s"
  shows "step_good (DeleteEvents days now) s (snd (deleteExpiredJiraInboundEvents days now (sy_db s)))"
proof (cases "snd (deleteExpiredJiraInboundEvents days now (sy_db s)) = sy_db s")
  case True
  then show ?thesis by (intro step_good_same ok) simp_all
next
  case False
  note keys = jira_ok_keys [OF ok] and rest = jira_ok_rest [OF ok]
  let ?p = "\<lambda>e. \<not> (contains [COMPLETED, IGNORED, DEAD_LETTER] (wi_status e) \<and>
    ie_receivedAt e < now - days * 24 * 60 * 60000)"
  let ?E = "jd_events (sy_db s)" and ?db' = "snd (deleteExpiredJiraInboundEvents days now (sy_db s))"
  have db': "?db' = sy_db s\<lparr>jd_events := filter ?p ?E\<rparr>"
    using False by (auto simp: deleteExpiredJiraInboundEvents_def Let_def split: option.splits)
  have "rows_move now (erased_event ?E (filter ?p ?E)) ?E (filter ?p ?E)"
    by (rule rows_move_erase [OF keys(5)]) (auto simp: terminal_statuses_def)
  then show ?thesis
    using keys rest same_target_kept [of "jd_operations (sy_db s)" "jd_operations (sy_db s)"]
    unfolding step_good_def jira_inv_def db' by (simp add: distinct_map_filter list_all_iff)
qed

section \<open>The contract\<close>

lemma call_good:
  assumes ok: "jira_ok s" and "jira_enabled op s" "jira_fresh op s"
  shows "step_good op s (jira_call op (sy_db s))"
  using assms
  by (cases op) (simp_all only: jira_call.simps create_good add_good status_good claim_operations_good complete_good
    comment_good fail_good retry_good bury_good webhook_good claim_events_good process_good fail_event_good
    retry_event_good bury_event_good delete_good step_good_same mapping_view returned_operations.simps
    returned_events.simps)

lemma returned_rows:
  "returned_operations op db \<noteq> [] \<Longrightarrow> claims_rows op" "returned_events op db \<noteq> [] \<Longrightarrow> claims_rows op"
  by (cases op; simp)+

lemma operation_moves:
  assumes ok: "jira_ok s" and fresh: "jira_fresh op s"
  shows "rows_move (jira_clock op) (\<lambda>i. operation_event i op s) (jd_operations (sy_db s))
    (jd_operations (sy_db (jira_step op s)))"
proof (cases "jd_operations (sy_db (jira_step op s)) = jd_operations (sy_db s)")
  case True
  then show ?thesis by (simp add: rows_move_same jira_ok_keys(4) [OF ok] operation_event_def)
next
  case False
  then have enabled: "jira_enabled op s" by (rule contrapos_np) (simp add: jira_step_def)
  then have db: "sy_db (jira_step op s) = jira_call op (sy_db s)" by (simp add: jira_step_def)
  from call_good [OF ok enabled fresh] False show ?thesis
    unfolding step_good_def operation_event_def db Let_def by simp
qed

lemma event_moves:
  assumes ok: "jira_ok s" and fresh: "jira_fresh op s"
  shows "rows_move (jira_clock op) (\<lambda>i. inbound_step_event i op s) (jd_events (sy_db s))
    (jd_events (sy_db (jira_step op s)))"
proof (cases "jd_events (sy_db (jira_step op s)) = jd_events (sy_db s)")
  case True
  then show ?thesis by (simp add: rows_move_same jira_ok_keys(5) [OF ok] inbound_step_event_def)
next
  case False
  then have enabled: "jira_enabled op s" by (rule contrapos_np) (simp add: jira_step_def)
  then have db: "sy_db (jira_step op s) = jira_call op (sy_db s)" by (simp add: jira_step_def)
  from call_good [OF ok enabled fresh] False show ?thesis
    unfolding step_good_def inbound_step_event_def db Let_def by simp
qed

lemma operation_kind_claims [simp]: "snd (operation_kind op) \<noteq> ItemClaimed t"
  and event_kind_claims [simp]: "snd (event_kind op) \<noteq> ItemClaimed t"
  by (cases op; simp)+

lemma operation_claimed:
  assumes "operation_event i op s = ItemClaimed t"
  shows "t = drawn_token op" "returned_operations op (sy_db s) \<noteq> []"
  using assms by (auto simp: operation_event_def Let_def split: if_splits dest!: claim_event_claimed)

lemma event_claimed:
  assumes "inbound_step_event i op s = ItemClaimed t"
  shows "t = drawn_token op" "returned_events op (sy_db s) \<noteq> []"
  using assms
  by (auto simp: inbound_step_event_def erased_event_def Let_def split: if_splits dest!: claim_event_claimed)

lemma fresh_tokens:
  "jira_fresh op s \<Longrightarrow> returned_operations op (sy_db s) \<noteq> [] \<Longrightarrow> drawn_token op \<notin> lease_tokens (sy_operations s)"
  "jira_fresh op s \<Longrightarrow> returned_events op (sy_db s) \<noteq> [] \<Longrightarrow> drawn_token op \<notin> lease_tokens (sy_events s)"
  by (cases op; simp)+

lemma returned_tokens: "\<forall>q \<in> set rs. wi_leaseToken q = Some t \<Longrightarrow> rs \<noteq> [] \<Longrightarrow> t \<in> lease_tokens rs"
  by (cases rs) (auto simp: lease_tokens_def)

lemma jira_step_ok:
  assumes ok: "jira_ok s" and fresh: "jira_fresh op s"
  shows "jira_ok (jira_step op s)"
proof (cases "jira_enabled op s")
  case False
  with ok show ?thesis by (simp add: jira_step_def)
next
  case True
  note good = call_good [OF ok True fresh, unfolded step_good_def]
  have db: "sy_db (jira_step op s) = jira_call op (sy_db s)"
    "sy_operations (jira_step op s) = sy_operations s @ returned_operations op (sy_db s)"
    "sy_events (jira_step op s) = sy_events s @ returned_events op (sy_db s)"
    using True by (simp_all add: jira_step_def)
  have tokens: "returned_operations op (sy_db s) \<noteq> [] \<Longrightarrow> drawn_token op \<in> lease_tokens (returned_operations op (sy_db s))"
    "returned_events op (sy_db s) \<noteq> [] \<Longrightarrow> drawn_token op \<in> lease_tokens (returned_events op (sy_db s))"
    using good by (auto intro: returned_tokens)
  have "table_ok (jd_operations (jira_call op (sy_db s))) (sy_operations s @ returned_operations op (sy_db s))"
    by (rule table_ok_rows_move [OF jira_ok_rest(4) [OF ok] operation_moves [OF ok fresh, unfolded db]])
      (use good operation_claimed fresh_tokens(1) [OF fresh] tokens(1) in auto)
  moreover have "table_ok (jd_events (jira_call op (sy_db s))) (sy_events s @ returned_events op (sy_db s))"
    by (rule table_ok_rows_move [OF jira_ok_rest(5) [OF ok] event_moves [OF ok fresh, unfolded db]])
      (use good event_claimed fresh_tokens(2) [OF fresh] tokens(2) in auto)
  moreover have "\<exists>o1 \<in> set (jd_operations (jira_call op (sy_db s))). same_target q o1"
    if "q \<in> set (sy_operations s @ returned_operations op (sy_db s))" for q
  proof (cases "q \<in> set (sy_operations s)")
    case True
    with ok obtain o1 where "o1 \<in> set (jd_operations (sy_db s))" "same_target q o1" unfolding jira_ok_def by blast
    with good show ?thesis unfolding same_target_def by metis
  next
    case False
    with that good show ?thesis by (intro bexI [of _ q]) auto
  qed
  ultimately show ?thesis using ok good unfolding jira_ok_def db by auto
qed

interpretation operations: leased_rows jira_ok jira_fresh "\<lambda>s. jd_operations (sy_db s)" sy_operations jira_clock
    operation_event jira_step
proof
  fix s op i t
  assume ok: "jira_ok s"
  then show "table_ok (jd_operations (sy_db s)) (sy_operations s)" by (rule jira_ok_rest)
  assume fresh: "jira_fresh op s"
  show "jira_ok (jira_step op s)" by (rule jira_step_ok [OF ok fresh])
  show "rows_move (jira_clock op) (\<lambda>i. operation_event i op s) (jd_operations (sy_db s))
      (jd_operations (sy_db (jira_step op s)))" by (rule operation_moves [OF ok fresh])
  show "set (sy_operations s) \<subseteq> set (sy_operations (jira_step op s))" by (auto simp: jira_step_def)
  show "operation_event i op s = ItemClaimed t \<Longrightarrow> t \<notin> lease_tokens (sy_operations s)"
    using operation_claimed fresh_tokens(1) [OF fresh] by metis
qed

interpretation inbound: leased_rows jira_ok jira_fresh "\<lambda>s. jd_events (sy_db s)" sy_events jira_clock
    inbound_step_event jira_step
proof
  fix s op i t
  assume ok: "jira_ok s"
  then show "table_ok (jd_events (sy_db s)) (sy_events s)" by (rule jira_ok_rest)
  assume fresh: "jira_fresh op s"
  show "jira_ok (jira_step op s)" by (rule jira_step_ok [OF ok fresh])
  show "rows_move (jira_clock op) (\<lambda>i. inbound_step_event i op s) (jd_events (sy_db s))
      (jd_events (sy_db (jira_step op s)))" by (rule event_moves [OF ok fresh])
  show "set (sy_events s) \<subseteq> set (sy_events (jira_step op s))" by (auto simp: jira_step_def)
  show "inbound_step_event i op s = ItemClaimed t \<Longrightarrow> t \<notin> lease_tokens (sy_events s)"
    using event_claimed fresh_tokens(2) [OF fresh] by metis
qed

end
