(* ===== verification/JiraProperties.thy ===== *)
theory JiraProperties
  imports JiraSystem
begin

text \<open>
  The properties of the Jira integration under every interleaving, each with a concrete run, and
  where the code falls short of what it means to do.
\<close>

section \<open>A concrete run\<close>

definition portal_session :: app_session where
  "portal_session =
     \<lparr>s_sessionId = None, s_userId = ''user-1'', s_name = ''Anna'', s_company = ''Acme'', s_companyId = Some ''acme'',
      s_identityProviderId = None, s_email = ''anna@acme.test'', s_role = CLIENT, s_platformRoles = None,
      s_organizationRole = Some ''MEMBER'', s_membershipStatus = Some ACTIVE, s_membershipVersion = Some 1,
      s_mfaSatisfied = Some True, s_authenticationAt = Some 1, s_expiresAt = 900000\<rparr>"

definition acme_mapping :: jira_mapping where
  "acme_mapping =
     \<lparr>jm_id = ''map-1'', jm_companyId = ''acme'', jm_projectKey = ''AC'', jm_issueType = None, jm_componentId = None,
      jm_requestType = None, jm_statusMapping = None, jm_enabled = True, jm_version = 1\<rparr>"

definition acme_settings :: jira_settings where
  "acme_settings = \<lparr>js_enabled = True, js_maximumAttempts = 5, js_defaultIssueType = ''Task''\<rparr>"

definition quiet_portal :: jira_state where
  "quiet_portal =
     \<lparr>sy_db = \<lparr>jd_available = True, jd_requests = [], jd_messages = [], jd_mappings = [acme_mapping], jd_operations = [],
        jd_events = [], jd_outbox = [], jd_users = [\<lparr>pu_id = ''user-1'', pu_name = ''Anna'', pu_companies = [''acme'']\<rparr>],
        jd_audit = [], jd_portal = [], jd_trail = []\<rparr>,
      sy_operations = [], sy_events = []\<rparr>"

lemma quiet_portal_ok: "jira_ok quiet_portal"
  by (simp add: quiet_portal_def jira_ok_def jira_inv_def mirrored_def table_ok_def)

definition ask :: jira_op where
  "ask = CreateRequest acme_settings
     \<lparr>rq_title = ''Help'', rq_description = ''Please'', rq_priority = NORMAL, rq_category = ''Support''\<rparr> portal_session
     \<lparr>dr_id = ''r-1'', dr_publicId = ''REQ-1'', dr_operationId = ''o-1'', dr_correlationId = ''corr-1'',
      dr_idempotencyKey = ''key-1''\<rparr> 0"

definition claim_one :: jira_op where
  "claim_one = ClaimOperations 10 1000 5 None None ''t-1'' []"

definition asked :: jira_state where "asked = jira_step ask quiet_portal"
definition claimed_once :: jira_state where "claimed_once = jira_step claim_one asked"
definition first_record :: jira_operation where "first_record = hd (sy_operations claimed_once)"

definition complete_one :: jira_op where
  "complete_one = CompleteIssue ''n-1'' first_record
     \<lparr>ir_issueId = ''10001'', ir_issueKey = ''AC-1'', ir_issueUrl = ''https://acme.atlassian.net/browse/AC-1''\<rparr> 7"

definition filed :: jira_state where "filed = jira_step complete_one claimed_once"

lemma sy_operations_step:
  "jira_enabled op s \<Longrightarrow> sy_operations (jira_step op s) = sy_operations s @ returned_operations op (sy_db s)"
  "jira_enabled op s \<Longrightarrow> sy_events (jira_step op s) = sy_events s @ returned_events op (sy_db s)"
  by (simp_all add: jira_step_def)

lemma run_states:
  "sy_operations asked = []" "sy_events claimed_once = []" "map sr_id (jd_requests (sy_db filed)) = [''r-1'']"
  "map (\<lambda>o1. (wi_id o1, wi_status o1, jo_operationType o1, jo_requestId o1, jo_companyId o1)) (jd_operations (sy_db filed)) =
     [(''o-1'', COMPLETED, CREATE_ISSUE, ''r-1'', ''acme'')]"
  "operation_event ''o-1'' claim_one asked = ItemClaimed ''t-1''"
  "operation_event ''o-1'' complete_one claimed_once = ItemSettled ''t-1''"
  by code_simp+

lemma run_fresh: "jira_fresh ask quiet_portal" "jira_fresh claim_one asked" "jira_fresh complete_one s"
  using run_states(1)
  by (simp_all add: ask_def quiet_portal_def acme_settings_def claim_one_def complete_one_def lease_tokens_def)

lemma asked_ok: "jira_ok asked"
  unfolding asked_def by (rule jira_step_ok [OF quiet_portal_ok run_fresh(1)])

lemma claimed_once_ok: "jira_ok claimed_once"
  unfolding claimed_once_def by (rule jira_step_ok [OF asked_ok run_fresh(2)])

lemma filed_ok: "jira_ok filed"
  unfolding filed_def by (rule jira_step_ok [OF claimed_once_ok run_fresh(3)])

section \<open>The portal and the outbox\<close>





text \<open>
  C39. What a worker records of an operation belongs to its own claim: when a completion or failure
  under the token of a claim takes effect, nothing has touched the operation since that claim,
  whatever the other workers, the operators, the portal and Jira have done in between.
\<close>

theorem jira_operation_fenced:
  assumes "jira_ok s" "jira_fresh op s" "operation_event i op s = ItemClaimed t"
    and "fresh_run jira_fresh jira_step ops (jira_step op s)"
    and "jira_fresh op' (queue_run jira_step ops (jira_step op s))"
    and "operation_event i op' (queue_run jira_step ops (jira_step op s)) = ItemSettled t"
  shows "snd ` set (item_trace jira_clock (operation_event i) jira_step ops (jira_step op s)) \<subseteq> {Untouched}"
  using assms by (rule operations.settled_after_claim)

theorem jira_operation_fenced_witness:
  "snd ` set (item_trace jira_clock (operation_event ''o-1'') jira_step [RetryOperation ''o-1'' 6] claimed_once) \<subseteq> {Untouched}"
proof -
  have still: "jira_step (RetryOperation ''o-1'' 6) claimed_once = claimed_once" by code_simp
  from jira_operation_fenced [OF asked_ok run_fresh(2) run_states(5), of "[RetryOperation ''o-1'' 6]" complete_one]
    run_fresh(3) run_states(6) show ?thesis by (simp add: still flip: claimed_once_def)
qed

text \<open>
  An operation is handed to the provider at most as often as its attempts allow, which is at
  most twenty times, unless an operator revives it.
\<close>

theorem jira_attempts_bounded:
  assumes "jira_ok s" "fresh_run jira_fresh jira_step ops s" "work_at (jd_operations (sy_db s)) i = Some x"
    and "snd ` set (item_trace jira_clock (operation_event i) jira_step ops s) \<inter> {Revived, Erased} = {}"
  shows "\<exists>y. work_at (jd_operations (sy_db (queue_run jira_step ops s))) i = Some y \<and>
    wi_attempts y = wi_attempts x + int (claims_in (item_trace jira_clock (operation_event i) jira_step ops s)) \<and>
    wi_attempts y \<le> wi_maxAttempts y \<and> wi_maxAttempts y = wi_maxAttempts x \<and> wi_maxAttempts y \<le> 20"
proof -
  from operations.claims_bounded [OF assms] obtain y where
    y: "work_at (jd_operations (sy_db (queue_run jira_step ops s))) i = Some y"
    "wi_attempts y = wi_attempts x + int (claims_in (item_trace jira_clock (operation_event i) jira_step ops s))"
    "wi_maxAttempts y = wi_maxAttempts x" "wi_attempts y \<le> wi_maxAttempts y" by blast
  have "jira_ok (queue_run jira_step ops s)" using assms(1,2) by (rule operations.run_ok)
  from jira_ok_rest(2) [OF this] y(1) have "wi_maxAttempts y \<le> 20"
    by (auto simp: list_all_iff operation_typed_def dest!: at_in_rows)
  with y show ?thesis by blast
qed

theorem jira_attempts_bounded_witness:
  "\<exists>y. work_at (jd_operations (sy_db claimed_once)) ''o-1'' = Some y \<and> wi_attempts y = 1 \<and> wi_maxAttempts y \<le> 20"
proof -
  obtain x where x: "work_at (jd_operations (sy_db asked)) ''o-1'' = Some x" "wi_attempts x = 0"
    by (rule that [of "work_item.truncate (hd (jd_operations (sy_db asked)))"]) code_simp+
  have "fresh_run jira_fresh jira_step [claim_one] asked" using run_fresh(2) by simp
  from jira_attempts_bounded [OF asked_ok this x(1)] x(2) run_states(5) show ?thesis
    by (auto simp flip: claimed_once_def)
qed

section \<open>Failures\<close>

text \<open>
  C40. A failure recorded by the holder of the lease ends the attempt in one of two ways: the operation
  is a dead letter at once if the failure cannot be retried or no attempt is left, otherwise it waits
  for an instant that doubles with each attempt and is at most five minutes away.
\<close>

theorem jira_failure_settles:
  assumes "jira_ok s" "q \<in> set (sy_operations s)" "1 \<le> wi_attempts q" "jd_available (sy_db s)"
    and "SAFE_FAILURE_CODE (ascii_upper (fst failure))" "request_by (jo_requestId q) (sy_db s) = Some r"
    and "row_at (jd_operations (sy_db s)) (wi_id q) = Some x" "wi_status x = PROCESSING"
    and "wi_leaseToken x = wi_leaseToken q"
  shows "let dead = \<not> snd failure \<or> wi_maxAttempts q \<le> wi_attempts q;
      at = if dead then now else now + min 300000 (1000 * 2 ^ nat (wi_attempts q - 1));
      (result, db') = failJiraOperation q failure now (sy_db s)
    in result = Inr dead \<and> at \<le> now + 300000 \<and>
      row_at (jd_operations db') (wi_id q) =
        Some (failed_operation (if dead then DEAD_LETTER else FAILED) at (ascii_upper (fst failure)) now x)"
proof -
  define dead where "dead = (\<not> snd failure \<or> wi_maxAttempts q \<le> wi_attempts q)"
  define at where "at = (if dead then now else now + min 300000 (1000 * 2 ^ nat (wi_attempts q - 1)))"
  let ?Ops = "jd_operations (sy_db s)" and ?c = "ascii_upper (fst failure)"
  have token: "wi_leaseToken q \<noteq> None" using assms(1,2) by (simp add: jira_ok_def)
  have x: "x \<in> set ?Ops" "wi_id x = wi_id q" using row_at_in [OF assms(7)] by auto
  have held: "held_by q x" using x(2) assms(8,9) token by (auto simp: lease_held_def)
  have one: "count_where (held_by q) ?Ops = 1"
    by (rule count_where_key_1 [where p = "held_by q", OF jira_ok_keys(4) [OF assms(1)] x(1) held])
      (simp add: lease_held_def)
  have "wi_maxAttempts x = wi_maxAttempts q" "wi_attempts x = wi_attempts q"
    using jira_ok_rest(4) [OF assms(1)] x assms(2,9) token unfolding table_ok_def by metis+
  moreover have "wi_maxAttempts x \<le> 20" "item_ok (work_item.truncate x)"
    using jira_ok_rest(2,4) [OF assms(1)] x(1) by (auto simp: list_all_iff operation_typed_def table_ok_def)
  ultimately have "wi_attempts q \<le> 20" by (simp add: item_ok_def)
  then have backoff: "jiraBackoffMs (wi_attempts q) = Inr (min 300000 (1000 * 2 ^ nat (wi_attempts q - 1)))"
    using assms(3) by (simp add: jiraBackoffMs_def backoff_ms_def safe_integer_def)
  have "row_at (update_where (held_by q) (failed_operation (if dead then DEAD_LETTER else FAILED) at ?c now) ?Ops) (wi_id q) =
      Some (failed_operation (if dead then DEAD_LETTER else FAILED) at ?c now x)"
    by (subst row_at_update) (simp_all add: failed_operation_def assms(7) held)
  with one show ?thesis
    using assms(4-6) backoff
    by (cases "jo_localCommentId q"; cases "\<not> snd failure \<or> wi_maxAttempts q \<le> wi_attempts q")
      (simp_all add: dead_def at_def failJiraOperation_def jira_database_def settle_operation_def fail_request_def
        in_transaction_def request_by_def mark_target_def Let_def)
qed

theorem jira_failure_settles_witness:
  "let (result, db') = failJiraOperation first_record (''JIRA_TIMEOUT'', True) 9 (sy_db claimed_once)
   in result = Inr False \<and> map wi_status (jd_operations db') = [FAILED]"
proof -
  have q: "first_record \<in> set (sy_operations claimed_once)" "1 \<le> wi_attempts first_record"
    "\<not> wi_maxAttempts first_record \<le> wi_attempts first_record"
    "jd_available (sy_db claimed_once)" "SAFE_FAILURE_CODE (ascii_upper (fst (''JIRA_TIMEOUT'', True)))"
    "request_by (jo_requestId first_record) (sy_db claimed_once) = Some (hd (jd_requests (sy_db claimed_once)))"
    "row_at (jd_operations (sy_db claimed_once)) (wi_id first_record) = Some first_record"
    "wi_status first_record = PROCESSING" "length (jd_operations (sy_db claimed_once)) = 1"
    by code_simp+
  have "length (jd_operations (snd (failJiraOperation first_record (''JIRA_TIMEOUT'', True) 9 (sy_db claimed_once)))) = 1"
    by code_simp
  then obtain x where x: "jd_operations (snd (failJiraOperation first_record (''JIRA_TIMEOUT'', True) 9 (sy_db claimed_once))) = [x]"
    by (auto simp: length_Suc_conv)
  from jira_failure_settles [OF claimed_once_ok q(1,2,4,5,6,7,8) refl, of 9] q(3) x show ?thesis
    by (auto simp: Let_def row_at_def failed_operation_def split: prod.splits if_splits)
qed

end
