(* ===== verification/JiraIntakeProperties.thy ===== *)
theory JiraIntakeProperties
  imports JiraProperties
begin

text \<open>
  The properties of the incoming side: only an authentic webhook of the configured site stores an
  event, an event changes nothing but the request it belongs to, and it does so at most once.
\<close>

section \<open>A concrete delivery\<close>

text \<open>A platform on which the one body parses and whose digests are constant.\<close>

definition status_body :: json where
  "status_body =
     JObject [(''webhookEvent'', JString ''jira:issue_updated''), (''timestamp'', JNumber 20),
       (''issue'', JObject [(''self'', JString ''https://acme.atlassian.net/rest''), (''id'', JString ''10001''),
         (''key'', JString ''AC-1''),
         (''fields'', JObject [(''status'', JObject [(''id'', JString ''3''), (''name'', JString ''In progress'')])])])]"

definition test_platform :: web_platform where
  "test_platform =
     \<lparr>wp_hmac = (\<lambda>secret body. replicate 64 CHR ''a''), wp_sha256 = (\<lambda>body. replicate 64 CHR ''b''), wp_nfkc = id,
      wp_parse = (\<lambda>body. if body = ''{}'' then Some status_body else None), wp_date = (\<lambda>s. None),
      wp_origin = (\<lambda>s. Some ''https://acme.atlassian.net'')\<rparr>"

definition acme_webhook :: webhook_configuration where
  "acme_webhook =
     \<lparr>wc_enabled = True, wc_secret = Some ''secret'', wc_allowedOrigin = Some ''https://acme.atlassian.net'',
      wc_replayWindowMs = 300000, wc_maximumPayloadBytes = 262144, wc_enabledEvents = [''jira:issue_updated''],
      wc_maximumAttempts = 3\<rparr>"

definition signed :: "string option" where
  "signed = Some (''sha256='' @ replicate 64 CHR ''a'')"

text \<open>A request whose issue Jira has created.\<close>

definition linked_request :: support_request where
  "linked_request =
     \<lparr>sr_id = ''r-1'', sr_publicId = ''REQ-1'', sr_title = ''Help'', sr_description = ''Please'', sr_category = ''Support'',
      sr_priority = NORMAL, sr_status = NEW, sr_jiraIntegrationStatus = INTEGRATION_CREATED, sr_version = 2,
      sr_jiraIssueId = Some ''10001'', sr_jiraKey = Some ''AC-1'', sr_jiraIssueUrl = None, sr_jiraSyncAt = Some 7,
      sr_jiraStatusId = None, sr_jiraStatusName = None, sr_jiraUpdatedAt = None, sr_jiraSyncVersion = 1,
      sr_correlationId = None, sr_idempotencyKey = None, sr_dueAt = None, sr_requesterId = ''user-1'',
      sr_companyId = ''acme'', sr_createdAt = 0, sr_updatedAt = 7\<rparr>"

definition linked :: jira_state where
  "linked = quiet_portal\<lparr>sy_db := sy_db quiet_portal\<lparr>jd_requests := [linked_request]\<rparr>\<rparr>"

lemma linked_ok: "jira_ok linked"
  by (simp add: linked_def quiet_portal_def jira_ok_def jira_inv_def mirrored_def table_ok_def)

definition receive :: jira_op where
  "receive = ReceiveWebhook test_platform acme_webhook ''e-1'' ''{}'' signed 21"

definition received :: jira_state where "received = jira_step receive linked"

lemma received_states:
  "sy_events received = []" "map wi_id (jd_events (sy_db received)) = [''e-1'']"
  by code_simp+

section \<open>Webhooks\<close>

lemma check_webhook_accepts:
  assumes "check_webhook p c body signature now = Inr (Some e)"
  shows "wc_enabled c" "\<exists>secret. wc_secret c = Some secret \<and> signature = Some (createJiraWebhookSignature p secret body)"
    "int (utf8_length body) \<le> wc_maximumPayloadBytes c" "ce_eventType e \<in> set (wc_enabledEvents c)"
    "wc_allowedOrigin c = Some (ce_origin e)" "\<bar>now - ce_occurredAt e\<bar> \<le> wc_replayWindowMs c"
    "ce_fingerprint e = jiraEventFingerprint p (ce_origin e) body"
proof -
  from assms have none: "first_error
      [demand (wc_enabled c \<and> truthy (wc_secret c) \<and> truthy (wc_allowedOrigin c)) (WebhookError ''JIRA_WEBHOOK_DISABLED'' 404),
       demand (int (utf8_length body) \<le> wc_maximumPayloadBytes c) (WebhookError ''JIRA_WEBHOOK_PAYLOAD_TOO_LARGE'' 413),
       verifyJiraWebhookSignature p (the (wc_secret c)) body signature] = None"
    unfolding check_webhook_def by (simp split: option.split_asm)
  then show "wc_enabled c" "int (utf8_length body) \<le> wc_maximumPayloadBytes c"
    by (simp_all split: option.split_asm if_split_asm)
  from none obtain secret where secret: "wc_secret c = Some secret" "verifyJiraWebhookSignature p secret body signature = None"
    by (cases "wc_secret c") (auto split: option.split_asm if_split_asm)
  then show "\<exists>secret. wc_secret c = Some secret \<and> signature = Some (createJiraWebhookSignature p secret body)"
    by (auto simp: verifyJiraWebhookSignature_def Let_def split: option.split_asm if_split_asm)
  from assms none obtain payload issue et where et: "contains (wc_enabledEvents c) et"
    "check_issue p c body payload et issue now = Inr e"
    unfolding check_webhook_def
    by (auto simp: Let_def map_sum_def split: option.split_asm sum.split_asm if_split_asm)
  from et(2) have "ce_eventType e = et" "wc_allowedOrigin c = Some (ce_origin e)"
    "\<bar>now - ce_occurredAt e\<bar> \<le> wc_replayWindowMs c" "ce_fingerprint e = jiraEventFingerprint p (ce_origin e) body"
    by (auto simp: check_issue_def split: sum.split_asm if_split_asm)
  with et(1) show "ce_eventType e \<in> set (wc_enabledEvents c)" "wc_allowedOrigin c = Some (ce_origin e)"
    "\<bar>now - ce_occurredAt e\<bar> \<le> wc_replayWindowMs c" "ce_fingerprint e = jiraEventFingerprint p (ce_origin e) body"
    by auto
qed

text \<open>
  C34. A webhook stores at most one event, and only if the intake is enabled and the body is signed
  with the configured secret, no larger than allowed, sent by the configured site within the replay
  window, of an enabled type, about the issue of a request and never seen before; the event belongs
  to the company of that request, and nothing else of the tables changes. A webhook that is refused
  changes nothing.
\<close>

theorem webhook_authenticated:
  assumes "ingestJiraWebhook p c i body signature now db = (result, db')" "db' \<noteq> db"
  shows "(jd_events db' = jd_events db \<and> (\<exists>j. result = Inr (WebhookDuplicate j) \<and> j \<in> wi_id ` set (jd_events db)) \<or>
    result = Inr (WebhookAccepted i) \<and> wc_enabled c \<and> int (utf8_length body) \<le> wc_maximumPayloadBytes c \<and>
    (\<exists>secret. wc_secret c = Some secret \<and> signature = Some (createJiraWebhookSignature p secret body)) \<and>
    (\<exists>e r. jd_events db' = jd_events db @ [e] \<and> wi_id e = i \<and> wi_status e = PENDING \<and>
      wc_allowedOrigin c = Some (ie_jiraTenantOrigin e) \<and> ie_eventType e \<in> set (wc_enabledEvents c) \<and>
      \<bar>now - ie_occurredAt e\<bar> \<le> wc_replayWindowMs c \<and>
      ie_eventFingerprint e = jiraEventFingerprint p (ie_jiraTenantOrigin e) body \<and>
      ie_eventFingerprint e \<notin> ie_eventFingerprint ` set (jd_events db) \<and>
      r \<in> set (jd_requests db) \<and> sr_id r = ie_requestId e \<and> sr_companyId r = ie_companyId e \<and>
      sr_jiraIssueId r = Some (ie_jiraIssueId e) \<and> sr_jiraKey r = Some (ie_jiraIssueKey e))) \<and>
    jd_requests db' = jd_requests db \<and> jd_messages db' = jd_messages db \<and> jd_operations db' = jd_operations db"
    (is "?stored \<and> _")
proof (intro conjI)
  from assms obtain e r where e: "check_webhook p c body signature now = Inr (Some e)" "issue_request e db = Some r"
    "store_event i (wc_maximumAttempts c) e r now db = (result, db')"
    by (auto simp: ingestJiraWebhook_def split: sum.split_asm option.split_asm if_split_asm)
  from e(2) have r: "r \<in> set (jd_requests db)" "sr_jiraIssueId r = Some (ce_issueId e)" "sr_jiraKey r = Some (ce_issueKey e)"
    by (auto simp: issue_request_def dest!: find_SomeD)
  note accepts = check_webhook_accepts [OF e(1)]
  show "jd_requests db' = jd_requests db" "jd_messages db' = jd_messages db" "jd_operations db' = jd_operations db"
    using e(3) by (auto simp: store_event_def split: option.split_asm)
  show ?stored
  proof (cases "List.find (same_event e) (jd_events db)")
    case (Some x)
    with e(3) find_SomeD [OF Some] show ?thesis by (auto simp: store_event_def)
  next
    case None
    then have new: "ce_fingerprint e \<notin> ie_eventFingerprint ` set (jd_events db)"
      by (auto simp: find_None_iff same_event_def)
    from None e(3) have "result = Inr (WebhookAccepted i)"
      "jd_events db' = jd_events db @ [new_event i (wc_maximumAttempts c) e r now]"
      by (auto simp: store_event_def)
    then show ?thesis
      using accepts r new
      by (intro disjI2 conjI exI [of _ "new_event i (wc_maximumAttempts c) e r now"] exI [of _ r])
        (simp_all add: new_event_def)
  qed
qed

theorem webhook_authenticated_witness:
  "\<exists>e. jd_events (sy_db received) = [e] \<and> ie_companyId e = ''acme'' \<and> ie_requestId e = ''r-1'' \<and> \<bar>21 - ie_occurredAt e\<bar> \<le> 300000"
proof -
  have run: "ingestJiraWebhook test_platform acme_webhook ''e-1'' ''{}'' signed 21 (sy_db linked) =
      (fst (ingestJiraWebhook test_platform acme_webhook ''e-1'' ''{}'' signed 21 (sy_db linked)), sy_db received)"
    by (simp add: received_def jira_step_def receive_def)
  have new: "sy_db received \<noteq> sy_db linked" "jd_events (sy_db linked) = []" "jd_requests (sy_db linked) = [linked_request]"
    using received_states(2) by (auto simp: linked_def quiet_portal_def)
  from webhook_authenticated [OF run new(1)] new received_states(2) show ?thesis
    by (auto simp: linked_request_def acme_webhook_def)
qed

section \<open>Events\<close>

lemma process_step:
  assumes "sy_db (jira_step (ProcessEvent newId outboxId q now) s) \<noteq> sy_db s"
  shows "q \<in> set (sy_events s)"
    "sy_db (jira_step (ProcessEvent newId outboxId q now) s) = snd (processOne newId outboxId q now (sy_db s))"
  using assms by (auto simp: jira_step_def split: if_split_asm)

lemma applied_by_holder:
  assumes "jira_ok s" "q \<in> set (sy_events s)" "snd (processOne newId outboxId q now (sy_db s)) \<noteq> sy_db s"
  obtains st x where "st \<in> {COMPLETED, IGNORED}"
    "event_applied q newId st now (sy_db s) (snd (processOne newId outboxId q now (sy_db s)))"
    "row_at (jd_events (sy_db s)) (wi_id q) = Some x" "event_held_by q x"
    "row_at (jd_events (snd (processOne newId outboxId q now (sy_db s)))) (wi_id q) = Some (finished_change st now x)"
proof (cases rule: process_effect [OF jira_ok_keys(1,2) [OF assms(1)], of newId outboxId q now])
  case (2 st)
  then have "count_where (event_held_by q) (jd_events (sy_db s)) = 1"
    and events: "jd_events (snd (processOne newId outboxId q now (sy_db s))) = finished_events q st now (jd_events (sy_db s))"
    by (auto simp: event_applied_def)
  then obtain x where x: "x \<in> set (jd_events (sy_db s))" "event_held_by q x"
    using count_where_pos [of "event_held_by q" "jd_events (sy_db s)"] by auto
  then have at: "row_at (jd_events (sy_db s)) (wi_id q) = Some x"
    using row_at_set [OF jira_ok_keys(5) [OF assms(1)] x(1)] by (simp add: lease_held_def)
  moreover have "row_at (finished_events q st now (jd_events (sy_db s))) (wi_id q) = Some (finished_change st now x)"
    unfolding finished_events_def by (subst row_at_update) (simp_all add: finished_change_def at x(2))
  ultimately show ?thesis using that 2 x(2) events by metis
qed (use assms(3) in simp)

text \<open>
  C35. A Jira event takes effect at most once: the step that changes anything for it holds the event
  under the token of its claim and finishes it, the event stays finished whatever follows, until
  retention erases it, and processing it again changes nothing, whoever tries.
\<close>

theorem inbound_event_applied_once:
  assumes "jira_ok s" "jira_fresh (ProcessEvent newId outboxId q now) s"
    and "sy_db (jira_step (ProcessEvent newId outboxId q now) s) \<noteq> sy_db s"
    and "fresh_run jira_fresh jira_step ops (jira_step (ProcessEvent newId outboxId q now) s)"
    and "Erased \<notin> snd ` set (item_trace jira_clock (inbound_step_event (wi_id q)) jira_step ops
           (jira_step (ProcessEvent newId outboxId q now) s))"
    and "later = queue_run jira_step ops (jira_step (ProcessEvent newId outboxId q now) s)"
  shows "(\<exists>x. row_at (jd_events (sy_db s)) (wi_id q) = Some x \<and> wi_status x = PROCESSING \<and> wi_leaseToken x = wi_leaseToken q) \<and>
    (\<exists>y. work_at (jd_events (sy_db later)) (wi_id q) = Some y \<and> wi_status y \<in> {COMPLETED, IGNORED}) \<and>
    (wi_id q' = wi_id q \<longrightarrow> sy_db (jira_step (ProcessEvent newId' outboxId' q' now') later) = sy_db later)"
proof (intro conjI impI)
  note step = process_step [OF assms(3)]
  let ?s1 = "jira_step (ProcessEvent newId outboxId q now) s"
  have "snd (processOne newId outboxId q now (sy_db s)) \<noteq> sy_db s" using assms(3) unfolding step(2) .
  from applied_by_holder [OF assms(1) step(1) this, folded step(2)] obtain st x where
    st: "st \<in> {COMPLETED, IGNORED}" and x: "row_at (jd_events (sy_db s)) (wi_id q) = Some x" "event_held_by q x"
    "row_at (jd_events (sy_db ?s1)) (wi_id q) = Some (finished_change st now x)" by metis
  have "wi_leaseToken q \<noteq> None" using assms(1) step(1) by (simp add: jira_ok_def)
  with x(1,2) show "\<exists>x. row_at (jd_events (sy_db s)) (wi_id q) = Some x \<and> wi_status x = PROCESSING \<and> wi_leaseToken x = wi_leaseToken q"
    by (auto simp: lease_held_def)
  note ok1 = jira_step_ok [OF assms(1,2)]
  have ok: "jira_ok later" unfolding assms(6) by (rule inbound.run_ok [OF ok1 assms(4)])
  have "work_at (jd_events (sy_db later)) (wi_id q) = Some (work_item.truncate (finished_change st now x))"
    unfolding assms(6)
    by (rule inbound.run_terminal [OF ok1 assms(4) work_at_row [OF x(3)] _ assms(5)])
      (use st in \<open>auto simp: finished_change_def terminal_statuses_def\<close>)
  then obtain y where y: "row_at (jd_events (sy_db later)) (wi_id q) = Some y"
    "work_item.truncate y = work_item.truncate (finished_change st now x)" by (auto simp: work_at_def)
  from arg_cong [OF y(2), of wi_status] st have "wi_status y \<in> {COMPLETED, IGNORED}" by (simp add: finished_change_def)
  with y(1) have y: "row_at (jd_events (sy_db later)) (wi_id q) = Some y" "wi_status y \<noteq> PROCESSING"
    "\<exists>y. work_at (jd_events (sy_db later)) (wi_id q) = Some y \<and> wi_status y \<in> {COMPLETED, IGNORED}"
    by (auto simp: work_at_def)
  show "\<exists>y. work_at (jd_events (sy_db later)) (wi_id q) = Some y \<and> wi_status y \<in> {COMPLETED, IGNORED}" by (rule y(3))
  assume same: "wi_id q' = wi_id q"
  show "sy_db (jira_step (ProcessEvent newId' outboxId' q' now') later) = sy_db later"
  proof (rule ccontr)
    assume changed: "\<not> ?thesis"
    note step' = process_step [OF changed]
    from changed have "snd (processOne newId' outboxId' q' now' (sy_db later)) \<noteq> sy_db later" unfolding step'(2) .
    from applied_by_holder [OF ok step'(1) this] y(1,2) show False by (auto simp: same lease_held_def)
  qed
qed

text \<open>The witness: a claimed event that moves the request on, tried once more.\<close>

definition event_record :: inbound_event where
  "event_record =
     \<lparr>wi_id = ''e-1'', wi_status = PROCESSING, wi_attempts = 1, wi_maxAttempts = 3, wi_nextAttemptAt = 21,
      wi_leaseToken = Some ''t-2'', wi_leaseUntil = Some 1022, wi_lastFailureCode = None,
      wi_correlationId = ''jira-hook-1'', wi_createdAt = 21, wi_updatedAt = 22,
      ie_providerEventId = Some ''p-1'', ie_eventFingerprint = ''f-1'', ie_eventType = ''jira:issue_updated'',
      ie_jiraTenantOrigin = ''https://acme.atlassian.net'', ie_jiraIssueId = ''10001'', ie_jiraIssueKey = ''AC-1'',
      ie_requestId = ''r-1'', ie_companyId = ''acme'',
      ie_normalizedPayload = payload_json (StatusPayload ''3'' ''In Progress'' (Some 20)) 20, ie_occurredAt = 20,
      ie_receivedAt = 21, ie_completedAt = None\<rparr>"

definition claimed_event :: jira_state where
  "claimed_event = linked\<lparr>sy_db := sy_db linked\<lparr>jd_events := [event_record]\<rparr>, sy_events := [event_record]\<rparr>"

definition event_done :: jira_state where
  "event_done = jira_step (ProcessEvent ''m-1'' ''n-2'' event_record 23) claimed_event"

lemma payload_status [simp]: "normalizedPayload (payload_json (StatusPayload i n (Some t)) t) = Inr (StatusPayload i n (Some t))"
  by (simp add: normalizedPayload_def payload_date_def payload_text_def field_def)

lemma claimed_event_ok: "jira_ok claimed_event"
  by (simp add: claimed_event_def linked_def quiet_portal_def event_record_def jira_ok_def jira_inv_def mirrored_def
    table_ok_def item_ok_def event_typed_def lease_tokens_def del: payload_json.simps)

lemma event_fresh: "jira_fresh (ProcessEvent ''m-1'' ''n-2'' event_record 23) claimed_event"
  by (simp add: claimed_event_def linked_def quiet_portal_def)

lemma event_done_status: "map sr_status (jd_requests (sy_db event_done)) = [IN_PROGRESS]"
  by code_simp

theorem inbound_event_applied_once_witness:
  "sy_db (jira_step (ProcessEvent ''m-2'' ''n-3'' event_record 30) event_done) = sy_db event_done"
proof -
  have "sy_db event_done \<noteq> sy_db claimed_event"
    using event_done_status by (auto simp: claimed_event_def linked_def linked_request_def)
  from inbound_event_applied_once [OF claimed_event_ok event_fresh, folded event_done_def,
      OF this, where ops = "[]" and later = event_done and q' = event_record] show ?thesis by simp
qed

section \<open>Where the code falls short\<close>

text \<open>One pass removes the inner tag only, and what is left of the outer one is a tag again.\<close>

lemma markup_survives_scrubbing: "scrubProviderText ''<<b>img src=x>'' = ''<img src=x>''"
  by code_simp

text \<open>
  The update of a status is guarded by the instant of Jira's last change, which an administrator's
  change leaves alone: a request closed between the read and the update is opened again.
\<close>

lemma closed_request_reopened:
  "let closed = claimed_event\<lparr>sy_db := snd (updateRequestStatus ''REQ-1'' CLOSED 22 (sy_db claimed_event))\<rparr>;
       (result, db') = processStatus_read linked_request (Some acme_mapping) ''n-2'' event_record ''3'' ''In Progress''
         (Some 20) 23 (sy_db closed)
   in map sr_status (jd_requests (sy_db closed)) = [CLOSED] \<and> result = Inr True \<and>
     map sr_status (jd_requests db') = [IN_PROGRESS]"
  by code_simp

text \<open>
  A comment whose issue reference can never be sent is no payload error by its message, so it is
  tried again until its attempts are used up.
\<close>

lemma invalid_comment_target_retried:
  "providerFailure (comment_thrown COMMENT_ISSUE_ID_INVALID) = (''JIRA_PROVIDER_FAILURE'', True)"
  "providerFailure (comment_thrown COMMENT_ISSUE_KEY_INVALID) = (''JIRA_PROVIDER_FAILURE'', True)"
  by code_simp+

text \<open>A failure that finds its lease lost ends the batch: the records after it are left in processing.\<close>

lemma lost_lease_leaves_jira_batch:
  assumes "process_operation nfkc sha256 category provider (newId (wi_id q)) now q p db = ((Some t, p'), db')"
    and "count_where (held_by q) (jd_operations db') \<noteq> 1"
  shows "\<exists>e. process_operations nfkc sha256 category provider newId now (q # qs) counts p db = ((Inl e, p'), db')"
proof -
  have "\<exists>e. failJiraOperation q (providerFailure t) now db' = (Inl e, db')"
    using assms(2)
    by (auto simp: failJiraOperation_def Let_def settle_operation_def in_transaction_def split: option.split sum.split)
  with assms(1) show ?thesis by auto
qed

text \<open>
  A comment that comes back as a webhook before its operation is completed is stored as a second
  message; the completion then violates the unique column and the delivery is recorded as failed.
\<close>

lemma echoed_comment_blocks_completion:
  assumes "m \<in> set (jd_messages db)" "rm_jiraCommentId m = Some c" "jo_localCommentId q = Some i" "rm_id m \<noteq> i"
  shows "\<exists>e. completeJiraCommentOperation q c now db = (Inl e, db)"
proof -
  have "\<not> unique_in rm_id rm_jiraCommentId i (Some c) (jd_messages db)" using assms by (auto simp: unique_in_def)
  then show ?thesis
    using assms(3)
    by (auto simp: completeJiraCommentOperation_def complete_comment_def in_transaction_def settle_operation_def Let_def
      split: option.split sum.split if_split)
qed

end
