(* ===== verification/JiraOverlap.thy ===== *)
theory JiraOverlap
  imports JiraIntakeProperties
begin

text \<open>
  The transaction of an inbound event under read committed isolation: it reads the request, then the
  mapping or the known comment, and writes last, and other transactions may commit in between. So a
  transaction here has three databases, the two it reads and the one it writes to; what it writes it
  writes at its commit, as its update locks the row.
\<close>

section \<open>Processing with separate reads\<close>

definition processComment_read ::
  "support_request \<Rightarrow> request_message option \<Rightarrow> string \<Rightarrow> string \<Rightarrow> inbound_event \<Rightarrow> string \<Rightarrow> string \<Rightarrow> string \<Rightarrow>
     bool \<Rightarrow> bool \<Rightarrow> ms option \<Rightarrow> ms \<Rightarrow> jira_db \<Rightarrow> (inbound_error, bool, jira_db) handled" where
  "processComment_read request existing newId outboxId record commentId body authorName public automation date now db =
     (if \<not> public \<or> automation
      then ignore_event record request ''jira.comment.ignored_private''
        [(''reasonCode'', JString (if automation then ''AUTOMATION'' else ''PRIVATE''))] now db
      else
        (case date of
           None \<Rightarrow> (Inl INBOUND_COMMENT_DATE_INVALID, db)
         | Some updatedAt \<Rightarrow>
             (case existing of
                Some m \<Rightarrow> update_comment m record request commentId body authorName updatedAt now db
              | None \<Rightarrow>
                  if list_ex (\<lambda>m. rm_jiraCommentId m = Some commentId) (jd_messages db)
                  then (Inl INBOUND_UNIQUE_VIOLATION, db)
                  else create_comment newId outboxId record request commentId body authorName updatedAt now db)))"

definition deleted_request :: "inbound_event \<Rightarrow> jira_db \<Rightarrow> support_request option" where
  "deleted_request record db =
     List.find (\<lambda>r. sr_id r = ie_requestId record \<and> sr_companyId r = ie_companyId record \<and>
       sr_jiraIssueId r = Some (ie_jiraIssueId record)) (jd_requests db)"

definition unavailable_change :: "ms \<Rightarrow> support_request \<Rightarrow> support_request" where
  "unavailable_change now r =
     r\<lparr>sr_jiraIntegrationStatus := INTEGRATION_FAILED, sr_jiraStatusName := Some ''Unavailable in Jira'',
       sr_jiraSyncAt := Some now, sr_version := sr_version r + 1, sr_updatedAt := now\<rparr>"

definition processDeleted_read ::
  "support_request option \<Rightarrow> inbound_event \<Rightarrow> ms \<Rightarrow> jira_db \<Rightarrow> (inbound_error, bool, jira_db) handled" where
  "processDeleted_read found record now db =
     (case found of
        None \<Rightarrow> (Inl INBOUND_TENANT_MAPPING_INVALID, db)
      | Some request \<Rightarrow>
          finishEvent record COMPLETED now
            (audited (event_audit record (Some (sr_publicId request)) ''jira.issue.deleted'' ''SUCCEEDED'' [])
            (set_requests (\<lambda>r. sr_id r = sr_id request) (unavailable_change now) db)))"

text \<open>The request is read in \<open>db0\<close>, the mapping and the known comment in \<open>db1\<close>; the writes go to \<open>db\<close>.\<close>

definition processOne_reads ::
  "string \<Rightarrow> string \<Rightarrow> inbound_event \<Rightarrow> ms \<Rightarrow> jira_db \<Rightarrow> jira_db \<Rightarrow> jira_db \<Rightarrow>
     (inbound_error, bool, jira_db) handled" where
  "processOne_reads newId outboxId record now db0 db1 db =
     (case normalizedPayload (ie_normalizedPayload record) of
        Inl e \<Rightarrow> (Inl e, db)
      | Inr payload \<Rightarrow>
          if \<not> jd_available db0 then (Inl INBOUND_DATABASE_UNAVAILABLE, db)
          else in_transaction (\<lambda>db.
            case payload of
              StatusPayload statusId statusName updatedAt \<Rightarrow>
                (case matching_request record db0 of
                   Inl e \<Rightarrow> (Inl e, db)
                 | Inr request \<Rightarrow>
                     processStatus_read request (List.find (\<lambda>m. jm_companyId m = ie_companyId record) (jd_mappings db1))
                       outboxId record statusId statusName updatedAt now db)
            | CommentPayload commentId body authorName public automation date \<Rightarrow>
                (case matching_request record db0 of
                   Inl e \<Rightarrow> (Inl e, db)
                 | Inr request \<Rightarrow>
                     processComment_read request (List.find (\<lambda>m. rm_jiraCommentId m = Some commentId) (jd_messages db1))
                       newId outboxId record commentId body authorName public automation date now db)
            | DeletedPayload \<Rightarrow> processDeleted_read (deleted_request record db0) record now db) db)"

text \<open>A transaction nobody interrupts is \<open>processOne\<close>.\<close>

lemma processOne_alone: "processOne_reads newId outboxId q now db db db = processOne newId outboxId q now db"
proof -
  have comment: "processComment_read request (List.find (\<lambda>m. rm_jiraCommentId m = Some cid) (jd_messages d))
      newId outboxId q cid body author public automation date now d =
      (if \<not> public \<or> automation
       then ignore_event q request ''jira.comment.ignored_private''
         [(''reasonCode'', JString (if automation then ''AUTOMATION'' else ''PRIVATE''))] now d
       else (case date of
           None \<Rightarrow> (Inl INBOUND_COMMENT_DATE_INVALID, d)
         | Some t \<Rightarrow>
             (case List.find (\<lambda>m. rm_jiraCommentId m = Some cid) (jd_messages d) of
                Some existing \<Rightarrow> update_comment existing q request cid body author t now d
              | None \<Rightarrow> create_comment newId outboxId q request cid body author t now d)))"
    for request cid body author public automation date d
    by (auto simp: processComment_read_def find_None_iff list_ex_iff split: option.split)
  show ?thesis
    unfolding processOne_reads_def processOne_def in_transaction_def
    by (auto simp: comment processStatus_def processComment_def processDeleted_def processDeleted_read_def
        deleted_request_def unavailable_change_def [abs_def] split: sum.split inbound_payload.split option.split)
qed

section \<open>What other transactions leave alone\<close>

text \<open>Requests keep their company, messages their request and their kind of author; no row disappears.\<close>

definition requests_kept :: "support_request list \<Rightarrow> support_request list \<Rightarrow> bool" where
  "requests_kept Q Q' \<longleftrightarrow>
     (\<forall>r \<in> set Q. \<exists>r' \<in> set Q'. sr_id r' = sr_id r \<and> sr_companyId r' = sr_companyId r)"

definition messages_kept :: "request_message list \<Rightarrow> request_message list \<Rightarrow> bool" where
  "messages_kept M M' \<longleftrightarrow>
     (\<forall>m \<in> set M. \<exists>m' \<in> set M'. rm_id m' = rm_id m \<and> rm_requestId m' = rm_requestId m \<and>
        rm_authorType m' = rm_authorType m)"

definition tables_kept :: "jira_db \<Rightarrow> jira_db \<Rightarrow> bool" where
  "tables_kept db db' \<longleftrightarrow>
     requests_kept (jd_requests db) (jd_requests db') \<and> messages_kept (jd_messages db) (jd_messages db')"

lemma kept_refl [simp]: "requests_kept Q Q" "messages_kept M M" "tables_kept db db"
  by (auto simp: requests_kept_def messages_kept_def tables_kept_def)

lemma kept_add [simp]: "requests_kept Q (Q @ Q')" "messages_kept M (M @ M')"
  by (auto simp: requests_kept_def messages_kept_def)

lemma tables_kept_trans: "tables_kept db0 db1 \<Longrightarrow> tables_kept db1 db2 \<Longrightarrow> tables_kept db0 db2"
  unfolding tables_kept_def requests_kept_def messages_kept_def by metis

lemma requests_kept_update [intro!]:
  "(\<And>r. sr_id (f r) = sr_id r \<and> sr_companyId (f r) = sr_companyId r) \<Longrightarrow> requests_kept Q (update_where p f Q)"
  unfolding requests_kept_def update_where_def by (auto simp: image_iff)

lemma messages_kept_update [intro!]:
  "(\<And>m. rm_id (f m) = rm_id m \<and> rm_requestId (f m) = rm_requestId m \<and> rm_authorType (f m) = rm_authorType m) \<Longrightarrow>
     messages_kept M (update_where p f M)"
  unfolding messages_kept_def update_where_def by (auto simp: image_iff)

lemma kept_map [intro!]:
  "(\<And>r. sr_id (F r) = sr_id r \<and> sr_companyId (F r) = sr_companyId r) \<Longrightarrow> requests_kept Q (map F Q)"
  "(\<And>m. rm_id (H m) = rm_id m \<and> rm_requestId (H m) = rm_requestId m \<and> rm_authorType (H m) = rm_authorType m) \<Longrightarrow>
     messages_kept M (map H M)"
  by (auto simp: requests_kept_def messages_kept_def)

lemma tables_kept_view:
  "jira_view db' = (Q, M, Ops, E) \<Longrightarrow> requests_kept (jd_requests db) Q \<Longrightarrow> messages_kept (jd_messages db) M \<Longrightarrow>
     tables_kept db db'"
  "jira_view db' = jira_view db \<Longrightarrow> tables_kept db db'"
  by (auto simp: tables_kept_def jira_view_def)

lemma marked_kept:
  "requests_kept Q (marked_requests q status now Q)"
  "(\<And>m. rm_id (f m) = rm_id m \<and> rm_requestId (f m) = rm_requestId m \<and> rm_authorType (f m) = rm_authorType m) \<Longrightarrow>
     messages_kept M (marked_messages q f now M)"
  by (auto simp: marked_requests_def marked_messages_def split: option.split)

lemma operator_kept:
  assumes "\<And>m. rm_id (f m) = rm_id m \<and> rm_requestId (f m) = rm_requestId m \<and> rm_authorType (f m) = rm_authorType m"
  shows "tables_kept db (snd (operator_transaction i required missing change status f action result metadata now db))"
  by (cases rule: operator_effect [of i required missing change status f action result metadata now db])
    (use assms in \<open>auto simp: tables_kept_view(2) intro!: tables_kept_view(1) marked_kept\<close>)

section \<open>What the transaction writes\<close>

lemma status_shape:
  assumes "processStatus_read request mapping outboxId q sid sn at now db = (Inr b, db')"
  shows "jd_messages db' = jd_messages db \<and> jd_operations db' = jd_operations db \<and>
    (jd_requests db' = jd_requests db \<or>
     (\<exists>s t d. d = statusTransitionDecision (sr_status request) (sr_jiraUpdatedAt request) s t \<and>
        d \<noteq> STALE \<and> d \<noteq> TERMINAL_CONFLICT \<and>
        jd_requests db' = update_where (status_guard request (ie_companyId q) t) (status_change d s sid sn t now)
          (jd_requests db)))"
proof -
  consider (ignored) action metadata where "ignore_event q request action metadata now db = (Inr b, db')"
    | (applied) s t d where "d = statusTransitionDecision (sr_status request) (sr_jiraUpdatedAt request) s t"
      "d \<noteq> STALE" "d \<noteq> TERMINAL_CONFLICT"
      "status_applied outboxId q request s d now (set_requests (status_guard request (ie_companyId q) t)
        (status_change d s sid sn t now) db) = (Inr b, db')"
    using assms by (auto simp: processStatus_read_def Let_def split: option.split_asm if_split_asm)
  then show ?thesis
  proof cases
    case ignored
    from jira_view_eqD [OF ignore_effect(3) [OF this]] show ?thesis by simp
  next
    case applied
    from jira_view_eqD [OF finish_effect(3) [OF applied(4) [unfolded status_applied_def Let_def]]]
    have "jd_messages db' = jd_messages db" "jd_operations db' = jd_operations db"
      "jd_requests db' = update_where (status_guard request (ie_companyId q) t) (status_change d s sid sn t now)
        (jd_requests db)"
      by (auto simp: set_requests_def audited_def announced_def notified_def split: if_split_asm)
    with applied(1-3) show ?thesis by blast
  qed
qed

lemma comment_shape:
  assumes "processComment_read request existing newId outboxId q cid body author public automation date now db = (Inr b, db')"
  shows "jd_requests db' = jd_requests db \<and> jd_operations db' = jd_operations db \<and>
    (jd_messages db' = jd_messages db \<or>
     (\<exists>m t. existing = Some m \<and> rm_requestId m = sr_id request \<and> rm_authorType m = JIRA \<and>
        jd_messages db' = update_where (\<lambda>x. rm_id x = rm_id m)
          (\<lambda>x. x\<lparr>rm_body := body, rm_authorDisplayName := Some author, rm_jiraCommentUpdatedAt := Some t,
                 rm_updatedAt := now\<rparr>) (jd_messages db)) \<or>
     (\<exists>t. jd_messages db' = jd_messages db @ [imported_message newId q (sr_id request) cid body author t now]))"
proof -
  consider (ignored) action metadata where "ignore_event q request action metadata now db = (Inr b, db')"
    | (updated) m t where "existing = Some m" "update_comment m q request cid body author t now db = (Inr b, db')"
    | (created) t where "create_comment newId outboxId q request cid body author t now db = (Inr b, db')"
    using assms by (auto simp: processComment_read_def split: option.split_asm if_split_asm)
  then show ?thesis
  proof cases
    case ignored
    from jira_view_eqD [OF ignore_effect(3) [OF this]] show ?thesis by simp
  next
    case updated
    then show ?thesis
      by (auto simp: update_comment_def comment_imported_def set_messages_def audited_def jira_view_def
          split: if_split_asm dest!: finish_effect(3))
  next
    case created
    from jira_view_eqD [OF finish_effect(3) [OF created [unfolded create_comment_def]]] show ?thesis
      by (auto simp: comment_imported_def audited_def announced_def notified_def)
  qed
qed

lemma deleted_shape:
  assumes "processDeleted_read found q now db = (Inr b, db')"
  shows "jd_messages db' = jd_messages db \<and> jd_operations db' = jd_operations db \<and>
    (\<exists>request. found = Some request \<and>
       jd_requests db' = update_where (\<lambda>r. sr_id r = sr_id request) (unavailable_change now) (jd_requests db))"
  using assms
  by (auto simp: processDeleted_read_def set_requests_def audited_def jira_view_def
      split: option.split_asm dest!: finish_effect(3))

lemma reads_cases:
  obtains (none) "snd (processOne_reads newId outboxId q now db0 db1 db) = db"
  | (status) request mapping sid sn at b where "matching_request q db0 = Inr request"
    "processStatus_read request mapping outboxId q sid sn at now db =
       (Inr b, snd (processOne_reads newId outboxId q now db0 db1 db))"
  | (comment) request cid body author public automation date b where "matching_request q db0 = Inr request"
    "processComment_read request (List.find (\<lambda>m. rm_jiraCommentId m = Some cid) (jd_messages db1)) newId outboxId q
       cid body author public automation date now db = (Inr b, snd (processOne_reads newId outboxId q now db0 db1 db))"
  | (deleted) b where "processDeleted_read (deleted_request q db0) q now db =
      (Inr b, snd (processOne_reads newId outboxId q now db0 db1 db))"
proof (cases "snd (processOne_reads newId outboxId q now db0 db1 db) = db")
  case False
  then show ?thesis
    using status comment deleted
    by (auto simp: processOne_reads_def in_transaction_def
        split: sum.split_asm if_split_asm prod.split_asm inbound_payload.split_asm)
qed (rule none)

lemma changes_kept [simp]:
  "sr_id (status_change d s sid sn t now r) = sr_id r"
  "sr_companyId (status_change d s sid sn t now r) = sr_companyId r"
  "sr_id (unavailable_change now r) = sr_id r" "sr_companyId (unavailable_change now r) = sr_companyId r"
  by (simp_all add: status_change_def unavailable_change_def)

lemma reads_kept: "tables_kept db (snd (processOne_reads newId outboxId q now db0 db1 db))"
proof (cases rule: reads_cases [of newId outboxId q now db0 db1 db])
  case none
  then show ?thesis by simp
next
  case status
  from status_shape [OF status(2)] show ?thesis by (auto simp: tables_kept_def)
next
  case comment
  from comment_shape [OF comment(2)] show ?thesis by (auto simp: tables_kept_def)
next
  case deleted
  from deleted_shape [OF deleted] show ?thesis by (auto simp: tables_kept_def)
qed

lemma call_kept: "tables_kept db (jira_call op db)"
proof (cases op)
  case (SaveMapping nfkc i input)
  then show ?thesis by (simp add: tables_kept_view(2) mapping_view)
next
  case (CreateRequest settings input session drawn now)
  then show ?thesis
    by (cases rule: create_effect [of settings input session drawn now db]) (simp_all add: tables_kept_view)
next
  case (AddMessage settings publicId body session drawn now)
  then show ?thesis
    by (cases rule: add_effect [of settings publicId body session drawn now db])
      (auto simp: tables_kept_view(2) intro!: tables_kept_view(1))
next
  case (SetRequestStatus publicId status now)
  show ?thesis
    unfolding SetRequestStatus tables_kept_def
    by (auto simp: updateRequestStatus_def Let_def split: option.split)
next
  case (ClaimOperations n leaseMs now corr company token locked)
  show ?thesis
  proof (cases rule: claim_operations_cases [of n leaseMs now corr company token locked db])
    case (claimed records db')
    obtain records2 Ops2 where "claim_rows ''JIRA_LEASE_EXHAUSTED'' (claim_wanted corr company)
        (\<lambda>i. (wi_nextAttemptAt i, wi_createdAt i)) locked token n leaseMs now (jd_operations db) = (records2, Ops2)"
      by fastforce
    moreover from this claimed(2) have "records2 = records"
      by (simp add: claim_transaction_def Let_def)
    ultimately have "jira_view db' =
      (map (claimed_request now token (jd_operations db) Ops2) (jd_requests db),
       map (claimed_message now token (update_where (lease_exhausted now) (give_up ''JIRA_LEASE_EXHAUSTED'' now)
         (jd_operations db)) Ops2) (jd_messages db), Ops2, jd_events db)"
      using claim_tables [OF claimed(2)] by simp
    then have "tables_kept db db'"
      by (rule tables_kept_view(1)) (auto simp: claimed_request_def claimed_message_def Let_def)
    then show ?thesis by (simp add: ClaimOperations claimed(3))
  qed (simp add: ClaimOperations)
next
  case (CompleteIssue i q res now)
  then show ?thesis
    by (cases rule: complete_effect [of i q res now db])
      (auto simp: tables_kept_view(2) created_change_def intro!: tables_kept_view(1))
next
  case (CompleteComment q c now)
  then show ?thesis
    by (cases rule: comment_effect [of q c now db])
      (auto simp: tables_kept_view(2) sent_change_def intro!: tables_kept_view(1))
next
  case (FailOperation q failure now)
  then show ?thesis
    by (cases rule: fail_effect [of q failure now db])
      (auto simp: tables_kept_view(2) intro!: tables_kept_view(1) marked_kept)
next
  case (RetryOperation i now)
  show ?thesis
    unfolding RetryOperation jira_call.simps retryJiraOperation_def by (rule operator_kept) simp
next
  case (BuryOperation i now)
  show ?thesis
    unfolding BuryOperation jira_call.simps moveFailedJiraOperationToDeadLetter_def by (rule operator_kept) simp
next
  case (ReceiveWebhook p c i body signature now)
  then show ?thesis
    by (cases rule: webhook_effect [of p c i body signature now db]) (simp_all add: tables_kept_view)
next
  case (ClaimEvents n leaseMs now corr company token locked)
  then show ?thesis
    by (cases rule: claim_events_cases [of n leaseMs now corr company token locked db]) (simp_all add: tables_kept_def)
next
  case (FailEvent q message now)
  then show ?thesis
    by (cases rule: fail_event_effect [of q message now db]) (simp_all add: tables_kept_view)
next
  case (RetryEvent i now)
  then show ?thesis
    by (auto simp: retryJiraInboundEvent_def operator_update_def Let_def tables_kept_def split: option.split)
next
  case (BuryEvent i now)
  then show ?thesis
    by (auto simp: moveJiraInboundEventToDeadLetter_def operator_update_def Let_def tables_kept_def split: option.split)
next
  case (DeleteEvents days now)
  then show ?thesis
    by (auto simp: deleteExpiredJiraInboundEvents_def Let_def tables_kept_def split: option.split)
next
  case (ProcessEvent newId outboxId q now)
  then show ?thesis using reads_kept [of db newId outboxId q now db db] by (simp add: processOne_alone)
qed

section \<open>Every interleaving\<close>

text \<open>
  What may commit between a read and a write: any call of the integration, whole, and the write of any
  transaction of an inbound event whose own reads lie before.
\<close>

inductive inbound_run :: "jira_db \<Rightarrow> jira_db \<Rightarrow> bool" where
  inbound_refl: "inbound_run db db"
| inbound_call: "inbound_run db0 db \<Longrightarrow> inbound_run db0 (jira_call op db)"
| inbound_commit: "inbound_run db0 db \<Longrightarrow> inbound_run r0 r1 \<Longrightarrow> inbound_run r1 db \<Longrightarrow>
    inbound_run db0 (snd (processOne_reads newId outboxId q now r0 r1 db))"

lemma inbound_run_kept: "inbound_run db0 db \<Longrightarrow> tables_kept db0 db"
  by (induction rule: inbound_run.induct) (auto intro: tables_kept_trans call_kept reads_kept)

text \<open>What the transaction may do to a row it finds when it writes.\<close>

definition request_confined :: "inbound_event \<Rightarrow> jira_db \<Rightarrow> support_request \<Rightarrow> support_request \<Rightarrow> bool" where
  "request_confined q db0 r r' \<longleftrightarrow>
     sr_companyId r' = sr_companyId r \<and>
     (r' \<noteq> r \<longrightarrow> sr_id r = ie_requestId q \<and> sr_companyId r = ie_companyId q \<and>
        (\<exists>r0 \<in> set (jd_requests db0). sr_id r0 = sr_id r \<and> sr_companyId r0 = ie_companyId q \<and>
           sr_jiraIssueId r0 = Some (ie_jiraIssueId q))) \<and>
     (\<forall>r0. request_by (sr_id r) db0 = Some r0 \<and> terminal_status (sr_status r0) \<longrightarrow>
        sr_status r' = sr_status r \<or> terminal_status (sr_status r')) \<and>
     (\<forall>t. sr_jiraUpdatedAt r = Some t \<longrightarrow> (\<exists>t'. sr_jiraUpdatedAt r' = Some t' \<and> t \<le> t' \<and>
        (sr_status r' \<noteq> sr_status r \<longrightarrow> t < t')))"

lemma request_confined_refl [simp]: "request_confined q db0 r r"
  by (auto simp: request_confined_def)

lemma status_confined:
  assumes request: "matching_request q db0 = Inr request" and guard: "status_guard request (ie_companyId q) t r"
    and d: "d = statusTransitionDecision (sr_status request) (sr_jiraUpdatedAt request) s t" "d \<noteq> TERMINAL_CONFLICT" "d \<noteq> STALE"
  shows "request_confined q db0 r (status_change d s sid sn t now r)"
proof -
  note r0 = matching_requestD [OF request]
  have at: "request_by (ie_requestId q) db0 = Some request"
    using request by (auto simp: matching_request_def split: option.splits if_splits)
  have "terminal_status (sr_status request) \<longrightarrow> d \<noteq> APPLY \<or> terminal_status s"
    using d by (simp add: statusTransitionDecision_def split: option.split_asm if_split_asm)
  then have "terminal_status (sr_status request) \<longrightarrow>
      sr_status (status_change d s sid sn t now r) = sr_status r \<or> terminal_status (sr_status (status_change d s sid sn t now r))"
    by (simp add: status_change_def)
  moreover have "\<forall>t0. sr_jiraUpdatedAt r = Some t0 \<longrightarrow> t0 < t" using guard
    by (auto simp: status_guard_def split: option.split_asm)
  moreover have "sr_jiraUpdatedAt (status_change d s sid sn t now r) = Some t" by (simp add: status_change_def)
  ultimately show ?thesis
    using r0 at guard by (auto simp: request_confined_def request_matches_def status_guard_def)
qed

lemma deleted_confined:
  assumes "deleted_request q db0 = Some request" "r \<in> set (jd_requests db)" "sr_id r = sr_id request"
    and "tables_kept db0 db" "distinct (map sr_id (jd_requests db))"
  shows "request_confined q db0 r (unavailable_change now r)"
proof -
  from assms(1) have r0: "request \<in> set (jd_requests db0)" "sr_id request = ie_requestId q"
    "sr_companyId request = ie_companyId q" "sr_jiraIssueId request = Some (ie_jiraIssueId q)"
    by (auto simp: deleted_request_def dest!: find_SomeD)
  from assms(4) r0(1) obtain r' where "r' \<in> set (jd_requests db)" "sr_id r' = sr_id request"
    "sr_companyId r' = sr_companyId request" by (auto simp: tables_kept_def requests_kept_def)
  with distinct_key_eq [OF assms(5), of r' r] assms(2,3) have "sr_companyId r = sr_companyId request" by simp
  with r0 assms(3) show ?thesis by (auto simp: request_confined_def unavailable_change_def)
qed

lemma comment_owner:
  assumes "List.find (\<lambda>m. rm_jiraCommentId m = Some cid) (jd_messages db1) = Some m" "rm_authorType m = JIRA"
    and "x \<in> set (jd_messages db)" "rm_id x = rm_id m"
    and "tables_kept db1 db" "distinct (map rm_id (jd_messages db))"
  shows "rm_requestId x = rm_requestId m" "rm_authorType x = JIRA"
proof -
  from assms(1) have "m \<in> set (jd_messages db1)" by (auto dest!: find_SomeD)
  with assms(5) obtain x' where "x' \<in> set (jd_messages db)" "rm_id x' = rm_id m" "rm_requestId x' = rm_requestId m"
    "rm_authorType x' = rm_authorType m" by (auto simp: tables_kept_def messages_kept_def)
  with distinct_key_eq [OF assms(6), of x' x] assms(2-4)
  show "rm_requestId x = rm_requestId m" "rm_authorType x = JIRA" by simp_all
qed

text \<open>The rows after the transaction, one for each row before it, and at most one message more.\<close>

lemma reads_confined:
  assumes kept: "tables_kept db0 db" "tables_kept db1 db"
    and keys: "distinct (map sr_id (jd_requests db))" "distinct (map rm_id (jd_messages db))"
    and after: "db' = snd (processOne_reads newId outboxId q now db0 db1 db)"
  obtains F H news where "jd_requests db' = map F (jd_requests db)"
    "\<And>r. r \<in> set (jd_requests db) \<Longrightarrow> request_confined q db0 r (F r) \<and> sr_id (F r) = sr_id r"
    "jd_messages db' = map H (jd_messages db) @ news"
    "\<And>m. m \<in> set (jd_messages db) \<Longrightarrow> rm_id (H m) = rm_id m \<and>
       (H m \<noteq> m \<longrightarrow> rm_requestId m = ie_requestId q \<and> rm_authorType m = JIRA)"
    "news = [] \<or> (\<exists>m. news = [m] \<and> rm_id m = newId \<and> rm_authorType m = JIRA \<and> rm_requestId m = ie_requestId q)"
    "jd_operations db' = jd_operations db"
proof (cases rule: reads_cases [of newId outboxId q now db0 db1 db])
  case none
  then show ?thesis by (intro that [of "\<lambda>r. r" "\<lambda>m. m" "[]"]) (simp_all add: after)
next
  case (status request mapping sid sn at b)
  from status_shape [OF status(2)] consider
      "jd_requests db' = jd_requests db" "jd_messages db' = jd_messages db" "jd_operations db' = jd_operations db"
    | s t d where "d = statusTransitionDecision (sr_status request) (sr_jiraUpdatedAt request) s t" "d \<noteq> STALE"
      "d \<noteq> TERMINAL_CONFLICT" "jd_messages db' = jd_messages db" "jd_operations db' = jd_operations db"
      "jd_requests db' = update_where (status_guard request (ie_companyId q) t) (status_change d s sid sn t now) (jd_requests db)"
    unfolding after by blast
  then show ?thesis
  proof cases
    case 1
    then show ?thesis by (intro that [of "\<lambda>r. r" "\<lambda>m. m" "[]"]) simp_all
  next
    case 2
    then show ?thesis
      by (intro that [of "\<lambda>r. if status_guard request (ie_companyId q) t r then status_change d s sid sn t now r else r"
            "\<lambda>m. m" "[]"])
        (simp_all add: update_where_def status_confined [OF status(1)])
  qed
next
  case (comment request cid body author public automation date b)
  note r0 = matching_requestD [OF comment(1)]
  from comment_shape [OF comment(2)] consider
      "jd_requests db' = jd_requests db" "jd_messages db' = jd_messages db" "jd_operations db' = jd_operations db"
    | m t where "List.find (\<lambda>m. rm_jiraCommentId m = Some cid) (jd_messages db1) = Some m" "rm_requestId m = sr_id request"
      "rm_authorType m = JIRA" "jd_requests db' = jd_requests db" "jd_operations db' = jd_operations db"
      "jd_messages db' = update_where (\<lambda>x. rm_id x = rm_id m) (\<lambda>x. x\<lparr>rm_body := body, rm_authorDisplayName := Some author,
         rm_jiraCommentUpdatedAt := Some t, rm_updatedAt := now\<rparr>) (jd_messages db)"
    | t where "jd_requests db' = jd_requests db" "jd_operations db' = jd_operations db"
      "jd_messages db' = jd_messages db @ [imported_message newId q (sr_id request) cid body author t now]"
    unfolding after by blast
  then show ?thesis
  proof cases
    case 1
    then show ?thesis by (intro that [of "\<lambda>r. r" "\<lambda>m. m" "[]"]) simp_all
  next
    case 2
    let ?H = "\<lambda>x. if rm_id x = rm_id m then x\<lparr>rm_body := body, rm_authorDisplayName := Some author,
         rm_jiraCommentUpdatedAt := Some t, rm_updatedAt := now\<rparr> else x"
    show ?thesis
    proof (rule that [of "\<lambda>r. r" ?H "[]"])
      show "rm_id (?H x) = rm_id x \<and> (?H x \<noteq> x \<longrightarrow> rm_requestId x = ie_requestId q \<and> rm_authorType x = JIRA)"
        if "x \<in> set (jd_messages db)" for x
        using comment_owner [OF 2(1,3) that _ kept(2) keys(2)] 2(2) r0 by auto
    qed (simp_all add: 2 update_where_def)
  next
    case 3
    with r0 show ?thesis
      by (intro that [of "\<lambda>r. r" "\<lambda>m. m" "[imported_message newId q (sr_id request) cid body author t now]"])
        (simp_all add: imported_message_def)
  qed
next
  case (deleted b)
  from deleted_shape [OF deleted] obtain request where d: "deleted_request q db0 = Some request"
    "jd_requests db' = update_where (\<lambda>r. sr_id r = sr_id request) (unavailable_change now) (jd_requests db)"
    "jd_messages db' = jd_messages db" "jd_operations db' = jd_operations db"
    unfolding after by blast
  show ?thesis
    by (rule that [of "\<lambda>r. if sr_id r = sr_id request then unavailable_change now r else r" "\<lambda>m. m" "[]"])
      (simp_all add: d update_where_def deleted_confined [OF d(1) _ _ kept(1) keys(1)])
qed

text \<open>
  C36. An event touches nothing but the request it was stored for, whatever commits between the reads
  and the write of its transaction. At the write, every other request, every message of another
  request and every message a customer or an operator wrote stays as it is; the changed request is of
  the event's company and was, as read, the one of its issue; what is imported is marked as Jira's;
  the instant of the issue's state never goes back, and a change of the status brings a later one; and
  a request that was closed when the event read it keeps its status or gets another closed one. A
  request closed after the event has read it is not protected by the code, as
  \<open>closed_request_reopened\<close> shows. Primary keys are taken to be unique.
\<close>

theorem inbound_confined:
  assumes "inbound_run db0 db1" "inbound_run db1 db"
    and "distinct (map sr_id (jd_requests db))" "distinct (map rm_id (jd_messages db))"
    and "newId \<notin> rm_id ` set (jd_messages db)"
    and "processOne_reads newId outboxId q now db0 db1 db = (result, db')"
  shows "(\<forall>r \<in> set (jd_requests db). \<exists>r'. request_by (sr_id r) db' = Some r' \<and> sr_companyId r' = sr_companyId r \<and>
      (r' \<noteq> r \<longrightarrow> sr_id r = ie_requestId q \<and> sr_companyId r = ie_companyId q \<and>
        (\<exists>r0 \<in> set (jd_requests db0). sr_id r0 = sr_id r \<and> sr_companyId r0 = ie_companyId q \<and>
           sr_jiraIssueId r0 = Some (ie_jiraIssueId q))) \<and>
      (\<forall>r0. request_by (sr_id r) db0 = Some r0 \<and> terminal_status (sr_status r0) \<longrightarrow>
         sr_status r' = sr_status r \<or> terminal_status (sr_status r')) \<and>
      (\<forall>t. sr_jiraUpdatedAt r = Some t \<longrightarrow> (\<exists>t'. sr_jiraUpdatedAt r' = Some t' \<and> t \<le> t' \<and>
         (sr_status r' \<noteq> sr_status r \<longrightarrow> t < t')))) \<and>
    (\<forall>m \<in> set (jd_messages db). \<exists>m'. message_by (rm_id m) db' = Some m' \<and>
      (m' \<noteq> m \<longrightarrow> rm_requestId m = ie_requestId q \<and> rm_authorType m = JIRA)) \<and>
    (\<forall>m \<in> set (jd_messages db'). rm_id m \<notin> rm_id ` set (jd_messages db) \<longrightarrow>
      rm_authorType m = JIRA \<and> rm_requestId m = ie_requestId q) \<and>
    map sr_id (jd_requests db') = map sr_id (jd_requests db) \<and> jd_operations db' = jd_operations db"
    (is "(\<forall>r \<in> _. ?request r) \<and> (\<forall>m \<in> _. ?message m) \<and> (\<forall>m \<in> _. _ \<longrightarrow> ?new m) \<and> _")
proof (rule reads_confined)
  show "tables_kept db0 db" "tables_kept db1 db"
    using inbound_run_kept [OF assms(1)] inbound_run_kept [OF assms(2)] by (auto intro: tables_kept_trans)
  show "db' = snd (processOne_reads newId outboxId q now db0 db1 db)" using assms(6) by simp
  fix F H news
  assume F: "jd_requests db' = map F (jd_requests db)"
      "\<And>r. r \<in> set (jd_requests db) \<Longrightarrow> request_confined q db0 r (F r) \<and> sr_id (F r) = sr_id r"
    and H: "jd_messages db' = map H (jd_messages db) @ news"
      "\<And>m. m \<in> set (jd_messages db) \<Longrightarrow> rm_id (H m) = rm_id m \<and>
         (H m \<noteq> m \<longrightarrow> rm_requestId m = ie_requestId q \<and> rm_authorType m = JIRA)"
    and news: "news = [] \<or> (\<exists>m. news = [m] \<and> rm_id m = newId \<and> rm_authorType m = JIRA \<and> rm_requestId m = ie_requestId q)"
    and ops: "jd_operations db' = jd_operations db"
  have ids: "map sr_id (jd_requests db') = map sr_id (jd_requests db)" using F by simp
  have added: "map rm_id (jd_messages db') = map rm_id (jd_messages db) @ map rm_id news" using H by simp
  have "map rm_id news = [] \<or> map rm_id news = [newId]" using news by auto
  then have keys: "distinct (map rm_id (jd_messages db'))"
    unfolding added by (rule disjE) (simp_all only: append_Nil2 assms(4), simp add: assms(4,5))
  have "?request r" if r: "r \<in> set (jd_requests db)" for r
  proof -
    have "F r \<in> set (jd_requests db')" using r by (simp add: F(1))
    then have "request_by (sr_id (F r)) db' = Some (F r)"
      unfolding request_by_def by (rule find_key [OF assms(3) [folded ids]])
    with F(2) [OF r] have "request_by (sr_id r) db' = Some (F r)" "request_confined q db0 r (F r)" by simp_all
    then show ?thesis unfolding request_confined_def by (intro exI [of _ "F r"]) (rule conjI)
  qed
  moreover have "?message m" if m: "m \<in> set (jd_messages db)" for m
  proof -
    have "H m \<in> set (jd_messages db')" using m by (simp add: H(1))
    then have "message_by (rm_id (H m)) db' = Some (H m)" unfolding message_by_def by (rule find_key [OF keys])
    then show ?thesis using H(2) [OF m] by auto
  qed
  moreover have "?new m" if "m \<in> set (jd_messages db')" "rm_id m \<notin> rm_id ` set (jd_messages db)" for m
    using that H news by (auto simp: image_iff)
  ultimately show ?thesis using ids ops by blast
qed (rule assms)+

text \<open>The witness: an operator changes the status between the read of an event and its write.\<close>

definition reviewed :: jira_db where
  "reviewed = jira_call (SetRequestStatus ''REQ-1'' WAITING_CUSTOMER 22) (sy_db claimed_event)"

theorem inbound_confined_witness:
  "\<exists>r'. request_by ''r-1'' (snd (processOne_reads ''m-1'' ''n-2'' event_record 23 (sy_db claimed_event) (sy_db claimed_event) reviewed)) =
      Some r' \<and> sr_companyId r' = ''acme'' \<and> sr_status r' = IN_PROGRESS"
proof -
  let ?after = "processOne_reads ''m-1'' ''n-2'' event_record 23 (sy_db claimed_event) (sy_db claimed_event) reviewed"
  have run: "inbound_run (sy_db claimed_event) reviewed"
    unfolding reviewed_def by (intro inbound_call inbound_refl)
  have rows: "map sr_id (jd_requests reviewed) = [''r-1'']" "map sr_companyId (jd_requests reviewed) = [''acme'']"
    "jd_messages reviewed = []" "map sr_status (jd_requests (snd ?after)) = [IN_PROGRESS]"
    by code_simp+
  then have keys: "distinct (map sr_id (jd_requests reviewed))" "distinct (map rm_id (jd_messages reviewed))"
    "''m-1'' \<notin> rm_id ` set (jd_messages reviewed)" by simp_all
  obtain r where r: "r \<in> set (jd_requests reviewed)" "sr_id r = ''r-1''" "sr_companyId r = ''acme''"
    using rows(1,2) by (auto simp: map_eq_Cons_conv)
  have after: "?after = (fst ?after, snd ?after)" by simp
  from bspec [OF conjunct1 [OF inbound_confined [OF inbound_refl run keys after]] r(1)] r(2,3)
  obtain r' where r': "request_by ''r-1'' (snd ?after) = Some r'" "sr_companyId r' = ''acme''" by auto
  then have "r' \<in> set (jd_requests (snd ?after))" by (auto simp: request_by_def dest: find_SomeD)
  with rows(4) have "sr_status r' = IN_PROGRESS" by auto
  with r' show ?thesis by blast
qed

end
