(* ===== verification/Totp.thy ===== *)
theory Totp
  imports Prelude "HOL-Library.Word"
begin

unbundle bit_operations_syntax

text \<open>
  One-time codes (\<open>lib/mfa.ts\<close>): the base32 form of a secret, with the 32-bit accumulators of the
  source, the code of a counter and its verification, and recovery codes. HMAC, SHA-256 and the
  random bytes are arguments.
\<close>

type_synonym byte = "8 word"

section \<open>Base 32\<close>

definition BASE32_ALPHABET :: string where
  "BASE32_ALPHABET = ''ABCDEFGHIJKLMNOPQRSTUVWXYZ234567''"

definition base32_char :: "32 word \<Rightarrow> char" where
  "base32_char w = BASE32_ALPHABET ! unat (w AND 31)"

text \<open>The inner loop, which takes groups of five bits off the accumulator.\<close>

fun emit_fives :: "32 word \<Rightarrow> nat \<Rightarrow> string \<times> nat" where
  "emit_fives v bits =
     (if bits < 5 then ([], bits)
      else let (s, rest) = emit_fives v (bits - 5) in (base32_char (drop_bit (bits - 5) v) # s, rest))"

declare emit_fives.simps [simp del]

fun base32_bytes :: "32 word \<Rightarrow> nat \<Rightarrow> byte list \<Rightarrow> string" where
  "base32_bytes v bits [] = (if 0 < bits then [base32_char (push_bit (5 - bits) v)] else [])"
| "base32_bytes v bits (b # bs) =
     (let v' = push_bit 8 v OR ucast b;
          (s, rest) = emit_fives v' (bits + 8) in
      s @ base32_bytes v' rest bs)"

definition base32Encode :: "byte list \<Rightarrow> string" where
  "base32Encode bytes = base32_bytes 0 0 bytes"

fun alphabet_index :: "string \<Rightarrow> char \<Rightarrow> nat option" where
  "alphabet_index [] c = None"
| "alphabet_index (a # as) c = (if a = c then Some 0 else map_option Suc (alphabet_index as c))"

text \<open>\<open>toUpperCase\<close> on one-byte characters: the sharp s has no capital letter of its own.\<close>

definition upper_text :: "string \<Rightarrow> string" where
  "upper_text s = concat (map (\<lambda>c.
     if code c = 223 then ''SS''
     else if is_lower_case c \<or> 224 \<le> code c \<and> code c \<le> 254 \<and> code c \<noteq> 247 then [char_of (code c - 32)] else [c]) s)"

definition base32_text :: "string \<Rightarrow> string" where
  "base32_text s = filter (\<lambda>c. \<not> is_space c) (rev (dropWhile (\<lambda>c. c = CHR ''='') (rev (upper_text s))))"

fun base32_fold :: "32 word \<Rightarrow> nat \<Rightarrow> string \<Rightarrow> byte list option" where
  "base32_fold accumulator bits [] = Some []"
| "base32_fold accumulator bits (c # cs) =
     (case alphabet_index BASE32_ALPHABET c of
        None \<Rightarrow> None
      | Some i \<Rightarrow>
          let accumulator' = push_bit 5 accumulator OR word_of_nat i; bits' = bits + 5 in
          if 8 \<le> bits'
          then map_option ((#) (ucast (drop_bit (bits' - 8) accumulator'))) (base32_fold accumulator' (bits' - 8) cs)
          else base32_fold accumulator' bits' cs)"

definition base32Decode :: "string \<Rightarrow> byte list option" where
  "base32Decode s = base32_fold 0 0 (base32_text s)"

section \<open>Bits\<close>

text \<open>The low bits of a word, the highest first.\<close>

definition low_bits :: "nat \<Rightarrow> 'a::len word \<Rightarrow> bool list" where
  "low_bits n w = map (bit w) (rev [0..<n])"

lemma length_low_bits [simp]: "length (low_bits n w) = n"
  by (simp add: low_bits_def)

lemma low_bits_0 [simp]: "low_bits 0 w = []"
  by (simp add: low_bits_def)

lemma nth_low_bits: "i < n \<Longrightarrow> low_bits n w ! i = bit w (n - 1 - i)"
  by (simp add: low_bits_def rev_nth)

lemma low_bits_add: "low_bits (n + m) w = low_bits n (drop_bit m w) @ low_bits m w"
  by (rule nth_equalityI) (auto simp: nth_low_bits nth_append bit_drop_bit_eq intro!: arg_cong [where f = "bit w"])

lemma low_bits_push:
  fixes v :: "32 word" and b :: "'a::len word"
  assumes "n + m \<le> 32" "\<And>k. m \<le> k \<Longrightarrow> \<not> bit b k"
  shows "low_bits (n + m) (push_bit m v OR ucast b) = low_bits n v @ low_bits m b"
proof (rule nth_equalityI)
  fix i assume "i < length (low_bits (n + m) (push_bit m v OR ucast b))"
  then show "low_bits (n + m) (push_bit m v OR ucast b) ! i = (low_bits n v @ low_bits m b) ! i"
    using assms by (auto simp: nth_low_bits nth_append bit_or_iff bit_push_bit_iff bit_ucast_iff add.commute [of m n]
      intro!: arg_cong [where f = "bit v"] arg_cong [where f = "bit b"])
qed simp

lemma low_bits_inj: "low_bits LENGTH('a::len) (v :: 'a word) = low_bits LENGTH('a) w \<Longrightarrow> v = w"
proof (rule bit_word_eqI)
  fix n assume eq: "low_bits LENGTH('a) v = low_bits LENGTH('a) w" and n: "n < LENGTH('a)"
  have "low_bits LENGTH('a) v ! (LENGTH('a) - 1 - n) = low_bits LENGTH('a) w ! (LENGTH('a) - 1 - n)" using eq by simp
  with n show "bit v n = bit w n" by (simp add: nth_low_bits)
qed


section \<open>The round trip\<close>

lemma alphabet_index_nth:
  "i < 32 \<Longrightarrow> alphabet_index BASE32_ALPHABET (BASE32_ALPHABET ! i) = Some i"
proof -
  have "list_all (\<lambda>i. alphabet_index BASE32_ALPHABET (BASE32_ALPHABET ! i) = Some i) [0..<32]" by code_simp
  then show "i < 32 \<Longrightarrow> alphabet_index BASE32_ALPHABET (BASE32_ALPHABET ! i) = Some i" by (auto simp: list_all_iff)
qed

lemma and_31_less: "unat ((w :: 32 word) AND 31) < 32"
proof -
  have "w AND 31 \<le> 31" by (rule word_and_le1)
  then show ?thesis by (simp add: word_le_nat_alt)
qed

lemma index_of_char: "alphabet_index BASE32_ALPHABET (base32_char w) = Some (unat (w AND 31))"
  unfolding base32_char_def by (rule alphabet_index_nth [OF and_31_less])

definition fives :: "string \<Rightarrow> bool list" where
  "fives s = concat (map (\<lambda>c. low_bits 5 (word_of_nat (the (alphabet_index BASE32_ALPHABET c)) :: 32 word)) s)"

lemma fives_simps [simp]:
  "fives [] = []" "fives (s @ t) = fives s @ fives t" "fives (base32_char w # s) = low_bits 5 w @ fives s"
proof -
  have "low_bits 5 (w AND 31) = low_bits 5 w"
    by (rule nth_equalityI) (auto simp: nth_low_bits bit_and_iff bit_numeral_word_iff less_Suc_eq numeral_eq_Suc)
  then show "fives (base32_char w # s) = low_bits 5 w @ fives s"
    by (simp add: fives_def index_of_char)
qed (simp_all add: fives_def)

text \<open>What is pending in the accumulator comes first, and less than five zeros are added at the end.\<close>

lemma emit_fives_bits:
  "bits \<le> 32 \<Longrightarrow> (case emit_fives v bits of (s, rest) \<Rightarrow> rest < 5 \<and> fives s @ low_bits rest v = low_bits bits v)"
proof (induction v bits rule: emit_fives.induct)
  case (1 v bits)
  show ?case
  proof (cases "bits < 5")
    case False
    obtain s rest where e: "emit_fives v (bits - 5) = (s, rest)" by fastforce
    from "1.IH" [OF False] "1.prems" e have "rest < 5" "fives s @ low_bits rest v = low_bits (bits - 5) v" by auto
    moreover have "low_bits bits v = low_bits 5 (drop_bit (bits - 5) v) @ low_bits (bits - 5) v"
      using low_bits_add [of 5 "bits - 5" v] False by simp
    ultimately show ?thesis using False e by (subst emit_fives.simps) simp
  qed (simp add: emit_fives.simps)
qed

lemma bit_byte: "8 \<le> k \<Longrightarrow> \<not> bit (b :: byte) k"
  using bit_imp_le_length [of b k] by auto

lemma encoded_bits:
  "bits < 5 \<Longrightarrow> \<exists>pad < 5. fives (base32_bytes v bits bs) =
     low_bits bits v @ concat (map (low_bits 8) bs) @ replicate pad False"
proof (induction bs arbitrary: v bits)
  case Nil
  show ?case
  proof (cases "bits = 0")
    case False
    have "low_bits 5 (push_bit (5 - bits) v) = low_bits bits v @ replicate (5 - bits) False"
      using Nil by (intro nth_equalityI)
        (auto simp: nth_low_bits nth_append bit_push_bit_iff intro!: arg_cong [where f = "bit v"])
    with False show ?thesis by (intro exI [of _ "5 - bits"]) auto
  qed (intro exI [of _ 0], simp)
next
  case (Cons b bs)
  let ?v = "push_bit 8 v OR ucast b"
  obtain s rest where e: "emit_fives ?v (bits + 8) = (s, rest)" by fastforce
  have "rest < 5" "fives s @ low_bits rest ?v = low_bits (bits + 8) ?v"
    using emit_fives_bits [of "bits + 8" ?v] e Cons.prems by auto
  moreover have "low_bits (bits + 8) ?v = low_bits bits v @ low_bits 8 b"
    using Cons.prems by (intro low_bits_push bit_byte) auto
  moreover from Cons.IH [OF \<open>rest < 5\<close>, of ?v] obtain pad where "pad < 5"
    "fives (base32_bytes ?v rest bs) = low_bits rest ?v @ concat (map (low_bits 8) bs) @ replicate pad False" by blast
  ultimately show ?case using e by (intro exI [of _ pad]) (auto simp flip: append_assoc)
qed

lemma alphabet_index_bound: "alphabet_index as c = Some i \<Longrightarrow> i < length as \<and> c \<in> set as"
  by (induction as arbitrary: i) (auto split: if_split_asm)

lemma bit_index:
  assumes "i < 32" "5 \<le> k"
  shows "\<not> bit (word_of_nat i :: 32 word) k"
proof -
  have "(2 :: nat) ^ 5 \<le> 2 ^ k" using assms(2) by (rule power_increasing) simp
  with assms(1) have "i div 2 ^ k = 0" by simp
  then have "\<not> bit i k" by (simp add: bit_iff_odd)
  then show ?thesis by (simp add: bit_of_nat_iff)
qed

lemma decoded_bits:
  "base32_fold accumulator bits s = Some out \<Longrightarrow> bits < 8 \<Longrightarrow>
     \<exists>rest. length rest < 8 \<and> low_bits bits accumulator @ fives s = concat (map (low_bits 8) out) @ rest"
proof (induction s arbitrary: accumulator bits out)
  case (Cons c cs)
  from Cons.prems(1) obtain i where i: "alphabet_index BASE32_ALPHABET c = Some i" by (auto split: option.split_asm)
  let ?w = "word_of_nat i :: 32 word"
  let ?a = "push_bit 5 accumulator OR ?w"
  have "i < 32" using alphabet_index_bound [OF i] by (simp add: BASE32_ALPHABET_def)
  then have shifted: "low_bits (bits + 5) ?a = low_bits bits accumulator @ low_bits 5 ?w"
    using low_bits_push [of bits 5 ?w accumulator] Cons.prems(2) bit_index by simp
  have c: "fives (c # cs) = low_bits 5 ?w @ fives cs" by (simp add: fives_def i)
  show ?case
  proof (cases "8 \<le> bits + 5")
    case True
    with Cons.prems i obtain out' where out: "out = ucast (drop_bit (bits + 5 - 8) ?a) # out'"
      "base32_fold ?a (bits + 5 - 8) cs = Some out'" by (auto simp: Let_def)
    have "bits + 5 - 8 < 8" using Cons.prems(2) by simp
    from Cons.IH [OF out(2) this] obtain rest where rest: "length rest < 8"
      "low_bits (bits + 5 - 8) ?a @ fives cs = concat (map (low_bits 8) out') @ rest" by blast
    have split: "low_bits (bits + 5) ?a = low_bits 8 (drop_bit (bits + 5 - 8) ?a) @ low_bits (bits + 5 - 8) ?a"
      using low_bits_add [of 8 "bits + 5 - 8" ?a] True by (simp add: add.commute [of 5])
    have narrow: "low_bits 8 (drop_bit (bits + 5 - 8) ?a) = low_bits 8 (ucast (drop_bit (bits + 5 - 8) ?a) :: byte)"
      by (rule nth_equalityI) (auto simp: nth_low_bits bit_ucast_iff)
    have "low_bits bits accumulator @ fives (c # cs) = low_bits (bits + 5) ?a @ fives cs"
      by (simp only: c shifted append_assoc)
    also have "\<dots> = low_bits 8 (ucast (drop_bit (bits + 5 - 8) ?a) :: byte) @ low_bits (bits + 5 - 8) ?a @ fives cs"
      by (simp only: split narrow append_assoc)
    also have "\<dots> = concat (map (low_bits 8) out) @ rest" by (simp only: rest(2) out(1) list.map concat.simps append_assoc)
    finally show ?thesis using rest(1) by blast
  next
    case False
    with Cons.prems i have "base32_fold ?a (bits + 5) cs = Some out" by (simp add: Let_def)
    from Cons.IH [OF this] False shifted c show ?thesis by (auto simp flip: append_assoc)
  qed
qed (auto intro: exI [of _ "low_bits _ _"])

lemma encoded_text:
  "bits < 5 \<Longrightarrow> list_all (\<lambda>c. alphabet_index BASE32_ALPHABET c \<noteq> None) (base32_bytes v bits bs)"
proof -
  have emitted: "list_all (\<lambda>c. alphabet_index BASE32_ALPHABET c \<noteq> None) (fst (emit_fives v bits))" for v bits
    by (induction v bits rule: emit_fives.induct) (subst emit_fives.simps, auto simp: index_of_char split: prod.split)
  show "bits < 5 \<Longrightarrow> list_all (\<lambda>c. alphabet_index BASE32_ALPHABET c \<noteq> None) (base32_bytes v bits bs)"
  proof (induction bs arbitrary: v bits)
    case (Cons b bs)
    obtain s rest where e: "emit_fives (push_bit 8 v OR ucast b) (bits + 8) = (s, rest)" by fastforce
    from emit_fives_bits [of "bits + 8" "push_bit 8 v OR ucast b"] Cons.prems e have "rest < 5" by simp
    from Cons.IH [OF this] emitted [of "push_bit 8 v OR ucast b" "bits + 8"] e show ?case by simp
  qed (simp add: index_of_char)
qed

lemma decoded_text:
  "list_all (\<lambda>c. alphabet_index BASE32_ALPHABET c \<noteq> None) s \<Longrightarrow> \<exists>out. base32_fold v bits s = Some out"
  by (induction s arbitrary: v bits) (auto simp: Let_def)

lemma alphabet_plain:
  assumes "alphabet_index BASE32_ALPHABET c \<noteq> None"
  shows "\<not> is_space c \<and> c \<noteq> CHR ''='' \<and> upper_text [c] = [c]"
proof -
  from assms obtain i where "alphabet_index BASE32_ALPHABET c = Some i" by blast
  then have "c \<in> set BASE32_ALPHABET" using alphabet_index_bound by blast
  moreover have "list_all (\<lambda>c. \<not> is_space c \<and> c \<noteq> CHR ''='' \<and> upper_text [c] = [c]) BASE32_ALPHABET" by code_simp
  ultimately show ?thesis by (simp add: list_all_iff)
qed

lemma base32_text_plain:
  assumes "list_all (\<lambda>c. alphabet_index BASE32_ALPHABET c \<noteq> None) s"
  shows "base32_text s = s"
proof -
  have plain: "\<not> is_space c \<and> c \<noteq> CHR ''='' \<and> upper_text [c] = [c]" if "c \<in> set s" for c
    using assms that by (intro alphabet_plain) (auto simp: list_all_iff)
  then have "upper_text s = concat (map (\<lambda>c. [c]) s)"
    unfolding upper_text_def by (intro arg_cong [where f = concat] map_cong) (auto simp: upper_text_def)
  then have "upper_text s = s" by simp
  moreover have "dropWhile (\<lambda>c. c = CHR ''='') (rev s) = rev s"
    using plain by (intro dropWhile_eq_self_iff [THEN iffD2]) (metis hd_in_set set_rev)
  moreover have "filter (\<lambda>c. \<not> is_space c) s = s" using plain by simp
  ultimately show ?thesis by (simp add: base32_text_def)
qed

lemma concat_low_bits_inj:
  "concat (map (low_bits 8) bs) = concat (map (low_bits 8) (cs :: byte list)) \<Longrightarrow> bs = cs"
proof (induction bs arbitrary: cs)
  case Nil
  then show ?case by (cases cs) (auto simp flip: length_0_conv)
next
  case (Cons b bs)
  then obtain c cs' where cs: "cs = c # cs'" by (cases cs) (auto simp flip: length_0_conv)
  with Cons.prems have "low_bits 8 b = low_bits 8 c" "concat (map (low_bits 8) bs) = concat (map (low_bits 8) cs')" by auto
  with Cons.IH low_bits_inj [of b c] cs show ?case by simp
qed

lemma base32_roundtrip: "base32Decode (base32Encode bytes) = Some bytes"
proof -
  let ?s = "base32Encode bytes"
  have ok: "list_all (\<lambda>c. alphabet_index BASE32_ALPHABET c \<noteq> None) ?s"
    unfolding base32Encode_def by (rule encoded_text) simp
  obtain out where out: "base32_fold 0 0 ?s = Some out" using decoded_text [OF ok] by blast
  obtain pad where pad: "pad < 5" "fives ?s = concat (map (low_bits 8) bytes) @ replicate pad False"
    using encoded_bits [of 0 0 bytes] by (auto simp: base32Encode_def)
  obtain rest where rest: "length rest < 8" "fives ?s = concat (map (low_bits 8) out) @ rest"
    using decoded_bits [OF out] by auto
  have bits: "length (concat (map (low_bits 8) xs)) = 8 * length xs" for xs :: "byte list"
    by (induction xs) simp_all
  have "8 * length bytes + pad = 8 * length out + length rest"
    using arg_cong [OF pad(2) [unfolded rest(2)], of length] by (simp add: bits)
  with pad(1) rest(1) have "length bytes = length out" by presburger
  with pad(2) rest(2) have "concat (map (low_bits 8) bytes) = concat (map (low_bits 8) out)"
    by (metis append_eq_append_conv bits)
  from concat_low_bits_inj [OF this] out show ?thesis
    unfolding base32Decode_def base32_text_plain [OF ok] by simp
qed

section \<open>The code of a counter\<close>

datatype totp_error = TOTP_SECRET_INVALID | TOTP_COUNTER_INVALID

definition counter_bytes :: "int \<Rightarrow> byte list" where
  "counter_bytes counter = map (\<lambda>i. word_of_int (counter div 256 ^ (7 - i))) [0..<8]"

text \<open>The truncation of a digest; its highest bit is masked, so the number is never negative.\<close>

definition totp_binary :: "byte list \<Rightarrow> 32 word" where
  "totp_binary digest =
     (let offset = unat (last digest AND 15) in
      push_bit 24 (ucast (digest ! offset AND 127)) OR push_bit 16 (ucast (digest ! (offset + 1))) OR
      push_bit 8 (ucast (digest ! (offset + 2))) OR ucast (digest ! (offset + 3)))"

text \<open>\<open>String(n).padStart(6, '0')\<close> of a number below a million.\<close>

definition six_digits :: "int \<Rightarrow> string" where
  "six_digits n = map (\<lambda>k. char_of (48 + nat (n div 10 ^ k mod 10))) [5, 4, 3, 2, 1, 0]"

definition totpAtCounter ::
  "(byte list \<Rightarrow> byte list \<Rightarrow> byte list) \<Rightarrow> string \<Rightarrow> int \<Rightarrow> totp_error + string" where
  "totpAtCounter hmac secret counter =
     (if \<not> safe_integer counter \<or> counter < 0 then Inl TOTP_COUNTER_INVALID
      else case base32Decode secret of
        None \<Rightarrow> Inl TOTP_SECRET_INVALID
      | Some key \<Rightarrow> Inr (six_digits (uint (totp_binary (hmac key (counter_bytes counter))) mod 1000000)))"

definition OTP :: "string \<Rightarrow> bool" where
  "OTP s \<longleftrightarrow> length s = 6 \<and> list_all is_digit s"

fun try_counters :: "(int \<Rightarrow> totp_error + string) \<Rightarrow> string \<Rightarrow> int \<Rightarrow> int list \<Rightarrow> totp_error + int option" where
  "try_counters expected otp lastUsed [] = Inr None"
| "try_counters expected otp lastUsed (counter # counters) =
     (if counter < 0 \<or> counter \<le> lastUsed then try_counters expected otp lastUsed counters
      else case expected counter of
        Inl e \<Rightarrow> Inl e
      | Inr s \<Rightarrow> if s = otp then Inr (Some counter) else try_counters expected otp lastUsed counters)"

definition verifyTotp ::
  "(byte list \<Rightarrow> byte list \<Rightarrow> byte list) \<Rightarrow> string \<Rightarrow> string \<Rightarrow> ms \<Rightarrow> int option \<Rightarrow> totp_error + int option" where
  "verifyTotp hmac secret otp now lastUsedCounter =
     (if \<not> OTP otp then Inr None
      else let nowCounter = now div 30000 in
        try_counters (totpAtCounter hmac secret) otp (case lastUsedCounter of None \<Rightarrow> - 1 | Some c \<Rightarrow> c)
          [nowCounter - 1 .. nowCounter + 1])"

text \<open>A code is accepted for a counter next to the present one that comes after the last one used.\<close>

lemma try_counters_sound:
  "try_counters expected otp lastUsed counters = Inr (Some c) \<Longrightarrow>
     c \<in> set counters \<and> 0 \<le> c \<and> lastUsed < c \<and> expected c = Inr otp"
  by (induction counters) (auto split: if_split_asm sum.split_asm)

lemma verifyTotp_sound:
  assumes "verifyTotp hmac secret otp now lastUsedCounter = Inr (Some c)"
  shows "OTP otp" "totpAtCounter hmac secret c = Inr otp" "\<bar>c - now div 30000\<bar> \<le> 1" "0 \<le> c"
    "lastUsedCounter = Some l \<Longrightarrow> l < c"
proof -
  from assms show "OTP otp" by (simp add: verifyTotp_def split: if_split_asm)
  with assms have "try_counters (totpAtCounter hmac secret) otp (case lastUsedCounter of None \<Rightarrow> - 1 | Some c \<Rightarrow> c)
      [now div 30000 - 1 .. now div 30000 + 1] = Inr (Some c)" by (simp add: verifyTotp_def Let_def)
  from try_counters_sound [OF this]
  show "totpAtCounter hmac secret c = Inr otp" "\<bar>c - now div 30000\<bar> \<le> 1" "0 \<le> c"
    "lastUsedCounter = Some l \<Longrightarrow> l < c" by auto
qed

lemma six_digits_OTP: "OTP (six_digits n)"
proof -
  have "is_digit (char_of (48 + nat (m mod 10)))" for m
  proof -
    have "nat (m mod 10) < 10" by (simp add: nat_less_iff)
    then have "of_char (char_of (48 + nat (m mod 10)) :: char) = 48 + nat (m mod 10)" by simp
    with \<open>nat (m mod 10) < 10\<close> show ?thesis unfolding is_digit_def code_def by simp
  qed
  then show ?thesis by (simp add: OTP_def six_digits_def)
qed

section \<open>Recovery codes\<close>

definition normalizeRecoveryCode :: "string \<Rightarrow> string" where
  "normalizeRecoveryCode s = upper_text (filter is_alnum s)"

definition hashRecoveryCode :: "(string \<Rightarrow> string) \<Rightarrow> string \<Rightarrow> string" where
  "hashRecoveryCode sha256 s = sha256 (normalizeRecoveryCode s)"

text \<open>\<open>drawn\<close> are the base64url forms of the random bytes.\<close>

definition recovery_code :: "string \<Rightarrow> string" where
  "recovery_code encoded =
     (let letters = upper_text (filter (\<lambda>c. c \<noteq> CHR ''-'' \<and> c \<noteq> CHR ''_'') encoded);
          s = take 12 (letters @ replicate (12 - length letters) CHR ''X'') in
      take 4 s @ ''-'' @ take 4 (drop 4 s) @ ''-'' @ drop 8 s)"

definition generateRecoveryCodes :: "string list \<Rightarrow> string list option" where
  "generateRecoveryCodes drawn =
     (if 1 \<le> length drawn \<and> length drawn \<le> 20 then Some (map recovery_code drawn) else None)"

end
