(* ===== verification/IdentitySecrets.thy ===== *)
theory IdentitySecrets
  imports Totp
begin

text \<open>
  Secrets at rest: the encrypted form of TOTP and OIDC secrets with its key versions
  (\<open>lib/identity-encryption.ts\<close>, \<open>encryptTotpSecret\<close> and \<open>decryptTotpSecret\<close> of \<open>lib/mfa.ts\<close>), and
  password hashes with the policy on new passwords (\<open>lib/password.ts\<close>). The functions of
  \<open>node:crypto\<close>, the encodings of \<open>Buffer\<close>, \<open>JSON.parse\<close>, \<open>Number\<close> and Unicode normalization are
  the fields of a parameter; random bytes are arguments.
\<close>

section \<open>The platform\<close>

text \<open>
  \<open>cr_seal\<close> is AES-256-GCM on key, initialization vector, additional data and plaintext, with the
  ciphertext and the tag as result; \<open>cr_open\<close> is None where \<open>final\<close> throws. \<open>cr_number\<close> is None for
  what is not an integer.
\<close>

record crypto =
  cr_hmac :: "byte list \<Rightarrow> byte list \<Rightarrow> byte list"
  cr_sha256 :: "string \<Rightarrow> string"
  cr_base64url :: "byte list \<Rightarrow> string"
  cr_from_base64url :: "string \<Rightarrow> byte list"
  cr_from_hex :: "string \<Rightarrow> byte list"
  cr_seal :: "byte list \<Rightarrow> byte list \<Rightarrow> string \<Rightarrow> string \<Rightarrow> byte list \<times> byte list"
  cr_open :: "byte list \<Rightarrow> byte list \<Rightarrow> string option \<Rightarrow> byte list \<Rightarrow> byte list \<Rightarrow> string option"
  cr_scrypt :: "string \<Rightarrow> byte list \<Rightarrow> int \<Rightarrow> byte list option"
  cr_pbkdf2 :: "string \<Rightarrow> string \<Rightarrow> int \<Rightarrow> byte list option"
  cr_nfkc :: "string \<Rightarrow> string"
  cr_number :: "string \<Rightarrow> int option"
  cr_json :: "string \<Rightarrow> json option"

text \<open>
  What the round trips rely on: base64url texts are read back, have no full stop and no dollar sign
  and are empty only for no bytes; an authentic message opens to what was sealed, a ciphertext is
  empty only for the empty text and a tag never is; digests have the length asked for; numerals are
  read.
\<close>

definition crypto_ok :: "crypto \<Rightarrow> bool" where
  "crypto_ok c \<longleftrightarrow>
     (\<forall>b. cr_from_base64url c (cr_base64url c b) = b \<and> set (cr_base64url c b) \<inter> {CHR ''.'', CHR ''$''} = {} \<and>
          (cr_base64url c b = [] \<longleftrightarrow> b = [])) \<and>
     (\<forall>key iv aad text ct tag. length key = 32 \<longrightarrow> length iv = 12 \<longrightarrow> cr_seal c key iv aad text = (ct, tag) \<longrightarrow>
        cr_open c key iv (Some aad) tag ct = Some text \<and> (ct = [] \<longleftrightarrow> text = []) \<and> tag \<noteq> []) \<and>
     (\<forall>s salt cost digest. cr_scrypt c s salt cost = Some digest \<longrightarrow> length digest = 32) \<and>
     cr_number c ''32768'' = Some 32768 \<and> cr_number c ''8'' = Some 8 \<and> cr_number c ''1'' = Some 1"

fun split_on :: "char \<Rightarrow> string \<Rightarrow> string list" where
  "split_on sep [] = [[]]"
| "split_on sep (c # cs) =
     (if c = sep then [] # split_on sep cs
      else case split_on sep cs of [] \<Rightarrow> [[c]] | w # ws \<Rightarrow> (c # w) # ws)"

fun join_with :: "char \<Rightarrow> string list \<Rightarrow> string" where
  "join_with sep [] = []"
| "join_with sep [w] = w"
| "join_with sep (w # v # ws) = w @ sep # join_with sep (v # ws)"

text \<open>An element of a destructured array, undefined past its end.\<close>

definition part :: "string list \<Rightarrow> nat \<Rightarrow> string option" where
  "part ws i = (if i < length ws then Some (ws ! i) else None)"

lemma split_on_word: "sep \<notin> set w \<Longrightarrow> split_on sep w = [w]"
  by (induction w) auto

lemma split_on_append: "sep \<notin> set w \<Longrightarrow> split_on sep (w @ sep # s) = w # split_on sep s"
  by (induction w) auto

lemma split_on_join:
  "ws \<noteq> [] \<Longrightarrow> (\<And>w. w \<in> set ws \<Longrightarrow> sep \<notin> set w) \<Longrightarrow> split_on sep (join_with sep ws) = ws"
  by (induction sep ws rule: join_with.induct) (auto simp: split_on_word split_on_append)

section \<open>Encrypted secrets\<close>

datatype secret_purpose = TOTP_SECRET | OIDC_PKCE | OIDC_CLIENT_SECRET_REF

fun purpose_name :: "secret_purpose \<Rightarrow> string" where
  "purpose_name TOTP_SECRET = ''totp''"
| "purpose_name OIDC_PKCE = ''oidc-pkce''"
| "purpose_name OIDC_CLIENT_SECRET_REF = ''oidc-client-secret-ref''"

datatype secret_error =
    KEY_REQUIRED
  | KEY_LENGTH_INVALID
  | KEY_VERSION_INVALID
  | PREVIOUS_KEYS_NOT_OBJECT
  | PREVIOUS_KEYS_INVALID_ENTRY
  | SECRET_FORMAT_UNSUPPORTED
  | SECRET_KEY_UNAVAILABLE
  | SECRET_NOT_AUTHENTIC

record key_environment =
  MFA_ENCRYPTION_KEY :: "string option"
  MFA_ENCRYPTION_KEY_VERSION :: "string option"
  MFA_ENCRYPTION_PREVIOUS_KEYS :: "string option"

definition KEY_VERSION_PATTERN :: "string \<Rightarrow> bool" where
  "KEY_VERSION_PATTERN = matches is_alnum (\<lambda>c. is_alnum c \<or> contains ''._-'' c) 0 31"

definition hex_key :: "string \<Rightarrow> bool" where
  "hex_key s \<longleftrightarrow> length s = 64 \<and> list_all (\<lambda>c. is_hex (lower_char c)) s"

definition decodeKey :: "crypto \<Rightarrow> string \<Rightarrow> secret_error + byte list" where
  "decodeKey c s =
     (let trimmed = trim s;
          key = if hex_key trimmed then cr_from_hex c trimmed else cr_from_base64url c trimmed in
      if length key \<noteq> 32 then Inl KEY_LENGTH_INVALID else Inr key)"

definition keyVersion :: "key_environment \<Rightarrow> secret_error + string" where
  "keyVersion env =
     (let v = (case MFA_ENCRYPTION_KEY_VERSION env of
                 None \<Rightarrow> ''v1'' | Some s \<Rightarrow> if trim s = [] then ''v1'' else trim s) in
      if KEY_VERSION_PATTERN v then Inr v else Inl KEY_VERSION_INVALID)"

fun previous_entries ::
  "crypto \<Rightarrow> (string \<times> json) list \<Rightarrow> (string \<Rightarrow> byte list option) \<Rightarrow> secret_error + (string \<Rightarrow> byte list option)" where
  "previous_entries c [] keys = Inr keys"
| "previous_entries c ((version, encoded) # rest) keys =
     (case encoded of
        JString s \<Rightarrow>
          if \<not> KEY_VERSION_PATTERN version then Inl PREVIOUS_KEYS_INVALID_ENTRY
          else (case decodeKey c s of
                  Inl e \<Rightarrow> Inl e
                | Inr key \<Rightarrow> previous_entries c rest (keys(version \<mapsto> key)))
      | _ \<Rightarrow> Inl PREVIOUS_KEYS_INVALID_ENTRY)"

definition previousKeys :: "crypto \<Rightarrow> key_environment \<Rightarrow> secret_error + (string \<Rightarrow> byte list option)" where
  "previousKeys c env =
     (if \<not> truthy (MFA_ENCRYPTION_PREVIOUS_KEYS env) then Inr (\<lambda>_. None)
      else case cr_json c (the (MFA_ENCRYPTION_PREVIOUS_KEYS env)) of
        Some (JObject entries) \<Rightarrow> previous_entries c entries (\<lambda>_. None)
      | _ \<Rightarrow> Inl PREVIOUS_KEYS_NOT_OBJECT)"

definition getIdentityEncryptionKey :: "crypto \<Rightarrow> key_environment \<Rightarrow> secret_error + byte list \<times> string" where
  "getIdentityEncryptionKey c env =
     (if \<not> truthy (MFA_ENCRYPTION_KEY env) then Inl KEY_REQUIRED
      else case decodeKey c (the (MFA_ENCRYPTION_KEY env)) of
        Inl e \<Rightarrow> Inl e
      | Inr key \<Rightarrow> (case keyVersion env of Inl e \<Rightarrow> Inl e | Inr version \<Rightarrow> Inr (key, version)))"

definition additional_data :: "secret_purpose \<Rightarrow> string \<Rightarrow> string" where
  "additional_data purpose version = ''avantime:'' @ purpose_name purpose @ '':'' @ version"

definition encryptIdentitySecret ::
  "crypto \<Rightarrow> key_environment \<Rightarrow> byte list \<Rightarrow> string \<Rightarrow> secret_purpose \<Rightarrow> secret_error + string" where
  "encryptIdentitySecret c env iv plaintext purpose =
     (case getIdentityEncryptionKey c env of
        Inl e \<Rightarrow> Inl e
      | Inr (key, version) \<Rightarrow>
          let (ciphertext, tag) = cr_seal c key iv (additional_data purpose version) plaintext in
          Inr (join_with (CHR ''.'')
            [''v2'', version, cr_base64url c iv, cr_base64url c tag, cr_base64url c ciphertext]))"

text \<open>The key of a version: the current one, or one of the previous keys.\<close>

definition key_of_version :: "crypto \<Rightarrow> key_environment \<Rightarrow> string \<Rightarrow> secret_error + byte list" where
  "key_of_version c env version =
     (case getIdentityEncryptionKey c env of
        Inl e \<Rightarrow> Inl e
      | Inr (key, current) \<Rightarrow>
          if version = current then Inr key
          else (case previousKeys c env of
                  Inl e \<Rightarrow> Inl e
                | Inr keys \<Rightarrow> (case keys version of None \<Rightarrow> Inl SECRET_KEY_UNAVAILABLE | Some key \<Rightarrow> Inr key)))"

definition open_secret ::
  "crypto \<Rightarrow> byte list \<Rightarrow> string option \<Rightarrow> string \<Rightarrow> string \<Rightarrow> string \<Rightarrow> secret_error + string" where
  "open_secret c key aad ivText tagText ciphertextText =
     (case cr_open c key (cr_from_base64url c ivText) aad (cr_from_base64url c tagText)
             (cr_from_base64url c ciphertextText) of
        None \<Rightarrow> Inl SECRET_NOT_AUTHENTIC
      | Some s \<Rightarrow> Inr s)"

definition decryptIdentitySecret ::
  "crypto \<Rightarrow> key_environment \<Rightarrow> string \<Rightarrow> secret_purpose \<Rightarrow> secret_error + string" where
  "decryptIdentitySecret c env encrypted purpose =
     (let ws = split_on (CHR ''.'') encrypted in
      if part ws 0 \<noteq> Some ''v2'' \<or> (\<exists>i \<in> {1, 2, 3, 4}. \<not> truthy (part ws i)) then Inl SECRET_FORMAT_UNSUPPORTED
      else case key_of_version c env (ws ! 1) of
        Inl e \<Rightarrow> Inl e
      | Inr key \<Rightarrow> open_secret c key (Some (additional_data purpose (ws ! 1))) (ws ! 2) (ws ! 3) (ws ! 4))"

definition encryptTotpSecret :: "crypto \<Rightarrow> key_environment \<Rightarrow> byte list \<Rightarrow> string \<Rightarrow> secret_error + string" where
  "encryptTotpSecret c env iv secret = encryptIdentitySecret c env iv secret TOTP_SECRET"

text \<open>Secrets of the first format have no version and no additional data.\<close>

definition decryptTotpSecret :: "crypto \<Rightarrow> key_environment \<Rightarrow> string \<Rightarrow> secret_error + string" where
  "decryptTotpSecret c env encrypted =
     (let ws = split_on (CHR ''.'') encrypted in
      if part ws 0 = Some ''v2'' then decryptIdentitySecret c env encrypted TOTP_SECRET
      else if part ws 0 \<noteq> Some ''v1'' \<or> (\<exists>i \<in> {1, 2, 3}. \<not> truthy (part ws i)) then Inl SECRET_FORMAT_UNSUPPORTED
      else case getIdentityEncryptionKey c env of
        Inl e \<Rightarrow> Inl e
      | Inr (key, version) \<Rightarrow> open_secret c key None (ws ! 1) (ws ! 2) (ws ! 3))"

lemma identity_key_length: "getIdentityEncryptionKey c env = Inr (key, version) \<Longrightarrow> length key = 32"
  by (auto simp: getIdentityEncryptionKey_def decodeKey_def Let_def split: if_split_asm sum.split_asm)

lemma identity_version: "getIdentityEncryptionKey c env = Inr (key, version) \<Longrightarrow> version \<noteq> []"
  by (auto simp: getIdentityEncryptionKey_def keyVersion_def KEY_VERSION_PATTERN_def Let_def
      split: if_split_asm sum.split_asm)

lemma sealed_parts:
  assumes "crypto_ok c" "length iv = 12" "plaintext \<noteq> []"
    and "getIdentityEncryptionKey c env = Inr (key, version)" "CHR ''.'' \<notin> set version"
    and "encryptIdentitySecret c env iv plaintext purpose = Inr encrypted"
  obtains ct tag where "cr_seal c key iv (additional_data purpose version) plaintext = (ct, tag)"
    "split_on (CHR ''.'') encrypted = [''v2'', version, cr_base64url c iv, cr_base64url c tag, cr_base64url c ct]"
    "cr_open c key iv (Some (additional_data purpose version)) tag ct = Some plaintext" "ct \<noteq> []" "tag \<noteq> []"
proof -
  obtain ct tag where st: "cr_seal c key iv (additional_data purpose version) plaintext = (ct, tag)" by fastforce
  with assms(4,6) have e: "encrypted = join_with (CHR ''.'')
      [''v2'', version, cr_base64url c iv, cr_base64url c tag, cr_base64url c ct]"
    by (simp add: encryptIdentitySecret_def)
  have "CHR ''.'' \<notin> set (cr_base64url c b)" for b using assms(1) unfolding crypto_ok_def by blast
  with assms(5) have "split_on (CHR ''.'') encrypted =
      [''v2'', version, cr_base64url c iv, cr_base64url c tag, cr_base64url c ct]"
    unfolding e by (intro split_on_join) auto
  moreover have "cr_open c key iv (Some (additional_data purpose version)) tag ct = Some plaintext \<and>
      (ct = [] \<longleftrightarrow> plaintext = []) \<and> tag \<noteq> []"
    using assms(1,2) identity_key_length [OF assms(4)] st unfolding crypto_ok_def by metis
  ultimately show ?thesis using that st assms(3) by blast
qed

text \<open>A secret is read back under every later environment that still knows the key of its version.\<close>

lemma secret_read_back:
  assumes "crypto_ok c" "length iv = 12" "plaintext \<noteq> []"
    and "getIdentityEncryptionKey c env = Inr (key, version)" "CHR ''.'' \<notin> set version"
    and "encryptIdentitySecret c env iv plaintext purpose = Inr encrypted"
    and "key_of_version c env' version = Inr key"
  shows "decryptIdentitySecret c env' encrypted purpose = Inr plaintext"
proof -
  obtain ct tag where s: "split_on (CHR ''.'') encrypted =
      [''v2'', version, cr_base64url c iv, cr_base64url c tag, cr_base64url c ct]"
    "cr_open c key iv (Some (additional_data purpose version)) tag ct = Some plaintext" "ct \<noteq> []" "tag \<noteq> []"
    using sealed_parts [OF assms(1-6)] by metis
  have b: "cr_from_base64url c (cr_base64url c b) = b" "cr_base64url c b = [] \<longleftrightarrow> b = []" for b
    using assms(1) unfolding crypto_ok_def by blast+
  have "iv \<noteq> []" using assms(2) by auto
  with s identity_version [OF assms(4)] assms(7) show ?thesis
    by (simp add: decryptIdentitySecret_def part_def open_secret_def b)
qed

lemma own_key: "getIdentityEncryptionKey c env = Inr (key, version) \<Longrightarrow> key_of_version c env version = Inr key"
  by (simp add: key_of_version_def)

section \<open>Passwords\<close>

datatype password_rejection = TOO_SHORT | TOO_LONG | TOO_COMMON | CONTAINS_EMAIL

definition COMMON_PASSWORDS :: "string list" where
  "COMMON_PASSWORDS =
     [''123456789012'', ''administrator'', ''adminadminadmin'', ''avantime'', ''password'', ''password1234'',
      ''qwertyqwerty'', ''letmeinletmein'', ''welcome12345'']"

definition normalizeIdentityEmail :: "crypto \<Rightarrow> string \<Rightarrow> string" where
  "normalizeIdentityEmail c email = to_lower (cr_nfkc c (trim email))"

definition validatePasswordPolicy :: "crypto \<Rightarrow> string \<Rightarrow> string option \<Rightarrow> password_rejection option" where
  "validatePasswordPolicy c password email =
     (if length password < 12 then Some TOO_SHORT
      else if 128 < length password then Some TOO_LONG
      else let normalizedPassword = to_lower (cr_nfkc c password) in
        if contains COMMON_PASSWORDS normalizedPassword then Some TOO_COMMON
        else if truthy email then
          let normalizedEmail = normalizeIdentityEmail c (the email);
              localPart = hd (split_on (CHR ''@'') normalizedEmail) in
          if normalizedPassword = normalizedEmail \<or> 4 \<le> length localPart \<and> str_includes normalizedPassword localPart
          then Some CONTAINS_EMAIL else None
        else None)"

definition hashPassword :: "crypto \<Rightarrow> byte list \<Rightarrow> string \<Rightarrow> string option" where
  "hashPassword c salt password =
     (if 128 < length password then None
      else case cr_scrypt c password salt 32768 of
        None \<Rightarrow> None
      | Some digest \<Rightarrow> Some (join_with (CHR ''$'')
          [''scrypt'', ''v1'', ''32768'', ''8'', ''1'', cr_base64url c salt, cr_base64url c digest]))"

text \<open>The verification of a hash: whether the password is right, and whether it needs a new hash.\<close>

definition number_at :: "crypto \<Rightarrow> string list \<Rightarrow> nat \<Rightarrow> int option" where
  "number_at c ws i = Option.bind (part ws i) (cr_number c)"

definition verifyScrypt :: "crypto \<Rightarrow> string \<Rightarrow> string \<Rightarrow> bool \<times> bool" where
  "verifyScrypt c password stored =
     (let ws = split_on (CHR ''$'') stored in
      case number_at c ws 2 of
        None \<Rightarrow> (False, False)
      | Some cost \<Rightarrow>
          if part ws 0 \<noteq> Some ''scrypt'' \<or> part ws 1 \<noteq> Some ''v1'' \<or> \<not> safe_integer cost \<or> cost < 2 \<or> 32768 < cost \<or>
             cost AND (cost - 1) \<noteq> 0 \<or> number_at c ws 3 \<noteq> Some 8 \<or> number_at c ws 4 \<noteq> Some 1 \<or>
             \<not> truthy (part ws 5) \<or> \<not> truthy (part ws 6)
          then (False, False)
          else case cr_scrypt c password (cr_from_base64url c (ws ! 5)) cost of
            None \<Rightarrow> (False, False)
          | Some actual \<Rightarrow>
              let valid = (actual = cr_from_base64url c (ws ! 6)) in (valid, valid \<and> cost \<noteq> 32768))"

definition verifyLegacyPbkdf2 :: "crypto \<Rightarrow> string \<Rightarrow> string \<Rightarrow> bool \<times> bool" where
  "verifyLegacyPbkdf2 c password stored =
     (let ws = split_on (CHR ''$'') stored in
      case number_at c ws 1 of
        None \<Rightarrow> (False, False)
      | Some iterations \<Rightarrow>
          if part ws 0 \<noteq> Some ''pbkdf2'' \<or> \<not> safe_integer iterations \<or> iterations < 210000 \<or> 1000000 < iterations \<or>
             \<not> truthy (part ws 2) \<or> \<not> truthy (part ws 3)
          then (False, False)
          else case cr_pbkdf2 c password (ws ! 2) iterations of
            None \<Rightarrow> (False, False)
          | Some actual \<Rightarrow> let valid = (actual = cr_from_hex c (ws ! 3)) in (valid, valid))"

definition verifyPasswordVersioned :: "crypto \<Rightarrow> string \<Rightarrow> string \<Rightarrow> bool \<times> bool" where
  "verifyPasswordVersioned c password stored =
     (if 128 < length password then (False, False)
      else if starts_with ''scrypt$'' stored then verifyScrypt c password stored
      else if starts_with ''pbkdf2$'' stored then verifyLegacyPbkdf2 c password stored
      else (False, False))"

lemma starts_with_append: "starts_with p (p @ s)"
  by (induction p) auto

text \<open>
  A new hash accepts exactly the passwords of the allowed length with the same digest, and needs no
  replacement.
\<close>

lemma hashed_password_verifies:
  assumes "crypto_ok c" "hashPassword c salt password = Some stored" "length salt = 16"
    and "cr_scrypt c password salt 32768 = Some digest"
  shows "verifyPasswordVersioned c attempt stored =
    (length attempt \<le> 128 \<and> cr_scrypt c attempt salt 32768 = Some digest, False)"
proof -
  let ?ws = "[''scrypt'', ''v1'', ''32768'', ''8'', ''1'', cr_base64url c salt, cr_base64url c digest]"
  have stored: "stored = join_with (CHR ''$'') ?ws" using assms(2,4) by (auto simp: hashPassword_def split: if_split_asm)
  have b: "cr_from_base64url c (cr_base64url c b) = b" "cr_base64url c b = [] \<longleftrightarrow> b = []" "CHR ''$'' \<notin> set (cr_base64url c b)" for b
    using assms(1) unfolding crypto_ok_def by blast+
  have ws: "split_on (CHR ''$'') stored = ?ws" unfolding stored by (rule split_on_join) (auto simp: b(3))
  have numbers: "cr_number c ''32768'' = Some 32768" "cr_number c ''8'' = Some 8" "cr_number c ''1'' = Some 1"
    using assms(1) unfolding crypto_ok_def by blast+
  have "starts_with ''scrypt$'' stored" by (simp add: stored)
  moreover have "salt \<noteq> []" using assms(3) by auto
  moreover have "length digest = 32" using assms(1,4) unfolding crypto_ok_def by blast
  then have "digest \<noteq> []" by auto
  moreover have "(32768 :: int) AND 32767 = 0" by simp
  ultimately show ?thesis
    by (auto simp: verifyPasswordVersioned_def verifyScrypt_def ws number_at_def part_def numbers b
        safe_integer_def Let_def split: option.split)
qed

lemma policy_length: "validatePasswordPolicy c password email = None \<Longrightarrow> 12 \<le> length password \<and> length password \<le> 128"
  by (simp add: validatePasswordPolicy_def split: if_split_asm)

end
