(* ===== verification/IdentityDb.thy ===== *)
theory IdentityDb
  imports IdentitySecrets OrganizationPermissions GovernanceDb
begin

text \<open>
  The tables of identity (\<open>packages/database/prisma/schema.prisma\<close>), one record per row, the policy on
  second factors and login methods (\<open>lib/identity-policy.ts\<close>), and what the handlers read of a user.
  Tokens are stored by their hashes; identifiers and tokens are drawn outside and are arguments.
\<close>

section \<open>Rows\<close>

datatype mfa_requirement = MFA_OPTIONAL | MFA_ADMINS | MFA_ALL_MEMBERS

datatype sso_requirement = SSO_DISABLED | SSO_OPTIONAL | SSO_REQUIRED

datatype mfa_kind = TOTP | WEBAUTHN | IDP_CLAIM

datatype mfa_status = MFA_PENDING | MFA_ACTIVE | MFA_DISABLED

datatype provider_kind = LOCAL_PROVIDER | OIDC_PROVIDER | SAML_PROVIDER

datatype provider_validation =
  NOT_VALIDATED | METADATA_VALIDATED | TENANT_VALIDATED | REVALIDATION_REQUIRED | VALIDATION_FAILED

record identity_user =
  iu_id :: string
  iu_email :: string
  iu_name :: string
  iu_role :: platform_role
  iu_active :: bool
  iu_disabledAt :: "ms option"
  iu_companyId :: "string option"
  iu_passwordHash :: "string option"
  iu_emailVerifiedAt :: "ms option"

record credential_row =
  cd_userId :: string
  cd_identifierNormalized :: string
  cd_passwordHash :: string
  cd_passwordChangedAt :: ms

record login_session =
  ls_id :: string
  ls_tokenHash :: string
  ls_userId :: string
  ls_companyId :: "string option"
  ls_identityProviderId :: "string option"
  ls_lastActivityAt :: ms
  ls_expiresAt :: ms
  ls_idleExpiresAt :: ms
  ls_revokedAt :: "ms option"
  ls_rotatedFromId :: "string option"
  ls_deviceLabel :: string
  ls_authenticationAt :: ms

record login_challenge =
  lc_id :: string
  lc_tokenHash :: string
  lc_userId :: string
  lc_companyId :: "string option"
  lc_identityProviderId :: "string option"
  lc_redirectTo :: "string option"
  lc_attempts :: int
  lc_expiresAt :: ms
  lc_consumedAt :: "ms option"

record mfa_method =
  mm_id :: string
  mm_userId :: string
  mm_kind :: mfa_kind
  mm_status :: mfa_status
  mm_secretEncrypted :: "string option"
  mm_lastUsedCounter :: "int option"
  mm_confirmedAt :: "ms option"
  mm_disabledAt :: "ms option"
  mm_createdAt :: ms

record recovery_row =
  rc_id :: string
  rc_userId :: string
  rc_batchId :: string
  rc_codeHash :: string
  rc_usedAt :: "ms option"

text \<open>Tokens of password resets and of email verifications; only the latter keep a return path.\<close>

record identity_token =
  tk_id :: string
  tk_tokenHash :: string
  tk_userId :: string
  tk_redirectTo :: "string option"
  tk_expiresAt :: ms
  tk_usedAt :: "ms option"

record provider_row =
  ip_id :: string
  ip_kind :: provider_kind
  ip_companyId :: "string option"
  ip_enabled :: bool
  ip_validationStatus :: provider_validation

record external_row =
  xi_userId :: string
  xi_providerId :: string
  xi_subject :: string

record identity_policy =
  op_companyId :: string
  op_mfaRequirement :: mfa_requirement
  op_gracePeriodDays :: int
  op_enforcementAt :: "ms option"
  op_ssoRequirement :: sso_requirement
  op_ssoProviderId :: "string option"
  op_ssoEnforcementAt :: "ms option"
  op_ssoGracePeriodDays :: int
  op_localLoginAllowed :: bool
  op_updatedBy :: "string option"

record mfa_exemption =
  ex_companyId :: string
  ex_userId :: string
  ex_expiresAt :: ms

text \<open>\<open>id_available\<close> is whether \<open>getPrisma\<close> returns a client; a company is its id and its name.\<close>

record identity_db =
  id_available :: bool
  id_companies :: "(string \<times> string) list"
  id_users :: "identity_user list"
  id_credentials :: "credential_row list"
  id_memberships :: "membership_row list"
  id_assignments :: "assignment_row list"
  id_methods :: "mfa_method list"
  id_recovery :: "recovery_row list"
  id_challenges :: "login_challenge list"
  id_sessions :: "login_session list"
  id_resets :: "identity_token list"
  id_verifications :: "identity_token list"
  id_providers :: "provider_row list"
  id_externals :: "external_row list"
  id_policies :: "identity_policy list"
  id_exemptions :: "mfa_exemption list"

section \<open>Policies\<close>

datatype mfa_reason = ACTIVE_METHOD | GLOBAL_ADMIN | ORGANIZATION | NO_REQUIREMENT

record mfa_decision =
  md_challengeRequired :: bool
  md_enrollmentRequired :: bool
  md_policyRequired :: bool
  md_reason :: mfa_reason

definition day_ms :: int where
  "day_ms = 86400000"

text \<open>\<open>evaluateMfaPolicy\<close>; \<open>exemption\<close> is the instant an exemption ends at.\<close>

definition administrator :: "platform_role \<Rightarrow> organization_role option \<Rightarrow> bool" where
  "administrator role organizationRole \<longleftrightarrow>
     role = ADMIN_PLATFORM \<or> organizationRole = Some OWNER \<or> organizationRole = Some ADMIN"

definition mfa_enforced :: "identity_policy option \<Rightarrow> ms option \<Rightarrow> ms \<Rightarrow> platform_role \<Rightarrow> organization_role option \<Rightarrow> bool" where
  "mfa_enforced orgPolicy exemption now role organizationRole =
     (let exemptionActive = (case exemption of None \<Rightarrow> False | Some t \<Rightarrow> now < t) in
      \<not> exemptionActive \<and>
      (case orgPolicy of
         None \<Rightarrow> False
       | Some p \<Rightarrow>
           (case op_enforcementAt p of
              None \<Rightarrow> False
            | Some t \<Rightarrow> t \<le> now \<and> t + max 0 (op_gracePeriodDays p) * day_ms \<le> now) \<and>
           (op_mfaRequirement p = MFA_ALL_MEMBERS \<or>
            op_mfaRequirement p = MFA_ADMINS \<and> administrator role organizationRole)))"

definition evaluateMfaPolicy ::
  "platform_role \<Rightarrow> organization_role option \<Rightarrow> bool \<Rightarrow> identity_policy option \<Rightarrow> ms option \<Rightarrow> ms \<Rightarrow> bool \<Rightarrow> mfa_decision" where
  "evaluateMfaPolicy role organizationRole hasActiveMfa orgPolicy exemption now requireAdmins =
     (let organizationEnforced = mfa_enforced orgPolicy exemption now role organizationRole;
          globalAdminRequired = administrator role organizationRole \<and> requireAdmins;
          policyRequired = organizationEnforced \<or> globalAdminRequired in
      \<lparr>md_challengeRequired = hasActiveMfa,
       md_enrollmentRequired = (policyRequired \<and> \<not> hasActiveMfa),
       md_policyRequired = policyRequired,
       md_reason = (if globalAdminRequired then GLOBAL_ADMIN
                    else if organizationEnforced then ORGANIZATION
                    else if hasActiveMfa then ACTIVE_METHOD else NO_REQUIREMENT)\<rparr>)"

definition requireAdminMfa :: "string option \<Rightarrow> bool" where
  "requireAdminMfa AUTH_ADMIN_MFA_REQUIRED \<longleftrightarrow> AUTH_ADMIN_MFA_REQUIRED = Some ''true''"

datatype login_method = LocalLogin | OidcLogin "string option"

definition isOrganizationLoginMethodAllowed :: "identity_policy option \<Rightarrow> login_method \<Rightarrow> ms \<Rightarrow> bool" where
  "isOrganizationLoginMethodAllowed orgPolicy login now =
     (case orgPolicy of
        None \<Rightarrow> login = LocalLogin
      | Some p \<Rightarrow>
          if op_ssoRequirement p = SSO_DISABLED then login = LocalLogin
          else case login of
            OidcLogin providerId \<Rightarrow> same_present (op_ssoProviderId p) providerId
          | LocalLogin \<Rightarrow>
              if \<not> op_localLoginAllowed p then False
              else if op_ssoRequirement p \<noteq> SSO_REQUIRED then True
              else case op_ssoEnforcementAt p of
                None \<Rightarrow> True
              | Some t \<Rightarrow> now < t + max 0 (op_ssoGracePeriodDays p) * day_ms)"

text \<open>
  An exemption lifts what the organization requires, never what the platform requires of its
  administrators, and a member without a method is asked to enrol exactly when the policy binds.
\<close>

lemma exemption_lifts_organization_only:
  assumes "now < t"
  shows "md_policyRequired (evaluateMfaPolicy role r active orgPolicy (Some t) now requireAdmins) \<longleftrightarrow>
    administrator role r \<and> requireAdmins"
  using assms by (simp add: evaluateMfaPolicy_def mfa_enforced_def Let_def)

lemma mfa_decision_cases:
  "md_challengeRequired (evaluateMfaPolicy role r active orgPolicy exemption now requireAdmins) = active"
  "md_enrollmentRequired (evaluateMfaPolicy role r active orgPolicy exemption now requireAdmins) \<longleftrightarrow>
     \<not> active \<and> md_policyRequired (evaluateMfaPolicy role r active orgPolicy exemption now requireAdmins)"
  by (auto simp: evaluateMfaPolicy_def Let_def)

text \<open>Once enforced and past its grace, an organization's requirement stays in force.\<close>

lemma mfa_enforced_mono:
  "mfa_enforced orgPolicy exemption now role r \<Longrightarrow> now \<le> later \<Longrightarrow> mfa_enforced orgPolicy exemption later role r"
  by (auto simp: mfa_enforced_def Let_def split: option.split_asm option.split)

section \<open>What is read of a user\<close>

text \<open>A user with the active memberships, their companies' names and the active TOTP methods.\<close>

record user_view =
  uv_user :: identity_user
  uv_company :: "string option"
  uv_memberships :: "(membership_row \<times> string) list"
  uv_methods :: "mfa_method list"

definition company_name :: "string \<Rightarrow> identity_db \<Rightarrow> string" where
  "company_name c db = (case map_of (id_companies db) c of None \<Rightarrow> [] | Some n \<Rightarrow> n)"

definition active_memberships :: "string \<Rightarrow> identity_db \<Rightarrow> membership_row list" where
  "active_memberships userId db =
     filter (\<lambda>m. me_userId m = userId \<and> me_active m \<and> me_status m = ACTIVE) (id_memberships db)"

definition active_totp :: "string \<Rightarrow> identity_db \<Rightarrow> mfa_method list" where
  "active_totp userId db =
     filter (\<lambda>m. mm_userId m = userId \<and> mm_kind m = TOTP \<and> mm_status m = MFA_ACTIVE) (id_methods db)"

definition find_user :: "string \<Rightarrow> identity_db \<Rightarrow> identity_user option" where
  "find_user userId db = List.find (\<lambda>u. iu_id u = userId) (id_users db)"

definition loadAuthenticationUser :: "string \<Rightarrow> identity_db \<Rightarrow> user_view option" where
  "loadAuthenticationUser userId db =
     map_option (\<lambda>u.
       \<lparr>uv_user = u,
        uv_company = map_option (\<lambda>c. company_name c db) (iu_companyId u),
        uv_memberships = map (\<lambda>m. (m, company_name (me_companyId m) db)) (active_memberships userId db),
        uv_methods = active_totp userId db\<rparr>) (find_user userId db)"

definition credential_of :: "string \<Rightarrow> identity_db \<Rightarrow> credential_row option" where
  "credential_of identifier db = List.find (\<lambda>c. cd_identifierNormalized c = identifier) (id_credentials db)"

definition usable :: "identity_user \<Rightarrow> bool" where
  "usable u \<longleftrightarrow> iu_active u \<and> iu_disabledAt u = None"

lemma find_user_id: "find_user userId db = Some u \<Longrightarrow> iu_id u = userId \<and> u \<in> set (id_users db)"
  by (auto simp: find_user_def dest: find_SomeD)

text \<open>Whom a failed or successful attempt is recorded for.\<close>

definition home_company :: "identity_user \<Rightarrow> identity_db \<Rightarrow> string option" where
  "home_company u db =
     (case filter (\<lambda>m. me_userId m = iu_id u \<and> me_active m) (id_memberships db) of
        m # _ \<Rightarrow> Some (me_companyId m)
      | [] \<Rightarrow> iu_companyId u)"

definition findIdentitySecurityContextByIdentifier ::
  "crypto \<Rightarrow> string \<Rightarrow> identity_db \<Rightarrow> string option \<times> string option" where
  "findIdentitySecurityContextByIdentifier c email db =
     (if \<not> id_available db then (None, None)
      else case Option.bind (credential_of (normalizeIdentityEmail c email) db) (\<lambda>cd. find_user (cd_userId cd) db) of
        None \<Rightarrow> (None, None)
      | Some u \<Rightarrow> (Some (iu_id u), home_company u db))"

definition challenge_by_token :: "crypto \<Rightarrow> string \<Rightarrow> identity_db \<Rightarrow> login_challenge option" where
  "challenge_by_token c token db = List.find (\<lambda>x. lc_tokenHash x = cr_sha256 c token) (id_challenges db)"

definition findLoginChallengeSecurityContext ::
  "crypto \<Rightarrow> string \<Rightarrow> identity_db \<Rightarrow> string option \<times> string option" where
  "findLoginChallengeSecurityContext c token db =
     (if \<not> id_available db then (None, None)
      else case challenge_by_token c token db of
        None \<Rightarrow> (None, None)
      | Some x \<Rightarrow> (Some (lc_userId x), lc_companyId x))"

section \<open>Return paths\<close>

text \<open>\<open>safeReturnTo\<close>; \<open>local_url\<close> is the path of a reference resolved against the local origin, None
  where it leaves that origin or is no URL.\<close>

definition safeReturnTo :: "(string \<Rightarrow> string option) \<Rightarrow> string option \<Rightarrow> string option" where
  "safeReturnTo local_url path =
     (case path of
        None \<Rightarrow> None
      | Some s \<Rightarrow>
          if s = [] \<or> \<not> starts_with ''/'' s \<or> starts_with ''//'' s \<or> contains s (char_of (92 :: nat)) then None
          else local_url s)"

end
