(* ===== verification/IdentityAuth.thy ===== *)
theory IdentityAuth
  imports IdentityDb
begin

text \<open>
  Authentication (\<open>lib/identity-auth.ts\<close>, the database branch): the password and the external identity
  as the first factor, the login challenge, and the TOTP or recovery code that consumes it. What a
  handler reads and what it writes are functions of their own, so that other handlers can come in
  between; the handlers are their compositions.
\<close>

section \<open>Identities\<close>

record session_identity =
  si_userId :: string
  si_email :: string
  si_name :: string
  si_role :: platform_role
  si_companyId :: "string option"
  si_company :: string
  si_identityProviderId :: "string option"
  si_organizationRole :: "organization_role option"
  si_membershipStatus :: "membership_status option"
  si_membershipVersion :: "int option"
  si_mfaSatisfied :: bool
  si_authenticationAt :: ms

text \<open>The settings of the process: cryptography, encryption keys, the URL parser and
  \<open>AUTH_ADMIN_MFA_REQUIRED\<close>.\<close>

record identity_platform =
  pl_crypto :: crypto
  pl_keys :: key_environment
  pl_local_url :: "string \<Rightarrow> string option"
  pl_adminMfaRequired :: "string option"

definition LOGIN_CHALLENGE_TTL_MS :: int where
  "LOGIN_CHALLENGE_TTL_MS = 5 * 60000"

definition LOGIN_CHALLENGE_MAX_ATTEMPTS :: int where
  "LOGIN_CHALLENGE_MAX_ATTEMPTS = 5"

definition chooseMembership :: "user_view \<Rightarrow> (membership_row \<times> string) option" where
  "chooseMembership v =
     (let act = filter (\<lambda>(m, n). me_active m \<and> me_status m = ACTIVE) (uv_memberships v) in
      case List.find (\<lambda>(m, n). Some (me_companyId m) = iu_companyId (uv_user v)) act of
        Some m \<Rightarrow> Some m
      | None \<Rightarrow> (case act of [m] \<Rightarrow> Some m | _ \<Rightarrow> None))"

definition toIdentity :: "user_view \<Rightarrow> bool \<Rightarrow> ms \<Rightarrow> session_identity option" where
  "toIdentity v mfaSatisfied now =
     (let u = uv_user v; membership = chooseMembership v in
      if \<not> usable u \<or> iu_role u = CLIENT \<and> membership = None then None
      else Some
        \<lparr>si_userId = iu_id u, si_email = iu_email u, si_name = iu_name u, si_role = iu_role u,
         si_companyId = map_option (me_companyId \<circ> fst) membership,
         si_company = (case membership of
                         Some (m, n) \<Rightarrow> n
                       | None \<Rightarrow> (case uv_company v of Some n \<Rightarrow> n | None \<Rightarrow> ''Avantime'')),
         si_identityProviderId = None,
         si_organizationRole = map_option (me_organizationRole \<circ> fst) membership,
         si_membershipStatus = map_option (me_status \<circ> fst) membership,
         si_membershipVersion = map_option (me_version \<circ> fst) membership,
         si_mfaSatisfied = mfaSatisfied, si_authenticationAt = now\<rparr>)"

definition loadMfaPolicy :: "user_view \<Rightarrow> ms \<Rightarrow> identity_db \<Rightarrow> identity_policy option \<times> ms option" where
  "loadMfaPolicy v now db =
     (case chooseMembership v of
        None \<Rightarrow> (None, None)
      | Some (m, n) \<Rightarrow>
          let pol = List.find (\<lambda>p. op_companyId p = me_companyId m) (id_policies db);
              exemption = (if pol = None then None
                else List.find (\<lambda>e. ex_companyId e = me_companyId m \<and> ex_userId e = iu_id (uv_user v)) (id_exemptions db)) in
          (pol, case exemption of
                  Some e \<Rightarrow> if now < ex_expiresAt e then Some (ex_expiresAt e) else None
                | None \<Rightarrow> None))"

text \<open>A new challenge, unless its token has been drawn before.\<close>

definition createLoginChallenge ::
  "identity_platform \<Rightarrow> string \<Rightarrow> string \<Rightarrow> user_view \<Rightarrow> string option \<Rightarrow> ms \<Rightarrow> string option \<Rightarrow>
   identity_db \<Rightarrow> identity_db option" where
  "createLoginChallenge p i token v redirectTo now providerId db =
     (let h = cr_sha256 (pl_crypto p) token in
      if contains (map lc_tokenHash (id_challenges db)) h then None
      else Some (db\<lparr>id_challenges := id_challenges db @
        [\<lparr>lc_id = i, lc_tokenHash = h, lc_userId = iu_id (uv_user v),
          lc_companyId = map_option (me_companyId \<circ> fst) (chooseMembership v),
          lc_identityProviderId = providerId, lc_redirectTo = safeReturnTo (pl_local_url p) redirectTo,
          lc_attempts = 0, lc_expiresAt = now + LOGIN_CHALLENGE_TTL_MS, lc_consumedAt = None\<rparr>]\<rparr>))"

section \<open>The first factor\<close>

datatype primary_result =
    Authenticated session_identity
  | MfaRequired string bool string "string option"
  | LoginInvalid
  | LoginUnavailable

text \<open>The end both ways share: the policy of the organization and the decision on a second factor.\<close>

definition finish_login ::
  "identity_platform \<Rightarrow> string \<Rightarrow> string \<Rightarrow> user_view \<Rightarrow> session_identity \<Rightarrow> string option \<Rightarrow> string option \<Rightarrow> ms \<Rightarrow>
   identity_db \<Rightarrow> primary_result \<times> identity_db" where
  "finish_login p i token v identity providerId redirectTo now db =
     (let (pol, exemption) = loadMfaPolicy v now db;
          login = (case providerId of None \<Rightarrow> LocalLogin | Some q \<Rightarrow> OidcLogin (Some q)) in
      if \<not> isOrganizationLoginMethodAllowed pol login now then (LoginInvalid, db)
      else let decision = evaluateMfaPolicy (iu_role (uv_user v)) (si_organizationRole identity) (uv_methods v \<noteq> [])
                 pol exemption now (requireAdminMfa (pl_adminMfaRequired p)) in
        if md_challengeRequired decision \<or> md_enrollmentRequired decision
        then (case createLoginChallenge p i token v redirectTo now providerId db of
                None \<Rightarrow> (LoginUnavailable, db)
              | Some db' \<Rightarrow> (MfaRequired token (md_enrollmentRequired decision) (iu_id (uv_user v)) (si_companyId identity), db'))
        else (Authenticated (identity\<lparr>si_mfaSatisfied := True, si_identityProviderId := providerId\<rparr>), db))"

definition external_read ::
  "string \<Rightarrow> string \<Rightarrow> ms \<Rightarrow> identity_db \<Rightarrow> primary_result + user_view \<times> session_identity \<times> string" where
  "external_read providerId subject now db =
     (case List.find (\<lambda>x. xi_providerId x = providerId \<and> xi_subject x = subject) (id_externals db) of
        None \<Rightarrow> Inl LoginInvalid
      | Some x \<Rightarrow>
          (case List.find (\<lambda>q. ip_id q = xi_providerId x) (id_providers db) of
             None \<Rightarrow> Inl LoginInvalid
           | Some q \<Rightarrow>
               if \<not> ip_enabled q \<or> ip_validationStatus q \<noteq> TENANT_VALIDATED \<or> \<not> truthy (ip_companyId q)
               then Inl LoginInvalid
               else case loadAuthenticationUser (xi_userId x) db of
                 None \<Rightarrow> Inl LoginInvalid
               | Some v \<Rightarrow>
                   (case toIdentity v False now of
                      None \<Rightarrow> Inl LoginInvalid
                    | Some identity \<Rightarrow>
                        if si_companyId identity \<noteq> ip_companyId q then Inl LoginInvalid
                        else Inr (v, identity, ip_id q))))"

definition authenticateExternalIdentity ::
  "identity_platform \<Rightarrow> string \<Rightarrow> string \<Rightarrow> string \<Rightarrow> string \<Rightarrow> string option \<Rightarrow> ms \<Rightarrow>
   identity_db \<Rightarrow> primary_result \<times> identity_db" where
  "authenticateExternalIdentity p i token providerId subject redirectTo now db =
     (if \<not> id_available db then (LoginUnavailable, db)
      else case external_read providerId subject now db of
        Inl r \<Rightarrow> (r, db)
      | Inr (v, identity, q) \<Rightarrow> finish_login p i token v identity (Some q) redirectTo now db)"

text \<open>
  The password: what is read, with the new hash where the stored one is outdated or a legacy hash is
  left on the user; then the replacement, then the shared end.
\<close>

definition primary_read ::
  "identity_platform \<Rightarrow> byte list \<Rightarrow> string \<Rightarrow> string \<Rightarrow> ms \<Rightarrow> identity_db \<Rightarrow>
   primary_result + user_view \<times> session_identity \<times> string option" where
  "primary_read p salt email password now db =
     (case credential_of (normalizeIdentityEmail (pl_crypto p) email) db of
        None \<Rightarrow> Inl LoginInvalid
      | Some cd \<Rightarrow>
          (case loadAuthenticationUser (cd_userId cd) db of
             None \<Rightarrow> Inl LoginInvalid
           | Some v \<Rightarrow>
               if cd_passwordHash cd = [] then Inl LoginInvalid
               else let (valid, needsRehash) = verifyPasswordVersioned (pl_crypto p) password (cd_passwordHash cd) in
                 if \<not> valid \<or> \<not> usable (uv_user v) then Inl LoginInvalid
                 else case toIdentity v False now of
                   None \<Rightarrow> Inl LoginInvalid
                 | Some identity \<Rightarrow>
                     if needsRehash \<or> truthy (iu_passwordHash (uv_user v))
                     then (case hashPassword (pl_crypto p) salt password of
                             None \<Rightarrow> Inl LoginUnavailable
                           | Some replacement \<Rightarrow> Inr (v, identity, Some replacement))
                     else Inr (v, identity, None)))"

text \<open>The upsert of a password and the removal of the legacy hash, one transaction.\<close>

definition store_password :: "string \<Rightarrow> string \<Rightarrow> string \<Rightarrow> ms \<Rightarrow> identity_db \<Rightarrow> identity_db option" where
  "store_password userId identifier replacement now db =
     (if \<not> contains (map iu_id (id_users db)) userId then None
      else
        let cleared = db\<lparr>id_users := update_where (\<lambda>u. iu_id u = userId) (\<lambda>u. u\<lparr>iu_passwordHash := None\<rparr>) (id_users db)\<rparr> in
        if contains (map cd_userId (id_credentials db)) userId
        then Some (cleared\<lparr>id_credentials := update_where (\<lambda>cd. cd_userId cd = userId)
               (\<lambda>cd. cd\<lparr>cd_passwordHash := replacement, cd_passwordChangedAt := now\<rparr>) (id_credentials db)\<rparr>)
        else if contains (map cd_identifierNormalized (id_credentials db)) identifier then None
        else Some (cleared\<lparr>id_credentials := id_credentials db @
               [\<lparr>cd_userId = userId, cd_identifierNormalized = identifier, cd_passwordHash = replacement,
                 cd_passwordChangedAt = now\<rparr>]\<rparr>))"

definition primary_commit ::
  "identity_platform \<Rightarrow> string \<Rightarrow> string \<Rightarrow> string \<Rightarrow> user_view \<times> session_identity \<times> string option \<Rightarrow> string option \<Rightarrow> ms \<Rightarrow>
   identity_db \<Rightarrow> primary_result \<times> identity_db" where
  "primary_commit p i token identifier plan redirectTo now db =
     (case plan of
        (v, identity, None) \<Rightarrow> finish_login p i token v identity None redirectTo now db
      | (v, identity, Some replacement) \<Rightarrow>
          (case store_password (iu_id (uv_user v)) identifier replacement now db of
             None \<Rightarrow> (LoginUnavailable, db)
           | Some db' \<Rightarrow> finish_login p i token v identity None redirectTo now db'))"

definition authenticatePrimaryCredential ::
  "identity_platform \<Rightarrow> string \<Rightarrow> string \<Rightarrow> byte list \<Rightarrow> string \<Rightarrow> string \<Rightarrow> string option \<Rightarrow> ms \<Rightarrow>
   identity_db \<Rightarrow> primary_result \<times> identity_db" where
  "authenticatePrimaryCredential p i token salt email password redirectTo now db =
     (if \<not> id_available db then (LoginUnavailable, db)
      else case primary_read p salt email password now db of
        Inl r \<Rightarrow> (r, db)
      | Inr plan \<Rightarrow>
          primary_commit p i token (normalizeIdentityEmail (pl_crypto p) email) plan redirectTo now db)"

section \<open>The second factor\<close>

datatype mfa_factor =
    TotpFactor string int
  | RecoveryFactor string

datatype mfa_result =
    MfaAuthenticated session_identity bool "string option"
  | MfaInvalid "string option" "string option"
  | MfaExpired "string option" "string option"
  | MfaUnavailable

definition challenge_open :: "ms \<Rightarrow> login_challenge \<Rightarrow> bool" where
  "challenge_open now x \<longleftrightarrow>
     lc_consumedAt x = None \<and> now < lc_expiresAt x \<and> lc_attempts x < LOGIN_CHALLENGE_MAX_ATTEMPTS"

definition provider_live :: "string option \<Rightarrow> identity_db \<Rightarrow> bool" where
  "provider_live providerId db =
     (case providerId of
        None \<Rightarrow> True
      | Some q \<Rightarrow> q = [] \<or> (case List.find (\<lambda>r. ip_id r = q) (id_providers db) of
            None \<Rightarrow> False | Some r \<Rightarrow> ip_enabled r \<and> ip_validationStatus r = TENANT_VALIDATED))"

text \<open>
  The code as a TOTP of the first active method, where it has six digits, or else as a recovery
  code: None if it is neither, an error where a stored secret cannot be used.
\<close>

definition recovery_by_code :: "crypto \<Rightarrow> string \<Rightarrow> identity_db \<Rightarrow> recovery_row option" where
  "recovery_by_code c submitted db = List.find (\<lambda>r. rc_codeHash r = hashRecoveryCode (cr_sha256 c) submitted) (id_recovery db)"

definition totp_counter ::
  "identity_platform \<Rightarrow> string \<Rightarrow> string \<Rightarrow> ms \<Rightarrow> int option \<Rightarrow> unit + int option" where
  "totp_counter p encrypted submitted now lastUsed =
     (case decryptTotpSecret (pl_crypto p) (pl_keys p) encrypted of
        Inl e \<Rightarrow> Inl ()
      | Inr secret \<Rightarrow>
          (case verifyTotp (cr_hmac (pl_crypto p)) secret submitted now lastUsed of
             Inl e \<Rightarrow> Inl () | Inr r \<Rightarrow> Inr r))"

definition verify_factor ::
  "identity_platform \<Rightarrow> user_view \<Rightarrow> string \<Rightarrow> ms \<Rightarrow> identity_db \<Rightarrow> unit + mfa_factor option" where
  "verify_factor p v submitted now db =
     (let recovery =
        (case recovery_by_code (pl_crypto p) submitted db of
           None \<Rightarrow> Inr None
         | Some r \<Rightarrow>
             if rc_userId r = iu_id (uv_user v) \<and> rc_usedAt r = None then Inr (Some (RecoveryFactor (rc_id r)))
             else Inr None) in
      case uv_methods v of
        [] \<Rightarrow> recovery
      | m # _ \<Rightarrow>
          if truthy (mm_secretEncrypted m) \<and> OTP submitted
          then map_sum id (map_option (TotpFactor (mm_id m)))
                 (totp_counter p (the (mm_secretEncrypted m)) submitted now (mm_lastUsedCounter m))
          else recovery)"

text \<open>What one attempt will do, from the challenge as read first and the recovery code as read next.\<close>

datatype mfa_plan =
    MfaDone mfa_result
  | MfaFailure string string "string option"
  | MfaAccept login_challenge mfa_factor user_view

definition mfa_read :: "identity_platform \<Rightarrow> string \<Rightarrow> string \<Rightarrow> ms \<Rightarrow> identity_db \<Rightarrow> identity_db \<Rightarrow> mfa_plan" where
  "mfa_read p token submitted now db db' =
     (if \<not> id_available db then MfaDone MfaUnavailable
      else case challenge_by_token (pl_crypto p) token db of
        None \<Rightarrow> MfaDone (MfaExpired None None)
      | Some x \<Rightarrow>
          (case loadAuthenticationUser (lc_userId x) db of
             None \<Rightarrow> MfaDone (MfaExpired None (lc_companyId x))
           | Some v \<Rightarrow>
               if \<not> challenge_open now x \<or> \<not> provider_live (lc_identityProviderId x) db \<or> \<not> usable (uv_user v)
               then MfaDone (MfaExpired (Some (iu_id (uv_user v))) (lc_companyId x))
               else case verify_factor p v submitted now db' of
                 Inl e \<Rightarrow> MfaDone MfaUnavailable
               | Inr None \<Rightarrow> MfaFailure (lc_id x) (iu_id (uv_user v)) (lc_companyId x)
               | Inr (Some factor) \<Rightarrow> MfaAccept x factor v))"

text \<open>The two guarded updates of an acceptance; None where one of them finds no row.\<close>

definition consume_challenge :: "string \<Rightarrow> ms \<Rightarrow> identity_db \<Rightarrow> identity_db option" where
  "consume_challenge i now db =
     (let guard = (\<lambda>x. lc_id x = i \<and> challenge_open now x) in
      if count_where guard (id_challenges db) \<noteq> 1 then None
      else Some (db\<lparr>id_challenges := update_where guard (\<lambda>x. x\<lparr>lc_consumedAt := Some now\<rparr>) (id_challenges db)\<rparr>))"

definition counter_unused :: "int \<Rightarrow> mfa_method \<Rightarrow> bool" where
  "counter_unused counter m = (case mm_lastUsedCounter m of None \<Rightarrow> True | Some l \<Rightarrow> l < counter)"

definition use_counter :: "string \<Rightarrow> int \<Rightarrow> identity_db \<Rightarrow> identity_db option" where
  "use_counter i counter db =
     (let guard = (\<lambda>m. mm_id m = i \<and> mm_status m = MFA_ACTIVE \<and> counter_unused counter m) in
      if count_where guard (id_methods db) \<noteq> 1 then None
      else Some (db\<lparr>id_methods := update_where guard (\<lambda>m. m\<lparr>mm_lastUsedCounter := Some counter\<rparr>) (id_methods db)\<rparr>))"

definition use_recovery :: "string \<Rightarrow> string \<Rightarrow> ms \<Rightarrow> identity_db \<Rightarrow> identity_db option" where
  "use_recovery i userId now db =
     (let guard = (\<lambda>r. rc_id r = i \<and> rc_userId r = userId \<and> rc_usedAt r = None) in
      if count_where guard (id_recovery db) \<noteq> 1 then None
      else Some (db\<lparr>id_recovery := update_where guard (\<lambda>r. r\<lparr>rc_usedAt := Some now\<rparr>) (id_recovery db)\<rparr>))"

definition use_factor :: "mfa_factor \<Rightarrow> string \<Rightarrow> ms \<Rightarrow> identity_db \<Rightarrow> identity_db option" where
  "use_factor factor userId now db =
     (case factor of
        TotpFactor i counter \<Rightarrow> use_counter i counter db
      | RecoveryFactor i \<Rightarrow> use_recovery i userId now db)"

definition accept_factor :: "string \<Rightarrow> mfa_factor \<Rightarrow> string \<Rightarrow> ms \<Rightarrow> identity_db \<Rightarrow> identity_db option" where
  "accept_factor i factor userId now db = Option.bind (consume_challenge i now db) (use_factor factor userId now)"

definition fail_challenge :: "string \<Rightarrow> identity_db \<Rightarrow> identity_db" where
  "fail_challenge i db =
     db\<lparr>id_challenges := update_where
          (\<lambda>x. lc_id x = i \<and> lc_consumedAt x = None \<and> lc_attempts x < LOGIN_CHALLENGE_MAX_ATTEMPTS)
          (\<lambda>x. x\<lparr>lc_attempts := lc_attempts x + 1\<rparr>) (id_challenges db)\<rparr>"

definition is_recovery :: "mfa_factor \<Rightarrow> bool" where
  "is_recovery factor = (case factor of TotpFactor _ _ \<Rightarrow> False | RecoveryFactor _ \<Rightarrow> True)"

definition mfa_commit :: "identity_platform \<Rightarrow> mfa_plan \<Rightarrow> ms \<Rightarrow> identity_db \<Rightarrow> mfa_result \<times> identity_db" where
  "mfa_commit p plan now db =
     (case plan of
        MfaDone r \<Rightarrow> (r, db)
      | MfaFailure i userId companyId \<Rightarrow> (MfaInvalid (Some userId) companyId, fail_challenge i db)
      | MfaAccept x factor v \<Rightarrow>
          (case accept_factor (lc_id x) factor (iu_id (uv_user v)) now db of
             None \<Rightarrow> (MfaExpired (Some (iu_id (uv_user v))) (lc_companyId x), db)
           | Some db' \<Rightarrow>
               (case toIdentity v True now of
                  None \<Rightarrow> (MfaInvalid None None, db')
                | Some identity \<Rightarrow>
                    (MfaAuthenticated (identity\<lparr>si_identityProviderId := lc_identityProviderId x\<rparr>) (is_recovery factor)
                       (safeReturnTo (pl_local_url p) (lc_redirectTo x)), db'))))"

definition authenticateMfaChallenge ::
  "identity_platform \<Rightarrow> string \<Rightarrow> string \<Rightarrow> ms \<Rightarrow> identity_db \<Rightarrow> mfa_result \<times> identity_db" where
  "authenticateMfaChallenge p token submitted now db = mfa_commit p (mfa_read p token submitted now db db) now db"

end
