(* ===== verification/IdentitySessions.thy ===== *)
theory IdentitySessions
  imports IdentityAuth
begin

text \<open>
  The session store (\<open>lib/session.ts\<close>, the database branch): opening a session for an identity,
  resolving the token of a cookie, its idle and absolute end, and revocation. The sessions in memory,
  which only development uses, are left out.
\<close>

definition SESSION_ABSOLUTE_TTL_MS :: int where
  "SESSION_ABSOLUTE_TTL_MS = 60 * 60 * 8 * 1000"

definition SESSION_IDLE_TTL_MS :: int where
  "SESSION_IDLE_TTL_MS = 60 * 30 * 1000"

definition SESSION_ACTIVITY_WRITE_INTERVAL_MS :: int where
  "SESSION_ACTIVITY_WRITE_INTERVAL_MS = 60000"

datatype session_error =
    SESSION_SECRET_MISSING
  | SESSION_SECRET_SHORT
  | SESSION_DATABASE_UNAVAILABLE
  | SESSION_IDENTITY_INACTIVE
  | SESSION_PROVIDER_INACTIVE
  | SESSION_TOKEN_TAKEN

definition getSessionSecret :: "string option \<Rightarrow> session_error + string" where
  "getSessionSecret SESSION_SECRET =
     (case map_option trim SESSION_SECRET of
        None \<Rightarrow> Inl SESSION_SECRET_MISSING
      | Some s \<Rightarrow> if s = [] then Inl SESSION_SECRET_MISSING
                  else if length s < 32 then Inl SESSION_SECRET_SHORT else Inr s)"

definition createOpaqueSessionToken :: "crypto \<Rightarrow> byte list \<Rightarrow> string" where
  "createOpaqueSessionToken c random = ''ats_'' @ cr_base64url c random"

text \<open>The middle dot between browser and platform is the character 183.\<close>

definition coarseDeviceLabel :: "string option \<Rightarrow> string" where
  "coarseDeviceLabel userAgent =
     (let agent = (case userAgent of None \<Rightarrow> [] | Some s \<Rightarrow> to_lower s);
          browser = (if str_includes agent ''edg/'' then ''Edge''
            else if str_includes agent ''firefox/'' then ''Firefox''
            else if str_includes agent ''chrome/'' \<or> str_includes agent ''chromium/'' then ''Chromium''
            else if str_includes agent ''safari/'' then ''Safari'' else ''Unknown browser'');
          platform = (if str_includes agent ''android'' then ''Android''
            else if str_includes agent ''iphone'' \<or> str_includes agent ''ipad'' then ''iOS''
            else if str_includes agent ''windows'' then ''Windows''
            else if str_includes agent ''mac os'' then ''macOS''
            else if str_includes agent ''linux'' then ''Linux'' else ''Unknown device'') in
      browser @ '' '' @ [char_of (183 :: nat)] @ '' '' @ platform)"

section \<open>Opening a session\<close>

text \<open>The identity must still be what the tables say of its user and membership.\<close>

definition identity_current :: "session_identity \<Rightarrow> identity_db \<Rightarrow> bool" where
  "identity_current identity db =
     (case find_user (si_userId identity) db of
        None \<Rightarrow> False
      | Some u \<Rightarrow>
          usable u \<and> to_lower (iu_email u) = to_lower (si_email identity) \<and> iu_role u = si_role identity \<and>
          (truthy (si_companyId identity) \<longrightarrow>
             list_ex (\<lambda>m. Some (me_companyId m) = si_companyId identity \<and>
               (case si_organizationRole identity of None \<Rightarrow> True | Some r \<Rightarrow> me_organizationRole m = r) \<and>
               (case si_membershipVersion identity of None \<Rightarrow> True | Some n \<Rightarrow> n = 0 \<or> me_version m = n))
             (active_memberships (si_userId identity) db)) \<and>
          (si_role identity = CLIENT \<longrightarrow> truthy (si_companyId identity)))"

text \<open>A condition on a company that is undefined is no condition.\<close>

definition session_provider_live :: "session_identity \<Rightarrow> identity_db \<Rightarrow> bool" where
  "session_provider_live identity db =
     (truthy (si_identityProviderId identity) \<longrightarrow>
        list_ex (\<lambda>q. Some (ip_id q) = si_identityProviderId identity \<and>
            (si_companyId identity = None \<or> ip_companyId q = si_companyId identity) \<and>
            ip_kind q = OIDC_PROVIDER \<and> ip_enabled q \<and> ip_validationStatus q = TENANT_VALIDATED)
          (id_providers db))"

definition session_by_token :: "crypto \<Rightarrow> string \<Rightarrow> identity_db \<Rightarrow> login_session option" where
  "session_by_token c token db = List.find (\<lambda>s. ls_tokenHash s = cr_sha256 c token) (id_sessions db)"

text \<open>What is read first: the errors, or the session an earlier cookie named.\<close>

definition session_read ::
  "crypto \<Rightarrow> session_identity \<Rightarrow> string option \<Rightarrow> identity_db \<Rightarrow> session_error + login_session option" where
  "session_read c identity previousToken db =
     (if \<not> id_available db then Inl SESSION_DATABASE_UNAVAILABLE
      else if \<not> identity_current identity db then Inl SESSION_IDENTITY_INACTIVE
      else if \<not> session_provider_live identity db then Inl SESSION_PROVIDER_INACTIVE
      else Inr (if truthy previousToken then session_by_token c (the previousToken) db else None))"

definition revoke_session :: "string \<Rightarrow> ms \<Rightarrow> identity_db \<Rightarrow> identity_db" where
  "revoke_session i now db =
     db\<lparr>id_sessions := update_where (\<lambda>s. ls_id s = i) (\<lambda>s. s\<lparr>ls_revokedAt := Some now\<rparr>) (id_sessions db)\<rparr>"

definition new_session ::
  "crypto \<Rightarrow> string \<Rightarrow> string \<Rightarrow> session_identity \<Rightarrow> string option \<Rightarrow> string option \<Rightarrow> ms \<Rightarrow> login_session" where
  "new_session c i token identity rotatedFromId userAgent now =
     \<lparr>ls_id = i, ls_tokenHash = cr_sha256 c token, ls_userId = si_userId identity,
      ls_companyId = si_companyId identity, ls_identityProviderId = si_identityProviderId identity,
      ls_lastActivityAt = now, ls_expiresAt = now + SESSION_ABSOLUTE_TTL_MS,
      ls_idleExpiresAt = now + SESSION_IDLE_TTL_MS, ls_revokedAt = None, ls_rotatedFromId = rotatedFromId,
      ls_deviceLabel = coarseDeviceLabel userAgent, ls_authenticationAt = si_authenticationAt identity\<rparr>"

text \<open>The earlier session is revoked before the new one is inserted, and stays revoked if that fails.\<close>

definition session_commit ::
  "crypto \<Rightarrow> string \<Rightarrow> string \<Rightarrow> session_identity \<Rightarrow> login_session option \<Rightarrow> string option \<Rightarrow> ms \<Rightarrow>
   identity_db \<Rightarrow> (session_error + login_session) \<times> identity_db" where
  "session_commit c i token identity previous userAgent now db =
     (let rotatedFromId = (case previous of
            None \<Rightarrow> None | Some s \<Rightarrow> if ls_userId s = si_userId identity then Some (ls_id s) else None);
          db1 = (case previous of None \<Rightarrow> db | Some s \<Rightarrow> revoke_session (ls_id s) now db);
          row = new_session c i token identity rotatedFromId userAgent now in
      if contains (map ls_tokenHash (id_sessions db1)) (cr_sha256 c token) then (Inl SESSION_TOKEN_TAKEN, db1)
      else (Inr row, db1\<lparr>id_sessions := id_sessions db1 @ [row]\<rparr>))"

definition createUserSession ::
  "crypto \<Rightarrow> string \<Rightarrow> string \<Rightarrow> session_identity \<Rightarrow> string option \<Rightarrow> string option \<Rightarrow> ms \<Rightarrow>
   identity_db \<Rightarrow> (session_error + login_session) \<times> identity_db" where
  "createUserSession c i token identity userAgent previousToken now db =
     (case session_read c identity previousToken db of
        Inl e \<Rightarrow> (Inl e, db)
      | Inr previous \<Rightarrow> session_commit c i token identity previous userAgent now db)"

section \<open>Resolving a token\<close>

definition session_alive :: "ms \<Rightarrow> login_session \<Rightarrow> bool" where
  "session_alive now s \<longleftrightarrow> ls_revokedAt s = None \<and> now < ls_expiresAt s \<and> now < ls_idleExpiresAt s"

definition toAppSession :: "login_session \<Rightarrow> identity_user \<Rightarrow> identity_db \<Rightarrow> app_session option" where
  "toAppSession s u db =
     (let membership = (if truthy (ls_companyId s)
            then List.find (\<lambda>m. Some (me_companyId m) = ls_companyId s) (active_memberships (iu_id u) db) else None) in
      if \<not> usable u \<or> iu_role u = CLIENT \<and> membership = None then None
      else Some
        \<lparr>s_sessionId = Some (ls_id s), s_userId = iu_id u, s_name = iu_name u,
         s_company = (case membership of
            Some m \<Rightarrow> company_name (me_companyId m) db
          | None \<Rightarrow> (case iu_companyId u of Some h \<Rightarrow> company_name h db | None \<Rightarrow> ''Avantime'')),
         s_companyId = map_option me_companyId membership, s_identityProviderId = ls_identityProviderId s,
         s_email = iu_email u, s_role = iu_role u,
         s_platformRoles = Some (map (platform_role_name \<circ> as_role)
            (filter (\<lambda>a. as_userId a = iu_id u \<and> as_active a \<and> as_disabledAt a = None) (id_assignments db))),
         s_organizationRole = map_option (organization_role_name \<circ> me_organizationRole) membership,
         s_membershipStatus = map_option me_status membership,
         s_membershipVersion = map_option me_version membership,
         s_mfaSatisfied = Some True, s_authenticationAt = Some (ls_authenticationAt s),
         s_expiresAt = ls_expiresAt s\<rparr>)"

text \<open>The guarded extension of the idle time, written at most once a minute.\<close>

definition touch_session :: "login_session \<Rightarrow> ms \<Rightarrow> identity_db \<Rightarrow> identity_db" where
  "touch_session s now db =
     (if now - ls_lastActivityAt s < SESSION_ACTIVITY_WRITE_INTERVAL_MS then db
      else db\<lparr>id_sessions := update_where (\<lambda>r. ls_id r = ls_id s \<and> session_alive now r)
             (\<lambda>r. r\<lparr>ls_lastActivityAt := now, ls_idleExpiresAt := min (ls_expiresAt s) (now + SESSION_IDLE_TTL_MS)\<rparr>)
             (id_sessions db)\<rparr>)"

definition live_session :: "crypto \<Rightarrow> string \<Rightarrow> ms \<Rightarrow> identity_db \<Rightarrow> login_session option" where
  "live_session c token now db =
     (if \<not> starts_with ''ats_'' token \<or> \<not> id_available db then None
      else case session_by_token c token db of
        None \<Rightarrow> None | Some s \<Rightarrow> if session_alive now s then Some s else None)"

definition resolveSessionToken :: "crypto \<Rightarrow> string \<Rightarrow> ms \<Rightarrow> identity_db \<Rightarrow> app_session option \<times> identity_db" where
  "resolveSessionToken c token now db =
     (case live_session c token now db of
        None \<Rightarrow> (None, db)
      | Some s \<Rightarrow>
          (Option.bind (find_user (ls_userId s) db) (\<lambda>u. toAppSession s u db), touch_session s now db))"

section \<open>Revocation\<close>

definition revoke_where :: "(login_session \<Rightarrow> bool) \<Rightarrow> ms \<Rightarrow> identity_db \<Rightarrow> identity_db" where
  "revoke_where cond now db =
     db\<lparr>id_sessions := update_where (\<lambda>s. cond s \<and> ls_revokedAt s = None) (\<lambda>s. s\<lparr>ls_revokedAt := Some now\<rparr>)
          (id_sessions db)\<rparr>"

definition revokeSessionToken :: "crypto \<Rightarrow> string \<Rightarrow> ms \<Rightarrow> identity_db \<Rightarrow> identity_db" where
  "revokeSessionToken c token now db =
     (if id_available db then revoke_where (\<lambda>s. ls_tokenHash s = cr_sha256 c token) now db else db)"

definition revokeAllUserSessions :: "string \<Rightarrow> string option \<Rightarrow> ms \<Rightarrow> identity_db \<Rightarrow> identity_db" where
  "revokeAllUserSessions userId exceptSessionId now db =
     (if id_available db
      then revoke_where (\<lambda>s. ls_userId s = userId \<and> (truthy exceptSessionId \<longrightarrow> Some (ls_id s) \<noteq> exceptSessionId)) now db
      else db)"

end
