(* ===== verification/IdentityManagement.thy ===== *)
theory IdentityManagement
  imports IdentitySessions
begin

text \<open>
  What a user changes of an account: the enrolment of a TOTP method, recovery codes, the password and
  the sessions (\<open>lib/identity-management.ts\<close>), the reset of a forgotten password
  (\<open>lib/password-reset.ts\<close>), the verification of an address (\<open>lib/email-verification.ts\<close>) and the
  second-factor policy of an organization. Reads and transactions are apart as in \<open>IdentityAuth\<close>.
\<close>

datatype identity_error =
    IDENTITY_DATABASE_UNAVAILABLE
  | MFA_ALREADY_ENABLED
  | MFA_ENROLLMENT_NOT_FOUND
  | MFA_NOT_ENABLED
  | MFA_REQUIRED_BY_POLICY
  | INVALID_MFA_CODE
  | INVALID_PASSWORD
  | SESSION_NOT_FOUND
  | SECRET_UNUSABLE
  | ENROLLMENT_REPLAYED
  | UNIQUE_TAKEN
  | RECORD_MISSING
  | ORGANIZATION_POLICY_DENIED
  | ORGANIZATION_POLICY_INVALID

definition MFA_ENROLLMENT_TTL_MS :: int where
  "MFA_ENROLLMENT_TTL_MS = 10 * 60000"

definition generateTotpSecret :: "byte list \<Rightarrow> string" where
  "generateTotpSecret random = base32Encode random"

section \<open>Recovery codes\<close>

definition recoveryRows :: "crypto \<Rightarrow> string \<Rightarrow> string \<Rightarrow> (string \<times> string) list \<Rightarrow> recovery_row list" where
  "recoveryRows c userId batchId codes =
     map (\<lambda>(i, s). \<lparr>rc_id = i, rc_userId = userId, rc_batchId = batchId,
       rc_codeHash = hashRecoveryCode (cr_sha256 c) s, rc_usedAt = None\<rparr>) codes"

text \<open>\<open>deleteMany\<close> and \<open>createMany\<close>: the batch of a user is replaced; code hashes are unique.\<close>

definition replace_codes :: "string \<Rightarrow> recovery_row list \<Rightarrow> identity_db \<Rightarrow> identity_db option" where
  "replace_codes userId rows db =
     (let kept = filter (\<lambda>r. rc_userId r \<noteq> userId) (id_recovery db) in
      if distinct (map rc_codeHash (kept @ rows)) then Some (db\<lparr>id_recovery := kept @ rows\<rparr>) else None)"

section \<open>Enrolment\<close>

definition begin_read ::
  "identity_platform \<Rightarrow> byte list \<Rightarrow> byte list \<Rightarrow> app_session \<Rightarrow> identity_db \<Rightarrow> identity_error + string \<times> string" where
  "begin_read p random iv session db =
     (if \<not> id_available db then Inl IDENTITY_DATABASE_UNAVAILABLE
      else if active_totp (s_userId session) db \<noteq> [] then Inl MFA_ALREADY_ENABLED
      else let secret = generateTotpSecret random in
        case encryptTotpSecret (pl_crypto p) (pl_keys p) iv secret of
          Inl e \<Rightarrow> Inl SECRET_UNUSABLE
        | Inr encrypted \<Rightarrow> Inr (secret, encrypted))"

definition pending_totp :: "string \<Rightarrow> mfa_method \<Rightarrow> bool" where
  "pending_totp userId m \<longleftrightarrow> mm_userId m = userId \<and> mm_kind m = TOTP \<and> mm_status m = MFA_PENDING"

definition begin_commit :: "string \<Rightarrow> string \<Rightarrow> string \<Rightarrow> ms \<Rightarrow> identity_db \<Rightarrow> identity_db" where
  "begin_commit i userId encrypted now db =
     db\<lparr>id_methods := update_where (pending_totp userId)
          (\<lambda>m. m\<lparr>mm_status := MFA_DISABLED, mm_disabledAt := Some now, mm_secretEncrypted := None\<rparr>) (id_methods db) @
        [\<lparr>mm_id = i, mm_userId = userId, mm_kind = TOTP, mm_status = MFA_PENDING, mm_secretEncrypted = Some encrypted,
          mm_lastUsedCounter = None, mm_confirmedAt = None, mm_disabledAt = None, mm_createdAt = now\<rparr>]\<rparr>"

definition beginTotpEnrollment ::
  "identity_platform \<Rightarrow> string \<Rightarrow> byte list \<Rightarrow> byte list \<Rightarrow> app_session \<Rightarrow> ms \<Rightarrow> identity_db \<Rightarrow>
   (identity_error + string \<times> string) \<times> identity_db" where
  "beginTotpEnrollment p i random iv session now db =
     (case begin_read p random iv session db of
        Inl e \<Rightarrow> (Inl e, db)
      | Inr (secret, encrypted) \<Rightarrow> (Inr (i, secret), begin_commit i (s_userId session) encrypted now db))"

definition confirm_read ::
  "identity_platform \<Rightarrow> app_session \<Rightarrow> string \<Rightarrow> string \<Rightarrow> ms \<Rightarrow> identity_db \<Rightarrow> identity_error + int" where
  "confirm_read p session methodId submitted now db =
     (if \<not> id_available db then Inl IDENTITY_DATABASE_UNAVAILABLE
      else case List.find (\<lambda>m. mm_id m = methodId \<and> pending_totp (s_userId session) m) (id_methods db) of
        None \<Rightarrow> Inl MFA_ENROLLMENT_NOT_FOUND
      | Some m \<Rightarrow>
          if \<not> truthy (mm_secretEncrypted m) \<or> mm_createdAt m + MFA_ENROLLMENT_TTL_MS \<le> now
          then Inl MFA_ENROLLMENT_NOT_FOUND
          else case totp_counter p (the (mm_secretEncrypted m)) submitted now None of
            Inl e \<Rightarrow> Inl SECRET_UNUSABLE
          | Inr None \<Rightarrow> Inl INVALID_MFA_CODE
          | Inr (Some counter) \<Rightarrow> Inr counter)"

definition activate_method :: "string \<Rightarrow> string \<Rightarrow> int \<Rightarrow> ms \<Rightarrow> identity_db \<Rightarrow> identity_db option" where
  "activate_method i userId counter now db =
     (let guard = (\<lambda>m. mm_id m = i \<and> mm_userId m = userId \<and> mm_status m = MFA_PENDING) in
      if count_where guard (id_methods db) \<noteq> 1 then None
      else Some (db\<lparr>id_methods := update_where guard
        (\<lambda>m. m\<lparr>mm_status := MFA_ACTIVE, mm_confirmedAt := Some now, mm_lastUsedCounter := Some counter\<rparr>)
        (id_methods db)\<rparr>))"

definition confirm_commit ::
  "string \<Rightarrow> string \<Rightarrow> int \<Rightarrow> recovery_row list \<Rightarrow> ms \<Rightarrow> identity_db \<Rightarrow> identity_error + identity_db" where
  "confirm_commit methodId userId counter rows now db =
     (case activate_method methodId userId counter now db of
        None \<Rightarrow> Inl ENROLLMENT_REPLAYED
      | Some db' \<Rightarrow> (case replace_codes userId rows db' of None \<Rightarrow> Inl UNIQUE_TAKEN | Some db2 \<Rightarrow> Inr db2))"

definition confirmTotpEnrollment ::
  "identity_platform \<Rightarrow> string \<Rightarrow> (string \<times> string) list \<Rightarrow> app_session \<Rightarrow> string \<Rightarrow> string \<Rightarrow> ms \<Rightarrow> identity_db \<Rightarrow>
   (identity_error + string list) \<times> identity_db" where
  "confirmTotpEnrollment p batchId codes session methodId submitted now db =
     (case confirm_read p session methodId submitted now db of
        Inl e \<Rightarrow> (Inl e, db)
      | Inr counter \<Rightarrow>
          (case confirm_commit methodId (s_userId session) counter
                  (recoveryRows (pl_crypto p) (s_userId session) batchId codes) now db of
             Inl e \<Rightarrow> (Inl e, db)
           | Inr db' \<Rightarrow> (Inr (map snd codes), db')))"

section \<open>A code of the active method\<close>

definition active_read ::
  "identity_platform \<Rightarrow> app_session \<Rightarrow> string \<Rightarrow> ms \<Rightarrow> identity_db \<Rightarrow> identity_error + string \<times> int" where
  "active_read p session submitted now db =
     (case active_totp (s_userId session) db of
        [] \<Rightarrow> Inl MFA_NOT_ENABLED
      | m # _ \<Rightarrow>
          if \<not> truthy (mm_secretEncrypted m) then Inl MFA_NOT_ENABLED
          else case totp_counter p (the (mm_secretEncrypted m)) submitted now (mm_lastUsedCounter m) of
            Inl e \<Rightarrow> Inl SECRET_UNUSABLE
          | Inr None \<Rightarrow> Inl INVALID_MFA_CODE
          | Inr (Some counter) \<Rightarrow> Inr (mm_id m, counter))"

definition verifyActiveMfaCode ::
  "identity_platform \<Rightarrow> app_session \<Rightarrow> string \<Rightarrow> ms \<Rightarrow> identity_db \<Rightarrow> (identity_error + string) \<times> identity_db" where
  "verifyActiveMfaCode p session submitted now db =
     (case active_read p session submitted now db of
        Inl e \<Rightarrow> (Inl e, db)
      | Inr (i, counter) \<Rightarrow>
          (case use_counter i counter db of None \<Rightarrow> (Inl INVALID_MFA_CODE, db) | Some db' \<Rightarrow> (Inr i, db')))"

definition regenerateRecoveryCodes ::
  "identity_platform \<Rightarrow> string \<Rightarrow> (string \<times> string) list \<Rightarrow> app_session \<Rightarrow> string \<Rightarrow> ms \<Rightarrow> identity_db \<Rightarrow>
   (identity_error + string list) \<times> identity_db" where
  "regenerateRecoveryCodes p batchId codes session submitted now db =
     (if \<not> id_available db then (Inl IDENTITY_DATABASE_UNAVAILABLE, db)
      else case verifyActiveMfaCode p session submitted now db of
        (Inl e, db') \<Rightarrow> (Inl e, db')
      | (Inr i, db') \<Rightarrow>
          (case replace_codes (s_userId session) (recoveryRows (pl_crypto p) (s_userId session) batchId codes) db' of
             None \<Rightarrow> (Inl UNIQUE_TAKEN, db')
           | Some db2 \<Rightarrow> (Inr (map snd codes), db2)))"

section \<open>The overview\<close>

definition session_role :: "app_session \<Rightarrow> organization_role option" where
  "session_role session = Option.bind (s_organizationRole session) organization_role_of"

definition no_resource :: organization_resource where
  "no_resource = \<lparr>res_companyId = None, res_ownerUserId = None, res_requireOwner = False, res_targetType = None,
     res_targetId = None\<rparr>"

record security_overview =
  so_enabled :: bool
  so_methods :: "mfa_method list"
  so_recoveryRemaining :: nat
  so_decision :: mfa_decision
  so_canManage :: bool
  so_sessions :: "(login_session \<times> bool) list"

text \<open>The part of \<open>getSecurityOverview\<close> about factors, the policy and the sessions.\<close>

definition getSecurityOverview :: "identity_platform \<Rightarrow> app_session \<Rightarrow> ms \<Rightarrow> identity_db \<Rightarrow> security_overview" where
  "getSecurityOverview p session now db =
     (let methods = sort_key (\<lambda>m. - mm_createdAt m)
            (filter (\<lambda>m. mm_userId m = s_userId session \<and> mm_status m \<in> {MFA_PENDING, MFA_ACTIVE}) (id_methods db));
          hasActiveMfa = list_ex (\<lambda>m. mm_status m = MFA_ACTIVE) methods;
          pol = (if truthy (s_companyId session)
                 then List.find (\<lambda>q. Some (op_companyId q) = s_companyId session) (id_policies db) else None);
          exemption = (if truthy (s_companyId session)
                 then List.find (\<lambda>e. Some (ex_companyId e) = s_companyId session \<and> ex_userId e = s_userId session)
                        (id_exemptions db) else None) in
      \<lparr>so_enabled = hasActiveMfa, so_methods = methods,
       so_recoveryRemaining = count_where (\<lambda>r. rc_userId r = s_userId session \<and> rc_usedAt r = None) (id_recovery db),
       so_decision = evaluateMfaPolicy (s_role session) (session_role session) hasActiveMfa pol
         (case exemption of Some e \<Rightarrow> if now < ex_expiresAt e then Some (ex_expiresAt e) else None | None \<Rightarrow> None)
         now (requireAdminMfa (pl_adminMfaRequired p)),
       so_canManage = od_allowed (evaluateOrganizationPermission (Some session) ''identity.policy.manage'' no_resource),
       so_sessions = map (\<lambda>s. (s, Some (ls_id s) = s_sessionId session))
         (take 50 (sort_key (\<lambda>s. - ls_lastActivityAt s)
           (filter (\<lambda>s. ls_userId s = s_userId session \<and> session_alive now s) (id_sessions db))))\<rparr>)"

definition disable_commit :: "string \<Rightarrow> string \<Rightarrow> ms \<Rightarrow> identity_db \<Rightarrow> identity_db option" where
  "disable_commit methodId userId now db =
     (if \<not> contains (map mm_id (id_methods db)) methodId then None
      else Some (revoke_where (\<lambda>s. ls_userId s = userId) now
        (db\<lparr>id_methods := update_where (\<lambda>m. mm_id m = methodId)
              (\<lambda>m. m\<lparr>mm_status := MFA_DISABLED, mm_disabledAt := Some now, mm_secretEncrypted := None\<rparr>) (id_methods db),
            id_recovery := filter (\<lambda>r. rc_userId r \<noteq> userId) (id_recovery db)\<rparr>)))"

definition disableTotp ::
  "identity_platform \<Rightarrow> app_session \<Rightarrow> string \<Rightarrow> ms \<Rightarrow> identity_db \<Rightarrow> (identity_error + unit) \<times> identity_db" where
  "disableTotp p session submitted now db =
     (if \<not> id_available db then (Inl IDENTITY_DATABASE_UNAVAILABLE, db)
      else if md_policyRequired (so_decision (getSecurityOverview p session now db))
      then (Inl MFA_REQUIRED_BY_POLICY, db)
      else case verifyActiveMfaCode p session submitted now db of
        (Inl e, db') \<Rightarrow> (Inl e, db')
      | (Inr i, db') \<Rightarrow>
          (case disable_commit i (s_userId session) now db' of
             None \<Rightarrow> (Inl RECORD_MISSING, db') | Some db2 \<Rightarrow> (Inr (), db2)))"

section \<open>Tokens of one use\<close>

definition token_open :: "ms \<Rightarrow> identity_token \<Rightarrow> bool" where
  "token_open now t \<longleftrightarrow> tk_usedAt t = None \<and> now < tk_expiresAt t"

definition use_tokens :: "string \<Rightarrow> ms \<Rightarrow> identity_token list \<Rightarrow> identity_token list" where
  "use_tokens userId now = update_where (\<lambda>t. tk_userId t = userId \<and> tk_usedAt t = None) (\<lambda>t. t\<lparr>tk_usedAt := Some now\<rparr>)"

definition consume_token :: "string \<Rightarrow> ms \<Rightarrow> identity_token list \<Rightarrow> identity_token list option" where
  "consume_token i now tokens =
     (let guard = (\<lambda>t. tk_id t = i \<and> token_open now t) in
      if count_where guard tokens \<noteq> 1 then None
      else Some (update_where guard (\<lambda>t. t\<lparr>tk_usedAt := Some now\<rparr>) tokens))"

text \<open>Issuing a token uses up the unused ones of the user; hashes are unique.\<close>

definition issue_token :: "identity_token \<Rightarrow> ms \<Rightarrow> identity_token list \<Rightarrow> identity_token list option" where
  "issue_token t now tokens =
     (if contains (map tk_tokenHash tokens) (tk_tokenHash t) then None
      else Some (use_tokens (tk_userId t) now tokens @ [t]))"

definition PASSWORD_RESET_TTL_MS :: int where
  "PASSWORD_RESET_TTL_MS = 30 * 60000"

definition EMAIL_VERIFICATION_TTL_MS :: int where
  "EMAIL_VERIFICATION_TTL_MS = 30 * 60000"

definition user_of_email :: "crypto \<Rightarrow> string \<Rightarrow> identity_db \<Rightarrow> identity_user option" where
  "user_of_email c email db =
     Option.bind (credential_of (normalizeIdentityEmail c email) db) (\<lambda>cd. find_user (cd_userId cd) db)"

section \<open>Forgotten passwords\<close>

text \<open>The address the token is sent to, if any; the answer to the caller is the same either way.\<close>

definition createPasswordReset ::
  "crypto \<Rightarrow> string \<Rightarrow> string \<Rightarrow> string \<Rightarrow> ms \<Rightarrow> identity_db \<Rightarrow> (identity_error + string option) \<times> identity_db" where
  "createPasswordReset c i token email now db =
     (if \<not> id_available db then (Inl IDENTITY_DATABASE_UNAVAILABLE, db)
      else case user_of_email c email db of
        None \<Rightarrow> (Inr None, db)
      | Some u \<Rightarrow>
          if \<not> usable u then (Inr None, db)
          else let t = \<lparr>tk_id = i, tk_tokenHash = cr_sha256 c token, tk_userId = iu_id u, tk_redirectTo = None,
                        tk_expiresAt = now + PASSWORD_RESET_TTL_MS, tk_usedAt = None\<rparr> in
            case issue_token t now (id_resets db) of
              None \<Rightarrow> (Inl UNIQUE_TAKEN, db)
            | Some ts \<Rightarrow> (Inr (Some (normalizeIdentityEmail c email)), db\<lparr>id_resets := ts\<rparr>))"

datatype reset_result =
    ResetSucceeded string "string option"
  | ResetInvalid
  | ResetRejected password_rejection
  | ResetFailed

definition token_row :: "crypto \<Rightarrow> string \<Rightarrow> identity_token list \<Rightarrow> identity_token option" where
  "token_row c token tokens = List.find (\<lambda>t. tk_tokenHash t = cr_sha256 c token) tokens"

definition reset_read ::
  "crypto \<Rightarrow> byte list \<Rightarrow> string \<Rightarrow> string \<Rightarrow> ms \<Rightarrow> identity_db \<Rightarrow>
   reset_result + identity_token \<times> identity_user \<times> string option \<times> string" where
  "reset_read c salt token password now db =
     (if 256 < length token then Inl ResetInvalid
      else if \<not> id_available db then Inl ResetFailed
      else case token_row c token (id_resets db) of
        None \<Rightarrow> Inl ResetInvalid
      | Some t \<Rightarrow>
          (case find_user (tk_userId t) db of
             None \<Rightarrow> Inl ResetInvalid
           | Some u \<Rightarrow>
               if \<not> token_open now t \<or> \<not> usable u then Inl ResetInvalid
               else case validatePasswordPolicy c password (Some (iu_email u)) of
                 Some r \<Rightarrow> Inl (ResetRejected r)
               | None \<Rightarrow>
                   (case hashPassword c salt password of
                      None \<Rightarrow> Inl ResetFailed
                    | Some replacement \<Rightarrow> Inr (t, u, home_company u db, replacement))))"

definition reset_commit ::
  "crypto \<Rightarrow> identity_token \<times> identity_user \<times> string option \<times> string \<Rightarrow> ms \<Rightarrow> identity_db \<Rightarrow> reset_result \<times> identity_db" where
  "reset_commit c plan now db =
     (case plan of (t, u, company, replacement) \<Rightarrow>
        (case consume_token (tk_id t) now (id_resets db) of
           None \<Rightarrow> (ResetInvalid, db)
         | Some ts \<Rightarrow>
             (case store_password (tk_userId t) (normalizeIdentityEmail c (iu_email u)) replacement now db of
                None \<Rightarrow> (ResetFailed, db)
              | Some db' \<Rightarrow>
                  (ResetSucceeded (iu_id u) company,
                   revoke_where (\<lambda>s. ls_userId s = tk_userId t) now
                     (db'\<lparr>id_resets := use_tokens (tk_userId t) now ts\<rparr>)))))"

definition resetPassword ::
  "crypto \<Rightarrow> byte list \<Rightarrow> string \<Rightarrow> string \<Rightarrow> ms \<Rightarrow> identity_db \<Rightarrow> reset_result \<times> identity_db" where
  "resetPassword c salt token password now db =
     (case reset_read c salt token password now db of
        Inl r \<Rightarrow> (r, db)
      | Inr plan \<Rightarrow> reset_commit c plan now db)"

section \<open>A new password\<close>

definition change_read ::
  "crypto \<Rightarrow> byte list \<Rightarrow> app_session \<Rightarrow> string \<Rightarrow> string \<Rightarrow> identity_db \<Rightarrow>
   identity_error + password_rejection option \<times> string" where
  "change_read c salt session current new db =
     (if \<not> id_available db then Inl IDENTITY_DATABASE_UNAVAILABLE
      else case List.find (\<lambda>cd. cd_userId cd = s_userId session) (id_credentials db) of
        None \<Rightarrow> Inl INVALID_PASSWORD
      | Some cd \<Rightarrow>
          if \<not> fst (verifyPasswordVersioned c current (cd_passwordHash cd)) then Inl INVALID_PASSWORD
          else case validatePasswordPolicy c new (Some (s_email session)) of
            Some r \<Rightarrow> Inr (Some r, [])
          | None \<Rightarrow> (case hashPassword c salt new of
              None \<Rightarrow> Inl SECRET_UNUSABLE | Some replacement \<Rightarrow> Inr (None, replacement)))"

definition change_commit :: "string \<Rightarrow> string \<Rightarrow> ms \<Rightarrow> identity_db \<Rightarrow> identity_db option" where
  "change_commit userId replacement now db =
     (if \<not> contains (map cd_userId (id_credentials db)) userId then None
      else Some (revoke_where (\<lambda>s. ls_userId s = userId) now
        (db\<lparr>id_credentials := update_where (\<lambda>cd. cd_userId cd = userId)
              (\<lambda>cd. cd\<lparr>cd_passwordHash := replacement, cd_passwordChangedAt := now\<rparr>) (id_credentials db),
            id_resets := use_tokens userId now (id_resets db)\<rparr>)))"

definition changePassword ::
  "crypto \<Rightarrow> byte list \<Rightarrow> app_session \<Rightarrow> string \<Rightarrow> string \<Rightarrow> ms \<Rightarrow> identity_db \<Rightarrow>
   (identity_error + password_rejection option) \<times> identity_db" where
  "changePassword c salt session current new now db =
     (case change_read c salt session current new db of
        Inl e \<Rightarrow> (Inl e, db)
      | Inr (Some r, _) \<Rightarrow> (Inr (Some r), db)
      | Inr (None, replacement) \<Rightarrow>
          (case change_commit (s_userId session) replacement now db of
             None \<Rightarrow> (Inl RECORD_MISSING, db) | Some db' \<Rightarrow> (Inr None, db')))"

section \<open>Verification of an address\<close>

definition createEmailVerification ::
  "identity_platform \<Rightarrow> string \<Rightarrow> string \<Rightarrow> string \<Rightarrow> string option \<Rightarrow> ms \<Rightarrow> identity_db \<Rightarrow>
   (identity_error + string option) \<times> identity_db" where
  "createEmailVerification p i token email redirectTo now db =
     (if \<not> id_available db then (Inl IDENTITY_DATABASE_UNAVAILABLE, db)
      else case user_of_email (pl_crypto p) email db of
        None \<Rightarrow> (Inr None, db)
      | Some u \<Rightarrow>
          if \<not> usable u \<or> iu_emailVerifiedAt u \<noteq> None then (Inr None, db)
          else let t = \<lparr>tk_id = i, tk_tokenHash = cr_sha256 (pl_crypto p) token, tk_userId = iu_id u,
                        tk_redirectTo = safeReturnTo (pl_local_url p) redirectTo,
                        tk_expiresAt = now + EMAIL_VERIFICATION_TTL_MS, tk_usedAt = None\<rparr> in
            case issue_token t now (id_verifications db) of
              None \<Rightarrow> (Inl UNIQUE_TAKEN, db)
            | Some ts \<Rightarrow> (Inr (Some (normalizeIdentityEmail (pl_crypto p) email)), db\<lparr>id_verifications := ts\<rparr>))"

definition verify_read ::
  "identity_platform \<Rightarrow> string \<Rightarrow> ms \<Rightarrow> identity_db \<Rightarrow> (identity_token \<times> identity_user \<times> string option) option" where
  "verify_read p token now db =
     Option.bind (token_row (pl_crypto p) token (id_verifications db)) (\<lambda>t.
       Option.bind (find_user (tk_userId t) db) (\<lambda>u.
         if \<not> token_open now t \<or> \<not> usable u then None else Some (t, u, home_company u db)))"

definition verify_commit :: "identity_token \<Rightarrow> ms \<Rightarrow> identity_db \<Rightarrow> identity_db option" where
  "verify_commit t now db =
     (case consume_token (tk_id t) now (id_verifications db) of
        None \<Rightarrow> None
      | Some ts \<Rightarrow> Some (db\<lparr>id_verifications := use_tokens (tk_userId t) now ts,
            id_users := update_where (\<lambda>u. iu_id u = tk_userId t) (\<lambda>u. u\<lparr>iu_emailVerifiedAt := Some now\<rparr>) (id_users db)\<rparr>))"

text \<open>The user, the company and the return path of a verified address, or None.\<close>

definition verifyEmailToken ::
  "identity_platform \<Rightarrow> string \<Rightarrow> ms \<Rightarrow> identity_db \<Rightarrow>
   (identity_error + (string \<times> string option \<times> string option) option) \<times> identity_db" where
  "verifyEmailToken p token now db =
     (if token = [] \<or> 256 < length token then (Inr None, db)
      else if \<not> id_available db then (Inl IDENTITY_DATABASE_UNAVAILABLE, db)
      else case verify_read p token now db of
        None \<Rightarrow> (Inr None, db)
      | Some (t, u, company) \<Rightarrow>
          (case verify_commit t now db of
             None \<Rightarrow> (Inr None, db)
           | Some db' \<Rightarrow> (Inr (Some (iu_id u, company, safeReturnTo (pl_local_url p) (tk_redirectTo t))), db')))"

section \<open>Sessions and the policy of an organization\<close>

definition revokeOwnSession ::
  "app_session \<Rightarrow> string \<Rightarrow> ms \<Rightarrow> identity_db \<Rightarrow> (identity_error + bool) \<times> identity_db" where
  "revokeOwnSession session target now db =
     (let own = (\<lambda>s. ls_id s = target \<and> ls_userId s = s_userId session) in
      if \<not> id_available db then (Inl IDENTITY_DATABASE_UNAVAILABLE, db)
      else if count_where (\<lambda>s. own s \<and> ls_revokedAt s = None) (id_sessions db) \<noteq> 1
      then (Inl SESSION_NOT_FOUND, revoke_where own now db)
      else (Inr (Some target = s_sessionId session), revoke_where own now db))"

definition revokeOtherSessions :: "app_session \<Rightarrow> ms \<Rightarrow> identity_db \<Rightarrow> identity_db" where
  "revokeOtherSessions session now db = revokeAllUserSessions (s_userId session) (s_sessionId session) now db"

text \<open>The date arrives parsed: \<open>Some None\<close> is a text that is no date.\<close>

definition updateOrganizationMfaPolicy ::
  "app_session \<Rightarrow> mfa_requirement option \<Rightarrow> ms option option \<Rightarrow> int option \<Rightarrow> identity_db \<Rightarrow>
   (identity_error + identity_policy) \<times> identity_db" where
  "updateOrganizationMfaPolicy session requirement enforcement gracePeriodDays db =
     (let company = s_companyId session in
      if \<not> od_allowed (evaluateOrganizationPermission (Some session) ''identity.policy.manage'' no_resource) \<or> \<not> truthy company
      then (Inl ORGANIZATION_POLICY_DENIED, db)
      else case (requirement, gracePeriodDays) of
        (Some req, Some days) \<Rightarrow>
          if \<not> safe_integer days \<or> days < 0 \<or> 365 < days \<or> enforcement = Some None
          then (Inl ORGANIZATION_POLICY_INVALID, db)
          else if \<not> id_available db then (Inl IDENTITY_DATABASE_UNAVAILABLE, db)
          else let t = Option.bind enforcement id;
                   change = (\<lambda>q. q\<lparr>op_mfaRequirement := req, op_gracePeriodDays := days, op_enforcementAt := t,
                                   op_updatedBy := Some (s_userId session)\<rparr>);
                   fresh = change \<lparr>op_companyId = the company, op_mfaRequirement = MFA_OPTIONAL, op_gracePeriodDays = 0,
                     op_enforcementAt = None, op_ssoRequirement = SSO_DISABLED, op_ssoProviderId = None,
                     op_ssoEnforcementAt = None, op_ssoGracePeriodDays = 0, op_localLoginAllowed = True,
                     op_updatedBy = None\<rparr> in
            (case List.find (\<lambda>q. op_companyId q = the company) (id_policies db) of
               Some q \<Rightarrow> (Inr (change q), db\<lparr>id_policies := update_where (\<lambda>q. op_companyId q = the company) change (id_policies db)\<rparr>)
             | None \<Rightarrow> (Inr fresh, db\<lparr>id_policies := id_policies db @ [fresh]\<rparr>))
      | _ \<Rightarrow> (Inl ORGANIZATION_POLICY_INVALID, db))"

end
