(* ===== verification/IdentitySystem.thy ===== *)
theory IdentitySystem
  imports IdentityManagement LeaseQueue
begin

text \<open>
  Identity as one system: every write of the handlers as a step on the shared tables, with whatever
  the handler read before as its argument, so that runs of steps cover every interleaving of reads
  and writes. Steps of other components may replace the tables of users, memberships and providers.
  What a factor or a token buys is bought once: the contract \<open>single_use\<close> states it for any system,
  and the tables of identity keep it.
\<close>

section \<open>The contract of single use\<close>

primrec trace_of :: "('op \<Rightarrow> 's \<Rightarrow> 'f list) \<Rightarrow> ('op \<Rightarrow> 's \<Rightarrow> 's) \<Rightarrow> 'op list \<Rightarrow> 's \<Rightarrow> 'f list" where
  "trace_of accepted step [] s = []"
| "trace_of accepted step (op # ops) s = accepted op s @ trace_of accepted step ops (step op s)"

locale single_use =
  fixes step :: "'op \<Rightarrow> 's \<Rightarrow> 's"
    and ok :: "'s \<Rightarrow> bool"
    and fresh :: "'op \<Rightarrow> 's \<Rightarrow> bool"
    and accepted :: "'op \<Rightarrow> 's \<Rightarrow> 'f list"
    and spent :: "'f \<Rightarrow> 's \<Rightarrow> bool"
  assumes step_ok: "ok s \<Longrightarrow> fresh op s \<Longrightarrow> ok (step op s)"
    and accepted_distinct: "ok s \<Longrightarrow> fresh op s \<Longrightarrow> distinct (accepted op s)"
    and accepted_unspent: "ok s \<Longrightarrow> fresh op s \<Longrightarrow> f \<in> set (accepted op s) \<Longrightarrow> \<not> spent f s"
    and accepted_spent: "ok s \<Longrightarrow> fresh op s \<Longrightarrow> f \<in> set (accepted op s) \<Longrightarrow> spent f (step op s)"
    and spent_stays: "ok s \<Longrightarrow> fresh op s \<Longrightarrow> spent f s \<Longrightarrow> spent f (step op s)"
begin

lemma run_ok: "ok s \<Longrightarrow> fresh_run fresh step ops s \<Longrightarrow> ok (queue_run step ops s)"
  by (induction ops arbitrary: s) (auto simp: step_ok)

lemma trace_unspent:
  "ok s \<Longrightarrow> fresh_run fresh step ops s \<Longrightarrow> spent f s \<Longrightarrow> f \<notin> set (trace_of accepted step ops s)"
proof (induction ops arbitrary: s)
  case (Cons op ops)
  then have "f \<notin> set (accepted op s)" using accepted_unspent by auto
  moreover have "f \<notin> set (trace_of accepted step ops (step op s))"
    using Cons step_ok spent_stays by simp
  ultimately show ?case by simp
qed simp

lemma trace_distinct: "ok s \<Longrightarrow> fresh_run fresh step ops s \<Longrightarrow> distinct (trace_of accepted step ops s)"
proof (induction ops arbitrary: s)
  case (Cons op ops)
  then have "ok (step op s)" "fresh_run fresh step ops (step op s)" by (simp_all add: step_ok)
  moreover have "set (accepted op s) \<inter> set (trace_of accepted step ops (step op s)) = {}"
    using trace_unspent [OF calculation] accepted_spent Cons.prems by auto
  ultimately show ?case using Cons accepted_distinct by auto
qed simp

end

section \<open>Steps\<close>

record directory =
  dr_available :: bool
  dr_companies :: "(string \<times> string) list"
  dr_users :: "identity_user list"
  dr_memberships :: "membership_row list"
  dr_assignments :: "assignment_row list"
  dr_providers :: "provider_row list"
  dr_externals :: "external_row list"
  dr_policies :: "identity_policy list"
  dr_exemptions :: "mfa_exemption list"

datatype identity_step =
    Login identity_platform string string user_view session_identity "string option" "string option" ms
  | StorePassword string string string ms
  | Attempt identity_platform mfa_plan ms
  | OpenSession crypto string string session_identity "login_session option" "string option" ms
  | TouchSession login_session ms
  | RevokeToken crypto string ms
  | RevokeAll string "string option" ms
  | RevokeOwn app_session string ms
  | BeginEnrollment string string string ms
  | ConfirmEnrollment string string int "recovery_row list" ms
  | UseCounter string int
  | ReplaceCodes string "recovery_row list"
  | DisableMethod string string ms
  | IssueReset crypto string string string ms
  | CommitReset crypto "identity_token \<times> identity_user \<times> string option \<times> string" ms
  | CommitPassword string string ms
  | IssueVerification identity_platform string string string "string option" ms
  | CommitVerification identity_token ms
  | Directory directory

definition or_unchanged :: "identity_db option \<Rightarrow> identity_db \<Rightarrow> identity_db" where
  "or_unchanged r db = (case r of None \<Rightarrow> db | Some db' \<Rightarrow> db')"

definition set_directory :: "directory \<Rightarrow> identity_db \<Rightarrow> identity_db" where
  "set_directory d db =
     db\<lparr>id_available := dr_available d, id_companies := dr_companies d, id_users := dr_users d,
        id_memberships := dr_memberships d, id_assignments := dr_assignments d, id_providers := dr_providers d,
        id_externals := dr_externals d, id_policies := dr_policies d, id_exemptions := dr_exemptions d\<rparr>"

fun identity_write :: "identity_step \<Rightarrow> identity_db \<Rightarrow> identity_db" where
  "identity_write (Login p i token v identity providerId redirectTo now) db =
     snd (finish_login p i token v identity providerId redirectTo now db)"
| "identity_write (StorePassword userId identifier replacement now) db =
     or_unchanged (store_password userId identifier replacement now db) db"
| "identity_write (Attempt p plan now) db = snd (mfa_commit p plan now db)"
| "identity_write (OpenSession c i token identity previous userAgent now) db =
     snd (session_commit c i token identity previous userAgent now db)"
| "identity_write (TouchSession s now) db = touch_session s now db"
| "identity_write (RevokeToken c token now) db = revokeSessionToken c token now db"
| "identity_write (RevokeAll userId except now) db = revokeAllUserSessions userId except now db"
| "identity_write (RevokeOwn session target now) db = snd (revokeOwnSession session target now db)"
| "identity_write (BeginEnrollment i userId encrypted now) db = begin_commit i userId encrypted now db"
| "identity_write (ConfirmEnrollment i userId counter rows now) db =
     (case confirm_commit i userId counter rows now db of Inl e \<Rightarrow> db | Inr db' \<Rightarrow> db')"
| "identity_write (UseCounter i counter) db = or_unchanged (use_counter i counter db) db"
| "identity_write (ReplaceCodes userId rows) db = or_unchanged (replace_codes userId rows db) db"
| "identity_write (DisableMethod i userId now) db = or_unchanged (disable_commit i userId now db) db"
| "identity_write (IssueReset c i token email now) db = snd (createPasswordReset c i token email now db)"
| "identity_write (CommitReset c plan now) db = snd (reset_commit c plan now db)"
| "identity_write (CommitPassword userId replacement now) db = or_unchanged (change_commit userId replacement now db) db"
| "identity_write (IssueVerification p i token email redirectTo now) db =
     snd (createEmailVerification p i token email redirectTo now db)"
| "identity_write (CommitVerification t now) db = or_unchanged (verify_commit t now db) db"
| "identity_write (Directory d) db = set_directory d db"

text \<open>The identifiers a step draws for the rows whose use is limited.\<close>

fun drawn_ids :: "identity_step \<Rightarrow> string list" where
  "drawn_ids (Login p i token v identity providerId redirectTo now) = [i]"
| "drawn_ids (BeginEnrollment i userId encrypted now) = [i]"
| "drawn_ids (ConfirmEnrollment i userId counter rows now) = map rc_id rows"
| "drawn_ids (ReplaceCodes userId rows) = map rc_id rows"
| "drawn_ids (IssueReset c i token email now) = [i]"
| "drawn_ids (IssueVerification p i token email redirectTo now) = [i]"
| "drawn_ids _ = []"

record identity_state =
  st_db :: identity_db
  st_drawn :: "string list"

definition identity_op :: "identity_step \<Rightarrow> identity_state \<Rightarrow> identity_state" where
  "identity_op op s = \<lparr>st_db = identity_write op (st_db s), st_drawn = drawn_ids op @ st_drawn s\<rparr>"

definition identity_fresh :: "identity_step \<Rightarrow> identity_state \<Rightarrow> bool" where
  "identity_fresh op s \<longleftrightarrow> distinct (drawn_ids op) \<and> set (drawn_ids op) \<inter> set (st_drawn s) = {}"

section \<open>What is accepted\<close>

datatype use =
    UsedCounter string int
  | UsedRecovery string
  | UsedChallenge string
  | UsedReset string
  | UsedVerification string

fun factor_use :: "mfa_factor \<Rightarrow> use" where
  "factor_use (TotpFactor i counter) = UsedCounter i counter"
| "factor_use (RecoveryFactor i) = UsedRecovery i"

fun accepted_uses :: "identity_step \<Rightarrow> identity_state \<Rightarrow> use list" where
  "accepted_uses (Attempt p (MfaAccept x factor v) now) s =
     (if accept_factor (lc_id x) factor (iu_id (uv_user v)) now (st_db s) = None then []
      else [UsedChallenge (lc_id x), factor_use factor])"
| "accepted_uses (ConfirmEnrollment i userId counter rows now) s =
     (case confirm_commit i userId counter rows now (st_db s) of Inl e \<Rightarrow> [] | Inr db \<Rightarrow> [UsedCounter i counter])"
| "accepted_uses (UseCounter i counter) s =
     (if use_counter i counter (st_db s) = None then [] else [UsedCounter i counter])"
| "accepted_uses (CommitReset c plan now) s =
     (case fst (reset_commit c plan now (st_db s)) of ResetSucceeded u company \<Rightarrow> [UsedReset (tk_id (fst plan))] | _ \<Rightarrow> [])"
| "accepted_uses (CommitVerification t now) s =
     (if verify_commit t now (st_db s) = None then [] else [UsedVerification (tk_id t)])"
| "accepted_uses _ s = []"

definition gone :: "('r \<Rightarrow> string) \<Rightarrow> ('r \<Rightarrow> ms option) \<Rightarrow> string \<Rightarrow> 'r list \<Rightarrow> string list \<Rightarrow> bool" where
  "gone key used i rows drawn \<longleftrightarrow> i \<in> set drawn \<and> (\<forall>r \<in> set rows. key r = i \<longrightarrow> used r \<noteq> None)"

fun spent_use :: "use \<Rightarrow> identity_state \<Rightarrow> bool" where
  "spent_use (UsedCounter i counter) s \<longleftrightarrow> i \<in> set (st_drawn s) \<and>
     (\<forall>m \<in> set (id_methods (st_db s)). mm_id m = i \<longrightarrow> \<not> counter_unused counter m)"
| "spent_use (UsedRecovery i) s \<longleftrightarrow> gone rc_id rc_usedAt i (id_recovery (st_db s)) (st_drawn s)"
| "spent_use (UsedChallenge i) s \<longleftrightarrow> gone lc_id lc_consumedAt i (id_challenges (st_db s)) (st_drawn s)"
| "spent_use (UsedReset i) s \<longleftrightarrow> gone tk_id tk_usedAt i (id_resets (st_db s)) (st_drawn s)"
| "spent_use (UsedVerification i) s \<longleftrightarrow> gone tk_id tk_usedAt i (id_verifications (st_db s)) (st_drawn s)"

text \<open>Identifiers of limited rows are distinct and drawn, and a pending method has no counter yet.\<close>

definition identity_ok :: "identity_state \<Rightarrow> bool" where
  "identity_ok s \<longleftrightarrow>
     (let db = st_db s; drawn = set (st_drawn s) in
      distinct (map mm_id (id_methods db)) \<and> mm_id ` set (id_methods db) \<subseteq> drawn \<and>
      distinct (map rc_id (id_recovery db)) \<and> rc_id ` set (id_recovery db) \<subseteq> drawn \<and>
      distinct (map lc_id (id_challenges db)) \<and> lc_id ` set (id_challenges db) \<subseteq> drawn \<and>
      distinct (map tk_id (id_resets db)) \<and> tk_id ` set (id_resets db) \<subseteq> drawn \<and>
      distinct (map tk_id (id_verifications db)) \<and> tk_id ` set (id_verifications db) \<subseteq> drawn \<and>
      (\<forall>m \<in> set (id_methods db). mm_status m = MFA_PENDING \<longrightarrow> mm_lastUsedCounter m = None))"

section \<open>How a table rows_evolve\<close>

text \<open>Rows are rewritten under their keys, some are deleted, and new ones get the keys drawn.\<close>

definition rows_evolve :: "('r \<Rightarrow> string) \<Rightarrow> ('r \<Rightarrow> 'r \<Rightarrow> bool) \<Rightarrow> string list \<Rightarrow> 'r list \<Rightarrow> 'r list \<Rightarrow> bool" where
  "rows_evolve key R drawn rows rows' \<longleftrightarrow>
     (\<exists>F P news. rows' = map F (filter P rows) @ news \<and> (\<forall>r \<in> set rows. key (F r) = key r \<and> R r (F r)) \<and>
        distinct (map key news) \<and> set (map key news) \<subseteq> set drawn)"

lemma rows_evolve_refl: "(\<And>r. R r r) \<Longrightarrow> rows_evolve key R drawn rows rows"
  unfolding rows_evolve_def by (intro exI [of _ id] exI [of _ "\<lambda>_. True"] exI [of _ "[]"]) auto

lemma rows_evolve_update:
  assumes "\<And>r. R r r" "\<And>r. r \<in> set rows \<Longrightarrow> p r \<Longrightarrow> key (f r) = key r \<and> R r (f r)"
  shows "rows_evolve key R drawn rows (update_where p f rows)"
  unfolding rows_evolve_def update_where_def
  by (intro exI [of _ "\<lambda>r. if p r then f r else r"] exI [of _ "\<lambda>_. True"] exI [of _ "[]"]) (use assms in auto)

lemma rows_evolve_insert:
  assumes "\<And>r. R r r" "\<And>r. r \<in> set rows \<Longrightarrow> p r \<Longrightarrow> key (f r) = key r \<and> R r (f r)"
    "distinct (map key news)" "set (map key news) \<subseteq> set drawn"
  shows "rows_evolve key R drawn rows (update_where p f rows @ news)"
  unfolding rows_evolve_def update_where_def
  by (intro exI [of _ "\<lambda>r. if p r then f r else r"] exI [of _ "\<lambda>_. True"] exI [of _ news]) (use assms in auto)

lemma rows_evolve_append:
  assumes "\<And>r. R r r" "distinct (map key news)" "set (map key news) \<subseteq> set drawn"
  shows "rows_evolve key R drawn rows (rows @ news)"
  unfolding rows_evolve_def by (intro exI [of _ id] exI [of _ "\<lambda>_. True"] exI [of _ news]) (use assms in auto)

lemma rows_evolve_filter:
  assumes "\<And>r. R r r" "distinct (map key news)" "set (map key news) \<subseteq> set drawn"
  shows "rows_evolve key R drawn rows (filter p rows @ news)"
  unfolding rows_evolve_def by (intro exI [of _ id] exI [of _ p] exI [of _ news]) (use assms in auto)

lemma rows_evolve_keys:
  assumes "rows_evolve key R drawn rows rows'" "distinct (map key rows)" "key ` set rows \<subseteq> before" "set drawn \<inter> before = {}"
  shows "distinct (map key rows')" "key ` set rows' \<subseteq> set drawn \<union> before"
proof -
  from assms(1) obtain F P news where e: "rows' = map F (filter P rows) @ news"
    "\<And>r. r \<in> set rows \<Longrightarrow> key (F r) = key r" "distinct (map key news)" "set (map key news) \<subseteq> set drawn"
    unfolding rows_evolve_def by blast
  then have kept: "map key (map F (filter P rows)) = map key (filter P rows)" by auto
  then have "distinct (map key (map F (filter P rows)))" using assms(2) by (simp only: distinct_map_filter)
  moreover have "set (map key (map F (filter P rows))) \<subseteq> before" unfolding kept using assms(3) by auto
  ultimately show "distinct (map key rows')" unfolding e(1) map_append distinct_append
    using e(3,4) assms(4) by blast
  show "key ` set rows' \<subseteq> set drawn \<union> before" unfolding e(1) using e(2,4) assms(3) by (auto simp: image_subset_iff)
qed

lemma rows_evolve_row:
  assumes "rows_evolve key R drawn rows rows'" "r' \<in> set rows'" "key r' \<notin> set drawn"
  obtains r where "r \<in> set rows" "key r = key r'" "R r r'"
  using assms unfolding rows_evolve_def by fastforce

lemma gone_evolves:
  assumes "rows_evolve key R drawn' rows rows'" "gone key used i rows drawn" "set drawn' \<inter> set drawn = {}"
    and "\<And>r r'. R r r' \<Longrightarrow> used r \<noteq> None \<Longrightarrow> used r' \<noteq> None"
  shows "gone key used i rows' (drawn' @ drawn)"
  unfolding gone_def
proof (intro conjI ballI impI)
  show "i \<in> set (drawn' @ drawn)" using assms(2) by (simp add: gone_def)
  fix r' assume r': "r' \<in> set rows'" "key r' = i"
  then have "key r' \<notin> set drawn'" using assms(2,3) by (auto simp: gone_def)
  from rows_evolve_row [OF assms(1) r'(1) this] obtain r where "r \<in> set rows" "key r = key r'" "R r r'" by blast
  with assms(2,4) r'(2) show "used r' \<noteq> None" by (auto simp: gone_def)
qed

section \<open>What each table goes through\<close>

definition keeps_used :: "('r \<Rightarrow> ms option) \<Rightarrow> 'r \<Rightarrow> 'r \<Rightarrow> bool" where
  "keeps_used used r r' \<longleftrightarrow> (used r \<noteq> None \<longrightarrow> used r' \<noteq> None)"

definition method_moves :: "mfa_method \<Rightarrow> mfa_method \<Rightarrow> bool" where
  "method_moves m m' \<longleftrightarrow>
     (mm_status m' = MFA_PENDING \<longrightarrow> mm_status m = MFA_PENDING \<and> mm_lastUsedCounter m' = mm_lastUsedCounter m) \<and>
     (\<forall>c. counter_unused c m' \<longrightarrow> counter_unused c m)"

lemma keeps_used_refl [simp]: "keeps_used used r r"
  and method_moves_refl [simp]: "method_moves m m"
  by (simp_all add: keeps_used_def method_moves_def)

lemma finish_login_cases:
  obtains "snd (finish_login p i token v identity providerId redirectTo now db) = db"
  | x where "snd (finish_login p i token v identity providerId redirectTo now db) = db\<lparr>id_challenges := id_challenges db @ [x]\<rparr>"
      "lc_id x = i" "lc_consumedAt x = None" "lc_attempts x = 0"
  by (atomize_elim) (auto simp: finish_login_def createLoginChallenge_def Let_def split: prod.split)

lemma store_password_frame:
  assumes "store_password userId identifier replacement now db = Some db'"
  shows "id_methods db' = id_methods db" "id_recovery db' = id_recovery db" "id_challenges db' = id_challenges db"
    "id_resets db' = id_resets db" "id_verifications db' = id_verifications db" "id_sessions db' = id_sessions db"
  using assms by (auto simp: store_password_def Let_def split: if_split_asm)

lemma accepted_tables:
  assumes "accept_factor i factor userId now db = Some db'"
  shows "id_challenges db' = update_where (\<lambda>x. lc_id x = i \<and> challenge_open now x) (\<lambda>x. x\<lparr>lc_consumedAt := Some now\<rparr>) (id_challenges db)"
    "count_where (\<lambda>x. lc_id x = i \<and> challenge_open now x) (id_challenges db) = 1"
    "id_resets db' = id_resets db" "id_verifications db' = id_verifications db" "id_sessions db' = id_sessions db"
    "use_factor factor userId now db \<noteq> None"
    "id_methods db' = id_methods (the (use_factor factor userId now db))"
    "id_recovery db' = id_recovery (the (use_factor factor userId now db))"
  using assms by (auto simp: accept_factor_def consume_challenge_def use_factor_def use_counter_def use_recovery_def
      Let_def bind_eq_Some_conv split: if_split_asm mfa_factor.split_asm)

text \<open>The tables an operation leaves alone.\<close>

lemmas write_defs = or_unchanged_def mfa_commit_def fail_challenge_def session_commit_def revoke_session_def
  touch_session_def revokeSessionToken_def revokeAllUserSessions_def revokeOwnSession_def revoke_where_def
  begin_commit_def confirm_commit_def activate_method_def replace_codes_def use_counter_def disable_commit_def
  createPasswordReset_def reset_commit_def change_commit_def createEmailVerification_def verify_commit_def
  set_directory_def Let_def

lemma methods_kept:
  "\<not> (case op of Attempt _ _ _ \<Rightarrow> True | BeginEnrollment _ _ _ _ \<Rightarrow> True | ConfirmEnrollment _ _ _ _ _ \<Rightarrow> True
      | UseCounter _ _ \<Rightarrow> True | DisableMethod _ _ _ \<Rightarrow> True | _ \<Rightarrow> False) \<Longrightarrow>
   id_methods (identity_write op db) = id_methods db"
proof (cases op)
  case (Login p i token v identity providerId redirectTo now)
  then show ?thesis by (cases rule: finish_login_cases [of p i token v identity providerId redirectTo now db]) simp_all
qed (auto simp: write_defs store_password_frame split: option.split prod.split)

lemma recovery_kept:
  "\<not> (case op of Attempt _ _ _ \<Rightarrow> True | ConfirmEnrollment _ _ _ _ _ \<Rightarrow> True | ReplaceCodes _ _ \<Rightarrow> True
      | DisableMethod _ _ _ \<Rightarrow> True | _ \<Rightarrow> False) \<Longrightarrow>
   id_recovery (identity_write op db) = id_recovery db"
proof (cases op)
  case (Login p i token v identity providerId redirectTo now)
  then show ?thesis by (cases rule: finish_login_cases [of p i token v identity providerId redirectTo now db]) simp_all
qed (auto simp: write_defs store_password_frame split: option.split prod.split)

lemma challenges_kept:
  "\<not> (case op of Attempt _ _ _ \<Rightarrow> True | Login _ _ _ _ _ _ _ _ \<Rightarrow> True | _ \<Rightarrow> False) \<Longrightarrow>
   id_challenges (identity_write op db) = id_challenges db"
  by (cases op) (auto simp: write_defs store_password_frame split: option.split prod.split)

lemma resets_kept:
  "\<not> (case op of Attempt _ _ _ \<Rightarrow> True | IssueReset _ _ _ _ _ \<Rightarrow> True | CommitReset _ _ _ \<Rightarrow> True
      | CommitPassword _ _ _ \<Rightarrow> True | _ \<Rightarrow> False) \<Longrightarrow>
   id_resets (identity_write op db) = id_resets db"
proof (cases op)
  case (Login p i token v identity providerId redirectTo now)
  then show ?thesis by (cases rule: finish_login_cases [of p i token v identity providerId redirectTo now db]) simp_all
qed (auto simp: write_defs store_password_frame split: option.split prod.split)

lemma verifications_kept:
  "\<not> (case op of Attempt _ _ _ \<Rightarrow> True | IssueVerification _ _ _ _ _ _ \<Rightarrow> True | CommitVerification _ _ \<Rightarrow> True
      | CommitReset _ _ _ \<Rightarrow> True | _ \<Rightarrow> False) \<Longrightarrow>
   id_verifications (identity_write op db) = id_verifications db"
proof (cases op)
  case (Login p i token v identity providerId redirectTo now)
  then show ?thesis by (cases rule: finish_login_cases [of p i token v identity providerId redirectTo now db]) simp_all
qed (auto simp: write_defs store_password_frame split: option.split prod.split)

text \<open>An attempt: nothing, one more failure, or an acceptance.\<close>

lemma attempt_cases:
  obtains (nothing) "snd (mfa_commit p plan now db) = db"
    | (failed) i where "snd (mfa_commit p plan now db) = fail_challenge i db"
    | (accepted) x factor v db' where "plan = MfaAccept x factor v"
      "accept_factor (lc_id x) factor (iu_id (uv_user v)) now db = Some db'" "snd (mfa_commit p plan now db) = db'"
  by (atomize_elim) (cases plan; auto simp: mfa_commit_def split: option.split)

lemma use_factor_methods:
  assumes "use_factor factor userId now db \<noteq> None"
  shows "rows_evolve mm_id method_moves drawn (id_methods db) (id_methods (the (use_factor factor userId now db)))"
proof (cases factor)
  case (TotpFactor i counter)
  then show ?thesis using assms
    by (auto simp: use_factor_def use_counter_def Let_def method_moves_def counter_unused_def
        split: if_split_asm option.split option.split_asm intro!: rows_evolve_update)
next
  case (RecoveryFactor i)
  then show ?thesis using assms
    by (auto simp: use_factor_def use_recovery_def Let_def split: if_split_asm intro!: rows_evolve_refl)
qed

lemma use_factor_recovery:
  assumes "use_factor factor userId now db \<noteq> None"
  shows "rows_evolve rc_id (keeps_used rc_usedAt) drawn (id_recovery db) (id_recovery (the (use_factor factor userId now db)))"
proof (cases factor)
  case (TotpFactor i counter)
  then show ?thesis using assms
    by (auto simp: use_factor_def use_counter_def Let_def split: if_split_asm intro!: rows_evolve_refl)
next
  case (RecoveryFactor i)
  then show ?thesis using assms
    by (auto simp: use_factor_def use_recovery_def Let_def keeps_used_def split: if_split_asm intro!: rows_evolve_update)
qed

lemma activate_moves:
  assumes "\<forall>m \<in> set (id_methods db). mm_status m = MFA_PENDING \<longrightarrow> mm_lastUsedCounter m = None"
    and "activate_method i userId counter now db = Some db'"
  shows "rows_evolve mm_id method_moves drawn (id_methods db) (id_methods db')"
  using assms by (auto simp: activate_method_def Let_def method_moves_def counter_unused_def
      split: if_split_asm option.split intro!: rows_evolve_update)

lemma methods_evolve:
  assumes "\<forall>m \<in> set (id_methods db). mm_status m = MFA_PENDING \<longrightarrow> mm_lastUsedCounter m = None"
  shows "rows_evolve mm_id method_moves (drawn_ids op) (id_methods db) (id_methods (identity_write op db))"
proof (cases op)
  case (Attempt p plan now)
  show ?thesis
  proof (cases rule: attempt_cases [of p plan now db])
    case (accepted x factor v db')
    from use_factor_methods [OF accepted_tables(6) [OF accepted(2)], of "drawn_ids op"] show ?thesis
      by (simp add: Attempt accepted(3) accepted_tables(7) [OF accepted(2)])
  qed (auto simp: Attempt fail_challenge_def intro: rows_evolve_refl)
next
  case (BeginEnrollment i userId encrypted now)
  then show ?thesis
    by (auto simp: begin_commit_def method_moves_def counter_unused_def pending_totp_def split: option.split
        intro!: rows_evolve_insert)
next
  case (ConfirmEnrollment i userId counter rows now)
  show ?thesis
  proof (cases "activate_method i userId counter now db")
    case (Some db')
    from activate_moves [OF assms Some] show ?thesis
      by (auto simp: ConfirmEnrollment confirm_commit_def Some replace_codes_def Let_def intro: rows_evolve_refl)
  qed (auto simp: ConfirmEnrollment confirm_commit_def intro: rows_evolve_refl)
next
  case (UseCounter i counter)
  show ?thesis
  proof (cases "use_counter i counter db")
    case (Some db')
    then show ?thesis using use_factor_methods [of "TotpFactor i counter" "[]" 0 db "drawn_ids op"] UseCounter
      by (simp add: use_factor_def or_unchanged_def)
  qed (simp add: UseCounter or_unchanged_def rows_evolve_refl)
next
  case (DisableMethod i userId now)
  then show ?thesis
    by (auto simp: or_unchanged_def disable_commit_def revoke_where_def method_moves_def counter_unused_def
        split: option.split intro!: rows_evolve_update intro: rows_evolve_refl)
qed (simp_all add: methods_kept rows_evolve_refl del: identity_write.simps)

lemma replace_evolves:
  assumes "replace_codes userId rows db = Some db'" "distinct (map rc_id rows)"
  shows "rows_evolve rc_id (keeps_used rc_usedAt) (map rc_id rows) (id_recovery db) (id_recovery db')"
  using assms by (auto simp: replace_codes_def Let_def split: if_split_asm intro!: rows_evolve_filter)

lemma recovery_evolve:
  assumes "distinct (drawn_ids op)"
  shows "rows_evolve rc_id (keeps_used rc_usedAt) (drawn_ids op) (id_recovery db) (id_recovery (identity_write op db))"
proof (cases op)
  case (Attempt p plan now)
  show ?thesis
  proof (cases rule: attempt_cases [of p plan now db])
    case (accepted x factor v db')
    from use_factor_recovery [OF accepted_tables(6) [OF accepted(2)], of "drawn_ids op"] show ?thesis
      by (simp add: Attempt accepted(3) accepted_tables(8) [OF accepted(2)])
  qed (auto simp: Attempt fail_challenge_def intro: rows_evolve_refl)
next
  case (ConfirmEnrollment i userId counter rows now)
  show ?thesis
  proof (cases "confirm_commit i userId counter rows now db")
    case (Inr db2)
    then obtain db1 where db1: "activate_method i userId counter now db = Some db1" "replace_codes userId rows db1 = Some db2"
      by (auto simp: confirm_commit_def split: option.split_asm)
    from db1(1) have "id_recovery db1 = id_recovery db" by (auto simp: activate_method_def Let_def split: if_split_asm)
    with replace_evolves [OF db1(2)] assms show ?thesis by (simp add: ConfirmEnrollment Inr)
  qed (simp add: ConfirmEnrollment rows_evolve_refl)
next
  case (ReplaceCodes userId rows)
  then show ?thesis using assms by (auto simp: or_unchanged_def intro: rows_evolve_refl replace_evolves split: option.split)
next
  case (DisableMethod i userId now)
  have "rows_evolve rc_id (keeps_used rc_usedAt) [] (id_recovery db) (filter (\<lambda>r. rc_userId r \<noteq> userId) (id_recovery db) @ [])"
    by (rule rows_evolve_filter) auto
  then show ?thesis using DisableMethod
    by (auto simp: or_unchanged_def disable_commit_def revoke_where_def split: option.split intro: rows_evolve_refl)
qed (simp_all add: recovery_kept rows_evolve_refl del: identity_write.simps)

lemma challenges_evolve:
  "rows_evolve lc_id (keeps_used lc_consumedAt) (drawn_ids op) (id_challenges db) (id_challenges (identity_write op db))"
proof (cases op)
  case (Login p i token v identity providerId redirectTo now)
  then show ?thesis
    by (cases rule: finish_login_cases [of p i token v identity providerId redirectTo now db])
      (auto intro: rows_evolve_refl intro!: rows_evolve_append)
next
  case (Attempt p plan now)
  show ?thesis
  proof (cases rule: attempt_cases [of p plan now db])
    case (failed i)
    then show ?thesis by (auto simp: Attempt fail_challenge_def keeps_used_def intro!: rows_evolve_update)
  next
    case (accepted x factor v db')
    from accepted_tables(1) [OF accepted(2)] accepted(3) show ?thesis
      by (auto simp: Attempt keeps_used_def intro!: rows_evolve_update)
  qed (auto simp: Attempt intro: rows_evolve_refl)
qed (simp_all add: challenges_kept rows_evolve_refl del: identity_write.simps)

lemma use_tokens_evolves: "rows_evolve tk_id (keeps_used tk_usedAt) drawn ts (use_tokens userId now ts)"
  unfolding use_tokens_def by (rule rows_evolve_update) (auto simp: keeps_used_def)

lemma issue_evolves:
  "issue_token t now ts = Some ts' \<Longrightarrow> tk_id t \<in> set drawn \<Longrightarrow> rows_evolve tk_id (keeps_used tk_usedAt) drawn ts ts'"
  unfolding issue_token_def use_tokens_def
  by (auto simp: keeps_used_def split: if_split_asm intro!: rows_evolve_insert)

text \<open>Consuming a token and using up the others of its user rewrite the table row by row.\<close>

lemma consume_evolves:
  assumes "consume_token i now ts = Some ts'"
  shows "rows_evolve tk_id (keeps_used tk_usedAt) drawn ts (use_tokens userId now ts')"
  unfolding rows_evolve_def
proof (intro exI conjI)
  let ?f = "\<lambda>t. if tk_id t = i \<and> token_open now t then t\<lparr>tk_usedAt := Some now\<rparr> else t"
  let ?g = "\<lambda>t. if tk_userId t = userId \<and> tk_usedAt t = None then t\<lparr>tk_usedAt := Some now\<rparr> else t"
  show "use_tokens userId now ts' = map (?g \<circ> ?f) (filter (\<lambda>_. True) ts) @ []"
    using assms by (auto simp: use_tokens_def consume_token_def update_where_def Let_def split: if_split_asm)
  show "\<forall>t \<in> set ts. tk_id ((?g \<circ> ?f) t) = tk_id t \<and> keeps_used tk_usedAt t ((?g \<circ> ?f) t)"
    by (auto simp: keeps_used_def)
qed auto

lemma resets_evolve:
  "rows_evolve tk_id (keeps_used tk_usedAt) (drawn_ids op) (id_resets db) (id_resets (identity_write op db))"
proof (cases op)
  case (Attempt p plan now)
  show ?thesis
  proof (cases rule: attempt_cases [of p plan now db])
    case (accepted x factor v db')
    then show ?thesis by (simp add: Attempt accepted_tables(3) [OF accepted(2)] rows_evolve_refl)
  qed (auto simp: Attempt fail_challenge_def intro: rows_evolve_refl)
next
  case (IssueReset c i token email now)
  then show ?thesis
    by (auto simp: createPasswordReset_def Let_def intro: rows_evolve_refl issue_evolves split: option.split)
next
  case (CommitReset c plan now)
  then show ?thesis
    by (auto simp: reset_commit_def revoke_where_def store_password_frame intro: rows_evolve_refl consume_evolves
        split: option.split prod.split)
next
  case (CommitPassword userId replacement now)
  then show ?thesis
    by (auto simp: or_unchanged_def change_commit_def revoke_where_def intro: rows_evolve_refl use_tokens_evolves
        split: option.split)
qed (simp_all add: resets_kept rows_evolve_refl del: identity_write.simps)

lemma verifications_evolve:
  "rows_evolve tk_id (keeps_used tk_usedAt) (drawn_ids op) (id_verifications db) (id_verifications (identity_write op db))"
proof (cases op)
  case (Attempt p plan now)
  show ?thesis
  proof (cases rule: attempt_cases [of p plan now db])
    case (accepted x factor v db')
    then show ?thesis by (simp add: Attempt accepted_tables(4) [OF accepted(2)] rows_evolve_refl)
  qed (auto simp: Attempt fail_challenge_def intro: rows_evolve_refl)
next
  case (IssueVerification p i token email redirectTo now)
  then show ?thesis
    by (auto simp: createEmailVerification_def Let_def intro: rows_evolve_refl issue_evolves split: option.split)
next
  case (CommitReset c plan now)
  then show ?thesis
    by (auto simp: reset_commit_def revoke_where_def store_password_frame intro: rows_evolve_refl
        split: option.split prod.split)
next
  case (CommitVerification t now)
  then show ?thesis
    by (auto simp: or_unchanged_def verify_commit_def intro: rows_evolve_refl consume_evolves split: option.split)
qed (simp_all add: verifications_kept rows_evolve_refl del: identity_write.simps)

section \<open>The contract is kept\<close>

lemma state_simps [simp]:
  "st_db (identity_op op s) = identity_write op (st_db s)"
  "st_drawn (identity_op op s) = drawn_ids op @ st_drawn s"
  by (simp_all add: identity_op_def)

lemma identity_okD:
  assumes "identity_ok s"
  shows "distinct (map mm_id (id_methods (st_db s)))" "mm_id ` set (id_methods (st_db s)) \<subseteq> set (st_drawn s)"
    "distinct (map rc_id (id_recovery (st_db s)))" "rc_id ` set (id_recovery (st_db s)) \<subseteq> set (st_drawn s)"
    "distinct (map lc_id (id_challenges (st_db s)))" "lc_id ` set (id_challenges (st_db s)) \<subseteq> set (st_drawn s)"
    "distinct (map tk_id (id_resets (st_db s)))" "tk_id ` set (id_resets (st_db s)) \<subseteq> set (st_drawn s)"
    "distinct (map tk_id (id_verifications (st_db s)))" "tk_id ` set (id_verifications (st_db s)) \<subseteq> set (st_drawn s)"
    "\<forall>m \<in> set (id_methods (st_db s)). mm_status m = MFA_PENDING \<longrightarrow> mm_lastUsedCounter m = None"
  using assms by (simp_all add: identity_ok_def Let_def)

lemma rows_evolve_fresh:
  assumes "rows_evolve key R drawn rows rows'" "distinct (map key rows)" "key ` set rows \<subseteq> set before"
    and "set drawn \<inter> set before = {}"
  shows "distinct (map key rows')" "key ` set rows' \<subseteq> set (drawn @ before)"
  using rows_evolve_keys [OF assms(1-3)] assms(4) by auto

text \<open>A pending method is an earlier pending one, or the new one of an enrolment.\<close>

lemma pending_unused:
  assumes "\<forall>m \<in> set (id_methods db). mm_status m = MFA_PENDING \<longrightarrow> mm_lastUsedCounter m = None"
    and "m' \<in> set (id_methods (identity_write op db))" "mm_status m' = MFA_PENDING"
    and "mm_id ` set (id_methods db) \<inter> set (drawn_ids op) = {}"
  shows "mm_lastUsedCounter m' = None"
proof (cases "mm_id m' \<in> set (drawn_ids op)")
  case False
  from rows_evolve_row [OF methods_evolve [OF assms(1), of op] assms(2) False] obtain m where
    "m \<in> set (id_methods db)" "method_moves m m'" by blast
  with assms(1,3) show ?thesis by (auto simp: method_moves_def)
next
  case True
  show ?thesis
  proof (cases "\<exists>i userId encrypted now. op = BeginEnrollment i userId encrypted now")
    case True
    with assms(1-3) show ?thesis by (auto simp: begin_commit_def elim!: in_update_whereE)
  next
    case False
    have "mm_id ` set (id_methods (identity_write op db)) \<subseteq> mm_id ` set (id_methods db)"
    proof (cases op)
      case (Attempt p plan now)
      then show ?thesis using \<open>mm_id m' \<in> set (drawn_ids op)\<close> by simp
    next
      case (ConfirmEnrollment i userId counter rows now)
      then show ?thesis
        by (auto simp: confirm_commit_def activate_method_def replace_codes_def Let_def split: option.split if_split_asm
            elim!: in_update_whereE)
    next
      case (UseCounter i counter)
      then show ?thesis using \<open>mm_id m' \<in> set (drawn_ids op)\<close> by simp
    next
      case (DisableMethod i userId now)
      then show ?thesis using \<open>mm_id m' \<in> set (drawn_ids op)\<close> by simp
    qed (use False in \<open>simp_all add: methods_kept del: identity_write.simps\<close>)
    with assms(2,4) True show ?thesis by blast
  qed
qed

lemma identity_op_ok:
  assumes "identity_ok s" "identity_fresh op s"
  shows "identity_ok (identity_op op s)"
proof -
  note ok = identity_okD [OF assms(1)]
  from assms(2) have new: "distinct (drawn_ids op)" "set (drawn_ids op) \<inter> set (st_drawn s) = {}"
    by (simp_all add: identity_fresh_def)
  have pending: "\<forall>m \<in> set (id_methods (identity_write op (st_db s))). mm_status m = MFA_PENDING \<longrightarrow> mm_lastUsedCounter m = None"
    using pending_unused [OF ok(11)] ok(2) new(2) by blast
  show ?thesis
    unfolding identity_ok_def Let_def state_simps
    using rows_evolve_fresh [OF methods_evolve [OF ok(11)] ok(1,2) new(2)]
      rows_evolve_fresh [OF recovery_evolve [OF new(1)] ok(3,4) new(2)]
      rows_evolve_fresh [OF challenges_evolve ok(5,6) new(2)] rows_evolve_fresh [OF resets_evolve ok(7,8) new(2)]
      rows_evolve_fresh [OF verifications_evolve ok(9,10) new(2)] pending by blast
qed

lemma spent_kept:
  assumes "identity_ok s" "identity_fresh op s" "spent_use f s"
  shows "spent_use f (identity_op op s)"
proof -
  from assms(2) have new: "distinct (drawn_ids op)" "set (drawn_ids op) \<inter> set (st_drawn s) = {}"
    by (simp_all add: identity_fresh_def)
  note moves = methods_evolve [OF identity_okD(11) [OF assms(1)], of op]
  show ?thesis
  proof (cases f)
    case (UsedCounter i counter)
    have "\<not> counter_unused counter m'" if "m' \<in> set (id_methods (identity_write op (st_db s)))" "mm_id m' = i" for m'
    proof -
      have "mm_id m' \<notin> set (drawn_ids op)" using that(2) assms(3) UsedCounter new(2) by auto
      from rows_evolve_row [OF moves that(1) this] obtain m where
        "m \<in> set (id_methods (st_db s))" "mm_id m = mm_id m'" "method_moves m m'" by blast
      with assms(3) UsedCounter that(2) show ?thesis by (auto simp: method_moves_def)
    qed
    with UsedCounter assms(3) show ?thesis by auto
  qed (use assms(3) new in \<open>auto simp: keeps_used_def
    intro: gone_evolves [OF recovery_evolve] gone_evolves [OF challenges_evolve] gone_evolves [OF resets_evolve]
      gone_evolves [OF verifications_evolve]\<close>)
qed

text \<open>A guarded update that found its row leaves no usable row of that key.\<close>

lemma guarded_row:
  assumes "count_where guard rows = 1"
  obtains r where "r \<in> set rows" "guard r"
  using assms count_where_pos [of guard rows] by auto

lemma guarded_all:
  assumes "count_where guard rows = 1" "distinct (map key rows)" "\<And>r. guard r \<Longrightarrow> key r = i" "\<And>r. key (f r) = key r"
    and "r' \<in> set (update_where guard f rows)" "key r' = i"
  obtains r where "r \<in> set rows" "guard r" "r' = f r"
proof -
  obtain r where r: "r \<in> set rows" "guard r" by (rule guarded_row [OF assms(1)])
  from assms(5) show ?thesis
  proof (cases rule: in_update_whereE)
    case kept
    then have "r' = r" using distinct_key_eq [OF assms(2) kept(1) r(1)] assms(3) [OF r(2)] assms(6) by simp
    with kept r(2) show ?thesis by simp
  next
    case (changed r0)
    with that show ?thesis by blast
  qed
qed

lemma drawn_key: "r \<in> set rows \<Longrightarrow> key ` set rows \<subseteq> set before \<Longrightarrow> key r \<in> set before"
  by auto

lemma gone_guarded:
  assumes "count_where guard rows = 1" "distinct (map key rows)" "key ` set rows \<subseteq> set before"
    and "\<And>r. guard r \<Longrightarrow> key r = i" "\<And>r. key (f r) = key r" "\<And>r. used (f r) \<noteq> None"
  shows "gone key used i (update_where guard f rows) before"
  unfolding gone_def
proof (intro conjI ballI impI)
  obtain r where "r \<in> set rows" "guard r" by (rule guarded_row [OF assms(1)])
  then show "i \<in> set before" using assms(3,4) by auto
  fix r' assume "r' \<in> set (update_where guard f rows)" "key r' = i"
  from guarded_all [OF assms(1,2,4,5) this] obtain r where "r' = f r" by metis
  with assms(6) show "used r' \<noteq> None" by simp
qed

text \<open>What is accepted was usable before and is used up after.\<close>

lemma use_factor_unspent:
  assumes "use_factor factor userId now (st_db s) \<noteq> None"
  shows "\<not> spent_use (factor_use factor) s"
proof (cases factor)
  case (TotpFactor i counter)
  with assms have one: "count_where (\<lambda>m. mm_id m = i \<and> mm_status m = MFA_ACTIVE \<and> counter_unused counter m) (id_methods (st_db s)) = 1"
    by (simp add: use_factor_def use_counter_def Let_def split: if_split_asm)
  show ?thesis using guarded_row [OF one] TotpFactor by (metis factor_use.simps(1) spent_use.simps(1))
next
  case (RecoveryFactor i)
  with assms have one: "count_where (\<lambda>r. rc_id r = i \<and> rc_userId r = userId \<and> rc_usedAt r = None) (id_recovery (st_db s)) = 1"
    by (simp add: use_factor_def use_recovery_def Let_def split: if_split_asm)
  show ?thesis using guarded_row [OF one] RecoveryFactor by (auto simp: gone_def)
qed

lemma use_factor_spent:
  assumes "identity_ok s" "use_factor factor userId now (st_db s) = Some db"
    and "id_methods (st_db s') = id_methods db" "id_recovery (st_db s') = id_recovery db" "st_drawn s' = st_drawn s"
  shows "spent_use (factor_use factor) s'"
proof (cases factor)
  case (TotpFactor i counter)
  let ?g = "\<lambda>m. mm_id m = i \<and> mm_status m = MFA_ACTIVE \<and> counter_unused counter m"
  from TotpFactor assms(2) have one: "count_where ?g (id_methods (st_db s)) = 1"
    and db: "id_methods db = update_where ?g (\<lambda>m. m\<lparr>mm_lastUsedCounter := Some counter\<rparr>) (id_methods (st_db s))"
    by (auto simp: use_factor_def use_counter_def Let_def split: if_split_asm)
  obtain m where "m \<in> set (id_methods (st_db s))" "mm_id m = i" using guarded_row [OF one] by metis
  then have "i \<in> set (st_drawn s)" using identity_okD(2) [OF assms(1)] by auto
  moreover have "\<not> counter_unused counter m'" if "m' \<in> set (id_methods db)" "mm_id m' = i" for m'
  proof -
    have "\<exists>r. m' = r\<lparr>mm_lastUsedCounter := Some counter\<rparr>"
      by (rule guarded_all [OF one identity_okD(1) [OF assms(1)], of i "\<lambda>m. m\<lparr>mm_lastUsedCounter := Some counter\<rparr>" m'])
        (use that in \<open>auto simp: db\<close>)
    then show ?thesis by (auto simp: counter_unused_def)
  qed
  ultimately show ?thesis using assms(3,5) TotpFactor by simp
next
  case (RecoveryFactor i)
  let ?g = "\<lambda>r. rc_id r = i \<and> rc_userId r = userId \<and> rc_usedAt r = None"
  from RecoveryFactor assms(2) have one: "count_where ?g (id_recovery (st_db s)) = 1"
    and db: "id_recovery db = update_where ?g (\<lambda>r. r\<lparr>rc_usedAt := Some now\<rparr>) (id_recovery (st_db s))"
    by (auto simp: use_factor_def use_recovery_def Let_def split: if_split_asm)
  have "gone rc_id rc_usedAt i (update_where ?g (\<lambda>r. r\<lparr>rc_usedAt := Some now\<rparr>) (id_recovery (st_db s))) (st_drawn s)"
    by (rule gone_guarded [OF one identity_okD(3,4) [OF assms(1)]]) auto
  with RecoveryFactor show ?thesis by (simp add: assms(4,5) db)
qed

lemma consume_token_row:
  assumes "consume_token i now ts = Some ts'"
  obtains t where "t \<in> set ts" "tk_id t = i" "token_open now t"
proof -
  from assms have "count_where (\<lambda>t. tk_id t = i \<and> token_open now t) ts = 1"
    by (simp add: consume_token_def Let_def split: if_split_asm)
  from guarded_row [OF this] that show ?thesis by blast
qed

lemma use_tokens_gone: "gone tk_id tk_usedAt i ts drawn \<Longrightarrow> gone tk_id tk_usedAt i (use_tokens userId now ts) drawn"
  by (auto simp: gone_def use_tokens_def elim!: in_update_whereE)

lemma consume_token_gone:
  assumes "consume_token i now ts = Some ts'" "distinct (map tk_id ts)" "tk_id ` set ts \<subseteq> set drawn"
  shows "gone tk_id tk_usedAt i (use_tokens userId now ts') drawn"
proof -
  from assms(1) have one: "count_where (\<lambda>t. tk_id t = i \<and> token_open now t) ts = 1"
    and ts': "ts' = update_where (\<lambda>t. tk_id t = i \<and> token_open now t) (\<lambda>t. t\<lparr>tk_usedAt := Some now\<rparr>) ts"
    by (auto simp: consume_token_def Let_def split: if_split_asm)
  show ?thesis unfolding ts'
    by (rule use_tokens_gone [OF gone_guarded [OF one assms(2,3)]]) auto
qed

lemma reset_committed:
  assumes "fst (reset_commit c plan now db) = ResetSucceeded u company"
  obtains ts db' where "consume_token (tk_id (fst plan)) now (id_resets db) = Some ts"
    "store_password (tk_userId (fst plan)) (normalizeIdentityEmail c (iu_email (fst (snd plan)))) (snd (snd (snd plan))) now db = Some db'"
    "snd (reset_commit c plan now db) = revoke_where (\<lambda>s. ls_userId s = tk_userId (fst plan)) now
       (db'\<lparr>id_resets := use_tokens (tk_userId (fst plan)) now ts\<rparr>)"
  using assms by (cases plan) (auto simp: reset_commit_def split: option.split_asm)

lemma verify_committed:
  assumes "verify_commit t now db = Some db'"
  obtains ts where "consume_token (tk_id t) now (id_verifications db) = Some ts"
    "id_verifications db' = use_tokens (tk_userId t) now ts"
  using assms by (auto simp: verify_commit_def split: option.split_asm)

lemma accepted_cases:
  assumes "f \<in> set (accepted_uses op s)"
  obtains (challenge) p x factor v now db where "op = Attempt p (MfaAccept x factor v) now"
      "accept_factor (lc_id x) factor (iu_id (uv_user v)) now (st_db s) = Some db"
      "f = UsedChallenge (lc_id x) \<or> f = factor_use factor"
    | (enrolled) i userId counter rows now db1 db2 where "op = ConfirmEnrollment i userId counter rows now"
      "f = UsedCounter i counter" "activate_method i userId counter now (st_db s) = Some db1"
      "replace_codes userId rows db1 = Some db2"
    | (code) i counter db where "op = UseCounter i counter" "use_counter i counter (st_db s) = Some db" "f = UsedCounter i counter"
    | (reset) c plan now u company where "op = CommitReset c plan now" "f = UsedReset (tk_id (fst plan))"
      "fst (reset_commit c plan now (st_db s)) = ResetSucceeded u company"
    | (verified) t now db where "op = CommitVerification t now" "f = UsedVerification (tk_id t)"
      "verify_commit t now (st_db s) = Some db"
proof (cases op)
  case (Attempt p plan now)
  show ?thesis
  proof (cases plan)
    case (MfaAccept x factor v)
    with assms Attempt obtain db where "accept_factor (lc_id x) factor (iu_id (uv_user v)) now (st_db s) = Some db"
      "f = UsedChallenge (lc_id x) \<or> f = factor_use factor" by (auto split: if_split_asm)
    with Attempt MfaAccept show ?thesis by (intro challenge) auto
  qed (use assms Attempt in auto)
next
  case (ConfirmEnrollment i userId counter rows now)
  with assms obtain db where "confirm_commit i userId counter rows now (st_db s) = Inr db" "f = UsedCounter i counter"
    by (cases "confirm_commit i userId counter rows now (st_db s)") auto
  with ConfirmEnrollment show ?thesis by (auto simp: confirm_commit_def intro: enrolled split: option.split_asm)
next
  case (UseCounter i counter)
  with assms show ?thesis by (auto intro: code split: if_split_asm)
next
  case (CommitReset c plan now)
  with assms obtain u company where "fst (reset_commit c plan now (st_db s)) = ResetSucceeded u company"
    "f = UsedReset (tk_id (fst plan))" by (cases "fst (reset_commit c plan now (st_db s))") auto
  with CommitReset show ?thesis by (intro reset)
next
  case (CommitVerification t now)
  with assms obtain db where "verify_commit t now (st_db s) = Some db" "f = UsedVerification (tk_id t)"
    by (auto split: if_split_asm)
  with CommitVerification show ?thesis by (intro verified)
qed (use assms in simp_all)

lemma accepted_fresh:
  assumes "identity_ok s" "f \<in> set (accepted_uses op s)"
  shows "\<not> spent_use f s"
  using assms(2)
proof (cases rule: accepted_cases)
  case (challenge p x factor v now db)
  obtain y where "y \<in> set (id_challenges (st_db s))" "lc_id y = lc_id x" "challenge_open now y"
    using guarded_row [OF accepted_tables(2) [OF challenge(2)]] by metis
  then have "\<not> spent_use (UsedChallenge (lc_id x)) s" by (auto simp: gone_def challenge_open_def)
  with use_factor_unspent [OF accepted_tables(6) [OF challenge(2)]] challenge(3) show ?thesis by blast
next
  case (enrolled i userId counter rows now db1 db2)
  then have "count_where (\<lambda>m. mm_id m = i \<and> mm_userId m = userId \<and> mm_status m = MFA_PENDING) (id_methods (st_db s)) = 1"
    by (simp add: activate_method_def Let_def split: if_split_asm)
  from guarded_row [OF this] obtain m where m: "m \<in> set (id_methods (st_db s))" "mm_id m = i" "mm_status m = MFA_PENDING"
    by metis
  with identity_okD(11) [OF assms(1)] have "counter_unused counter m" by (simp add: counter_unused_def)
  with m enrolled(2) show ?thesis by auto
next
  case (code i counter db)
  then show ?thesis using use_factor_unspent [of "TotpFactor i counter" "[]" 0 s] by (simp add: use_factor_def)
next
  case (reset c plan now u company)
  obtain ts where "consume_token (tk_id (fst plan)) now (id_resets (st_db s)) = Some ts"
    using reset_committed [OF reset(3)] by metis
  from consume_token_row [OF this] reset(2) show ?thesis by (auto simp: gone_def token_open_def)
next
  case (verified t now db)
  obtain ts where "consume_token (tk_id t) now (id_verifications (st_db s)) = Some ts"
    using verify_committed [OF verified(3)] by metis
  from consume_token_row [OF this] verified(2) show ?thesis by (auto simp: gone_def token_open_def)
qed

lemma accepted_used:
  assumes "identity_ok s" "f \<in> set (accepted_uses op s)"
  shows "spent_use f (identity_op op s)"
  using assms(2)
proof (cases rule: accepted_cases)
  case (challenge p x factor v now db)
  have db: "st_db (identity_op op s) = db" and drawn: "st_drawn (identity_op op s) = st_drawn s"
    by (auto simp: challenge(1) mfa_commit_def challenge(2) split: option.split)
  note t = accepted_tables [OF challenge(2)]
  have "spent_use (UsedChallenge (lc_id x)) (identity_op op s)"
    unfolding spent_use.simps db drawn t(1)
    by (rule gone_guarded [OF t(2) identity_okD(5,6) [OF assms(1)]]) auto
  moreover obtain db' where u: "use_factor factor (iu_id (uv_user v)) now (st_db s) = Some db'" using t(6) by blast
  then have "spent_use (factor_use factor) (identity_op op s)"
    by (rule use_factor_spent [OF assms(1)]) (simp_all add: t(7,8) u db drawn del: state_simps)
  ultimately show ?thesis using challenge(3) by blast
next
  case (enrolled i userId counter rows now db1 db2)
  let ?g = "\<lambda>m. mm_id m = i \<and> mm_userId m = userId \<and> mm_status m = MFA_PENDING"
  let ?f = "\<lambda>m. m\<lparr>mm_status := MFA_ACTIVE, mm_confirmedAt := Some now, mm_lastUsedCounter := Some counter\<rparr>"
  from enrolled(3) have one: "count_where ?g (id_methods (st_db s)) = 1"
    and db1: "id_methods db1 = update_where ?g ?f (id_methods (st_db s))"
    by (auto simp: activate_method_def Let_def split: if_split_asm)
  from enrolled(3,4) have db: "id_methods (st_db (identity_op op s)) = update_where ?g ?f (id_methods (st_db s))"
    by (simp add: enrolled(1) confirm_commit_def) (auto simp: replace_codes_def Let_def db1 split: if_split_asm)
  obtain m where "m \<in> set (id_methods (st_db s))" "mm_id m = i" using guarded_row [OF one] by metis
  then have "i \<in> set (st_drawn s)" using identity_okD(2) [OF assms(1)] by auto
  moreover have "\<not> counter_unused counter m'" if "m' \<in> set (update_where ?g ?f (id_methods (st_db s)))" "mm_id m' = i" for m'
  proof -
    have "\<exists>r. m' = ?f r"
      by (rule guarded_all [OF one identity_okD(1) [OF assms(1)] _ _ that]) auto
    then show ?thesis by (auto simp: counter_unused_def)
  qed
  ultimately show ?thesis unfolding enrolled(2) spent_use.simps db by (simp del: state_simps(1))
next
  case (code i counter db)
  have "spent_use (factor_use (TotpFactor i counter)) (identity_op op s)"
    by (rule use_factor_spent [OF assms(1), of _ "[]" 0 db])
      (use code in \<open>auto simp: use_factor_def or_unchanged_def use_counter_def Let_def split: if_split_asm\<close>)
  with code(3) show ?thesis by simp
next
  case (reset c plan now u company)
  obtain ts db' where r: "consume_token (tk_id (fst plan)) now (id_resets (st_db s)) = Some ts"
    "snd (reset_commit c plan now (st_db s)) = revoke_where (\<lambda>s. ls_userId s = tk_userId (fst plan)) now
       (db'\<lparr>id_resets := use_tokens (tk_userId (fst plan)) now ts\<rparr>)" using reset_committed [OF reset(3)] by metis
  from consume_token_gone [OF r(1) identity_okD(7,8) [OF assms(1)]] show ?thesis
    by (simp add: reset(1,2) r(2) revoke_where_def)
next
  case (verified t now db)
  obtain ts where r: "consume_token (tk_id t) now (id_verifications (st_db s)) = Some ts"
    "id_verifications db = use_tokens (tk_userId t) now ts" using verify_committed [OF verified(3)] by metis
  from consume_token_gone [OF r(1) identity_okD(9,10) [OF assms(1)]] show ?thesis
    by (simp add: verified(1-3) r(2) or_unchanged_def)
qed

lemma accepted_uses_distinct: "distinct (accepted_uses op s)"
proof (cases op)
  case (Attempt p plan now)
  show ?thesis
  proof (cases plan)
    case (MfaAccept x factor v)
    then show ?thesis by (cases factor) (simp_all add: Attempt)
  qed (simp_all add: Attempt)
qed (auto split: sum.split reset_result.split)

interpretation factors: single_use identity_op identity_ok identity_fresh accepted_uses spent_use
  by unfold_locales
    (blast intro: identity_op_ok accepted_uses_distinct spent_kept accepted_used dest: accepted_fresh)+

end
