(* ===== verification/IdentityRuns.thy ===== *)
theory IdentityRuns
  imports IdentitySystem
begin

text \<open>
  What runs of the identity system do to sessions and login challenges: a session keeps its token,
  its owner and its absolute end and never comes back from revocation, and a challenge counts its
  failures.
\<close>

section \<open>Sessions\<close>

definition session_moves :: "login_session \<Rightarrow> login_session \<Rightarrow> bool" where
  "session_moves s s' \<longleftrightarrow>
     ls_id s' = ls_id s \<and> ls_tokenHash s' = ls_tokenHash s \<and> ls_userId s' = ls_userId s \<and>
     ls_companyId s' = ls_companyId s \<and> ls_identityProviderId s' = ls_identityProviderId s \<and>
     ls_expiresAt s' = ls_expiresAt s \<and> ls_authenticationAt s' = ls_authenticationAt s \<and>
     (ls_revokedAt s \<noteq> None \<longrightarrow> ls_revokedAt s' \<noteq> None) \<and>
     (ls_idleExpiresAt s \<le> ls_lastActivityAt s + SESSION_IDLE_TTL_MS \<longrightarrow>
        ls_idleExpiresAt s' \<le> ls_lastActivityAt s' + SESSION_IDLE_TTL_MS)"

lemma session_moves_refl [simp]: "session_moves s s"
  by (simp add: session_moves_def)

text \<open>Rows are rewritten one by one; a new one comes only under a token that is not there yet.\<close>

definition sessions_move :: "login_session list \<Rightarrow> login_session list \<Rightarrow> bool" where
  "sessions_move rows rows' \<longleftrightarrow>
     (\<exists>F news. rows' = map F rows @ news \<and> (\<forall>s \<in> set rows. session_moves s (F s)) \<and>
        ls_tokenHash ` set news \<inter> ls_tokenHash ` set rows = {})"

lemma sessions_move_refl [simp]: "sessions_move rows rows"
  unfolding sessions_move_def by (intro exI [of _ id] exI [of _ "[]"]) simp

lemma sessions_move_update:
  "(\<And>s. s \<in> set rows \<Longrightarrow> p s \<Longrightarrow> session_moves s (f s)) \<Longrightarrow> sessions_move rows (update_where p f rows)"
  unfolding sessions_move_def update_where_def
  by (intro exI [of _ "\<lambda>s. if p s then f s else s"] exI [of _ "[]"]) auto

lemma sessions_move_append:
  assumes "sessions_move rows rows'" "length rows' = length rows" "ls_tokenHash ` set news \<inter> ls_tokenHash ` set rows' = {}"
  shows "sessions_move rows (rows' @ news)"
proof -
  from assms(1) obtain F news' where F': "rows' = map F rows @ news'" "\<And>s. s \<in> set rows \<Longrightarrow> session_moves s (F s)"
    unfolding sessions_move_def by blast
  with assms(2) have F: "rows' = map F rows" "\<And>s. s \<in> set rows \<Longrightarrow> session_moves s (F s)" by auto
  then have "ls_tokenHash (F s) = ls_tokenHash s" if "s \<in> set rows" for s using that by (simp add: session_moves_def)
  then have "ls_tokenHash ` set rows' = ls_tokenHash ` set rows" by (auto simp: F(1) image_iff)
  with F assms(3) show ?thesis unfolding sessions_move_def by (intro exI [of _ F] exI [of _ news]) auto
qed

lemma revoke_moves: "sessions_move (id_sessions db) (id_sessions (revoke_where cond now db))"
  unfolding revoke_where_def by (simp, rule sessions_move_update) (simp add: session_moves_def)

lemma commit_moves:
  "sessions_move (id_sessions db) (id_sessions (snd (session_commit c i token identity previous userAgent now db)))"
proof -
  let ?db1 = "case previous of None \<Rightarrow> db | Some s \<Rightarrow> revoke_session (ls_id s) now db"
  have "sessions_move (id_sessions db) (id_sessions ?db1)"
    by (auto simp: revoke_session_def session_moves_def split: option.split intro!: sessions_move_update)
  moreover have "length (id_sessions ?db1) = length (id_sessions db)" by (simp add: revoke_session_def split: option.split)
  ultimately show ?thesis
    by (auto simp: session_commit_def Let_def new_session_def simp del: id_sessions_def intro!: sessions_move_append)
qed

lemma finish_login_sessions:
  "id_sessions (snd (finish_login p i token v identity providerId redirectTo now db)) = id_sessions db"
  by (cases rule: finish_login_cases [of p i token v identity providerId redirectTo now db]) simp_all

lemma sessions_step: "sessions_move (id_sessions db) (id_sessions (identity_write op db))"
proof (cases op)
  case (Attempt p plan now)
  show ?thesis
  proof (cases rule: attempt_cases [of p plan now db])
    case (accepted x factor v db')
    then show ?thesis by (simp add: Attempt accepted_tables(5) [OF accepted(2)])
  qed (auto simp: Attempt fail_challenge_def)
next
  case (TouchSession s now)
  then show ?thesis
    by (auto simp: touch_session_def session_moves_def intro!: sessions_move_update)
next
  case (CommitReset c plan now)
  show ?thesis
  proof (cases "\<exists>u company. fst (reset_commit c plan now db) = ResetSucceeded u company")
    case True
    then obtain u company where "fst (reset_commit c plan now db) = ResetSucceeded u company" by blast
    from reset_committed [OF this] obtain ts db' where stored: "store_password (tk_userId (fst plan))
        (normalizeIdentityEmail c (iu_email (fst (snd plan)))) (snd (snd (snd plan))) now db = Some db'"
      and db: "snd (reset_commit c plan now db) = revoke_where (\<lambda>s. ls_userId s = tk_userId (fst plan)) now
        (db'\<lparr>id_resets := use_tokens (tk_userId (fst plan)) now ts\<rparr>)" by metis
    from revoke_moves [of "db'\<lparr>id_resets := use_tokens (tk_userId (fst plan)) now ts\<rparr>"] store_password_frame(6) [OF stored]
    show ?thesis by (simp add: CommitReset db)
  qed (auto simp: CommitReset reset_commit_def split: option.split_asm option.split prod.split_asm prod.split)
next
  case (DisableMethod i userId now)
  then show ?thesis
    by (auto simp: or_unchanged_def disable_commit_def revoke_where_def session_moves_def split: option.split
        intro!: sessions_move_update)
next
  case (CommitPassword userId replacement now)
  then show ?thesis
    by (auto simp: or_unchanged_def change_commit_def revoke_where_def session_moves_def split: option.split
        intro!: sessions_move_update)
next
  case (StorePassword userId name replacement now)
  then show ?thesis by (auto simp: or_unchanged_def store_password_frame split: option.split)
qed (auto simp: commit_moves revoke_moves finish_login_sessions revokeSessionToken_def revokeAllUserSessions_def
  revokeOwnSession_def begin_commit_def confirm_commit_def activate_method_def replace_codes_def use_counter_def
  or_unchanged_def createPasswordReset_def createEmailVerification_def verify_commit_def set_directory_def Let_def
  split: option.split prod.split)

text \<open>What holds of every session of a token and is stable under its moves holds after every run.\<close>

definition token_sessions :: "string \<Rightarrow> (login_session \<Rightarrow> bool) \<Rightarrow> identity_db \<Rightarrow> bool" where
  "token_sessions h Q db \<longleftrightarrow> h \<in> ls_tokenHash ` set (id_sessions db) \<and> (\<forall>s \<in> set (id_sessions db). ls_tokenHash s = h \<longrightarrow> Q s)"

lemma token_sessions_step:
  assumes "token_sessions h Q db" "\<And>s s'. Q s \<Longrightarrow> session_moves s s' \<Longrightarrow> Q s'"
  shows "token_sessions h Q (identity_write op db)"
proof -
  from sessions_step [of db op] obtain F news where F: "id_sessions (identity_write op db) = map F (id_sessions db) @ news"
    "\<And>s. s \<in> set (id_sessions db) \<Longrightarrow> session_moves s (F s)"
    "ls_tokenHash ` set news \<inter> ls_tokenHash ` set (id_sessions db) = {}" unfolding sessions_move_def by blast
  have h: "ls_tokenHash (F s) = ls_tokenHash s" if "s \<in> set (id_sessions db)" for s
    using F(2) [OF that] by (simp add: session_moves_def)
  obtain s0 where s0: "s0 \<in> set (id_sessions db)" "ls_tokenHash s0 = h" using assms(1) by (auto simp: token_sessions_def)
  have "Q s'" if s': "s' \<in> set (map F (id_sessions db) @ news)" "ls_tokenHash s' = h" for s'
  proof -
    have "s' \<notin> set news" using s'(2) s0 F(3) by blast
    with s'(1) obtain s where "s \<in> set (id_sessions db)" "s' = F s" by auto
    with assms s'(2) F(2) h show ?thesis unfolding token_sessions_def by metis
  qed
  moreover have "h \<in> ls_tokenHash ` set (map F (id_sessions db) @ news)" using s0 h by (metis UnI1 imageI in_set_conv_nth list.set_map set_append)
  ultimately show ?thesis unfolding token_sessions_def F(1) by blast
qed

lemma token_sessions_run:
  assumes "token_sessions h Q (st_db s)" "\<And>r r'. Q r \<Longrightarrow> session_moves r r' \<Longrightarrow> Q r'"
  shows "token_sessions h Q (st_db (queue_run identity_op ops s))"
  using assms(1)
proof (induction ops arbitrary: s)
  case (Cons op ops)
  from Cons.IH [of "identity_op op s"] token_sessions_step [OF Cons.prems assms(2)] show ?case by simp
qed simp

text \<open>A resolved session: its row is alive, its user usable, its membership active.\<close>

lemma resolvedD:
  assumes "fst (resolveSessionToken c token now db) = Some session"
  obtains s u where "s \<in> set (id_sessions db)" "ls_tokenHash s = cr_sha256 c token" "session_alive now s"
    "find_user (ls_userId s) db = Some u" "usable u" "s_sessionId session = Some (ls_id s)" "s_userId session = ls_userId s"
    "s_role session = iu_role u" "s_expiresAt session = ls_expiresAt s"
    "s_companyId session = None \<and> iu_role u \<noteq> CLIENT \<or>
     (\<exists>m \<in> set (active_memberships (ls_userId s) db). s_companyId session = Some (me_companyId m) \<and>
        ls_companyId s = Some (me_companyId m) \<and>
        s_organizationRole session = Some (organization_role_name (me_organizationRole m)))"
proof -
  from assms obtain s where s: "live_session c token now db = Some s"
    by (auto simp: resolveSessionToken_def split: option.split_asm)
  with assms obtain u where u: "find_user (ls_userId s) db = Some u" "toAppSession s u db = Some session"
    by (auto simp: resolveSessionToken_def bind_eq_Some_conv)
  from s have row: "s \<in> set (id_sessions db)" "ls_tokenHash s = cr_sha256 c token" "session_alive now s"
    by (auto simp: live_session_def session_by_token_def split: if_split_asm option.split_asm dest: find_SomeD)
  have user: "iu_id u = ls_userId s" using find_user_id [OF u(1)] by simp
  have member: "m \<in> set (active_memberships (ls_userId s) db) \<and> ls_companyId s = Some (me_companyId m)"
    if "List.find (\<lambda>m. Some (me_companyId m) = ls_companyId s) (active_memberships (iu_id u) db) = Some m" for m
    using find_SomeD [OF that] user by simp
  from u(2) have "usable u" by (simp add: toAppSession_def Let_def split: if_split_asm)
  moreover from u(2) user have "s_sessionId session = Some (ls_id s)" "s_userId session = ls_userId s"
    "s_role session = iu_role u" "s_expiresAt session = ls_expiresAt s"
    by (auto simp: toAppSession_def Let_def split: if_split_asm)
  moreover have "s_companyId session = None \<and> iu_role u \<noteq> CLIENT \<or>
     (\<exists>m \<in> set (active_memberships (ls_userId s) db). s_companyId session = Some (me_companyId m) \<and>
        ls_companyId s = Some (me_companyId m) \<and>
        s_organizationRole session = Some (organization_role_name (me_organizationRole m)))"
  proof (cases "s_companyId session")
    case None
    with u(2) show ?thesis by (auto simp: toAppSession_def Let_def split: if_split_asm)
  next
    case (Some company)
    with u(2) obtain m where m: "List.find (\<lambda>m. Some (me_companyId m) = ls_companyId s) (active_memberships (iu_id u) db) = Some m"
      "session = session" "s_companyId session = Some (me_companyId m)"
      "s_organizationRole session = Some (organization_role_name (me_organizationRole m))"
      by (auto simp: toAppSession_def Let_def split: if_split_asm)
    with member [OF m(1)] show ?thesis by blast
  qed
  ultimately show ?thesis by (intro that [OF row u(1)])
qed

section \<open>Challenges\<close>

definition is_failure :: "string \<Rightarrow> identity_step \<Rightarrow> bool" where
  "is_failure i op = (case op of Attempt p (MfaFailure j u c) now \<Rightarrow> j = i | _ \<Rightarrow> False)"

definition failures :: "string \<Rightarrow> identity_step list \<Rightarrow> int" where
  "failures i ops = int (length (filter (is_failure i) ops))"

lemma failures_simps [simp]:
  "failures i [] = 0" "failures i (op # ops) = (if is_failure i op then 1 else 0) + failures i ops"
  by (simp_all add: failures_def)

text \<open>A challenge is consumed for good and counts a failure as long as it is open and below the limit.\<close>

definition challenge_moves :: "identity_step \<Rightarrow> login_challenge \<Rightarrow> login_challenge \<Rightarrow> bool" where
  "challenge_moves op x x' \<longleftrightarrow>
     (lc_consumedAt x \<noteq> None \<longrightarrow> lc_consumedAt x' \<noteq> None) \<and> lc_attempts x \<le> lc_attempts x' \<and>
     (lc_attempts x \<le> LOGIN_CHALLENGE_MAX_ATTEMPTS \<longrightarrow> lc_attempts x' \<le> LOGIN_CHALLENGE_MAX_ATTEMPTS) \<and>
     (is_failure (lc_id x) op \<and> lc_consumedAt x = None \<and> lc_attempts x < LOGIN_CHALLENGE_MAX_ATTEMPTS \<longrightarrow>
        lc_attempts x' = lc_attempts x + 1)"

lemma challenge_moves_refl: "\<not> is_failure (lc_id x) op \<Longrightarrow> challenge_moves op x x"
  by (simp add: challenge_moves_def)

lemma rows_evolve_map:
  assumes "\<And>r. r \<in> set rows \<Longrightarrow> key (F r) = key r \<and> R r (F r)"
  shows "rows_evolve key R drawn rows (map F rows)"
  unfolding rows_evolve_def by (intro exI [of _ F] exI [of _ "\<lambda>_. True"] exI [of _ "[]"]) (use assms in auto)

lemma rows_evolve_same: "(\<And>r. r \<in> set rows \<Longrightarrow> R r r) \<Longrightarrow> rows_evolve key R drawn rows rows"
  using rows_evolve_map [of rows key id R drawn] by simp

lemma challenges_count:
  "rows_evolve lc_id (challenge_moves op) (drawn_ids op) (id_challenges db) (id_challenges (identity_write op db))"
proof (cases "\<exists>p plan now. op = Attempt p plan now")
  case True
  then obtain p plan now where op: "op = Attempt p plan now" by blast
  show ?thesis
  proof (cases plan)
    case (MfaDone r)
    then show ?thesis by (auto simp: op mfa_commit_def is_failure_def intro!: rows_evolve_same challenge_moves_refl)
  next
    case (MfaFailure i u c)
    then show ?thesis
      by (auto simp: op mfa_commit_def fail_challenge_def update_where_def challenge_moves_def is_failure_def intro!: rows_evolve_map)
  next
    case (MfaAccept x factor v)
    show ?thesis
    proof (cases "accept_factor (lc_id x) factor (iu_id (uv_user v)) now db")
      case None
      then show ?thesis
        by (auto simp: op mfa_commit_def MfaAccept is_failure_def intro!: rows_evolve_same challenge_moves_refl)
    next
      case (Some db')
      then have "id_challenges (identity_write op db) = id_challenges db'"
        by (simp add: op mfa_commit_def MfaAccept split: option.split)
      then show ?thesis unfolding accepted_tables(1) [OF Some] update_where_def
        by (auto simp: op MfaAccept is_failure_def challenge_moves_def intro!: rows_evolve_map)
    qed
  qed
next
  case False
  then have no: "\<not> is_failure i op" for i by (cases op) (auto simp: is_failure_def)
  show ?thesis
  proof (cases "\<exists>p i token v identity providerId redirectTo now. op = Login p i token v identity providerId redirectTo now")
    case True
    then obtain p i token v identity providerId redirectTo now where
      op: "op = Login p i token v identity providerId redirectTo now" by blast
    show ?thesis
      by (cases rule: finish_login_cases [of p i token v identity providerId redirectTo now db])
        (use no in \<open>auto simp: op challenge_moves_def intro!: rows_evolve_same rows_evolve_append\<close>)
  next
    case False
    then have "id_challenges (identity_write op db) = id_challenges db"
      using \<open>\<nexists>p plan now. op = Attempt p plan now\<close> by (intro challenges_kept) (auto split: identity_step.split)
    then show ?thesis using no by (auto intro!: rows_evolve_same challenge_moves_refl)
  qed
qed

definition failed_often :: "string \<Rightarrow> int \<Rightarrow> identity_db \<Rightarrow> bool" where
  "failed_often i n db \<longleftrightarrow>
     (\<forall>x \<in> set (id_challenges db). lc_id x = i \<longrightarrow> lc_attempts x \<le> LOGIN_CHALLENGE_MAX_ATTEMPTS \<and>
        (lc_consumedAt x \<noteq> None \<or> min LOGIN_CHALLENGE_MAX_ATTEMPTS n \<le> lc_attempts x))"

lemma failed_often_step:
  assumes "failed_often i n db" "i \<notin> set (drawn_ids op)"
  shows "failed_often i (n + (if is_failure i op then 1 else 0)) (identity_write op db)"
  unfolding failed_often_def
proof (intro ballI impI)
  fix x' assume x': "x' \<in> set (id_challenges (identity_write op db))" "lc_id x' = i"
  from rows_evolve_row [OF challenges_count x'(1)] x'(2) assms(2) obtain x where
    "x \<in> set (id_challenges db)" "lc_id x = i" "challenge_moves op x x'" by metis
  with assms(1) show "lc_attempts x' \<le> LOGIN_CHALLENGE_MAX_ATTEMPTS \<and>
      (lc_consumedAt x' \<noteq> None \<or> min LOGIN_CHALLENGE_MAX_ATTEMPTS (n + (if is_failure i op then 1 else 0)) \<le> lc_attempts x')"
    by (fastforce simp: failed_often_def challenge_moves_def split: if_splits)
qed

lemma failed_often_run:
  assumes "failed_often i n (st_db s)" "i \<in> set (st_drawn s)" "fresh_run identity_fresh identity_op ops s"
  shows "failed_often i (n + failures i ops) (st_db (queue_run identity_op ops s))"
  using assms
proof (induction ops arbitrary: s n)
  case (Cons op ops)
  then have "i \<notin> set (drawn_ids op)" by (auto simp: identity_fresh_def)
  from failed_often_step [OF Cons.prems(1) this]
  have "failed_often i (n + (if is_failure i op then 1 else 0)) (st_db (identity_op op s))" by simp
  from Cons.IH [OF this] Cons.prems show ?case by (simp add: add.assoc)
qed simp

lemma often_refused:
  assumes "failed_often i n db" "LOGIN_CHALLENGE_MAX_ATTEMPTS \<le> n"
  shows "accept_factor i factor userId now db = None"
proof -
  have "count_where (\<lambda>x. lc_id x = i \<and> challenge_open now x) (id_challenges db) = 0"
    using assms by (auto simp: count_where_0 failed_often_def challenge_open_def)
  then show ?thesis by (simp add: accept_factor_def consume_challenge_def Let_def)
qed

end
