(* ===== verification/IdentityProperties.thy ===== *)
theory IdentityProperties
  imports IdentityRuns
begin

text \<open>
  The properties of factors and sessions: factors and tokens are used once, a challenge bears five
  guesses, what a second factor that authenticates stands for, and how long and for whom a session
  resolves. Each comes with a concrete run on a small platform.
\<close>

section \<open>A small platform\<close>

definition char_byte :: "char \<Rightarrow> byte" where
  "char_byte c = word_of_nat (of_char c)"

definition byte_char :: "byte \<Rightarrow> char" where
  "byte_char b = char_of (unat b)"

lemma byte_char_byte [simp]: "byte_char (char_byte c) = c"
  by (simp add: byte_char_def char_byte_def unat_of_nat)

lemma char_byte_char [simp]: "char_byte (byte_char b) = b"
proof -
  have "unat b < 2 ^ LENGTH(8)" by (rule unsigned_less)
  then have "unat b < 256" by simp
  then have "of_char (char_of (unat b) :: char) = unat b" by simp
  then show ?thesis by (simp add: byte_char_def char_byte_def)
qed

text \<open>An encoding without full stops and dollar signs: those and the escape itself are escaped.\<close>

fun escape :: "string \<Rightarrow> string" where
  "escape [] = []"
| "escape (c # cs) =
     (if c = CHR ''.'' then ''!a'' @ escape cs else if c = CHR ''$'' then ''!b'' @ escape cs
      else if c = CHR ''!'' then ''!c'' @ escape cs else c # escape cs)"

fun unescape :: "string \<Rightarrow> string" where
  "unescape (c # d # cs) =
     (if c = CHR ''!'' then (if d = CHR ''a'' then CHR ''.'' else if d = CHR ''b'' then CHR ''$'' else CHR ''!'') # unescape cs
      else c # unescape (d # cs))"
| "unescape cs = cs"

lemma unescape_plain: "c \<noteq> CHR ''!'' \<Longrightarrow> unescape (c # cs) = c # unescape cs"
  by (cases cs) auto

lemma unescape_escape [simp]: "unescape (escape s) = s"
  by (induction s) (auto simp: unescape_plain)

lemma escape_separators: "CHR ''.'' \<notin> set (escape s)" "CHR ''$'' \<notin> set (escape s)"
  by (induction s) auto

lemma escape_empty [simp]: "escape s = [] \<longleftrightarrow> s = []"
  by (cases s) auto

definition small_crypto :: crypto where
  "small_crypto =
     \<lparr>cr_hmac = (\<lambda>key m. rev m @ replicate 12 0), cr_sha256 = (\<lambda>s. s), cr_base64url = (\<lambda>b. escape (map byte_char b)),
      cr_from_base64url = (\<lambda>s. map char_byte (unescape s)), cr_from_hex = (\<lambda>s. if s = ''01'' then [1] else [0]),
      cr_seal = (\<lambda>key iv aad s. (map char_byte s, [1])),
      cr_open = (\<lambda>key iv aad tag ct. if tag = [1] then Some (map byte_char ct) else None),
      cr_scrypt = (\<lambda>s salt cost. Some (replicate 32 (if s = ''battery staple'' then 1 else 0))),
      cr_pbkdf2 = (\<lambda>s salt n. Some [if s = ''correct horse'' then 1 else 0]), cr_nfkc = (\<lambda>s. s),
      cr_number = (\<lambda>s. if s = ''32768'' then Some 32768 else if s = ''8'' then Some 8 else if s = ''1'' then Some 1
         else if s = ''210000'' then Some 210000 else None),
      cr_json = (\<lambda>s. if s = ''old'' then Some (JObject [(''v1'', JString ''0123456789abcdef0123456789abcdef'')]) else None)\<rparr>"

lemma small_crypto_ok: "crypto_ok small_crypto"
  by (auto simp: crypto_ok_def small_crypto_def comp_def escape_separators)

definition small_keys :: key_environment where
  "small_keys = \<lparr>MFA_ENCRYPTION_KEY = Some ''0123456789abcdef0123456789abcdef'', MFA_ENCRYPTION_KEY_VERSION = None,
     MFA_ENCRYPTION_PREVIOUS_KEYS = None\<rparr>"

lemma small_key: "getIdentityEncryptionKey small_crypto small_keys =
    Inr (map char_byte ''0123456789abcdef0123456789abcdef'', ''v1'')"
  by (simp add: getIdentityEncryptionKey_def small_keys_def decodeKey_def hex_key_def keyVersion_def Let_def
    KEY_VERSION_PATTERN_def trim_def char_class_defs is_space_def small_crypto_def)

definition small_platform :: identity_platform where
  "small_platform = \<lparr>pl_crypto = small_crypto, pl_keys = small_keys, pl_local_url = Some, pl_adminMfaRequired = None\<rparr>"

definition anna :: identity_user where
  "anna = \<lparr>iu_id = ''u-1'', iu_email = ''anna@acme.test'', iu_name = ''Anna'', iu_role = CLIENT, iu_active = True,
     iu_disabledAt = None, iu_companyId = Some ''acme'', iu_passwordHash = None, iu_emailVerifiedAt = None\<rparr>"

definition anna_member :: membership_row where
  "anna_member = \<lparr>me_id = ''o-1'', me_userId = ''u-1'', me_companyId = ''acme'', me_role = CLIENT, me_organizationRole = MEMBER,
     me_status = ACTIVE, me_active = True, me_version = 1, me_suspendedAt = None, me_removedAt = None\<rparr>"

definition anna_credential :: credential_row where
  "anna_credential = \<lparr>cd_userId = ''u-1'', cd_identifierNormalized = ''anna@acme.test'',
     cd_passwordHash = ''pbkdf2$210000$salt$01'', cd_passwordChangedAt = 0\<rparr>"

definition anna_method :: mfa_method where
  "anna_method = \<lparr>mm_id = ''f-1'', mm_userId = ''u-1'', mm_kind = TOTP, mm_status = MFA_ACTIVE,
     mm_secretEncrypted = Some ''v2.v1.iv.tag.AA'',
     mm_lastUsedCounter = None, mm_confirmedAt = Some 0, mm_disabledAt = None, mm_createdAt = 0\<rparr>"

definition small_db :: identity_db where
  "small_db =
     \<lparr>id_available = True, id_companies = [(''acme'', ''Acme'')], id_users = [anna], id_credentials = [anna_credential],
      id_memberships = [anna_member], id_assignments = [], id_methods = [anna_method], id_recovery = [], id_challenges = [],
      id_sessions = [], id_resets = [], id_verifications = [], id_providers = [], id_externals = [], id_policies = [],
      id_exemptions = []\<rparr>"

definition start :: identity_state where
  "start = \<lparr>st_db = small_db, st_drawn = [''f-1'']\<rparr>"

lemma start_ok: "identity_ok start"
  by (simp add: identity_ok_def start_def small_db_def anna_method_def)

section \<open>Factors are used once\<close>

text \<open>
  C10. Whatever the handlers read before, in every order of their writes a TOTP counter of a method, a
  recovery code, a login challenge, a reset token and a verification token are each accepted at most
  once.
\<close>

theorem factors_used_once:
  assumes "identity_ok s" "fresh_run identity_fresh identity_op ops s"
  shows "distinct (trace_of accepted_uses identity_op ops s)"
  using assms by (rule factors.trace_distinct)

text \<open>The witness: two challenges, and the same code of second 150 offered to both.\<close>

definition two_logins :: "identity_step list" where
  "two_logins =
     (let v = the (loadAuthenticationUser ''u-1'' small_db); n = the (toIdentity v False 150000);
          x1 = \<lparr>lc_id = ''c-1'', lc_tokenHash = ''t-1'', lc_userId = ''u-1'', lc_companyId = Some ''acme'', lc_identityProviderId = None,
            lc_redirectTo = None, lc_attempts = 0, lc_expiresAt = 450000, lc_consumedAt = None\<rparr> in
      [Login small_platform ''c-1'' ''t-1'' v n None None 150000, Login small_platform ''c-2'' ''t-2'' v n None None 150000,
       Attempt small_platform (MfaAccept x1 (TotpFactor ''f-1'' 5) v) 150000,
       Attempt small_platform (MfaAccept (x1\<lparr>lc_id := ''c-2''\<rparr>) (TotpFactor ''f-1'' 5) v) 150001,
       Attempt small_platform (MfaAccept (x1\<lparr>lc_id := ''c-2''\<rparr>) (TotpFactor ''f-1'' 6) v) 180000])"

lemma two_logins_trace: "trace_of accepted_uses identity_op two_logins start =
    [UsedChallenge ''c-1'', UsedCounter ''f-1'' 5, UsedChallenge ''c-2'', UsedCounter ''f-1'' 6]"
  by code_simp

theorem factors_used_once_witness: "distinct (trace_of accepted_uses identity_op two_logins start)"
  by (rule factors_used_once [OF start_ok]) code_simp

section \<open>Guessing is bounded\<close>

text \<open>
  C12. A login challenge bears five wrong codes: once five attempts on it have failed, in whatever order
  with everything else and however many were read at the same time, no code is accepted for it, and
  its counter never passes five.
\<close>

theorem challenge_guesses_bounded:
  assumes "identity_ok s" "fresh_run identity_fresh identity_op ops s"
    and "x \<in> set (id_challenges (st_db s))" "0 \<le> lc_attempts x" "lc_attempts x \<le> 5"
    and "5 \<le> lc_attempts x + failures (lc_id x) ops" "lc_id y = lc_id x"
    and "db = st_db (queue_run identity_op ops s)"
  shows "mfa_commit p (MfaAccept y factor v) now db = (MfaExpired (Some (iu_id (uv_user v))) (lc_companyId y), db) \<and>
    (\<forall>z \<in> set (id_challenges db). lc_id z = lc_id x \<longrightarrow> lc_attempts z \<le> 5)"
proof -
  have "failed_often (lc_id x) (lc_attempts x) (st_db s)"
    using assms(3,5) identity_okD(5) [OF assms(1)]
    by (auto simp: failed_often_def LOGIN_CHALLENGE_MAX_ATTEMPTS_def dest: distinct_key_eq)
  moreover have "lc_id x \<in> set (st_drawn s)" using assms(3) identity_okD(6) [OF assms(1)] by auto
  ultimately have often: "failed_often (lc_id x) (lc_attempts x + failures (lc_id x) ops) db"
    unfolding assms(8) using assms(2) by (rule failed_often_run)
  from often_refused [OF this] assms(6) have "accept_factor (lc_id y) factor (iu_id (uv_user v)) now db = None"
    by (simp add: LOGIN_CHALLENGE_MAX_ATTEMPTS_def assms(7))
  with often show ?thesis by (auto simp: mfa_commit_def failed_often_def LOGIN_CHALLENGE_MAX_ATTEMPTS_def)
qed

definition challenged :: identity_state where
  "challenged = start\<lparr>st_db := small_db\<lparr>id_challenges :=
     [\<lparr>lc_id = ''c-1'', lc_tokenHash = ''t-1'', lc_userId = ''u-1'', lc_companyId = Some ''acme'', lc_identityProviderId = None,
       lc_redirectTo = None, lc_attempts = 0, lc_expiresAt = 450000, lc_consumedAt = None\<rparr>]\<rparr>,
     st_drawn := [''c-1'', ''f-1'']\<rparr>"

definition guess :: identity_step where
  "guess = Attempt small_platform (MfaFailure ''c-1'' ''u-1'' (Some ''acme'')) 150000"

theorem challenge_guesses_bounded_witness:
  "fst (mfa_commit small_platform (MfaAccept (hd (id_challenges (st_db challenged))) (TotpFactor ''f-1'' 5)
     (the (loadAuthenticationUser ''u-1'' small_db))) 150000
     (st_db (queue_run identity_op (replicate 5 guess) challenged))) = MfaExpired (Some ''u-1'') (Some ''acme'')"
proof -
  have ok: "identity_ok challenged"
    by (simp add: identity_ok_def challenged_def start_def small_db_def anna_method_def)
  have run: "fresh_run identity_fresh identity_op (replicate n guess) s" for n s
    by (induction n arbitrary: s) (simp_all add: guess_def identity_fresh_def)
  have "failures ''c-1'' (replicate 5 guess) = 5"
    by (simp add: failures_def guess_def is_failure_def)
  then show ?thesis
    using challenge_guesses_bounded [OF ok run [of 5], of "hd (id_challenges (st_db challenged))"
      "hd (id_challenges (st_db challenged))" "st_db (queue_run identity_op (replicate 5 guess) challenged)" small_platform
      "TotpFactor ''f-1'' 5" "the (loadAuthenticationUser ''u-1'' small_db)" 150000]
    by (simp add: challenged_def loadAuthenticationUser_def find_user_def small_db_def anna_def)
qed

section \<open>What a second factor stands for\<close>

lemma verify_factorD:
  assumes "verify_factor p v submitted now db = Inr (Some factor)"
  shows "(\<exists>r \<in> set (id_recovery db). factor = RecoveryFactor (rc_id r) \<and> rc_userId r = iu_id (uv_user v) \<and>
       rc_codeHash r = hashRecoveryCode (cr_sha256 (pl_crypto p)) submitted) \<or>
     (\<exists>m secret c. m \<in> set (uv_methods v) \<and> factor = TotpFactor (mm_id m) c \<and>
       decryptTotpSecret (pl_crypto p) (pl_keys p) (the (mm_secretEncrypted m)) = Inr secret \<and>
       totpAtCounter (cr_hmac (pl_crypto p)) secret c = Inr submitted \<and> \<bar>c - now div 30000\<bar> \<le> 1)"
proof (cases "\<exists>m ms. uv_methods v = m # ms \<and> truthy (mm_secretEncrypted m) \<and> OTP submitted")
  case True
  then obtain m ms where m: "uv_methods v = m # ms" "truthy (mm_secretEncrypted m)" "OTP submitted" by blast
  with assms obtain c where c: "factor = TotpFactor (mm_id m) c"
    "totp_counter p (the (mm_secretEncrypted m)) submitted now (mm_lastUsedCounter m) = Inr (Some c)"
    by (auto simp: verify_factor_def Let_def map_sum_def split: sum.split_asm)
  from c(2) obtain secret where "decryptTotpSecret (pl_crypto p) (pl_keys p) (the (mm_secretEncrypted m)) = Inr secret"
    "verifyTotp (cr_hmac (pl_crypto p)) secret submitted now (mm_lastUsedCounter m) = Inr (Some c)"
    by (auto simp: totp_counter_def split: sum.split_asm)
  with verifyTotp_sound [OF this(2)] m(1) c(1) show ?thesis by auto
next
  case False
  with assms have "(case recovery_by_code (pl_crypto p) submitted db of
      None \<Rightarrow> Inr None
    | Some r \<Rightarrow> if rc_userId r = iu_id (uv_user v) \<and> rc_usedAt r = None then Inr (Some (RecoveryFactor (rc_id r)))
        else Inr None) = (Inr (Some factor) :: unit + mfa_factor option)"
    by (auto simp: verify_factor_def Let_def split: list.split_asm if_split_asm)
  then show ?thesis
    by (auto simp: recovery_by_code_def split: option.split_asm if_split_asm dest!: find_SomeD)
qed

lemma toIdentityD:
  assumes "toIdentity v mfaSatisfied now = Some identity"
  shows "usable (uv_user v)" "si_userId identity = iu_id (uv_user v)" "si_mfaSatisfied identity = mfaSatisfied"
    "si_role identity = iu_role (uv_user v)"
    "si_companyId identity = None \<and> iu_role (uv_user v) \<noteq> CLIENT \<or>
       (\<exists>m n. (m, n) \<in> set (uv_memberships v) \<and> me_active m \<and> me_status m = ACTIVE \<and> si_companyId identity = Some (me_companyId m) \<and>
          si_organizationRole identity = Some (me_organizationRole m))"
proof -
  have member: "(m, n) \<in> set (uv_memberships v) \<and> me_active m \<and> me_status m = ACTIVE"
    if "chooseMembership v = Some (m, n)" for m n
  proof -
    let ?act = "filter (\<lambda>(m, n). me_active m \<and> me_status m = ACTIVE) (uv_memberships v)"
    from that have "(m, n) \<in> set ?act"
      by (auto simp del: set_filter simp: chooseMembership_def Let_def split: option.split_asm list.split_asm dest!: find_SomeD)
    then show ?thesis by auto
  qed
  show "usable (uv_user v)" "si_userId identity = iu_id (uv_user v)" "si_mfaSatisfied identity = mfaSatisfied"
    "si_role identity = iu_role (uv_user v)"
    using assms by (auto simp: toIdentity_def Let_def split: if_split_asm)
  show "si_companyId identity = None \<and> iu_role (uv_user v) \<noteq> CLIENT \<or>
       (\<exists>m n. (m, n) \<in> set (uv_memberships v) \<and> me_active m \<and> me_status m = ACTIVE \<and> si_companyId identity = Some (me_companyId m) \<and>
          si_organizationRole identity = Some (me_organizationRole m))"
  proof (cases "chooseMembership v")
    case (Some mn)
    obtain m n where "mn = (m, n)" by fastforce
    with member Some assms show ?thesis by (auto simp: toIdentity_def Let_def split: if_split_asm)
  qed (use assms in \<open>auto simp: toIdentity_def Let_def split: if_split_asm\<close>)
qed

lemma loadedD:
  assumes "loadAuthenticationUser userId db = Some v"
  shows "find_user userId db = Some (uv_user v)" "iu_id (uv_user v) = userId" "uv_methods v = active_totp userId db"
    "(m, n) \<in> set (uv_memberships v) \<Longrightarrow> m \<in> set (active_memberships userId db)"
  using assms by (auto simp: loadAuthenticationUser_def dest: find_user_id)

lemma mfa_readD:
  assumes "mfa_read p token submitted now db db1 = MfaAccept x factor v"
  shows "x \<in> set (id_challenges db)" "lc_tokenHash x = cr_sha256 (pl_crypto p) token" "challenge_open now x"
    "loadAuthenticationUser (lc_userId x) db = Some v" "usable (uv_user v)"
    "verify_factor p v submitted now db1 = Inr (Some factor)" "provider_live (lc_identityProviderId x) db"
  using assms by (auto simp: mfa_read_def challenge_by_token_def dest!: find_SomeD
      split: if_split_asm option.split_asm sum.split_asm)

lemma mfa_read_done: "mfa_read p token submitted now db db1 = MfaDone r \<Longrightarrow> r \<noteq> MfaAuthenticated identity recovery returnTo"
  by (auto simp: mfa_read_def split: if_split_asm option.split_asm sum.split_asm)

text \<open>
  C11. A second factor that authenticates was right: the token names a challenge that is open when it is
  consumed, even if others came in after it was read, and what was offered is the code of a step next
  to the present one under the secret of an active method of the challenge's user, not used before, or
  an unused recovery code of that user. The session is for that user, who is active and, as a client,
  an active member.
\<close>

theorem second_factor_sound:
  assumes "mfa_commit p (mfa_read p token submitted now db db1) now db2 = (MfaAuthenticated identity recovery returnTo, db3)"
  shows "\<exists>x v. x \<in> set (id_challenges db) \<and> lc_tokenHash x = cr_sha256 (pl_crypto p) token \<and>
    (\<exists>y \<in> set (id_challenges db2). lc_id y = lc_id x \<and> challenge_open now y) \<and>
    loadAuthenticationUser (lc_userId x) db = Some v \<and> usable (uv_user v) \<and>
    si_userId identity = lc_userId x \<and> si_mfaSatisfied identity \<and>
    (si_companyId identity = None \<and> si_role identity \<noteq> CLIENT \<or>
      (\<exists>m \<in> set (active_memberships (lc_userId x) db). si_companyId identity = Some (me_companyId m))) \<and>
    (if recovery
     then \<exists>r \<in> set (id_recovery db1). rc_userId r = lc_userId x \<and>
            rc_codeHash r = hashRecoveryCode (cr_sha256 (pl_crypto p)) submitted \<and>
            (\<exists>r2 \<in> set (id_recovery db2). rc_id r2 = rc_id r \<and> rc_usedAt r2 = None)
     else \<exists>m \<in> set (active_totp (lc_userId x) db). \<exists>secret c.
            decryptTotpSecret (pl_crypto p) (pl_keys p) (the (mm_secretEncrypted m)) = Inr secret \<and>
            totpAtCounter (cr_hmac (pl_crypto p)) secret c = Inr submitted \<and> \<bar>c - now div 30000\<bar> \<le> 1 \<and>
            (\<exists>m2 \<in> set (id_methods db2). mm_id m2 = mm_id m \<and> mm_status m2 = MFA_ACTIVE \<and> counter_unused c m2))"
proof -
  from assms obtain x factor v where plan: "mfa_read p token submitted now db db1 = MfaAccept x factor v"
    by (cases "mfa_read p token submitted now db db1") (auto simp: mfa_commit_def dest: mfa_read_done)
  note read = mfa_readD [OF plan]
  note user = loadedD [OF read(4)]
  from assms plan obtain db4 n where accepted: "accept_factor (lc_id x) factor (lc_userId x) now db2 = Some db4"
    and n: "toIdentity v True now = Some n" "si_companyId identity = si_companyId n" "si_userId identity = si_userId n"
      "si_role identity = si_role n" "si_mfaSatisfied identity = si_mfaSatisfied n"
    and kind: "recovery = is_recovery factor"
    by (auto simp: mfa_commit_def user(2) split: option.split_asm)
  note identity = toIdentityD [OF n(1)]
  obtain y where y: "y \<in> set (id_challenges db2)" "lc_id y = lc_id x" "challenge_open now y"
    using guarded_row [OF accepted_tables(2) [OF accepted]] by metis
  have used: "use_factor factor (lc_userId x) now db2 \<noteq> None" by (rule accepted_tables(6) [OF accepted])
  have company: "si_companyId identity = None \<and> si_role identity \<noteq> CLIENT \<or>
      (\<exists>m \<in> set (active_memberships (lc_userId x) db). si_companyId identity = Some (me_companyId m))"
    unfolding n(2,4) identity(4) using identity(5) user(4) by blast
  have factor: "if recovery
     then \<exists>r \<in> set (id_recovery db1). rc_userId r = lc_userId x \<and>
            rc_codeHash r = hashRecoveryCode (cr_sha256 (pl_crypto p)) submitted \<and>
            (\<exists>r2 \<in> set (id_recovery db2). rc_id r2 = rc_id r \<and> rc_usedAt r2 = None)
     else \<exists>m \<in> set (active_totp (lc_userId x) db). \<exists>secret c.
            decryptTotpSecret (pl_crypto p) (pl_keys p) (the (mm_secretEncrypted m)) = Inr secret \<and>
            totpAtCounter (cr_hmac (pl_crypto p)) secret c = Inr submitted \<and> \<bar>c - now div 30000\<bar> \<le> 1 \<and>
            (\<exists>m2 \<in> set (id_methods db2). mm_id m2 = mm_id m \<and> mm_status m2 = MFA_ACTIVE \<and> counter_unused c m2)"
    using verify_factorD [OF read(6)]
  proof (elim disjE exE bexE conjE)
    fix r assume r: "r \<in> set (id_recovery db1)" "factor = RecoveryFactor (rc_id r)" "rc_userId r = iu_id (uv_user v)"
      "rc_codeHash r = hashRecoveryCode (cr_sha256 (pl_crypto p)) submitted"
    from used r(2) have "count_where (\<lambda>q. rc_id q = rc_id r \<and> rc_userId q = lc_userId x \<and> rc_usedAt q = None) (id_recovery db2) = 1"
      by (simp add: use_factor_def use_recovery_def Let_def split: if_split_asm)
    then obtain r2 where "r2 \<in> set (id_recovery db2)" "rc_id r2 = rc_id r" "rc_usedAt r2 = None" by (rule guarded_row) blast
    moreover have recovery by (simp add: kind r(2) is_recovery_def)
    moreover have "rc_userId r = lc_userId x" using r(3) user(2) by simp
    ultimately show ?thesis using r(1,4) by (simp only: if_True) blast
  next
    fix m secret c assume m: "m \<in> set (uv_methods v)" "factor = TotpFactor (mm_id m) c"
      "decryptTotpSecret (pl_crypto p) (pl_keys p) (the (mm_secretEncrypted m)) = Inr secret"
      "totpAtCounter (cr_hmac (pl_crypto p)) secret c = Inr submitted" "\<bar>c - now div 30000\<bar> \<le> 1"
    from used m(2) have "count_where (\<lambda>q. mm_id q = mm_id m \<and> mm_status q = MFA_ACTIVE \<and> counter_unused c q) (id_methods db2) = 1"
      by (simp add: use_factor_def use_counter_def Let_def split: if_split_asm)
    then obtain m2 where "m2 \<in> set (id_methods db2)" "mm_id m2 = mm_id m" "mm_status m2 = MFA_ACTIVE" "counter_unused c m2"
      by (rule guarded_row) blast
    moreover have "\<not> recovery" by (simp add: kind m(2) is_recovery_def)
    moreover have "m \<in> set (active_totp (lc_userId x) db)" using m(1) user(3) by simp
    ultimately show ?thesis using m(3-5) by (simp only: if_False) blast
  qed
  show ?thesis
    using read(1,2,4,5) y company factor identity(2,3) n(3,5) user(2) by (intro exI [of _ x] exI [of _ v]) auto
qed

definition recovery_db :: identity_db where
  "recovery_db = (st_db challenged)\<lparr>id_recovery :=
     [\<lparr>rc_id = ''r-1'', rc_userId = ''u-1'', rc_batchId = ''b-1'', rc_codeHash = ''ABCDEFGHJKLM'', rc_usedAt = None\<rparr>]\<rparr>"

lemma recovery_login: "\<exists>identity db. authenticateMfaChallenge small_platform ''t-1'' ''abcd-efgh-jklm'' 150000 recovery_db =
    (MfaAuthenticated identity True None, db)"
proof -
  have "case fst (authenticateMfaChallenge small_platform ''t-1'' ''abcd-efgh-jklm'' 150000 recovery_db) of
      MfaAuthenticated identity r None \<Rightarrow> r | _ \<Rightarrow> False" by code_simp
  then show ?thesis
    by (cases "authenticateMfaChallenge small_platform ''t-1'' ''abcd-efgh-jklm'' 150000 recovery_db")
      (auto split: mfa_result.split_asm option.split_asm)
qed

theorem second_factor_sound_witness:
  "\<exists>identity db. authenticateMfaChallenge small_platform ''t-1'' ''abcd-efgh-jklm'' 150000 recovery_db =
     (MfaAuthenticated identity True None, db) \<and> si_userId identity = ''u-1''"
proof -
  from recovery_login obtain identity db where run: "authenticateMfaChallenge small_platform ''t-1'' ''abcd-efgh-jklm'' 150000 recovery_db =
    (MfaAuthenticated identity True None, db)" by blast
  from second_factor_sound [OF run [unfolded authenticateMfaChallenge_def]]
  obtain x where "x \<in> set (id_challenges recovery_db)" "si_userId identity = lc_userId x" by blast
  with run show ?thesis by (auto simp: recovery_db_def challenged_def)
qed

section \<open>What a session stands for\<close>

lemma created_session:
  assumes "createUserSession c i token identity userAgent previousToken t db0 = (Inr row, db)"
  shows "row \<in> set (id_sessions db)" "ls_tokenHash row = cr_sha256 c token" "ls_id row = i" "ls_userId row = si_userId identity"
    "ls_companyId row = si_companyId identity" "ls_expiresAt row = t + SESSION_ABSOLUTE_TTL_MS"
    "ls_idleExpiresAt row = ls_lastActivityAt row + SESSION_IDLE_TTL_MS"
    "s \<in> set (id_sessions db) \<Longrightarrow> ls_tokenHash s = cr_sha256 c token \<Longrightarrow> s = row"
proof -
  from assms obtain previous where commit: "session_commit c i token identity previous userAgent t db0 = (Inr row, db)"
    by (auto simp: createUserSession_def split: sum.split_asm)
  let ?db1 = "case previous of None \<Rightarrow> db0 | Some s \<Rightarrow> revoke_session (ls_id s) t db0"
  from commit have "cr_sha256 c token \<notin> ls_tokenHash ` set (id_sessions ?db1)"
    "\<exists>r. row = new_session c i token identity r userAgent t" "id_sessions db = id_sessions ?db1 @ [row]"
    by (auto simp: session_commit_def Let_def split: if_split_asm)
  then show "row \<in> set (id_sessions db)" "ls_tokenHash row = cr_sha256 c token" "ls_id row = i" "ls_userId row = si_userId identity"
    "ls_companyId row = si_companyId identity" "ls_expiresAt row = t + SESSION_ABSOLUTE_TTL_MS"
    "ls_idleExpiresAt row = ls_lastActivityAt row + SESSION_IDLE_TTL_MS"
    "s \<in> set (id_sessions db) \<Longrightarrow> ls_tokenHash s = cr_sha256 c token \<Longrightarrow> s = row"
    by (auto simp: new_session_def image_iff)
qed

text \<open>
  C13. A session opened at an instant resolves, whatever happens meanwhile, only within eight hours and
  within half an hour of its last recorded activity, and not once revoked; it resolves to the user it
  was opened for, who is active at that time with the role of that time, and to no other company than
  the one it was opened for, of which the user is an active member; a client always has one.
\<close>

theorem session_resolution_bounded:
  assumes "createUserSession c i token identity userAgent previousToken t db0 = (Inr row, db)"
    and "later = st_db (queue_run identity_op ops \<lparr>st_db = db, st_drawn = drawn\<rparr>)"
    and "fst (resolveSessionToken c token now later) = Some session"
  shows "now < t + 8 * 60 * 60 * 1000 \<and> s_sessionId session = Some i \<and> s_userId session = si_userId identity \<and>
    (\<exists>s \<in> set (id_sessions later). ls_id s = i \<and> ls_revokedAt s = None \<and> now < ls_lastActivityAt s + 30 * 60 * 1000) \<and>
    (\<exists>u. find_user (si_userId identity) later = Some u \<and> usable u \<and> s_role session = iu_role u) \<and>
    (s_companyId session = None \<and> s_role session \<noteq> CLIENT \<or>
     s_companyId session = si_companyId identity \<and>
     (\<exists>m \<in> set (active_memberships (si_userId identity) later). si_companyId identity = Some (me_companyId m)))"
proof -
  let ?Q = "\<lambda>s. ls_id s = i \<and> ls_userId s = si_userId identity \<and> ls_companyId s = si_companyId identity \<and>
    ls_expiresAt s = t + SESSION_ABSOLUTE_TTL_MS \<and> ls_idleExpiresAt s \<le> ls_lastActivityAt s + SESSION_IDLE_TTL_MS"
  note row = created_session [OF assms(1)]
  have "?Q s" if "s \<in> set (id_sessions db)" "ls_tokenHash s = cr_sha256 c token" for s
    using row(8) [OF that] row(3-7) by simp
  then have "token_sessions (cr_sha256 c token) ?Q (st_db \<lparr>st_db = db, st_drawn = drawn\<rparr>)"
    using row(1) row(2) [symmetric] unfolding token_sessions_def by (simp add: image_iff) blast
  then have run: "token_sessions (cr_sha256 c token) ?Q later"
    unfolding assms(2) by (rule token_sessions_run) (auto simp: session_moves_def)
  from resolvedD [OF assms(3)] obtain s u where s: "s \<in> set (id_sessions later)" "ls_tokenHash s = cr_sha256 c token"
    "session_alive now s" "find_user (ls_userId s) later = Some u" "usable u" "s_sessionId session = Some (ls_id s)"
    "s_userId session = ls_userId s" "s_role session = iu_role u"
    and company: "s_companyId session = None \<and> iu_role u \<noteq> CLIENT \<or>
     (\<exists>m \<in> set (active_memberships (ls_userId s) later). s_companyId session = Some (me_companyId m) \<and>
        ls_companyId s = Some (me_companyId m) \<and>
        s_organizationRole session = Some (organization_role_name (me_organizationRole m)))" by metis
  from run s(1,2) have Q: "?Q s" by (auto simp: token_sessions_def)
  with s(3) have "now < t + 8 * 60 * 60 * 1000" "ls_revokedAt s = None" "now < ls_lastActivityAt s + 30 * 60 * 1000"
    by (auto simp: session_alive_def SESSION_ABSOLUTE_TTL_MS_def SESSION_IDLE_TTL_MS_def)
  with Q s company show ?thesis by auto
qed

definition anna_identity :: session_identity where
  "anna_identity = the (toIdentity (the (loadAuthenticationUser ''u-1'' small_db)) True 1000)"

lemma anna_session: "\<exists>row db. createUserSession small_crypto ''s-1'' ''ats_1'' anna_identity None None 1000 small_db = (Inr row, db) \<and>
    (\<exists>session. fst (resolveSessionToken small_crypto ''ats_1'' 61000 db) = Some session)"
proof -
  have "case createUserSession small_crypto ''s-1'' ''ats_1'' anna_identity None None 1000 small_db of
      (Inr row, db) \<Rightarrow> fst (resolveSessionToken small_crypto ''ats_1'' 61000 db) \<noteq> None | _ \<Rightarrow> False" by code_simp
  then show ?thesis by (auto split: prod.split_asm sum.split_asm)
qed

theorem session_resolution_bounded_witness:
  "\<exists>row db session. createUserSession small_crypto ''s-1'' ''ats_1'' anna_identity None None 1000 small_db = (Inr row, db) \<and>
     fst (resolveSessionToken small_crypto ''ats_1'' 61000 db) = Some session \<and> s_sessionId session = Some ''s-1''"
proof -
  from anna_session obtain row db session where
    run: "createUserSession small_crypto ''s-1'' ''ats_1'' anna_identity None None 1000 small_db = (Inr row, db)"
      "fst (resolveSessionToken small_crypto ''ats_1'' 61000 db) = Some session" by blast
  from session_resolution_bounded [OF run(1), of db "[]" "[]" 61000 session] run show ?thesis by auto
qed

end
