(* ===== verification/IdentityAccounts.thy ===== *)
theory IdentityAccounts
  imports IdentityProperties
begin

text \<open>
  The properties of accounts: what a password login stands for, what a password reset does, that an
  enrolled authenticator works and that encrypted secrets outlive a change of keys. The last section
  shows where the code falls short.
\<close>

section \<open>The first factor\<close>

lemma store_password_policies:
  assumes "store_password userId name replacement now db = Some db'"
  shows "id_policies db' = id_policies db" "id_exemptions db' = id_exemptions db"
  using assms by (auto simp: store_password_def Let_def split: if_split_asm)

lemma primary_readD:
  assumes "primary_read p salt email password now db = Inr (v, identity, r)"
  obtains cd where "cd \<in> set (id_credentials db)"
    "cd_identifierNormalized cd = normalizeIdentityEmail (pl_crypto p) email"
    "fst (verifyPasswordVersioned (pl_crypto p) password (cd_passwordHash cd))"
    "loadAuthenticationUser (cd_userId cd) db = Some v" "usable (uv_user v)" "toIdentity v False now = Some identity"
  using assms by (auto simp: primary_read_def credential_of_def Let_def
      split: option.split_asm if_split_asm prod.split_asm dest!: find_SomeD)

lemma finish_loginD:
  assumes "finish_login p i token v identity providerId redirectTo now db = (r, db')" "r \<noteq> LoginInvalid" "r \<noteq> LoginUnavailable"
  defines "decision \<equiv> evaluateMfaPolicy (iu_role (uv_user v)) (si_organizationRole identity) (uv_methods v \<noteq> [])
      (fst (loadMfaPolicy v now db)) (snd (loadMfaPolicy v now db)) now (requireAdminMfa (pl_adminMfaRequired p))"
  shows "isOrganizationLoginMethodAllowed (fst (loadMfaPolicy v now db))
      (case providerId of None \<Rightarrow> LocalLogin | Some q \<Rightarrow> OidcLogin (Some q)) now"
    "id_sessions db' = id_sessions db"
    "r = Authenticated (identity\<lparr>si_mfaSatisfied := True, si_identityProviderId := providerId\<rparr>) \<and> db' = db \<and>
       uv_methods v = [] \<and> \<not> md_policyRequired decision \<or>
     (\<exists>x. r = MfaRequired token (md_enrollmentRequired decision) (iu_id (uv_user v)) (si_companyId identity) \<and>
       id_challenges db' = id_challenges db @ [x] \<and> lc_tokenHash x = cr_sha256 (pl_crypto p) token \<and>
       lc_userId x = iu_id (uv_user v) \<and> lc_expiresAt x = now + 300000 \<and> challenge_open now x \<and>
       (uv_methods v \<noteq> [] \<or> md_policyRequired decision))"
proof -
  show "isOrganizationLoginMethodAllowed (fst (loadMfaPolicy v now db))
      (case providerId of None \<Rightarrow> LocalLogin | Some q \<Rightarrow> OidcLogin (Some q)) now"
    using assms by (cases "loadMfaPolicy v now db") (auto simp: finish_login_def Let_def split: if_split_asm)
  show "id_sessions db' = id_sessions db" using finish_login_sessions [of p i token v identity providerId redirectTo now db] assms(1) by simp
  have cases: "(md_challengeRequired decision \<or> md_enrollmentRequired decision) = (uv_methods v \<noteq> [] \<or> md_policyRequired decision)"
    by (auto simp: decision_def mfa_decision_cases)
  show "r = Authenticated (identity\<lparr>si_mfaSatisfied := True, si_identityProviderId := providerId\<rparr>) \<and> db' = db \<and>
       uv_methods v = [] \<and> \<not> md_policyRequired decision \<or>
     (\<exists>x. r = MfaRequired token (md_enrollmentRequired decision) (iu_id (uv_user v)) (si_companyId identity) \<and>
       id_challenges db' = id_challenges db @ [x] \<and> lc_tokenHash x = cr_sha256 (pl_crypto p) token \<and>
       lc_userId x = iu_id (uv_user v) \<and> lc_expiresAt x = now + 300000 \<and> challenge_open now x \<and>
       (uv_methods v \<noteq> [] \<or> md_policyRequired decision))"
  proof (cases "uv_methods v \<noteq> [] \<or> md_policyRequired decision")
    case True
    with cases have asked: "md_challengeRequired decision \<or> md_enrollmentRequired decision" by simp
    with assms(1-3) obtain db1 where "createLoginChallenge p i token v redirectTo now providerId db = Some db1"
      "r = MfaRequired token (md_enrollmentRequired decision) (iu_id (uv_user v)) (si_companyId identity)" "db' = db1"
      unfolding decision_def by (cases "loadMfaPolicy v now db") (auto simp: finish_login_def Let_def split: if_split_asm option.split_asm)
    with True show ?thesis
      by (auto simp: createLoginChallenge_def Let_def challenge_open_def LOGIN_CHALLENGE_TTL_MS_def
          LOGIN_CHALLENGE_MAX_ATTEMPTS_def split: if_split_asm)
  next
    case False
    with cases have "\<not> (md_challengeRequired decision \<or> md_enrollmentRequired decision)" by simp
    with assms(1-3) have "r = Authenticated (identity\<lparr>si_mfaSatisfied := True, si_identityProviderId := providerId\<rparr>) \<and> db' = db"
      unfolding decision_def by (cases "loadMfaPolicy v now db") (auto simp: finish_login_def Let_def split: if_split_asm)
    with False show ?thesis by simp
  qed
qed

text \<open>
  C14. A password login that is not refused had the right password of an active user whose organization
  allows local logins. It is complete only if the user has no active second factor and none is
  required of the user; otherwise it opens exactly one challenge, for five minutes, under the hash of
  the token it returns. No session is opened either way.
\<close>

theorem password_login_sound:
  assumes "authenticatePrimaryCredential p i token salt email password redirectTo now db = (r, db')"
    and "r \<noteq> LoginInvalid" "r \<noteq> LoginUnavailable"
  shows "\<exists>cd v identity. cd \<in> set (id_credentials db) \<and> cd_identifierNormalized cd = normalizeIdentityEmail (pl_crypto p) email \<and>
    fst (verifyPasswordVersioned (pl_crypto p) password (cd_passwordHash cd)) \<and>
    loadAuthenticationUser (cd_userId cd) db = Some v \<and> usable (uv_user v) \<and> toIdentity v False now = Some identity \<and>
    isOrganizationLoginMethodAllowed (fst (loadMfaPolicy v now db)) LocalLogin now \<and> id_sessions db' = id_sessions db \<and>
    (let required = md_policyRequired (evaluateMfaPolicy (iu_role (uv_user v)) (si_organizationRole identity) (uv_methods v \<noteq> [])
           (fst (loadMfaPolicy v now db)) (snd (loadMfaPolicy v now db)) now (requireAdminMfa (pl_adminMfaRequired p))) in
     r = Authenticated (identity\<lparr>si_mfaSatisfied := True, si_identityProviderId := None\<rparr>) \<and>
       active_totp (cd_userId cd) db = [] \<and> \<not> required \<or>
     (\<exists>x enrol. r = MfaRequired token enrol (cd_userId cd) (si_companyId identity) \<and>
       id_challenges db' = id_challenges db @ [x] \<and> lc_tokenHash x = cr_sha256 (pl_crypto p) token \<and>
       lc_userId x = cd_userId cd \<and> lc_expiresAt x = now + 300000 \<and> challenge_open now x \<and>
       (active_totp (cd_userId cd) db \<noteq> [] \<or> required)))"
proof -
  from assms obtain v identity rp where plan: "primary_read p salt email password now db = Inr (v, identity, rp)"
    and commit: "primary_commit p i token (normalizeIdentityEmail (pl_crypto p) email) (v, identity, rp) redirectTo now db = (r, db')"
    by (auto simp: authenticatePrimaryCredential_def primary_read_def Let_def
        split: if_split_asm sum.split_asm option.split_asm prod.split_asm)
  from primary_readD [OF plan] obtain cd where cd: "cd \<in> set (id_credentials db)"
    "cd_identifierNormalized cd = normalizeIdentityEmail (pl_crypto p) email"
    "fst (verifyPasswordVersioned (pl_crypto p) password (cd_passwordHash cd))"
    "loadAuthenticationUser (cd_userId cd) db = Some v" "usable (uv_user v)" "toIdentity v False now = Some identity" .
  obtain db1 where db1: "finish_login p i token v identity None redirectTo now db1 = (r, db')"
    "id_policies db1 = id_policies db" "id_exemptions db1 = id_exemptions db" "id_challenges db1 = id_challenges db"
    "id_sessions db1 = id_sessions db"
    using commit assms(3) store_password_policies store_password_frame(3,6)
    by (auto simp: primary_commit_def split: option.split_asm)
  have same: "loadMfaPolicy v now db1 = loadMfaPolicy v now db" by (simp only: loadMfaPolicy_def db1(2,3))
  note finish = finish_loginD [OF db1(1) assms(2,3), unfolded same db1(4,5)]
  show ?thesis
    using cd finish loadedD(2,3) [OF cd(4)]
    by (intro exI [of _ cd] exI [of _ v] exI [of _ identity]) (auto simp: Let_def)
qed

lemma anna_login: "\<exists>r db. authenticatePrimaryCredential small_platform ''c-9'' ''t-9'' (replicate 16 0) ''Anna@acme.test'' ''correct horse''
    None 150000 small_db = (r, db) \<and> (\<exists>e c. r = MfaRequired ''t-9'' e ''u-1'' c)"
proof -
  have "case fst (authenticatePrimaryCredential small_platform ''c-9'' ''t-9'' (replicate 16 0) ''Anna@acme.test'' ''correct horse''
      None 150000 small_db) of MfaRequired tok e u c \<Rightarrow> tok = ''t-9'' \<and> u = ''u-1'' | _ \<Rightarrow> False" by code_simp
  then show ?thesis
    by (cases "authenticatePrimaryCredential small_platform ''c-9'' ''t-9'' (replicate 16 0) ''Anna@acme.test'' ''correct horse''
      None 150000 small_db") (auto split: primary_result.split_asm)
qed

theorem password_login_sound_witness:
  "\<exists>r db x. authenticatePrimaryCredential small_platform ''c-9'' ''t-9'' (replicate 16 0) ''Anna@acme.test'' ''correct horse''
     None 150000 small_db = (r, db) \<and> id_challenges db = [x] \<and> lc_expiresAt x = 450000"
proof -
  have challenge: "\<exists>x. id_challenges db = id_challenges db0 @ [x] \<and> lc_expiresAt x = now + 300000"
    if "authenticatePrimaryCredential p i token salt email password redirectTo now db0 = (r, db)" "r = MfaRequired tok e u c"
    for p i token salt email password redirectTo now db0 r db tok e u c
  proof -
    have "r \<noteq> LoginInvalid" "r \<noteq> LoginUnavailable" using that(2) by simp_all
    from password_login_sound [OF that(1) this] that(2) show ?thesis by (auto simp: Let_def)
  qed
  from anna_login obtain r db e c where run: "authenticatePrimaryCredential small_platform ''c-9'' ''t-9'' (replicate 16 0)
    ''Anna@acme.test'' ''correct horse'' None 150000 small_db = (r, db)" "r = MfaRequired ''t-9'' e ''u-1'' c" by blast
  from challenge [OF run] obtain x where x: "id_challenges db = id_challenges small_db @ [x]" "lc_expiresAt x = 150000 + 300000"
    by blast
  have none: "id_challenges small_db = []" by (simp add: small_db_def)
  show ?thesis
  proof (intro exI conjI)
    show "id_challenges db = [x]" using x none by simp
    show "lc_expiresAt x = 450000" using x(2) by simp
  qed (rule run(1))
qed

section \<open>A forgotten password\<close>

lemma use_tokens_used: "t \<in> set (use_tokens userId now ts) \<Longrightarrow> tk_userId t = userId \<Longrightarrow> tk_usedAt t \<noteq> None"
  unfolding use_tokens_def by (erule in_update_whereE) auto

lemma revoked_user: "s \<in> set (id_sessions (revoke_where (\<lambda>s. ls_userId s = u) now db)) \<Longrightarrow> ls_userId s = u \<Longrightarrow> ls_revokedAt s \<noteq> None"
  unfolding revoke_where_def by (simp, erule in_update_whereE) auto

text \<open>The credential a password is stored in, for every credential of the user.\<close>

lemma stored_password:
  assumes "store_password u name replacement now db = Some db'"
  shows "\<exists>cd \<in> set (id_credentials db'). cd_userId cd = u"
    "cd \<in> set (id_credentials db') \<Longrightarrow> cd_userId cd = u \<Longrightarrow> cd_passwordHash cd = replacement"
proof -
  show "\<exists>cd \<in> set (id_credentials db'). cd_userId cd = u"
    using assms by (auto simp: store_password_def Let_def split: if_split_asm
        intro!: bexI [OF _ update_where_member])
  show "cd \<in> set (id_credentials db') \<Longrightarrow> cd_userId cd = u \<Longrightarrow> cd_passwordHash cd = replacement"
    using assms by (fastforce simp: store_password_def Let_def update_where_def split: if_split_asm)
qed

lemma revoked_never_resolves:
  assumes "s \<in> set (id_sessions db)" "ls_tokenHash s = cr_sha256 c token"
    and "\<And>s. s \<in> set (id_sessions db) \<Longrightarrow> ls_tokenHash s = cr_sha256 c token \<Longrightarrow> ls_revokedAt s \<noteq> None"
  shows "fst (resolveSessionToken c token later (st_db (queue_run identity_op ops \<lparr>st_db = db, st_drawn = drawn\<rparr>))) = None"
proof (rule ccontr)
  let ?db = "st_db (queue_run identity_op ops \<lparr>st_db = db, st_drawn = drawn\<rparr>)"
  assume "fst (resolveSessionToken c token later ?db) \<noteq> None"
  then obtain session where "fst (resolveSessionToken c token later ?db) = Some session" by blast
  from resolvedD [OF this] obtain r where r: "r \<in> set (id_sessions ?db)" "ls_tokenHash r = cr_sha256 c token" "session_alive later r"
    by metis
  have "token_sessions (cr_sha256 c token) (\<lambda>s. ls_revokedAt s \<noteq> None) (st_db \<lparr>st_db = db, st_drawn = drawn\<rparr>)"
    using assms unfolding token_sessions_def by (simp add: image_iff) metis
  then have "token_sessions (cr_sha256 c token) (\<lambda>s. ls_revokedAt s \<noteq> None) ?db"
    by (rule token_sessions_run) (simp add: session_moves_def)
  with r show False by (auto simp: token_sessions_def session_alive_def)
qed

text \<open>
  C15. A password reset that succeeds was asked for with an unused, unexpired token of an active user and
  a password the policy accepts. After it that password verifies under a current hash, every reset
  token of the user is used up, and no session the user had resolves ever again, whatever follows.
\<close>

theorem password_reset_effect:
  assumes "crypto_ok c" "length salt = 16" "resetPassword c salt token password now db = (ResetSucceeded u company, db')"
  shows "(\<exists>t \<in> set (id_resets db). tk_tokenHash t = cr_sha256 c token \<and> tk_userId t = u \<and> token_open now t) \<and>
    (\<exists>x. find_user u db = Some x \<and> usable x \<and> validatePasswordPolicy c password (Some (iu_email x)) = None) \<and>
    (\<exists>cd \<in> set (id_credentials db'). cd_userId cd = u) \<and>
    (\<forall>cd \<in> set (id_credentials db'). cd_userId cd = u \<longrightarrow> verifyPasswordVersioned c password (cd_passwordHash cd) = (True, False)) \<and>
    (\<forall>t \<in> set (id_resets db'). tk_userId t = u \<longrightarrow> tk_usedAt t \<noteq> None) \<and>
    (\<forall>s \<in> set (id_sessions db'). ls_tokenHash s = cr_sha256 c other \<and>
       (\<forall>r \<in> set (id_sessions db'). ls_tokenHash r = cr_sha256 c other \<longrightarrow> ls_userId r = u) \<longrightarrow>
       fst (resolveSessionToken c other later (st_db (queue_run identity_op ops \<lparr>st_db = db', st_drawn = drawn\<rparr>))) = None)"
proof -
  from assms(3) obtain plan where plan: "reset_read c salt token password now db = Inr plan"
    and commit: "reset_commit c plan now db = (ResetSucceeded u company, db')"
    by (auto simp: resetPassword_def reset_read_def split: sum.split_asm if_split_asm option.split_asm)
  obtain t x home hash where p: "plan = (t, x, home, hash)" by (cases plan) auto
  from plan p have read: "t \<in> set (id_resets db)" "tk_tokenHash t = cr_sha256 c token" "token_open now t"
    "find_user (tk_userId t) db = Some x" "usable x" "validatePasswordPolicy c password (Some (iu_email x)) = None"
    "hashPassword c salt password = Some hash"
    by (auto simp: reset_read_def token_row_def split: if_split_asm option.split_asm dest!: find_SomeD)
  have u: "u = tk_userId t"
    using commit find_user_id [OF read(4)] p by (auto simp: reset_commit_def split: option.split_asm)
  have "fst (reset_commit c plan now db) = ResetSucceeded u company" using commit by simp
  then obtain ts db1 where stored: "store_password u (normalizeIdentityEmail c (iu_email x)) hash now db = Some db1"
    and db': "db' = revoke_where (\<lambda>s. ls_userId s = u) now (db1\<lparr>id_resets := use_tokens u now ts\<rparr>)"
    by (rule reset_committed) (simp add: p u commit [unfolded p])
  obtain digest where digest: "cr_scrypt c password salt 32768 = Some digest" "length password \<le> 128"
    using read(7) by (auto simp: hashPassword_def split: if_split_asm option.split_asm)
  have good: "verifyPasswordVersioned c password hash = (True, False)"
    using hashed_password_verifies [OF assms(1) read(7) assms(2) digest(1)] digest by simp
  have credentials: "id_credentials db' = id_credentials db1" "id_resets db' = use_tokens u now ts"
    by (simp_all add: db' revoke_where_def)
  have revoked: "ls_revokedAt s \<noteq> None" if "s \<in> set (id_sessions db')" "ls_userId s = u" for s
    using revoked_user that unfolding db' by blast
  have "fst (resolveSessionToken c other later (st_db (queue_run identity_op ops \<lparr>st_db = db', st_drawn = drawn\<rparr>))) = None"
    if "s \<in> set (id_sessions db')" "ls_tokenHash s = cr_sha256 c other"
      "\<forall>r \<in> set (id_sessions db'). ls_tokenHash r = cr_sha256 c other \<longrightarrow> ls_userId r = u" for s
    using revoked_never_resolves [OF that(1,2)] revoked that(3) by blast
  moreover have "\<forall>t \<in> set (id_resets db'). tk_userId t = u \<longrightarrow> tk_usedAt t \<noteq> None"
    unfolding credentials(2) using use_tokens_used by blast
  ultimately show ?thesis
    using read(1-6) u good stored_password [OF stored] credentials(1) by auto
qed

definition reset_db :: identity_db where
  "reset_db = small_db\<lparr>id_resets := [\<lparr>tk_id = ''k-1'', tk_tokenHash = ''reset'', tk_userId = ''u-1'', tk_redirectTo = None,
     tk_expiresAt = 200000, tk_usedAt = None\<rparr>]\<rparr>"

lemma anna_resets: "\<exists>company db. resetPassword small_crypto (replicate 16 0) ''reset'' ''battery staple'' 150000 reset_db =
    (ResetSucceeded ''u-1'' company, db)"
proof -
  have "case fst (resetPassword small_crypto (replicate 16 0) ''reset'' ''battery staple'' 150000 reset_db) of
      ResetSucceeded u company \<Rightarrow> u = ''u-1'' | _ \<Rightarrow> False" by code_simp
  then show ?thesis
    by (cases "resetPassword small_crypto (replicate 16 0) ''reset'' ''battery staple'' 150000 reset_db")
      (auto split: reset_result.split_asm)
qed

theorem password_reset_effect_witness:
  "\<exists>company db. resetPassword small_crypto (replicate 16 0) ''reset'' ''battery staple'' 150000 reset_db =
     (ResetSucceeded ''u-1'' company, db) \<and>
     (\<forall>cd \<in> set (id_credentials db). cd_userId cd = ''u-1'' \<longrightarrow>
        verifyPasswordVersioned small_crypto ''battery staple'' (cd_passwordHash cd) = (True, False))"
proof -
  from anna_resets obtain company db where run: "resetPassword small_crypto (replicate 16 0) ''reset'' ''battery staple'' 150000
      reset_db = (ResetSucceeded ''u-1'' company, db)" by blast
  from password_reset_effect [OF small_crypto_ok _ run] run show ?thesis by auto
qed

section \<open>Secrets outlive their keys\<close>

text \<open>
  C29. A secret is read back under the environment it was encrypted in and, after the key has been
  replaced, under every environment that lists the old key among the previous ones, provided the
  version of the key has no full stop.
\<close>

theorem secret_survives_rotation:
  assumes "crypto_ok c" "length iv = 12" "plaintext \<noteq> []"
    and "getIdentityEncryptionKey c env = Inr (key, version)" "CHR ''.'' \<notin> set version"
    and "getIdentityEncryptionKey c env' = Inr (key', version')" "version' \<noteq> version"
    and "previousKeys c env' = Inr keys" "keys version = Some key"
  shows "\<exists>encrypted. encryptIdentitySecret c env iv plaintext purpose = Inr encrypted \<and>
    decryptIdentitySecret c env encrypted purpose = Inr plaintext \<and>
    decryptIdentitySecret c env' encrypted purpose = Inr plaintext"
proof -
  obtain encrypted where e: "encryptIdentitySecret c env iv plaintext purpose = Inr encrypted"
    using assms(4) by (cases "cr_seal c key iv (additional_data purpose version) plaintext") (simp add: encryptIdentitySecret_def)
  have "key_of_version c env' version = Inr key"
    using assms(6-9) by (simp add: key_of_version_def)
  with secret_read_back [OF assms(1-5) e] own_key [OF assms(4)] e show ?thesis by blast
qed

definition rotated_keys :: key_environment where
  "rotated_keys = \<lparr>MFA_ENCRYPTION_KEY = Some ''fedcba9876543210fedcba9876543210'', MFA_ENCRYPTION_KEY_VERSION = Some ''v2'',
     MFA_ENCRYPTION_PREVIOUS_KEYS = Some ''old''\<rparr>"

lemma rotated_key: "\<exists>key. getIdentityEncryptionKey small_crypto rotated_keys = Inr (key, ''v2'')"
  by (simp add: getIdentityEncryptionKey_def rotated_keys_def decodeKey_def hex_key_def keyVersion_def Let_def
    KEY_VERSION_PATTERN_def trim_def char_class_defs is_space_def small_crypto_def)

lemma rotated_previous: "previousKeys small_crypto rotated_keys =
    Inr (Map.empty(''v1'' \<mapsto> map char_byte ''0123456789abcdef0123456789abcdef''))"
  by (simp add: previousKeys_def rotated_keys_def decodeKey_def hex_key_def Let_def
    KEY_VERSION_PATTERN_def trim_def char_class_defs is_space_def small_crypto_def)

theorem secret_survives_rotation_witness:
  "\<exists>encrypted. encryptIdentitySecret small_crypto small_keys (replicate 12 0) ''JBSWY3DP'' TOTP_SECRET = Inr encrypted \<and>
     decryptIdentitySecret small_crypto small_keys encrypted TOTP_SECRET = Inr ''JBSWY3DP'' \<and>
     decryptIdentitySecret small_crypto rotated_keys encrypted TOTP_SECRET = Inr ''JBSWY3DP''"
proof -
  obtain key where key: "getIdentityEncryptionKey small_crypto rotated_keys = Inr (key, ''v2'')" using rotated_key by blast
  show ?thesis
    by (rule secret_survives_rotation [OF small_crypto_ok _ _ small_key _ key _ rotated_previous]) simp_all
qed

section \<open>Enrolment\<close>

text \<open>What an authenticator that holds the secret shows at an instant.\<close>

definition shown_code :: "identity_platform \<Rightarrow> byte list \<Rightarrow> ms \<Rightarrow> string" where
  "shown_code p secret now =
     six_digits (uint (totp_binary (cr_hmac (pl_crypto p) secret (counter_bytes (now div 30000)))) mod 1000000)"

lemma try_counters_complete:
  assumes "\<And>c. c \<in> set counters \<Longrightarrow> lastUsed < c \<Longrightarrow> \<exists>s. expected c = Inr s"
    and "c \<in> set counters" "0 \<le> c" "lastUsed < c" "expected c = Inr otp"
  shows "\<exists>c'. try_counters expected otp lastUsed counters = Inr (Some c')"
  using assms
proof (induction counters)
  case (Cons a counters)
  show ?case
  proof (cases "a < 0 \<or> a \<le> lastUsed")
    case True
    with Cons show ?thesis by auto
  next
    case False
    with Cons.prems(1) [of a] obtain s where s: "expected a = Inr s" by auto
    with False Cons show ?thesis by auto
  qed
qed simp

lemma shown_code_accepted:
  assumes "base32Decode secret = Some bytes" "0 \<le> now" "now \<le> 9007199254740991"
  shows "\<exists>c. verifyTotp (cr_hmac (pl_crypto p)) secret (shown_code p bytes now) now None = Inr (Some c)"
proof -
  let ?n = "now div 30000"
  have n: "0 \<le> ?n" "?n + 1 \<le> 9007199254740991" using assms(2,3) by auto
  have code: "totpAtCounter (cr_hmac (pl_crypto p)) secret c =
      Inr (six_digits (uint (totp_binary (cr_hmac (pl_crypto p) bytes (counter_bytes c))) mod 1000000))"
    if "0 \<le> c" "c \<le> ?n + 1" for c
    using that n(2) assms(1) by (simp add: totpAtCounter_def safe_integer_def)
  have "\<exists>c. try_counters (totpAtCounter (cr_hmac (pl_crypto p)) secret) (shown_code p bytes now) (- 1) [?n - 1 .. ?n + 1] = Inr (Some c)"
    by (rule try_counters_complete [where c = ?n]) (use n(1) code in \<open>auto simp: shown_code_def\<close>)
  then show ?thesis by (simp add: verifyTotp_def shown_code_def six_digits_OTP Let_def)
qed

lemma encrypted_totp:
  assumes "crypto_ok (pl_crypto p)" "length iv = 12" "secret \<noteq> []"
    and "getIdentityEncryptionKey (pl_crypto p) (pl_keys p) = Inr (key, version)" "CHR ''.'' \<notin> set version"
  obtains encrypted where "encryptTotpSecret (pl_crypto p) (pl_keys p) iv secret = Inr encrypted" "encrypted \<noteq> []"
    "decryptTotpSecret (pl_crypto p) (pl_keys p) encrypted = Inr secret"
proof -
  obtain encrypted where e: "encryptIdentitySecret (pl_crypto p) (pl_keys p) iv secret TOTP_SECRET = Inr encrypted"
    using assms(4) by (cases "cr_seal (pl_crypto p) key iv (additional_data TOTP_SECRET version) secret")
      (simp add: encryptIdentitySecret_def)
  from sealed_parts [OF assms e] obtain ws where ws: "split_on (CHR ''.'') encrypted = ''v2'' # ws" by metis
  then have "encrypted \<noteq> []" by (cases encrypted) auto
  moreover have "decryptTotpSecret (pl_crypto p) (pl_keys p) encrypted = Inr secret"
    using secret_read_back [OF assms e own_key [OF assms(4)]] ws by (simp add: decryptTotpSecret_def IdentitySecrets.part_def Let_def)
  ultimately show ?thesis using that e by (simp add: encryptTotpSecret_def)
qed

text \<open>A new enrolment disables the pending methods of the user and appends its own.\<close>

definition disabled_pending :: "string \<Rightarrow> ms \<Rightarrow> mfa_method list \<Rightarrow> mfa_method list" where
  "disabled_pending u t = update_where (pending_totp u)
     (\<lambda>m. m\<lparr>mm_status := MFA_DISABLED, mm_disabledAt := Some t, mm_secretEncrypted := None\<rparr>)"

lemma disabled_ids: "mm_id ` set (disabled_pending u t rows) = mm_id ` set rows"
proof -
  have "map mm_id (disabled_pending u t rows) = map mm_id rows"
    unfolding disabled_pending_def by (rule map_update_where) simp
  then show ?thesis by (metis list.set_map)
qed

lemma disabled_inactive:
  assumes "\<forall>m \<in> set rows. \<not> (mm_userId m = u \<and> mm_kind m = TOTP \<and> mm_status m = MFA_ACTIVE)"
    and "m \<in> set (disabled_pending u t rows)"
  shows "\<not> (mm_userId m = u \<and> mm_kind m = TOTP \<and> mm_status m = MFA_ACTIVE)"
  using assms(2) unfolding disabled_pending_def by (cases rule: in_update_whereE) (use assms(1) in auto)

lemma begun_methods:
  "id_methods (begin_commit i u encrypted t db) = disabled_pending u t (id_methods db) @
     [\<lparr>mm_id = i, mm_userId = u, mm_kind = TOTP, mm_status = MFA_PENDING, mm_secretEncrypted = Some encrypted,
       mm_lastUsedCounter = None, mm_confirmedAt = None, mm_disabledAt = None, mm_createdAt = t\<rparr>]"
  by (simp add: begin_commit_def disabled_pending_def)

lemma update_where_append: "update_where p f (xs @ ys) = update_where p f xs @ update_where p f ys"
  by (simp add: update_where_def)

lemma enrolled_method:
  assumes "active_totp u db = []" "i \<notin> mm_id ` set (id_methods db)"
    and "activate_method i u counter now (begin_commit i u encrypted t db) = Some db'"
  shows "\<exists>m. active_totp u db' = [m] \<and> mm_id m = i \<and> mm_secretEncrypted m = Some encrypted \<and> mm_lastUsedCounter m = Some counter"
proof -
  let ?old = "disabled_pending u t (id_methods db)"
  let ?g = "\<lambda>m. mm_id m = i \<and> mm_userId m = u \<and> mm_status m = MFA_PENDING"
  let ?active = "\<lambda>m. mm_userId m = u \<and> mm_kind m = TOTP \<and> mm_status m = MFA_ACTIVE"
  have "i \<notin> mm_id ` set ?old" using assms(2) by (simp add: disabled_ids)
  then have same: "update_where ?g f ?old = ?old" for f by (intro update_where_none) auto
  have "\<not> ?active m" if "m \<in> set ?old" for m
    by (rule disabled_inactive [OF _ that]) (use assms(1) in \<open>auto simp: active_totp_def filter_empty_conv\<close>)
  then have "filter ?active ?old = []" by (simp only: filter_empty_conv) blast
  then show ?thesis
    using assms(3) by (simp add: activate_method_def begun_methods active_totp_def update_where_append same Let_def
        update_where_Cons split: if_split_asm) auto
qed

text \<open>
  C28. Enrolment works: a user without an active method gets a secret, and whatever code an authenticator
  with that secret shows within ten minutes is accepted; the method is then the user's only active
  one, holds the same secret encrypted, and the recovery codes returned are stored by their hashes.
\<close>

theorem enrolled_authenticator_works:
  assumes "crypto_ok (pl_crypto p)" "length iv = 12" "random \<noteq> []" "id_available db"
    and "getIdentityEncryptionKey (pl_crypto p) (pl_keys p) = Inr (key, version)" "CHR ''.'' \<notin> set version"
    and "active_totp (s_userId session) db = []" "i \<notin> mm_id ` set (id_methods db)"
    and "0 \<le> t" "t \<le> now" "now < t + 600000" "now \<le> 9007199254740991"
    and "distinct (map rc_codeHash (filter (\<lambda>r. rc_userId r \<noteq> s_userId session) (id_recovery db) @
           recoveryRows (pl_crypto p) (s_userId session) batchId codes))"
  shows "\<exists>secret db1 db2 m. beginTotpEnrollment p i random iv session t db = (Inr (i, secret), db1) \<and>
    confirmTotpEnrollment p batchId codes session i (shown_code p random now) now db1 = (Inr (map snd codes), db2) \<and>
    active_totp (s_userId session) db2 = [m] \<and> mm_id m = i \<and>
    decryptTotpSecret (pl_crypto p) (pl_keys p) (the (mm_secretEncrypted m)) = Inr secret \<and>
    filter (\<lambda>r. rc_userId r = s_userId session) (id_recovery db2) = recoveryRows (pl_crypto p) (s_userId session) batchId codes"
proof -
  let ?u = "s_userId session" and ?secret = "base32Encode random"
  have "base32Decode [] = Some []" by code_simp
  with base32_roundtrip [of random] assms(3) have secret: "?secret \<noteq> []" by auto
  obtain encrypted where e: "encryptTotpSecret (pl_crypto p) (pl_keys p) iv ?secret = Inr encrypted" "encrypted \<noteq> []"
    "decryptTotpSecret (pl_crypto p) (pl_keys p) encrypted = Inr ?secret"
    by (rule encrypted_totp [OF assms(1,2) secret assms(5,6)])
  let ?db1 = "begin_commit i ?u encrypted t db"
  have begun: "beginTotpEnrollment p i random iv session t db = (Inr (i, ?secret), ?db1)"
    using e(1) assms(4,7) by (simp add: beginTotpEnrollment_def begin_read_def generateTotpSecret_def)
  let ?new = "\<lparr>mm_id = i, mm_userId = ?u, mm_kind = TOTP, mm_status = MFA_PENDING, mm_secretEncrypted = Some encrypted,
      mm_lastUsedCounter = None, mm_confirmedAt = None, mm_disabledAt = None, mm_createdAt = t\<rparr>"
  let ?old = "disabled_pending ?u t (id_methods db)"
  have olds: "id_methods ?db1 = ?old @ [?new]" "i \<notin> mm_id ` set ?old" using assms(8) by (simp_all add: begun_methods disabled_ids)
  have "List.find (\<lambda>m. mm_id m = i \<and> pending_totp ?u m) (ms @ [?new]) = Some ?new" if "i \<notin> mm_id ` set ms" for ms
    using that by (induction ms) (auto simp: pending_totp_def)
  then have find: "List.find (\<lambda>m. mm_id m = i \<and> pending_totp ?u m) (id_methods ?db1) = Some ?new"
    unfolding olds(1) using olds(2) .
  obtain counter where "verifyTotp (cr_hmac (pl_crypto p)) ?secret (shown_code p random now) now None = Inr (Some counter)"
    using shown_code_accepted [OF base32_roundtrip] assms(9,10,12) by (meson order_trans)
  then have read: "confirm_read p session i (shown_code p random now) now ?db1 = Inr counter"
    using find e(2,3) assms(4,11) by (simp add: confirm_read_def totp_counter_def MFA_ENROLLMENT_TTL_MS_def begin_commit_def)
  let ?g = "\<lambda>m. mm_id m = i \<and> mm_userId m = ?u \<and> mm_status m = MFA_PENDING"
  have "count_where ?g ?old = 0" using olds(2) by (auto simp: count_where_0)
  then have "count_where ?g (id_methods ?db1) = 1" by (simp add: olds(1) count_where_append count_where_Cons)
  then obtain db2 where db2: "activate_method i ?u counter now ?db1 = Some db2" "id_recovery db2 = id_recovery db"
    by (simp add: activate_method_def Let_def begin_commit_def)
  from enrolled_method [OF assms(7,8) db2(1)] obtain m where m: "active_totp ?u db2 = [m]" "mm_id m = i"
    "mm_secretEncrypted m = Some encrypted" by blast
  obtain db3 where db3: "replace_codes ?u (recoveryRows (pl_crypto p) ?u batchId codes) db2 = Some db3"
    "id_methods db3 = id_methods db2"
    "id_recovery db3 = filter (\<lambda>r. rc_userId r \<noteq> ?u) (id_recovery db) @ recoveryRows (pl_crypto p) ?u batchId codes"
    using assms(13) db2(2) by (simp add: replace_codes_def Let_def)
  have "filter (\<lambda>r. rc_userId r = ?u) (id_recovery db3) = recoveryRows (pl_crypto p) ?u batchId codes"
    by (auto simp: db3(3) recoveryRows_def filter_id_conv)
  moreover have "active_totp ?u db3 = [m]" using m(1) by (simp add: active_totp_def db3(2))
  ultimately show ?thesis
    using begun read db2(1) db3(1) m e(3) by (simp add: confirmTotpEnrollment_def confirm_commit_def)
qed

definition anna_browser :: app_session where
  "anna_browser = \<lparr>s_sessionId = Some ''s-1'', s_userId = ''u-1'', s_name = ''Anna'', s_company = ''Acme'', s_companyId = Some ''acme'',
     s_identityProviderId = None, s_email = ''anna@acme.test'', s_role = CLIENT, s_platformRoles = Some [],
     s_organizationRole = Some ''MEMBER'', s_membershipStatus = Some ACTIVE, s_membershipVersion = Some 1,
     s_mfaSatisfied = Some True, s_authenticationAt = Some 100000, s_expiresAt = 9000000\<rparr>"

definition unenrolled_db :: identity_db where
  "unenrolled_db = small_db\<lparr>id_methods := []\<rparr>"

theorem enrolled_authenticator_works_witness:
  "\<exists>secret db1 db2. beginTotpEnrollment small_platform ''f-2'' (replicate 20 1) (replicate 12 0) anna_browser 150000 unenrolled_db =
       (Inr (''f-2'', secret), db1) \<and>
     confirmTotpEnrollment small_platform ''b-1'' [(''r-1'', ''AAAA-BBBB-CCCC'')] anna_browser ''f-2''
       (shown_code small_platform (replicate 20 1) 160000) 160000 db1 = (Inr [''AAAA-BBBB-CCCC''], db2) \<and>
     length (active_totp ''u-1'' db2) = 1"
proof -
  have user: "s_userId anna_browser = ''u-1''" by (simp add: anna_browser_def)
  have db: "id_available unenrolled_db" "id_methods unenrolled_db = []" "id_recovery unenrolled_db = []"
    by (simp_all add: unenrolled_db_def small_db_def)
  have platform: "pl_crypto small_platform = small_crypto" "pl_keys small_platform = small_keys"
    by (simp_all add: small_platform_def)
  have key: "getIdentityEncryptionKey (pl_crypto small_platform) (pl_keys small_platform) =
      Inr (map char_byte ''0123456789abcdef0123456789abcdef'', ''v1'')" unfolding platform by (rule small_key)
  have ok: "crypto_ok (pl_crypto small_platform)" unfolding platform by (rule small_crypto_ok)
  from enrolled_authenticator_works [OF ok _ _ db(1) key, of "replicate 12 0" "replicate 20 1" anna_browser "''f-2''" 150000 160000
      "''b-1''" "[(''r-1'', ''AAAA-BBBB-CCCC'')]"] user db(2,3)
  show ?thesis by (auto simp: active_totp_def recoveryRows_def)
qed

section \<open>Where the code falls short\<close>

text \<open>
  Versions may contain full stops, but the parts of an encrypted secret are separated by them: under
  such a version nothing that was encrypted is ever read back.
\<close>

lemma dotted_version_unreadable:
  assumes "getIdentityEncryptionKey c env = Inr (key, version)" "CHR ''.'' \<in> set version"
    and "\<not> truthy (MFA_ENCRYPTION_PREVIOUS_KEYS env)" "encryptIdentitySecret c env iv plaintext purpose = Inr encrypted"
  shows "\<exists>e. decryptIdentitySecret c env encrypted purpose = Inl e"
proof -
  from assms(2) obtain pre post where version: "version = pre @ CHR ''.'' # post" "CHR ''.'' \<notin> set pre"
    by (meson split_list_first)
  obtain tail where "encrypted = ''v2'' @ CHR ''.'' # pre @ CHR ''.'' # tail"
    using assms(1,4) by (auto simp: encryptIdentitySecret_def version(1) split: prod.split_asm)
  then have parts: "split_on (CHR ''.'') encrypted = ''v2'' # pre # split_on (CHR ''.'') tail"
    using split_on_append [of "CHR ''.''" "''v2''"] split_on_append [OF version(2)] by simp
  have "pre \<noteq> version" by (simp add: version(1))
  then have "key_of_version c env pre = Inl SECRET_KEY_UNAVAILABLE"
    using assms(1,3) by (simp add: key_of_version_def previousKeys_def)
  then show ?thesis by (simp add: decryptIdentitySecret_def parts Let_def)
qed

lemma dotted_version_accepted: "KEY_VERSION_PATTERN ''v1.2''"
  by code_simp

text \<open>
  A reset ends sessions but not the challenges a login with the old password opened: who was asked for
  the second factor before the reset still gets in after it.
\<close>

definition reset_challenged :: identity_db where
  "reset_challenged = recovery_db\<lparr>id_resets := id_resets reset_db\<rparr>"

definition after_reset :: identity_db where
  "after_reset = snd (resetPassword small_crypto (replicate 16 0) ''reset'' ''battery staple'' 150000 reset_challenged)"

lemma challenge_outlives_reset:
  "map ls_revokedAt (id_sessions after_reset) = [] \<and>
   (case fst (authenticateMfaChallenge small_platform ''t-1'' ''abcd-efgh-jklm'' 150001 after_reset) of
      MfaAuthenticated identity recovery returnTo \<Rightarrow> True | _ \<Rightarrow> False)"
  by code_simp

text \<open>A session whose identity was checked before the reset is inserted after it and stays alive.\<close>

lemma session_outlives_reset:
  "session_read small_crypto anna_identity None reset_challenged = Inr None \<and>
   (case session_commit small_crypto ''s-1'' ''ats_1'' anna_identity None None 150001 after_reset of
      (r, db) \<Rightarrow> fst (resolveSessionToken small_crypto ''ats_1'' 150002 db) \<noteq> None)"
  by code_simp

text \<open>
  A login that replaces an outdated hash stores the password it verified before the reset, over the
  new one: the old password works again and the new one does not.
\<close>

lemma login_overwrites_reset:
  "case primary_read small_platform (replicate 16 0) ''anna@acme.test'' ''correct horse'' 150000 reset_challenged of
     Inl r \<Rightarrow> False
   | Inr plan \<Rightarrow>
       map (\<lambda>cd. (fst (verifyPasswordVersioned small_crypto ''correct horse'' (cd_passwordHash cd)),
                  fst (verifyPasswordVersioned small_crypto ''battery staple'' (cd_passwordHash cd))))
         (id_credentials (snd (primary_commit small_platform ''c-9'' ''t-9'' ''anna@acme.test'' plan None 150001 after_reset)))
       = [(True, False)]"
  by code_simp

text \<open>Two enrolments that both began without an active method end with two active ones.\<close>

definition two_enrolments :: "identity_step list" where
  "two_enrolments =
     [BeginEnrollment ''f-2'' ''u-1'' ''v2.v1.iv.tag.AA'' 150000, ConfirmEnrollment ''f-2'' ''u-1'' 5 [] 150001,
      BeginEnrollment ''f-3'' ''u-1'' ''v2.v1.iv.tag.BB'' 150002, ConfirmEnrollment ''f-3'' ''u-1'' 5 [] 150003]"

lemma two_active_methods:
  "active_totp ''u-1'' unenrolled_db = [] \<and>
   map mm_id (active_totp ''u-1'' (st_db (queue_run identity_op two_enrolments \<lparr>st_db = unenrolled_db, st_drawn = []\<rparr>))) =
     [''f-2'', ''f-3'']"
  by code_simp

end
