(* ===== verification/Spec2Isabelle.thy ===== *)
theory Spec2Isabelle
  imports GovernanceProperties TeamProperties LocalQueueProperties RedisQueueProperties PostgresQueue
    DocumentOverlap DocumentWorkerProperties NotificationProperties JiraOverlap IdentityAccounts
begin

text \<open>
  A verification development for the Avantime platform, a customer portal in TypeScript. The code
  modelled is the library of the web application, \<open>src/apps/web/lib\<close> (file names below are relative to
  it), together with the rows of \<open>src/packages/database/prisma/schema.prisma\<close>.

  \<^bold>\<open>The program.\<close> A request carries a session. The session store resolves it to an \<open>AppSession\<close>, the
  permission evaluators decide on it, and handlers read and write PostgreSQL tables through the Prisma
  client. Six groups of handlers are modelled. Governance: controlled actions of the platform need a
  request, the decision of a second person and an execution in time; platform roles, the bootstrap
  of the first owner and support sessions sit beside it. Teams: invitations and roles inside an
  organization. Identity: logins, second factors, sessions and account changes. Documents: uploads go
  to an object storage and a metadata repository, jobs to a queue, and workers process them under
  leases. Notifications: an outbox with leases, retries and dead letters. Jira: support requests of
  the portal are sent to Jira by an outbox, and webhooks of Jira come back as events.

  \<^bold>\<open>How code becomes definitions.\<close> An object type is a record, a union of literals a datatype, a table
  the list of its rows, the database the record of its tables. A handler takes the identifiers,
  tokens, random bytes and instants it draws as arguments and returns its result, an error of a
  datatype of its own or a value, with the changed tables. \<open>updateMany\<close> is \<open>update_where\<close> with the
  count of its rows, a transaction that throws leaves the tables as they were. Where a handler reads in
  one command and writes in another, the two are definitions of their own (\<open>..._read\<close> and
  \<open>..._commit\<close>), and the handler is their composition: runs of the separate steps are the
  interleavings of concurrent requests. Instants are integers of milliseconds, strings are character
  lists, so lengths agree with the code on the basic plane of Unicode only; the accumulators of base32
  and the truncation of a TOTP digest are words of 32 bits, as in JavaScript.

  \<^bold>\<open>Theories.\<close>
  \<^item> \<open>Prelude\<close>: truthiness, trimming, patterns, JSON values, tables and transactions.
  \<^item> \<open>Sessions\<close> (\<open>session.ts\<close>, \<open>governance-approval-policy.ts\<close>): sessions, roles, the step-up test;
    \<open>OrganizationPermissions\<close>, \<open>PlatformPermissions\<close> and \<open>ApprovalPolicy\<close>
    (\<open>organization-permissions.ts\<close>, \<open>platform-permissions.ts\<close>, \<open>governance-approval-policy.ts\<close>): the
    evaluators and the registry of controlled actions with the fingerprint of a payload.
  \<^item> \<open>GovernanceDb\<close>, \<open>GovernanceApprovals\<close>, \<open>ApprovalCeremony\<close> (\<open>governance-approvals.ts\<close>): the ceremony,
    its status automaton and its invariant; \<open>PlatformRoles\<close>, \<open>PlatformBootstrap\<close>, \<open>PlatformSupport\<close>
    (\<open>platform-role-governance.ts\<close>, \<open>platform-owner-bootstrap.ts\<close>, \<open>platform-support.ts\<close>);
    \<open>GovernanceRuns\<close> (all of them as one system), \<open>GovernanceInvariants\<close> (the operator's report of
    \<open>governance-invariants.ts\<close>), \<open>GovernanceProperties\<close>.
  \<^item> \<open>Team\<close>, \<open>TeamProperties\<close> (\<open>team.ts\<close>).
  \<^item> \<open>Totp\<close>, \<open>IdentitySecrets\<close> (\<open>mfa.ts\<close>, \<open>identity-encryption.ts\<close>, \<open>password.ts\<close>), \<open>IdentityDb\<close>
    (\<open>identity-policy.ts\<close>, \<open>safe-return-to.ts\<close> and the tables), \<open>IdentityAuth\<close> (\<open>identity-auth.ts\<close>),
    \<open>IdentitySessions\<close> (\<open>session.ts\<close>), \<open>IdentityManagement\<close> (\<open>identity-management.ts\<close>,
    \<open>password-reset.ts\<close>, \<open>email-verification.ts\<close>); \<open>IdentitySystem\<close> and \<open>IdentityRuns\<close> (every write as a
    step, and what runs keep), \<open>IdentityProperties\<close> and \<open>IdentityAccounts\<close>.
  \<^item> \<open>LeaseQueue\<close>: the contract of a queue of leased jobs with fencing tokens; \<open>LocalQueue\<close>,
    \<open>RedisQueue\<close>, \<open>PostgresQueue\<close> and their properties (\<open>document-processing-queue.ts\<close>,
    \<open>embedding-queue.ts\<close>, \<open>redis-lease-queue.ts\<close> with its Lua scripts).
  \<^item> \<open>DocumentModel\<close>, \<open>DocumentMetadata\<close>, \<open>LocalDocuments\<close>, \<open>PostgresDocuments\<close>, \<open>DocumentLifecycle\<close>,
    \<open>DocumentRoundtrip\<close>, \<open>DocumentOverlap\<close> (\<open>document-model.ts\<close>, \<open>document-processing-state.ts\<close>,
    \<open>document-processing-errors.ts\<close>, \<open>document-retry-policy.ts\<close>, \<open>document-repositories.ts\<close>; the last
    theory has the reads and writes of the file repository apart),
    \<open>DocumentStorage\<close> (\<open>document-storage.ts\<close>), \<open>DocumentWorker\<close> and \<open>DocumentWorkerProperties\<close>
    (\<open>document-processing-worker.ts\<close>, \<open>worker-lease.ts\<close>).
  \<^item> \<open>WorkItems\<close>, \<open>LeasedRows\<close>: the contract of a table of leased work; \<open>NotificationOutbox\<close>,
    \<open>NotificationProperties\<close> (\<open>notification-outbox.ts\<close>).
  \<^item> \<open>JiraPolicy\<close>, \<open>JiraDb\<close>, \<open>JiraOutbox\<close>, \<open>Requests\<close>, \<open>JiraInbound\<close>, \<open>JiraWebhook\<close>
    (\<open>jira-sync-policy.ts\<close>, \<open>jira-mapping.ts\<close>, \<open>jira-outbox.ts\<close>, \<open>requests-store.ts\<close>,
    \<open>jira-inbound.ts\<close>, \<open>jira-webhook.ts\<close>); \<open>JiraMirror\<close>, \<open>JiraEffects\<close>, \<open>JiraSystem\<close> (all of them as one
    system), \<open>JiraProperties\<close>, \<open>JiraIntakeProperties\<close> and \<open>JiraOverlap\<close> (the transaction of an event with
    its reads apart from its write).

  \<^bold>\<open>Contracts.\<close> What several components rely on is a locale, interpreted on the model's definitions:
  \<open>approval_executor\<close> (what the ceremony asks of an executor; the change of the owner role),
  \<open>lease_queue\<close> (file, Redis and PostgreSQL queues), \<open>leased_table\<close> and \<open>leased_rows\<close> (notifications, Jira
  operations, Jira events), \<open>document_repository\<close> (PostgreSQL and file repositories),
  \<open>object_storage\<close> (files and S3), \<open>fenced_services\<close> (the worker over its production and its
  development services) and \<open>single_use\<close> (factors and tokens of identity).

  \<^bold>\<open>What the lemmas show.\<close> For the ceremony: an executed action was requested and approved by two
  people, executes once, executes what was requested, and a proper ceremony completes. For roles: the
  platform keeps an owner, an organization loses its last one only in two situations the theorem
  names and the code does not prevent, delegation is bounded, tenants do not touch each
  other's rows, support sessions stay confined, and the invariant report is green after every run. For
  identity: factors, challenges and tokens are accepted once, guesses are bounded, a session is that of
  its user and ends in time, enrolment works, secrets are read back after a rotation. For queues and
  tables of leased work: leases exclude each other, later claims have later tokens, what a worker
  records belongs to its own claim, attempts are bounded. For documents: status automaton (of the
  file repository while no call writes over a file that changed since it read it), round trips of both
  repositories and storages, termination and fencing of the worker. For Jira: authentic events
  only, each applied once and to its own request, and a portal that mirrors the operations.

  \<^bold>\<open>Parameters.\<close> Code outside the repository is an argument: the hash and HMAC functions and AES-GCM
  (with the laws of \<open>crypto_ok\<close> where a round trip needs them), scrypt and PBKDF2, base64url, NFKC,
  \<open>JSON.parse\<close>, \<open>Date\<close>, \<open>Number\<close> and \<open>URL\<close>; the executor of an approval; the rows a lock of PostgreSQL
  skips; the extraction of a document; the answers of a storage client, of a mail provider and of
  Jira; the list of request categories. Each hypothesis on one of them has a witness with a concrete
  function.

  \<^bold>\<open>Bounds.\<close> No definition has fuel. A run of the document worker ends after at most sixteen of its own
  steps, a bound its measure \<open>steps_left\<close> proves. Jira operations and events take at most twenty
  attempts, with a delay that doubles up to five minutes. A login challenge lives five minutes and bears
  five failures, a session eight hours and half an hour of silence, a reset or verification token half
  an hour, an enrolment ten minutes; these are the constants of the code.

  \<^bold>\<open>What is not modelled.\<close> Routes, pages and components, which parse requests and call the handlers; the
  demo data and sessions in memory that are used without a database; OpenID Connect, retrieval,
  embeddings and the gateway to language models, which are protocols over outside services; the
  content analysis of documents; rate limits, mails and the logs of security events; environment
  parsing, staging probes and operator scripts. Isolation is that of single commands and of
  transactions with the guards the code writes: serialization failures of the database appear only
  as errors. The system of \<open>JiraSystem\<close> takes each transaction as one step, those that read a row and
  then update it by its identifier only included (\<open>operator_transaction\<close>); for inbound events
  \<open>JiraOverlap\<close> drops this. An object used as a table has its inherited properties in JavaScript: a Jira
  status called \<open>constructor\<close>, which makes \<open>resolveJiraStatus\<close> return a function and the update of the
  request fail, is an unknown status here.
\<close>

end
